(* ===== verification/Go_Prelude.thy ===== *)
theory Go_Prelude
  imports
    Complex_Main
    "HOL-Library.AList"
    "HOL-Library.Char_ord"
    "HOL-Library.List_Lexorder"
    "HOL-Library.Multiset"
    "HOL-Library.Product_Lexorder"
    "HOL-Library.Sublist"
    "HOL-Library.Word"
begin

text \<open>
  Shared vocabulary of the development: the parts of Go's language and standard library
  that the modelled packages use, and the generic lemmas about them.

  \<^item> A Go string is a byte string, here \<^typ>\<open>string\<close> (a list of 8-bit characters).
    \<open>trim_space\<close>, \<open>to_lower\<close> and \<open>equal_fold\<close> are \<open>strings.TrimSpace\<close>, \<open>strings.ToLower\<close> and
    \<open>strings.EqualFold\<close> on ASCII; bytes outside ASCII are left as they are.
  \<^item> A Go map is an association list \<open>('k, 'v) gomap\<close>: a lookup returns the first entry,
    an assignment overwrites in place or appends, \<open>delete\<close> removes; ranging over the map is
    ranging over the list, whose order stands for Go's unspecified iteration order.
  \<^item> A \<open>time.Time\<close> is the number of nanoseconds since Go's zero time (1 January of year 1),
    so that \<open>IsZero\<close> is equality with 0; a \<open>time.Duration\<close> is a number of nanoseconds, and
    \<open>Sub\<close> saturates at the bounds of an \<open>int64\<close> as \<open>time.Time.Sub\<close> does.
  \<^item> \<open>sort.SliceStable\<close> is insertion sort with the source's \<open>less\<close>; for a strict weak order
    a stable sort has one possible result, which the locale \<open>strict_weak_order\<close> characterises.
\<close>

named_theorems go_time \<open>definitions of the time units and of arithmetic on times\<close>

section \<open>Strings\<close>

definition is_space :: "char \<Rightarrow> bool" where
  "is_space c = (let n = (of_char c :: nat) in n = 32 \<or> (9 \<le> n \<and> n \<le> 13))"

definition trim_space :: "string \<Rightarrow> string" where
  "trim_space s = rev (dropWhile is_space (rev (dropWhile is_space s)))"

definition lower_char :: "char \<Rightarrow> char" where
  "lower_char c = (let n = (of_char c :: nat) in if 65 \<le> n \<and> n \<le> 90 then char_of (n + 32) else c)"

definition upper_char :: "char \<Rightarrow> char" where
  "upper_char c = (let n = (of_char c :: nat) in if 97 \<le> n \<and> n \<le> 122 then char_of (n - 32) else c)"

definition to_lower :: "string \<Rightarrow> string" where
  "to_lower s = map lower_char s"

definition to_upper :: "string \<Rightarrow> string" where
  "to_upper s = map upper_char s"

definition equal_fold :: "string \<Rightarrow> string \<Rightarrow> bool" where
  "equal_fold a b = (to_lower a = to_lower b)"

definition has_prefix :: "string \<Rightarrow> string \<Rightarrow> bool" where
  "has_prefix s p = (take (length p) s = p)"

definition has_suffix :: "string \<Rightarrow> string \<Rightarrow> bool" where
  "has_suffix s p = (length p \<le> length s \<and> drop (length s - length p) s = p)"

text \<open>\<open>strings.Index\<close>: the first position of the pattern, \<open>None\<close> for \<open>-1\<close>.\<close>

fun str_index :: "string \<Rightarrow> string \<Rightarrow> nat option" where
  "str_index [] pat = (if pat = [] then Some 0 else None)"
| "str_index (c # s) pat =
     (if has_prefix (c # s) pat then Some 0 else map_option Suc (str_index s pat))"

definition contains :: "string \<Rightarrow> string \<Rightarrow> bool" where
  "contains s pat = (str_index s pat \<noteq> None)"

text \<open>Decimal notation, as \<open>%d\<close> and \<open>strconv.FormatInt\<close> print it.\<close>

fun show_nat :: "nat \<Rightarrow> string" where
  "show_nat n = (if n < 10 then [char_of (48 + n)] else show_nat (n div 10) @ [char_of (48 + n mod 10)])"

declare show_nat.simps [simp del]

definition show_int :: "int \<Rightarrow> string" where
  "show_int i = (if i < 0 then CHR ''-'' # show_nat (nat (- i)) else show_nat (nat i))"

lemma lower_char_idem [simp]: "lower_char (lower_char c) = lower_char c"
  by (auto simp: lower_char_def Let_def)

lemma to_lower_idem [simp]: "to_lower (to_lower s) = to_lower s"
  by (simp add: to_lower_def)

lemma is_space_lower [simp]: "is_space (lower_char c) = is_space c"
  by (auto simp: is_space_def lower_char_def Let_def)

lemma dropWhile_map_lower:
  "dropWhile is_space (map lower_char s) = map lower_char (dropWhile is_space s)"
  by (induction s) auto

lemma trim_space_to_lower: "trim_space (to_lower s) = to_lower (trim_space s)"
  by (simp add: trim_space_def to_lower_def dropWhile_map_lower rev_map)

lemma dropWhile_idem: "dropWhile P (dropWhile P s) = dropWhile P s"
  by (induction s) auto

lemma dropWhile_rev_dropWhile:
  "dropWhile P (rev (dropWhile P (rev (dropWhile P s)))) = rev (dropWhile P (rev (dropWhile P s)))"
proof (cases "rev (dropWhile P (rev (dropWhile P s)))")
  case Nil
  then show ?thesis by (simp only: dropWhile.simps)
next
  case (Cons c r)
  have "suffix (dropWhile P (rev (dropWhile P s))) (rev (dropWhile P s))"
    by (rule suffix_dropWhile)
  then have "prefix (rev (dropWhile P (rev (dropWhile P s)))) (dropWhile P s)"
    by (simp add: suffix_to_prefix)
  with Cons obtain r' where r': "dropWhile P s = c # r'"
    by (auto simp: prefix_def)
  then have "\<not> P c"
    by (metis hd_dropWhile list.distinct(1) list.sel(1))
  with Cons show ?thesis by simp
qed

lemma trim_space_idem [simp]: "trim_space (trim_space s) = trim_space s"
  by (simp add: trim_space_def dropWhile_rev_dropWhile dropWhile_idem)

lemma has_prefix_prefix: "has_prefix s p = prefix p s"
  unfolding has_prefix_def by (metis append_take_drop_id prefixI prefix_def append_eq_conv_conj)

lemma has_suffix_suffix: "has_suffix s p = suffix p s"
proof
  assume "has_suffix s p"
  then show "suffix p s"
    unfolding has_suffix_def by (metis suffix_drop)
next
  assume "suffix p s"
  then show "has_suffix s p"
    unfolding has_suffix_def suffix_def by auto
qed

text \<open>What \<open>strings.Index\<close> returns: a position where the pattern stands, and the first one.\<close>

lemma str_index_Some:
  "str_index s p = Some i \<Longrightarrow> i + length p \<le> length s \<and> s = take i s @ p @ drop (i + length p) s"
proof (induction s arbitrary: i)
  case Nil
  then show ?case by (simp split: if_splits)
next
  case (Cons c s)
  show ?case
  proof (cases "has_prefix (c # s) p")
    case True
    with Cons.prems have i: "i = 0" by simp
    from True obtain r where "c # s = p @ r"
      by (auto simp: has_prefix_prefix prefix_def)
    with i show ?thesis by (auto simp: \<open>c # s = p @ r\<close>)
  next
    case False
    with Cons.prems obtain j where j: "str_index s p = Some j" "i = Suc j" by auto
    from Cons.IH [OF j(1)] j(2) show ?thesis by simp
  qed
qed

lemma str_index_first:
  "str_index s p = Some i \<Longrightarrow> j < i \<Longrightarrow> \<not> prefix p (drop j s)"
proof (induction s arbitrary: i j)
  case Nil
  then show ?case by (simp split: if_splits)
next
  case (Cons c s)
  then show ?case
    by (cases j) (auto simp: has_prefix_prefix split: if_splits)
qed

lemma str_index_None: "str_index s p = None \<longleftrightarrow> (\<forall>j. \<not> prefix p (drop j s))"
proof (induction s)
  case Nil
  then show ?case by simp
next
  case (Cons c s)
  have "(\<forall>j. \<not> prefix p (drop j (c # s))) \<longleftrightarrow> \<not> prefix p (c # s) \<and> (\<forall>j. \<not> prefix p (drop j s))"
    by (metis drop0 drop_Suc_Cons old.nat.exhaust)
  with Cons.IH show ?case by (simp add: has_prefix_prefix)
qed

lemma contains_sublist: "contains s p = sublist p s"
proof -
  have "prefix p (drop j s) \<Longrightarrow> sublist p s" for j
    by (metis prefix_imp_sublist suffix_drop suffix_imp_sublist sublist_order.order.trans)
  moreover have "sublist p s \<Longrightarrow> \<exists>j. prefix p (drop j s)"
  proof -
    assume "sublist p s"
    then obtain as bs where "s = as @ p @ bs" by (auto simp: sublist_def)
    then have "prefix p (drop (length as) s)" by simp
    then show ?thesis ..
  qed
  ultimately show ?thesis by (auto simp: contains_def str_index_None)
qed

section \<open>Maps\<close>

type_synonym ('k, 'v) gomap = "('k \<times> 'v) list"

abbreviation gm_get :: "('k, 'v) gomap \<Rightarrow> 'k \<Rightarrow> 'v option" where
  "gm_get m k \<equiv> map_of m k"

abbreviation gm_put :: "'k \<Rightarrow> 'v \<Rightarrow> ('k, 'v) gomap \<Rightarrow> ('k, 'v) gomap" where
  "gm_put k v m \<equiv> AList.update k v m"

abbreviation gm_del :: "'k \<Rightarrow> ('k, 'v) gomap \<Rightarrow> ('k, 'v) gomap" where
  "gm_del k m \<equiv> AList.delete k m"

text \<open>Reading an absent key of a Go map gives the zero value of the element type.\<close>

definition gm_zero :: "'v \<Rightarrow> ('k, 'v) gomap \<Rightarrow> 'k \<Rightarrow> 'v" where
  "gm_zero z m k = (case gm_get m k of None \<Rightarrow> z | Some v \<Rightarrow> v)"

abbreviation gm_wf :: "('k, 'v) gomap \<Rightarrow> bool" where
  "gm_wf m \<equiv> distinct (map fst m)"

lemma gm_get_put: "gm_get (gm_put k v m) k' = (if k' = k then Some v else gm_get m k')"
  by (simp add: update_conv')

lemma gm_get_del: "gm_get (gm_del k m) k' = (if k' = k then None else gm_get m k')"
  by (simp add: delete_conv')

lemma gm_zero_put [simp]: "gm_zero z (gm_put k v m) k' = (if k' = k then v else gm_zero z m k')"
  by (simp add: gm_zero_def gm_get_put)

lemma gm_zero_del [simp]: "gm_zero z (gm_del k m) k' = (if k' = k then z else gm_zero z m k')"
  by (simp add: gm_zero_def gm_get_del)

lemma gm_zero_nil [simp]: "gm_zero z [] k = z"
  by (simp add: gm_zero_def)

lemma gm_get_filter:
  "gm_wf m \<Longrightarrow> gm_get (filter P m) k =
     (case gm_get m k of None \<Rightarrow> None | Some v \<Rightarrow> if P (k, v) then Some v else None)"
  by (induction m) (auto split: option.splits dest: map_of_SomeD simp: map_of_eq_None_iff image_iff)

lemma gm_wf_filter: "gm_wf m \<Longrightarrow> gm_wf (filter P m)"
  by (induction m) auto

lemma gm_wf_put [simp]: "gm_wf (gm_put k v m) = gm_wf m"
proof (induction m)
  case (Cons p m)
  have "fst ` set (AList.update k v m) = insert k (fst ` set m)"
    by (metis (no_types) dom_map_of_conv_image_fst dom_fun_upd option.distinct(1) update_conv')
  with Cons show ?case by (cases p) auto
qed simp

lemma gm_wf_del: "gm_wf m \<Longrightarrow> gm_wf (gm_del k m)"
  by (simp add: distinct_delete)

lemma set_gm_put: "e \<in> set (gm_put k v m) \<Longrightarrow> e = (k, v) \<or> e \<in> set m"
  by (induction m) (auto split: if_splits)

lemma gm_keys_put: "fst ` set (gm_put k v m) = insert k (fst ` set m)"
  by (metis dom_map_of_conv_image_fst dom_fun_upd option.distinct(1) update_conv')

lemma length_gm_put_le: "length (gm_put k v m) \<le> Suc (length m)"
  by (induction m) auto

lemma length_gm_put_mem: "k \<in> fst ` set m \<Longrightarrow> length (gm_put k v m) = length m"
  by (induction m) auto

lemma length_gm_del_mem: "k \<in> fst ` set m \<Longrightarrow> length (gm_del k m) < length m"
  by (induction m) (auto simp: less_Suc_eq_le length_delete_le Suc_le_eq image_iff)

lemma gm_get_mem: "gm_get m k = Some v \<Longrightarrow> k \<in> fst ` set m"
  by (force dest: map_of_SomeD)

lemma set_gm_del: "set (gm_del k m) \<subseteq> set m"
  by (auto simp: AList.delete_eq)

lemma permuted_get: "mset ns = mset ks \<Longrightarrow> distinct (map fst ks) \<Longrightarrow> gm_get ns k = gm_get ks k"
proof -
  assume a: "mset ns = mset ks" "distinct (map fst ks)"
  have "distinct (map fst ns)" using a by (metis mset_eq_imp_distinct_iff mset_map)
  moreover have "set ns = set ks" using a(1) by (metis set_mset_mset)
  ultimately have "map_of ns = map_of ks" using a(2) map_of_inject_set by blast
  then show ?thesis by simp
qed

section \<open>Times and durations\<close>

type_synonym gotime = int
type_synonym duration = int

definition millisecond :: duration where [go_time]: "millisecond = 1000000"
definition second :: duration where [go_time]: "second = 1000000000"
definition minute :: duration where [go_time]: "minute = 60 * second"
definition hour :: duration where [go_time]: "hour = 60 * minute"

definition zero_time :: gotime where [go_time]: "zero_time = 0"

abbreviation is_zero :: "gotime \<Rightarrow> bool" where
  "is_zero t \<equiv> t = zero_time"

definition unix_epoch_seconds :: int where [go_time]: "unix_epoch_seconds = 62135596800"

text \<open>\<open>t.Unix()\<close> and \<open>time.Unix(s, 0)\<close>.\<close>

definition unix_of :: "gotime \<Rightarrow> int" where
  "unix_of t = t div second - unix_epoch_seconds"

definition time_unix :: "int \<Rightarrow> gotime" where
  "time_unix s = (s + unix_epoch_seconds) * second"

definition time_sub :: "gotime \<Rightarrow> gotime \<Rightarrow> duration" where
  "time_sub a b = max (- (2 ^ 63)) (min (2 ^ 63 - 1) (a - b))"

text \<open>\<open>d.Round(m)\<close>: to the nearest multiple of \<open>m\<close>, halves away from zero.\<close>

definition dur_round :: "duration \<Rightarrow> duration \<Rightarrow> duration" where
  "dur_round d m =
     (let r = \<bar>d\<bar> mod m; e = (if 2 * r < m then \<bar>d\<bar> - r else \<bar>d\<bar> + m - r)
      in if d < 0 then - e else e)"

text \<open>\<open>maxDuration\<close> of \<open>pool/protection.go\<close>.\<close>

definition maxDuration :: "duration \<Rightarrow> duration \<Rightarrow> duration" where
  "maxDuration a b = (if b > a then b else a)"

lemma unix_of_time_unix [simp]: "unix_of (time_unix s) = s"
  by (simp add: unix_of_def time_unix_def go_time)

lemma time_unix_unix_of_le: "time_unix (unix_of t) \<le> t"
  by (simp add: unix_of_def time_unix_def go_time)

lemma time_unix_unix_of_gt: "t < time_unix (unix_of t) + second"
  by (simp add: unix_of_def time_unix_def go_time)

lemma time_sub_le_iff: "k < 2 ^ 63 - 1 \<Longrightarrow> - (2 ^ 63) \<le> k \<Longrightarrow> time_sub a b \<le> k \<longleftrightarrow> a - b \<le> k"
  by (auto simp: time_sub_def)

lemma time_sub_pos: "b < a \<Longrightarrow> 0 < time_sub a b"
  by (auto simp: time_sub_def)

section \<open>Stable sorting\<close>

fun insert_stable :: "('a \<Rightarrow> 'a \<Rightarrow> bool) \<Rightarrow> 'a \<Rightarrow> 'a list \<Rightarrow> 'a list" where
  "insert_stable lt x [] = [x]"
| "insert_stable lt x (y # ys) =
     (if lt y x then y # insert_stable lt x ys else x # y # ys)"

definition sort_stable :: "('a \<Rightarrow> 'a \<Rightarrow> bool) \<Rightarrow> 'a list \<Rightarrow> 'a list" where
  "sort_stable lt xs = foldr (insert_stable lt) xs []"

lemma mset_insert_stable [simp]: "mset (insert_stable lt x ys) = add_mset x (mset ys)"
  by (induction ys) auto

lemma mset_sort_stable [simp]: "mset (sort_stable lt xs) = mset xs"
  unfolding sort_stable_def by (induction xs) auto

lemma set_sort_stable [simp]: "set (sort_stable lt xs) = set xs"
  by (metis mset_sort_stable set_mset_mset)

lemma length_sort_stable [simp]: "length (sort_stable lt xs) = length xs"
  by (metis mset_sort_stable size_mset)

lemma sort_stable_Nil [simp]: "sort_stable lt xs = [] \<longleftrightarrow> xs = []"
  by (metis length_sort_stable length_0_conv)

lemma distinct_sort_stable [simp]: "distinct (sort_stable lt xs) = distinct xs"
  by (metis mset_sort_stable mset_eq_imp_distinct_iff)

locale strict_weak_order =
  fixes lt :: "'a \<Rightarrow> 'a \<Rightarrow> bool"
  assumes asym: "lt x y \<Longrightarrow> \<not> lt y x"
    and neg_trans: "lt x z \<Longrightarrow> lt x y \<or> lt y z"
begin

lemma not_less_trans: "\<not> lt y x \<Longrightarrow> \<not> lt z y \<Longrightarrow> \<not> lt z x"
  using neg_trans by blast

lemma sorted_insert_stable:
  "sorted_wrt (\<lambda>x y. \<not> lt y x) ys \<Longrightarrow> sorted_wrt (\<lambda>x y. \<not> lt y x) (insert_stable lt x ys)"
proof (induction ys)
  case (Cons y ys)
  have set: "set (insert_stable lt x ys) = insert x (set ys)"
    by (metis mset_insert_stable set_mset_add_mset_insert set_mset_mset)
  from Cons show ?case by (auto simp: set dest: asym not_less_trans)
qed simp

lemma sorted_sort_stable: "sorted_wrt (\<lambda>x y. \<not> lt y x) (sort_stable lt xs)"
  unfolding sort_stable_def by (induction xs) (auto intro: sorted_insert_stable)

text \<open>Elements the comparison does not separate keep their order.\<close>

lemma stable_insert_stable:
  assumes "sorted_wrt (\<lambda>x y. \<not> lt y x) ys"
  shows "filter (\<lambda>y. \<not> lt y z \<and> \<not> lt z y) (insert_stable lt x ys) =
    filter (\<lambda>y. \<not> lt y z \<and> \<not> lt z y) (x # ys)"
  using assms
proof (induction ys)
  case (Cons y ys)
  then show ?case using neg_trans by auto
qed simp

lemma stable_sort_stable:
  "filter (\<lambda>y. \<not> lt y z \<and> \<not> lt z y) (sort_stable lt xs) =
    filter (\<lambda>y. \<not> lt y z \<and> \<not> lt z y) xs"
proof (induction xs)
  case (Cons x xs)
  have "sort_stable lt (x # xs) = insert_stable lt x (sort_stable lt xs)"
    by (simp add: sort_stable_def)
  with Cons sorted_sort_stable show ?case by (simp add: stable_insert_stable)
qed (simp add: sort_stable_def)

lemma hd_sort_stable_minimal:
  assumes "xs \<noteq> []" "y \<in> set xs"
  shows "\<not> lt y (hd (sort_stable lt xs))"
proof (cases "sort_stable lt xs")
  case Nil
  with assms show ?thesis by simp
next
  case (Cons z zs)
  have "y \<in> set (z # zs)" using assms Cons by (metis set_sort_stable)
  moreover have "sorted_wrt (\<lambda>x y. \<not> lt y x) (z # zs)" using Cons sorted_sort_stable [of xs] by simp
  ultimately show ?thesis using Cons asym by auto
qed

end

text \<open>
  The comparisons of the program compare a chain of fields; such a chain is the
  lexicographic order of a key, which makes it a strict weak order.
\<close>

locale key_order =
  fixes lt :: "'a \<Rightarrow> 'a \<Rightarrow> bool" and key :: "'a \<Rightarrow> 'k :: linorder"
  assumes lt_key: "lt x y \<longleftrightarrow> key x < key y"

sublocale key_order \<subseteq> strict_weak_order lt
  by unfold_locales (auto simp: lt_key)

section \<open>Scanning a table for its oldest entry\<close>

text \<open>
  The eviction loop that \<open>rememberRouteAffinityLocked\<close> (\<open>pool/protection.go\<close>) and
  \<open>evictOldestLocked\<close> (\<open>internal/clientcache/cache.go\<close>) share: the state of the loop is the
  candidate key and its time, and the empty key stands for "no candidate yet".
\<close>

fun oldest_scan :: "('v \<Rightarrow> gotime) \<Rightarrow> string \<Rightarrow> gotime \<Rightarrow> (string, 'v) gomap \<Rightarrow> string" where
  "oldest_scan seen oldestKey oldest [] = oldestKey"
| "oldest_scan seen oldestKey oldest ((key, entry) # rest) =
     (if oldestKey = '''' \<or> seen entry < oldest
      then oldest_scan seen key (seen entry) rest
      else oldest_scan seen oldestKey oldest rest)"

lemma oldest_scan_mem:
  "oldest_scan seen k t m = k \<or> oldest_scan seen k t m \<in> fst ` set m"
  by (induction seen k t m rule: oldest_scan.induct) (auto split: if_splits)

lemma oldest_scan_nonempty:
  "'''' \<notin> fst ` set m \<Longrightarrow> k \<noteq> '''' \<or> m \<noteq> [] \<Longrightarrow> oldest_scan seen k t m \<noteq> ''''"
  by (induction seen k t m rule: oldest_scan.induct) auto

lemma oldest_scan_minimal_aux:
  assumes "'''' \<notin> fst ` set m" and "k \<noteq> ''''" and "k \<notin> fst ` set m" and "gm_wf m"
  shows "(oldest_scan seen k t m = k \<and> (\<forall>v \<in> snd ` set m. t \<le> seen v)) \<or>
    (\<exists>v. gm_get m (oldest_scan seen k t m) = Some v \<and> seen v < t \<and> (\<forall>w \<in> snd ` set m. seen v \<le> seen w))"
  using assms
proof (induction seen k t m rule: oldest_scan.induct)
  case (1 seen k t)
  then show ?case by simp
next
  case (2 seen k t key entry rest)
  show ?case
  proof (cases "seen entry < t")
    case True
    with 2 have "(oldest_scan seen key (seen entry) rest = key \<and> (\<forall>v \<in> snd ` set rest. seen entry \<le> seen v)) \<or>
      (\<exists>v. gm_get rest (oldest_scan seen key (seen entry) rest) = Some v \<and> seen v < seen entry \<and>
        (\<forall>w \<in> snd ` set rest. seen v \<le> seen w))" by auto
    then show ?thesis
    proof (elim disjE exE conjE)
      assume "oldest_scan seen key (seen entry) rest = key" "\<forall>v\<in>snd ` set rest. seen entry \<le> seen v"
      with True show ?thesis by auto
    next
      fix v assume v: "gm_get rest (oldest_scan seen key (seen entry) rest) = Some v" "seen v < seen entry"
        "\<forall>w\<in>snd ` set rest. seen v \<le> seen w"
      have "oldest_scan seen key (seen entry) rest \<noteq> key"
        using v(1) 2(6) by (auto dest!: map_of_SomeD simp: image_iff)
      with v True show ?thesis by fastforce
    qed
  next
    case False
    with 2 have "(oldest_scan seen k t rest = k \<and> (\<forall>v \<in> snd ` set rest. t \<le> seen v)) \<or>
      (\<exists>v. gm_get rest (oldest_scan seen k t rest) = Some v \<and> seen v < t \<and>
        (\<forall>w \<in> snd ` set rest. seen v \<le> seen w))" by auto
    then show ?thesis
    proof (elim disjE exE conjE)
      assume "oldest_scan seen k t rest = k" "\<forall>v\<in>snd ` set rest. t \<le> seen v"
      with False 2(4) show ?thesis by auto
    next
      fix v assume v: "gm_get rest (oldest_scan seen k t rest) = Some v" "seen v < t"
        "\<forall>w\<in>snd ` set rest. seen v \<le> seen w"
      have "oldest_scan seen k t rest \<noteq> key"
        using v(1) 2(6) by (auto dest!: map_of_SomeD simp: image_iff)
      with v False 2(4) show ?thesis by auto
    qed
  qed
qed

lemma oldest_scan_minimal:
  assumes "'''' \<notin> fst ` set m" and "gm_wf m" and "m \<noteq> []"
  obtains v where "gm_get m (oldest_scan seen '''' t m) = Some v" "\<forall>w \<in> snd ` set m. seen v \<le> seen w"
proof -
  from assms(3) obtain key entry rest where m: "m = (key, entry) # rest"
    by (metis list.exhaust surj_pair)
  with assms have pre: "'''' \<notin> fst ` set rest" "key \<noteq> ''''" "key \<notin> fst ` set rest" "gm_wf rest"
    by auto
  from oldest_scan_minimal_aux [OF pre, of seen "seen entry"] show ?thesis
  proof (elim disjE exE conjE)
    assume "oldest_scan seen key (seen entry) rest = key" "\<forall>v\<in>snd ` set rest. seen entry \<le> seen v"
    with m show ?thesis by (intro that [of entry]) auto
  next
    fix v assume v: "gm_get rest (oldest_scan seen key (seen entry) rest) = Some v" "seen v < seen entry"
      "\<forall>w\<in>snd ` set rest. seen v \<le> seen w"
    have "oldest_scan seen key (seen entry) rest \<noteq> key"
      using v(1) pre(3) by (auto dest!: map_of_SomeD simp: image_iff)
    with v m show ?thesis by (intro that [of v]) auto
  qed
qed

end
