(* ===== verification/Accounts.thy ===== *)
theory Accounts
  imports Go_Prelude
begin

text \<open>
  The account record of \<open>config/config.go\<close> (the fields that the pool, the failover and the
  inventory read or write), the part of the configuration the pool consults, and the
  predicates of \<open>pool/account.go\<close> that depend on one account only: quota, weight, and the
  freshness of its credentials.

  A \<open>float64\<close> is a rational number here; every sum the code stores goes through \<open>rnd\<close>, the
  rounding of the hardware, a parameter of the operations that add floats.
\<close>

type_synonym float64 = rat

record Account =
  acc_ID :: string
  acc_Email :: string
  acc_UserId :: string
  acc_AccessToken :: string
  acc_RefreshToken :: string
  acc_KiroApiKey :: string
  acc_CredentialFingerprint :: string
  acc_AuthMethod :: string
  acc_Provider :: string
  acc_Region :: string
  acc_ExpiresAt :: int
  acc_ProfileArn :: string
  acc_ProxyURL :: string
  acc_Weight :: int
  acc_Priority :: int
  acc_MaxConcurrency :: int
  acc_OverageStatus :: string
  acc_Enabled :: bool
  acc_BanStatus :: string
  acc_BanReason :: string
  acc_BanTime :: int
  acc_UsageCurrent :: float64
  acc_UsageLimit :: float64
  acc_RequestCount :: int
  acc_ErrorCount :: int
  acc_TotalTokens :: int
  acc_TotalCredits :: float64
  acc_LastUsed :: int

record UpstreamProtectionConfig =
  up_Enabled :: bool
  up_MaxPerAccountConcurrency :: int
  up_MaxPerAccountModelConcurrency :: int
  up_ConcurrencyMode :: string
  up_SoftMaxPerAccountConcurrency :: int
  up_SoftMaxPerAccountModelConcurrency :: int
  up_QueueCapacity :: int
  up_PerModelConcurrency :: "(string, int) gomap"
  up_PerProfileModelConcurrency :: "(string, (string, int) gomap) gomap"
  up_RateLimitCooldownMs :: int
  up_MaxRateLimitCooldownMs :: int
  up_RouteAffinityTTLSeconds :: int
  up_RouteAffinityMaxEntries :: int

text \<open>What the pool reads of the process-wide configuration through the getters of package \<open>config\<close>.\<close>

record Config =
  cfg_Accounts :: "Account list"
  cfg_Generation :: "64 word"
  cfg_AllowOverUsage :: bool
  cfg_LoadBalancingMode :: string
  cfg_TokenRefreshBeforeSeconds :: int
  cfg_NegativeCacheTTLSeconds :: int
  cfg_UpstreamProtection :: UpstreamProtectionConfig

section \<open>Configuration accessors the pool calls\<close>

definition GetEnabledAccounts :: "Config \<Rightarrow> Account list" where
  "GetEnabledAccounts cfg = filter acc_Enabled (cfg_Accounts cfg)"

text \<open>
  \<open>SetAccountBanStatus\<close>: only the first account with the id is changed; a ban or a disable
  also clears \<open>Enabled\<close>. Whether writing the file succeeds does not change the account list.
\<close>

fun setBanStatus :: "string \<Rightarrow> string \<Rightarrow> string \<Rightarrow> gotime \<Rightarrow> Account list \<Rightarrow> Account list" where
  "setBanStatus aid status reason now [] = []"
| "setBanStatus aid status reason now (a # as) =
     (if acc_ID a = aid
      then a\<lparr>acc_BanStatus := status, acc_BanReason := reason, acc_BanTime := unix_of now,
             acc_Enabled := (if status = ''BANNED'' \<or> status = ''DISABLED'' then False else acc_Enabled a)\<rparr> # as
      else a # setBanStatus aid status reason now as)"

definition SetAccountBanStatus :: "string \<Rightarrow> string \<Rightarrow> string \<Rightarrow> gotime \<Rightarrow> Config \<Rightarrow> Config" where
  "SetAccountBanStatus aid status reason now cfg =
     cfg\<lparr>cfg_Accounts := setBanStatus aid status reason now (cfg_Accounts cfg)\<rparr>"

record AccountStatsSnapshot =
  st_RequestCount :: int
  st_ErrorCount :: int
  st_TotalTokens :: int
  st_TotalCredits :: float64
  st_LastUsed :: int

definition applyStats :: "AccountStatsSnapshot \<Rightarrow> Account \<Rightarrow> Account" where
  "applyStats stats a = a\<lparr>acc_RequestCount := st_RequestCount stats, acc_ErrorCount := st_ErrorCount stats,
     acc_TotalTokens := st_TotalTokens stats, acc_TotalCredits := st_TotalCredits stats,
     acc_LastUsed := st_LastUsed stats\<rparr>"

text \<open>
  \<open>UpdateAccountStatsBatch\<close>: nothing to do, or a batch of another configuration generation,
  is a success without a change; otherwise every account with an update takes the counters and
  the configuration is written (\<open>saved\<close> says whether that worked). The second component is
  \<open>True\<close> for a \<open>nil\<close> error.
\<close>

definition UpdateAccountStatsBatch ::
    "bool \<Rightarrow> 64 word \<Rightarrow> (string, AccountStatsSnapshot) gomap \<Rightarrow> Config \<Rightarrow> Config \<times> bool" where
  "UpdateAccountStatsBatch saved expectedGeneration updates cfg =
     (if updates = [] then (cfg, True)
      else if expectedGeneration \<noteq> cfg_Generation cfg then (cfg, True)
      else
        let changed = (\<exists>a \<in> set (cfg_Accounts cfg). gm_get updates (acc_ID a) \<noteq> None);
            accounts = map (\<lambda>a. case gm_get updates (acc_ID a) of None \<Rightarrow> a | Some stats \<Rightarrow> applyStats stats a)
                         (cfg_Accounts cfg)
        in if \<not> changed then (cfg, True) else (cfg\<lparr>cfg_Accounts := accounts\<rparr>, saved))"

section \<open>Predicates on one account\<close>

definition tokenRefreshSkewSeconds :: int where "tokenRefreshSkewSeconds = 120"
definition maxAccountWeight :: int where "maxAccountWeight = 100"

definition isOverUsageLimit :: "Account \<Rightarrow> bool" where
  "isOverUsageLimit acc = (acc_UsageLimit acc > 0 \<and> acc_UsageCurrent acc \<ge> acc_UsageLimit acc)"

definition isUpstreamOverageEnabled :: "Account \<Rightarrow> bool" where
  "isUpstreamOverageEnabled acc = equal_fold (acc_OverageStatus acc) ''ENABLED''"

definition isQuotaBlocked :: "Account \<Rightarrow> bool \<Rightarrow> bool" where
  "isQuotaBlocked acc allowOverUsage =
     (isOverUsageLimit acc \<and> \<not> isUpstreamOverageEnabled acc \<and> \<not> allowOverUsage)"

definition effectiveWeight :: "int \<Rightarrow> int" where
  "effectiveWeight weight =
     (if weight < 1 then 1 else if weight > maxAccountWeight then maxAccountWeight else weight)"

definition tokenRefreshSafetyWindowSeconds :: "Config \<Rightarrow> int" where
  "tokenRefreshSafetyWindowSeconds cfg =
     (let configured = cfg_TokenRefreshBeforeSeconds cfg
      in if configured > 0 then configured else tokenRefreshSkewSeconds)"

definition tokenRefreshSafetyWindowSecondsForAccount :: "Config \<Rightarrow> Account \<Rightarrow> int" where
  "tokenRefreshSafetyWindowSecondsForAccount cfg acc =
     (if trim_space (acc_RefreshToken acc) = '''' then tokenRefreshSkewSeconds
      else tokenRefreshSafetyWindowSeconds cfg)"

definition accountTokenNeedsRefresh :: "Config \<Rightarrow> Account \<Rightarrow> gotime \<Rightarrow> bool" where
  "accountTokenNeedsRefresh cfg acc now =
     (if trim_space (acc_RefreshToken acc) \<noteq> '''' \<and> trim_space (acc_AccessToken acc) = '''' then True
      else acc_ExpiresAt acc > 0 \<and>
        unix_of now \<ge> acc_ExpiresAt acc - tokenRefreshSafetyWindowSecondsForAccount cfg acc)"

section \<open>Lemmas\<close>

lemma effectiveWeight_bounds: "1 \<le> effectiveWeight w \<and> effectiveWeight w \<le> 100"
  by (auto simp: effectiveWeight_def maxAccountWeight_def)

lemma effectiveWeight_pos [simp]: "0 < effectiveWeight w"
  using effectiveWeight_bounds [of w] by linarith

lemma effectiveWeight_idem [simp]: "effectiveWeight (effectiveWeight w) = effectiveWeight w"
  by (auto simp: effectiveWeight_def maxAccountWeight_def)

text \<open>A token that needs no refresh still needs none at every earlier moment.\<close>

lemma unix_of_mono: "s \<le> t \<Longrightarrow> unix_of s \<le> unix_of t"
  by (simp add: unix_of_def go_time zdiv_mono1)

lemma accountTokenNeedsRefresh_mono:
  "accountTokenNeedsRefresh cfg acc s \<Longrightarrow> s \<le> t \<Longrightarrow> accountTokenNeedsRefresh cfg acc t"
  using unix_of_mono [of s t] by (auto simp: accountTokenNeedsRefresh_def split: if_splits)

lemma setBanStatus_ids [simp]: "map acc_ID (setBanStatus aid status reason now as) = map acc_ID as"
  by (induction as) auto

lemma setBanStatus_disabled:
  "distinct (map acc_ID as) \<Longrightarrow> status = ''BANNED'' \<or> status = ''DISABLED'' \<Longrightarrow>
   a \<in> set (setBanStatus aid status reason now as) \<Longrightarrow> acc_Enabled a \<Longrightarrow> acc_ID a \<noteq> aid"
  by (induction as) (auto simp: image_iff split: if_splits)

lemma GetEnabledAccounts_sub: "set (GetEnabledAccounts cfg) \<subseteq> set (cfg_Accounts cfg)"
  by (auto simp: GetEnabledAccounts_def)

end
