(* ===== verification/Pool.thy ===== *)
theory Pool
  imports Accounts
begin

text \<open>
  The account pool of \<open>pool/account.go\<close>: its state and every operation of that file.

  The fields of \<open>AccountPool\<close> are those of the Go struct. The mutexes have no field: each
  operation below is one critical section of \<open>p.mu\<close>, so a run of the pool is a sequence of
  these operations. \<open>availabilityNotify\<close>, a channel that is closed and replaced, is the number
  of the current channel: closing it is stepping to the next number. A pending save timer is a
  flag. Maps are never \<open>nil\<close> (\<open>GetPool\<close> makes all of them).
  \<open>now\<close> is the value \<open>time.Now()\<close> returns inside the operation.
\<close>

section \<open>State\<close>

record UpstreamRuntimeState =
  inFlight :: int
  rateLimitCount :: int
  cooldownUntil :: gotime
  lastCooldownMs :: int
  halfOpenProbe :: bool

definition zeroUpstreamState :: UpstreamRuntimeState where
  "zeroUpstreamState = \<lparr>inFlight = 0, rateLimitCount = 0, cooldownUntil = zero_time,
     lastCooldownMs = 0, halfOpenProbe = False\<rparr>"

record RouteAffinityEntry =
  ra_accountID :: string
  ra_lastSeen :: gotime

record AccountHealthState =
  hs_LatencyMsEWMA :: float64
  hs_ErrorRateEWMA :: float64
  hs_Samples :: "64 word"
  hs_Dispatches :: "64 word"
  hs_AffinityHits :: "64 word"
  hs_LastOutcomeAt :: gotime

definition zeroHealthState :: AccountHealthState where
  "zeroHealthState = \<lparr>hs_LatencyMsEWMA = 0, hs_ErrorRateEWMA = 0, hs_Samples = 0, hs_Dispatches = 0,
     hs_AffinityHits = 0, hs_LastOutcomeAt = zero_time\<rparr>"

record AccountPool =
  accounts :: "Account list"
  accountIndex :: "(string, nat) gomap"
  totalAccounts :: nat
  currentIndex :: "64 word"
  cooldowns :: "(string, gotime) gomap"
  cooldownKinds :: "(string, string) gomap"
  errorCounts :: "(string, int) gomap"
  modelLists :: "(string, (string, bool) gomap) gomap"
  accountUpstream :: "(string, UpstreamRuntimeState) gomap"
  upstream :: "(string \<times> string, UpstreamRuntimeState) gomap"
  profiles :: "(string \<times> string, UpstreamRuntimeState) gomap"
  weightedCurrent :: "(string, int) gomap"
  affinity :: "(string, RouteAffinityEntry) gomap"
  modelNegative :: "(string \<times> string, gotime) gomap"
  lastSuccess :: "(string, gotime) gomap"
  healthStats :: "(string, AccountHealthState) gomap"
  refreshFailures :: "(string, gotime) gomap"
  refreshCursor :: int
  availabilityNotify :: nat
  waitingRequests :: int
  stateSaveTimer :: bool
  statsSaveTimer :: bool
  dirtyStats :: "(string, unit) gomap"
  configGeneration :: "64 word"

abbreviation accountCooldownTransient :: string where "accountCooldownTransient \<equiv> ''transient''"
abbreviation accountCooldownQuota :: string where "accountCooldownQuota \<equiv> ''quota''"
abbreviation accountCooldownDisabled :: string where "accountCooldownDisabled \<equiv> ''disabled''"

definition emptyPool :: "64 word \<Rightarrow> AccountPool" where
  "emptyPool generation = \<lparr>accounts = [], accountIndex = [], totalAccounts = 0, currentIndex = 0,
     cooldowns = [], cooldownKinds = [], errorCounts = [], modelLists = [], accountUpstream = [],
     upstream = [], profiles = [], weightedCurrent = [], affinity = [], modelNegative = [],
     lastSuccess = [], healthStats = [], refreshFailures = [], refreshCursor = 0,
     availabilityNotify = 0, waitingRequests = 0, stateSaveTimer = False, statsSaveTimer = False,
     dirtyStats = [], configGeneration = generation\<rparr>"

section \<open>Signals and timers\<close>

definition signalAvailabilityLocked :: "AccountPool \<Rightarrow> AccountPool" where
  "signalAvailabilityLocked p =
     (if waitingRequests p = 0 then p else p\<lparr>availabilityNotify := Suc (availabilityNotify p)\<rparr>)"

definition scheduleRuntimeStateSave :: "AccountPool \<Rightarrow> AccountPool" where
  "scheduleRuntimeStateSave p = p\<lparr>stateSaveTimer := True\<rparr>"

definition scheduleAccountStatsSave :: "AccountPool \<Rightarrow> AccountPool" where
  "scheduleAccountStatsSave p = p\<lparr>statsSaveTimer := True\<rparr>"

section \<open>Index, statistics, reload\<close>

text \<open>The index is rebuilt, first occurrence first, when the entry for the id is missing or stale.\<close>

fun rebuildIndex :: "nat \<Rightarrow> Account list \<Rightarrow> (string, nat) gomap \<Rightarrow> (string, nat) gomap" where
  "rebuildIndex i [] ix = ix"
| "rebuildIndex i (a # as) ix =
     rebuildIndex (Suc i) as (if gm_get ix (acc_ID a) = None then gm_put (acc_ID a) i ix else ix)"

definition accountIndexLocked :: "string \<Rightarrow> AccountPool \<Rightarrow> nat option \<times> AccountPool" where
  "accountIndexLocked aid p =
     (let p' = p\<lparr>accountIndex := rebuildIndex 0 (accounts p) []\<rparr>
      in case gm_get (accountIndex p) aid of
           Some idx \<Rightarrow>
             if idx < length (accounts p) \<and> acc_ID (accounts p ! idx) = aid then (Some idx, p)
             else (gm_get (accountIndex p') aid, p')
         | None \<Rightarrow> (gm_get (accountIndex p') aid, p'))"

definition GetByID :: "string \<Rightarrow> AccountPool \<Rightarrow> Account option \<times> AccountPool" where
  "GetByID aid p = (case accountIndexLocked aid p of
      (Some idx, p') \<Rightarrow> (Some (accounts p' ! idx), p')
    | (None, p') \<Rightarrow> (None, p'))"

definition zeroStats :: AccountStatsSnapshot where
  "zeroStats = \<lparr>st_RequestCount = 0, st_ErrorCount = 0, st_TotalTokens = 0, st_TotalCredits = 0, st_LastUsed = 0\<rparr>"

definition statsOf :: "Account \<Rightarrow> AccountStatsSnapshot" where
  "statsOf a = \<lparr>st_RequestCount = acc_RequestCount a, st_ErrorCount = acc_ErrorCount a,
     st_TotalTokens = acc_TotalTokens a, st_TotalCredits = acc_TotalCredits a, st_LastUsed = acc_LastUsed a\<rparr>"

definition accountStatsLocked :: "string \<Rightarrow> AccountPool \<Rightarrow> AccountStatsSnapshot \<times> AccountPool" where
  "accountStatsLocked aid p = (case accountIndexLocked aid p of
      (Some i, p') \<Rightarrow> (statsOf (accounts p' ! i), p')
    | (None, p') \<Rightarrow> (zeroStats, p'))"

fun collectStats :: "string list \<Rightarrow> AccountPool \<Rightarrow> (string, AccountStatsSnapshot) gomap \<times> AccountPool" where
  "collectStats [] p = ([], p)"
| "collectStats (aid # aids) p =
     (let (stats, p1) = accountStatsLocked aid p; (updates, p2) = collectStats aids p1
      in ((aid, stats) # updates, p2))"

definition flushAccountStats :: "bool \<Rightarrow> Config \<times> AccountPool \<Rightarrow> Config \<times> AccountPool" where
  "flushAccountStats saved = (\<lambda>(cfg, p).
     let (updates, p1) = collectStats (map fst (dirtyStats p)) p;
         p2 = p1\<lparr>dirtyStats := []\<rparr>;
         (cfg', ok) = UpdateAccountStatsBatch saved (configGeneration p) updates cfg
     in if ok then (cfg', p2\<lparr>statsSaveTimer := False\<rparr>)
        else (cfg', p2\<lparr>dirtyStats := foldl (\<lambda>d u. gm_put (fst u) () d) (dirtyStats p2) updates,
                       statsSaveTimer := True\<rparr>))"

text \<open>The loop of \<open>Reload\<close> over the enabled accounts: the new list and the new index.\<close>

fun reloadAccounts :: "bool \<Rightarrow> Account list \<Rightarrow> Account list \<times> (string, nat) gomap \<Rightarrow>
    Account list \<times> (string, nat) gomap" where
  "reloadAccounts allowOverUsage [] st = st"
| "reloadAccounts allowOverUsage (a # as) (acs, ix) =
     (if isQuotaBlocked a allowOverUsage then reloadAccounts allowOverUsage as (acs, ix)
      else reloadAccounts allowOverUsage as
        (acs @ [a\<lparr>acc_Weight := effectiveWeight (acc_Weight a)\<rparr>], gm_put (acc_ID a) (length acs) ix))"

definition Reload :: "bool \<Rightarrow> Config \<times> AccountPool \<Rightarrow> Config \<times> AccountPool" where
  "Reload saved = (\<lambda>(cfg0, p0).
     let (cfg, p) = (if configGeneration p0 = cfg_Generation cfg0 then flushAccountStats saved (cfg0, p0) else (cfg0, p0));
         enabled = GetEnabledAccounts cfg;
         p1 = (if configGeneration p \<noteq> cfg_Generation cfg then p\<lparr>dirtyStats := []\<rparr> else p);
         (acs, ix) = reloadAccounts (cfg_AllowOverUsage cfg) enabled ([], []);
         kept = filter (\<lambda>e. fst e \<in> acc_ID ` set acs) (weightedCurrent p1);
         weights = (if cfg_LoadBalancingMode cfg \<noteq> ''weighted'' then [] else kept)
     in (cfg, signalAvailabilityLocked
          (p1\<lparr>configGeneration := cfg_Generation cfg, accounts := acs, accountIndex := ix,
              totalAccounts := length enabled, weightedCurrent := weights\<rparr>)))"

definition UpdateAccountRegion :: "string \<Rightarrow> string \<Rightarrow> AccountPool \<Rightarrow> AccountPool" where
  "UpdateAccountRegion aid region p =
     (if aid = '''' \<or> region = '''' then p
      else case gm_get (accountIndex p) aid of
             None \<Rightarrow> p
           | Some index \<Rightarrow>
               if index \<ge> length (accounts p) then p
               else p\<lparr>accounts := (accounts p)[index := (accounts p ! index)\<lparr>acc_Region := region\<rparr>]\<rparr>)"

section \<open>Model lists\<close>

definition modelKeyOf :: "string \<Rightarrow> string" where
  "modelKeyOf model = to_lower (trim_space model)"

definition SetModelList :: "string \<Rightarrow> string list \<Rightarrow> AccountPool \<Rightarrow> AccountPool" where
  "SetModelList aid modelIDs p =
     (let set0 = gm_zero [] (modelLists p) aid;
          set1 = foldl (\<lambda>s i. if modelKeyOf i \<noteq> '''' then gm_put (modelKeyOf i) True s else s) set0 modelIDs
      in scheduleRuntimeStateSave (signalAvailabilityLocked (p\<lparr>modelLists := gm_put aid set1 (modelLists p)\<rparr>)))"

definition GetModelList :: "string \<Rightarrow> AccountPool \<Rightarrow> string list" where
  "GetModelList aid p = map fst (gm_zero [] (modelLists p) aid)"

definition accountHasModel :: "AccountPool \<Rightarrow> string \<Rightarrow> string \<Rightarrow> gotime \<Rightarrow> bool" where
  "accountHasModel p aid model now =
     (case gm_get (modelNegative p) (aid, modelKeyOf model) of
        Some until \<Rightarrow> \<not> now < until
      | None \<Rightarrow> True)"

definition accountAdvertisesModel :: "AccountPool \<Rightarrow> string \<Rightarrow> string \<Rightarrow> bool" where
  "accountAdvertisesModel p aid model =
     (let modelKey = modelKeyOf model
      in if modelKey = '''' then False else gm_zero False (gm_zero [] (modelLists p) aid) modelKey)"

definition RecordModelUnavailable :: "Config \<Rightarrow> string \<Rightarrow> string \<Rightarrow> gotime \<Rightarrow> AccountPool \<Rightarrow> gotime \<times> AccountPool" where
  "RecordModelUnavailable cfg aid model now p =
     (let ttl0 = cfg_NegativeCacheTTLSeconds cfg * second;
          ttl = (if ttl0 < minute then hour else ttl0);
          until = now + ttl;
          modelKey = modelKeyOf model;
          lists = (case gm_get (modelLists p) aid of
                     None \<Rightarrow> modelLists p
                   | Some models \<Rightarrow> gm_put aid (gm_del modelKey models) (modelLists p))
      in (until, scheduleRuntimeStateSave
           (p\<lparr>modelNegative := gm_put (aid, modelKey) until (modelNegative p), modelLists := lists\<rparr>)))"

definition ClearModelUnavailable :: "string \<Rightarrow> string \<Rightarrow> AccountPool \<Rightarrow> AccountPool" where
  "ClearModelUnavailable aid model p =
     (let modelKey = modelKeyOf model;
          p1 = p\<lparr>modelNegative := gm_del (aid, modelKey) (modelNegative p)\<rparr>;
          p2 = (if modelKey \<noteq> ''''
                then p1\<lparr>modelLists := gm_put aid (gm_put modelKey True (gm_zero [] (modelLists p1) aid)) (modelLists p1)\<rparr>
                else p1)
      in scheduleRuntimeStateSave p2)"

section \<open>Selection\<close>

type_synonym excluded = "(string, bool) gomap"

definition accountTokenRoutableLocked :: "Config \<Rightarrow> AccountPool \<Rightarrow> Account \<Rightarrow> gotime \<Rightarrow> bool" where
  "accountTokenRoutableLocked cfg p acc now =
     (if \<not> accountTokenNeedsRefresh cfg acc now then True
      else if trim_space (acc_RefreshToken acc) = '''' then False
      else \<not> gm_zero zero_time (refreshFailures p) (acc_ID acc) > now)"

definition accountSelectableBasicLocked ::
    "Config \<Rightarrow> AccountPool \<Rightarrow> Account \<Rightarrow> string \<Rightarrow> excluded \<Rightarrow> gotime \<Rightarrow> bool \<Rightarrow> bool" where
  "accountSelectableBasicLocked cfg p acc model excluded now allowRefreshFallback =
     (if gm_zero False excluded (acc_ID acc) then False
      else if model \<noteq> '''' \<and> \<not> accountHasModel p (acc_ID acc) model now then False
      else if (case gm_get (cooldowns p) (acc_ID acc) of Some cooldown \<Rightarrow> now < cooldown | None \<Rightarrow> False) then False
      else if accountTokenNeedsRefresh cfg acc now \<and>
              (\<not> allowRefreshFallback \<or> trim_space (acc_RefreshToken acc) = '''') then False
      else if accountTokenNeedsRefresh cfg acc now \<and>
              gm_zero zero_time (refreshFailures p) (acc_ID acc) > now then False
      else \<not> isQuotaBlocked acc (cfg_AllowOverUsage cfg))"

text \<open>The loop of the priority and balanced modes also skips a second account with an id it has seen.\<close>

fun selectOnce :: "(Account \<Rightarrow> bool) \<Rightarrow> string list \<Rightarrow> nat \<Rightarrow> Account list \<Rightarrow> nat list" where
  "selectOnce ok seen i [] = []"
| "selectOnce ok seen i (a # as) =
     (if acc_ID a \<in> set seen then selectOnce ok seen (Suc i) as
      else if \<not> ok a then selectOnce ok (acc_ID a # seen) (Suc i) as
      else i # selectOnce ok (acc_ID a # seen) (Suc i) as)"

definition selectionIndexesForTokenStateLocked ::
    "Config \<Rightarrow> AccountPool \<Rightarrow> string \<Rightarrow> excluded \<Rightarrow> gotime \<Rightarrow> bool \<Rightarrow> nat list" where
  "selectionIndexesForTokenStateLocked cfg p model excluded now allowRefreshFallback =
     (let ok = (\<lambda>acc. accountSelectableBasicLocked cfg p acc model excluded now allowRefreshFallback)
      in if cfg_LoadBalancingMode cfg = ''priority'' \<or> cfg_LoadBalancingMode cfg = ''balanced''
         then selectOnce ok [] 0 (accounts p)
         else filter (\<lambda>i. ok (accounts p ! i)) [0..<length (accounts p)])"

definition lessPriority :: "AccountPool \<Rightarrow> string \<Rightarrow> nat \<Rightarrow> nat \<Rightarrow> bool" where
  "lessPriority p model i j =
     (let a = accounts p ! i; b = accounts p ! j;
          aAdvertised = accountAdvertisesModel p (acc_ID a) model;
          bAdvertised = accountAdvertisesModel p (acc_ID b) model
      in if acc_Priority a \<noteq> acc_Priority b then acc_Priority a < acc_Priority b
         else if aAdvertised \<noteq> bAdvertised then aAdvertised
         else if acc_Weight a \<noteq> acc_Weight b then acc_Weight a > acc_Weight b
         else acc_ID a < acc_ID b)"

definition lessBalanced :: "AccountPool \<Rightarrow> string \<Rightarrow> nat \<Rightarrow> nat \<Rightarrow> bool" where
  "lessBalanced p model i j =
     (let a = accounts p ! i; b = accounts p ! j;
          aAdvertised = accountAdvertisesModel p (acc_ID a) model;
          bAdvertised = accountAdvertisesModel p (acc_ID b) model
      in if acc_Priority a \<noteq> acc_Priority b then acc_Priority a < acc_Priority b
         else if aAdvertised \<noteq> bAdvertised then aAdvertised
         else acc_ID a < acc_ID b)"

definition lessWeighted :: "AccountPool \<Rightarrow> string \<Rightarrow> nat \<Rightarrow> nat \<Rightarrow> bool" where
  "lessWeighted p model i j =
     (let a = accounts p ! i; b = accounts p ! j;
          aScore = gm_zero 0 (weightedCurrent p) (acc_ID a) + effectiveWeight (acc_Weight a);
          bScore = gm_zero 0 (weightedCurrent p) (acc_ID b) + effectiveWeight (acc_Weight b);
          aAdvertised = accountAdvertisesModel p (acc_ID a) model;
          bAdvertised = accountAdvertisesModel p (acc_ID b) model
      in if aScore \<noteq> bScore then aScore > bScore
         else if aAdvertised \<noteq> bAdvertised then aAdvertised
         else acc_ID a < acc_ID b)"

text \<open>
  The number of leading indexes whose account has the priority of the first one: the loop
  that finds \<open>tierEnd\<close>, which starts at 1.
\<close>

definition tierEnd :: "AccountPool \<Rightarrow> nat list \<Rightarrow> nat" where
  "tierEnd p indexes =
     Suc (length (takeWhile (\<lambda>i. acc_Priority (accounts p ! i) = acc_Priority (accounts p ! hd indexes)) (tl indexes)))"

definition orderSelectionIndexesLocked :: "Config \<Rightarrow> AccountPool \<Rightarrow> nat list \<Rightarrow> string \<Rightarrow> nat list" where
  "orderSelectionIndexesLocked cfg p indexes model =
     (if cfg_LoadBalancingMode cfg = ''priority'' then sort_stable (lessPriority p model) indexes
      else if cfg_LoadBalancingMode cfg = ''balanced'' then
        (let sorted = sort_stable (lessBalanced p model) indexes
         in if length sorted < 2 then sorted
            else let te = tierEnd p sorted
                 in if te > 1
                    then let offset = unat (currentIndex p mod of_nat te)
                         in drop offset (take te sorted) @ take offset sorted @ drop te sorted
                    else sorted)
      else sort_stable (lessWeighted p model) indexes)"

definition selectionIndexesLocked :: "Config \<Rightarrow> AccountPool \<Rightarrow> string \<Rightarrow> excluded \<Rightarrow> gotime \<Rightarrow> nat list" where
  "selectionIndexesLocked cfg p model excluded now =
     (let ready = selectionIndexesForTokenStateLocked cfg p model excluded now False;
          indexes = (if ready = [] then selectionIndexesForTokenStateLocked cfg p model excluded now True else ready)
      in orderSelectionIndexesLocked cfg p indexes model)"

fun addWeights :: "Account list \<Rightarrow> nat list \<Rightarrow> (string, int) gomap \<times> int \<Rightarrow> (string, int) gomap \<times> int" where
  "addWeights acs [] st = st"
| "addWeights acs (idx # idxs) (wc, tot) =
     (if idx \<ge> length acs then addWeights acs idxs (wc, tot)
      else let acc = acs ! idx; weight = effectiveWeight (acc_Weight acc)
           in addWeights acs idxs (gm_put (acc_ID acc) (gm_zero 0 wc (acc_ID acc) + weight) wc, tot + weight))"

definition commitWeightedSelectionLocked :: "Config \<Rightarrow> string \<Rightarrow> nat list \<Rightarrow> AccountPool \<Rightarrow> AccountPool" where
  "commitWeightedSelectionLocked cfg selectedID eligibleIndexes p =
     (if selectedID = '''' \<or> eligibleIndexes = [] then p
      else if cfg_LoadBalancingMode cfg = ''balanced'' then p\<lparr>currentIndex := currentIndex p + 1\<rparr>
      else if cfg_LoadBalancingMode cfg \<noteq> ''weighted'' then p
      else let (wc, totalWeight) = addWeights (accounts p) eligibleIndexes (weightedCurrent p, 0)
           in if totalWeight > 0
              then p\<lparr>weightedCurrent := gm_put selectedID (gm_zero 0 wc selectedID - totalWeight) wc,
                     currentIndex := currentIndex p + 1\<rparr>
              else p\<lparr>weightedCurrent := wc\<rparr>)"

text \<open>The fallback scan: the first usable account without a cooldown, else the one whose cooldown ends first.\<close>

fun coolestAccount :: "(string, gotime) gomap \<Rightarrow> (Account \<Rightarrow> bool) \<Rightarrow> (Account \<times> gotime) option \<Rightarrow>
    Account list \<Rightarrow> Account option" where
  "coolestAccount cds usable best [] = map_option fst best"
| "coolestAccount cds usable best (acc # acs) =
     (if \<not> usable acc then coolestAccount cds usable best acs
      else case gm_get cds (acc_ID acc) of
             None \<Rightarrow> Some acc
           | Some cooldown \<Rightarrow>
               coolestAccount cds usable
                 (case best of None \<Rightarrow> Some (acc, cooldown)
                  | Some (b, earliest) \<Rightarrow> if cooldown < earliest then Some (acc, cooldown) else best) acs)"

definition GetNextExcluding :: "Config \<Rightarrow> excluded \<Rightarrow> gotime \<Rightarrow> AccountPool \<Rightarrow> Account option \<times> AccountPool" where
  "GetNextExcluding cfg excluded now p =
     (if accounts p = [] then (None, p)
      else case selectionIndexesLocked cfg p '''' excluded now of
             idx # rest \<Rightarrow>
               (Some (accounts p ! idx), commitWeightedSelectionLocked cfg (acc_ID (accounts p ! idx)) (idx # rest) p)
           | [] \<Rightarrow>
               (coolestAccount (cooldowns p)
                 (\<lambda>acc. \<not> gm_zero False excluded (acc_ID acc) \<and>
                        \<not> isQuotaBlocked acc (cfg_AllowOverUsage cfg) \<and>
                        accountTokenRoutableLocked cfg p acc now) None (accounts p), p))"

definition GetNextForModelExcluding ::
    "Config \<Rightarrow> string \<Rightarrow> excluded \<Rightarrow> gotime \<Rightarrow> AccountPool \<Rightarrow> Account option \<times> AccountPool" where
  "GetNextForModelExcluding cfg model excluded now p =
     (if accounts p = [] then (None, p)
      else case selectionIndexesLocked cfg p model excluded now of
             idx # rest \<Rightarrow>
               (Some (accounts p ! idx), commitWeightedSelectionLocked cfg (acc_ID (accounts p ! idx)) (idx # rest) p)
           | [] \<Rightarrow>
               (coolestAccount (cooldowns p)
                 (\<lambda>acc. \<not> gm_zero False excluded (acc_ID acc) \<and>
                        accountHasModel p (acc_ID acc) model now \<and>
                        \<not> isQuotaBlocked acc (cfg_AllowOverUsage cfg) \<and>
                        accountTokenRoutableLocked cfg p acc now) None (accounts p), p))"

section \<open>Cooldowns and outcomes\<close>

definition setCooldownLocked :: "string \<Rightarrow> gotime \<Rightarrow> string \<Rightarrow> AccountPool \<Rightarrow> AccountPool" where
  "setCooldownLocked aid until kind p =
     (case gm_get (cooldowns p) aid of
        Some current \<Rightarrow> if current > until then p
          else p\<lparr>cooldowns := gm_put aid until (cooldowns p), cooldownKinds := gm_put aid kind (cooldownKinds p)\<rparr>
      | None \<Rightarrow> p\<lparr>cooldowns := gm_put aid until (cooldowns p), cooldownKinds := gm_put aid kind (cooldownKinds p)\<rparr>)"

definition clearTransientCooldownLocked :: "string \<Rightarrow> gotime \<Rightarrow> AccountPool \<Rightarrow> AccountPool" where
  "clearTransientCooldownLocked aid now p =
     (case gm_get (cooldowns p) aid of
        None \<Rightarrow> p\<lparr>cooldownKinds := gm_del aid (cooldownKinds p)\<rparr>
      | Some until \<Rightarrow>
          let kind = gm_zero '''' (cooldownKinds p) aid
          in if kind = accountCooldownTransient \<or> (kind = '''' \<and> time_sub until now \<le> 10 * minute) \<or> \<not> until > now
             then p\<lparr>cooldowns := gm_del aid (cooldowns p), cooldownKinds := gm_del aid (cooldownKinds p)\<rparr>
             else p)"

definition RecordSuccess :: "string \<Rightarrow> gotime \<Rightarrow> AccountPool \<Rightarrow> AccountPool" where
  "RecordSuccess aid now p =
     (let p1 = clearTransientCooldownLocked aid now p;
          p2 = p1\<lparr>errorCounts := gm_put aid 0 (errorCounts p1), lastSuccess := gm_put aid now (lastSuccess p1)\<rparr>
      in scheduleRuntimeStateSave (signalAvailabilityLocked p2))"

text \<open>
  The loop of \<open>RecordError\<close> over the accounts: the first match is incremented and its counters
  are read back through the index; later matches take the error count that was read.
\<close>

definition recordErrorStep :: "string \<Rightarrow> AccountStatsSnapshot \<times> bool \<times> AccountPool \<Rightarrow> nat \<Rightarrow>
    AccountStatsSnapshot \<times> bool \<times> AccountPool" where
  "recordErrorStep aid = (\<lambda>(stats, updated, p) i.
     let a = accounts p ! i
     in if acc_ID a \<noteq> aid then (stats, updated, p)
        else if \<not> updated then
          (let p1 = p\<lparr>accounts := (accounts p)[i := a\<lparr>acc_ErrorCount := acc_ErrorCount a + 1\<rparr>]\<rparr>;
               (stats', p2) = accountStatsLocked aid p1
           in (stats', True, p2))
        else (stats, updated, p\<lparr>accounts := (accounts p)[i := a\<lparr>acc_ErrorCount := st_ErrorCount stats\<rparr>]\<rparr>))"

definition RecordError :: "Config \<Rightarrow> string \<Rightarrow> bool \<Rightarrow> gotime \<Rightarrow> AccountPool \<Rightarrow> AccountPool" where
  "RecordError cfg aid isQuotaError now p =
     (let p1 = p\<lparr>errorCounts := gm_put aid (gm_zero 0 (errorCounts p) aid + 1) (errorCounts p)\<rparr>;
          (stats, updated, p2) = foldl (recordErrorStep aid) (zeroStats, False, p1) [0..<length (accounts p1)];
          p3 = (if updated
                then p2\<lparr>configGeneration := (if configGeneration p2 = 0 then cfg_Generation cfg else configGeneration p2),
                        dirtyStats := gm_put aid () (dirtyStats p2)\<rparr>
                else p2);
          p4 = (if isQuotaError then setCooldownLocked aid (now + hour) accountCooldownQuota p3
                else if gm_zero 0 (errorCounts p3) aid \<ge> 3
                then setCooldownLocked aid (now + minute) accountCooldownTransient p3
                else p3);
          p5 = scheduleRuntimeStateSave (signalAvailabilityLocked p4)
      in if updated then scheduleAccountStatsSave p5 else p5)"

definition RecordAccountOutcome ::
    "(rat \<Rightarrow> float64) \<Rightarrow> string \<Rightarrow> duration \<Rightarrow> bool \<Rightarrow> gotime \<Rightarrow> AccountPool \<Rightarrow> AccountPool" where
  "RecordAccountOutcome rnd aid latency success now p =
     (if trim_space aid = '''' then p
      else
        let micros = (if latency \<ge> 0 then latency div 1000 else - ((- latency) div 1000));
            latencyMs0 = rnd (rat_of_int micros / 1000);
            latencyMs = (if latencyMs0 < 0 then 0 else latencyMs0);
            errorSample = (if success then 0 else 1);
            state = gm_zero zeroHealthState (healthStats p) aid;
            ewma = (\<lambda>sample current. rnd (rnd (rnd (1/5) * sample) + rnd (rnd (4/5) * current)));
            state1 = (if hs_Samples state = 0
                      then state\<lparr>hs_LatencyMsEWMA := latencyMs, hs_ErrorRateEWMA := errorSample\<rparr>
                      else state\<lparr>hs_LatencyMsEWMA := ewma latencyMs (hs_LatencyMsEWMA state),
                                 hs_ErrorRateEWMA := ewma errorSample (hs_ErrorRateEWMA state)\<rparr>);
            state2 = state1\<lparr>hs_Samples := hs_Samples state1 + 1, hs_LastOutcomeAt := now\<rparr>
        in p\<lparr>healthStats := gm_put aid state2 (healthStats p)\<rparr>)"

definition recordDispatchLocked :: "string \<Rightarrow> bool \<Rightarrow> AccountPool \<Rightarrow> AccountPool" where
  "recordDispatchLocked aid affinityHit p =
     (if aid = '''' then p
      else let state = gm_zero zeroHealthState (healthStats p) aid;
               state1 = state\<lparr>hs_Dispatches := hs_Dispatches state + 1\<rparr>;
               state2 = (if affinityHit then state1\<lparr>hs_AffinityHits := hs_AffinityHits state1 + 1\<rparr> else state1)
           in p\<lparr>healthStats := gm_put aid state2 (healthStats p)\<rparr>)"

definition SetRefreshCursor :: "int \<Rightarrow> AccountPool \<Rightarrow> AccountPool" where
  "SetRefreshCursor cursor p = scheduleRuntimeStateSave (p\<lparr>refreshCursor := (if cursor < 0 then 0 else cursor)\<rparr>)"

definition RefreshFailureCooldowns :: "AccountPool \<Rightarrow> gotime \<Rightarrow> (string, int) gomap" where
  "RefreshFailureCooldowns p now =
     map (\<lambda>e. (fst e, unix_of (snd e))) (filter (\<lambda>e. snd e > now) (refreshFailures p))"

definition SetRefreshFailureCooldown :: "string \<Rightarrow> gotime \<Rightarrow> AccountPool \<Rightarrow> AccountPool" where
  "SetRefreshFailureCooldown aid until p =
     scheduleRuntimeStateSave (signalAvailabilityLocked (p\<lparr>refreshFailures := gm_put aid until (refreshFailures p)\<rparr>))"

definition ClearRefreshFailureCooldown :: "string \<Rightarrow> AccountPool \<Rightarrow> AccountPool" where
  "ClearRefreshFailureCooldown aid p =
     scheduleRuntimeStateSave (signalAvailabilityLocked (p\<lparr>refreshFailures := gm_del aid (refreshFailures p)\<rparr>))"

definition clearAccountCooldown :: "AccountPool \<Rightarrow> string \<Rightarrow> AccountPool" where
  "clearAccountCooldown p aid =
     p\<lparr>cooldowns := gm_del aid (cooldowns p), cooldownKinds := gm_del aid (cooldownKinds p),
       errorCounts := gm_del aid (errorCounts p), refreshFailures := gm_del aid (refreshFailures p)\<rparr>"

definition ClearAccountCooldowns :: "(string, bool) gomap \<Rightarrow> AccountPool \<Rightarrow> AccountPool" where
  "ClearAccountCooldowns ids p =
     (if ids = [] then p
      else scheduleRuntimeStateSave (signalAvailabilityLocked (foldl clearAccountCooldown p (map fst ids))))"

definition DisableAccount :: "bool \<Rightarrow> string \<Rightarrow> string \<Rightarrow> gotime \<Rightarrow> Config \<times> AccountPool \<Rightarrow> Config \<times> AccountPool" where
  "DisableAccount saved aid reason now = (\<lambda>(cfg, p).
     let cfg1 = SetAccountBanStatus aid ''DISABLED'' reason now cfg;
         p1 = scheduleRuntimeStateSave (setCooldownLocked aid (now + 24 * hour) accountCooldownDisabled p)
     in Reload saved (cfg1, p1))"

definition MarkOverLimit :: "bool \<Rightarrow> string \<Rightarrow> gotime \<Rightarrow> Config \<times> AccountPool \<Rightarrow> Config \<times> AccountPool" where
  "MarkOverLimit saved aid now = (\<lambda>(cfg, p).
     Reload saved (cfg, scheduleRuntimeStateSave (setCooldownLocked aid (now + hour) accountCooldownQuota p)))"

section \<open>Account field updates\<close>

text \<open>
  \<open>UpdateCredentials\<close>, \<open>UpdateProfileArn\<close> and \<open>UpdateStats\<close> write the indexed account and, when
  the index is smaller than the list (some id occurs twice), copy the fields to its duplicates.
\<close>

definition syncDuplicates :: "string \<Rightarrow> nat \<Rightarrow> (Account \<Rightarrow> Account \<Rightarrow> Account) \<Rightarrow> AccountPool \<Rightarrow> AccountPool" where
  "syncDuplicates aid i copyFrom p =
     (if length (accountIndex p) \<noteq> length (accounts p)
      then p\<lparr>accounts := map (\<lambda>j. if j \<noteq> i \<and> acc_ID (accounts p ! j) = aid
                                  then copyFrom (accounts p ! i) (accounts p ! j)
                                  else accounts p ! j) [0..<length (accounts p)]\<rparr>
      else p)"

definition UpdateCredentials :: "string \<Rightarrow> string \<Rightarrow> string \<Rightarrow> int \<Rightarrow> string \<Rightarrow> AccountPool \<Rightarrow> AccountPool" where
  "UpdateCredentials aid accessToken refreshToken expiresAt profileArn p =
     (case accountIndexLocked aid p of
        (None, p1) \<Rightarrow> p1
      | (Some i, p1) \<Rightarrow>
          let a = accounts p1 ! i;
              a' = a\<lparr>acc_AccessToken := accessToken,
                     acc_RefreshToken := (if refreshToken \<noteq> '''' then refreshToken else acc_RefreshToken a),
                     acc_ExpiresAt := expiresAt,
                     acc_ProfileArn := (if profileArn \<noteq> '''' then profileArn else acc_ProfileArn a)\<rparr>
          in syncDuplicates aid i
               (\<lambda>s d. d\<lparr>acc_AccessToken := acc_AccessToken s, acc_RefreshToken := acc_RefreshToken s,
                        acc_ExpiresAt := acc_ExpiresAt s, acc_ProfileArn := acc_ProfileArn s\<rparr>)
               (p1\<lparr>accounts := (accounts p1)[i := a']\<rparr>))"

definition UpdateProfileArn :: "string \<Rightarrow> string \<Rightarrow> AccountPool \<Rightarrow> AccountPool" where
  "UpdateProfileArn aid profileArn p =
     (if trim_space profileArn = '''' then p
      else case accountIndexLocked aid p of
        (None, p1) \<Rightarrow> p1
      | (Some i, p1) \<Rightarrow>
          syncDuplicates aid i (\<lambda>s d. d\<lparr>acc_ProfileArn := profileArn\<rparr>)
            (p1\<lparr>accounts := (accounts p1)[i := (accounts p1 ! i)\<lparr>acc_ProfileArn := profileArn\<rparr>]\<rparr>))"

definition UpdateStats :: "(rat \<Rightarrow> float64) \<Rightarrow> Config \<Rightarrow> string \<Rightarrow> int \<Rightarrow> float64 \<Rightarrow> gotime \<Rightarrow> AccountPool \<Rightarrow> AccountPool" where
  "UpdateStats rnd cfg aid tokens credits now p =
     (case accountIndexLocked aid p of
        (None, p1) \<Rightarrow> p1
      | (Some i, p1) \<Rightarrow>
          let a = accounts p1 ! i;
              a' = a\<lparr>acc_RequestCount := acc_RequestCount a + 1, acc_TotalTokens := acc_TotalTokens a + tokens,
                     acc_TotalCredits := rnd (acc_TotalCredits a + credits), acc_LastUsed := unix_of now\<rparr>;
              p2 = syncDuplicates aid i (\<lambda>s d. applyStats (statsOf s) d) (p1\<lparr>accounts := (accounts p1)[i := a']\<rparr>)
          in scheduleAccountStatsSave
               (p2\<lparr>configGeneration := (if configGeneration p2 = 0 then cfg_Generation cfg else configGeneration p2),
                   dirtyStats := gm_put aid () (dirtyStats p2)\<rparr>))"

definition ResetStats :: "AccountPool \<Rightarrow> AccountPool" where
  "ResetStats p = p\<lparr>statsSaveTimer := False, accounts := map (applyStats zeroStats) (accounts p), dirtyStats := []\<rparr>"

section \<open>Counting\<close>

definition Count :: "AccountPool \<Rightarrow> nat" where
  "Count p = (if totalAccounts p > 0 then totalAccounts p else length (remdups (map acc_ID (accounts p))))"

fun countAvailable :: "(Account \<Rightarrow> bool) \<Rightarrow> string list \<Rightarrow> Account list \<Rightarrow> nat" where
  "countAvailable ok seen [] = 0"
| "countAvailable ok seen (a # as) =
     (if acc_ID a \<in> set seen then countAvailable ok seen as
      else if \<not> ok a then countAvailable ok (acc_ID a # seen) as
      else Suc (countAvailable ok (acc_ID a # seen) as))"

definition AvailableCount :: "Config \<Rightarrow> gotime \<Rightarrow> AccountPool \<Rightarrow> nat" where
  "AvailableCount cfg now p =
     countAvailable
       (\<lambda>acc. \<not> (case gm_get (cooldowns p) (acc_ID acc) of Some cooldown \<Rightarrow> now < cooldown | None \<Rightarrow> False) \<and>
              \<not> (acc_ExpiresAt acc > 0 \<and>
                 unix_of now \<ge> acc_ExpiresAt acc - tokenRefreshSafetyWindowSecondsForAccount cfg acc) \<and>
              \<not> isQuotaBlocked acc (cfg_AllowOverUsage cfg)) [] (accounts p)"

section \<open>Error messages\<close>

definition isDigit :: "char \<Rightarrow> bool" where
  "isDigit b = (of_char b \<ge> (48 :: nat) \<and> of_char b \<le> (57 :: nat))"

definition isAlphaNum :: "char \<Rightarrow> bool" where
  "isAlphaNum b = (isDigit b \<or> (of_char b \<ge> (97 :: nat) \<and> of_char b \<le> (122 :: nat)) \<or>
     (of_char b \<ge> (65 :: nat) \<and> of_char b \<le> (90 :: nat)))"

definition boundedAt :: "string \<Rightarrow> string \<Rightarrow> nat \<Rightarrow> bool" where
  "boundedAt s status idx =
     (let leftOK = (idx = 0 \<or> \<not> isAlphaNum (s ! (idx - 1)));
          rightIdx = idx + length status;
          rightOK = (rightIdx \<ge> length s \<or> \<not> isAlphaNum (s ! rightIdx))
      in leftOK \<and> rightOK)"

function hasStatusTokenFrom :: "string \<Rightarrow> string \<Rightarrow> nat \<Rightarrow> bool" where
  "hasStatusTokenFrom s status offset =
     (if offset < length s
      then case str_index (drop offset s) status of
             None \<Rightarrow> False
           | Some relative \<Rightarrow>
               if boundedAt s status (offset + relative) then True
               else hasStatusTokenFrom s status (offset + relative + 1)
      else False)"
  by pat_completeness auto
termination
  by (relation "measure (\<lambda>(s, status, offset). length s - offset)") auto

definition HasStatusToken :: "string \<Rightarrow> string \<Rightarrow> bool" where
  "HasStatusToken s status = (if status = '''' then False else hasStatusTokenFrom s status 0)"

text \<open>An \<open>error\<close> value is its message; \<open>nil\<close> is \<open>None\<close>.\<close>

definition IsAuthFailure :: "string option \<Rightarrow> bool" where
  "IsAuthFailure err = (case err of None \<Rightarrow> False | Some msg \<Rightarrow>
     let lower = to_lower msg
     in if HasStatusToken msg ''401'' \<or> HasStatusToken msg ''403'' then True
        else contains lower ''bad credentials'' \<or> contains lower ''invalid_grant'' \<or>
          contains lower ''invalid grant'' \<or> contains lower ''invalid_token'' \<or>
          contains lower ''invalid token'' \<or> contains lower ''token expired'' \<or>
          contains lower ''token has expired'' \<or> contains lower ''unauthorized'')"

definition IsSuspensionError :: "string option \<Rightarrow> bool" where
  "IsSuspensionError err = (case err of None \<Rightarrow> False | Some msg \<Rightarrow>
     let lower = to_lower msg
     in contains lower ''temporarily_suspended'' \<or> contains lower ''temporarily suspended'' \<or>
        contains lower ''no available kiro profile'')"

end
