(* ===== verification/Protection.thy ===== *)
theory Protection
  imports Pool
begin

text \<open>
  Upstream protection, \<open>pool/protection.go\<close>: per-account, per-account-and-model and
  per-profile-and-model concurrency slots, the cooldown after a 429 with its half-open probe,
  session affinity, and the bounded queue of requests that wait for a slot.

  A guard is the value \<open>AcquireForModel\<close> hands to the request; releasing it twice has the effect
  of releasing it once, which \<open>Release\<close> models by the \<open>released\<close> flag.
  \<open>rand.Intn\<close> is a parameter: \<open>intn n\<close> is the value drawn for \<open>rand.Intn(n)\<close>.
\<close>

section \<open>Data\<close>

record UpstreamBusyError =
  ub_Model :: string
  ub_RetryAfter :: duration
  ub_Description :: string

record UpstreamRequestGuard =
  g_accountID :: string
  g_profileArn :: string
  g_model :: string
  g_affinityHit :: bool
  g_routeKey :: string
  g_routeSeen :: gotime
  g_released :: bool

definition normalizeProtectionModel :: "string \<Rightarrow> string" where
  "normalizeProtectionModel model = to_lower (trim_space model)"

section \<open>Limits\<close>

definition accountConcurrencyLimit :: "UpstreamProtectionConfig \<Rightarrow> Account \<Rightarrow> int" where
  "accountConcurrencyLimit up account =
     (let hard = (if acc_MaxConcurrency account > 0 then acc_MaxConcurrency account
                  else if up_MaxPerAccountConcurrency up > 0 then up_MaxPerAccountConcurrency up
                  else 10)
      in if \<not> equal_fold (trim_space (up_ConcurrencyMode up)) ''hard'' \<and>
            up_SoftMaxPerAccountConcurrency up > 0 \<and> up_SoftMaxPerAccountConcurrency up < hard
         then up_SoftMaxPerAccountConcurrency up else hard)"

definition accountModelLimit :: "UpstreamProtectionConfig \<Rightarrow> string \<Rightarrow> int" where
  "accountModelLimit up model0 =
     (let model = normalizeProtectionModel model0;
          hard = (case gm_get (up_PerModelConcurrency up) model of
                    Some limit \<Rightarrow> if limit > 0 then limit
                       else if up_MaxPerAccountModelConcurrency up > 0 then up_MaxPerAccountModelConcurrency up else 5
                  | None \<Rightarrow> if up_MaxPerAccountModelConcurrency up > 0 then up_MaxPerAccountModelConcurrency up else 5)
      in if \<not> equal_fold (trim_space (up_ConcurrencyMode up)) ''hard'' \<and>
            up_SoftMaxPerAccountModelConcurrency up > 0 \<and> up_SoftMaxPerAccountModelConcurrency up < hard
         then up_SoftMaxPerAccountModelConcurrency up else hard)"

definition profileLimit :: "UpstreamProtectionConfig \<Rightarrow> string \<Rightarrow> string \<Rightarrow> int" where
  "profileLimit up profileArn model0 =
     (if profileArn = '''' then 0
      else case gm_get (up_PerProfileModelConcurrency up) profileArn of
             None \<Rightarrow> 0
           | Some byModel \<Rightarrow>
               (case gm_get byModel (normalizeProtectionModel model0) of
                  Some limit \<Rightarrow> if limit > 0 then limit else 0
                | None \<Rightarrow> 0))"

section \<open>The circuit of one state\<close>

definition stateBusy :: "string \<Rightarrow> UpstreamRuntimeState \<Rightarrow> int \<Rightarrow> gotime \<Rightarrow> string \<Rightarrow> UpstreamBusyError option" where
  "stateBusy model state limit0 now reason =
     (if halfOpenProbe state
      then Some \<lparr>ub_Model = model, ub_RetryAfter = second,
                 ub_Description = reason @ '': half-open probe already in flight for '' @ model\<rparr>
      else if \<not> is_zero (cooldownUntil state) \<and> now < cooldownUntil state
      then Some \<lparr>ub_Model = model, ub_RetryAfter = time_sub (cooldownUntil state) now,
                 ub_Description = reason @ '': 429 cooldown for '' @ model\<rparr>
      else let limit = (if limit0 \<le> 0 then 1 else limit0)
           in if inFlight state \<ge> limit
              then Some \<lparr>ub_Model = model, ub_RetryAfter = second,
                         ub_Description = reason @ '': '' @ show_int (inFlight state) @ ''/'' @ show_int limit\<rparr>
              else None)"

text \<open>The doubling loop: it runs once per earlier rate limit and stops at the maximum.\<close>

fun backoffLoop :: "nat \<Rightarrow> int \<Rightarrow> int \<Rightarrow> int" where
  "backoffLoop 0 cooldownMs maxMs = cooldownMs"
| "backoffLoop (Suc n) cooldownMs maxMs =
     (if 2 * cooldownMs \<ge> maxMs then maxMs else backoffLoop n (2 * cooldownMs) maxMs)"

definition applyProtectionCooldown ::
    "(int \<Rightarrow> int) \<Rightarrow> UpstreamProtectionConfig \<Rightarrow> gotime \<Rightarrow> duration \<Rightarrow> UpstreamRuntimeState \<Rightarrow> duration \<times> UpstreamRuntimeState" where
  "applyProtectionCooldown intn up now retryAfter state =
     (let count = rateLimitCount state + 1;
          base = (if up_RateLimitCooldownMs up \<le> 0 then 2000 else up_RateLimitCooldownMs up);
          maxMs = (if up_MaxRateLimitCooldownMs up \<le> 0 then 60000 else up_MaxRateLimitCooldownMs up);
          ms0 = backoffLoop (nat (count - 1)) base maxMs;
          retryAfterMs = dur_round retryAfter millisecond div millisecond;
          maxRetryAfterMs = 24 * hour div millisecond;
          ms1 = (if retryAfterMs > ms0
                 then (if retryAfterMs > maxRetryAfterMs then maxRetryAfterMs else retryAfterMs)
                 else ms0);
          ms2 = (if retryAfterMs = 0 \<and> ms1 < maxMs
                 then let jitterMax = (if ms1 div 10 < 1 then 1 else ms1 div 10);
                          ms = ms1 + intn (jitterMax + 1)
                      in if ms > maxMs then maxMs else ms
                 else ms1)
      in (ms2 * millisecond,
          state\<lparr>rateLimitCount := count, halfOpenProbe := False, lastCooldownMs := ms2,
                cooldownUntil := now + ms2 * millisecond\<rparr>))"

definition activateHalfOpenProbe :: "gotime \<Rightarrow> UpstreamRuntimeState \<Rightarrow> UpstreamRuntimeState" where
  "activateHalfOpenProbe now state =
     (if rateLimitCount state = 0 \<or> is_zero (cooldownUntil state) \<or> now < cooldownUntil state then state
      else state\<lparr>cooldownUntil := zero_time, halfOpenProbe := True\<rparr>)"

definition closeProtectionCircuit :: "UpstreamRuntimeState \<Rightarrow> UpstreamRuntimeState" where
  "closeProtectionCircuit state =
     state\<lparr>rateLimitCount := 0, cooldownUntil := zero_time, lastCooldownMs := 0, halfOpenProbe := False\<rparr>"

definition reopenAbandonedHalfOpenProbe ::
    "UpstreamProtectionConfig \<Rightarrow> gotime \<Rightarrow> UpstreamRuntimeState \<Rightarrow> UpstreamRuntimeState" where
  "reopenAbandonedHalfOpenProbe up now state =
     (if \<not> halfOpenProbe state \<or> rateLimitCount state = 0 then state
      else let d0 = lastCooldownMs state;
               d1 = (if d0 \<le> 0 then up_RateLimitCooldownMs up else d0);
               d2 = (if d1 \<le> 0 then 2000 else d1)
           in state\<lparr>halfOpenProbe := False, cooldownUntil := now + d2 * millisecond\<rparr>)"

definition protectionStateIdle :: "UpstreamRuntimeState \<Rightarrow> bool" where
  "protectionStateIdle state =
     (inFlight state = 0 \<and> is_zero (cooldownUntil state) \<and> rateLimitCount state = 0 \<and> \<not> halfOpenProbe state)"

definition protectionCircuitState :: "UpstreamRuntimeState \<Rightarrow> gotime \<Rightarrow> string" where
  "protectionCircuitState state now =
     (if halfOpenProbe state \<or>
         (rateLimitCount state > 0 \<and> \<not> is_zero (cooldownUntil state) \<and> \<not> now < cooldownUntil state)
      then ''half_open''
      else if \<not> is_zero (cooldownUntil state) \<and> now < cooldownUntil state then ''open''
      else ''closed'')"

section \<open>Session affinity\<close>

definition rememberRouteAffinityLocked ::
    "UpstreamProtectionConfig \<Rightarrow> string \<Rightarrow> string \<Rightarrow> gotime \<Rightarrow> AccountPool \<Rightarrow> AccountPool" where
  "rememberRouteAffinityLocked up routeKey aid now p =
     (if routeKey = '''' \<or> up_RouteAffinityMaxEntries up \<le> 0 then p
      else
        let full = int (length (affinity p)) \<ge> up_RouteAffinityMaxEntries up \<and>
                   (case gm_get (affinity p) routeKey of None \<Rightarrow> True | Some e \<Rightarrow> ra_accountID e = '''');
            oldestKey = oldest_scan ra_lastSeen '''' zero_time (affinity p);
            evicted = (if full \<and> oldestKey \<noteq> '''' then gm_del oldestKey (affinity p) else affinity p)
        in p\<lparr>affinity := gm_put routeKey \<lparr>ra_accountID = aid, ra_lastSeen = now\<rparr> evicted\<rparr>)"

definition pruneRouteAffinityLocked :: "UpstreamProtectionConfig \<Rightarrow> gotime \<Rightarrow> AccountPool \<Rightarrow> AccountPool" where
  "pruneRouteAffinityLocked up now p =
     (let ttl0 = up_RouteAffinityTTLSeconds up * second;
          ttl = (if ttl0 \<le> 0 then hour else ttl0)
      in p\<lparr>affinity := filter (\<lambda>e. \<not> time_sub now (ra_lastSeen (snd e)) > ttl) (affinity p)\<rparr>)"

definition ForgetAffinity :: "UpstreamRequestGuard \<Rightarrow> AccountPool \<Rightarrow> AccountPool" where
  "ForgetAffinity g p =
     (if g_routeKey g = '''' then p
      else case gm_get (affinity p) (g_routeKey g) of
             Some entry \<Rightarrow>
               if ra_accountID entry = g_accountID g \<and> ra_lastSeen entry = g_routeSeen g
               then p\<lparr>affinity := gm_del (g_routeKey g) (affinity p)\<rparr> else p
           | None \<Rightarrow> p)"

section \<open>Slots\<close>

definition accountSelectableLocked :: "Config \<Rightarrow> AccountPool \<Rightarrow> Account \<Rightarrow> string \<Rightarrow> excluded \<Rightarrow> gotime \<Rightarrow> bool" where
  "accountSelectableLocked cfg p acc model excluded now =
     accountSelectableBasicLocked cfg p acc model excluded now False"

definition findSelectableAccountLocked ::
    "Config \<Rightarrow> string \<Rightarrow> string \<Rightarrow> excluded \<Rightarrow> gotime \<Rightarrow> AccountPool \<Rightarrow> Account option \<times> AccountPool" where
  "findSelectableAccountLocked cfg aid model excluded now p =
     (case accountIndexLocked aid p of
        (Some i, p') \<Rightarrow>
          (if accountSelectableLocked cfg p' (accounts p' ! i) model excluded now
           then Some (accounts p' ! i) else None, p')
      | (None, p') \<Rightarrow> (None, p'))"

definition tryAcquireSlotLocked ::
    "UpstreamProtectionConfig \<Rightarrow> Account \<Rightarrow> string \<Rightarrow> gotime \<Rightarrow> AccountPool \<Rightarrow>
     UpstreamBusyError + UpstreamRequestGuard \<times> AccountPool" where
  "tryAcquireSlotLocked up acc model now p =
     (let aid = acc_ID acc;
          accountState = gm_zero zeroUpstreamState (accountUpstream p) aid;
          profileArn = trim_space (acc_ProfileArn acc);
          profileLimitValue = profileLimit up profileArn model;
          profileState = gm_zero zeroUpstreamState (profiles p) (profileArn, model);
          state = gm_zero zeroUpstreamState (upstream p) (aid, model)
      in case stateBusy model accountState (accountConcurrencyLimit up acc) now
                ''account total concurrency limit reached'' of
           Some busy \<Rightarrow> Inl busy
         | None \<Rightarrow>
        case (if profileLimitValue > 0
              then stateBusy model profileState profileLimitValue now ''profile local upstream limit reached''
              else None) of
           Some busy \<Rightarrow> Inl busy
         | None \<Rightarrow>
        case (if model \<noteq> ''''
              then stateBusy model state (accountModelLimit up model) now ''account local upstream limit reached''
              else None) of
           Some busy \<Rightarrow> Inl busy
         | None \<Rightarrow>
        let p1 = p\<lparr>accountUpstream := gm_put aid (accountState\<lparr>inFlight := inFlight accountState + 1\<rparr>) (accountUpstream p)\<rparr>;
            profileState' = activateHalfOpenProbe now profileState;
            p2 = (if profileLimitValue > 0
                  then p1\<lparr>profiles := gm_put (profileArn, model)
                            (profileState'\<lparr>inFlight := inFlight profileState' + 1\<rparr>) (profiles p1)\<rparr>
                  else p1);
            state' = activateHalfOpenProbe now state;
            p3 = (if model \<noteq> ''''
                  then p2\<lparr>upstream := gm_put (aid, model) (state'\<lparr>inFlight := inFlight state' + 1\<rparr>) (upstream p2)\<rparr>
                  else p2)
        in Inr (\<lparr>g_accountID = aid, g_profileArn = profileArn, g_model = model, g_affinityHit = False,
                 g_routeKey = '''', g_routeSeen = zero_time, g_released = False\<rparr>, p3))"

definition decrementInFlight :: "UpstreamRuntimeState \<Rightarrow> UpstreamRuntimeState" where
  "decrementInFlight state = (if inFlight state > 0 then state\<lparr>inFlight := inFlight state - 1\<rparr> else state)"

definition releaseUpstreamSlot ::
    "UpstreamProtectionConfig \<Rightarrow> string \<Rightarrow> string \<Rightarrow> string \<Rightarrow> gotime \<Rightarrow> AccountPool \<Rightarrow> AccountPool" where
  "releaseUpstreamSlot up aid profileArn model now p =
     (let accountState = decrementInFlight (gm_zero zeroUpstreamState (accountUpstream p) aid);
          p1 = p\<lparr>accountUpstream := (if inFlight accountState = 0 then gm_del aid (accountUpstream p)
                                     else gm_put aid accountState (accountUpstream p))\<rparr>;
          state = reopenAbandonedHalfOpenProbe up now
                    (decrementInFlight (gm_zero zeroUpstreamState (upstream p1) (aid, model)));
          p2 = (if model \<noteq> ''''
                then p1\<lparr>upstream := (if protectionStateIdle state then gm_del (aid, model) (upstream p1)
                                     else gm_put (aid, model) state (upstream p1))\<rparr>
                else p1);
          pstate = reopenAbandonedHalfOpenProbe up now
                     (decrementInFlight (gm_zero zeroUpstreamState (profiles p2) (profileArn, model)));
          p3 = (if profileArn \<noteq> ''''
                then p2\<lparr>profiles := (if protectionStateIdle pstate then gm_del (profileArn, model) (profiles p2)
                                     else gm_put (profileArn, model) pstate (profiles p2))\<rparr>
                else p2)
      in signalAvailabilityLocked p3)"

definition Release ::
    "UpstreamProtectionConfig \<Rightarrow> gotime \<Rightarrow> UpstreamRequestGuard \<Rightarrow> AccountPool \<Rightarrow> UpstreamRequestGuard \<times> AccountPool" where
  "Release up now g p =
     (if g_released g then (g, p)
      else (g\<lparr>g_released := True\<rparr>, releaseUpstreamSlot up (g_accountID g) (g_profileArn g) (g_model g) now p))"

text \<open>What \<open>AcquireForModel\<close> returns: an account with its guard (none when protection is off), a busy error, or nothing.\<close>

datatype AcquireResult =
    Acquired Account "UpstreamRequestGuard option"
  | Busy UpstreamBusyError
  | NoAccount

fun acquireLoop ::
    "Config \<Rightarrow> string \<Rightarrow> string \<Rightarrow> gotime \<Rightarrow> nat list \<Rightarrow> duration \<times> string \<Rightarrow> nat list \<Rightarrow> AccountPool \<Rightarrow>
     AcquireResult \<times> AccountPool" where
  "acquireLoop cfg modelKey routeKey now selectionIndexes (bestRetry, bestReason) [] p =
     ((if bestRetry > 0
       then Busy \<lparr>ub_Model = modelKey, ub_RetryAfter = bestRetry, ub_Description = bestReason\<rparr>
       else NoAccount), p)"
| "acquireLoop cfg modelKey routeKey now selectionIndexes (bestRetry, bestReason) (idx # idxs) p =
     (let up = cfg_UpstreamProtection cfg; acc = accounts p ! idx
      in case tryAcquireSlotLocked up acc modelKey now p of
           Inr (guard, p1) \<Rightarrow>
             let p2 = recordDispatchLocked (acc_ID acc) False p1;
                 p3 = commitWeightedSelectionLocked cfg (acc_ID acc) selectionIndexes p2;
                 p4 = rememberRouteAffinityLocked up routeKey (acc_ID acc) now p3
             in (Acquired acc (Some (guard\<lparr>g_routeKey := routeKey, g_routeSeen := now\<rparr>)), p4)
         | Inl busy \<Rightarrow>
             acquireLoop cfg modelKey routeKey now selectionIndexes
               (maxDuration bestRetry (ub_RetryAfter busy), ub_Description busy) idxs p)"

definition acquireByAffinity ::
    "Config \<Rightarrow> string \<Rightarrow> string \<Rightarrow> string \<Rightarrow> excluded \<Rightarrow> gotime \<Rightarrow> AccountPool \<Rightarrow>
     ((Account \<times> UpstreamRequestGuard) + duration \<times> string) \<times> AccountPool" where
  "acquireByAffinity cfg model modelKey routeKey excluded now p =
     (let up = cfg_UpstreamProtection cfg in
      if routeKey = '''' then (Inr (0, ''''), p)
      else case gm_get (affinity p) routeKey of
        None \<Rightarrow> (Inr (0, ''''), p)
      | Some entry \<Rightarrow>
          (case findSelectableAccountLocked cfg (ra_accountID entry) model excluded now p of
             (None, p1) \<Rightarrow> (Inr (0, ''''), p1)
           | (Some acc, p1) \<Rightarrow>
               (case tryAcquireSlotLocked up acc modelKey now p1 of
                  Inr (guard, p2) \<Rightarrow>
                    let p3 = recordDispatchLocked (acc_ID acc) True p2;
                        p4 = rememberRouteAffinityLocked up routeKey (acc_ID acc) now p3
                    in (Inl (acc, guard\<lparr>g_affinityHit := True, g_routeKey := routeKey, g_routeSeen := now\<rparr>), p4)
                | Inl busy \<Rightarrow> (Inr (maxDuration 0 (ub_RetryAfter busy), ub_Description busy), p1))))"

definition AcquireForModel ::
    "Config \<Rightarrow> string \<Rightarrow> string \<Rightarrow> excluded \<Rightarrow> gotime \<Rightarrow> AccountPool \<Rightarrow> AcquireResult \<times> AccountPool" where
  "AcquireForModel cfg model routeKey0 excluded now p =
     (let up = cfg_UpstreamProtection cfg in
      if \<not> up_Enabled up then
        (case GetNextForModelExcluding cfg model excluded now p of
           (Some account, p1) \<Rightarrow> (Acquired account None, recordDispatchLocked (acc_ID account) False p1)
         | (None, p1) \<Rightarrow> (NoAccount, p1))
      else if accounts p = [] then (NoAccount, p)
      else
        let modelKey = normalizeProtectionModel model;
            routeKey = trim_space routeKey0;
            p0 = pruneRouteAffinityLocked up now p
        in case acquireByAffinity cfg model modelKey routeKey excluded now p0 of
             (Inl (acc, guard), p1) \<Rightarrow> (Acquired acc (Some guard), p1)
           | (Inr best, p1) \<Rightarrow>
               let selectionIndexes = selectionIndexesLocked cfg p1 model excluded now
               in acquireLoop cfg modelKey routeKey now selectionIndexes best selectionIndexes p1)"

section \<open>Outcomes\<close>

definition RecordUpstreamRateLimitedWithRetryAfter ::
    "(int \<Rightarrow> int) \<Rightarrow> (int \<Rightarrow> int) \<Rightarrow> UpstreamProtectionConfig \<Rightarrow> string \<Rightarrow> string \<Rightarrow> string \<Rightarrow> duration \<Rightarrow> gotime \<Rightarrow>
     AccountPool \<Rightarrow> duration \<times> AccountPool" where
  "RecordUpstreamRateLimitedWithRetryAfter intn1 intn2 up aid profileArn0 model retryAfter now p =
     (if \<not> up_Enabled up then (0, p)
      else
        let modelKey = normalizeProtectionModel model;
            (c1, state) = applyProtectionCooldown intn1 up now retryAfter
                            (gm_zero zeroUpstreamState (upstream p) (aid, modelKey));
            cooldown1 = maxDuration 0 c1;
            p1 = p\<lparr>upstream := gm_put (aid, modelKey) state (upstream p)\<rparr>;
            profileArn = trim_space profileArn0;
            (c2, pstate) = applyProtectionCooldown intn2 up now retryAfter
                             (gm_zero zeroUpstreamState (profiles p1) (profileArn, modelKey));
            limited = (profileArn \<noteq> '''' \<and> profileLimit up profileArn modelKey > 0);
            cooldown2 = (if limited then maxDuration cooldown1 c2 else cooldown1);
            p2 = (if limited then p1\<lparr>profiles := gm_put (profileArn, modelKey) pstate (profiles p1)\<rparr> else p1);
            p3 = p2\<lparr>affinity := filter (\<lambda>e. ra_accountID (snd e) \<noteq> aid) (affinity p2)\<rparr>
        in (cooldown2, scheduleRuntimeStateSave (signalAvailabilityLocked p3)))"

definition closeOrDrop ::
    "'k \<Rightarrow> ('k, UpstreamRuntimeState) gomap \<Rightarrow> ('k, UpstreamRuntimeState) gomap" where
  "closeOrDrop key m =
     (let state = closeProtectionCircuit (gm_zero zeroUpstreamState m key)
      in if inFlight state = 0 then gm_del key m else gm_put key state m)"

definition RecordUpstreamSuccess ::
    "UpstreamProtectionConfig \<Rightarrow> string \<Rightarrow> string \<Rightarrow> string \<Rightarrow> AccountPool \<Rightarrow> AccountPool" where
  "RecordUpstreamSuccess up aid profileArn0 model p =
     (if \<not> up_Enabled up then p
      else
        let modelKey = normalizeProtectionModel model;
            profileArn = trim_space profileArn0;
            p1 = (if modelKey \<noteq> ''''
                  then let q = p\<lparr>upstream := closeOrDrop (aid, modelKey) (upstream p)\<rparr>
                       in if profileArn \<noteq> ''''
                          then q\<lparr>profiles := closeOrDrop (profileArn, modelKey) (profiles q)\<rparr> else q
                  else p)
        in scheduleRuntimeStateSave (signalAvailabilityLocked p1))"

section \<open>The wait queue\<close>

text \<open>
  \<open>WaitForAvailabilityWithStatus\<close> in its two critical sections: entering the queue (or not), and
  leaving it in the deferred function. In between the request waits for the channel it took,
  for its timer or for its context; \<open>waitOutcome\<close> is what it then returns.
\<close>

datatype WaitError = ContextError | ErrAvailabilityQueueFull

datatype WaitEntry =
    WaitReturned bool "WaitError option"
  | WaitUnqueued
  | WaitSubscribed nat

definition waitEnter :: "UpstreamProtectionConfig \<Rightarrow> bool \<Rightarrow> AccountPool \<Rightarrow> WaitEntry \<times> AccountPool" where
  "waitEnter up ctxErr p =
     (if ctxErr then (WaitReturned False (Some ContextError), p)
      else if \<not> up_Enabled up then (WaitUnqueued, p)
      else if up_QueueCapacity up > 0 \<and> waitingRequests p \<ge> up_QueueCapacity up
      then (WaitReturned False (Some ErrAvailabilityQueueFull), p)
      else (WaitSubscribed (availabilityNotify p), p\<lparr>waitingRequests := waitingRequests p + 1\<rparr>))"

definition waitLeave :: "AccountPool \<Rightarrow> AccountPool" where
  "waitLeave p = (if waitingRequests p > 0 then p\<lparr>waitingRequests := waitingRequests p - 1\<rparr> else p)"

definition waitOutcome :: "bool \<Rightarrow> bool \<times> WaitError option" where
  "waitOutcome ctxErr = (if ctxErr then (False, Some ContextError) else (True, None))"

definition NotifyAvailability :: "AccountPool \<Rightarrow> AccountPool" where
  "NotifyAvailability p = signalAvailabilityLocked p"

end
