(* ===== verification/Selection.thy ===== *)
theory Selection
  imports Pool
begin

text \<open>
  Facts about account selection in \<open>pool/account.go\<close>: the comparisons of the three routing
  modes are strict weak orders (interpretations of \<open>key_order\<close>), the ordered list is a
  permutation of the selectable accounts, the smooth weighted round robin keeps its balance,
  and the token matching of \<open>HasStatusToken\<close> is what its comment says.
\<close>

named_theorems pool_frame \<open>fields that an operation of the pool leaves alone\<close>

section \<open>The comparisons\<close>

interpretation prio: key_order "lessPriority p model"
  "\<lambda>i. let a = accounts p ! i in (acc_Priority a, \<not> accountAdvertisesModel p (acc_ID a) model, - acc_Weight a, acc_ID a)"
  for p model
  by unfold_locales (auto simp: lessPriority_def Let_def)

interpretation bal: key_order "lessBalanced p model"
  "\<lambda>i. let a = accounts p ! i in (acc_Priority a, \<not> accountAdvertisesModel p (acc_ID a) model, acc_ID a)"
  for p model
  by unfold_locales (auto simp: lessBalanced_def Let_def)

interpretation wrr: key_order "lessWeighted p model"
  "\<lambda>i. let a = accounts p ! i in
     (- (gm_zero 0 (weightedCurrent p) (acc_ID a) + effectiveWeight (acc_Weight a)),
      \<not> accountAdvertisesModel p (acc_ID a) model, acc_ID a)"
  for p model
  by unfold_locales (auto simp: lessWeighted_def Let_def)

section \<open>The ordered list is a permutation of the candidates\<close>

lemma rotation_mset:
  assumes "off \<le> te"
  shows "mset (drop off (take te xs) @ take off xs @ drop te xs) = mset xs"
proof -
  have "take off xs = take off (take te xs)" using assms by (simp add: min_absorb1)
  then have "mset (drop off (take te xs) @ take off xs @ drop te xs)
      = mset (take off (take te xs) @ drop off (take te xs) @ drop te xs)" by simp
  also have "\<dots> = mset (take te xs @ drop te xs)" by (metis append_assoc append_take_drop_id)
  finally show ?thesis by simp
qed

lemma unat_mod_of_nat_le: "unat (w mod (of_nat n :: 64 word)) \<le> n" if "0 < n"
proof (cases "n < 2 ^ 64")
  case True
  then have "unat (of_nat n :: 64 word) = n" by (simp add: unat_of_nat)
  then show ?thesis using that by (simp add: unat_mod order.strict_implies_order)
next
  case False
  have "unat (w mod (of_nat n :: 64 word)) < 2 ^ 64"
    using unsigned_less [of "w mod (of_nat n :: 64 word)"] by simp
  with False show ?thesis by linarith
qed

lemma mset_orderSelection [simp]: "mset (orderSelectionIndexesLocked cfg p indexes model) = mset indexes"
proof -
  have le: "unat (currentIndex p mod of_nat (tierEnd p xs)) \<le> tierEnd p xs" for xs
    by (rule unat_mod_of_nat_le) (simp add: tierEnd_def)
  show ?thesis
    unfolding orderSelectionIndexesLocked_def Let_def
    by (simp only: rotation_mset [OF le] mset_sort_stable split: if_splits) simp
qed

lemma set_orderSelection [simp]: "set (orderSelectionIndexesLocked cfg p indexes model) = set indexes"
  by (metis mset_orderSelection set_mset_mset)

lemma orderSelection_Nil [simp]: "orderSelectionIndexesLocked cfg p indexes model = [] \<longleftrightarrow> indexes = []"
  by (metis mset_orderSelection mset_zero_iff)

lemma distinct_orderSelection [simp]:
  "distinct (orderSelectionIndexesLocked cfg p indexes model) = distinct indexes"
  by (metis mset_eq_imp_distinct_iff mset_orderSelection)

section \<open>Which accounts are candidates\<close>

lemma selectOnce_range: "i \<in> set (selectOnce ok seen k as) \<Longrightarrow> k \<le> i \<and> i < k + length as"
  by (induction ok seen k as rule: selectOnce.induct) (auto split: if_splits)

lemma selectOnce_sound:
  "i \<in> set (selectOnce ok seen k as) \<Longrightarrow> ok (as ! (i - k)) \<and> acc_ID (as ! (i - k)) \<notin> set seen"
proof (induction ok seen k as rule: selectOnce.induct)
  case (2 ok seen k a as)
  have step: "i \<in> set (selectOnce ok s (Suc k) as) \<Longrightarrow> (a # as) ! (i - k) = as ! (i - Suc k)" for s
    by (drule selectOnce_range) (simp add: nth_Cons')
  from 2 show ?case by (auto simp: step split: if_splits)
qed simp

lemma distinct_selectOnce: "distinct (selectOnce ok seen k as)"
  by (induction ok seen k as rule: selectOnce.induct) (auto dest: selectOnce_range)

lemma selectOnce_complete:
  "distinct (map acc_ID as) \<Longrightarrow> j < length as \<Longrightarrow> ok (as ! j) \<Longrightarrow> acc_ID (as ! j) \<notin> set seen \<Longrightarrow>
   k + j \<in> set (selectOnce ok seen k as)"
proof (induction ok seen k as arbitrary: j rule: selectOnce.induct)
  case (2 ok seen k a as)
  show ?case
  proof (cases j)
    case 0
    with 2 show ?thesis by simp
  next
    case (Suc j')
    with "2.prems" have pre: "distinct (map acc_ID as)" "j' < length as" "ok (as ! j')"
      "acc_ID (as ! j') \<notin> set seen" "acc_ID (as ! j') \<noteq> acc_ID a"
      by (auto simp: image_iff) (metis nth_mem)
    with 2 Suc show ?thesis by auto
  qed
qed simp

lemma tokenStateIndexes_sound:
  assumes "i \<in> set (selectionIndexesForTokenStateLocked cfg p model excluded now fb)"
  shows "i < length (accounts p) \<and> accountSelectableBasicLocked cfg p (accounts p ! i) model excluded now fb"
proof (cases "cfg_LoadBalancingMode cfg = ''priority'' \<or> cfg_LoadBalancingMode cfg = ''balanced''")
  case True
  with assms have "i \<in> set (selectOnce (\<lambda>acc. accountSelectableBasicLocked cfg p acc model excluded now fb) [] 0 (accounts p))"
    by (auto simp: selectionIndexesForTokenStateLocked_def Let_def)
  from selectOnce_range [OF this] selectOnce_sound [OF this] show ?thesis by simp
next
  case False
  with assms show ?thesis by (auto simp: selectionIndexesForTokenStateLocked_def Let_def)
qed

lemma tokenStateIndexes_complete:
  assumes "distinct (map acc_ID (accounts p))" "i < length (accounts p)"
    and "accountSelectableBasicLocked cfg p (accounts p ! i) model excluded now fb"
  shows "i \<in> set (selectionIndexesForTokenStateLocked cfg p model excluded now fb)"
  using assms selectOnce_complete [of "accounts p" i _ "[]" 0]
  by (auto simp: selectionIndexesForTokenStateLocked_def Let_def)

lemma distinct_tokenStateIndexes: "distinct (selectionIndexesForTokenStateLocked cfg p model excluded now fb)"
  by (simp add: selectionIndexesForTokenStateLocked_def Let_def distinct_selectOnce)

lemma distinct_selectionIndexes: "distinct (selectionIndexesLocked cfg p model excluded now)"
  by (simp add: selectionIndexesLocked_def Let_def distinct_tokenStateIndexes)

text \<open>A token that may be used without a refresh makes the account a candidate in both passes.\<close>

lemma selectable_fallback:
  "accountSelectableBasicLocked cfg p acc model excluded now False \<Longrightarrow>
   accountSelectableBasicLocked cfg p acc model excluded now True"
  by (auto simp: accountSelectableBasicLocked_def split: if_splits)

text \<open>
  The candidates: every ready account when there is one, and otherwise every account whose
  token can be refreshed first.
\<close>

lemma selectionIndexes_sound:
  assumes "i \<in> set (selectionIndexesLocked cfg p model excluded now)"
  shows "i < length (accounts p)"
    and "accountSelectableBasicLocked cfg p (accounts p ! i) model excluded now True"
  using assms
  by (auto simp: selectionIndexesLocked_def Let_def split: if_splits
      dest: tokenStateIndexes_sound intro: selectable_fallback)

lemma selectionIndexes_ready_first:
  assumes "distinct (map acc_ID (accounts p))" "j < length (accounts p)"
    and "accountSelectableBasicLocked cfg p (accounts p ! j) model excluded now False"
    and "i \<in> set (selectionIndexesLocked cfg p model excluded now)"
  shows "accountSelectableBasicLocked cfg p (accounts p ! i) model excluded now False"
proof -
  from tokenStateIndexes_complete [OF assms(1-3)]
  have "selectionIndexesForTokenStateLocked cfg p model excluded now False \<noteq> []" by auto
  with assms(4) have "i \<in> set (selectionIndexesForTokenStateLocked cfg p model excluded now False)"
    by (simp add: selectionIndexesLocked_def Let_def)
  then show ?thesis by (auto dest: tokenStateIndexes_sound)
qed

lemma selectionIndexes_Nil:
  assumes "distinct (map acc_ID (accounts p))" "selectionIndexesLocked cfg p model excluded now = []"
    and "acc \<in> set (accounts p)"
  shows "\<not> accountSelectableBasicLocked cfg p acc model excluded now True"
proof
  assume sel: "accountSelectableBasicLocked cfg p acc model excluded now True"
  from assms(3) obtain i where i: "i < length (accounts p)" "accounts p ! i = acc"
    by (auto simp: in_set_conv_nth)
  from assms(2) have "selectionIndexesForTokenStateLocked cfg p model excluded now True = []"
    by (auto simp: selectionIndexesLocked_def Let_def split: if_splits)
  with tokenStateIndexes_complete [OF assms(1) i(1), of cfg model excluded now True] sel i(2)
  show False by simp
qed

section \<open>Smooth weighted round robin\<close>

text \<open>The weight of the eligible accounts, as the selection adds it up.\<close>

definition weightOf :: "AccountPool \<Rightarrow> nat \<Rightarrow> int" where
  "weightOf p i = effectiveWeight (acc_Weight (accounts p ! i))"

lemma addWeights_total:
  "\<forall>i \<in> set idxs. i < length acs \<Longrightarrow>
   snd (addWeights acs idxs (wc, t)) = t + (\<Sum>i\<leftarrow>idxs. effectiveWeight (acc_Weight (acs ! i)))"
  by (induction acs idxs "(wc, t)" arbitrary: wc t rule: addWeights.induct) (auto simp: Let_def)

lemma addWeights_current:
  "\<forall>i \<in> set idxs. i < length acs \<Longrightarrow>
   gm_zero 0 (fst (addWeights acs idxs (wc, t))) aid =
     gm_zero 0 wc aid + (\<Sum>i\<leftarrow>idxs. if acc_ID (acs ! i) = aid then effectiveWeight (acc_Weight (acs ! i)) else 0)"
  by (induction acs idxs "(wc, t)" arbitrary: wc t rule: addWeights.induct) (auto simp: Let_def)

lemma commitWeighted_current:
  assumes "cfg_LoadBalancingMode cfg = ''weighted''" "sel \<noteq> ''''" "idxs \<noteq> []"
    and "\<forall>i \<in> set idxs. i < length (accounts p)"
  shows "gm_zero 0 (weightedCurrent (commitWeightedSelectionLocked cfg sel idxs p)) aid =
    gm_zero 0 (weightedCurrent p) aid
      + (\<Sum>i\<leftarrow>idxs. if acc_ID (accounts p ! i) = aid then weightOf p i else 0)
      - (if aid = sel then (\<Sum>i\<leftarrow>idxs. weightOf p i) else 0)"
proof -
  obtain wc tot where wt: "addWeights (accounts p) idxs (weightedCurrent p, 0) = (wc, tot)"
    by (metis surj_pair)
  have wc: "gm_zero 0 wc a = gm_zero 0 (weightedCurrent p) a
      + (\<Sum>i\<leftarrow>idxs. if acc_ID (accounts p ! i) = a then weightOf p i else 0)" for a
    using addWeights_current [OF assms(4), of "weightedCurrent p" 0 a] by (simp add: wt weightOf_def cong: if_cong)
  have tot: "tot = (\<Sum>i\<leftarrow>idxs. weightOf p i)"
    using addWeights_total [OF assms(4), of "weightedCurrent p" 0] by (simp add: wt weightOf_def)
  have "0 < (\<Sum>i\<leftarrow>xs. weightOf p i)" if "xs \<noteq> []" for xs
    using that by (induction xs rule: list_nonempty_induct) (auto simp: weightOf_def add_pos_pos)
  with assms(3) have "0 < tot" by (simp add: tot)
  with assms(1-3) show ?thesis
    by (auto simp: commitWeightedSelectionLocked_def wt wc tot)
qed

lemma sum_list_swap_if:
  fixes f :: "nat \<Rightarrow> int"
  assumes "finite A" "\<forall>i \<in> set xs. g i \<in> A"
  shows "(\<Sum>a\<in>A. \<Sum>i\<leftarrow>xs. if g i = a then f i else 0) = (\<Sum>i\<leftarrow>xs. f i)"
  using assms(2)
proof (induction xs)
  case (Cons x xs)
  with assms(1) show ?case by (simp add: sum.distrib)
qed simp

text \<open>Only the weights of the selection change when a selection is committed.\<close>

lemma commitWeighted_frame [pool_frame]:
  "accounts (commitWeightedSelectionLocked cfg sel idxs p) = accounts p"
  "accountUpstream (commitWeightedSelectionLocked cfg sel idxs p) = accountUpstream p"
  "upstream (commitWeightedSelectionLocked cfg sel idxs p) = upstream p"
  "profiles (commitWeightedSelectionLocked cfg sel idxs p) = profiles p"
  "affinity (commitWeightedSelectionLocked cfg sel idxs p) = affinity p"
  "waitingRequests (commitWeightedSelectionLocked cfg sel idxs p) = waitingRequests p"
  by (auto simp: commitWeightedSelectionLocked_def Let_def split: prod.split)

section \<open>Status tokens\<close>

declare hasStatusTokenFrom.simps [simp del]

text \<open>An occurrence of the token at \<open>idx\<close> whose neighbours are not alphanumeric.\<close>

definition standaloneAt :: "string \<Rightarrow> string \<Rightarrow> nat \<Rightarrow> bool" where
  "standaloneAt s status idx = (prefix status (drop idx s) \<and> boundedAt s status idx)"

lemma standaloneAt_range: "standaloneAt s status idx \<Longrightarrow> status \<noteq> [] \<Longrightarrow> idx < length s"
  unfolding standaloneAt_def by (metis drop_eq_Nil2 leI prefix_bot.extremum_uniqueI)

lemma hasStatusTokenFrom_iff:
  assumes "status \<noteq> []"
  shows "hasStatusTokenFrom s status offset \<longleftrightarrow> (\<exists>idx \<ge> offset. standaloneAt s status idx)"
  using assms
proof (induction s status offset rule: hasStatusTokenFrom.induct)
  case (1 s status offset)
  show ?case
  proof (cases "offset < length s")
    case False
    then show ?thesis
      using standaloneAt_range [OF _ "1.prems"] by (auto simp: hasStatusTokenFrom.simps) fastforce
  next
    case True
    show ?thesis
    proof (cases "str_index (drop offset s) status")
      case None
      then have "\<not> prefix status (drop idx s)" if "idx \<ge> offset" for idx
        using that le_Suc_ex [of offset idx] by (force simp: str_index_None add.commute)
      with None True show ?thesis by (auto simp: hasStatusTokenFrom.simps [of s] standaloneAt_def)
    next
      case (Some relative)
      let ?idx = "offset + relative"
      have here: "prefix status (drop ?idx s)"
      proof -
        from str_index_Some [OF Some]
        have "drop offset s = take relative (drop offset s) @ status @ drop (relative + length status) (drop offset s)"
          and "relative \<le> length (drop offset s)" by auto
        then have "drop relative (drop offset s) = status @ drop (relative + length status) (drop offset s)"
          by (metis append_eq_conv_conj length_take min.absorb2)
        then show ?thesis by (metis add.commute drop_drop prefixI)
      qed
      have none: "\<not> prefix status (drop idx s)" if "offset \<le> idx" "idx < ?idx" for idx
        using str_index_first [OF Some, of "idx - offset"] that by simp
      have "(\<exists>idx \<ge> offset. standaloneAt s status idx) \<longleftrightarrow>
          boundedAt s status ?idx \<or> (\<exists>idx \<ge> ?idx + 1. standaloneAt s status idx)"
        using here none by (auto simp: standaloneAt_def) (metis Suc_eq_plus1 not_less_eq_eq le_neq_implies_less linorder_not_le nat_le_linear, metis le_add1, metis Suc_leD add_leD1)
      with Some True "1.IH" [OF True Some] "1.prems" show ?thesis
        by (simp add: hasStatusTokenFrom.simps [of s status offset])
    qed
  qed
qed

end
