(* ===== verification/Ledger.thy ===== *)
theory Ledger
  imports Go_Prelude
begin

text \<open>
  The locale \<open>slot_ledger\<close> is the contract between a counter of in-flight requests and the guards
  that hold its slots: an acquisition counts its guard once under the keys it holds, a release
  takes it back, nothing else moves the counter. The pool's upstream protection and the admission of API keys
  both keep such counters.
\<close>

section \<open>The contract between counters and guards\<close>

locale slot_ledger =
  fixes cnt :: "'s \<Rightarrow> 'k \<Rightarrow> int"
    and holds :: "'g \<Rightarrow> 'k \<Rightarrow> bool"
    and acquired :: "'g \<Rightarrow> 's \<Rightarrow> 's \<Rightarrow> bool"
    and released :: "'g \<Rightarrow> 's \<Rightarrow> 's \<Rightarrow> bool"
    and silent :: "'s \<Rightarrow> 's \<Rightarrow> bool"
  assumes acquired_cnt: "acquired g s s' \<Longrightarrow> cnt s' k = cnt s k + (if holds g k then 1 else 0)"
    and released_cnt: "released g s s' \<Longrightarrow> cnt s' k = (if holds g k \<and> cnt s k > 0 then cnt s k - 1 else cnt s k)"
    and silent_cnt: "silent s s' \<Longrightarrow> cnt s' k = cnt s k"
begin

definition balanced :: "'s \<Rightarrow> 'g list \<Rightarrow> bool" where
  "balanced s G \<longleftrightarrow> (\<forall>k. cnt s k = int (length (filter (\<lambda>g. holds g k) G)))"

lemma balanced_cnt: "balanced s G \<Longrightarrow> cnt s k = int (length (filter (\<lambda>g. holds g k) G))"
  by (simp add: balanced_def)

lemma balanced_acquired: "acquired g s s' \<Longrightarrow> balanced s G \<Longrightarrow> balanced s' (g # G)"
  by (simp add: balanced_def acquired_cnt)

lemma length_filter_remove1:
  "g \<in> set G \<Longrightarrow> length (filter P (remove1 g G)) = length (filter P G) - (if P g then 1 else 0)"
proof (induction G)
  case (Cons h G)
  have "0 < length (filter P G)" if "g \<in> set G" "P g"
    using that by (auto simp: filter_empty_conv)
  with Cons show ?case by auto
qed simp

lemma balanced_released:
  assumes "released g s s'" "balanced s G" "g \<in> set G"
  shows "balanced s' (remove1 g G)"
  unfolding balanced_def
proof
  fix k
  have "0 < length (filter (\<lambda>g. holds g k) G)" if "holds g k"
    using that assms(3) by (auto simp: filter_empty_conv)
  then show "cnt s' k = int (length (filter (\<lambda>g. holds g k) (remove1 g G)))"
    using assms by (auto simp: released_cnt [OF assms(1)] balanced_def length_filter_remove1 of_nat_diff Suc_le_eq)
qed

lemma balanced_silent: "silent s s' \<Longrightarrow> balanced s G \<Longrightarrow> balanced s' G"
  by (simp add: balanced_def silent_cnt)

end

end
