(* ===== verification/Slots.thy ===== *)
theory Slots
  imports Protection Selection Ledger
begin

text \<open>
  Accounting of the slots of \<open>pool/protection.go\<close>: the contract \<open>slot_ledger\<close> is interpreted for
  the three counters of the pool (per account, per account and model, per profile and model).

  \<open>pool_step\<close> is the pool in operation: any interleaving of acquisitions, releases, rate-limit
  and success reports, and of every other operation of the pool, each one atomic under the
  pool's mutex.
\<close>

section \<open>What each operation does to the counters\<close>

abbreviation accountInFlight :: "AccountPool \<Rightarrow> string \<Rightarrow> int" where
  "accountInFlight p aid \<equiv> inFlight (gm_zero zeroUpstreamState (accountUpstream p) aid)"

abbreviation modelInFlight :: "AccountPool \<Rightarrow> string \<times> string \<Rightarrow> int" where
  "modelInFlight p k \<equiv> inFlight (gm_zero zeroUpstreamState (upstream p) k)"

abbreviation profileInFlight :: "AccountPool \<Rightarrow> string \<times> string \<Rightarrow> int" where
  "profileInFlight p k \<equiv> inFlight (gm_zero zeroUpstreamState (profiles p) k)"

lemma zeroUpstreamState_simps [simp]:
  "inFlight zeroUpstreamState = 0" "rateLimitCount zeroUpstreamState = 0"
  "cooldownUntil zeroUpstreamState = zero_time" "lastCooldownMs zeroUpstreamState = 0"
  "halfOpenProbe zeroUpstreamState = False"
  by (simp_all add: zeroUpstreamState_def)

lemma circuit_inFlight [simp]:
  "inFlight (activateHalfOpenProbe now s) = inFlight s"
  "inFlight (closeProtectionCircuit s) = inFlight s"
  "inFlight (reopenAbandonedHalfOpenProbe up now s) = inFlight s"
  "inFlight (snd (applyProtectionCooldown intn up now r s)) = inFlight s"
  by (auto simp: activateHalfOpenProbe_def closeProtectionCircuit_def reopenAbandonedHalfOpenProbe_def
      applyProtectionCooldown_def Let_def)

lemma decrementInFlight_inFlight [simp]:
  "inFlight (decrementInFlight s) = (if inFlight s > 0 then inFlight s - 1 else inFlight s)"
  by (simp add: decrementInFlight_def)

text \<open>The three tables a slot is counted in.\<close>

definition slots :: "AccountPool \<Rightarrow> (string, UpstreamRuntimeState) gomap \<times>
    (string \<times> string, UpstreamRuntimeState) gomap \<times> (string \<times> string, UpstreamRuntimeState) gomap" where
  "slots p = (accountUpstream p, upstream p, profiles p)"

lemma slots_signal [pool_frame]: "slots (signalAvailabilityLocked p) = slots p"
  by (simp add: slots_def signalAvailabilityLocked_def)

lemma slots_schedule [pool_frame]:
  "slots (scheduleRuntimeStateSave p) = slots p" "slots (scheduleAccountStatsSave p) = slots p"
  by (simp_all add: slots_def scheduleRuntimeStateSave_def scheduleAccountStatsSave_def)

lemma accountIndexLocked_update: "\<exists>ix. snd (accountIndexLocked aid p) = p\<lparr>accountIndex := ix\<rparr>"
  by (auto simp: accountIndexLocked_def Let_def split: option.splits intro: exI [of _ "accountIndex p"])

lemma accountIndexLocked_frame [pool_frame]:
  "slots (snd (accountIndexLocked aid p)) = slots p"
  "accounts (snd (accountIndexLocked aid p)) = accounts p"
  "affinity (snd (accountIndexLocked aid p)) = affinity p"
  "cooldowns (snd (accountIndexLocked aid p)) = cooldowns p"
  "modelNegative (snd (accountIndexLocked aid p)) = modelNegative p"
  "refreshFailures (snd (accountIndexLocked aid p)) = refreshFailures p"
  using accountIndexLocked_update [of aid p] by (auto simp: slots_def)

lemma slots_commit [pool_frame]: "slots (commitWeightedSelectionLocked cfg sel idxs p) = slots p"
  by (simp add: slots_def pool_frame)

lemma recordDispatch_frame [pool_frame]:
  "slots (recordDispatchLocked aid hit p) = slots p"
  "accounts (recordDispatchLocked aid hit p) = accounts p"
  "affinity (recordDispatchLocked aid hit p) = affinity p"
  by (simp_all add: recordDispatchLocked_def slots_def Let_def)

lemma rememberRouteAffinity_frame [pool_frame]:
  "slots (rememberRouteAffinityLocked up rk aid now p) = slots p"
  "accounts (rememberRouteAffinityLocked up rk aid now p) = accounts p"
  by (simp_all add: rememberRouteAffinityLocked_def slots_def Let_def)

lemma pruneRouteAffinity_frame [pool_frame]:
  "slots (pruneRouteAffinityLocked up now p) = slots p"
  "accounts (pruneRouteAffinityLocked up now p) = accounts p"
  by (simp_all add: pruneRouteAffinityLocked_def slots_def Let_def)

text \<open>The keys a guard counts under, and what taking and returning a slot does to them.\<close>

definition holdsAccount :: "UpstreamRequestGuard \<Rightarrow> string \<Rightarrow> bool" where
  "holdsAccount g aid = (g_accountID g = aid)"

definition holdsModel :: "UpstreamRequestGuard \<Rightarrow> string \<times> string \<Rightarrow> bool" where
  "holdsModel g k = ((g_accountID g, g_model g) = k \<and> g_model g \<noteq> '''')"

definition holdsProfile :: "UpstreamProtectionConfig \<Rightarrow> UpstreamRequestGuard \<Rightarrow> string \<times> string \<Rightarrow> bool" where
  "holdsProfile up g k = ((g_profileArn g, g_model g) = k \<and> profileLimit up (g_profileArn g) (g_model g) > 0)"

text \<open>The guard a slot is taken for; \<open>AcquireForModel\<close> later fills in the route it was taken by.\<close>

definition sameSlot :: "UpstreamRequestGuard \<Rightarrow> UpstreamRequestGuard \<Rightarrow> bool" where
  "sameSlot g h \<longleftrightarrow> g_accountID g = g_accountID h \<and> g_profileArn g = g_profileArn h \<and> g_model g = g_model h \<and>
     g_released g = g_released h"

definition slotTaken :: "UpstreamProtectionConfig \<Rightarrow> gotime \<Rightarrow> Account \<Rightarrow> string \<Rightarrow> UpstreamRequestGuard \<Rightarrow>
    AccountPool \<Rightarrow> AccountPool \<Rightarrow> bool" where
  "slotTaken up now acc model g p p' \<longleftrightarrow>
     (\<exists>h q q'. slots q = slots p \<and> tryAcquireSlotLocked up acc model now q = Inr (h, q') \<and>
        slots p' = slots q' \<and> sameSlot g h)"

lemma tryAcquire_guard:
  assumes "tryAcquireSlotLocked up acc model now p = Inr (g, p')"
  shows "g = \<lparr>g_accountID = acc_ID acc, g_profileArn = trim_space (acc_ProfileArn acc), g_model = model,
    g_affinityHit = False, g_routeKey = '''', g_routeSeen = zero_time, g_released = False\<rparr>"
  using assms by (auto simp: tryAcquireSlotLocked_def Let_def split: option.splits)

lemma tryAcquire_counts:
  assumes "tryAcquireSlotLocked up acc model now p = Inr (g, p')"
  shows "accountInFlight p' a = accountInFlight p a + (if holdsAccount g a then 1 else 0)"
    and "modelInFlight p' k = modelInFlight p k + (if holdsModel g k then 1 else 0)"
    and "profileInFlight p' k = profileInFlight p k + (if holdsProfile up g k then 1 else 0)"
  using assms
  by (auto simp: tryAcquireSlotLocked_def Let_def holdsAccount_def holdsModel_def holdsProfile_def split: option.splits)

lemma tryAcquire_accounts: "tryAcquireSlotLocked up acc model now p = Inr (g, p') \<Longrightarrow>
    accounts p' = accounts p \<and> affinity p' = affinity p"
  by (auto simp: tryAcquireSlotLocked_def Let_def split: option.splits)

lemma holds_sameSlot:
  "sameSlot g h \<Longrightarrow> holdsAccount g a = holdsAccount h a"
  "sameSlot g h \<Longrightarrow> holdsModel g k = holdsModel h k"
  "sameSlot g h \<Longrightarrow> holdsProfile up g k = holdsProfile up h k"
  by (auto simp: sameSlot_def holdsAccount_def holdsModel_def holdsProfile_def)

lemma slotTaken_counts:
  assumes "slotTaken up now acc model g p p'"
  shows "accountInFlight p' a = accountInFlight p a + (if holdsAccount g a then 1 else 0)"
    and "modelInFlight p' k = modelInFlight p k + (if holdsModel g k then 1 else 0)"
    and "profileInFlight p' k = profileInFlight p k + (if holdsProfile up g k then 1 else 0)"
proof -
  obtain h q q' where q: "slots q = slots p" "tryAcquireSlotLocked up acc model now q = Inr (h, q')"
    "slots p' = slots q'" "sameSlot g h" using assms by (auto simp: slotTaken_def)
  show "accountInFlight p' a = accountInFlight p a + (if holdsAccount g a then 1 else 0)"
    and "modelInFlight p' k = modelInFlight p k + (if holdsModel g k then 1 else 0)"
    and "profileInFlight p' k = profileInFlight p k + (if holdsProfile up g k then 1 else 0)"
    using tryAcquire_counts [OF q(2)] holds_sameSlot [OF q(4)] q(1,3) by (simp_all add: slots_def)
qed

text \<open>
  Returning a slot. For a profile without a limit of its own nothing was counted, and the
  release finds nothing to take back as long as no such state is in flight.
\<close>

lemma releaseUpstreamSlot_counts:
  "accountInFlight (releaseUpstreamSlot up aid arn model now p) a =
     (if a = aid \<and> accountInFlight p a > 0 then accountInFlight p a - 1 else accountInFlight p a)"
  "modelInFlight (releaseUpstreamSlot up aid arn model now p) k =
     (if k = (aid, model) \<and> model \<noteq> '''' \<and> modelInFlight p k > 0 then modelInFlight p k - 1 else modelInFlight p k)"
  "profileInFlight (releaseUpstreamSlot up aid arn model now p) k =
     (if k = (arn, model) \<and> arn \<noteq> '''' \<and> profileInFlight p k > 0 then profileInFlight p k - 1 else profileInFlight p k)"
proof -
  have idle: "protectionStateIdle s \<Longrightarrow> inFlight s = 0" for s by (simp add: protectionStateIdle_def)
  let ?s = "reopenAbandonedHalfOpenProbe up now (decrementInFlight (gm_zero zeroUpstreamState (upstream p) (aid, model)))"
  let ?q = "reopenAbandonedHalfOpenProbe up now (decrementInFlight (gm_zero zeroUpstreamState (profiles p) (arn, model)))"
  show "accountInFlight (releaseUpstreamSlot up aid arn model now p) a =
     (if a = aid \<and> accountInFlight p a > 0 then accountInFlight p a - 1 else accountInFlight p a)"
    by (auto simp: releaseUpstreamSlot_def Let_def signalAvailabilityLocked_def)
  show "modelInFlight (releaseUpstreamSlot up aid arn model now p) k =
     (if k = (aid, model) \<and> model \<noteq> '''' \<and> modelInFlight p k > 0 then modelInFlight p k - 1 else modelInFlight p k)"
    using idle [of ?s] by (auto simp: releaseUpstreamSlot_def Let_def signalAvailabilityLocked_def split: if_splits)
  show "profileInFlight (releaseUpstreamSlot up aid arn model now p) k =
     (if k = (arn, model) \<and> arn \<noteq> '''' \<and> profileInFlight p k > 0 then profileInFlight p k - 1 else profileInFlight p k)"
    using idle [of ?q] by (auto simp: releaseUpstreamSlot_def Let_def signalAvailabilityLocked_def split: if_splits)
qed

section \<open>The pool in operation\<close>

text \<open>Every operation that neither takes nor returns a slot.\<close>

datatype PoolOp =
    OpReload bool
  | OpUpdateAccountRegion string string
  | OpGetNext excluded gotime
  | OpGetNextForModel string excluded gotime
  | OpGetByID string
  | OpSetModelList string "string list"
  | OpRecordModelUnavailable string string gotime
  | OpClearModelUnavailable string string
  | OpRecordSuccess string gotime
  | OpRecordError string bool gotime
  | OpRecordAccountOutcome "rat \<Rightarrow> float64" string duration bool gotime
  | OpSetRefreshCursor int
  | OpSetRefreshFailureCooldown string gotime
  | OpClearRefreshFailureCooldown string
  | OpClearAccountCooldowns "(string, bool) gomap"
  | OpDisableAccount bool string string gotime
  | OpMarkOverLimit bool string gotime
  | OpUpdateCredentials string string string int string
  | OpUpdateProfileArn string string
  | OpUpdateStats "rat \<Rightarrow> float64" string int float64 gotime
  | OpFlushStats bool
  | OpResetStats
  | OpRateLimited "int \<Rightarrow> int" "int \<Rightarrow> int" string string string duration gotime
  | OpUpstreamSuccess string string string
  | OpForgetAffinity UpstreamRequestGuard
  | OpWaitEnter bool
  | OpWaitLeave
  | OpNotify

fun execOp :: "PoolOp \<Rightarrow> Config \<times> AccountPool \<Rightarrow> Config \<times> AccountPool" where
  "execOp (OpReload saved) (cfg, p) = Reload saved (cfg, p)"
| "execOp (OpUpdateAccountRegion aid region) (cfg, p) = (cfg, UpdateAccountRegion aid region p)"
| "execOp (OpGetNext ex now) (cfg, p) = (cfg, snd (GetNextExcluding cfg ex now p))"
| "execOp (OpGetNextForModel model ex now) (cfg, p) = (cfg, snd (GetNextForModelExcluding cfg model ex now p))"
| "execOp (OpGetByID aid) (cfg, p) = (cfg, snd (GetByID aid p))"
| "execOp (OpSetModelList aid ids) (cfg, p) = (cfg, SetModelList aid ids p)"
| "execOp (OpRecordModelUnavailable aid model now) (cfg, p) = (cfg, snd (RecordModelUnavailable cfg aid model now p))"
| "execOp (OpClearModelUnavailable aid model) (cfg, p) = (cfg, ClearModelUnavailable aid model p)"
| "execOp (OpRecordSuccess aid now) (cfg, p) = (cfg, RecordSuccess aid now p)"
| "execOp (OpRecordError aid quota now) (cfg, p) = (cfg, RecordError cfg aid quota now p)"
| "execOp (OpRecordAccountOutcome rnd aid latency ok now) (cfg, p) = (cfg, RecordAccountOutcome rnd aid latency ok now p)"
| "execOp (OpSetRefreshCursor c) (cfg, p) = (cfg, SetRefreshCursor c p)"
| "execOp (OpSetRefreshFailureCooldown aid until) (cfg, p) = (cfg, SetRefreshFailureCooldown aid until p)"
| "execOp (OpClearRefreshFailureCooldown aid) (cfg, p) = (cfg, ClearRefreshFailureCooldown aid p)"
| "execOp (OpClearAccountCooldowns ids) (cfg, p) = (cfg, ClearAccountCooldowns ids p)"
| "execOp (OpDisableAccount saved aid reason now) (cfg, p) = DisableAccount saved aid reason now (cfg, p)"
| "execOp (OpMarkOverLimit saved aid now) (cfg, p) = MarkOverLimit saved aid now (cfg, p)"
| "execOp (OpUpdateCredentials aid atok rtok ex arn) (cfg, p) = (cfg, UpdateCredentials aid atok rtok ex arn p)"
| "execOp (OpUpdateProfileArn aid arn) (cfg, p) = (cfg, UpdateProfileArn aid arn p)"
| "execOp (OpUpdateStats rnd aid tokens credits now) (cfg, p) = (cfg, UpdateStats rnd cfg aid tokens credits now p)"
| "execOp (OpFlushStats saved) (cfg, p) = flushAccountStats saved (cfg, p)"
| "execOp OpResetStats (cfg, p) = (cfg, ResetStats p)"
| "execOp (OpRateLimited i1 i2 aid arn model r now) (cfg, p) =
     (cfg, snd (RecordUpstreamRateLimitedWithRetryAfter i1 i2 (cfg_UpstreamProtection cfg) aid arn model r now p))"
| "execOp (OpUpstreamSuccess aid arn model) (cfg, p) =
     (cfg, RecordUpstreamSuccess (cfg_UpstreamProtection cfg) aid arn model p)"
| "execOp (OpForgetAffinity g) (cfg, p) = (cfg, ForgetAffinity g p)"
| "execOp (OpWaitEnter ctxErr) (cfg, p) = (cfg, snd (waitEnter (cfg_UpstreamProtection cfg) ctxErr p))"
| "execOp OpWaitLeave (cfg, p) = (cfg, waitLeave p)"
| "execOp OpNotify (cfg, p) = (cfg, NotifyAvailability p)"

text \<open>
  A configuration of the running system: the configuration, the pool and the guards handed out
  and not yet released.
\<close>

type_synonym sys = "Config \<times> AccountPool \<times> UpstreamRequestGuard list"

inductive pool_step :: "sys \<Rightarrow> sys \<Rightarrow> bool" where
  acquire: "AcquireForModel cfg model rk ex now p = (Acquired acc (Some g), p') \<Longrightarrow>
     pool_step (cfg, p, G) (cfg, p', g # G)"
| no_slot: "AcquireForModel cfg model rk ex now p = (r, p') \<Longrightarrow> (\<forall>acc g. r \<noteq> Acquired acc (Some g)) \<Longrightarrow>
     pool_step (cfg, p, G) (cfg, p', G)"
| release: "g \<in> set G \<Longrightarrow> Release (cfg_UpstreamProtection cfg) now g p = (g', p') \<Longrightarrow>
     pool_step (cfg, p, G) (cfg, p', remove1 g G)"
| operate: "execOp op (cfg, p) = (cfg', p') \<Longrightarrow> pool_step (cfg, p, G) (cfg', p', G)"

inductive_cases pool_stepE: "pool_step (cfg, p, G) (cfg', p', G')"

text \<open>Runs from a freshly created pool with no request in flight.\<close>

inductive pool_reachable :: "UpstreamProtectionConfig \<Rightarrow> sys \<Rightarrow> bool" for up where
  start: "cfg_UpstreamProtection cfg = up \<Longrightarrow> pool_reachable up (cfg, emptyPool gen, [])"
| step: "pool_reachable up s \<Longrightarrow> pool_step s t \<Longrightarrow> pool_reachable up t"

section \<open>Acquisition takes one slot\<close>

lemma acquireLoop_taken:
  "acquireLoop cfg modelKey rk now sel best idxs p = (Acquired acc (Some g), p') \<Longrightarrow>
   \<exists>idx \<in> set idxs. acc = accounts p ! idx \<and>
     slotTaken (cfg_UpstreamProtection cfg) now acc modelKey g p p' \<and> accounts p' = accounts p"
proof (induction idxs arbitrary: best)
  case Nil
  then show ?case by (cases best) (auto split: if_splits)
next
  case (Cons idx idxs)
  obtain r d where best: "best = (r, d)" by (cases best)
  let ?up = "cfg_UpstreamProtection cfg"
  show ?case
  proof (cases "tryAcquireSlotLocked ?up (accounts p ! idx) modelKey now p")
    case (Inl busy)
    with Cons best show ?thesis by (fastforce simp: Let_def)
  next
    case (Inr gp)
    obtain h q where gp: "gp = (h, q)" by (cases gp)
    let ?a = "acc_ID (accounts p ! idx)"
    from Cons.prems Inr gp best have eq: "acc = accounts p ! idx" "g = h\<lparr>g_routeKey := rk, g_routeSeen := now\<rparr>"
      "p' = rememberRouteAffinityLocked ?up rk ?a now
         (commitWeightedSelectionLocked cfg ?a sel (recordDispatchLocked ?a False q))"
      by (auto simp: Let_def)
    have "slotTaken ?up now acc modelKey g p p'"
      unfolding slotTaken_def using Inr gp eq
      by (intro exI [of _ h] exI [of _ p] exI [of _ q]) (auto simp: pool_frame sameSlot_def)
    moreover have "accounts p' = accounts p"
      using tryAcquire_accounts Inr gp eq by (simp add: pool_frame)
    ultimately show ?thesis using eq by auto
  qed
qed

lemma acquireLoop_other:
  "acquireLoop cfg modelKey rk now sel best idxs p = (r, p') \<Longrightarrow> (\<forall>acc g. r \<noteq> Acquired acc (Some g)) \<Longrightarrow> p' = p"
proof (induction idxs arbitrary: best)
  case Nil
  then show ?case by (cases best) (auto split: if_splits)
next
  case (Cons idx idxs)
  then show ?case by (cases best) (auto simp: Let_def split: sum.splits)
qed

lemma findSelectable_frame:
  assumes "findSelectableAccountLocked cfg aid model ex now p = (r, p')"
  shows "slots p' = slots p \<and> accounts p' = accounts p \<and> affinity p' = affinity p"
  using assms accountIndexLocked_frame [of aid p]
  by (auto simp: findSelectableAccountLocked_def split: prod.splits option.splits)

lemma acquireByAffinity_taken:
  assumes "acquireByAffinity cfg model modelKey rk ex now p = (Inl (acc, g), p')"
  shows "slotTaken (cfg_UpstreamProtection cfg) now acc modelKey g p p' \<and> accounts p' = accounts p"
proof -
  let ?up = "cfg_UpstreamProtection cfg"
  from assms obtain e q h q' where e: "gm_get (affinity p) rk = Some e"
    "findSelectableAccountLocked cfg (ra_accountID e) model ex now p = (Some acc, q)"
    "tryAcquireSlotLocked ?up acc modelKey now q = Inr (h, q')"
    "g = h\<lparr>g_affinityHit := True, g_routeKey := rk, g_routeSeen := now\<rparr>"
    "p' = rememberRouteAffinityLocked ?up rk (acc_ID acc) now (recordDispatchLocked (acc_ID acc) True q')"
    by (auto simp: acquireByAffinity_def Let_def split: if_splits option.splits prod.splits sum.splits)
  note q = findSelectable_frame [OF e(2)]
  have "slotTaken ?up now acc modelKey g p p'"
    unfolding slotTaken_def using e q
    by (intro exI [of _ h] exI [of _ q] exI [of _ q']) (auto simp: pool_frame sameSlot_def)
  with q tryAcquire_accounts [OF e(3)] e(5) show ?thesis by (simp add: pool_frame)
qed

lemma acquireByAffinity_other:
  assumes "acquireByAffinity cfg model modelKey rk ex now p = (Inr best, p')"
  shows "slots p' = slots p \<and> accounts p' = accounts p \<and> affinity p' = affinity p"
  using assms findSelectable_frame
  by (auto simp: acquireByAffinity_def Let_def split: if_splits option.splits prod.splits sum.splits)

lemma AcquireForModel_taken:
  assumes "AcquireForModel cfg model rk ex now p = (Acquired acc (Some g), p')"
  shows "slotTaken (cfg_UpstreamProtection cfg) now acc (normalizeProtectionModel model) g p p'"
proof -
  let ?up = "cfg_UpstreamProtection cfg"
  let ?mk = "normalizeProtectionModel model"
  let ?p0 = "pruneRouteAffinityLocked ?up now p"
  have mono: "slotTaken ?up now acc ?mk g q p' \<Longrightarrow> slots q = slots p \<Longrightarrow> slotTaken ?up now acc ?mk g p p'" for q
    unfolding slotTaken_def by metis
  from assms have on: "up_Enabled ?up" "accounts p \<noteq> []"
    by (auto simp: AcquireForModel_def Let_def split: if_splits prod.splits option.splits)
  obtain r q where aff: "acquireByAffinity cfg model ?mk (trim_space rk) ex now ?p0 = (r, q)"
    by (metis surj_pair)
  show ?thesis
  proof (cases r)
    case (Inl ag)
    with assms on aff have "r = Inl (acc, g)" "q = p'"
      by (auto simp: AcquireForModel_def Let_def split: prod.splits)
    with acquireByAffinity_taken aff show ?thesis by (intro mono [of ?p0]) (auto simp: pool_frame)
  next
    case (Inr best)
    with assms on aff have "acquireLoop cfg ?mk (trim_space rk) now (selectionIndexesLocked cfg q model ex now) best
        (selectionIndexesLocked cfg q model ex now) q = (Acquired acc (Some g), p')"
      by (simp add: AcquireForModel_def Let_def)
    from acquireLoop_taken [OF this] have "slotTaken ?up now acc ?mk g q p'" by blast
    then show ?thesis using acquireByAffinity_other [of cfg model ?mk "trim_space rk" ex now ?p0 best q] aff Inr
      by (intro mono [of q]) (auto simp: pool_frame)
  qed
qed

lemma GetNextForModel_frame [pool_frame]:
  "slots (snd (GetNextForModelExcluding cfg model ex now p)) = slots p"
  "slots (snd (GetNextExcluding cfg ex now p)) = slots p"
  by (auto simp: GetNextForModelExcluding_def GetNextExcluding_def pool_frame split: list.splits)

lemma AcquireForModel_other:
  assumes "AcquireForModel cfg model rk ex now p = (r, p')" "\<forall>acc g. r \<noteq> Acquired acc (Some g)"
  shows "slots p' = slots p"
proof -
  let ?up = "cfg_UpstreamProtection cfg"
  let ?mk = "normalizeProtectionModel model"
  let ?p0 = "pruneRouteAffinityLocked ?up now p"
  obtain r' q where aff: "acquireByAffinity cfg model ?mk (trim_space rk) ex now ?p0 = (r', q)"
    by (metis surj_pair)
  consider (off) "\<not> up_Enabled ?up" | (empty) "up_Enabled ?up" "accounts p = []" |
    (on) "up_Enabled ?up" "accounts p \<noteq> []" by blast
  then show ?thesis
  proof cases
    case off
    obtain a n where n: "GetNextForModelExcluding cfg model ex now p = (a, n)" by (metis surj_pair)
    then have "slots n = slots p" using GetNextForModel_frame(1) [of cfg model ex now p] by simp
    with off n assms(1) show ?thesis by (cases a) (auto simp: AcquireForModel_def Let_def pool_frame)
  next
    case empty
    with assms(1) show ?thesis by (simp add: AcquireForModel_def Let_def)
  next
    case on
    with assms aff obtain best where best: "r' = Inr best"
      by (cases r') (auto simp: AcquireForModel_def Let_def split: prod.splits)
    with assms on aff have "acquireLoop cfg ?mk (trim_space rk) now (selectionIndexesLocked cfg q model ex now) best
        (selectionIndexesLocked cfg q model ex now) q = (r, p')" by (simp add: AcquireForModel_def Let_def)
    from acquireLoop_other [OF this assms(2)] have "p' = q" .
    with acquireByAffinity_other [of cfg model ?mk "trim_space rk" ex now ?p0 best q] aff best
    show ?thesis by (simp add: pool_frame)
  qed
qed

section \<open>Every other operation leaves the counters alone\<close>

lemma accountStats_frame: "accountStatsLocked aid p = (st, p') \<Longrightarrow> slots p' = slots p"
  using accountIndexLocked_frame(1) [of aid p]
  by (auto simp: accountStatsLocked_def split: prod.splits option.splits)

lemma collectStats_frame: "collectStats aids p = (u, p') \<Longrightarrow> slots p' = slots p"
  by (induction aids arbitrary: p u p') (auto simp: Let_def split: prod.splits dest: accountStats_frame)

lemma flush_frame:
  assumes "flushAccountStats saved (cfg, p) = (cfg', p')"
  shows "slots p' = slots p \<and> cfg_UpstreamProtection cfg' = cfg_UpstreamProtection cfg"
proof -
  obtain u q where q: "collectStats (map fst (dirtyStats p)) p = (u, q)" by (metis surj_pair)
  have "cfg_UpstreamProtection (fst (UpdateAccountStatsBatch saved g up cfg)) = cfg_UpstreamProtection cfg" for g up
    by (simp add: UpdateAccountStatsBatch_def Let_def)
  with assms q collectStats_frame [OF q] show ?thesis
    by (auto simp: flushAccountStats_def slots_def Let_def split: prod.splits if_splits) (metis fst_conv)+
qed

lemma Reload_frame:
  assumes "Reload saved (cfg, p) = (cfg', p')"
  shows "slots p' = slots p \<and> cfg_UpstreamProtection cfg' = cfg_UpstreamProtection cfg"
proof -
  obtain c q where q: "(if configGeneration p = cfg_Generation cfg then flushAccountStats saved (cfg, p) else (cfg, p)) = (c, q)"
    by (metis surj_pair)
  then have "slots q = slots p \<and> cfg_UpstreamProtection c = cfg_UpstreamProtection cfg"
    using flush_frame by (auto split: if_splits)
  with assms q show ?thesis
    by (auto simp: Reload_def slots_def signalAvailabilityLocked_def Let_def split: prod.splits)
qed

lemma setCooldown_frame [pool_frame]: "slots (setCooldownLocked aid until kind p) = slots p"
  by (simp add: setCooldownLocked_def slots_def split: option.split)

lemma recordErrorStep_frame: "slots (snd (snd (recordErrorStep aid st i))) = slots (snd (snd st))"
proof (cases st)
  case (fields stats updated p)
  let ?q = "p\<lparr>accounts := (accounts p)[i := (accounts p ! i)\<lparr>acc_ErrorCount := acc_ErrorCount (accounts p ! i) + 1\<rparr>]\<rparr>"
  obtain s q where "accountStatsLocked aid ?q = (s, q)" by (metis surj_pair)
  with accountStats_frame [OF this] fields show ?thesis by (auto simp: recordErrorStep_def slots_def Let_def)
qed

lemma recordErrorLoop_frame: "slots (snd (snd (foldl (recordErrorStep aid) st is))) = slots (snd (snd st))"
  by (induction "is" arbitrary: st) (auto simp: recordErrorStep_frame)

lemma RecordError_frame: "slots (RecordError cfg aid q now p) = slots p"
proof -
  let ?p1 = "p\<lparr>errorCounts := gm_put aid (gm_zero 0 (errorCounts p) aid + 1) (errorCounts p)\<rparr>"
  obtain s u r where r: "foldl (recordErrorStep aid) (zeroStats, False, ?p1) [0..<length (accounts ?p1)] = (s, u, r)"
    by (metis prod_cases3)
  have "slots r = slots p"
    using recordErrorLoop_frame [of aid "(zeroStats, False, ?p1)" "[0..<length (accounts ?p1)]"]
    unfolding r by (simp add: slots_def)
  moreover have "slots (r\<lparr>configGeneration := c, dirtyStats := d\<rparr>) = slots r" for c d by (simp add: slots_def)
  ultimately show ?thesis
    using r by (simp add: RecordError_def pool_frame Let_def)
qed

lemma syncDuplicates_frame [pool_frame]: "slots (syncDuplicates aid i f p) = slots p"
  by (simp add: syncDuplicates_def slots_def)

lemma slots_accounts_update [pool_frame]:
  "slots (p\<lparr>accounts := a\<rparr>) = slots p" "slots (p\<lparr>modelLists := m\<rparr>) = slots p"
  "slots (p\<lparr>refreshFailures := rf\<rparr>) = slots p" "slots (p\<lparr>healthStats := h\<rparr>) = slots p"
  "slots (p\<lparr>affinity := af\<rparr>) = slots p" "slots (p\<lparr>errorCounts := e\<rparr>) = slots p"
  "slots (p\<lparr>lastSuccess := l\<rparr>) = slots p" "slots (p\<lparr>modelNegative := n\<rparr>) = slots p"
  "slots (p\<lparr>configGeneration := g\<rparr>) = slots p" "slots (p\<lparr>dirtyStats := d\<rparr>) = slots p"
  "slots (p\<lparr>refreshCursor := rc\<rparr>) = slots p" "slots (p\<lparr>waitingRequests := w\<rparr>) = slots p"
  "slots (p\<lparr>cooldowns := cd\<rparr>) = slots p" "slots (p\<lparr>cooldownKinds := ck\<rparr>) = slots p"
  "slots (p\<lparr>statsSaveTimer := t\<rparr>) = slots p"
  by (simp_all add: slots_def)

lemma credentials_frame:
  "slots (UpdateCredentials aid atok rtok ex arn p) = slots p"
  "slots (UpdateProfileArn aid arn p) = slots p"
  "slots (UpdateStats rnd cfg aid tokens credits now p) = slots p"
  "slots (snd (GetByID aid p)) = slots p"
  using accountIndexLocked_frame(1) [of aid p]
  by (auto simp: UpdateCredentials_def UpdateProfileArn_def UpdateStats_def GetByID_def pool_frame Let_def
      simp del: accountIndexLocked_frame split: prod.split option.split)

lemma clearAccountCooldown_frame: "slots (foldl clearAccountCooldown p ids) = slots p"
  by (induction ids arbitrary: p) (auto simp: clearAccountCooldown_def pool_frame)

text \<open>Rate-limit and success reports move the circuit of a key but never its counter.\<close>

lemma RateLimited_counts:
  "accountInFlight (snd (RecordUpstreamRateLimitedWithRetryAfter i1 i2 up aid arn model r now p)) a = accountInFlight p a"
  "modelInFlight (snd (RecordUpstreamRateLimitedWithRetryAfter i1 i2 up aid arn model r now p)) k = modelInFlight p k"
  "profileInFlight (snd (RecordUpstreamRateLimitedWithRetryAfter i1 i2 up aid arn model r now p)) k = profileInFlight p k"
  by (auto simp: RecordUpstreamRateLimitedWithRetryAfter_def scheduleRuntimeStateSave_def signalAvailabilityLocked_def
      Let_def split_beta)

lemma closeOrDrop_inFlight [simp]:
  "inFlight (gm_zero zeroUpstreamState (closeOrDrop key m) k) = inFlight (gm_zero zeroUpstreamState m k)"
  by (auto simp: closeOrDrop_def Let_def)

lemma UpstreamSuccess_counts:
  "accountInFlight (RecordUpstreamSuccess up aid arn model p) a = accountInFlight p a"
  "modelInFlight (RecordUpstreamSuccess up aid arn model p) k = modelInFlight p k"
  "profileInFlight (RecordUpstreamSuccess up aid arn model p) k = profileInFlight p k"
  by (auto simp: RecordUpstreamSuccess_def scheduleRuntimeStateSave_def signalAvailabilityLocked_def Let_def)

definition sameCounts :: "AccountPool \<Rightarrow> AccountPool \<Rightarrow> bool" where
  "sameCounts p p' \<longleftrightarrow> (\<forall>a. accountInFlight p' a = accountInFlight p a) \<and>
     (\<forall>k. modelInFlight p' k = modelInFlight p k) \<and> (\<forall>k. profileInFlight p' k = profileInFlight p k)"

lemma sameCounts_slots: "slots p' = slots p \<Longrightarrow> sameCounts p p'"
  by (simp add: sameCounts_def slots_def)

lemma execOp_counts:
  assumes "execOp op (cfg, p) = (cfg', p')"
  shows "sameCounts p p' \<and> cfg_UpstreamProtection cfg' = cfg_UpstreamProtection cfg"
proof (cases op)
  case (OpRateLimited i1 i2 aid arn model r now)
  with assms show ?thesis by (auto simp: sameCounts_def RateLimited_counts)
next
  case (OpUpstreamSuccess aid arn model)
  with assms show ?thesis by (auto simp: sameCounts_def UpstreamSuccess_counts)
next
  case (OpReload saved)
  with assms Reload_frame show ?thesis by (auto intro: sameCounts_slots)
next
  case (OpFlushStats saved)
  with assms flush_frame show ?thesis by (auto intro: sameCounts_slots)
next
  case (OpDisableAccount saved aid reason now)
  with assms show ?thesis
    by (auto simp: DisableAccount_def SetAccountBanStatus_def Let_def pool_frame
        dest!: Reload_frame intro: sameCounts_slots)
next
  case (OpMarkOverLimit saved aid now)
  with assms show ?thesis
    by (auto simp: MarkOverLimit_def pool_frame dest!: Reload_frame intro: sameCounts_slots)
qed (use assms in \<open>auto intro!: sameCounts_slots simp: pool_frame RecordError_frame credentials_frame
    clearAccountCooldown_frame UpdateAccountRegion_def SetModelList_def RecordModelUnavailable_def
    ClearModelUnavailable_def RecordSuccess_def clearTransientCooldownLocked_def RecordAccountOutcome_def
    SetRefreshCursor_def SetRefreshFailureCooldown_def ClearRefreshFailureCooldown_def ClearAccountCooldowns_def
    ResetStats_def ForgetAffinity_def waitEnter_def waitLeave_def NotifyAvailability_def Let_def
    split: option.splits if_splits\<close>)

section \<open>The ledgers of the pool\<close>

definition poolReleased :: "UpstreamProtectionConfig \<Rightarrow> UpstreamRequestGuard \<Rightarrow> AccountPool \<Rightarrow> AccountPool \<Rightarrow> bool" where
  "poolReleased up g p p' \<longleftrightarrow> (\<exists>now. p' = releaseUpstreamSlot up (g_accountID g) (g_profileArn g) (g_model g) now p)"

definition poolAcquired :: "UpstreamProtectionConfig \<Rightarrow> UpstreamRequestGuard \<Rightarrow> AccountPool \<Rightarrow> AccountPool \<Rightarrow> bool" where
  "poolAcquired up g p p' \<longleftrightarrow> (\<exists>now acc model. slotTaken up now acc model g p p')"

text \<open>The profile counter, over the keys that have a limit.\<close>

definition limitedProfileInFlight :: "UpstreamProtectionConfig \<Rightarrow> AccountPool \<Rightarrow> string \<times> string \<Rightarrow> int" where
  "limitedProfileInFlight up p k = (if profileLimit up (fst k) (snd k) > 0 then profileInFlight p k else 0)"

lemma profileLimit_empty: "profileLimit up [] model = 0"
  by (simp add: profileLimit_def)

interpretation acctLedger: slot_ledger accountInFlight holdsAccount "poolAcquired up" "poolReleased up" sameCounts for up
  by unfold_locales
    (auto simp: poolAcquired_def poolReleased_def slotTaken_counts releaseUpstreamSlot_counts sameCounts_def holdsAccount_def)

interpretation modelLedger: slot_ledger modelInFlight holdsModel "poolAcquired up" "poolReleased up" sameCounts for up
proof unfold_locales
  fix g s s' k
  assume "poolAcquired up g s s'"
  then show "modelInFlight s' k = modelInFlight s k + (if holdsModel g k then 1 else 0)"
    unfolding poolAcquired_def using slotTaken_counts(2) by metis
next
  fix g s s' k
  assume "poolReleased up g s s'"
  then show "modelInFlight s' k =
      (if holdsModel g k \<and> modelInFlight s k > 0 then modelInFlight s k - 1 else modelInFlight s k)"
    unfolding poolReleased_def holdsModel_def by (auto simp: releaseUpstreamSlot_counts(2) simp del: split_paired_All split_paired_Ex)
next
  fix s s' k
  assume "sameCounts s s'"
  then show "modelInFlight s' k = modelInFlight s k" unfolding sameCounts_def by blast
qed

interpretation profLedger: slot_ledger "limitedProfileInFlight up" "holdsProfile up" "poolAcquired up" "poolReleased up" sameCounts
  for up
proof unfold_locales
  fix g s s' k
  assume "poolAcquired up g s s'"
  then show "limitedProfileInFlight up s' k = limitedProfileInFlight up s k + (if holdsProfile up g k then 1 else 0)"
    by (auto simp: poolAcquired_def limitedProfileInFlight_def slotTaken_counts holdsProfile_def)
next
  fix g s s' k
  assume "poolReleased up g s s'"
  then show "limitedProfileInFlight up s' k = (if holdsProfile up g k \<and> limitedProfileInFlight up s k > 0
      then limitedProfileInFlight up s k - 1 else limitedProfileInFlight up s k)"
    using profileLimit_empty [of up "g_model g"]
    by (cases "g_profileArn g = ''''")
      (auto simp: poolReleased_def limitedProfileInFlight_def releaseUpstreamSlot_counts holdsProfile_def split: if_splits)
next
  fix s s' k
  assume "sameCounts s s'"
  then show "limitedProfileInFlight up s' k = limitedProfileInFlight up s k"
    unfolding limitedProfileInFlight_def sameCounts_def by metis
qed

end
