(* ===== verification/Weighted.thy ===== *)
theory Weighted
  imports Selection
begin

text \<open>
  The weighted routing mode over a whole period. While the set of selectable accounts stays the
  same, consecutive calls of \<open>GetNextForModelExcluding\<close> serve every account exactly as often as
  its effective weight says in every period of total-weight many calls, and the running scores
  return to where they started.
\<close>

text \<open>Consecutive selections: the ids they returned, and the pool after them.\<close>

fun pickRun :: "Config \<Rightarrow> string \<Rightarrow> excluded \<Rightarrow> gotime \<Rightarrow> nat \<Rightarrow> AccountPool \<Rightarrow> string list \<times> AccountPool" where
  "pickRun cfg model excluded now 0 p = ([], p)"
| "pickRun cfg model excluded now (Suc n) p =
     (case GetNextForModelExcluding cfg model excluded now p of
        (None, p') \<Rightarrow> pickRun cfg model excluded now n p'
      | (Some acc, p') \<Rightarrow>
          let (ids, q) = pickRun cfg model excluded now n p' in (acc_ID acc # ids, q))"

text \<open>The candidates depend on fields that a committed selection does not touch.\<close>

definition sameCandidates :: "AccountPool \<Rightarrow> AccountPool \<Rightarrow> bool" where
  "sameCandidates p q \<longleftrightarrow> accounts q = accounts p \<and> cooldowns q = cooldowns p \<and>
     modelNegative q = modelNegative p \<and> refreshFailures q = refreshFailures p"

lemma sameCandidates_refl [simp]: "sameCandidates p p"
  by (simp add: sameCandidates_def)

lemma sameCandidates_trans: "sameCandidates p q \<Longrightarrow> sameCandidates q r \<Longrightarrow> sameCandidates p r"
  by (simp add: sameCandidates_def)

lemma sameCandidates_commit: "sameCandidates p (commitWeightedSelectionLocked cfg sel idxs p)"
  by (auto simp: sameCandidates_def commitWeightedSelectionLocked_def Let_def split: prod.split)

lemma sameCandidates_selectable:
  "sameCandidates p q \<Longrightarrow>
   accountSelectableBasicLocked cfg q acc model excluded now fb =
   accountSelectableBasicLocked cfg p acc model excluded now fb"
  unfolding accountSelectableBasicLocked_def accountHasModel_def by (simp only: sameCandidates_def)

lemma sameCandidates_indexes:
  "sameCandidates p q \<Longrightarrow>
   selectionIndexesForTokenStateLocked cfg q model excluded now fb =
   selectionIndexesForTokenStateLocked cfg p model excluded now fb"
  unfolding selectionIndexesForTokenStateLocked_def
  by (simp add: sameCandidates_selectable) (simp add: sameCandidates_def)

lemma sameCandidates_set:
  "sameCandidates p q \<Longrightarrow>
   mset (selectionIndexesLocked cfg q model excluded now) = mset (selectionIndexesLocked cfg p model excluded now)"
  by (simp add: selectionIndexesLocked_def Let_def sameCandidates_indexes)

definition score :: "AccountPool \<Rightarrow> nat \<Rightarrow> int" where
  "score p i = gm_zero 0 (weightedCurrent p) (acc_ID (accounts p ! i)) + weightOf p i"

lemma weightedSelection_maximal:
  assumes "cfg_LoadBalancingMode cfg = ''weighted''"
    and "selectionIndexesLocked cfg p model excluded now = i # rest" and "j \<in> set (i # rest)"
  shows "score p j \<le> score p i"
proof -
  obtain cand where cand: "i # rest = sort_stable (lessWeighted p model) cand"
    using assms(1,2) unfolding selectionIndexesLocked_def orderSelectionIndexesLocked_def Let_def by simp metis
  with assms(3) have "cand \<noteq> []" "j \<in> set cand"
    by (metis list.distinct(1) sort_stable_Nil, metis set_sort_stable)
  from wrr.hd_sort_stable_minimal [OF this, of p model] have "\<not> lessWeighted p model j i"
    by (simp flip: cand)
  then show ?thesis by (auto simp: lessWeighted_def Let_def score_def weightOf_def split: if_splits)
qed

text \<open>
  The ledger after \<open>t\<close> selections from the candidates \<open>E\<close>: every score is \<open>t\<close> times the weight
  less the total weight for each time the account was served, nobody is served more than one
  turn ahead of its share, and every selection served one of the candidates.
\<close>

definition swrrInv :: "nat list \<Rightarrow> nat \<Rightarrow> (string \<Rightarrow> nat) \<Rightarrow> AccountPool \<Rightarrow> bool" where
  "swrrInv E t served p \<longleftrightarrow>
     (let tw = (\<Sum>i\<leftarrow>E. weightOf p i) in
      (\<forall>i \<in> set E. let n = int (served (acc_ID (accounts p ! i))) in
         gm_zero 0 (weightedCurrent p) (acc_ID (accounts p ! i)) = int t * weightOf p i - tw * n \<and>
         tw * n < int t * weightOf p i + tw) \<and>
      (\<Sum>i\<leftarrow>E. served (acc_ID (accounts p ! i))) = t)"

lemma sum_list_at:
  fixes f :: "nat \<Rightarrow> int"
  assumes "distinct xs" "x \<in> set xs" "inj_on g (set xs)"
  shows "(\<Sum>i\<leftarrow>xs. if g i = g x then f i else 0) = f x"
  using assms
proof (induction xs)
  case (Cons y ys)
  have zero: "(\<Sum>i\<leftarrow>ys. if g i = g x then f i else 0) = 0" if "x \<notin> set ys"
  proof -
    have "(\<Sum>i\<leftarrow>ys. if g i = g x then f i else 0) = (\<Sum>i\<leftarrow>ys. 0)"
      using that Cons.prems(2,3) by (intro arg_cong [where f = sum_list] map_cong) (auto simp: inj_on_def)
    then show ?thesis by simp
  qed
  from Cons zero show ?case by (cases "x = y") (auto simp: inj_on_def)
qed simp

lemma sum_list_served_upd:
  assumes "distinct xs" "x \<in> set xs" "inj_on g (set xs)"
  shows "(\<Sum>i\<leftarrow>xs. (served(g x := Suc (served (g x)))) (g i)) = Suc (\<Sum>i\<leftarrow>xs. served (g i))"
  using assms
proof (induction xs)
  case (Cons y ys)
  have same: "(\<Sum>i\<leftarrow>ys. (served(g x := Suc (served (g x)))) (g i)) = (\<Sum>i\<leftarrow>ys. served (g i))" if "x \<notin> set ys"
    using that Cons.prems(2,3) by (intro arg_cong [where f = sum_list] map_cong) (auto simp: inj_on_def)
  from Cons same show ?case by (cases "x = y") (auto simp: inj_on_def)
qed simp

lemma sum_weightOf_pos: "xs \<noteq> [] \<Longrightarrow> 0 < (\<Sum>i\<leftarrow>xs. weightOf p i)"
  by (induction xs rule: list_nonempty_induct) (auto simp: weightOf_def add_pos_pos)

lemma int_sum_list: "int (\<Sum>x\<leftarrow>xs. f x) = (\<Sum>x\<leftarrow>xs. int (f x))"
  by (induction xs) auto

lemma swrr_scores_sum:
  assumes "swrrInv E t served p"
  shows "(\<Sum>i\<leftarrow>E. score p i) = (\<Sum>i\<leftarrow>E. weightOf p i)"
proof -
  let ?tw = "\<Sum>i\<leftarrow>E. weightOf p i"
  have "(\<Sum>i\<leftarrow>E. score p i) =
      (\<Sum>i\<leftarrow>E. (int t * weightOf p i - ?tw * int (served (acc_ID (accounts p ! i)))) + weightOf p i)"
    using assms by (intro arg_cong [where f = sum_list] map_cong) (auto simp: swrrInv_def score_def Let_def)
  also have "\<dots> = int t * ?tw - ?tw * int (\<Sum>i\<leftarrow>E. served (acc_ID (accounts p ! i))) + ?tw"
    by (simp add: sum_list_addf sum_list_subtractf sum_list_const_mult int_sum_list)
  also have "(\<Sum>i\<leftarrow>E. served (acc_ID (accounts p ! i))) = t"
    using assms by (simp add: swrrInv_def Let_def)
  finally show ?thesis by simp
qed

lemma swrr_selected_positive:
  assumes "cfg_LoadBalancingMode cfg = ''weighted''" "swrrInv E t served p" "set E = set (i # rest)"
    and "selectionIndexesLocked cfg p model excluded now = i # rest"
  shows "0 < score p i"
proof (rule ccontr)
  assume "\<not> 0 < score p i"
  then have "\<forall>j \<in> set E. score p j \<le> 0"
    using weightedSelection_maximal [OF assms(1,4)] assms(3) by fastforce
  then have "(\<Sum>j\<leftarrow>E. score p j) \<le> 0" by (induction E) auto
  moreover have "0 < (\<Sum>j\<leftarrow>E. weightOf p j)" using assms(3) by (intro sum_weightOf_pos) auto
  ultimately show False using swrr_scores_sum [OF assms(2)] by simp
qed

lemma swrr_step:
  assumes mode: "cfg_LoadBalancingMode cfg = ''weighted''"
    and inv: "swrrInv E t served p" and E: "mset E = mset (i # rest)" "distinct E"
    and ids: "inj_on (\<lambda>i. acc_ID (accounts p ! i)) (set E)" "\<forall>i \<in> set E. acc_ID (accounts p ! i) \<noteq> ''''"
    and sel: "selectionIndexesLocked cfg p model excluded now = i # rest"
  defines "aid \<equiv> acc_ID (accounts p ! i)"
  shows "swrrInv E (Suc t) (served(aid := Suc (served aid))) (commitWeightedSelectionLocked cfg aid (i # rest) p)"
proof -
  let ?p' = "commitWeightedSelectionLocked cfg aid (i # rest) p"
  let ?tw = "\<Sum>i\<leftarrow>E. weightOf p i"
  have setE: "set E = set (i # rest)" using E(1) by (metis set_mset_mset)
  have perm: "(\<Sum>k\<leftarrow>i # rest. f k) = (\<Sum>k\<leftarrow>E. f k)" for f :: "nat \<Rightarrow> int"
    using E(1) by (metis mset_map sum_mset_sum_list)
  have range: "\<forall>k \<in> set (i # rest). k < length (accounts p)"
    using selectionIndexes_sound(1) [of _ cfg p model excluded now] sel by metis
  have cur: "gm_zero 0 (weightedCurrent ?p') (acc_ID (accounts p ! j)) =
      gm_zero 0 (weightedCurrent p) (acc_ID (accounts p ! j)) + weightOf p j - (if j = i then ?tw else 0)"
    if "j \<in> set E" for j
    using commitWeighted_current [OF mode _ _ range, of aid "acc_ID (accounts p ! j)"] ids that setE
      sum_list_at [OF E(2) that ids(1), of "weightOf p"]
    unfolding perm by (auto simp: aid_def inj_on_def)
  have w': "weightOf ?p' = weightOf p" by (simp add: weightOf_def pool_frame fun_eq_iff)
  have pos: "0 < score p i" by (rule swrr_selected_positive [OF mode inv setE sel])
  have served: "(\<Sum>k\<leftarrow>E. (served(aid := Suc (served aid))) (acc_ID (accounts p ! k))) = Suc t"
    using sum_list_served_upd [OF E(2) _ ids(1), of i served] inv setE
    by (simp add: aid_def swrrInv_def Let_def del: fun_upd_apply)
  have "\<forall>j \<in> set E. let n = int ((served(aid := Suc (served aid))) (acc_ID (accounts p ! j))) in
      gm_zero 0 (weightedCurrent ?p') (acc_ID (accounts p ! j)) = int (Suc t) * weightOf p j - ?tw * n \<and>
      ?tw * n < int (Suc t) * weightOf p j + ?tw"
  proof
    fix j assume j: "j \<in> set E"
    let ?n = "int (served (acc_ID (accounts p ! j)))"
    from inv j have old: "gm_zero 0 (weightedCurrent p) (acc_ID (accounts p ! j)) = int t * weightOf p j - ?tw * ?n"
      "?tw * ?n < int t * weightOf p j + ?tw" by (simp_all add: swrrInv_def Let_def)
    have wpos: "0 < weightOf p j" by (simp add: weightOf_def)
    show "let n = int ((served(aid := Suc (served aid))) (acc_ID (accounts p ! j))) in
      gm_zero 0 (weightedCurrent ?p') (acc_ID (accounts p ! j)) = int (Suc t) * weightOf p j - ?tw * n \<and>
      ?tw * n < int (Suc t) * weightOf p j + ?tw"
    proof (cases "j = i")
      case True
      from pos old(1) True have "?tw * ?n < int (Suc t) * weightOf p j"
        by (simp add: score_def algebra_simps)
      with True old cur [OF j] show ?thesis by (simp add: aid_def Let_def algebra_simps)
    next
      case False
      with ids(1) j setE have "acc_ID (accounts p ! j) \<noteq> aid" by (auto simp: inj_on_def aid_def)
      with False old cur [OF j] wpos show ?thesis by (simp add: Let_def algebra_simps)
    qed
  qed
  with served show ?thesis by (simp add: swrrInv_def w' pool_frame Let_def del: fun_upd_apply)
qed

text \<open>The invariant over a run of selections.\<close>

lemma swrr_run:
  assumes mode: "cfg_LoadBalancingMode cfg = ''weighted''" and E: "E \<noteq> []" "distinct E"
    and ids: "inj_on (\<lambda>i. acc_ID (accounts p ! i)) (set E)" "\<forall>i \<in> set E. acc_ID (accounts p ! i) \<noteq> ''''"
  shows "mset (selectionIndexesLocked cfg p model excluded now) = mset E \<Longrightarrow> swrrInv E t served p \<Longrightarrow>
    swrrInv E (t + n) (\<lambda>a. served a + count_list (fst (pickRun cfg model excluded now n p)) a)
      (snd (pickRun cfg model excluded now n p)) \<and>
    accounts (snd (pickRun cfg model excluded now n p)) = accounts p"
  using ids
proof (induction n arbitrary: p t served)
  case 0
  then show ?case by simp
next
  case (Suc n)
  obtain i rest where sel: "selectionIndexesLocked cfg p model excluded now = i # rest"
    using Suc.prems(1) E(1) by (metis list.exhaust mset_zero_iff)
  let ?aid = "acc_ID (accounts p ! i)"
  let ?p' = "commitWeightedSelectionLocked cfg ?aid (i # rest) p"
  have "accounts p \<noteq> []" using selectionIndexes_sound(1) [of i cfg p model excluded now] sel by auto
  then have next1: "GetNextForModelExcluding cfg model excluded now p = (Some (accounts p ! i), ?p')"
    by (simp add: GetNextForModelExcluding_def sel)
  have acs: "accounts ?p' = accounts p" by (simp add: pool_frame)
  have E': "mset E = mset (i # rest)" using Suc.prems(1) sel by metis
  have cand: "mset (selectionIndexesLocked cfg ?p' model excluded now) = mset E"
    using sameCandidates_set [OF sameCandidates_commit] Suc.prems(1) by metis
  have "swrrInv E (Suc t) (served(?aid := Suc (served ?aid))) ?p'"
    by (rule swrr_step [OF mode Suc.prems(2) E' E(2) Suc.prems(3,4) sel])
  from Suc.IH [OF cand this] acs Suc.prems(3,4)
  have "swrrInv E (Suc t + n)
      (\<lambda>a. (served(?aid := Suc (served ?aid))) a + count_list (fst (pickRun cfg model excluded now n ?p')) a)
      (snd (pickRun cfg model excluded now n ?p'))"
    and "accounts (snd (pickRun cfg model excluded now n ?p')) = accounts p" by simp_all
  moreover have "(\<lambda>a. (served(?aid := Suc (served ?aid))) a + count_list ids a) =
      (\<lambda>a. served a + count_list (?aid # ids) a)" for ids by (auto simp: fun_eq_iff)
  ultimately show ?case by (simp add: next1 Let_def split_beta del: count_list.simps fun_upd_apply)
qed

lemma sum_list_le_eq:
  fixes f g :: "'a \<Rightarrow> int"
  assumes "\<forall>x \<in> set xs. f x \<le> g x" "(\<Sum>x\<leftarrow>xs. f x) = (\<Sum>x\<leftarrow>xs. g x)" "x \<in> set xs"
  shows "f x = g x"
  using assms
proof (induction xs)
  case (Cons y ys)
  have "(\<Sum>x\<leftarrow>ys. f x) \<le> (\<Sum>x\<leftarrow>ys. g x)" using Cons.prems(1) by (intro sum_list_mono) auto
  with Cons show ?case by auto
qed simp

end
