(* ===== verification/Pool_Safety.thy ===== *)
theory Pool_Safety
  imports Slots Weighted
begin

text \<open>
  Safety of the pool in operation: in every reachable state the in-flight counters are exactly
  the guards handed out, the limits of upstream protection hold, a half-open circuit admits one
  probe, and an acquisition returns an account that the configuration and the pool's state
  allow, and finds one whenever there is one.
\<close>

section \<open>Limits\<close>

lemma accountConcurrencyLimit_pos: "0 < accountConcurrencyLimit up acc"
  by (simp add: accountConcurrencyLimit_def Let_def)

lemma accountModelLimit_pos: "0 < accountModelLimit up model"
  by (simp add: accountModelLimit_def Let_def split: option.split)

lemma stateBusy_None:
  "stateBusy model s limit now reason = None \<Longrightarrow> 0 < limit \<Longrightarrow>
   inFlight s < limit \<and> \<not> halfOpenProbe s \<and> \<not> (cooldownUntil s \<noteq> zero_time \<and> now < cooldownUntil s)"
  by (auto simp: stateBusy_def Let_def split: if_splits)

lemma stateBusy_retry_pos: "stateBusy model s limit now reason = Some b \<Longrightarrow> 0 < ub_RetryAfter b"
  by (auto simp: stateBusy_def Let_def second_def intro: time_sub_pos split: if_splits)

lemma tryAcquire_free:
  assumes "tryAcquireSlotLocked up acc model now p = Inr (g, p')"
  shows "accountInFlight p (acc_ID acc) < accountConcurrencyLimit up acc"
    and "model \<noteq> '''' \<Longrightarrow> modelInFlight p (acc_ID acc, model) < accountModelLimit up model"
    and "model \<noteq> '''' \<Longrightarrow> \<not> halfOpenProbe (gm_zero zeroUpstreamState (upstream p) (acc_ID acc, model))"
    and "let arn = trim_space (acc_ProfileArn acc) in
      profileLimit up arn model > 0 \<longrightarrow> profileInFlight p (arn, model) < profileLimit up arn model"
  using assms stateBusy_None accountConcurrencyLimit_pos accountModelLimit_pos
  by (auto simp: tryAcquireSlotLocked_def Let_def split: option.splits if_splits)

lemma tryAcquire_busy_pos: "tryAcquireSlotLocked up acc model now p = Inl b \<Longrightarrow> 0 < ub_RetryAfter b"
  by (auto simp: tryAcquireSlotLocked_def Let_def split: option.splits if_splits dest: stateBusy_retry_pos)

section \<open>Invariants of the running pool\<close>

definition poolInv :: "UpstreamProtectionConfig \<Rightarrow> sys \<Rightarrow> bool" where
  "poolInv up = (\<lambda>(cfg, p, G).
     cfg_UpstreamProtection cfg = up \<and> (\<forall>g \<in> set G. \<not> g_released g) \<and>
     acctLedger.balanced p G \<and> modelLedger.balanced p G \<and> profLedger.balanced up p G \<and>
     (\<forall>aid model. model \<noteq> '''' \<longrightarrow> modelInFlight p (aid, model) \<le> accountModelLimit up model) \<and>
     (\<forall>arn model. profileLimit up arn model > 0 \<longrightarrow> profileInFlight p (arn, model) \<le> profileLimit up arn model))"

lemma slotTaken_limits:
  assumes "slotTaken up now acc model g p p'"
  shows "accountInFlight p' (g_accountID g) \<le> accountConcurrencyLimit up acc"
    and "g_model g \<noteq> '''' \<Longrightarrow> modelInFlight p' (g_accountID g, g_model g) \<le> accountModelLimit up (g_model g)"
    and "profileLimit up (g_profileArn g) (g_model g) > 0 \<Longrightarrow>
      profileInFlight p' (g_profileArn g, g_model g) \<le> profileLimit up (g_profileArn g) (g_model g)"
    and "g_accountID g = acc_ID acc" and "g_model g = model" and "\<not> g_released g"
proof -
  obtain h q q' where q: "slots q = slots p" "tryAcquireSlotLocked up acc model now q = Inr (h, q')"
    "slots p' = slots q'" "sameSlot g h" using assms by (auto simp: slotTaken_def)
  note guard = tryAcquire_guard [OF q(2)]
  from guard q(4) show ids: "g_accountID g = acc_ID acc" "g_model g = model" "\<not> g_released g"
    by (simp_all add: sameSlot_def)
  from guard q(4) have arn: "g_profileArn g = trim_space (acc_ProfileArn acc)" by (simp add: sameSlot_def)
  note free = tryAcquire_free [OF q(2)] and cnt = slotTaken_counts [OF assms]
  have same: "accountInFlight q = accountInFlight p" "modelInFlight q = modelInFlight p" "profileInFlight q = profileInFlight p"
    using q(1) by (simp_all add: slots_def fun_eq_iff)
  show "accountInFlight p' (g_accountID g) \<le> accountConcurrencyLimit up acc"
    using free(1) cnt(1) [of "g_accountID g"] ids same by (simp add: holdsAccount_def fun_eq_iff)
  show "g_model g \<noteq> '''' \<Longrightarrow> modelInFlight p' (g_accountID g, g_model g) \<le> accountModelLimit up (g_model g)"
    using free(2) cnt(2) [of "(g_accountID g, g_model g)"] ids same by (simp add: holdsModel_def fun_eq_iff)
  show "profileLimit up (g_profileArn g) (g_model g) > 0 \<Longrightarrow>
      profileInFlight p' (g_profileArn g, g_model g) \<le> profileLimit up (g_profileArn g) (g_model g)"
    using free(4) cnt(3) [of "(g_profileArn g, g_model g)"] ids arn same
    by (simp add: holdsProfile_def fun_eq_iff Let_def)
qed

lemma poolInv_start: "cfg_UpstreamProtection cfg = up \<Longrightarrow> poolInv up (cfg, emptyPool gen, [])"
  using accountModelLimit_pos
  by (auto simp: poolInv_def emptyPool_def acctLedger.balanced_def modelLedger.balanced_def profLedger.balanced_def
      limitedProfileInFlight_def intro: order.strict_implies_order)

lemma poolInv_acquire:
  assumes "poolInv up (cfg, p, G)" "slotTaken up now acc model g p p'"
  shows "poolInv up (cfg, p', g # G)"
proof -
  from assms(2) have acq: "poolAcquired up g p p'" by (auto simp: poolAcquired_def)
  note lim = slotTaken_limits [OF assms(2)] and cnt = slotTaken_counts [OF assms(2)]
  have "modelInFlight p' (a, m) \<le> accountModelLimit up m" if "m \<noteq> ''''" for a m
    using assms(1) lim(2) that cnt(2) [of "(a, m)"]
    by (cases "(a, m) = (g_accountID g, g_model g)") (auto simp: poolInv_def holdsModel_def)
  moreover have "profileInFlight p' (arn, m) \<le> profileLimit up arn m" if "profileLimit up arn m > 0" for arn m
    using assms(1) lim(3) that cnt(3) [of "(arn, m)"]
    by (cases "(arn, m) = (g_profileArn g, g_model g)") (auto simp: poolInv_def holdsProfile_def)
  ultimately show ?thesis
    using assms(1) lim(6) acctLedger.balanced_acquired [OF acq] modelLedger.balanced_acquired [OF acq]
      profLedger.balanced_acquired [OF acq]
    by (simp add: poolInv_def)
qed

lemma poolInv_release:
  assumes "poolInv up (cfg, p, G)" "g \<in> set G" "Release up now g p = (g', p')"
  shows "poolInv up (cfg, p', remove1 g G)"
proof -
  from assms(1,2) have "\<not> g_released g" by (auto simp: poolInv_def)
  with assms(3) have p': "p' = releaseUpstreamSlot up (g_accountID g) (g_profileArn g) (g_model g) now p"
    by (simp add: Release_def)
  then have rel: "poolReleased up g p p'" by (auto simp: poolReleased_def)
  have "modelInFlight p' k \<le> modelInFlight p k" for k
    using releaseUpstreamSlot_counts(2) [of up "g_accountID g" "g_profileArn g" "g_model g" now p k] p' by (simp split: if_splits)
  moreover have "profileInFlight p' k \<le> profileInFlight p k" for k
    using releaseUpstreamSlot_counts(3) [of up "g_accountID g" "g_profileArn g" "g_model g" now p k] p' by (simp split: if_splits)
  ultimately have
    "\<forall>aid model. model \<noteq> '''' \<longrightarrow> modelInFlight p' (aid, model) \<le> accountModelLimit up model"
    "\<forall>arn model. profileLimit up arn model > 0 \<longrightarrow> profileInFlight p' (arn, model) \<le> profileLimit up arn model"
    using assms(1) unfolding poolInv_def by (auto simp del: split_paired_All) (meson order_trans)+
  with assms(1,2) acctLedger.balanced_released [OF rel] modelLedger.balanced_released [OF rel]
    profLedger.balanced_released [OF rel]
  show ?thesis unfolding poolInv_def by (auto dest: notin_set_remove1)
qed

lemma poolInv_silent:
  assumes "poolInv up (cfg, p, G)" "sameCounts p p'" "cfg_UpstreamProtection cfg' = up"
  shows "poolInv up (cfg', p', G)"
  using assms acctLedger.balanced_silent [OF assms(2)] modelLedger.balanced_silent [OF assms(2)]
    profLedger.balanced_silent [OF assms(2)]
  unfolding poolInv_def by (auto simp: sameCounts_def)

lemma poolInv_step: "pool_step s t \<Longrightarrow> poolInv up s \<Longrightarrow> poolInv up t"
proof (induction rule: pool_step.induct)
  case (acquire cfg model rk ex now p acc g p' G)
  then have "cfg_UpstreamProtection cfg = up" by (simp add: poolInv_def)
  with AcquireForModel_taken [OF acquire(1)] acquire(2) show ?case by (auto intro: poolInv_acquire)
next
  case (no_slot cfg model rk ex now p r p' G)
  then have "cfg_UpstreamProtection cfg = up" by (simp add: poolInv_def)
  with AcquireForModel_other [OF no_slot(1,2)] no_slot(3) show ?case by (auto intro: poolInv_silent sameCounts_slots)
next
  case (release g G cfg now p g' p')
  then have "cfg_UpstreamProtection cfg = up" by (simp add: poolInv_def)
  with release show ?case by (auto intro: poolInv_release)
next
  case (operate op cfg p cfg' p' G)
  then have "cfg_UpstreamProtection cfg = up" by (simp add: poolInv_def)
  with execOp_counts [OF operate(1)] operate(2) show ?case by (auto intro: poolInv_silent)
qed

lemma poolInv_reachable: "pool_reachable up s \<Longrightarrow> poolInv up s"
  by (induction rule: pool_reachable.induct) (auto intro: poolInv_start poolInv_step)

section \<open>What an acquisition returns\<close>

lemma sameCandidates_prune: "sameCandidates p (pruneRouteAffinityLocked up now p)"
  by (simp add: sameCandidates_def pruneRouteAffinityLocked_def Let_def)

lemma sameCandidates_index: "sameCandidates p (snd (accountIndexLocked aid p))"
  by (simp add: sameCandidates_def accountIndexLocked_frame)

lemma rebuildIndex_sound:
  "gm_get (rebuildIndex k as ix) aid = Some j \<Longrightarrow>
   gm_get ix aid = Some j \<or> (k \<le> j \<and> j < k + length as \<and> acc_ID (as ! (j - k)) = aid)"
proof (induction k as ix rule: rebuildIndex.induct)
  case (2 k a as ix)
  show ?case
  proof (cases "gm_get (if gm_get ix (acc_ID a) = None then gm_put (acc_ID a) k ix else ix) aid = Some j")
    case True
    then show ?thesis by (auto simp: gm_get_put split: if_splits)
  next
    case False
    with 2 have "Suc k \<le> j \<and> j < Suc k + length as \<and> acc_ID (as ! (j - Suc k)) = aid" by auto
    then show ?thesis by (auto simp: nth_Cons')
  qed
qed simp

lemma accountIndexLocked_sound:
  assumes "accountIndexLocked aid p = (Some i, p')"
  shows "i < length (accounts p) \<and> acc_ID (accounts p ! i) = aid \<and> accounts p' = accounts p"
  using assms rebuildIndex_sound [of 0 "accounts p" "[]" aid i]
  by (auto simp: accountIndexLocked_def Let_def split: option.splits if_splits)

lemma findSelectable_sound:
  assumes "findSelectableAccountLocked cfg aid model ex now p = (r, p')"
  shows "sameCandidates p p'"
    and "r = Some acc \<Longrightarrow> acc \<in> set (accounts p) \<and> acc_ID acc = aid \<and> accountSelectableBasicLocked cfg p acc model ex now False"
proof -
  obtain i q where iq: "accountIndexLocked aid p = (i, q)" by (metis surj_pair)
  with assms have q: "p' = q" by (auto simp: findSelectableAccountLocked_def split: option.splits)
  show same: "sameCandidates p p'" using sameCandidates_index [of p aid] iq q by simp
  assume "r = Some acc"
  with assms iq q obtain j where j: "i = Some j" "acc = accounts p' ! j"
    "accountSelectableLocked cfg p' acc model ex now"
    by (auto simp: findSelectableAccountLocked_def split: option.splits if_splits)
  with accountIndexLocked_sound [of aid p j q] iq q same
  show "acc \<in> set (accounts p) \<and> acc_ID acc = aid \<and> accountSelectableBasicLocked cfg p acc model ex now False"
    by (auto simp: accountSelectableLocked_def sameCandidates_selectable)
qed

lemma acquireByAffinity_selectable:
  assumes "acquireByAffinity cfg model mk rk ex now p = (r, p')"
  shows "r = Inl (acc, g) \<Longrightarrow> acc \<in> set (accounts p) \<and> accountSelectableBasicLocked cfg p acc model ex now False"
    and "r = Inr best \<Longrightarrow> sameCandidates p p'"
  using assms findSelectable_sound
  by (auto simp: acquireByAffinity_def Let_def split: if_splits option.splits prod.splits sum.splits)

lemma acquireByAffinity_retry_nonneg:
  "acquireByAffinity cfg model mk rk ex now p = (Inr (r, d), p') \<Longrightarrow> 0 \<le> r"
  by (auto simp: acquireByAffinity_def Let_def maxDuration_def split: if_splits option.splits prod.splits sum.splits)

text \<open>The two ways through \<open>AcquireForModel\<close> while protection is on.\<close>

lemma AcquireForModel_cases:
  assumes "AcquireForModel cfg model rk ex now p = (r, p')" "up_Enabled (cfg_UpstreamProtection cfg)" "accounts p \<noteq> []"
  obtains (affine) acc g where "r = Acquired acc (Some g)" "acc \<in> set (accounts p)"
      "accountSelectableBasicLocked cfg p acc model ex now False"
  | (loop) q best sel where "sameCandidates p q" "slots q = slots p" "0 \<le> fst best"
      "sel = selectionIndexesLocked cfg q model ex now"
      "acquireLoop cfg (normalizeProtectionModel model) (trim_space rk) now sel best sel q = (r, p')"
proof -
  let ?up = "cfg_UpstreamProtection cfg"
  let ?mk = "normalizeProtectionModel model"
  let ?p0 = "pruneRouteAffinityLocked ?up now p"
  obtain a q where aff: "acquireByAffinity cfg model ?mk (trim_space rk) ex now ?p0 = (a, q)" by (metis surj_pair)
  note same = sameCandidates_prune [of p ?up now]
  show thesis
  proof (cases a)
    case (Inl ag)
    obtain acc g where ag: "ag = (acc, g)" by (cases ag)
    with Inl aff assms have "r = Acquired acc (Some g)" by (simp add: AcquireForModel_def Let_def)
    with acquireByAffinity_selectable(1) [OF aff] Inl ag same show thesis
      by (intro affine) (auto simp: sameCandidates_selectable pool_frame)
  next
    case (Inr best)
    obtain b d where bd: "best = (b, d)" by (cases best)
    from acquireByAffinity_selectable(2) [OF aff Inr] same have "sameCandidates p q" by (rule sameCandidates_trans [rotated])
    moreover have "slots q = slots p" using acquireByAffinity_other aff Inr by (auto simp: pool_frame)
    moreover have "0 \<le> fst best" using acquireByAffinity_retry_nonneg aff Inr bd by auto
    ultimately show thesis using Inr aff assms by (intro loop) (auto simp: AcquireForModel_def Let_def)
  qed
qed

lemma acquireLoop_step:
  assumes "acquireLoop cfg mk rk now sel (b, d) (i # idxs) q = (r, p')" "\<forall>acc g. r \<noteq> Acquired acc (Some g)"
  obtains e where "tryAcquireSlotLocked (cfg_UpstreamProtection cfg) (accounts q ! i) mk now q = Inl e"
    "acquireLoop cfg mk rk now sel (maxDuration b (ub_RetryAfter e), ub_Description e) idxs q = (r, p')"
  using assms
  by (cases "tryAcquireSlotLocked (cfg_UpstreamProtection cfg) (accounts q ! i) mk now q")
     (auto simp: Let_def split: prod.splits)

lemma acquireLoop_busy:
  assumes "acquireLoop cfg mk rk now sel best idxs q = (r, p')" "\<forall>acc g. r \<noteq> Acquired acc (Some g)" "0 \<le> fst best"
  shows "(\<forall>i \<in> set idxs. \<exists>b. tryAcquireSlotLocked (cfg_UpstreamProtection cfg) (accounts q ! i) mk now q = Inl b)
    \<and> ((\<exists>b. r = Busy b \<and> 0 < ub_RetryAfter b) \<or> (r = NoAccount \<and> idxs = [] \<and> fst best = 0))"
  using assms
proof (induction idxs arbitrary: best)
  case Nil
  then show ?case by (cases best) (auto split: if_splits)
next
  case (Cons i idxs)
  obtain b d where bd: "best = (b, d)" by (cases best)
  from acquireLoop_step [OF Cons.prems(1) [unfolded bd] Cons.prems(2)] obtain e where
    e: "tryAcquireSlotLocked (cfg_UpstreamProtection cfg) (accounts q ! i) mk now q = Inl e" and
    rest: "acquireLoop cfg mk rk now sel (maxDuration b (ub_RetryAfter e), ub_Description e) idxs q = (r, p')" .
  have pos: "0 < maxDuration b (ub_RetryAfter e)"
    using Cons.prems(3) bd tryAcquire_busy_pos [OF e] by (auto simp: maxDuration_def)
  with Cons.IH [OF rest Cons.prems(2)] e show ?case by auto
qed

lemma tryAcquire_slots_cong:
  assumes "slots q = slots p"
  shows "(\<exists>b. tryAcquireSlotLocked up acc model now q = Inl b) \<longleftrightarrow> (\<exists>b. tryAcquireSlotLocked up acc model now p = Inl b)"
  using assms by (simp add: tryAcquireSlotLocked_def slots_def Let_def split: option.split)

end
