(* ===== verification/Pool_Properties.thy ===== *)
theory Pool_Properties
  imports Pool_Safety
begin

text \<open>
  The properties of the account pool, each with an instance on a small concrete pool.
\<close>

section \<open>A concrete pool\<close>

definition demoProtection :: UpstreamProtectionConfig where
  "demoProtection = \<lparr>up_Enabled = True, up_MaxPerAccountConcurrency = 4, up_MaxPerAccountModelConcurrency = 2,
     up_ConcurrencyMode = ''hard'', up_SoftMaxPerAccountConcurrency = 4, up_SoftMaxPerAccountModelConcurrency = 2,
     up_QueueCapacity = 1, up_PerModelConcurrency = [(''m'', 1)], up_PerProfileModelConcurrency = [],
     up_RateLimitCooldownMs = 2000, up_MaxRateLimitCooldownMs = 60000,
     up_RouteAffinityTTLSeconds = 3600, up_RouteAffinityMaxEntries = 2\<rparr>"

definition demoAccount :: "string \<Rightarrow> int \<Rightarrow> Account" where
  "demoAccount aid weight = \<lparr>acc_ID = aid, acc_Email = '''', acc_UserId = '''', acc_AccessToken = ''tok'',
     acc_RefreshToken = ''r'', acc_KiroApiKey = '''', acc_CredentialFingerprint = '''', acc_AuthMethod = ''social'',
     acc_Provider = '''', acc_Region = '''', acc_ExpiresAt = 0, acc_ProfileArn = '''', acc_ProxyURL = '''',
     acc_Weight = weight, acc_Priority = 0, acc_MaxConcurrency = 0, acc_OverageStatus = '''', acc_Enabled = True,
     acc_BanStatus = '''', acc_BanReason = '''', acc_BanTime = 0, acc_UsageCurrent = 0, acc_UsageLimit = 0,
     acc_RequestCount = 0, acc_ErrorCount = 0, acc_TotalTokens = 0, acc_TotalCredits = 0, acc_LastUsed = 0\<rparr>"

definition demoConfig :: Config where
  "demoConfig = \<lparr>cfg_Accounts = [demoAccount ''a'' 2, demoAccount ''b'' 1], cfg_Generation = 1,
     cfg_AllowOverUsage = False, cfg_LoadBalancingMode = ''weighted'', cfg_TokenRefreshBeforeSeconds = 120,
     cfg_NegativeCacheTTLSeconds = 3600, cfg_UpstreamProtection = demoProtection\<rparr>"

definition demoPool :: AccountPool where
  "demoPool = (emptyPool 1)\<lparr>accounts := [demoAccount ''a'' 2, demoAccount ''b'' 1],
     accountIndex := [(''a'', 0), (''b'', 1)], totalAccounts := 2\<rparr>"

lemmas demo_defs = demoProtection_def demoAccount_def demoConfig_def demoPool_def emptyPool_def

lemma demo_Reload: "Reload True (demoConfig, emptyPool 1) = (demoConfig, demoPool)"
  by (simp add: demo_defs Reload_def flushAccountStats_def UpdateAccountStatsBatch_def GetEnabledAccounts_def
      isQuotaBlocked_def isOverUsageLimit_def effectiveWeight_def maxAccountWeight_def signalAvailabilityLocked_def Let_def)

lemma demo_selectable:
  "w = 1 \<or> w = 2 \<Longrightarrow> accountSelectableBasicLocked demoConfig demoPool (demoAccount aid w) model [] now fb"
  by (auto simp: demo_defs accountSelectableBasicLocked_def accountHasModel_def accountTokenNeedsRefresh_def
      isQuotaBlocked_def isOverUsageLimit_def trim_space_def is_space_def)

lemma demo_indexes: "selectionIndexesLocked demoConfig demoPool model [] now = [0, 1]"
proof -
  have m: "cfg_LoadBalancingMode demoConfig = ''weighted''" by (simp add: demo_defs)
  have a: "accounts demoPool = [demoAccount ''a'' 2, demoAccount ''b'' 1]" by (simp add: demo_defs)
  have w: "weightedCurrent demoPool = []" by (simp add: demo_defs)
  have "selectionIndexesForTokenStateLocked demoConfig demoPool model [] now False = [0, 1]"
    by (simp add: selectionIndexesForTokenStateLocked_def m a demo_selectable upt_rec)
  then show ?thesis
    by (simp add: selectionIndexesLocked_def orderSelectionIndexesLocked_def m a w sort_stable_def lessWeighted_def
        demoAccount_def effectiveWeight_def maxAccountWeight_def)
qed

text \<open>One acquisition on it: the guard that is handed out and the pool that is left.\<close>

definition demoGuard :: UpstreamRequestGuard where
  "demoGuard = \<lparr>g_accountID = ''a'', g_profileArn = '''', g_model = ''m'', g_affinityHit = False,
     g_routeKey = '''', g_routeSeen = time_unix 1000, g_released = False\<rparr>"

definition demoBusyPool :: AccountPool where
  "demoBusyPool = demoPool\<lparr>currentIndex := 1, accountUpstream := [(''a'', zeroUpstreamState\<lparr>inFlight := 1\<rparr>)],
     upstream := [((''a'', ''m''), zeroUpstreamState\<lparr>inFlight := 1\<rparr>)],
     weightedCurrent := [(''a'', -1), (''b'', 1)],
     healthStats := [(''a'', zeroHealthState\<lparr>hs_Dispatches := 1\<rparr>)]\<rparr>"

lemma demo_normalize: "normalizeProtectionModel ''m'' = ''m''" "trim_space '''' = ''''"
  by (simp_all add: normalizeProtectionModel_def trim_space_def to_lower_def lower_char_def is_space_def)

lemma demo_tryAcquire:
  "tryAcquireSlotLocked demoProtection (demoAccount ''a'' 2) ''m'' now demoPool =
   Inr (demoGuard\<lparr>g_routeSeen := zero_time\<rparr>,
        demoPool\<lparr>accountUpstream := [(''a'', zeroUpstreamState\<lparr>inFlight := 1\<rparr>)],
          upstream := [((''a'', ''m''), zeroUpstreamState\<lparr>inFlight := 1\<rparr>)]\<rparr>)"
  by (simp add: tryAcquireSlotLocked_def demo_defs demoGuard_def gm_zero_def zeroUpstreamState_def stateBusy_def
      accountConcurrencyLimit_def accountModelLimit_def profileLimit_def activateHalfOpenProbe_def demo_normalize
      equal_fold_def zero_time_def Let_def)

lemma demo_acquire:
  "AcquireForModel demoConfig ''m'' '''' [] (time_unix 1000) demoPool =
   (Acquired (demoAccount ''a'' 2) (Some demoGuard), demoBusyPool)"
proof -
  have up: "cfg_UpstreamProtection demoConfig = demoProtection" "up_Enabled demoProtection"
    and mode: "cfg_LoadBalancingMode demoConfig = ''weighted''"
    and acs: "accounts demoPool = [demoAccount ''a'' 2, demoAccount ''b'' 1]"
    and prune: "pruneRouteAffinityLocked demoProtection (time_unix 1000) demoPool = demoPool"
    and aid: "acc_ID (demoAccount aid w) = aid" "acc_Weight (demoAccount aid w) = w" for aid w
    by (simp_all add: demo_defs pruneRouteAffinityLocked_def Let_def)
  show ?thesis
    by (simp add: AcquireForModel_def up acs prune demo_normalize acquireByAffinity_def demo_indexes demo_tryAcquire aid
        rememberRouteAffinityLocked_def commitWeightedSelectionLocked_def mode recordDispatchLocked_def Let_def
        effectiveWeight_def maxAccountWeight_def)
      (simp add: demoBusyPool_def demo_defs demoGuard_def zeroHealthState_def)
qed

lemma demo_reachable: "pool_reachable demoProtection (demoConfig, demoBusyPool, [demoGuard])"
proof -
  have "pool_reachable demoProtection (demoConfig, emptyPool 1, [])"
    by (rule pool_reachable.start) (simp add: demoConfig_def)
  then have "pool_reachable demoProtection (demoConfig, demoPool, [])"
    by (rule pool_reachable.step) (rule pool_step.operate [where op = "OpReload True"], simp add: demo_Reload)
  then show ?thesis
    by (rule pool_reachable.step) (rule pool_step.acquire [OF demo_acquire])
qed

section \<open>Slots and limits\<close>





section \<open>Acquisition\<close>

lemma AcquireForModel_selected:
  assumes "AcquireForModel cfg model rk ex now p = (Acquired acc (Some g), p')"
    "up_Enabled (cfg_UpstreamProtection cfg)"
  shows "acc \<in> set (accounts p) \<and> accountSelectableBasicLocked cfg p acc model ex now True"
proof -
  have ne: "accounts p \<noteq> []" using assms by (auto simp: AcquireForModel_def Let_def)
  from assms(1,2) ne show ?thesis
  proof (cases rule: AcquireForModel_cases)
    case (affine acc' g')
    then show ?thesis by (auto intro: selectable_fallback)
  next
    case (loop q best sel)
    have "\<exists>i \<in> set sel. acc = accounts q ! i"
    proof -
      have "acquireLoop cfg mk r now sel0 b idxs q = (Acquired acc (Some g), p') \<Longrightarrow> \<exists>i \<in> set idxs. acc = accounts q ! i"
        for mk r sel0 b idxs
        by (induction idxs arbitrary: b) (force simp: Let_def split: if_splits sum.splits prod.splits)+
      with loop(5) show ?thesis by blast
    qed
    then obtain i where i: "i \<in> set sel" "acc = accounts q ! i" by blast
    with selectionIndexes_sound [of i cfg q model ex now] loop(1,4) show ?thesis
      by (auto simp: sameCandidates_selectable) (auto simp: sameCandidates_def)
  qed
qed

text \<open>
  C3. With protection on, an account that \<open>AcquireForModel\<close> hands out is an account of the pool that
  is not excluded, not cooling down, not over its quota, able to serve the model and holding or able to obtain a
  fresh token; the guard names this account and the normalised model, has not been
  released, and with it counted the account is within its concurrency limit.
\<close>

theorem AcquireForModel_sound:
  assumes "AcquireForModel cfg model rk ex now p = (Acquired acc (Some g), p')"
    "up_Enabled (cfg_UpstreamProtection cfg)"
  shows "acc \<in> set (accounts p) \<and> accountSelectableBasicLocked cfg p acc model ex now True \<and>
    g_accountID g = acc_ID acc \<and> g_model g = normalizeProtectionModel model \<and> \<not> g_released g \<and>
    accountInFlight p' (acc_ID acc) \<le> accountConcurrencyLimit (cfg_UpstreamProtection cfg) acc"
  using AcquireForModel_selected [OF assms] AcquireForModel_taken [OF assms(1)]
    slotTaken_limits(1,4,5,6) [of "cfg_UpstreamProtection cfg" now acc "normalizeProtectionModel model" g p p']
  by metis

theorem AcquireForModel_sound_witness:
  "demoAccount ''a'' 2 \<in> set (accounts demoPool) \<and>
   accountSelectableBasicLocked demoConfig demoPool (demoAccount ''a'' 2) ''m'' [] (time_unix 1000) True \<and>
   accountInFlight demoBusyPool ''a'' \<le> 4"
  using AcquireForModel_sound [OF demo_acquire]
  by (simp add: demoConfig_def demoProtection_def accountConcurrencyLimit_def demoAccount_def equal_fold_def demo_normalize
      trim_space_def is_space_def)

text \<open>
  C4. With protection on and distinct account ids, an acquisition that hands out no account
  failed for a reason: it reports \<open>NoAccount\<close> only when no account of the pool can be selected, and
  otherwise a busy error with a positive retry delay; and every account with a usable token that can be selected
  has no free slot.
\<close>

theorem AcquireForModel_complete:
  assumes "AcquireForModel cfg model rk ex now p = (r, p')" "\<forall>acc g. r \<noteq> Acquired acc (Some g)"
    "up_Enabled (cfg_UpstreamProtection cfg)" "distinct (map acc_ID (accounts p))"
  shows "((\<exists>b. r = Busy b \<and> 0 < ub_RetryAfter b) \<or>
      (r = NoAccount \<and> (\<forall>acc \<in> set (accounts p). \<not> accountSelectableBasicLocked cfg p acc model ex now True))) \<and>
    (\<forall>acc \<in> set (accounts p). accountSelectableBasicLocked cfg p acc model ex now False \<longrightarrow>
      (\<exists>b. tryAcquireSlotLocked (cfg_UpstreamProtection cfg) acc (normalizeProtectionModel model) now p = Inl b))"
proof (cases "accounts p = []")
  case True
  with assms(1,3) show ?thesis by (auto simp: AcquireForModel_def Let_def)
next
  case False
  from assms(1,3) False show ?thesis
  proof (cases rule: AcquireForModel_cases)
    case (affine acc g)
    with assms(2) show ?thesis by blast
  next
    case (loop q best sel)
    have acs: "accounts q = accounts p" using loop(1) by (simp add: sameCandidates_def)
    note fin = acquireLoop_busy [OF loop(5) assms(2) loop(3)]
    have none: "\<not> accountSelectableBasicLocked cfg p acc model ex now True"
      if "sel = []" "acc \<in> set (accounts p)" for acc
      using selectionIndexes_Nil [of q cfg model ex now acc] that loop(1,4) assms(4) acs
      by (simp add: sameCandidates_selectable)
    have "\<exists>b. tryAcquireSlotLocked (cfg_UpstreamProtection cfg) acc (normalizeProtectionModel model) now p = Inl b"
      if acc: "acc \<in> set (accounts p)" "accountSelectableBasicLocked cfg p acc model ex now False" for acc
    proof -
      from acc(1) obtain j where j: "j < length (accounts p)" "accounts p ! j = acc" by (auto simp: in_set_conv_nth)
      with tokenStateIndexes_complete [of q j cfg model ex now False] acc(2) assms(4) acs loop(1)
      have "j \<in> set sel" using loop(4) by (auto simp: selectionIndexesLocked_def Let_def sameCandidates_selectable)
      with fin j acs have "\<exists>b. tryAcquireSlotLocked (cfg_UpstreamProtection cfg) acc (normalizeProtectionModel model) now q = Inl b"
        by auto
      with tryAcquire_slots_cong [OF loop(2)] show ?thesis by blast
    qed
    with fin none show ?thesis by blast
  qed
qed

text \<open>A second request for the model, with the other account excluded, finds the account busy.\<close>

lemma demo_busy_indexes:
  "selectionIndexesLocked demoConfig demoBusyPool ''m'' [(''b'', True)] (time_unix 1000) = [0]"
proof -
  have "accounts demoBusyPool = [demoAccount ''a'' 2, demoAccount ''b'' 1]" by (simp add: demoBusyPool_def demo_defs)
  moreover have "accountSelectableBasicLocked demoConfig demoBusyPool (demoAccount ''a'' 2) ''m'' [(''b'', True)] (time_unix 1000) False"
    by (simp add: demoBusyPool_def demo_defs accountSelectableBasicLocked_def accountHasModel_def accountTokenNeedsRefresh_def
      isQuotaBlocked_def isOverUsageLimit_def trim_space_def is_space_def gm_zero_def)
  moreover have "\<not> accountSelectableBasicLocked demoConfig demoBusyPool (demoAccount ''b'' 1) ''m'' [(''b'', True)] (time_unix 1000) False"
    by (simp add: accountSelectableBasicLocked_def demoAccount_def gm_zero_def)
  ultimately show ?thesis
    by (simp add: selectionIndexesLocked_def selectionIndexesForTokenStateLocked_def upt_rec
        orderSelectionIndexesLocked_def sort_stable_def demoConfig_def)
qed

lemma demo_busy:
  "AcquireForModel demoConfig ''m'' '''' [(''b'', True)] (time_unix 1000) demoBusyPool =
   (Busy \<lparr>ub_Model = ''m'', ub_RetryAfter = second,
          ub_Description = ''account local upstream limit reached: 1/1''\<rparr>, demoBusyPool)"
proof -
  have up: "cfg_UpstreamProtection demoConfig = demoProtection" "up_Enabled demoProtection"
    and acs: "accounts demoBusyPool = [demoAccount ''a'' 2, demoAccount ''b'' 1]"
    and prune: "pruneRouteAffinityLocked demoProtection (time_unix 1000) demoBusyPool = demoBusyPool"
    by (simp_all add: demo_defs demoBusyPool_def pruneRouteAffinityLocked_def Let_def)
  have one: "show_int 1 = ''1''" by code_simp
  have "tryAcquireSlotLocked demoProtection (demoAccount ''a'' 2) ''m'' (time_unix 1000) demoBusyPool =
    Inl \<lparr>ub_Model = ''m'', ub_RetryAfter = second, ub_Description = ''account local upstream limit reached: 1/1''\<rparr>"
    by (simp add: tryAcquireSlotLocked_def demoBusyPool_def demo_defs gm_zero_def zeroUpstreamState_def stateBusy_def
      accountConcurrencyLimit_def accountModelLimit_def profileLimit_def demo_normalize
      equal_fold_def zero_time_def Let_def one trim_space_def is_space_def to_lower_def lower_char_def)
  then show ?thesis
    by (simp add: AcquireForModel_def up acs prune demo_normalize acquireByAffinity_def demo_busy_indexes Let_def
        maxDuration_def second_def)
qed

theorem AcquireForModel_complete_witness:
  "\<exists>b. tryAcquireSlotLocked demoProtection (demoAccount ''a'' 2) ''m'' (time_unix 1000) demoBusyPool = Inl b"
proof -
  have "accountSelectableBasicLocked demoConfig demoBusyPool (demoAccount ''a'' 2) ''m'' [(''b'', True)] (time_unix 1000) False"
    by (simp add: demoBusyPool_def demo_defs accountSelectableBasicLocked_def accountHasModel_def accountTokenNeedsRefresh_def
      isQuotaBlocked_def isOverUsageLimit_def trim_space_def is_space_def gm_zero_def)
  moreover have "distinct (map acc_ID (accounts demoBusyPool))" "demoAccount ''a'' 2 \<in> set (accounts demoBusyPool)"
    "up_Enabled (cfg_UpstreamProtection demoConfig)" "cfg_UpstreamProtection demoConfig = demoProtection"
    by (simp_all add: demoBusyPool_def demo_defs)
  ultimately show ?thesis using AcquireForModel_complete [OF demo_busy] by (simp add: demo_normalize)
qed

section \<open>Fairness of the weighted mode\<close>

text \<open>
  C28. In the weighted mode with every running score at 0, as many selections as the sum of the
  candidates' effective weights serve each candidate exactly as often as its weight says, and
  return every score to 0: the schedule is exact over a period and then repeats.
\<close>

theorem weighted_period_exact:
  assumes mode: "cfg_LoadBalancingMode cfg = ''weighted''"
    and ids: "distinct (map acc_ID (accounts p))" "'''' \<notin> acc_ID ` set (accounts p)"
    and fresh: "\<forall>a \<in> set (accounts p). gm_zero 0 (weightedCurrent p) (acc_ID a) = 0"
    and i: "i \<in> set (selectionIndexesLocked cfg p model excluded now)"
  defines "run \<equiv> pickRun cfg model excluded now
    (nat (\<Sum>j\<leftarrow>selectionIndexesLocked cfg p model excluded now. weightOf p j)) p"
  shows "int (count_list (fst run) (acc_ID (accounts p ! i))) = weightOf p i \<and>
    gm_zero 0 (weightedCurrent (snd run)) (acc_ID (accounts p ! i)) = 0"
proof -
  let ?E = "selectionIndexesLocked cfg p model excluded now"
  let ?tw = "\<Sum>j\<leftarrow>?E. weightOf p j"
  have range: "\<forall>j \<in> set ?E. j < length (accounts p)" using selectionIndexes_sound(1) by blast
  have inj: "inj_on (\<lambda>i. acc_ID (accounts p ! i)) (set ?E)"
    using ids(1) range by (auto simp: inj_on_def distinct_conv_nth)
  have ne: "\<forall>j \<in> set ?E. acc_ID (accounts p ! j) \<noteq> ''''" using ids(2) range by (auto simp: image_iff) (metis nth_mem)
  have tw: "0 < ?tw" using i by (intro sum_weightOf_pos) auto
  have "swrrInv ?E 0 (\<lambda>_. 0) p" using fresh range tw by (auto simp: swrrInv_def Let_def)
  moreover have "?E \<noteq> []" using i by auto
  ultimately have "swrrInv ?E (0 + nat ?tw) (\<lambda>a. 0 + count_list (fst run) a) (snd run) \<and>
      accounts (snd run) = accounts p"
    unfolding run_def by (intro swrr_run [OF mode _ distinct_selectionIndexes inj ne refl])
  then have inv: "swrrInv ?E (nat ?tw) (count_list (fst run)) (snd run)" and acs: "accounts (snd run) = accounts p"
    by simp_all
  have w: "weightOf (snd run) = weightOf p" by (simp add: weightOf_def acs fun_eq_iff)
  let ?n = "\<lambda>j. int (count_list (fst run) (acc_ID (accounts p ! j)))"
  have led: "gm_zero 0 (weightedCurrent (snd run)) (acc_ID (accounts p ! j)) = ?tw * weightOf p j - ?tw * ?n j"
    "?tw * ?n j < ?tw * weightOf p j + ?tw" if "j \<in> set ?E" for j
    using inv that tw by (auto simp: swrrInv_def Let_def w acs)
  have "\<forall>j \<in> set ?E. ?n j \<le> weightOf p j"
  proof
    fix j assume "j \<in> set ?E"
    from led(2) [OF this] have "?tw * ?n j < ?tw * (weightOf p j + 1)" by (simp add: algebra_simps)
    with tw show "?n j \<le> weightOf p j" by (simp add: mult_less_cancel_left)
  qed
  moreover have "(\<Sum>j\<leftarrow>?E. ?n j) = ?tw"
  proof -
    have "(\<Sum>j\<leftarrow>?E. count_list (fst run) (acc_ID (accounts p ! j))) = nat ?tw"
      using inv by (simp add: swrrInv_def Let_def acs)
    then have "int (\<Sum>j\<leftarrow>?E. count_list (fst run) (acc_ID (accounts p ! j))) = ?tw" using tw by simp
    then show ?thesis by (simp add: int_sum_list)
  qed
  ultimately have "?n i = weightOf p i" by (rule sum_list_le_eq [where f = ?n and g = "weightOf p" and xs = ?E, OF _ _ i])
  with led(1) [OF i] show ?thesis by simp
qed

theorem weighted_period_exact_witness:
  "count_list (fst (pickRun demoConfig ''m'' [] 0 3 demoPool)) ''a'' = 2"
proof -
  have w: "map (weightOf demoPool) [0, 1] = [2, 1]"
    by (simp add: weightOf_def demo_defs effectiveWeight_def maxAccountWeight_def)
  have "int (count_list (fst (pickRun demoConfig ''m'' [] 0
      (nat (\<Sum>j\<leftarrow>selectionIndexesLocked demoConfig demoPool ''m'' [] 0. weightOf demoPool j)) demoPool))
      (acc_ID (accounts demoPool ! 0))) = weightOf demoPool 0"
    by (rule conjunct1, rule weighted_period_exact) (simp_all add: demo_indexes, simp_all add: demo_defs)
  moreover have "acc_ID (accounts demoPool ! 0) = ''a''" by (simp add: demo_defs)
  ultimately show ?thesis using w by (simp add: demo_indexes)
qed

end
