(* ===== verification/Cooldowns.thy ===== *)
theory Cooldowns
  imports Pool_Properties
begin

text \<open>
  What keeps an account out of selection and for how long: cooldowns after errors and quota
  exhaustion, the negative cache of models, disabling an account, reloading the pool; the route
  affinity table; and the recognition of status codes in error messages.
\<close>

section \<open>Account cooldowns\<close>

lemma cooling_not_selectable:
  "gm_get (cooldowns p) (acc_ID acc) = Some c \<Longrightarrow> now < c \<Longrightarrow>
   \<not> accountSelectableBasicLocked cfg p acc model ex now fb"
  by (simp add: accountSelectableBasicLocked_def)

lemma setCooldownLocked_extends:
  "\<exists>c. gm_get (cooldowns (setCooldownLocked aid until kind p)) aid = Some c \<and> until \<le> c"
  by (auto simp: setCooldownLocked_def gm_get_put split: option.split)

lemma setCooldownLocked_other:
  "b \<noteq> aid \<Longrightarrow> gm_get (cooldowns (setCooldownLocked aid until kind p)) b = gm_get (cooldowns p) b"
  by (auto simp: setCooldownLocked_def gm_get_put split: option.split)

lemma signal_frame [pool_frame]:
  "cooldowns (signalAvailabilityLocked p) = cooldowns p" "cooldownKinds (signalAvailabilityLocked p) = cooldownKinds p"
  "errorCounts (signalAvailabilityLocked p) = errorCounts p" "modelNegative (signalAvailabilityLocked p) = modelNegative p"
  "affinity (signalAvailabilityLocked p) = affinity p" "refreshFailures (signalAvailabilityLocked p) = refreshFailures p"
  by (simp_all add: signalAvailabilityLocked_def)

lemma schedule_frame [pool_frame]:
  "cooldowns (scheduleRuntimeStateSave p) = cooldowns p" "cooldowns (scheduleAccountStatsSave p) = cooldowns p"
  "cooldownKinds (scheduleRuntimeStateSave p) = cooldownKinds p" "cooldownKinds (scheduleAccountStatsSave p) = cooldownKinds p"
  "errorCounts (scheduleRuntimeStateSave p) = errorCounts p" "errorCounts (scheduleAccountStatsSave p) = errorCounts p"
  by (simp_all add: scheduleRuntimeStateSave_def scheduleAccountStatsSave_def)

lemma accountStatsLocked_cooldowns:
  "accountStatsLocked aid p = (st, p') \<Longrightarrow> cooldowns p' = cooldowns p \<and> errorCounts p' = errorCounts p"
  by (auto simp: accountStatsLocked_def accountIndexLocked_def Let_def split: option.splits if_splits)

lemma recordErrorLoop_cooldowns:
  "cooldowns (snd (snd (foldl (recordErrorStep aid) st is))) = cooldowns (snd (snd st)) \<and>
   errorCounts (snd (snd (foldl (recordErrorStep aid) st is))) = errorCounts (snd (snd st))"
proof (induction "is" arbitrary: st)
  case (Cons i "is")
  obtain stats u p where st: "st = (stats, u, p)" by (metis surj_pair)
  have "cooldowns (snd (snd (recordErrorStep aid st i))) = cooldowns (snd (snd st)) \<and>
      errorCounts (snd (snd (recordErrorStep aid st i))) = errorCounts (snd (snd st))"
    using accountStatsLocked_cooldowns unfolding st
    by (auto simp: recordErrorStep_def Let_def split: prod.split dest!: accountStatsLocked_cooldowns)
  with Cons show ?case by simp
qed simp

text \<open>The cooldowns after \<open>RecordError\<close>, apart from everything else the operation does.\<close>

lemma RecordError_cooldowns:
  fixes cfg :: Config and p :: AccountPool and aid :: string
  defines "n \<equiv> gm_zero 0 (errorCounts p) aid + 1"
  shows "\<exists>q. cooldowns q = cooldowns p \<and>
    cooldowns (RecordError cfg aid quota now p) =
      (if quota then cooldowns (setCooldownLocked aid (now + hour) accountCooldownQuota q)
       else if n \<ge> 3 then cooldowns (setCooldownLocked aid (now + minute) accountCooldownTransient q) else cooldowns p) \<and>
    gm_zero 0 (errorCounts (RecordError cfg aid quota now p)) aid = n"
proof -
  let ?p1 = "p\<lparr>errorCounts := gm_put aid n (errorCounts p)\<rparr>"
  obtain stats u p2 where l: "foldl (recordErrorStep aid) (zeroStats, False, ?p1) [0..<length (accounts ?p1)] = (stats, u, p2)"
    by (metis surj_pair)
  from recordErrorLoop_cooldowns [of aid "(zeroStats, False, ?p1)" "[0..<length (accounts ?p1)]"] l
  have p2: "cooldowns p2 = cooldowns p" "errorCounts p2 = gm_put aid n (errorCounts p)" by simp_all
  define q where "q = (if u then p2\<lparr>configGeneration := (if configGeneration p2 = 0 then cfg_Generation cfg else configGeneration p2),
                        dirtyStats := gm_put aid () (dirtyStats p2)\<rparr> else p2)"
  have q: "cooldowns q = cooldowns p" "errorCounts q = gm_put aid n (errorCounts p)" using p2 by (simp_all add: q_def)
  have ec: "errorCounts (setCooldownLocked a t k r) = errorCounts r" for a t k r
    by (simp add: setCooldownLocked_def split: option.split)
  define r where "r = RecordError cfg aid quota now p"
  have "r = (let p5 = scheduleRuntimeStateSave (signalAvailabilityLocked
      (if quota then setCooldownLocked aid (now + hour) accountCooldownQuota q
       else if gm_zero 0 (errorCounts q) aid \<ge> 3 then setCooldownLocked aid (now + minute) accountCooldownTransient q else q))
     in if u then scheduleAccountStatsSave p5 else p5)"
    using l unfolding r_def RecordError_def n_def [symmetric] q_def by (simp add: Let_def)
  then have "cooldowns r = cooldowns (if quota then setCooldownLocked aid (now + hour) accountCooldownQuota q
       else if n \<ge> 3 then setCooldownLocked aid (now + minute) accountCooldownTransient q else q)"
    "errorCounts r = errorCounts q"
    by (simp_all add: q pool_frame Let_def ec)
  with q show ?thesis unfolding r_def by (intro exI [of _ q]) auto
qed

text \<open>
  An error rests the account it is charged to: a quota error for an hour, any error that is the
  third or a later one in a row for a minute, and a first or second error not at all.
  A longer cooldown that is already running is never shortened, and other accounts are unaffected.
\<close>

theorem RecordError_rests_account:
  assumes "acc_ID acc = aid"
  shows "(quota \<longrightarrow> t < now + hour \<longrightarrow>
      \<not> accountSelectableBasicLocked cfg' (RecordError cfg aid quota now p) acc model ex t fb) \<and>
    (gm_zero 0 (errorCounts p) aid \<ge> 2 \<longrightarrow> t < now + minute \<longrightarrow>
      \<not> accountSelectableBasicLocked cfg' (RecordError cfg aid quota now p) acc model ex t fb) \<and>
    (\<not> quota \<longrightarrow> gm_zero 0 (errorCounts p) aid < 2 \<longrightarrow> cooldowns (RecordError cfg aid quota now p) = cooldowns p) \<and>
    (\<forall>c. gm_get (cooldowns p) aid = Some c \<longrightarrow>
      (\<exists>c' \<ge> c. gm_get (cooldowns (RecordError cfg aid quota now p)) aid = Some c')) \<and>
    (\<forall>b. b \<noteq> aid \<longrightarrow> gm_get (cooldowns (RecordError cfg aid quota now p)) b = gm_get (cooldowns p) b)"
proof -
  from RecordError_cooldowns [where p = p and aid = aid and cfg = cfg and quota = quota and now = now] obtain q where q: "cooldowns q = cooldowns p"
    "cooldowns (RecordError cfg aid quota now p) =
      (if quota then cooldowns (setCooldownLocked aid (now + hour) accountCooldownQuota q)
       else if gm_zero 0 (errorCounts p) aid + 1 \<ge> 3 then cooldowns (setCooldownLocked aid (now + minute) accountCooldownTransient q)
       else cooldowns p)" by auto
  have keep: "\<exists>c' \<ge> c. gm_get (cooldowns (setCooldownLocked aid u k q)) aid = Some c'"
    if "gm_get (cooldowns p) aid = Some c" for c u k
    using that q(1) by (auto simp: setCooldownLocked_def gm_get_put split: option.split)
  have mh: "minute \<le> hour" by (simp add: go_time)
  let ?r = "RecordError cfg aid quota now p"
  have "\<not> accountSelectableBasicLocked cfg' ?r acc model ex t fb" if "quota" "t < now + hour"
    using setCooldownLocked_extends [of aid "now + hour" accountCooldownQuota q] q that
      cooling_not_selectable [of ?r acc] assms by auto
  moreover have "\<not> accountSelectableBasicLocked cfg' ?r acc model ex t fb"
    if "gm_zero 0 (errorCounts p) aid \<ge> 2" "t < now + minute"
    using setCooldownLocked_extends [of aid "now + hour" accountCooldownQuota q]
      setCooldownLocked_extends [of aid "now + minute" accountCooldownTransient q] q that mh
      cooling_not_selectable [of ?r acc] assms by (cases quota) force+
  moreover have "\<not> quota \<longrightarrow> gm_zero 0 (errorCounts p) aid < 2 \<longrightarrow> cooldowns ?r = cooldowns p" using q by (cases quota) auto
  moreover have "\<forall>c. gm_get (cooldowns p) aid = Some c \<longrightarrow> (\<exists>c' \<ge> c. gm_get (cooldowns ?r) aid = Some c')"
    using keep q by auto
  moreover have "\<forall>b. b \<noteq> aid \<longrightarrow> gm_get (cooldowns ?r) b = gm_get (cooldowns p) b"
    using q by (auto simp: setCooldownLocked_other)
  ultimately show ?thesis by blast
qed

theorem RecordError_rests_account_witness:
  "\<not> accountSelectableBasicLocked demoConfig (RecordError demoConfig ''a'' True (time_unix 1000) demoPool)
     (demoAccount ''a'' 2) ''m'' [] (time_unix 1001) True"
proof -
  have acc: "acc_ID (demoAccount ''a'' 2) = ''a''" and t: "time_unix 1001 < time_unix 1000 + hour"
    by (simp_all add: demoAccount_def time_unix_def go_time)
  show ?thesis by (rule conjunct1 [OF RecordError_rests_account [OF acc], rule_format, OF TrueI t])
qed

text \<open>
  A success resets the error count of the account and ends its transient cooldown, but a cooldown
  for an exhausted quota or a disabled account that is still running stays: a request that was in
  flight when the account ran out cannot bring it back.
\<close>

theorem RecordSuccess_keeps_durable_cooldowns:
  "gm_get (errorCounts (RecordSuccess aid now p)) aid = Some 0 \<and>
   (gm_get (cooldownKinds p) aid = Some accountCooldownTransient \<longrightarrow>
      gm_get (cooldowns (RecordSuccess aid now p)) aid = None) \<and>
   (\<forall>k until. gm_get (cooldownKinds p) aid = Some k \<longrightarrow> k = accountCooldownQuota \<or> k = accountCooldownDisabled \<longrightarrow>
      gm_get (cooldowns p) aid = Some until \<longrightarrow> until > now \<longrightarrow>
      cooldowns (RecordSuccess aid now p) = cooldowns p \<and> cooldownKinds (RecordSuccess aid now p) = cooldownKinds p)"
  by (auto simp: RecordSuccess_def clearTransientCooldownLocked_def Let_def pool_frame gm_get_put gm_get_del gm_zero_def
      split: option.split)

theorem RecordSuccess_keeps_durable_cooldowns_witness:
  "cooldowns (RecordSuccess ''a'' 5 (demoPool\<lparr>cooldowns := [(''a'', 9)], cooldownKinds := [(''a'', ''quota'')]\<rparr>)) = [(''a'', 9)]"
  using RecordSuccess_keeps_durable_cooldowns [of "''a''" 5 "demoPool\<lparr>cooldowns := [(''a'', 9)], cooldownKinds := [(''a'', ''quota'')]\<rparr>"]
  by simp

section \<open>The negative cache of models\<close>

text \<open>
  Recording a model as unavailable on an account keeps the account from being selected for
  that model (in any spelling that differs in case or surrounding space) until the returned time,
  which is at least a minute away; clearing the record ends this.
\<close>

theorem model_unavailable_roundtrip:
  assumes "RecordModelUnavailable cfg aid model now p = (until, p')" "model' \<noteq> ''''" "modelKeyOf model' = modelKeyOf model"
    and "acc_ID acc = aid"
  shows "now + minute \<le> until \<and>
    (\<forall>t < until. \<not> accountSelectableBasicLocked cfg p' acc model' ex t fb) \<and>
    (\<forall>t. accountHasModel (ClearModelUnavailable aid model' p') aid model t) \<and>
    (\<forall>b t. b \<noteq> aid \<longrightarrow> accountHasModel p' b model t = accountHasModel p b model t)"
proof -
  from assms(1) have p': "modelNegative p' = gm_put (aid, modelKeyOf model) until (modelNegative p)" and u: "now + minute \<le> until"
    by (auto simp: RecordModelUnavailable_def Let_def scheduleRuntimeStateSave_def go_time split: if_splits)
  have "modelNegative (ClearModelUnavailable aid model' p') = gm_del (aid, modelKeyOf model) (modelNegative p')"
    by (simp add: ClearModelUnavailable_def Let_def scheduleRuntimeStateSave_def assms(3))
  then have "accountHasModel (ClearModelUnavailable aid model' p') aid model t" for t
    by (simp add: accountHasModel_def gm_get_del)
  moreover have "\<not> accountSelectableBasicLocked cfg p' acc model' ex t fb" if "t < until" for t
    using p' assms(2-4) that by (simp add: accountSelectableBasicLocked_def accountHasModel_def gm_get_put)
  moreover have "accountHasModel p' b model t = accountHasModel p b model t" if "b \<noteq> aid" for b t
    using p' that by (simp add: accountHasModel_def gm_get_put)
  ultimately show ?thesis using u by blast
qed

theorem model_unavailable_roundtrip_witness:
  "\<exists>until p'. RecordModelUnavailable demoConfig ''a'' ''M '' 0 demoPool = (until, p') \<and>
     \<not> accountSelectableBasicLocked demoConfig p' (demoAccount ''a'' 2) ''m'' [] minute True"
proof -
  obtain until p' where r: "RecordModelUnavailable demoConfig ''a'' ''M '' 0 demoPool = (until, p')" by (metis surj_pair)
  have k: "modelKeyOf ''m'' = modelKeyOf ''M ''"
    by code_simp
  have u: "minute < until" using r by (auto simp: RecordModelUnavailable_def Let_def demoConfig_def go_time)
  have "acc_ID (demoAccount ''a'' 2) = ''a''" by (simp add: demoAccount_def)
  with model_unavailable_roundtrip [OF r _ k, of "demoAccount ''a'' 2" "[]" True] r u show ?thesis by blast
qed

section \<open>Reloading and disabling\<close>

lemma reloadAccounts_list:
  "fst (reloadAccounts allow as (acs, ix)) =
   acs @ map (\<lambda>a. a\<lparr>acc_Weight := effectiveWeight (acc_Weight a)\<rparr>) (filter (\<lambda>a. \<not> isQuotaBlocked a allow) as)"
  by (induction allow as "(acs, ix)" arbitrary: acs ix rule: reloadAccounts.induct) auto

definition indexSound :: "(string, nat) gomap \<Rightarrow> Account list \<Rightarrow> bool" where
  "indexSound ix acs \<longleftrightarrow>
     (\<forall>aid i. gm_get ix aid = Some i \<longrightarrow> i < length acs \<and> acc_ID (acs ! i) = aid) \<and>
     (\<forall>a \<in> set acs. gm_get ix (acc_ID a) \<noteq> None)"

lemma indexSound_snoc:
  assumes "indexSound ix acs" "acc_ID b = aid"
  shows "indexSound (gm_put aid (length acs) ix) (acs @ [b])"
  using assms unfolding indexSound_def by (auto simp: gm_get_put nth_append less_SucI split: if_splits)

lemma reloadAccounts_index:
  "indexSound ix acs \<Longrightarrow> reloadAccounts allow as (acs, ix) = (acs', ix') \<Longrightarrow> indexSound ix' acs'"
  by (induction allow as "(acs, ix)" arbitrary: acs ix rule: reloadAccounts.induct)
     (auto simp: indexSound_snoc split: if_splits)

lemma Reload_accounts:
  assumes "Reload saved (cfg, p) = (cfg', p')"
  shows "accounts p' = map (\<lambda>a. a\<lparr>acc_Weight := effectiveWeight (acc_Weight a)\<rparr>)
      (filter (\<lambda>a. \<not> isQuotaBlocked a (cfg_AllowOverUsage cfg')) (GetEnabledAccounts cfg'))"
    and "indexSound (accountIndex p') (accounts p')" and "totalAccounts p' = length (GetEnabledAccounts cfg')"
    and "configGeneration p' = cfg_Generation cfg'"
proof -
  obtain acs ix where r: "reloadAccounts (cfg_AllowOverUsage cfg') (GetEnabledAccounts cfg') ([], []) = (acs, ix)"
    by (metis surj_pair)
  have p': "accounts p' = acs \<and> accountIndex p' = ix \<and> totalAccounts p' = length (GetEnabledAccounts cfg') \<and>
      configGeneration p' = cfg_Generation cfg'"
    using assms r by (auto simp: Reload_def Let_def signalAvailabilityLocked_def split: prod.splits)
  with reloadAccounts_list [of "cfg_AllowOverUsage cfg'" "GetEnabledAccounts cfg'" "[]" "[]"] r
  show "accounts p' = map (\<lambda>a. a\<lparr>acc_Weight := effectiveWeight (acc_Weight a)\<rparr>)
      (filter (\<lambda>a. \<not> isQuotaBlocked a (cfg_AllowOverUsage cfg')) (GetEnabledAccounts cfg'))" by simp
  show "indexSound (accountIndex p') (accounts p')"
    using reloadAccounts_index [OF _ r] p' by (simp add: indexSound_def)
  show "totalAccounts p' = length (GetEnabledAccounts cfg')" "configGeneration p' = cfg_Generation cfg'"
    using p' by simp_all
qed

text \<open>Flushing statistics writes counters only: ids and the enabled flags of the configured accounts stay.\<close>

lemma UpdateAccountStatsBatch_flags:
  "map (\<lambda>a. (acc_ID a, acc_Enabled a)) (cfg_Accounts (fst (UpdateAccountStatsBatch saved gen u cfg))) =
   map (\<lambda>a. (acc_ID a, acc_Enabled a)) (cfg_Accounts cfg)"
  by (auto simp: UpdateAccountStatsBatch_def Let_def applyStats_def split: option.split)

lemma flush_flags:
  "flushAccountStats saved (cfg, p) = (cfg', p') \<Longrightarrow>
   map (\<lambda>a. (acc_ID a, acc_Enabled a)) (cfg_Accounts cfg') = map (\<lambda>a. (acc_ID a, acc_Enabled a)) (cfg_Accounts cfg)"
  using UpdateAccountStatsBatch_flags
  by (auto simp: flushAccountStats_def Let_def split: prod.splits if_splits) (metis fst_conv)+

lemma Reload_flags:
  assumes "Reload saved (cfg, p) = (cfg', p')"
  shows "map (\<lambda>a. (acc_ID a, acc_Enabled a)) (cfg_Accounts cfg') = map (\<lambda>a. (acc_ID a, acc_Enabled a)) (cfg_Accounts cfg)"
proof (cases "configGeneration p = cfg_Generation cfg")
  case True
  obtain c q where f: "flushAccountStats saved (cfg, p) = (c, q)" by (metis surj_pair)
  with assms True have "cfg' = c" by (auto simp: Reload_def Let_def split: prod.splits)
  with flush_flags [OF f] show ?thesis by simp
next
  case False
  with assms show ?thesis by (auto simp: Reload_def Let_def split: prod.splits)
qed

text \<open>
  C40. Reloading makes the pool's list the enabled accounts of the configuration that are not over their
  quota, in order, with weights between 1 and 100, and its index total and exact on that list. No
  account is enabled or disabled by the flush of statistics that reloading starts with.
\<close>

theorem Reload_correct:
  assumes "Reload saved (cfg, p) = (cfg', p')"
  shows "map acc_ID (accounts p') =
      map acc_ID (filter (\<lambda>a. acc_Enabled a \<and> \<not> isQuotaBlocked a (cfg_AllowOverUsage cfg')) (cfg_Accounts cfg')) \<and>
    (\<forall>a \<in> set (accounts p'). 1 \<le> acc_Weight a \<and> acc_Weight a \<le> 100) \<and>
    indexSound (accountIndex p') (accounts p') \<and>
    map (\<lambda>a. (acc_ID a, acc_Enabled a)) (cfg_Accounts cfg') = map (\<lambda>a. (acc_ID a, acc_Enabled a)) (cfg_Accounts cfg)"
  using Reload_accounts [OF assms] Reload_flags [OF assms] effectiveWeight_bounds
  by (auto simp: GetEnabledAccounts_def comp_def conj_commute)

theorem Reload_correct_witness: "indexSound (accountIndex demoPool) (accounts demoPool)"
  using Reload_correct [OF demo_Reload] by blast

text \<open>
  Disabling an account takes it out of the pool at once: whichever operation selects an
  account afterwards cannot return it. No other account becomes disabled by it.
\<close>

theorem DisableAccount_removes:
  assumes "DisableAccount saved aid reason now (cfg, p) = (cfg', p')" "distinct (map acc_ID (cfg_Accounts cfg))"
  shows "(\<forall>a \<in> set (accounts p'). acc_ID a \<noteq> aid) \<and>
    (\<forall>acc g p''. AcquireForModel cfg' model rk ex t p' = (Acquired acc (Some g), p'') \<longrightarrow>
       up_Enabled (cfg_UpstreamProtection cfg') \<longrightarrow> acc_ID acc \<noteq> aid) \<and>
    (\<forall>a \<in> set (cfg_Accounts cfg). acc_Enabled a \<longrightarrow> acc_ID a \<noteq> aid \<longrightarrow>
       (\<exists>b \<in> set (cfg_Accounts cfg'). acc_ID b = acc_ID a \<and> acc_Enabled b))"
proof -
  let ?c = "SetAccountBanStatus aid ''DISABLED'' reason now cfg"
  obtain q where r: "Reload saved (?c, q) = (cfg', p')" using assms(1) by (auto simp: DisableAccount_def Let_def)
  note flags = Reload_flags [OF r, simplified SetAccountBanStatus_def, simplified]
  have dis: "acc_ID a \<noteq> aid" if "a \<in> set (cfg_Accounts cfg')" "acc_Enabled a" for a
  proof -
    from that have "(acc_ID a, True) \<in> set (map (\<lambda>a. (acc_ID a, acc_Enabled a)) (cfg_Accounts cfg'))" by force
    then obtain b where "b \<in> set (setBanStatus aid ''DISABLED'' reason now (cfg_Accounts cfg))" "acc_Enabled b" "acc_ID b = acc_ID a"
      unfolding flags by auto
    with setBanStatus_disabled [OF assms(2), of "''DISABLED''"] show ?thesis by auto
  qed
  then have gone: "\<forall>a \<in> set (accounts p'). acc_ID a \<noteq> aid"
    using Reload_accounts(1) [OF r] by (auto simp: GetEnabledAccounts_def)
  have other: "a \<in> set (setBanStatus aid st reason now as)" if "a \<in> set as" "acc_ID a \<noteq> aid" for a st as
    using that by (induction as) auto
  have "\<exists>b \<in> set (cfg_Accounts cfg'). acc_ID b = acc_ID a \<and> acc_Enabled b"
    if "a \<in> set (cfg_Accounts cfg)" "acc_Enabled a" "acc_ID a \<noteq> aid" for a
  proof -
    from other [OF that(1,3), of "''DISABLED''"] that(2)
    have "(acc_ID a, True) \<in> set (map (\<lambda>a. (acc_ID a, acc_Enabled a)) (setBanStatus aid ''DISABLED'' reason now (cfg_Accounts cfg)))"
      by force
    then show ?thesis unfolding flags [symmetric] by auto
  qed
  with gone AcquireForModel_selected [of cfg' model rk ex t p'] show ?thesis by blast
qed

theorem DisableAccount_removes_witness:
  "''a'' \<notin> acc_ID ` set (accounts (snd (DisableAccount True ''a'' ''banned'' 0 (demoConfig, demoPool))))"
proof -
  obtain c q where r: "DisableAccount True ''a'' ''banned'' 0 (demoConfig, demoPool) = (c, q)" by (metis surj_pair)
  have "distinct (map acc_ID (cfg_Accounts demoConfig))" by (simp add: demo_defs)
  from conjunct1 [OF DisableAccount_removes [OF r this]] r show ?thesis by auto
qed

end
