(* ===== verification/Protection_Config.thy ===== *)
theory Protection_Config
  imports Accounts
begin

text \<open>
  The normalisation of the upstream-protection settings, \<open>config/config.go\<close>: what loading and
  saving the configuration makes of the values an operator wrote, and the defaults the
  getter fills in. The Go field \<open>cfg.UpstreamProtection\<close> is the argument and the result; a \<open>nil\<close>
  map is the empty map.
\<close>

section \<open>Operations\<close>

definition defaultUpstreamProtectionConfig :: UpstreamProtectionConfig where
  "defaultUpstreamProtectionConfig = \<lparr>up_Enabled = True, up_MaxPerAccountConcurrency = 10,
     up_MaxPerAccountModelConcurrency = 5, up_ConcurrencyMode = ''adaptive'',
     up_SoftMaxPerAccountConcurrency = 16, up_SoftMaxPerAccountModelConcurrency = 5,
     up_QueueCapacity = 256, up_PerModelConcurrency = [], up_PerProfileModelConcurrency = [],
     up_RateLimitCooldownMs = 2000, up_MaxRateLimitCooldownMs = 60000,
     up_RouteAffinityTTLSeconds = 3600, up_RouteAffinityMaxEntries = 20000\<rparr>"

text \<open>The shape of most fields: a value that is not positive takes the default, a large one is capped.\<close>

definition clampLimit :: "int \<Rightarrow> int \<Rightarrow> int \<Rightarrow> int" where
  "clampLimit dflt cap v = (let v1 = (if v \<le> 0 then dflt else v) in if v1 > cap then cap else v1)"

text \<open>The two loops over the per-model and the per-profile limits, each with its body as one step.\<close>

definition modelLimitStep :: "(string, int) gomap \<Rightarrow> string \<times> int \<Rightarrow> (string, int) gomap" where
  "modelLimitStep acc = (\<lambda>(model, limit).
     let modelKey = to_lower (trim_space model)
     in if modelKey \<noteq> '''' \<and> limit > 0 then gm_put modelKey (if limit > 10000 then 10000 else limit) acc
        else acc)"

definition normalizeModelLimits :: "(string, int) gomap \<Rightarrow> (string, int) gomap" where
  "normalizeModelLimits limits = foldl modelLimitStep [] limits"

definition profileLimitStep ::
    "(string, (string, int) gomap) gomap \<Rightarrow> string \<times> (string, int) gomap \<Rightarrow> (string, (string, int) gomap) gomap" where
  "profileLimitStep acc = (\<lambda>(profile, limits).
     let profileKey = trim_space profile; normalized = normalizeModelLimits limits
     in if profileKey = '''' then acc
        else if length normalized > 0 then gm_put profileKey normalized acc else acc)"

definition normalizeProfileLimits :: "(string, (string, int) gomap) gomap \<Rightarrow> (string, (string, int) gomap) gomap" where
  "normalizeProfileLimits profs = foldl profileLimitStep [] profs"

definition normalizeMode :: "string \<Rightarrow> string" where
  "normalizeMode m = (let mode = to_lower (trim_space m)
     in if mode \<noteq> ''adaptive'' \<and> mode \<noteq> ''hard'' then up_ConcurrencyMode defaultUpstreamProtectionConfig else mode)"

definition normalizeUpstreamProtectionLocked :: "UpstreamProtectionConfig \<Rightarrow> UpstreamProtectionConfig" where
  "normalizeUpstreamProtectionLocked up =
     (let defaults = defaultUpstreamProtectionConfig;
          base = clampLimit (up_RateLimitCooldownMs defaults) 3600000 (up_RateLimitCooldownMs up);
          max0 = (if up_MaxRateLimitCooldownMs up \<le> 0 then up_MaxRateLimitCooldownMs defaults
                  else up_MaxRateLimitCooldownMs up);
          max1 = (if max0 < base then base else max0);
          max2 = (if max1 > 86400000 then 86400000 else max1)
      in \<lparr>up_Enabled = up_Enabled up,
          up_MaxPerAccountConcurrency =
            clampLimit (up_MaxPerAccountConcurrency defaults) 10000 (up_MaxPerAccountConcurrency up),
          up_MaxPerAccountModelConcurrency =
            clampLimit (up_MaxPerAccountModelConcurrency defaults) 10000 (up_MaxPerAccountModelConcurrency up),
          up_ConcurrencyMode = normalizeMode (up_ConcurrencyMode up),
          up_SoftMaxPerAccountConcurrency =
            clampLimit (up_SoftMaxPerAccountConcurrency defaults) 1000 (up_SoftMaxPerAccountConcurrency up),
          up_SoftMaxPerAccountModelConcurrency =
            clampLimit (up_SoftMaxPerAccountModelConcurrency defaults) 1000 (up_SoftMaxPerAccountModelConcurrency up),
          up_QueueCapacity = clampLimit (up_QueueCapacity defaults) 100000 (up_QueueCapacity up),
          up_PerModelConcurrency = normalizeModelLimits (up_PerModelConcurrency up),
          up_PerProfileModelConcurrency = normalizeProfileLimits (up_PerProfileModelConcurrency up),
          up_RateLimitCooldownMs = base, up_MaxRateLimitCooldownMs = max2,
          up_RouteAffinityTTLSeconds =
            clampLimit (up_RouteAffinityTTLSeconds defaults) 604800 (up_RouteAffinityTTLSeconds up),
          up_RouteAffinityMaxEntries =
            clampLimit (up_RouteAffinityMaxEntries defaults) 1000000 (up_RouteAffinityMaxEntries up)\<rparr>)"

text \<open>The getter. \<open>nilMaps\<close> says whether one of the two maps is \<open>nil\<close>, which a map value cannot show.\<close>

definition GetUpstreamProtectionConfig :: "bool \<Rightarrow> UpstreamProtectionConfig \<Rightarrow> UpstreamProtectionConfig" where
  "GetUpstreamProtectionConfig nilMaps up =
     (let d = defaultUpstreamProtectionConfig; orDefault = (\<lambda>field. if field up \<le> (0::int) then field d else field up)
      in if up_MaxPerAccountConcurrency up \<le> 0 \<or> up_MaxPerAccountModelConcurrency up \<le> 0 \<or>
            up_ConcurrencyMode up = '''' \<or> up_SoftMaxPerAccountConcurrency up \<le> 0 \<or>
            up_SoftMaxPerAccountModelConcurrency up \<le> 0 \<or> up_QueueCapacity up \<le> 0 \<or> nilMaps \<or>
            up_RateLimitCooldownMs up \<le> 0 \<or> up_MaxRateLimitCooldownMs up \<le> 0 \<or>
            up_RouteAffinityTTLSeconds up \<le> 0 \<or> up_RouteAffinityMaxEntries up \<le> 0
         then up\<lparr>up_MaxPerAccountConcurrency := orDefault up_MaxPerAccountConcurrency,
                 up_MaxPerAccountModelConcurrency := orDefault up_MaxPerAccountModelConcurrency,
                 up_ConcurrencyMode := normalizeMode (up_ConcurrencyMode up),
                 up_SoftMaxPerAccountConcurrency := orDefault up_SoftMaxPerAccountConcurrency,
                 up_SoftMaxPerAccountModelConcurrency := orDefault up_SoftMaxPerAccountModelConcurrency,
                 up_QueueCapacity := orDefault up_QueueCapacity,
                 up_RateLimitCooldownMs := orDefault up_RateLimitCooldownMs,
                 up_MaxRateLimitCooldownMs := orDefault up_MaxRateLimitCooldownMs,
                 up_RouteAffinityTTLSeconds := orDefault up_RouteAffinityTTLSeconds,
                 up_RouteAffinityMaxEntries := orDefault up_RouteAffinityMaxEntries\<rparr>
         else up)"

section \<open>What a normalised configuration satisfies\<close>

definition limitsOk :: "(string, int) gomap \<Rightarrow> bool" where
  "limitsOk m \<longleftrightarrow> gm_wf m \<and>
     (\<forall>e \<in> set m. fst e \<noteq> '''' \<and> to_lower (trim_space (fst e)) = fst e \<and> 0 < snd e \<and> snd e \<le> 10000)"

definition protectionOk :: "UpstreamProtectionConfig \<Rightarrow> bool" where
  "protectionOk up \<longleftrightarrow>
     0 < up_MaxPerAccountConcurrency up \<and> up_MaxPerAccountConcurrency up \<le> 10000 \<and>
     0 < up_MaxPerAccountModelConcurrency up \<and> up_MaxPerAccountModelConcurrency up \<le> 10000 \<and>
     (up_ConcurrencyMode up = ''adaptive'' \<or> up_ConcurrencyMode up = ''hard'') \<and>
     0 < up_SoftMaxPerAccountConcurrency up \<and> up_SoftMaxPerAccountConcurrency up \<le> 1000 \<and>
     0 < up_SoftMaxPerAccountModelConcurrency up \<and> up_SoftMaxPerAccountModelConcurrency up \<le> 1000 \<and>
     0 < up_QueueCapacity up \<and> up_QueueCapacity up \<le> 100000 \<and>
     limitsOk (up_PerModelConcurrency up) \<and>
     gm_wf (up_PerProfileModelConcurrency up) \<and>
     (\<forall>e \<in> set (up_PerProfileModelConcurrency up).
        fst e \<noteq> '''' \<and> trim_space (fst e) = fst e \<and> snd e \<noteq> [] \<and> limitsOk (snd e)) \<and>
     0 < up_RateLimitCooldownMs up \<and> up_RateLimitCooldownMs up \<le> up_MaxRateLimitCooldownMs up \<and>
     up_RateLimitCooldownMs up \<le> 3600000 \<and> up_MaxRateLimitCooldownMs up \<le> 86400000 \<and>
     0 < up_RouteAffinityTTLSeconds up \<and> up_RouteAffinityTTLSeconds up \<le> 604800 \<and>
     0 < up_RouteAffinityMaxEntries up \<and> up_RouteAffinityMaxEntries up \<le> 1000000"

lemma clampLimit_bounds: "0 < d \<Longrightarrow> d \<le> cap \<Longrightarrow> 0 < clampLimit d cap v \<and> clampLimit d cap v \<le> cap"
  by (auto simp: clampLimit_def Let_def)

lemma clampLimit_id: "0 < v \<Longrightarrow> v \<le> cap \<Longrightarrow> clampLimit d cap v = v"
  by (auto simp: clampLimit_def Let_def)

lemma to_lower_Nil [simp]: "to_lower s = '''' \<longleftrightarrow> s = ''''"
  by (simp add: to_lower_def)

lemma limitsOk_put:
  assumes "limitsOk m" "to_lower (trim_space model) \<noteq> ''''" "0 < limit"
  shows "limitsOk (gm_put (to_lower (trim_space model)) (if limit > 10000 then 10000 else limit) m)"
  using assms unfolding limitsOk_def by (auto simp: trim_space_to_lower dest!: set_gm_put)

lemma foldl_invariant: "P acc \<Longrightarrow> (\<And>acc x. P acc \<Longrightarrow> P (f acc x)) \<Longrightarrow> P (foldl f acc xs)"
  by (induction xs arbitrary: acc) auto

lemma foldl_append_step:
  "(\<And>acc x. x \<in> set xs \<Longrightarrow> fst x \<notin> fst ` set acc \<Longrightarrow> f acc x = acc @ [x]) \<Longrightarrow>
   gm_wf (acc @ xs) \<Longrightarrow> foldl f acc xs = acc @ xs"
  by (induction xs arbitrary: acc) auto

lemma gm_put_fresh: "k \<notin> fst ` set m \<Longrightarrow> gm_put k v m = m @ [(k, v)]"
  by (induction m) auto

lemma modelLimitStep_ok: "limitsOk acc \<Longrightarrow> limitsOk (modelLimitStep acc (model, limit))"
  using limitsOk_put [of acc model limit] by (simp add: modelLimitStep_def Let_def)

lemma normalizeModelLimits_ok: "limitsOk (normalizeModelLimits limits)"
  unfolding normalizeModelLimits_def
proof (rule foldl_invariant)
  show "limitsOk (modelLimitStep acc e)" if "limitsOk acc" for acc e
    using modelLimitStep_ok [OF that] by (cases e) simp
qed (simp add: limitsOk_def)

lemma modelLimitStep_fresh:
  assumes "limitsOk m" "e \<in> set m" "fst e \<notin> fst ` set acc"
  shows "modelLimitStep acc e = acc @ [e]"
proof -
  obtain k v where e: "e = (k, v)" by (cases e)
  with assms have "k \<noteq> ''''" "to_lower (trim_space k) = k" "0 < v" "v \<le> 10000" by (auto simp: limitsOk_def)
  with assms(3) e show ?thesis by (simp add: modelLimitStep_def gm_put_fresh del: to_lower_Nil)
qed

lemma normalizeModelLimits_id: "limitsOk m \<Longrightarrow> normalizeModelLimits m = m"
  using foldl_append_step [of m modelLimitStep "[]"] modelLimitStep_fresh [of m]
  by (simp add: normalizeModelLimits_def limitsOk_def)

definition profilesOk :: "(string, (string, int) gomap) gomap \<Rightarrow> bool" where
  "profilesOk m \<longleftrightarrow> gm_wf m \<and>
     (\<forall>e \<in> set m. fst e \<noteq> '''' \<and> trim_space (fst e) = fst e \<and> snd e \<noteq> [] \<and> limitsOk (snd e))"

lemma profileLimitStep_ok:
  assumes "profilesOk acc"
  shows "profilesOk (profileLimitStep acc (profile, limits))"
proof -
  have "profilesOk (gm_put (trim_space profile) (normalizeModelLimits limits) acc)"
    if "trim_space profile \<noteq> ''''" "normalizeModelLimits limits \<noteq> []"
    using assms that normalizeModelLimits_ok [of limits] unfolding profilesOk_def by (auto dest!: set_gm_put)
  with assms show ?thesis by (simp add: profileLimitStep_def Let_def)
qed

lemma normalizeProfileLimits_ok: "profilesOk (normalizeProfileLimits profs)"
  unfolding normalizeProfileLimits_def
proof (rule foldl_invariant)
  show "profilesOk (profileLimitStep acc e)" if "profilesOk acc" for acc e
    using profileLimitStep_ok [OF that] by (cases e) simp
qed (simp add: profilesOk_def)

lemma profileLimitStep_fresh:
  assumes "profilesOk m" "e \<in> set m" "fst e \<notin> fst ` set acc"
  shows "profileLimitStep acc e = acc @ [e]"
proof -
  obtain k v where e: "e = (k, v)" by (cases e)
  with assms have "k \<noteq> ''''" "trim_space k = k" "v \<noteq> []" "normalizeModelLimits v = v"
    by (auto simp: profilesOk_def normalizeModelLimits_id)
  with assms(3) e show ?thesis by (simp add: profileLimitStep_def gm_put_fresh)
qed

lemma normalizeProfileLimits_id: "profilesOk m \<Longrightarrow> normalizeProfileLimits m = m"
  using foldl_append_step [of m profileLimitStep "[]"] profileLimitStep_fresh [of m]
  by (simp add: normalizeProfileLimits_def profilesOk_def)

lemma normalizeMode_cases: "normalizeMode m = ''adaptive'' \<or> normalizeMode m = ''hard''"
  by (auto simp: normalizeMode_def Let_def defaultUpstreamProtectionConfig_def)

lemma normalizeMode_id: "m = ''adaptive'' \<or> m = ''hard'' \<Longrightarrow> normalizeMode m = m"
  by (auto simp: normalizeMode_def Let_def trim_space_def to_lower_def lower_char_def is_space_def)

lemma normalizeUpstreamProtection_ok: "protectionOk (normalizeUpstreamProtectionLocked up)"
proof -
  have "\<not> 86400000 < clampLimit 2000 3600000 (up_RateLimitCooldownMs up)" by (simp add: clampLimit_def Let_def)
  then show ?thesis
    using normalizeModelLimits_ok [of "up_PerModelConcurrency up"] normalizeMode_cases [of "up_ConcurrencyMode up"]
      normalizeProfileLimits_ok [of "up_PerProfileModelConcurrency up"]
    by (simp add: protectionOk_def normalizeUpstreamProtectionLocked_def Let_def defaultUpstreamProtectionConfig_def
        clampLimit_bounds profilesOk_def)
qed

lemma normalizeUpstreamProtection_id: "protectionOk up \<Longrightarrow> normalizeUpstreamProtectionLocked up = up"
  by (cases up)
     (auto simp: protectionOk_def normalizeUpstreamProtectionLocked_def Let_def clampLimit_id normalizeModelLimits_id
      normalizeProfileLimits_id profilesOk_def normalizeMode_id)

text \<open>
  Normalising the upstream-protection settings makes every limit positive and capped, the
  mode one of the two known ones, the keys of the limit tables trimmed, lower-case and unique, and
  the maximal cooldown at least the base cooldown and at most 24 hours; it
  is idempotent, and the getter then returns the settings as they are.
\<close>

theorem normalizeUpstreamProtection_correct:
  "protectionOk (normalizeUpstreamProtectionLocked up) \<and>
   normalizeUpstreamProtectionLocked (normalizeUpstreamProtectionLocked up) = normalizeUpstreamProtectionLocked up \<and>
   GetUpstreamProtectionConfig False (normalizeUpstreamProtectionLocked up) = normalizeUpstreamProtectionLocked up"
proof -
  note ok = normalizeUpstreamProtection_ok [of up]
  then have "GetUpstreamProtectionConfig False (normalizeUpstreamProtectionLocked up) = normalizeUpstreamProtectionLocked up"
    by (auto simp: protectionOk_def GetUpstreamProtectionConfig_def Let_def)
  with ok normalizeUpstreamProtection_id [OF ok] show ?thesis by simp
qed

end
