(* ===== verification/Rate_Limits.thy ===== *)
theory Rate_Limits
  imports Pool_Properties Protection_Config
begin

text \<open>
  The circuit that upstream protection keeps per account and model: the cooldown after a rate
  limit grows exponentially between configured bounds and honours the server's \<open>Retry-After\<close>,
  nothing is admitted while it lasts, one probe is admitted when it is over, and a success closes
  the circuit.
\<close>

section \<open>The length of a cooldown\<close>

lemma backoffLoop_closed: "0 < c \<Longrightarrow> c \<le> m \<Longrightarrow> backoffLoop n c m = min (c * 2 ^ n) m"
proof (induction n arbitrary: c)
  case (Suc n)
  show ?case
  proof (cases "2 * c \<ge> m")
    case True
    have "1 \<le> (2 :: int) ^ n" by simp
    then have "2 * c * 1 \<le> 2 * c * 2 ^ n" using Suc.prems by (intro mult_left_mono) auto
    with True show ?thesis by (simp add: mult.commute mult.left_commute)
  next
    case False
    with Suc show ?thesis by (simp add: mult.assoc mult.left_commute)
  qed
qed simp

text \<open>What \<open>rand.Intn\<close> promises: a value from 0 up to and not including its argument.\<close>

definition validIntn :: "(int \<Rightarrow> int) \<Rightarrow> bool" where
  "validIntn intn \<longleftrightarrow> (\<forall>n > 0. 0 \<le> intn n \<and> intn n < n)"

text \<open>The exponential step of the \<open>n\<close>-th rate limit in a row, in nanoseconds.\<close>

definition cooldownStep :: "UpstreamProtectionConfig \<Rightarrow> int \<Rightarrow> duration" where
  "cooldownStep up n = min (up_RateLimitCooldownMs up * 2 ^ nat n) (up_MaxRateLimitCooldownMs up) * millisecond"

lemma cooldownStep_pos: "protectionOk up \<Longrightarrow> 0 < cooldownStep up n"
  by (auto simp: cooldownStep_def protectionOk_def go_time)

text \<open>The milliseconds of a cooldown: \<open>st\<close> the exponential step, \<open>r\<close> the rounded \<open>Retry-After\<close>, \<open>m\<close> the maximum.\<close>

definition cooldownMs :: "(int \<Rightarrow> int) \<Rightarrow> int \<Rightarrow> int \<Rightarrow> int \<Rightarrow> int" where
  "cooldownMs intn st r m =
     (let ms1 = (if r > st then (if r > 86400000 then 86400000 else r) else st)
      in if r = 0 \<and> ms1 < m
         then let ms = ms1 + intn ((if ms1 div 10 < 1 then 1 else ms1 div 10) + 1) in if ms > m then m else ms
         else ms1)"

lemma cooldownMs_bounds:
  assumes "0 < st" "st \<le> m" "m \<le> 86400000" "validIntn intn"
  shows "st \<le> cooldownMs intn st r m \<and> min r 86400000 \<le> cooldownMs intn st r m \<and>
    cooldownMs intn st r m \<le> max m (min r 86400000)"
proof -
  have j: "0 \<le> intn ((if st div 10 < 1 then 1 else st div 10) + 1)" (is "0 \<le> ?j")
    using assms(1,4) by (simp add: validIntn_def)
  consider "r = 0" "st < m" | "r = 0" "st = m" | "r \<noteq> 0" "r \<le> st" | "st < r" using assms(2) by linarith
  then show ?thesis
  proof cases
    case 1
    then have "cooldownMs intn st r m = (if st + ?j > m then m else st + ?j)"
      using assms(1) by (simp add: cooldownMs_def Let_def)
    with 1 j assms(1) show ?thesis by (simp add: min_def max_def)
  qed (use assms in \<open>simp_all add: cooldownMs_def Let_def min_def max_def\<close>)
qed

lemma applyProtectionCooldown_eq:
  fixes intn :: "int \<Rightarrow> int" and retryAfter :: duration
  assumes "protectionOk up" "0 \<le> rateLimitCount s"
  defines "ms \<equiv> cooldownMs intn (min (up_RateLimitCooldownMs up * 2 ^ nat (rateLimitCount s)) (up_MaxRateLimitCooldownMs up))
      (dur_round retryAfter millisecond div millisecond) (up_MaxRateLimitCooldownMs up)"
  shows "applyProtectionCooldown intn up now retryAfter s =
    (ms * millisecond, s\<lparr>rateLimitCount := rateLimitCount s + 1, halfOpenProbe := False, lastCooldownMs := ms,
       cooldownUntil := now + ms * millisecond\<rparr>)"
proof -
  have base: "0 < up_RateLimitCooldownMs up" "up_RateLimitCooldownMs up \<le> up_MaxRateLimitCooldownMs up"
    "\<not> up_RateLimitCooldownMs up \<le> 0" "\<not> up_MaxRateLimitCooldownMs up \<le> 0"
    using assms(1) by (auto simp: protectionOk_def)
  have day: "24 * hour div millisecond = 86400000" by (simp add: go_time)
  have n: "rateLimitCount s + 1 - 1 = rateLimitCount s" by simp
  show ?thesis
    unfolding applyProtectionCooldown_def ms_def cooldownMs_def Let_def day n backoffLoop_closed [OF base(1,2), symmetric]
      if_not_P [OF base(3)] if_not_P [OF base(4)] by (rule refl)
qed

lemma applyProtectionCooldown_result:
  assumes "applyProtectionCooldown intn up now retryAfter s = (c, s')" "validIntn intn" "protectionOk up"
    and "0 \<le> rateLimitCount s"
  shows "rateLimitCount s' = rateLimitCount s + 1 \<and> \<not> halfOpenProbe s' \<and> cooldownUntil s' = now + c \<and>
    inFlight s' = inFlight s \<and> cooldownStep up (rateLimitCount s) \<le> c \<and>
    min (dur_round retryAfter millisecond) (24 * hour) < c + millisecond \<and>
    c \<le> max (up_MaxRateLimitCooldownMs up * millisecond) (min (dur_round retryAfter millisecond) (24 * hour))"
proof -
  define m where "m = up_MaxRateLimitCooldownMs up"
  define R where "R = dur_round retryAfter millisecond"
  define st where "st = min (up_RateLimitCooldownMs up * 2 ^ nat (rateLimitCount s)) m"
  define ms where "ms = cooldownMs intn st (R div millisecond) m"
  have "0 < up_RateLimitCooldownMs up" "up_RateLimitCooldownMs up \<le> m" "m \<le> 86400000"
    using assms(3) by (auto simp: protectionOk_def m_def)
  then have "0 < st" "st \<le> m" "m \<le> 86400000" by (auto simp: st_def)
  note ms = cooldownMs_bounds [OF this assms(2), of "R div millisecond", folded ms_def]
  from assms(1) applyProtectionCooldown_eq [OF assms(3,4), of intn now retryAfter]
  have c: "c = ms * 1000000" "s' = s\<lparr>rateLimitCount := rateLimitCount s + 1, halfOpenProbe := False, lastCooldownMs := ms,
       cooldownUntil := now + ms * 1000000\<rparr>"
    by (auto simp: ms_def st_def m_def R_def millisecond_def)
  have R: "R div millisecond * 1000000 \<le> R" "R < R div millisecond * 1000000 + 1000000" by (simp_all add: millisecond_def)
  define q where "q = R div millisecond"
  have "st * 1000000 \<le> c" using ms c(1) by simp
  moreover have "min R 86400000000000 < c + 1000000" using ms c(1) R unfolding q_def [symmetric] by linarith
  moreover have "c \<le> max (m * 1000000) (min R 86400000000000)" using ms c(1) R unfolding q_def [symmetric] by linarith
  ultimately show ?thesis
    using c by (simp add: cooldownStep_def st_def m_def R_def go_time)
qed

section \<open>The circuit\<close>

lemma stateBusy_cooling:
  "now < cooldownUntil s \<Longrightarrow> cooldownUntil s \<noteq> zero_time \<Longrightarrow> \<exists>b. stateBusy model s limit now reason = Some b"
  by (auto simp: stateBusy_def)

lemma stateBusy_probing: "halfOpenProbe s \<Longrightarrow> \<exists>b. stateBusy model s limit now reason = Some b"
  by (auto simp: stateBusy_def)

text \<open>A model state that reports busy keeps the account from being acquired for the model.\<close>

lemma tryAcquire_model_busy:
  assumes "model \<noteq> ''''" "gm_zero zeroUpstreamState (upstream p) (acc_ID acc, model) = s"
    and "\<And>limit reason. \<exists>b. stateBusy model s limit now reason = Some b"
  shows "\<exists>b. tryAcquireSlotLocked up acc model now p = Inl b"
  using assms(1,2) assms(3) [of "accountModelLimit up model" "''account local upstream limit reached''"]
  by (auto simp: tryAcquireSlotLocked_def Let_def split: option.split)

lemma normalizeProtectionModel_idem [simp]: "normalizeProtectionModel (normalizeProtectionModel m) = normalizeProtectionModel m"
  by (simp add: normalizeProtectionModel_def trim_space_to_lower)

lemma RateLimited_state:
  assumes "RecordUpstreamRateLimitedWithRetryAfter i1 i2 up aid arn model r now p = (c, p')" "up_Enabled up"
  defines "k \<equiv> (aid, normalizeProtectionModel model)"
  shows "\<exists>c1 \<le> c. applyProtectionCooldown i1 up now r (gm_zero zeroUpstreamState (upstream p) k)
    = (c1, gm_zero zeroUpstreamState (upstream p') k)"
proof -
  obtain c1 s where a: "applyProtectionCooldown i1 up now r (gm_zero zeroUpstreamState (upstream p) k) = (c1, s)"
    by (metis surj_pair)
  with assms(1,2) have "gm_zero zeroUpstreamState (upstream p') k = s" "c1 \<le> c"
    unfolding RecordUpstreamRateLimitedWithRetryAfter_def k_def
    by (auto simp: Let_def maxDuration_def pool_frame scheduleRuntimeStateSave_def signalAvailabilityLocked_def
        split: prod.splits if_splits)
  with a show ?thesis by auto
qed

text \<open>
  After a rate limit for an account and a model, with settings the normalisation
  produces, the account is not acquired for the model before the cooldown is over: the base
  cooldown doubled once per earlier rate limit in a row up to the configured maximum, or the server's
  \<open>Retry-After\<close> (rounded to milliseconds, at most 24 hours) if that is longer. The pool
  reports a delay at least as long.
\<close>

theorem rate_limited_account_rests:
  assumes "RecordUpstreamRateLimitedWithRetryAfter i1 i2 up aid arn model r now p = (c, p')"
    and "up_Enabled up" "protectionOk up" "validIntn i1" "normalizeProtectionModel model \<noteq> ''''" "0 < now"
    and "0 \<le> n" "n = rateLimitCount (gm_zero zeroUpstreamState (upstream p) (aid, normalizeProtectionModel model))"
    and "acc_ID acc = aid"
    and "t < now + max (cooldownStep up n) (min (dur_round r millisecond) (24 * hour) - millisecond)"
  shows "(\<exists>b. tryAcquireSlotLocked up acc (normalizeProtectionModel model) t p' = Inl b) \<and> cooldownStep up n \<le> c"
proof -
  let ?k = "(aid, normalizeProtectionModel model)"
  let ?s' = "gm_zero zeroUpstreamState (upstream p') ?k"
  from RateLimited_state [OF assms(1,2)] obtain c1 where c1: "c1 \<le> c"
    "applyProtectionCooldown i1 up now r (gm_zero zeroUpstreamState (upstream p) ?k) = (c1, ?s')" by auto
  from applyProtectionCooldown_result [OF c1(2) assms(4,3)] assms(7,8)
  have res: "cooldownUntil ?s' = now + c1" "cooldownStep up n \<le> c1"
    "min (dur_round r millisecond) (24 * hour) < c1 + millisecond" by auto
  with assms(10) have "t < cooldownUntil ?s'" by auto
  moreover have "cooldownUntil ?s' \<noteq> zero_time"
    using res cooldownStep_pos [OF assms(3), of n] assms(6) by (simp add: zero_time_def)
  ultimately have "\<exists>b. tryAcquireSlotLocked up acc (normalizeProtectionModel model) t p' = Inl b"
    using assms(5,9) by (intro tryAcquire_model_busy [OF _ refl] stateBusy_cooling) auto
  with res c1 show ?thesis by simp
qed

theorem rate_limited_account_rests_witness:
  "\<exists>b. tryAcquireSlotLocked demoProtection (demoAccount ''a'' 2) ''m'' (time_unix 1001)
     (snd (RecordUpstreamRateLimitedWithRetryAfter (\<lambda>_. 0) (\<lambda>_. 0) demoProtection ''a'' '''' ''m'' 0 (time_unix 1000) demoPool)) = Inl b"
proof -
  obtain c p' where r: "RecordUpstreamRateLimitedWithRetryAfter (\<lambda>_. 0) (\<lambda>_. 0) demoProtection ''a'' '''' ''m'' 0
      (time_unix 1000) demoPool = (c, p')" by (metis surj_pair)
  have "limitsOk [(''m'', 1)]" by (simp add: limitsOk_def trim_space_def to_lower_def lower_char_def is_space_def)
  then have ok: "protectionOk demoProtection" "up_Enabled demoProtection"
    by (simp_all add: protectionOk_def demoProtection_def limitsOk_def)
  have "rateLimitCount (gm_zero zeroUpstreamState (upstream demoPool) (''a'', ''m'')) = 0" "acc_ID (demoAccount ''a'' 2) = ''a''"
    by (simp_all add: demo_defs)
  moreover have "cooldownStep demoProtection 0 = 2 * second" by (simp add: cooldownStep_def demoProtection_def go_time)
  moreover have "(0 :: int) < time_unix 1000" "time_unix 1001 < time_unix 1000 + max (2 * second) x" for x
    by (auto simp: time_unix_def go_time)
  ultimately show ?thesis
    using rate_limited_account_rests [OF r ok(2,1), of 0 "demoAccount ''a'' 2" "time_unix 1001"] r
    by (simp add: demo_normalize validIntn_def)
qed

text \<open>
  When the cooldown of an account and model is over, the circuit admits one request as a
  probe and then, whatever the time and the concurrency limits, no other request for the
  model on that account until the pool's state changes again; and the success of the probe closes the circuit.
\<close>

theorem half_open_admits_one_probe:
  assumes "tryAcquireSlotLocked up acc model now p = Inr (g, p1)" "model \<noteq> ''''" "normalizeProtectionModel model = model"
    and "s = gm_zero zeroUpstreamState (upstream p) (acc_ID acc, model)"
    and "0 < rateLimitCount s" "cooldownUntil s \<noteq> zero_time"
    and "acc_ID acc' = acc_ID acc" "up_Enabled up"
  shows "(\<exists>b. tryAcquireSlotLocked up acc' model t p1 = Inl b) \<and>
    protectionCircuitState (gm_zero zeroUpstreamState (upstream p1) (acc_ID acc, model)) t = ''half_open'' \<and>
    protectionCircuitState (gm_zero zeroUpstreamState (upstream (RecordUpstreamSuccess up (acc_ID acc) arn model p1))
      (acc_ID acc, model)) t = ''closed''"
proof -
  let ?s1 = "gm_zero zeroUpstreamState (upstream p1) (acc_ID acc, model)"
  have "\<not> (now < cooldownUntil s)"
    using assms(1,2,4,6) stateBusy_cooling [of now s model "accountModelLimit up model" "''account local upstream limit reached''"]
    by (auto simp: tryAcquireSlotLocked_def Let_def split: option.splits if_splits)
  with assms have probe: "halfOpenProbe ?s1"
    by (auto simp: tryAcquireSlotLocked_def Let_def activateHalfOpenProbe_def split: option.splits if_splits)
  then have "\<exists>b. tryAcquireSlotLocked up acc' model t p1 = Inl b"
    using assms(2,7) by (intro tryAcquire_model_busy [OF _ refl] stateBusy_probing) auto
  moreover have "protectionCircuitState (gm_zero zeroUpstreamState
      (upstream (RecordUpstreamSuccess up (acc_ID acc) arn model p1)) (acc_ID acc, model)) t = ''closed''"
    using assms(2,3,8) by (simp add: RecordUpstreamSuccess_def closeOrDrop_def closeProtectionCircuit_def Let_def
        scheduleRuntimeStateSave_def signalAvailabilityLocked_def protectionCircuitState_def zeroUpstreamState_def zero_time_def)
  ultimately show ?thesis using probe by (simp add: protectionCircuitState_def)
qed

definition demoOpenPool :: AccountPool where
  "demoOpenPool = demoPool\<lparr>upstream := [((''a'', ''m''), zeroUpstreamState\<lparr>rateLimitCount := 1, cooldownUntil := time_unix 900\<rparr>)]\<rparr>"

theorem half_open_admits_one_probe_witness:
  "\<exists>g p1. tryAcquireSlotLocked demoProtection (demoAccount ''a'' 2) ''m'' (time_unix 1000) demoOpenPool = Inr (g, p1) \<and>
     (\<exists>b. tryAcquireSlotLocked demoProtection (demoAccount ''a'' 2) ''m'' (time_unix 2000) p1 = Inl b)"
proof -
  have gt: "\<not> time_unix 1000 < time_unix 900" "time_unix 900 \<noteq> 0" by (simp_all add: time_unix_def go_time)
  have "\<exists>g p1. tryAcquireSlotLocked demoProtection (demoAccount ''a'' 2) ''m'' (time_unix 1000) demoOpenPool = Inr (g, p1)"
    by (simp add: tryAcquireSlotLocked_def demoOpenPool_def demo_defs gm_zero_def zeroUpstreamState_def stateBusy_def
      accountConcurrencyLimit_def accountModelLimit_def profileLimit_def activateHalfOpenProbe_def demo_normalize
      equal_fold_def zero_time_def Let_def gt)
  moreover have "gm_zero zeroUpstreamState (upstream demoOpenPool) (acc_ID (demoAccount ''a'' 2), ''m'') =
      zeroUpstreamState\<lparr>rateLimitCount := 1, cooldownUntil := time_unix 900\<rparr>"
    by (simp add: demoOpenPool_def gm_zero_def demoAccount_def)
  moreover have "up_Enabled demoProtection" by (simp add: demoProtection_def)
  ultimately show ?thesis
    using half_open_admits_one_probe [of demoProtection "demoAccount ''a'' 2" "''m''" "time_unix 1000" demoOpenPool _ _ _
        "demoAccount ''a'' 2" "time_unix 2000"]
    by (fastforce simp: demo_normalize gt zero_time_def)
qed

end
