(* ===== verification/Routing.thy ===== *)
theory Routing
  imports Pool_Properties
begin

text \<open>
  Three smaller contracts of the pool: the bounded table of route affinities, the account that is
  returned when every account is cooling down, and the recognition of status codes in error messages.
\<close>

section \<open>The affinity table\<close>

definition affinityOk :: "UpstreamProtectionConfig \<Rightarrow> AccountPool \<Rightarrow> bool" where
  "affinityOk up p \<longleftrightarrow> gm_wf (affinity p) \<and>
     (\<forall>e \<in> set (affinity p). fst e \<noteq> '''' \<and> ra_accountID (snd e) \<noteq> '''') \<and>
     int (length (affinity p)) \<le> max 0 (up_RouteAffinityMaxEntries up)"

text \<open>Remembering a route in three cases: nothing to do, room or a known key, and an eviction.\<close>

lemma remember_cases:
  fixes up p key aid now
  defines "q \<equiv> rememberRouteAffinityLocked up key aid now p"
  defines "e \<equiv> \<lparr>ra_accountID = aid, ra_lastSeen = now\<rparr>"
  defines "old \<equiv> oldest_scan ra_lastSeen '''' zero_time (affinity p)"
  assumes ok: "affinityOk up p"
  obtains (off) "key = '''' \<or> up_RouteAffinityMaxEntries up \<le> 0" "q = p"
  | (known) "key \<noteq> ''''" "0 < up_RouteAffinityMaxEntries up"
      "key \<in> fst ` set (affinity p) \<or> int (length (affinity p)) < up_RouteAffinityMaxEntries up"
      "q = p\<lparr>affinity := gm_put key e (affinity p)\<rparr>"
  | (evict) "key \<noteq> ''''" "0 < up_RouteAffinityMaxEntries up" "key \<notin> fst ` set (affinity p)"
      "int (length (affinity p)) = up_RouteAffinityMaxEntries up"
      "q = p\<lparr>affinity := gm_put key e (gm_del old (affinity p))\<rparr>" "old \<in> fst ` set (affinity p)"
proof -
  let ?m = "affinity p" and ?n = "up_RouteAffinityMaxEntries up"
  show thesis
  proof (cases "key = '''' \<or> ?n \<le> 0")
    case True
    then show thesis by (intro off) (auto simp: q_def rememberRouteAffinityLocked_def)
  next
    case False
    show thesis
    proof (cases "key \<in> fst ` set ?m \<or> int (length ?m) < ?n")
      case True
      have "\<not> (int (length ?m) \<ge> ?n \<and> (case gm_get ?m key of None \<Rightarrow> True | Some e \<Rightarrow> ra_accountID e = ''''))"
      proof (cases "gm_get ?m key")
        case None
        with True show ?thesis by (auto simp: map_of_eq_None_iff)
      next
        case (Some e)
        with ok show ?thesis by (auto simp: affinityOk_def dest!: map_of_SomeD)
      qed
      with False True show thesis
        by (intro known) (auto simp: q_def rememberRouteAffinityLocked_def Let_def e_def)
    next
      case full: False
      then have none: "gm_get ?m key = None" by (simp add: map_of_eq_None_iff)
      have ne: "?m \<noteq> []" using False full by auto
      with ok have nz: "old \<noteq> ''''" unfolding old_def by (intro oldest_scan_nonempty) (auto simp: affinityOk_def)
      with oldest_scan_mem [of ra_lastSeen "''''" zero_time ?m] have mem: "old \<in> fst ` set ?m" by (simp add: old_def)
      from full False none nz have "q = p\<lparr>affinity := gm_put key e (gm_del old ?m)\<rparr>"
        by (simp add: q_def rememberRouteAffinityLocked_def Let_def e_def old_def [symmetric])
      with False full mem ok show thesis by (intro evict) (auto simp: affinityOk_def)
    qed
  qed
qed

text \<open>
  Remembering a route keeps the affinity table within its configured size. The
  route is found under its key with the account and time recorded; every other route survives, except, when the
  table is full and the key is new, one whose last use is the oldest of all.
\<close>

theorem rememberRouteAffinity_bounded:
  fixes now :: gotime
  assumes "affinityOk up p" "key \<noteq> ''''" "aid \<noteq> ''''" "0 < up_RouteAffinityMaxEntries up"
  defines "q \<equiv> rememberRouteAffinityLocked up key aid now p"
  shows "affinityOk up q \<and> gm_get (affinity q) key = Some \<lparr>ra_accountID = aid, ra_lastSeen = now\<rparr> \<and>
    (\<forall>k e. k \<noteq> key \<longrightarrow> gm_get (affinity p) k = Some e \<longrightarrow>
       gm_get (affinity q) k = Some e \<or>
       (gm_get (affinity q) k = None \<and> (\<forall>f \<in> snd ` set (affinity p). ra_lastSeen e \<le> ra_lastSeen f) \<and>
        int (length (affinity p)) = up_RouteAffinityMaxEntries up \<and> key \<notin> fst ` set (affinity p)))"
  using assms(1)
proof (cases rule: remember_cases [where key = key and aid = aid and now = now])
  case off
  with assms(2,4) show ?thesis by simp
next
  case known
  have "int (length (gm_put key e (affinity p))) \<le> up_RouteAffinityMaxEntries up" for e
  proof (cases "key \<in> fst ` set (affinity p)")
    case True
    then show ?thesis using assms(1,4) by (auto simp: length_gm_put_mem affinityOk_def)
  next
    case False
    with known(3) have "int (length (affinity p)) < up_RouteAffinityMaxEntries up" by simp
    with length_gm_put_le [of key e "affinity p"] show ?thesis by linarith
  qed
  with known assms(1-4) show ?thesis
    unfolding q_def known(4) by (auto simp: affinityOk_def gm_get_put dest!: set_gm_put)
next
  case evict
  let ?old = "oldest_scan ra_lastSeen '''' zero_time (affinity p)"
  have "affinity p \<noteq> []" using evict(2,4) by auto
  then obtain v where v: "gm_get (affinity p) ?old = Some v" "\<forall>w \<in> snd ` set (affinity p). ra_lastSeen v \<le> ra_lastSeen w"
    using assms(1) by (rule_tac oldest_scan_minimal [of "affinity p" ra_lastSeen zero_time]) (auto simp: affinityOk_def)
  have "int (length (gm_put key e (gm_del ?old (affinity p)))) \<le> up_RouteAffinityMaxEntries up" for e
    using length_gm_put_le [of key e "gm_del ?old (affinity p)"] length_gm_del_mem [OF evict(6)] evict(4) by linarith
  with evict assms(1-4) have "affinityOk up q"
    unfolding q_def evict(5) using set_gm_del [of ?old "affinity p"]
    by (auto simp: affinityOk_def gm_wf_del dest!: set_gm_put)
  with evict v show ?thesis unfolding q_def evict(5) by (auto simp: gm_get_put gm_get_del)
qed

theorem rememberRouteAffinity_bounded_witness:
  "affinityOk demoProtection (rememberRouteAffinityLocked demoProtection ''r3'' ''b'' 30
     (demoPool\<lparr>affinity := [(''r1'', \<lparr>ra_accountID = ''a'', ra_lastSeen = 20\<rparr>), (''r2'', \<lparr>ra_accountID = ''a'', ra_lastSeen = 10\<rparr>)]\<rparr>))"
  by (rule conjunct1, rule rememberRouteAffinity_bounded) (simp_all add: affinityOk_def demoProtection_def)

section \<open>The fallback when every account is cooling down\<close>

lemma coolestAccount_best:
  assumes "coolestAccount cds usable (Some (b, c)) acs = Some acc" "\<forall>a \<in> set acs. usable a \<longrightarrow> gm_get cds (acc_ID a) \<noteq> None"
    and "gm_get cds (acc_ID b) = Some c"
  shows "(acc = b \<or> (acc \<in> set acs \<and> usable acc)) \<and>
    (\<exists>d. gm_get cds (acc_ID acc) = Some d \<and> d \<le> c \<and>
      (\<forall>a \<in> set acs. \<forall>e. usable a \<longrightarrow> gm_get cds (acc_ID a) = Some e \<longrightarrow> d \<le> e))"
  using assms
proof (induction acs arbitrary: b c)
  case (Cons x xs)
  show ?case
  proof (cases "usable x")
    case False
    with Cons.prems Cons.IH [of b c] show ?thesis by auto
  next
    case True
    with Cons.prems obtain e where e: "gm_get cds (acc_ID x) = Some e" by auto
    show ?thesis
    proof (cases "e < c")
      case less: True
      with Cons.prems True e Cons.IH [of x e] show ?thesis by force
    next
      case ge: False
      with Cons.prems True e Cons.IH [of b c] show ?thesis by force
    qed
  qed
qed simp

lemma coolestAccount_earliest:
  assumes "coolestAccount cds usable None acs = Some acc" "\<forall>a \<in> set acs. usable a \<longrightarrow> gm_get cds (acc_ID a) \<noteq> None"
  shows "acc \<in> set acs \<and> usable acc \<and>
    (\<exists>d. gm_get cds (acc_ID acc) = Some d \<and> (\<forall>a \<in> set acs. \<forall>e. usable a \<longrightarrow> gm_get cds (acc_ID a) = Some e \<longrightarrow> d \<le> e))"
  using assms
proof (induction acs)
  case (Cons x xs)
  show ?case
  proof (cases "usable x")
    case False
    with Cons show ?thesis by auto
  next
    case True
    with Cons.prems obtain e where e: "gm_get cds (acc_ID x) = Some e" by auto
    with True Cons.prems coolestAccount_best [of cds usable x e xs acc] show ?thesis by force
  qed
qed simp

lemma coolestAccount_None: "coolestAccount cds usable None acs = None \<longleftrightarrow> (\<forall>a \<in> set acs. \<not> usable a)"
proof -
  have "coolestAccount cds usable (Some bc) acs \<noteq> None" for bc acs
    by (induction acs arbitrary: bc) (auto split: option.split)
  then show ?thesis by (induction acs) (auto split: option.split)
qed

text \<open>
  When no account can be selected, \<open>GetNextExcluding\<close> falls back on an account that is
  not excluded, within its quota and routable, and among those that are all cooling down it is one whose
  cooldown ends first; it returns none only if there is no such account.
\<close>

theorem GetNextExcluding_fallback:
  assumes "selectionIndexesLocked cfg p '''' ex now = []"
  defines "usable \<equiv> (\<lambda>a. \<not> gm_zero False ex (acc_ID a) \<and> \<not> isQuotaBlocked a (cfg_AllowOverUsage cfg) \<and>
      accountTokenRoutableLocked cfg p a now)"
  shows "(fst (GetNextExcluding cfg ex now p) = None \<longleftrightarrow> (\<forall>a \<in> set (accounts p). \<not> usable a)) \<and>
    (\<forall>acc. fst (GetNextExcluding cfg ex now p) = Some acc \<longrightarrow>
      (\<forall>a \<in> set (accounts p). usable a \<longrightarrow> gm_get (cooldowns p) (acc_ID a) \<noteq> None) \<longrightarrow>
      acc \<in> set (accounts p) \<and> usable acc \<and>
      (\<exists>d. gm_get (cooldowns p) (acc_ID acc) = Some d \<and>
        (\<forall>a \<in> set (accounts p). \<forall>e. usable a \<longrightarrow> gm_get (cooldowns p) (acc_ID a) = Some e \<longrightarrow> d \<le> e)))"
proof -
  have g: "fst (GetNextExcluding cfg ex now p) = coolestAccount (cooldowns p) usable None (accounts p)"
    using assms(1) by (simp add: GetNextExcluding_def usable_def)
  show ?thesis unfolding g using coolestAccount_earliest [of "cooldowns p" usable "accounts p"]
    by (simp add: coolestAccount_None)
qed

theorem GetNextExcluding_fallback_witness:
  "fst (GetNextExcluding demoConfig [] 5 (demoPool\<lparr>cooldowns := [(''a'', 9), (''b'', 7)]\<rparr>)) = Some (demoAccount ''b'' 1)"
proof -
  let ?p = "demoPool\<lparr>cooldowns := [(''a'', 9), (''b'', 7)]\<rparr>"
  have acs: "accounts ?p = [demoAccount ''a'' 2, demoAccount ''b'' 1]" and cds: "cooldowns ?p = [(''a'', 9), (''b'', 7)]"
    by (simp_all add: demo_defs)
  have "\<not> accountSelectableBasicLocked demoConfig ?p a '''' [] 5 fb" if "a \<in> set (accounts ?p)" for a fb
    using that by (auto simp: accountSelectableBasicLocked_def acs cds demoAccount_def)
  then have nil: "selectionIndexesLocked demoConfig ?p '''' [] 5 = []"
    unfolding selectionIndexesLocked_def Let_def
    by (simp add: selectionIndexesForTokenStateLocked_def acs upt_rec demoConfig_def)
  have use: "\<not> isQuotaBlocked (demoAccount i w) (cfg_AllowOverUsage demoConfig)"
    "accountTokenRoutableLocked demoConfig ?p (demoAccount i w) 5" for i w
    by (simp_all add: demo_defs isQuotaBlocked_def isOverUsageLimit_def accountTokenRoutableLocked_def
        accountTokenNeedsRefresh_def trim_space_def is_space_def)
  have ids: "acc_ID (demoAccount i w) = i" for i w by (simp add: demoAccount_def)
  obtain acc where acc: "fst (GetNextExcluding demoConfig [] 5 ?p) = Some acc"
    using conjunct1 [OF GetNextExcluding_fallback [OF nil]] acs use by (auto simp: ids)
  have every: "\<forall>a \<in> set (accounts ?p). gm_get (cooldowns ?p) (acc_ID a) \<noteq> None" by (simp add: acs cds ids)
  have mem: "acc = demoAccount ''a'' 2 \<or> acc = demoAccount ''b'' 1"
    and low: "\<exists>d. gm_get (cooldowns ?p) (acc_ID acc) = Some d \<and> d \<le> 7"
    using conjunct2 [OF GetNextExcluding_fallback [OF nil]] acc every use
    by (auto simp: acs cds ids split: if_splits)
  from mem low have "acc = demoAccount ''b'' 1" by (elim disjE) (simp_all add: cds ids)
  with acc show ?thesis by simp
qed

section \<open>Status codes in error messages\<close>

text \<open>
  \<open>HasStatusToken\<close> finds a status code in a message if and only if the code occurs
  somewhere with no letter or digit next to it on either side: \<open>401\<close> is not found in \<open>4013\<close> or \<open>id401x\<close>.
\<close>

theorem HasStatusToken_iff:
  "HasStatusToken s status \<longleftrightarrow> status \<noteq> '''' \<and>
     (\<exists>pre post. s = pre @ status @ post \<and> (pre = [] \<or> \<not> isAlphaNum (last pre)) \<and> (post = [] \<or> \<not> isAlphaNum (hd post)))"
proof (cases "status = ''''")
  case False
  have "(\<exists>idx. standaloneAt s status idx) \<longleftrightarrow>
     (\<exists>pre post. s = pre @ status @ post \<and> (pre = [] \<or> \<not> isAlphaNum (last pre)) \<and> (post = [] \<or> \<not> isAlphaNum (hd post)))"
    (is "?L \<longleftrightarrow> ?R")
  proof
    assume ?L
    then obtain idx where st: "standaloneAt s status idx" ..
    then obtain post where post: "drop idx s = status @ post" by (auto simp: standaloneAt_def prefix_def)
    have idx: "idx < length s" using standaloneAt_range [OF st] False by simp
    have s: "s = take idx s @ status @ post" using post by (metis append_take_drop_id)
    have len: "length s = idx + length status + length post" using arg_cong [OF s, of length] idx by simp
    have left: "take idx s = [] \<or> \<not> isAlphaNum (last (take idx s))"
      using st idx by (auto simp: standaloneAt_def boundedAt_def last_conv_nth)
    have "s ! (idx + length status) = hd post" if "post \<noteq> []"
      using that post idx by (metis append_eq_conv_conj drop_drop hd_drop_conv_nth add.commute drop_eq_Nil2 leI)
    then have "post = [] \<or> \<not> isAlphaNum (hd post)"
      using st len by (auto simp: standaloneAt_def boundedAt_def Let_def)
    with left s show ?R by blast
  next
    assume ?R
    then obtain pre post where s: "s = pre @ status @ post" "pre = [] \<or> \<not> isAlphaNum (last pre)" "post = [] \<or> \<not> isAlphaNum (hd post)" by blast
    have "standaloneAt s status (length pre)"
      using s by (auto simp: standaloneAt_def boundedAt_def Let_def nth_append last_conv_nth hd_conv_nth)
    then show ?L ..
  qed
  with False show ?thesis by (simp add: HasStatusToken_def hasStatusTokenFrom_iff del: hasStatusTokenFrom.simps)
qed (simp add: HasStatusToken_def)

theorem HasStatusToken_iff_witness:
  "HasStatusToken ''HTTP 401: denied'' ''401'' \<and> \<not> HasStatusToken ''id 4013'' ''401''"
proof
  have "\<not> isAlphaNum (last ''HTTP '')" "\<not> isAlphaNum (hd '': denied'')" by code_simp+
  then have "\<exists>pre post. ''HTTP 401: denied'' = pre @ ''401'' @ post \<and> (pre = [] \<or> \<not> isAlphaNum (last pre)) \<and>
      (post = [] \<or> \<not> isAlphaNum (hd post))"
    by (intro exI [of _ "''HTTP ''"] exI [of _ "'': denied''"]) simp
  then show "HasStatusToken ''HTTP 401: denied'' ''401''" by (simp only: HasStatusToken_iff) simp
  show "\<not> HasStatusToken ''id 4013'' ''401''" by code_simp
qed

end
