(* ===== verification/Event_Stream.thy ===== *)
theory Event_Stream
  imports Go_Prelude
begin

unbundle bit_operations_syntax

text \<open>
  The decoder of AWS EventStream frames, \<open>proxy/eventstream.go\<close>, with the CRC-32 of
  \<open>hash/crc32\<close> it checks frames with, and the idle timer of the stream reader.

  A reader is the bytes that are still to come and the error that follows them, \<open>io.EOF\<close> or
  another one. \<open>encodeFrame\<close> is the AWS wire format, the specification the decoder is
  measured against; it models no code of the repository.
\<close>

type_synonym byte = "8 word"

section \<open>CRC-32, \<open>hash/crc32\<close> with the IEEE polynomial\<close>

definition crc_bit :: "32 word \<Rightarrow> 32 word" where
  "crc_bit c = (if bit c 0 then drop_bit 1 c XOR 0xEDB88320 else drop_bit 1 c)"

definition crc_byte :: "32 word \<Rightarrow> byte \<Rightarrow> 32 word" where
  "crc_byte c b = (crc_bit ^^ 8) (c XOR ucast b)"

definition crc_update :: "32 word \<Rightarrow> byte list \<Rightarrow> 32 word" where
  "crc_update c bs = NOT (foldl crc_byte (NOT c) bs)"

definition checksumIEEE :: "byte list \<Rightarrow> 32 word" where
  "checksumIEEE bs = crc_update 0 bs"

text \<open>Two writes to a running checksum are one write of both.\<close>

lemma crc_update_append: "crc_update (crc_update c xs) ys = crc_update c (xs @ ys)"
  by (simp add: crc_update_def)

section \<open>Big-endian numbers\<close>

definition uint32_be :: "byte list \<Rightarrow> nat" where
  "uint32_be bs = unat (bs ! 0) * 16777216 + unat (bs ! 1) * 65536 + unat (bs ! 2) * 256 + unat (bs ! 3)"

definition uint16_be :: "byte list \<Rightarrow> nat" where
  "uint16_be bs = unat (bs ! 0) * 256 + unat (bs ! 1)"

definition be32 :: "nat \<Rightarrow> byte list" where
  "be32 n = [of_nat (n div 16777216), of_nat (n div 65536), of_nat (n div 256), of_nat n]"

definition be16 :: "nat \<Rightarrow> byte list" where
  "be16 n = [of_nat (n div 256), of_nat n]"

definition bytesToString :: "byte list \<Rightarrow> string" where
  "bytesToString bs = map (\<lambda>b. char_of (unat b)) bs"

definition hexDigit :: "nat \<Rightarrow> char" where
  "hexDigit n = char_of (if n < 10 then 48 + n else 87 + n)"

text \<open>\<open>%08x\<close> of a 32-bit number.\<close>

definition show_hex8 :: "nat \<Rightarrow> string" where
  "show_hex8 n = map (\<lambda>i. hexDigit (n div 16 ^ i mod 16)) (rev [0..<8])"

section \<open>Readers and errors\<close>

datatype ReadError = EOF | ErrUnexpectedEOF | OtherError string

type_synonym reader = "byte list \<times> ReadError"

text \<open>\<open>io.ReadFull\<close>: all \<open>n\<close> bytes, or the number read and why there are no more.\<close>

definition readFull :: "nat \<Rightarrow> reader \<Rightarrow> (nat \<times> ReadError + byte list) \<times> reader" where
  "readFull n = (\<lambda>(bs, e).
     if n \<le> length bs then (Inr (take n bs), (drop n bs, e))
     else (Inl (length bs, if e = EOF \<and> bs \<noteq> [] then ErrUnexpectedEOF else e), ([], e)))"

datatype EventStreamErrorKind =
    EventStreamTruncated
  | EventStreamInvalidLength
  | EventStreamFrameTooLarge
  | EventStreamPreludeCRCMismatch
  | EventStreamMessageCRCMismatch
  | EventStreamInvalidHeaders
  | EventStreamInvalidPayload
  | EventStreamIncompleteToolUse
  | EventStreamIncompleteResponse

record EventStreamError =
  es_Kind :: EventStreamErrorKind
  es_Message :: string
  es_Cause :: "ReadError option"
  es_ToolName :: string
  es_ArgumentBytes :: int
  es_FragmentCount :: int

definition streamError :: "EventStreamErrorKind \<Rightarrow> string \<Rightarrow> ReadError option \<Rightarrow> EventStreamError" where
  "streamError kind message cause = \<lparr>es_Kind = kind, es_Message = message, es_Cause = cause,
     es_ToolName = '''', es_ArgumentBytes = 0, es_FragmentCount = 0\<rparr>"

text \<open>What reading a frame may fail with: the plain \<open>io.EOF\<close> of a finished stream, or an error of its own.\<close>

datatype FrameError = StreamEnd | FrameError EventStreamError

record eventStreamFrame =
  fr_headers :: "(string, string) gomap"
  fr_payload :: "byte list"

section \<open>Headers\<close>

definition invalidEventStreamHeaders :: "string \<Rightarrow> EventStreamError" where
  "invalidEventStreamHeaders message = streamError EventStreamInvalidHeaders message None"

text \<open>
  The switch on the value type: the string value, if it is one, and the bytes after the value.
\<close>

definition skipBytes :: "nat \<Rightarrow> string \<Rightarrow> byte list \<Rightarrow> EventStreamError + (string option \<times> byte list)" where
  "skipBytes n message data =
     (if n > length data then Inl (invalidEventStreamHeaders message) else Inr (None, drop n data))"

definition headerValue :: "byte \<Rightarrow> byte list \<Rightarrow> EventStreamError + (string option \<times> byte list)" where
  "headerValue valueType data =
     (if valueType = 0 \<or> valueType = 1 then Inr (None, data)
      else if valueType = 2 then skipBytes 1 ''byte header is truncated'' data
      else if valueType = 3 then skipBytes 2 ''short header is truncated'' data
      else if valueType = 4 then skipBytes 4 ''integer header is truncated'' data
      else if valueType = 5 \<or> valueType = 8 then skipBytes 8 ''long header is truncated'' data
      else if valueType = 6 \<or> valueType = 7 then
        (if 2 > length data then Inl (invalidEventStreamHeaders ''variable-length header size is truncated'')
         else let valueLength = uint16_be (take 2 data); rest = drop 2 data
              in if valueLength > length rest
                 then Inl (invalidEventStreamHeaders ''variable-length header value is truncated'')
                 else Inr (if valueType = 7 then Some (bytesToString (take valueLength rest)) else None,
                           drop valueLength rest))
      else if valueType = 9 then skipBytes 16 ''UUID header is truncated'' data
      else Inl (invalidEventStreamHeaders (''unsupported header value type '' @ show_nat (unat valueType))))"

lemma headerValue_length: "headerValue t data = Inr (v, rest) \<Longrightarrow> length rest \<le> length data"
  by (auto simp: headerValue_def skipBytes_def Let_def split: if_splits)

text \<open>The loop over the headers; its argument is the part of the data from \<open>offset\<close> on.\<close>

function parseHeadersFrom :: "(string, string) gomap \<Rightarrow> byte list \<Rightarrow> EventStreamError + (string, string) gomap" where
  "parseHeadersFrom headers data =
     (if data = [] then Inr headers
      else
        let nameLength = unat (hd data); d1 = tl data
        in if nameLength = 0 then Inl (invalidEventStreamHeaders ''header name is empty'')
           else if nameLength + 1 > length d1
           then Inl (invalidEventStreamHeaders ''header name or value type is truncated'')
           else case headerValue (d1 ! nameLength) (drop (nameLength + 1) d1) of
                  Inl e \<Rightarrow> Inl e
                | Inr vr \<Rightarrow>
                    parseHeadersFrom
                      (case fst vr of None \<Rightarrow> headers
                       | Some v \<Rightarrow> gm_put (bytesToString (take nameLength d1)) v headers) (snd vr))"
  by pat_completeness auto
termination
proof (relation "measure (\<lambda>(headers, data). length data)")
  fix headers :: "(string, string) gomap" and data d1 :: "byte list" and nameLength vr
  assume "data \<noteq> []" "d1 = tl data" "\<not> length d1 < nameLength + 1"
    "headerValue (d1 ! nameLength) (drop (nameLength + 1) d1) = Inr vr"
  then have "length (snd vr) \<le> length (drop (nameLength + 1) d1)" by (metis headerValue_length prod.collapse)
  with \<open>data \<noteq> []\<close> \<open>d1 = tl data\<close>
  show "((case fst vr of None \<Rightarrow> headers | Some v \<Rightarrow> gm_put (bytesToString (take nameLength d1)) v headers, snd vr),
         headers, data) \<in> measure (\<lambda>(headers, data). length data)"
    by (cases data) auto
qed simp

declare parseHeadersFrom.simps [simp del]

definition parseEventStreamHeaders :: "byte list \<Rightarrow> EventStreamError + (string, string) gomap" where
  "parseEventStreamHeaders data = parseHeadersFrom [] data"

section \<open>Frames\<close>

definition eventStreamPreludeSize :: nat where "eventStreamPreludeSize = 12"
definition eventStreamMinFrame :: nat where "eventStreamMinFrame = 16"
definition eventStreamMaxFrame :: nat where "eventStreamMaxFrame = 16777216"

definition crcMismatch :: "EventStreamErrorKind \<Rightarrow> nat \<Rightarrow> 32 word \<Rightarrow> EventStreamError" where
  "crcMismatch kind expected actual = streamError kind
     (''expected 0x'' @ show_hex8 expected @ '', calculated 0x'' @ show_hex8 (unat actual)) None"

text \<open>The part of \<open>readEventStreamFrame\<close> after the prelude has been read and checked.\<close>

definition readFrameBody :: "byte list \<Rightarrow> nat \<Rightarrow> nat \<Rightarrow> reader \<Rightarrow> (FrameError + eventStreamFrame) \<times> reader" where
  "readFrameBody prelude totalLength headersLength r =
     (let remainingLength = totalLength - eventStreamPreludeSize
      in case readFull remainingLength r of
           (Inl (n, err), r') \<Rightarrow>
             (Inl (FrameError (streamError EventStreamTruncated
                (''incomplete frame: read '' @ show_nat n @ '' of '' @ show_nat remainingLength @ '' remaining bytes'')
                (Some err))), r')
         | (Inr remaining, r') \<Rightarrow>
             let bodyLength = length remaining - 4;
                 expectedMessageCRC = uint32_be (drop bodyLength remaining);
                 actualMessageCRC = crc_update (checksumIEEE prelude) (take bodyLength remaining)
             in if unat actualMessageCRC \<noteq> expectedMessageCRC
                then (Inl (FrameError (crcMismatch EventStreamMessageCRCMismatch expectedMessageCRC actualMessageCRC)), r')
                else case parseEventStreamHeaders (take headersLength remaining) of
                       Inl e \<Rightarrow> (Inl (FrameError e), r')
                     | Inr headers \<Rightarrow>
                         (Inr \<lparr>fr_headers = headers,
                               fr_payload = drop headersLength (take bodyLength remaining)\<rparr>, r'))"

definition readEventStreamFrame :: "reader \<Rightarrow> (FrameError + eventStreamFrame) \<times> reader" where
  "readEventStreamFrame r =
     (case readFull eventStreamPreludeSize r of
        (Inl (n, err), r') \<Rightarrow>
          (Inl (if err = EOF \<and> n = 0 then StreamEnd
                else FrameError (streamError EventStreamTruncated
                  (''incomplete prelude: read '' @ show_nat n @ '' of '' @ show_nat eventStreamPreludeSize @ '' bytes'')
                  (Some err))), r')
      | (Inr prelude, r') \<Rightarrow>
          let totalLength = uint32_be (take 4 prelude);
              headersLength = uint32_be (take 4 (drop 4 prelude));
              expectedPreludeCRC = uint32_be (take 4 (drop 8 prelude));
              actualPreludeCRC = checksumIEEE (take 8 prelude)
          in if totalLength < eventStreamMinFrame
             then (Inl (FrameError (streamError EventStreamInvalidLength
                     (''frame length '' @ show_nat totalLength @ '' is below minimum '' @ show_nat eventStreamMinFrame) None)), r')
             else if totalLength > eventStreamMaxFrame
             then (Inl (FrameError (streamError EventStreamFrameTooLarge
                     (''frame length '' @ show_nat totalLength @ '' exceeds maximum '' @ show_nat eventStreamMaxFrame) None)), r')
             else if headersLength > totalLength - eventStreamMinFrame
             then (Inl (FrameError (streamError EventStreamInvalidLength
                     (''headers length '' @ show_nat headersLength @ '' exceeds frame payload boundary'') None)), r')
             else if unat actualPreludeCRC \<noteq> expectedPreludeCRC
             then (Inl (FrameError (crcMismatch EventStreamPreludeCRCMismatch expectedPreludeCRC actualPreludeCRC)), r')
             else readFrameBody prelude totalLength headersLength r')"

section \<open>The idle timer\<close>

text \<open>
  \<open>streamIdleReader\<close>: the armed timer is its deadline, \<open>sr_timeouts\<close> counts the calls of \<open>onTimeout\<close>.
  \<open>fire\<close> runs on a goroutine of its own when the timer expires, at any later moment.
\<close>

record streamIdleReader =
  sr_timeout :: duration
  sr_timer :: "gotime option"
  sr_stopped :: bool
  sr_fired :: bool
  sr_timeouts :: nat

definition newStreamIdleReader :: "duration \<Rightarrow> gotime \<Rightarrow> streamIdleReader" where
  "newStreamIdleReader timeout now = \<lparr>sr_timeout = timeout, sr_timer = (if timeout > 0 then Some (now + timeout) else None),
     sr_stopped = False, sr_fired = False, sr_timeouts = 0\<rparr>"

definition idle_touch :: "gotime \<Rightarrow> streamIdleReader \<Rightarrow> streamIdleReader" where
  "idle_touch now r =
     (if sr_timeout r \<le> 0 then r
      else if \<not> sr_stopped r \<and> \<not> sr_fired r \<and> sr_timer r \<noteq> None
      then r\<lparr>sr_timer := Some (now + sr_timeout r)\<rparr> else r)"

definition idle_Read :: "nat \<Rightarrow> gotime \<Rightarrow> streamIdleReader \<Rightarrow> streamIdleReader" where
  "idle_Read n now r = (if n > 0 then idle_touch now r else r)"

definition idle_Stop :: "streamIdleReader \<Rightarrow> streamIdleReader" where
  "idle_Stop r = r\<lparr>sr_stopped := True, sr_timer := None\<rparr>"

definition idle_fire :: "streamIdleReader \<Rightarrow> streamIdleReader" where
  "idle_fire r = (if sr_stopped r \<or> sr_fired r then r else r\<lparr>sr_fired := True, sr_timeouts := sr_timeouts r + 1\<rparr>)"

end
