(* ===== verification/Event_Stream_Props.thy ===== *)
theory Event_Stream_Props
  imports Event_Stream
begin

unbundle bit_operations_syntax

text \<open>
  Properties of the EventStream decoder: it reads back every frame of the wire format and
  leaves the rest of the stream alone, detects the change of any single byte of a frame's
  body, and reports truncation. The CRC argument rests on one fact: a step of the CRC register is
  invertible.
\<close>

section \<open>The CRC register\<close>

definition crc_bit_inv :: "32 word \<Rightarrow> 32 word" where
  "crc_bit_inv r = (if bit r 31 then push_bit 1 (r XOR 0xEDB88320) OR 1 else push_bit 1 r)"

lemma word_bit_32: "\<not> bit (c :: 32 word) 32"
  using bit_imp_le_length [of c 32] by auto

lemma push_drop_bit_1: "push_bit 1 (drop_bit 1 c) = c AND NOT (1 :: 32 word)"
proof (rule bit_word_eqI)
  fix n assume "n < LENGTH(32)"
  then show "bit (push_bit 1 (drop_bit 1 c)) n = bit (c AND NOT 1) n"
    unfolding bit_push_bit_iff bit_drop_bit_eq bit_and_iff bit_not_iff bit_1_iff comp_def
    by (cases n) (auto simp: possible_bit_def)
qed

lemma crc_bit_inverse: "crc_bit_inv (crc_bit c) = c"
proof (cases "bit c 0")
  case True
  have top: "bit (drop_bit 1 c XOR 0xEDB88320) 31" by (simp add: bit_xor_iff bit_drop_bit_eq word_bit_32)
  have "c AND NOT 1 OR 1 = c"
    using True by (intro bit_word_eqI) (auto simp: bit_or_iff bit_and_iff bit_not_iff bit_1_iff)
  moreover have "(x XOR y) XOR y = x" for x y :: "32 word" by (simp add: xor.assoc)
  ultimately have "push_bit 1 ((drop_bit 1 c XOR 0xEDB88320) XOR 0xEDB88320) OR 1 = c"
    by (simp only: push_drop_bit_1)
  with top True show ?thesis by (simp only: crc_bit_inv_def crc_bit_def if_True)
next
  case False
  have top: "\<not> bit (drop_bit 1 c) 31" by (simp add: bit_drop_bit_eq word_bit_32)
  have "c AND NOT 1 = c"
    using False by (intro bit_word_eqI) (auto simp: bit_and_iff bit_not_iff bit_1_iff intro: gr0I)
  with top False show ?thesis by (simp only: crc_bit_inv_def crc_bit_def push_drop_bit_1 if_False)
qed

lemma inj_crc_bit: "inj crc_bit"
  by (rule inj_on_inverseI [where g = crc_bit_inv]) (rule crc_bit_inverse)

lemma inj_crc_bits: "inj (crc_bit ^^ n)"
proof (induction n)
  case (Suc n)
  then show ?case unfolding funpow.simps by (rule inj_compose [OF inj_crc_bit])
qed simp

lemma xor_cancel_right: "x XOR z = y XOR z \<longleftrightarrow> x = (y :: 32 word)"
  by (metis xor.assoc xor.right_neutral xor_self_eq)

lemma crc_byte_state: "crc_byte c b = crc_byte d b \<longleftrightarrow> c = d"
  unfolding crc_byte_def inj_eq [OF inj_crc_bits] by (rule xor_cancel_right)

lemma crc_byte_data: "crc_byte c a = crc_byte c b \<longleftrightarrow> a = b"
proof -
  have "c XOR ucast a = c XOR ucast b \<longleftrightarrow> (ucast a :: 32 word) = ucast b"
    using xor_cancel_right [of "ucast a" c "ucast b"] by (simp add: xor.commute)
  also have "\<dots> \<longleftrightarrow> a = b" 
  proof
    assume "(ucast a :: 32 word) = ucast b"
    then have "unat (ucast a :: 32 word) = unat (ucast b :: 32 word)" by simp
    then show "a = b" by (simp add: unsigned_ucast_eq take_bit_nat_eq_self order.strict_trans [OF unsigned_less] word_unat_eq_iff)
  qed simp
  finally show ?thesis unfolding crc_byte_def inj_eq [OF inj_crc_bits] .
qed

lemma crc_state_inj: "foldl crc_byte c xs = foldl crc_byte d xs \<longleftrightarrow> c = d"
  by (induction xs arbitrary: c d) (simp_all add: crc_byte_state)

text \<open>Two messages that differ in one byte have different checksums, whatever state the checksum starts from.\<close>

lemma crc_single_byte:
  "a \<noteq> b \<Longrightarrow> crc_update c (xs @ a # ys) \<noteq> crc_update c (xs @ b # ys)"
  by (simp add: crc_update_def crc_state_inj crc_byte_data)

section \<open>The wire format\<close>

text \<open>A header value of the AWS format: its type and its bytes; only strings reach the frame's headers.\<close>

datatype HeaderValue =
    HBool bool
  | HFixed byte "byte list"
  | HBytes "byte list"
  | HString "byte list"

fun valueOk :: "HeaderValue \<Rightarrow> bool" where
  "valueOk (HBool b) = True"
| "valueOk (HFixed t bs) = ((t = 2 \<and> length bs = 1) \<or> (t = 3 \<and> length bs = 2) \<or> (t = 4 \<and> length bs = 4) \<or>
     ((t = 5 \<or> t = 8) \<and> length bs = 8) \<or> (t = 9 \<and> length bs = 16))"
| "valueOk (HBytes bs) = (length bs < 65536)"
| "valueOk (HString bs) = (length bs < 65536)"

fun encodeValue :: "HeaderValue \<Rightarrow> byte list" where
  "encodeValue (HBool b) = [if b then 0 else 1]"
| "encodeValue (HFixed t bs) = t # bs"
| "encodeValue (HBytes bs) = 6 # be16 (length bs) @ bs"
| "encodeValue (HString bs) = 7 # be16 (length bs) @ bs"

type_synonym header = "byte list \<times> HeaderValue"

definition headerOk :: "header \<Rightarrow> bool" where
  "headerOk h \<longleftrightarrow> 0 < length (fst h) \<and> length (fst h) < 256 \<and> valueOk (snd h)"

definition encodeHeader :: "header \<Rightarrow> byte list" where
  "encodeHeader h = of_nat (length (fst h)) # fst h @ encodeValue (snd h)"

definition encodeHeaders :: "header list \<Rightarrow> byte list" where
  "encodeHeaders hs = concat (map encodeHeader hs)"

text \<open>The string headers, a later one with the same name overwriting an earlier one.\<close>

fun stringHeaders :: "(string, string) gomap \<Rightarrow> header list \<Rightarrow> (string, string) gomap" where
  "stringHeaders m [] = m"
| "stringHeaders m ((name, HString bs) # hs) = stringHeaders (gm_put (bytesToString name) (bytesToString bs) m) hs"
| "stringHeaders m ((name, v) # hs) = stringHeaders m hs"

definition framePrelude :: "header list \<Rightarrow> byte list \<Rightarrow> byte list" where
  "framePrelude hs payload =
     (let lens = be32 (16 + length (encodeHeaders hs) + length payload) @ be32 (length (encodeHeaders hs))
      in lens @ be32 (unat (checksumIEEE lens)))"

definition encodeFrame :: "header list \<Rightarrow> byte list \<Rightarrow> byte list" where
  "encodeFrame hs payload =
     (let message = framePrelude hs payload @ encodeHeaders hs @ payload
      in message @ be32 (unat (checksumIEEE message)))"

definition frameOk :: "header list \<Rightarrow> byte list \<Rightarrow> bool" where
  "frameOk hs payload \<longleftrightarrow> list_all headerOk hs \<and> 16 + length (encodeHeaders hs) + length payload \<le> eventStreamMaxFrame"

lemma uint32_be_be32:
  assumes "n < 2 ^ 32"
  shows "uint32_be (be32 n) = n"
proof -
  have "n div 16777216 < 256" using assms by auto
  then have "unat (of_nat (n div 16777216) :: byte) = n div 16777216" by (simp add: unat_of_nat)
  moreover have "unat (of_nat k :: byte) = k mod 256" for k by (simp add: unat_of_nat)
  moreover have "n = n div 16777216 * 16777216 + n div 65536 mod 256 * 65536 + n div 256 mod 256 * 256 + n mod 256"
  proof -
    define q1 q2 q3 where "q1 = n div 256" and "q2 = q1 div 256" and "q3 = q2 div 256"
    define r0 r1 r2 where "r0 = n mod 256" and "r1 = q1 mod 256" and "r2 = q2 mod 256"
    have q: "n div 65536 = q2" "n div 16777216 = q3" by (simp_all add: q1_def q2_def q3_def div_mult2_eq [symmetric])
    have "n = q1 * 256 + r0" "q1 = q2 * 256 + r1" "q2 = q3 * 256 + r2"
      by (simp_all only: q1_def q2_def q3_def r0_def r1_def r2_def div_mult_mod_eq)
    then have "n = q3 * 16777216 + r2 * 65536 + r1 * 256 + r0" by linarith
    then show ?thesis unfolding q q1_def [symmetric] r0_def [symmetric] r1_def [symmetric] r2_def [symmetric] .
  qed
  ultimately show ?thesis
    by (simp only: uint32_be_def be32_def numeral_2_eq_2 numeral_3_eq_3 One_nat_def nth_Cons_0 nth_Cons_Suc)
qed

lemma uint16_be_be16:
  assumes "n < 65536"
  shows "uint16_be (be16 n) = n"
proof -
  have "n div 256 < 256" using assms by auto
  then show ?thesis by (simp add: uint16_be_def be16_def unat_of_nat)
qed

lemma length_be [simp]: "length (be32 n) = 4" "length (be16 n) = 2"
  by (simp_all add: be32_def be16_def)

lemma take_be [simp]: "take 4 (be32 n @ xs) = be32 n" "take 2 (be16 n @ xs) = be16 n"
  "drop 4 (be32 n @ xs) = xs" "drop 2 (be16 n @ xs) = xs"
  by (simp_all add: be32_def be16_def)

lemma unat_crc_less: "unat (w :: 32 word) < 2 ^ 32"
  using unsigned_less [of w] by simp

section \<open>Reading headers\<close>

lemma headerValue_encode:
  assumes "valueOk v"
  shows "headerValue (hd (encodeValue v)) (tl (encodeValue v) @ rest) =
    Inr (case v of HString bs \<Rightarrow> Some (bytesToString bs) | _ \<Rightarrow> None, rest)"
proof (cases v)
  case (HFixed t bs)
  with assms show ?thesis by (auto simp: headerValue_def skipBytes_def)
next
  case (HBytes bs)
  with assms show ?thesis by (simp add: headerValue_def uint16_be_be16 Let_def)
next
  case (HString bs)
  with assms show ?thesis by (simp add: headerValue_def uint16_be_be16 Let_def)
qed (simp add: headerValue_def)

lemma parseHeadersFrom_encode:
  assumes "headerOk h"
  shows "parseHeadersFrom m (encodeHeader h @ rest) = parseHeadersFrom (stringHeaders m [h]) rest"
proof -
  obtain name v where h: "h = (name, v)" by (cases h)
  obtain t bs where v: "encodeValue v = t # bs" by (cases v) auto
  have len: "unat (of_nat (length name) :: byte) = length name" "name \<noteq> []"
    using assms h by (auto simp: headerOk_def unat_of_nat)
  have val: "headerValue t (bs @ rest) = Inr (case v of HString bs \<Rightarrow> Some (bytesToString bs) | _ \<Rightarrow> None, rest)"
    using headerValue_encode [of v rest] assms h v by (simp add: headerOk_def)
  have "parseHeadersFrom m (encodeHeader h @ rest) =
      parseHeadersFrom (case (case v of HString bs \<Rightarrow> Some (bytesToString bs) | _ \<Rightarrow> None) of
        None \<Rightarrow> m | Some s \<Rightarrow> gm_put (bytesToString name) s m) rest"
    by (subst parseHeadersFrom.simps) (simp add: h encodeHeader_def v len val Let_def nth_append cong: option.case_cong)
  also have "\<dots> = parseHeadersFrom (stringHeaders m [h]) rest" by (cases v) (simp_all add: h)
  finally show ?thesis .
qed

lemma stringHeaders_Cons: "stringHeaders m (h # hs) = stringHeaders (stringHeaders m [h]) hs"
  by (cases h; cases "snd h") auto

lemma parseHeaders_encode: "list_all headerOk hs \<Longrightarrow> parseHeadersFrom m (encodeHeaders hs) = Inr (stringHeaders m hs)"
proof (induction hs arbitrary: m)
  case Nil
  then show ?case by (simp add: encodeHeaders_def parseHeadersFrom.simps)
next
  case (Cons h hs)
  have "parseHeadersFrom m (encodeHeaders (h # hs)) = parseHeadersFrom (stringHeaders m [h]) (encodeHeaders hs)"
    using Cons.prems parseHeadersFrom_encode by (simp add: encodeHeaders_def)
  with Cons stringHeaders_Cons [of m h hs] show ?case by simp
qed

section \<open>Reading frames\<close>

lemma readFull_append: "length xs = n \<Longrightarrow> readFull n (xs @ rest, e) = (Inr xs, (rest, e))"
  by (simp add: readFull_def)

lemma length_framePrelude [simp]: "length (framePrelude hs payload) = 12"
  by (simp add: framePrelude_def Let_def)

text \<open>After the prelude of a frame the reader goes on with the body, whatever the body is.\<close>

lemma readFrame_prelude:
  assumes "frameOk hs payload"
  shows "readEventStreamFrame (framePrelude hs payload @ rest, e) =
    readFrameBody (framePrelude hs payload) (16 + length (encodeHeaders hs) + length payload) (length (encodeHeaders hs)) (rest, e)"
proof -
  let ?h = "length (encodeHeaders hs)"
  let ?n = "16 + ?h + length payload"
  define lens where "lens = be32 ?n @ be32 ?h"
  have max: "?n \<le> 16777216" using assms by (simp add: frameOk_def eventStreamMaxFrame_def)
  then have small: "?n < 2 ^ 32" "?h < 2 ^ 32" by simp_all
  have pre: "framePrelude hs payload = lens @ be32 (unat (checksumIEEE lens))" by (simp add: framePrelude_def lens_def Let_def)
  have "length lens = 8" by (simp add: lens_def)
  then have parts: "uint32_be (take 4 (framePrelude hs payload)) = ?n" "uint32_be (take 4 (drop 4 (framePrelude hs payload))) = ?h"
    "take 8 (framePrelude hs payload) = lens" "uint32_be (take 4 (drop 8 (framePrelude hs payload))) = unat (checksumIEEE lens)"
    using small unat_crc_less [of "checksumIEEE lens"] by (simp_all add: pre uint32_be_be32) (simp_all add: lens_def uint32_be_be32)
  show ?thesis
    unfolding readEventStreamFrame_def eventStreamPreludeSize_def readFull_append [OF length_framePrelude] Let_def
    using max parts(4) by (simp add: parts(1-3) eventStreamMinFrame_def eventStreamMaxFrame_def)
qed

lemma readFrameBody_complete:
  assumes "length body + 16 = n" "length crc = 4"
  shows "readFrameBody prelude n h (body @ crc @ rest, e) =
    (if unat (checksumIEEE (prelude @ body)) \<noteq> uint32_be crc
     then Inl (FrameError (crcMismatch EventStreamMessageCRCMismatch (uint32_be crc) (checksumIEEE (prelude @ body))))
     else case parseEventStreamHeaders (take h (body @ crc)) of
            Inl err \<Rightarrow> Inl (FrameError err)
          | Inr headers \<Rightarrow> Inr \<lparr>fr_headers = headers, fr_payload = drop h body\<rparr>, (rest, e))"
proof -
  have "readFull (n - 12) (body @ crc @ rest, e) = (Inr (body @ crc), (rest, e))"
    using readFull_append [of "body @ crc" "n - 12" rest e] assms by simp
  then show ?thesis
    using assms unfolding readFrameBody_def eventStreamPreludeSize_def Let_def
    by (simp add: checksumIEEE_def crc_update_append split: sum.split)
qed

lemma readFrame_encoded:
  assumes "frameOk hs payload"
  shows "readEventStreamFrame (encodeFrame hs payload @ rest, e) =
    (Inr \<lparr>fr_headers = stringHeaders [] hs, fr_payload = payload\<rparr>, (rest, e))"
proof -
  let ?body = "encodeHeaders hs @ payload" and ?pre = "framePrelude hs payload"
  let ?crc = "be32 (unat (checksumIEEE (?pre @ ?body)))"
  have "readEventStreamFrame (encodeFrame hs payload @ rest, e) =
      readFrameBody ?pre (16 + length (encodeHeaders hs) + length payload) (length (encodeHeaders hs)) (?body @ ?crc @ rest, e)"
    using readFrame_prelude [OF assms, of "?body @ ?crc @ rest" e] by (simp add: encodeFrame_def Let_def)
  also have "\<dots> = (Inr \<lparr>fr_headers = stringHeaders [] hs, fr_payload = payload\<rparr>, (rest, e))"
  proof -
    have "parseEventStreamHeaders (take (length (encodeHeaders hs)) (?body @ ?crc)) = Inr (stringHeaders [] hs)"
      using assms parseHeaders_encode [of hs "[]"] by (simp add: frameOk_def parseEventStreamHeaders_def)
    then show ?thesis
      by (subst readFrameBody_complete) (simp_all add: uint32_be_be32 [OF unat_crc_less])
  qed
  finally show ?thesis .
qed

text \<open>
  C37. The decoder reads back every frame of the AWS wire format: from a stream that starts with the
  encoding of headers (of all ten value types) and a payload that fit into the maximal frame
  size it returns the payload and the string headers, and it consumes exactly the frame.
\<close>

theorem readEventStreamFrame_roundtrip:
  assumes "frameOk hs payload"
  shows "readEventStreamFrame (encodeFrame hs payload @ rest, e) =
    (Inr \<lparr>fr_headers = stringHeaders [] hs, fr_payload = payload\<rparr>, (rest, e))"
  by (rule readFrame_encoded [OF assms])

theorem readEventStreamFrame_roundtrip_witness:
  "readEventStreamFrame (encodeFrame [([58, 101], HString [111, 107]), ([120], HBool True)] [1, 2, 3] @ [9], EOF) =
   (Inr \<lparr>fr_headers = [('':e'', ''ok'')], fr_payload = [1, 2, 3]\<rparr>, ([9], EOF))"
proof -
  have "frameOk [([58, 101], HString [111, 107]), ([120], HBool True)] [1, 2, 3]"
    by (simp add: frameOk_def headerOk_def eventStreamMaxFrame_def encodeHeaders_def encodeHeader_def)
  moreover have "stringHeaders [] [([58, 101], HString [111, 107]), ([120], HBool True)] = [('':e'', ''ok'')]"
    by code_simp
  ultimately show ?thesis using readEventStreamFrame_roundtrip by metis
qed

text \<open>
  C23. A frame in which any one byte of the headers or the payload was changed is never
  accepted: reading it fails with a message-CRC error, and the stream is left at the
  next frame.
\<close>

theorem readEventStreamFrame_detects_corruption:
  assumes "frameOk hs payload" "encodeHeaders hs @ payload = xs @ a # ys" "b \<noteq> a"
    and "stream = framePrelude hs payload @ xs @ b # ys @ be32 (unat (checksumIEEE (framePrelude hs payload @ xs @ a # ys))) @ rest"
  shows "\<exists>err. readEventStreamFrame (stream, e) = (Inl (FrameError err), (rest, e)) \<and> es_Kind err = EventStreamMessageCRCMismatch"
proof -
  let ?pre = "framePrelude hs payload" and ?n = "16 + length (encodeHeaders hs) + length payload"
  let ?crc = "be32 (unat (checksumIEEE (?pre @ xs @ a # ys)))"
  have len: "length (xs @ b # ys) + 16 = ?n" using arg_cong [OF assms(2), of length] by simp
  have "checksumIEEE (?pre @ xs @ b # ys) \<noteq> checksumIEEE (?pre @ xs @ a # ys)"
    using crc_single_byte [OF assms(3), of 0 "?pre @ xs" ys] by (simp add: checksumIEEE_def)
  then have "unat (checksumIEEE (?pre @ xs @ b # ys)) \<noteq> uint32_be ?crc"
    by (simp add: uint32_be_be32 [OF unat_crc_less] word_unat_eq_iff)
  then have "readFrameBody ?pre ?n (length (encodeHeaders hs)) ((xs @ b # ys) @ ?crc @ rest, e) =
      (Inl (FrameError (crcMismatch EventStreamMessageCRCMismatch (uint32_be ?crc) (checksumIEEE (?pre @ xs @ b # ys)))), (rest, e))"
    by (subst readFrameBody_complete [OF len]) simp_all
  with readFrame_prelude [OF assms(1), of "xs @ b # ys @ ?crc @ rest" e] assms(4) show ?thesis
    by (simp add: crcMismatch_def streamError_def)
qed

theorem readEventStreamFrame_detects_corruption_witness:
  "\<exists>err. readEventStreamFrame (framePrelude [] [1, 2] @ [1, 3] @ be32 (unat (checksumIEEE (framePrelude [] [1, 2] @ [1, 2]))), EOF) =
     (Inl (FrameError err), ([], EOF)) \<and> es_Kind err = EventStreamMessageCRCMismatch"
  by (rule readEventStreamFrame_detects_corruption [of "[]" "[1, 2]" "[1]" 2 "[]" 3])
     (simp_all add: frameOk_def eventStreamMaxFrame_def encodeHeaders_def)

text \<open>
  A decoded frame is within bounds: between the minimal and the maximal frame size, with
  its headers inside it; the reader allocates and consumes exactly the announced length. A stream that ends inside a
  frame is reported as truncated and one that ends between frames as the end of the stream, and no other
  input looks like the end of the stream.
\<close>

theorem readEventStreamFrame_bounds:
  "(readEventStreamFrame (bs, e) = (Inr f, (rest, e')) \<longrightarrow>
      (\<exists>frame. bs = frame @ rest \<and> length frame = uint32_be (take 4 bs) \<and>
         16 \<le> length frame \<and> length frame \<le> 16777216 \<and>
         length (fr_payload f) + uint32_be (take 4 (drop 4 bs)) + 16 = length frame)) \<and>
   (fst (readEventStreamFrame (bs, e)) = Inl StreamEnd \<longleftrightarrow> bs = [] \<and> e = EOF) \<and>
   (0 < length bs \<longrightarrow> length bs < 12 \<longrightarrow>
      (\<exists>err. readEventStreamFrame (bs, EOF) = (Inl (FrameError err), ([], EOF)) \<and>
         es_Kind err = EventStreamTruncated \<and> es_Cause err = Some ErrUnexpectedEOF))"
proof -
  have ok: "\<exists>frame. bs = frame @ rest \<and> length frame = uint32_be (take 4 bs) \<and>
         16 \<le> length frame \<and> length frame \<le> 16777216 \<and>
         length (fr_payload f) + uint32_be (take 4 (drop 4 bs)) + 16 = length frame"
    if r: "readEventStreamFrame (bs, e) = (Inr f, (rest, e'))"
  proof -
    let ?t = "uint32_be (take 4 bs)" and ?h = "uint32_be (take 4 (drop 4 bs))"
    have len: "12 \<le> length bs"
      using r by (auto simp: readEventStreamFrame_def readFull_def eventStreamPreludeSize_def split: if_splits)
    then have pre: "take 4 (take 12 bs) = take 4 bs" "take 4 (drop 4 (take 12 bs)) = take 4 (drop 4 bs)"
      by (simp_all add: drop_take min_def)
    from r len have b: "16 \<le> ?t" "?t \<le> 16777216" "?h \<le> ?t - 16"
      "readFrameBody (take 12 bs) ?t ?h (drop 12 bs, e) = (Inr f, (rest, e'))"
      by (auto simp: readEventStreamFrame_def readFull_def eventStreamPreludeSize_def eventStreamMinFrame_def
          eventStreamMaxFrame_def Let_def pre split: if_splits)
    from b(4) have "?t - 12 \<le> length (drop 12 bs)" "rest = drop (?t - 12) (drop 12 bs)"
      "length (fr_payload f) = ?t - 16 - ?h"
      by (auto simp: readFrameBody_def readFull_def eventStreamPreludeSize_def Let_def split: if_splits sum.splits)
    with b len show ?thesis by (intro exI [of _ "take ?t bs"]) auto
  qed
  have "fst (readEventStreamFrame (bs, e)) = Inl StreamEnd \<longleftrightarrow> bs = [] \<and> e = EOF"
  proof (cases "12 \<le> length bs")
    case True
    have "fst (readFrameBody p t h r) \<noteq> Inl StreamEnd" for p t h r
      by (auto simp: readFrameBody_def Let_def split: prod.splits sum.splits)
    with True show ?thesis
      by (auto simp: readEventStreamFrame_def readFull_def eventStreamPreludeSize_def Let_def)
  qed (auto simp: readEventStreamFrame_def readFull_def eventStreamPreludeSize_def)
  moreover have "\<exists>err. readEventStreamFrame (bs, EOF) = (Inl (FrameError err), ([], EOF)) \<and>
         es_Kind err = EventStreamTruncated \<and> es_Cause err = Some ErrUnexpectedEOF" if "0 < length bs" "length bs < 12"
    using that by (auto simp: readEventStreamFrame_def readFull_def eventStreamPreludeSize_def streamError_def)
  ultimately show ?thesis using ok by blast
qed

theorem readEventStreamFrame_bounds_witness:
  "\<exists>err. readEventStreamFrame ([0, 0, 0], EOF) = (Inl (FrameError err), ([], EOF)) \<and> es_Kind err = EventStreamTruncated"
proof -
  have "0 < length [0, 0, 0 :: byte]" "length [0, 0, 0 :: byte] < 12" by simp_all
  with readEventStreamFrame_bounds [of "[0, 0, 0]" EOF] show ?thesis by blast
qed

section \<open>The idle timer\<close>

datatype IdleOp = IdleRead nat gotime | IdleStop | IdleFire

fun idleStep :: "streamIdleReader \<Rightarrow> IdleOp \<Rightarrow> streamIdleReader" where
  "idleStep r (IdleRead n now) = idle_Read n now r"
| "idleStep r IdleStop = idle_Stop r"
| "idleStep r IdleFire = idle_fire r"

lemma idle_stopped: "sr_stopped r \<Longrightarrow> sr_stopped (foldl idleStep r ops) \<and> sr_timeouts (foldl idleStep r ops) = sr_timeouts r"
proof (induction ops arbitrary: r)
  case (Cons op ops)
  have "sr_stopped (idleStep r op) \<and> sr_timeouts (idleStep r op) = sr_timeouts r"
    using Cons.prems by (cases op) (auto simp: idle_Read_def idle_touch_def idle_Stop_def idle_fire_def)
  with Cons.IH [of "idleStep r op"] show ?case by simp
qed simp

lemma idle_fired_inv: "sr_timeouts r = (if sr_fired r then 1 else 0) \<Longrightarrow>
   sr_timeouts (foldl idleStep r ops) = (if sr_fired (foldl idleStep r ops) then 1 else 0)"
proof (induction ops arbitrary: r)
  case (Cons op ops)
  have "sr_timeouts (idleStep r op) = (if sr_fired (idleStep r op) then 1 else 0)"
    using Cons.prems by (cases op) (auto simp: idle_Read_def idle_touch_def idle_Stop_def idle_fire_def)
  with Cons.IH [of "idleStep r op"] show ?case by simp
qed simp

text \<open>
  In every interleaving of reads, expiries of the timer and stops, the idle reader calls its
  timeout function at most once, and once \<open>Stop\<close> has returned never again, even if an expiry was already under way.
\<close>

theorem idle_timeout_at_most_once:
  "sr_timeouts (foldl idleStep (newStreamIdleReader timeout now) ops) \<le> 1 \<and>
   sr_timeouts (foldl idleStep (newStreamIdleReader timeout now) (ops @ IdleStop # later)) =
     sr_timeouts (foldl idleStep (newStreamIdleReader timeout now) ops)"
proof -
  let ?r = "foldl idleStep (newStreamIdleReader timeout now) ops"
  have "sr_timeouts ?r = (if sr_fired ?r then 1 else 0)"
    by (rule idle_fired_inv) (simp add: newStreamIdleReader_def)
  moreover have "sr_timeouts (foldl idleStep (idle_Stop ?r) later) = sr_timeouts ?r"
    using idle_stopped [of "idle_Stop ?r" later] by (simp add: idle_Stop_def)
  ultimately show ?thesis by simp
qed

end
