(* ===== verification/Thinking_Tags.thy ===== *)
theory Thinking_Tags
  imports Go_Prelude
begin

text \<open>
  The incremental parser that separates thinking blocks from assistant text,
  \<open>proxy/thinking_tags.go\<close>, with the tag search of \<open>proxy/meaningful_stream.go\<close> and the source guard
  of \<open>proxy/handler.go\<close>. Strings are byte strings, as in Go. The parser's pointer to the
  shared source is the field \<open>tp_source\<close>, \<open>None\<close> for \<open>nil\<close>.
\<close>

section \<open>Tag search\<close>

definition tagThinking :: string where "tagThinking = ''<thinking>''"
definition tagThink :: string where "tagThink = ''<think>''"
definition endThinking :: string where "endThinking = ''</thinking>''"
definition endThink :: string where "endThink = ''</think>''"

text \<open>\<open>nextThinkingTag\<close> on the text from \<open>offset\<close> on; \<open>None\<close> for -1.\<close>

definition nextThinkingTag :: "string \<Rightarrow> (nat \<times> string \<times> string) option" where
  "nextThinkingTag text =
     (case (str_index text tagThinking, str_index text tagThink) of
        (None, None) \<Rightarrow> None
      | (Some thinking, None) \<Rightarrow> Some (thinking, tagThinking, endThinking)
      | (Some thinking, Some think) \<Rightarrow>
          if thinking \<le> think then Some (thinking, tagThinking, endThinking) else Some (think, tagThink, endThink)
      | (None, Some think) \<Rightarrow> Some (think, tagThink, endThink))"

definition trailingTagPrefix :: "string \<Rightarrow> string list \<Rightarrow> nat" where
  "trailingTagPrefix text tags =
     foldl (\<lambda>maxLen tag.
        if tag = '''' then maxLen
        else foldl (\<lambda>m size. if has_suffix text (take size tag) \<and> size > m then size else m) maxLen
               [1..<Suc (min (length text) (length tag - 1))]) 0 tags"

definition trailingThinkingTagPrefix :: "string \<Rightarrow> nat" where
  "trailingThinkingTagPrefix text = trailingTagPrefix text [tagThinking, tagThink]"

text \<open>\<open>utf8.RuneStart\<close>: not a continuation byte.\<close>

definition runeStart :: "char \<Rightarrow> bool" where
  "runeStart c = (let n = (of_char c :: nat) in \<not> (128 \<le> n \<and> n < 192))"

fun backToRuneStart :: "string \<Rightarrow> nat \<Rightarrow> nat" where
  "backToRuneStart text 0 = 0"
| "backToRuneStart text (Suc n) = (if runeStart (text ! Suc n) then Suc n else backToRuneStart text n)"

definition safeUTF8PrefixBytes :: "string \<Rightarrow> nat \<Rightarrow> nat" where
  "safeUTF8PrefixBytes text len =
     (if len = 0 then 0 else if len \<ge> length text then length text else backToRuneStart text len)"

lemma nextThinkingTag_Some:
  assumes "nextThinkingTag text = Some (start, opening, closing)"
  shows "str_index text opening = Some start" "opening \<noteq> ''''" "closing \<noteq> ''''" "length opening + start \<le> length text"
proof -
  show "str_index text opening = Some start" "opening \<noteq> ''''" "closing \<noteq> ''''"
    using assms by (auto simp: nextThinkingTag_def tagThinking_def tagThink_def endThinking_def endThink_def
        split: option.splits if_splits)
  from str_index_Some [OF this(1)] show "length opening + start \<le> length text" by simp
qed

text \<open>
  \<open>visibleTextOutsideThinking\<close>, whose argument is the text from \<open>cursor\<close> on: the text outside
  complete blocks, and whether it ends inside a block or inside a tag.
\<close>

function visibleTextOutsideThinking :: "string \<Rightarrow> string \<times> bool" where
  "visibleTextOutsideThinking text =
     (if text = '''' then ('''', False)
      else case nextThinkingTag text of
        None \<Rightarrow>
          let partial = trailingThinkingTagPrefix text
          in if partial > 0 then (take (length text - partial) text, True) else (text, False)
      | Some tag \<Rightarrow>
          let start = fst tag; openTag = fst (snd tag); closeTag = snd (snd tag);
              content = drop (start + length openTag) text
          in case str_index content closeTag of
               None \<Rightarrow> (take start text, True)
             | Some endOffset \<Rightarrow>
                 let r = visibleTextOutsideThinking (drop (endOffset + length closeTag) content)
                 in (take start text @ fst r, snd r))"
  by pat_completeness auto
termination
proof (relation "measure length")
  fix s content closeTag :: string and tag start openTag endOffset
  assume "nextThinkingTag s = Some tag" "start = fst tag" "openTag = fst (snd tag)"
    "content = drop (start + length openTag) s" "s \<noteq> ''''"
  then have "length content < length s" using nextThinkingTag_Some(2) [of s start openTag "snd (snd tag)"] by auto
  then show "(drop (endOffset + length closeTag) content, s) \<in> measure length" by auto
qed simp

declare visibleTextOutsideThinking.simps [simp del]

section \<open>The parser\<close>

datatype thinkingTagSegmentKind = thinkingTagVisible | thinkingTagStart | thinkingTagMiddle | thinkingTagEnd

record thinkingTagSegment =
  seg_kind :: thinkingTagSegmentKind
  seg_text :: string

datatype thinkingStreamSource = thinkingSourceUnknown | thinkingSourceReasoningEvent | thinkingSourceTagBlock

record thinkingTagParser =
  tp_buffer :: string
  tp_inThinking :: bool
  tp_closeTag :: string
  tp_dropThinking :: bool
  tp_thinkingStarted :: bool
  tp_source :: "thinkingStreamSource option"

definition allowTagSource :: "thinkingStreamSource \<Rightarrow> bool \<times> thinkingStreamSource" where
  "allowTagSource source =
     (if source = thinkingSourceReasoningEvent then (False, source)
      else let source' = (if source = thinkingSourceUnknown then thinkingSourceTagBlock else source)
           in (source' = thinkingSourceTagBlock, source'))"

definition allowReasoningSource :: "thinkingStreamSource \<Rightarrow> bool \<times> thinkingStreamSource" where
  "allowReasoningSource source =
     (if source = thinkingSourceTagBlock then (False, source) else (True, thinkingSourceReasoningEvent))"

definition newThinkingTagParser :: "thinkingStreamSource option \<Rightarrow> thinkingTagParser" where
  "newThinkingTagParser source = \<lparr>tp_buffer = '''', tp_inThinking = False, tp_closeTag = '''',
     tp_dropThinking = False, tp_thinkingStarted = False, tp_source = source\<rparr>"

definition tp_reset :: "thinkingTagParser \<Rightarrow> thinkingTagParser" where
  "tp_reset p = p\<lparr>tp_buffer := '''', tp_inThinking := False, tp_closeTag := '''', tp_dropThinking := False,
     tp_thinkingStarted := False\<rparr>"

definition tagSourceAllowed :: "thinkingTagParser \<Rightarrow> bool \<times> thinkingTagParser" where
  "tagSourceAllowed p = (case tp_source p of
      None \<Rightarrow> (True, p)
    | Some source \<Rightarrow> (fst (allowTagSource source), p\<lparr>tp_source := Some (snd (allowTagSource source))\<rparr>))"

text \<open>The segments \<open>appendThinking\<close> appends, and the parser afterwards.\<close>

definition appendThinking :: "string \<Rightarrow> bool \<Rightarrow> thinkingTagParser \<Rightarrow> thinkingTagSegment list \<times> thinkingTagParser" where
  "appendThinking text closing p =
     (if tp_dropThinking p then ([], p)
      else if \<not> tp_thinkingStarted p then
        (let started = (text \<noteq> '''')
         in ((if started then [\<lparr>seg_kind = thinkingTagStart, seg_text = text\<rparr>] else []) @
             (if closing \<and> started then [\<lparr>seg_kind = thinkingTagEnd, seg_text = ''''\<rparr>] else []),
             p\<lparr>tp_thinkingStarted := started\<rparr>))
      else if closing then ([\<lparr>seg_kind = thinkingTagEnd, seg_text = text\<rparr>], p)
      else if text \<noteq> '''' then ([\<lparr>seg_kind = thinkingTagMiddle, seg_text = text\<rparr>], p)
      else ([], p))"

definition visibleSegment :: "string \<Rightarrow> thinkingTagSegment list" where
  "visibleSegment text = (if text = '''' then [] else [\<lparr>seg_kind = thinkingTagVisible, seg_text = text\<rparr>])"

definition leaveThinking :: "thinkingTagParser \<Rightarrow> thinkingTagParser" where
  "leaveThinking p = p\<lparr>tp_inThinking := False, tp_closeTag := '''', tp_dropThinking := False, tp_thinkingStarted := False\<rparr>"

definition enterThinking :: "nat \<Rightarrow> string \<Rightarrow> string \<Rightarrow> thinkingTagParser \<Rightarrow> thinkingTagParser" where
  "enterThinking start openTag closeTag p =
     (let p1 = p\<lparr>tp_buffer := drop (start + length openTag) (tp_buffer p), tp_inThinking := True, tp_closeTag := closeTag\<rparr>;
          (allowed, p2) = tagSourceAllowed p1
      in p2\<lparr>tp_dropThinking := \<not> allowed, tp_thinkingStarted := False\<rparr>)"

lemma enterThinking_buffer [simp]: "tp_buffer (enterThinking start openTag closeTag p) = drop (start + length openTag) (tp_buffer p)"
  by (simp add: enterThinking_def tagSourceAllowed_def Let_def split: option.split)

lemma leaveThinking_buffer [simp]: "tp_buffer (leaveThinking p) = tp_buffer p"
  by (simp add: leaveThinking_def)

text \<open>The loop of \<open>feed\<close>: the segments it appends and the parser it leaves.\<close>

function feedLoop :: "bool \<Rightarrow> thinkingTagParser \<Rightarrow> thinkingTagSegment list \<times> thinkingTagParser" where
  "feedLoop forceFlush p =
     (let buffer = tp_buffer p in
      if \<not> tp_inThinking p then
        (case nextThinkingTag buffer of
           Some tag \<Rightarrow>
             let start = fst tag; openTag = fst (snd tag); closeTag = snd (snd tag);
                 r = feedLoop forceFlush (enterThinking start openTag closeTag p)
             in (visibleSegment (take start buffer) @ fst r, snd r)
         | None \<Rightarrow>
             let safeLen = safeUTF8PrefixBytes buffer
                   (if forceFlush then length buffer else length buffer - trailingThinkingTagPrefix buffer)
             in (visibleSegment (take safeLen buffer), p\<lparr>tp_buffer := drop safeLen buffer\<rparr>))
      else
        let closeTag = (if tp_closeTag p = '''' then endThinking else tp_closeTag p);
            p0 = p\<lparr>tp_closeTag := closeTag\<rparr>
        in case str_index buffer closeTag of
             Some end \<Rightarrow>
               let out = appendThinking (take end buffer) True p0;
                   r = feedLoop forceFlush
                         ((leaveThinking (snd out))\<lparr>tp_buffer := drop (end + length closeTag) buffer\<rparr>)
               in (fst out @ fst r, snd r)
           | None \<Rightarrow>
               if forceFlush then
                 (let out = appendThinking buffer True p0
                  in (fst out, (leaveThinking (snd out))\<lparr>tp_buffer := ''''\<rparr>))
               else
                 let safeLen = safeUTF8PrefixBytes buffer (length buffer - trailingTagPrefix buffer [closeTag])
                 in if safeLen > 0
                    then let out = appendThinking (take safeLen buffer) False p0
                         in (fst out, (snd out)\<lparr>tp_buffer := drop safeLen buffer\<rparr>)
                    else ([], p0))"
  by pat_completeness auto
termination
proof (relation "measure (\<lambda>(forceFlush, p). length (tp_buffer p))")
  fix forceFlush and p :: thinkingTagParser and buffer tag start openTag closeTag
  assume "buffer = tp_buffer p" "nextThinkingTag buffer = Some tag" "start = fst tag" "openTag = fst (snd tag)"
  then have "openTag \<noteq> ''''" "length openTag + start \<le> length (tp_buffer p)"
    using nextThinkingTag_Some(2,4) [of buffer start openTag "snd (snd tag)"] by auto
  then show "((forceFlush, enterThinking start openTag closeTag p), forceFlush, p) \<in> measure (\<lambda>(forceFlush, p). length (tp_buffer p))"
    by (cases openTag) auto
next
  fix forceFlush and p p0 :: thinkingTagParser and buffer closeTag endPos and out :: "thinkingTagSegment list \<times> thinkingTagParser"
  assume a: "buffer = tp_buffer p" "closeTag = (if tp_closeTag p = '''' then endThinking else tp_closeTag p)"
    "str_index buffer closeTag = Some endPos"
  have "0 < length closeTag" using a(2) by (auto simp: endThinking_def)
  then obtain c cs where "closeTag = c # cs" by (cases closeTag) auto
  with a(1) conjunct1 [OF str_index_Some [OF a(3)]]
  show "((forceFlush, (leaveThinking (snd out))\<lparr>tp_buffer := drop (endPos + length closeTag) buffer\<rparr>), forceFlush, p) \<in>
      measure (\<lambda>(forceFlush, p). length (tp_buffer p))" by (simp add: diff_less)
qed simp

declare feedLoop.simps [simp del]

definition feed :: "string \<Rightarrow> bool \<Rightarrow> thinkingTagParser \<Rightarrow> thinkingTagSegment list \<times> thinkingTagParser" where
  "feed text forceFlush p = feedLoop forceFlush (p\<lparr>tp_buffer := tp_buffer p @ text\<rparr>)"

definition visibleOf :: "thinkingTagSegment list \<Rightarrow> string" where
  "visibleOf segs = concat (map seg_text (filter (\<lambda>s. seg_kind s = thinkingTagVisible) segs))"

definition reasoningOf :: "thinkingTagSegment list \<Rightarrow> string" where
  "reasoningOf segs = concat (map seg_text (filter (\<lambda>s. seg_kind s \<noteq> thinkingTagVisible) segs))"

definition splitThinkingTags :: "string \<Rightarrow> string \<times> string" where
  "splitThinkingTags content =
     (let (segs1, p1) = feed content False (newThinkingTagParser (Some thinkingSourceUnknown));
          (segs2, p2) = feed '''' True p1
      in (trim_space (visibleOf (segs1 @ segs2)), reasoningOf (segs1 @ segs2)))"

end
