(* ===== verification/Thinking_Tags_Props.thy ===== *)
theory Thinking_Tags_Props
  imports Thinking_Tags
begin

text \<open>
  Correctness of the incremental thinking-tag parser against a reference that splits the whole
  text at once: however the text is cut into fragments, the visible text and the reasoning come out the
  same. The argument is an invariant: what the parser has emitted, followed by what the reference makes of its
  buffer and the text still to come, is always the reference's result.
\<close>

section \<open>Occurrences\<close>

lemma prefix_drop_append: "prefix (p :: string) (drop j b) \<Longrightarrow> prefix p (drop j (b @ s))"
  by (cases "j \<le> length b") (auto simp: prefix_def)

lemma prefix_take_iff: "prefix p x \<longleftrightarrow> take (length p) (x :: string) = p"
  using has_prefix_prefix [of x p] by (simp add: has_prefix_def)

lemma prefix_drop_within:
  fixes p :: string
  shows "prefix p (drop j (b @ s)) \<Longrightarrow> j + length p \<le> length b \<Longrightarrow> prefix p (drop j b)"
  by (simp add: prefix_take_iff)

lemma prefix_drop_nth:
  assumes "prefix p (drop j t)" "k < length p"
  shows "t ! (j + k) = p ! k"
proof -
  from assms(1) obtain r where r: "drop j t = p @ r" by (auto simp: prefix_def)
  with assms(2) have "j \<le> length t" by (cases "j \<le> length t") auto
  then have "t ! (j + k) = drop j t ! k" by simp
  with r assms(2) show ?thesis by (simp add: nth_append)
qed

lemma str_index_prefix: "str_index s p = Some i \<Longrightarrow> prefix p (drop i s)"
proof -
  assume "str_index s p = Some i"
  from str_index_Some [OF this] have "i + length p \<le> length s" "s = take i s @ p @ drop (i + length p) s" by auto
  then have "drop i s = p @ drop (i + length p) s" by (metis append_eq_conv_conj length_take min.absorb2 add_leD1)
  then show ?thesis by (simp add: prefixI)
qed

lemma str_index_least:
  assumes "prefix p (drop i s)" "\<And>j. j < i \<Longrightarrow> \<not> prefix p (drop j s)"
  shows "str_index s p = Some i"
proof (cases "str_index s p")
  case None
  with assms(1) show ?thesis by (simp add: str_index_None)
next
  case (Some k)
  with assms str_index_prefix [OF Some] str_index_first [OF Some] show ?thesis by (metis linorder_neqE_nat)
qed

lemma str_index_append:
  assumes "str_index b p = Some i"
  shows "str_index (b @ s) p = Some i"
proof (rule str_index_least)
  show "prefix p (drop i (b @ s))" using str_index_prefix [OF assms] by (rule prefix_drop_append)
  show "\<not> prefix p (drop j (b @ s))" if "j < i" for j
    using prefix_drop_within [of p j b s] str_index_first [OF assms that] str_index_Some [OF assms] that by auto
qed

lemma str_index_shift:
  assumes "\<And>j. j < n \<Longrightarrow> \<not> prefix p (drop j t)"
  shows "str_index t p = map_option (\<lambda>i. n + i) (str_index (drop n t) p)"
proof (cases "str_index (drop n t) p")
  case None
  have "\<not> prefix p (drop j t)" for j
    using assms None le_Suc_ex [of n j] by (cases "j < n") (auto simp: str_index_None add.commute)
  then have "str_index t p = None" by (simp add: str_index_None)
  with None show ?thesis by simp
next
  case (Some i)
  have "str_index t p = Some (n + i)"
  proof (rule str_index_least)
    show "prefix p (drop (n + i) t)" using str_index_prefix [OF Some] by (simp add: add.commute)
    show "\<not> prefix p (drop j t)" if "j < n + i" for j
      using assms str_index_first [OF Some, of "j - n"] that by (cases "j < n") auto
  qed
  with Some show ?thesis by simp
qed

section \<open>Partial tags at the end of the buffer\<close>

lemma inner_max_ge: "m \<le> foldl (\<lambda>m sz. if P sz \<and> sz > m then sz else m) m (xs :: nat list)"
proof (induction xs arbitrary: m)
  case (Cons x xs)
  show ?case using Cons [of m] Cons [of x] by auto
qed simp

lemma inner_max_hit: "sz \<in> set xs \<Longrightarrow> P sz \<Longrightarrow> sz \<le> foldl (\<lambda>m sz. if P sz \<and> sz > m then sz else m) m (xs :: nat list)"
proof (induction xs arbitrary: m)
  case (Cons x xs)
  show ?case
  proof (cases "sz = x")
    case True
    with Cons.prems inner_max_ge [of "if P x \<and> x > m then x else m" P xs] show ?thesis by (auto split: if_splits)
  next
    case False
    with Cons show ?thesis by auto
  qed
qed simp

lemma trailingTagPrefix_hit:
  assumes "tag \<in> set tags" "1 \<le> sz" "sz < length tag" "sz \<le> length s" "suffix (take sz tag) s"
  shows "sz \<le> trailingTagPrefix s tags"
proof -
  define step where "step = (\<lambda>m tag. if tag = '''' then m else foldl (\<lambda>m sz. if has_suffix s (take sz tag) \<and> sz > m then sz else m) m
               [1..<Suc (min (length s) (length tag - 1))])"
  have mono: "m \<le> step m t" for m t unfolding step_def using inner_max_ge by auto
  have mono_all: "m \<le> foldl step m ts" for m ts
    by (induction ts arbitrary: m) (auto intro: order_trans mono)
  have "sz \<le> step m tag" for m
    using assms(2-5) inner_max_hit [of sz "[1..<Suc (min (length s) (length tag - 1))]" "\<lambda>sz. has_suffix s (take sz tag)" m]
    by (auto simp: step_def has_suffix_suffix simp del: upt_Suc)
  with assms(1) have "sz \<le> foldl step m tags" for m
  proof (induction tags arbitrary: m)
    case (Cons t ts)
    then show ?case using mono_all [of "step m tag" ts] by (auto intro: order_trans)
  qed simp
  then show ?thesis unfolding trailingTagPrefix_def step_def .
qed

text \<open>A tag that is not yet in the buffer cannot start before its longest trailing partial tag.\<close>

lemma no_early_tag:
  assumes "str_index b tag = None" "tag \<in> set tags" "tag \<noteq> ''''" "n \<le> length b - trailingTagPrefix b tags" "j < n"
  shows "\<not> prefix tag (drop j (b @ s))"
proof
  assume occ: "prefix tag (drop j (b @ s))"
  have jb: "j < length b" using assms(4,5) by simp
  show False
  proof (cases "j + length tag \<le> length b")
    case True
    from prefix_drop_within [OF occ this] assms(1) show False by (simp add: str_index_None)
  next
    case False
    let ?sz = "length b - j"
    from occ jb have "prefix tag (drop j b @ s)" by (simp add: drop_append)
    then obtain r where "drop j b @ s = tag @ r" by (auto simp: prefix_def)
    from arg_cong [OF this, of "take ?sz"] False jb have "take ?sz tag = drop j b" by simp
    then have "suffix (take ?sz tag) b" by (simp add: suffix_drop)
    with trailingTagPrefix_hit [OF assms(2), of ?sz b] False jb have "?sz \<le> trailingTagPrefix b tags" by simp
    with assms(4,5) show False by linarith
  qed
qed

section \<open>The reference\<close>

function splitRef :: "string \<Rightarrow> string \<times> string" where
  "splitRef s =
     (case nextThinkingTag s of
        None \<Rightarrow> (s, '''')
      | Some tag \<Rightarrow>
          let t = drop (fst tag + length (fst (snd tag))) s
          in case str_index t (snd (snd tag)) of
               None \<Rightarrow> (take (fst tag) s, t)
             | Some e \<Rightarrow>
                 let r = splitRef (drop (e + length (snd (snd tag))) t)
                 in (take (fst tag) s @ fst r, take e t @ snd r))"
  by pat_completeness auto
termination
proof (relation "measure length")
  fix s t :: string and tag e
  assume "nextThinkingTag s = Some tag" "t = drop (fst tag + length (fst (snd tag))) s"
  moreover from this have "0 < length (fst (snd tag))" "length (fst (snd tag)) + fst tag \<le> length s"
    using nextThinkingTag_Some(2,4) [of s "fst tag" "fst (snd tag)" "snd (snd tag)"] by auto
  ultimately show "(drop (e + length (snd (snd tag))) t, s) \<in> measure length"
    by (cases "fst (snd tag)") auto
qed simp

declare splitRef.simps [simp del]

text \<open>The same from inside a block that \<open>closing\<close> ends.\<close>

definition insideRef :: "string \<Rightarrow> string \<Rightarrow> string \<times> string" where
  "insideRef closing t = (case str_index t closing of
      None \<Rightarrow> ('''', t)
    | Some e \<Rightarrow> let r = splitRef (drop (e + length closing) t) in (fst r, take e t @ snd r))"

lemma splitRef_None: "nextThinkingTag s = None \<Longrightarrow> splitRef s = (s, '''')"
  by (simp add: splitRef.simps)

lemma splitRef_Some:
  "nextThinkingTag s = Some (start, opening, closing) \<Longrightarrow>
   splitRef s = (take start s @ fst (insideRef closing (drop (start + length opening) s)),
                 snd (insideRef closing (drop (start + length opening) s)))"
  by (subst splitRef.simps) (simp add: insideRef_def Let_def split: option.split)

lemma nextThinkingTag_append:
  assumes "nextThinkingTag b = Some tag"
  shows "nextThinkingTag (b @ s) = Some tag"
proof -
  consider (both) i j where "str_index b tagThinking = Some i" "str_index b tagThink = Some j"
    | (thinking) i where "str_index b tagThinking = Some i" "str_index b tagThink = None"
    | (think) i where "str_index b tagThinking = None" "str_index b tagThink = Some i"
    using assms by (auto simp: nextThinkingTag_def split: option.splits)
  then show ?thesis
  proof cases
    case both
    with assms str_index_append [of b _ _ s] show ?thesis by (simp add: nextThinkingTag_def)
  next
    case thinking
    have "i \<le> j" if "str_index (b @ s) tagThink = Some j" for j
    proof (rule ccontr)
      assume "\<not> i \<le> j"
      with str_index_Some [OF thinking(1)] have "j + length tagThink \<le> length b" by (simp add: tagThinking_def tagThink_def)
      from prefix_drop_within [OF str_index_prefix [OF that] this] thinking(2) show False by (simp add: str_index_None)
    qed
    with assms thinking str_index_append [OF thinking(1), of s] show ?thesis
      by (auto simp: nextThinkingTag_def split: option.split)
  next
    case think
    have "\<not> j \<le> i" if j: "str_index (b @ s) tagThinking = Some j" for j
    proof
      assume le: "j \<le> i"
      have bound: "i + 7 \<le> length b" using str_index_Some [OF think(2)] by (simp add: tagThink_def)
      have "\<not> j + length tagThinking \<le> length b"
        using prefix_drop_within [OF str_index_prefix [OF j]] think(1) by (auto simp: str_index_None)
      then have "i < j + 3" using bound by (simp add: tagThinking_def)
      have t1: "(b @ s) ! (j + k) = tagThinking ! k" if "k < 10" for k
        using prefix_drop_nth [OF str_index_prefix [OF j], of k] that by (simp add: tagThinking_def)
      have t2: "(b @ s) ! (i + k) = tagThink ! k" if "k < 7" for k
        using prefix_drop_nth [OF str_index_prefix [OF str_index_append [OF think(2), of s]], of k] that by (simp add: tagThink_def)
      from le \<open>i < j + 3\<close> consider "i = j" | "i = j + 1" | "i = j + 2" by linarith
      then show False
      proof cases
        case 1
        with t1 [of 6] t2 [of 6] show False by (simp add: tagThinking_def tagThink_def)
      next
        case 2
        with t1 [of 1] t2 [of 0] show False by (simp add: tagThinking_def tagThink_def)
      next
        case 3
        with t1 [of 2] t2 [of 0] show False by (simp add: tagThinking_def tagThink_def)
      qed
    qed
    with assms think str_index_append [OF think(2), of s] show ?thesis
      by (auto simp: nextThinkingTag_def split: option.split)
  qed
qed

lemma nextThinkingTag_shift:
  assumes "nextThinkingTag b = None" "n \<le> length b - trailingThinkingTagPrefix b"
  shows "nextThinkingTag (b @ s) = map_option (\<lambda>(i, tags). (n + i, tags)) (nextThinkingTag (drop n b @ s))"
proof -
  have none: "str_index b tagThinking = None" "str_index b tagThink = None"
    using assms(1) by (auto simp: nextThinkingTag_def split: option.splits if_splits)
  have "n \<le> length b" using assms(2) by simp
  then have d: "drop n (b @ s) = drop n b @ s" by simp
  have "str_index (b @ s) tag = map_option (\<lambda>i. n + i) (str_index (drop n b @ s) tag)"
    if "tag = tagThinking \<or> tag = tagThink" for tag
  proof -
    have "\<not> prefix tag (drop j (b @ s))" if "j < n" for j
      using no_early_tag [of b tag "[tagThinking, tagThink]" n j s] none assms(2) that \<open>tag = tagThinking \<or> tag = tagThink\<close>
      by (auto simp: trailingThinkingTagPrefix_def tagThinking_def tagThink_def)
    then have "str_index (b @ s) tag = map_option (\<lambda>i. n + i) (str_index (drop n (b @ s)) tag)" by (rule str_index_shift)
    then show ?thesis unfolding d .
  qed
  then show ?thesis by (auto simp: nextThinkingTag_def split: option.split)
qed

lemma splitRef_shift:
  assumes "nextThinkingTag b = None" "n \<le> length b - trailingThinkingTagPrefix b"
  shows "splitRef (b @ s) = (take n b @ fst (splitRef (drop n b @ s)), snd (splitRef (drop n b @ s)))"
proof -
  have n: "n \<le> length b" using assms(2) by simp
  show ?thesis
  proof (cases "nextThinkingTag (drop n b @ s)")
    case None
    with nextThinkingTag_shift [OF assms, of s] show ?thesis by (simp add: splitRef_None)
  next
    case (Some tag)
    obtain i otag ctag where tag: "tag = (i, otag, ctag)" by (cases tag)
    have "drop (n + i + length otag) (b @ s) = drop (i + length otag) (drop n b @ s)"
      using n by (simp add: drop_append ac_simps)
    moreover have "take (n + i) (b @ s) = take n b @ take i (drop n b @ s)" using n by (subst take_add) simp
    ultimately show ?thesis
      using splitRef_Some [of "b @ s" "n + i" otag ctag] splitRef_Some [of "drop n b @ s" i otag ctag]
        nextThinkingTag_shift [OF assms, of s] Some tag by simp
  qed
qed

lemma insideRef_append:
  "str_index b closing = Some e \<Longrightarrow>
   insideRef closing (b @ s) = (fst (splitRef (drop (e + length closing) b @ s)),
     take e b @ snd (splitRef (drop (e + length closing) b @ s)))"
  using str_index_append [of b closing e s] str_index_Some [of b closing e]
  by (auto simp: insideRef_def Let_def)

lemma insideRef_shift:
  assumes "str_index b closing = None" "closing \<noteq> ''''" "n \<le> length b - trailingTagPrefix b [closing]"
  shows "insideRef closing (b @ s) = (fst (insideRef closing (drop n b @ s)), take n b @ snd (insideRef closing (drop n b @ s)))"
proof -
  have n: "n \<le> length b" using assms(3) by simp
  have "\<not> prefix closing (drop j (b @ s))" if "j < n" for j
    using no_early_tag [of b closing "[closing]" n j s] assms that by auto
  then have "str_index (b @ s) closing = map_option (\<lambda>i. n + i) (str_index (drop n (b @ s)) closing)" by (rule str_index_shift)
  with n have i: "str_index (b @ s) closing = map_option (\<lambda>i. n + i) (str_index (drop n b @ s) closing)" by simp
  show ?thesis
  proof (cases "str_index (drop n b @ s) closing")
    case None
    with i show ?thesis by (simp add: insideRef_def)
  next
    case (Some e)
    have "drop (n + e + length closing) (b @ s) = drop (e + length closing) (drop n b @ s)"
      using n by (simp add: drop_append ac_simps)
    moreover have "take (n + e) (b @ s) = take n b @ take e (drop n b @ s)" using n by (subst take_add) simp
    ultimately show ?thesis using i Some by (simp add: insideRef_def Let_def)
  qed
qed

section \<open>The invariant of the parser\<close>

definition sourceAllowed :: "thinkingStreamSource option \<Rightarrow> bool" where
  "sourceAllowed src = (src \<noteq> Some thinkingSourceReasoningEvent)"

definition closeTagOf :: "thinkingTagParser \<Rightarrow> string" where
  "closeTagOf p = (if tp_closeTag p = '''' then endThinking else tp_closeTag p)"

text \<open>What the reference makes of the buffer and the text \<open>s\<close> still to come.\<close>

definition pendingRef :: "thinkingTagParser \<Rightarrow> string \<Rightarrow> string \<times> string" where
  "pendingRef p s = (if tp_inThinking p then insideRef (closeTagOf p) (tp_buffer p @ s) else splitRef (tp_buffer p @ s))"

definition parserOk :: "thinkingTagParser \<Rightarrow> bool" where
  "parserOk p \<longleftrightarrow> (tp_inThinking p \<longrightarrow> tp_dropThinking p = (\<not> sourceAllowed (tp_source p)))"

text \<open>The segments account for the step from \<open>p\<close> to \<open>p'\<close>, whichever text of \<open>S\<close> is still to come.\<close>

definition accounts_for :: "string set \<Rightarrow> thinkingTagSegment list \<Rightarrow> thinkingTagParser \<Rightarrow> thinkingTagParser \<Rightarrow> bool" where
  "accounts_for S segs p p' \<longleftrightarrow>
     parserOk p' \<and> sourceAllowed (tp_source p') = sourceAllowed (tp_source p) \<and>
     (\<exists>R. reasoningOf segs = (if sourceAllowed (tp_source p) then R else '''') \<and>
       (\<forall>s \<in> S. pendingRef p s = (visibleOf segs @ fst (pendingRef p' s), R @ snd (pendingRef p' s))))"

lemma visibleOf_append [simp]: "visibleOf (xs @ ys) = visibleOf xs @ visibleOf ys"
  by (simp add: visibleOf_def)

lemma reasoningOf_append [simp]: "reasoningOf (xs @ ys) = reasoningOf xs @ reasoningOf ys"
  by (simp add: reasoningOf_def)

lemma visibleSegment_out [simp]: "visibleOf (visibleSegment t) = t" "reasoningOf (visibleSegment t) = ''''"
  by (simp_all add: visibleSegment_def visibleOf_def reasoningOf_def)

lemma appendThinking_out:
  "visibleOf (fst (appendThinking t closing p)) = ''''"
  "reasoningOf (fst (appendThinking t closing p)) = (if tp_dropThinking p then '''' else t)"
  by (auto simp: appendThinking_def visibleOf_def reasoningOf_def Let_def)

lemma appendThinking_frame [simp]:
  "tp_buffer (snd (appendThinking t closing p)) = tp_buffer p"
  "tp_inThinking (snd (appendThinking t closing p)) = tp_inThinking p"
  "tp_closeTag (snd (appendThinking t closing p)) = tp_closeTag p"
  "tp_dropThinking (snd (appendThinking t closing p)) = tp_dropThinking p"
  "tp_source (snd (appendThinking t closing p)) = tp_source p"
  by (simp_all add: appendThinking_def Let_def)

lemma leaveThinking_frame [simp]:
  "tp_inThinking (leaveThinking p) = False" "tp_source (leaveThinking p) = tp_source p"
  by (simp_all add: leaveThinking_def)

lemma enterThinking_frame:
  "tp_inThinking (enterThinking i ot ct p)" "tp_closeTag (enterThinking i ot ct p) = ct"
  "sourceAllowed (tp_source (enterThinking i ot ct p)) = sourceAllowed (tp_source p)"
  "parserOk (enterThinking i ot ct p)"
  by (auto simp: enterThinking_def tagSourceAllowed_def allowTagSource_def sourceAllowed_def parserOk_def Let_def
      split: option.split) (metis thinkingStreamSource.exhaust)+

lemma accounts_for_trans:
  assumes "accounts_for S xs p q" "accounts_for S ys q r"
  shows "accounts_for S (xs @ ys) p r"
proof -
  from assms(1) obtain R where R: "reasoningOf xs = (if sourceAllowed (tp_source p) then R else '''')"
    "\<forall>s \<in> S. pendingRef p s = (visibleOf xs @ fst (pendingRef q s), R @ snd (pendingRef q s))" by (auto simp: accounts_for_def)
  from assms(2) obtain Q where Q: "reasoningOf ys = (if sourceAllowed (tp_source q) then Q else '''')"
    "\<forall>s \<in> S. pendingRef q s = (visibleOf ys @ fst (pendingRef r s), Q @ snd (pendingRef r s))" by (auto simp: accounts_for_def)
  show ?thesis
    using assms R Q unfolding accounts_for_def by (intro conjI exI [of _ "R @ Q"]) auto
qed

lemma safeUTF8_le: "safeUTF8PrefixBytes s n \<le> n \<or> length s \<le> n" "safeUTF8PrefixBytes s n \<le> length s"
proof -
  have "backToRuneStart s k \<le> k" for k by (induction k) auto
  from this [of n] show "safeUTF8PrefixBytes s n \<le> n \<or> length s \<le> n" "safeUTF8PrefixBytes s n \<le> length s"
    by (auto simp: safeUTF8PrefixBytes_def)
qed

lemma safeUTF8_safe: "safeUTF8PrefixBytes s (length s - k) \<le> length s - k"
  using safeUTF8_le [of s "length s - k"] by (cases "k = 0") auto

text \<open>The single moves of the loop.\<close>

lemma enter_accounts:
  assumes "\<not> tp_inThinking p" "nextThinkingTag (tp_buffer p) = Some (i, ot, ct)"
  shows "accounts_for S (visibleSegment (take i (tp_buffer p))) p (enterThinking i ot ct p)"
proof -
  note tag = nextThinkingTag_Some [OF assms(2)]
  have "pendingRef p s = (take i (tp_buffer p) @ fst (pendingRef (enterThinking i ot ct p) s), snd (pendingRef (enterThinking i ot ct p) s))" for s
    using splitRef_Some [OF nextThinkingTag_append [OF assms(2)], of s] assms(1) tag(3,4) enterThinking_frame(1,2) [of i ot ct p]
    by (simp add: pendingRef_def closeTagOf_def)
  then show ?thesis
    unfolding accounts_for_def using enterThinking_frame(3,4) by (intro conjI exI [of _ "''''"]) auto
qed

lemma leave_accounts:
  assumes "tp_inThinking p" "parserOk p" "str_index (tp_buffer p) (closeTagOf p) = Some e"
  defines "out \<equiv> appendThinking (take e (tp_buffer p)) True (p\<lparr>tp_closeTag := closeTagOf p\<rparr>)"
  shows "accounts_for S (fst out) p ((leaveThinking (snd out))\<lparr>tp_buffer := drop (e + length (closeTagOf p)) (tp_buffer p)\<rparr>)"
  unfolding accounts_for_def
  using assms(1,2) insideRef_append [OF assms(3)]
  by (intro conjI exI [of _ "take e (tp_buffer p)"])
     (auto simp: out_def appendThinking_out parserOk_def pendingRef_def leaveThinking_def)

lemma wait_accounts:
  assumes "\<not> tp_inThinking p" "nextThinkingTag (tp_buffer p) = None"
    "n = safeUTF8PrefixBytes (tp_buffer p) (length (tp_buffer p) - trailingThinkingTagPrefix (tp_buffer p))"
  shows "accounts_for S (visibleSegment (take n (tp_buffer p))) p (p\<lparr>tp_buffer := drop n (tp_buffer p)\<rparr>)"
  unfolding accounts_for_def
  using assms splitRef_shift [OF assms(2), of n] safeUTF8_safe [of "tp_buffer p"]
  by (intro conjI exI [of _ "''''"]) (auto simp: parserOk_def pendingRef_def)

lemma keep_accounts:
  assumes "tp_inThinking p" "parserOk p" "str_index (tp_buffer p) (closeTagOf p) = None"
    "n = safeUTF8PrefixBytes (tp_buffer p) (length (tp_buffer p) - trailingTagPrefix (tp_buffer p) [closeTagOf p])"
  defines "out \<equiv> appendThinking (take n (tp_buffer p)) False (p\<lparr>tp_closeTag := closeTagOf p\<rparr>)"
  shows "accounts_for S (fst out) p ((snd out)\<lparr>tp_buffer := drop n (tp_buffer p)\<rparr>)"
proof -
  have ne: "closeTagOf p \<noteq> ''''" by (simp add: closeTagOf_def endThinking_def)
  have c: "closeTagOf ((snd out)\<lparr>tp_buffer := x\<rparr>) = closeTagOf p" for x
    using ne by (simp add: out_def closeTagOf_def)
  have "n \<le> length (tp_buffer p) - trailingTagPrefix (tp_buffer p) [closeTagOf p]" using assms(4) safeUTF8_safe by simp
  note shift = insideRef_shift [OF assms(3) ne this]
  show ?thesis
    unfolding accounts_for_def using assms(1,2) shift
    by (intro conjI exI [of _ "take n (tp_buffer p)"]) (auto simp: c [unfolded out_def] appendThinking_out parserOk_def pendingRef_def out_def)
qed

lemma feedLoop_accounts:
  "parserOk p \<Longrightarrow> feedLoop False p = (segs, p') \<Longrightarrow> accounts_for UNIV segs p p'"
proof (induction "length (tp_buffer p)" arbitrary: p segs rule: less_induct)
  case less
  let ?b = "tp_buffer p"
  show ?case
  proof (cases "tp_inThinking p")
    case out: False
    show ?thesis
    proof (cases "nextThinkingTag ?b")
      case None
      with less.prems out wait_accounts [OF out None refl, of UNIV] show ?thesis
        by (subst (asm) feedLoop.simps) (auto simp: Let_def)
    next
      case (Some tag)
      obtain i ot ct where tag: "tag = (i, ot, ct)" by (cases tag)
      let ?q = "enterThinking i ot ct p"
      have some: "nextThinkingTag ?b = Some (i, ot, ct)" using Some tag by simp
      obtain segs2 where r: "feedLoop False ?q = (segs2, p')" "segs = visibleSegment (take i ?b) @ segs2"
        using less.prems(2) out some by (subst (asm) feedLoop.simps) (auto simp: Let_def prod_eq_iff)
      have "length (tp_buffer ?q) < length ?b" using nextThinkingTag_Some(2,4) [OF some] by (cases ot) auto
      from less.hyps [OF this enterThinking_frame(4) r(1)] enter_accounts [OF out some] show ?thesis
        unfolding r(2) by (rule accounts_for_trans [rotated])
    qed
  next
    case inside: True
    let ?c = "closeTagOf p"
    let ?p0 = "p\<lparr>tp_closeTag := ?c\<rparr>"
    show ?thesis
    proof (cases "str_index ?b ?c")
      case None
      let ?n = "safeUTF8PrefixBytes ?b (length ?b - trailingTagPrefix ?b [?c])"
      let ?out = "appendThinking (take ?n ?b) False ?p0"
      have "feedLoop False p = (if ?n > 0 then (fst ?out, (snd ?out)\<lparr>tp_buffer := drop ?n ?b\<rparr>) else ([], ?p0))"
        using inside None by (subst feedLoop.simps) (simp add: Let_def closeTagOf_def)
      moreover have "(fst ?out, (snd ?out)\<lparr>tp_buffer := drop ?n ?b\<rparr>) = ([], ?p0)" if "?n = 0"
        using that by (auto simp: appendThinking_def Let_def)
      ultimately have "segs = fst ?out" "p' = (snd ?out)\<lparr>tp_buffer := drop ?n ?b\<rparr>"
        using less.prems(2) by (auto split: if_splits)
      with keep_accounts [OF inside less.prems(1) None refl] show ?thesis by simp
    next
      case (Some e)
      let ?out = "appendThinking (take e ?b) True ?p0"
      let ?q = "(leaveThinking (snd ?out))\<lparr>tp_buffer := drop (e + length ?c) ?b\<rparr>"
      obtain segs2 where r: "feedLoop False ?q = (segs2, p')" "segs = fst ?out @ segs2"
        using less.prems(2) inside Some
        by (subst (asm) feedLoop.simps) (auto simp: Let_def prod_eq_iff closeTagOf_def)
      have "0 < length ?c" by (simp add: closeTagOf_def endThinking_def)
      then have "length (tp_buffer ?q) < length ?b" using conjunct1 [OF str_index_Some [OF Some]] by (cases ?c) auto
      moreover have "parserOk ?q" by (simp add: parserOk_def)
      ultimately have "accounts_for UNIV segs2 ?q p'" using r(1) less.hyps by blast
      with leave_accounts [OF inside less.prems(1) Some] show ?thesis unfolding r(2) by (rule accounts_for_trans)
    qed
  qed
qed

text \<open>With \<open>forceFlush\<close> nothing is left pending.\<close>

lemma flush_inside_accounts:
  assumes "tp_inThinking p" "parserOk p" "str_index (tp_buffer p) (closeTagOf p) = None"
  defines "out \<equiv> appendThinking (tp_buffer p) True (p\<lparr>tp_closeTag := closeTagOf p\<rparr>)"
  shows "accounts_for {''''} (fst out) p ((leaveThinking (snd out))\<lparr>tp_buffer := ''''\<rparr>)"
proof -
  have "splitRef '''' = ('''', '''')" by (rule splitRef_None) (simp add: nextThinkingTag_def tagThinking_def tagThink_def has_prefix_def)
  then show ?thesis
    unfolding accounts_for_def using assms(1-3)
    by (intro conjI exI [of _ "tp_buffer p"]) (auto simp: out_def appendThinking_out parserOk_def pendingRef_def insideRef_def)
qed

lemma flushLoop_accounts:
  "parserOk p \<Longrightarrow> feedLoop True p = (segs, p') \<Longrightarrow> accounts_for {''''} segs p p' \<and> tp_buffer p' = '''' \<and> \<not> tp_inThinking p'"
proof (induction "length (tp_buffer p)" arbitrary: p segs rule: less_induct)
  case less
  let ?b = "tp_buffer p"
  show ?case
  proof (cases "tp_inThinking p")
    case out: False
    show ?thesis
    proof (cases "nextThinkingTag ?b")
      case None
      have "safeUTF8PrefixBytes ?b (length ?b) = length ?b" by (simp add: safeUTF8PrefixBytes_def)
      then have "segs = visibleSegment ?b" "p' = p\<lparr>tp_buffer := ''''\<rparr>"
        using less.prems(2) out None by (subst (asm) feedLoop.simps; simp add: Let_def)+
      moreover have "accounts_for {''''} (visibleSegment ?b) p (p\<lparr>tp_buffer := ''''\<rparr>)"
        unfolding accounts_for_def using out None splitRef_None [of ?b] splitRef_None [of "''''"]
        by (intro conjI exI [of _ "''''"])
           (auto simp: parserOk_def pendingRef_def nextThinkingTag_def tagThinking_def tagThink_def has_prefix_def)
      ultimately show ?thesis using out by simp
    next
      case (Some tag)
      obtain i ot ct where tag: "tag = (i, ot, ct)" by (cases tag)
      let ?q = "enterThinking i ot ct p"
      have some: "nextThinkingTag ?b = Some (i, ot, ct)" using Some tag by simp
      obtain segs2 where r: "feedLoop True ?q = (segs2, p')" "segs = visibleSegment (take i ?b) @ segs2"
        using less.prems(2) out some by (subst (asm) feedLoop.simps) (auto simp: Let_def prod_eq_iff)
      have "length (tp_buffer ?q) < length ?b" using nextThinkingTag_Some(2,4) [OF some] by (cases ot) auto
      from less.hyps [OF this enterThinking_frame(4) r(1)] enter_accounts [OF out some] show ?thesis
        unfolding r(2) using accounts_for_trans by blast
    qed
  next
    case inside: True
    let ?c = "closeTagOf p"
    let ?p0 = "p\<lparr>tp_closeTag := ?c\<rparr>"
    show ?thesis
    proof (cases "str_index ?b ?c")
      case None
      let ?out = "appendThinking ?b True ?p0"
      have "feedLoop True p = (fst ?out, (leaveThinking (snd ?out))\<lparr>tp_buffer := ''''\<rparr>)"
        using inside None by (subst feedLoop.simps) (simp add: Let_def closeTagOf_def)
      with less.prems(2) flush_inside_accounts [OF inside less.prems(1) None] show ?thesis by auto
    next
      case (Some e)
      let ?out = "appendThinking (take e ?b) True ?p0"
      let ?q = "(leaveThinking (snd ?out))\<lparr>tp_buffer := drop (e + length ?c) ?b\<rparr>"
      obtain segs2 where r: "feedLoop True ?q = (segs2, p')" "segs = fst ?out @ segs2"
        using less.prems(2) inside Some
        by (subst (asm) feedLoop.simps) (auto simp: Let_def prod_eq_iff closeTagOf_def)
      have "0 < length ?c" by (simp add: closeTagOf_def endThinking_def)
      then have "length (tp_buffer ?q) < length ?b" using conjunct1 [OF str_index_Some [OF Some]] by (cases ?c) auto
      moreover have "parserOk ?q" by (simp add: parserOk_def)
      ultimately have "accounts_for {''''} segs2 ?q p' \<and> tp_buffer p' = '''' \<and> \<not> tp_inThinking p'" using r(1) less.hyps by blast
      with leave_accounts [OF inside less.prems(1) Some, of "{''''}"] show ?thesis
        unfolding r(2) using accounts_for_trans by blast
    qed
  qed
qed

section \<open>Independence of fragmentation\<close>

text \<open>A response that arrives in fragments: each is fed, and at the end the parser is flushed.\<close>

fun feedAll :: "string list \<Rightarrow> thinkingTagParser \<Rightarrow> thinkingTagSegment list \<times> thinkingTagParser" where
  "feedAll [] p = feed '''' True p"
| "feedAll (t # ts) p = (let (segs, p1) = feed t False p; (rest, p2) = feedAll ts p1 in (segs @ rest, p2))"

lemma feedAll_accounts:
  assumes "parserOk p" "feedAll ts p = (segs, p')"
  shows "\<exists>R. reasoningOf segs = (if sourceAllowed (tp_source p) then R else '''') \<and>
    pendingRef p (concat ts) = (visibleOf segs, R) \<and> tp_buffer p' = '''' \<and> \<not> tp_inThinking p'"
  using assms
proof (induction ts arbitrary: p segs)
  case Nil
  then have f: "feedLoop True (p\<lparr>tp_buffer := tp_buffer p @ ''''\<rparr>) = (segs, p')" by (simp add: feed_def)
  have "splitRef '''' = ('''', '''')" by (rule splitRef_None) (simp add: nextThinkingTag_def tagThinking_def tagThink_def has_prefix_def)
  moreover have "pendingRef (p\<lparr>tp_buffer := tp_buffer p\<rparr>) '''' = pendingRef p ''''" by (simp add: pendingRef_def closeTagOf_def)
  ultimately show ?case
    using flushLoop_accounts [OF _ f] Nil.prems(1) by (auto simp: parserOk_def accounts_for_def pendingRef_def closeTagOf_def)
next
  case (Cons t ts)
  obtain s1 p1 where f: "feedLoop False (p\<lparr>tp_buffer := tp_buffer p @ t\<rparr>) = (s1, p1)" by (metis surj_pair)
  obtain s2 p2 where r: "feedAll ts p1 = (s2, p2)" by (metis surj_pair)
  from Cons.prems f r have segs: "segs = s1 @ s2" "p2 = p'" by (simp_all add: feed_def)
  let ?q = "p\<lparr>tp_buffer := tp_buffer p @ t\<rparr>"
  have "parserOk ?q" using Cons.prems(1) by (simp add: parserOk_def)
  from feedLoop_accounts [OF this f] obtain R where R: "parserOk p1" "sourceAllowed (tp_source p1) = sourceAllowed (tp_source p)"
    "reasoningOf s1 = (if sourceAllowed (tp_source p) then R else '''')"
    "pendingRef ?q (concat ts) = (visibleOf s1 @ fst (pendingRef p1 (concat ts)), R @ snd (pendingRef p1 (concat ts)))"
    by (auto simp: accounts_for_def)
  from Cons.IH [OF R(1) r [unfolded segs(2)]] obtain Q where Q: "reasoningOf s2 = (if sourceAllowed (tp_source p1) then Q else '''')"
    "pendingRef p1 (concat ts) = (visibleOf s2, Q)" "tp_buffer p' = ''''" "\<not> tp_inThinking p'" by auto
  have "pendingRef p (concat (t # ts)) = pendingRef ?q (concat ts)" by (simp add: pendingRef_def closeTagOf_def)
  with R Q segs show ?case by (intro exI [of _ "R @ Q"]) auto
qed

text \<open>
  C22. The thinking-tag parser does not depend on how a response is cut into fragments: for
  every sequence of fragments the visible text it emits is that of splitting the whole response
  at once, and so is the reasoning, unless native reasoning events have claimed the source, in
  which case the tagged reasoning is dropped and never shown as visible text. The parser ends empty.
\<close>

theorem feed_fragmentation_independent:
  assumes "feedAll fragments (newThinkingTagParser source) = (segs, p')"
  shows "visibleOf segs = fst (splitRef (concat fragments)) \<and>
    reasoningOf segs = (if source = Some thinkingSourceReasoningEvent then '''' else snd (splitRef (concat fragments))) \<and>
    tp_buffer p' = '''' \<and> \<not> tp_inThinking p'"
proof -
  have "parserOk (newThinkingTagParser source)" by (simp add: parserOk_def newThinkingTagParser_def)
  from feedAll_accounts [OF this assms] show ?thesis
    by (auto simp: pendingRef_def newThinkingTagParser_def sourceAllowed_def)
qed

theorem feed_fragmentation_independent_witness:
  "visibleOf (fst (feedAll [''a<thi'', ''nk>b</th'', ''ink>c''] (newThinkingTagParser None))) = ''ac'' \<and>
   reasoningOf (fst (feedAll [''a<thi'', ''nk>b</th'', ''ink>c''] (newThinkingTagParser None))) = ''b''"
proof -
  have "splitRef (concat [''a<thi'', ''nk>b</th'', ''ink>c'']) = (''ac'', ''b'')" by code_simp
  with feed_fragmentation_independent [of "[''a<thi'', ''nk>b</th'', ''ink>c'']" None] show ?thesis
    by (metis fst_conv option.distinct(1) prod.collapse snd_conv)
qed


section \<open>The probe for visible text\<close>

lemma visible_probe:
  "prefix (fst (visibleTextOutsideThinking b)) (fst (splitRef (b @ s))) \<and>
   (\<not> snd (visibleTextOutsideThinking b) \<longrightarrow> fst (splitRef b) = fst (visibleTextOutsideThinking b))"
proof (induction b rule: visibleTextOutsideThinking.induct)
  case (1 b)
  have empty: "nextThinkingTag '''' = None" by (simp add: nextThinkingTag_def tagThinking_def tagThink_def has_prefix_def)
  show ?case
  proof (cases "nextThinkingTag b")
    case None
    have v: "visibleTextOutsideThinking b = (take (length b - trailingThinkingTagPrefix b) b, trailingThinkingTagPrefix b > 0)"
    proof (cases "b = ''''")
      case True
      have "trailingThinkingTagPrefix '''' = 0" by code_simp
      with True show ?thesis by (subst visibleTextOutsideThinking.simps) simp
    next
      case False
      with None show ?thesis by (subst visibleTextOutsideThinking.simps) (simp add: Let_def)
    qed
    show ?thesis unfolding v using splitRef_shift [OF None order_refl, of s] None by (auto simp: splitRef_None)
  next
    case (Some tag)
    obtain i ot ct where tag: "tag = (i, ot, ct)" by (cases tag)
    with Some have some: "nextThinkingTag b = Some (i, ot, ct)" by simp
    note bounds = nextThinkingTag_Some [OF some]
    let ?c = "drop (i + length ot) b"
    have ne: "b \<noteq> ''''" using some empty by auto
    have ref: "splitRef (b @ s) = (take i b @ fst (insideRef ct (?c @ s)), snd (insideRef ct (?c @ s)))" for s
      using splitRef_Some [OF nextThinkingTag_append [OF some], of s] bounds(4) by simp
    show ?thesis
    proof (cases "str_index ?c ct")
      case None
      have "visibleTextOutsideThinking b = (take i b, True)"
        using some None ne by (subst visibleTextOutsideThinking.simps) (simp add: Let_def)
      then show ?thesis using ref by simp
    next
      case (Some e)
      let ?rest = "drop (e + length ct) ?c"
      have v: "visibleTextOutsideThinking b = (take i b @ fst (visibleTextOutsideThinking ?rest), snd (visibleTextOutsideThinking ?rest))"
        using some Some ne by (subst visibleTextOutsideThinking.simps) (simp add: Let_def)
      have ih: "prefix (fst (visibleTextOutsideThinking ?rest)) (fst (splitRef (?rest @ s))) \<and>
          (\<not> snd (visibleTextOutsideThinking ?rest) \<longrightarrow> fst (splitRef ?rest) = fst (visibleTextOutsideThinking ?rest))"
        using "1.IH" [OF ne some refl refl refl refl] Some by simp
      have at: "fst (insideRef ct (?c @ s)) = fst (splitRef (?rest @ s))" for s using insideRef_append [OF Some, of s] by simp
      from ref [of s] ref [of "''''"] v ih at [of s] at [of "''''"] show ?thesis by simp
    qed
  qed
qed

text \<open>
  The visible text that the probe of a growing response reports is final: whatever follows, it is a prefix of the
  visible text of the whole response; and when the probe reports no open block or partial tag, it is all of it.
\<close>

theorem visibleTextOutsideThinking_stable:
  assumes "visibleTextOutsideThinking b = (v, open_ended)"
  shows "prefix v (fst (splitRef (b @ s))) \<and> (\<not> open_ended \<longrightarrow> fst (splitRef b) = v)"
  using visible_probe [of b s] assms by simp

theorem visibleTextOutsideThinking_stable_witness:
  "prefix ''a'' (fst (splitRef (''a<think>b'' @ ''c'')))"
proof -
  have "visibleTextOutsideThinking ''a<think>b'' = (''a'', True)" by code_simp
  from visibleTextOutsideThinking_stable [OF this] show ?thesis by blast
qed

end
