(* ===== verification/Api_Keys.thy ===== *)
theory Api_Keys
  imports Accounts
begin

text \<open>
  The client API keys: the store of \<open>config/apikeys.go\<close> with its usage counters, and the
  authentication of requests against it, \<open>proxy/auth.go\<close>.

  The store is \<open>cfg.ApiKeys\<close>, \<open>None\<close> while \<open>cfg\<close> is \<open>nil\<close>. \<open>saved\<close> says whether writing the
  configuration file works, \<open>uuid\<close> is what \<open>newUUID\<close> returns. Entries are values, so the copies the Go code
  takes of the optional flag are the flag itself.
\<close>

section \<open>Data\<close>

record ApiKeyEntry =
  ak_ID :: string
  ak_Name :: string
  ak_Key :: string
  ak_Enabled :: bool
  ak_ModelFallbackEnabled :: "bool option"
  ak_Migrated :: bool
  ak_CreatedAt :: int
  ak_LastUsedAt :: int
  ak_TokenLimit :: int
  ak_CreditLimit :: float64
  ak_RequestsPerMinute :: int
  ak_TokensPerMinute :: int
  ak_MaxConcurrency :: int
  ak_QueueCapacity :: int
  ak_QueueTimeoutMs :: int
  ak_TokensUsed :: int
  ak_CreditsUsed :: float64
  ak_RequestsCount :: int

type_synonym keyStore = "ApiKeyEntry list option"

datatype ApiKeyError =
    ErrNotInitialized
  | ErrKeyEmpty
  | ErrKeyExists
  | ErrKeyNotFound
  | ErrKeyCollides
  | ErrSave

section \<open>Operations\<close>

definition ListApiKeys :: "keyStore \<Rightarrow> ApiKeyEntry list" where
  "ListApiKeys st = (case st of None \<Rightarrow> [] | Some keys \<Rightarrow> keys)"

definition GetApiKeyEntry :: "string \<Rightarrow> keyStore \<Rightarrow> ApiKeyEntry option" where
  "GetApiKeyEntry aid st = (case st of None \<Rightarrow> None | Some keys \<Rightarrow> find (\<lambda>e. ak_ID e = aid) keys)"

definition FindApiKeyByValue :: "string \<Rightarrow> keyStore \<Rightarrow> ApiKeyEntry option" where
  "FindApiKeyByValue key st =
     (case st of None \<Rightarrow> None | Some keys \<Rightarrow> if key = '''' then None else find (\<lambda>e. ak_Key e = key) keys)"

definition HasApiKeys :: "keyStore \<Rightarrow> bool" where
  "HasApiKeys st = (case st of None \<Rightarrow> False | Some keys \<Rightarrow> keys \<noteq> [])"

definition completeEntry :: "string \<Rightarrow> gotime \<Rightarrow> ApiKeyEntry \<Rightarrow> ApiKeyEntry" where
  "completeEntry uuid now entry =
     entry\<lparr>ak_ID := (if ak_ID entry = '''' then uuid else ak_ID entry),
           ak_CreatedAt := (if ak_CreatedAt entry = 0 then unix_of now else ak_CreatedAt entry)\<rparr>"

definition AddApiKey :: "bool \<Rightarrow> string \<Rightarrow> gotime \<Rightarrow> ApiKeyEntry \<Rightarrow> keyStore \<Rightarrow> (ApiKeyError + ApiKeyEntry) \<times> keyStore" where
  "AddApiKey saved uuid now entry0 st =
     (case st of
        None \<Rightarrow> (Inl ErrNotInitialized, st)
      | Some keys \<Rightarrow>
          let entry = entry0\<lparr>ak_Key := trim_space (ak_Key entry0)\<rparr>
          in if ak_Key entry = '''' then (Inl ErrKeyEmpty, st)
             else if list_ex (\<lambda>e. ak_Key e = ak_Key entry) keys then (Inl ErrKeyExists, st)
             else let entry' = completeEntry uuid now entry; keys' = keys @ [entry']
                  in if saved then (Inr entry', Some keys')
                     else (Inl ErrSave, Some (take (length keys' - 1) keys')))"

text \<open>The loop of \<open>AddApiKeys\<close>: the keys seen so far, the entries to create and the duplicates.\<close>

fun collectApiKeys :: "(nat \<Rightarrow> string) \<Rightarrow> gotime \<Rightarrow> string list \<Rightarrow> nat \<Rightarrow> ApiKeyEntry list \<Rightarrow> ApiKeyEntry list \<times> string list" where
  "collectApiKeys uuids now seen n [] = ([], [])"
| "collectApiKeys uuids now seen n (entry0 # entries) =
     (let entry = entry0\<lparr>ak_Key := trim_space (ak_Key entry0)\<rparr>
      in if ak_Key entry = '''' then collectApiKeys uuids now seen (Suc n) entries
         else if ak_Key entry \<in> set seen
         then (let r = collectApiKeys uuids now seen (Suc n) entries in (fst r, ak_Key entry # snd r))
         else (let r = collectApiKeys uuids now (ak_Key entry # seen) (Suc n) entries
               in (completeEntry (uuids n) now entry # fst r, snd r)))"

definition AddApiKeys ::
    "bool \<Rightarrow> (nat \<Rightarrow> string) \<Rightarrow> gotime \<Rightarrow> ApiKeyEntry list \<Rightarrow> keyStore \<Rightarrow>
     (ApiKeyError + ApiKeyEntry list \<times> string list) \<times> keyStore" where
  "AddApiKeys saved uuids now entries st =
     (case st of
        None \<Rightarrow> (Inl ErrNotInitialized, st)
      | Some keys \<Rightarrow>
          let (created, skipped) = collectApiKeys uuids now (map ak_Key keys) 0 entries
          in if created = [] then (Inr ([], skipped), st)
             else if saved then (Inr (created, skipped), Some (keys @ created))
             else (Inl ErrSave, Some (take (length keys) (keys @ created))))"

text \<open>The position of the first entry with the id, as the loops that search for it find it.\<close>

fun indexOf :: "('a \<Rightarrow> bool) \<Rightarrow> 'a list \<Rightarrow> nat option" where
  "indexOf P [] = None"
| "indexOf P (x # xs) = (if P x then Some 0 else map_option Suc (indexOf P xs))"

definition patchEntry :: "ApiKeyEntry \<Rightarrow> ApiKeyEntry \<Rightarrow> ApiKeyEntry" where
  "patchEntry patch e =
     e\<lparr>ak_Enabled := ak_Enabled patch, ak_TokenLimit := ak_TokenLimit patch, ak_CreditLimit := ak_CreditLimit patch,
       ak_RequestsPerMinute := ak_RequestsPerMinute patch, ak_TokensPerMinute := ak_TokensPerMinute patch,
       ak_MaxConcurrency := ak_MaxConcurrency patch, ak_QueueCapacity := ak_QueueCapacity patch,
       ak_QueueTimeoutMs := ak_QueueTimeoutMs patch, ak_ModelFallbackEnabled := ak_ModelFallbackEnabled patch,
       ak_Migrated := (ak_Migrated patch \<or> ak_Migrated e)\<rparr>"

text \<open>The second component is the error, \<open>None\<close> for \<open>nil\<close>.\<close>

definition UpdateApiKey :: "bool \<Rightarrow> string \<Rightarrow> ApiKeyEntry \<Rightarrow> keyStore \<Rightarrow> keyStore \<times> ApiKeyError option" where
  "UpdateApiKey saved aid patch st =
     (case st of
        None \<Rightarrow> (st, Some ErrNotInitialized)
      | Some keys \<Rightarrow>
          (case indexOf (\<lambda>e. ak_ID e = aid) keys of
             None \<Rightarrow> (st, Some ErrKeyNotFound)
           | Some idx \<Rightarrow>
               let e = keys ! idx;
                   e1 = (if ak_Name patch \<noteq> '''' then e\<lparr>ak_Name := ak_Name patch\<rparr> else e);
                   keys1 = keys[idx := e1];
                   newKey = trim_space (ak_Key patch)
               in if ak_Key patch \<noteq> '''' \<and>
                     list_ex (\<lambda>j. j \<noteq> idx \<and> ak_Key (keys1 ! j) = newKey) [0..<length keys1]
                  then (Some keys1, Some ErrKeyCollides)
                  else let e2 = (if ak_Key patch \<noteq> '''' then e1\<lparr>ak_Key := newKey\<rparr> else e1)
                       in (Some (keys1[idx := patchEntry patch e2]), if saved then None else Some ErrSave)))"

definition DeleteApiKey :: "bool \<Rightarrow> string \<Rightarrow> keyStore \<Rightarrow> keyStore \<times> ApiKeyError option" where
  "DeleteApiKey saved aid st =
     (case st of
        None \<Rightarrow> (st, Some ErrNotInitialized)
      | Some keys \<Rightarrow>
          (case indexOf (\<lambda>e. ak_ID e = aid) keys of
             None \<Rightarrow> (st, None)
           | Some i \<Rightarrow> (Some (take i keys @ drop (Suc i) keys), if saved then None else Some ErrSave)))"

definition RecordApiKeyUsage ::
    "(rat \<Rightarrow> float64) \<Rightarrow> string \<Rightarrow> int \<Rightarrow> float64 \<Rightarrow> gotime \<Rightarrow> keyStore \<Rightarrow> keyStore \<times> ApiKeyError option" where
  "RecordApiKeyUsage rnd aid tokens credits now st =
     (case st of
        None \<Rightarrow> (st, Some ErrNotInitialized)
      | Some keys \<Rightarrow>
          (case indexOf (\<lambda>e. ak_ID e = aid) keys of
             None \<Rightarrow> (st, Some ErrKeyNotFound)
           | Some i \<Rightarrow>
               let e = keys ! i
               in (Some (keys[i := e\<lparr>ak_TokensUsed := (if tokens > 0 then ak_TokensUsed e + tokens else ak_TokensUsed e),
                       ak_CreditsUsed := (if credits > 0 then rnd (ak_CreditsUsed e + credits) else ak_CreditsUsed e),
                       ak_RequestsCount := ak_RequestsCount e + 1, ak_LastUsedAt := unix_of now\<rparr>]), None)))"

definition ResetApiKeyUsage :: "bool \<Rightarrow> string \<Rightarrow> keyStore \<Rightarrow> keyStore \<times> ApiKeyError option" where
  "ResetApiKeyUsage saved aid st =
     (case st of
        None \<Rightarrow> (st, Some ErrNotInitialized)
      | Some keys \<Rightarrow>
          (case indexOf (\<lambda>e. ak_ID e = aid) keys of
             None \<Rightarrow> (st, Some ErrKeyNotFound)
           | Some i \<Rightarrow>
               (Some (keys[i := (keys ! i)\<lparr>ak_TokensUsed := 0, ak_CreditsUsed := 0, ak_RequestsCount := 0\<rparr>]),
                if saved then None else Some ErrSave)))"

definition MaskApiKey :: "string \<Rightarrow> string" where
  "MaskApiKey key =
     (if key = '''' then ''''
      else if length key \<le> 10 then key
      else take 6 key @ ''****'' @ drop (length key - 4) key)"

definition ApiKeyOverLimit :: "ApiKeyEntry \<Rightarrow> bool \<times> bool" where
  "ApiKeyOverLimit e =
     (ak_TokenLimit e > 0 \<and> ak_TokensUsed e \<ge> ak_TokenLimit e,
      ak_CreditLimit e > 0 \<and> ak_CreditsUsed e \<ge> ak_CreditLimit e)"

section \<open>Deferred saves of the counters\<close>

text \<open>
  The coalesced write of the counters: \<open>us_generation\<close> is \<open>apiKeyUsageSaveGeneration\<close>, 0 for nothing
  pending; \<open>us_timer\<close> whether a timer is armed. \<open>flushApiKeyUsage\<close> is given the current generation of the configuration and
  the success of the write, and says whether it wrote the file.
\<close>

record UsageSave =
  us_generation :: "64 word"
  us_timer :: bool

definition scheduleApiKeyUsageSave :: "64 word \<Rightarrow> UsageSave \<Rightarrow> UsageSave" where
  "scheduleApiKeyUsageSave generation u = u\<lparr>us_generation := generation, us_timer := True\<rparr>"

definition flushApiKeyUsage :: "64 word \<Rightarrow> bool \<Rightarrow> UsageSave \<Rightarrow> bool \<times> UsageSave" where
  "flushApiKeyUsage cfgGeneration saved u =
     (let generation = us_generation u; u1 = u\<lparr>us_generation := 0, us_timer := False\<rparr>
      in if generation = 0 then (False, u1)
         else if generation \<noteq> cfgGeneration then (False, u1)
         else if saved then (True, u1)
         else (False, u1\<lparr>us_generation := generation, us_timer := True\<rparr>))"

section \<open>Authentication\<close>

record authError =
  ae_status :: int
  ae_code :: string
  ae_message :: string
  ae_retryAfter :: duration

definition newAuthError :: "int \<Rightarrow> string \<Rightarrow> string \<Rightarrow> authError" where
  "newAuthError status code message = \<lparr>ae_status = status, ae_code = code, ae_message = message, ae_retryAfter = 0\<rparr>"

text \<open>The two headers a key may be sent in; \<open>''''\<close> when a header is missing.\<close>

definition extractProvidedKey :: "string \<Rightarrow> string \<Rightarrow> string" where
  "extractProvidedKey authorization xApiKey =
     (if has_prefix authorization ''Bearer '' then drop 7 authorization
      else if xApiKey \<noteq> '''' then xApiKey
      else '''')"

text \<open>What \<open>authenticate\<close> reads besides the key store.\<close>

record AuthSettings =
  as_RequireApiKey :: bool
  as_Host :: string
  as_AllowUnauthenticated :: string
  as_ApiKey :: string

definition publicAPIAuthenticationRequired :: "AuthSettings \<Rightarrow> bool" where
  "publicAPIAuthenticationRequired s =
     (if as_RequireApiKey s then True
      else let host = to_lower (trim_space (as_Host s));
               publicBind = (host = '''' \<or> host = ''0.0.0.0'' \<or> host = ''::'' \<or> host = ''[::]'')
           in if \<not> publicBind then False
              else \<not> equal_fold (trim_space (as_AllowUnauthenticated s)) ''true'')"

definition authenticate :: "AuthSettings \<Rightarrow> keyStore \<Rightarrow> string \<Rightarrow> string \<Rightarrow> authError + ApiKeyEntry option" where
  "authenticate s st authorization xApiKey =
     (if \<not> publicAPIAuthenticationRequired s then Inr None
      else
        let provided = extractProvidedKey authorization xApiKey
        in if HasApiKeys st then
             (if provided = ''''
              then Inl (newAuthError 401 ''authentication_error'' ''Invalid or missing API key'')
              else case FindApiKeyByValue provided st of
                     None \<Rightarrow> Inl (newAuthError 401 ''authentication_error'' ''Invalid or missing API key'')
                   | Some entry \<Rightarrow>
                       if \<not> ak_Enabled entry then Inl (newAuthError 401 ''authentication_error'' ''API key disabled'')
                       else let (overToken, overCredit) = ApiKeyOverLimit entry
                            in if overToken then Inl (newAuthError 429 ''rate_limit_error'' ''token limit exceeded'')
                               else if overCredit then Inl (newAuthError 429 ''rate_limit_error'' ''credit limit exceeded'')
                               else Inr (Some entry))
           else
             let expected = as_ApiKey s
             in if expected = ''''
                then Inl (newAuthError 401 ''authentication_error''
                           ''API key authentication is required but no keys are configured'')
                else if provided = '''' \<or> provided \<noteq> expected
                then Inl (newAuthError 401 ''authentication_error'' ''Invalid or missing API key'')
                else Inr None)"

end
