(* ===== verification/Admission.thy ===== *)
theory Admission
  imports Api_Keys Ledger
begin

text \<open>
  Admission control per API key, \<open>proxy/api_admission.go\<close>: requests and tokens per minute in
  fixed windows, a concurrency limit and a bounded queue of requests that wait for it.

  \<open>Acquire\<close> is a loop around one critical section; \<open>admissionTry\<close> is that section, with \<open>queued\<close>
  the loop's flag. Between two rounds the request waits for the channel it took (\<open>AdmWait\<close>), for its
  deadline or for its context; \<open>cancelWait\<close> is what it runs when it gives up. Every other function
  is one critical section. A channel is a number, as in the pool; \<open>None\<close> for a \<open>nil\<close> error.
\<close>

section \<open>Data\<close>

record apiKeyAdmissionState =
  am_windowStarted :: gotime
  am_requests :: int
  am_tokens :: int
  am_inFlight :: int
  am_waiting :: int
  am_notify :: nat
  am_lastSeen :: gotime

type_synonym admissionManager = "(string, apiKeyAdmissionState) gomap"

record apiKeyAdmissionLease =
  al_keyID :: string
  al_tokensPerMinute :: int
  al_reservedTokens :: int
  al_reservationWindow :: gotime
  al_tokensFinalized :: bool
  al_released :: bool

datatype AdmissionOutcome =
    AdmRejected authError
  | AdmGranted apiKeyAdmissionLease
  | AdmWait nat

section \<open>Operations\<close>

definition admissionLimitError :: "string \<Rightarrow> duration \<Rightarrow> authError" where
  "admissionLimitError message retryAfter =
     \<lparr>ae_status = 429, ae_code = ''rate_limit_error'', ae_message = message,
      ae_retryAfter = (if retryAfter < second then second else retryAfter)\<rparr>"

definition requestCanceled :: authError where
  "requestCanceled = newAuthError 499 ''request_canceled'' ''request canceled while waiting for API key concurrency''"

definition queueTimedOut :: authError where
  "queueTimedOut = admissionLimitError ''API key request queue timed out'' second"

text \<open>Whether \<open>Acquire\<close> has anything to enforce for the entry; otherwise it returns no lease and no error.\<close>

definition admissionLimited :: "ApiKeyEntry \<Rightarrow> bool" where
  "admissionLimited entry \<longleftrightarrow> ak_ID entry \<noteq> '''' \<and>
     \<not> (ak_RequestsPerMinute entry \<le> 0 \<and> ak_TokensPerMinute entry \<le> 0 \<and> ak_MaxConcurrency entry \<le> 0)"

definition queueTimeout :: "ApiKeyEntry \<Rightarrow> duration" where
  "queueTimeout entry =
     (let t = ak_QueueTimeoutMs entry * millisecond
      in if ak_QueueCapacity entry > 0 \<and> t \<le> 0 then 5 * second else t)"

definition freshState :: "gotime \<Rightarrow> apiKeyAdmissionState" where
  "freshState now = \<lparr>am_windowStarted = now, am_requests = 0, am_tokens = 0, am_inFlight = 0, am_waiting = 0,
     am_notify = 0, am_lastSeen = zero_time\<rparr>"

definition stateLocked :: "string \<Rightarrow> gotime \<Rightarrow> admissionManager \<Rightarrow> apiKeyAdmissionState" where
  "stateLocked keyID now m = (case gm_get m keyID of None \<Rightarrow> freshState now | Some state \<Rightarrow> state)"

definition resetAdmissionWindow :: "gotime \<Rightarrow> apiKeyAdmissionState \<Rightarrow> apiKeyAdmissionState" where
  "resetAdmissionWindow now state =
     (if is_zero (am_windowStarted state) \<or> time_sub now (am_windowStarted state) \<ge> minute
      then state\<lparr>am_windowStarted := now, am_requests := 0, am_tokens := 0\<rparr> else state)"

definition leaveQueue :: "bool \<Rightarrow> apiKeyAdmissionState \<Rightarrow> apiKeyAdmissionState" where
  "leaveQueue queued state =
     (if queued \<and> am_waiting state > 0 then state\<lparr>am_waiting := am_waiting state - 1\<rparr> else state)"

definition newLease :: "ApiKeyEntry \<Rightarrow> apiKeyAdmissionLease" where
  "newLease entry = \<lparr>al_keyID = ak_ID entry, al_tokensPerMinute = ak_TokensPerMinute entry, al_reservedTokens = 0,
     al_reservationWindow = zero_time, al_tokensFinalized = False, al_released = False\<rparr>"

definition admissionTry ::
    "ApiKeyEntry \<Rightarrow> bool \<Rightarrow> gotime \<Rightarrow> admissionManager \<Rightarrow> AdmissionOutcome \<times> admissionManager" where
  "admissionTry entry queued now m =
     (let state = (resetAdmissionWindow now (stateLocked (ak_ID entry) now m))\<lparr>am_lastSeen := now\<rparr>;
          store = (\<lambda>s. gm_put (ak_ID entry) s m)
      in if ak_RequestsPerMinute entry > 0 \<and> am_requests state \<ge> ak_RequestsPerMinute entry
         then (AdmRejected (admissionLimitError ''requests per minute limit exceeded''
                  (minute - time_sub now (am_windowStarted state))), store (leaveQueue queued state))
         else if ak_MaxConcurrency entry \<le> 0 \<or> am_inFlight state < ak_MaxConcurrency entry
         then let s1 = leaveQueue queued state
              in (AdmGranted (newLease entry),
                  store (s1\<lparr>am_inFlight := am_inFlight s1 + 1, am_requests := am_requests s1 + 1\<rparr>))
         else if ak_QueueCapacity entry \<le> 0 \<or> (\<not> queued \<and> am_waiting state \<ge> ak_QueueCapacity entry)
         then (AdmRejected (admissionLimitError ''API key concurrency limit exceeded'' second), store state)
         else (AdmWait (am_notify state),
               store (if queued then state else state\<lparr>am_waiting := am_waiting state + 1\<rparr>)))"

definition cancelWait :: "string \<Rightarrow> bool \<Rightarrow> admissionManager \<Rightarrow> admissionManager" where
  "cancelWait keyID queued m =
     (if \<not> queued then m
      else case gm_get m keyID of
             None \<Rightarrow> m
           | Some state \<Rightarrow>
               if am_waiting state > 0 then gm_put keyID (state\<lparr>am_waiting := am_waiting state - 1\<rparr>) m else m)"

definition ReserveTokens ::
    "int \<Rightarrow> gotime \<Rightarrow> apiKeyAdmissionLease \<Rightarrow> admissionManager \<Rightarrow>
     authError option \<times> apiKeyAdmissionLease \<times> admissionManager" where
  "ReserveTokens tokens now l m =
     (if tokens \<le> 0 \<or> al_tokensPerMinute l \<le> 0 then (None, l, m)
      else
        let state = resetAdmissionWindow now (stateLocked (al_keyID l) now m)
        in if am_tokens state + tokens > al_tokensPerMinute l
           then (Some (admissionLimitError ''tokens per minute limit exceeded''
                    (minute - time_sub now (am_windowStarted state))), l, gm_put (al_keyID l) state m)
           else let state' = state\<lparr>am_tokens := am_tokens state + tokens\<rparr>;
                    l1 = (if is_zero (al_reservationWindow l) \<or> al_reservationWindow l \<noteq> am_windowStarted state'
                          then l\<lparr>al_reservationWindow := am_windowStarted state', al_reservedTokens := 0\<rparr> else l)
                in (None, l1\<lparr>al_reservedTokens := al_reservedTokens l1 + tokens\<rparr>, gm_put (al_keyID l) state' m))"

definition ReconcileTokens ::
    "int \<Rightarrow> gotime \<Rightarrow> apiKeyAdmissionLease \<Rightarrow> admissionManager \<Rightarrow> apiKeyAdmissionLease \<times> admissionManager" where
  "ReconcileTokens actualTokens now l m =
     (if al_tokensPerMinute l \<le> 0 \<or> actualTokens < 0 then (l, m)
      else if al_tokensFinalized l then (l, m)
      else
        let state = resetAdmissionWindow now (stateLocked (al_keyID l) now m);
            delta = (if \<not> is_zero (al_reservationWindow l) \<and> al_reservationWindow l = am_windowStarted state
                     then actualTokens - al_reservedTokens l else actualTokens);
            tokens = am_tokens state + delta
        in (l\<lparr>al_tokensFinalized := True\<rparr>,
            gm_put (al_keyID l) (state\<lparr>am_tokens := (if tokens < 0 then 0 else tokens)\<rparr>) m))"

definition ReleaseLease :: "gotime \<Rightarrow> apiKeyAdmissionLease \<Rightarrow> admissionManager \<Rightarrow> apiKeyAdmissionLease \<times> admissionManager" where
  "ReleaseLease now l m =
     (if al_released l then (l, m)
      else (l\<lparr>al_released := True\<rparr>,
            case gm_get m (al_keyID l) of
              None \<Rightarrow> m
            | Some state \<Rightarrow>
                gm_put (al_keyID l)
                  (state\<lparr>am_inFlight := (if am_inFlight state > 0 then am_inFlight state - 1 else am_inFlight state),
                         am_notify := Suc (am_notify state), am_lastSeen := now\<rparr>) m))"

definition AddTokens :: "string \<Rightarrow> int \<Rightarrow> gotime \<Rightarrow> admissionManager \<Rightarrow> admissionManager" where
  "AddTokens keyID tokens now m =
     (if keyID = '''' \<or> tokens \<le> 0 then m
      else case gm_get m keyID of
             None \<Rightarrow> m
           | Some state0 \<Rightarrow>
               let state = resetAdmissionWindow now state0
               in gm_put keyID (state\<lparr>am_tokens := am_tokens state + tokens\<rparr>) m)"

text \<open>\<open>applyAuthErrorHeaders\<close>: the value of the \<open>Retry-After\<close> header in seconds, rounded up; \<open>None\<close> for no header.\<close>

definition retryAfterHeader :: "authError option \<Rightarrow> string option" where
  "retryAfterHeader err = (case err of
      None \<Rightarrow> None
    | Some e \<Rightarrow> if ae_retryAfter e \<le> 0 then None
               else Some (show_int ((ae_retryAfter e + second - 1) div second)))"

section \<open>The manager in operation\<close>

text \<open>
  The manager, the leases handed out and not yet released, and the keys of the requests in the queue. The
  limits of a key are those of \<open>entryOf\<close>.
\<close>

type_synonym admSys = "admissionManager \<times> apiKeyAdmissionLease list \<times> string list"

inductive adm_step :: "(string \<Rightarrow> ApiKeyEntry) \<Rightarrow> admSys \<Rightarrow> admSys \<Rightarrow> bool" for entryOf where
  granted: "admissionTry (entryOf k) False now m = (AdmGranted l, m') \<Longrightarrow> adm_step entryOf (m, L, W) (m', l # L, W)"
| enqueued: "admissionTry (entryOf k) False now m = (AdmWait c, m') \<Longrightarrow> adm_step entryOf (m, L, W) (m', L, k # W)"
| rejected: "admissionTry (entryOf k) False now m = (AdmRejected e, m') \<Longrightarrow> adm_step entryOf (m, L, W) (m', L, W)"
| admitted: "k \<in> set W \<Longrightarrow> admissionTry (entryOf k) True now m = (AdmGranted l, m') \<Longrightarrow>
    adm_step entryOf (m, L, W) (m', l # L, remove1 k W)"
| still_waiting: "k \<in> set W \<Longrightarrow> admissionTry (entryOf k) True now m = (AdmWait c, m') \<Longrightarrow> adm_step entryOf (m, L, W) (m', L, W)"
| dropped: "k \<in> set W \<Longrightarrow> admissionTry (entryOf k) True now m = (AdmRejected e, m') \<Longrightarrow>
    adm_step entryOf (m, L, W) (m', L, remove1 k W)"
| abandoned: "k \<in> set W \<Longrightarrow> adm_step entryOf (m, L, W) (cancelWait (ak_ID (entryOf k)) True m, L, remove1 k W)"
| released: "l \<in> set L \<Longrightarrow> ReleaseLease now l m = (l', m') \<Longrightarrow> adm_step entryOf (m, L, W) (m', remove1 l L, W)"
| reserved: "l \<in> set L \<Longrightarrow> ReserveTokens n now l m = (err, l', m') \<Longrightarrow> adm_step entryOf (m, L, W) (m', l' # remove1 l L, W)"
| reconciled: "l \<in> set L \<Longrightarrow> ReconcileTokens n now l m = (l', m') \<Longrightarrow> adm_step entryOf (m, L, W) (m', l' # remove1 l L, W)"
| added: "adm_step entryOf (m, L, W) (AddTokens k n now m, L, W)"

inductive adm_reachable :: "(string \<Rightarrow> ApiKeyEntry) \<Rightarrow> admSys \<Rightarrow> bool" for entryOf where
  start: "adm_reachable entryOf ([], [], [])"
| step: "adm_reachable entryOf s \<Longrightarrow> adm_step entryOf s t \<Longrightarrow> adm_reachable entryOf t"

end
