(* ===== verification/Api_Keys_Props.thy ===== *)
theory Api_Keys_Props
  imports Api_Keys
begin

text \<open>
  Properties of the API-key store and of authentication: key values stay unique whatever
  sequence of operations and failed writes runs, adding is atomic, authentication admits exactly
  the enabled keys within their limits and fails closed, and usage counters enforce the limits.
\<close>

section \<open>Searching\<close>

lemma indexOf_Some: "indexOf P xs = Some i \<Longrightarrow> i < length xs \<and> P (xs ! i) \<and> (\<forall>j < i. \<not> P (xs ! j))"
  by (induction xs arbitrary: i) (auto simp: nth_Cons' less_Suc_eq_0_disj split: if_splits)

lemma indexOf_None: "indexOf P xs = None \<longleftrightarrow> (\<forall>x \<in> set xs. \<not> P x)"
  by (induction xs) auto

lemma find_distinct:
  "distinct (map f xs) \<Longrightarrow> e \<in> set xs \<Longrightarrow> find (\<lambda>x. f x = f e) xs = Some e"
  by (induction xs) (auto simp: image_iff)

lemma map_list_update_same: "f x = f (xs ! i) \<Longrightarrow> map f (xs[i := x]) = map f xs"
  by (metis list_update_id list_update_same_conv map_update)

section \<open>Uniqueness of key values\<close>

definition keysOk :: "ApiKeyEntry list \<Rightarrow> bool" where
  "keysOk keys \<longleftrightarrow> distinct (map ak_Key keys) \<and> (\<forall>e \<in> set keys. trim_space (ak_Key e) = ak_Key e)"

definition storeOk :: "keyStore \<Rightarrow> bool" where
  "storeOk st \<longleftrightarrow> (case st of None \<Rightarrow> True | Some keys \<Rightarrow> keysOk keys)"

lemma completeEntry_key [simp]: "ak_Key (completeEntry uuid now e) = ak_Key e"
  by (simp add: completeEntry_def)

lemma collectApiKeys_ok:
  "collectApiKeys uuids now seen n entries = (created, skipped) \<Longrightarrow>
   distinct (map ak_Key created) \<and> ak_Key ` set created \<inter> set seen = {} \<and>
   (\<forall>e \<in> set created. trim_space (ak_Key e) = ak_Key e \<and> ak_Key e \<noteq> '''')"
proof (induction uuids now seen n entries arbitrary: created skipped rule: collectApiKeys.induct)
  case (2 uuids now seen n entry0 entries)
  let ?k = "trim_space (ak_Key entry0)"
  consider "?k = ''''" | "?k \<noteq> ''''" "?k \<in> set seen" | "?k \<noteq> ''''" "?k \<notin> set seen" by blast
  then show ?case
  proof cases
    case 1
    with "2.prems" have r: "collectApiKeys uuids now seen (Suc n) entries = (created, skipped)" by simp
    show ?thesis by (rule "2.IH"(1) [OF refl _ r]) (simp add: 1)
  next
    case 2
    with "2.prems" obtain s where r: "collectApiKeys uuids now seen (Suc n) entries = (created, s)"
      by (cases "collectApiKeys uuids now seen (Suc n) entries") (simp add: Let_def)
    show ?thesis by (rule "2.IH"(2) [OF refl _ _ r]) (simp_all add: 2)
  next
    case 3
    obtain c s where r: "collectApiKeys uuids now (?k # seen) (Suc n) entries = (c, s)" by (metis surj_pair)
    with "2.prems" 3 have created: "created = completeEntry (uuids n) now (entry0\<lparr>ak_Key := ?k\<rparr>) # c" by (simp add: Let_def)
    have "distinct (map ak_Key c) \<and> ak_Key ` set c \<inter> set (?k # seen) = {} \<and>
       (\<forall>e \<in> set c. trim_space (ak_Key e) = ak_Key e \<and> ak_Key e \<noteq> '''')"
      using "2.IH"(3) [OF refl, of c s] 3 r by simp
    with 3 created show ?thesis by auto
  qed
qed simp

lemma AddApiKey_ok: "keysOk keys \<Longrightarrow> storeOk (snd (AddApiKey saved uuid now e (Some keys)))"
  by (auto simp: AddApiKey_def storeOk_def keysOk_def Let_def list_ex_iff)

lemma AddApiKeys_ok: "keysOk keys \<Longrightarrow> storeOk (snd (AddApiKeys saved uuids now es (Some keys)))"
proof -
  assume ok: "keysOk keys"
  obtain c s where r: "collectApiKeys uuids now (map ak_Key keys) 0 es = (c, s)" by (metis surj_pair)
  from collectApiKeys_ok [OF this] ok have "keysOk (keys @ c)" by (auto simp: keysOk_def)
  with ok r show ?thesis by (auto simp: AddApiKeys_def storeOk_def)
qed

lemma keysOk_update:
  assumes "keysOk keys" "i < length keys" "trim_space (ak_Key e) = ak_Key e"
    "\<forall>j < length keys. j \<noteq> i \<longrightarrow> ak_Key (keys ! j) \<noteq> ak_Key e"
  shows "keysOk (keys[i := e])"
proof -
  have "distinct (map ak_Key (keys[i := e]))"
    using assms by (auto simp: keysOk_def distinct_conv_nth nth_list_update map_update)
  moreover have "trim_space (ak_Key x) = ak_Key x" if "x \<in> set (keys[i := e])" for x
    using that assms(1,3) set_update_subset_insert [of keys i e] by (auto simp: keysOk_def)
  ultimately show ?thesis by (simp add: keysOk_def)
qed

lemma keysOk_same_key: "keysOk keys \<Longrightarrow> i < length keys \<Longrightarrow> ak_Key e = ak_Key (keys ! i) \<Longrightarrow> keysOk (keys[i := e])"
  by (rule keysOk_update) (auto simp: keysOk_def distinct_conv_nth)

lemma patchEntry_key [simp]: "ak_Key (patchEntry patch e) = ak_Key e"
  by (simp add: patchEntry_def)

lemma UpdateApiKey_ok: "keysOk keys \<Longrightarrow> storeOk (fst (UpdateApiKey saved aid patch (Some keys)))"
proof (cases "indexOf (\<lambda>e. ak_ID e = aid) keys")
  case (Some i)
  assume ok: "keysOk keys"
  note i = indexOf_Some [OF Some]
  let ?e1 = "if ak_Name patch \<noteq> '''' then (keys ! i)\<lparr>ak_Name := ak_Name patch\<rparr> else keys ! i"
  let ?keys1 = "keys[i := ?e1]"
  have ok1: "keysOk ?keys1" using ok i by (intro keysOk_same_key) auto
  show ?thesis
  proof (cases "ak_Key patch = ''''")
    case True
    have "keysOk (keys[i := patchEntry patch ?e1])" using ok i by (intro keysOk_same_key) auto
    then show ?thesis using True Some by (simp add: UpdateApiKey_def storeOk_def Let_def)
  next
    case False
    have upd: "keysOk (keys[i := patchEntry patch (?e1\<lparr>ak_Key := trim_space (ak_Key patch)\<rparr>)])"
      if "\<not> list_ex (\<lambda>j. j \<noteq> i \<and> ak_Key (?keys1 ! j) = trim_space (ak_Key patch)) [0..<length ?keys1]"
    proof (rule keysOk_update [OF ok])
      show "i < length keys" using i by simp
      show "\<forall>j<length keys. j \<noteq> i \<longrightarrow> ak_Key (keys ! j) \<noteq> ak_Key (patchEntry patch (?e1\<lparr>ak_Key := trim_space (ak_Key patch)\<rparr>))"
        using that by (auto simp: list_ex_iff)
    qed simp
    show ?thesis
      using False Some ok1 upd by (auto simp: UpdateApiKey_def storeOk_def Let_def)
  qed
qed (simp add: UpdateApiKey_def storeOk_def)

lemma DeleteApiKey_ok: "keysOk keys \<Longrightarrow> storeOk (fst (DeleteApiKey saved aid (Some keys)))"
proof -
  assume ok: "keysOk keys"
  have "keysOk (take i keys @ drop (Suc i) keys)" for i
    using ok set_take_disj_set_drop_if_distinct [of "map ak_Key keys" i "Suc i"]
    by (auto simp: keysOk_def take_map [symmetric] drop_map [symmetric] dest: in_set_takeD in_set_dropD)
  with ok show ?thesis by (simp add: DeleteApiKey_def storeOk_def split: option.split)
qed

datatype KeyOp =
    KAdd bool string gotime ApiKeyEntry
  | KAddBatch bool "nat \<Rightarrow> string" gotime "ApiKeyEntry list"
  | KUpdate bool string ApiKeyEntry
  | KDelete bool string
  | KUsage "rat \<Rightarrow> float64" string int float64 gotime
  | KReset bool string

fun keyStep :: "keyStore \<Rightarrow> KeyOp \<Rightarrow> keyStore" where
  "keyStep st (KAdd saved uuid now e) = snd (AddApiKey saved uuid now e st)"
| "keyStep st (KAddBatch saved uuids now es) = snd (AddApiKeys saved uuids now es st)"
| "keyStep st (KUpdate saved aid patch) = fst (UpdateApiKey saved aid patch st)"
| "keyStep st (KDelete saved aid) = fst (DeleteApiKey saved aid st)"
| "keyStep st (KUsage rnd aid tokens credits now) = fst (RecordApiKeyUsage rnd aid tokens credits now st)"
| "keyStep st (KReset saved aid) = fst (ResetApiKeyUsage saved aid st)"

lemma usage_ok: "keysOk keys \<Longrightarrow> storeOk (fst (RecordApiKeyUsage rnd aid tokens credits now (Some keys)))"
  by (auto simp: RecordApiKeyUsage_def storeOk_def Let_def dest: indexOf_Some intro: keysOk_same_key split: option.split)

lemma reset_ok: "keysOk keys \<Longrightarrow> storeOk (fst (ResetApiKeyUsage saved aid (Some keys)))"
  by (auto simp: ResetApiKeyUsage_def storeOk_def dest: indexOf_Some intro: keysOk_same_key split: option.split)

lemma keyStep_ok: "storeOk st \<Longrightarrow> storeOk (keyStep st op)"
proof (cases st)
  case None
  then show ?thesis
    by (cases op) (simp_all add: storeOk_def AddApiKey_def AddApiKeys_def UpdateApiKey_def DeleteApiKey_def
        RecordApiKeyUsage_def ResetApiKeyUsage_def)
next
  case (Some keys)
  assume "storeOk st"
  with Some have "keysOk keys" by (simp add: storeOk_def)
  then show ?thesis unfolding Some
    by (cases op) (simp_all add: AddApiKey_ok AddApiKeys_ok UpdateApiKey_ok DeleteApiKey_ok usage_ok reset_ok)
qed

text \<open>
  The value of an API key identifies one entry: from a store whose keys are unique and
  trimmed, every sequence of the store's operations, with any of their writes failing, keeps them unique and
  trimmed, so that finding an entry by its key returns the entry itself.
\<close>

theorem api_keys_stay_unique:
  assumes "storeOk st" "foldl keyStep st ops = Some keys"
  shows "keysOk keys \<and> (\<forall>e \<in> set keys. ak_Key e \<noteq> '''' \<longrightarrow> FindApiKeyByValue (ak_Key e) (Some keys) = Some e)"
proof -
  have "storeOk (foldl keyStep st ops)"
    using assms(1) by (induction ops arbitrary: st) (simp_all add: keyStep_ok)
  with assms(2) have ok: "keysOk keys" by (simp add: storeOk_def)
  then show ?thesis by (auto simp: FindApiKeyByValue_def keysOk_def intro: find_distinct)
qed

definition demoKey :: "string \<Rightarrow> string \<Rightarrow> ApiKeyEntry" where
  "demoKey aid key = \<lparr>ak_ID = aid, ak_Name = '''', ak_Key = key, ak_Enabled = True, ak_ModelFallbackEnabled = None,
     ak_Migrated = False, ak_CreatedAt = 1, ak_LastUsedAt = 0, ak_TokenLimit = 100, ak_CreditLimit = 0,
     ak_RequestsPerMinute = 2, ak_TokensPerMinute = 10, ak_MaxConcurrency = 1, ak_QueueCapacity = 1, ak_QueueTimeoutMs = 0,
     ak_TokensUsed = 0, ak_CreditsUsed = 0, ak_RequestsCount = 0\<rparr>"

lemma demo_add: "AddApiKey True ''u'' 0 (demoKey ''i'' '' k '') (Some []) = (Inr (demoKey ''i'' ''k''), Some [demoKey ''i'' ''k''])"
  by (simp add: AddApiKey_def demoKey_def completeEntry_def trim_space_def is_space_def Let_def)

theorem api_keys_stay_unique_witness:
  "foldl keyStep (Some []) [KAdd True ''u'' 0 (demoKey ''i'' '' k '')] = Some [demoKey ''i'' ''k''] \<and>
   FindApiKeyByValue ''k'' (Some [demoKey ''i'' ''k'']) = Some (demoKey ''i'' ''k'')"
proof -
  have run: "foldl keyStep (Some []) [KAdd True ''u'' 0 (demoKey ''i'' '' k '')] = Some [demoKey ''i'' ''k'']"
    by (simp add: demo_add)
  have "storeOk (Some [])" by (simp add: storeOk_def keysOk_def)
  from api_keys_stay_unique [OF this run] have "ak_Key (demoKey ''i'' ''k'') \<noteq> '''' \<longrightarrow>
      FindApiKeyByValue (ak_Key (demoKey ''i'' ''k'')) (Some [demoKey ''i'' ''k'']) = Some (demoKey ''i'' ''k'')" by simp
  with run show ?thesis by (simp add: demoKey_def)
qed

section \<open>Adding\<close>

text \<open>
  Adding keys is atomic. A single key is either stored with its value trimmed, an id and a
  creation time, or the store is exactly as before, also when the write of the configuration fails;
  a batch stores either all its new keys in order or none, and reports each duplicate as skipped.
\<close>

theorem add_api_keys_atomic:
  "(\<forall>err st'. AddApiKey saved uuid now e (Some keys) = (Inl err, st') \<longrightarrow> st' = Some keys) \<and>
   (\<forall>e' st'. AddApiKey saved uuid now e (Some keys) = (Inr e', st') \<longrightarrow>
      st' = Some (keys @ [e']) \<and> ak_Key e' = trim_space (ak_Key e) \<and> ak_Key e' \<noteq> '''' \<and>
      ak_Key e' \<notin> ak_Key ` set keys \<and> (uuid \<noteq> '''' \<longrightarrow> ak_ID e' \<noteq> '''')) \<and>
   (\<forall>err st'. AddApiKeys saved uuids now es (Some keys) = (Inl err, st') \<longrightarrow> st' = Some keys) \<and>
   (\<forall>created skipped st'. AddApiKeys saved uuids now es (Some keys) = (Inr (created, skipped), st') \<longrightarrow>
      st' = Some (keys @ created) \<and> distinct (map ak_Key created) \<and> ak_Key ` set created \<inter> ak_Key ` set keys = {})"
proof -
  have "st' = Some (keys @ created) \<and> distinct (map ak_Key created) \<and> ak_Key ` set created \<inter> ak_Key ` set keys = {}"
    if "AddApiKeys saved uuids now es (Some keys) = (Inr (created, skipped), st')" for created skipped st'
  proof -
    obtain c s where r: "collectApiKeys uuids now (map ak_Key keys) 0 es = (c, s)" by (metis surj_pair)
    with that have "created = c" "st' = Some (keys @ created)" by (auto simp: AddApiKeys_def split: if_splits)
    with collectApiKeys_ok [OF r] show ?thesis by simp
  qed
  moreover have "st' = Some keys" if "AddApiKeys saved uuids now es (Some keys) = (Inl err, st')" for err st'
    using that by (auto simp: AddApiKeys_def split: prod.splits if_splits)
  ultimately show ?thesis
    by (auto simp: AddApiKey_def Let_def list_ex_iff completeEntry_def split: if_splits)
qed

theorem add_api_keys_atomic_witness:
  "snd (AddApiKey False ''u'' 0 (demoKey ''i'' ''k'') (Some [])) = Some []"
proof -
  obtain r st' where r: "AddApiKey False ''u'' 0 (demoKey ''i'' ''k'') (Some []) = (r, st')" by (metis surj_pair)
  show ?thesis
  proof (cases r)
    case (Inl err)
    with r add_api_keys_atomic show ?thesis by (metis snd_conv)
  next
    case (Inr e)
    with r show ?thesis by (auto simp: AddApiKey_def demoKey_def Let_def split: if_splits)
  qed
qed

section \<open>Authentication\<close>

text \<open>
  C33. Authentication admits exactly the right requests. When it is required and keys are
  configured, it returns an entry if and only if that is an enabled entry of the store whose
  key the request carries and whose token and credit use are below its limits; when no
  keys are configured it admits only the legacy key, and nobody if there is none.
\<close>

theorem authenticate_exact:
  fixes authorization xApiKey :: string
  assumes "publicAPIAuthenticationRequired s" "keysOk keys"
  defines "provided \<equiv> extractProvidedKey authorization xApiKey"
  shows "(keys \<noteq> [] \<longrightarrow> (authenticate s (Some keys) authorization xApiKey = Inr r \<longleftrightarrow>
      (\<exists>e \<in> set keys. r = Some e \<and> ak_Key e = provided \<and> provided \<noteq> '''' \<and> ak_Enabled e \<and>
         (ak_TokenLimit e \<le> 0 \<or> ak_TokensUsed e < ak_TokenLimit e) \<and>
         (ak_CreditLimit e \<le> 0 \<or> ak_CreditsUsed e < ak_CreditLimit e)))) \<and>
    (authenticate s (Some []) authorization xApiKey = Inr r \<longleftrightarrow>
      r = None \<and> as_ApiKey s \<noteq> '''' \<and> provided = as_ApiKey s)"
proof -
  have legacy: "authenticate s (Some []) authorization xApiKey = Inr r \<longleftrightarrow>
      r = None \<and> as_ApiKey s \<noteq> '''' \<and> provided = as_ApiKey s"
    using assms(1) by (auto simp: authenticate_def provided_def HasApiKeys_def Let_def)
  have "authenticate s (Some keys) authorization xApiKey = Inr r \<longleftrightarrow>
      (\<exists>e \<in> set keys. r = Some e \<and> ak_Key e = provided \<and> provided \<noteq> '''' \<and> ak_Enabled e \<and>
         (ak_TokenLimit e \<le> 0 \<or> ak_TokensUsed e < ak_TokenLimit e) \<and>
         (ak_CreditLimit e \<le> 0 \<or> ak_CreditsUsed e < ak_CreditLimit e))" if ne: "keys \<noteq> []"
  proof (cases "provided \<noteq> '''' \<and> (\<exists>e \<in> set keys. ak_Key e = provided)")
    case False
    then have "FindApiKeyByValue provided (Some keys) = None" by (auto simp: FindApiKeyByValue_def find_None_iff)
    with False ne assms(1) show ?thesis by (auto simp: authenticate_def provided_def HasApiKeys_def Let_def)
  next
    case True
    then obtain e where e: "e \<in> set keys" "ak_Key e = provided" by blast
    with assms(2) True have f: "FindApiKeyByValue provided (Some keys) = Some e"
      using find_distinct [of ak_Key keys e] by (simp add: FindApiKeyByValue_def keysOk_def)
    have unique: "e' = e" if "e' \<in> set keys" "ak_Key e' = provided" for e'
      using that e assms(2) by (metis distinct_map inj_onD keysOk_def)
    have "authenticate s (Some keys) authorization xApiKey = Inr r \<longleftrightarrow> r = Some e \<and> ak_Enabled e \<and>
         (ak_TokenLimit e \<le> 0 \<or> ak_TokensUsed e < ak_TokenLimit e) \<and> (ak_CreditLimit e \<le> 0 \<or> ak_CreditsUsed e < ak_CreditLimit e)"
      using f ne assms(1) True
      by (auto simp: authenticate_def provided_def [symmetric] HasApiKeys_def Let_def ApiKeyOverLimit_def)
    with e unique True show ?thesis by blast
  qed
  with legacy show ?thesis by blast
qed

definition demoAuth :: AuthSettings where
  "demoAuth = \<lparr>as_RequireApiKey = True, as_Host = '''', as_AllowUnauthenticated = '''', as_ApiKey = ''''\<rparr>"

theorem authenticate_exact_witness:
  "authenticate demoAuth (Some [demoKey ''i'' ''k'']) ''Bearer k'' '''' = Inr (Some (demoKey ''i'' ''k''))"
proof -
  have pre: "publicAPIAuthenticationRequired demoAuth" "keysOk [demoKey ''i'' ''k'']"
    by (simp_all add: publicAPIAuthenticationRequired_def demoAuth_def keysOk_def demoKey_def trim_space_def is_space_def)
  have "extractProvidedKey ''Bearer k'' '''' = ''k''" by (simp add: extractProvidedKey_def has_prefix_def)
  with authenticate_exact [OF pre, of "''Bearer k''" "''''" "Some (demoKey ''i'' ''k'')"] show ?thesis
    by (simp add: demoKey_def)
qed

text \<open>
  The token limit of a key is enforced on cumulative use: once the tokens recorded for a key reach its
  limit, every request with that key is refused with status 429 until the usage is reset; after the reset a
  key without a credit limit is admitted again. Use recorded for one key never changes another.
\<close>

theorem token_limit_enforced:
  assumes "publicAPIAuthenticationRequired s" "keysOk keys" "distinct (map ak_ID keys)" "e \<in> set keys" "ak_Enabled e"
    and "extractProvidedKey authorization xApiKey = ak_Key e" "ak_Key e \<noteq> ''''"
    and "0 < ak_TokenLimit e" "0 < tokens" "ak_TokenLimit e \<le> ak_TokensUsed e + tokens" "ak_CreditLimit e = 0"
    and "RecordApiKeyUsage rnd (ak_ID e) tokens credits now (Some keys) = (st1, err)"
    and "ResetApiKeyUsage saved (ak_ID e) st1 = (st2, err2)"
  shows "authenticate s st1 authorization xApiKey = Inl (newAuthError 429 ''rate_limit_error'' ''token limit exceeded'') \<and>
    (\<exists>e2. authenticate s st2 authorization xApiKey = Inr (Some e2) \<and> ak_ID e2 = ak_ID e \<and> ak_TokensUsed e2 = 0) \<and>
    (\<forall>f \<in> set keys. f \<noteq> e \<longrightarrow> f \<in> set (the st1))"
proof -
  obtain i where i: "i < length keys" "keys ! i = e" using assms(4) by (auto simp: in_set_conv_nth)
  have at: "indexOf (\<lambda>x. ak_ID x = ak_ID e) xs = Some i" if "map ak_ID xs = map ak_ID keys" for xs
  proof (cases "indexOf (\<lambda>x. ak_ID x = ak_ID e) xs")
    case None
    have "ak_ID e \<in> set (map ak_ID keys)" using assms(4) by simp
    then have "ak_ID e \<in> set (map ak_ID xs)" using that by simp
    with None show ?thesis by (auto simp: indexOf_None)
  next
    case (Some j)
    from indexOf_Some [OF this] have "j < length xs" "map ak_ID xs ! j = ak_ID e" by simp_all
    with that i assms(3) have "j = i" by (metis length_map nth_eq_iff_index_eq nth_map)
    with Some show ?thesis by simp
  qed
  define e1 where "e1 = e\<lparr>ak_TokensUsed := ak_TokensUsed e + tokens,
    ak_CreditsUsed := (if credits > 0 then rnd (ak_CreditsUsed e + credits) else ak_CreditsUsed e),
    ak_RequestsCount := ak_RequestsCount e + 1, ak_LastUsedAt := unix_of now\<rparr>"
  define e2 where "e2 = e1\<lparr>ak_TokensUsed := 0, ak_CreditsUsed := 0, ak_RequestsCount := 0\<rparr>"
  have st1: "st1 = Some (keys[i := e1])"
    using assms(9,12) at [OF refl] i by (simp add: RecordApiKeyUsage_def Let_def e1_def)
  have "map ak_ID (keys[i := e1]) = map ak_ID keys" using i by (intro map_list_update_same) (simp add: e1_def)
  from at [OF this] have st2: "st2 = Some (keys[i := e2])"
    using assms(13) i by (simp add: st1 ResetApiKeyUsage_def e2_def)
  have find: "FindApiKeyByValue (ak_Key e) (Some (keys[i := x])) = Some x" if "ak_Key x = ak_Key e" for x
  proof -
    have "distinct (map ak_Key (keys[i := x]))" using assms(2) i that map_list_update_same [of ak_Key x keys i] by (simp add: keysOk_def)
    from find_distinct [OF this, of x] i that assms(7) show ?thesis
      by (simp add: FindApiKeyByValue_def set_update_memI)
  qed
  have ne: "HasApiKeys (Some (keys[i := x]))" for x using i by (auto simp: HasApiKeys_def)
  have "authenticate s st1 authorization xApiKey = Inl (newAuthError 429 ''rate_limit_error'' ''token limit exceeded'')"
    using assms(1,5-11) find [of e1] ne [of e1] by (simp add: st1 authenticate_def Let_def e1_def ApiKeyOverLimit_def)
  moreover have "authenticate s st2 authorization xApiKey = Inr (Some e2)"
    using assms(1,5-11) find [of e2] ne [of e2] by (simp add: st2 authenticate_def Let_def e2_def e1_def ApiKeyOverLimit_def)
  moreover have "f \<in> set (keys[i := e1])" if "f \<in> set keys" "f \<noteq> e" for f
    using that i by (metis in_set_conv_nth length_list_update nth_list_update_neq)
  ultimately show ?thesis using st1 by (auto simp: e2_def e1_def)
qed

theorem token_limit_enforced_witness:
  "authenticate demoAuth (fst (RecordApiKeyUsage (\<lambda>x. x) ''i'' 100 0 0 (Some [demoKey ''i'' ''k'']))) '''' ''k'' =
   Inl (newAuthError 429 ''rate_limit_error'' ''token limit exceeded'')"
proof -
  let ?keys = "[demoKey ''i'' ''k'']"
  obtain st1 err where u: "RecordApiKeyUsage (\<lambda>x. x) (ak_ID (demoKey ''i'' ''k'')) 100 0 0 (Some ?keys) = (st1, err)" by (metis surj_pair)
  obtain st2 err2 where r: "ResetApiKeyUsage True (ak_ID (demoKey ''i'' ''k'')) st1 = (st2, err2)" by (metis surj_pair)
  have "publicAPIAuthenticationRequired demoAuth" "keysOk ?keys" "extractProvidedKey '''' ''k'' = ak_Key (demoKey ''i'' ''k'')"
    by (simp_all add: publicAPIAuthenticationRequired_def demoAuth_def keysOk_def demoKey_def extractProvidedKey_def
        has_prefix_def trim_space_def is_space_def)
  then have "authenticate demoAuth st1 '''' ''k'' = Inl (newAuthError 429 ''rate_limit_error'' ''token limit exceeded'')"
    by (intro conjunct1 [OF token_limit_enforced [OF _ _ _ _ _ _ _ _ _ _ _ u r]]) (simp_all add: demoKey_def)
  with u show ?thesis by (simp add: demoKey_def)
qed

section \<open>A rejected update\<close>

text \<open>
  An update that is rejected because its key value collides with another entry has
  nevertheless renamed the entry in memory when the patch carries a name: the check comes after
  the first assignment. Everything else of the store is unchanged.
\<close>

theorem UpdateApiKey_collision_renames:
  assumes "UpdateApiKey saved aid patch (Some keys) = (st', Some ErrKeyCollides)"
  shows "\<exists>i < length keys. ak_ID (keys ! i) = aid \<and>
    st' = Some (keys[i := (if ak_Name patch \<noteq> '''' then (keys ! i)\<lparr>ak_Name := ak_Name patch\<rparr> else keys ! i)])"
  using assms indexOf_Some [of "\<lambda>e. ak_ID e = aid" keys]
  by (auto simp: UpdateApiKey_def Let_def split: option.splits if_splits)

theorem UpdateApiKey_collision_renames_witness:
  "fst (UpdateApiKey True ''i'' ((demoKey '''' ''x'')\<lparr>ak_Name := ''new''\<rparr>) (Some [demoKey ''i'' ''k'', demoKey ''j'' ''x''])) =
   Some [(demoKey ''i'' ''k'')\<lparr>ak_Name := ''new''\<rparr>, demoKey ''j'' ''x'']"
proof -
  have u: "UpdateApiKey True ''i'' ((demoKey '''' ''x'')\<lparr>ak_Name := ''new''\<rparr>) (Some [demoKey ''i'' ''k'', demoKey ''j'' ''x'']) =
      (Some [(demoKey ''i'' ''k'')\<lparr>ak_Name := ''new''\<rparr>, demoKey ''j'' ''x''], Some ErrKeyCollides)"
    by (simp add: UpdateApiKey_def demoKey_def trim_space_def is_space_def upt_rec)
  from UpdateApiKey_collision_renames [OF u] u show ?thesis by simp
qed

end
