(* ===== verification/Admission_Props.thy ===== *)
theory Admission_Props
  imports Admission Api_Keys_Props
begin

text \<open>
  Admission control in operation: the counters of requests in flight and in the queue are
  exact, and the concurrency, queue and request-rate limits of every key hold in every
  reachable state. The in-flight counter is another instance of \<open>slot_ledger\<close>, and so is
  the number of waiting requests.
\<close>

section \<open>What each operation does to the counters\<close>

definition admState :: "admissionManager \<Rightarrow> string \<Rightarrow> apiKeyAdmissionState" where
  "admState m k = gm_zero (freshState 0) m k"

abbreviation admInFlight :: "admissionManager \<Rightarrow> string \<Rightarrow> int" where
  "admInFlight m k \<equiv> am_inFlight (admState m k)"

abbreviation admWaiting :: "admissionManager \<Rightarrow> string \<Rightarrow> int" where
  "admWaiting m k \<equiv> am_waiting (admState m k)"

abbreviation admRequests :: "admissionManager \<Rightarrow> string \<Rightarrow> int" where
  "admRequests m k \<equiv> am_requests (admState m k)"

lemma admState_put [simp]: "admState (gm_put k s m) k' = (if k' = k then s else admState m k')"
  by (simp add: admState_def)

lemma admState_Some: "gm_get m k = Some s \<Longrightarrow> admState m k = s"
  by (simp add: admState_def gm_zero_def)

lemma admState_None: "gm_get m k = None \<Longrightarrow> admState m k = freshState 0"
  by (simp add: admState_def gm_zero_def)

lemma freshState_counts [simp]: "am_inFlight (freshState t) = 0" "am_waiting (freshState t) = 0" "am_requests (freshState t) = 0"
  by (simp_all add: freshState_def)

lemma stateLocked_counts [simp]:
  "am_inFlight (stateLocked k now m) = admInFlight m k" "am_waiting (stateLocked k now m) = admWaiting m k"
  "am_requests (stateLocked k now m) = admRequests m k"
  by (simp_all add: stateLocked_def admState_def gm_zero_def freshState_def split: option.split)

lemma resetAdmissionWindow_counts [simp]:
  "am_inFlight (resetAdmissionWindow now s) = am_inFlight s" "am_waiting (resetAdmissionWindow now s) = am_waiting s"
  by (simp_all add: resetAdmissionWindow_def)

lemma resetAdmissionWindow_requests:
  "am_requests (resetAdmissionWindow now s) = am_requests s \<or> am_requests (resetAdmissionWindow now s) = 0"
  by (simp add: resetAdmissionWindow_def)

lemma leaveQueue_counts [simp]:
  "am_inFlight (leaveQueue q s) = am_inFlight s" "am_requests (leaveQueue q s) = am_requests s"
  "am_waiting (leaveQueue q s) = (if q \<and> am_waiting s > 0 then am_waiting s - 1 else am_waiting s)"
  by (simp_all add: leaveQueue_def)

lemma admissionTry_other: "admissionTry e q now m = (r, m') \<Longrightarrow> k \<noteq> ak_ID e \<Longrightarrow> admState m' k = admState m k"
  by (auto simp: admissionTry_def Let_def split: if_splits)

lemma admissionTry_granted:
  assumes "admissionTry e q now m = (AdmGranted l, m')"
  shows "l = newLease e" "admInFlight m' (ak_ID e) = admInFlight m (ak_ID e) + 1"
    "admWaiting m' (ak_ID e) = (if q \<and> admWaiting m (ak_ID e) > 0 then admWaiting m (ak_ID e) - 1 else admWaiting m (ak_ID e))"
    "ak_MaxConcurrency e > 0 \<Longrightarrow> admInFlight m (ak_ID e) < ak_MaxConcurrency e"
    "ak_RequestsPerMinute e > 0 \<Longrightarrow> admRequests m' (ak_ID e) \<le> ak_RequestsPerMinute e"
  using assms by (auto simp: admissionTry_def Let_def split: if_splits)

lemma admissionTry_wait:
  assumes "admissionTry e q now m = (AdmWait c, m')"
  shows "admInFlight m' (ak_ID e) = admInFlight m (ak_ID e)"
    "admWaiting m' (ak_ID e) = (if q then admWaiting m (ak_ID e) else admWaiting m (ak_ID e) + 1)"
    "ak_QueueCapacity e > 0" "q \<or> admWaiting m (ak_ID e) < ak_QueueCapacity e"
    "admRequests m' (ak_ID e) = admRequests m (ak_ID e) \<or> admRequests m' (ak_ID e) = 0"
  using assms resetAdmissionWindow_requests [of now "stateLocked (ak_ID e) now m"]
  by (auto simp: admissionTry_def Let_def split: if_splits)

lemma admissionTry_rejected:
  assumes "admissionTry e q now m = (AdmRejected err, m')"
  shows "admInFlight m' (ak_ID e) = admInFlight m (ak_ID e)"
    "\<not> q \<Longrightarrow> admWaiting m' (ak_ID e) = admWaiting m (ak_ID e)"
    "q \<Longrightarrow> ak_QueueCapacity e > 0 \<Longrightarrow>
      admWaiting m' (ak_ID e) = (if admWaiting m (ak_ID e) > 0 then admWaiting m (ak_ID e) - 1 else admWaiting m (ak_ID e))"
    "admRequests m' (ak_ID e) = admRequests m (ak_ID e) \<or> admRequests m' (ak_ID e) = 0"
    "ae_status err = 429 \<and> ae_retryAfter err \<ge> second"
  using assms resetAdmissionWindow_requests [of now "stateLocked (ak_ID e) now m"]
  by (auto simp: admissionTry_def admissionLimitError_def Let_def split: if_splits)

lemma cancelWait_counts:
  "admInFlight (cancelWait k True m) k' = admInFlight m k'" "admRequests (cancelWait k True m) k' = admRequests m k'"
  "admWaiting (cancelWait k True m) k' = (if k' = k \<and> admWaiting m k' > 0 then admWaiting m k' - 1 else admWaiting m k')"
  by (auto simp: cancelWait_def admState_Some admState_None split: option.split)

lemma ReleaseLease_counts:
  assumes "ReleaseLease now l m = (l', m')" "\<not> al_released l"
  shows "admInFlight m' k = (if k = al_keyID l \<and> admInFlight m k > 0 then admInFlight m k - 1 else admInFlight m k)"
    "admWaiting m' k = admWaiting m k" "admRequests m' k = admRequests m k"
  using assms by (auto simp: ReleaseLease_def admState_Some admState_None split: option.splits)

lemma ReserveTokens_counts:
  assumes "ReserveTokens n now l m = (err, l', m')"
  shows "admInFlight m' k = admInFlight m k" "admWaiting m' k = admWaiting m k"
    "admRequests m' k = admRequests m k \<or> admRequests m' k = 0"
    "al_keyID l' = al_keyID l \<and> al_released l' = al_released l"
  using assms resetAdmissionWindow_requests [of now "stateLocked (al_keyID l) now m"]
  by (auto simp: ReserveTokens_def Let_def split: if_splits)

lemma ReconcileTokens_counts:
  assumes "ReconcileTokens n now l m = (l', m')"
  shows "admInFlight m' k = admInFlight m k" "admWaiting m' k = admWaiting m k"
    "admRequests m' k = admRequests m k \<or> admRequests m' k = 0"
    "al_keyID l' = al_keyID l \<and> al_released l' = al_released l"
  using assms resetAdmissionWindow_requests [of now "stateLocked (al_keyID l) now m"]
  by (auto simp: ReconcileTokens_def Let_def split: if_splits)

lemma AddTokens_counts:
  "admInFlight (AddTokens k n now m) k' = admInFlight m k'" "admWaiting (AddTokens k n now m) k' = admWaiting m k'"
  "admRequests (AddTokens k n now m) k' = admRequests m k' \<or> admRequests (AddTokens k n now m) k' = 0"
  by (auto simp: AddTokens_def Let_def admState_Some resetAdmissionWindow_def split: option.split)

section \<open>The two ledgers\<close>

definition leaseHolds :: "apiKeyAdmissionLease \<Rightarrow> string \<Rightarrow> bool" where
  "leaseHolds l k = (al_keyID l = k)"

definition leaseAcquired :: "apiKeyAdmissionLease \<Rightarrow> admissionManager \<Rightarrow> admissionManager \<Rightarrow> bool" where
  "leaseAcquired l m m' \<longleftrightarrow> (\<exists>e q now. admissionTry e q now m = (AdmGranted l, m'))"

definition leaseReleased :: "apiKeyAdmissionLease \<Rightarrow> admissionManager \<Rightarrow> admissionManager \<Rightarrow> bool" where
  "leaseReleased l m m' \<longleftrightarrow> \<not> al_released l \<and> (\<exists>now l'. ReleaseLease now l m = (l', m'))"

definition sameInFlight :: "admissionManager \<Rightarrow> admissionManager \<Rightarrow> bool" where
  "sameInFlight m m' \<longleftrightarrow> (\<forall>k. admInFlight m' k = admInFlight m k)"

interpretation leases: slot_ledger admInFlight leaseHolds leaseAcquired leaseReleased sameInFlight
proof unfold_locales
  fix l m m' k
  assume "leaseAcquired l m m'"
  then obtain e q now where g: "admissionTry e q now m = (AdmGranted l, m')" by (auto simp: leaseAcquired_def)
  show "admInFlight m' k = admInFlight m k + (if leaseHolds l k then 1 else 0)"
    using admissionTry_granted(1,2) [OF g] admissionTry_other [OF g, of k] by (auto simp: leaseHolds_def newLease_def)
qed (auto simp: leaseReleased_def sameInFlight_def leaseHolds_def ReleaseLease_counts(1))

definition queueJoined :: "string \<Rightarrow> admissionManager \<Rightarrow> admissionManager \<Rightarrow> bool" where
  "queueJoined k m m' \<longleftrightarrow> (\<exists>e now c. ak_ID e = k \<and> admissionTry e False now m = (AdmWait c, m'))"

definition queueLeft :: "string \<Rightarrow> admissionManager \<Rightarrow> admissionManager \<Rightarrow> bool" where
  "queueLeft k m m' \<longleftrightarrow> m' = cancelWait k True m \<or>
     (\<exists>e now l. ak_ID e = k \<and> admissionTry e True now m = (AdmGranted l, m')) \<or>
     (\<exists>e now err. ak_ID e = k \<and> ak_QueueCapacity e > 0 \<and> admissionTry e True now m = (AdmRejected err, m'))"

definition sameWaiting :: "admissionManager \<Rightarrow> admissionManager \<Rightarrow> bool" where
  "sameWaiting m m' \<longleftrightarrow> (\<forall>k. admWaiting m' k = admWaiting m k)"

interpretation queue: slot_ledger admWaiting "\<lambda>w k. w = k" queueJoined queueLeft sameWaiting
proof unfold_locales
  fix w m m' k
  assume "queueJoined w m m'"
  then obtain e now c where j: "ak_ID e = w" "admissionTry e False now m = (AdmWait c, m')" by (auto simp: queueJoined_def)
  show "admWaiting m' k = admWaiting m k + (if w = k then 1 else 0)"
    using admissionTry_wait(2) [OF j(2)] admissionTry_other [OF j(2), of k] j(1) by auto
next
  fix w m m' k
  assume "queueLeft w m m'"
  then consider "m' = cancelWait w True m"
    | e now l where "ak_ID e = w" "admissionTry e True now m = (AdmGranted l, m')"
    | e now err where "ak_ID e = w" "ak_QueueCapacity e > 0" "admissionTry e True now m = (AdmRejected err, m')"
    unfolding queueLeft_def by blast
  then show "admWaiting m' k = (if w = k \<and> admWaiting m k > 0 then admWaiting m k - 1 else admWaiting m k)"
  proof cases
    case 1
    then show ?thesis by (auto simp: cancelWait_counts)
  next
    case 2
    then show ?thesis using admissionTry_granted(3) [OF 2(2)] admissionTry_other [OF 2(2), of k] by (cases "k = w") auto
  next
    case 3
    then show ?thesis using admissionTry_rejected(3) [OF 3(3)] admissionTry_other [OF 3(3), of k] by (cases "k = w") auto
  qed
qed (simp add: sameWaiting_def)

section \<open>The invariant\<close>

definition admInv :: "(string \<Rightarrow> ApiKeyEntry) \<Rightarrow> admSys \<Rightarrow> bool" where
  "admInv entryOf = (\<lambda>(m, L, W).
     (\<forall>l \<in> set L. \<not> al_released l) \<and> leases.balanced m L \<and> queue.balanced m W \<and>
     (\<forall>k \<in> set W. ak_QueueCapacity (entryOf k) > 0) \<and>
     (\<forall>k. ak_MaxConcurrency (entryOf k) > 0 \<longrightarrow> admInFlight m k \<le> ak_MaxConcurrency (entryOf k)) \<and>
     (\<forall>k. admWaiting m k \<le> max 0 (ak_QueueCapacity (entryOf k))) \<and>
     (\<forall>k. ak_RequestsPerMinute (entryOf k) > 0 \<longrightarrow> admRequests m k \<le> ak_RequestsPerMinute (entryOf k)))"

lemma admInv_silent:
  assumes "admInv entryOf (m, L, W)" "sameInFlight m m'" "sameWaiting m m'"
    "\<And>k. admRequests m' k = admRequests m k \<or> admRequests m' k = 0"
  shows "admInv entryOf (m', L, W)"
proof -
  have "admRequests m' k \<le> ak_RequestsPerMinute (entryOf k)" if "ak_RequestsPerMinute (entryOf k) > 0" for k
    using assms(1) assms(4) [of k] that by (auto simp: admInv_def)
  with assms(1-3) leases.balanced_silent [OF assms(2)] queue.balanced_silent [OF assms(3)] show ?thesis
    unfolding admInv_def by (auto simp: sameInFlight_def sameWaiting_def)
qed

lemma leases_balanced_swap:
  "l \<in> set L \<Longrightarrow> al_keyID l' = al_keyID l \<Longrightarrow> leases.balanced m (l' # remove1 l L) = leases.balanced m L"
proof -
  assume l: "l \<in> set L" "al_keyID l' = al_keyID l"
  have "length (filter (\<lambda>g. leaseHolds g k) (l' # remove1 l L)) = length (filter (\<lambda>g. leaseHolds g k) L)" for k
  proof -
    have "0 < length (filter (\<lambda>g. leaseHolds g k) L)" if "leaseHolds l k" using that l(1) by (auto simp: filter_empty_conv)
    with l show ?thesis by (auto simp: leases.length_filter_remove1 leaseHolds_def)
  qed
  then show ?thesis by (simp only: leases.balanced_def)
qed

lemma admInv_token_update:
  assumes "admInv entryOf (m, L, W)" "l \<in> set L" "al_keyID l' = al_keyID l \<and> al_released l' = al_released l"
    "\<And>k. admInFlight m' k = admInFlight m k" "\<And>k. admWaiting m' k = admWaiting m k"
    "\<And>k. admRequests m' k = admRequests m k \<or> admRequests m' k = 0"
  shows "admInv entryOf (m', l' # remove1 l L, W)"
proof -
  have "admInv entryOf (m', L, W)"
    by (rule admInv_silent [OF assms(1)]) (simp_all add: sameInFlight_def sameWaiting_def assms(4-6))
  then show ?thesis
    using assms(2,3) leases_balanced_swap [of l L l' m'] unfolding admInv_def by (auto dest: notin_set_remove1)
qed

lemma admInv_grant:
  assumes inv: "admInv entryOf (m, L, W)" and named: "\<forall>k. ak_ID (entryOf k) = k"
    and g: "admissionTry (entryOf k) q now m = (AdmGranted l, m')" and w: "queue.balanced m' W'" "set W' \<subseteq> set W"
    and wait: "admWaiting m' k \<le> admWaiting m k"
  shows "admInv entryOf (m', l # L, W')"
proof -
  note gr = admissionTry_granted [OF g] and other = admissionTry_other [OF g]
  have id: "ak_ID (entryOf k) = k" using named by simp
  have other': "admState m' k' = admState m k'" if "k' \<noteq> k" for k' using other [of k'] that id by simp
  have "leases.balanced m' (l # L)"
    using inv g by (intro leases.balanced_acquired) (auto simp: admInv_def leaseAcquired_def)
  moreover have "admInFlight m' k' \<le> ak_MaxConcurrency (entryOf k')" if "ak_MaxConcurrency (entryOf k') > 0" for k'
    using inv gr(2,4) id that other' [of k'] by (cases "k' = k") (auto simp: admInv_def)
  moreover have "admWaiting m' k' \<le> max 0 (ak_QueueCapacity (entryOf k'))" for k'
    using inv wait other' [of k'] by (cases "k' = k") (auto simp: admInv_def intro: order_trans)
  moreover have "admRequests m' k' \<le> ak_RequestsPerMinute (entryOf k')" if "ak_RequestsPerMinute (entryOf k') > 0" for k'
    using inv gr(5) id that other' [of k'] by (cases "k' = k") (auto simp: admInv_def)
  moreover have "\<not> al_released l" using gr(1) by (simp add: newLease_def)
  ultimately show ?thesis using inv w unfolding admInv_def by auto
qed

lemma admInv_leave:
  assumes inv: "admInv entryOf (m, L, W)" and k: "k \<in> set W" and left: "queueLeft k m m'"
    and same: "\<And>k. admInFlight m' k = admInFlight m k" "\<And>k. admRequests m' k = admRequests m k \<or> admRequests m' k = 0"
  shows "admInv entryOf (m', L, remove1 k W)"
proof -
  have w: "queue.balanced m' (remove1 k W)" using inv k left by (intro queue.balanced_released) (auto simp: admInv_def)
  have "admWaiting m' k' \<le> max 0 (ak_QueueCapacity (entryOf k'))" for k'
  proof -
    have "admWaiting m' k' \<le> admWaiting m k'" using queue.released_cnt [OF left, of k'] by (simp split: if_splits)
    with inv show ?thesis by (auto simp: admInv_def intro: order_trans)
  qed
  moreover have "admRequests m' k' \<le> ak_RequestsPerMinute (entryOf k')" if "ak_RequestsPerMinute (entryOf k') > 0" for k'
    using inv same(2) [of k'] that by (auto simp: admInv_def)
  moreover have "leases.balanced m' L" using inv same(1) by (auto simp: admInv_def intro: leases.balanced_silent [of m] simp: sameInFlight_def)
  ultimately show ?thesis using inv w same(1) unfolding admInv_def by (auto dest: notin_set_remove1)
qed

lemma admInv_join:
  assumes inv: "admInv entryOf (m, L, W)" and named: "\<forall>k. ak_ID (entryOf k) = k"
    and j: "admissionTry (entryOf k) False now m = (AdmWait c, m')"
  shows "admInv entryOf (m', L, k # W)"
proof -
  note jn = admissionTry_wait [OF j] and other = admissionTry_other [OF j]
  have id: "ak_ID (entryOf k) = k" using named by simp
  have other': "admState m' k' = admState m k'" if "k' \<noteq> k" for k' using other [of k'] that id by simp
  have flight: "admInFlight m' k' = admInFlight m k'" for k' using jn(1) id other' [of k'] by (cases "k' = k") auto
  have "queue.balanced m' (k # W)" using inv j id by (intro queue.balanced_acquired) (auto simp: admInv_def queueJoined_def)
  moreover have "leases.balanced m' L" using inv flight by (auto simp: admInv_def intro: leases.balanced_silent [of m] simp: sameInFlight_def)
  moreover have "admWaiting m' k' \<le> max 0 (ak_QueueCapacity (entryOf k'))" for k'
    using inv jn(2,4) id other' [of k'] by (cases "k' = k") (auto simp: admInv_def)
  moreover have "admRequests m' k' \<le> ak_RequestsPerMinute (entryOf k')" if "ak_RequestsPerMinute (entryOf k') > 0" for k'
    using inv jn(5) id that other' [of k'] by (cases "k' = k") (auto simp: admInv_def)
  ultimately show ?thesis using inv flight jn(3) unfolding admInv_def by auto
qed

lemma admTry_silent:
  assumes inv: "admInv entryOf (m, L, W)" and named: "\<forall>k. ak_ID (entryOf k) = k"
    and r: "admissionTry (entryOf k) q now m = (out, m')"
    and "(\<exists>err. out = AdmRejected err \<and> \<not> q) \<or> (\<exists>c. out = AdmWait c \<and> q)"
  shows "admInv entryOf (m', L, W)"
proof -
  have id: "ak_ID (entryOf k) = k" using named by simp
  have at: "admInFlight m' k = admInFlight m k \<and> admWaiting m' k = admWaiting m k \<and> (admRequests m' k = admRequests m k \<or> admRequests m' k = 0)"
    using assms(4) r admissionTry_wait [of "entryOf k" q now m] admissionTry_rejected [of "entryOf k" q now m] id by auto
  have other: "admState m' k' = admState m k'" if "k' \<noteq> k" for k' using admissionTry_other [OF r, of k'] that id by simp
  show ?thesis
  proof (rule admInv_silent [OF inv])
    show "sameInFlight m m'" "sameWaiting m m'" unfolding sameInFlight_def sameWaiting_def using at other by metis+
    show "admRequests m' k' = admRequests m k' \<or> admRequests m' k' = 0" for k' using at other by metis
  qed
qed

lemma admInv_step:
  assumes "adm_step entryOf s t" "admInv entryOf s" "\<forall>k. ak_ID (entryOf k) = k"
  shows "admInv entryOf t"
  using assms
proof (induction rule: adm_step.induct)
  case (granted k now m l m' L W)
  have "sameWaiting m m'" unfolding sameWaiting_def
    using admissionTry_granted(3) [OF granted(1)] admissionTry_other [OF granted(1)] granted(3) by metis
  with granted show ?case
    by (intro admInv_grant [OF granted(2,3,1)]) (auto simp: admInv_def sameWaiting_def intro: queue.balanced_silent [of m])
next
  case (enqueued k now m c m' L W)
  then show ?case by (intro admInv_join)
next
  case (rejected k now m e m' L W)
  then show ?case by (intro admTry_silent [OF rejected(2,3,1)]) simp
next
  case (admitted k W now m l m' L)
  have left: "queueLeft k m m'" using admitted(2,4) unfolding queueLeft_def by metis
  have "queue.balanced m' (remove1 k W)" using admitted(1,3) left by (intro queue.balanced_released) (auto simp: admInv_def)
  moreover have "admWaiting m' k \<le> admWaiting m k" using queue.released_cnt [OF left, of k] by (simp split: if_splits)
  ultimately show ?case by (intro admInv_grant [OF admitted(3,4,2)]) (auto simp: set_remove1_subset)
next
  case (still_waiting k W now m c m' L)
  then show ?case by (intro admTry_silent [OF still_waiting(3,4,2)]) simp
next
  case (dropped k W now m e m' L)
  have id: "ak_ID (entryOf k) = k" and cap: "ak_QueueCapacity (entryOf k) > 0" using dropped(1,3,4) by (auto simp: admInv_def)
  then have left: "queueLeft k m m'" using dropped(2) unfolding queueLeft_def by metis
  show ?case
  proof (rule admInv_leave [OF dropped(3,1) left])
    show "admInFlight m' k' = admInFlight m k'" for k'
      using admissionTry_rejected(1) [OF dropped(2)] admissionTry_other [OF dropped(2), of k'] id by metis
    show "admRequests m' k' = admRequests m k' \<or> admRequests m' k' = 0" for k'
      using admissionTry_rejected(4) [OF dropped(2)] admissionTry_other [OF dropped(2), of k'] id by metis
  qed
next
  case (abandoned k W m L)
  then show ?case by (intro admInv_leave) (auto simp: queueLeft_def cancelWait_counts)
next
  case (released l L now m l' m' W)
  have nr: "\<not> al_released l" using released(1,3) by (auto simp: admInv_def)
  note c = ReleaseLease_counts [OF released(2) nr]
  have "leases.balanced m' (remove1 l L)"
    using released nr by (intro leases.balanced_released) (auto simp: admInv_def leaseReleased_def)
  moreover have "queue.balanced m' W" using released(3) c(2) by (auto simp: admInv_def sameWaiting_def intro: queue.balanced_silent [of m])
  moreover have "admInFlight m' k \<le> ak_MaxConcurrency (entryOf k)" if "ak_MaxConcurrency (entryOf k) > 0" for k
  proof -
    have "admInFlight m' k \<le> admInFlight m k" using c(1) [of k] by simp
    also have "\<dots> \<le> ak_MaxConcurrency (entryOf k)" using released(3) that by (simp add: admInv_def)
    finally show ?thesis .
  qed
  ultimately show ?case using released(3) c(2,3) unfolding admInv_def by (auto dest: notin_set_remove1)
next
  case (reserved l L n now m err l' m' W)
  show ?case
    by (rule admInv_token_update [OF reserved(3,1) ReserveTokens_counts(4) [OF reserved(2)]]) (rule ReserveTokens_counts [OF reserved(2)])+
next
  case (reconciled l L n now m l' m' W)
  show ?case
    by (rule admInv_token_update [OF reconciled(3,1) ReconcileTokens_counts(4) [OF reconciled(2)]]) (rule ReconcileTokens_counts [OF reconciled(2)])+
next
  case (added m L W k n now)
  show ?case
    by (rule admInv_silent [OF added(1)]) (simp_all add: sameInFlight_def sameWaiting_def AddTokens_counts(1,2), rule AddTokens_counts(3))
qed

lemma admInv_reachable: "adm_reachable entryOf s \<Longrightarrow> \<forall>k. ak_ID (entryOf k) = k \<Longrightarrow> admInv entryOf s"
proof (induction rule: adm_reachable.induct)
  case start
  have "admState [] k = freshState 0" for k by (simp add: admState_None)
  then show ?case by (simp add: admInv_def leases.balanced_def queue.balanced_def)
next
  case (step s t)
  then show ?case by (auto intro: admInv_step)
qed

section \<open>Properties\<close>


definition demoEntry :: "string \<Rightarrow> ApiKeyEntry" where
  "demoEntry k = demoKey k ''s''"


text \<open>
  A token reservation that succeeds leaves the window's total within the tokens-per-minute limit, and one that is refused
  changes no counter and names a delay of at least a second; reconciling the reservation with
  the actual use in the same window replaces the reserved tokens by the actual ones, and
  a second reconciliation has no effect.
\<close>

theorem token_reservation_reconciled:
  assumes "am_windowStarted s \<noteq> zero_time" "time_sub now (am_windowStarted s) < minute" "time_sub later (am_windowStarted s) < minute"
    and "gm_get m (al_keyID l) = Some s" "al_reservationWindow l = zero_time" "\<not> al_tokensFinalized l"
    and "0 < n" "0 < al_tokensPerMinute l" "0 \<le> actual" "0 \<le> am_tokens s"
    and "ReserveTokens n now l m = (err, l1, m1)" "ReconcileTokens actual later l1 m1 = (l2, m2)"
  shows "(err = None \<longleftrightarrow> am_tokens s + n \<le> al_tokensPerMinute l) \<and>
    (err = None \<longrightarrow> am_tokens (admState m1 (al_keyID l)) = am_tokens s + n \<and>
       am_tokens (admState m2 (al_keyID l)) = am_tokens s + actual \<and> ReconcileTokens again later' l2 m2 = (l2, m2)) \<and>
    (\<forall>e. err = Some e \<longrightarrow> m1 = gm_put (al_keyID l) s m \<and> l1 = l \<and> ae_status e = 429 \<and> second \<le> ae_retryAfter e)"
proof -
  have keep: "resetAdmissionWindow now s = s" "resetAdmissionWindow later (s\<lparr>am_tokens := x\<rparr>) = s\<lparr>am_tokens := x\<rparr>" for x
    using assms(1-3) by (simp_all add: resetAdmissionWindow_def)
  have st: "stateLocked (al_keyID l) now m = s" using assms(4) by (simp add: stateLocked_def)
  show ?thesis
  proof (cases "am_tokens s + n \<le> al_tokensPerMinute l")
    case False
    with assms(7,8,11) st keep show ?thesis
      by (auto simp: ReserveTokens_def Let_def admissionLimitError_def split: if_splits)
  next
    case True
    let ?s = "s\<lparr>am_tokens := am_tokens s + n\<rparr>"
    have r: "err = None" "l1 = l\<lparr>al_reservationWindow := am_windowStarted s, al_reservedTokens := n\<rparr>" "m1 = gm_put (al_keyID l) ?s m"
      using True assms(5,7,8,11) st keep by (auto simp: ReserveTokens_def Let_def)
    have "stateLocked (al_keyID l) later m1 = ?s" using r by (simp add: stateLocked_def gm_get_put)
    then have "m2 = gm_put (al_keyID l) (s\<lparr>am_tokens := am_tokens s + actual\<rparr>) m1" "al_tokensFinalized l2" "al_tokensPerMinute l2 = al_tokensPerMinute l"
      using assms(1,6,8-10,12) r keep(2) [of "am_tokens s + n"] by (auto simp: ReconcileTokens_def Let_def)
    then show ?thesis using True r by (simp add: ReconcileTokens_def)
  qed
qed

theorem token_reservation_reconciled_witness:
  "\<exists>l1 m1. ReserveTokens 4 10 (newLease (demoEntry ''i'')) [(''i'', freshState 5)] = (None, l1, m1)"
proof -
  obtain err l1 m1 where r: "ReserveTokens 4 10 (newLease (demoEntry ''i'')) [(''i'', freshState 5)] = (err, l1, m1)" by (metis prod_cases3)
  obtain l2 m2 where c: "ReconcileTokens 7 20 l1 m1 = (l2, m2)" by (metis surj_pair)
  have t: "time_sub 10 5 < minute" "time_sub 20 5 < minute" by (simp_all add: time_sub_def go_time)
  have "err = None"
    using token_reservation_reconciled [OF _ _ _ _ _ _ _ _ _ _ r c, of "freshState 5"] t
    by (simp add: freshState_def zero_time_def newLease_def demoEntry_def demoKey_def)
  with r show ?thesis by simp
qed

end
