(* ===== verification/Retry_Config.thy ===== *)
theory Retry_Config
  imports Accounts
begin

text \<open>
  The retry settings of \<open>config/config.go\<close> (\<open>RetryConfig\<close>): the defaults, the normalisation that
  loading and saving apply, the getter the retry loops and the circuit breakers read, and
  the setter. The pointer field is an option.
\<close>

section \<open>Operations\<close>

record RetryConfig =
  rt_MaxAccountAttempts :: int
  rt_AccountSelectionTimeoutSeconds :: int
  rt_MaxUpstreamAttempts :: int
  rt_MaxRetryDurationSeconds :: int
  rt_PreOutputStreamRetries :: "int option"
  rt_PreOutputRetryBackoffMs :: int
  rt_FirstTokenTimeoutSeconds :: int
  rt_StreamIdleTimeoutSeconds :: int
  rt_ToolAssemblyTimeoutSeconds :: int
  rt_ToolArgumentIdleTimeoutSeconds :: int
  rt_EmptyResponseRetries :: int
  rt_EndpointFailureThreshold :: int
  rt_EndpointCircuitCooldownSeconds :: int
  rt_ProxyFailureThreshold :: int
  rt_ProxyCircuitCooldownSeconds :: int

definition defaultRetryConfig :: RetryConfig where
  "defaultRetryConfig = \<lparr>rt_MaxAccountAttempts = 8,
     rt_AccountSelectionTimeoutSeconds = 120,
     rt_MaxUpstreamAttempts = 12,
     rt_MaxRetryDurationSeconds = 900,
     rt_PreOutputStreamRetries = Some 1,
     rt_PreOutputRetryBackoffMs = 700,
     rt_FirstTokenTimeoutSeconds = 45,
     rt_StreamIdleTimeoutSeconds = 120,
     rt_ToolAssemblyTimeoutSeconds = 180,
     rt_ToolArgumentIdleTimeoutSeconds = 180,
     rt_EmptyResponseRetries = 2,
     rt_EndpointFailureThreshold = 3,
     rt_EndpointCircuitCooldownSeconds = 30,
     rt_ProxyFailureThreshold = 3,
     rt_ProxyCircuitCooldownSeconds = 60\<rparr>"

text \<open>The two shapes of a field's check: below the smallest value the default, above the largest the cap.\<close>

definition raiseTo :: "int \<Rightarrow> int \<Rightarrow> int \<Rightarrow> int" where
  "raiseTo low dflt v = (if v < low then dflt else v)"

definition clampFrom :: "int \<Rightarrow> int \<Rightarrow> int \<Rightarrow> int \<Rightarrow> int" where
  "clampFrom low dflt cap v = (let v1 = raiseTo low dflt v in if v1 > cap then cap else v1)"

definition normalizeRetryLocked :: "RetryConfig \<Rightarrow> RetryConfig" where
  "normalizeRetryLocked r =
     (let d = defaultRetryConfig
      in \<lparr>rt_MaxAccountAttempts = clampFrom 0 (rt_MaxAccountAttempts d) 100 (rt_MaxAccountAttempts r),
          rt_AccountSelectionTimeoutSeconds = clampFrom 10 (rt_AccountSelectionTimeoutSeconds d) 3600 (rt_AccountSelectionTimeoutSeconds r),
          rt_MaxUpstreamAttempts = clampFrom 1 (rt_MaxUpstreamAttempts d) 200 (rt_MaxUpstreamAttempts r),
          rt_MaxRetryDurationSeconds = clampFrom 0 (rt_MaxRetryDurationSeconds d) 86400 (rt_MaxRetryDurationSeconds r),
          rt_PreOutputStreamRetries = Some (case rt_PreOutputStreamRetries r of
              None \<Rightarrow> the (rt_PreOutputStreamRetries d)
            | Some v \<Rightarrow> clampFrom 0 0 3 v),
          rt_PreOutputRetryBackoffMs = clampFrom 100 (rt_PreOutputRetryBackoffMs d) 5000 (rt_PreOutputRetryBackoffMs r),
          rt_FirstTokenTimeoutSeconds = clampFrom 5 (rt_FirstTokenTimeoutSeconds d) 600 (rt_FirstTokenTimeoutSeconds r),
          rt_StreamIdleTimeoutSeconds = clampFrom 15 (rt_StreamIdleTimeoutSeconds d) 3600 (rt_StreamIdleTimeoutSeconds r),
          rt_ToolAssemblyTimeoutSeconds = clampFrom 0 (rt_ToolAssemblyTimeoutSeconds d) 3600 (rt_ToolAssemblyTimeoutSeconds r),
          rt_ToolArgumentIdleTimeoutSeconds = clampFrom 0 (rt_ToolArgumentIdleTimeoutSeconds d) 3600 (rt_ToolArgumentIdleTimeoutSeconds r),
          rt_EmptyResponseRetries = clampFrom 0 0 20 (rt_EmptyResponseRetries r),
          rt_EndpointFailureThreshold = clampFrom 1 (rt_EndpointFailureThreshold d) 20 (rt_EndpointFailureThreshold r),
          rt_EndpointCircuitCooldownSeconds = clampFrom 5 (rt_EndpointCircuitCooldownSeconds d) 900 (rt_EndpointCircuitCooldownSeconds r),
          rt_ProxyFailureThreshold = clampFrom 1 (rt_ProxyFailureThreshold d) 20 (rt_ProxyFailureThreshold r),
          rt_ProxyCircuitCooldownSeconds = clampFrom 5 (rt_ProxyCircuitCooldownSeconds d) 900 (rt_ProxyCircuitCooldownSeconds r)\<rparr>)"

text \<open>The getter; no configuration at all is \<open>None\<close>.\<close>

definition GetRetryConfig :: "RetryConfig option \<Rightarrow> RetryConfig" where
  "GetRetryConfig cfg = (case cfg of None \<Rightarrow> defaultRetryConfig | Some r \<Rightarrow>
     (let d = defaultRetryConfig
      in \<lparr>rt_MaxAccountAttempts = raiseTo 0 (rt_MaxAccountAttempts d) (rt_MaxAccountAttempts r),
          rt_AccountSelectionTimeoutSeconds = raiseTo 10 (rt_AccountSelectionTimeoutSeconds d) (rt_AccountSelectionTimeoutSeconds r),
          rt_MaxUpstreamAttempts = raiseTo 1 (rt_MaxUpstreamAttempts d) (rt_MaxUpstreamAttempts r),
          rt_MaxRetryDurationSeconds = raiseTo 0 (rt_MaxRetryDurationSeconds d) (rt_MaxRetryDurationSeconds r),
          rt_PreOutputStreamRetries = Some (case rt_PreOutputStreamRetries r of
              None \<Rightarrow> the (rt_PreOutputStreamRetries d) | Some v \<Rightarrow> v),
          rt_PreOutputRetryBackoffMs = raiseTo 100 (rt_PreOutputRetryBackoffMs d) (rt_PreOutputRetryBackoffMs r),
          rt_FirstTokenTimeoutSeconds = raiseTo 5 (rt_FirstTokenTimeoutSeconds d) (rt_FirstTokenTimeoutSeconds r),
          rt_StreamIdleTimeoutSeconds = raiseTo 15 (rt_StreamIdleTimeoutSeconds d) (rt_StreamIdleTimeoutSeconds r),
          rt_ToolAssemblyTimeoutSeconds = raiseTo 0 (rt_ToolAssemblyTimeoutSeconds d) (rt_ToolAssemblyTimeoutSeconds r),
          rt_ToolArgumentIdleTimeoutSeconds = raiseTo 0 (rt_ToolArgumentIdleTimeoutSeconds d) (rt_ToolArgumentIdleTimeoutSeconds r),
          rt_EmptyResponseRetries = raiseTo 0 0 (rt_EmptyResponseRetries r),
          rt_EndpointFailureThreshold = raiseTo 1 (rt_EndpointFailureThreshold d) (rt_EndpointFailureThreshold r),
          rt_EndpointCircuitCooldownSeconds = raiseTo 5 (rt_EndpointCircuitCooldownSeconds d) (rt_EndpointCircuitCooldownSeconds r),
          rt_ProxyFailureThreshold = raiseTo 1 (rt_ProxyFailureThreshold d) (rt_ProxyFailureThreshold r),
          rt_ProxyCircuitCooldownSeconds = raiseTo 5 (rt_ProxyCircuitCooldownSeconds d) (rt_ProxyCircuitCooldownSeconds r)\<rparr>))"

text \<open>The setter; \<open>saved\<close> says whether writing the file worked, the result of the call.\<close>

definition UpdateRetryConfig :: "bool \<Rightarrow> RetryConfig \<Rightarrow> RetryConfig \<times> bool" where
  "UpdateRetryConfig saved retry = (normalizeRetryLocked retry, saved)"

section \<open>What the settings satisfy\<close>

definition retryOk :: "RetryConfig \<Rightarrow> bool" where
  "retryOk r \<longleftrightarrow>
     0 \<le> rt_MaxAccountAttempts r \<and> rt_MaxAccountAttempts r \<le> 100 \<and>
     10 \<le> rt_AccountSelectionTimeoutSeconds r \<and> rt_AccountSelectionTimeoutSeconds r \<le> 3600 \<and>
     1 \<le> rt_MaxUpstreamAttempts r \<and> rt_MaxUpstreamAttempts r \<le> 200 \<and>
     0 \<le> rt_MaxRetryDurationSeconds r \<and> rt_MaxRetryDurationSeconds r \<le> 86400 \<and>
     (\<exists>v. rt_PreOutputStreamRetries r = Some v \<and> 0 \<le> v \<and> v \<le> 3) \<and>
     100 \<le> rt_PreOutputRetryBackoffMs r \<and> rt_PreOutputRetryBackoffMs r \<le> 5000 \<and>
     5 \<le> rt_FirstTokenTimeoutSeconds r \<and> rt_FirstTokenTimeoutSeconds r \<le> 600 \<and>
     15 \<le> rt_StreamIdleTimeoutSeconds r \<and> rt_StreamIdleTimeoutSeconds r \<le> 3600 \<and>
     0 \<le> rt_ToolAssemblyTimeoutSeconds r \<and> rt_ToolAssemblyTimeoutSeconds r \<le> 3600 \<and>
     0 \<le> rt_ToolArgumentIdleTimeoutSeconds r \<and> rt_ToolArgumentIdleTimeoutSeconds r \<le> 3600 \<and>
     0 \<le> rt_EmptyResponseRetries r \<and> rt_EmptyResponseRetries r \<le> 20 \<and>
     1 \<le> rt_EndpointFailureThreshold r \<and> rt_EndpointFailureThreshold r \<le> 20 \<and>
     5 \<le> rt_EndpointCircuitCooldownSeconds r \<and> rt_EndpointCircuitCooldownSeconds r \<le> 900 \<and>
     1 \<le> rt_ProxyFailureThreshold r \<and> rt_ProxyFailureThreshold r \<le> 20 \<and>
     5 \<le> rt_ProxyCircuitCooldownSeconds r \<and> rt_ProxyCircuitCooldownSeconds r \<le> 900"

lemma clampFrom_bounds: "low \<le> d \<Longrightarrow> d \<le> cap \<Longrightarrow> low \<le> cap \<Longrightarrow> low \<le> clampFrom low d cap v \<and> clampFrom low d cap v \<le> cap"
  by (auto simp: clampFrom_def raiseTo_def Let_def)

lemma clampFrom_id: "low \<le> v \<Longrightarrow> v \<le> cap \<Longrightarrow> clampFrom low d cap v = v"
  by (auto simp: clampFrom_def raiseTo_def Let_def)

lemma raiseTo_id: "low \<le> v \<Longrightarrow> raiseTo low d v = v"
  by (simp add: raiseTo_def)

lemma raiseTo_ge: "low \<le> d \<Longrightarrow> low \<le> raiseTo low d v"
  by (simp add: raiseTo_def)

lemma normalizeRetryLocked_ok: "retryOk (normalizeRetryLocked r)"
  unfolding retryOk_def normalizeRetryLocked_def Let_def
  by (simp add: defaultRetryConfig_def clampFrom_bounds split: option.split)

lemma normalizeRetryLocked_id: "retryOk r \<Longrightarrow> normalizeRetryLocked r = r"
  by (cases r) (auto simp: retryOk_def normalizeRetryLocked_def Let_def clampFrom_id)

lemma GetRetryConfig_id: "retryOk r \<Longrightarrow> GetRetryConfig (Some r) = r"
  by (cases r) (auto simp: retryOk_def GetRetryConfig_def Let_def raiseTo_id)

lemma retryOk_default: "retryOk defaultRetryConfig"
  by (simp add: retryOk_def defaultRetryConfig_def)

lemma GetRetryConfig_None: "GetRetryConfig None = defaultRetryConfig"
  by (simp add: GetRetryConfig_def)

text \<open>
  Loading and saving bring every retry setting within its documented range and leave a
  configuration that is already within them unchanged (so normalising twice is normalising
  once); what the retry loops read after an update, or without a configuration, is within
  the same ranges.
\<close>

theorem retry_settings_bounded:
  "retryOk (normalizeRetryLocked r) \<and> normalizeRetryLocked (normalizeRetryLocked r) = normalizeRetryLocked r \<and>
   GetRetryConfig (Some (fst (UpdateRetryConfig saved r))) = normalizeRetryLocked r \<and> retryOk (GetRetryConfig None)"
  using normalizeRetryLocked_ok [of r] retryOk_default
  by (simp add: normalizeRetryLocked_id GetRetryConfig_id UpdateRetryConfig_def GetRetryConfig_None)

end
