(* ===== verification/Json.thy ===== *)
theory Json
  imports Go_Prelude
begin

text \<open>
  The values that \<open>encoding/json\<close> decodes into an \<open>interface{}\<close>: an object is the list of its members in the order
  in which the program iterates over the Go map, a number its literal.
\<close>

datatype jsonValue =
    JNull
  | JBool bool
  | JNumber string
  | JString string
  | JArray "jsonValue list"
  | JObject "(string \<times> jsonValue) list"

text \<open>The dynamic type tests \<open>v.(map[string]interface{})\<close> and \<open>v.(string)\<close>, with the zero value when the test fails.\<close>

fun jsonMembers :: "jsonValue \<Rightarrow> (string, jsonValue) gomap option" where
  "jsonMembers (JObject ms) = Some ms"
| "jsonMembers _ = None"

fun jsonString :: "jsonValue \<Rightarrow> string option" where
  "jsonString (JString s) = Some s"
| "jsonString _ = None"

definition stringMember :: "string \<Rightarrow> (string, jsonValue) gomap \<Rightarrow> string" where
  "stringMember key ms =
     (case gm_get ms key of None \<Rightarrow> '''' | Some v \<Rightarrow> (case jsonString v of None \<Rightarrow> '''' | Some s \<Rightarrow> s))"

end
