(* ===== verification/Upstream_Error.thy ===== *)
theory Upstream_Error
  imports Protection Retry_Config Json
begin

text \<open>
  The structured failures of \<open>proxy/upstream_error.go\<close>: their classification from HTTP responses and
  transport errors, the retry policy they carry, their translation into the answer the client
  gets, and the budget that bounds the attempts of one request.

  A Go \<open>error\<close> is the datatype \<open>goError\<close>, a tree in which \<open>Unwrap\<close> goes to the wrapped error; \<open>errors.Is\<close>
  and \<open>errors.As\<close> search the chain of unwrapped errors. The field \<open>Cause\<close> of an \<open>UpstreamError\<close> is the
  second argument of its constructor. \<open>context.DeadlineExceeded\<close> implements \<open>net.Error\<close> with
  \<open>Timeout() = true\<close>, as it does in Go. \<open>json.Unmarshal\<close> and \<open>http.ParseTime\<close> are the parameters
  \<open>unmarshal\<close> and \<open>parseTime\<close>. The two constructors of tool failures, which quote a tool name with
  \<open>%q\<close>, are left out.
\<close>

section \<open>Formatting and parsing of the standard library\<close>

definition join :: "string \<Rightarrow> string list \<Rightarrow> string" where
  "join sep parts = concat (case parts of [] \<Rightarrow> [] | x # xs \<Rightarrow> x # map (\<lambda>s. sep @ s) xs)"

text \<open>\<open>strings.Fields\<close> and \<open>strings.ReplaceAll\<close> with an empty replacement.\<close>

fun fieldsFrom :: "string \<Rightarrow> string \<Rightarrow> string list" where
  "fieldsFrom acc [] = (if acc = [] then [] else [rev acc])"
| "fieldsFrom acc (c # s) =
     (if is_space c then (if acc = [] then [] else [rev acc]) @ fieldsFrom [] s else fieldsFrom (c # acc) s)"

function removeAll_str :: "string \<Rightarrow> string \<Rightarrow> string" where
  "removeAll_str pat s =
     (case str_index s pat of
        None \<Rightarrow> s
      | Some i \<Rightarrow> if pat = '''' then s else take i s @ removeAll_str pat (drop (i + length pat) s))"
  by auto
termination
proof (relation "measure (length \<circ> snd)")
  fix pat s :: string and i
  assume "str_index s pat = Some i" "pat \<noteq> ''''"
  then have "i + length pat \<le> length s" "0 < length pat" by (auto dest: str_index_Some)
  then have "length (drop (i + length pat) s) < length s" by (simp only: length_drop)
  then show "((pat, drop (i + length pat) s), (pat, s)) \<in> measure (length \<circ> snd)" by simp
qed simp

declare removeAll_str.simps [simp del]

text \<open>\<open>strconv.ParseUint(s, 10, 64)\<close> and \<open>strconv.ParseInt(s, 10, 64)\<close>; \<open>None\<close> for an error.\<close>

definition decimal :: "string \<Rightarrow> int" where
  "decimal s = foldl (\<lambda>a c. a * 10 + (of_char c - 48)) 0 s"

definition parseUint64 :: "string \<Rightarrow> int option" where
  "parseUint64 s = (if s = '''' \<or> \<not> list_all isDigit s \<or> decimal s \<ge> 2 ^ 64 then None else Some (decimal s))"

definition parseInt64 :: "string \<Rightarrow> int option" where
  "parseInt64 s =
     (let neg = (s \<noteq> '''' \<and> hd s = CHR ''-'');
          digits = (if s \<noteq> '''' \<and> (hd s = CHR ''-'' \<or> hd s = CHR ''+'') then tl s else s)
      in case parseUint64 digits of
           None \<Rightarrow> None
         | Some n \<Rightarrow> if neg then (if n > 2 ^ 63 then None else Some (- n))
                    else if n \<ge> 2 ^ 63 then None else Some n)"

text \<open>\<open>time.Duration.String\<close>.\<close>

definition padLeft :: "nat \<Rightarrow> string \<Rightarrow> string" where
  "padLeft n s = replicate (n - length s) (CHR ''0'') @ s"

definition fmtFrac :: "nat \<Rightarrow> int \<Rightarrow> string" where
  "fmtFrac prec v =
     (let digits = rev (dropWhile (\<lambda>c. c = CHR ''0'') (rev (padLeft prec (show_int (v mod 10 ^ prec)))))
      in if prec = 0 \<or> digits = '''' then '''' else CHR ''.'' # digits)"

definition durText :: "duration \<Rightarrow> string" where
  "durText d =
     (let u = \<bar>d\<bar>; sec = u div second; sign = (if d < 0 then ''-'' else '''')
      in if u = 0 then ''0s''
         else sign @
           (if u < 1000 then show_int u @ ''ns''
            else if u < 1000000 then show_int (u div 1000) @ fmtFrac 3 u @ [CHR 0xC2, CHR 0xB5] @ ''s''
            else if u < second then show_int (u div 1000000) @ fmtFrac 6 u @ ''ms''
            else (if sec \<ge> 3600 then show_int (sec div 3600) @ ''h'' else '''') @
                 (if sec \<ge> 60 then show_int (sec div 60 mod 60) @ ''m'' else '''') @
                 show_int (sec mod 60) @ fmtFrac 9 u @ ''s''))"

text \<open>Arithmetic of \<open>int64\<close>: wrap-around, and division that truncates.\<close>

definition wrap64 :: "int \<Rightarrow> int" where
  "wrap64 x = (x + 2 ^ 63) mod 2 ^ 64 - 2 ^ 63"

definition quot :: "int \<Rightarrow> int \<Rightarrow> int" where
  "quot a b = (if a < 0 then - (- a div b) else a div b)"

section \<open>Data\<close>

datatype UpstreamErrorKind =
    UpstreamErrorUnknown | UpstreamErrorTokenExpired | UpstreamErrorAuthRevoked | UpstreamErrorForbidden
  | UpstreamErrorSuspended | UpstreamErrorQuota | UpstreamErrorRateLimit | UpstreamErrorModelUnavailable
  | UpstreamErrorClientRequest | UpstreamErrorEndpointUnavailable | UpstreamErrorTransient
  | UpstreamErrorFirstTokenTimeout | UpstreamErrorStreamIdleTimeout | UpstreamErrorActionableTimeout
  | UpstreamErrorToolAssemblyTimeout | UpstreamErrorToolOutputTruncated | UpstreamErrorCanceled
  | UpstreamErrorEmptyResponse | UpstreamErrorStreamTruncated | UpstreamErrorRetryBudget
  | UpstreamErrorLocalConfiguration

fun kindText :: "UpstreamErrorKind \<Rightarrow> string" where
  "kindText UpstreamErrorUnknown = ''unknown''"
| "kindText UpstreamErrorTokenExpired = ''token_expired''"
| "kindText UpstreamErrorAuthRevoked = ''auth_revoked''"
| "kindText UpstreamErrorForbidden = ''forbidden''"
| "kindText UpstreamErrorSuspended = ''suspended''"
| "kindText UpstreamErrorQuota = ''quota''"
| "kindText UpstreamErrorRateLimit = ''rate_limit''"
| "kindText UpstreamErrorModelUnavailable = ''model_unavailable''"
| "kindText UpstreamErrorClientRequest = ''client_request''"
| "kindText UpstreamErrorEndpointUnavailable = ''endpoint_unavailable''"
| "kindText UpstreamErrorTransient = ''transient''"
| "kindText UpstreamErrorFirstTokenTimeout = ''first_token_timeout''"
| "kindText UpstreamErrorStreamIdleTimeout = ''stream_idle_timeout''"
| "kindText UpstreamErrorActionableTimeout = ''actionable_output_timeout''"
| "kindText UpstreamErrorToolAssemblyTimeout = ''tool_assembly_timeout''"
| "kindText UpstreamErrorToolOutputTruncated = ''tool_output_truncated''"
| "kindText UpstreamErrorCanceled = ''canceled''"
| "kindText UpstreamErrorEmptyResponse = ''empty_response''"
| "kindText UpstreamErrorStreamTruncated = ''stream_truncated''"
| "kindText UpstreamErrorRetryBudget = ''retry_budget_exhausted''"
| "kindText UpstreamErrorLocalConfiguration = ''local_configuration''"

record UpstreamError =
  ue_Kind :: UpstreamErrorKind
  ue_StatusCode :: int
  ue_Endpoint :: string
  ue_Reason :: string
  ue_Message :: string
  ue_Body :: string
  ue_RetryAcrossEndpoints :: bool
  ue_RetryAcrossAccounts :: bool
  ue_RefreshToken :: bool
  ue_RetryAfter :: duration
  ue_ToolName :: string
  ue_ArgumentBytes :: int
  ue_FragmentCount :: int

text \<open>A composite literal: the fields it does not name are zero.\<close>

definition upstreamError :: "UpstreamErrorKind \<Rightarrow> string \<Rightarrow> string \<Rightarrow> bool \<Rightarrow> bool \<Rightarrow> UpstreamError" where
  "upstreamError kind endpoint message retryEndpoints retryAccounts =
     \<lparr>ue_Kind = kind, ue_StatusCode = 0, ue_Endpoint = endpoint, ue_Reason = '''', ue_Message = message,
      ue_Body = '''', ue_RetryAcrossEndpoints = retryEndpoints, ue_RetryAcrossAccounts = retryAccounts,
      ue_RefreshToken = False, ue_RetryAfter = 0, ue_ToolName = '''', ue_ArgumentBytes = 0, ue_FragmentCount = 0\<rparr>"

text \<open>\<open>RefreshHTTPError\<close> of package \<open>auth\<close>.\<close>

record RefreshHTTPError =
  rh_Upstream :: string
  rh_StatusCode :: int
  rh_Code :: string
  rh_AuthenticationMismatch :: bool
  rh_CredentialRejected :: bool

definition refreshHTTPErrorText :: "RefreshHTTPError \<Rightarrow> string" where
  "refreshHTTPErrorText e =
     (let upstream0 = trim_space (rh_Upstream e); upstream = (if upstream0 = '''' then ''upstream'' else upstream0)
      in if rh_Code e \<noteq> ''''
         then upstream @ '' token refresh failed (status '' @ show_int (rh_StatusCode e) @ '', code '' @ rh_Code e @ '')''
         else upstream @ '' token refresh failed (status '' @ show_int (rh_StatusCode e) @ '')'')"

datatype goError =
    PlainError string
  | ContextCanceled
  | DeadlineExceeded
  | ErrAccountSelectionTimeout
  | ErrAccountAttemptLimit
  | ErrRefreshUpstreamBlocked
  | RefreshHTTPErr RefreshHTTPError
  | WrapError string goError
  | NetError string bool "goError option"
  | BindError string goError
  | BusyError UpstreamBusyError
  | UpstreamErr UpstreamError "goError option"

section \<open>The chain of an error\<close>

fun chain :: "goError \<Rightarrow> goError list" where
  "chain (WrapError s e) = WrapError s e # chain e"
| "chain (NetError s t (Some e)) = NetError s t (Some e) # chain e"
| "chain (BindError s e) = BindError s e # chain e"
| "chain (UpstreamErr u (Some e)) = UpstreamErr u (Some e) # chain e"
| "chain e = [e]"

definition errors_Is :: "goError \<Rightarrow> goError \<Rightarrow> bool" where
  "errors_Is err target \<longleftrightarrow> target \<in> set (chain err)"

text \<open>\<open>errors.As\<close> with a type: the first error of the chain that has it.\<close>

fun firstJust :: "('a \<Rightarrow> 'b option) \<Rightarrow> 'a list \<Rightarrow> 'b option" where
  "firstJust f [] = None"
| "firstJust f (x # xs) = (case f x of None \<Rightarrow> firstJust f xs | Some y \<Rightarrow> Some y)"

definition asUpstreamError :: "goError \<Rightarrow> (UpstreamError \<times> goError option) option" where
  "asUpstreamError err = firstJust (\<lambda>e. case e of UpstreamErr u c \<Rightarrow> Some (u, c) | _ \<Rightarrow> None) (chain err)"

text \<open>The \<open>Timeout()\<close> of the first \<open>net.Error\<close>.\<close>

definition asNetError :: "goError \<Rightarrow> bool option" where
  "asNetError err =
     firstJust (\<lambda>e. case e of NetError s t c \<Rightarrow> Some t | DeadlineExceeded \<Rightarrow> Some True | _ \<Rightarrow> None) (chain err)"

definition asBusyError :: "goError \<Rightarrow> UpstreamBusyError option" where
  "asBusyError err = firstJust (\<lambda>e. case e of BusyError b \<Rightarrow> Some b | _ \<Rightarrow> None) (chain err)"

definition IsBindError :: "goError \<Rightarrow> bool" where
  "IsBindError err \<longleftrightarrow> firstJust (\<lambda>e. case e of BindError s c \<Rightarrow> Some () | _ \<Rightarrow> None) (chain err) \<noteq> None"

definition busyErrorText :: "UpstreamBusyError \<Rightarrow> string" where
  "busyErrorText b = (if ub_Description b \<noteq> '''' then ub_Description b else ''upstream busy for model '' @ ub_Model b)"

definition upstreamErrorText :: "UpstreamError \<Rightarrow> string option \<Rightarrow> string" where
  "upstreamErrorText e cause =
     (let parts = (if ue_StatusCode e > 0 then [''HTTP '' @ show_int (ue_StatusCode e)] else []) @
                  (if ue_Endpoint e \<noteq> '''' then [''from '' @ ue_Endpoint e] else []) @
                  (if ue_Reason e \<noteq> '''' then [ue_Reason e] else []) @
                  (if ue_Message e \<noteq> '''' \<and> \<not> equal_fold (ue_Message e) (ue_Reason e) then [ue_Message e] else [])
      in if parts \<noteq> [] then join '': '' parts
         else case cause of Some c \<Rightarrow> c | None \<Rightarrow> kindText (ue_Kind e))"

fun errorText :: "goError \<Rightarrow> string" where
  "errorText (PlainError s) = s"
| "errorText ContextCanceled = ''context canceled''"
| "errorText DeadlineExceeded = ''context deadline exceeded''"
| "errorText ErrAccountSelectionTimeout = ''account selection timed out''"
| "errorText ErrAccountAttemptLimit = ''account selection attempt limit reached''"
| "errorText ErrRefreshUpstreamBlocked = ''authentication refresh upstream temporarily blocked''"
| "errorText (RefreshHTTPErr e) = refreshHTTPErrorText e"
| "errorText (WrapError s e) = s"
| "errorText (NetError s t c) = s"
| "errorText (BindError s e) = s"
| "errorText (BusyError b) = busyErrorText b"
| "errorText (UpstreamErr u None) = upstreamErrorText u None"
| "errorText (UpstreamErr u (Some c)) = upstreamErrorText u (Some (errorText c))"

definition upstreamErrorEndpoint :: "goError \<Rightarrow> string" where
  "upstreamErrorEndpoint err = (case asUpstreamError err of Some (u, c) \<Rightarrow> ue_Endpoint u | None \<Rightarrow> '''')"

definition isAccountSelectionTimeout :: "goError \<Rightarrow> bool" where
  "isAccountSelectionTimeout err \<longleftrightarrow> errors_Is err ErrAccountSelectionTimeout \<or> errors_Is err ErrAccountAttemptLimit"

definition isLocalConfigurationError :: "goError \<Rightarrow> bool" where
  "isLocalConfigurationError err =
     (case asUpstreamError err of Some (u, c) \<Rightarrow> ue_Kind u = UpstreamErrorLocalConfiguration | None \<Rightarrow> False)"

definition isStreamIntegrityError :: "goError \<Rightarrow> bool" where
  "isStreamIntegrityError err =
     (case asUpstreamError err of Some (u, c) \<Rightarrow> ue_Kind u = UpstreamErrorStreamTruncated | None \<Rightarrow> False)"

definition shouldRetryAcrossAccounts :: "goError option \<Rightarrow> bool" where
  "shouldRetryAcrossAccounts err = (case err of None \<Rightarrow> False | Some e \<Rightarrow>
     (case asUpstreamError e of Some (u, c) \<Rightarrow> ue_RetryAcrossAccounts u | None \<Rightarrow> True))"

definition shouldRetryAcrossEndpoints :: "goError option \<Rightarrow> bool" where
  "shouldRetryAcrossEndpoints err = (case err of None \<Rightarrow> False | Some e \<Rightarrow>
     (case asUpstreamError e of Some (u, c) \<Rightarrow> ue_RetryAcrossEndpoints u | None \<Rightarrow> True))"

section \<open>Classification\<close>

definition parseRetryAfter :: "(string \<Rightarrow> gotime option) \<Rightarrow> string \<Rightarrow> gotime \<Rightarrow> duration" where
  "parseRetryAfter parseTime value0 now =
     (let value = trim_space value0
      in if value = '''' then 0
         else case parseInt64 value of
           Some seconds \<Rightarrow>
             if seconds \<le> 0 then 0
             else if seconds > quot (24 * hour) second then 24 * hour
             else seconds * second
         | None \<Rightarrow>
             (case parseTime value of
                Some when \<Rightarrow> if when > now then time_sub when now else 0
              | None \<Rightarrow> 0))"

text \<open>
  The recursive walk of \<open>upstreamErrorDetails\<close>, on the pair of the reason and the message found so far. The
  fields of an object come in the order of the iteration over the Go map.
\<close>

definition noteField :: "string \<Rightarrow> string \<Rightarrow> string \<times> string \<Rightarrow> string \<times> string" where
  "noteField key content = (\<lambda>(reason, message).
     let lower = to_lower key
     in if lower \<in> {''reason'', ''code'', ''errorcode'', ''error_code'', ''__type''}
        then (if reason = '''' then trim_space content else reason, message)
        else if lower \<in> {''message'', ''error'', ''detail'', ''description''}
        then (reason, if message = '''' then trim_space content else message)
        else (reason, message))"

fun walkDetails :: "jsonValue \<Rightarrow> string \<times> string \<Rightarrow> string \<times> string"
and walkFields :: "(string \<times> jsonValue) list \<Rightarrow> string \<times> string \<Rightarrow> string \<times> string"
and walkItems :: "jsonValue list \<Rightarrow> string \<times> string \<Rightarrow> string \<times> string" where
  "walkDetails (JObject members) st = walkFields members st"
| "walkDetails (JArray elems) st = walkItems elems st"
| "walkDetails _ st = st"
| "walkFields [] st = st"
| "walkFields ((key, child) # rest) st =
     walkFields rest (walkDetails child (case child of JString content \<Rightarrow> noteField key content st | _ \<Rightarrow> st))"
| "walkItems [] st = st"
| "walkItems (child # rest) st = walkItems rest (walkDetails child st)"

definition upstreamErrorDetails :: "(string \<Rightarrow> jsonValue option) \<Rightarrow> string \<Rightarrow> string \<times> string" where
  "upstreamErrorDetails unmarshal body =
     (case unmarshal body of None \<Rightarrow> ('''', trim_space body) | Some v \<Rightarrow> walkDetails v ('''', ''''))"

definition truncateUpstreamBody :: "string \<Rightarrow> string" where
  "truncateUpstreamBody body =
     (let content = trim_space body in if length content \<le> 2048 then content else take 2048 content @ ''...'')"

text \<open>The cases of the switch in their order; \<open>base\<close> is the error before the switch.\<close>

definition classifyUpstreamHTTPError :: "(string \<Rightarrow> jsonValue option) \<Rightarrow> int \<Rightarrow> string \<Rightarrow> string \<Rightarrow> UpstreamError" where
  "classifyUpstreamHTTPError unmarshal statusCode endpoint body =
     (let (reason, message) = upstreamErrorDetails unmarshal body;
          combined = to_lower (join '' '' [reason, message, body]);
          has = contains combined;
          base = (upstreamError UpstreamErrorUnknown endpoint message False True)
                   \<lparr>ue_StatusCode := statusCode, ue_Reason := reason, ue_Body := truncateUpstreamBody body\<rparr>
      in if has ''tool_use_result_mismatch'' \<or> has ''unexpected tool_use_id'' \<or>
            (has ''tool_result'' \<and> (has ''corresponding tool_use'' \<or> has ''previous message''))
         then base\<lparr>ue_Kind := UpstreamErrorClientRequest, ue_RetryAcrossAccounts := False, ue_RetryAcrossEndpoints := False\<rparr>
         else if has ''tool_schema_invalid'' \<or>
            (has ''input_schema'' \<and> (has ''oneof'' \<or> has ''anyof'' \<or> has ''allof''))
         then base\<lparr>ue_Kind := UpstreamErrorClientRequest, ue_RetryAcrossAccounts := False, ue_RetryAcrossEndpoints := False\<rparr>
         else if has ''temporarily_suspended'' \<or> has ''temporarily is suspended'' \<or>
            has ''account suspended'' \<or> has ''unusual user activity''
         then base\<lparr>ue_Kind := UpstreamErrorSuspended\<rparr>
         else if has ''invalid_grant'' \<or> has ''refresh token revoked'' \<or> has ''bad credentials''
         then base\<lparr>ue_Kind := UpstreamErrorAuthRevoked\<rparr>
         else if statusCode = 401 \<or> has ''token expired'' \<or> has ''token has expired'' \<or>
            has ''invalid_token'' \<or> has ''access token expired''
         then base\<lparr>ue_Kind := UpstreamErrorTokenExpired, ue_RefreshToken := True\<rparr>
         else if statusCode = 403
         then base\<lparr>ue_Kind := UpstreamErrorForbidden, ue_RetryAcrossEndpoints := True\<rparr>
         else if statusCode = 402 \<or> has ''monthly_request_count'' \<or> has ''quota exhausted'' \<or> has ''overage''
         then base\<lparr>ue_Kind := UpstreamErrorQuota, ue_RetryAcrossEndpoints := True\<rparr>
         else if statusCode = 408 \<or> statusCode = 504
         then base\<lparr>ue_Kind := UpstreamErrorFirstTokenTimeout\<rparr>
         else if statusCode = 429 \<or> has ''rate limit'' \<or> has ''too many requests''
         then base\<lparr>ue_Kind := UpstreamErrorRateLimit, ue_RetryAcrossEndpoints := True\<rparr>
         else if has ''invalid_model_id'' \<or> has ''invalid model'' \<or> has ''model_not_found''
         then base\<lparr>ue_Kind := UpstreamErrorModelUnavailable, ue_RetryAcrossEndpoints := True\<rparr>
         else if has ''content_length_exceeds_threshold'' \<or> has ''input is too long'' \<or> statusCode = 422
         then base\<lparr>ue_Kind := UpstreamErrorClientRequest, ue_RetryAcrossAccounts := False\<rparr>
         else if statusCode = 404 \<or> statusCode = 405 \<or> statusCode = 410 \<or> statusCode = 501
         then base\<lparr>ue_Kind := UpstreamErrorEndpointUnavailable, ue_RetryAcrossEndpoints := True\<rparr>
         else if statusCode \<ge> 500
         then base\<lparr>ue_Kind := UpstreamErrorTransient, ue_RetryAcrossEndpoints := True\<rparr>
         else if statusCode \<ge> 400 \<and> statusCode < 500
         then base\<lparr>ue_Kind := UpstreamErrorClientRequest, ue_RetryAcrossAccounts := False\<rparr>
         else base\<lparr>ue_Kind := UpstreamErrorTransient, ue_RetryAcrossEndpoints := True\<rparr>)"

text \<open>\<open>retryAfter\<close> and \<open>kiroHint\<close> are the values of the headers \<open>Retry-After\<close> and \<open>x-amzn-kiro-ratelimit-retry-after\<close>.\<close>

definition classifyKiroHTTPResponseError ::
    "(string \<Rightarrow> jsonValue option) \<Rightarrow> (string \<Rightarrow> gotime option) \<Rightarrow> int \<Rightarrow> string \<Rightarrow> string \<Rightarrow> string \<Rightarrow> string \<Rightarrow> gotime \<Rightarrow> UpstreamError" where
  "classifyKiroHTTPResponseError unmarshal parseTime statusCode retryAfter kiroHint endpoint body now =
     (let err = (classifyUpstreamHTTPError unmarshal statusCode endpoint body)
                  \<lparr>ue_RetryAfter := parseRetryAfter parseTime retryAfter now\<rparr>
      in if statusCode = 429
         then case parseUint64 (trim_space kiroHint) of
                None \<Rightarrow> err
              | Some millis0 \<Rightarrow>
                  if millis0 > 0
                  then let maximum = quot (5 * minute) millisecond;
                           millis = (if millis0 > maximum then maximum else millis0);
                           delay = millis * millisecond
                       in if delay > ue_RetryAfter err then err\<lparr>ue_RetryAfter := delay\<rparr> else err
                  else err
         else err)"

definition classifyTransportError :: "string \<Rightarrow> goError \<Rightarrow> goError" where
  "classifyTransportError endpoint err =
     (if IsBindError err
      then UpstreamErr (upstreamError UpstreamErrorLocalConfiguration endpoint
             ''local IPv6 egress configuration failed'' False False) (Some err)
      else
        let (kind, message) =
              (if errors_Is err DeadlineExceeded
               then (UpstreamErrorFirstTokenTimeout, ''upstream did not produce a meaningful response before the timeout'')
               else if errors_Is err ContextCanceled then (UpstreamErrorTransient, ''upstream request canceled'')
               else if asNetError err = Some True then (UpstreamErrorFirstTokenTimeout, ''upstream request timed out'')
               else (UpstreamErrorTransient, ''upstream transport failed''))
        in UpstreamErr (upstreamError kind endpoint message True True) (Some err))"

section \<open>The other constructors\<close>

definition newStreamIdleTimeoutError :: "string \<Rightarrow> duration \<Rightarrow> goError" where
  "newStreamIdleTimeoutError endpoint timeout =
     UpstreamErr (upstreamError UpstreamErrorStreamIdleTimeout endpoint
       (''upstream stream had no body data for '' @ durText timeout) True True) (Some DeadlineExceeded)"

definition classifyRequestCancellation :: "string \<Rightarrow> goError \<Rightarrow> goError" where
  "classifyRequestCancellation endpoint err =
     UpstreamErr (upstreamError UpstreamErrorCanceled endpoint
       (if errors_Is err DeadlineExceeded then ''client request deadline exceeded'' else ''client request canceled'')
       False False) (Some err)"

definition newEndpointCircuitOpenError :: "string \<Rightarrow> duration \<Rightarrow> goError" where
  "newEndpointCircuitOpenError endpoint retryAfter =
     UpstreamErr ((upstreamError UpstreamErrorEndpointUnavailable endpoint ''endpoint circuit is open'' True False)
       \<lparr>ue_StatusCode := 503, ue_RetryAfter := (if retryAfter \<le> 0 then second else retryAfter)\<rparr>) None"

text \<open>\<open>summary\<close> is the text of the stream diagnostics, empty when there are none.\<close>

definition newEmptyResponseErrorWithDiagnostics :: "string \<Rightarrow> bool \<Rightarrow> string \<Rightarrow> goError" where
  "newEmptyResponseErrorWithDiagnostics endpoint retryEndpoints summary =
     UpstreamErr (upstreamError UpstreamErrorEmptyResponse endpoint
       (''upstream returned HTTP 200 without actionable text or a complete tool call'' @
        (if summary \<noteq> '''' then ''; stream diagnostics: '' @ summary else '''')) retryEndpoints True) None"

definition newEmptyResponseError :: "string \<Rightarrow> bool \<Rightarrow> goError" where
  "newEmptyResponseError endpoint retryEndpoints = newEmptyResponseErrorWithDiagnostics endpoint retryEndpoints ''''"

definition newStreamTruncatedError :: "string \<Rightarrow> goError option \<Rightarrow> goError" where
  "newStreamTruncatedError endpoint cause =
     UpstreamErr (upstreamError UpstreamErrorStreamTruncated endpoint
       ''upstream stream ended without a terminal signal'' True True) cause"

definition newActionableOutputTimeoutError :: "string \<Rightarrow> duration \<Rightarrow> goError" where
  "newActionableOutputTimeoutError endpoint timeout =
     UpstreamErr (upstreamError UpstreamErrorActionableTimeout endpoint
       (''upstream was idle for '' @ durText timeout @ '' before producing actionable text or a complete tool call'')
       True True) (Some DeadlineExceeded)"

section \<open>The answer to the client\<close>

record downstreamError =
  de_Status :: int
  de_ClaudeType :: string
  de_OpenAIType :: string
  de_RetryAfter :: string

definition retryAfterSeconds :: "duration \<Rightarrow> string" where
  "retryAfterSeconds d =
     (let seconds = quot (wrap64 (d + second - 1)) second in show_int (if seconds < 1 then 1 else seconds))"

definition statusOfKind :: "UpstreamError \<Rightarrow> goError option \<Rightarrow> int" where
  "statusOfKind u cause =
     (case ue_Kind u of
        UpstreamErrorClientRequest \<Rightarrow>
          if ue_StatusCode u = 413 \<or> ue_StatusCode u = 422 then ue_StatusCode u else 400
      | UpstreamErrorForbidden \<Rightarrow> 403
      | UpstreamErrorSuspended \<Rightarrow> 403
      | UpstreamErrorQuota \<Rightarrow> 429
      | UpstreamErrorRateLimit \<Rightarrow> 429
      | UpstreamErrorTokenExpired \<Rightarrow> 503
      | UpstreamErrorAuthRevoked \<Rightarrow> 503
      | UpstreamErrorModelUnavailable \<Rightarrow> 503
      | UpstreamErrorRetryBudget \<Rightarrow> 503
      | UpstreamErrorLocalConfiguration \<Rightarrow> 503
      | UpstreamErrorFirstTokenTimeout \<Rightarrow> 504
      | UpstreamErrorStreamIdleTimeout \<Rightarrow> 504
      | UpstreamErrorActionableTimeout \<Rightarrow> 504
      | UpstreamErrorToolAssemblyTimeout \<Rightarrow> 504
      | UpstreamErrorToolOutputTruncated \<Rightarrow> 502
      | UpstreamErrorCanceled \<Rightarrow>
          (case cause of Some c \<Rightarrow> if errors_Is c DeadlineExceeded then 504 else 499 | None \<Rightarrow> 499)
      | UpstreamErrorEndpointUnavailable \<Rightarrow>
          if ue_StatusCode u = 503 \<or> ue_RetryAfter u > 0 then 503 else 502
      | UpstreamErrorEmptyResponse \<Rightarrow> 502
      | UpstreamErrorStreamTruncated \<Rightarrow> 502
      | UpstreamErrorTransient \<Rightarrow> if ue_StatusCode u = 503 then 503 else 502
      | UpstreamErrorUnknown \<Rightarrow> if ue_StatusCode u = 503 then 503 else 502)"

text \<open>The two error types the switch sets along with the status; the defaults elsewhere.\<close>

definition typesOfKind :: "UpstreamErrorKind \<Rightarrow> string \<times> string" where
  "typesOfKind kind =
     (case kind of
        UpstreamErrorClientRequest \<Rightarrow> (''invalid_request_error'', ''invalid_request_error'')
      | UpstreamErrorForbidden \<Rightarrow> (''permission_error'', ''permission_error'')
      | UpstreamErrorSuspended \<Rightarrow> (''permission_error'', ''permission_error'')
      | UpstreamErrorQuota \<Rightarrow> (''rate_limit_error'', ''rate_limit_error'')
      | UpstreamErrorRateLimit \<Rightarrow> (''rate_limit_error'', ''rate_limit_error'')
      | _ \<Rightarrow> (''api_error'', ''server_error''))"

definition mapDownstreamError :: "goError option \<Rightarrow> downstreamError" where
  "mapDownstreamError err0 =
     (let mapped = \<lparr>de_Status = 502, de_ClaudeType = ''api_error'', de_OpenAIType = ''server_error'', de_RetryAfter = ''''\<rparr>
      in case err0 of
           None \<Rightarrow> mapped\<lparr>de_Status := 503\<rparr>
         | Some err \<Rightarrow>
             if isAccountSelectionTimeout err then mapped\<lparr>de_Status := 504\<rparr>
             else if errors_Is err DeadlineExceeded then mapped\<lparr>de_Status := 504\<rparr>
             else if asNetError err = Some True then mapped\<lparr>de_Status := 504\<rparr>
             else case asBusyError err of
               Some busy \<Rightarrow>
                 mapped\<lparr>de_Status := 429, de_ClaudeType := ''rate_limit_error'', de_OpenAIType := ''rate_limit_error'',
                        de_RetryAfter := (if ub_RetryAfter busy > 0 then retryAfterSeconds (ub_RetryAfter busy) else '''')\<rparr>
             | None \<Rightarrow>
                 (case asUpstreamError err of
                    None \<Rightarrow> mapped
                  | Some (u, cause) \<Rightarrow>
                      mapped\<lparr>de_Status := statusOfKind u cause,
                             de_ClaudeType := fst (typesOfKind (ue_Kind u)), de_OpenAIType := snd (typesOfKind (ue_Kind u)),
                             de_RetryAfter := (if ue_RetryAfter u > 0 then retryAfterSeconds (ue_RetryAfter u) else '''')\<rparr>))"

section \<open>The attempt budget of a request\<close>

text \<open>A \<open>nil\<close> budget is \<open>None\<close>; the clock is the argument \<open>now\<close>.\<close>

record upstreamAttemptBudget =
  ab_attempts :: int
  ab_emptyResponses :: int
  ab_maxAttempts :: int
  ab_maxEmpty :: int
  ab_maxEmptyTotal :: int
  ab_startedAt :: gotime
  ab_maxDuration :: duration
  ab_lastEndpoint :: string
  ab_lastError :: string

record upstreamAttemptBudgetSnapshot =
  bs_Attempts :: int
  bs_EmptyResponses :: int
  bs_MaxAttempts :: int
  bs_Elapsed :: duration
  bs_MaxDuration :: duration
  bs_LastEndpoint :: string
  bs_LastError :: string

definition newUpstreamAttemptBudget :: "RetryConfig \<Rightarrow> gotime \<Rightarrow> upstreamAttemptBudget" where
  "newUpstreamAttemptBudget retry now =
     \<lparr>ab_attempts = 0, ab_emptyResponses = 0, ab_maxAttempts = rt_MaxUpstreamAttempts retry,
      ab_maxEmpty = rt_EmptyResponseRetries retry, ab_maxEmptyTotal = 6, ab_startedAt = now,
      ab_maxDuration = rt_MaxRetryDurationSeconds retry * second, ab_lastEndpoint = '''', ab_lastError = ''''\<rparr>"

definition budget_expired :: "gotime \<Rightarrow> upstreamAttemptBudget option \<Rightarrow> bool" where
  "budget_expired now b = (case b of None \<Rightarrow> False | Some b \<Rightarrow>
     ab_maxDuration b > 0 \<and> time_sub now (ab_startedAt b) \<ge> ab_maxDuration b)"

definition budget_take :: "gotime \<Rightarrow> upstreamAttemptBudget option \<Rightarrow> bool \<times> upstreamAttemptBudget option" where
  "budget_take now b0 = (case b0 of None \<Rightarrow> (True, None) | Some b \<Rightarrow>
     if ab_maxDuration b > 0 \<and> time_sub now (ab_startedAt b) \<ge> ab_maxDuration b then (False, Some b)
     else if ab_maxAttempts b > 0 \<and> ab_attempts b \<ge> ab_maxAttempts b then (False, Some b)
     else (True, Some (b\<lparr>ab_attempts := ab_attempts b + 1\<rparr>)))"

definition budget_deadline :: "upstreamAttemptBudget option \<Rightarrow> gotime option" where
  "budget_deadline b0 = (case b0 of None \<Rightarrow> None | Some b \<Rightarrow>
     if ab_maxDuration b \<le> 0 then None else Some (ab_startedAt b + ab_maxDuration b))"

definition budget_recordFailure ::
    "string \<Rightarrow> goError option \<Rightarrow> upstreamAttemptBudget option \<Rightarrow> upstreamAttemptBudget option" where
  "budget_recordFailure endpoint0 err b0 = (case (b0, err) of
     (Some b, Some e) \<Rightarrow>
       let endpoint = (if endpoint0 = '''' then upstreamErrorEndpoint e else endpoint0);
           message0 = trim_space (errorText e);
           message = (if length message0 > 512 then take 512 message0 @ ''...'' else message0)
       in Some (b\<lparr>ab_lastEndpoint := trim_space endpoint, ab_lastError := message\<rparr>)
   | _ \<Rightarrow> b0)"

definition budget_snapshot :: "gotime \<Rightarrow> upstreamAttemptBudget \<Rightarrow> upstreamAttemptBudgetSnapshot" where
  "budget_snapshot now b =
     (let elapsed = time_sub now (ab_startedAt b)
      in \<lparr>bs_Attempts = ab_attempts b, bs_EmptyResponses = ab_emptyResponses b, bs_MaxAttempts = ab_maxAttempts b,
          bs_Elapsed = (if elapsed < 0 then 0 else elapsed), bs_MaxDuration = ab_maxDuration b,
          bs_LastEndpoint = ab_lastEndpoint b, bs_LastError = ab_lastError b\<rparr>)"

text \<open>Whether to retry, and whether the empty responses are exhausted.\<close>

definition budget_recordEmpty :: "upstreamAttemptBudget option \<Rightarrow> (bool \<times> bool) \<times> upstreamAttemptBudget option" where
  "budget_recordEmpty b0 = (case b0 of None \<Rightarrow> ((False, False), None) | Some b \<Rightarrow>
     if ab_maxEmptyTotal b > 0 \<and> ab_emptyResponses b \<ge> ab_maxEmptyTotal b then ((False, True), Some b)
     else
       let b1 = b\<lparr>ab_emptyResponses := ab_emptyResponses b + 1\<rparr>
       in if ab_maxEmptyTotal b1 > 0 \<and> ab_emptyResponses b1 \<ge> ab_maxEmptyTotal b1 then ((False, True), Some b1)
          else if ab_maxEmpty b1 \<le> 0 \<or> ab_emptyResponses b1 > ab_maxEmpty b1 then ((False, False), Some b1)
          else ((True, False), Some b1))"

definition stripEndpointPrefix :: "string \<Rightarrow> string \<Rightarrow> string" where
  "stripEndpointPrefix message0 endpoint0 =
     (let message = trim_space message0; endpoint = trim_space endpoint0; pre = ''from '' @ endpoint @ '':''
      in if message = '''' \<or> endpoint = '''' then message
         else if \<not> contains message pre then message
         else join '' '' (fieldsFrom [] (removeAll_str pre message)))"

definition newEmptyResponseLimitError :: "gotime \<Rightarrow> upstreamAttemptBudget option \<Rightarrow> goError option \<Rightarrow> goError" where
  "newEmptyResponseLimitError now budget lastErr =
     (let m0 = ''upstream returned repeated responses without actionable text or a complete tool call'';
          m1 = (case budget of None \<Rightarrow> m0
                | Some b \<Rightarrow> m0 @ '' after '' @ show_int (bs_EmptyResponses (budget_snapshot now b)) @ '' empty responses'');
          m2 = (case lastErr of None \<Rightarrow> m1 | Some e \<Rightarrow> m1 @ ''; last failure: '' @ errorText e)
      in UpstreamErr (upstreamError UpstreamErrorRetryBudget '''' m2 False False) None)"

definition newRetryBudgetError :: "gotime \<Rightarrow> upstreamAttemptBudget option \<Rightarrow> goError" where
  "newRetryBudgetError now budget =
     (let message = (case budget of None \<Rightarrow> ''upstream retry budget exhausted''
          | Some b \<Rightarrow>
              let snap = budget_snapshot now b;
                  limitType = (if bs_MaxDuration snap > 0 \<and> bs_Elapsed snap \<ge> bs_MaxDuration snap \<and>
                                  (bs_MaxAttempts snap = 0 \<or> bs_Attempts snap < bs_MaxAttempts snap)
                               then ''window'' else ''budget'')
              in ''upstream retry '' @ limitType @ '' exhausted after '' @ show_int (bs_Attempts snap) @
                 '' attempts in '' @ durText (dur_round (bs_Elapsed snap) second) @
                 (if bs_LastError snap = '''' then ''''
                  else if bs_LastEndpoint snap \<noteq> ''''
                  then ''; last failure from '' @ bs_LastEndpoint snap @ '': '' @
                       stripEndpointPrefix (bs_LastError snap) (bs_LastEndpoint snap)
                  else ''; last failure: '' @ bs_LastError snap))
      in UpstreamErr (upstreamError UpstreamErrorRetryBudget '''' message False False) None)"

end
