(* ===== verification/Upstream_Health.thy ===== *)
theory Upstream_Health
  imports Upstream_Error Ledger
begin

text \<open>
  The circuit breakers of \<open>proxy/upstream_health.go\<close>, one table for the upstream endpoints and one for the
  outbound proxies. Both tables have the same operations; \<open>circuit_begin\<close>, \<open>circuit_success\<close>, \<open>circuit_failure\<close> and
  \<open>circuit_release\<close> are the methods \<open>begin\<close>, \<open>success\<close>, \<open>failure\<close> and \<open>release\<close> on one table, each a critical section with
  the clock's reading \<open>now\<close>. A circuit is open while \<open>cooldownUntil\<close> lies ahead, half open when it lies in the past,
  and closed when it is the zero time.

  Parameters: \<open>sha\<close> is the hexadecimal SHA-256 prefix in the key of a scope, \<open>redact\<close> the
  removal of secrets from a logged error, \<open>rnd\<close> the rounding of floating point, \<open>sanitize\<close> the removal of
  credentials from a proxy URL.
\<close>

section \<open>Data\<close>

record circuitRuntimeState =
  cr_label :: string
  cr_consecutiveFailures :: int
  cr_openCount :: nat
  cr_cooldownUntil :: gotime
  cr_probeInFlight :: bool
  cr_inFlight :: int
  cr_successes :: "64 word"
  cr_failures :: "64 word"
  cr_ewmaLatencyMs :: float64
  cr_lastError :: string
  cr_lastSuccessAt :: gotime
  cr_lastFailureAt :: gotime
  cr_lastAccess :: gotime

type_synonym circuits = "(string, circuitRuntimeState) gomap"

record upstreamHealthRegistry =
  uh_endpoints :: circuits
  uh_proxies :: circuits

definition zeroCircuit :: circuitRuntimeState where
  "zeroCircuit = \<lparr>cr_label = '''', cr_consecutiveFailures = 0, cr_openCount = 0, cr_cooldownUntil = zero_time,
     cr_probeInFlight = False, cr_inFlight = 0, cr_successes = 0, cr_failures = 0, cr_ewmaLatencyMs = 0,
     cr_lastError = '''', cr_lastSuccessAt = zero_time, cr_lastFailureAt = zero_time, cr_lastAccess = zero_time\<rparr>"

definition newUpstreamHealthRegistry :: upstreamHealthRegistry where
  "newUpstreamHealthRegistry = \<lparr>uh_endpoints = [], uh_proxies = []\<rparr>"

definition maxCircuitRuntimeEntries :: nat where "maxCircuitRuntimeEntries = 4096"

definition endpointCircuitScope :: "(string \<Rightarrow> string) \<Rightarrow> string \<Rightarrow> string \<Rightarrow> string \<Rightarrow> string \<Rightarrow> string" where
  "endpointCircuitScope sha endpoint host model proxyURL0 =
     (let proxyURL1 = trim_space proxyURL0;
          proxyURL = (if equal_fold proxyURL1 ''direct'' then '''' else proxyURL1)
      in endpoint @ ''|'' @ host @ ''|'' @ sha (model @ [char_of (0 :: nat)] @ proxyURL))"

section \<open>Operations on one table\<close>

text \<open>The entries the eviction may take: not probing, not in use, and not guarding a route that failed lately.\<close>

definition circuitEvictable :: "gotime \<Rightarrow> circuitRuntimeState \<Rightarrow> bool" where
  "circuitEvictable now state \<longleftrightarrow>
     \<not> (cr_probeInFlight state \<or> cr_inFlight state > 0) \<and>
     \<not> (\<not> is_zero (cr_cooldownUntil state) \<and>
        (cr_cooldownUntil state > now \<or> time_sub now (cr_lastAccess state) < hour))"

text \<open>Making room for a new key; \<open>None\<close> when every entry is protected.\<close>

definition circuitMakeRoom :: "gotime \<Rightarrow> string \<Rightarrow> circuits \<Rightarrow> circuits option" where
  "circuitMakeRoom now key states =
     (if gm_get states key = None \<and> length states \<ge> maxCircuitRuntimeEntries
      then let oldestKey = oldest_scan cr_lastAccess '''' zero_time (filter (\<lambda>e. circuitEvictable now (snd e)) states)
           in if oldestKey = '''' then None else Some (gm_del oldestKey states)
      else Some states)"

definition circuit_begin :: "gotime \<Rightarrow> string \<Rightarrow> string \<Rightarrow> circuits \<Rightarrow> bool \<times> circuits" where
  "circuit_begin now key label states =
     (if trim_space key = '''' then (True, states)
      else case circuitMakeRoom now key states of
        None \<Rightarrow> (False, states)
      | Some states1 \<Rightarrow>
          let state = (gm_zero zeroCircuit states1 key)\<lparr>cr_label := label, cr_lastAccess := now\<rparr>
          in if cr_cooldownUntil state > now then (False, gm_put key state states1)
             else if \<not> is_zero (cr_cooldownUntil state) \<and> cr_probeInFlight state then (False, gm_put key state states1)
             else let state1 = (if \<not> is_zero (cr_cooldownUntil state) then state\<lparr>cr_probeInFlight := True\<rparr> else state)
                  in (True, gm_put key (state1\<lparr>cr_inFlight := cr_inFlight state1 + 1\<rparr>) states1))"

definition updateLatencyEWMA :: "(rat \<Rightarrow> float64) \<Rightarrow> float64 \<Rightarrow> duration \<Rightarrow> float64" where
  "updateLatencyEWMA rnd current latency =
     (if latency \<le> 0 then current
      else let v = rnd (rat_of_int (latency div 1000) / 1000)
           in if current = 0 then v else rnd (rnd (current * rnd (4/5)) + rnd (v * rnd (1/5))))"

definition circuit_success :: "(rat \<Rightarrow> float64) \<Rightarrow> gotime \<Rightarrow> string \<Rightarrow> duration \<Rightarrow> circuits \<Rightarrow> circuits" where
  "circuit_success rnd now key latency states =
     (if trim_space key = '''' then states
      else case gm_get states key of
        None \<Rightarrow> states
      | Some state \<Rightarrow>
          gm_put key
            (state\<lparr>cr_successes := cr_successes state + 1, cr_inFlight := max 0 (cr_inFlight state - 1),
                   cr_consecutiveFailures := 0, cr_openCount := 0, cr_cooldownUntil := zero_time, cr_probeInFlight := False,
                   cr_lastError := '''', cr_lastSuccessAt := now, cr_lastAccess := now,
                   cr_ewmaLatencyMs := updateLatencyEWMA rnd (cr_ewmaLatencyMs state) latency\<rparr>) states)"

definition truncateCircuitError :: "(string \<Rightarrow> string) \<Rightarrow> string \<Rightarrow> string" where
  "truncateCircuitError redact message0 =
     (let message = redact message0 in if length message > 300 then take 300 message else message)"

definition circuitMinInt :: "int \<Rightarrow> int \<Rightarrow> int" where
  "circuitMinInt a b = (if a < b then a else b)"

text \<open>The cooldown of the circuit's \<open>openCount\<close>-th opening in a row.\<close>

definition circuitCooldown :: "nat \<Rightarrow> duration \<Rightarrow> duration" where
  "circuitCooldown openCount baseCooldown =
     (let multiplier = 2 ^ nat (circuitMinInt (int openCount - 1) 4);
          cooldown = multiplier * baseCooldown
      in if cooldown > 15 * minute then 15 * minute else cooldown)"

definition circuit_failure ::
    "(rat \<Rightarrow> float64) \<Rightarrow> (string \<Rightarrow> string) \<Rightarrow> gotime \<Rightarrow> string \<Rightarrow> goError option \<Rightarrow> duration \<Rightarrow> int \<Rightarrow> duration \<Rightarrow>
     circuits \<Rightarrow> circuits" where
  "circuit_failure rnd redact now key err latency threshold0 baseCooldown0 states =
     (if trim_space key = '''' then states
      else
        let threshold = (if threshold0 < 1 then 1 else threshold0);
            baseCooldown = (if baseCooldown0 < second then second else baseCooldown0)
        in case gm_get states key of
             None \<Rightarrow> states
           | Some state \<Rightarrow>
               let wasProbe = cr_probeInFlight state;
                   s1 = state\<lparr>cr_inFlight := max 0 (cr_inFlight state - 1), cr_probeInFlight := False,
                              cr_failures := cr_failures state + 1,
                              cr_consecutiveFailures := cr_consecutiveFailures state + 1,
                              cr_lastFailureAt := now, cr_lastAccess := now,
                              cr_ewmaLatencyMs := updateLatencyEWMA rnd (cr_ewmaLatencyMs state) latency,
                              cr_lastError := (case err of None \<Rightarrow> cr_lastError state
                                | Some e \<Rightarrow> truncateCircuitError redact (errorText e))\<rparr>
               in if wasProbe \<or> (\<not> cr_cooldownUntil s1 > now \<and> cr_consecutiveFailures s1 \<ge> threshold)
                  then gm_put key
                         (s1\<lparr>cr_openCount := cr_openCount s1 + 1,
                             cr_cooldownUntil := now + circuitCooldown (cr_openCount s1 + 1) baseCooldown,
                             cr_consecutiveFailures := 0\<rparr>) states
                  else gm_put key s1 states)"

definition circuit_release :: "string \<Rightarrow> circuits \<Rightarrow> circuits" where
  "circuit_release key states =
     (if trim_space key = '''' then states
      else case gm_get states key of
        None \<Rightarrow> states
      | Some state \<Rightarrow>
          gm_put key (state\<lparr>cr_probeInFlight := False, cr_inFlight := max 0 (cr_inFlight state - 1)\<rparr>) states)"

section \<open>The registry\<close>

definition beginEndpoint :: "gotime \<Rightarrow> string \<Rightarrow> string \<Rightarrow> upstreamHealthRegistry \<Rightarrow> bool \<times> upstreamHealthRegistry" where
  "beginEndpoint now key label r =
     (let (ok, states) = circuit_begin now key label (uh_endpoints r) in (ok, r\<lparr>uh_endpoints := states\<rparr>))"

definition beginProxy ::
    "(string \<Rightarrow> string) \<Rightarrow> gotime \<Rightarrow> string \<Rightarrow> string \<Rightarrow> upstreamHealthRegistry \<Rightarrow> bool \<times> upstreamHealthRegistry" where
  "beginProxy sanitize now key label0 r =
     (let label = (if sanitize label0 \<noteq> '''' then sanitize label0 else label0);
          (ok, states) = circuit_begin now key label (uh_proxies r)
      in (ok, r\<lparr>uh_proxies := states\<rparr>))"

definition endpointRetryAfter :: "gotime \<Rightarrow> string \<Rightarrow> upstreamHealthRegistry \<Rightarrow> duration" where
  "endpointRetryAfter now key r =
     (if trim_space key = '''' then 0
      else let state = gm_zero zeroCircuit (uh_endpoints r) key
           in if cr_cooldownUntil state > now then time_sub (cr_cooldownUntil state) now
              else if cr_probeInFlight state then second else 0)"

definition endpointSuccess :: "(rat \<Rightarrow> float64) \<Rightarrow> gotime \<Rightarrow> string \<Rightarrow> duration \<Rightarrow> upstreamHealthRegistry \<Rightarrow> upstreamHealthRegistry" where
  "endpointSuccess rnd now key latency r = r\<lparr>uh_endpoints := circuit_success rnd now key latency (uh_endpoints r)\<rparr>"

definition proxySuccess :: "(rat \<Rightarrow> float64) \<Rightarrow> gotime \<Rightarrow> string \<Rightarrow> duration \<Rightarrow> upstreamHealthRegistry \<Rightarrow> upstreamHealthRegistry" where
  "proxySuccess rnd now key latency r = r\<lparr>uh_proxies := circuit_success rnd now key latency (uh_proxies r)\<rparr>"

definition endpointFailure ::
    "(rat \<Rightarrow> float64) \<Rightarrow> (string \<Rightarrow> string) \<Rightarrow> RetryConfig \<Rightarrow> gotime \<Rightarrow> string \<Rightarrow> goError option \<Rightarrow> duration \<Rightarrow>
     upstreamHealthRegistry \<Rightarrow> upstreamHealthRegistry" where
  "endpointFailure rnd redact cfg now key err latency r =
     r\<lparr>uh_endpoints := circuit_failure rnd redact now key err latency (rt_EndpointFailureThreshold cfg)
         (rt_EndpointCircuitCooldownSeconds cfg * second) (uh_endpoints r)\<rparr>"

definition proxyFailure ::
    "(rat \<Rightarrow> float64) \<Rightarrow> (string \<Rightarrow> string) \<Rightarrow> RetryConfig \<Rightarrow> gotime \<Rightarrow> string \<Rightarrow> goError option \<Rightarrow> duration \<Rightarrow>
     upstreamHealthRegistry \<Rightarrow> upstreamHealthRegistry" where
  "proxyFailure rnd redact cfg now key err latency r =
     r\<lparr>uh_proxies := circuit_failure rnd redact now key err latency (rt_ProxyFailureThreshold cfg)
         (rt_ProxyCircuitCooldownSeconds cfg * second) (uh_proxies r)\<rparr>"

definition releaseEndpoint :: "string \<Rightarrow> upstreamHealthRegistry \<Rightarrow> upstreamHealthRegistry" where
  "releaseEndpoint key r = r\<lparr>uh_endpoints := circuit_release key (uh_endpoints r)\<rparr>"

definition releaseProxy :: "string \<Rightarrow> upstreamHealthRegistry \<Rightarrow> upstreamHealthRegistry" where
  "releaseProxy key r = r\<lparr>uh_proxies := circuit_release key (uh_proxies r)\<rparr>"

text \<open>The state that the admin view shows for a circuit.\<close>

definition circuitStatus :: "gotime \<Rightarrow> circuitRuntimeState \<Rightarrow> string" where
  "circuitStatus now state =
     (if cr_cooldownUntil state > now then ''open''
      else if \<not> is_zero (cr_cooldownUntil state) \<or> cr_probeInFlight state then ''half_open'' else ''closed'')"

definition unixOrZeroTime :: "gotime \<Rightarrow> int" where
  "unixOrZeroTime t = (if is_zero t then 0 else unix_of t)"

text \<open>Which failures count against a circuit.\<close>

definition circuitEligibleFailure :: "goError option \<Rightarrow> bool" where
  "circuitEligibleFailure err0 = (case err0 of None \<Rightarrow> False | Some err \<Rightarrow>
     if errors_Is err ContextCanceled \<or> errors_Is err DeadlineExceeded then False
     else case asUpstreamError err of
       None \<Rightarrow> asNetError err \<noteq> None
     | Some (u, c) \<Rightarrow>
         if ue_StatusCode u \<noteq> 0
         then (ue_Kind u = UpstreamErrorTransient \<or> ue_Kind u = UpstreamErrorFirstTokenTimeout) \<and>
              (ue_StatusCode u = 502 \<or> ue_StatusCode u = 503 \<or> ue_StatusCode u = 504)
         else if ue_Kind u \<noteq> UpstreamErrorTransient \<and> ue_Kind u \<noteq> UpstreamErrorUnknown then False
         else asNetError err \<noteq> None)"

end
