(* ===== verification/Upstream_Health_Props.thy ===== *)
theory Upstream_Health_Props
  imports Upstream_Health
begin

text \<open>
  The circuit breakers in operation: the in-flight counters are exact whatever is evicted
  (another instance of \<open>slot_ledger\<close>), the table stays bounded, an open circuit lets nothing through
  until its cooldown ends, and a half-open one lets one probe through.
\<close>

section \<open>Lookups after each operation\<close>

abbreviation blank :: "string \<Rightarrow> bool" where "blank key \<equiv> trim_space key = ''''"

definition circuitOf :: "circuits \<Rightarrow> string \<Rightarrow> circuitRuntimeState" where
  "circuitOf m k = gm_zero zeroCircuit m k"

abbreviation crInFlight :: "circuits \<Rightarrow> string \<Rightarrow> int" where
  "crInFlight m k \<equiv> cr_inFlight (circuitOf m k)"

lemma circuitOf_put [simp]: "circuitOf (gm_put k s m) k' = (if k' = k then s else circuitOf m k')"
  by (simp add: circuitOf_def)

lemma circuitOf_del [simp]: "circuitOf (gm_del k m) k' = (if k' = k then zeroCircuit else circuitOf m k')"
  by (simp add: circuitOf_def)

lemma circuitOf_Some: "gm_get m k = Some s \<Longrightarrow> circuitOf m k = s"
  by (simp add: circuitOf_def gm_zero_def)

lemma circuitOf_None: "gm_get m k = None \<Longrightarrow> circuitOf m k = zeroCircuit"
  by (simp add: circuitOf_def gm_zero_def)

lemma zeroCircuit_inFlight [simp]: "cr_inFlight zeroCircuit = 0" "cr_cooldownUntil zeroCircuit = zero_time"
  by (simp_all add: zeroCircuit_def)

text \<open>A well-formed table: one entry per key, no blank key, counters not negative, at most 4096 entries.\<close>

definition circuitsOk :: "circuits \<Rightarrow> bool" where
  "circuitsOk m \<longleftrightarrow> gm_wf m \<and> (\<forall>e \<in> set m. \<not> blank (fst e) \<and> 0 \<le> cr_inFlight (snd e)) \<and>
     length m \<le> maxCircuitRuntimeEntries"

lemma circuitsOk_nonneg: "circuitsOk m \<Longrightarrow> 0 \<le> crInFlight m k"
  by (auto simp: circuitsOk_def circuitOf_def gm_zero_def dest: map_of_SomeD split: option.split)

lemma circuitsOk_put:
  assumes "circuitsOk m" "\<not> blank k" "0 \<le> cr_inFlight s" "gm_get m k \<noteq> None \<or> length m < maxCircuitRuntimeEntries"
  shows "circuitsOk (gm_put k s m)"
proof -
  have "length (gm_put k s m) \<le> maxCircuitRuntimeEntries"
  proof (cases "gm_get m k")
    case None
    with assms(4) show ?thesis using length_gm_put_le [of k s m] by simp
  next
    case (Some v)
    then have "k \<in> fst ` set m" by (force dest: map_of_SomeD)
    then show ?thesis using assms(1) length_gm_put_mem [of k m s] by (simp add: circuitsOk_def)
  qed
  with assms show ?thesis unfolding circuitsOk_def by (auto dest!: set_gm_put)
qed

text \<open>What making room does: nothing, or the removal of one unprotected entry other than the key's.\<close>

lemma circuitMakeRoom_cases:
  assumes "circuitMakeRoom now key m = Some m'" "circuitsOk m"
  obtains "m' = m" "gm_get m key \<noteq> None \<or> length m < maxCircuitRuntimeEntries"
  | victim s where "m' = gm_del victim m" "victim \<noteq> key" "gm_get m victim = Some s" "circuitEvictable now s"
      "length m' < maxCircuitRuntimeEntries"
proof (cases "gm_get m key = None \<and> length m \<ge> maxCircuitRuntimeEntries")
  case False
  with assms that(1) show ?thesis by (auto simp: circuitMakeRoom_def not_le)
next
  case True
  let ?F = "filter (\<lambda>e. circuitEvictable now (snd e)) m"
  let ?v = "oldest_scan cr_lastAccess '''' zero_time ?F"
  have v: "?v \<noteq> ''''" "m' = gm_del ?v m" using assms(1) True by (auto simp: circuitMakeRoom_def Let_def split: if_splits)
  then have "?v \<in> fst ` set ?F" using oldest_scan_mem [of cr_lastAccess "''''" zero_time ?F] by auto
  then obtain s where s: "(?v, s) \<in> set m" "circuitEvictable now s" by auto
  with assms(2) have get: "gm_get m ?v = Some s" by (auto simp: circuitsOk_def)
  have "length m' < maxCircuitRuntimeEntries"
    using v(2) s(1) assms(2) length_gm_del_mem [of ?v m] by (force simp: circuitsOk_def)
  with v get s(2) True show ?thesis by (intro that(2) [of ?v s]) auto
qed

lemma circuitsOk_makeRoom:
  assumes "circuitMakeRoom now key m = Some m'" "circuitsOk m"
  shows "circuitsOk m'" "gm_get m' key = gm_get m key" "crInFlight m' k = crInFlight m k"
    "gm_get m' key \<noteq> None \<or> length m' < maxCircuitRuntimeEntries"
proof -
  have "circuitsOk m' \<and> gm_get m' key = gm_get m key \<and> crInFlight m' k = crInFlight m k \<and>
      (gm_get m' key \<noteq> None \<or> length m' < maxCircuitRuntimeEntries)"
  proof (rule circuitMakeRoom_cases [OF assms])
    fix victim s
    assume v: "m' = gm_del victim m" "victim \<noteq> key" "gm_get m victim = Some s" "circuitEvictable now s"
      "length m' < maxCircuitRuntimeEntries"
    have "set m' \<subseteq> set m" using v(1) by (auto simp: AList.delete_eq)
    then have "circuitsOk m'" using assms(2) v(1,5) unfolding circuitsOk_def by (auto simp: gm_wf_del)
    moreover have "crInFlight m victim = 0"
      using v(3,4) circuitsOk_nonneg [OF assms(2), of victim] by (auto simp: circuitOf_Some circuitEvictable_def)
    ultimately show ?thesis using v by (auto simp: gm_get_del)
  qed (use assms(2) in auto)
  then show "circuitsOk m'" "gm_get m' key = gm_get m key" "crInFlight m' k = crInFlight m k"
    "gm_get m' key \<noteq> None \<or> length m' < maxCircuitRuntimeEntries" by blast+
qed

lemma circuit_begin_None: "circuitMakeRoom now key m = None \<Longrightarrow> \<not> blank key \<Longrightarrow> circuit_begin now key label m = (False, m)"
  by (simp add: circuit_begin_def)

definition circuitAdmits :: "gotime \<Rightarrow> circuitRuntimeState \<Rightarrow> bool" where
  "circuitAdmits now s \<longleftrightarrow> cr_cooldownUntil s \<le> now \<and> (is_zero (cr_cooldownUntil s) \<or> \<not> cr_probeInFlight s)"

lemma circuit_begin_state:
  fixes c :: circuitRuntimeState and store :: "circuitRuntimeState \<Rightarrow> circuits"
  shows "(let state = c\<lparr>cr_label := label, cr_lastAccess := now\<rparr>
     in if cr_cooldownUntil state > now then (False, store state)
        else if \<not> is_zero (cr_cooldownUntil state) \<and> cr_probeInFlight state then (False, store state)
        else let state1 = (if \<not> is_zero (cr_cooldownUntil state) then state\<lparr>cr_probeInFlight := True\<rparr> else state)
             in (True, store (state1\<lparr>cr_inFlight := cr_inFlight state1 + 1\<rparr>))) =
    (circuitAdmits now c,
     store (c\<lparr>cr_label := label, cr_lastAccess := now,
       cr_probeInFlight := (cr_probeInFlight c \<or> (circuitAdmits now c \<and> \<not> is_zero (cr_cooldownUntil c))),
       cr_inFlight := cr_inFlight c + (if circuitAdmits now c then 1 else 0)\<rparr>))"
proof -
  obtain l cf oc cd pr fl su fa ew le ls lf la where c: "c = \<lparr>cr_label = l, cr_consecutiveFailures = cf, cr_openCount = oc,
     cr_cooldownUntil = cd, cr_probeInFlight = pr, cr_inFlight = fl, cr_successes = su, cr_failures = fa,
     cr_ewmaLatencyMs = ew, cr_lastError = le, cr_lastSuccessAt = ls, cr_lastFailureAt = lf, cr_lastAccess = la\<rparr>"
    by (cases c)
  show ?thesis by (cases "cd > now"; cases "is_zero cd"; cases pr) (simp_all add: c Let_def circuitAdmits_def)
qed

lemma circuit_begin_Some:
  assumes "circuitMakeRoom now key m = Some m1" "\<not> blank key"
  shows "circuit_begin now key label m =
    (circuitAdmits now (circuitOf m1 key),
     gm_put key ((circuitOf m1 key)\<lparr>cr_label := label, cr_lastAccess := now,
       cr_probeInFlight := (cr_probeInFlight (circuitOf m1 key) \<or>
          (circuitAdmits now (circuitOf m1 key) \<and> \<not> is_zero (cr_cooldownUntil (circuitOf m1 key)))),
       cr_inFlight := crInFlight m1 key + (if circuitAdmits now (circuitOf m1 key) then 1 else 0)\<rparr>) m1)"
  unfolding circuit_begin_def circuitOf_def assms(1) option.case using assms(2)
  by (simp only: if_False circuit_begin_state [where c = "gm_zero zeroCircuit m1 key" and store = "\<lambda>s. gm_put key s m1"])

lemma circuit_begin_cases:
  assumes "circuit_begin now key label m = (ok, m')" "\<not> blank key"
  obtains "circuitMakeRoom now key m = None" "\<not> ok" "m' = m"
  | m1 s where "circuitMakeRoom now key m = Some m1" "m' = gm_put key s m1" "cr_inFlight s = crInFlight m1 key + (if ok then 1 else 0)"
      "cr_cooldownUntil s = cr_cooldownUntil (circuitOf m1 key)" "ok \<longleftrightarrow> circuitAdmits now (circuitOf m1 key)"
      "cr_probeInFlight s \<longleftrightarrow> cr_probeInFlight (circuitOf m1 key) \<or> (ok \<and> \<not> is_zero (cr_cooldownUntil s))"
proof (cases "circuitMakeRoom now key m")
  case None
  then show ?thesis using circuit_begin_None [OF None assms(2), of label] assms(1) by (intro that(1)) simp_all
next
  case (Some m1)
  let ?c = "circuitOf m1 key"
  define s where "s = ?c\<lparr>cr_label := label, cr_lastAccess := now,
       cr_probeInFlight := (cr_probeInFlight ?c \<or> (circuitAdmits now ?c \<and> \<not> is_zero (cr_cooldownUntil ?c))),
       cr_inFlight := crInFlight m1 key + (if circuitAdmits now ?c then 1 else 0)\<rparr>"
  have "(ok, m') = (circuitAdmits now ?c, gm_put key s m1)"
    unfolding s_def assms(1) [symmetric] by (rule circuit_begin_Some [OF Some assms(2)])
  then have "ok = circuitAdmits now ?c" "m' = gm_put key s m1" by simp_all
  then show ?thesis by (intro that(2) [OF Some, of s]) (simp_all add: s_def)
qed

lemma circuit_begin_ok:
  assumes "circuit_begin now key label m = (ok, m')" "circuitsOk m"
  shows "circuitsOk m'" "crInFlight m' k = crInFlight m k + (if ok \<and> \<not> blank key \<and> k = key then 1 else 0)"
proof -
  have "circuitsOk m' \<and> crInFlight m' k = crInFlight m k + (if ok \<and> \<not> blank key \<and> k = key then 1 else 0)"
  proof (cases "blank key")
    case True
    with assms show ?thesis by (simp add: circuit_begin_def)
  next
    case False
    from assms(1) False show ?thesis
    proof (rule circuit_begin_cases)
      fix m1 s
      assume a: "circuitMakeRoom now key m = Some m1" "m' = gm_put key s m1"
        "cr_inFlight s = crInFlight m1 key + (if ok then 1 else 0)"
      note room = circuitsOk_makeRoom [OF a(1) assms(2)]
      have "circuitsOk m'"
        using room(1,4) False a(2,3) circuitsOk_nonneg [OF room(1), of key] by (auto intro: circuitsOk_put)
      then show ?thesis using False a(2,3) room(3) by auto
    qed (use assms(2) in auto)
  qed
  then show "circuitsOk m'" "crInFlight m' k = crInFlight m k + (if ok \<and> \<not> blank key \<and> k = key then 1 else 0)" by auto
qed

text \<open>The three ways a request ends.\<close>

definition circuitEnd :: "string \<Rightarrow> circuits \<Rightarrow> circuits \<Rightarrow> bool" where
  "circuitEnd key m m' \<longleftrightarrow> m' = circuit_release key m \<or> (\<exists>rnd now latency. m' = circuit_success rnd now key latency m) \<or>
     (\<exists>rnd redact now err latency threshold base. m' = circuit_failure rnd redact now key err latency threshold base m)"

lemma circuitEndI:
  "circuitEnd key m (circuit_release key m)" "circuitEnd key m (circuit_success rnd now key latency m)"
  "circuitEnd key m (circuit_failure rnd redact now key err latency threshold base m)"
  unfolding circuitEnd_def by blast+

lemma circuit_failure_Some:
  assumes "gm_get m key = Some s" "\<not> blank key"
  obtains s' where "circuit_failure rnd redact now key err latency threshold base m = gm_put key s' m"
    "cr_inFlight s' = max 0 (cr_inFlight s - 1)" "\<not> cr_probeInFlight s'"
proof -
  show ?thesis
    by (rule that [of "circuitOf (circuit_failure rnd redact now key err latency threshold base m) key"])
      (use assms in \<open>simp_all add: circuit_failure_def Let_def\<close>)
qed

lemma circuitEnd_cases:
  assumes "circuitEnd key m m'"
  obtains "m' = m" "blank key \<or> gm_get m key = None"
  | s s' where "gm_get m key = Some s" "\<not> blank key" "m' = gm_put key s' m" "cr_inFlight s' = max 0 (cr_inFlight s - 1)" "\<not> cr_probeInFlight s'"
proof (cases "blank key \<or> gm_get m key = None")
  case True
  with assms that(1) show ?thesis
    by (auto simp: circuitEnd_def circuit_release_def circuit_success_def circuit_failure_def Let_def)
next
  case False
  then obtain s where s: "gm_get m key = Some s" "\<not> blank key" by auto
  from assms consider "m' = circuit_release key m" | rnd now latency where "m' = circuit_success rnd now key latency m"
    | rnd redact now err latency threshold base where "m' = circuit_failure rnd redact now key err latency threshold base m"
    unfolding circuitEnd_def by blast
  then show ?thesis
  proof cases
    case 1
    then show ?thesis using s that(2) by (simp add: circuit_release_def)
  next
    case 2
    then show ?thesis using s that(2) by (simp add: circuit_success_def)
  next
    case 3
    then show ?thesis using circuit_failure_Some [OF s] that(2) [OF s] by metis
  qed
qed

lemma circuitEnd_ok:
  assumes "circuitEnd key m m'" "circuitsOk m"
  shows "circuitsOk m'" "crInFlight m' k = (if k = key \<and> crInFlight m k > 0 then crInFlight m k - 1 else crInFlight m k)"
proof -
  have "circuitsOk m' \<and> crInFlight m' k = (if k = key \<and> crInFlight m k > 0 then crInFlight m k - 1 else crInFlight m k)"
    using assms(1)
  proof (rule circuitEnd_cases)
    assume a: "m' = m" "blank key \<or> gm_get m key = None"
    have "gm_get m key = None"
      using a(2) assms(2) by (cases "gm_get m key") (auto simp: circuitsOk_def dest: map_of_SomeD)
    then show ?thesis using a(1) assms(2) by (simp add: circuitOf_None)
  next
    fix s s'
    assume a: "gm_get m key = Some s" "\<not> blank key" "m' = gm_put key s' m" "cr_inFlight s' = max 0 (cr_inFlight s - 1)"
    then have "circuitsOk m'" using assms(2) by (auto intro: circuitsOk_put)
    then show ?thesis using a circuitsOk_nonneg [OF assms(2), of key] by (auto simp: circuitOf_Some)
  qed
  then show "circuitsOk m'" "crInFlight m' k = (if k = key \<and> crInFlight m k > 0 then crInFlight m k - 1 else crInFlight m k)" by auto
qed

section \<open>The ledger\<close>

definition circuitBegun :: "string \<Rightarrow> circuits \<Rightarrow> circuits \<Rightarrow> bool" where
  "circuitBegun key m m' \<longleftrightarrow> circuitsOk m \<and> \<not> blank key \<and> (\<exists>now label. circuit_begin now key label m = (True, m'))"

definition circuitEnded :: "string \<Rightarrow> circuits \<Rightarrow> circuits \<Rightarrow> bool" where
  "circuitEnded key m m' \<longleftrightarrow> circuitsOk m \<and> circuitEnd key m m'"

definition circuitRefused :: "circuits \<Rightarrow> circuits \<Rightarrow> bool" where
  "circuitRefused m m' \<longleftrightarrow> circuitsOk m \<and> (\<exists>now key label ok. circuit_begin now key label m = (ok, m') \<and> (blank key \<or> \<not> ok))"

interpretation circuit: slot_ledger crInFlight "\<lambda>g k. g = k" circuitBegun circuitEnded circuitRefused
  by unfold_locales
    (auto simp: circuitBegun_def circuitEnded_def circuitRefused_def circuit_begin_ok(2) circuitEnd_ok(2))

text \<open>The table and the keys of the requests that have begun and not yet ended.\<close>

inductive circuit_step :: "circuits \<times> string list \<Rightarrow> circuits \<times> string list \<Rightarrow> bool" where
  begun: "circuit_begin now key label m = (True, m') \<Longrightarrow> \<not> blank key \<Longrightarrow> circuit_step (m, G) (m', key # G)"
| unkeyed: "circuit_begin now key label m = (True, m') \<Longrightarrow> blank key \<Longrightarrow> circuit_step (m, G) (m', G)"
| refused: "circuit_begin now key label m = (False, m') \<Longrightarrow> circuit_step (m, G) (m', G)"
| succeeded: "key \<in> set G \<Longrightarrow> circuit_step (m, G) (circuit_success rnd now key latency m, remove1 key G)"
| failed: "key \<in> set G \<Longrightarrow>
    circuit_step (m, G) (circuit_failure rnd redact now key err latency threshold base m, remove1 key G)"
| released: "key \<in> set G \<Longrightarrow> circuit_step (m, G) (circuit_release key m, remove1 key G)"

inductive circuit_reachable :: "circuits \<times> string list \<Rightarrow> bool" where
  start: "circuit_reachable ([], [])"
| step: "circuit_reachable s \<Longrightarrow> circuit_step s t \<Longrightarrow> circuit_reachable t"

inductive_cases circuit_stepE: "circuit_step (m, G) t"

lemma circuit_step_inv:
  assumes "circuit_step (m, G) t" "circuitsOk m" "circuit.balanced m G"
  shows "circuitsOk (fst t) \<and> circuit.balanced (fst t) (snd t)"
proof -
  have end_inv: "circuitsOk m' \<and> circuit.balanced m' (remove1 key G)" if "circuitEnd key m m'" "key \<in> set G" for key m'
    using that assms(2,3) circuitEnd_ok(1) [OF that(1)]
    by (auto simp: circuitEnded_def intro: circuit.balanced_released)
  have silent: "circuitsOk m' \<and> circuit.balanced m' G"
    if "circuit_begin now key label m = (ok, m')" "blank key \<or> \<not> ok" for now key label ok m'
  proof -
    have "circuitRefused m m'" using that assms(2) unfolding circuitRefused_def by blast
    then show ?thesis using circuit_begin_ok(1) [OF that(1) assms(2)] assms(3) by (simp add: circuit.balanced_silent)
  qed
  from assms(1) show ?thesis
  proof (rule circuit_stepE)
    fix now key label m'
    assume a: "t = (m', key # G)" "circuit_begin now key label m = (True, m')" "\<not> blank key"
    then have "circuitBegun key m m'" using assms(2) by (auto simp: circuitBegun_def)
    then show ?thesis using a(1) assms(2,3) circuit_begin_ok(1) [OF a(2)] circuit.balanced_acquired by simp
  qed (simp_all add: end_inv [OF circuitEndI(1)] end_inv [OF circuitEndI(2)] end_inv [OF circuitEndI(3)] silent)
qed

lemma circuit_reachable_inv: "circuit_reachable s \<Longrightarrow> circuitsOk (fst s) \<and> circuit.balanced (fst s) (snd s)"
proof (induction rule: circuit_reachable.induct)
  case start
  then show ?case by (simp add: circuitsOk_def circuit.balanced_def circuitOf_None)
next
  case (step s t)
  then show ?case using circuit_step_inv [of "fst s" "snd s" t] by simp
qed

text \<open>
  C27. Whatever sequence of admissions, successes, failures and releases ran, with evictions in between, the
  in-flight counter of every circuit is the number of its requests that have begun and not ended, every
  entry has a key of its own, and a table holds at most 4096 circuits.
\<close>

theorem circuit_counts_exact:
  assumes "circuit_reachable (m, G)"
  shows "cr_inFlight (gm_zero zeroCircuit m k) = int (count_list G k) \<and> gm_wf m \<and> length m \<le> 4096"
proof -
  have "length (filter (\<lambda>g. g = k) G) = count_list G k" by (induction G) auto
  then show ?thesis using circuit_reachable_inv [OF assms] circuit.balanced_cnt [of m G k]
    by (simp add: circuitsOk_def maxCircuitRuntimeEntries_def circuitOf_def)
qed

theorem circuit_counts_exact_witness:
  "cr_inFlight (gm_zero zeroCircuit (snd (circuit_begin 5 ''k'' ''l'' [])) ''k'') = 1"
proof -
  have "circuit_begin 5 ''k'' ''l'' [] = (True, snd (circuit_begin 5 ''k'' ''l'' []))" by code_simp
  moreover have "\<not> blank ''k''" by code_simp
  ultimately have "circuit_step ([], []) (snd (circuit_begin 5 ''k'' ''l'' []), [''k''])" by (rule circuit_step.begun)
  then have "circuit_reachable (snd (circuit_begin 5 ''k'' ''l'' []), [''k''])" by (rule circuit_reachable.step [OF circuit_reachable.start])
  from circuit_counts_exact [OF this, of "''k''"] show ?thesis by simp
qed

section \<open>Open and half-open circuits\<close>

text \<open>A series of admissions at given times: for each its key and whether it was let through.\<close>

fun runBegins :: "(gotime \<times> string \<times> string) list \<Rightarrow> circuits \<Rightarrow> (string \<times> bool) list \<times> circuits" where
  "runBegins [] m = ([], m)"
| "runBegins ((now, key, label) # bs) m =
     (let (ok, m1) = circuit_begin now key label m; (rs, m2) = runBegins bs m1 in ((key, ok) # rs, m2))"

lemma runBegins_Cons:
  "circuit_begin now k label m = (ok, m1) \<Longrightarrow>
    runBegins ((now, k, label) # bs) m = ((k, ok) # fst (runBegins bs m1), snd (runBegins bs m1))"
  by (simp add: case_prod_unfold Let_def)

lemma circuit_begin_self:
  assumes "gm_get m key = Some s" "\<not> blank key"
  obtains s' where "circuit_begin now key label m = (circuitAdmits now s, gm_put key s' m)"
    "cr_cooldownUntil s' = cr_cooldownUntil s"
    "cr_probeInFlight s' \<longleftrightarrow> cr_probeInFlight s \<or> (circuitAdmits now s \<and> \<not> is_zero (cr_cooldownUntil s))"
proof -
  have room: "circuitMakeRoom now key m = Some m" using assms(1) by (simp add: circuitMakeRoom_def)
  obtain ok m' where b: "circuit_begin now key label m = (ok, m')" by (metis surj_pair)
  from b assms(2) show ?thesis
  proof (rule circuit_begin_cases)
    fix m1 s'
    assume "circuitMakeRoom now key m = Some m1" "m' = gm_put key s' m1" "cr_cooldownUntil s' = cr_cooldownUntil (circuitOf m1 key)"
      "ok \<longleftrightarrow> circuitAdmits now (circuitOf m1 key)"
      "cr_probeInFlight s' \<longleftrightarrow> cr_probeInFlight (circuitOf m1 key) \<or> (ok \<and> \<not> is_zero (cr_cooldownUntil s'))"
    then show ?thesis using b room assms(1) by (intro that [of s']) (auto simp: circuitOf_Some)
  qed (use room in simp)
qed

lemma circuit_begin_other:
  assumes "circuit_begin now k label m = (ok, m')" "circuitsOk m" "gm_get m key = Some s" "k \<noteq> key" "\<not> circuitEvictable now s"
  shows "gm_get m' key = Some s"
proof (cases "blank k")
  case True
  with assms show ?thesis by (simp add: circuit_begin_def)
next
  case False
  from assms(1) False show ?thesis
  proof (rule circuit_begin_cases)
    fix m1 s'
    assume room: "circuitMakeRoom now k m = Some m1" and m': "m' = gm_put k s' m1"
    have "gm_get m1 key = Some s"
      by (rule circuitMakeRoom_cases [OF room assms(2)]) (use assms(3,5) in \<open>auto simp: gm_get_del\<close>)
    then show ?thesis using m' assms(4) by (simp add: gm_get_put)
  qed (use assms(3) in simp)
qed

lemma runBegins_open:
  assumes "circuitsOk m" "gm_get m key = Some s" "\<not> blank key" "zero_time < cr_cooldownUntil s"
    and "\<forall>b \<in> set bs. fst b < cr_cooldownUntil s"
  shows "(key, True) \<notin> set (fst (runBegins bs m))"
  using assms
proof (induction bs arbitrary: m s)
  case (Cons b bs)
  obtain now k label where b: "b = (now, k, label)" by (cases b)
  obtain ok m1 where m1: "circuit_begin now k label m = (ok, m1)" by (metis surj_pair)
  have ok1: "circuitsOk m1" using circuit_begin_ok(1) [OF m1 Cons.prems(1)] .
  have now: "now < cr_cooldownUntil s" using Cons.prems(5) b by simp
  show ?case
  proof (cases "k = key")
    case True
    obtain s' where s': "circuit_begin now key label m = (circuitAdmits now s, gm_put key s' m)" "cr_cooldownUntil s' = cr_cooldownUntil s"
      using circuit_begin_self [OF Cons.prems(2,3)] by metis
    have "\<not> ok" "gm_get m1 key = Some s'" using s'(1) m1 True now by (auto simp: circuitAdmits_def gm_get_put)
    then show ?thesis using Cons.IH [OF ok1, of s'] Cons.prems s'(2) b by (simp add: runBegins_Cons [OF m1] del: runBegins.simps)
  next
    case False
    have "\<not> circuitEvictable now s" using now Cons.prems(4) by (auto simp: circuitEvictable_def)
    with False have "gm_get m1 key = Some s" using circuit_begin_other [OF m1 Cons.prems(1,2)] by simp
    then show ?thesis using Cons.IH [OF ok1, of s] Cons.prems b False by (simp add: runBegins_Cons [OF m1] del: runBegins.simps)
  qed
qed simp

lemma circuitCooldown_bounds:
  assumes "second \<le> base"
  shows "second \<le> circuitCooldown (Suc n) base \<and> circuitCooldown (Suc n) base \<le> 15 * minute"
proof -
  have "second \<le> 2 ^ e * base" for e :: nat
  proof -
    have "1 * base \<le> 2 ^ e * base" using assms by (intro mult_right_mono) (auto simp: second_def)
    then show ?thesis using assms by linarith
  qed
  then show ?thesis by (simp add: circuitCooldown_def Let_def go_time)
qed

text \<open>
  A failure that opens a circuit (of a probe, or the one that reaches the threshold on a circuit that is not open) rests the
  route for the cooldown of its opening: at least a second, at most fifteen minutes, doubled up to four times
  for repeated openings. Until then no request is admitted, whatever other keys are used meanwhile: the
  eviction of entries never forgets an open circuit.
\<close>

theorem open_circuit_rests:
  assumes "circuitsOk m" "gm_get m key = Some s" "trim_space key \<noteq> ''''" "0 \<le> now"
    and "cr_probeInFlight s \<or> (cr_cooldownUntil s \<le> now \<and> max 1 threshold \<le> cr_consecutiveFailures s + 1)"
    and "rest = circuitCooldown (cr_openCount s + 1) (max second base)"
    and "\<forall>b \<in> set bs. fst b < now + rest"
  shows "second \<le> rest \<and> rest \<le> 15 * minute \<and>
    (key, True) \<notin> set (fst (runBegins bs (circuit_failure rnd redact now key err latency threshold base m)))"
proof -
  let ?m = "circuit_failure rnd redact now key err latency threshold base m"
  have rest: "second \<le> rest \<and> rest \<le> 15 * minute" using circuitCooldown_bounds [of "max second base"] assms(6) by simp
  have m: "(if base < second then second else base) = max second base" "(if threshold < 1 then 1 else threshold) = max 1 threshold" by auto
  have "gm_get ?m key = Some (circuitOf ?m key)" "cr_cooldownUntil (circuitOf ?m key) = now + rest"
    using assms(2,3,5,6) unfolding circuit_failure_def m Let_def by (auto simp: gm_get_put)
  moreover have "circuitsOk ?m" by (rule circuitEnd_ok(1) [OF circuitEndI(3) assms(1)])
  ultimately have "(key, True) \<notin> set (fst (runBegins bs ?m))"
    using assms(3,4,7) rest by (intro runBegins_open) (auto simp: go_time)
  with rest show ?thesis by simp
qed

theorem open_circuit_rests_witness:
  "(''k'', True) \<notin> set (fst (runBegins [(8, ''k'', ''l''), (9, ''j'', ''l''), (999000000, ''k'', ''l'')]
     (circuit_failure (\<lambda>x. x) (\<lambda>x. x) 7 ''k'' None 0 1 0 [(''k'', zeroCircuit\<lparr>cr_inFlight := 1\<rparr>)])))"
  using open_circuit_rests [of "[(''k'', zeroCircuit\<lparr>cr_inFlight := 1\<rparr>)]" "''k''" "zeroCircuit\<lparr>cr_inFlight := 1\<rparr>" 7 1
      "circuitCooldown 1 second" 0 "[(8, ''k'', ''l''), (9, ''j'', ''l''), (999000000, ''k'', ''l'')]" "\<lambda>x. x" "\<lambda>x. x" None 0]
  by (simp add: circuitsOk_def maxCircuitRuntimeEntries_def zeroCircuit_def trim_space_def is_space_def circuitCooldown_def
      circuitMinInt_def go_time)

text \<open>Once a probe is on its way it stays, and nothing else gets through.\<close>

lemma runBegins_probing:
  assumes "circuitsOk m" "gm_get m key = Some s" "\<not> blank key" "\<not> is_zero (cr_cooldownUntil s)" "cr_probeInFlight s"
  shows "(key, True) \<notin> set (fst (runBegins bs m)) \<and>
    (\<exists>s'. gm_get (snd (runBegins bs m)) key = Some s')"
  using assms
proof (induction bs arbitrary: m s)
  case (Cons b bs)
  obtain now k label where b: "b = (now, k, label)" by (cases b)
  obtain ok m1 where m1: "circuit_begin now k label m = (ok, m1)" by (metis surj_pair)
  have ok1: "circuitsOk m1" using circuit_begin_ok(1) [OF m1 Cons.prems(1)] .
  show ?case
  proof (cases "k = key")
    case True
    obtain s' where s': "circuit_begin now key label m = (circuitAdmits now s, gm_put key s' m)"
      "cr_cooldownUntil s' = cr_cooldownUntil s" "cr_probeInFlight s'"
      using circuit_begin_self [OF Cons.prems(2,3)] Cons.prems(5) by metis
    have "\<not> ok" "gm_get m1 key = Some s'" using s'(1) m1 True Cons.prems(4,5) by (auto simp: circuitAdmits_def gm_get_put)
    then show ?thesis using Cons.IH [OF ok1, of s'] Cons.prems s' b
      by (simp add: runBegins_Cons [OF m1] del: runBegins.simps)
  next
    case False
    have "\<not> circuitEvictable now s" using Cons.prems(5) by (auto simp: circuitEvictable_def)
    with False have "gm_get m1 key = Some s" using circuit_begin_other [OF m1 Cons.prems(1,2)] by simp
    then show ?thesis using Cons.IH [OF ok1, of s] Cons.prems b False
      by (simp add: runBegins_Cons [OF m1] del: runBegins.simps)
  qed
qed auto

lemma runBegins_half_open:
  assumes "circuitsOk m" "gm_get m key = Some s" "\<not> blank key" "\<not> is_zero (cr_cooldownUntil s)" "\<not> cr_probeInFlight s"
    and "\<forall>b \<in> set bs. cr_cooldownUntil s \<le> fst b \<and> time_sub (fst b) (cr_lastAccess s) < hour"
  shows "count_list (fst (runBegins bs m)) (key, True) = (if key \<in> fst ` snd ` set bs then 1 else 0) \<and>
    (\<exists>s'. gm_get (snd (runBegins bs m)) key = Some s')"
  using assms
proof (induction bs arbitrary: m)
  case (Cons b bs)
  obtain now k label where b: "b = (now, k, label)" by (cases b)
  obtain ok m1 where m1: "circuit_begin now k label m = (ok, m1)" by (metis surj_pair)
  have ok1: "circuitsOk m1" using circuit_begin_ok(1) [OF m1 Cons.prems(1)] .
  show ?case
  proof (cases "k = key")
    case True
    obtain s' where s': "circuit_begin now key label m = (circuitAdmits now s, gm_put key s' m)" "cr_cooldownUntil s' = cr_cooldownUntil s"
      "cr_probeInFlight s' \<longleftrightarrow> cr_probeInFlight s \<or> (circuitAdmits now s \<and> \<not> is_zero (cr_cooldownUntil s))"
      using circuit_begin_self [OF Cons.prems(2,3)] by metis
    have adm: "circuitAdmits now s" using Cons.prems(5,6) b by (simp add: circuitAdmits_def)
    then have "ok" "gm_get m1 key = Some s'" "cr_probeInFlight s'" using s' m1 True Cons.prems(4) by (auto simp: gm_get_put)
    then show ?thesis using runBegins_probing [OF ok1, of key s' bs] Cons.prems(3,4) s'(2) b True
      by (simp add: runBegins_Cons [OF m1 [unfolded True]] count_list_0_iff del: runBegins.simps)
  next
    case False
    have "\<not> circuitEvictable now s" using Cons.prems(4,6) b by (auto simp: circuitEvictable_def)
    with False have "gm_get m1 key = Some s" using circuit_begin_other [OF m1 Cons.prems(1,2)] by simp
    then show ?thesis using Cons.IH [OF ok1] Cons.prems b False
      by (simp add: runBegins_Cons [OF m1] del: runBegins.simps)
  qed
qed auto

text \<open>
  A circuit whose cooldown has passed admits exactly one of any number of requests for it as a probe (within an
  hour of its last use, when it cannot be evicted) until that probe ends; once the probe succeeds every request is admitted again.
\<close>

theorem half_open_circuit_single_probe:
  assumes "circuitsOk m" "gm_get m key = Some s" "trim_space key \<noteq> ''''" "\<not> is_zero (cr_cooldownUntil s)" "\<not> cr_probeInFlight s"
    and "\<forall>b \<in> set bs. cr_cooldownUntil s \<le> fst b \<and> time_sub (fst b) (cr_lastAccess s) < hour" and "0 \<le> later"
  shows "count_list (fst (runBegins bs m)) (key, True) = (if key \<in> fst ` snd ` set bs then 1 else 0) \<and>
    fst (circuit_begin later key label (circuit_success rnd now key latency (snd (runBegins bs m))))"
proof -
  note r = runBegins_half_open [OF assms(1-6)]
  then obtain s' where s': "gm_get (snd (runBegins bs m)) key = Some s'" by auto
  let ?m = "circuit_success rnd now key latency (snd (runBegins bs m))"
  obtain t where t: "gm_get ?m key = Some t" "is_zero (cr_cooldownUntil t)"
    using s' assms(3) by (auto simp: circuit_success_def gm_get_put)
  obtain t' where "circuit_begin later key label ?m = (circuitAdmits later t, gm_put key t' ?m)"
    using circuit_begin_self [OF t(1) assms(3)] by metis
  moreover have "circuitAdmits later t" using t(2) assms(7) by (simp add: circuitAdmits_def zero_time_def)
  ultimately show ?thesis using r by simp
qed

theorem half_open_circuit_single_probe_witness:
  "count_list (fst (runBegins [(8, ''k'', ''l''), (9, ''j'', ''l''), (10, ''k'', ''l'')]
     [(''k'', zeroCircuit\<lparr>cr_cooldownUntil := 7\<rparr>)])) (''k'', True) = 1"
  using half_open_circuit_single_probe [of "[(''k'', zeroCircuit\<lparr>cr_cooldownUntil := 7\<rparr>)]" "''k''" "zeroCircuit\<lparr>cr_cooldownUntil := 7\<rparr>"
      "[(8, ''k'', ''l''), (9, ''j'', ''l''), (10, ''k'', ''l'')]" 20]
  by (simp add: circuitsOk_def maxCircuitRuntimeEntries_def zeroCircuit_def trim_space_def is_space_def time_sub_def go_time)

text \<open>
  The probe flag belongs to the circuit and not to the request that set it: when a request from before
  the circuit opened is released while the probe is on its way, a second probe is admitted.
\<close>

lemma stale_release_admits_second_probe:
  "let m0 = [(''k'', zeroCircuit\<lparr>cr_cooldownUntil := 7, cr_inFlight := 1\<rparr>)];
       (probe1, m1) = circuit_begin 8 ''k'' ''l'' m0;
       (probe2, m2) = circuit_begin 9 ''k'' ''l'' (circuit_release ''k'' m1)
   in probe1 \<and> probe2 \<and> cr_inFlight (circuitOf m2 ''k'') = 2"
  by code_simp

end
