(* ===== verification/Upstream_Error_Props.thy ===== *)
theory Upstream_Error_Props
  imports Upstream_Error
begin

text \<open>
  What the classification of upstream failures guarantees: the retry policy of an error is a function
  of its kind, the client never sees a status that blames its own credentials, the \<open>Retry-After\<close>
  header rounds up, and the attempt budget bounds the work of one request.
\<close>

section \<open>The retry policy\<close>

definition endpointRetryKinds :: "UpstreamErrorKind set" where
  "endpointRetryKinds = {UpstreamErrorForbidden, UpstreamErrorQuota, UpstreamErrorRateLimit,
     UpstreamErrorModelUnavailable, UpstreamErrorEndpointUnavailable, UpstreamErrorTransient}"

definition accountStateKinds :: "UpstreamErrorKind set" where
  "accountStateKinds = {UpstreamErrorSuspended, UpstreamErrorAuthRevoked, UpstreamErrorTokenExpired,
     UpstreamErrorFirstTokenTimeout}"

lemma upstreamError_sel [simp]:
  "ue_Kind (upstreamError k ep m re ra) = k" "ue_Endpoint (upstreamError k ep m re ra) = ep"
  "ue_RetryAcrossEndpoints (upstreamError k ep m re ra) = re" "ue_RetryAcrossAccounts (upstreamError k ep m re ra) = ra"
  "ue_RefreshToken (upstreamError k ep m re ra) = False" "ue_RetryAfter (upstreamError k ep m re ra) = 0"
  "ue_StatusCode (upstreamError k ep m re ra) = 0"
  by (simp_all add: upstreamError_def)

lemma truncateUpstreamBody_length: "length (truncateUpstreamBody body) \<le> 2051"
  by (simp add: truncateUpstreamBody_def Let_def)

text \<open>
  Whatever the body says, the classification of an HTTP failure keeps its status and endpoint and
  at most 2051 bytes of the body, and its policy is a function of its kind: it is retried on
  another account exactly when it is not the request's own fault, on another endpoint exactly for
  the kinds that are specific to one data plane, and with a refreshed token exactly when
  the token expired. The kinds it can produce are the ones listed: it never leaves an error unknown.
\<close>

theorem classify_retry_policy:
  "ue_StatusCode (classifyUpstreamHTTPError unmarshal st ep body) = st \<and>
   ue_Endpoint (classifyUpstreamHTTPError unmarshal st ep body) = ep \<and>
   length (ue_Body (classifyUpstreamHTTPError unmarshal st ep body)) \<le> 2051 \<and>
   (ue_RetryAcrossAccounts (classifyUpstreamHTTPError unmarshal st ep body) \<longleftrightarrow>
      ue_Kind (classifyUpstreamHTTPError unmarshal st ep body) \<noteq> UpstreamErrorClientRequest) \<and>
   (ue_RetryAcrossEndpoints (classifyUpstreamHTTPError unmarshal st ep body) \<longleftrightarrow>
      ue_Kind (classifyUpstreamHTTPError unmarshal st ep body) \<in> endpointRetryKinds) \<and>
   (ue_RefreshToken (classifyUpstreamHTTPError unmarshal st ep body) \<longleftrightarrow>
      ue_Kind (classifyUpstreamHTTPError unmarshal st ep body) = UpstreamErrorTokenExpired) \<and>
   ue_Kind (classifyUpstreamHTTPError unmarshal st ep body) \<in>
      insert UpstreamErrorClientRequest (endpointRetryKinds \<union> accountStateKinds)"
  using truncateUpstreamBody_length [of body]
  unfolding classifyUpstreamHTTPError_def Let_def
  by (simp add: endpointRetryKinds_def accountStateKinds_def split: prod.split)

section \<open>The answer to the client\<close>

definition clientStatuses :: "int set" where
  "clientStatuses = {400, 403, 413, 422, 429, 499, 502, 503, 504}"

lemma statusOfKind_client: "statusOfKind u cause \<in> clientStatuses"
  by (auto simp: statusOfKind_def clientStatuses_def split: UpstreamErrorKind.split option.split)

lemma firstJust_Some: "firstJust f xs = Some y \<Longrightarrow> \<exists>x \<in> set xs. f x = Some y"
  by (induction xs) (auto split: option.splits)

text \<open>A status in the \<open>4xx\<close> range other than 499 comes with the error types that say so.\<close>

definition typesMatch :: "downstreamError \<Rightarrow> bool" where
  "typesMatch d \<longleftrightarrow>
     (de_Status d = 429 \<longleftrightarrow> de_ClaudeType d = ''rate_limit_error'') \<and>
     (de_Status d = 403 \<longleftrightarrow> de_ClaudeType d = ''permission_error'') \<and>
     (de_Status d \<in> {400, 413, 422} \<longleftrightarrow> de_ClaudeType d = ''invalid_request_error'') \<and>
     (de_ClaudeType d = ''api_error'' \<longleftrightarrow> de_OpenAIType d = ''server_error'')"

lemma kind_types_match: "typesMatch (r\<lparr>de_Status := statusOfKind u cause, de_ClaudeType := fst (typesOfKind (ue_Kind u)),
    de_OpenAIType := snd (typesOfKind (ue_Kind u)), de_RetryAfter := h\<rparr>)"
  by (simp add: typesMatch_def statusOfKind_def typesOfKind_def split: UpstreamErrorKind.split option.split)


section \<open>The \<open>Retry-After\<close> header\<close>

lemma wrap64_id: "- (2 ^ 63) \<le> x \<Longrightarrow> x < 2 ^ 63 \<Longrightarrow> wrap64 x = x"
  by (simp add: wrap64_def)

lemma show_int_1: "show_int 1 = ''1''"
  by code_simp

lemma retryAfterSeconds_ceil:
  assumes "0 < d" "d \<le> 2 ^ 63 - second"
  shows "retryAfterSeconds d = show_int ((d + second - 1) div second)"
proof -
  have "wrap64 (d + second - 1) = d + second - 1" using assms by (intro wrap64_id) (simp_all add: second_def)
  moreover have "1 \<le> (d + second - 1) div second" using assms by (simp add: second_def)
  ultimately show ?thesis using assms by (simp add: retryAfterSeconds_def quot_def second_def)
qed

text \<open>
  The \<open>Retry-After\<close> header of a busy pool is the waiting time in whole seconds, rounded up: a
  client that waits as long as it is told does not come back early, nor a second too late. The rounding
  is exact up to the largest duration less one second; at the largest duration itself, to which the
  distance of a date saturates, the addition wraps around and the header says one second.
\<close>

theorem retry_after_rounds_up:
  assumes "0 < ub_RetryAfter busy" "ub_RetryAfter busy \<le> 2 ^ 63 - second"
  shows "(\<exists>n. de_RetryAfter (mapDownstreamError (Some (BusyError busy))) = show_int n \<and>
      (n - 1) * second < ub_RetryAfter busy \<and> ub_RetryAfter busy \<le> n * second) \<and>
    de_RetryAfter (mapDownstreamError (Some (BusyError (busy\<lparr>ub_RetryAfter := 2 ^ 63 - 1\<rparr>)))) = ''1''"
proof (intro conjI exI)
  let ?n = "(ub_RetryAfter busy + second - 1) div second"
  have m: "de_RetryAfter (mapDownstreamError (Some (BusyError b))) = retryAfterSeconds (ub_RetryAfter b)"
    if "0 < ub_RetryAfter b" for b
    using that by (simp add: mapDownstreamError_def isAccountSelectionTimeout_def errors_Is_def asNetError_def asBusyError_def)
  show "de_RetryAfter (mapDownstreamError (Some (BusyError busy))) = show_int ?n"
    using assms by (simp add: m retryAfterSeconds_ceil)
  show "(?n - 1) * second < ub_RetryAfter busy" "ub_RetryAfter busy \<le> ?n * second"
    by (simp_all add: second_def)
  show "de_RetryAfter (mapDownstreamError (Some (BusyError (busy\<lparr>ub_RetryAfter := 2 ^ 63 - 1\<rparr>)))) = ''1''"
    by (simp add: m) (simp add: retryAfterSeconds_def wrap64_def quot_def second_def show_int_1)
qed

theorem retry_after_rounds_up_witness:
  "\<exists>n. de_RetryAfter (mapDownstreamError (Some (BusyError
      \<lparr>ub_Model = ''m'', ub_RetryAfter = 2500000000, ub_Description = ''''\<rparr>))) = show_int n \<and> 2500000000 \<le> n * second"
  using retry_after_rounds_up [of "\<lparr>ub_Model = ''m'', ub_RetryAfter = 2500000000, ub_Description = ''''\<rparr>"]
  by (auto simp: second_def)

section \<open>The attempt budget\<close>

text \<open>
  What a request does with its budget, one operation after the other, and the outcome: the times
  at which an attempt was granted and the number of retries granted after an empty response.
\<close>

datatype BudgetOp = TakeAt gotime | EmptyResponse | Failed string "goError option"

fun runBudget :: "BudgetOp list \<Rightarrow> upstreamAttemptBudget option \<Rightarrow> gotime list \<times> nat" where
  "runBudget [] b = ([], 0)"
| "runBudget (TakeAt now # ops) b =
     (let (ok, b') = budget_take now b; (granted, retries) = runBudget ops b'
      in (if ok then now # granted else granted, retries))"
| "runBudget (EmptyResponse # ops) b =
     (let ((retry, exhausted), b') = budget_recordEmpty b; (granted, retries) = runBudget ops b'
      in (granted, if retry then Suc retries else retries))"
| "runBudget (Failed endpoint err # ops) b = runBudget ops (budget_recordFailure endpoint err b)"

lemma budget_recordFailure_Some:
  "\<exists>b'. budget_recordFailure ep err (Some b) = Some b' \<and> ab_attempts b' = ab_attempts b \<and>
     ab_emptyResponses b' = ab_emptyResponses b \<and> ab_maxAttempts b' = ab_maxAttempts b \<and> ab_maxEmpty b' = ab_maxEmpty b \<and>
     ab_maxEmptyTotal b' = ab_maxEmptyTotal b \<and> ab_startedAt b' = ab_startedAt b \<and> ab_maxDuration b' = ab_maxDuration b"
  by (auto simp: budget_recordFailure_def Let_def split: option.split)

lemma budget_take_cases:
  obtains "budget_take now (Some b) = (False, Some b)"
  | "budget_take now (Some b) = (True, Some (b\<lparr>ab_attempts := ab_attempts b + 1\<rparr>))"
    "0 < ab_maxDuration b \<Longrightarrow> time_sub now (ab_startedAt b) < ab_maxDuration b"
    "0 < ab_maxAttempts b \<Longrightarrow> ab_attempts b < ab_maxAttempts b"
  by (cases "fst (budget_take now (Some b))") (auto simp: budget_take_def split: if_splits)

lemma budget_recordEmpty_cases:
  obtains x where "budget_recordEmpty (Some b) = ((False, x), Some b)"
  | x where "budget_recordEmpty (Some b) = ((False, x), Some (b\<lparr>ab_emptyResponses := ab_emptyResponses b + 1\<rparr>))"
  | "budget_recordEmpty (Some b) = ((True, False), Some (b\<lparr>ab_emptyResponses := ab_emptyResponses b + 1\<rparr>))"
    "0 < ab_maxEmptyTotal b \<Longrightarrow> ab_emptyResponses b + 1 < ab_maxEmptyTotal b" "ab_emptyResponses b + 1 \<le> ab_maxEmpty b"
  by (cases "fst (fst (budget_recordEmpty (Some b)))") (auto simp: budget_recordEmpty_def Let_def split: if_splits)

text \<open>
  The three bounds in one induction over the operations: attempts still to grant, the time of every
  grant, and retries still to grant.
\<close>

definition budgetBounds :: "upstreamAttemptBudget \<Rightarrow> gotime list \<times> nat \<Rightarrow> bool" where
  "budgetBounds b = (\<lambda>(granted, retries).
     (0 < ab_maxAttempts b \<and> ab_attempts b \<le> ab_maxAttempts b \<longrightarrow> int (length granted) \<le> ab_maxAttempts b - ab_attempts b) \<and>
     (0 < ab_maxDuration b \<longrightarrow> (\<forall>t \<in> set granted. time_sub t (ab_startedAt b) < ab_maxDuration b)) \<and>
     (0 < ab_maxEmptyTotal b \<longrightarrow>
        int retries \<le> max 0 (min (ab_maxEmpty b) (ab_maxEmptyTotal b - 1) - ab_emptyResponses b)))"

lemma runBudget_bounds: "budgetBounds b (runBudget ops (Some b))"
proof (induction ops arbitrary: b)
  case Nil
  then show ?case by (simp add: budgetBounds_def)
next
  case (Cons op ops)
  note IH = Cons.IH [unfolded budgetBounds_def]
  show ?case
  proof (cases op)
    case (TakeAt now)
    show ?thesis
      by (rule budget_take_cases [of now b])
        (insert IH [of b] IH [of "b\<lparr>ab_attempts := ab_attempts b + 1\<rparr>"],
         auto simp: TakeAt budgetBounds_def split: prod.splits)
  next
    case EmptyResponse
    show ?thesis
      by (rule budget_recordEmpty_cases [of b])
        (insert IH [of b] IH [of "b\<lparr>ab_emptyResponses := ab_emptyResponses b + 1\<rparr>"],
         auto simp: EmptyResponse budgetBounds_def split: prod.splits)
  next
    case (Failed ep err)
    obtain b' where b': "budget_recordFailure ep err (Some b) = Some b'" "ab_attempts b' = ab_attempts b"
      "ab_emptyResponses b' = ab_emptyResponses b" "ab_maxAttempts b' = ab_maxAttempts b" "ab_maxEmpty b' = ab_maxEmpty b"
      "ab_maxEmptyTotal b' = ab_maxEmptyTotal b" "ab_startedAt b' = ab_startedAt b" "ab_maxDuration b' = ab_maxDuration b"
      using budget_recordFailure_Some [of ep err b] by blast
    show ?thesis using Cons.IH [of b'] by (simp add: Failed b' budgetBounds_def)
  qed
qed

lemma runBudget_takes:
  assumes "\<forall>t \<in> set ts. ab_maxDuration b \<le> 0 \<or> time_sub t (ab_startedAt b) < ab_maxDuration b"
    and "0 < ab_maxAttempts b" "ab_attempts b \<le> ab_maxAttempts b"
  shows "fst (runBudget (map TakeAt ts) (Some b)) = take (nat (ab_maxAttempts b - ab_attempts b)) ts"
  using assms
proof (induction ts arbitrary: b)
  case (Cons t ts)
  show ?case
  proof (cases "ab_attempts b < ab_maxAttempts b")
    case True
    let ?b = "b\<lparr>ab_attempts := ab_attempts b + 1\<rparr>"
    have "fst (runBudget (map TakeAt ts) (Some ?b)) = take (nat (ab_maxAttempts ?b - ab_attempts ?b)) ts"
      using Cons.prems True by (intro Cons.IH) auto
    moreover have "budget_take t (Some b) = (True, Some ?b)" using Cons.prems True by (auto simp: budget_take_def)
    moreover have "nat (ab_maxAttempts b - ab_attempts b) = Suc (nat (ab_maxAttempts b - (ab_attempts b + 1)))" using True by linarith
    ultimately show ?thesis by (simp add: case_prod_unfold Let_def)
  next
    case False
    then have "ab_attempts b = ab_maxAttempts b" using Cons.prems(3) by simp
    moreover have "budget_take t (Some b) = (False, Some b)" using False Cons.prems by (simp add: budget_take_def)
    ultimately show ?thesis using Cons.IH [of b] Cons.prems by (simp add: case_prod_unfold Let_def)
  qed
qed simp

text \<open>
  C32. However a request mixes attempts, empty responses and failures, the budget made from the settings
  grants at most \<open>MaxUpstreamAttempts\<close> attempts, none at or after the end of the retry window (when there is one), and at most
  \<open>EmptyResponseRetries\<close> and at most five retries after empty responses; and it is not stingy: of attempts
  asked for within the window exactly the first \<open>MaxUpstreamAttempts\<close> are granted.
\<close>

theorem attempt_budget_bounded:
  assumes "retryOk retry" "runBudget ops (Some (newUpstreamAttemptBudget retry now)) = (granted, retries)"
    and "\<forall>t \<in> set ts. time_sub t now < rt_MaxRetryDurationSeconds retry * second"
  shows "int (length granted) \<le> rt_MaxUpstreamAttempts retry \<and>
    (0 < rt_MaxRetryDurationSeconds retry \<longrightarrow> (\<forall>t \<in> set granted. time_sub t now < rt_MaxRetryDurationSeconds retry * second)) \<and>
    int retries \<le> min (rt_EmptyResponseRetries retry) 5 \<and>
    fst (runBudget (map TakeAt ts) (Some (newUpstreamAttemptBudget retry now))) = take (nat (rt_MaxUpstreamAttempts retry)) ts"
proof -
  let ?b = "newUpstreamAttemptBudget retry now"
  have r: "1 \<le> rt_MaxUpstreamAttempts retry" "0 \<le> rt_EmptyResponseRetries retry" using assms(1) by (auto simp: retryOk_def)
  have "budgetBounds ?b (granted, retries)" using runBudget_bounds [of ?b ops] assms(2) by simp
  moreover have "fst (runBudget (map TakeAt ts) (Some ?b)) = take (nat (rt_MaxUpstreamAttempts retry)) ts"
    using runBudget_takes [of ts ?b] assms(3) r by (simp add: newUpstreamAttemptBudget_def)
  ultimately show ?thesis using r by (auto simp: budgetBounds_def newUpstreamAttemptBudget_def second_def)
qed

theorem attempt_budget_bounded_witness:
  "length (fst (runBudget [TakeAt 5, EmptyResponse, TakeAt 6] (Some (newUpstreamAttemptBudget defaultRetryConfig 1)))) \<le> 12 \<and>
   fst (runBudget (map TakeAt [2, 3]) (Some (newUpstreamAttemptBudget defaultRetryConfig 1))) = [2, 3]"
proof -
  obtain granted retries where r: "runBudget [TakeAt 5, EmptyResponse, TakeAt 6] (Some (newUpstreamAttemptBudget defaultRetryConfig 1)) = (granted, retries)"
    by (metis surj_pair)
  have t: "\<forall>t \<in> set [2, 3]. time_sub t 1 < rt_MaxRetryDurationSeconds defaultRetryConfig * second"
    by (simp add: time_sub_def defaultRetryConfig_def second_def)
  show ?thesis using attempt_budget_bounded [OF retryOk_default r t] r by (simp add: defaultRetryConfig_def)
qed

end
