(* ===== verification/Failover.thy ===== *)
theory Failover
  imports Upstream_Error
begin

text \<open>
  The selection of an account for a request and the reaction to its failure, \<open>proxy/account_failover.go\<close>.

  \<^item> \<open>accountAttemptController\<close> counts the attempts of one request, measures the time spent selecting and waits
    between rounds. What a call reads from outside is an argument: the clock, the state of the request's
    and of the server's context (\<open>RoundCtx\<close>), and what happened during a wait (\<open>WaitObs\<close>).
  \<^item> \<open>acquireNextAccountForRequest\<close> is the loop around the pool's \<open>AcquireForModel\<close>. Other requests change the
    pool between two rounds, so every round reads the pool, the configuration and the clock from \<open>env\<close>. The loop
    has fuel; \<open>None\<close> means that the fuel ran out. The deferred call that records timings on the payload is left out.
  \<^item> \<open>handleAccountFailure\<close> and \<open>handleAccountFailureForModel\<close> act on the configuration and the pool. The result of asking
    the upstream for the overage status is the argument \<open>fetched\<close>, \<open>saved\<close> whether the configuration could be written. Log
    lines and alerts are left out.
\<close>

section \<open>The configuration's account updates\<close>

record AccountStatusPatch =
  sp_Enabled :: "bool option"
  sp_BanStatus :: "string option"
  sp_BanReason :: "string option"
  sp_BanTime :: "int option"

definition orKeep :: "'a option \<Rightarrow> 'a \<Rightarrow> 'a" where
  "orKeep new old = (case new of None \<Rightarrow> old | Some v \<Rightarrow> v)"

definition patchStatus :: "AccountStatusPatch \<Rightarrow> Account \<Rightarrow> Account" where
  "patchStatus patch a = a\<lparr>acc_Enabled := orKeep (sp_Enabled patch) (acc_Enabled a),
     acc_BanStatus := orKeep (sp_BanStatus patch) (acc_BanStatus a),
     acc_BanReason := orKeep (sp_BanReason patch) (acc_BanReason a),
     acc_BanTime := orKeep (sp_BanTime patch) (acc_BanTime a)\<rparr>"

text \<open>Changing the first account with the id, as the loops over \<open>cfg.Accounts\<close> do.\<close>

fun updateFirst :: "string \<Rightarrow> (Account \<Rightarrow> Account) \<Rightarrow> Account list \<Rightarrow> Account list" where
  "updateFirst aid f [] = []"
| "updateFirst aid f (a # as) = (if acc_ID a = aid then f a # as else a # updateFirst aid f as)"

fun firstAccount :: "string \<Rightarrow> Account list \<Rightarrow> Account option" where
  "firstAccount aid [] = None"
| "firstAccount aid (a # as) = (if acc_ID a = aid then Some a else firstAccount aid as)"

text \<open>\<open>None\<close> for an error: no such account, or the file was not written, which restores the account.\<close>

definition PatchAccountStatus :: "bool \<Rightarrow> string \<Rightarrow> AccountStatusPatch \<Rightarrow> Config \<Rightarrow> Account option \<times> Config" where
  "PatchAccountStatus saved aid patch cfg =
     (case firstAccount aid (cfg_Accounts cfg) of
        None \<Rightarrow> (None, cfg)
      | Some a \<Rightarrow>
          if saved then (Some (patchStatus patch a), cfg\<lparr>cfg_Accounts := updateFirst aid (patchStatus patch) (cfg_Accounts cfg)\<rparr>)
          else (None, cfg))"

text \<open>
  \<open>UpdateAccountOverageStatus\<close> as far as the account record goes: of the fields it writes the pool reads
  \<open>OverageStatus\<close> only. The change stays in memory when the file cannot be written; the result is whether there was no error.
\<close>

definition UpdateAccountOverageStatus :: "bool \<Rightarrow> string \<Rightarrow> string \<Rightarrow> Config \<Rightarrow> bool \<times> Config" where
  "UpdateAccountOverageStatus saved aid status cfg =
     (case firstAccount aid (cfg_Accounts cfg) of
        None \<Rightarrow> (True, cfg)
      | Some a \<Rightarrow>
          (saved, cfg\<lparr>cfg_Accounts := updateFirst aid
             (\<lambda>a. if status \<noteq> '''' then a\<lparr>acc_OverageStatus := status\<rparr> else a) (cfg_Accounts cfg)\<rparr>))"

section \<open>The attempt controller\<close>

definition accountRetryInitialDelay :: duration where "accountRetryInitialDelay = 500 * millisecond"
definition accountRetryMinimumDelay :: duration where "accountRetryMinimumDelay = 250 * millisecond"
definition accountRetryMaximumDelay :: duration where "accountRetryMaximumDelay = 5 * second"
definition accountUnlimitedAttemptMinimum :: int where "accountUnlimitedAttemptMinimum = 128"
definition accountUnlimitedAttemptMaximum :: int where "accountUnlimitedAttemptMaximum = 512"

record accountAttemptController =
  ac_maxAttempts :: int
  ac_attempts :: int
  ac_rounds :: nat
  ac_excluded :: "(string, bool) gomap"
  ac_selectionDeadline :: gotime
  ac_selectionTimeout :: duration
  ac_selectionStarted :: gotime
  ac_selectionElapsed :: duration
  ac_selectionActive :: bool
  ac_selectionTimedOut :: bool
  ac_unlimitedAttemptCap :: int
  ac_attemptCapReached :: bool
  ac_queueWaitElapsed :: duration
  ac_queueWaitCount :: int
  ac_waitQueueFull :: bool

definition newAccountAttemptController :: "int \<Rightarrow> accountAttemptController" where
  "newAccountAttemptController maxAttempts =
     \<lparr>ac_maxAttempts = maxAttempts, ac_attempts = 0, ac_rounds = 0, ac_excluded = [], ac_selectionDeadline = zero_time,
      ac_selectionTimeout = 0, ac_selectionStarted = zero_time, ac_selectionElapsed = 0, ac_selectionActive = False,
      ac_selectionTimedOut = False, ac_unlimitedAttemptCap = 0, ac_attemptCapReached = False, ac_queueWaitElapsed = 0,
      ac_queueWaitCount = 0, ac_waitQueueFull = False\<rparr>"

definition setSelectionTimeout :: "duration \<Rightarrow> accountAttemptController \<Rightarrow> accountAttemptController" where
  "setSelectionTimeout timeout c =
     (if timeout \<le> 0 then c
      else c\<lparr>ac_selectionTimeout := timeout, ac_selectionDeadline := zero_time, ac_selectionStarted := zero_time,
             ac_selectionElapsed := 0, ac_selectionActive := False, ac_selectionTimedOut := False\<rparr>)"

text \<open>The constructor of the handler, with its pool.\<close>

definition handlerController :: "RetryConfig \<Rightarrow> AccountPool \<Rightarrow> accountAttemptController" where
  "handlerController retry p =
     (let c = setSelectionTimeout (rt_AccountSelectionTimeoutSeconds retry * second)
                (newAccountAttemptController (rt_MaxAccountAttempts retry));
          cap0 = int (Count p) * 2;
          cap1 = (if cap0 < accountUnlimitedAttemptMinimum then accountUnlimitedAttemptMinimum else cap0);
          cap2 = (if cap1 > accountUnlimitedAttemptMaximum then accountUnlimitedAttemptMaximum else cap1)
      in if rt_MaxAccountAttempts retry = 0 then c\<lparr>ac_unlimitedAttemptCap := cap2\<rparr> else c)"

text \<open>What a call sees of the request's context, the server's context and the clock.\<close>

record RoundCtx =
  rc_request :: "goError option"
  rc_shutdown :: "goError option"
  rc_now :: gotime

definition selectionTimeoutError :: "accountAttemptController \<Rightarrow> goError" where
  "selectionTimeoutError c =
     WrapError (''account selection timed out after '' @ durText (ac_selectionTimeout c)) ErrAccountSelectionTimeout"

definition stopErr :: "RoundCtx \<Rightarrow> accountAttemptController \<Rightarrow> goError option \<times> accountAttemptController" where
  "stopErr ctx c =
     (case rc_request ctx of Some e \<Rightarrow> (Some e, c)
      | None \<Rightarrow>
          (case rc_shutdown ctx of Some e \<Rightarrow> (Some e, c)
           | None \<Rightarrow>
               if ac_selectionTimedOut c then (Some (selectionTimeoutError c), c)
               else if ac_attemptCapReached c
               then (Some (WrapError (''account selection attempt limit reached after '' @ show_int (ac_attempts c) @ '' attempts'')
                       ErrAccountAttemptLimit), c)
               else if \<not> ac_selectionActive c \<or> is_zero (ac_selectionDeadline c) then (None, c)
               else if \<not> rc_now ctx < ac_selectionDeadline c
               then (Some (selectionTimeoutError c), c\<lparr>ac_selectionTimedOut := True\<rparr>)
               else (None, c)))"

definition beginSelection :: "gotime \<Rightarrow> accountAttemptController \<Rightarrow> bool \<times> accountAttemptController" where
  "beginSelection now c =
     (if ac_selectionTimeout c \<le> 0 then (True, c)
      else if ac_selectionTimedOut c \<or> ac_selectionActive c then (\<not> ac_selectionTimedOut c, c)
      else let remaining = ac_selectionTimeout c - ac_selectionElapsed c
           in if remaining \<le> 0 then (False, c\<lparr>ac_selectionTimedOut := True\<rparr>)
              else (True, c\<lparr>ac_selectionStarted := now, ac_selectionDeadline := now + remaining, ac_selectionActive := True\<rparr>))"

definition finishSelection :: "gotime \<Rightarrow> accountAttemptController \<Rightarrow> accountAttemptController" where
  "finishSelection now c =
     (if \<not> ac_selectionActive c then c
      else c\<lparr>ac_selectionElapsed := ac_selectionElapsed c + time_sub now (ac_selectionStarted c),
             ac_selectionStarted := zero_time, ac_selectionDeadline := zero_time, ac_selectionActive := False\<rparr>)"

definition next_attempt :: "RoundCtx \<Rightarrow> accountAttemptController \<Rightarrow> bool \<times> accountAttemptController" where
  "next_attempt ctx c0 =
     (case beginSelection (rc_now ctx) c0 of
        (False, c) \<Rightarrow> (False, c)
      | (True, c1) \<Rightarrow>
          (case stopErr ctx c1 of
             (Some e, c) \<Rightarrow> (False, c)
           | (None, c) \<Rightarrow>
               if ac_maxAttempts c > 0 \<and> ac_attempts c \<ge> ac_maxAttempts c then (False, c)
               else if ac_maxAttempts c = 0 \<and> ac_unlimitedAttemptCap c > 0 \<and> ac_attempts c \<ge> ac_unlimitedAttemptCap c
               then (False, c\<lparr>ac_attemptCapReached := True\<rparr>)
               else (True, c\<lparr>ac_attempts := ac_attempts c + 1\<rparr>)))"

text \<open>The doubling loop of \<open>roundDelay\<close>, with its counter and the delay.\<close>

fun roundDelayLoop :: "nat \<Rightarrow> duration \<Rightarrow> duration" where
  "roundDelayLoop 0 delay = delay"
| "roundDelayLoop (Suc n) delay =
     (if delay < accountRetryMaximumDelay
      then let delay' = delay * 2
           in if delay' \<ge> accountRetryMaximumDelay then accountRetryMaximumDelay else roundDelayLoop n delay'
      else delay)"

definition roundDelay :: "duration \<Rightarrow> accountAttemptController \<Rightarrow> duration" where
  "roundDelay retryAfter c =
     (if retryAfter > 0
      then (if retryAfter < accountRetryMinimumDelay then accountRetryMinimumDelay
            else if retryAfter > accountRetryMaximumDelay then accountRetryMaximumDelay else retryAfter)
      else roundDelayLoop (ac_rounds c) accountRetryInitialDelay)"

definition selectionTimeRemaining :: "gotime \<Rightarrow> accountAttemptController \<Rightarrow> duration" where
  "selectionTimeRemaining now c =
     (if \<not> ac_selectionActive c \<or> is_zero (ac_selectionDeadline c) then -1
      else let remaining = time_sub (ac_selectionDeadline c) now in if remaining \<le> 0 then 0 else remaining)"

text \<open>
  A wait of the handler's controller. \<open>wo_ok\<close> and \<open>wo_queueFull\<close> are what the pool's wait returned and \<open>wo_waited\<close> how long it
  took; \<open>wo_timer\<close> says that the timer of the remaining backoff fired before a context ended; the readings
  of the contexts and the clock follow in the order of the code.
\<close>

record WaitObs =
  wo_before :: gotime
  wo_ok :: bool
  wo_queueFull :: bool
  wo_waited :: duration
  wo_after :: gotime
  wo_timerStart :: gotime
  wo_timer :: bool
  wo_timerCtx :: RoundCtx
  wo_last :: RoundCtx

definition waitForDelay :: "WaitObs \<Rightarrow> duration \<Rightarrow> accountAttemptController \<Rightarrow> bool \<times> accountAttemptController" where
  "waitForDelay obs delay c =
     (if selectionTimeRemaining (wo_timerStart obs) c \<le> 0 then (False, c)
      else if \<not> wo_timer obs then (False, c)
      else let (e, c') = stopErr (wo_timerCtx obs) c in (e = None, c'))"

definition poolWait :: "WaitObs \<Rightarrow> duration \<Rightarrow> accountAttemptController \<Rightarrow> bool \<times> accountAttemptController" where
  "poolWait obs delay0 c =
     (let remaining0 = selectionTimeRemaining (wo_before obs) c;
          delay = (if remaining0 > 0 \<and> remaining0 < delay0 then remaining0 else delay0);
          c1 = c\<lparr>ac_waitQueueFull := wo_queueFull obs, ac_queueWaitElapsed := ac_queueWaitElapsed c + wo_waited obs,
                 ac_queueWaitCount := ac_queueWaitCount c + 1\<rparr>
      in if \<not> wo_ok obs then (False, c1)
         else
           let deadline = selectionTimeRemaining (wo_after obs) c1;
               remaining1 = delay - wo_waited obs;
               remaining = (if deadline > 0 \<and> deadline < remaining1 then deadline else remaining1);
               (rested, c2) = (if wo_waited obs < delay \<and> remaining > 0 then waitForDelay obs remaining c1 else (True, c1))
           in if \<not> rested then (False, c2)
              else let (e, c3) = stopErr (wo_last obs) c2 in (e = None, c3))"

definition nextRound :: "RoundCtx \<Rightarrow> WaitObs \<Rightarrow> duration \<Rightarrow> accountAttemptController \<Rightarrow> bool \<times> accountAttemptController" where
  "nextRound ctx obs retryAfter c0 =
     (if ac_maxAttempts c0 \<noteq> 0 then (False, c0)
      else case beginSelection (rc_now ctx) c0 of
        (False, c) \<Rightarrow> (False, c)
      | (True, c1) \<Rightarrow>
          (case stopErr ctx c1 of
             (Some e, c) \<Rightarrow> (False, c)
           | (None, c) \<Rightarrow>
               (case poolWait obs (roundDelay retryAfter c) c of
                  (False, c2) \<Rightarrow> (False, c2)
                | (True, c2) \<Rightarrow> (True, c2\<lparr>ac_excluded := [], ac_rounds := ac_rounds c2 + 1\<rparr>))))"

definition waitQueueBusy :: "string \<Rightarrow> accountAttemptController \<Rightarrow> UpstreamBusyError option" where
  "waitQueueBusy model c =
     (if \<not> ac_waitQueueFull c then None
      else Some \<lparr>ub_Model = model, ub_RetryAfter = second, ub_Description = ''account availability wait queue is full''\<rparr>)"

definition upstreamBusyRetryAfter :: "goError \<Rightarrow> duration" where
  "upstreamBusyRetryAfter err =
     (case asBusyError err of Some busy \<Rightarrow> if ub_RetryAfter busy > 0 then ub_RetryAfter busy else second | None \<Rightarrow> second)"

section \<open>The selection loop\<close>

record RoundEnv =
  re_next :: RoundCtx
  re_cfg :: Config
  re_pool :: AccountPool
  re_now :: gotime
  re_round :: RoundCtx
  re_wait :: WaitObs

text \<open>The result of the loop: an account, a busy error or neither; with it the pool after the last round that used it.\<close>

datatype SelectionResult =
    Selected Account "UpstreamRequestGuard option" AccountPool
  | SelectionBusy UpstreamBusyError
  | NoSelection

definition acquireAccountForModel ::
    "RoundEnv \<Rightarrow> string \<Rightarrow> string \<Rightarrow> excluded \<Rightarrow> AcquireResult \<times> AccountPool" where
  "acquireAccountForModel env model routeKey excluded =
     AcquireForModel (re_cfg env) model routeKey excluded (re_now env) (re_pool env)"

fun selectionLoop ::
    "nat \<Rightarrow> (nat \<Rightarrow> RoundEnv) \<Rightarrow> nat \<Rightarrow> string \<Rightarrow> string \<Rightarrow> accountAttemptController \<Rightarrow>
     (SelectionResult \<times> accountAttemptController) option" where
  "selectionLoop 0 env i model routeKey c = None"
| "selectionLoop (Suc fuel) env i model routeKey c =
     (case next_attempt (re_next (env i)) c of
        (False, c1) \<Rightarrow> Some (NoSelection, c1)
      | (True, c1) \<Rightarrow>
          (case acquireAccountForModel (env i) model routeKey (ac_excluded c1) of
             (Acquired account guard, p) \<Rightarrow> Some (Selected account guard p, c1)
           | (Busy busy, p) \<Rightarrow>
               (case nextRound (re_round (env i)) (re_wait (env i)) (ub_RetryAfter busy) c1 of
                  (True, c2) \<Rightarrow> selectionLoop fuel env (Suc i) model routeKey c2
                | (False, c2) \<Rightarrow>
                    Some (case waitQueueBusy model c2 of
                            Some queueBusy \<Rightarrow> SelectionBusy queueBusy | None \<Rightarrow> SelectionBusy busy, c2))
           | (NoAccount, p) \<Rightarrow>
               (case nextRound (re_round (env i)) (re_wait (env i)) 0 c1 of
                  (True, c2) \<Rightarrow> selectionLoop fuel env (Suc i) model routeKey c2
                | (False, c2) \<Rightarrow>
                    Some (case waitQueueBusy model c2 of
                            Some queueBusy \<Rightarrow> SelectionBusy queueBusy | None \<Rightarrow> NoSelection, c2))))"

definition acquireNextAccountForRequest ::
    "nat \<Rightarrow> (nat \<Rightarrow> RoundEnv) \<Rightarrow> gotime \<Rightarrow> gotime \<Rightarrow> string \<Rightarrow> string \<Rightarrow> accountAttemptController \<Rightarrow>
     (SelectionResult \<times> accountAttemptController) option" where
  "acquireNextAccountForRequest fuel env started finished model routeKey c0 =
     (case beginSelection started c0 of
        (False, c) \<Rightarrow> Some (NoSelection, c)
      | (True, c1) \<Rightarrow>
          map_option (\<lambda>(r, c). (r, finishSelection finished c)) (selectionLoop fuel env 0 model routeKey c1))"

section \<open>Reactions to a failure\<close>

definition isQuotaErrorMessage :: "string \<Rightarrow> bool" where
  "isQuotaErrorMessage msg = (let m = to_lower msg in HasStatusToken m ''429'' \<or> contains m ''quota'')"

definition isRateLimitErrorMessage :: "string \<Rightarrow> bool" where
  "isRateLimitErrorMessage msg =
     (let m = to_lower msg in HasStatusToken m ''429'' \<or> contains m ''too many requests'' \<or> contains m ''rate limit'')"

definition isOverageErrorMessage :: "string \<Rightarrow> bool" where
  "isOverageErrorMessage msg = (let m = to_lower msg in HasStatusToken m ''402'' \<and> contains m ''overage'')"

definition isSuspensionErrorMessage :: "string \<Rightarrow> bool" where
  "isSuspensionErrorMessage msg = (let m = to_lower msg
     in contains m ''temporarily_suspended'' \<or> contains m ''temporarily is suspended'' \<or> contains m ''account suspended'')"

definition isProfileUnavailableErrorMessage :: "string \<Rightarrow> bool" where
  "isProfileUnavailableErrorMessage msg = contains (to_lower msg) ''no available kiro profile''"

definition isAuthErrorMessage :: "string \<Rightarrow> bool" where
  "isAuthErrorMessage msg = (let m = to_lower msg
     in IsAuthFailure (Some msg) \<or> contains m ''authentication failed'' \<or> contains m ''token invalid'' \<or>
        contains m ''access token expired'' \<or> contains m ''refresh token expired'')"

text \<open>\<open>disableAccount\<close>: besides the state, the caller's copy of the account is updated.\<close>

definition disableAccount ::
    "bool \<Rightarrow> bool \<Rightarrow> Account \<Rightarrow> string \<Rightarrow> string \<Rightarrow> gotime \<Rightarrow> Config \<times> AccountPool \<Rightarrow> Account \<times> Config \<times> AccountPool" where
  "disableAccount saved flushed account banStatus banReason now = (\<lambda>(cfg, p).
     if \<not> acc_Enabled account \<and> acc_BanStatus account = banStatus \<and> acc_BanReason account = banReason
     then (account, cfg, p)
     else case PatchAccountStatus saved (acc_ID account)
            \<lparr>sp_Enabled = Some False, sp_BanStatus = Some banStatus, sp_BanReason = Some banReason, sp_BanTime = Some (unix_of now)\<rparr> cfg of
       (None, cfg1) \<Rightarrow> (account, cfg1, p)
     | (Some updated, cfg1) \<Rightarrow>
         (account\<lparr>acc_Enabled := acc_Enabled updated, acc_BanStatus := acc_BanStatus updated,
                  acc_BanReason := acc_BanReason updated, acc_BanTime := acc_BanTime updated\<rparr>,
          Reload flushed (cfg1, p)))"

definition disableAccountOverage ::
    "bool \<Rightarrow> bool \<Rightarrow> string option \<Rightarrow> Account \<Rightarrow> Config \<times> AccountPool \<Rightarrow> Config \<times> AccountPool" where
  "disableAccountOverage saved flushed fetched account = (\<lambda>(cfg, p).
     case fetched of
       None \<Rightarrow> (cfg, p)
     | Some status \<Rightarrow>
         (case UpdateAccountOverageStatus saved (acc_ID account) status cfg of
            (False, cfg1) \<Rightarrow> (cfg1, p)
          | (True, cfg1) \<Rightarrow> Reload flushed (cfg1, p)))"

definition suspendedReason :: string where
  "suspendedReason = ''AWS temporarily suspended - unusual user activity detected''"

definition revokedReason :: string where
  "revokedReason = ''Authentication credentials were revoked''"

definition authFailedReason :: string where
  "authFailedReason = ''Authentication failed - token invalid or expired''"

text \<open>The part after the structured errors: a decision on the error's text.\<close>

definition handleByMessage ::
    "bool \<Rightarrow> bool \<Rightarrow> string option \<Rightarrow> gotime \<Rightarrow> Account \<Rightarrow> string \<Rightarrow> Config \<times> AccountPool \<Rightarrow> Config \<times> AccountPool" where
  "handleByMessage saved flushed fetched now account errMsg = (\<lambda>(cfg, p).
     let recordError = (\<lambda>quota (c, q). (c, RecordError c (acc_ID account) quota now q))
     in if isOverageErrorMessage errMsg then recordError False (disableAccountOverage saved flushed fetched account (cfg, p))
        else if isQuotaErrorMessage errMsg then recordError True (cfg, p)
        else if isSuspensionErrorMessage errMsg
        then snd (disableAccount saved flushed account ''BANNED'' suspendedReason now (cfg, p))
        else if isProfileUnavailableErrorMessage errMsg then recordError False (cfg, p)
        else if isAuthErrorMessage errMsg
        then snd (disableAccount saved flushed account ''BANNED'' authFailedReason now (cfg, p))
        else recordError False (cfg, p))"

definition handleAccountFailure ::
    "bool \<Rightarrow> bool \<Rightarrow> string option \<Rightarrow> gotime \<Rightarrow> Account \<Rightarrow> goError option \<Rightarrow> Config \<times> AccountPool \<Rightarrow> Config \<times> AccountPool" where
  "handleAccountFailure saved flushed fetched now account err0 = (\<lambda>(cfg, p).
     case err0 of None \<Rightarrow> (cfg, p) | Some err \<Rightarrow>
     let recordError = (\<lambda>quota (c, q). (c, RecordError c (acc_ID account) quota now q))
     in case asUpstreamError err of
          None \<Rightarrow> handleByMessage saved flushed fetched now account (errorText err) (cfg, p)
        | Some (u, cause) \<Rightarrow>
            (case ue_Kind u of
               UpstreamErrorQuota \<Rightarrow> recordError True (disableAccountOverage saved flushed fetched account (cfg, p))
             | UpstreamErrorRateLimit \<Rightarrow> recordError False (cfg, p)
             | UpstreamErrorSuspended \<Rightarrow>
                 snd (disableAccount saved flushed account ''BANNED'' suspendedReason now (cfg, p))
             | UpstreamErrorAuthRevoked \<Rightarrow>
                 snd (disableAccount saved flushed account ''BANNED'' revokedReason now (cfg, p))
             | UpstreamErrorTokenExpired \<Rightarrow> recordError False (cfg, p)
             | UpstreamErrorForbidden \<Rightarrow> recordError False (cfg, p)
             | UpstreamErrorTransient \<Rightarrow>
                 if trim_space (acc_ProxyURL account) \<noteq> '''' \<and> \<not> equal_fold (trim_space (acc_ProxyURL account)) ''direct''
                 then recordError False (cfg, p) else (cfg, p)
             | UpstreamErrorUnknown \<Rightarrow> handleByMessage saved flushed fetched now account (errorText err) (cfg, p)
             | _ \<Rightarrow> (cfg, p)))"

definition handleAccountFailureForModel ::
    "(int \<Rightarrow> int) \<Rightarrow> (int \<Rightarrow> int) \<Rightarrow> bool \<Rightarrow> bool \<Rightarrow> string option \<Rightarrow> gotime \<Rightarrow> Account \<Rightarrow> string \<Rightarrow> goError option \<Rightarrow>
     Config \<times> AccountPool \<Rightarrow> Config \<times> AccountPool" where
  "handleAccountFailureForModel intn1 intn2 saved flushed fetched now account model err0 = (\<lambda>(cfg, p).
     case err0 of None \<Rightarrow> (cfg, p) | Some err \<Rightarrow>
     let rateLimited = (\<lambda>retryAfter. (cfg, snd (RecordUpstreamRateLimitedWithRetryAfter intn1 intn2 (cfg_UpstreamProtection cfg)
           (acc_ID account) (acc_ProfileArn account) model retryAfter now p)));
         kind = (case asUpstreamError err of None \<Rightarrow> None | Some (u, cause) \<Rightarrow> Some (ue_Kind u, ue_RetryAfter u))
     in case kind of
          Some (UpstreamErrorModelUnavailable, retryAfter) \<Rightarrow> (cfg, snd (RecordModelUnavailable cfg (acc_ID account) model now p))
        | Some (UpstreamErrorRateLimit, retryAfter) \<Rightarrow> rateLimited retryAfter
        | _ \<Rightarrow>
            if isRateLimitErrorMessage (errorText err) then rateLimited 0
            else handleAccountFailure saved flushed fetched now account err0 (cfg, p))"

definition failedToolCall :: "goError option \<Rightarrow> bool" where
  "failedToolCall err = (case err of None \<Rightarrow> False | Some e \<Rightarrow>
     (case asUpstreamError e of
        Some (u, c) \<Rightarrow> ue_Kind u = UpstreamErrorToolAssemblyTimeout \<or> ue_Kind u = UpstreamErrorToolOutputTruncated
      | None \<Rightarrow> False))"

text \<open>
  \<open>callKiroAPIWithHealth\<close> after the upstream call returned \<open>err\<close>: a failed tool call gives up the
  route's affinity, and every other outcome counts towards the account's health.
\<close>

definition recordCallOutcome ::
    "(rat \<Rightarrow> float64) \<Rightarrow> Account \<Rightarrow> UpstreamRequestGuard option \<Rightarrow> goError option \<Rightarrow> duration \<Rightarrow> gotime \<Rightarrow> AccountPool \<Rightarrow> AccountPool" where
  "recordCallOutcome rnd account guard err elapsed now p =
     (let p1 = (if failedToolCall err then (case guard of None \<Rightarrow> p | Some g \<Rightarrow> ForgetAffinity g p) else p);
          skip = (case err of None \<Rightarrow> False | Some e \<Rightarrow> isLocalConfigurationError e \<or> isStreamIntegrityError e)
      in if skip then p1 else RecordAccountOutcome rnd (acc_ID account) elapsed (err = None) now p1)"

end
