(* ===== verification/Failover_Props.thy ===== *)
theory Failover_Props
  imports Failover Cooldowns
begin

text \<open>
  Account failover: the selection loop ends after a bounded number of attempts, the delay between its rounds is the
  doubling schedule within its bounds, and each kind of failure has its own effect on the accounts.
\<close>

section \<open>The controller\<close>

text \<open>The limits and the counter of a controller, which only \<open>next\<close> moves.\<close>

definition limits :: "accountAttemptController \<Rightarrow> int \<times> int \<times> int" where
  "limits c = (ac_maxAttempts c, ac_unlimitedAttemptCap c, ac_attempts c)"

lemma limits_eq: "limits c' = limits c \<longleftrightarrow>
    ac_maxAttempts c' = ac_maxAttempts c \<and> ac_unlimitedAttemptCap c' = ac_unlimitedAttemptCap c \<and> ac_attempts c' = ac_attempts c"
  by (simp add: limits_def)

lemma limits_upd [simp]:
  "limits (c\<lparr>ac_selectionTimedOut := b\<rparr>) = limits c" "limits (c\<lparr>ac_waitQueueFull := b\<rparr>) = limits c"
  "limits (c\<lparr>ac_queueWaitElapsed := d\<rparr>) = limits c" "limits (c\<lparr>ac_queueWaitCount := n\<rparr>) = limits c"
  "limits (c\<lparr>ac_selectionStarted := t\<rparr>) = limits c" "limits (c\<lparr>ac_selectionDeadline := t\<rparr>) = limits c"
  "limits (c\<lparr>ac_selectionActive := b\<rparr>) = limits c" "limits (c\<lparr>ac_selectionElapsed := d\<rparr>) = limits c"
  "limits (c\<lparr>ac_excluded := e\<rparr>) = limits c" "limits (c\<lparr>ac_rounds := r\<rparr>) = limits c"
  "limits (c\<lparr>ac_attemptCapReached := b\<rparr>) = limits c"
  by (simp_all add: limits_def)

lemma limits_stopErr [simp]: "limits (snd (stopErr ctx c)) = limits c"
  by (simp add: stopErr_def split: option.split)

lemma limits_beginSelection [simp]: "limits (snd (beginSelection now c)) = limits c"
  by (simp add: beginSelection_def Let_def)

lemma limits_finishSelection [simp]: "limits (finishSelection now c) = limits c"
  by (simp add: finishSelection_def)

lemma limits_waitForDelay [simp]: "limits (snd (waitForDelay obs d c)) = limits c"
  by (simp add: waitForDelay_def case_prod_unfold Let_def)

lemma limits_poolWait [simp]: "limits (snd (poolWait obs d c)) = limits c"
  by (simp add: poolWait_def case_prod_unfold Let_def)

lemma limits_nextRound [simp]: "limits (snd (nextRound ctx obs r c)) = limits c"
  by (simp add: nextRound_def case_prod_unfold split: bool.split option.split)

lemma nextRound_unlimited: "fst (nextRound ctx obs r c) \<Longrightarrow> ac_maxAttempts c = 0"
  by (simp add: nextRound_def split: if_splits)

lemma next_attempt_cases:
  assumes "next_attempt ctx c = (ok, c')"
  shows "ac_maxAttempts c' = ac_maxAttempts c" "ac_unlimitedAttemptCap c' = ac_unlimitedAttemptCap c"
    "ac_attempts c' = ac_attempts c + (if ok then 1 else 0)"
    "ok \<Longrightarrow> ac_maxAttempts c > 0 \<Longrightarrow> ac_attempts c < ac_maxAttempts c"
    "ok \<Longrightarrow> ac_maxAttempts c = 0 \<Longrightarrow> ac_unlimitedAttemptCap c > 0 \<Longrightarrow> ac_attempts c < ac_unlimitedAttemptCap c"
proof -
  define c2 where "c2 = snd (stopErr ctx (snd (beginSelection (rc_now ctx) c)))"
  have b: "limits (snd (beginSelection (rc_now ctx) c)) = limits c" and l: "limits c2 = limits c" by (simp_all add: c2_def)
  from assms b l show "ac_maxAttempts c' = ac_maxAttempts c" "ac_unlimitedAttemptCap c' = ac_unlimitedAttemptCap c"
    "ac_attempts c' = ac_attempts c + (if ok then 1 else 0)"
    "ok \<Longrightarrow> ac_maxAttempts c > 0 \<Longrightarrow> ac_attempts c < ac_maxAttempts c"
    "ok \<Longrightarrow> ac_maxAttempts c = 0 \<Longrightarrow> ac_unlimitedAttemptCap c > 0 \<Longrightarrow> ac_attempts c < ac_unlimitedAttemptCap c"
    unfolding next_attempt_def case_prod_unfold c2_def [symmetric] limits_def
    by (auto split: bool.splits option.splits if_splits)
qed

section \<open>Termination of the selection\<close>

text \<open>The largest number of attempts of a request with this controller.\<close>

definition attemptLimit :: "accountAttemptController \<Rightarrow> int" where
  "attemptLimit c = (if ac_maxAttempts c = 0 then ac_unlimitedAttemptCap c else ac_maxAttempts c)"

definition limited :: "accountAttemptController \<Rightarrow> bool" where
  "limited c \<longleftrightarrow> 0 \<le> ac_maxAttempts c \<and> 0 < attemptLimit c \<and> ac_attempts c \<le> attemptLimit c"

lemma limited_cong: "limits c' = limits c \<Longrightarrow> limited c' = limited c" "limits c' = limits c \<Longrightarrow> attemptLimit c' = attemptLimit c"
  "limits c' = limits c \<Longrightarrow> ac_attempts c' = ac_attempts c"
  by (simp_all add: limits_def limited_def attemptLimit_def)

lemma next_attempt_limited:
  assumes "next_attempt ctx c = (ok, c')" "limited c"
  shows "limited c'" "attemptLimit c' = attemptLimit c" "ac_attempts c' = ac_attempts c + (if ok then 1 else 0)"
  using next_attempt_cases [OF assms(1)] assms(2) by (auto simp: limited_def attemptLimit_def split: if_splits)

text \<open>
  With fuel for the attempts that are left the loop returns; every attempt it makes is counted, and an account is
  handed out by an attempt of this call.
\<close>

lemma selectionLoop_terminates:
  assumes "limited c" "attemptLimit c - ac_attempts c < int fuel"
  shows "\<exists>r c'. selectionLoop fuel env i model routeKey c = Some (r, c') \<and> limited c' \<and> attemptLimit c' = attemptLimit c \<and>
    ac_attempts c \<le> ac_attempts c' \<and> (\<forall>a g p. r = Selected a g p \<longrightarrow> ac_attempts c < ac_attempts c')"
  using assms
proof (induction fuel arbitrary: i c)
  case 0
  then show ?case by (simp add: limited_def)
next
  case (Suc fuel)
  obtain ok c1 where n: "next_attempt (re_next (env i)) c = (ok, c1)" by (metis surj_pair)
  note n1 = next_attempt_limited [OF n Suc.prems(1)]
  show ?case
  proof (cases ok)
    case False
    then show ?thesis using n n1 by simp
  next
    case True
    have round: "\<exists>r c'. (case nextRound ctx obs d c1 of
          (True, c2) \<Rightarrow> selectionLoop fuel env (Suc i) model routeKey c2
        | (False, c2) \<Rightarrow> Some (other c2, c2)) = Some (r, c') \<and> limited c' \<and> attemptLimit c' = attemptLimit c \<and>
        ac_attempts c \<le> ac_attempts c' \<and> (\<forall>a g p. r = Selected a g p \<longrightarrow> ac_attempts c < ac_attempts c')"
      if "\<And>c2 a g p. other c2 \<noteq> Selected a g p" for ctx obs d other
    proof -
      obtain more c2 where r: "nextRound ctx obs d c1 = (more, c2)" by (metis surj_pair)
      have "limits c2 = limits c1" using limits_nextRound [of ctx obs d c1] r by simp
      note c2 = limited_cong [OF this]
      show ?thesis
      proof (cases more)
        case False
        then show ?thesis using r c2 n1 True that by simp
      next
        case more: True
        have "\<exists>r c'. selectionLoop fuel env (Suc i) model routeKey c2 = Some (r, c') \<and> limited c' \<and> attemptLimit c' = attemptLimit c2 \<and>
            ac_attempts c2 \<le> ac_attempts c' \<and> (\<forall>a g p. r = Selected a g p \<longrightarrow> ac_attempts c2 < ac_attempts c')"
          using Suc.prems(2) c2 n1 True by (intro Suc.IH) auto
        then show ?thesis using r more c2 n1 True by auto
      qed
    qed
    have n': "next_attempt (re_next (env i)) c = (True, c1)" using n True by simp
    obtain res p where a: "acquireAccountForModel (env i) model routeKey (ac_excluded c1) = (res, p)" by (metis surj_pair)
    show ?thesis
    proof (cases res)
      case (Acquired account guard)
      then show ?thesis using n n1 True a by simp
    next
      case (Busy busy)
      show ?thesis unfolding selectionLoop.simps n' a Busy prod.case bool.case AcquireResult.case
        by (rule round) (simp split: option.split)
    next
      case NoAccount
      show ?thesis unfolding selectionLoop.simps n' a NoAccount prod.case bool.case AcquireResult.case
        by (rule round) (simp split: option.split)
    qed
  qed
qed

lemma handlerController_limited:
  assumes "retryOk retry"
  shows "limited (handlerController retry p)" "attemptLimit (handlerController retry p) \<le> 512" "ac_attempts (handlerController retry p) = 0"
  using assms by (auto simp: handlerController_def setSelectionTimeout_def newAccountAttemptController_def limited_def attemptLimit_def
      retryOk_def accountUnlimitedAttemptMinimum_def accountUnlimitedAttemptMaximum_def Let_def)

text \<open>
  A request that keeps asking for accounts: one call of the selection after the other, each with its own
  environment; the number of accounts handed out and the controller at the end.
\<close>

fun selectRepeatedly ::
    "nat \<Rightarrow> (nat \<Rightarrow> nat \<Rightarrow> RoundEnv) \<Rightarrow> (nat \<Rightarrow> gotime \<times> gotime) \<Rightarrow> string \<Rightarrow> string \<Rightarrow> nat \<Rightarrow> accountAttemptController \<Rightarrow>
     (nat \<times> accountAttemptController) option" where
  "selectRepeatedly fuel envs ts model routeKey 0 c = Some (0, c)"
| "selectRepeatedly fuel envs ts model routeKey (Suc n) c =
     (case acquireNextAccountForRequest fuel (envs n) (fst (ts n)) (snd (ts n)) model routeKey c of
        None \<Rightarrow> None
      | Some (r, c1) \<Rightarrow>
          map_option (\<lambda>(k, c2). ((case r of Selected a g p \<Rightarrow> Suc k | _ \<Rightarrow> k), c2))
            (selectRepeatedly fuel envs ts model routeKey n c1))"

lemma acquireNext_terminates:
  assumes "limited c" "attemptLimit c < int fuel" "0 \<le> ac_attempts c"
  shows "\<exists>r c'. acquireNextAccountForRequest fuel env started finished model routeKey c = Some (r, c') \<and> limited c' \<and>
    attemptLimit c' = attemptLimit c \<and> ac_attempts c \<le> ac_attempts c' \<and> (\<forall>a g p. r = Selected a g p \<longrightarrow> ac_attempts c < ac_attempts c')"
proof -
  obtain ok c1 where b: "beginSelection started c = (ok, c1)" by (metis surj_pair)
  have "limits c1 = limits c" using limits_beginSelection [of started c] b by simp
  note c1 = limited_cong [OF this]
  show ?thesis
  proof (cases ok)
    case False
    then show ?thesis using b c1 assms(1) by (simp add: acquireNextAccountForRequest_def)
  next
    case True
    obtain r c2 where "selectionLoop fuel env 0 model routeKey c1 = Some (r, c2)" "limited c2" "attemptLimit c2 = attemptLimit c1"
      "ac_attempts c1 \<le> ac_attempts c2" "\<forall>a g p. r = Selected a g p \<longrightarrow> ac_attempts c1 < ac_attempts c2"
      using selectionLoop_terminates [of c1 fuel env 0 model routeKey] c1 assms by auto
    moreover note limited_cong [OF limits_finishSelection [of finished c2]]
    ultimately show ?thesis using b True c1 by (simp add: acquireNextAccountForRequest_def)
  qed
qed

lemma selectRepeatedly_bounded:
  assumes "limited c" "attemptLimit c < int fuel" "0 \<le> ac_attempts c"
  shows "\<exists>k c'. selectRepeatedly fuel envs ts model routeKey n c = Some (k, c') \<and> int k \<le> attemptLimit c - ac_attempts c \<and>
    ac_attempts c' \<le> attemptLimit c"
  using assms
proof (induction n arbitrary: c)
  case 0
  then show ?case by (simp add: limited_def)
next
  case (Suc n)
  obtain r c1 where r: "acquireNextAccountForRequest fuel (envs n) (fst (ts n)) (snd (ts n)) model routeKey c = Some (r, c1)"
    "limited c1" "attemptLimit c1 = attemptLimit c" "ac_attempts c \<le> ac_attempts c1" "\<forall>a g p. r = Selected a g p \<longrightarrow> ac_attempts c < ac_attempts c1"
    using acquireNext_terminates [OF Suc.prems] by blast
  obtain k c' where k: "selectRepeatedly fuel envs ts model routeKey n c1 = Some (k, c')" "int k \<le> attemptLimit c1 - ac_attempts c1"
    "ac_attempts c' \<le> attemptLimit c1"
    using Suc.IH [of c1] Suc.prems r(2-4) by auto
  show ?case using r k by (cases r) auto
qed

text \<open>
  C30. The selection of an account always returns: fuel for 513 rounds, one more than the largest number of attempts, is
  enough for every call of a request, however long the pool stays busy and whatever the waits return. Over all its
  calls a request is handed at most \<open>MaxAccountAttempts\<close> accounts, or, when attempts are unlimited, at
  most twice the number of accounts but at least 128 and at most 512.
\<close>

theorem account_selection_terminates:
  assumes "retryOk retry"
  shows "\<exists>k c. selectRepeatedly 513 envs ts model routeKey n (handlerController retry p) = Some (k, c) \<and>
    int k \<le> (if rt_MaxAccountAttempts retry = 0 then min 512 (max 128 (2 * int (Count p))) else rt_MaxAccountAttempts retry) \<and>
    ac_attempts c \<le> 512"
proof -
  have lim: "attemptLimit (handlerController retry p) =
      (if rt_MaxAccountAttempts retry = 0 then min 512 (max 128 (2 * int (Count p))) else rt_MaxAccountAttempts retry)"
    by (simp add: handlerController_def setSelectionTimeout_def newAccountAttemptController_def attemptLimit_def
        accountUnlimitedAttemptMinimum_def accountUnlimitedAttemptMaximum_def Let_def)
  note h = handlerController_limited [OF assms, of p]
  show ?thesis using selectRepeatedly_bounded [OF h(1), of 513 envs ts model routeKey n] h lim by auto
qed

theorem account_selection_terminates_witness:
  "\<forall>envs ts. \<exists>k c. selectRepeatedly 513 envs ts ''m'' ''r'' 20 (handlerController defaultRetryConfig demoPool) = Some (k, c) \<and> int k \<le> 8"
proof (intro allI)
  fix envs :: "nat \<Rightarrow> nat \<Rightarrow> RoundEnv" and ts
  show "\<exists>k c. selectRepeatedly 513 envs ts ''m'' ''r'' 20 (handlerController defaultRetryConfig demoPool) = Some (k, c) \<and> int k \<le> 8"
    using account_selection_terminates [OF retryOk_default, of envs ts "''m''" "''r''" 20 demoPool] by (auto simp: defaultRetryConfig_def)
qed

section \<open>The delay between rounds\<close>

lemma roundDelayLoop_closed:
  assumes "0 < d" "d \<le> accountRetryMaximumDelay"
  shows "roundDelayLoop n d = min accountRetryMaximumDelay (d * 2 ^ n)"
  using assms
proof (induction n arbitrary: d)
  case (Suc n)
  show ?case
  proof (cases "d * 2 < accountRetryMaximumDelay")
    case True
    then show ?thesis using Suc.IH [of "d * 2"] Suc.prems by (simp add: mult.assoc Let_def)
  next
    case False
    have "d * 2 * 1 \<le> d * 2 * 2 ^ n" using Suc.prems by (intro mult_left_mono) auto
    then have "accountRetryMaximumDelay \<le> d * 2 ^ Suc n" using False by (simp add: mult.assoc)
    then show ?thesis using False Suc.prems by (auto simp: Let_def min_absorb1)
  qed
qed simp

text \<open>
  The delay before the next round of an unlimited selection is always between 250 milliseconds and 5 seconds: the
  pool's hint brought into these bounds, or without a hint 500 milliseconds doubled once per earlier round
  up to 5 seconds, which is what the loop computes.
\<close>

theorem roundDelay_schedule:
  "250 * millisecond \<le> roundDelay hint c \<and> roundDelay hint c \<le> 5 * second \<and>
   roundDelay hint c = (if hint > 0 then max (250 * millisecond) (min (5 * second) hint)
     else min (5 * second) (500 * millisecond * 2 ^ ac_rounds c))"
proof -
  have "(1 :: int) \<le> 2 ^ ac_rounds c" by (rule one_le_power) simp
  then have "250 * millisecond \<le> min (5 * second) (500 * millisecond * 2 ^ ac_rounds c)"
    unfolding go_time by linarith
  then show ?thesis
    using roundDelayLoop_closed [of accountRetryInitialDelay "ac_rounds c"]
    by (auto simp: roundDelay_def accountRetryInitialDelay_def accountRetryMinimumDelay_def accountRetryMaximumDelay_def go_time)
qed

section \<open>What a failure does to the accounts\<close>

lemma updateFirst_ids [simp]: "(\<And>a. acc_ID (f a) = acc_ID a) \<Longrightarrow> map acc_ID (updateFirst aid f as) = map acc_ID as"
  by (induction as) auto

lemma updateFirst_flags:
  "(\<And>a. acc_ID (f a) = acc_ID a \<and> acc_Enabled (f a) = acc_Enabled a) \<Longrightarrow>
    map (\<lambda>a. (acc_ID a, acc_Enabled a)) (updateFirst aid f as) = map (\<lambda>a. (acc_ID a, acc_Enabled a)) as"
  by (induction as) auto

lemma updateFirst_disabled:
  assumes "\<And>a. acc_ID (f a) = acc_ID a" "\<And>a. \<not> acc_Enabled (f a)" "distinct (map acc_ID as)"
    and "a \<in> set (updateFirst aid f as)" "acc_Enabled a"
  shows "acc_ID a \<noteq> aid"
  using assms(3,4,5) by (induction as) (auto simp: assms(1,2) image_iff split: if_splits)

lemma patchStatus_sel [simp]: "acc_ID (patchStatus patch a) = acc_ID a"
  "acc_Enabled (patchStatus patch a) = orKeep (sp_Enabled patch) (acc_Enabled a)"
  by (simp_all add: patchStatus_def)

lemma disableAccount_removes:
  assumes "disableAccount True flushed account st reason now (cfg, p) = (account', cfg', p')"
    and "distinct (map acc_ID (cfg_Accounts cfg))" "firstAccount (acc_ID account) (cfg_Accounts cfg) \<noteq> None" "acc_Enabled account"
  shows "\<forall>a \<in> set (accounts p'). acc_ID a \<noteq> acc_ID account"
proof -
  let ?patch = "\<lparr>sp_Enabled = Some False, sp_BanStatus = Some st, sp_BanReason = Some reason, sp_BanTime = Some (unix_of now)\<rparr>"
  let ?c = "cfg\<lparr>cfg_Accounts := updateFirst (acc_ID account) (patchStatus ?patch) (cfg_Accounts cfg)\<rparr>"
  have r: "Reload flushed (?c, p) = (cfg', p')"
    using assms(1,3,4) by (auto simp: disableAccount_def PatchAccountStatus_def)
  have "acc_ID a \<noteq> acc_ID account" if "a \<in> set (cfg_Accounts cfg')" "acc_Enabled a" for a
  proof -
    from that have "(acc_ID a, True) \<in> set (map (\<lambda>a. (acc_ID a, acc_Enabled a)) (cfg_Accounts cfg'))" by force
    then obtain b where "b \<in> set (updateFirst (acc_ID account) (patchStatus ?patch) (cfg_Accounts cfg))" "acc_Enabled b" "acc_ID b = acc_ID a"
      using Reload_flags [OF r] by auto
    with updateFirst_disabled [of "patchStatus ?patch", OF _ _ assms(2)] show ?thesis by (auto simp: orKeep_def)
  qed
  then show ?thesis using Reload_accounts(1) [OF r] by (auto simp: GetEnabledAccounts_def)
qed

lemma UpdateAccountOverageStatus_flags:
  "map (\<lambda>a. (acc_ID a, acc_Enabled a)) (cfg_Accounts (snd (UpdateAccountOverageStatus saved aid st cfg))) =
    map (\<lambda>a. (acc_ID a, acc_Enabled a)) (cfg_Accounts cfg)"
  by (simp add: UpdateAccountOverageStatus_def updateFirst_flags split: option.split)

lemma disableAccountOverage_flags:
  assumes "disableAccountOverage saved flushed fetched account (cfg, p) = (cfg', p')"
  shows "map (\<lambda>a. (acc_ID a, acc_Enabled a)) (cfg_Accounts cfg') = map (\<lambda>a. (acc_ID a, acc_Enabled a)) (cfg_Accounts cfg)"
proof (cases fetched)
  case None
  then show ?thesis using assms by (simp add: disableAccountOverage_def)
next
  case (Some st)
  obtain ok c1 where u: "UpdateAccountOverageStatus saved (acc_ID account) st cfg = (ok, c1)" by (metis surj_pair)
  have "map (\<lambda>a. (acc_ID a, acc_Enabled a)) (cfg_Accounts cfg') = map (\<lambda>a. (acc_ID a, acc_Enabled a)) (cfg_Accounts c1)"
    using assms Some u Reload_flags [of flushed c1 p cfg' p'] by (cases ok) (auto simp: disableAccountOverage_def)
  then show ?thesis using UpdateAccountOverageStatus_flags [of saved "acc_ID account" st cfg] u by simp
qed

text \<open>The kinds of failure that say nothing about the account that served the request.\<close>

definition blamelessKinds :: "UpstreamErrorKind set" where
  "blamelessKinds = {UpstreamErrorClientRequest, UpstreamErrorRetryBudget, UpstreamErrorModelUnavailable, UpstreamErrorCanceled,
     UpstreamErrorLocalConfiguration, UpstreamErrorEndpointUnavailable, UpstreamErrorFirstTokenTimeout, UpstreamErrorStreamIdleTimeout,
     UpstreamErrorActionableTimeout, UpstreamErrorToolAssemblyTimeout, UpstreamErrorToolOutputTruncated, UpstreamErrorEmptyResponse,
     UpstreamErrorStreamTruncated}"

text \<open>
  A classified failure changes the accounts as its kind says: a failure of the request, of a shared endpoint or of
  the stream changes nothing; a transport failure rests the account only when the account has a proxy of its own; a suspension
  or a revoked credential takes the account out of the pool; and no other classified failure disables any account.
\<close>

theorem account_failure_policy:
  assumes "asUpstreamError err = Some (u, cause)"
    and "handleAccountFailure True flushed fetched now account (Some err) (cfg, p) = (cfg', p')"
    and "distinct (map acc_ID (cfg_Accounts cfg))" "firstAccount (acc_ID account) (cfg_Accounts cfg) \<noteq> None" "acc_Enabled account"
  shows "(ue_Kind u \<in> blamelessKinds \<longrightarrow> cfg' = cfg \<and> p' = p) \<and>
    (ue_Kind u = UpstreamErrorTransient \<and> trim_space (acc_ProxyURL account) = '''' \<longrightarrow> cfg' = cfg \<and> p' = p) \<and>
    (ue_Kind u \<in> {UpstreamErrorSuspended, UpstreamErrorAuthRevoked} \<longrightarrow> (\<forall>a \<in> set (accounts p'). acc_ID a \<noteq> acc_ID account)) \<and>
    (ue_Kind u \<notin> {UpstreamErrorSuspended, UpstreamErrorAuthRevoked, UpstreamErrorUnknown} \<longrightarrow>
       map (\<lambda>a. (acc_ID a, acc_Enabled a)) (cfg_Accounts cfg') = map (\<lambda>a. (acc_ID a, acc_Enabled a)) (cfg_Accounts cfg))"
proof -
  note h = assms(2) [unfolded handleAccountFailure_def prod.case option.case assms(1) Let_def]
  have removed: "\<forall>a \<in> set (accounts p'). acc_ID a \<noteq> acc_ID account"
    if "snd (disableAccount True flushed account ''BANNED'' r now (cfg, p)) = (cfg', p')" for r
    using disableAccount_removes [OF _ assms(3-5), of flushed "''BANNED''" r now p "fst (disableAccount True flushed account ''BANNED'' r now (cfg, p))" cfg' p'] that
    by (simp add: prod_eq_iff)
  show ?thesis
  proof (intro conjI impI)
    assume "ue_Kind u \<in> blamelessKinds"
    then show "cfg' = cfg" "p' = p" using h by (auto simp: blamelessKinds_def)
  next
    assume "ue_Kind u = UpstreamErrorTransient \<and> trim_space (acc_ProxyURL account) = ''''"
    then show "cfg' = cfg" "p' = p" using h by auto
  next
    assume "ue_Kind u \<in> {UpstreamErrorSuspended, UpstreamErrorAuthRevoked}"
    then show "\<forall>a \<in> set (accounts p'). acc_ID a \<noteq> acc_ID account" using h removed by auto
  next
    assume "ue_Kind u \<notin> {UpstreamErrorSuspended, UpstreamErrorAuthRevoked, UpstreamErrorUnknown}"
    then show "map (\<lambda>a. (acc_ID a, acc_Enabled a)) (cfg_Accounts cfg') = map (\<lambda>a. (acc_ID a, acc_Enabled a)) (cfg_Accounts cfg)"
      using h disableAccountOverage_flags
      by (cases "ue_Kind u") (auto split: prod.splits if_splits)
  qed
qed

theorem account_failure_policy_witness:
  "''a'' \<notin> acc_ID ` set (accounts (snd (handleAccountFailure True True None 0 (demoAccount ''a'' 1)
     (Some (UpstreamErr (upstreamError UpstreamErrorSuspended '''' '''' False True) None)) (demoConfig, demoPool))))"
proof -
  let ?e = "UpstreamErr (upstreamError UpstreamErrorSuspended '''' '''' False True) None"
  obtain c q where r: "handleAccountFailure True True None 0 (demoAccount ''a'' 1) (Some ?e) (demoConfig, demoPool) = (c, q)" by (metis surj_pair)
  have a: "asUpstreamError ?e = Some (upstreamError UpstreamErrorSuspended '''' '''' False True, None)" by (simp add: asUpstreamError_def)
  from account_failure_policy [OF a r] r show ?thesis by (auto simp: demo_defs upstreamError_def)
qed

end
