(* ===== verification/Tool_Schema.thy ===== *)
theory Tool_Schema
  imports Json
begin

text \<open>
  Tool schemas and tool names as \<open>proxy/translator.go\<close> prepares them for the upstream.

  \<^item> \<open>ensureObjectSchema\<close> removes from a JSON schema what the upstream rejects. The Go code changes a deep copy
    in place; here each function returns the changed members. A schema decoded from JSON holds no \<open>[]string\<close> and no
    \<open>[]map[string]interface{}\<close>, so the cases of the type switches for these do not arise.
  \<^item> \<open>toolNameRegistry\<close> gives every tool name of a client a name the upstream accepts and remembers the way back. The
    parameter \<open>digest\<close> is the lower-case hexadecimal SHA-256 of a string, \<open>normalizeName\<close> the function the registry is made with.
\<close>

section \<open>Schemas\<close>

definition compositionKeywords :: "string list" where
  "compositionKeywords = [''oneOf'', ''anyOf'', ''allOf'']"

text \<open>One branch of a composition: its properties that the target lacks are added, and an object branch gives the target its type.\<close>

definition addProperties :: "(string, jsonValue) gomap \<Rightarrow> (string, jsonValue) gomap \<Rightarrow> (string, jsonValue) gomap" where
  "addProperties new properties =
     foldl (\<lambda>acc (name, property). if gm_get acc name = None then gm_put name property acc else acc) properties new"

definition mergeBranch ::
    "(string, jsonValue) gomap \<times> (string, jsonValue) gomap \<Rightarrow> jsonValue \<Rightarrow> (string, jsonValue) gomap \<times> (string, jsonValue) gomap" where
  "mergeBranch = (\<lambda>(target, properties) branch.
     (case jsonMembers branch of
        None \<Rightarrow> (target, properties)
      | Some ms \<Rightarrow>
          let branchType = stringMember ''type'' ms;
              branchProperties = (case gm_get ms ''properties'' of None \<Rightarrow> None | Some v \<Rightarrow> jsonMembers v)
          in if branchProperties = None \<and> \<not> equal_fold branchType ''object'' then (target, properties)
             else
               let properties' = addProperties (case branchProperties of None \<Rightarrow> [] | Some ps \<Rightarrow> ps) properties;
                   target' = (if gm_get target ''type'' = None \<and> equal_fold branchType ''object''
                              then gm_put ''type'' (JString ''object'') target else target)
               in (target', properties')))"

definition mergeComposedObjectBranches :: "jsonValue \<Rightarrow> (string, jsonValue) gomap \<Rightarrow> (string, jsonValue) gomap" where
  "mergeComposedObjectBranches raw target =
     (case raw of
        JArray branches \<Rightarrow>
          let properties0 = (case gm_get target ''properties'' of None \<Rightarrow> [] | Some v \<Rightarrow> (case jsonMembers v of None \<Rightarrow> [] | Some ps \<Rightarrow> ps));
              (target1, properties) = foldl mergeBranch (target, properties0) branches
          in if properties \<noteq> [] then gm_put ''type'' (JString ''object'') (gm_put ''properties'' (JObject properties) target1) else target1
      | _ \<Rightarrow> target)"

definition lowerKeyword :: "(string, jsonValue) gomap \<Rightarrow> string \<Rightarrow> (string, jsonValue) gomap" where
  "lowerKeyword m keyword =
     (case gm_get m keyword of None \<Rightarrow> m | Some raw \<Rightarrow> gm_del keyword (mergeComposedObjectBranches raw m))"

definition lowerRoot :: "(string, jsonValue) gomap \<Rightarrow> (string, jsonValue) gomap" where
  "lowerRoot m = gm_del ''$ref'' (foldl lowerKeyword m compositionKeywords)"

text \<open>\<open>lowerSchemaCompositions\<close>: the nested schemas first (values that are objects, and objects in values that are arrays), then the root.\<close>

fun lowerValue :: "jsonValue \<Rightarrow> jsonValue"
and lowerMembers :: "(string \<times> jsonValue) list \<Rightarrow> (string \<times> jsonValue) list"
and lowerItems :: "jsonValue list \<Rightarrow> jsonValue list"
and lowerItem :: "jsonValue \<Rightarrow> jsonValue" where
  "lowerValue (JObject ms) = JObject (lowerRoot (lowerMembers ms))"
| "lowerValue (JArray vs) = JArray (lowerItems vs)"
| "lowerValue v = v"
| "lowerMembers [] = []"
| "lowerMembers ((k, v) # ms) = (k, lowerValue v) # lowerMembers ms"
| "lowerItems [] = []"
| "lowerItems (v # vs) = lowerItem v # lowerItems vs"
| "lowerItem (JObject ms) = JObject (lowerRoot (lowerMembers ms))"
| "lowerItem v = v"

definition lowerSchemaCompositions :: "(string, jsonValue) gomap \<Rightarrow> (string, jsonValue) gomap" where
  "lowerSchemaCompositions m = lowerRoot (lowerMembers m)"

text \<open>\<open>cleanSchema\<close>: the two deletions at a node, then the nested schemas.\<close>

definition cleanRoot :: "(string, jsonValue) gomap \<Rightarrow> (string, jsonValue) gomap" where
  "cleanRoot m0 =
     (let m = gm_del ''additionalProperties'' m0
      in case gm_get m ''required'' of
           None \<Rightarrow> m
         | Some (JArray (v # vs)) \<Rightarrow> m
         | Some _ \<Rightarrow> gm_del ''required'' m)"

fun cleanValue :: "jsonValue \<Rightarrow> jsonValue"
and cleanMembers :: "(string \<times> jsonValue) list \<Rightarrow> (string \<times> jsonValue) list"
and cleanItems :: "jsonValue list \<Rightarrow> jsonValue list"
and cleanItem :: "jsonValue \<Rightarrow> jsonValue" where
  "cleanValue (JObject ms) = JObject (cleanRoot (cleanMembers ms))"
| "cleanValue (JArray vs) = JArray (cleanItems vs)"
| "cleanValue v = v"
| "cleanMembers [] = []"
| "cleanMembers ((k, v) # ms) = (k, cleanValue v) # cleanMembers ms"
| "cleanItems [] = []"
| "cleanItems (v # vs) = cleanItem v # cleanItems vs"
| "cleanItem (JObject ms) = JObject (cleanRoot (cleanMembers ms))"
| "cleanItem v = v"

definition cleanSchema :: "(string, jsonValue) gomap \<Rightarrow> (string, jsonValue) gomap" where
  "cleanSchema m = cleanRoot (cleanMembers m)"

definition ensureObjectSchema :: "jsonValue \<Rightarrow> jsonValue" where
  "ensureObjectSchema schema =
     (case schema of
        JObject m \<Rightarrow>
          let cleaned = cleanSchema (lowerSchemaCompositions m);
              isObject = (case gm_get cleaned ''type'' of
                Some (JString schemaType) \<Rightarrow> equal_fold schemaType ''object'' | _ \<Rightarrow> False)
          in JObject (if isObject then cleaned else gm_put ''type'' (JString ''object'') cleaned)
      | _ \<Rightarrow> JObject [(''type'', JString ''object'')])"

section \<open>Tool names\<close>

definition maxToolNameLen :: nat where "maxToolNameLen = 64"

record toolNameRegistry =
  tn_forward :: "(string, string) gomap"
  tn_reverse :: "(string, string) gomap"

definition newToolNameRegistry :: toolNameRegistry where
  "newToolNameRegistry = \<lparr>tn_forward = [], tn_reverse = []\<rparr>"

definition hashedToolName :: "(string \<Rightarrow> string) \<Rightarrow> string \<Rightarrow> string \<Rightarrow> nat \<Rightarrow> string" where
  "hashedToolName digest base0 original hashLen0 =
     (let hashLen = (if hashLen0 > length (digest original) then length (digest original) else hashLen0);
          hashSuffix = CHR ''H'' # take hashLen (digest original);
          prefixLen = (if int maxToolNameLen - int (length hashSuffix) < 1 then 1 else maxToolNameLen - length hashSuffix);
          base1 = (if length base0 > prefixLen then take prefixLen base0 else base0);
          base2 = rev (dropWhile (\<lambda>c. c = CHR ''_'' \<or> c = CHR ''-'') (rev base1));
          base = (if base2 = '''' then ''tool'' else base2)
      in base @ hashSuffix)"

text \<open>The loop over longer hashes, from \<open>hashLen\<close> in steps of two: it stops at a name that is free or the original's own, or at the last.\<close>

fun longerHash :: "(string \<Rightarrow> string) \<Rightarrow> string \<Rightarrow> string \<Rightarrow> (string, string) gomap \<Rightarrow> string \<Rightarrow> nat list \<Rightarrow> string" where
  "longerHash digest base original reverse candidate [] = candidate"
| "longerHash digest base original reverse candidate (hashLen # hashLens) =
     (let candidate' = hashedToolName digest base original hashLen
      in if gm_get reverse candidate' = None \<or> gm_get reverse candidate' = Some original then candidate'
         else longerHash digest base original reverse candidate' hashLens)"

definition hashLens :: "nat list" where
  "hashLens = [12, 14, 16, 18, 20, 22, 24, 26, 28, 30, 32]"

definition upstreamName ::
    "(string \<Rightarrow> string) \<Rightarrow> (string \<Rightarrow> string) \<Rightarrow> string \<Rightarrow> toolNameRegistry \<Rightarrow> string \<times> toolNameRegistry" where
  "upstreamName digest normalizeName original0 r =
     (let original = trim_space original0
      in if original = '''' then ('''', r)
         else case gm_get (tn_forward r) original of
           Some mapped \<Rightarrow> (mapped, r)
         | None \<Rightarrow>
             let base = (if normalizeName original = '''' then ''tool'' else normalizeName original);
                 candidate0 = (if base \<noteq> original \<or> length base > maxToolNameLen then hashedToolName digest base original 10 else base);
                 candidate = (if gm_get (tn_reverse r) candidate0 \<noteq> None \<and> gm_get (tn_reverse r) candidate0 \<noteq> Some original
                              then longerHash digest base original (tn_reverse r) candidate0 hashLens else candidate0)
             in (candidate, r\<lparr>tn_forward := gm_put original candidate (tn_forward r),
                              tn_reverse := gm_put candidate original (tn_reverse r)\<rparr>))"

definition restoreMap :: "toolNameRegistry \<Rightarrow> (string, string) gomap" where
  "restoreMap r = filter (\<lambda>(upstream, original). upstream \<noteq> original) (tn_reverse r)"

text \<open>The loop of \<open>sanitizeToolName\<close>: the bytes written so far and whether the next letter is capitalised.\<close>

definition isLetter :: "char \<Rightarrow> bool" where
  "isLetter c = (let n = (of_char c :: nat) in (97 \<le> n \<and> n \<le> 122) \<or> (65 \<le> n \<and> n \<le> 90))"

definition isDigitByte :: "char \<Rightarrow> bool" where
  "isDigitByte c = (let n = (of_char c :: nat) in 48 \<le> n \<and> n \<le> 57)"

fun sanitizeLoop :: "string \<Rightarrow> bool \<Rightarrow> string \<Rightarrow> string" where
  "sanitizeLoop b capitalize [] = b"
| "sanitizeLoop b capitalize (c # cs) =
     (if \<not> isLetter c \<and> \<not> isDigitByte c then sanitizeLoop b (b \<noteq> '''') cs
      else let b1 = (if b = '''' \<and> isDigitByte c then ''tool'' else b);
               c1 = (if capitalize \<and> lower_char c = c then upper_char c
                     else if b1 = '''' then lower_char c else c)
           in sanitizeLoop (b1 @ [c1]) False cs)"

definition sanitizeToolName :: "string \<Rightarrow> string" where
  "sanitizeToolName name = (let result = sanitizeLoop '''' False name in if result = '''' then ''tool'' else result)"

end
