(* ===== verification/Tool_Schema_Props.thy ===== *)
theory Tool_Schema_Props
  imports Tool_Schema
begin

text \<open>
  Normalised tool schemas are in a normal form the upstream accepts, and normalising again changes nothing; tool
  names sent upstream are short and lead back to the client's names.
\<close>

section \<open>Normal form of schemas\<close>

text \<open>A condition \<open>R\<close> on the members of an object, at every node that the recursive functions reach.\<close>

fun nfValue :: "((string \<times> jsonValue) list \<Rightarrow> bool) \<Rightarrow> jsonValue \<Rightarrow> bool"
and nfMembers :: "((string \<times> jsonValue) list \<Rightarrow> bool) \<Rightarrow> (string \<times> jsonValue) list \<Rightarrow> bool"
and nfItems :: "((string \<times> jsonValue) list \<Rightarrow> bool) \<Rightarrow> jsonValue list \<Rightarrow> bool"
and nfItem :: "((string \<times> jsonValue) list \<Rightarrow> bool) \<Rightarrow> jsonValue \<Rightarrow> bool" where
  "nfValue R (JObject ms) = (R ms \<and> nfMembers R ms)"
| "nfValue R (JArray vs) = nfItems R vs"
| "nfValue R v = True"
| "nfMembers R [] = True"
| "nfMembers R ((k, v) # ms) = (nfValue R v \<and> nfMembers R ms)"
| "nfItems R [] = True"
| "nfItems R (v # vs) = (nfItem R v \<and> nfItems R vs)"
| "nfItem R (JObject ms) = (R ms \<and> nfMembers R ms)"
| "nfItem R v = True"

definition noComposition :: "(string \<times> jsonValue) list \<Rightarrow> bool" where
  "noComposition m \<longleftrightarrow> (\<forall>k \<in> set (''$ref'' # compositionKeywords). gm_get m k = None)"

definition cleanNode :: "(string \<times> jsonValue) list \<Rightarrow> bool" where
  "cleanNode m \<longleftrightarrow> gm_get m ''additionalProperties'' = None \<and>
     (gm_get m ''required'' = None \<or> (\<exists>v vs. gm_get m ''required'' = Some (JArray (v # vs))))"

lemma nfMembers_iff: "nfMembers R ms \<longleftrightarrow> (\<forall>e \<in> set ms. nfValue R (snd e))"
  by (induction ms) auto

lemma nfItems_iff: "nfItems R vs \<longleftrightarrow> (\<forall>v \<in> set vs. nfItem R v)"
  by (induction vs) auto

lemma nfMembers_get: "nfMembers R ms \<Longrightarrow> gm_get ms k = Some v \<Longrightarrow> nfValue R v"
  by (induction ms) (auto split: if_splits)

lemma nfMembers_put: "nfMembers R ms \<Longrightarrow> nfValue R v \<Longrightarrow> nfMembers R (gm_put k v ms)"
  by (induction ms) auto

lemma nfMembers_del: "nfMembers R ms \<Longrightarrow> nfMembers R (gm_del k ms)"
  by (auto simp: nfMembers_iff AList.delete_eq)

lemma gm_del_absent: "gm_get m k = None \<Longrightarrow> gm_del k m = m"
  by (induction m) (auto split: if_splits)

lemma nf_and:
  "nfValue (\<lambda>m. P m \<and> Q m) v \<longleftrightarrow> nfValue P v \<and> nfValue Q v"
  "nfMembers (\<lambda>m. P m \<and> Q m) ms \<longleftrightarrow> nfMembers P ms \<and> nfMembers Q ms"
  "nfItems (\<lambda>m. P m \<and> Q m) vs \<longleftrightarrow> nfItems P vs \<and> nfItems Q vs"
  "nfItem (\<lambda>m. P m \<and> Q m) w \<longleftrightarrow> nfItem P w \<and> nfItem Q w"
  by (induction v and ms and vs and w rule: lowerValue_lowerMembers_lowerItems_lowerItem.induct) auto

section \<open>Lowering compositions\<close>

definition propsOk :: "(string \<times> jsonValue) list \<Rightarrow> bool" where
  "propsOk ps \<longleftrightarrow> noComposition ps \<and> nfMembers noComposition ps"

lemma propsOk_Nil [simp]: "propsOk []"
  by (simp add: propsOk_def noComposition_def)

lemma noComposition_put: "noComposition m \<Longrightarrow> k \<notin> set (''$ref'' # compositionKeywords) \<Longrightarrow> noComposition (gm_put k v m)"
  by (auto simp: noComposition_def gm_get_put)

lemma noComposition_keys: "noComposition m \<Longrightarrow> (k, v) \<in> set m \<Longrightarrow> k \<notin> set (''$ref'' # compositionKeywords)"
  by (auto simp: noComposition_def map_of_eq_None_iff image_iff)

lemma propsOk_put:
  "propsOk ps \<Longrightarrow> k \<notin> set (''$ref'' # compositionKeywords) \<Longrightarrow> nfValue noComposition v \<Longrightarrow> propsOk (gm_put k v ps)"
  by (simp add: propsOk_def noComposition_put nfMembers_put del: list.set)

lemma addProperties_ok: "propsOk new \<Longrightarrow> propsOk ps \<Longrightarrow> propsOk (addProperties new ps)"
proof -
  assume new: "propsOk new" and ps: "propsOk ps"
  have "\<forall>e \<in> set xs. fst e \<notin> set (''$ref'' # compositionKeywords) \<and> nfValue noComposition (snd e) \<Longrightarrow> propsOk qs \<Longrightarrow>
      propsOk (foldl (\<lambda>acc (name, property). if gm_get acc name = None then gm_put name property acc else acc) qs xs)" for xs qs
    by (induction xs arbitrary: qs) (auto simp: propsOk_put)
  moreover have "\<forall>e \<in> set new. fst e \<notin> set (''$ref'' # compositionKeywords) \<and> nfValue noComposition (snd e)"
    using new noComposition_keys [of new] by (auto simp: propsOk_def nfMembers_iff)
  ultimately show ?thesis using ps by (simp add: addProperties_def)
qed

lemma mergeBranch_ok:
  assumes "nfItem noComposition b" "nfMembers noComposition t" "propsOk ps" "mergeBranch (t, ps) b = (t', ps')"
  shows "nfMembers noComposition t' \<and> propsOk ps' \<and> (\<forall>k. k \<noteq> ''type'' \<longrightarrow> gm_get t' k = gm_get t k)"
proof (cases b)
  case (JObject ms)
  have "propsOk (case (case gm_get ms ''properties'' of None \<Rightarrow> None | Some v \<Rightarrow> jsonMembers v) of None \<Rightarrow> [] | Some qs \<Rightarrow> qs)" (is "propsOk ?qs")
  proof (cases "gm_get ms ''properties''")
    case (Some v)
    have "nfValue noComposition v" using nfMembers_get [OF _ Some] assms(1) JObject by simp
    then show ?thesis using Some by (cases v) (simp_all add: propsOk_def [symmetric])
  qed simp
  then have "propsOk (addProperties ?qs ps)" using assms(3) by (rule addProperties_ok)
  with assms(2-4) show ?thesis unfolding JObject mergeBranch_def
    by (auto simp: Let_def gm_get_put nfMembers_put split: if_splits)
qed (use assms in \<open>auto simp: mergeBranch_def\<close>)

lemma mergeBranches_ok:
  assumes "\<forall>b \<in> set bs. nfItem noComposition b" "nfMembers noComposition t" "propsOk ps" "foldl mergeBranch (t, ps) bs = (t', ps')"
  shows "nfMembers noComposition t' \<and> propsOk ps' \<and> (\<forall>k. k \<noteq> ''type'' \<longrightarrow> gm_get t' k = gm_get t k)"
  using assms
proof (induction bs arbitrary: t ps)
  case (Cons b bs)
  obtain t1 ps1 where m: "mergeBranch (t, ps) b = (t1, ps1)" by (metis surj_pair)
  have "nfItem noComposition b" using Cons.prems(1) by simp
  note m1 = mergeBranch_ok [OF this Cons.prems(2,3) m]
  have "nfMembers noComposition t' \<and> propsOk ps' \<and> (\<forall>k. k \<noteq> ''type'' \<longrightarrow> gm_get t' k = gm_get t1 k)"
    using Cons.prems(1,4) m m1 by (intro Cons.IH [of t1 ps1]) auto
  with m1 show ?case by simp
qed simp

lemma mergeComposed_ok:
  assumes "nfValue noComposition raw" "nfMembers noComposition m"
  shows "nfMembers noComposition (mergeComposedObjectBranches raw m) \<and>
    (\<forall>k. k \<noteq> ''type'' \<and> k \<noteq> ''properties'' \<longrightarrow> gm_get (mergeComposedObjectBranches raw m) k = gm_get m k)"
proof (cases raw)
  case (JArray bs)
  let ?ps = "case gm_get m ''properties'' of None \<Rightarrow> [] | Some v \<Rightarrow> (case jsonMembers v of None \<Rightarrow> [] | Some ps \<Rightarrow> ps)"
  have ps: "propsOk ?ps"
  proof (cases "gm_get m ''properties''")
    case (Some v)
    with nfMembers_get [OF assms(2) Some] show ?thesis by (cases v) (simp_all add: propsOk_def [symmetric])
  qed simp
  obtain t ps where f: "foldl mergeBranch (m, ?ps) bs = (t, ps)" by (metis surj_pair)
  have "\<forall>b \<in> set bs. nfItem noComposition b" using assms(1) JArray by (simp add: nfItems_iff)
  note r = mergeBranches_ok [OF this assms(2) ps f]
  then show ?thesis using f by (auto simp: mergeComposedObjectBranches_def JArray Let_def gm_get_put propsOk_def intro!: nfMembers_put)
qed (use assms in \<open>auto simp: mergeComposedObjectBranches_def\<close>)

lemma lowerKeyword_ok:
  assumes "nfMembers noComposition m" "k \<in> set compositionKeywords"
  shows "nfMembers noComposition (lowerKeyword m k)" "gm_get (lowerKeyword m k) k = None"
    "k' \<in> set (''$ref'' # compositionKeywords) \<Longrightarrow> gm_get m k' = None \<Longrightarrow> gm_get (lowerKeyword m k) k' = None"
proof -
  have "nfMembers noComposition (lowerKeyword m k) \<and> gm_get (lowerKeyword m k) k = None \<and>
      (k' \<in> set (''$ref'' # compositionKeywords) \<longrightarrow> gm_get m k' = None \<longrightarrow> gm_get (lowerKeyword m k) k' = None)"
  proof (cases "gm_get m k")
    case None
    then show ?thesis using assms(1) by (simp add: lowerKeyword_def)
  next
    case (Some raw)
    let ?M = "mergeComposedObjectBranches raw m"
    have M: "nfMembers noComposition ?M" "k' \<noteq> ''type'' \<and> k' \<noteq> ''properties'' \<longrightarrow> gm_get ?M k' = gm_get m k'"
      using mergeComposed_ok [OF nfMembers_get [OF assms(1) Some] assms(1)] by simp_all
    have "lowerKeyword m k = gm_del k ?M" using Some by (simp add: lowerKeyword_def)
    moreover have "k' \<noteq> ''type'' \<and> k' \<noteq> ''properties''" if "k' \<in> set (''$ref'' # compositionKeywords)"
      using that by (auto simp: compositionKeywords_def)
    ultimately show ?thesis using M(2) nfMembers_del [OF M(1), of k] by (simp add: gm_get_del del: list.set)
  qed
  then show "nfMembers noComposition (lowerKeyword m k)" "gm_get (lowerKeyword m k) k = None"
    "k' \<in> set (''$ref'' # compositionKeywords) \<Longrightarrow> gm_get m k' = None \<Longrightarrow> gm_get (lowerKeyword m k) k' = None" by blast+
qed

lemma lowerRoot_ok:
  assumes "nfMembers noComposition m"
  shows "noComposition (lowerRoot m) \<and> nfMembers noComposition (lowerRoot m)"
proof -
  have c: "set compositionKeywords = {''oneOf'', ''anyOf'', ''allOf''}" by (simp add: compositionKeywords_def)
  let ?a = "lowerKeyword m ''oneOf''" let ?b = "lowerKeyword ?a ''anyOf''" let ?d = "lowerKeyword ?b ''allOf''"
  note a = lowerKeyword_ok [OF assms, of "''oneOf''", unfolded c, simplified]
  note b = lowerKeyword_ok [OF a(1), of "''anyOf''", unfolded c, simplified]
  note d = lowerKeyword_ok [OF b(1), of "''allOf''", unfolded c, simplified]
  have "lowerRoot m = gm_del ''$ref'' ?d" by (simp add: lowerRoot_def compositionKeywords_def)
  moreover have "gm_get ?d k = None" if "k \<in> {''oneOf'', ''anyOf'', ''allOf''}" for k
    using a(2) b(2) b(3) [of k] d(2) d(3) [of k] that by (auto simp: c)
  ultimately show ?thesis using d(1) by (auto simp: noComposition_def c gm_get_del nfMembers_del)
qed

lemma lower_nf:
  "nfValue noComposition (lowerValue v)" "nfMembers noComposition (lowerMembers ms)"
  "nfItems noComposition (lowerItems vs)" "nfItem noComposition (lowerItem w)"
  by (induction v and ms and vs and w rule: lowerValue_lowerMembers_lowerItems_lowerItem.induct) (auto simp: lowerRoot_ok)

lemma lowerRoot_id: "noComposition m \<Longrightarrow> lowerRoot m = m"
  by (simp add: noComposition_def lowerRoot_def lowerKeyword_def compositionKeywords_def gm_del_absent)

lemma lower_id:
  "nfValue noComposition v \<Longrightarrow> lowerValue v = v" "nfMembers noComposition ms \<Longrightarrow> lowerMembers ms = ms"
  "nfItems noComposition vs \<Longrightarrow> lowerItems vs = vs" "nfItem noComposition w \<Longrightarrow> lowerItem w = w"
  by (induction v and ms and vs and w rule: lowerValue_lowerMembers_lowerItems_lowerItem.induct) (auto simp: lowerRoot_id)

section \<open>Cleaning\<close>

lemma cleanRoot_cases: "\<exists>ks. set ks \<subseteq> {''additionalProperties'', ''required''} \<and> cleanRoot m = foldl (\<lambda>m k. gm_del k m) m ks"
  by (intro exI [of _ "''additionalProperties'' # (if cleanRoot m = gm_del ''additionalProperties'' m then [] else [''required''])"])
    (auto simp: cleanRoot_def Let_def split: option.split jsonValue.split list.split)

lemma foldl_del_get: "gm_get (foldl (\<lambda>m k. gm_del k m) m ks) k = (if k \<in> set ks then None else gm_get m k)"
  by (induction ks arbitrary: m) (auto simp: gm_get_del)

lemma foldl_del_nf: "nfMembers R m \<Longrightarrow> nfMembers R (foldl (\<lambda>m k. gm_del k m) m ks)"
  by (induction ks arbitrary: m) (auto simp: nfMembers_del)

lemma cleanRoot_keeps:
  "nfMembers R m \<Longrightarrow> nfMembers R (cleanRoot m)" "noComposition m \<Longrightarrow> noComposition (cleanRoot m)"
  using cleanRoot_cases [of m] by (auto simp: foldl_del_nf foldl_del_get noComposition_def)

lemma cleanRoot_clean: "cleanNode (cleanRoot m)"
  by (auto simp: cleanNode_def cleanRoot_def Let_def gm_get_del split: option.split jsonValue.split list.split)

lemma cleanMembers_get: "gm_get (cleanMembers ms) k = map_option cleanValue (gm_get ms k)"
  by (induction ms) auto

lemma clean_nf:
  "nfValue cleanNode (cleanValue v)" "nfMembers cleanNode (cleanMembers ms)"
  "nfItems cleanNode (cleanItems vs)" "nfItem cleanNode (cleanItem w)"
  by (induction v and ms and vs and w rule: cleanValue_cleanMembers_cleanItems_cleanItem.induct)
    (auto simp: cleanRoot_clean cleanRoot_keeps(1))

lemma clean_keeps_lowered:
  "nfValue noComposition v \<Longrightarrow> nfValue noComposition (cleanValue v)" "nfMembers noComposition ms \<Longrightarrow> nfMembers noComposition (cleanMembers ms)"
  "nfItems noComposition vs \<Longrightarrow> nfItems noComposition (cleanItems vs)" "nfItem noComposition w \<Longrightarrow> nfItem noComposition (cleanItem w)"
  by (induction v and ms and vs and w rule: cleanValue_cleanMembers_cleanItems_cleanItem.induct)
    (auto simp: noComposition_def cleanMembers_get intro!: cleanRoot_keeps(2) [unfolded noComposition_def, rule_format] cleanRoot_keeps(1))

lemma cleanRoot_id: "cleanNode m \<Longrightarrow> cleanRoot m = m"
  by (auto simp: cleanNode_def cleanRoot_def gm_del_absent)

lemma clean_id:
  "nfValue cleanNode v \<Longrightarrow> cleanValue v = v" "nfMembers cleanNode ms \<Longrightarrow> cleanMembers ms = ms"
  "nfItems cleanNode vs \<Longrightarrow> cleanItems vs = vs" "nfItem cleanNode w \<Longrightarrow> cleanItem w = w"
  by (induction v and ms and vs and w rule: cleanValue_cleanMembers_cleanItems_cleanItem.induct) (auto simp: cleanRoot_id)

section \<open>The result\<close>

text \<open>What the upstream accepts: an object schema without compositions, references, open properties or an empty \<open>required\<close> at any node.\<close>

definition schemaOk :: "jsonValue \<Rightarrow> bool" where
  "schemaOk v \<longleftrightarrow> nfValue (\<lambda>m. noComposition m \<and> cleanNode m) v \<and>
     (\<exists>m t. v = JObject m \<and> gm_get m ''type'' = Some (JString t) \<and> equal_fold t ''object'')"

lemma schemaOk_fixed: "schemaOk v \<Longrightarrow> ensureObjectSchema v = v"
  by (auto simp: schemaOk_def nf_and ensureObjectSchema_def lowerSchemaCompositions_def cleanSchema_def lower_id(2) clean_id(2)
      lowerRoot_id cleanRoot_id Let_def)

lemma schemaOk_put_type:
  "nfValue (\<lambda>m. noComposition m \<and> cleanNode m) (JObject m) \<Longrightarrow> schemaOk (JObject (gm_put ''type'' (JString ''object'') m))"
  by (auto simp: schemaOk_def cleanNode_def gm_get_put equal_fold_def compositionKeywords_def intro!: noComposition_put nfMembers_put)

lemma ensureObjectSchema_ok: "schemaOk (ensureObjectSchema s)"
proof (cases s)
  case (JObject m)
  let ?c = "cleanSchema (lowerSchemaCompositions m)"
  have "nfMembers noComposition (lowerSchemaCompositions m) \<and> noComposition (lowerSchemaCompositions m)"
    using lower_nf(2) lowerRoot_ok by (simp add: lowerSchemaCompositions_def)
  then have "nfValue noComposition (cleanValue (JObject (lowerSchemaCompositions m)))" by (intro clean_keeps_lowered(1)) simp
  then have "nfValue (\<lambda>m. noComposition m \<and> cleanNode m) (JObject ?c)"
    using clean_nf(1) [of "JObject (lowerSchemaCompositions m)"] by (simp add: nf_and cleanSchema_def)
  then show ?thesis
    using schemaOk_put_type [of ?c] unfolding JObject ensureObjectSchema_def
    by (auto simp: schemaOk_def Let_def split: option.splits jsonValue.splits)
qed (auto simp: ensureObjectSchema_def schemaOk_def noComposition_def cleanNode_def compositionKeywords_def equal_fold_def)

text \<open>
  C39. Whatever schema a client sends, the one sent upstream is an object schema in which no node has a composition
  keyword, a reference, \<open>additionalProperties\<close> or an empty or malformed \<open>required\<close>; and such a schema is passed on unchanged, so that
  the final guard before dispatch does not alter a schema the translators have already normalised.
\<close>

theorem ensureObjectSchema_normal_form:
  "schemaOk (ensureObjectSchema s) \<and> ensureObjectSchema (ensureObjectSchema s) = ensureObjectSchema s"
  using ensureObjectSchema_ok schemaOk_fixed by blast

text \<open>
  The recursion treats the map of properties like a schema, so that a parameter of a tool whose name is one of the
  keywords is lost: here a parameter \<open>required\<close>.
\<close>

lemma ensureObjectSchema_drops_parameter:
  "ensureObjectSchema (JObject [(''type'', JString ''object''),
      (''properties'', JObject [(''required'', JObject [(''type'', JString ''boolean'')]), (''name'', JObject [(''type'', JString ''string'')])])]) =
   JObject [(''type'', JString ''object''), (''properties'', JObject [(''name'', JObject [(''type'', JString ''string'')])])]"
  by code_simp

section \<open>Tool names\<close>

text \<open>The documented format of \<open>fmt.Sprintf("%x", sha256.Sum256(b))\<close>: 64 lower-case hexadecimal digits.\<close>

definition hexDigest :: "(string \<Rightarrow> string) \<Rightarrow> bool" where
  "hexDigest digest \<longleftrightarrow> (\<forall>s. length (digest s) = 64 \<and> set (digest s) \<subseteq> set ''0123456789abcdef'')"

lemma hexDigest_length: "hexDigest digest \<Longrightarrow> length (digest s) = 64"
  by (simp add: hexDigest_def)

lemma hexDigest_noH: "hexDigest digest \<Longrightarrow> CHR ''H'' \<notin> set (take n (digest s))"
  by (auto simp: hexDigest_def dest!: in_set_takeD)

lemma hashedToolName_shape:
  assumes "hexDigest digest" "h \<le> 32"
  obtains b where "hashedToolName digest base original h = b @ CHR ''H'' # take h (digest original)" "b \<noteq> ''''"
    "length (hashedToolName digest base original h) \<le> 64"
proof -
  let ?b1 = "if length base > 64 - Suc h then take (64 - Suc h) base else base"
  let ?b2 = "rev (dropWhile (\<lambda>c. c = CHR ''_'' \<or> c = CHR ''-'') (rev ?b1))"
  let ?b = "if ?b2 = '''' then ''tool'' else ?b2"
  have hl: "(if length (digest original) < h then length (digest original) else h) = h"
    using assms by (simp add: hexDigest_length)
  have pl: "(if int maxToolNameLen - int (length (CHR ''H'' # take h (digest original))) < 1 then 1
      else maxToolNameLen - length (CHR ''H'' # take h (digest original))) = 64 - Suc h"
    using assms by (simp add: hexDigest_length maxToolNameLen_def)
  have eq: "hashedToolName digest base original h = ?b @ CHR ''H'' # take h (digest original)"
    by (simp only: hashedToolName_def Let_def hl pl)
  have "length ?b2 \<le> 64 - Suc h" using length_dropWhile_le [of "\<lambda>c. c = CHR ''_'' \<or> c = CHR ''-''" "rev ?b1"] by auto
  then have len: "length ?b \<le> 64 - Suc h" using assms(2) by (cases "?b2 = ''''") (simp_all del: rev_is_Nil_conv dropWhile_eq_Nil_conv)
  have ne: "?b \<noteq> ''''" by (cases "?b2 = ''''") (simp_all only: if_True if_False not_False_eq_True list.distinct simp_thms)
  define b where "b = ?b"
  show ?thesis using eq len ne assms unfolding b_def [symmetric] by (intro that [of b]) (simp_all add: hexDigest_length)
qed

text \<open>The hash part of a hashed name can be read off: it follows the last \<open>H\<close>.\<close>

lemma hash_part_unique:
  assumes "a @ CHR ''H'' # d = b @ CHR ''H'' # e" "CHR ''H'' \<notin> set d" "CHR ''H'' \<notin> set e"
  shows "d = e"
proof -
  have "takeWhile (\<lambda>c. c \<noteq> CHR ''H'') (rev d @ CHR ''H'' # rev a) = rev d"
    using assms(2) by (simp add: takeWhile_tail) (metis set_rev takeWhile_eq_all_conv)
  moreover have "takeWhile (\<lambda>c. c \<noteq> CHR ''H'') (rev e @ CHR ''H'' # rev b) = rev e"
    using assms(3) by (simp add: takeWhile_tail) (metis set_rev takeWhile_eq_all_conv)
  moreover have "rev d @ CHR ''H'' # rev a = rev e @ CHR ''H'' # rev b"
    using arg_cong [OF assms(1), of rev] by simp
  ultimately show ?thesis by (metis rev_rev_ident)
qed

text \<open>
  The hypotheses on the names of one request: their hashes differ within 32 digits, and no name
  looks like a hashed form of another. \<open>T\<close> is the set of names after trimming.
\<close>

definition namesApart :: "(string \<Rightarrow> string) \<Rightarrow> string set \<Rightarrow> bool" where
  "namesApart digest T \<longleftrightarrow>
     (\<forall>a \<in> T. \<forall>b \<in> T. (a \<noteq> b \<longrightarrow> take 32 (digest a) \<noteq> take 32 (digest b)) \<and> \<not> suffix (CHR ''H'' # take 32 (digest a)) b)"

definition registryOk :: "(string \<Rightarrow> string) \<Rightarrow> string set \<Rightarrow> toolNameRegistry \<Rightarrow> bool" where
  "registryOk digest T r \<longleftrightarrow> gm_wf (tn_reverse r) \<and>
     (\<forall>original u. gm_get (tn_forward r) original = Some u \<longleftrightarrow> gm_get (tn_reverse r) u = Some original) \<and>
     (\<forall>u original. gm_get (tn_reverse r) u = Some original \<longrightarrow> original \<in> T \<and> u \<noteq> '''' \<and> length u \<le> 64 \<and>
        (u = original \<or> (\<exists>base h. h \<le> 32 \<and> u = hashedToolName digest base original h)))"

lemma longerHash_cases:
  "hs \<noteq> [] \<Longrightarrow> \<exists>h \<in> set hs. longerHash digest base original rv c hs = hashedToolName digest base original h \<and>
     (gm_get rv (hashedToolName digest base original h) = None \<or> gm_get rv (hashedToolName digest base original h) = Some original \<or> h = last hs)"
proof (induction hs arbitrary: c)
  case (Cons h hs)
  show ?case
  proof (cases "gm_get rv (hashedToolName digest base original h) = None \<or> gm_get rv (hashedToolName digest base original h) = Some original")
    case True
    then show ?thesis by (intro bexI [of _ h]) (auto simp: Let_def)
  next
    case False
    then show ?thesis using Cons.IH by (cases "hs = []") (auto simp: Let_def)
  qed
qed simp

lemma longest_hash_free:
  assumes "hexDigest digest" "namesApart digest T" "registryOk digest T r" "original \<in> T"
    and "gm_get (tn_reverse r) (hashedToolName digest base original 32) = Some owner"
  shows "owner = original"
proof (rule ccontr)
  assume ne: "owner \<noteq> original"
  let ?c = "hashedToolName digest base original 32"
  obtain b where b: "?c = b @ CHR ''H'' # take 32 (digest original)" using hashedToolName_shape [OF assms(1), of 32] by blast
  have o: "owner \<in> T" "?c = owner \<or> (\<exists>base h. h \<le> 32 \<and> ?c = hashedToolName digest base owner h)"
    using assms(3,5) by (auto simp: registryOk_def)
  from o(2) show False
  proof
    assume "?c = owner"
    then have "suffix (CHR ''H'' # take 32 (digest original)) owner" using b by (metis suffixI)
    then show False using assms(2,4) o(1) ne by (auto simp: namesApart_def)
  next
    assume "\<exists>base h. h \<le> 32 \<and> ?c = hashedToolName digest base owner h"
    then obtain base' h b' where h: "h \<le> 32" "?c = b' @ CHR ''H'' # take h (digest owner)"
      using hashedToolName_shape [OF assms(1)] by metis
    then have "take 32 (digest original) = take h (digest owner)"
      using b hash_part_unique hexDigest_noH [OF assms(1)] by metis
    moreover from arg_cong [OF this, of length] have "h = 32" using h(1) by (simp add: hexDigest_length [OF assms(1)])
    ultimately show False using assms(2,4) o(1) ne by (auto simp: namesApart_def)
  qed
qed

text \<open>The name chosen for a new original: free, within the limit, and its original's own or hashed.\<close>

definition firstName :: "(string \<Rightarrow> string) \<Rightarrow> string \<Rightarrow> string \<Rightarrow> string" where
  "firstName digest base original =
     (if base \<noteq> original \<or> length base > maxToolNameLen then hashedToolName digest base original 10 else base)"

definition chosenName :: "(string \<Rightarrow> string) \<Rightarrow> string \<Rightarrow> string \<Rightarrow> (string, string) gomap \<Rightarrow> string" where
  "chosenName digest base original rv =
     (if gm_get rv (firstName digest base original) \<noteq> None \<and> gm_get rv (firstName digest base original) \<noteq> Some original
      then longerHash digest base original rv (firstName digest base original) hashLens else firstName digest base original)"

lemma chosenName_cases:
  obtains (first) "chosenName digest base original rv = firstName digest base original"
      "gm_get rv (firstName digest base original) = None \<or> gm_get rv (firstName digest base original) = Some original"
  | (longer) h where "h \<le> 32" "chosenName digest base original rv = hashedToolName digest base original h"
      "gm_get rv (hashedToolName digest base original h) = None \<or> gm_get rv (hashedToolName digest base original h) = Some original \<or> h = 32"
proof (cases "gm_get rv (firstName digest base original) = None \<or> gm_get rv (firstName digest base original) = Some original")
  case True
  then show ?thesis by (intro first) (auto simp: chosenName_def)
next
  case False
  have hl: "hashLens \<noteq> []" "last hashLens = 32" "\<forall>h \<in> set hashLens. h \<le> 32" by (simp_all add: hashLens_def)
  from longerHash_cases [OF hl(1), of digest base original rv "firstName digest base original"] obtain h
    where "h \<in> set hashLens" "longerHash digest base original rv (firstName digest base original) hashLens = hashedToolName digest base original h"
      "gm_get rv (hashedToolName digest base original h) = None \<or> gm_get rv (hashedToolName digest base original h) = Some original \<or> h = 32"
    unfolding hl(2) by blast
  then show ?thesis using False hl(3) by (intro longer [of h]) (simp_all add: chosenName_def)
qed

lemma chosenName_form:
  "chosenName digest base original rv = original \<and> length (chosenName digest base original rv) \<le> 64 \<or>
   (\<exists>b. \<exists>h \<le> 32. chosenName digest base original rv = hashedToolName digest b original h)"
proof (cases rule: chosenName_cases [of digest base original rv])
  case first
  moreover have "(10::nat) \<le> 32" by simp
  ultimately show ?thesis unfolding firstName_def by (metis maxToolNameLen_def not_less)
qed blast

lemma chosenName_owner:
  assumes "hexDigest digest" "namesApart digest T" "registryOk digest T r" "original \<in> T"
    and own: "gm_get (tn_reverse r) (chosenName digest base original (tn_reverse r)) = Some owner"
  shows "owner = original"
proof (cases rule: chosenName_cases [of digest base original "tn_reverse r"])
  case first
  then show ?thesis using own by auto
next
  case (longer h)
  then show ?thesis using own longest_hash_free [OF assms(1-4), of base owner] by auto
qed

lemma registryOk_new: "registryOk digest T newToolNameRegistry"
  by (simp add: registryOk_def newToolNameRegistry_def)

lemma upstreamName_unfold:
  "upstreamName digest normalizeName original0 r =
     (if trim_space original0 = '''' then ('''', r)
      else case gm_get (tn_forward r) (trim_space original0) of
        Some mapped \<Rightarrow> (mapped, r)
      | None \<Rightarrow>
          let c = chosenName digest (if normalizeName (trim_space original0) = '''' then ''tool'' else normalizeName (trim_space original0))
                    (trim_space original0) (tn_reverse r)
          in (c, r\<lparr>tn_forward := gm_put (trim_space original0) c (tn_forward r), tn_reverse := gm_put c (trim_space original0) (tn_reverse r)\<rparr>))"
  by (simp only: upstreamName_def chosenName_def firstName_def Let_def)

lemma registryOk_add:
  assumes "hexDigest digest" "registryOk digest T r" "original \<in> T" "original \<noteq> ''''" "gm_get (tn_forward r) original = None"
    and form: "c = original \<and> length c \<le> 64 \<or> (\<exists>base. \<exists>h \<le> 32. c = hashedToolName digest base original h)"
    and own: "\<And>owner. gm_get (tn_reverse r) c = Some owner \<Longrightarrow> owner = original"
  shows "registryOk digest T (r\<lparr>tn_forward := gm_put original c (tn_forward r), tn_reverse := gm_put c original (tn_reverse r)\<rparr>)"
proof -
  have "gm_get (tn_forward r) original = Some c" if "gm_get (tn_reverse r) c = Some original"
    using assms(2) that unfolding registryOk_def by blast
  then have c: "gm_get (tn_reverse r) c = None" using assms(5) own by (cases "gm_get (tn_reverse r) c") auto
  have "hashedToolName digest base original h \<noteq> '''' \<and> length (hashedToolName digest base original h) \<le> 64" if "h \<le> 32" for base h
    using hashedToolName_shape [OF assms(1) that, of base original] by (metis Nil_is_append_conv)
  then have "c \<noteq> '''' \<and> length c \<le> 64" using form assms(4) by auto
  then show ?thesis using assms(2,3,5) c form unfolding registryOk_def
    by (simp add: gm_get_put del: map_of_eq_Some_iff) (metis option.distinct(1))
qed

lemma upstreamName_ok:
  assumes "hexDigest digest" "namesApart digest T" "registryOk digest T r" "trim_space original \<in> T"
  shows "registryOk digest T (snd (upstreamName digest f original r))"
proof (cases "trim_space original = '''' \<or> gm_get (tn_forward r) (trim_space original) \<noteq> None")
  case True
  then show ?thesis using assms(3) by (auto simp: upstreamName_unfold)
next
  case False
  let ?o = "trim_space original" and ?base = "if f (trim_space original) = '''' then ''tool'' else f (trim_space original)"
  have "registryOk digest T (r\<lparr>tn_forward := gm_put ?o (chosenName digest ?base ?o (tn_reverse r)) (tn_forward r),
      tn_reverse := gm_put (chosenName digest ?base ?o (tn_reverse r)) ?o (tn_reverse r)\<rparr>)"
  proof (rule registryOk_add [OF assms(1,3,4)])
    show "?o \<noteq> ''''" "gm_get (tn_forward r) ?o = None" using False by auto
    show "chosenName digest ?base ?o (tn_reverse r) = ?o \<and> length (chosenName digest ?base ?o (tn_reverse r)) \<le> 64 \<or>
        (\<exists>base. \<exists>h \<le> 32. chosenName digest ?base ?o (tn_reverse r) = hashedToolName digest base ?o h)"
      by (rule chosenName_form)
  qed (rule chosenName_owner [OF assms])
  moreover have "gm_get (tn_forward r) ?o = None" "?o \<noteq> ''''" using False by auto
  ultimately show ?thesis by (simp only: upstreamName_unfold Let_def if_False option.case snd_conv)
qed

lemma upstreamName_forward:
  "gm_get (tn_forward r) original = Some u \<Longrightarrow> gm_get (tn_forward (snd (upstreamName digest f x r))) original = Some u"
  by (auto simp: upstreamName_unfold Let_def gm_get_put split: option.splits)

lemma upstreamName_result:
  "trim_space original \<noteq> '''' \<Longrightarrow>
   gm_get (tn_forward (snd (upstreamName digest f original r))) (trim_space original) = Some (fst (upstreamName digest f original r))"
  by (auto simp: upstreamName_unfold Let_def gm_get_put split: option.splits)

text \<open>The translators register the names of a request one after the other in one registry.\<close>

definition registerNames :: "(string \<Rightarrow> string) \<Rightarrow> (string \<Rightarrow> string) \<Rightarrow> string list \<Rightarrow> toolNameRegistry \<Rightarrow> toolNameRegistry" where
  "registerNames digest f names r = foldl (\<lambda>r name. snd (upstreamName digest f name r)) r names"

lemma registerNames_simps [simp]:
  "registerNames digest f [] r = r"
  "registerNames digest f (x # xs) r = registerNames digest f xs (snd (upstreamName digest f x r))"
  by (simp_all add: registerNames_def)

lemma registerNames_ok:
  "hexDigest digest \<Longrightarrow> namesApart digest T \<Longrightarrow> registryOk digest T r \<Longrightarrow> trim_space ` set names \<subseteq> T \<Longrightarrow>
   registryOk digest T (registerNames digest f names r)"
  by (induction names arbitrary: r) (auto intro: upstreamName_ok)

lemma registerNames_forward:
  "gm_get (tn_forward r) original = Some u \<Longrightarrow> gm_get (tn_forward (registerNames digest f names r)) original = Some u"
  by (induction names arbitrary: r) (auto intro: upstreamName_forward)

lemma registerNames_maps:
  "name \<in> set names \<Longrightarrow> trim_space name \<noteq> '''' \<Longrightarrow>
   \<exists>u. gm_get (tn_forward (registerNames digest f names r)) (trim_space name) = Some u"
proof (induction names arbitrary: r)
  case (Cons x xs)
  then show ?case using upstreamName_result registerNames_forward by (metis registerNames_simps(2) set_ConsD)
qed simp

lemma restoreMap_inverts:
  "registryOk digest T r \<Longrightarrow> gm_get (tn_reverse r) u = Some original \<Longrightarrow> gm_zero u (restoreMap r) u = original"
  by (auto simp: registryOk_def restoreMap_def gm_zero_def gm_get_filter split: option.splits)

text \<open>
  A tool name survives the way to the upstream and back: after the names of a request have been registered, each has
  an upstream name of 1 to 64 bytes, the same one on every later use, and looking that name up in the restore map (which
  leaves out names that did not change) gives the client's name again. The names must have
  different digests within 32 digits and none may look like a hashed form of another.
\<close>

theorem tool_names_roundtrip:
  assumes "hexDigest digest" "namesApart digest (trim_space ` set names)" "name \<in> set names" "trim_space name \<noteq> ''''"
  shows "\<exists>u. upstreamName digest f name (registerNames digest f names newToolNameRegistry) =
               (u, registerNames digest f names newToolNameRegistry) \<and>
             gm_zero u (restoreMap (registerNames digest f names newToolNameRegistry)) u = trim_space name \<and> u \<noteq> '''' \<and> length u \<le> 64"
proof -
  let ?T = "trim_space ` set names" and ?r = "registerNames digest f names newToolNameRegistry"
  have ok: "registryOk digest ?T ?r" using registerNames_ok [OF assms(1,2) registryOk_new] by simp
  obtain u where u: "gm_get (tn_forward ?r) (trim_space name) = Some u" using registerNames_maps [OF assms(3,4)] by blast
  then have rv: "gm_get (tn_reverse ?r) u = Some (trim_space name)" using ok by (simp add: registryOk_def)
  then have "u \<noteq> '''' \<and> length u \<le> 64" using ok by (auto simp: registryOk_def)
  then show ?thesis using u restoreMap_inverts [OF ok rv] assms(4) by (auto simp: upstreamName_unfold)
qed

text \<open>A digest for the witness: the length of the name in unary, in 64 digits.\<close>

definition unaryDigest :: "string \<Rightarrow> string" where
  "unaryDigest s = take 64 (replicate (length s) CHR ''1'' @ replicate 64 CHR ''0'')"

theorem tool_names_roundtrip_witness:
  "\<exists>u. upstreamName unaryDigest sanitizeToolName ''a b'' (registerNames unaryDigest sanitizeToolName [''ab'', ''a b''] newToolNameRegistry) =
        (u, registerNames unaryDigest sanitizeToolName [''ab'', ''a b''] newToolNameRegistry) \<and>
      gm_zero u (restoreMap (registerNames unaryDigest sanitizeToolName [''ab'', ''a b''] newToolNameRegistry)) u = trim_space ''a b'' \<and>
      u \<noteq> '''' \<and> length u \<le> 64"
proof (rule tool_names_roundtrip)
  show "hexDigest unaryDigest" by (auto simp: hexDigest_def unaryDigest_def min_def dest!: in_set_takeD)
  have "trim_space ''ab'' = ''ab''" "trim_space ''a b'' = ''a b''" by code_simp+
  moreover have "take 32 (unaryDigest ''ab'') \<noteq> take 32 (unaryDigest ''a b'')" by code_simp
  moreover have "length (take 32 (unaryDigest s)) = 32" for s by (simp add: unaryDigest_def)
  ultimately show "namesApart unaryDigest (trim_space ` set [''ab'', ''a b''])"
    by (auto simp: namesApart_def dest: suffix_length_le)
qed (simp, code_simp)

end
