(* ===== verification/Json_Encode.thy ===== *)
theory Json_Encode
  imports Json
begin

text \<open>
  What the program uses of \<open>unicode/utf8\<close> and of \<open>encoding/json\<close>'s encoder: the runes of a byte string and the bytes
  that \<open>json.Marshal\<close> writes. The translator measures requests by the length of their encoding and estimates tokens from
  their runes.
\<close>

section \<open>UTF-8\<close>

abbreviation byteOf :: "char \<Rightarrow> nat" where
  "byteOf c \<equiv> of_char c"

definition continuationByte :: "char \<Rightarrow> bool" where
  "continuationByte c \<longleftrightarrow> 128 \<le> byteOf c \<and> byteOf c < 192"

definition runeError :: nat where
  "runeError = 65533"

text \<open>
  \<open>utf8.DecodeRuneInString\<close> on a nonempty string: the rune and the number of bytes it takes; a byte that
  starts no valid encoding is \<open>RuneError\<close> of width 1.
\<close>

fun decodeRune :: "string \<Rightarrow> nat \<times> nat" where
  "decodeRune [] = (runeError, 0)"
| "decodeRune (c # s) =
     (let b0 = byteOf c in
      if b0 < 128 then (b0, 1)
      else if 194 \<le> b0 \<and> b0 < 224 then
        (case s of c1 # _ \<Rightarrow> if continuationByte c1 then ((b0 - 192) * 64 + (byteOf c1 - 128), 2) else (runeError, 1)
         | [] \<Rightarrow> (runeError, 1))
      else if 224 \<le> b0 \<and> b0 < 240 then
        (case s of c1 # c2 # _ \<Rightarrow>
           if (if b0 = 224 then 160 else 128) \<le> byteOf c1 \<and> byteOf c1 < (if b0 = 237 then 160 else 192) \<and> continuationByte c2
           then ((b0 - 224) * 4096 + (byteOf c1 - 128) * 64 + (byteOf c2 - 128), 3) else (runeError, 1)
         | _ \<Rightarrow> (runeError, 1))
      else if 240 \<le> b0 \<and> b0 < 245 then
        (case s of c1 # c2 # c3 # _ \<Rightarrow>
           if (if b0 = 240 then 144 else 128) \<le> byteOf c1 \<and> byteOf c1 < (if b0 = 244 then 144 else 192) \<and>
              continuationByte c2 \<and> continuationByte c3
           then ((b0 - 240) * 262144 + (byteOf c1 - 128) * 4096 + (byteOf c2 - 128) * 64 + (byteOf c3 - 128), 4) else (runeError, 1)
         | _ \<Rightarrow> (runeError, 1))
      else (runeError, 1))"

lemma decodeRune_width: "s \<noteq> [] \<Longrightarrow> 1 \<le> snd (decodeRune s) \<and> snd (decodeRune s) \<le> length s"
  by (induction s rule: decodeRune.induct) (auto simp: Let_def split: list.splits)

lemma decodeRune_ascii: "byteOf c < 128 \<Longrightarrow> decodeRune (c # s) = (byteOf c, 1)"
  by simp

lemma decodeRune_width_le4: "snd (decodeRune s) \<le> 4"
  by (induction s rule: decodeRune.induct) (auto simp: Let_def split: list.splits)

declare decodeRune.simps(2) [simp del]

text \<open>The conversion \<open>[]rune(text)\<close>.\<close>

function runes :: "string \<Rightarrow> nat list" where
  "runes s = (if s = [] then [] else fst (decodeRune s) # runes (drop (snd (decodeRune s)) s))"
  by pat_completeness auto
termination
proof (relation "measure length")
  fix s :: string
  assume "s \<noteq> []"
  then show "(drop (snd (decodeRune s)) s, s) \<in> measure length" using decodeRune_width [of s] by (cases s) auto
qed simp

declare runes.simps [simp del]

lemma runes_Nil [simp]: "runes [] = []"
  by (simp add: runes.simps)

lemma runes_Cons: "s \<noteq> [] \<Longrightarrow> runes s = fst (decodeRune s) # runes (drop (snd (decodeRune s)) s)"
  by (subst runes.simps) simp

lemma runes_eq_Nil [simp]: "runes s = [] \<longleftrightarrow> s = []"
  by (subst runes.simps) simp

lemma length_runes: "length (runes s) \<le> length s"
proof (induction s rule: runes.induct)
  case (1 s)
  show ?case
  proof (cases "s = []")
    case False
    then show ?thesis using 1 decodeRune_width [of s] by (subst runes_Cons) auto
  qed simp
qed

section \<open>Marshalling\<close>

definition hexDigitChar :: "nat \<Rightarrow> char" where
  "hexDigitChar n = (if n < 10 then char_of (48 + n) else char_of (87 + n))"

text \<open>
  The encoder's escapes: quote and backslash, the short escapes, \<open>\u00XX\<close> for other control
  bytes and for the three HTML characters, \<open>\ufffd\<close> for an invalid byte and \<open>\u2028\<close>, \<open>\u2029\<close> for the two line separators.
\<close>

definition escapeAscii :: "char \<Rightarrow> string" where
  "escapeAscii c =
     (let b = byteOf c
      in if b = 34 \<or> b = 92 then [char_of (92::nat), c]
         else if b = 8 then [char_of (92::nat), CHR ''b'']
         else if b = 12 then [char_of (92::nat), CHR ''f'']
         else if b = 10 then [char_of (92::nat), CHR ''n'']
         else if b = 13 then [char_of (92::nat), CHR ''r'']
         else if b = 9 then [char_of (92::nat), CHR ''t'']
         else if b < 32 \<or> b = 60 \<or> b = 62 \<or> b = 38
         then char_of (92::nat) # ''u00'' @ [hexDigitChar (b div 16), hexDigitChar (b mod 16)]
         else [c])"

function escapeString :: "string \<Rightarrow> string" where
  "escapeString s =
     (if s = [] then []
      else if byteOf (hd s) < 128 then escapeAscii (hd s) @ escapeString (tl s)
      else let (r, w) = decodeRune s
           in (if r = runeError \<and> w = 1 then char_of (92::nat) # ''ufffd''
               else if r = 8232 then char_of (92::nat) # ''u2028''
               else if r = 8233 then char_of (92::nat) # ''u2029''
               else take w s) @ escapeString (drop w s))"
  by pat_completeness auto
termination
proof (relation "measure length")
  fix s :: string and x r w
  assume "s \<noteq> []" "x = decodeRune s" "(r, w) = x"
  then show "(drop w s, s) \<in> measure length" using decodeRune_width [of s] by (cases s) (auto simp: prod_eq_iff)
qed auto

declare escapeString.simps [simp del]

definition encodeString :: "string \<Rightarrow> string" where
  "encodeString s = char_of (34::nat) # escapeString s @ [char_of (34::nat)]"

text \<open>Map keys are written in the order of their bytes; equal keys do not occur in a Go map.\<close>

fun bytesBefore :: "string \<Rightarrow> string \<Rightarrow> bool" where
  "bytesBefore [] t = (t \<noteq> [])"
| "bytesBefore (c # s) [] = False"
| "bytesBefore (c # s) (d # t) = (byteOf c < byteOf d \<or> (byteOf c = byteOf d \<and> bytesBefore s t))"

fun joinWith :: "string \<Rightarrow> string list \<Rightarrow> string" where
  "joinWith sep [] = []"
| "joinWith sep [x] = x"
| "joinWith sep (x # y # xs) = x @ sep @ joinWith sep (y # xs)"

definition encodeMembers :: "(string \<times> string) list \<Rightarrow> string" where
  "encodeMembers ms = CHR ''{'' # joinWith '','' (map (\<lambda>(k, v). encodeString k @ CHR '':'' # v) ms) @ ''}''"

fun encodeValue :: "jsonValue \<Rightarrow> string" where
  "encodeValue JNull = ''null''"
| "encodeValue (JBool b) = (if b then ''true'' else ''false'')"
| "encodeValue (JNumber n) = n"
| "encodeValue (JString s) = encodeString s"
| "encodeValue (JArray vs) = CHR ''['' # joinWith '','' (map encodeValue vs) @ '']''"
| "encodeValue (JObject ms) =
     encodeMembers (sort_stable (\<lambda>a b. bytesBefore (fst a) (fst b)) (map (\<lambda>(k, v). (k, encodeValue v)) ms))"

text \<open>A Go struct is written member by member in the order of its fields; \<open>omitempty\<close> leaves out empty strings, slices, maps and nil pointers.\<close>

definition encodeStruct :: "(string \<times> string) option list \<Rightarrow> string" where
  "encodeStruct ms = encodeMembers (List.map_filter (\<lambda>m. m) ms)"

definition always :: "string \<Rightarrow> string \<Rightarrow> (string \<times> string) option" where
  "always key v = Some (key, v)"

definition omitempty :: "bool \<Rightarrow> string \<Rightarrow> string \<Rightarrow> (string \<times> string) option" where
  "omitempty isEmpty key v = (if isEmpty then None else Some (key, v))"

definition encodeList :: "('a \<Rightarrow> string) \<Rightarrow> 'a list \<Rightarrow> string" where
  "encodeList f xs = CHR ''['' # joinWith '','' (map f xs) @ '']''"

end
