(* ===== verification/Kiro_Payload.thy ===== *)
theory Kiro_Payload
  imports Json_Encode Tool_Schema
begin

text \<open>
  The request sent upstream, \<open>KiroPayload\<close> of \<open>proxy/kiro.go\<close>, with its encoding in JSON.

  Pointers to messages are options: each message of a history is reachable through one pointer only, so that
  an update through the pointer is an update of the entry. A nil slice is the empty list. The optional
  floating-point settings are held as the literals the encoder writes. Of the fields that are not
  serialised the record has those the translation and the repairs read or write.
\<close>

section \<open>Types\<close>

record KiroToolUse =
  tu_ToolUseID :: string
  tu_Name :: string
  tu_Input :: jsonValue

record KiroResultContent =
  rc_Text :: string

record KiroToolResult =
  tr_ToolUseID :: string
  tr_Content :: "KiroResultContent list"
  tr_Status :: string

record KiroToolWrapper =
  tw_Name :: string
  tw_Description :: string
  tw_InputSchema :: jsonValue

record KiroImage =
  im_Format :: string
  im_Bytes :: string

record UserInputMessageContext =
  uc_Tools :: "KiroToolWrapper list"
  uc_ToolResults :: "KiroToolResult list"

record KiroUserInputMessage =
  um_Content :: string
  um_ModelID :: string
  um_Origin :: string
  um_Images :: "KiroImage list"
  um_Context :: "UserInputMessageContext option"

record KiroAssistantResponseMessage =
  am_Content :: string
  am_ToolUses :: "KiroToolUse list"

record KiroHistoryMessage =
  hm_User :: "KiroUserInputMessage option"
  hm_Assistant :: "KiroAssistantResponseMessage option"

record InferenceConfig =
  ic_MaxTokens :: int
  ic_Temperature :: "string option"
  ic_TopP :: "string option"

record KiroPayload =
  kp_AgentContinuationId :: string
  kp_AgentTaskType :: string
  kp_ChatTriggerType :: string
  kp_ConversationID :: string
  kp_Current :: KiroUserInputMessage
  kp_History :: "KiroHistoryMessage list"
  kp_ProfileArn :: string
  kp_InferenceConfig :: "InferenceConfig option"
  kp_AdditionalModelRequestFields :: "(string, jsonValue) gomap"
  kp_transparentClaudeCode :: bool
  kp_transparentHistoryFallbackUsed :: bool
  kp_contextWindowTokens :: int
  kp_toolResultRepairs :: int
  kp_toolSchemaRepairs :: int

section \<open>Encoding\<close>

definition encodeToolUse :: "KiroToolUse \<Rightarrow> string" where
  "encodeToolUse tu = encodeStruct
     [always ''toolUseId'' (encodeString (tu_ToolUseID tu)), always ''name'' (encodeString (tu_Name tu)),
      always ''input'' (encodeValue (tu_Input tu))]"

definition encodeToolResult :: "KiroToolResult \<Rightarrow> string" where
  "encodeToolResult tr = encodeStruct
     [always ''toolUseId'' (encodeString (tr_ToolUseID tr)),
      always ''content'' (encodeList (\<lambda>c. encodeStruct [always ''text'' (encodeString (rc_Text c))]) (tr_Content tr)),
      always ''status'' (encodeString (tr_Status tr))]"

definition encodeToolWrapper :: "KiroToolWrapper \<Rightarrow> string" where
  "encodeToolWrapper tw = encodeStruct
     [always ''toolSpecification'' (encodeStruct
        [always ''name'' (encodeString (tw_Name tw)), always ''description'' (encodeString (tw_Description tw)),
         always ''inputSchema'' (encodeStruct [always ''json'' (encodeValue (tw_InputSchema tw))])])]"

definition encodeImage :: "KiroImage \<Rightarrow> string" where
  "encodeImage im = encodeStruct
     [always ''format'' (encodeString (im_Format im)),
      always ''source'' (encodeStruct [always ''bytes'' (encodeString (im_Bytes im))])]"

definition encodeContext :: "UserInputMessageContext \<Rightarrow> string" where
  "encodeContext uc = encodeStruct
     [omitempty (uc_Tools uc = []) ''tools'' (encodeList encodeToolWrapper (uc_Tools uc)),
      omitempty (uc_ToolResults uc = []) ''toolResults'' (encodeList encodeToolResult (uc_ToolResults uc))]"

definition encodeUserInput :: "KiroUserInputMessage \<Rightarrow> string" where
  "encodeUserInput um = encodeStruct
     [always ''content'' (encodeString (um_Content um)),
      omitempty (um_ModelID um = '''') ''modelId'' (encodeString (um_ModelID um)),
      always ''origin'' (encodeString (um_Origin um)),
      omitempty (um_Images um = []) ''images'' (encodeList encodeImage (um_Images um)),
      (case um_Context um of None \<Rightarrow> None | Some uc \<Rightarrow> always ''userInputMessageContext'' (encodeContext uc))]"

definition encodeAssistant :: "KiroAssistantResponseMessage \<Rightarrow> string" where
  "encodeAssistant am = encodeStruct
     [always ''content'' (encodeString (am_Content am)),
      omitempty (am_ToolUses am = []) ''toolUses'' (encodeList encodeToolUse (am_ToolUses am))]"

definition encodeHistoryMessage :: "KiroHistoryMessage \<Rightarrow> string" where
  "encodeHistoryMessage hm = encodeStruct
     [(case hm_User hm of None \<Rightarrow> None | Some um \<Rightarrow> always ''userInputMessage'' (encodeUserInput um)),
      (case hm_Assistant hm of None \<Rightarrow> None | Some am \<Rightarrow> always ''assistantResponseMessage'' (encodeAssistant am))]"

definition encodeInferenceConfig :: "InferenceConfig \<Rightarrow> string" where
  "encodeInferenceConfig ic = encodeStruct
     [omitempty (ic_MaxTokens ic = 0) ''maxTokens'' (show_int (ic_MaxTokens ic)),
      map_option (Pair ''temperature'') (ic_Temperature ic), map_option (Pair ''topP'') (ic_TopP ic)]"

definition encodePayload :: "KiroPayload \<Rightarrow> string" where
  "encodePayload p = encodeStruct
     [always ''conversationState'' (encodeStruct
        [omitempty (kp_AgentContinuationId p = '''') ''agentContinuationId'' (encodeString (kp_AgentContinuationId p)),
         omitempty (kp_AgentTaskType p = '''') ''agentTaskType'' (encodeString (kp_AgentTaskType p)),
         always ''chatTriggerType'' (encodeString (kp_ChatTriggerType p)),
         always ''conversationId'' (encodeString (kp_ConversationID p)),
         always ''currentMessage'' (encodeStruct [always ''userInputMessage'' (encodeUserInput (kp_Current p))]),
         omitempty (kp_History p = []) ''history'' (encodeList encodeHistoryMessage (kp_History p))]),
      omitempty (kp_ProfileArn p = '''') ''profileArn'' (encodeString (kp_ProfileArn p)),
      (case kp_InferenceConfig p of None \<Rightarrow> None | Some ic \<Rightarrow> always ''inferenceConfig'' (encodeInferenceConfig ic)),
      omitempty (kp_AdditionalModelRequestFields p = []) ''additionalModelRequestFields''
        (encodeValue (JObject (kp_AdditionalModelRequestFields p)))]"

definition historyEntryByteSize :: "KiroHistoryMessage \<Rightarrow> int" where
  "historyEntryByteSize entry = int (length (encodeHistoryMessage entry)) + 1"

definition payloadByteSize :: "KiroPayload \<Rightarrow> int" where
  "payloadByteSize p = int (length (encodePayload p))"

definition currentMessageModelID :: "KiroPayload \<Rightarrow> string" where
  "currentMessageModelID p = um_ModelID (kp_Current p)"

definition recordToolResultRepair :: "KiroPayload \<Rightarrow> KiroPayload" where
  "recordToolResultRepair p = p\<lparr>kp_toolResultRepairs := kp_toolResultRepairs p + 1\<rparr>"

definition recordToolSchemaRepairs :: "int \<Rightarrow> KiroPayload \<Rightarrow> KiroPayload" where
  "recordToolSchemaRepairs n p =
     (if n \<le> 0 then p else p\<lparr>kp_toolSchemaRepairs := kp_toolSchemaRepairs p + n\<rparr>)"

section \<open>Constants of the translator\<close>

definition minimalFallbackUserContent :: string where "minimalFallbackUserContent = ''.''"
definition toolResultsContinuationPrefix :: string where "toolResultsContinuationPrefix = ''Tool results:''"
definition toolResultTruncatedNote :: string where
  "toolResultTruncatedNote = ''[Tool result omitted to fit the model'' @ [CHR 0x27] @ ''s input limit.]''"
definition maxPayloadBytes :: int where "maxPayloadBytes = 900 * 1024"
definition truncationPlaceholder :: string where
  "truncationPlaceholder = ''[Earlier conversation history was truncated to fit the model'' @ [CHR 0x27] @
     ''s input limit. Older messages and tool activity have been omitted.]''"
definition tokenBudgetSlack :: int where "tokenBudgetSlack = 256"
definition minRecentHistoryTurns :: nat where "minRecentHistoryTurns = 4"

definition newlines2 :: string where
  "newlines2 = [CHR 0x0A, CHR 0x0A]"

section \<open>Truncating text\<close>

text \<open>The loop steps back to the start of a rune; \<open>maxBytes\<close> is within the string when it starts.\<close>

fun backToRune :: "string \<Rightarrow> nat \<Rightarrow> nat" where
  "backToRune s 0 = 0"
| "backToRune s (Suc n) = (if continuationByte (s ! Suc n) then backToRune s n else Suc n)"

definition truncateStringToBytes :: "string \<Rightarrow> int \<Rightarrow> string" where
  "truncateStringToBytes s maxBytes =
     (if maxBytes \<le> 0 then ''''
      else if int (length s) \<le> maxBytes then s
      else take (backToRune s (nat maxBytes)) s)"

lemma backToRune_le: "backToRune s n \<le> n"
  by (induction n) auto

lemma truncateStringToBytes_prefix: "prefix (truncateStringToBytes s n) s"
  by (auto simp: truncateStringToBytes_def take_is_prefix)

lemma truncateStringToBytes_length: "int (length (truncateStringToBytes s n)) \<le> max 0 n"
  using backToRune_le [of s "nat n"] by (auto simp: truncateStringToBytes_def)

definition buildToolResultsContinuation :: "KiroToolResult list \<Rightarrow> string" where
  "buildToolResultsContinuation toolResults =
     (if toolResults = [] then minimalFallbackUserContent
      else let parts = filter (\<lambda>t. trim_space t \<noteq> '''') (concat (map (\<lambda>tr. map rc_Text (tr_Content tr)) toolResults))
           in if parts = [] then minimalFallbackUserContent
              else let joined = toolResultsContinuationPrefix @ newlines2 @ joinWith newlines2 parts
                   in if length joined > 4000 then truncateStringToBytes joined 4000 else joined)"

end
