(* ===== verification/Token_Estimate.thy ===== *)
theory Token_Estimate
  imports Kiro_Payload
begin

text \<open>
  Token estimates of requests, \<open>proxy/token_estimator.go\<close>, and the token limits the upstream reports per model,
  \<open>proxy/kiro_api.go\<close>. Floating point is rational with every operation followed by the rounding \<open>rnd\<close>,
  a parameter.
\<close>

section \<open>Text\<close>

record tokenEstimateWeights =
  tw_regularASCII :: rat
  tw_digits :: rat
  tw_symbols :: rat
  tw_nonASCII :: rat

definition reportingTokenWeights :: tokenEstimateWeights where
  "reportingTokenWeights = \<lparr>tw_regularASCII = 9/2, tw_digits = 2, tw_symbols = 3/2, tw_nonASCII = 3/2\<rparr>"

definition wireTokenWeights :: tokenEstimateWeights where
  "wireTokenWeights = \<lparr>tw_regularASCII = 4, tw_digits = 2, tw_symbols = 3/2, tw_nonASCII = 1\<rparr>"

datatype runeClass = NonASCII | Digit | Symbol | Regular

definition runeClassOf :: "nat \<Rightarrow> runeClass" where
  "runeClassOf r =
     (if r \<ge> 128 then NonASCII
      else if 48 \<le> r \<and> r \<le> 57 then Digit
      else if (33 \<le> r \<and> r \<le> 47) \<or> (58 \<le> r \<and> r \<le> 64) \<or> (91 \<le> r \<and> r \<le> 96) \<or> (123 \<le> r \<and> r \<le> 126) then Symbol
      else Regular)"

definition countClass :: "runeClass \<Rightarrow> nat list \<Rightarrow> rat" where
  "countClass c rs = of_nat (length (filter (\<lambda>r. runeClassOf r = c) rs))"

definition estimateTextTokens :: "(rat \<Rightarrow> rat) \<Rightarrow> string \<Rightarrow> tokenEstimateWeights \<Rightarrow> bool \<Rightarrow> int" where
  "estimateTextTokens rnd text weights useShortTextHeuristic =
     (if text = '''' then 0
      else let rs = runes text; len = length rs
           in if useShortTextHeuristic \<and> len < 5 then max 1 \<lceil>rnd (of_nat len / 3)\<rceil>
              else let regular = rnd (countClass Regular rs / tw_regularASCII weights);
                       digits = rnd (countClass Digit rs / tw_digits weights);
                       symbols = rnd (countClass Symbol rs / tw_symbols weights);
                       nonASCII = rnd (countClass NonASCII rs / tw_nonASCII weights);
                       estimated = \<lceil>rnd (rnd (rnd (regular + digits) + symbols) + nonASCII)\<rceil>
                   in if estimated < 1 then 1 else estimated)"

definition estimateApproxTokens :: "(rat \<Rightarrow> rat) \<Rightarrow> string \<Rightarrow> int" where
  "estimateApproxTokens rnd text = estimateTextTokens rnd text reportingTokenWeights True"

definition estimateWireTokens :: "(rat \<Rightarrow> rat) \<Rightarrow> string \<Rightarrow> int" where
  "estimateWireTokens rnd text = estimateTextTokens rnd text wireTokenWeights False"

definition estimateJSONTokens :: "(rat \<Rightarrow> rat) \<Rightarrow> jsonValue \<Rightarrow> int" where
  "estimateJSONTokens rnd v = (if v = JNull then 0 else estimateApproxTokens rnd (encodeValue v))"

definition estimateWireJSONTokens :: "(rat \<Rightarrow> rat) \<Rightarrow> jsonValue \<Rightarrow> int" where
  "estimateWireJSONTokens rnd v = (if v = JNull then 0 else estimateWireTokens rnd (encodeValue v))"

lemma estimateTextTokens_pos: "s \<noteq> '''' \<Longrightarrow> 1 \<le> estimateTextTokens rnd s w b"
  by (simp add: estimateTextTokens_def Let_def)

lemma estimateTextTokens_nonneg [simp]: "0 \<le> estimateTextTokens rnd s w b"
  using estimateTextTokens_pos [of s rnd w b] by (cases "s = ''''") (auto simp: estimateTextTokens_def)

lemma estimateWireTokens_zero_iff: "estimateWireTokens rnd s = 0 \<longleftrightarrow> s = ''''"
  using estimateTextTokens_pos [of s rnd wireTokenWeights False] by (auto simp: estimateWireTokens_def estimateTextTokens_def)

section \<open>Requests\<close>

definition maxImageInputTokens :: int where
  "maxImageInputTokens = 1600"

definition estimateKiroToolWrapperTokens :: "(rat \<Rightarrow> rat) \<Rightarrow> KiroToolWrapper \<Rightarrow> int" where
  "estimateKiroToolWrapperTokens rnd tool =
     estimateWireTokens rnd (tw_Name tool) + estimateWireTokens rnd (tw_Description tool) + estimateWireJSONTokens rnd (tw_InputSchema tool)"

definition estimateKiroToolResultTokens :: "(rat \<Rightarrow> rat) \<Rightarrow> KiroToolResult \<Rightarrow> int" where
  "estimateKiroToolResultTokens rnd r = sum_list (map (\<lambda>c. estimateWireTokens rnd (rc_Text c)) (tr_Content r))"

definition estimateKiroToolContextTokens :: "(rat \<Rightarrow> rat) \<Rightarrow> UserInputMessageContext option \<Rightarrow> int" where
  "estimateKiroToolContextTokens rnd ctx =
     (case ctx of
        None \<Rightarrow> 0
      | Some c \<Rightarrow> sum_list (map (estimateKiroToolWrapperTokens rnd) (uc_Tools c)) + sum_list (map (estimateKiroToolResultTokens rnd) (uc_ToolResults c)))"

definition estimateKiroUserContentTokens :: "(rat \<Rightarrow> rat) \<Rightarrow> KiroUserInputMessage \<Rightarrow> int" where
  "estimateKiroUserContentTokens rnd u = estimateWireTokens rnd (um_Content u) + int (length (um_Images u)) * maxImageInputTokens"

definition estimateKiroUserInputTokens :: "(rat \<Rightarrow> rat) \<Rightarrow> KiroUserInputMessage \<Rightarrow> int" where
  "estimateKiroUserInputTokens rnd u = estimateKiroUserContentTokens rnd u + estimateKiroToolContextTokens rnd (um_Context u)"

definition estimateKiroAssistantResponseTokens :: "(rat \<Rightarrow> rat) \<Rightarrow> KiroAssistantResponseMessage \<Rightarrow> int" where
  "estimateKiroAssistantResponseTokens rnd a =
     estimateWireTokens rnd (am_Content a) +
     sum_list (map (\<lambda>tu. estimateWireTokens rnd (tu_Name tu) + estimateWireJSONTokens rnd (tu_Input tu)) (am_ToolUses a))"

definition estimateKiroHistoryEntryTokens :: "(rat \<Rightarrow> rat) \<Rightarrow> KiroHistoryMessage \<Rightarrow> int" where
  "estimateKiroHistoryEntryTokens rnd m =
     (case hm_User m of None \<Rightarrow> 0 | Some u \<Rightarrow> estimateKiroUserInputTokens rnd u) +
     (case hm_Assistant m of None \<Rightarrow> 0 | Some a \<Rightarrow> estimateKiroAssistantResponseTokens rnd a)"

definition estimateKiroPayloadTokens :: "(rat \<Rightarrow> rat) \<Rightarrow> KiroPayload \<Rightarrow> int" where
  "estimateKiroPayloadTokens rnd p =
     estimateKiroUserInputTokens rnd (kp_Current p) + sum_list (map (estimateKiroHistoryEntryTokens rnd) (kp_History p))"

definition estimateClaudeOutputTokens :: "(rat \<Rightarrow> rat) \<Rightarrow> string \<Rightarrow> string \<Rightarrow> KiroToolUse list \<Rightarrow> int" where
  "estimateClaudeOutputTokens rnd content thinkingContent toolUses =
     estimateApproxTokens rnd content + estimateApproxTokens rnd thinkingContent +
     sum_list (map (\<lambda>tu. estimateApproxTokens rnd (tu_Name tu) + estimateJSONTokens rnd (tu_Input tu)) toolUses)"

section \<open>Discovered limits\<close>

record ModelTokenLimits =
  ml_MaxInputTokens :: int
  ml_MaxOutputTokens :: int

record ModelInfo =
  mi_ModelId :: string
  mi_TokenLimits :: "ModelTokenLimits option"

text \<open>The process-wide map of the limits, by lower-case model name; a later report only raises a limit.\<close>

type_synonym discoveredLimits = "(string, ModelTokenLimits) gomap"

definition rememberLimits :: "ModelInfo \<Rightarrow> discoveredLimits \<Rightarrow> discoveredLimits" where
  "rememberLimits model m =
     (let key = to_lower (trim_space (mi_ModelId model))
      in if key = '''' then m
         else case mi_TokenLimits model of
           None \<Rightarrow> m
         | Some limits \<Rightarrow>
             let merged = (case gm_get m key of
                   None \<Rightarrow> limits
                 | Some existing \<Rightarrow> \<lparr>ml_MaxInputTokens = max (ml_MaxInputTokens existing) (ml_MaxInputTokens limits),
                                     ml_MaxOutputTokens = max (ml_MaxOutputTokens existing) (ml_MaxOutputTokens limits)\<rparr>)
             in gm_put key merged m)"

definition rememberDiscoveredModelTokenLimits :: "ModelInfo list \<Rightarrow> discoveredLimits \<Rightarrow> discoveredLimits" where
  "rememberDiscoveredModelTokenLimits models m = foldl (\<lambda>m model. rememberLimits model m) m models"

definition getDiscoveredModelTokenLimits :: "discoveredLimits \<Rightarrow> string \<Rightarrow> ModelTokenLimits option" where
  "getDiscoveredModelTokenLimits m model =
     (let key = to_lower (trim_space model)
      in case gm_get m key of
           Some v \<Rightarrow> Some v
         | None \<Rightarrow> if has_suffix key ''-thinking'' then gm_get m (take (length key - length ''-thinking'') key) else None)"

end
