(* ===== verification/Tool_History.thy ===== *)
theory Tool_History
  imports Kiro_Payload Thinking_Tags Upstream_Error
begin

text \<open>
  The tool turns of a conversation, \<open>proxy/translator.go\<close>: the upstream accepts tool results only as the exact answer
  to the tool calls of the assistant turn just before them. The translator pairs and orders results, writes the other tool
  turns of the history as text (or, for Claude Code, keeps the complete pairs), and repairs and validates the
  payload before it is sent.
\<close>

section \<open>Pairing results with calls\<close>

text \<open>The IDs of the calls, in order; no result when one is blank or occurs twice.\<close>

fun uniqueIDs :: "string set \<Rightarrow> string list \<Rightarrow> string list option" where
  "uniqueIDs seen [] = Some []"
| "uniqueIDs seen (i # ids) =
     (if trim_space i = '''' then None
      else if i \<in> seen then None
      else map_option ((#) i) (uniqueIDs (insert i seen) ids))"

definition lastAssistantToolUseIDs :: "KiroHistoryMessage list \<Rightarrow> string list option" where
  "lastAssistantToolUseIDs history =
     (if history = [] then None
      else case hm_Assistant (last history) of
        None \<Rightarrow> None
      | Some a \<Rightarrow> if am_ToolUses a = [] then None else uniqueIDs {} (map tu_ToolUseID (am_ToolUses a)))"

fun resultsByID :: "KiroToolResult list \<Rightarrow> (string, KiroToolResult) gomap \<Rightarrow> (string, KiroToolResult) gomap option" where
  "resultsByID [] byID = Some byID"
| "resultsByID (result # results) byID =
     (if trim_space (tr_ToolUseID result) = '''' then None
      else if gm_get byID (tr_ToolUseID result) \<noteq> None then None
      else resultsByID results (gm_put (tr_ToolUseID result) result byID))"

fun pickResults :: "(string, KiroToolResult) gomap \<Rightarrow> string list \<Rightarrow> KiroToolResult list option" where
  "pickResults byID [] = Some []"
| "pickResults byID (i # ids) =
     (case gm_get byID i of None \<Rightarrow> None | Some result \<Rightarrow> map_option ((#) result) (pickResults byID ids))"

definition orderToolResultsForLastAssistant :: "KiroHistoryMessage list \<Rightarrow> KiroToolResult list \<Rightarrow> KiroToolResult list option" where
  "orderToolResultsForLastAssistant history toolResults =
     (case lastAssistantToolUseIDs history of
        None \<Rightarrow> None
      | Some toolUseIDs \<Rightarrow>
          if length toolResults \<noteq> length toolUseIDs then None
          else case resultsByID toolResults [] of None \<Rightarrow> None | Some byID \<Rightarrow> pickResults byID toolUseIDs)"

definition sameToolResultOrder :: "KiroToolResult list \<Rightarrow> KiroToolResult list \<Rightarrow> bool" where
  "sameToolResultOrder left right \<longleftrightarrow> map tr_ToolUseID left = map tr_ToolUseID right"

section \<open>Cleaning text\<close>

text \<open>
  \<open>pollutedToolCallTextPattern\<close> is the text \<open>[Called tool\<close> with a space, any bytes but a closing bracket, and a closing
  bracket. All matches are removed from the left.
\<close>

definition pollutedMarker :: string where
  "pollutedMarker = ''[Called tool ''"

function removePolluted :: "string \<Rightarrow> string" where
  "removePolluted s =
     (case str_index s pollutedMarker of
        None \<Rightarrow> s
      | Some i \<Rightarrow>
          let rest = drop (i + length pollutedMarker) s
          in case str_index rest '']'' of
               None \<Rightarrow> s
             | Some j \<Rightarrow> take i s @ removePolluted (drop (Suc j) rest))"
  by pat_completeness auto
termination
proof (relation "measure length")
  fix s i rest j
  assume "str_index s pollutedMarker = Some i" "rest = drop (i + length pollutedMarker) s"
  moreover have "s \<noteq> []" using calculation by (auto simp: pollutedMarker_def)
  ultimately show "(drop (Suc j) rest, s) \<in> measure length" by (cases s) (auto simp: pollutedMarker_def)
qed simp

declare removePolluted.simps [simp del]

text \<open>\<open>\n{3,}\<close> replaced by two line feeds.\<close>

function collapseNewlines :: "string \<Rightarrow> string" where
  "collapseNewlines [] = []"
| "collapseNewlines (c # s) =
     (if c = CHR 0x0A
      then (let run = takeWhile (\<lambda>d. d = CHR 0x0A) (c # s)
            in (if length run \<ge> 3 then newlines2 else run) @ collapseNewlines (dropWhile (\<lambda>d. d = CHR 0x0A) s))
      else c # collapseNewlines s)"
  by pat_completeness auto
termination
proof (relation "measure length")
  fix c s
  show "(dropWhile (\<lambda>d. d = CHR 0x0A) s, c # s) \<in> measure length"
    using length_dropWhile_le [of "\<lambda>d. d = CHR 0x0A" s] by simp
qed auto

definition stripPollutedToolCallText :: "string \<Rightarrow> string" where
  "stripPollutedToolCallText content =
     (if \<not> contains content pollutedMarker then content
      else trim_space (collapseNewlines (removePolluted content)))"

definition stripTextualThinkingBlocks :: "string \<Rightarrow> string" where
  "stripTextualThinkingBlocks content =
     (if \<not> contains content ''<think'' then content else trim_space (fst (visibleTextOutsideThinking content)))"

section \<open>Writing tool turns as text\<close>

definition narrateToolResult :: "(string, string) gomap \<Rightarrow> KiroToolResult \<Rightarrow> string" where
  "narrateToolResult names tr =
     (let texts = filter (\<lambda>t. trim_space t \<noteq> '''') (map rc_Text (tr_Content tr));
          body0 = joinWith [CHR 0x0A] texts;
          body = (if trim_space body0 = '''' then ''(no output)'' else body0);
          name = gm_zero '''' names (tr_ToolUseID tr)
      in if name \<noteq> '''' then ''['' @ name @ ''] '' @ body else body)"

definition narrateToolResults :: "KiroToolResult list \<Rightarrow> (string, string) gomap \<Rightarrow> string" where
  "narrateToolResults toolResults names =
     (if toolResults = [] then ''''
      else toolResultsContinuationPrefix @ newlines2 @ joinWith newlines2 (map (narrateToolResult names) toolResults))"

definition joinHistoryText :: "string \<Rightarrow> string \<Rightarrow> string" where
  "joinHistoryText existing0 narrated0 =
     (let existing = trim_space existing0; narrated = trim_space narrated0
      in if existing \<noteq> '''' \<and> narrated \<noteq> '''' then existing @ newlines2 @ narrated
         else if narrated \<noteq> '''' then narrated
         else existing)"

definition addToolName :: "(string, string) gomap \<Rightarrow> KiroToolUse \<Rightarrow> (string, string) gomap" where
  "addToolName names tu =
     (if tu_ToolUseID tu \<noteq> '''' \<and> tu_Name tu \<noteq> '''' then gm_put (tu_ToolUseID tu) (tu_Name tu) names else names)"

definition toolNamesOf :: "KiroHistoryMessage list \<Rightarrow> (string, string) gomap" where
  "toolNamesOf history =
     foldl (\<lambda>names m. case hm_Assistant m of None \<Rightarrow> names | Some a \<Rightarrow> foldl addToolName names (am_ToolUses a)) [] history"

definition assistantHasToolUses :: "KiroHistoryMessage \<Rightarrow> bool" where
  "assistantHasToolUses m = (case hm_Assistant m of None \<Rightarrow> False | Some a \<Rightarrow> am_ToolUses a \<noteq> [])"

definition trimLeadingAssistantHistory :: "KiroHistoryMessage list \<Rightarrow> KiroHistoryMessage list" where
  "trimLeadingAssistantHistory history = dropWhile (\<lambda>m. hm_Assistant m \<noteq> None) history"

text \<open>The steps of the first pass of \<open>sanitizeKiroHistory\<close> on one entry, \<open>active\<close> when it is the active tool turn.\<close>

definition scrubAssistant :: "KiroHistoryMessage \<Rightarrow> KiroHistoryMessage" where
  "scrubAssistant m =
     (case hm_Assistant m of
        None \<Rightarrow> m
      | Some a \<Rightarrow>
          if am_Content a \<noteq> ''''
          then m\<lparr>hm_Assistant := Some (a\<lparr>am_Content := stripTextualThinkingBlocks (stripPollutedToolCallText (am_Content a))\<rparr>)\<rparr>
          else m)"

definition dropToolUses :: "KiroHistoryMessage \<Rightarrow> KiroHistoryMessage" where
  "dropToolUses m = m\<lparr>hm_Assistant := map_option (\<lambda>a. a\<lparr>am_ToolUses := []\<rparr>) (hm_Assistant m)\<rparr>"

definition narrateUser :: "(string, string) gomap \<Rightarrow> KiroUserInputMessage \<Rightarrow> KiroUserInputMessage" where
  "narrateUser names u =
     (case um_Context u of
        None \<Rightarrow> u
      | Some ctx \<Rightarrow>
          (if uc_ToolResults ctx \<noteq> []
           then u\<lparr>um_Content := joinHistoryText (um_Content u) (narrateToolResults (uc_ToolResults ctx) names), um_Context := None\<rparr>
           else u\<lparr>um_Context := None\<rparr>))"

definition fallbackUser :: "KiroUserInputMessage \<Rightarrow> KiroUserInputMessage" where
  "fallbackUser u =
     (if trim_space (um_Content u) = '''' \<and> um_Images u = [] then u\<lparr>um_Content := minimalFallbackUserContent\<rparr> else u)"

definition sanitizeEntry :: "(string, string) gomap \<Rightarrow> bool \<Rightarrow> KiroHistoryMessage \<Rightarrow> KiroHistoryMessage" where
  "sanitizeEntry names active m0 =
     (let m1 = scrubAssistant m0
      in if assistantHasToolUses m1 \<and> active then m1
         else let m2 = (if assistantHasToolUses m1 then dropToolUses m1 else m1)
              in m2\<lparr>hm_User := map_option (\<lambda>u. fallbackUser (narrateUser names u)) (hm_User m2)\<rparr>)"

text \<open>The second pass: hollow assistant turns and repeated user turns are left out.\<close>

definition hollowAssistant :: "KiroHistoryMessage \<Rightarrow> bool" where
  "hollowAssistant m =
     (case hm_Assistant m of
        None \<Rightarrow> False
      | Some a \<Rightarrow> am_ToolUses a = [] \<and> (trim_space (am_Content a) = '''' \<or> trim_space (am_Content a) = minimalFallbackUserContent))"

definition repeatedUser :: "KiroHistoryMessage list \<Rightarrow> KiroHistoryMessage \<Rightarrow> bool" where
  "repeatedUser cleaned m =
     (case hm_User m of
        None \<Rightarrow> False
      | Some u \<Rightarrow>
          cleaned \<noteq> [] \<and>
          (case hm_User (last cleaned) of
             None \<Rightarrow> False
           | Some l \<Rightarrow> trim_space (um_Content l) = trim_space (um_Content u) \<and> trim_space (um_Content u) \<noteq> '''' \<and> um_Images u = []))"

definition cleanStep :: "KiroHistoryMessage list \<Rightarrow> KiroHistoryMessage \<Rightarrow> KiroHistoryMessage list" where
  "cleanStep cleaned m = (if hollowAssistant m then cleaned else if repeatedUser cleaned m then cleaned else cleaned @ [m])"

definition sanitizeKiroHistory :: "KiroHistoryMessage list \<Rightarrow> KiroToolResult list \<Rightarrow> KiroHistoryMessage list" where
  "sanitizeKiroHistory history currentToolResults =
     (if history = [] then history
      else let names = toolNamesOf history;
               active = (orderToolResultsForLastAssistant history currentToolResults \<noteq> None);
               passed = map (\<lambda>(i, m). sanitizeEntry names (active \<and> i = length history - 1) m) (enumerate 0 history)
           in trimLeadingAssistantHistory (foldl cleanStep [] passed))"

section \<open>Keeping structured history\<close>

fun mapToolUseNames :: "(string \<Rightarrow> string) \<Rightarrow> (string \<Rightarrow> string) \<Rightarrow> KiroToolUse list \<Rightarrow> toolNameRegistry \<Rightarrow> KiroToolUse list \<times> toolNameRegistry" where
  "mapToolUseNames digest f [] r = ([], r)"
| "mapToolUseNames digest f (tu # tus) r =
     (let (name, r1) = upstreamName digest f (tu_Name tu) r; (tus', r2) = mapToolUseNames digest f tus r1
      in (tu\<lparr>tu_Name := name\<rparr> # tus', r2))"

fun mapStructuredHistoryToolNames ::
    "(string \<Rightarrow> string) \<Rightarrow> (string \<Rightarrow> string) \<Rightarrow> KiroHistoryMessage list \<Rightarrow> toolNameRegistry \<Rightarrow> KiroHistoryMessage list \<times> toolNameRegistry" where
  "mapStructuredHistoryToolNames digest f [] r = ([], r)"
| "mapStructuredHistoryToolNames digest f (m # ms) r =
     (case hm_Assistant m of
        None \<Rightarrow> let (ms', r1) = mapStructuredHistoryToolNames digest f ms r in (m # ms', r1)
      | Some a \<Rightarrow>
          let (tus, r1) = mapToolUseNames digest f (am_ToolUses a) r; (ms', r2) = mapStructuredHistoryToolNames digest f ms r1
          in (m\<lparr>hm_Assistant := Some (a\<lparr>am_ToolUses := tus\<rparr>)\<rparr> # ms', r2))"

definition nonBlank :: "string list \<Rightarrow> string set" where
  "nonBlank ids = {i \<in> set ids. trim_space i \<noteq> ''''}"

lemma nonBlank_code [code]: "nonBlank ids = set (filter (\<lambda>i. trim_space i \<noteq> '''') ids)"
  by (auto simp: nonBlank_def)

definition entryCallIDs :: "KiroHistoryMessage \<Rightarrow> string list" where
  "entryCallIDs m = (case hm_Assistant m of None \<Rightarrow> [] | Some a \<Rightarrow> map tu_ToolUseID (am_ToolUses a))"

definition entryResultIDs :: "KiroHistoryMessage \<Rightarrow> string list" where
  "entryResultIDs m =
     (case hm_User m of
        None \<Rightarrow> []
      | Some u \<Rightarrow> (case um_Context u of None \<Rightarrow> [] | Some ctx \<Rightarrow> map tr_ToolUseID (uc_ToolResults ctx)))"

definition historyToolIDs :: "KiroHistoryMessage list \<Rightarrow> string set" where
  "historyToolIDs history = nonBlank (concat (map entryCallIDs history))"

definition historyResultIDs :: "KiroHistoryMessage list \<Rightarrow> KiroToolResult list \<Rightarrow> string set" where
  "historyResultIDs history currentResults =
     nonBlank (concat (map entryResultIDs history)) \<union> nonBlank (map tr_ToolUseID currentResults)"

text \<open>Only calls with a result and results with a call are kept; an assistant turn that keeps a call has content.\<close>

definition keepAnsweredCalls :: "string set \<Rightarrow> KiroAssistantResponseMessage \<Rightarrow> KiroAssistantResponseMessage" where
  "keepAnsweredCalls resultIDs a =
     (let kept = filter (\<lambda>tu. tu_ToolUseID tu \<in> resultIDs) (am_ToolUses a)
      in a\<lparr>am_Content := (if kept \<noteq> [] \<and> trim_space (am_Content a) = '''' then '' '' else am_Content a), am_ToolUses := kept\<rparr>)"

definition keepCalledResults :: "string set \<Rightarrow> KiroUserInputMessage \<Rightarrow> KiroUserInputMessage" where
  "keepCalledResults toolIDs u =
     (case um_Context u of
        None \<Rightarrow> u
      | Some ctx \<Rightarrow>
          let kept = filter (\<lambda>tr. tr_ToolUseID tr \<in> toolIDs) (uc_ToolResults ctx)
          in u\<lparr>um_Context := (if uc_Tools ctx = [] \<and> kept = [] then None else Some (ctx\<lparr>uc_ToolResults := kept\<rparr>))\<rparr>)"

definition keepPairs :: "string set \<Rightarrow> string set \<Rightarrow> KiroHistoryMessage \<Rightarrow> KiroHistoryMessage" where
  "keepPairs toolIDs resultIDs m =
     m\<lparr>hm_User := map_option (keepCalledResults toolIDs) (hm_User m), hm_Assistant := map_option (keepAnsweredCalls resultIDs) (hm_Assistant m)\<rparr>"

definition placeholderTool :: "string \<Rightarrow> KiroToolWrapper" where
  "placeholderTool name =
     \<lparr>tw_Name = name, tw_Description = ''Tool used in conversation history'',
      tw_InputSchema = JObject [(''type'', JString ''object''), (''properties'', JObject []), (''required'', JArray []),
        (''additionalProperties'', JBool True)]\<rparr>"

fun addPlaceholders ::
    "(string \<Rightarrow> string) \<Rightarrow> (string \<Rightarrow> string) \<Rightarrow> KiroToolUse list \<Rightarrow> KiroToolWrapper list \<times> string list \<times> toolNameRegistry \<Rightarrow>
     KiroToolWrapper list \<times> string list \<times> toolNameRegistry" where
  "addPlaceholders digest f [] st = st"
| "addPlaceholders digest f (tu # tus) (tools, existing, r) =
     (let (name, r1) = upstreamName digest f (tu_Name tu) r; key = to_lower (trim_space name)
      in addPlaceholders digest f tus
           (if key = '''' \<or> key \<in> set existing then (tools, existing, r1)
            else (tools @ [placeholderTool name], key # existing, r1)))"

definition preserveStructuredClaudeHistory ::
    "(string \<Rightarrow> string) \<Rightarrow> (string \<Rightarrow> string) \<Rightarrow> KiroHistoryMessage list \<Rightarrow> KiroToolResult list \<Rightarrow> KiroToolResult list \<Rightarrow> bool \<Rightarrow>
     KiroToolWrapper list \<Rightarrow> toolNameRegistry \<Rightarrow> KiroToolResult list \<times> KiroHistoryMessage list \<times> KiroToolWrapper list \<times> toolNameRegistry" where
  "preserveStructuredClaudeHistory digest f history0 currentResults orderedCurrentResults keepCurrentResults tools0 r0 =
     (let (history1, r1) = mapStructuredHistoryToolNames digest f history0 r0;
          history = map (keepPairs (historyToolIDs history1) (historyResultIDs history1 currentResults)) history1;
          existing = map (\<lambda>tool. to_lower (trim_space (tw_Name tool))) tools0;
          calls = concat (map (\<lambda>m. case hm_Assistant m of None \<Rightarrow> [] | Some a \<Rightarrow> am_ToolUses a) history);
          (tools, _, r2) = addPlaceholders digest f calls (tools0, existing, r1)
      in (if keepCurrentResults then orderedCurrentResults else currentResults, history, tools, r2))"

section \<open>Merging turns\<close>

definition mergeContent :: "string \<Rightarrow> string \<Rightarrow> string" where
  "mergeContent dst src =
     (if trim_space src \<noteq> '''' then (if trim_space dst = '''' then src else dst @ [CHR 0x0A] @ src) else dst)"

definition mergeKiroHistoryUsers :: "KiroUserInputMessage \<Rightarrow> KiroUserInputMessage \<Rightarrow> KiroUserInputMessage" where
  "mergeKiroHistoryUsers dst src =
     (let dst1 = dst\<lparr>um_Content := mergeContent (um_Content dst) (um_Content src), um_Images := um_Images dst @ um_Images src\<rparr>
      in case um_Context src of
           None \<Rightarrow> dst1
         | Some sc \<Rightarrow>
             let dc = (case um_Context dst of None \<Rightarrow> \<lparr>uc_Tools = [], uc_ToolResults = []\<rparr> | Some dc \<Rightarrow> dc)
             in dst1\<lparr>um_Context := Some \<lparr>uc_Tools = uc_Tools dc @ uc_Tools sc, uc_ToolResults = uc_ToolResults dc @ uc_ToolResults sc\<rparr>\<rparr>)"

definition mergeKiroHistoryAssistants :: "KiroAssistantResponseMessage \<Rightarrow> KiroAssistantResponseMessage \<Rightarrow> KiroAssistantResponseMessage" where
  "mergeKiroHistoryAssistants dst src =
     dst\<lparr>am_Content := mergeContent (am_Content dst) (am_Content src), am_ToolUses := am_ToolUses dst @ am_ToolUses src\<rparr>"

definition mergeStep :: "KiroHistoryMessage list \<Rightarrow> KiroHistoryMessage \<Rightarrow> KiroHistoryMessage list" where
  "mergeStep merged entry =
     (if merged = [] then [entry]
      else let l = last merged
           in case (hm_User l, hm_User entry) of
                (Some dst, Some src) \<Rightarrow> butlast merged @ [l\<lparr>hm_User := Some (mergeKiroHistoryUsers dst src)\<rparr>]
              | _ \<Rightarrow> (case (hm_Assistant l, hm_Assistant entry) of
                        (Some dst, Some src) \<Rightarrow> butlast merged @ [l\<lparr>hm_Assistant := Some (mergeKiroHistoryAssistants dst src)\<rparr>]
                      | _ \<Rightarrow> merged @ [entry]))"

definition mergeClaudeHistoryTurns :: "KiroHistoryMessage list \<Rightarrow> KiroHistoryMessage list" where
  "mergeClaudeHistoryTurns history =
     (if length history < 2 then history
      else let merged = foldl mergeStep [] history;
               merged' = (if hm_User (last merged) \<noteq> None
                          then merged @ [\<lparr>hm_User = None, hm_Assistant = Some \<lparr>am_Content = ''OK'', am_ToolUses = []\<rparr>\<rparr>] else merged)
           in trimLeadingAssistantHistory merged')"

section \<open>Repair and validation\<close>

definition currentResultsOf :: "KiroPayload \<Rightarrow> KiroToolResult list" where
  "currentResultsOf p = (case um_Context (kp_Current p) of None \<Rightarrow> [] | Some ctx \<Rightarrow> uc_ToolResults ctx)"

definition setCurrentResults :: "KiroToolResult list \<Rightarrow> KiroPayload \<Rightarrow> KiroPayload" where
  "setCurrentResults rs p =
     p\<lparr>kp_Current := (kp_Current p)\<lparr>um_Context := map_option (\<lambda>ctx. ctx\<lparr>uc_ToolResults := rs\<rparr>) (um_Context (kp_Current p))\<rparr>\<rparr>"

definition flattenCurrentResults :: "UserInputMessageContext \<Rightarrow> KiroUserInputMessage \<Rightarrow> KiroUserInputMessage" where
  "flattenCurrentResults ctx current =
     (let continuation = buildToolResultsContinuation (uc_ToolResults ctx);
          content = (if um_Content current = '''' \<or> um_Content current = minimalFallbackUserContent then continuation
                     else if continuation \<noteq> um_Content current then um_Content current @ newlines2 @ continuation
                     else um_Content current)
      in current\<lparr>um_Content := content, um_Context := (if uc_Tools ctx = [] then None else Some (ctx\<lparr>uc_ToolResults := []\<rparr>))\<rparr>)"

definition detachOrphanedToolResults :: "KiroPayload \<Rightarrow> bool \<times> KiroPayload" where
  "detachOrphanedToolResults p =
     (case um_Context (kp_Current p) of
        None \<Rightarrow> (False, p)
      | Some ctx \<Rightarrow>
          if uc_ToolResults ctx = [] then (False, p)
          else case orderToolResultsForLastAssistant (kp_History p) (uc_ToolResults ctx) of
                 Some ordered \<Rightarrow> (\<not> sameToolResultOrder (uc_ToolResults ctx) ordered, setCurrentResults ordered p)
               | None \<Rightarrow> (True, p\<lparr>kp_Current := flattenCurrentResults ctx (kp_Current p)\<rparr>))"

definition entryHasToolData :: "KiroHistoryMessage \<Rightarrow> bool" where
  "entryHasToolData m \<longleftrightarrow> assistantHasToolUses m \<or>
     (case hm_User m of
        None \<Rightarrow> False
      | Some u \<Rightarrow> (case um_Context u of None \<Rightarrow> False | Some ctx \<Rightarrow> uc_Tools ctx \<noteq> [] \<or> uc_ToolResults ctx \<noteq> []))"

definition historyHasStructuredToolData :: "KiroHistoryMessage list \<Rightarrow> bool" where
  "historyHasStructuredToolData history \<longleftrightarrow> list_ex entryHasToolData history"

definition sanitizeKiroPayloadToolSchemas :: "KiroPayload \<Rightarrow> int \<times> KiroPayload" where
  "sanitizeKiroPayloadToolSchemas p =
     (case um_Context (kp_Current p) of
        None \<Rightarrow> (0, p)
      | Some ctx \<Rightarrow>
          if uc_Tools ctx = [] then (0, p)
          else let changed = length (filter (\<lambda>t. encodeValue (tw_InputSchema t) \<noteq> encodeValue (ensureObjectSchema (tw_InputSchema t))) (uc_Tools ctx));
                   tools = map (\<lambda>t. t\<lparr>tw_InputSchema := ensureObjectSchema (tw_InputSchema t)\<rparr>) (uc_Tools ctx)
               in (int changed, p\<lparr>kp_Current := (kp_Current p)\<lparr>um_Context := Some (ctx\<lparr>uc_Tools := tools\<rparr>)\<rparr>\<rparr>))"

text \<open>The ordering step of both repairs: whether it changed something, the results that stay structured, the payload.\<close>

definition orderOrDetach :: "KiroPayload \<Rightarrow> bool \<times> KiroToolResult list \<times> KiroPayload" where
  "orderOrDetach p =
     (let results = currentResultsOf p
      in if results = [] then (False, [], p)
         else case orderToolResultsForLastAssistant (kp_History p) results of
                Some ordered \<Rightarrow> (\<not> sameToolResultOrder results ordered, ordered, setCurrentResults ordered p)
              | None \<Rightarrow> (let (b, p') = detachOrphanedToolResults p in (b, [], p')))"

definition repairStructuredKiroPayloadToolResults :: "KiroPayload \<Rightarrow> KiroPayload" where
  "repairStructuredKiroPayloadToolResults p0 =
     (let (repaired0, currentResults, p1) = orderOrDetach p0;
          toolIDs = historyToolIDs (kp_History p1);
          resultIDs = historyResultIDs (kp_History p1) currentResults;
          orphan = list_ex (\<lambda>m. list_ex (\<lambda>i. i \<notin> resultIDs) (entryCallIDs m) \<or> list_ex (\<lambda>i. i \<notin> toolIDs) (entryResultIDs m)) (kp_History p1);
          p2 = p1\<lparr>kp_History := map (keepPairs toolIDs resultIDs) (kp_History p1)\<rparr>
      in if repaired0 \<or> orphan then recordToolResultRepair p2 else p2)"

definition currentToolsOf :: "KiroPayload \<Rightarrow> KiroToolWrapper list" where
  "currentToolsOf p = (case um_Context (kp_Current p) of None \<Rightarrow> [] | Some ctx \<Rightarrow> uc_Tools ctx)"

definition repairFlattened :: "KiroPayload \<Rightarrow> KiroPayload" where
  "repairFlattened p0 =
     (let strip = (currentToolsOf p0 = [] \<and> historyHasStructuredToolData (kp_History p0));
          p1 = (if strip then p0\<lparr>kp_History := sanitizeKiroHistory (kp_History p0) []\<rparr> else p0);
          (b2, currentResults, p2) = orderOrDetach p1;
          repaired2 = (if currentResultsOf p1 = [] then strip
                       else if orderToolResultsForLastAssistant (kp_History p1) (currentResultsOf p1) \<noteq> None then b2
                       else b2 \<or> strip);
          sanitizeAgain = historyHasStructuredToolData (kp_History p2);
          p3 = (if sanitizeAgain then p2\<lparr>kp_History := sanitizeKiroHistory (kp_History p2) currentResults\<rparr> else p2);
          repaired3 = (repaired2 \<or> (sanitizeAgain \<and> payloadByteSize p3 \<noteq> payloadByteSize p2));
          (b4, _, p4) = orderOrDetach p3
      in if b4 \<or> repaired3 then recordToolResultRepair p4 else p4)"

definition repairKiroPayloadToolResults :: "KiroPayload \<Rightarrow> KiroPayload" where
  "repairKiroPayloadToolResults p0 =
     (let (changed, p1) = sanitizeKiroPayloadToolSchemas p0;
          p2 = recordToolSchemaRepairs changed p1
      in if kp_transparentClaudeCode p2 \<and> \<not> kp_transparentHistoryFallbackUsed p2
         then repairStructuredKiroPayloadToolResults p2
         else repairFlattened p2)"

definition toolHistoryError :: "string \<Rightarrow> UpstreamError" where
  "toolHistoryError message =
     (upstreamError UpstreamErrorClientRequest '''' message False False)\<lparr>ue_StatusCode := 400, ue_Reason := ''TOOL_HISTORY_INVALID''\<rparr>"

fun validateIDs :: "string set \<Rightarrow> KiroToolResult list \<Rightarrow> UpstreamError option" where
  "validateIDs seen [] = None"
| "validateIDs seen (result # results) =
     (let i = trim_space (tr_ToolUseID result)
      in if i = '''' then Some (toolHistoryError ''structured tool result is missing tool_use_id'')
         else if i \<in> seen then Some (toolHistoryError ''structured tool results contain a duplicate tool_use_id'')
         else validateIDs (insert i seen) results)"

definition validateKiroPayloadToolHistory :: "KiroPayload \<Rightarrow> UpstreamError option" where
  "validateKiroPayloadToolHistory p =
     (let results = currentResultsOf p
      in if results = [] then None
         else if orderToolResultsForLastAssistant (kp_History p) results = None
         then Some (toolHistoryError ''structured tool results do not match the previous assistant tool use'')
         else validateIDs {} results)"

end
