(* ===== verification/Payload_Limit.thy ===== *)
theory Payload_Limit
  imports Token_Estimate Tool_History
begin

text \<open>
  Fitting a request into the upstream's limits, \<open>truncatePayloadToLimit\<close> of \<open>proxy/translator.go\<close>: old turns
  are dropped first, then the current message, its tool results and the tool descriptions are shortened. The assignments through
  \<open>payload\<close> are a sequence of payloads; the pointer \<open>activeToolAssistant\<close> is the position of the last entry of the
  conversation, which is the only entry it can point to.
\<close>

section \<open>Limits\<close>

text \<open>\<open>int(x)\<close> of a float: the fraction is dropped.\<close>

definition trunc_float :: "rat \<Rightarrow> int" where
  "trunc_float x = (if x < 0 then \<lceil>x\<rceil> else \<lfloor>x\<rfloor>)"

definition payloadInputTokenLimit :: "(rat \<Rightarrow> rat) \<Rightarrow> discoveredLimits \<Rightarrow> KiroPayload \<Rightarrow> int" where
  "payloadInputTokenLimit rnd discovered p =
     (if kp_contextWindowTokens p \<le> 0 then 0
      else let window = (case getDiscoveredModelTokenLimits discovered (currentMessageModelID p) of
                 Some d \<Rightarrow> if ml_MaxInputTokens d > 0 \<and> ml_MaxInputTokens d < kp_contextWindowTokens p then ml_MaxInputTokens d else kp_contextWindowTokens p
               | None \<Rightarrow> kp_contextWindowTokens p);
               limit = trunc_float (rnd (of_int window * rnd (9/10)))
           in if limit \<le> tokenBudgetSlack then window else limit)"

definition payloadFitsInputLimits :: "(rat \<Rightarrow> rat) \<Rightarrow> KiroPayload \<Rightarrow> int \<Rightarrow> bool" where
  "payloadFitsInputLimits rnd p tokenLimit \<longleftrightarrow>
     payloadByteSize p \<le> maxPayloadBytes \<and> (tokenLimit \<le> 0 \<or> estimateKiroPayloadTokens rnd p \<le> tokenLimit)"

section \<open>Shortening texts\<close>

definition fitPayloadTextBytes :: "KiroPayload \<Rightarrow> string \<Rightarrow> string" where
  "fitPayloadTextBytes p text =
     (let size = payloadByteSize p
      in if text = '''' \<or> size \<le> maxPayloadBytes then text
         else let target0 = int (length text) - (size - maxPayloadBytes) - 16;
                  target = (if target0 \<ge> int (length text) then int (length text) - 1 else target0)
              in truncateStringToBytes text target)"

definition remainingTokenBudget :: "(rat \<Rightarrow> rat) \<Rightarrow> KiroPayload \<Rightarrow> int \<Rightarrow> int \<Rightarrow> int" where
  "remainingTokenBudget rnd p tokenLimit selfTokens = tokenLimit - tokenBudgetSlack - (estimateKiroPayloadTokens rnd p - selfTokens)"

text \<open>The loop of \<open>fitTextToTokenBudget\<close>; every round makes the text shorter.\<close>

function fitLoop :: "(rat \<Rightarrow> rat) \<Rightarrow> int \<Rightarrow> string \<Rightarrow> string" where
  "fitLoop rnd budget text =
     (if text = '''' then ''''
      else let tokens = estimateWireTokens rnd text
           in if tokens \<le> budget then text
              else let target0 = trunc_float (rnd (rnd (of_nat (length text) * of_int budget) / of_int tokens));
                       target = (if target0 \<ge> int (length text) then int (length text) - 1 else target0)
                   in fitLoop rnd budget (truncateStringToBytes text target))"
  by pat_completeness auto
termination
proof (relation "measure (\<lambda>(_, _, text). length text)")
  fix rnd budget and s :: string and tokens target0 target
  assume "s \<noteq> ''''" "target = (if int (length s) \<le> target0 then int (length s) - 1 else target0)"
  then have "target < int (length s)" "0 < length s" by auto
  then show "((rnd, budget, truncateStringToBytes s target), rnd, budget, s) \<in> measure (\<lambda>(_, _, s). length s)"
    using truncateStringToBytes_length [of s target] by (auto simp: max_def split: if_splits)
qed simp

declare fitLoop.simps [simp del]

definition fitTextToTokenBudget :: "(rat \<Rightarrow> rat) \<Rightarrow> string \<Rightarrow> int \<Rightarrow> string" where
  "fitTextToTokenBudget rnd text budget = (if budget \<le> 0 then '''' else fitLoop rnd budget text)"

section \<open>Shortening the current message\<close>

definition setCurrentContent :: "string \<Rightarrow> KiroPayload \<Rightarrow> KiroPayload" where
  "setCurrentContent content p = p\<lparr>kp_Current := (kp_Current p)\<lparr>um_Content := content\<rparr>\<rparr>"

definition orMinimal :: "string \<Rightarrow> string" where
  "orMinimal content = (if content = '''' then minimalFallbackUserContent else content)"

definition shortenContent :: "(rat \<Rightarrow> rat) \<Rightarrow> int \<Rightarrow> KiroPayload \<Rightarrow> KiroPayload" where
  "shortenContent rnd tokenLimit p =
     (let p1 = setCurrentContent (orMinimal (fitPayloadTextBytes p (um_Content (kp_Current p)))) p;
          content = um_Content (kp_Current p1)
      in if tokenLimit > 0
         then setCurrentContent (orMinimal (fitTextToTokenBudget rnd content
                (remainingTokenBudget rnd p1 tokenLimit (estimateWireTokens rnd content)))) p1
         else p1)"

text \<open>The text of part \<open>j\<close> of result \<open>i\<close>, and the update of it.\<close>

definition resultText :: "nat \<times> nat \<Rightarrow> KiroPayload \<Rightarrow> string" where
  "resultText ij p = rc_Text (tr_Content (currentResultsOf p ! fst ij) ! snd ij)"

definition setResultText :: "nat \<times> nat \<Rightarrow> string \<Rightarrow> KiroPayload \<Rightarrow> KiroPayload" where
  "setResultText ij text p =
     (let rs = currentResultsOf p; r = rs ! fst ij
      in setCurrentResults (rs[fst ij := r\<lparr>tr_Content := (tr_Content r)[snd ij := \<lparr>rc_Text = text\<rparr>]\<rparr>]) p)"

definition resultPositions :: "KiroPayload \<Rightarrow> (nat \<times> nat) list" where
  "resultPositions p = concat (map (\<lambda>i. map (Pair i) [0..<length (tr_Content (currentResultsOf p ! i))]) [0..<length (currentResultsOf p)])"

definition shortenResultText :: "(rat \<Rightarrow> rat) \<Rightarrow> int \<Rightarrow> KiroPayload \<Rightarrow> nat \<times> nat \<Rightarrow> KiroPayload" where
  "shortenResultText rnd tokenLimit p ij =
     (let p1 = setResultText ij (fitPayloadTextBytes p (resultText ij p)) p;
          text1 = resultText ij p1;
          p2 = (if tokenLimit > 0 \<and> estimateKiroPayloadTokens rnd p1 > tokenLimit
                then setResultText ij (fitTextToTokenBudget rnd text1 (remainingTokenBudget rnd p1 tokenLimit (estimateWireTokens rnd text1))) p1
                else p1)
      in if resultText ij p2 = '''' then setResultText ij toolResultTruncatedNote p2 else p2)"

definition setToolDescription :: "nat \<Rightarrow> string \<Rightarrow> KiroPayload \<Rightarrow> KiroPayload" where
  "setToolDescription i description p =
     p\<lparr>kp_Current := (kp_Current p)\<lparr>um_Context := map_option (\<lambda>ctx. ctx\<lparr>uc_Tools :=
         (uc_Tools ctx)[i := (uc_Tools ctx ! i)\<lparr>tw_Description := description\<rparr>]\<rparr>) (um_Context (kp_Current p))\<rparr>\<rparr>"

fun shortenDescriptions :: "(rat \<Rightarrow> rat) \<Rightarrow> int \<Rightarrow> nat list \<Rightarrow> KiroPayload \<Rightarrow> KiroPayload" where
  "shortenDescriptions rnd tokenLimit [] p = p"
| "shortenDescriptions rnd tokenLimit (i # is) p =
     (if payloadFitsInputLimits rnd p tokenLimit then p
      else let p1 = setToolDescription i (fitPayloadTextBytes p (tw_Description (currentToolsOf p ! i))) p;
               description = tw_Description (currentToolsOf p1 ! i);
               p2 = (if tokenLimit > 0
                     then setToolDescription i (fitTextToTokenBudget rnd description
                            (remainingTokenBudget rnd p1 tokenLimit (estimateWireTokens rnd description))) p1
                     else p1)
           in shortenDescriptions rnd tokenLimit is p2)"

definition truncateCurrentMessage :: "(rat \<Rightarrow> rat) \<Rightarrow> int \<Rightarrow> KiroPayload \<Rightarrow> KiroPayload" where
  "truncateCurrentMessage rnd tokenLimit p0 =
     (let p1 = shortenContent rnd tokenLimit p0;
          p2 = foldl (shortenResultText rnd tokenLimit) p1 (resultPositions p1);
          p3 = shortenDescriptions rnd tokenLimit [0..<length (currentToolsOf p2)] p2
      in if um_Images (kp_Current p3) \<noteq> [] \<and> \<not> payloadFitsInputLimits rnd p3 tokenLimit
         then p3\<lparr>kp_Current := (kp_Current p3)\<lparr>um_Images := []\<rparr>\<rparr> else p3)"

section \<open>Dropping history\<close>

definition activeToolTurn :: "KiroPayload \<Rightarrow> KiroHistoryMessage list \<Rightarrow> KiroHistoryMessage list \<Rightarrow> bool" where
  "activeToolTurn p history conversation \<longleftrightarrow>
     conversation \<noteq> [] \<and> currentResultsOf p \<noteq> [] \<and>
     orderToolResultsForLastAssistant history (currentResultsOf p) \<noteq> None \<and> hm_Assistant (last conversation) \<noteq> None"

definition placeholderEntry :: "KiroPayload \<Rightarrow> KiroHistoryMessage" where
  "placeholderEntry p =
     \<lparr>hm_User = Some \<lparr>um_Content = truncationPlaceholder, um_ModelID = currentMessageModelID p, um_Origin = ''AI_EDITOR'',
        um_Images = [], um_Context = None\<rparr>, hm_Assistant = None\<rparr>"

text \<open>The backward loop: the position from which entries are kept before anything is measured exactly.\<close>

fun keepLoop :: "(rat \<Rightarrow> rat) \<Rightarrow> int \<Rightarrow> KiroHistoryMessage list \<Rightarrow> nat \<Rightarrow> int \<Rightarrow> int \<Rightarrow> nat" where
  "keepLoop rnd tokenLimit conversation 0 runningBytes runningTokens = 0"
| "keepLoop rnd tokenLimit conversation (Suc i) runningBytes runningTokens =
     (let bytes' = runningBytes + historyEntryByteSize (conversation ! i);
          tokens' = runningTokens + estimateKiroHistoryEntryTokens rnd (conversation ! i);
          kept = length conversation - i;
          overLimit = (bytes' > maxPayloadBytes \<or> (tokenLimit > 0 \<and> tokens' > tokenLimit))
      in if overLimit \<and> kept > minRecentHistoryTurns then Suc i
         else keepLoop rnd tokenLimit conversation i bytes' tokens')"

text \<open>
  \<open>rebuild\<close>: leading assistant turns of the kept part are dropped, except the active tool turn, which is the last entry.
\<close>

fun dropAssistants :: "bool \<Rightarrow> KiroHistoryMessage list \<Rightarrow> KiroHistoryMessage list" where
  "dropAssistants active [] = []"
| "dropAssistants active (m # ms) =
     (if hm_Assistant m \<noteq> None \<and> \<not> (active \<and> ms = []) then dropAssistants active ms else m # ms)"

definition rebuild :: "KiroHistoryMessage list \<Rightarrow> KiroHistoryMessage \<Rightarrow> bool \<Rightarrow> KiroHistoryMessage list \<Rightarrow> nat \<Rightarrow> KiroPayload \<Rightarrow> KiroPayload" where
  "rebuild priming placeholder active conversation from p =
     p\<lparr>kp_History := priming @ (if from > 0 then [placeholder] else []) @ dropAssistants active (drop from conversation)\<rparr>"

function dropLoop ::
    "(rat \<Rightarrow> rat) \<Rightarrow> int \<Rightarrow> (nat \<Rightarrow> KiroPayload \<Rightarrow> KiroPayload) \<Rightarrow> nat \<Rightarrow> nat \<Rightarrow> KiroPayload \<Rightarrow> nat \<times> KiroPayload" where
  "dropLoop rnd tokenLimit rb maxDrop keepFrom p =
     (if keepFrom < maxDrop \<and> \<not> payloadFitsInputLimits rnd p tokenLimit
      then dropLoop rnd tokenLimit rb maxDrop (Suc keepFrom) (rb (Suc keepFrom) p)
      else (keepFrom, p))"
  by pat_completeness auto
termination
  by (relation "measure (\<lambda>(_, _, _, maxDrop, keepFrom, _). maxDrop - keepFrom)") auto

declare dropLoop.simps [simp del]

fun shrinkAgain :: "(rat \<Rightarrow> rat) \<Rightarrow> int \<Rightarrow> nat \<Rightarrow> KiroPayload \<Rightarrow> KiroPayload" where
  "shrinkAgain rnd tokenLimit 0 p = p"
| "shrinkAgain rnd tokenLimit (Suc attempts) p =
     (if payloadFitsInputLimits rnd p tokenLimit then p
      else let p' = truncateCurrentMessage rnd tokenLimit p
           in if payloadByteSize p' \<ge> payloadByteSize p \<and> estimateKiroPayloadTokens rnd p' \<ge> estimateKiroPayloadTokens rnd p
              then p' else shrinkAgain rnd tokenLimit attempts p')"

text \<open>The test of the early drop of the active turn: without it the payload would fit.\<close>

definition fitsWithoutActive :: "(rat \<Rightarrow> rat) \<Rightarrow> int \<Rightarrow> KiroHistoryMessage list \<Rightarrow> KiroPayload \<Rightarrow> bool" where
  "fitsWithoutActive rnd tokenLimit conversation p =
     (let activeEntry = \<lparr>hm_User = None, hm_Assistant = hm_Assistant (last conversation)\<rparr>
      in payloadByteSize p - historyEntryByteSize activeEntry \<le> maxPayloadBytes \<and>
         (tokenLimit = 0 \<or> estimateKiroPayloadTokens rnd p - estimateKiroHistoryEntryTokens rnd activeEntry \<le> tokenLimit - tokenBudgetSlack))"

definition truncatePayloadToLimit :: "(rat \<Rightarrow> rat) \<Rightarrow> discoveredLimits \<Rightarrow> bool \<Rightarrow> KiroPayload \<Rightarrow> KiroPayload" where
  "truncatePayloadToLimit rnd discovered hasPriming p0 =
     (let tokenLimit = payloadInputTokenLimit rnd discovered p0
      in if payloadFitsInputLimits rnd p0 tokenLimit then p0
         else
           let history = kp_History p0;
               primingCount = (if hasPriming \<and> length history \<ge> 2 then 2 else 0);
               priming = take primingCount history;
               conversation = drop primingCount history;
               placeholder = placeholderEntry p0;
               pb = p0\<lparr>kp_History := priming\<rparr>;
               keep0 = keepLoop rnd tokenLimit conversation (length conversation)
                         (payloadByteSize pb + historyEntryByteSize placeholder)
                         (estimateKiroPayloadTokens rnd pb + estimateKiroHistoryEntryTokens rnd placeholder);
               active = activeToolTurn pb history conversation;
               rb = rebuild priming placeholder active conversation;
               (keep1, p1) = dropLoop rnd tokenLimit rb (length conversation - (if active then 1 else 0)) keep0 (rb keep0 pb);
               early = (\<not> payloadFitsInputLimits rnd p1 tokenLimit \<and> active \<and> keep1 < length conversation \<and>
                        fitsWithoutActive rnd tokenLimit conversation p1);
               keep2 = (if early then length conversation else keep1);
               p2 = (if early then snd (detachOrphanedToolResults (rb (length conversation) p1)) else p1);
               p3 = (if payloadFitsInputLimits rnd p2 tokenLimit then p2 else truncateCurrentMessage rnd tokenLimit p2);
               p4 = (if \<not> payloadFitsInputLimits rnd p3 tokenLimit \<and> keep2 < length conversation
                     then truncateCurrentMessage rnd tokenLimit (snd (detachOrphanedToolResults (rb (length conversation) p3)))
                     else p3);
               p5 = snd (detachOrphanedToolResults p4)
           in shrinkAgain rnd tokenLimit 3 p5)"

end
