(* ===== verification/Tool_History_Props.thy ===== *)
theory Tool_History_Props
  imports Tool_History "HOL-Library.Multiset"
begin

text \<open>
  What the handling of tool turns guarantees: results are accepted as structured data only when they are a
  permutation of the answers to the calls just before them, a sanitised history has at most its last turn structured, merged
  turns alternate, and a repaired payload passes the final validation.
\<close>

section \<open>Pairing\<close>

lemma uniqueIDs_Some:
  "uniqueIDs seen ids = Some ids' \<longleftrightarrow>
     ids' = ids \<and> distinct ids \<and> set ids \<inter> seen = {} \<and> list_all (\<lambda>i. trim_space i \<noteq> '''') ids"
  by (induction ids arbitrary: seen ids') auto

lemma resultsByID_Some:
  "resultsByID rs m = Some m' \<longleftrightarrow>
     distinct (map tr_ToolUseID rs) \<and> set (map tr_ToolUseID rs) \<inter> fst ` set m = {} \<and>
     list_all (\<lambda>r. trim_space (tr_ToolUseID r) \<noteq> '''') rs \<and> m' = foldl (\<lambda>m r. gm_put (tr_ToolUseID r) r m) m rs"
  by (induction rs arbitrary: m) (auto simp: gm_keys_put map_of_eq_None_iff)

lemma gm_get_foldl_put:
  "i \<notin> set (map tr_ToolUseID rs) \<Longrightarrow> gm_get (foldl (\<lambda>m r. gm_put (tr_ToolUseID r) r m) m rs) i = gm_get m i"
  by (induction rs arbitrary: m) (auto simp: gm_get_put)

lemma gm_get_by_id:
  "distinct (map tr_ToolUseID rs) \<Longrightarrow>
   gm_get (foldl (\<lambda>m r. gm_put (tr_ToolUseID r) r m) [] rs) i = Some r \<longleftrightarrow> r \<in> set rs \<and> tr_ToolUseID r = i"
proof (induction rs rule: rev_induct)
  case (snoc x rs)
  then show ?case by (auto simp: gm_get_put gm_get_foldl_put)
qed simp

lemma pickResults_Some:
  "pickResults byID ids = Some rs \<longleftrightarrow> length rs = length ids \<and> list_all2 (\<lambda>i r. gm_get byID i = Some r) ids rs"
proof (induction ids arbitrary: rs)
  case (Cons i ids)
  then show ?case by (cases rs) (auto split: option.splits)
qed auto

lemma mset_by_ids:
  assumes "distinct (map tr_ToolUseID rs)" "distinct (map tr_ToolUseID os)" "set os \<subseteq> set rs" "length os = length rs"
  shows "mset os = mset rs"
proof -
  have d: "distinct rs" "distinct os" using assms(1,2) by (auto simp: distinct_map)
  then have "card (set os) = card (set rs)" using assms(4) by (simp add: distinct_card)
  then have "set os = set rs" using assms(3) by (intro card_subset_eq) auto
  then show ?thesis using d set_eq_iff_mset_eq_distinct by blast
qed

text \<open>The structured calls that results would answer: those of the last entry, when it is an assistant turn.\<close>

definition openCalls :: "KiroHistoryMessage list \<Rightarrow> KiroToolUse list" where
  "openCalls history = (if history = [] then [] else case hm_Assistant (last history) of None \<Rightarrow> [] | Some a \<Rightarrow> am_ToolUses a)"

lemma lastAssistantToolUseIDs_Some:
  "lastAssistantToolUseIDs history = Some ids \<longleftrightarrow>
     ids \<noteq> [] \<and> ids = map tu_ToolUseID (openCalls history) \<and> distinct ids \<and> list_all (\<lambda>i. trim_space i \<noteq> '''') ids"
  by (auto simp: lastAssistantToolUseIDs_def openCalls_def uniqueIDs_Some split: option.splits)

lemma order_sound:
  assumes "orderToolResultsForLastAssistant history results = Some ordered"
  shows "openCalls history \<noteq> []" "map tr_ToolUseID ordered = map tu_ToolUseID (openCalls history)" "mset ordered = mset results"
    "distinct (map tr_ToolUseID ordered)" "list_all (\<lambda>r. trim_space (tr_ToolUseID r) \<noteq> '''') ordered"
proof -
  from assms obtain ids byID where ids: "lastAssistantToolUseIDs history = Some ids" "length results = length ids"
    and bi: "resultsByID results [] = Some byID" "pickResults byID ids = Some ordered"
    by (auto simp: orderToolResultsForLastAssistant_def split: option.splits if_splits)
  note I = ids(1) [unfolded lastAssistantToolUseIDs_Some] and R = bi(1) [unfolded resultsByID_Some]
  have p: "length ordered = length ids" "list_all2 (\<lambda>i r. gm_get byID i = Some r) ids ordered" using bi(2) pickResults_Some by auto
  have hit: "r \<in> set results \<and> tr_ToolUseID r = i" if "gm_get byID i = Some r" for i r
    using R that gm_get_by_id [of results i r] by blast
  have m: "map tr_ToolUseID ordered = ids"
    using p(2) hit by (induction rule: list_all2_induct) auto
  have sub: "set ordered \<subseteq> set results"
    using p(2) hit by (induction rule: list_all2_induct) auto
  show "openCalls history \<noteq> []" "map tr_ToolUseID ordered = map tu_ToolUseID (openCalls history)" using I m by auto
  show d: "distinct (map tr_ToolUseID ordered)" using I unfolding m by blast
  show "mset ordered = mset results" using R d sub ids(2) p(1) by (intro mset_by_ids) auto
  have "list_all (\<lambda>i. trim_space i \<noteq> '''') (map tr_ToolUseID ordered)" using I unfolding m by blast
  then show "list_all (\<lambda>r. trim_space (tr_ToolUseID r) \<noteq> '''') ordered" by (auto simp: list_all_iff)
qed

lemma order_complete:
  assumes "openCalls history \<noteq> []" "map tr_ToolUseID ordered = map tu_ToolUseID (openCalls history)" "mset ordered = mset results"
    "distinct (map tr_ToolUseID ordered)" "list_all (\<lambda>r. trim_space (tr_ToolUseID r) \<noteq> '''') ordered"
  shows "orderToolResultsForLastAssistant history results = Some ordered"
proof -
  have "map tr_ToolUseID ordered \<noteq> []" using assms(1) unfolding assms(2) by simp
  then have ids: "lastAssistantToolUseIDs history = Some (map tr_ToolUseID ordered)"
    using assms(4,5) unfolding lastAssistantToolUseIDs_Some assms(2) [symmetric] by (auto simp: list_all_iff)
  have eq: "set results = set ordered" "length results = length ordered" using assms(3) by (metis set_mset_mset, metis size_mset)
  have dr: "distinct (map tr_ToolUseID results)"
    using assms(3,4) by (metis (no_types) distinct_map mset_map mset_eq_imp_distinct_iff)
  then obtain byID where bi: "resultsByID results [] = Some byID" "byID = foldl (\<lambda>m r. gm_put (tr_ToolUseID r) r m) [] results"
    using assms(5) eq by (auto simp: list_all_iff resultsByID_Some)
  have get: "gm_get byID (tr_ToolUseID r) = Some r" if "r \<in> set ordered" for r
    using gm_get_by_id [OF dr, of "tr_ToolUseID r" r] that eq bi(2) by blast
  then have "list_all2 (\<lambda>i r. gm_get byID i = Some r) (map tr_ToolUseID ordered) ordered" by (auto simp: list_all2_map1 list_all2_same)
  then have "pickResults byID (map tr_ToolUseID ordered) = Some ordered" by (simp add: pickResults_Some)
  then show ?thesis using ids bi eq by (simp add: orderToolResultsForLastAssistant_def)
qed

text \<open>
  The pairing of tool results is exact: the results are accepted, and returned in the order of the calls, precisely
  when the history ends with an assistant turn that has calls, their IDs are not blank and all different, and the
  results are a permutation of one answer to each of them. A missing, an additional, a repeated or a blank ID makes the whole list invalid.
\<close>

theorem tool_results_paired_exactly:
  "(orderToolResultsForLastAssistant history results = Some ordered) =
     (openCalls history \<noteq> [] \<and> map tr_ToolUseID ordered = map tu_ToolUseID (openCalls history) \<and> mset ordered = mset results \<and>
      distinct (map tr_ToolUseID ordered) \<and> list_all (\<lambda>r. trim_space (tr_ToolUseID r) \<noteq> '''') ordered)"
  using order_sound order_complete by blast

lemma order_again:
  assumes "orderToolResultsForLastAssistant history results = Some ordered"
  shows "orderToolResultsForLastAssistant history ordered = Some ordered"
  using order_sound [OF assms] by (intro order_complete) auto


lemma order_openCalls:
  assumes "map tu_ToolUseID (openCalls h') = map tu_ToolUseID (openCalls h)"
  shows "orderToolResultsForLastAssistant h' rs = orderToolResultsForLastAssistant h rs"
proof -
  have "openCalls h' \<noteq> [] \<longleftrightarrow> openCalls h \<noteq> []" using assms by (metis list.map_disc_iff)
  then have "orderToolResultsForLastAssistant h' rs = Some os \<longleftrightarrow> orderToolResultsForLastAssistant h rs = Some os" for os
    using assms order_sound [of h' rs os] order_sound [of h rs os] order_complete [of h' os rs] order_complete [of h os rs] by metis
  then show ?thesis by (metis option.exhaust)
qed

section \<open>Sanitised history\<close>

lemma scrubAssistant_simps [simp]:
  "hm_User (scrubAssistant m) = hm_User m" "assistantHasToolUses (scrubAssistant m) = assistantHasToolUses m"
  "entryCallIDs (scrubAssistant m) = entryCallIDs m" "hm_Assistant (scrubAssistant m) = None \<longleftrightarrow> hm_Assistant m = None"
  by (auto simp: scrubAssistant_def assistantHasToolUses_def entryCallIDs_def split: option.splits)

lemma narrateUser_context [simp]: "um_Context (fallbackUser (narrateUser names u)) = None"
  by (auto simp: narrateUser_def fallbackUser_def split: option.splits)

lemma assistantHasToolUses_simps [simp]:
  "assistantHasToolUses (m\<lparr>hm_User := u\<rparr>) = assistantHasToolUses m" "\<not> assistantHasToolUses (dropToolUses m)"
  "hm_User (dropToolUses m) = hm_User m"
  by (auto simp: assistantHasToolUses_def dropToolUses_def split: option.splits)

lemma sanitizeEntry_plain: "\<not> (assistantHasToolUses m \<and> active) \<Longrightarrow> \<not> entryHasToolData (sanitizeEntry names active m)"
  by (auto simp: sanitizeEntry_def entryHasToolData_def Let_def split: option.splits)

lemma sanitizeEntry_active: "assistantHasToolUses m \<Longrightarrow> sanitizeEntry names True m = scrubAssistant m"
  by (simp add: sanitizeEntry_def Let_def)

text \<open>The second pass yields a subsequence without hollow turns and without repeated user turns.\<close>

definition repeatsUser :: "KiroHistoryMessage \<Rightarrow> KiroHistoryMessage \<Rightarrow> bool" where
  "repeatsUser l m = repeatedUser [l] m"

lemma repeatedUser_last: "cleaned \<noteq> [] \<Longrightarrow> repeatedUser cleaned m = repeatsUser (last cleaned) m"
  by (simp add: repeatsUser_def repeatedUser_def split: option.splits)

lemma cleanStep_ok:
  assumes "\<forall>m \<in> set cleaned. \<not> hollowAssistant m" "successively (\<lambda>l m. \<not> repeatsUser l m) cleaned"
  shows "(\<forall>m \<in> set (cleanStep cleaned x). \<not> hollowAssistant m) \<and> successively (\<lambda>l m. \<not> repeatsUser l m) (cleanStep cleaned x)"
  using assms by (auto simp: cleanStep_def successively_append_iff repeatedUser_last)

lemma cleanSteps_ok:
  "\<forall>m \<in> set cleaned. \<not> hollowAssistant m \<Longrightarrow> successively (\<lambda>l m. \<not> repeatsUser l m) cleaned \<Longrightarrow>
   (\<forall>m \<in> set (foldl cleanStep cleaned xs). \<not> hollowAssistant m) \<and> successively (\<lambda>l m. \<not> repeatsUser l m) (foldl cleanStep cleaned xs)"
proof (induction xs arbitrary: cleaned)
  case (Cons x xs)
  have "(\<forall>m \<in> set (cleanStep cleaned x). \<not> hollowAssistant m) \<and> successively (\<lambda>l m. \<not> repeatsUser l m) (cleanStep cleaned x)"
    using Cons.prems by (rule cleanStep_ok)
  then show ?case using Cons.IH [of "cleanStep cleaned x"] by simp
qed simp

lemma cleanSteps_members: "set (foldl cleanStep cleaned xs) \<subseteq> set cleaned \<union> set xs"
proof (induction xs arbitrary: cleaned)
  case (Cons x xs)
  have "set (cleanStep cleaned x) \<subseteq> insert x (set cleaned)" by (auto simp: cleanStep_def)
  then show ?case using Cons.IH [of "cleanStep cleaned x"] by auto
qed simp

lemma suffix_trimLeading: "suffix (trimLeadingAssistantHistory h) h"
  by (simp add: trimLeadingAssistantHistory_def suffix_dropWhile)

lemma trimLeading_hd: "trimLeadingAssistantHistory h \<noteq> [] \<Longrightarrow> hm_Assistant (hd (trimLeadingAssistantHistory h)) = None"
  unfolding trimLeadingAssistantHistory_def using hd_dropWhile [of "\<lambda>m. hm_Assistant m \<noteq> None" h] by blast

lemma successively_suffix: "suffix xs ys \<Longrightarrow> successively P ys \<Longrightarrow> successively P xs"
  by (auto simp: suffix_def successively_append_iff)

text \<open>The first pass, with the last entry apart.\<close>

lemma sanitizePass:
  assumes "history \<noteq> []"
  shows "map (\<lambda>(i, m). sanitizeEntry names (active \<and> i = length history - 1) m) (enumerate 0 history) =
     map (sanitizeEntry names False) (butlast history) @ [sanitizeEntry names active (last history)]"
proof (cases history rule: rev_cases)
  case (snoc ys y)
  have "map (\<lambda>(i, m). sanitizeEntry names (active \<and> i = length ys) m) (enumerate 0 ys) = map (\<lambda>p. sanitizeEntry names False (snd p)) (enumerate 0 ys)"
    by (auto simp: in_set_enumerate_eq)
  also have "\<dots> = map (sanitizeEntry names False) ys" by (simp only: map_map [symmetric, unfolded comp_def] map_snd_enumerate)
  finally show ?thesis using snoc by (simp add: enumerate_append_eq)
qed (use assms in simp)

lemma sanitizeKiroHistory_eq:
  assumes "history \<noteq> []"
  shows "sanitizeKiroHistory history rs = trimLeadingAssistantHistory
     (cleanStep (foldl cleanStep [] (map (sanitizeEntry (toolNamesOf history) False) (butlast history)))
        (sanitizeEntry (toolNamesOf history) (orderToolResultsForLastAssistant history rs \<noteq> None) (last history)))"
  unfolding sanitizeKiroHistory_def Let_def sanitizePass [OF assms] using assms by (simp only: foldl_append foldl_Cons foldl_Nil if_False)

lemma sanitized_data_last:
  assumes "suffix h (cleanStep (foldl cleanStep [] xs) x)" "\<forall>m \<in> set xs. \<not> entryHasToolData m"
  shows "\<forall>m \<in> set (butlast h). \<not> entryHasToolData m" "h \<noteq> [] \<Longrightarrow> entryHasToolData (last h) \<Longrightarrow> last h = x"
proof -
  let ?c = "foldl cleanStep [] xs"
  have sub: "set ?c \<subseteq> set xs" using cleanSteps_members [of "[]" xs] by simp
  have cases: "cleanStep ?c x = ?c \<or> cleanStep ?c x = ?c @ [x]" by (simp add: cleanStep_def)
  have "suffix (butlast h) (butlast (cleanStep ?c x)) \<or> h = []"
    using assms(1) by (metis append_butlast_last_id butlast_append suffix_def suffix_order.refl)
  then have "set (butlast h) \<subseteq> set (butlast (cleanStep ?c x))" by (auto dest: set_mono_suffix)
  also have "\<dots> \<subseteq> set ?c" using cases by (metis butlast_snoc in_set_butlastD subsetI)
  also have "\<dots> \<subseteq> set xs" by (rule sub)
  finally show "\<forall>m \<in> set (butlast h). \<not> entryHasToolData m" using assms(2) by auto
  assume h: "h \<noteq> []" "entryHasToolData (last h)"
  have "last h = last (cleanStep ?c x)" using assms(1) h(1) by (auto simp: suffix_def)
  moreover have "last h \<in> set (cleanStep ?c x)" using assms(1) h(1) set_mono_suffix last_in_set by blast
  ultimately show "last h = x" using cases h(2) assms(2) sub by auto
qed

text \<open>
  The history that the sanitiser produces, from any history: it is empty or begins with a turn that is not the
  assistant's, no assistant turn in it is empty or a single full stop, no user turn repeats the one
  before it, and structured tool data occurs at most in its last turn, and there only when the current results answer the calls of
  the last turn of the original history exactly.
\<close>

theorem sanitizeKiroHistory_shape:
  "let h = sanitizeKiroHistory history results in
     (h = [] \<or> hm_Assistant (hd h) = None) \<and>
     list_all (\<lambda>m. \<not> hollowAssistant m) h \<and> successively (\<lambda>l m. \<not> repeatsUser l m) h \<and>
     \<not> historyHasStructuredToolData (butlast h) \<and>
     (orderToolResultsForLastAssistant history results = None \<longrightarrow> \<not> historyHasStructuredToolData h)"
proof (cases "history = []")
  case False
  let ?xs = "map (sanitizeEntry (toolNamesOf history) False) (butlast history)"
  let ?x = "sanitizeEntry (toolNamesOf history) (orderToolResultsForLastAssistant history results \<noteq> None) (last history)"
  define h where "h = sanitizeKiroHistory history results"
  have eq: "h = trimLeadingAssistantHistory (cleanStep (foldl cleanStep [] ?xs) ?x)" unfolding h_def by (rule sanitizeKiroHistory_eq [OF False])
  then have suf: "suffix h (cleanStep (foldl cleanStep [] ?xs) ?x)" by (simp add: suffix_trimLeading)
  have clean: "(\<forall>m \<in> set (cleanStep (foldl cleanStep [] ?xs) ?x). \<not> hollowAssistant m) \<and>
      successively (\<lambda>l m. \<not> repeatsUser l m) (cleanStep (foldl cleanStep [] ?xs) ?x)"
    using cleanSteps_ok [of "[]" ?xs] by (intro cleanStep_ok) auto
  have plain: "\<forall>m \<in> set ?xs. \<not> entryHasToolData m" using sanitizeEntry_plain [of _ False] by simp
  note D = sanitized_data_last [OF suf plain]
  have "\<not> historyHasStructuredToolData h" if none: "orderToolResultsForLastAssistant history results = None"
  proof -
    have "\<not> entryHasToolData ?x" using none by (intro sanitizeEntry_plain) simp
    then have "\<not> (h \<noteq> [] \<and> entryHasToolData (last h))" using D(2) by metis
    moreover have "set h \<subseteq> insert (last h) (set (butlast h))" by (cases h rule: rev_cases) auto
    ultimately show ?thesis using D(1) unfolding historyHasStructuredToolData_def list_ex_iff by force
  qed
  moreover have "h = [] \<or> hm_Assistant (hd h) = None" using trimLeading_hd eq by metis
  moreover have "list_all (\<lambda>m. \<not> hollowAssistant m) h" using clean set_mono_suffix [OF suf] unfolding list_all_iff by blast
  moreover have "successively (\<lambda>l m. \<not> repeatsUser l m) h" using clean successively_suffix [OF suf] by blast
  moreover have "\<not> historyHasStructuredToolData (butlast h)" using D(1) by (auto simp: historyHasStructuredToolData_def list_ex_iff)
  ultimately show ?thesis unfolding h_def Let_def by blast
qed (simp add: sanitizeKiroHistory_def historyHasStructuredToolData_def)

section \<open>Merged turns\<close>

text \<open>A turn belongs to one side; two turns alternate when they belong to different sides.\<close>

definition oneSided :: "KiroHistoryMessage \<Rightarrow> bool" where
  "oneSided m \<longleftrightarrow> (hm_User m = None) \<noteq> (hm_Assistant m = None)"

definition otherSide :: "KiroHistoryMessage \<Rightarrow> KiroHistoryMessage \<Rightarrow> bool" where
  "otherSide l m \<longleftrightarrow> (hm_User l = None) \<noteq> (hm_User m = None)"

lemma mergeStep_ok:
  assumes "list_all oneSided merged" "successively otherSide merged" "oneSided entry"
  shows "list_all oneSided (mergeStep merged entry) \<and> successively otherSide (mergeStep merged entry) \<and> mergeStep merged entry \<noteq> []"
proof (cases merged rule: rev_cases)
  case (snoc ys l)
  have l: "oneSided l" "list_all oneSided ys" using assms(1) snoc by auto
  show ?thesis
  proof (cases "(hm_User l = None) = (hm_User entry = None)")
    case True
    then obtain l' where "mergeStep merged entry = ys @ [l']" "oneSided l'" "hm_User l' = None \<longleftrightarrow> hm_User l = None"
      using l(1) assms(3) snoc by (auto simp: mergeStep_def oneSided_def Let_def split: option.splits)
    then show ?thesis using l assms(2) snoc by (auto simp: successively_append_iff otherSide_def)
  next
    case False
    then have "mergeStep merged entry = merged @ [entry]"
      using l(1) assms(3) snoc by (auto simp: mergeStep_def oneSided_def Let_def split: option.splits)
    then show ?thesis using False assms snoc by (auto simp: successively_append_iff otherSide_def)
  qed
qed (use assms in \<open>simp add: mergeStep_def\<close>)

lemma mergeSteps_ok:
  "list_all oneSided merged \<Longrightarrow> successively otherSide merged \<Longrightarrow> list_all oneSided history \<Longrightarrow>
   list_all oneSided (foldl mergeStep merged history) \<and> successively otherSide (foldl mergeStep merged history) \<and>
   (foldl mergeStep merged history = [] \<longrightarrow> merged = [] \<and> history = [])"
proof (induction history arbitrary: merged)
  case (Cons x xs)
  note M = mergeStep_ok [of merged x]
  show ?case using Cons.prems Cons.IH [of "mergeStep merged x"] M by auto
qed simp

text \<open>
  The history of a Claude Code request alternates: after merging, user and assistant turns
  follow each other strictly, the first is a user turn and the last an assistant turn, whatever the order of the turns the client sent
  (two at least; the result is empty when there was no user turn).
\<close>

theorem mergeClaudeHistoryTurns_alternates:
  assumes "list_all oneSided history" "2 \<le> length history"
  shows "successively otherSide (mergeClaudeHistoryTurns history) \<and>
     (mergeClaudeHistoryTurns history = [] \<or>
      hm_User (hd (mergeClaudeHistoryTurns history)) \<noteq> None \<and> hm_Assistant (last (mergeClaudeHistoryTurns history)) \<noteq> None)"
proof -
  let ?ok = "\<lparr>hm_User = None, hm_Assistant = Some \<lparr>am_Content = ''OK'', am_ToolUses = []\<rparr>\<rparr>"
  define merged where "merged = foldl mergeStep [] history"
  have m: "list_all oneSided merged" "successively otherSide merged" "merged \<noteq> []"
    unfolding merged_def using mergeSteps_ok [of "[]" history] assms by auto
  define merged' where "merged' = (if hm_User (last merged) \<noteq> None then merged @ [?ok] else merged)"
  have eq: "mergeClaudeHistoryTurns history = trimLeadingAssistantHistory merged'"
    unfolding mergeClaudeHistoryTurns_def merged'_def merged_def Let_def using assms(2) by simp
  have m': "list_all oneSided merged'" "successively otherSide merged'" "merged' \<noteq> []" "hm_User (last merged') = None"
    using m by (auto simp: merged'_def oneSided_def successively_append_iff otherSide_def)
  have suf: "suffix (trimLeadingAssistantHistory merged') merged'" by (rule suffix_trimLeading)
  have "hm_User (hd (trimLeadingAssistantHistory merged')) \<noteq> None \<and> hm_Assistant (last (trimLeadingAssistantHistory merged')) \<noteq> None"
    if ne: "trimLeadingAssistantHistory merged' \<noteq> []"
  proof -
    have "set (trimLeadingAssistantHistory merged') \<subseteq> set merged'" using suf by (rule set_mono_suffix)
    moreover have "last (trimLeadingAssistantHistory merged') = last merged'" using suf ne by (metis last_appendR suffix_def)
    moreover have "oneSided (hd (trimLeadingAssistantHistory merged'))" "oneSided (last merged')"
      using calculation(1) m'(1) hd_in_set [OF ne] last_in_set [OF m'(3)] by (auto simp: list_all_iff)
    ultimately show ?thesis using m'(4) trimLeading_hd [OF ne] by (simp add: oneSided_def)
  qed
  then show ?thesis unfolding eq using successively_suffix [OF suf m'(2)] by blast
qed

theorem mergeClaudeHistoryTurns_alternates_witness:
  "let u = \<lparr>hm_User = Some \<lparr>um_Content = ''hi'', um_ModelID = '''', um_Origin = ''AI_EDITOR'', um_Images = [], um_Context = None\<rparr>, hm_Assistant = None\<rparr>;
       h = mergeClaudeHistoryTurns [u, u]
   in successively otherSide h \<and> (h = [] \<or> hm_User (hd h) \<noteq> None \<and> hm_Assistant (last h) \<noteq> None) \<and> length h = 2"
proof -
  let ?u = "\<lparr>hm_User = Some \<lparr>um_Content = ''hi'', um_ModelID = '''', um_Origin = ''AI_EDITOR'', um_Images = [], um_Context = None\<rparr>, hm_Assistant = None\<rparr>"
  have "list_all oneSided [?u, ?u]" "2 \<le> length [?u, ?u]" by (simp_all add: oneSided_def)
  moreover have "length (mergeClaudeHistoryTurns [?u, ?u]) = 2" by code_simp
  ultimately show ?thesis using mergeClaudeHistoryTurns_alternates [of "[?u, ?u]"] unfolding Let_def by blast
qed

section \<open>Repair\<close>

lemma currentResultsOf_set [simp]:
  "currentResultsOf (setCurrentResults rs p) = (if um_Context (kp_Current p) = None then [] else rs)"
  "kp_History (setCurrentResults rs p) = kp_History p"
  by (auto simp: currentResultsOf_def setCurrentResults_def split: option.splits)

lemma currentResultsOf_other [simp]:
  "currentResultsOf (p\<lparr>kp_History := h\<rparr>) = currentResultsOf p"
  "currentResultsOf (recordToolResultRepair p) = currentResultsOf p" "kp_History (recordToolResultRepair p) = kp_History p"
  "currentResultsOf (recordToolSchemaRepairs n p) = currentResultsOf p" "kp_History (recordToolSchemaRepairs n p) = kp_History p"
  "currentResultsOf (snd (sanitizeKiroPayloadToolSchemas p)) = currentResultsOf p"
  "kp_History (snd (sanitizeKiroPayloadToolSchemas p)) = kp_History p"
  by (auto simp: currentResultsOf_def recordToolResultRepair_def recordToolSchemaRepairs_def sanitizeKiroPayloadToolSchemas_def
      Let_def split: option.splits)

lemma flattened_results:
  "um_Context (kp_Current p) = Some ctx \<Longrightarrow> currentResultsOf (p\<lparr>kp_Current := flattenCurrentResults ctx (kp_Current p)\<rparr>) = []"
  by (simp add: currentResultsOf_def flattenCurrentResults_def Let_def)

text \<open>The results of a payload are settled when none are left or they answer the last turn in its order.\<close>

definition settled :: "KiroPayload \<Rightarrow> bool" where
  "settled p \<longleftrightarrow> currentResultsOf p = [] \<or> orderToolResultsForLastAssistant (kp_History p) (currentResultsOf p) = Some (currentResultsOf p)"

lemma detach_settles:
  "settled (snd (detachOrphanedToolResults p))" "kp_History (snd (detachOrphanedToolResults p)) = kp_History p"
  "set (currentResultsOf (snd (detachOrphanedToolResults p))) \<subseteq> set (currentResultsOf p)"
proof -
  consider (none) "um_Context (kp_Current p) = None \<or> currentResultsOf p = []"
    | (some) ctx where "um_Context (kp_Current p) = Some ctx" "uc_ToolResults ctx \<noteq> []" "currentResultsOf p = uc_ToolResults ctx"
    by (cases "um_Context (kp_Current p)") (auto simp: currentResultsOf_def)
  then have "settled (snd (detachOrphanedToolResults p)) \<and> kp_History (snd (detachOrphanedToolResults p)) = kp_History p \<and>
      set (currentResultsOf (snd (detachOrphanedToolResults p))) \<subseteq> set (currentResultsOf p)"
  proof cases
    case none
    then have "snd (detachOrphanedToolResults p) = p" "currentResultsOf p = []"
      by (auto simp: detachOrphanedToolResults_def currentResultsOf_def split: option.splits)
    then show ?thesis by (simp add: settled_def)
  next
    case some
    show ?thesis
    proof (cases "orderToolResultsForLastAssistant (kp_History p) (uc_ToolResults ctx)")
      case None
      then show ?thesis using some flattened_results [OF some(1)] by (simp add: detachOrphanedToolResults_def settled_def)
    next
      case (Some ordered)
      have "set ordered = set (uc_ToolResults ctx)" using order_sound(3) [OF Some] by (metis set_mset_mset)
      then show ?thesis using some Some order_again [OF Some] by (simp add: detachOrphanedToolResults_def settled_def)
    qed
  qed
  then show "settled (snd (detachOrphanedToolResults p))" "kp_History (snd (detachOrphanedToolResults p)) = kp_History p"
    "set (currentResultsOf (snd (detachOrphanedToolResults p))) \<subseteq> set (currentResultsOf p)" by auto
qed

lemma orderOrDetach_eq: "snd (snd (orderOrDetach p)) = snd (detachOrphanedToolResults p)"
  by (cases "um_Context (kp_Current p)")
    (auto simp: orderOrDetach_def detachOrphanedToolResults_def currentResultsOf_def case_prod_unfold Let_def split: option.splits)

lemma orderOrDetach_results: "fst (snd (orderOrDetach p)) = currentResultsOf (snd (detachOrphanedToolResults p))"
  by (cases "um_Context (kp_Current p)")
    (auto simp: orderOrDetach_def detachOrphanedToolResults_def currentResultsOf_def setCurrentResults_def flattenCurrentResults_def
      case_prod_unfold Let_def split: option.splits)

text \<open>Settled results are left alone by the removal of orphans from a structured history.\<close>

lemma keepPairs_openCalls:
  assumes "set (map tu_ToolUseID (openCalls h)) \<subseteq> resultIDs"
  shows "map tu_ToolUseID (openCalls (map (keepPairs toolIDs resultIDs) h)) = map tu_ToolUseID (openCalls h)"
proof (cases h rule: rev_cases)
  case (snoc ys y)
  then show ?thesis using assms
    by (auto simp: openCalls_def keepPairs_def keepAnsweredCalls_def Let_def split: option.splits intro!: arg_cong [where f = "map tu_ToolUseID"] filter_True)
qed (simp add: openCalls_def)

lemma settled_cong:
  "settled p \<Longrightarrow> currentResultsOf q = currentResultsOf p \<Longrightarrow>
   currentResultsOf p = [] \<or> map tu_ToolUseID (openCalls (kp_History q)) = map tu_ToolUseID (openCalls (kp_History p)) \<Longrightarrow> settled q"
  using order_openCalls unfolding settled_def by metis

lemma repairStructured_settles: "settled (repairStructuredKiroPayloadToolResults p)"
  and repairStructured_results: "set (currentResultsOf (repairStructuredKiroPayloadToolResults p)) \<subseteq> set (currentResultsOf p)"
proof -
  define p1 where "p1 = snd (detachOrphanedToolResults p)"
  have s: "settled p1" and sub: "set (currentResultsOf p1) \<subseteq> set (currentResultsOf p)"
    unfolding p1_def by (rule detach_settles)+
  define ids where "ids = historyResultIDs (kp_History p1) (currentResultsOf p1)"
  define p2 where "p2 = p1\<lparr>kp_History := map (keepPairs (historyToolIDs (kp_History p1)) ids) (kp_History p1)\<rparr>"
  have rep: "repairStructuredKiroPayloadToolResults p = p2 \<or> repairStructuredKiroPayloadToolResults p = recordToolResultRepair p2"
    unfolding p2_def ids_def p1_def repairStructuredKiroPayloadToolResults_def
    by (simp only: orderOrDetach_eq orderOrDetach_results case_prod_unfold Let_def) argo
  have r2: "currentResultsOf p2 = currentResultsOf p1" by (simp add: p2_def)
  have "currentResultsOf p1 = [] \<or> map tu_ToolUseID (openCalls (kp_History p2)) = map tu_ToolUseID (openCalls (kp_History p1))"
  proof (cases "currentResultsOf p1 = []")
    case False
    then have o: "orderToolResultsForLastAssistant (kp_History p1) (currentResultsOf p1) = Some (currentResultsOf p1)" using s by (simp add: settled_def)
    have "set (map tu_ToolUseID (openCalls (kp_History p1))) \<subseteq> ids"
      unfolding order_sound(2) [OF o, symmetric] ids_def historyResultIDs_def nonBlank_def
      using order_sound(5) [OF o] by (auto simp: list_all_iff)
    then show ?thesis unfolding p2_def by (simp add: keepPairs_openCalls)
  qed simp
  then have "settled p2" using settled_cong [OF s r2] by blast
  then show "settled (repairStructuredKiroPayloadToolResults p)"
    using rep by (auto simp: settled_def)
  show "set (currentResultsOf (repairStructuredKiroPayloadToolResults p)) \<subseteq> set (currentResultsOf p)" using rep sub r2 by auto
qed

lemma repairFlattened_settles: "settled (repairFlattened p)"
  and repairFlattened_results: "set (currentResultsOf (repairFlattened p)) \<subseteq> set (currentResultsOf p)"
proof -
  define p1 where "p1 = (if currentToolsOf p = [] \<and> historyHasStructuredToolData (kp_History p) then p\<lparr>kp_History := sanitizeKiroHistory (kp_History p) []\<rparr> else p)"
  define p2 where "p2 = snd (detachOrphanedToolResults p1)"
  define p3 where "p3 = (if historyHasStructuredToolData (kp_History p2) then p2\<lparr>kp_History := sanitizeKiroHistory (kp_History p2) (currentResultsOf p2)\<rparr> else p2)"
  define p4 where "p4 = snd (detachOrphanedToolResults p3)"
  have rep: "repairFlattened p = p4 \<or> repairFlattened p = recordToolResultRepair p4"
    unfolding repairFlattened_def p4_def p3_def p2_def p1_def
    by (simp only: Let_def case_prod_unfold orderOrDetach_eq orderOrDetach_results) argo
  have "settled p4" unfolding p4_def by (rule detach_settles)
  then show "settled (repairFlattened p)" using rep by (auto simp: settled_def)
  have "currentResultsOf p1 = currentResultsOf p" "currentResultsOf p3 = currentResultsOf p2" by (simp_all add: p1_def p3_def)
  then have "set (currentResultsOf p4) \<subseteq> set (currentResultsOf p)"
    using detach_settles(3) [of p1] detach_settles(3) [of p3] by (simp add: p2_def p4_def)
  then show "set (currentResultsOf (repairFlattened p)) \<subseteq> set (currentResultsOf p)" using rep by auto
qed

lemma validateIDs_None:
  "validateIDs seen rs = None \<longleftrightarrow>
     distinct (map (trim_space \<circ> tr_ToolUseID) rs) \<and> (trim_space \<circ> tr_ToolUseID) ` set rs \<inter> seen = {} \<and>
     list_all (\<lambda>r. trim_space (tr_ToolUseID r) \<noteq> '''') rs"
  by (induction rs arbitrary: seen) (auto simp: Let_def)

lemma settled_valid:
  assumes "settled p" "\<forall>r \<in> set (currentResultsOf p). trim_space (tr_ToolUseID r) = tr_ToolUseID r"
  shows "validateKiroPayloadToolHistory p = None"
proof (cases "currentResultsOf p = []")
  case False
  then have o: "orderToolResultsForLastAssistant (kp_History p) (currentResultsOf p) = Some (currentResultsOf p)" using assms(1) by (simp add: settled_def)
  have eq: "map (trim_space \<circ> tr_ToolUseID) (currentResultsOf p) = map tr_ToolUseID (currentResultsOf p)" using assms(2) by simp
  have "validateIDs {} (currentResultsOf p) = None" using order_sound(4,5) [OF o] unfolding validateIDs_None eq by blast
  then show ?thesis using o by (simp add: validateKiroPayloadToolHistory_def Let_def)
qed (simp add: validateKiroPayloadToolHistory_def)

lemma repair_settled:
  "settled (repairKiroPayloadToolResults p)"
  "set (currentResultsOf (repairKiroPayloadToolResults p)) \<subseteq> set (currentResultsOf p)"
proof -
  let ?q = "recordToolSchemaRepairs (fst (sanitizeKiroPayloadToolSchemas p)) (snd (sanitizeKiroPayloadToolSchemas p))"
  have q: "currentResultsOf ?q = currentResultsOf p" by simp
  have "repairKiroPayloadToolResults p = repairStructuredKiroPayloadToolResults ?q \<or> repairKiroPayloadToolResults p = repairFlattened ?q"
    by (simp add: repairKiroPayloadToolResults_def case_prod_unfold Let_def)
  then show "settled (repairKiroPayloadToolResults p)" "set (currentResultsOf (repairKiroPayloadToolResults p)) \<subseteq> set (currentResultsOf p)"
    using repairStructured_settles [of ?q] repairFlattened_settles [of ?q] repairStructured_results [of ?q] repairFlattened_results [of ?q]
    unfolding q by auto
qed

text \<open>
  C8. The repair before dispatch establishes what the validation after it checks: when the client's result IDs
  have no surrounding space, a repaired payload is valid, in the flattening mode and in the mode that preserves Claude Code's history alike.
\<close>

theorem repaired_payload_validates:
  assumes "\<forall>r \<in> set (currentResultsOf p). trim_space (tr_ToolUseID r) = tr_ToolUseID r"
  shows "validateKiroPayloadToolHistory (repairKiroPayloadToolResults p) = None"
  using assms repair_settled(2) by (intro settled_valid repair_settled(1)) blast

text \<open>A payload whose two tool calls are answered in the opposite order, and one whose two IDs differ only by a space.\<close>

definition samplePayload :: "string \<Rightarrow> string \<Rightarrow> KiroPayload" where
  "samplePayload i j =
     \<lparr>kp_AgentContinuationId = '''', kp_AgentTaskType = ''vibe'', kp_ChatTriggerType = ''MANUAL'', kp_ConversationID = ''c'',
      kp_Current = \<lparr>um_Content = ''.'', um_ModelID = ''m'', um_Origin = ''AI_EDITOR'', um_Images = [],
        um_Context = Some \<lparr>uc_Tools = [\<lparr>tw_Name = ''t'', tw_Description = ''d'', tw_InputSchema = JObject [(''type'', JString ''object'')]\<rparr>],
          uc_ToolResults = [\<lparr>tr_ToolUseID = j, tr_Content = [\<lparr>rc_Text = ''b''\<rparr>], tr_Status = ''success''\<rparr>,
                            \<lparr>tr_ToolUseID = i, tr_Content = [\<lparr>rc_Text = ''a''\<rparr>], tr_Status = ''success''\<rparr>]\<rparr>\<rparr>,
      kp_History = [\<lparr>hm_User = Some \<lparr>um_Content = ''go'', um_ModelID = ''m'', um_Origin = ''AI_EDITOR'', um_Images = [], um_Context = None\<rparr>, hm_Assistant = None\<rparr>,
        \<lparr>hm_User = None, hm_Assistant = Some \<lparr>am_Content = ''ok'', am_ToolUses =
          [\<lparr>tu_ToolUseID = i, tu_Name = ''t'', tu_Input = JObject []\<rparr>, \<lparr>tu_ToolUseID = j, tu_Name = ''t'', tu_Input = JObject []\<rparr>]\<rparr>\<rparr>],
      kp_ProfileArn = '''', kp_InferenceConfig = None, kp_AdditionalModelRequestFields = [],
      kp_transparentClaudeCode = False, kp_transparentHistoryFallbackUsed = False, kp_contextWindowTokens = 0,
      kp_toolResultRepairs = 0, kp_toolSchemaRepairs = 0\<rparr>"

theorem sanitizeKiroHistory_shape_witness:
  "let h = sanitizeKiroHistory (kp_History (samplePayload ''x'' ''y'')) [] in
     (h = [] \<or> hm_Assistant (hd h) = None) \<and> list_all (\<lambda>m. \<not> hollowAssistant m) h \<and> successively (\<lambda>l m. \<not> repeatsUser l m) h \<and>
     \<not> historyHasStructuredToolData h \<and> length h = 2"
proof -
  have "orderToolResultsForLastAssistant (kp_History (samplePayload ''x'' ''y'')) [] = None" by code_simp
  moreover have "length (sanitizeKiroHistory (kp_History (samplePayload ''x'' ''y'')) []) = 2" by code_simp
  ultimately show ?thesis using sanitizeKiroHistory_shape [of "kp_History (samplePayload ''x'' ''y'')" "[]"] by (simp only: Let_def simp_thms)
qed

theorem repaired_payload_validates_witness:
  "validateKiroPayloadToolHistory (repairKiroPayloadToolResults (samplePayload ''x'' ''y'')) = None \<and>
   currentResultsOf (repairKiroPayloadToolResults (samplePayload ''x'' ''y'')) = rev (currentResultsOf (samplePayload ''x'' ''y''))"
proof
  have "trim_space ''x'' = ''x''" "trim_space ''y'' = ''y''" by code_simp+
  then show "validateKiroPayloadToolHistory (repairKiroPayloadToolResults (samplePayload ''x'' ''y'')) = None"
    by (intro repaired_payload_validates) (auto simp: samplePayload_def currentResultsOf_def)
qed code_simp

text \<open>
  The repair compares IDs as they are and the validation compares them trimmed: two calls whose IDs differ only by
  a space survive the repair and are then rejected as a repeated ID.
\<close>

lemma padded_ids_rejected_after_repair:
  "validateKiroPayloadToolHistory (repairKiroPayloadToolResults (samplePayload ''x'' ''x '')) =
     Some (toolHistoryError ''structured tool results contain a duplicate tool_use_id'')"
  by code_simp

text \<open>
  A tool name that is too long for the upstream is shortened when the history is mapped, and mapped once more when
  placeholders are added. The second mapping does not know the shortened name and lengthens its hash, so that a tool that is
  declared under its shortened name gets a placeholder under another name, which no call in the history uses.
\<close>

definition longToolName :: string where
  "longToolName = replicate 65 CHR ''a''"

definition constantDigest :: "string \<Rightarrow> string" where
  "constantDigest s = replicate 64 CHR ''0''"

definition longToolHistory :: "KiroHistoryMessage list" where
  "longToolHistory =
     [\<lparr>hm_User = Some \<lparr>um_Content = ''go'', um_ModelID = ''m'', um_Origin = ''AI_EDITOR'', um_Images = [], um_Context = None\<rparr>, hm_Assistant = None\<rparr>,
      \<lparr>hm_User = None, hm_Assistant = Some \<lparr>am_Content = ''ok'', am_ToolUses = [\<lparr>tu_ToolUseID = ''x'', tu_Name = longToolName, tu_Input = JObject []\<rparr>]\<rparr>\<rparr>]"

lemma declared_long_tool_gets_placeholder:
  "let (u, r) = upstreamName constantDigest trim_space longToolName newToolNameRegistry;
       results = [\<lparr>tr_ToolUseID = ''x'', tr_Content = [], tr_Status = ''success''\<rparr>];
       (_, history, tools, _) = preserveStructuredClaudeHistory constantDigest trim_space longToolHistory results results True
          [\<lparr>tw_Name = u, tw_Description = ''d'', tw_InputSchema = JNull\<rparr>] r
   in map tu_Name (openCalls history) = [u] \<and> length tools = 2 \<and> tw_Name (tools ! 0) = u \<and> tw_Name (tools ! 1) \<noteq> u"
  by code_simp

end
