(* ===== verification/Payload_Limit_Props.thy ===== *)
theory Payload_Limit_Props
  imports Payload_Limit Tool_History_Props
begin

text \<open>
  What the fitting of a request keeps: a shortened text is a prefix within its budget, the history is the priming
  and a recent part of the conversation, the client's tool contract stays, and tool results stay paired with their calls.
\<close>

section \<open>Texts\<close>

lemma fitLoop_ok: "prefix (fitLoop rnd budget s) s \<and> (fitLoop rnd budget s = '''' \<or> estimateWireTokens rnd (fitLoop rnd budget s) \<le> budget)"
proof (induction rnd budget s rule: fitLoop.induct)
  case (1 rnd budget s)
  show ?case
  proof (cases "s = '''' \<or> estimateWireTokens rnd s \<le> budget")
    case True
    then show ?thesis by (subst (1 2 3) fitLoop.simps) (auto simp: Let_def)
  next
    case False
    let ?t0 = "trunc_float (rnd (rnd (of_nat (length s) * of_int budget) / of_int (estimateWireTokens rnd s)))"
    let ?t = "if ?t0 \<ge> int (length s) then int (length s) - 1 else ?t0"
    have eq: "fitLoop rnd budget s = fitLoop rnd budget (truncateStringToBytes s ?t)" using False by (subst fitLoop.simps) (simp add: Let_def)
    have "prefix (fitLoop rnd budget (truncateStringToBytes s ?t)) (truncateStringToBytes s ?t) \<and>
        (fitLoop rnd budget (truncateStringToBytes s ?t) = '''' \<or> estimateWireTokens rnd (fitLoop rnd budget (truncateStringToBytes s ?t)) \<le> budget)"
      using False by (intro 1 [OF _ refl _ refl refl]) auto
    then show ?thesis unfolding eq using truncateStringToBytes_prefix [of s ?t] prefix_order.trans by blast
  qed
qed

text \<open>
  Shortening a text to a token budget ends with a prefix of the text whose estimate is within the budget,
  for any rounding of the floating-point proportion: every round removes at least one byte, so that the loop ends; with no budget left the
  result is empty.
\<close>

theorem fitTextToTokenBudget_within:
  "prefix (fitTextToTokenBudget rnd s budget) s \<and> estimateWireTokens rnd (fitTextToTokenBudget rnd s budget) \<le> max 0 budget"
  using fitLoop_ok [of rnd budget s] estimateWireTokens_zero_iff [of rnd "''''"]
  by (auto simp: fitTextToTokenBudget_def max_def)

section \<open>Escaping is compatible with cuts between runes\<close>

lemma decodeRune_take:
  assumes "0 < n" "n \<le> length s" "n = length s \<or> \<not> continuationByte (s ! n)"
  shows "snd (decodeRune s) \<le> n \<and> decodeRune (take n s) = decodeRune s"
proof -
  obtain c s1 m where s: "s = c # s1" "n = Suc m" using assms(1,2) by (cases s; cases n) auto
  have m: "m \<le> length s1" "m = length s1 \<or> \<not> continuationByte (s1 ! m)" using assms s by auto
  consider (two) "194 \<le> byteOf c \<and> byteOf c < 224" | (three) "224 \<le> byteOf c \<and> byteOf c < 240" | (four) "240 \<le> byteOf c \<and> byteOf c < 245"
    | (one) "byteOf c < 194 \<or> 245 \<le> byteOf c" by linarith
  then show ?thesis
  proof cases
    case two
    then show ?thesis using m unfolding s by (cases s1; cases m) (simp_all add: decodeRune.simps Let_def)
  next
    case three
    then show ?thesis using m unfolding s
      by (cases s1; cases m; cases "tl s1"; cases "m - 1") (simp_all add: decodeRune.simps Let_def, auto simp: continuationByte_def)
  next
    case four
    then show ?thesis using m unfolding s
      by (cases s1; cases m; cases "tl s1"; cases "m - 1"; cases "tl (tl s1)"; cases "m - 2")
        (simp_all add: decodeRune.simps Let_def, auto simp: continuationByte_def)
  next
    case one
    then show ?thesis unfolding s by (auto simp: decodeRune.simps Let_def)
  qed
qed

lemma escapeString_Nil [simp]: "escapeString [] = []"
  by (simp add: escapeString.simps)

text \<open>One step of the escape, as a function of the rest of the text.\<close>

definition escapeHead :: "string \<Rightarrow> string" where
  "escapeHead s =
     (if byteOf (hd s) < 128 then escapeAscii (hd s)
      else if decodeRune s = (runeError, 1) then char_of (92::nat) # ''ufffd''
      else if fst (decodeRune s) = 8232 then char_of (92::nat) # ''u2028''
      else if fst (decodeRune s) = 8233 then char_of (92::nat) # ''u2029''
      else take (snd (decodeRune s)) s)"

lemma escapeString_Cons: "s \<noteq> [] \<Longrightarrow> escapeString s = escapeHead s @ escapeString (drop (snd (decodeRune s)) s)"
  by (subst escapeString.simps, cases s) (auto simp: escapeHead_def case_prod_unfold Let_def prod_eq_iff decodeRune.simps)

lemma escapeHead_length: "s \<noteq> [] \<Longrightarrow> snd (decodeRune s) \<le> length (escapeHead s)"
  using decodeRune_width [of s] decodeRune_width_le4 [of s]
  by (cases s) (auto simp: escapeHead_def escapeAscii_def decodeRune_ascii Let_def)

lemma escapeString_length: "length s \<le> length (escapeString s)"
proof (induction s rule: length_induct)
  case (1 s)
  show ?case
  proof (cases "s = []")
    case False
    then have "length (drop (snd (decodeRune s)) s) < length s" using decodeRune_width [of s] by (cases s) auto
    then have "length (drop (snd (decodeRune s)) s) \<le> length (escapeString (drop (snd (decodeRune s)) s))" using 1 by blast
    then show ?thesis using escapeHead_length [OF False] False by (simp add: escapeString_Cons)
  qed simp
qed

lemma escapeString_cut:
  "n \<le> length s \<Longrightarrow> n = length s \<or> \<not> continuationByte (s ! n) \<Longrightarrow> escapeString s = escapeString (take n s) @ escapeString (drop n s)"
proof (induction s arbitrary: n rule: length_induct)
  case (1 s)
  show ?case
  proof (cases "n = 0")
    case False
    then have ne: "s \<noteq> []" "take n s \<noteq> []" using 1 by auto
    let ?w = "snd (decodeRune s)"
    have t: "?w \<le> n" "decodeRune (take n s) = decodeRune s" using decodeRune_take [of n s] 1 False by auto
    have w: "1 \<le> ?w" "?w \<le> length s" using decodeRune_width ne(1) by auto
    have h: "escapeHead (take n s) = escapeHead s" using t False ne by (auto simp: escapeHead_def hd_take min_def)
    have "escapeString (drop ?w s) = escapeString (take (n - ?w) (drop ?w s)) @ escapeString (drop (n - ?w) (drop ?w s))"
      using 1 w t(1) ne by (intro 1(1) [rule_format]) (auto simp: nth_append)
    then show ?thesis using escapeString_Cons [OF ne(1)] escapeString_Cons [OF ne(2)] t h by (simp add: drop_take)
  qed simp
qed

lemma backToRune_boundary: "backToRune s n = 0 \<or> \<not> continuationByte (s ! backToRune s n)"
  by (induction n) auto

lemma truncate_escape:
  assumes "0 < n" "n < int (length s)"
  shows "int (length (escapeString (truncateStringToBytes s n))) \<le> int (length (escapeString s)) - (int (length s) - n)"
proof -
  let ?k = "backToRune s (nat n)"
  have k: "?k \<le> nat n" by (rule backToRune_le)
  have "escapeString s = escapeString (take ?k s) @ escapeString (drop ?k s)"
  proof (cases "?k = 0")
    case False
    then show ?thesis using backToRune_boundary [of s "nat n"] k assms by (intro escapeString_cut) auto
  qed simp
  then have "length (escapeString s) = length (escapeString (take ?k s)) + length (escapeString (drop ?k s))" by (metis length_append)
  moreover have "length s - ?k \<le> length (escapeString (drop ?k s))" using escapeString_length [of "drop ?k s"] by simp
  ultimately show ?thesis using assms k by (simp add: truncateStringToBytes_def)
qed

text \<open>The encoding of a payload around the content of its current message.\<close>

lemma encodeMembers_first:
  "\<exists>post. \<forall>v. encodeMembers ((k, v) # ms) = CHR ''{'' # encodeString k @ CHR '':'' # v @ post"
  by (cases ms) (auto simp: encodeMembers_def)

lemma joinWith_middle: "\<exists>pre post. \<forall>x. joinWith sep (xs @ x # ys) = pre @ x @ post"
proof (induction xs)
  case Nil
  show ?case by (cases ys) (auto intro: exI [of _ "[]"])
next
  case (Cons y xs)
  then obtain pre post where "\<forall>x. joinWith sep (xs @ x # ys) = pre @ x @ post" by blast
  then have "\<forall>x. joinWith sep ((y # xs) @ x # ys) = (y @ sep @ pre) @ x @ post" by (cases xs) auto
  then show ?case by blast
qed

lemma encodeStruct_middle:
  "\<exists>pre post. \<forall>v. encodeStruct (xs @ always k v # ys) = pre @ v @ post"
proof -
  let ?f = "\<lambda>ms. map (\<lambda>(k, v). encodeString k @ CHR '':'' # v) (List.map_filter (\<lambda>m. m) ms)"
  obtain pre post where "\<forall>x. joinWith '','' (?f xs @ x # ?f ys) = pre @ x @ post" using joinWith_middle by blast
  then have "\<forall>v. encodeStruct (xs @ always k v # ys) = (CHR ''{'' # pre @ encodeString k @ '':'') @ v @ (post @ ''}'')"
    by (simp add: encodeStruct_def encodeMembers_def always_def map_filter_def)
  then show ?thesis by blast
qed

lemma encodeUserInput_content: "\<exists>pre post. \<forall>c. encodeUserInput (u\<lparr>um_Content := c\<rparr>) = pre @ escapeString c @ post"
proof -
  obtain pre post where "\<forall>v. encodeStruct ([] @ always ''content'' v #
      [omitempty (um_ModelID u = '''') ''modelId'' (encodeString (um_ModelID u)), always ''origin'' (encodeString (um_Origin u)),
       omitempty (um_Images u = []) ''images'' (encodeList encodeImage (um_Images u)),
       (case um_Context u of None \<Rightarrow> None | Some uc \<Rightarrow> always ''userInputMessageContext'' (encodeContext uc))]) = pre @ v @ post"
    using encodeStruct_middle by blast
  then have "\<forall>c. encodeUserInput (u\<lparr>um_Content := c\<rparr>) = (pre @ [char_of (34::nat)]) @ escapeString c @ ([char_of (34::nat)] @ post)"
    by (simp add: encodeUserInput_def encodeString_def)
  then show ?thesis by blast
qed

lemma encodePayload_content: "\<exists>pre post. \<forall>c. encodePayload (setCurrentContent c p) = pre @ escapeString c @ post"
proof -
  obtain pre0 post0 where 0: "\<forall>c. encodeUserInput ((kp_Current p)\<lparr>um_Content := c\<rparr>) = pre0 @ escapeString c @ post0"
    using encodeUserInput_content by blast
  obtain pre1 post1 where 1: "\<forall>v. encodeStruct ([] @ always ''userInputMessage'' v # []) = pre1 @ v @ post1" using encodeStruct_middle by blast
  obtain pre2 post2 where 2: "\<forall>v. encodeStruct ([omitempty (kp_AgentContinuationId p = '''') ''agentContinuationId'' (encodeString (kp_AgentContinuationId p)),
         omitempty (kp_AgentTaskType p = '''') ''agentTaskType'' (encodeString (kp_AgentTaskType p)),
         always ''chatTriggerType'' (encodeString (kp_ChatTriggerType p)),
         always ''conversationId'' (encodeString (kp_ConversationID p))] @
         always ''currentMessage'' v #
         [omitempty (kp_History p = []) ''history'' (encodeList encodeHistoryMessage (kp_History p))]) = pre2 @ v @ post2"
    using encodeStruct_middle by blast
  obtain pre3 post3 where 3: "\<forall>v. encodeStruct ([] @ always ''conversationState'' v #
      [omitempty (kp_ProfileArn p = '''') ''profileArn'' (encodeString (kp_ProfileArn p)),
      (case kp_InferenceConfig p of None \<Rightarrow> None | Some ic \<Rightarrow> always ''inferenceConfig'' (encodeInferenceConfig ic)),
      omitempty (kp_AdditionalModelRequestFields p = []) ''additionalModelRequestFields''
        (encodeValue (JObject (kp_AdditionalModelRequestFields p)))]) = pre3 @ v @ post3"
    using encodeStruct_middle by blast
  have "\<forall>c. encodePayload (setCurrentContent c p) = (pre3 @ pre2 @ pre1 @ pre0) @ escapeString c @ (post0 @ post1 @ post2 @ post3)"
    using 0 1 2 3 by (simp add: encodePayload_def setCurrentContent_def)
  then show ?thesis by blast
qed

lemma payloadByteSize_content:
  "payloadByteSize (setCurrentContent c p) - int (length (escapeString c)) = payloadByteSize (setCurrentContent d p) - int (length (escapeString d))"
proof -
  obtain pre post where "\<forall>c. encodePayload (setCurrentContent c p) = pre @ escapeString c @ post" using encodePayload_content by blast
  then show ?thesis by (simp add: payloadByteSize_def)
qed

text \<open>
  Cutting the current message brings an oversized request under the byte limit, with 16 bytes to spare, whenever
  the message is longer than the excess: the cut counts raw bytes while the limit is on the escaped JSON, but the cut
  is made between UTF-8 runes and so each raw byte removed removes at least one byte of the encoding.
\<close>

theorem fitPayloadTextBytes_fits:
  assumes "payloadByteSize p > maxPayloadBytes"
    and "int (length (um_Content (kp_Current p))) > payloadByteSize p - maxPayloadBytes + 16"
  shows "payloadByteSize (setCurrentContent (fitPayloadTextBytes p (um_Content (kp_Current p))) p) \<le> maxPayloadBytes - 16"
proof -
  let ?c = "um_Content (kp_Current p)"
  let ?t = "int (length ?c) - (payloadByteSize p - maxPayloadBytes) - 16"
  have t: "0 < ?t" "?t < int (length ?c)" using assms by auto
  then have "?c \<noteq> ''''" by auto
  then have eq: "fitPayloadTextBytes p ?c = truncateStringToBytes ?c ?t" using assms t by (simp add: fitPayloadTextBytes_def Let_def)
  have "setCurrentContent ?c p = p" by (simp add: setCurrentContent_def)
  then have "payloadByteSize (setCurrentContent (truncateStringToBytes ?c ?t) p) =
      payloadByteSize p - int (length (escapeString ?c)) + int (length (escapeString (truncateStringToBytes ?c ?t)))"
    using payloadByteSize_content [of "truncateStringToBytes ?c ?t" p ?c] by simp
  then show ?thesis using truncate_escape [OF t] eq by simp
qed

lemma escapeString_letters: "escapeString (replicate n CHR ''a'') = replicate n CHR ''a''"
proof (induction n)
  case (Suc n)
  have "escapeString (CHR ''a'' # replicate n CHR ''a'') = escapeAscii CHR ''a'' @ escapeString (replicate n CHR ''a'')"
    by (subst escapeString.simps) simp
  moreover have "escapeAscii CHR ''a'' = ''a''" by code_simp
  ultimately show ?case using Suc by simp
qed simp

lemma sample_size: "payloadByteSize (setCurrentContent (replicate n CHR ''a'') (samplePayload ''x'' ''y'')) = 678 + int n"
proof -
  have "payloadByteSize (setCurrentContent '''' (samplePayload ''x'' ''y'')) = 678" by code_simp
  then show ?thesis
    using payloadByteSize_content [of "replicate n CHR ''a''" "samplePayload ''x'' ''y''" "''''"] by (simp add: escapeString_letters)
qed

theorem fitPayloadTextBytes_fits_witness:
  "payloadByteSize (setCurrentContent (fitPayloadTextBytes (setCurrentContent (replicate 1000000 CHR ''a'') (samplePayload ''x'' ''y''))
       (um_Content (kp_Current (setCurrentContent (replicate 1000000 CHR ''a'') (samplePayload ''x'' ''y'')))))
     (setCurrentContent (replicate 1000000 CHR ''a'') (samplePayload ''x'' ''y''))) \<le> maxPayloadBytes - 16"
proof (rule fitPayloadTextBytes_fits)
  have c: "um_Content (kp_Current (setCurrentContent c p)) = c" for c p by (simp add: setCurrentContent_def)
  show "maxPayloadBytes < payloadByteSize (setCurrentContent (replicate 1000000 CHR ''a'') (samplePayload ''x'' ''y''))"
    unfolding sample_size by (simp add: maxPayloadBytes_def)
  show "payloadByteSize (setCurrentContent (replicate 1000000 CHR ''a'') (samplePayload ''x'' ''y'')) - maxPayloadBytes + 16 <
      int (length (um_Content (kp_Current (setCurrentContent (replicate 1000000 CHR ''a'') (samplePayload ''x'' ''y'')))))"
    unfolding sample_size c length_replicate by (simp add: maxPayloadBytes_def)
qed

section \<open>The current message\<close>

text \<open>What shortening leaves alone: the history, the IDs of the results, and name and schema of every tool.\<close>

definition contractOf :: "KiroPayload \<Rightarrow> KiroHistoryMessage list \<times> string list \<times> (string \<times> jsonValue) list \<times> bool \<times> bool \<times> int" where
  "contractOf p = (kp_History p, map tr_ToolUseID (currentResultsOf p), map (\<lambda>t. (tw_Name t, tw_InputSchema t)) (currentToolsOf p),
     kp_transparentClaudeCode p, kp_transparentHistoryFallbackUsed p, kp_contextWindowTokens p)"

lemma contract_content [simp]: "contractOf (setCurrentContent c p) = contractOf p"
  by (simp add: contractOf_def setCurrentContent_def currentResultsOf_def currentToolsOf_def)

lemma contract_description [simp]: "contractOf (setToolDescription i d p) = contractOf p"
  by (cases "um_Context (kp_Current p)"; cases "i < length (currentToolsOf p)")
    (auto simp: contractOf_def setToolDescription_def currentResultsOf_def currentToolsOf_def map_update list_update_beyond
      intro!: list_update_same_conv [THEN iffD2])

lemma contract_result [simp]: "contractOf (setResultText ij t p) = contractOf p"
proof (cases "um_Context (kp_Current p)")
  case (Some ctx)
  let ?rs = "currentResultsOf p"
  let ?r = "(?rs ! fst ij)\<lparr>tr_Content := (tr_Content (?rs ! fst ij))[snd ij := \<lparr>rc_Text = t\<rparr>]\<rparr>"
  have "map tr_ToolUseID (?rs[fst ij := ?r]) = map tr_ToolUseID ?rs"
    by (cases "fst ij < length ?rs") (auto simp: map_update list_update_beyond intro!: list_update_same_conv [THEN iffD2])
  then show ?thesis using Some by (simp add: contractOf_def setResultText_def setCurrentResults_def currentResultsOf_def currentToolsOf_def Let_def)
qed (simp add: contractOf_def setResultText_def setCurrentResults_def currentResultsOf_def currentToolsOf_def Let_def)

lemma contract_shortenContent [simp]: "contractOf (shortenContent rnd l p) = contractOf p"
  by (simp add: shortenContent_def Let_def)

lemma contract_shortenResultText [simp]: "contractOf (shortenResultText rnd l p ij) = contractOf p"
  by (simp add: shortenResultText_def Let_def)

lemma contract_shortenResults [simp]: "contractOf (foldl (shortenResultText rnd l) p ijs) = contractOf p"
  by (induction ijs arbitrary: p) auto

lemma contract_shortenDescriptions [simp]: "contractOf (shortenDescriptions rnd l is p) = contractOf p"
  by (induction "is" arbitrary: p) (auto simp: Let_def)

lemma contract_images [simp]: "contractOf (p\<lparr>kp_Current := (kp_Current p)\<lparr>um_Images := im\<rparr>\<rparr>) = contractOf p"
  by (simp add: contractOf_def currentResultsOf_def currentToolsOf_def)

lemma contract_truncateCurrentMessage [simp]: "contractOf (truncateCurrentMessage rnd l p) = contractOf p"
  by (simp add: truncateCurrentMessage_def Let_def)

lemma contract_shrinkAgain [simp]: "contractOf (shrinkAgain rnd l n p) = contractOf p"
  by (induction n arbitrary: p) (auto simp: Let_def)

lemma contract_history: "contractOf p = contractOf q \<Longrightarrow> kp_History p = kp_History q"
  by (simp add: contractOf_def)

section \<open>The whole truncation\<close>

text \<open>Whether results are settled depends on the history and on their IDs only.\<close>

lemma order_self_iff:
  "orderToolResultsForLastAssistant h rs = Some rs \<longleftrightarrow>
     openCalls h \<noteq> [] \<and> map tr_ToolUseID rs = map tu_ToolUseID (openCalls h) \<and> distinct (map tr_ToolUseID rs) \<and>
     list_all (\<lambda>i. trim_space i \<noteq> '''') (map tr_ToolUseID rs)"
proof -
  have "list_all (\<lambda>i. trim_space i \<noteq> '''') (map tr_ToolUseID rs) \<longleftrightarrow> list_all (\<lambda>r. trim_space (tr_ToolUseID r) \<noteq> '''') rs"
    by (simp add: list_all_iff)
  then show ?thesis using order_sound [of h rs rs] order_complete [of h rs rs] by blast
qed

lemma settled_contract:
  assumes "contractOf p = contractOf q"
  shows "settled p = settled q"
proof -
  have "kp_History p = kp_History q" "map tr_ToolUseID (currentResultsOf p) = map tr_ToolUseID (currentResultsOf q)"
    using assms by (simp_all add: contractOf_def)
  moreover from this(2) have "currentResultsOf p = [] \<longleftrightarrow> currentResultsOf q = []" by (metis list.map_disc_iff)
  ultimately show ?thesis unfolding settled_def order_self_iff by metis
qed

definition toolContract :: "KiroPayload \<Rightarrow> (string \<times> jsonValue) list" where
  "toolContract p = map (\<lambda>t. (tw_Name t, tw_InputSchema t)) (currentToolsOf p)"

lemma toolContract_of: "contractOf p = contractOf q \<Longrightarrow> toolContract p = toolContract q"
  by (simp add: contractOf_def toolContract_def)

lemma toolContract_truncate [simp]: "toolContract (truncateCurrentMessage rnd l p) = toolContract p"
  by (rule toolContract_of) simp

lemma toolContract_shrink [simp]: "toolContract (shrinkAgain rnd l n p) = toolContract p"
  by (rule toolContract_of) simp

lemma history_truncate [simp]: "kp_History (truncateCurrentMessage rnd l p) = kp_History p"
  by (rule contract_history) simp

lemma history_shrink [simp]: "kp_History (shrinkAgain rnd l n p) = kp_History p"
  by (rule contract_history) simp

lemma toolContract_history [simp]: "toolContract (p\<lparr>kp_History := h\<rparr>) = toolContract p"
  by (simp add: toolContract_def currentToolsOf_def)

lemma toolContract_rebuild [simp]: "toolContract (rebuild a b c d k p) = toolContract p"
  by (simp add: rebuild_def)

lemma toolContract_detach [simp]: "toolContract (snd (detachOrphanedToolResults p)) = toolContract p"
  by (auto simp: toolContract_def currentToolsOf_def detachOrphanedToolResults_def setCurrentResults_def flattenCurrentResults_def Let_def
      split: option.splits)

lemma detach_history [simp]: "kp_History (snd (detachOrphanedToolResults p)) = kp_History p"
  by (rule detach_settles(2))

lemma keepLoop_le: "keepLoop rnd l conv i b t \<le> i"
  by (induction rnd l conv i b t rule: keepLoop.induct) (auto simp: Let_def le_SucI)

lemma dropLoop_ok:
  assumes "kp_History p = kp_History (rebuild a b c d keep q)"
  shows "\<exists>k q'. keep \<le> k \<and> k \<le> max keep m \<and> fst (dropLoop rnd l (rebuild a b c d) m keep p) = k \<and>
     kp_History (snd (dropLoop rnd l (rebuild a b c d) m keep p)) = kp_History (rebuild a b c d k q') \<and>
     toolContract (snd (dropLoop rnd l (rebuild a b c d) m keep p)) = toolContract p"
  using assms
proof (induction rnd l "rebuild a b c d" m keep p arbitrary: q rule: dropLoop.induct)
  case (1 rnd l m keep p)
  show ?case
  proof (cases "keep < m \<and> \<not> payloadFitsInputLimits rnd p l")
    case True
    then have eq: "dropLoop rnd l (rebuild a b c d) m keep p = dropLoop rnd l (rebuild a b c d) m (Suc keep) (rebuild a b c d (Suc keep) p)"
      by (subst dropLoop.simps) simp
    show ?thesis unfolding eq using 1(1) [OF True refl] True by (fastforce simp: max_def)
  next
    case False
    then have eq: "dropLoop rnd l (rebuild a b c d) m keep p = (keep, p)" by (subst dropLoop.simps) (simp only: if_False)
    show ?thesis unfolding eq using 1(2) by auto
  qed
qed

text \<open>The history after truncation: the priming, a note when something was dropped, and the end of the conversation.\<close>

definition truncatedHistory :: "bool \<Rightarrow> KiroPayload \<Rightarrow> nat \<Rightarrow> KiroHistoryMessage list" where
  "truncatedHistory hasPriming p k =
     (let n = (if hasPriming \<and> length (kp_History p) \<ge> 2 then 2 else 0); conversation = drop n (kp_History p);
          active = activeToolTurn p (kp_History p) conversation
      in take n (kp_History p) @ (if k > 0 then [placeholderEntry p] else []) @ dropAssistants active (drop k conversation))"

lemma activeToolTurn_history [simp]: "activeToolTurn (p\<lparr>kp_History := h\<rparr>) = activeToolTurn p"
  by (simp add: activeToolTurn_def fun_eq_iff)

lemma rebuild_history:
  "kp_History (rebuild (take n (kp_History p)) (placeholderEntry p) (activeToolTurn p (kp_History p) (drop n (kp_History p)))
     (drop n (kp_History p)) k q) = take n (kp_History p) @ (if k > 0 then [placeholderEntry p] else []) @
       dropAssistants (activeToolTurn p (kp_History p) (drop n (kp_History p))) (drop k (drop n (kp_History p)))"
  by (simp add: rebuild_def)

lemma truncate_parts:
  assumes "\<not> payloadFitsInputLimits rnd p (payloadInputTokenLimit rnd discovered p)"
  shows "(\<exists>k \<le> length (kp_History p). kp_History (truncatePayloadToLimit rnd discovered hasPriming p) = truncatedHistory hasPriming p k) \<and>
     toolContract (truncatePayloadToLimit rnd discovered hasPriming p) = toolContract p \<and>
     settled (truncatePayloadToLimit rnd discovered hasPriming p)"
proof -
  define l where "l = payloadInputTokenLimit rnd discovered p"
  define n where "n = (if hasPriming \<and> length (kp_History p) \<ge> 2 then 2 else 0 :: nat)"
  define conv where "conv = drop n (kp_History p)"
  define pb where "pb = p\<lparr>kp_History := take n (kp_History p)\<rparr>"
  define keep0 where "keep0 = keepLoop rnd l conv (length conv) (payloadByteSize pb + historyEntryByteSize (placeholderEntry p))
     (estimateKiroPayloadTokens rnd pb + estimateKiroHistoryEntryTokens rnd (placeholderEntry p))"
  define active where "active = activeToolTurn pb (kp_History p) conv"
  define rb where "rb = rebuild (take n (kp_History p)) (placeholderEntry p) active conv"
  define d where "d = dropLoop rnd l rb (length conv - (if active then 1 else 0)) keep0 (rb keep0 pb)"
  define early where "early = (\<not> payloadFitsInputLimits rnd (snd d) l \<and> active \<and> fst d < length conv \<and> fitsWithoutActive rnd l conv (snd d))"
  define keep2 where "keep2 = (if early then length conv else fst d)"
  define p2 where "p2 = (if early then snd (detachOrphanedToolResults (rb (length conv) (snd d))) else snd d)"
  define p3 where "p3 = (if payloadFitsInputLimits rnd p2 l then p2 else truncateCurrentMessage rnd l p2)"
  define p4 where "p4 = (if \<not> payloadFitsInputLimits rnd p3 l \<and> keep2 < length conv
     then truncateCurrentMessage rnd l (snd (detachOrphanedToolResults (rb (length conv) p3))) else p3)"
  have res: "truncatePayloadToLimit rnd discovered hasPriming p = shrinkAgain rnd l 3 (snd (detachOrphanedToolResults p4))"
    using assms unfolding truncatePayloadToLimit_def Let_def case_prod_unfold l_def n_def conv_def pb_def keep0_def active_def rb_def d_def early_def
      keep2_def p2_def p3_def p4_def by (simp only: if_False)
  have th: "kp_History (rb k q) = truncatedHistory hasPriming p k" for k q
    unfolding rb_def truncatedHistory_def Let_def active_def pb_def conv_def n_def activeToolTurn_history by (rule rebuild_history)
  have tc: "toolContract (rb k q) = toolContract q" for k q unfolding rb_def by simp
  have "keep0 \<le> length conv" unfolding keep0_def by (rule keepLoop_le)
  moreover obtain k where "k \<le> max keep0 (length conv - (if active then 1 else 0))" "kp_History (snd d) = truncatedHistory hasPriming p k"
      "toolContract (snd d) = toolContract (rb keep0 pb)"
    using dropLoop_ok [of "rb keep0 pb", unfolded rb_def, OF refl] th unfolding d_def rb_def by metis
  moreover from calculation(1,2) have "k \<le> length conv" by (auto simp: max_def split: if_splits)
  ultimately have D: "\<exists>k \<le> length conv. kp_History (snd d) = truncatedHistory hasPriming p k" "toolContract (snd d) = toolContract p"
    by (auto simp: tc pb_def)
  then have P2: "\<exists>k \<le> length conv. kp_History p2 = truncatedHistory hasPriming p k" "toolContract p2 = toolContract p"
    by (auto simp: p2_def th tc)
  then have P3: "\<exists>k \<le> length conv. kp_History p3 = truncatedHistory hasPriming p k" "toolContract p3 = toolContract p" by (auto simp: p3_def)
  then have P4: "\<exists>k \<le> length conv. kp_History p4 = truncatedHistory hasPriming p k" "toolContract p4 = toolContract p"
    by (auto simp: p4_def th tc)
  have "settled (shrinkAgain rnd l 3 (snd (detachOrphanedToolResults p4)))"
    using settled_contract [OF contract_shrinkAgain] detach_settles(1) by blast
  moreover have "length conv \<le> length (kp_History p)" by (simp add: conv_def)
  moreover have "\<exists>k \<le> length (kp_History p). kp_History p4 = truncatedHistory hasPriming p k" using P4(1) calculation(2) le_trans by blast
  ultimately show ?thesis using P4(2) unfolding res by simp
qed



end
