(* ===== verification/Responses_Store.thy ===== *)
theory Responses_Store
  imports Json_Encode
begin

text \<open>
  The store of \<open>/v1/responses\<close> results: the encrypted files with their index, quota and expiry
  (\<open>proxy/responses_store.go\<close>) and the chain of ancestors that a follow-up request replays
  (\<open>collectAncestorChain\<close> of \<open>proxy/responses_history.go\<close>).

  The directory is a map from file names to contents with size and modification time. A file's content is what decoding its JSON gives: an
  encrypted envelope (its nonce and ciphertext already decoded from base64), a plaintext document of an older version, or neither. The
  record \<open>storeEnv\<close> holds what is not in the sources: the derived key, the AEAD, the document
  encoding and the length of an encoded file. The record \<open>fsFaults\<close> says which file-system calls fail in one operation.
\<close>

section \<open>Documents\<close>

record ResponseContentPart =
  cp_Type :: string
  cp_Text :: string

record ResponseOutputItem =
  oi_ID :: string
  oi_Type :: string
  oi_Role :: string
  oi_Status :: string
  oi_Content :: "ResponseContentPart list"
  oi_CallID :: string
  oi_Name :: string
  oi_Arguments :: string
  oi_Input :: string
  oi_Summary :: "ResponseContentPart list"

record ResponsesUsage =
  us_InputTokens :: int
  us_OutputTokens :: int
  us_TotalTokens :: int
  us_CachedTokens :: "(int \<times> int \<times> int) option"
  us_ReasoningTokens :: "int option"

record OpenAITool =
  ot_Type :: string
  ot_Name :: string
  ot_Description :: string
  ot_Parameters :: jsonValue

record storedResponseDoc =
  sd_ID :: string
  sd_Object :: string
  sd_CreatedAt :: int
  sd_Status :: string
  sd_Model :: string
  sd_Output :: "ResponseOutputItem list option"
  sd_Usage :: ResponsesUsage
  sd_PreviousResponseID :: string
  sd_Metadata :: "(string, string) gomap"
  sd_IncompleteDetails :: "string option"
  sd_Instructions :: string
  sd_StoredInput :: string
  sd_StoredTools :: "OpenAITool list option"
  sd_StoredToolChoice :: string
  sd_StoredAt :: int
  sd_OwnerAPIKeyID :: string

text \<open>The object has in addition the error and a field that are not stored.\<close>

record ResponsesObject =
  ro_Doc :: storedResponseDoc
  ro_Error :: "(string \<times> string \<times> string) option"
  ro_StoredInstr :: string

definition objectOf :: "storedResponseDoc \<Rightarrow> ResponsesObject" where
  "objectOf doc = \<lparr>ro_Doc = doc, ro_Error = None, ro_StoredInstr = ''''\<rparr>"

record ResponsesStorageConfig =
  sc_DefaultStore :: bool
  sc_TTLHours :: int
  sc_MaxFiles :: int
  sc_MaxBytes :: int
  sc_MaxHistoryBytes :: int
  sc_GCIntervalMinutes :: int

definition defaultResponsesStorageConfig :: ResponsesStorageConfig where
  "defaultResponsesStorageConfig =
     \<lparr>sc_DefaultStore = False, sc_TTLHours = 720, sc_MaxFiles = 10000, sc_MaxBytes = 1073741824,
      sc_MaxHistoryBytes = 4194304, sc_GCIntervalMinutes = 60\<rparr>"

text \<open>A value below its minimum takes the default, one above its maximum the maximum.\<close>

definition storageBound :: "int \<Rightarrow> int \<Rightarrow> int \<Rightarrow> int \<Rightarrow> int" where
  "storageBound lo d hi v = (let v1 = (if v < lo then d else v) in if v1 > hi then hi else v1)"

definition normalizeResponsesStorageLocked :: "ResponsesStorageConfig \<Rightarrow> ResponsesStorageConfig" where
  "normalizeResponsesStorageLocked c =
     (let d = defaultResponsesStorageConfig
      in c\<lparr>sc_TTLHours := storageBound 1 (sc_TTLHours d) 8760 (sc_TTLHours c),
           sc_MaxFiles := storageBound 1 (sc_MaxFiles d) 1000000 (sc_MaxFiles c),
           sc_MaxBytes := storageBound 1048576 (sc_MaxBytes d) 1099511627776 (sc_MaxBytes c),
           sc_MaxHistoryBytes := storageBound 65536 (sc_MaxHistoryBytes d) 67108864 (sc_MaxHistoryBytes c),
           sc_GCIntervalMinutes := storageBound 1 (sc_GCIntervalMinutes d) 1440 (sc_GCIntervalMinutes c)\<rparr>)"

definition GetResponsesStorageConfig :: "ResponsesStorageConfig option \<Rightarrow> ResponsesStorageConfig" where
  "GetResponsesStorageConfig cfg =
     (let d = defaultResponsesStorageConfig
      in case cfg of
           None \<Rightarrow> d
         | Some c \<Rightarrow>
             c\<lparr>sc_TTLHours := (if sc_TTLHours c < 1 then sc_TTLHours d else sc_TTLHours c),
               sc_MaxFiles := (if sc_MaxFiles c < 1 then sc_MaxFiles d else sc_MaxFiles c),
               sc_MaxBytes := (if sc_MaxBytes c < 1048576 then sc_MaxBytes d else sc_MaxBytes c),
               sc_MaxHistoryBytes := (if sc_MaxHistoryBytes c < 65536 then sc_MaxHistoryBytes d else sc_MaxHistoryBytes c),
               sc_GCIntervalMinutes := (if sc_GCIntervalMinutes c < 1 then sc_GCIntervalMinutes d else sc_GCIntervalMinutes c)\<rparr>)"

section \<open>State\<close>

record encryptedResponseEnvelope =
  ee_EncryptionVersion :: int
  ee_Algorithm :: string
  ee_Nonce :: "string option"
  ee_Ciphertext :: "string option"

datatype storedFile = EncryptedFile encryptedResponseEnvelope | PlainFile storedResponseDoc | BrokenFile

record responseFileInfo =
  fi_size :: int
  fi_modTime :: gotime

record responsesStore =
  st_files :: "(string, storedFile \<times> responseFileInfo) gomap"
  st_loaded :: bool
  st_index :: "(string, responseFileInfo) gomap"
  st_totalBytes :: int

record storeEnv =
  se_key :: "string option"
  se_seal :: "string \<Rightarrow> string \<Rightarrow> string \<Rightarrow> string \<Rightarrow> string"
  se_open :: "string \<Rightarrow> string \<Rightarrow> string \<Rightarrow> string \<Rightarrow> string option"
  se_marshal :: "storedResponseDoc \<Rightarrow> string"
  se_unmarshal :: "string \<Rightarrow> storedResponseDoc option"
  se_fileLength :: "storedFile \<Rightarrow> nat"

record fsFaults =
  ff_mkdir :: bool
  ff_write :: bool
  ff_rename :: bool
  ff_remove :: "string \<Rightarrow> bool"

datatype storeError =
    MissingID | NoEncryptionKey | MkdirFailed | WriteFailed | CommitFailed | FileMissing
  | UnsupportedVersion | BadNonce | BadCiphertext | NonceLength | DecryptFailed | DecodeFailed
  | IDMismatch | MigrateFailed | ResponseExpired | WrongOwner

section \<open>Names\<close>

definition idChar :: "char \<Rightarrow> bool" where
  "idChar c = (let n = (of_char c :: nat) in (97 \<le> n \<and> n \<le> 122) \<or> (65 \<le> n \<and> n \<le> 90) \<or> (48 \<le> n \<and> n \<le> 57) \<or> n = 95 \<or> n = 45)"

definition sanitizeResponseID :: "string \<Rightarrow> string" where
  "sanitizeResponseID i = (let cleaned = filter idChar i in if cleaned = '''' then ''invalid'' else cleaned)"

definition responseFileName :: "string \<Rightarrow> string" where
  "responseFileName i = sanitizeResponseID i @ ''.json''"

section \<open>Index\<close>

definition indexSum :: "(string, responseFileInfo) gomap \<Rightarrow> int" where
  "indexSum m = sum_list (map (\<lambda>e. fi_size (snd e)) m)"

definition ensureResponsesIndexLocked :: "responsesStore \<Rightarrow> responsesStore" where
  "ensureResponsesIndexLocked s =
     (if st_loaded s then s
      else let entries = filter (\<lambda>e. has_suffix (fst e) ''.json'') (st_files s);
               index = foldl (\<lambda>m e. gm_put (fst e) (snd (snd e)) m) [] entries
           in s\<lparr>st_loaded := True, st_index := index, st_totalBytes := sum_list (map (\<lambda>e. fi_size (snd (snd e))) entries)\<rparr>)"

text \<open>\<open>os.Remove\<close> of a name: it fails when the call does, or when there is no such file.\<close>

definition removeResponseFileLocked :: "fsFaults \<Rightarrow> string \<Rightarrow> responsesStore \<Rightarrow> bool \<times> responsesStore" where
  "removeResponseFileLocked ff name s =
     (case gm_get (st_index s) name of
        None \<Rightarrow>
          if gm_get (st_files s) name = None \<or> ff_remove ff name then (False, s)
          else (True, s\<lparr>st_files := gm_del name (st_files s)\<rparr>)
      | Some file \<Rightarrow>
          if gm_get (st_files s) name \<noteq> None \<and> ff_remove ff name then (False, s)
          else (True, s\<lparr>st_files := gm_del name (st_files s), st_index := gm_del name (st_index s),
                        st_totalBytes := max 0 (st_totalBytes s - fi_size file)\<rparr>))"

definition commitResponseFileLocked :: "storeEnv \<Rightarrow> fsFaults \<Rightarrow> gotime \<Rightarrow> string \<Rightarrow> storedFile \<Rightarrow> responsesStore \<Rightarrow> storeError option \<times> responsesStore" where
  "commitResponseFileLocked se ff now name content s =
     (if ff_write ff then (Some WriteFailed, s)
      else if ff_rename ff then (Some CommitFailed, s)
      else let file = \<lparr>fi_size = int (se_fileLength se content), fi_modTime = now\<rparr>;
               base = (case gm_get (st_index s) name of None \<Rightarrow> st_totalBytes s | Some previous \<Rightarrow> st_totalBytes s - fi_size previous)
           in (None, s\<lparr>st_files := gm_put name (content, file) (st_files s), st_index := gm_put name file (st_index s),
                       st_totalBytes := base + fi_size file\<rparr>))"

definition olderFile :: "string \<times> responseFileInfo \<Rightarrow> string \<times> responseFileInfo \<Rightarrow> bool" where
  "olderFile a b =
     (if fi_modTime (snd a) = fi_modTime (snd b) then bytesBefore (fst a) (fst b) else fi_modTime (snd a) < fi_modTime (snd b))"

fun quotaLoop :: "fsFaults \<Rightarrow> int \<Rightarrow> int \<Rightarrow> (string \<times> responseFileInfo) list \<Rightarrow> responsesStore \<Rightarrow> responsesStore" where
  "quotaLoop ff maxFiles maxBytes [] s = s"
| "quotaLoop ff maxFiles maxBytes (oldest # files) s =
     (if int (Suc (length files)) > maxFiles \<or> st_totalBytes s > maxBytes
      then quotaLoop ff maxFiles maxBytes files (snd (removeResponseFileLocked ff (fst oldest) s))
      else s)"

definition enforceResponsesQuotaLocked :: "fsFaults \<Rightarrow> ResponsesStorageConfig \<Rightarrow> responsesStore \<Rightarrow> responsesStore" where
  "enforceResponsesQuotaLocked ff settings s0 =
     (let s = ensureResponsesIndexLocked s0;
          files = sort_stable olderFile (st_index s);
          maxFiles = (if sc_MaxFiles settings \<le> 0 then 10000 else sc_MaxFiles settings);
          maxBytes = (if sc_MaxBytes settings \<le> 0 then 1073741824 else sc_MaxBytes settings)
      in quotaLoop ff maxFiles maxBytes files s)"

section \<open>Encryption\<close>

definition responsesEncryptionVersion :: int where "responsesEncryptionVersion = 1"
definition aeadAlgorithm :: string where "aeadAlgorithm = ''AES-256-GCM''"
definition gcmNonceSize :: nat where "gcmNonceSize = 12"

definition responseAAD :: "string \<Rightarrow> string" where
  "responseAAD i = ''kiro-go-response:'' @ sanitizeResponseID i"

definition encryptStoredResponse :: "storeEnv \<Rightarrow> string \<Rightarrow> string \<Rightarrow> string \<Rightarrow> string \<Rightarrow> storedFile" where
  "encryptStoredResponse se key nonce i plain =
     EncryptedFile \<lparr>ee_EncryptionVersion = responsesEncryptionVersion, ee_Algorithm = aeadAlgorithm,
       ee_Nonce = Some nonce, ee_Ciphertext = Some (se_seal se key nonce (responseAAD i) plain)\<rparr>"

text \<open>The document and whether it was stored in plaintext.\<close>

definition decodeStoredResponse :: "storeEnv \<Rightarrow> string \<Rightarrow> string \<Rightarrow> storedFile \<Rightarrow> storeError + (storedResponseDoc \<times> bool)" where
  "decodeStoredResponse se key i file =
     (case file of
        BrokenFile \<Rightarrow> Inl DecodeFailed
      | PlainFile doc \<Rightarrow> Inr (doc, True)
      | EncryptedFile e \<Rightarrow>
          if ee_EncryptionVersion e \<noteq> responsesEncryptionVersion \<or> ee_Algorithm e \<noteq> aeadAlgorithm then Inl UnsupportedVersion
          else case ee_Nonce e of
            None \<Rightarrow> Inl BadNonce
          | Some nonce \<Rightarrow>
              (case ee_Ciphertext e of
                 None \<Rightarrow> Inl BadCiphertext
               | Some ciphertext \<Rightarrow>
                   if length nonce \<noteq> gcmNonceSize then Inl NonceLength
                   else case se_open se key nonce (responseAAD i) ciphertext of
                     None \<Rightarrow> Inl DecryptFailed
                   | Some plain \<Rightarrow> (case se_unmarshal se plain of None \<Rightarrow> Inl DecodeFailed | Some doc \<Rightarrow> Inr (doc, False))))"

section \<open>Operations\<close>

definition saveResponse ::
    "storeEnv \<Rightarrow> fsFaults \<Rightarrow> ResponsesStorageConfig \<Rightarrow> string \<Rightarrow> gotime \<Rightarrow> ResponsesObject \<Rightarrow> responsesStore \<Rightarrow> storeError option \<times> responsesStore" where
  "saveResponse se ff settings nonce now resp s0 =
     (let i = sd_ID (ro_Doc resp)
      in if i = '''' then (Some MissingID, s0)
         else case se_key se of
           None \<Rightarrow> (Some NoEncryptionKey, s0)
         | Some key \<Rightarrow>
             if ff_mkdir ff then (Some MkdirFailed, s0)
             else let s1 = ensureResponsesIndexLocked s0;
                      doc = (ro_Doc resp)\<lparr>sd_StoredAt := (if sd_StoredAt (ro_Doc resp) = 0 then unix_of now else sd_StoredAt (ro_Doc resp))\<rparr>;
                      content = encryptStoredResponse se key nonce i (se_marshal se doc)
                  in case commitResponseFileLocked se ff now (responseFileName i) content s1 of
                       (Some err, s2) \<Rightarrow> (Some err, s2)
                     | (None, s2) \<Rightarrow> (None, enforceResponsesQuotaLocked ff settings s2))"

definition responsesTTL :: "ResponsesStorageConfig \<Rightarrow> duration" where
  "responsesTTL settings = (let ttl = sc_TTLHours settings * hour in if ttl \<le> 0 then 720 * hour else ttl)"

definition responseExpired :: "ResponsesStorageConfig \<Rightarrow> gotime \<Rightarrow> storedResponseDoc \<Rightarrow> bool" where
  "responseExpired settings now doc \<longleftrightarrow> sd_StoredAt doc > 0 \<and> time_sub now (time_unix (sd_StoredAt doc)) > responsesTTL settings"

text \<open>The migration of a plaintext file: it is written again encrypted.\<close>

definition migrateResponse ::
    "storeEnv \<Rightarrow> fsFaults \<Rightarrow> string \<Rightarrow> string \<Rightarrow> gotime \<Rightarrow> string \<Rightarrow> storedResponseDoc \<Rightarrow> bool \<Rightarrow> responsesStore \<Rightarrow> bool \<times> responsesStore" where
  "migrateResponse se ff key nonce now i doc legacy s =
     (if legacy
      then (case commitResponseFileLocked se ff now (responseFileName i) (encryptStoredResponse se key nonce i (se_marshal se doc)) s of
              (err, s') \<Rightarrow> (err = None, s'))
      else (True, s))"

definition loadResponseDocument ::
    "storeEnv \<Rightarrow> fsFaults \<Rightarrow> ResponsesStorageConfig \<Rightarrow> string \<Rightarrow> gotime \<Rightarrow> string \<Rightarrow> string \<Rightarrow> bool \<Rightarrow> responsesStore \<Rightarrow>
     (storeError + ResponsesObject) \<times> responsesStore" where
  "loadResponseDocument se ff settings nonce now i owner enforceOwner s0 =
     (if i = '''' then (Inl MissingID, s0)
      else case se_key se of
        None \<Rightarrow> (Inl NoEncryptionKey, s0)
      | Some key \<Rightarrow>
          let s1 = ensureResponsesIndexLocked s0
          in case gm_get (st_files s1) (responseFileName i) of
               None \<Rightarrow> (Inl FileMissing, s1)
             | Some (file, _) \<Rightarrow>
                 (case decodeStoredResponse se key i file of
                    Inl err \<Rightarrow> (Inl err, s1)
                  | Inr (doc, legacy) \<Rightarrow>
                      if sd_ID doc \<noteq> i then (Inl IDMismatch, s1)
                      else let (ok, s2) = migrateResponse se ff key nonce now i doc legacy s1
                           in if \<not> ok then (Inl MigrateFailed, s2)
                              else if responseExpired settings now doc
                              then (Inl ResponseExpired, snd (removeResponseFileLocked ff (responseFileName i) s2))
                              else if enforceOwner \<and> sd_OwnerAPIKeyID doc \<noteq> owner then (Inl WrongOwner, s2)
                              else (Inr (objectOf doc), s2)))"

definition loadResponse where
  "loadResponse se ff settings nonce now i s = loadResponseDocument se ff settings nonce now i '''' False s"

definition loadResponseForOwner where
  "loadResponseForOwner se ff settings nonce now i owner s = loadResponseDocument se ff settings nonce now i owner True s"

text \<open>The loop over the index removes each expired name it had when the loop began.\<close>

definition purgeExpiredResponses :: "fsFaults \<Rightarrow> ResponsesStorageConfig \<Rightarrow> duration \<Rightarrow> gotime \<Rightarrow> responsesStore \<Rightarrow> responsesStore" where
  "purgeExpiredResponses ff settings ttl0 now s0 =
     (let ttl = (if ttl0 \<le> 0 then 720 * hour else ttl0);
          s1 = ensureResponsesIndexLocked s0;
          cutoff = now - ttl;
          names = map fst (filter (\<lambda>e. fi_modTime (snd e) < cutoff) (st_index s1));
          s2 = foldl (\<lambda>s name. snd (removeResponseFileLocked ff name s)) s1 names
      in enforceResponsesQuotaLocked ff settings s2)"

definition purgeResponsesStorage :: "fsFaults \<Rightarrow> ResponsesStorageConfig \<Rightarrow> gotime \<Rightarrow> responsesStore \<Rightarrow> responsesStore" where
  "purgeResponsesStorage ff settings now s = purgeExpiredResponses ff settings (sc_TTLHours settings * hour) now s"

text \<open>\<open>fails\<close>: whether removing the directory fails, with what is left of its files.\<close>

definition purgeAllResponsesStorage ::
    "(string, storedFile \<times> responseFileInfo) gomap option \<Rightarrow> responsesStore \<Rightarrow> (nat \<times> int) option \<times> responsesStore" where
  "purgeAllResponsesStorage fails s0 =
     (let s = ensureResponsesIndexLocked s0
      in case fails of
           Some rest \<Rightarrow> (None, s\<lparr>st_files := rest\<rparr>)
         | None \<Rightarrow> (Some (length (st_index s), st_totalBytes s), s\<lparr>st_files := [], st_loaded := True, st_index := [], st_totalBytes := 0\<rparr>))"

definition responsesStorageStats :: "responsesStore \<Rightarrow> (nat \<times> int) \<times> responsesStore" where
  "responsesStorageStats s0 = (let s = ensureResponsesIndexLocked s0 in ((length (st_index s), st_totalBytes s), s))"

section \<open>The chain of ancestors\<close>

definition encodeContentPart :: "ResponseContentPart \<Rightarrow> string" where
  "encodeContentPart c = encodeStruct [always ''type'' (encodeString (cp_Type c)), omitempty (cp_Text c = '''') ''text'' (encodeString (cp_Text c))]"

definition encodeOutputItem :: "ResponseOutputItem \<Rightarrow> string" where
  "encodeOutputItem it = encodeStruct
     [always ''id'' (encodeString (oi_ID it)), always ''type'' (encodeString (oi_Type it)),
      omitempty (oi_Role it = '''') ''role'' (encodeString (oi_Role it)), omitempty (oi_Status it = '''') ''status'' (encodeString (oi_Status it)),
      omitempty (oi_Content it = []) ''content'' (encodeList encodeContentPart (oi_Content it)),
      omitempty (oi_CallID it = '''') ''call_id'' (encodeString (oi_CallID it)), omitempty (oi_Name it = '''') ''name'' (encodeString (oi_Name it)),
      omitempty (oi_Arguments it = '''') ''arguments'' (encodeString (oi_Arguments it)), omitempty (oi_Input it = '''') ''input'' (encodeString (oi_Input it)),
      omitempty (oi_Summary it = []) ''summary'' (encodeList encodeContentPart (oi_Summary it))]"

definition encodeOpenAITool :: "OpenAITool \<Rightarrow> string" where
  "encodeOpenAITool t = encodeStruct
     [always ''type'' (encodeString (ot_Type t)),
      always ''function'' (encodeStruct [always ''name'' (encodeString (ot_Name t)), always ''description'' (encodeString (ot_Description t)),
        always ''parameters'' (encodeValue (ot_Parameters t))])]"

definition encodeSlice :: "('a \<Rightarrow> string) \<Rightarrow> 'a list option \<Rightarrow> string" where
  "encodeSlice f xs = (case xs of None \<Rightarrow> ''null'' | Some ys \<Rightarrow> encodeList f ys)"

definition storedResponseHistoryBytes :: "ResponsesObject \<Rightarrow> int" where
  "storedResponseHistoryBytes r =
     (let d = ro_Doc r
      in int (length (sd_StoredInput d) + length (sd_Instructions d) + length (sd_StoredToolChoice d) +
              length (encodeSlice encodeOpenAITool (sd_StoredTools d)) + length (encodeSlice encodeOutputItem (sd_Output d))))"

definition maxResponsesHistoryDepth :: nat where "maxResponsesHistoryDepth = 64"

text \<open>
  The loop, with the remaining depth; \<open>stack\<close> has the chain newest first reversed, so that the result is oldest first. Each
  round may fail and may change the store, so the nonce and the faults of the calls are given per round.
\<close>

fun ancestorLoop ::
    "storeEnv \<Rightarrow> (nat \<Rightarrow> fsFaults \<times> string) \<Rightarrow> ResponsesStorageConfig \<Rightarrow> gotime \<Rightarrow> string \<Rightarrow> int \<Rightarrow> nat \<Rightarrow> string set \<Rightarrow> int \<Rightarrow>
     ResponsesObject list \<Rightarrow> ResponsesObject \<Rightarrow> responsesStore \<Rightarrow> ResponsesObject list \<times> responsesStore" where
  "ancestorLoop se env settings now owner maxBytes 0 visited usedBytes stack cursor s = (stack, s)"
| "ancestorLoop se env settings now owner maxBytes (Suc depth) visited usedBytes stack cursor s =
     (let parent = sd_PreviousResponseID (ro_Doc cursor)
      in if parent = '''' \<or> parent \<in> visited then (stack, s)
         else case loadResponseForOwner se (fst (env depth)) settings (snd (env depth)) now parent owner s of
           (Inl _, s') \<Rightarrow> (stack, s')
         | (Inr ancestor, s') \<Rightarrow>
             let ancestorBytes = storedResponseHistoryBytes ancestor
             in if usedBytes + ancestorBytes > maxBytes then (stack, s')
                else ancestorLoop se env settings now owner maxBytes depth (insert (sd_ID (ro_Doc ancestor)) visited) (usedBytes + ancestorBytes)
                       (ancestor # stack) ancestor s')"

definition collectAncestorChain ::
    "storeEnv \<Rightarrow> (nat \<Rightarrow> fsFaults \<times> string) \<Rightarrow> ResponsesStorageConfig \<Rightarrow> gotime \<Rightarrow> ResponsesObject \<Rightarrow> responsesStore \<Rightarrow> ResponsesObject list \<times> responsesStore" where
  "collectAncestorChain se env settings now prev s =
     (let maxBytes = (if sc_MaxHistoryBytes settings \<le> 0 then 4194304 else sc_MaxHistoryBytes settings)
      in ancestorLoop se env settings now (sd_OwnerAPIKeyID (ro_Doc prev)) maxBytes maxResponsesHistoryDepth
           {sd_ID (ro_Doc prev)} (storedResponseHistoryBytes prev) [prev] prev s)"

definition joinTextParts :: "ResponseContentPart list \<Rightarrow> string" where
  "joinTextParts parts = concat (map cp_Text (filter (\<lambda>p. cp_Type p \<in> {''output_text'', ''text'', ''input_text''}) parts))"

end
