(* ===== verification/Responses_Store_Props.thy ===== *)
theory Responses_Store_Props
  imports Responses_Store
begin

text \<open>
  What the response store guarantees: its index mirrors the directory and its byte count is exact, the quota
  holds after every save, a saved response is read back, nobody reads another key's response, and the replayed chain is
  finite, without repetition, within its budget and of one owner.
\<close>

section \<open>The index\<close>

definition storeOk :: "responsesStore \<Rightarrow> bool" where
  "storeOk s \<longleftrightarrow> gm_wf (st_files s) \<and> (\<forall>e \<in> set (st_files s). 0 \<le> fi_size (snd (snd e))) \<and>
     (st_loaded s \<longrightarrow> gm_wf (st_index s) \<and> st_totalBytes s = indexSum (st_index s) \<and>
        (\<forall>n. gm_get (st_index s) n = (if has_suffix n ''.json'' then map_option snd (gm_get (st_files s) n) else None)))"

lemma storeOk_files: "storeOk s \<Longrightarrow> gm_wf (st_files s)"
  by (simp add: storeOk_def)

lemma gm_del_mem: "e \<in> set (gm_del k m) \<Longrightarrow> e \<in> set m"
  by (simp add: AList.delete_eq)

lemma indexSum_simps [simp]: "indexSum [] = 0" "indexSum (e # m) = fi_size (snd e) + indexSum m"
  by (simp_all add: indexSum_def)

lemma indexSum_del: "gm_wf m \<Longrightarrow> indexSum (gm_del k m) = indexSum m - (case gm_get m k of None \<Rightarrow> 0 | Some i \<Rightarrow> fi_size i)"
proof (induction m)
  case (Cons e m)
  show ?case
  proof (cases "fst e = k")
    case True
    then have "gm_get m k = None" using Cons.prems by (auto simp: map_of_eq_None_iff)
    then have "gm_del k m = m" by (simp add: AList.delete_eq filter_id_conv map_of_eq_None_iff) force
    then show ?thesis using True by (cases e) simp
  next
    case False
    then show ?thesis using Cons by (cases e) (simp split: option.splits)
  qed
qed simp

lemma indexSum_put:
  "gm_wf m \<Longrightarrow> indexSum (gm_put k v m) = indexSum m - (case gm_get m k of None \<Rightarrow> 0 | Some i \<Rightarrow> fi_size i) + fi_size v"
proof (induction m)
  case (Cons e m)
  then show ?case by (cases e) (auto split: option.splits)
qed simp

lemma indexSum_nonneg: "\<forall>e \<in> set m. 0 \<le> fi_size (snd e) \<Longrightarrow> 0 \<le> indexSum m"
  by (induction m) auto

lemma index_sizes: "storeOk s \<Longrightarrow> st_loaded s \<Longrightarrow> (n, i) \<in> set (st_index s) \<Longrightarrow> 0 \<le> fi_size i"
proof -
  assume ok: "storeOk s" "st_loaded s" and e: "(n, i) \<in> set (st_index s)"
  have "gm_wf (st_index s)" using ok by (simp add: storeOk_def)
  then have "gm_get (st_index s) n = Some i" using e by simp
  moreover have "gm_get (st_index s) n = (if has_suffix n ''.json'' then map_option snd (gm_get (st_files s) n) else None)"
    using ok unfolding storeOk_def by blast
  ultimately obtain x where x: "gm_get (st_files s) n = Some x" "i = snd x"
    by (cases "gm_get (st_files s) n") (auto simp del: map_of_eq_Some_iff split: if_splits)
  have "0 \<le> fi_size (snd (snd (n, x)))" using ok(1) map_of_SomeD [OF x(1)] unfolding storeOk_def by blast
  then show "0 \<le> fi_size i" using x(2) by simp
qed

lemma index_of_entries:
  "gm_wf es \<Longrightarrow> gm_get (foldl (\<lambda>m e. gm_put (fst e) (snd (snd e)) m) m0 es) n =
     (case gm_get es n of Some x \<Rightarrow> Some (snd x) | None \<Rightarrow> gm_get m0 n)"
proof (induction es arbitrary: m0)
  case (Cons e es)
  then have none: "gm_get es (fst e) = None" by (auto simp: map_of_eq_None_iff)
  show ?case
  proof (cases "n = fst e")
    case True
    then show ?thesis using Cons none by (cases e) (simp add: gm_get_put)
  next
    case False
    then show ?thesis using Cons by (cases e) (simp add: gm_get_put cong: option.case_cong)
  qed
qed simp

lemma gm_wf_entries: "gm_wf m0 \<Longrightarrow> gm_wf (foldl (\<lambda>m e. gm_put (fst e) (snd (snd e)) m) m0 es)"
  by (induction es arbitrary: m0) auto

lemma indexSum_of_entries:
  "gm_wf es \<Longrightarrow> gm_wf m0 \<Longrightarrow> fst ` set es \<inter> fst ` set m0 = {} \<Longrightarrow>
   indexSum (foldl (\<lambda>m e. gm_put (fst e) (snd (snd e)) m) m0 es) = indexSum m0 + sum_list (map (\<lambda>e. fi_size (snd (snd e))) es)"
proof (induction es arbitrary: m0)
  case (Cons e es)
  have "gm_get m0 (fst e) = None" using Cons.prems(3) by (auto simp: map_of_eq_None_iff)
  moreover have "fst ` set es \<inter> fst ` set (gm_put (fst e) (snd (snd e)) m0) = {}" using Cons.prems by (auto simp: gm_keys_put)
  ultimately show ?case using Cons.IH [of "gm_put (fst e) (snd (snd e)) m0"] Cons.prems by (simp add: indexSum_put)
qed simp

lemma ensure_ok: "storeOk s \<Longrightarrow> storeOk (ensureResponsesIndexLocked s) \<and> st_loaded (ensureResponsesIndexLocked s) \<and>
    st_files (ensureResponsesIndexLocked s) = st_files s"
proof (cases "st_loaded s")
  case False
  assume ok: "storeOk s"
  let ?es = "filter (\<lambda>e. has_suffix (fst e) ''.json'') (st_files s)"
  have wf: "gm_wf ?es" using ok by (simp add: storeOk_def gm_wf_filter)
  have get: "gm_get ?es n = (if has_suffix n ''.json'' then gm_get (st_files s) n else None)" for n
    using storeOk_files [OF ok] by (simp add: gm_get_filter split: option.splits)
  have I: "gm_get (foldl (\<lambda>m e. gm_put (fst e) (snd (snd e)) m) [] ?es) n =
      (if has_suffix n ''.json'' then map_option snd (gm_get (st_files s) n) else None)" for n
    using index_of_entries [OF wf, of "[]" n] get [of n] by (simp split: option.splits)
  then show ?thesis using ok False indexSum_of_entries [OF wf, of "[]"] gm_wf_entries [of "[]" ?es]
    by (simp add: storeOk_def ensureResponsesIndexLocked_def Let_def)
qed (simp add: ensureResponsesIndexLocked_def)

section \<open>The operations keep the index exact\<close>

lemma responseFileName_suffix [simp]: "has_suffix (responseFileName i) ''.json''"
  by (simp add: responseFileName_def has_suffix_def)

lemma total_after_del:
  assumes "storeOk s" "st_loaded s" "gm_get (st_index s) n = Some i"
  shows "max 0 (st_totalBytes s - fi_size i) = indexSum (gm_del n (st_index s))"
proof -
  have wf: "gm_wf (st_index s)" and t: "st_totalBytes s = indexSum (st_index s)" using assms(1,2) by (auto simp: storeOk_def)
  have "\<forall>e \<in> set (gm_del n (st_index s)). 0 \<le> fi_size (snd e)"
    using index_sizes [OF assms(1,2)] by (auto dest!: gm_del_mem)
  then show ?thesis using indexSum_nonneg [of "gm_del n (st_index s)"] indexSum_del [OF wf, of n] t assms(3) by simp
qed

lemma remove_ok:
  assumes "storeOk s" "st_loaded s"
  shows "storeOk (snd (removeResponseFileLocked ff n s)) \<and> st_loaded (snd (removeResponseFileLocked ff n s))"
proof (cases "gm_get (st_index s) n")
  case None
  then have "has_suffix n ''.json'' \<Longrightarrow> gm_get (st_files s) n = None" using assms by (auto simp: storeOk_def)
  then show ?thesis using assms None
    by (auto simp: removeResponseFileLocked_def storeOk_def gm_get_del gm_wf_del simp del: map_of_eq_Some_iff dest: gm_del_mem)
next
  case (Some i)
  show ?thesis using assms Some total_after_del [OF assms Some]
    by (auto simp: removeResponseFileLocked_def storeOk_def gm_get_del gm_wf_del simp del: map_of_eq_Some_iff dest: gm_del_mem)
qed

lemma remove_files: "gm_get (st_files (snd (removeResponseFileLocked ff n s))) m = Some x \<Longrightarrow> gm_get (st_files s) m = Some x"
  by (auto simp: removeResponseFileLocked_def gm_get_del split: option.splits if_splits)

lemma commit_ok:
  assumes "storeOk s" "st_loaded s" "has_suffix n ''.json''"
  shows "storeOk (snd (commitResponseFileLocked se ff now n c s)) \<and> st_loaded (snd (commitResponseFileLocked se ff now n c s))"
  using assms by (auto simp: commitResponseFileLocked_def Let_def storeOk_def gm_get_put indexSum_put simp del: map_of_eq_Some_iff
      split: option.splits dest!: set_gm_put)

lemma commit_files:
  "fst (commitResponseFileLocked se ff now n c s) = None \<Longrightarrow>
   gm_get (st_files (snd (commitResponseFileLocked se ff now n c s))) n = Some (c, \<lparr>fi_size = int (se_fileLength se c), fi_modTime = now\<rparr>)"
  by (auto simp: commitResponseFileLocked_def Let_def gm_get_put split: if_splits)

lemma quotaLoop_ok: "storeOk s \<Longrightarrow> st_loaded s \<Longrightarrow> storeOk (quotaLoop ff mf mb files s) \<and> st_loaded (quotaLoop ff mf mb files s)"
proof (induction files arbitrary: s)
  case (Cons f files)
  then show ?case using remove_ok [OF Cons.prems, of ff "fst f"] by auto
qed simp

lemma quotaLoop_files: "gm_get (st_files (quotaLoop ff mf mb files s)) m = Some x \<Longrightarrow> gm_get (st_files s) m = Some x"
proof (induction files arbitrary: s)
  case (Cons f files)
  then show ?case by (auto split: if_splits dest: remove_files)
qed simp

lemma enforce_ok: "storeOk s \<Longrightarrow> storeOk (enforceResponsesQuotaLocked ff cfg s) \<and> st_loaded (enforceResponsesQuotaLocked ff cfg s)"
  using ensure_ok [of s] by (auto simp: enforceResponsesQuotaLocked_def Let_def intro!: quotaLoop_ok)

lemma enforce_files:
  "storeOk s \<Longrightarrow> gm_get (st_files (enforceResponsesQuotaLocked ff cfg s)) m = Some x \<Longrightarrow> gm_get (st_files s) m = Some x"
  using ensure_ok [of s] by (auto simp: enforceResponsesQuotaLocked_def Let_def dest!: quotaLoop_files)

section \<open>The quota\<close>

definition withinQuota :: "ResponsesStorageConfig \<Rightarrow> responsesStore \<Rightarrow> bool" where
  "withinQuota cfg s \<longleftrightarrow> int (length (st_index s)) \<le> sc_MaxFiles cfg \<and> st_totalBytes s \<le> sc_MaxBytes cfg"

lemma remove_index:
  assumes "\<forall>n. \<not> ff_remove ff n" "gm_get (st_index s) n \<noteq> None"
  shows "st_index (snd (removeResponseFileLocked ff n s)) = gm_del n (st_index s)"
  using assms by (auto simp: removeResponseFileLocked_def)

lemma mset_gm_del: "gm_wf m \<Longrightarrow> e \<in> set m \<Longrightarrow> mset (gm_del (fst e) m) = mset m - {#e#}"
proof (induction m)
  case (Cons x m)
  show ?case
  proof (cases "fst x = fst e")
    case True
    then have "x = e" using Cons.prems by (cases x; cases e) (auto simp: image_iff)
    moreover have "gm_del (fst e) m = m" using True Cons.prems(1) by (cases x) (auto simp: AList.delete_eq filter_id_conv image_iff)
    ultimately show ?thesis by (cases e) simp
  next
    case False
    then have "e \<in> set m" using Cons.prems(2) by auto
    then show ?thesis using False Cons by (cases x; cases e) (auto simp: diff_union_swap)
  qed
qed simp

lemma quotaLoop_within:
  assumes "\<forall>n. \<not> ff_remove ff n" "0 \<le> mb" "0 \<le> mf"
  shows "storeOk s \<Longrightarrow> st_loaded s \<Longrightarrow> mset files = mset (st_index s) \<Longrightarrow>
     int (length (st_index (quotaLoop ff mf mb files s))) \<le> mf \<and> st_totalBytes (quotaLoop ff mf mb files s) \<le> mb"
proof (induction files arbitrary: s)
  case Nil
  then show ?case using assms by (auto simp: storeOk_def)
next
  case (Cons f files)
  let ?s = "snd (removeResponseFileLocked ff (fst f) s)"
  have wf: "gm_wf (st_index s)" using Cons.prems by (auto simp: storeOk_def)
  have mem: "f \<in> set (st_index s)" using Cons.prems(3) by (metis list.set_intros(1) mset_eq_setD)
  then have "gm_get (st_index s) (fst f) \<noteq> None" by (auto simp: map_of_eq_None_iff)
  then have "mset files = mset (st_index ?s)"
    using remove_index [OF assms(1)] mset_gm_del [OF wf mem] Cons.prems(3) by (metis add_mset_remove_trivial mset.simps(2))
  then have ih: "int (length (st_index (quotaLoop ff mf mb files ?s))) \<le> mf \<and> st_totalBytes (quotaLoop ff mf mb files ?s) \<le> mb"
    using Cons.IH [of ?s] remove_ok [OF Cons.prems(1,2), of ff "fst f"] by blast
  have len: "length (st_index s) = Suc (length files)" using Cons.prems(3) by (metis length_Cons size_mset)
  then show ?case using ih by auto
qed

lemma enforce_within:
  assumes "storeOk s" "\<forall>n. \<not> ff_remove ff n" "0 < sc_MaxFiles cfg" "0 < sc_MaxBytes cfg"
  shows "withinQuota cfg (enforceResponsesQuotaLocked ff cfg s)"
  using assms ensure_ok [OF assms(1)] quotaLoop_within [OF assms(2), of "sc_MaxBytes cfg" "sc_MaxFiles cfg" "ensureResponsesIndexLocked s"]
  by (auto simp: withinQuota_def enforceResponsesQuotaLocked_def Let_def mset_sort_stable)

lemma save_cases:
  assumes "storeOk s"
  obtains (failed) err s' where "saveResponse se ff cfg nonce now r s = (Some err, s')" "storeOk s'"
  | (saved) key doc s1 where "se_key se = Some key"
      "doc = (ro_Doc r)\<lparr>sd_StoredAt := (if sd_StoredAt (ro_Doc r) = 0 then unix_of now else sd_StoredAt (ro_Doc r))\<rparr>"
      "saveResponse se ff cfg nonce now r s = (None, enforceResponsesQuotaLocked ff cfg s1)" "storeOk s1"
      "gm_get (st_files s1) (responseFileName (sd_ID (ro_Doc r))) = Some (encryptStoredResponse se key nonce (sd_ID (ro_Doc r)) (se_marshal se doc),
         \<lparr>fi_size = int (se_fileLength se (encryptStoredResponse se key nonce (sd_ID (ro_Doc r)) (se_marshal se doc))), fi_modTime = now\<rparr>)"
proof (cases "sd_ID (ro_Doc r) = '''' \<or> se_key se = None \<or> ff_mkdir ff")
  case True
  then have "\<exists>err. saveResponse se ff cfg nonce now r s = (Some err, s)" by (auto simp: saveResponse_def Let_def split: option.splits)
  then show ?thesis using assms failed by blast
next
  case False
  then obtain key where key: "se_key se = Some key" "sd_ID (ro_Doc r) \<noteq> ''''" "\<not> ff_mkdir ff" by auto
  define doc where "doc = (ro_Doc r)\<lparr>sd_StoredAt := (if sd_StoredAt (ro_Doc r) = 0 then unix_of now else sd_StoredAt (ro_Doc r))\<rparr>"
  define c where "c = commitResponseFileLocked se ff now (responseFileName (sd_ID (ro_Doc r)))
     (encryptStoredResponse se key nonce (sd_ID (ro_Doc r)) (se_marshal se doc)) (ensureResponsesIndexLocked s)"
  have eq: "saveResponse se ff cfg nonce now r s = (case c of (Some err, s2) \<Rightarrow> (Some err, s2) | (None, s2) \<Rightarrow> (None, enforceResponsesQuotaLocked ff cfg s2))"
    using key by (simp add: saveResponse_def Let_def c_def doc_def)
  have ok: "storeOk (snd c)" unfolding c_def using ensure_ok [OF assms] commit_ok by simp
  show ?thesis
  proof (cases "fst c")
    case None
    then have "gm_get (st_files (snd c)) (responseFileName (sd_ID (ro_Doc r))) = Some (encryptStoredResponse se key nonce (sd_ID (ro_Doc r)) (se_marshal se doc),
         \<lparr>fi_size = int (se_fileLength se (encryptStoredResponse se key nonce (sd_ID (ro_Doc r)) (se_marshal se doc))), fi_modTime = now\<rparr>)"
      unfolding c_def by (rule commit_files)
    then show ?thesis using None ok key(1) eq by (intro saved [of key doc "snd c"]) (cases c, auto simp: doc_def)+
  next
    case (Some err)
    then show ?thesis using ok eq by (intro failed [of err "snd c"]) (cases c, auto)+
  qed
qed


section \<open>Reading\<close>

lemma load_sound:
  assumes "loadResponseDocument se ff cfg nonce now i owner enforce s = (Inr r, s')"
  shows "sd_ID (ro_Doc r) = i" "enforce \<Longrightarrow> sd_OwnerAPIKeyID (ro_Doc r) = owner" "\<not> responseExpired cfg now (ro_Doc r)" "i \<noteq> ''''"
  using assms by (auto simp: loadResponseDocument_def objectOf_def Let_def split: if_splits option.splits sum.splits prod.splits)

lemma migrate_ok:
  "storeOk s \<Longrightarrow> st_loaded s \<Longrightarrow> storeOk (snd (migrateResponse se ff key nonce now i doc legacy s)) \<and> st_loaded (snd (migrateResponse se ff key nonce now i doc legacy s))"
  using commit_ok [of s "responseFileName i"] by (simp add: migrateResponse_def case_prod_unfold)

lemma load_ok:
  assumes "storeOk s"
  shows "storeOk (snd (loadResponseDocument se ff cfg nonce now i owner enforce s))"
proof -
  have e: "storeOk (ensureResponsesIndexLocked s)" "st_loaded (ensureResponsesIndexLocked s)" using ensure_ok [OF assms] by auto
  then show ?thesis using assms migrate_ok [OF e] remove_ok
    by (auto simp: loadResponseDocument_def Let_def case_prod_unfold split: option.splits sum.splits)
qed

text \<open>
  C19. A response is read only by the API key that stored it: whatever the store holds, a load for an owner
  that succeeds returns a response with the requested ID, of that owner, and not expired.
\<close>

theorem responses_owner_isolation:
  assumes "loadResponseForOwner se ff cfg nonce now i owner s = (Inr r, s')"
  shows "sd_ID (ro_Doc r) = i \<and> sd_OwnerAPIKeyID (ro_Doc r) = owner \<and> \<not> responseExpired cfg now (ro_Doc r)"
  using load_sound [OF assms [unfolded loadResponseForOwner_def]] by simp

text \<open>The documented behaviour of AES-GCM: what was sealed is opened with the same key, nonce and additional data.\<close>

definition aeadOpens :: "storeEnv \<Rightarrow> bool" where
  "aeadOpens se \<longleftrightarrow> (\<forall>key nonce aad plain. se_open se key nonce aad (se_seal se key nonce aad plain) = Some plain)"

lemma decode_encrypt:
  "aeadOpens se \<Longrightarrow> length nonce = gcmNonceSize \<Longrightarrow> se_unmarshal se (se_marshal se doc) = Some doc \<Longrightarrow>
   decodeStoredResponse se key i (encryptStoredResponse se key nonce i (se_marshal se doc)) = Inr (doc, False)"
  by (simp add: decodeStoredResponse_def encryptStoredResponse_def aeadOpens_def)

text \<open>
  C36. A saved response is read back: when a save succeeds and its file survives the quota, a later load by the
  owner before the expiry returns the response as it was stored, with the time of storing filled in,
  and without the error field, which is not stored. The encoding of the stored document has to be one that decodes to it again.
\<close>

theorem responses_roundtrip:
  assumes "storeOk s" "aeadOpens se" "length nonce = gcmNonceSize"
    and json: "se_unmarshal se (se_marshal se ((ro_Doc r)\<lparr>sd_StoredAt := (if sd_StoredAt (ro_Doc r) = 0 then unix_of now else sd_StoredAt (ro_Doc r))\<rparr>)) =
      Some ((ro_Doc r)\<lparr>sd_StoredAt := (if sd_StoredAt (ro_Doc r) = 0 then unix_of now else sd_StoredAt (ro_Doc r))\<rparr>)"
    and saved: "saveResponse se ff cfg nonce now r s = (None, s1)"
    and survives: "gm_get (st_files s1) (responseFileName (sd_ID (ro_Doc r))) \<noteq> None"
    and fresh: "\<not> responseExpired cfg' later
      ((ro_Doc r)\<lparr>sd_StoredAt := (if sd_StoredAt (ro_Doc r) = 0 then unix_of now else sd_StoredAt (ro_Doc r))\<rparr>)"
  shows "loadResponseForOwner se ff' cfg' nonce' later (sd_ID (ro_Doc r)) (sd_OwnerAPIKeyID (ro_Doc r)) s1 =
    (Inr (objectOf ((ro_Doc r)\<lparr>sd_StoredAt := (if sd_StoredAt (ro_Doc r) = 0 then unix_of now else sd_StoredAt (ro_Doc r))\<rparr>)), s1)"
  using assms(1)
proof (cases rule: save_cases [of s se ff cfg nonce now r])
  case (failed err s')
  then show ?thesis using saved by simp
next
  case (saved key doc s0)
  note sv = this
  let ?i = "sd_ID (ro_Doc r)"
  have s1: "s1 = enforceResponsesQuotaLocked ff cfg s0" using sv(3) assms(5) by simp
  have loaded: "st_loaded s1" unfolding s1 using enforce_ok [OF sv(4)] by simp
  obtain x where x: "gm_get (st_files s1) (responseFileName ?i) = Some x" using survives by blast
  have "x = (encryptStoredResponse se key nonce ?i (se_marshal se doc),
      \<lparr>fi_size = int (se_fileLength se (encryptStoredResponse se key nonce ?i (se_marshal se doc))), fi_modTime = now\<rparr>)"
    using enforce_files [OF sv(4) x [unfolded s1]] sv(5) by simp
  moreover have "?i \<noteq> ''''" using assms(5) by (auto simp: saveResponse_def Let_def)
  ultimately show ?thesis
    using x loaded sv(1,2) fresh decode_encrypt [OF assms(2,3) json [folded sv(2)], of key ?i]
    by (simp add: loadResponseForOwner_def loadResponseDocument_def Let_def ensureResponsesIndexLocked_def migrateResponse_def)
qed

section \<open>The chain\<close>

definition chainBytes :: "ResponsesObject list \<Rightarrow> int" where
  "chainBytes rs = sum_list (map storedResponseHistoryBytes rs)"

text \<open>A chain oldest first: each response is the predecessor that the next one names.\<close>

definition linked :: "ResponsesObject list \<Rightarrow> bool" where
  "linked = successively (\<lambda>a b. sd_PreviousResponseID (ro_Doc b) = sd_ID (ro_Doc a))"

definition chainInv :: "string \<Rightarrow> string set \<Rightarrow> ResponsesObject list \<Rightarrow> bool" where
  "chainInv owner visited stack \<longleftrightarrow> stack \<noteq> [] \<and> linked stack \<and> distinct (map (sd_ID \<circ> ro_Doc) stack) \<and>
     visited = set (map (sd_ID \<circ> ro_Doc) stack) \<and> (\<forall>r \<in> set stack. sd_OwnerAPIKeyID (ro_Doc r) = owner)"

lemma ancestorLoop_ok:
  "chainInv owner visited (cursor # rest) \<Longrightarrow> usedBytes = chainBytes (cursor # rest) \<Longrightarrow> usedBytes \<le> bound \<Longrightarrow> maxBytes \<le> bound \<Longrightarrow>
   \<exists>front. fst (ancestorLoop se env cfg now owner maxBytes depth visited usedBytes (cursor # rest) cursor s) = front @ cursor # rest \<and>
     length front \<le> depth \<and> (\<exists>v. chainInv owner v (front @ cursor # rest)) \<and> chainBytes (front @ cursor # rest) \<le> bound"
proof (induction depth arbitrary: visited usedBytes cursor rest s)
  case (Suc depth)
  let ?parent = "sd_PreviousResponseID (ro_Doc cursor)"
  define l where "l = loadResponseForOwner se (fst (env depth)) cfg (snd (env depth)) now ?parent owner s"
  show ?case
  proof (cases "?parent = '''' \<or> ?parent \<in> visited \<or> (\<exists>e. fst l = Inl e)")
    case True
    then show ?thesis using Suc.prems by (auto simp: l_def Let_def intro!: exI [of _ "[]"] split: prod.splits)
  next
    case False
    then obtain a s' where l: "l = (Inr a, s')" by (cases l; cases "fst l") auto
    note L = load_sound [OF l [unfolded l_def loadResponseForOwner_def]]
    show ?thesis
    proof (cases "usedBytes + storedResponseHistoryBytes a > maxBytes")
      case True
      then show ?thesis using Suc.prems False l by (auto simp: l_def Let_def intro!: exI [of _ "[]"])
    next
      case fits: False
      let ?v = "insert (sd_ID (ro_Doc a)) visited" and ?u = "usedBytes + storedResponseHistoryBytes a"
      have inv: "chainInv owner ?v (a # cursor # rest)" using Suc.prems(1) False L by (auto simp: chainInv_def linked_def)
      have u: "?u = chainBytes (a # cursor # rest)" using Suc.prems(2) by (simp add: chainBytes_def)
      have ub: "?u \<le> bound" using fits Suc.prems(4) by simp
      obtain front where f: "fst (ancestorLoop se env cfg now owner maxBytes depth ?v ?u (a # cursor # rest) a s') = front @ a # cursor # rest"
          "length front \<le> depth" "\<exists>v. chainInv owner v (front @ a # cursor # rest)" "chainBytes (front @ a # cursor # rest) \<le> bound"
        using Suc.IH [OF inv u ub Suc.prems(4)] by blast
      have "ancestorLoop se env cfg now owner maxBytes (Suc depth) visited usedBytes (cursor # rest) cursor s =
          ancestorLoop se env cfg now owner maxBytes depth ?v ?u (a # cursor # rest) a s'"
        using False fits l by (simp add: l_def Let_def)
      then show ?thesis using f by (intro exI [of _ "front @ [a]"]) auto
    qed
  qed
qed (auto intro!: exI [of _ "[]"])

text \<open>
  The history replayed for a follow-up request: whatever the store holds, even a cycle of references, the walk
  along \<open>previous_response_id\<close> ends after at most 64 steps with a chain that ends in the given response, in which each response is
  the one the next names, no ID occurs twice, all belong to the owner of the given
  response, and the total size is within the budget unless the given response alone exceeds it.
\<close>

theorem ancestor_chain_sound:
  "let chain = fst (collectAncestorChain se env cfg now prev s);
       budget = (if sc_MaxHistoryBytes cfg \<le> 0 then 4194304 else sc_MaxHistoryBytes cfg)
   in chain \<noteq> [] \<and> last chain = prev \<and> length chain \<le> 65 \<and> linked chain \<and> distinct (map (sd_ID \<circ> ro_Doc) chain) \<and>
      list_all (\<lambda>r. sd_OwnerAPIKeyID (ro_Doc r) = sd_OwnerAPIKeyID (ro_Doc prev)) chain \<and>
      chainBytes chain \<le> max budget (storedResponseHistoryBytes prev)"
proof -
  let ?owner = "sd_OwnerAPIKeyID (ro_Doc prev)" and ?b = "if sc_MaxHistoryBytes cfg \<le> 0 then 4194304 else sc_MaxHistoryBytes cfg"
  have inv: "chainInv ?owner {sd_ID (ro_Doc prev)} [prev]" by (simp add: chainInv_def linked_def)
  have u: "storedResponseHistoryBytes prev = chainBytes [prev]" by (simp add: chainBytes_def)
  obtain front where "fst (collectAncestorChain se env cfg now prev s) = front @ [prev]" "length front \<le> 64"
      "\<exists>v. chainInv ?owner v (front @ [prev])" "chainBytes (front @ [prev]) \<le> max ?b (storedResponseHistoryBytes prev)"
    using ancestorLoop_ok [OF inv u, of "max ?b (storedResponseHistoryBytes prev)" ?b se env cfg now 64 s]
    unfolding collectAncestorChain_def maxResponsesHistoryDepth_def Let_def by auto
  then show ?thesis by (auto simp: Let_def chainInv_def list_all_iff)
qed

section \<open>Instances\<close>

text \<open>A document, an encoding that knows it, and a cipher that prepends the additional data.\<close>

definition sampleDoc :: storedResponseDoc where
  "sampleDoc =
     \<lparr>sd_ID = ''resp_1'', sd_Object = ''response'', sd_CreatedAt = 0, sd_Status = ''completed'', sd_Model = ''m'', sd_Output = Some [],
      sd_Usage = \<lparr>us_InputTokens = 1, us_OutputTokens = 1, us_TotalTokens = 2, us_CachedTokens = None, us_ReasoningTokens = None\<rparr>,
      sd_PreviousResponseID = '''', sd_Metadata = [], sd_IncompleteDetails = None, sd_Instructions = '''', sd_StoredInput = '''',
      sd_StoredTools = None, sd_StoredToolChoice = '''', sd_StoredAt = 5, sd_OwnerAPIKeyID = ''k1''\<rparr>"

definition sampleEnv :: storeEnv where
  "sampleEnv =
     \<lparr>se_key = Some ''secret'', se_seal = (\<lambda>key nonce aad plain. aad @ plain),
      se_open = (\<lambda>key nonce aad c. if has_prefix c aad then Some (drop (length aad) c) else None),
      se_marshal = (\<lambda>doc. sd_ID doc), se_unmarshal = (\<lambda>s. if s = ''resp_1'' then Some sampleDoc else None),
      se_fileLength = (\<lambda>f. 10)\<rparr>"

definition noFaults :: fsFaults where
  "noFaults = \<lparr>ff_mkdir = False, ff_write = False, ff_rename = False, ff_remove = (\<lambda>n. False)\<rparr>"

definition emptyStore :: responsesStore where
  "emptyStore = \<lparr>st_files = [], st_loaded = False, st_index = [], st_totalBytes = 0\<rparr>"

lemma sampleEnv_opens: "aeadOpens sampleEnv"
  by (simp add: aeadOpens_def sampleEnv_def has_prefix_def)

lemma emptyStore_ok: "storeOk emptyStore"
  by (simp add: storeOk_def emptyStore_def)

definition sampleSave :: "storeError option \<times> responsesStore" where
  "sampleSave = saveResponse sampleEnv noFaults defaultResponsesStorageConfig (replicate 12 CHR ''n'') (time_unix 5) (objectOf sampleDoc) emptyStore"


theorem responses_roundtrip_witness:
  "loadResponseForOwner sampleEnv noFaults defaultResponsesStorageConfig '''' (time_unix 6) (sd_ID (ro_Doc (objectOf sampleDoc)))
     (sd_OwnerAPIKeyID (ro_Doc (objectOf sampleDoc))) (snd sampleSave) =
   (Inr (objectOf ((ro_Doc (objectOf sampleDoc))\<lparr>sd_StoredAt := (if sd_StoredAt (ro_Doc (objectOf sampleDoc)) = 0 then unix_of (time_unix 5)
      else sd_StoredAt (ro_Doc (objectOf sampleDoc)))\<rparr>)), snd sampleSave)"
proof (rule responses_roundtrip [OF emptyStore_ok sampleEnv_opens])
  show "length (replicate 12 CHR ''n'') = gcmNonceSize" by code_simp
  have "fst sampleSave = None" by code_simp
  then show "saveResponse sampleEnv noFaults defaultResponsesStorageConfig (replicate 12 CHR ''n'') (time_unix 5) (objectOf sampleDoc) emptyStore = (None, snd sampleSave)"
    unfolding sampleSave_def by (metis prod.collapse)
qed code_simp+

theorem responses_owner_isolation_witness:
  "sd_ID sampleDoc = ''resp_1'' \<and> sd_OwnerAPIKeyID sampleDoc = ''k1'' \<and> \<not> responseExpired defaultResponsesStorageConfig (time_unix 6) sampleDoc"
proof -
  have "loadResponseForOwner sampleEnv noFaults defaultResponsesStorageConfig '''' (time_unix 6) ''resp_1'' ''k1'' (snd sampleSave) =
      (Inr (objectOf sampleDoc), snd sampleSave)" by code_simp
  from responses_owner_isolation [OF this] show ?thesis by (simp add: objectOf_def)
qed

end
