(* ===== verification/Model_Fallback.thy ===== *)
theory Model_Fallback
  imports Upstream_Error
begin

text \<open>
  Model names and model fallback: the resolution of client model names (\<open>proxy/translator.go\<close>,
  \<open>ResolveConfiguredModel\<close> of \<open>config/config.go\<close>), the fallback rules with their normalisation and
  validation (\<open>config/config.go\<close>) and the loop that calls the upstream with fallback models (\<open>proxy/model_fallback.go\<close>).

  The configured models, the fallback settings and the thinking suffix are arguments where the code reads
  them from the configuration. The parameter \<open>regex\<close> stands for package \<open>regexp\<close>: \<open>None\<close> when a pattern does not
  compile, otherwise whether it matches. The call of one model is a function of the round and the
  model that gives its error and whether output reached the client.
\<close>

section \<open>Model names\<close>

record ModelEntry =
  me_ID :: string
  me_KiroModelID :: string
  me_MaxToolTokens :: int
  me_MatchKeywords :: "string list"

definition exactEntry :: "string \<Rightarrow> ModelEntry list \<Rightarrow> ModelEntry option" where
  "exactEntry needle models = find (\<lambda>e. equal_fold (me_ID e) needle) models"

definition keywordStep :: "string \<Rightarrow> ModelEntry \<Rightarrow> ModelEntry option \<times> int \<Rightarrow> string \<Rightarrow> ModelEntry option \<times> int" where
  "keywordStep needle entry best keyword =
     (if contains needle keyword \<and> int (length keyword) > snd best then (Some entry, int (length keyword)) else best)"

definition ResolveConfiguredModel :: "ModelEntry list \<Rightarrow> string \<Rightarrow> ModelEntry option" where
  "ResolveConfiguredModel models model =
     (let needle = to_lower (trim_space model)
      in case exactEntry needle models of
           Some e \<Rightarrow> Some e
         | None \<Rightarrow> fst (foldl (\<lambda>best e. foldl (keywordStep needle e) best (me_MatchKeywords e)) (None, -1) models))"

definition modelAliases :: "(string \<times> string) list" where
  "modelAliases =
     [(''claude-sonnet-latest'', ''claude-sonnet-5''),
      (''claude-sonnet-4-20250514'', ''claude-sonnet-4''),
      (''claude-3-5-sonnet'', ''claude-sonnet-4.5''),
      (''claude-3-opus'', ''claude-sonnet-4.5''),
      (''claude-3-sonnet'', ''claude-sonnet-4''),
      (''claude-3-haiku'', ''claude-haiku-4.5''),
      (''gpt-5-6-sol'', ''gpt-5.6-sol''),
      (''gpt-5-6-terra'', ''gpt-5.6-terra''),
      (''gpt-5-6-luna'', ''gpt-5.6-luna''),
      (''gpt-4-turbo'', ''claude-sonnet-4.5''),
      (''gpt-4o'', ''claude-sonnet-4.5''),
      (''gpt-4'', ''claude-sonnet-4.5''),
      (''gpt-3.5-turbo'', ''claude-sonnet-4.5'')]"

definition isDigit09 :: "char \<Rightarrow> bool" where
  "isDigit09 c = (let n = (of_char c :: nat) in 48 \<le> n \<and> n \<le> 57)"

text \<open>\<open>\s\<close> of package \<open>regexp\<close>.\<close>

definition regexSpace :: "char \<Rightarrow> bool" where
  "regexSpace c = (let n = (of_char c :: nat) in n = 9 \<or> n = 10 \<or> n = 12 \<or> n = 13 \<or> n = 32)"

text \<open>
  \<open>clientContextSuffixPattern\<close>, \<open>(?i)\s*\[\d+(?:k|m)\]\s*$\<close>, read from the end of the text: spaces, a closing bracket,
  \<open>k\<close> or \<open>m\<close>, digits, an opening bracket and spaces. There is at most one match.
\<close>

definition stripContextSuffix :: "string \<Rightarrow> string" where
  "stripContextSuffix s =
     (case dropWhile regexSpace (rev s) of
        close # unit # rest \<Rightarrow>
          let after = dropWhile isDigit09 rest
          in if close = CHR '']'' \<and> lower_char unit \<in> {CHR ''k'', CHR ''m''} \<and> takeWhile isDigit09 rest \<noteq> [] \<and> after \<noteq> [] \<and> hd after = CHR ''[''
             then rev (dropWhile regexSpace (tl after)) else s
      | _ \<Rightarrow> s)"

text \<open>The three version patterns: the family with what follows it, an optional date or \<open>latest\<close> at the end.\<close>

definition claudeFamily :: "string \<Rightarrow> (string \<times> string) option" where
  "claudeFamily s =
     (if has_prefix s ''claude-opus-'' then Some (''opus'', drop 12 s)
      else if has_prefix s ''claude-sonnet-'' then Some (''sonnet'', drop 14 s)
      else if has_prefix s ''claude-haiku-'' then Some (''haiku'', drop 13 s)
      else None)"

definition snapshotTail :: "string \<Rightarrow> bool" where
  "snapshotTail s \<longleftrightarrow> s = '''' \<or> s = ''-latest'' \<or> (length s = 9 \<and> hd s = CHR ''-'' \<and> list_all isDigit09 (tl s))"

definition claudeVersion :: "char \<Rightarrow> string \<Rightarrow> (string \<times> string \<times> string) option" where
  "claudeVersion sep s =
     (case claudeFamily s of
        None \<Rightarrow> None
      | Some (family, rest) \<Rightarrow>
          let major = takeWhile isDigit09 rest; rest1 = dropWhile isDigit09 rest
          in if major = [] \<or> rest1 = [] \<or> hd rest1 \<noteq> sep then None
             else let minor = takeWhile isDigit09 (tl rest1); rest2 = dropWhile isDigit09 (tl rest1)
                  in if 1 \<le> length minor \<and> length minor \<le> 2 \<and> snapshotTail rest2 then Some (family, major, minor) else None)"

definition claudeMajorSnapshot :: "string \<Rightarrow> (string \<times> string) option" where
  "claudeMajorSnapshot s =
     (case claudeFamily s of
        None \<Rightarrow> None
      | Some (family, rest) \<Rightarrow>
          let major = takeWhile isDigit09 rest
          in if major \<noteq> [] \<and> snapshotTail (dropWhile isDigit09 rest) then Some (family, major) else None)"

definition canonicalModel :: "ModelEntry list \<Rightarrow> string \<Rightarrow> string" where
  "canonicalModel models model =
     (let lower = to_lower model
      in case ResolveConfiguredModel models model of
           Some entry \<Rightarrow> me_KiroModelID entry
         | None \<Rightarrow>
         (case find (\<lambda>m. contains lower (fst m)) modelAliases of
            Some m \<Rightarrow> snd m
          | None \<Rightarrow>
          (case claudeVersion (CHR ''-'') lower of
             Some (f, a, b) \<Rightarrow> ''claude-'' @ f @ ''-'' @ a @ ''.'' @ b
           | None \<Rightarrow>
           (case claudeVersion (CHR ''.'') lower of
              Some (f, a, b) \<Rightarrow> ''claude-'' @ f @ ''-'' @ a @ ''.'' @ b
            | None \<Rightarrow>
            (case claudeMajorSnapshot lower of
               Some (f, a) \<Rightarrow> ''claude-'' @ f @ ''-'' @ a
             | None \<Rightarrow> if has_prefix lower ''claude-'' then lower else model)))))"

definition ParseModelAndThinking :: "ModelEntry list \<Rightarrow> string \<Rightarrow> string \<Rightarrow> string \<times> bool" where
  "ParseModelAndThinking models model0 thinkingSuffix =
     (let model1 = stripContextSuffix (trim_space model0);
          suffixLower = to_lower thinkingSuffix;
          thinking = (suffixLower \<noteq> '''' \<and> has_suffix (to_lower model1) suffixLower);
          model = (if thinking then stripContextSuffix (trim_space (take (length model1 - length thinkingSuffix) model1)) else model1)
      in (canonicalModel models model, thinking))"

definition MapModel :: "ModelEntry list \<Rightarrow> string \<Rightarrow> string" where
  "MapModel models model = fst (ParseModelAndThinking models model ''-thinking'')"

section \<open>Fallback settings\<close>

record ModelFallbackRule =
  fr_ID :: string
  fr_Name :: string
  fr_Enabled :: bool
  fr_MatchType :: string
  fr_SourceModel :: string
  fr_TargetModel :: string
  fr_Trigger :: string
  fr_Priority :: int
  fr_APIKeyIDs :: "string list"

record ModelFallbackConfig =
  fc_Enabled :: bool
  fc_DefaultTrigger :: string
  fc_MaxHops :: int
  fc_Rules :: "ModelFallbackRule list"

definition triggerModelUnavailable :: string where "triggerModelUnavailable = ''model_unavailable''"
definition triggerUpstreamError :: string where "triggerUpstreamError = ''upstream_error''"
definition triggerAlways :: string where "triggerAlways = ''always''"
definition MaxModelFallbackMaxHops :: int where "MaxModelFallbackMaxHops = 5"
definition MaxModelFallbackRules :: nat where "MaxModelFallbackRules = 100"

definition validTrigger :: "string \<Rightarrow> bool" where
  "validTrigger t \<longleftrightarrow> t = triggerModelUnavailable \<or> t = triggerUpstreamError \<or> t = triggerAlways"

definition expandTrigger :: "string \<Rightarrow> string" where
  "expandTrigger t =
     (if t = ''unavailable'' then triggerModelUnavailable
      else if t = ''error'' \<or> t = ''on_error'' then triggerUpstreamError else t)"

text \<open>The loop over the key IDs: trimmed, without blanks and repetitions up to case.\<close>

fun dedupKeys :: "string set \<Rightarrow> string list \<Rightarrow> string list" where
  "dedupKeys seen [] = []"
| "dedupKeys seen (i # is) =
     (let t = trim_space i
      in if t = '''' \<or> to_lower t \<in> seen then dedupKeys seen is else t # dedupKeys (insert (to_lower t) seen) is)"

text \<open>\<open>uuid\<close> is the ID generated for a rule that has none.\<close>

definition normalizeModelFallbackRule :: "string \<Rightarrow> ModelFallbackRule \<Rightarrow> ModelFallbackRule" where
  "normalizeModelFallbackRule uuid r =
     (let source = trim_space (fr_SourceModel r); target = trim_space (fr_TargetModel r);
          mt = to_lower (trim_space (fr_MatchType r))
      in r\<lparr>fr_ID := (if trim_space (fr_ID r) = '''' then uuid else trim_space (fr_ID r)),
           fr_Name := (if trim_space (fr_Name r) = '''' then source @ '' -> '' @ target else trim_space (fr_Name r)),
           fr_MatchType := (if mt = '''' then ''exact'' else mt),
           fr_SourceModel := source, fr_TargetModel := target,
           fr_Trigger := expandTrigger (to_lower (trim_space (fr_Trigger r))),
           fr_APIKeyIDs := dedupKeys {} (fr_APIKeyIDs r)\<rparr>)"

definition normalizeModelFallbackLocked :: "(nat \<Rightarrow> string) \<Rightarrow> ModelFallbackConfig \<Rightarrow> ModelFallbackConfig" where
  "normalizeModelFallbackLocked uuid c =
     (let t = expandTrigger (fc_DefaultTrigger c);
          hops = (if fc_MaxHops c < 1 then 1 else fc_MaxHops c)
      in c\<lparr>fc_DefaultTrigger := (if validTrigger t then t else triggerModelUnavailable),
           fc_MaxHops := (if hops > MaxModelFallbackMaxHops then MaxModelFallbackMaxHops else hops),
           fc_Rules := map (\<lambda>(i, r). normalizeModelFallbackRule (uuid i) r) (enumerate 0 (take MaxModelFallbackRules (fc_Rules c)))\<rparr>)"

datatype fallbackConfigError =
    BadDefaultTrigger | BadMaxHops | TooManyRules | RuleIDRequired | DuplicateRuleID | ModelsRequired
  | OversizedRule | BadMatchType | BadTrigger | BadTarget | BadRegex

fun validateRules :: "(string \<Rightarrow> string \<Rightarrow> bool option) \<Rightarrow> string set \<Rightarrow> ModelFallbackRule list \<Rightarrow> fallbackConfigError option" where
  "validateRules regex seen [] = None"
| "validateRules regex seen (r # rs) =
     (let i = trim_space (fr_ID r); mt = to_lower (trim_space (fr_MatchType r)); tr = to_lower (trim_space (fr_Trigger r))
      in if i = '''' then Some RuleIDRequired
         else if to_lower i \<in> seen then Some DuplicateRuleID
         else if trim_space (fr_SourceModel r) = '''' \<or> trim_space (fr_TargetModel r) = '''' then Some ModelsRequired
         else if length (fr_SourceModel r) > 512 \<or> length (fr_TargetModel r) > 128 then Some OversizedRule
         else if mt \<notin> {''exact'', ''prefix'', ''contains'', ''regex''} then Some BadMatchType
         else if tr \<noteq> '''' \<and> \<not> validTrigger tr then Some BadTrigger
         else if list_ex (\<lambda>c. c \<in> {CHR '' '', CHR 0x09, CHR 0x0D, CHR 0x0A}) (fr_TargetModel r) \<or> equal_fold (trim_space (fr_TargetModel r)) ''auto''
         then Some BadTarget
         else if mt = ''regex'' \<and> regex (fr_SourceModel r) '''' = None then Some BadRegex
         else validateRules regex (insert (to_lower i) seen) rs)"

definition validateModelFallbackConfig :: "(string \<Rightarrow> string \<Rightarrow> bool option) \<Rightarrow> ModelFallbackConfig \<Rightarrow> fallbackConfigError option" where
  "validateModelFallbackConfig regex c =
     (if \<not> validTrigger (fc_DefaultTrigger c) then Some BadDefaultTrigger
      else if fc_MaxHops c < 1 \<or> fc_MaxHops c > MaxModelFallbackMaxHops then Some BadMaxHops
      else if length (fc_Rules c) > MaxModelFallbackRules then Some TooManyRules
      else validateRules regex {} (fc_Rules c))"

definition UpdateModelFallbackConfig ::
    "(string \<Rightarrow> string \<Rightarrow> bool option) \<Rightarrow> (nat \<Rightarrow> string) \<Rightarrow> (nat \<Rightarrow> string) \<Rightarrow> ModelFallbackConfig \<Rightarrow> fallbackConfigError + ModelFallbackConfig" where
  "UpdateModelFallbackConfig regex uuid uuid' c0 =
     (let t = expandTrigger (to_lower (trim_space (fc_DefaultTrigger c0)));
          c = c0\<lparr>fc_DefaultTrigger := (if t = '''' then triggerModelUnavailable else t),
                 fc_MaxHops := (if fc_MaxHops c0 = 0 then 1 else fc_MaxHops c0),
                 fc_Rules := map (\<lambda>(i, r). normalizeModelFallbackRule (uuid i) r) (enumerate 0 (fc_Rules c0))\<rparr>
      in case validateModelFallbackConfig regex c of
           Some err \<Rightarrow> Inl err
         | None \<Rightarrow> Inr (normalizeModelFallbackLocked uuid' c))"

section \<open>Choosing a rule\<close>

definition fallbackModelNames :: "ModelEntry list \<Rightarrow> string \<Rightarrow> string \<Rightarrow> string \<times> string" where
  "fallbackModelNames models suff model =
     (let raw = to_lower (trim_space model); mapped = fst (ParseModelAndThinking models model suff)
      in (raw, if raw \<noteq> '''' \<and> trim_space mapped \<noteq> '''' then to_lower (trim_space mapped) else raw))"

definition modelFallbackRuleAppliesToKey :: "ModelFallbackRule \<Rightarrow> string \<Rightarrow> bool" where
  "modelFallbackRuleAppliesToKey r apiKeyID \<longleftrightarrow>
     fr_APIKeyIDs r = [] \<or>
     (trim_space apiKeyID \<noteq> '''' \<and> list_ex (\<lambda>allowed. equal_fold (trim_space allowed) (trim_space apiKeyID)) (fr_APIKeyIDs r))"

definition matchName :: "(string \<Rightarrow> string \<Rightarrow> bool option) \<Rightarrow> ModelFallbackRule \<Rightarrow> string \<Rightarrow> bool" where
  "matchName regex r v =
     (let pattern = to_lower (trim_space (fr_SourceModel r)); mt = to_lower (trim_space (fr_MatchType r))
      in if mt = ''prefix'' then has_prefix v pattern
         else if mt = ''contains'' then contains v pattern
         else if mt = ''regex'' then regex (fr_SourceModel r) v = Some True
         else equal_fold v pattern)"

definition modelFallbackRuleMatches :: "(string \<Rightarrow> string \<Rightarrow> bool option) \<Rightarrow> ModelEntry list \<Rightarrow> string \<Rightarrow> ModelFallbackRule \<Rightarrow> string \<Rightarrow> bool" where
  "modelFallbackRuleMatches regex models suff r model =
     (let (raw, normalized) = fallbackModelNames models suff model
      in to_lower (trim_space (fr_SourceModel r)) \<noteq> '''' \<and> (matchName regex r raw \<or> (normalized \<noteq> raw \<and> matchName regex r normalized)))"

definition modelFallbackTrigger :: "ModelFallbackRule \<Rightarrow> ModelFallbackConfig \<Rightarrow> string" where
  "modelFallbackTrigger r c =
     (let t = to_lower (trim_space (fr_Trigger r)); t' = (if t = '''' then to_lower (trim_space (fc_DefaultTrigger c)) else t)
      in expandTrigger t')"

definition modelFallbackTarget :: "ModelEntry list \<Rightarrow> string \<Rightarrow> ModelFallbackRule \<Rightarrow> string \<Rightarrow> string" where
  "modelFallbackTarget models suff r current =
     (let target0 = trim_space (fr_TargetModel r)
      in if target0 = '''' then ''''
         else let target = trim_space (fst (ParseModelAndThinking models target0 suff))
              in if target = '''' \<or> equal_fold target (trim_space current) then '''' else target)"

record modelFallbackDecision =
  fd_Rule :: ModelFallbackRule
  fd_TargetModel :: string

text \<open>The environment of a decision: settings, configured models, thinking suffix, regular expressions and the switch of the API key.\<close>

record fallbackEnv =
  fe_config :: ModelFallbackConfig
  fe_models :: "ModelEntry list"
  fe_suffix :: string
  fe_regex :: "string \<Rightarrow> string \<Rightarrow> bool option"
  fe_keySetting :: "string \<Rightarrow> bool option"

definition modelFallbackEnabledForKey :: "fallbackEnv \<Rightarrow> string \<Rightarrow> bool" where
  "modelFallbackEnabledForKey env apiKeyID = (case fe_keySetting env (trim_space apiKeyID) of None \<Rightarrow> True | Some b \<Rightarrow> b)"

definition ruleKey :: "ModelFallbackRule \<Rightarrow> string" where
  "ruleKey r = to_lower (trim_space (fr_ID r))"

definition ruleUsable :: "fallbackEnv \<Rightarrow> string \<Rightarrow> string \<Rightarrow> string \<Rightarrow> string set \<Rightarrow> ModelFallbackRule \<Rightarrow> bool" where
  "ruleUsable env model apiKeyID trigger used r \<longleftrightarrow>
     fr_Enabled r \<and> ruleKey r \<notin> used \<and> modelFallbackRuleAppliesToKey r apiKeyID \<and>
     modelFallbackRuleMatches (fe_regex env) (fe_models env) (fe_suffix env) r model \<and>
     modelFallbackTrigger r (fe_config env) = trigger \<and> modelFallbackTarget (fe_models env) (fe_suffix env) r model \<noteq> ''''"

text \<open>Rules are tried by falling priority; \<open>SliceStable\<close> keeps the order of the settings for equal ones.\<close>

definition resolveModelFallback :: "fallbackEnv \<Rightarrow> string \<Rightarrow> string \<Rightarrow> string \<Rightarrow> string set \<Rightarrow> modelFallbackDecision option" where
  "resolveModelFallback env model apiKeyID trigger0 used =
     (if \<not> fc_Enabled (fe_config env) \<or> \<not> modelFallbackEnabledForKey env apiKeyID then None
      else let t = to_lower (trim_space trigger0); trigger = (if t = '''' then fc_DefaultTrigger (fe_config env) else t)
           in map_option (\<lambda>r. \<lparr>fd_Rule = r, fd_TargetModel = modelFallbackTarget (fe_models env) (fe_suffix env) r model\<rparr>)
                (find (ruleUsable env model apiKeyID trigger used)
                   (sort_stable (\<lambda>l r. fr_Priority l > fr_Priority r) (fc_Rules (fe_config env)))))"

definition fallbackTriggerForError :: "goError option \<Rightarrow> string option" where
  "fallbackTriggerForError err =
     (case err of
        None \<Rightarrow> None
      | Some e \<Rightarrow>
          (case asUpstreamError e of
             None \<Rightarrow> None
           | Some (ue, cause) \<Rightarrow>
               (if ue_Kind ue = UpstreamErrorModelUnavailable \<or> ue_Kind ue = UpstreamErrorEmptyResponse then Some triggerModelUnavailable
                else if ue_Kind ue = UpstreamErrorRetryBudget
                then (let lower = to_lower (upstreamErrorText ue (map_option errorText cause))
                      in if contains lower ''without actionable'' \<or> contains lower ''empty responses'' then Some triggerModelUnavailable
                         else Some triggerUpstreamError)
                else if ue_Kind ue \<in> {UpstreamErrorRateLimit, UpstreamErrorQuota, UpstreamErrorEndpointUnavailable, UpstreamErrorTransient,
                    UpstreamErrorFirstTokenTimeout, UpstreamErrorStreamIdleTimeout, UpstreamErrorActionableTimeout,
                    UpstreamErrorToolAssemblyTimeout, UpstreamErrorToolOutputTruncated, UpstreamErrorStreamTruncated}
                then Some triggerUpstreamError else None)))"

definition modelFallbackMayRetry :: "goError option \<Rightarrow> bool \<Rightarrow> bool" where
  "modelFallbackMayRetry err outputSeen = (if outputSeen then False else fallbackTriggerForError err \<noteq> None)"

section \<open>Routes before the request\<close>

text \<open>\<open>available\<close> is \<open>requestedModelAvailable\<close> of the handler.\<close>

definition fallbackTargetIsUsable :: "(string \<Rightarrow> string \<Rightarrow> bool) \<Rightarrow> string \<Rightarrow> bool" where
  "fallbackTargetIsUsable available target = (let t = trim_space target in t \<noteq> '''' \<and> available t t)"

definition resolveRequestModelRoute ::
    "fallbackEnv \<Rightarrow> (string \<Rightarrow> string \<Rightarrow> bool) \<Rightarrow> string \<Rightarrow> string \<Rightarrow> string \<Rightarrow> string \<times> modelFallbackDecision option" where
  "resolveRequestModelRoute env available requested actual apiKeyID =
     (case resolveModelFallback env requested apiKeyID triggerAlways {} of
        Some d \<Rightarrow>
          if fallbackTargetIsUsable available (fd_TargetModel d) then (fd_TargetModel d, Some d)
          else if available requested actual then (actual, None)
          else (case resolveModelFallback env requested apiKeyID triggerModelUnavailable {} of
                  Some d' \<Rightarrow> if fallbackTargetIsUsable available (fd_TargetModel d') then (fd_TargetModel d', Some d') else (actual, None)
                | None \<Rightarrow> (actual, None))
      | None \<Rightarrow>
          if available requested actual then (actual, None)
          else (case resolveModelFallback env requested apiKeyID triggerModelUnavailable {} of
                  Some d' \<Rightarrow> if fallbackTargetIsUsable available (fd_TargetModel d') then (fd_TargetModel d', Some d') else (actual, None)
                | None \<Rightarrow> (actual, None)))"

section \<open>The loop\<close>

record routeState =
  rt_ModelID :: string
  rt_InProgress :: bool
  rt_Applied :: bool
  rt_From :: string
  rt_To :: string
  rt_RuleID :: string

definition recordModelFallback :: "string \<Rightarrow> string \<Rightarrow> string \<Rightarrow> routeState \<Rightarrow> routeState" where
  "recordModelFallback from to ruleID st =
     st\<lparr>rt_Applied := True, rt_From := trim_space from, rt_To := trim_space to, rt_RuleID := trim_space ruleID\<rparr>"

text \<open>
  \<open>call hop model\<close> is the outcome of the call in round \<open>hop\<close>. The result has the error, the models called with the
  rules that led to them, and the state; \<open>hops\<close> counts the rounds that may still follow.
\<close>

fun fallbackLoop ::
    "fallbackEnv \<Rightarrow> (nat \<Rightarrow> string \<Rightarrow> goError option \<times> bool) \<Rightarrow> string \<Rightarrow> string \<Rightarrow> nat \<Rightarrow> nat \<Rightarrow> string \<Rightarrow> string set \<Rightarrow> routeState \<Rightarrow>
     goError option \<times> (string \<times> string option) list \<times> routeState" where
  "fallbackLoop env call apiKeyID originalModel hops hop currentModel used st0 =
     (let st = st0\<lparr>rt_ModelID := currentModel, rt_InProgress := False\<rparr>;
          (err, outputSeen) = call hop currentModel
      in if err = None then (None, [(currentModel, None)], st)
         else case fallbackTriggerForError err of
           None \<Rightarrow> (err, [(currentModel, None)], st)
         | Some trigger \<Rightarrow>
             if \<not> modelFallbackMayRetry err outputSeen \<or> hops = 0 then (err, [(currentModel, None)], st)
             else case resolveModelFallback env currentModel apiKeyID trigger used of
               None \<Rightarrow> (err, [(currentModel, None)], st)
             | Some d \<Rightarrow>
                 let ruleID = ruleKey (fd_Rule d);
                     (e, calls, st') = fallbackLoop env call apiKeyID originalModel (hops - 1) (Suc hop) (fd_TargetModel d)
                        (if ruleID \<noteq> '''' then insert ruleID used else used)
                        (recordModelFallback originalModel (fd_TargetModel d) (fr_ID (fd_Rule d)) st)
                 in (e, (currentModel, Some ruleID) # calls, st'))"

declare fallbackLoop.simps [simp del]

definition callKiroAPIWithModelFallback ::
    "fallbackEnv \<Rightarrow> (nat \<Rightarrow> string \<Rightarrow> goError option \<times> bool) \<Rightarrow> string \<Rightarrow> routeState \<Rightarrow>
     goError option \<times> (string \<times> string option) list \<times> routeState" where
  "callKiroAPIWithModelFallback env call apiKeyID st =
     (let originalModel = trim_space (rt_ModelID st)
      in if rt_InProgress st \<or> originalModel = '''' then (fst (call 0 (rt_ModelID st)), [(rt_ModelID st, None)], st)
         else let maxHops = (if fc_MaxHops (fe_config env) < 1 then 1 else fc_MaxHops (fe_config env));
                  (err, calls, st') = fallbackLoop env call apiKeyID originalModel (nat maxHops) 0 originalModel {} st
              in (err, calls, st'\<lparr>rt_ModelID := originalModel, rt_InProgress := False\<rparr>))"

end
