(* ===== verification/Model_Fallback_Props.thy ===== *)
theory Model_Fallback_Props
  imports Model_Fallback
begin

text \<open>
  What model fallback guarantees: a bounded number of calls, no rule twice, no second call once output has reached the client, and
  the requested model restored; accepted settings are within their limits and stay acceptable.
\<close>

section \<open>The loop\<close>

definition usedRules :: "(string \<times> string option) list \<Rightarrow> string list" where
  "usedRules calls = List.map_filter snd calls"

lemma usedRules_simps [simp]:
  "usedRules [] = []" "usedRules ((m, None) # calls) = usedRules calls" "usedRules ((m, Some k) # calls) = k # usedRules calls"
  by (simp_all add: usedRules_def map_filter_simps)

lemma find_mem: "find P xs = Some x \<Longrightarrow> x \<in> set xs \<and> P x"
  by (induction xs) (auto split: if_splits)

lemma resolve_usable:
  assumes "resolveModelFallback env model apiKeyID trigger used = Some d"
  shows "fd_Rule d \<in> set (fc_Rules (fe_config env))" "ruleKey (fd_Rule d) \<notin> used" "fr_Enabled (fd_Rule d)"
    "modelFallbackRuleAppliesToKey (fd_Rule d) apiKeyID" "fd_TargetModel d \<noteq> ''''"
proof -
  obtain t r where r: "find (ruleUsable env model apiKeyID t used) (sort_stable (\<lambda>l r. fr_Priority l > fr_Priority r) (fc_Rules (fe_config env))) = Some r"
      "d = \<lparr>fd_Rule = r, fd_TargetModel = modelFallbackTarget (fe_models env) (fe_suffix env) r model\<rparr>"
    using assms by (auto simp: resolveModelFallback_def Let_def split: if_splits)
  then have "ruleUsable env model apiKeyID t used r" "r \<in> set (fc_Rules (fe_config env))"
    using find_mem [OF r(1)] by (simp_all add: set_sort_stable)
  then show "fd_Rule d \<in> set (fc_Rules (fe_config env))" "ruleKey (fd_Rule d) \<notin> used" "fr_Enabled (fd_Rule d)"
    "modelFallbackRuleAppliesToKey (fd_Rule d) apiKeyID" "fd_TargetModel d \<noteq> ''''" using r(2) by (auto simp: ruleUsable_def)
qed

text \<open>One round: it is the last, or it failed without output and another model follows.\<close>

lemma fallbackLoop_cases:
  obtains (final) st where "fallbackLoop env call k original hops hop model used st0 = (fst (call hop model), [(model, None)], st)"
  | (next_model) d st e calls st' hops' where "hops = Suc hops'" "fst (call hop model) \<noteq> None" "\<not> snd (call hop model)"
      "\<exists>trigger. resolveModelFallback env model k trigger used = Some d"
      "fallbackLoop env call k original hops' (Suc hop) (fd_TargetModel d)
         (if ruleKey (fd_Rule d) \<noteq> '''' then insert (ruleKey (fd_Rule d)) used else used) st = (e, calls, st')"
      "fallbackLoop env call k original hops hop model used st0 = (e, (model, Some (ruleKey (fd_Rule d))) # calls, st')"
proof -
  let ?err = "fst (call hop model)" and ?st = "st0\<lparr>rt_ModelID := model, rt_InProgress := False\<rparr>"
  show ?thesis
  proof (cases "?err = None \<or> fallbackTriggerForError ?err = None \<or> snd (call hop model) \<or> hops = 0 \<or>
      resolveModelFallback env model k (the (fallbackTriggerForError ?err)) used = None")
    case True
    then show ?thesis
      by (intro final [of ?st], subst fallbackLoop.simps) (auto simp: Let_def case_prod_unfold modelFallbackMayRetry_def split: option.splits)
  next
    case False
    then obtain t d hops' where t: "fallbackTriggerForError ?err = Some t" "resolveModelFallback env model k t used = Some d" "hops = Suc hops'"
      by (cases hops) auto
    let ?rec = "fallbackLoop env call k original hops' (Suc hop) (fd_TargetModel d)
        (if ruleKey (fd_Rule d) \<noteq> '''' then insert (ruleKey (fd_Rule d)) used else used)
        (recordModelFallback original (fd_TargetModel d) (fr_ID (fd_Rule d)) ?st)"
    have "fallbackLoop env call k original hops hop model used st0 =
        (fst ?rec, (model, Some (ruleKey (fd_Rule d))) # fst (snd ?rec), snd (snd ?rec))"
      using False t by (subst fallbackLoop.simps) (simp add: Let_def case_prod_unfold modelFallbackMayRetry_def)
    then show ?thesis using False t by (intro next_model [of hops' d _ "fst ?rec" "fst (snd ?rec)" "snd (snd ?rec)"]) auto
  qed
qed

definition callsOk :: "(nat \<Rightarrow> string \<Rightarrow> goError option \<times> bool) \<Rightarrow> nat \<Rightarrow> (string \<times> string option) list \<Rightarrow> bool" where
  "callsOk call hop calls \<longleftrightarrow> (\<forall>i. Suc i < length calls \<longrightarrow>
     fst (call (hop + i) (fst (calls ! i))) \<noteq> None \<and> \<not> snd (call (hop + i) (fst (calls ! i))))"

lemma callsOk_Cons:
  "fst (call hop m) \<noteq> None \<Longrightarrow> \<not> snd (call hop m) \<Longrightarrow> callsOk call (Suc hop) calls \<Longrightarrow> callsOk call hop ((m, k) # calls)"
  unfolding callsOk_def by (auto simp: nth_Cons split: nat.splits)

lemma fallbackLoop_ok:
  assumes "\<forall>r \<in> set (fc_Rules (fe_config env)). trim_space (fr_ID r) \<noteq> ''''"
  shows "fallbackLoop env call k original hops hop model used st0 = (err, calls, st) \<Longrightarrow>
     calls \<noteq> [] \<and> length calls \<le> Suc hops \<and> fst (hd calls) = model \<and> callsOk call hop calls \<and>
     err = fst (call (hop + (length calls - 1)) (fst (last calls))) \<and>
     distinct (usedRules calls) \<and> set (usedRules calls) \<inter> used = {} \<and> set (usedRules calls) \<subseteq> ruleKey ` set (fc_Rules (fe_config env))"
proof (induction hops arbitrary: hop model used st0 err calls st)
  case 0
  show ?case by (rule fallbackLoop_cases [of env call k original 0 hop model used st0]) (use 0 in \<open>auto simp: callsOk_def\<close>)
next
  case (Suc n)
  show ?case
  proof (rule fallbackLoop_cases [of env call k original "Suc n" hop model used st0])
    fix st'
    assume "fallbackLoop env call k original (Suc n) hop model used st0 = (fst (call hop model), [(model, None)], st')"
    then show ?case using Suc.prems by (auto simp: callsOk_def)
  next
    fix d s e cs st' hops'
    assume n: "Suc n = Suc hops'" and bad: "fst (call hop model) \<noteq> None" "\<not> snd (call hop model)"
      and res: "\<exists>trigger. resolveModelFallback env model k trigger used = Some d"
      and rec: "fallbackLoop env call k original hops' (Suc hop) (fd_TargetModel d)
         (if ruleKey (fd_Rule d) \<noteq> '''' then insert (ruleKey (fd_Rule d)) used else used) s = (e, cs, st')"
      and eq: "fallbackLoop env call k original (Suc n) hop model used st0 = (e, (model, Some (ruleKey (fd_Rule d))) # cs, st')"
    have d: "fd_Rule d \<in> set (fc_Rules (fe_config env))" "ruleKey (fd_Rule d) \<notin> used" using res resolve_usable by blast+
    have key: "ruleKey (fd_Rule d) \<noteq> ''''" using assms d(1) by (auto simp: ruleKey_def to_lower_def)
    note IH = Suc.IH [OF rec [folded n [THEN Suc_inject]]]
    have ih: "cs \<noteq> [] \<and> length cs \<le> Suc n \<and> fst (hd cs) = fd_TargetModel d \<and> callsOk call (Suc hop) cs \<and>
        e = fst (call (Suc hop + (length cs - 1)) (fst (last cs))) \<and> distinct (usedRules cs) \<and>
        set (usedRules cs) \<inter> insert (ruleKey (fd_Rule d)) used = {} \<and> set (usedRules cs) \<subseteq> ruleKey ` set (fc_Rules (fe_config env))"
      using IH key by simp
    have out: "err = e" "calls = (model, Some (ruleKey (fd_Rule d))) # cs" using Suc.prems unfolding eq by auto
    have len: "Suc hop + (length cs - 1) = hop + length cs" using ih by (cases cs) auto
    have last: "e = fst (call (hop + length cs) (fst (last cs)))" using ih unfolding len by blast
    show ?case using ih bad d unfolding out by (auto intro: callsOk_Cons simp: last [symmetric])
  qed
qed

text \<open>
  C29. Model fallback is bounded: a request is sent to at most one model more than the
  configured number of hops (at least two), the first being the requested one; every call but the last failed and had
  sent nothing to the client; the answer is that of the last call; no rule is used twice; and the requested model is restored in
  the request.
\<close>

theorem model_fallback_bounded:
  assumes "\<forall>r \<in> set (fc_Rules (fe_config env)). trim_space (fr_ID r) \<noteq> ''''"
    and "\<not> rt_InProgress st0" "trim_space (rt_ModelID st0) \<noteq> ''''"
    and "callKiroAPIWithModelFallback env call k st0 = (err, calls, st)"
  shows "calls \<noteq> [] \<and> int (length calls) \<le> max 1 (fc_MaxHops (fe_config env)) + 1 \<and> fst (hd calls) = trim_space (rt_ModelID st0) \<and>
     callsOk call 0 calls \<and> err = fst (call (length calls - 1) (fst (last calls))) \<and> distinct (usedRules calls) \<and>
     rt_ModelID st = trim_space (rt_ModelID st0) \<and> \<not> rt_InProgress st"
proof -
  let ?m = "trim_space (rt_ModelID st0)" and ?h = "nat (if fc_MaxHops (fe_config env) < 1 then 1 else fc_MaxHops (fe_config env))"
  obtain s where s: "fallbackLoop env call k ?m ?h 0 ?m {} st0 = (err, calls, s)" "st = s\<lparr>rt_ModelID := ?m, rt_InProgress := False\<rparr>"
    using assms(2-4) by (auto simp: callKiroAPIWithModelFallback_def Let_def case_prod_unfold prod_eq_iff)
  note ok = fallbackLoop_ok [OF assms(1) s(1)]
  have "int ?h = max 1 (fc_MaxHops (fe_config env))" by (simp add: max_def)
  moreover have "int (length calls) \<le> int ?h + 1" using ok by linarith
  ultimately have "int (length calls) \<le> max 1 (fc_MaxHops (fe_config env)) + 1" by linarith
  then show ?thesis using ok s(2) by simp
qed

definition sampleRule :: ModelFallbackRule where
  "sampleRule = \<lparr>fr_ID = ''R1'', fr_Name = ''sample'', fr_Enabled = True, fr_MatchType = ''exact'', fr_SourceModel = ''big'',
     fr_TargetModel = ''small'', fr_Trigger = '''', fr_Priority = 0, fr_APIKeyIDs = []\<rparr>"

definition sampleEnv :: fallbackEnv where
  "sampleEnv = \<lparr>fe_config = \<lparr>fc_Enabled = True, fc_DefaultTrigger = ''model_unavailable'', fc_MaxHops = 1, fc_Rules = [sampleRule]\<rparr>,
     fe_models = [], fe_suffix = ''-thinking'', fe_regex = (\<lambda>_ _. None), fe_keySetting = (\<lambda>_. None)\<rparr>"

definition sampleCall :: "nat \<Rightarrow> string \<Rightarrow> goError option \<times> bool" where
  "sampleCall hop model =
     (if model = ''big'' then (Some (UpstreamErr (upstreamError UpstreamErrorModelUnavailable ''e'' ''m'' False False) None), False)
      else (None, True))"

definition sampleRoute :: routeState where
  "sampleRoute = \<lparr>rt_ModelID = ''big'', rt_InProgress = False, rt_Applied = False, rt_From = '''', rt_To = '''', rt_RuleID = ''''\<rparr>"

theorem model_fallback_bounded_witness:
  "map fst (fst (snd (callKiroAPIWithModelFallback sampleEnv sampleCall ''k'' sampleRoute))) = [''big'', ''small''] \<and>
   fst (callKiroAPIWithModelFallback sampleEnv sampleCall ''k'' sampleRoute) = None \<and>
   distinct (usedRules (fst (snd (callKiroAPIWithModelFallback sampleEnv sampleCall ''k'' sampleRoute))))"
proof -
  obtain err calls st where r: "callKiroAPIWithModelFallback sampleEnv sampleCall ''k'' sampleRoute = (err, calls, st)"
    by (metis surj_pair)
  have m: "map fst (fst (snd (callKiroAPIWithModelFallback sampleEnv sampleCall ''k'' sampleRoute))) = [''big'', ''small'']"
    by code_simp
  have h: "\<forall>r \<in> set (fc_Rules (fe_config sampleEnv)). trim_space (fr_ID r) \<noteq> ''''"
    "\<not> rt_InProgress sampleRoute" "trim_space (rt_ModelID sampleRoute) \<noteq> ''''" by code_simp+
  note b = model_fallback_bounded [OF h r]
  have "fst (last calls) = ''small''" using m r by auto
  then show ?thesis using b m r by (simp add: sampleCall_def)
qed

section \<open>Settings\<close>

lemma validateRules_None:
  "validateRules regex seen rs = None \<Longrightarrow>
   list_all (\<lambda>r. trim_space (fr_ID r) \<noteq> '''' \<and> ruleKey r \<notin> seen) rs \<and> distinct (map ruleKey rs)"
proof (induction rs arbitrary: seen)
  case (Cons r rs)
  then have step: "trim_space (fr_ID r) \<noteq> ''''" "ruleKey r \<notin> seen" "validateRules regex (insert (ruleKey r) seen) rs = None"
    by (auto simp: Let_def ruleKey_def split: if_splits)
  show ?case using Cons.IH [OF step(3)] step(1,2) by (auto simp: list_all_iff)
qed simp

lemma expandTrigger_valid: "validTrigger t \<Longrightarrow> expandTrigger t = t"
  by (auto simp: expandTrigger_def validTrigger_def triggerModelUnavailable_def triggerUpstreamError_def triggerAlways_def)

lemma to_lower_eq_Nil [simp]: "to_lower s = '''' \<longleftrightarrow> s = ''''"
  by (simp add: to_lower_def)

text \<open>
  Accepted fallback settings stay within their limits: when an update is accepted, the stored settings have
  1 to 5 hops, at most 100 rules, a valid default trigger, and rules with non-blank IDs that differ up to case; settings
  outside these limits are rejected rather than adjusted, except that absent values take their defaults.
\<close>

theorem fallback_settings_accepted:
  assumes "UpdateModelFallbackConfig regex uuid uuid' c = Inr c'"
  shows "1 \<le> fc_MaxHops c' \<and> fc_MaxHops c' \<le> 5 \<and> length (fc_Rules c') \<le> 100 \<and> validTrigger (fc_DefaultTrigger c') \<and>
     length (fc_Rules c') = length (fc_Rules c) \<and>
     list_all (\<lambda>r. trim_space (fr_ID r) \<noteq> '''') (fc_Rules c') \<and> distinct (map ruleKey (fc_Rules c')) \<and>
     fc_MaxHops c' = (if fc_MaxHops c = 0 then 1 else fc_MaxHops c)"
proof -
  let ?t = "expandTrigger (to_lower (trim_space (fc_DefaultTrigger c)))"
  define d where "d = c\<lparr>fc_DefaultTrigger := (if ?t = '''' then triggerModelUnavailable else ?t),
     fc_MaxHops := (if fc_MaxHops c = 0 then 1 else fc_MaxHops c),
     fc_Rules := map (\<lambda>(i, r). normalizeModelFallbackRule (uuid i) r) (enumerate 0 (fc_Rules c))\<rparr>"
  have v: "validateModelFallbackConfig regex d = None" and c': "c' = normalizeModelFallbackLocked uuid' d"
    using assms unfolding UpdateModelFallbackConfig_def Let_def d_def [symmetric] by (auto split: option.splits)
  have d: "validTrigger (fc_DefaultTrigger d)" "1 \<le> fc_MaxHops d" "fc_MaxHops d \<le> 5" "length (fc_Rules d) \<le> 100"
      "validateRules regex {} (fc_Rules d) = None"
    using v by (auto simp: validateModelFallbackConfig_def MaxModelFallbackMaxHops_def MaxModelFallbackRules_def split: if_splits)
  have R: "list_all (\<lambda>r. trim_space (fr_ID r) \<noteq> '''') (fc_Rules d)" "distinct (map ruleKey (fc_Rules d))"
    using validateRules_None [OF d(5)] by (auto simp: list_all_iff)
  have rules: "fc_Rules c' = map (\<lambda>(i, r). normalizeModelFallbackRule (uuid' i) r) (enumerate 0 (fc_Rules d))"
    using c' d(4) by (simp add: normalizeModelFallbackLocked_def Let_def MaxModelFallbackRules_def)
  have key: "map ruleKey (fc_Rules c') = map ruleKey (fc_Rules d)"
  proof -
    have "map ruleKey (fc_Rules c') = map (\<lambda>p. ruleKey (snd p)) (enumerate 0 (fc_Rules d))"
      using R(1) unfolding rules by (auto simp: list_all_iff normalizeModelFallbackRule_def Let_def ruleKey_def in_set_enumerate_eq)
    also have "\<dots> = map ruleKey (fc_Rules d)" by (simp only: map_map [symmetric, unfolded comp_def] map_snd_enumerate)
    finally show ?thesis .
  qed
  have blank: "ruleKey r = '''' \<longleftrightarrow> trim_space (fr_ID r) = ''''" for r by (simp add: ruleKey_def)
  have "\<forall>r \<in> set (fc_Rules c'). ruleKey r \<noteq> ''''"
  proof
    fix r assume "r \<in> set (fc_Rules c')"
    then have "ruleKey r \<in> set (map ruleKey (fc_Rules d))" unfolding key [symmetric] by simp
    then obtain x where "ruleKey r = ruleKey x" "x \<in> set (fc_Rules d)" by auto
    then show "ruleKey r \<noteq> ''''" using R(1) by (simp add: blank list_all_iff)
  qed
  moreover have "length (fc_Rules d) = length (fc_Rules c)" by (simp add: d_def)
  moreover have "fc_MaxHops c' = fc_MaxHops d" "fc_DefaultTrigger c' = fc_DefaultTrigger d"
    using c' d(1-3) by (simp_all add: normalizeModelFallbackLocked_def Let_def MaxModelFallbackMaxHops_def expandTrigger_valid)
  moreover have "fc_MaxHops d = (if fc_MaxHops c = 0 then 1 else fc_MaxHops c)" by (simp add: d_def)
  ultimately show ?thesis using d(1-4) R(2) blank rules key by (simp add: list_all_iff)
qed

theorem fallback_settings_accepted_witness:
  "\<exists>c'. UpdateModelFallbackConfig (\<lambda>_ _. None) (\<lambda>i. ''u'') (\<lambda>i. ''v'')
      \<lparr>fc_Enabled = True, fc_DefaultTrigger = '' Error '', fc_MaxHops = 0, fc_Rules = [sampleRule, sampleRule\<lparr>fr_ID := '' ''\<rparr>]\<rparr> = Inr c' \<and>
     fc_MaxHops c' = 1 \<and> distinct (map ruleKey (fc_Rules c'))"
proof -
  let ?u = "UpdateModelFallbackConfig (\<lambda>_ _. None) (\<lambda>i. ''u'') (\<lambda>i. ''v'')
      \<lparr>fc_Enabled = True, fc_DefaultTrigger = '' Error '', fc_MaxHops = 0, fc_Rules = [sampleRule, sampleRule\<lparr>fr_ID := '' ''\<rparr>]\<rparr>"
  have "isl ?u = False" by code_simp
  then obtain c' where c: "?u = Inr c'" by (cases ?u) auto
  show ?thesis using fallback_settings_accepted [OF c] c by auto
qed

end
