(* ===== verification/Refresh_Coordinator.thy ===== *)
theory Refresh_Coordinator
  imports Upstream_Error Pool
begin

text \<open>
  The refresh of access tokens (\<open>proxy/refresh_coordinator.go\<close>): concurrent requests for one account
  share one refresh, at most a configured number of refreshes run at a time, the others wait in a
  bounded queue, and new credentials are written in batches. The settings come from \<open>config/config.go\<close>, the
  errors of the identity providers from \<open>auth/refresh_error.go\<close> and \<open>auth/oidc.go\<close>.

  Every section of code under a mutex is a function on the state it protects; the goroutines are tasks with a phase,
  and \<open>refresh_step\<close> interleaves their sections in any order. The exchange with the
  identity provider and the write of the configuration file have any outcome. The channel \<open>notify\<close> is a number: closing it and making a new
  one is taking the next number, so a number below the current one is a closed channel.
\<close>

section \<open>Settings\<close>

record AutoRefreshConfig =
  ar_Enabled :: bool
  ar_IntervalMinutes :: int
  ar_TokenRefreshBeforeSeconds :: int
  ar_MaxAccountsPerRun :: int
  ar_FailureCooldownSeconds :: int
  ar_RefreshConcurrency :: int
  ar_RefreshQueueCapacity :: int
  ar_RefreshTaskTimeoutSeconds :: int
  ar_RefreshJitterSeconds :: int
  ar_RefreshModels :: bool
  ar_ModelIntervalMinutes :: int
  ar_MaxModelsPerRun :: int
  ar_ModelRefreshConcurrency :: int

definition defaultAutoRefreshConfig :: AutoRefreshConfig where
  "defaultAutoRefreshConfig =
     \<lparr>ar_Enabled = True, ar_IntervalMinutes = 10, ar_TokenRefreshBeforeSeconds = 1800, ar_MaxAccountsPerRun = 0,
      ar_FailureCooldownSeconds = 300, ar_RefreshConcurrency = 5, ar_RefreshQueueCapacity = 2000,
      ar_RefreshTaskTimeoutSeconds = 120, ar_RefreshJitterSeconds = 30, ar_RefreshModels = True,
      ar_ModelIntervalMinutes = 60, ar_MaxModelsPerRun = 25, ar_ModelRefreshConcurrency = 3\<rparr>"

text \<open>A value below \<open>lo\<close> takes the default, then the upper bound applies.\<close>

definition refreshBound :: "int \<Rightarrow> int \<Rightarrow> int \<Rightarrow> int \<Rightarrow> int" where
  "refreshBound lo dflt hi v = (let w = (if v < lo then dflt else v) in if w > hi then hi else w)"

definition normalizeAutoRefreshConfigValues :: "AutoRefreshConfig \<Rightarrow> AutoRefreshConfig" where
  "normalizeAutoRefreshConfigValues c =
     (let d = defaultAutoRefreshConfig
      in c\<lparr>ar_IntervalMinutes := (if ar_IntervalMinutes c \<le> 0 then ar_IntervalMinutes d else ar_IntervalMinutes c),
           ar_TokenRefreshBeforeSeconds := (if ar_TokenRefreshBeforeSeconds c \<le> 0 then ar_TokenRefreshBeforeSeconds d else ar_TokenRefreshBeforeSeconds c),
           ar_FailureCooldownSeconds := (if ar_FailureCooldownSeconds c \<le> 0 then ar_FailureCooldownSeconds d else ar_FailureCooldownSeconds c),
           ar_MaxAccountsPerRun := (if ar_MaxAccountsPerRun c < 0 then 0 else ar_MaxAccountsPerRun c),
           ar_RefreshConcurrency := refreshBound 1 (ar_RefreshConcurrency d) 50 (ar_RefreshConcurrency c),
           ar_RefreshQueueCapacity := refreshBound 1 (ar_RefreshQueueCapacity d) 100000 (ar_RefreshQueueCapacity c),
           ar_RefreshTaskTimeoutSeconds := refreshBound 10 (ar_RefreshTaskTimeoutSeconds d) 600 (ar_RefreshTaskTimeoutSeconds c),
           ar_RefreshJitterSeconds := refreshBound 0 0 3600 (ar_RefreshJitterSeconds c),
           ar_ModelIntervalMinutes := refreshBound 30 (ar_ModelIntervalMinutes d) 10080 (ar_ModelIntervalMinutes c),
           ar_MaxModelsPerRun := (if ar_MaxModelsPerRun c < 0 then 0 else ar_MaxModelsPerRun c),
           ar_ModelRefreshConcurrency := refreshBound 1 (ar_ModelRefreshConcurrency d) 20 (ar_ModelRefreshConcurrency c)\<rparr>)"

text \<open>\<open>None\<close> before the configuration is loaded.\<close>

definition GetAutoRefreshConfig :: "AutoRefreshConfig option \<Rightarrow> AutoRefreshConfig" where
  "GetAutoRefreshConfig c = (case c of None \<Rightarrow> defaultAutoRefreshConfig | Some r \<Rightarrow> normalizeAutoRefreshConfigValues r)"

definition UpdateAutoRefreshConfig :: "AutoRefreshConfig \<Rightarrow> AutoRefreshConfig option" where
  "UpdateAutoRefreshConfig c = Some (normalizeAutoRefreshConfigValues c)"

section \<open>Errors of the identity providers\<close>

definition IsRefreshUpstreamBlocked :: "goError \<Rightarrow> bool" where
  "IsRefreshUpstreamBlocked err = errors_Is err ErrRefreshUpstreamBlocked"

definition asRefreshHTTPError :: "goError \<Rightarrow> RefreshHTTPError option" where
  "asRefreshHTTPError err = firstJust (\<lambda>e. case e of RefreshHTTPErr h \<Rightarrow> Some h | _ \<Rightarrow> None) (chain err)"

definition IsRefreshAuthMismatch :: "goError \<Rightarrow> bool" where
  "IsRefreshAuthMismatch err = (case asRefreshHTTPError err of None \<Rightarrow> False | Some h \<Rightarrow> rh_AuthenticationMismatch h)"

definition IsRefreshCredentialRejected :: "goError \<Rightarrow> bool" where
  "IsRefreshCredentialRejected err = (case asRefreshHTTPError err of None \<Rightarrow> False | Some h \<Rightarrow> rh_CredentialRejected h)"

definition firstNonBlank :: "string list \<Rightarrow> string" where
  "firstNonBlank values = (case find (\<lambda>v. trim_space v \<noteq> '''') values of None \<Rightarrow> '''' | Some v \<Rightarrow> v)"

definition refreshCodeChar :: "char \<Rightarrow> bool" where
  "refreshCodeChar c =
     (let n = (of_char c :: nat)
      in (97 \<le> n \<and> n \<le> 122) \<or> (65 \<le> n \<and> n \<le> 90) \<or> (48 \<le> n \<and> n \<le> 57) \<or> c = CHR ''_'' \<or> c = CHR ''-'' \<or> c = CHR ''.'')"

text \<open>Only what follows the last \<open>#\<close> counts.\<close>

definition sanitizeRefreshErrorCode :: "string \<Rightarrow> string" where
  "sanitizeRefreshErrorCode value0 =
     (let value = rev (takeWhile (\<lambda>c. c \<noteq> CHR ''#'') (rev (trim_space value0)))
      in if value = '''' \<or> length value > 64 \<or> \<not> list_all refreshCodeChar value then '''' else value)"

text \<open>The members \<open>error\<close>, \<open>__type\<close> and \<open>code\<close> of the answer come from \<open>json.Unmarshal\<close>.\<close>

definition newRefreshHTTPError :: "(string \<Rightarrow> string \<times> string \<times> string) \<Rightarrow> string \<Rightarrow> int \<Rightarrow> string \<Rightarrow> goError" where
  "newRefreshHTTPError members source statusCode body =
     (let (e, ty, co) = members body;
          lower = to_lower body;
          plain = (statusCode \<noteq> 408 \<and> statusCode \<noteq> 425 \<and> statusCode \<noteq> 429 \<and> statusCode < 500);
          mismatch = (plain \<and> list_ex (contains lower) [''bad credentials'', ''invalid_client'', ''invalid client'',
              ''invalid_grant'', ''invalid grant'', ''invalid_request'', ''invalid request'']);
          rejected = (plain \<and> list_ex (contains lower) [''bad credentials'', ''invalid_grant'', ''invalid grant'', ''invalid_token'',
              ''refresh token revoked'', ''refresh token is revoked'', ''token has been revoked'', ''invalid refresh token'',
              ''refresh token invalid'', ''refresh token has expired'', ''refresh token expired''])
      in RefreshHTTPErr \<lparr>rh_Upstream = source, rh_StatusCode = statusCode,
           rh_Code = sanitizeRefreshErrorCode (firstNonBlank [e, ty, co]),
           rh_AuthenticationMismatch = (statusCode = 401 \<or> mismatch), rh_CredentialRejected = (statusCode = 401 \<or> rejected)\<rparr>)"

definition isRevokedRefreshCredentialError :: "string \<Rightarrow> bool" where
  "isRevokedRefreshCredentialError lower =
     list_ex (contains lower) [''invalid_grant'', ''invalid grant'', ''bad credentials'', ''refresh token revoked'',
       ''refresh token is revoked'', ''token has been revoked'', ''invalid_token'', ''invalid refresh token'',
       ''refresh token invalid'', ''refresh token has expired'', ''refresh token expired'']"

definition classifyRefreshFailure :: "string \<Rightarrow> goError option \<Rightarrow> goError" where
  "classifyRefreshFailure endpoint err =
     (let message = ''token refresh failed'' @ (case err of None \<Rightarrow> '''' | Some e \<Rightarrow> '': '' @ errorText e);
          is_err = (\<lambda>P. case err of None \<Rightarrow> False | Some e \<Rightarrow> P e);
          local_config = (is_err IsBindError \<or> is_err isLocalConfigurationError);
          kind = (if local_config then UpstreamErrorLocalConfiguration
                  else if is_err IsRefreshUpstreamBlocked then UpstreamErrorEndpointUnavailable
                  else if is_err IsRefreshCredentialRejected \<or> isRevokedRefreshCredentialError (to_lower message) \<or>
                          HasStatusToken message ''401'' then UpstreamErrorAuthRevoked
                  else if is_err (\<lambda>e. errors_Is e ContextCanceled) then UpstreamErrorCanceled
                  else UpstreamErrorTransient)
      in UpstreamErr (upstreamError kind endpoint message False (kind \<noteq> UpstreamErrorLocalConfiguration \<and> kind \<noteq> UpstreamErrorCanceled)) err)"

section \<open>The coordinator\<close>

record coordinatedRefreshResult =
  rr_accessToken :: string
  rr_refreshToken :: string
  rr_expiresAt :: int
  rr_profileArn :: string
  rr_err :: "goError option"

definition failedRefresh :: "goError \<Rightarrow> coordinatedRefreshResult" where
  "failedRefresh e = \<lparr>rr_accessToken = '''', rr_refreshToken = '''', rr_expiresAt = 0, rr_profileArn = '''', rr_err = Some e\<rparr>"

text \<open>A call is its number; its result is kept by the system below.\<close>

record tokenRefreshCoordinator =
  tr_inFlight :: "(string, nat) gomap"
  tr_active :: int
  tr_waiting :: int
  tr_notify :: "nat option"
  tr_upstreamBlockedUntil :: gotime

definition sharedTokenRefreshCoordinator :: tokenRefreshCoordinator where
  "sharedTokenRefreshCoordinator =
     \<lparr>tr_inFlight = [], tr_active = 0, tr_waiting = 0, tr_notify = Some 0, tr_upstreamBlockedUntil = zero_time\<rparr>"

definition refreshUpstreamBlockCooldown :: duration where
  "refreshUpstreamBlockCooldown = 30 * second"

definition refreshUpstreamBlockError :: "gotime \<Rightarrow> tokenRefreshCoordinator \<Rightarrow> goError option \<times> tokenRefreshCoordinator" where
  "refreshUpstreamBlockError now c =
     (let remaining = time_sub (tr_upstreamBlockedUntil c) now
      in if remaining \<le> 0 then (None, c\<lparr>tr_upstreamBlockedUntil := zero_time\<rparr>)
         else (Some (WrapError (errorText ErrRefreshUpstreamBlocked @ ''; retry in '' @ durText (dur_round remaining second))
                      ErrRefreshUpstreamBlocked), c))"

definition markRefreshUpstreamBlocked :: "gotime \<Rightarrow> duration \<Rightarrow> tokenRefreshCoordinator \<Rightarrow> tokenRefreshCoordinator" where
  "markRefreshUpstreamBlocked now duration0 c =
     (let until = now + (if duration0 \<le> 0 then refreshUpstreamBlockCooldown else duration0)
      in if until > tr_upstreamBlockedUntil c then c\<lparr>tr_upstreamBlockedUntil := until\<rparr> else c)"

definition dropQueuedRefresh :: "tokenRefreshCoordinator \<Rightarrow> tokenRefreshCoordinator" where
  "dropQueuedRefresh c = (if tr_waiting c > 0 then c\<lparr>tr_waiting := tr_waiting c - 1\<rparr> else c)"

text \<open>
  One round of \<open>acquireSlot\<close> under the mutex: \<open>None\<close> when the slot was taken, otherwise the channel
  to wait for. When the deadline passes while waiting, the task leaves the queue.
\<close>

definition acquireSlot :: "int \<Rightarrow> tokenRefreshCoordinator \<Rightarrow> nat option \<times> tokenRefreshCoordinator" where
  "acquireSlot limit0 c0 =
     (let limit = (if limit0 < 1 then 1 else limit0);
          c = (case tr_notify c0 of None \<Rightarrow> c0\<lparr>tr_notify := Some 0\<rparr> | Some _ \<Rightarrow> c0)
      in if tr_active c < limit
         then (None, c\<lparr>tr_active := tr_active c + 1, tr_waiting := (if tr_waiting c > 0 then tr_waiting c - 1 else tr_waiting c)\<rparr>)
         else (tr_notify c, c))"

definition acquireSlotTimedOut :: "tokenRefreshCoordinator \<Rightarrow> tokenRefreshCoordinator" where
  "acquireSlotTimedOut c = (if tr_waiting c > 0 then c\<lparr>tr_waiting := tr_waiting c - 1\<rparr> else c)"

definition signalWaitersLocked :: "tokenRefreshCoordinator \<Rightarrow> tokenRefreshCoordinator" where
  "signalWaitersLocked c = (case tr_notify c of None \<Rightarrow> c\<lparr>tr_notify := Some 0\<rparr> | Some g \<Rightarrow> c\<lparr>tr_notify := Some (Suc g)\<rparr>)"

definition releaseSlot :: "tokenRefreshCoordinator \<Rightarrow> tokenRefreshCoordinator" where
  "releaseSlot c = signalWaitersLocked (if tr_active c > 0 then c\<lparr>tr_active := tr_active c - 1\<rparr> else c)"

section \<open>Requests for a refresh\<close>

definition isKiroAPIKeyAccount :: "Account \<Rightarrow> bool" where
  "isKiroAPIKeyAccount a \<longleftrightarrow> equal_fold (acc_AuthMethod a) ''api_key'' \<or> equal_fold (acc_AuthMethod a) ''apikey'' \<or> acc_KiroApiKey a \<noteq> ''''"

definition tokenStillValid :: "gotime \<Rightarrow> Account \<Rightarrow> int \<Rightarrow> bool" where
  "tokenStillValid now a before0 =
     (if acc_AccessToken a = '''' then False
      else if acc_ExpiresAt a = 0 then True
      else unix_of now < acc_ExpiresAt a - (if before0 \<le> 0 then tokenRefreshSkewSeconds else before0))"

definition copyRuntimeCredentialFields :: "Account \<Rightarrow> Account \<Rightarrow> Account" where
  "copyRuntimeCredentialFields dst src =
     dst\<lparr>acc_AccessToken := acc_AccessToken src, acc_RefreshToken := acc_RefreshToken src,
         acc_ExpiresAt := acc_ExpiresAt src, acc_ProfileArn := acc_ProfileArn src\<rparr>"

definition applyCoordinatedRefreshResult :: "Account \<Rightarrow> coordinatedRefreshResult \<Rightarrow> Account" where
  "applyCoordinatedRefreshResult a r =
     (if rr_err r \<noteq> None then a
      else a\<lparr>acc_AccessToken := rr_accessToken r,
             acc_RefreshToken := (if rr_refreshToken r \<noteq> '''' then rr_refreshToken r else acc_RefreshToken a),
             acc_ExpiresAt := rr_expiresAt r,
             acc_ProfileArn := (if rr_profileArn r \<noteq> '''' then rr_profileArn r else acc_ProfileArn a)\<rparr>)"

text \<open>
  The first part of \<open>RefreshContext\<close>, up to the registration: what it returns, \<open>None\<close> when it goes on, with the
  account as it left it. \<open>latest\<close> is the pool's copy of the account.
\<close>

definition refreshEntry ::
    "AutoRefreshConfig \<Rightarrow> gotime \<Rightarrow> Account option \<Rightarrow> Account \<Rightarrow> bool \<Rightarrow> tokenRefreshCoordinator \<Rightarrow>
     goError option option \<times> Account \<times> tokenRefreshCoordinator" where
  "refreshEntry settings now latest account0 force c =
     (if isKiroAPIKeyAccount account0 then (Some None, account0, c)
      else if trim_space (acc_RefreshToken account0) = '''' then (Some (Some (PlainError ''refresh token is missing'')), account0, c)
      else let account = (case latest of None \<Rightarrow> account0 | Some l \<Rightarrow> copyRuntimeCredentialFields account0 l)
           in if \<not> force \<and> tokenStillValid now account (ar_TokenRefreshBeforeSeconds settings) then (Some None, account, c)
              else case refreshUpstreamBlockError now c of
                     (Some e, c') \<Rightarrow> (Some (Some e), account, c')
                   | (None, c') \<Rightarrow> (None, account, c'))"

definition refreshKey :: "Account \<Rightarrow> string" where
  "refreshKey a = (let k = trim_space (acc_ID a) in if k = '''' then ''refresh:'' @ acc_RefreshToken a else k)"

datatype registration = JoinedCall nat | QueueFull | StartedCall nat

text \<open>The registration under the mutex; \<open>call\<close> is the number of the call made if there is none for the key.\<close>

definition registerRefresh :: "int \<Rightarrow> nat \<Rightarrow> string \<Rightarrow> tokenRefreshCoordinator \<Rightarrow> registration \<times> tokenRefreshCoordinator" where
  "registerRefresh capacity call key c =
     (case gm_get (tr_inFlight c) key of
        Some existing \<Rightarrow> (JoinedCall existing, c)
      | None \<Rightarrow>
          if tr_waiting c \<ge> capacity then (QueueFull, c)
          else (StartedCall call, c\<lparr>tr_inFlight := gm_put key call (tr_inFlight c), tr_waiting := tr_waiting c + 1\<rparr>))"

text \<open>What ends the wait of a caller: the call is done, its context is, or its timer fires.\<close>

datatype waitEnd = CallDone coordinatedRefreshResult | CallerDone goError | WaitTimedOut

fun wait_refresh :: "Account \<Rightarrow> waitEnd \<Rightarrow> Account \<times> goError option" where
  "wait_refresh a (CallDone r) = (applyCoordinatedRefreshResult a r, rr_err r)"
| "wait_refresh a (CallerDone e) = (a, Some e)"
| "wait_refresh a WaitTimedOut = (a, Some (PlainError ''timed out waiting for concurrent token refresh''))"

section \<open>Credentials in the configuration\<close>

record AccountCredentialUpdate =
  cu_ID :: string
  cu_AccessToken :: string
  cu_RefreshToken :: string
  cu_ExpiresAt :: int
  cu_ProfileArn :: string

definition applyCredentialUpdate :: "AccountCredentialUpdate \<Rightarrow> Account \<Rightarrow> Account" where
  "applyCredentialUpdate u a =
     a\<lparr>acc_AccessToken := cu_AccessToken u,
       acc_RefreshToken := (if cu_RefreshToken u \<noteq> '''' then cu_RefreshToken u else acc_RefreshToken a),
       acc_ExpiresAt := cu_ExpiresAt u,
       acc_ProfileArn := (if cu_ProfileArn u \<noteq> '''' then cu_ProfileArn u else acc_ProfileArn a)\<rparr>"

text \<open>The index of an ID is its last position, as each entry of the map overwrites the one before.\<close>

fun lastIndex :: "string \<Rightarrow> nat \<Rightarrow> Account list \<Rightarrow> nat option" where
  "lastIndex aid i [] = None"
| "lastIndex aid i (a # as) = (case lastIndex aid (Suc i) as of Some j \<Rightarrow> Some j | None \<Rightarrow> if acc_ID a = aid then Some i else None)"

definition credentialStep :: "Account list \<Rightarrow> AccountCredentialUpdate \<Rightarrow> Account list" where
  "credentialStep as u = (case lastIndex (cu_ID u) 0 as of None \<Rightarrow> as | Some i \<Rightarrow> as[i := applyCredentialUpdate u (as ! i)])"

text \<open>\<open>saved\<close> is the error of \<open>Save\<close>.\<close>

definition UpdateAccountCredentialsBatch ::
    "goError option \<Rightarrow> AccountCredentialUpdate list \<Rightarrow> Config \<Rightarrow> goError option \<times> Config" where
  "UpdateAccountCredentialsBatch saved updates cfg =
     (if updates = [] then (None, cfg)
      else case saved of
             Some e \<Rightarrow> (Some e, cfg)
           | None \<Rightarrow> (None, cfg\<lparr>cfg_Accounts := foldl credentialStep (cfg_Accounts cfg) updates\<rparr>))"

definition updateOf :: "Account \<Rightarrow> coordinatedRefreshResult \<Rightarrow> AccountCredentialUpdate" where
  "updateOf a r = \<lparr>cu_ID = acc_ID a, cu_AccessToken = rr_accessToken r, cu_RefreshToken = rr_refreshToken r,
     cu_ExpiresAt = rr_expiresAt r, cu_ProfileArn = rr_profileArn r\<rparr>"

section \<open>Tasks\<close>

text \<open>
  The phases of the goroutine of a call. \<open>Starting\<close> to \<open>Sleeping\<close> it is in the queue, from \<open>Refreshing\<close> to \<open>Releasing\<close> it has a
  slot, in \<open>Reporting\<close> it has neither.
\<close>

datatype refreshPhase =
    Starting
  | Dropping coordinatedRefreshResult
  | Acquiring
  | Sleeping nat
  | Refreshing
  | Marking coordinatedRefreshResult
  | Persisting coordinatedRefreshResult
  | AwaitFlush coordinatedRefreshResult
  | Persisted coordinatedRefreshResult "goError option"
  | Releasing coordinatedRefreshResult
  | Reporting coordinatedRefreshResult

record refreshTask =
  rk_key :: string
  rk_call :: nat
  rk_account :: Account
  rk_settings :: AutoRefreshConfig
  rk_phase :: refreshPhase

text \<open>The outcome of \<open>auth.RefreshTokenContext\<close>, and the error of its context if it is over.\<close>

record refreshOutcome =
  ro_tokens :: coordinatedRefreshResult
  ro_ctxErr :: "goError option"

definition refreshTimeout :: "AutoRefreshConfig \<Rightarrow> duration" where
  "refreshTimeout settings =
     (let timeout = ar_RefreshTaskTimeoutSeconds settings * second in if timeout < 10 * second then minute else timeout)"

definition timeoutError :: "AutoRefreshConfig \<Rightarrow> goError option \<Rightarrow> goError \<Rightarrow> goError" where
  "timeoutError settings ctxErr e =
     (case ctxErr of None \<Rightarrow> e
      | Some ce \<Rightarrow> WrapError (''token refresh timed out after '' @ durText (refreshTimeout settings) @ '': '' @ errorText ce) ce)"

text \<open>What \<open>execute\<close> does next with the outcome.\<close>

definition afterRefresh :: "AutoRefreshConfig \<Rightarrow> refreshOutcome \<Rightarrow> refreshPhase" where
  "afterRefresh settings ro =
     (case rr_err (ro_tokens ro) of
        None \<Rightarrow> Persisting (ro_tokens ro)
      | Some e \<Rightarrow>
          let classified = classifyRefreshFailure ''token_refresh'' (Some (timeoutError settings (ro_ctxErr ro) e));
              result = (ro_tokens ro)\<lparr>rr_err := Some classified\<rparr>
          in if IsRefreshUpstreamBlocked classified then Marking result else Releasing result)"

definition afterPersist :: "coordinatedRefreshResult \<Rightarrow> goError option \<Rightarrow> coordinatedRefreshResult" where
  "afterPersist r err =
     (case err of None \<Rightarrow> r | Some e \<Rightarrow> r\<lparr>rr_err := Some (WrapError (''persist refreshed credentials: '' @ errorText e) e)\<rparr>)"

section \<open>The system\<close>

text \<open>
  The coordinator, the batcher with its waiting requests, the goroutines that will flush them and the batches they
  have taken, the tasks, the results of finished calls, the configuration and the pool.
\<close>

record refreshSys =
  rs_coord :: tokenRefreshCoordinator
  rs_pending :: "(nat \<times> AccountCredentialUpdate) list"
  rs_flushers :: nat
  rs_batches :: "(nat \<times> AccountCredentialUpdate) list list"
  rs_tasks :: "refreshTask list"
  rs_results :: "(nat, coordinatedRefreshResult) gomap"
  rs_nextCall :: nat
  rs_config :: Config
  rs_pool :: AccountPool

definition setPhase :: "refreshTask \<Rightarrow> refreshPhase \<Rightarrow> refreshTask list \<Rightarrow> refreshTask list" where
  "setPhase t ph ts = t\<lparr>rk_phase := ph\<rparr> # remove1 t ts"

text \<open>\<open>Persist\<close> appends a request; the first of a batch starts the goroutine that flushes it.\<close>

definition persistRequest :: "nat \<Rightarrow> AccountCredentialUpdate \<Rightarrow> refreshSys \<Rightarrow> refreshSys" where
  "persistRequest call u s =
     (let pending = rs_pending s @ [(call, u)]
      in s\<lparr>rs_pending := pending, rs_flushers := (if length pending = 1 then Suc (rs_flushers s) else rs_flushers s)\<rparr>)"

text \<open>\<open>flushSoon\<close>: it takes the batch under the mutex, writes it, and answers every request of the batch.\<close>

definition flushTake :: "refreshSys \<Rightarrow> refreshSys" where
  "flushTake s = s\<lparr>rs_pending := [], rs_flushers := rs_flushers s - 1, rs_batches := rs_pending s # rs_batches s\<rparr>"

definition answerTask :: "nat set \<Rightarrow> goError option \<Rightarrow> refreshTask \<Rightarrow> refreshTask" where
  "answerTask calls err t =
     (case rk_phase t of AwaitFlush r \<Rightarrow> if rk_call t \<in> calls then t\<lparr>rk_phase := Persisted r err\<rparr> else t | _ \<Rightarrow> t)"

definition flushWrite :: "goError option \<Rightarrow> (nat \<times> AccountCredentialUpdate) list \<Rightarrow> refreshSys \<Rightarrow> refreshSys" where
  "flushWrite saved batch s =
     (let (err, cfg) = UpdateAccountCredentialsBatch saved (map snd batch) (rs_config s)
      in s\<lparr>rs_config := cfg, rs_batches := remove1 batch (rs_batches s), rs_tasks := map (answerTask (fst ` set batch) err) (rs_tasks s)\<rparr>)"

definition storeCredentials :: "refreshTask \<Rightarrow> coordinatedRefreshResult \<Rightarrow> AccountPool \<Rightarrow> AccountPool" where
  "storeCredentials t r p = UpdateCredentials (acc_ID (rk_account t)) (rr_accessToken r) (rr_refreshToken r) (rr_expiresAt r) (rr_profileArn r) p"

text \<open>The last section of \<open>run\<close>.\<close>

definition reportCall :: "refreshTask \<Rightarrow> coordinatedRefreshResult \<Rightarrow> refreshSys \<Rightarrow> refreshSys" where
  "reportCall t r s =
     s\<lparr>rs_coord := (rs_coord s)\<lparr>tr_inFlight := gm_del (rk_key t) (tr_inFlight (rs_coord s))\<rparr>,
       rs_results := gm_put (rk_call t) r (rs_results s), rs_tasks := remove1 t (rs_tasks s)\<rparr>"

definition newTask :: "Account \<Rightarrow> AutoRefreshConfig \<Rightarrow> nat \<Rightarrow> refreshTask" where
  "newTask a settings call = \<lparr>rk_key = refreshKey a, rk_call = call, rk_account = a, rk_settings = settings, rk_phase = Starting\<rparr>"

text \<open>Steps of the tasks that take them towards their end.\<close>

inductive task_step :: "AutoRefreshConfig set \<Rightarrow> refreshSys \<Rightarrow> refreshSys \<Rightarrow> bool" for S where
  blocked: "t \<in> set (rs_tasks s) \<Longrightarrow> rk_phase t = Starting \<Longrightarrow> refreshUpstreamBlockError now (rs_coord s) = (Some e, c) \<Longrightarrow>
    task_step S s (s\<lparr>rs_coord := c, rs_tasks := setPhase t (Dropping (failedRefresh e)) (rs_tasks s)\<rparr>)"
| dropped: "t \<in> set (rs_tasks s) \<Longrightarrow> rk_phase t = Dropping r \<Longrightarrow>
    task_step S s (s\<lparr>rs_coord := dropQueuedRefresh (rs_coord s), rs_tasks := setPhase t (Reporting r) (rs_tasks s)\<rparr>)"
| unblocked: "t \<in> set (rs_tasks s) \<Longrightarrow> rk_phase t = Starting \<Longrightarrow> refreshUpstreamBlockError now (rs_coord s) = (None, c) \<Longrightarrow>
    task_step S s (s\<lparr>rs_coord := c, rs_tasks := setPhase t Acquiring (rs_tasks s)\<rparr>)"
| acquired: "t \<in> set (rs_tasks s) \<Longrightarrow> rk_phase t = Acquiring \<Longrightarrow> R \<in> S \<Longrightarrow>
    acquireSlot (ar_RefreshConcurrency R) (rs_coord s) = (None, c) \<Longrightarrow>
    task_step S s (s\<lparr>rs_coord := c, rs_tasks := setPhase t Refreshing (rs_tasks s)\<rparr>)"
| woken: "t \<in> set (rs_tasks s) \<Longrightarrow> rk_phase t = Sleeping g \<Longrightarrow> tr_notify (rs_coord s) = Some g' \<Longrightarrow> g < g' \<Longrightarrow>
    task_step S s (s\<lparr>rs_tasks := setPhase t Acquiring (rs_tasks s)\<rparr>)"
| refreshed: "t \<in> set (rs_tasks s) \<Longrightarrow> rk_phase t = Refreshing \<Longrightarrow>
    task_step S s (s\<lparr>rs_tasks := setPhase t (afterRefresh (rk_settings t) ro) (rs_tasks s)\<rparr>)"
| marked: "t \<in> set (rs_tasks s) \<Longrightarrow> rk_phase t = Marking r \<Longrightarrow>
    task_step S s (s\<lparr>rs_coord := markRefreshUpstreamBlocked now refreshUpstreamBlockCooldown (rs_coord s),
                     rs_tasks := setPhase t (Releasing r) (rs_tasks s)\<rparr>)"
| persisting: "t \<in> set (rs_tasks s) \<Longrightarrow> rk_phase t = Persisting r \<Longrightarrow>
    task_step S s (persistRequest (rk_call t) (updateOf (rk_account t) r) (s\<lparr>rs_tasks := setPhase t (AwaitFlush r) (rs_tasks s)\<rparr>))"
| taken: "rs_flushers s > 0 \<Longrightarrow> task_step S s (flushTake s)"
| written: "batch \<in> set (rs_batches s) \<Longrightarrow> task_step S s (flushWrite saved batch s)"
| stored: "t \<in> set (rs_tasks s) \<Longrightarrow> rk_phase t = Persisted r err \<Longrightarrow>
    task_step S s (s\<lparr>rs_pool := (if err = None then storeCredentials t r (rs_pool s) else rs_pool s),
                     rs_tasks := setPhase t (Releasing (afterPersist r err)) (rs_tasks s)\<rparr>)"
| released: "t \<in> set (rs_tasks s) \<Longrightarrow> rk_phase t = Releasing r \<Longrightarrow>
    task_step S s (s\<lparr>rs_coord := releaseSlot (rs_coord s), rs_tasks := setPhase t (Reporting r) (rs_tasks s)\<rparr>)"
| reported: "t \<in> set (rs_tasks s) \<Longrightarrow> rk_phase t = Reporting r \<Longrightarrow> task_step S s (reportCall t r s)"

text \<open>
  All steps: those of the tasks, the part of a request before the registration, a registration that starts a
  call, a task that finds no slot, and a task that gives up waiting. Joining a call and finding the
  queue full change nothing. The settings in force are some member of \<open>S\<close>, which may change from step to step.
\<close>

inductive refresh_step :: "AutoRefreshConfig set \<Rightarrow> refreshSys \<Rightarrow> refreshSys \<Rightarrow> bool" for S where
  tasks: "task_step S s s' \<Longrightarrow> refresh_step S s s'"
| entered: "R \<in> S \<Longrightarrow> refreshEntry R now latest a force (rs_coord s) = (ret, a', c) \<Longrightarrow> refresh_step S s (s\<lparr>rs_coord := c\<rparr>)"
| started: "R \<in> S \<Longrightarrow> registerRefresh (ar_RefreshQueueCapacity R) (rs_nextCall s) (refreshKey a) (rs_coord s) = (StartedCall call, c) \<Longrightarrow>
    refresh_step S s (s\<lparr>rs_coord := c, rs_nextCall := Suc (rs_nextCall s), rs_tasks := newTask a R call # rs_tasks s\<rparr>)"
| no_slot: "t \<in> set (rs_tasks s) \<Longrightarrow> rk_phase t = Acquiring \<Longrightarrow> R \<in> S \<Longrightarrow>
    acquireSlot (ar_RefreshConcurrency R) (rs_coord s) = (Some g, c) \<Longrightarrow>
    refresh_step S s (s\<lparr>rs_coord := c, rs_tasks := setPhase t (Sleeping g) (rs_tasks s)\<rparr>)"
| gave_up: "t \<in> set (rs_tasks s) \<Longrightarrow> rk_phase t = Sleeping g \<Longrightarrow>
    refresh_step S s (s\<lparr>rs_coord := acquireSlotTimedOut (rs_coord s),
      rs_tasks := setPhase t (Reporting (failedRefresh (WrapError (''token refresh queue wait timed out: '' @ errorText e) e))) (rs_tasks s)\<rparr>)"

definition startSys :: "Config \<Rightarrow> AccountPool \<Rightarrow> refreshSys" where
  "startSys cfg p = \<lparr>rs_coord = sharedTokenRefreshCoordinator, rs_pending = [], rs_flushers = 0, rs_batches = [], rs_tasks = [],
     rs_results = [], rs_nextCall = 0, rs_config = cfg, rs_pool = p\<rparr>"

inductive refresh_reachable :: "AutoRefreshConfig set \<Rightarrow> refreshSys \<Rightarrow> bool" for S where
  start: "refresh_reachable S (startSys cfg p)"
| step: "refresh_reachable S s \<Longrightarrow> refresh_step S s t \<Longrightarrow> refresh_reachable S t"

end
