(* ===== verification/Refresh_Coordinator_Props.thy ===== *)
theory Refresh_Coordinator_Props
  imports Refresh_Coordinator Pool_Properties
begin

text \<open>
  The refresh coordinator under every interleaving: the counters are exact and within their limits, a key has one call at a time, no
  wake-up is lost, and every call can be brought to its end; new credentials are written all or not at all.
\<close>

section \<open>Counting tasks\<close>

definition slotPhase :: "refreshPhase \<Rightarrow> bool" where
  "slotPhase ph = (case ph of Refreshing \<Rightarrow> True | Marking _ \<Rightarrow> True | Persisting _ \<Rightarrow> True | AwaitFlush _ \<Rightarrow> True
     | Persisted _ _ \<Rightarrow> True | Releasing _ \<Rightarrow> True | _ \<Rightarrow> False)"

definition queuePhase :: "refreshPhase \<Rightarrow> bool" where
  "queuePhase ph = (case ph of Starting \<Rightarrow> True | Dropping _ \<Rightarrow> True | Acquiring \<Rightarrow> True | Sleeping _ \<Rightarrow> True | _ \<Rightarrow> False)"

definition numIn :: "(refreshPhase \<Rightarrow> bool) \<Rightarrow> refreshTask list \<Rightarrow> int" where
  "numIn P ts = int (length (filter (\<lambda>t. P (rk_phase t)) ts))"

lemma phase_simps [simp]:
  "\<not> slotPhase Starting" "\<not> slotPhase (Dropping r)" "\<not> slotPhase Acquiring" "\<not> slotPhase (Sleeping g)" "slotPhase Refreshing"
  "slotPhase (Marking r)" "slotPhase (Persisting r)" "slotPhase (AwaitFlush r)" "slotPhase (Persisted r e)" "slotPhase (Releasing r)"
  "\<not> slotPhase (Reporting r)"
  "queuePhase Starting" "queuePhase (Dropping r)" "queuePhase Acquiring" "queuePhase (Sleeping g)" "\<not> queuePhase Refreshing"
  "\<not> queuePhase (Marking r)" "\<not> queuePhase (Persisting r)" "\<not> queuePhase (AwaitFlush r)" "\<not> queuePhase (Persisted r e)"
  "\<not> queuePhase (Releasing r)" "\<not> queuePhase (Reporting r)"
  by (simp_all add: slotPhase_def queuePhase_def)

lemma afterRefresh_phase [simp]: "slotPhase (afterRefresh R ro)" "\<not> queuePhase (afterRefresh R ro)" "afterRefresh R ro \<noteq> AwaitFlush r"
    "afterRefresh R ro \<noteq> Sleeping g"
  by (auto simp: afterRefresh_def Let_def split: option.splits)

lemma numIn_Cons [simp]: "numIn P (t # ts) = (if P (rk_phase t) then 1 else 0) + numIn P ts" and numIn_Nil [simp]: "numIn P [] = 0"
  by (simp_all add: numIn_def)

lemma numIn_remove1: "t \<in> set ts \<Longrightarrow> numIn P (remove1 t ts) = numIn P ts - (if P (rk_phase t) then 1 else 0)"
  by (induction ts) auto

lemma numIn_setPhase [simp]:
  "t \<in> set ts \<Longrightarrow> numIn P (setPhase t ph ts) = numIn P ts - (if P (rk_phase t) then 1 else 0) + (if P ph then 1 else 0)"
  by (simp add: setPhase_def numIn_remove1)

lemma numIn_nonneg [simp]: "0 \<le> numIn P ts"
  by (simp add: numIn_def)

lemma numIn_pos: "t \<in> set ts \<Longrightarrow> P (rk_phase t) \<Longrightarrow> 0 < numIn P ts"
  by (auto simp: numIn_def filter_empty_conv)

lemma numIn_answer [simp]: "numIn slotPhase (map (answerTask C err) ts) = numIn slotPhase ts" "numIn queuePhase (map (answerTask C err) ts) = numIn queuePhase ts"
  by (induction ts) (auto simp: answerTask_def split: refreshPhase.splits)

section \<open>The parts of the invariant\<close>

lemma coord_frames [simp]:
  "tr_active (snd (refreshUpstreamBlockError now c)) = tr_active c" "tr_waiting (snd (refreshUpstreamBlockError now c)) = tr_waiting c"
  "tr_notify (snd (refreshUpstreamBlockError now c)) = tr_notify c" "tr_inFlight (snd (refreshUpstreamBlockError now c)) = tr_inFlight c"
  "tr_active (markRefreshUpstreamBlocked now d c) = tr_active c" "tr_waiting (markRefreshUpstreamBlocked now d c) = tr_waiting c"
  "tr_notify (markRefreshUpstreamBlocked now d c) = tr_notify c" "tr_inFlight (markRefreshUpstreamBlocked now d c) = tr_inFlight c"
  "tr_active (dropQueuedRefresh c) = tr_active c" "tr_notify (dropQueuedRefresh c) = tr_notify c" "tr_inFlight (dropQueuedRefresh c) = tr_inFlight c"
  "tr_active (acquireSlotTimedOut c) = tr_active c" "tr_notify (acquireSlotTimedOut c) = tr_notify c" "tr_inFlight (acquireSlotTimedOut c) = tr_inFlight c"
  "tr_waiting (releaseSlot c) = tr_waiting c" "tr_inFlight (releaseSlot c) = tr_inFlight c"
  by (auto simp: refreshUpstreamBlockError_def markRefreshUpstreamBlocked_def dropQueuedRefresh_def acquireSlotTimedOut_def
      releaseSlot_def signalWaitersLocked_def Let_def split: option.splits)

lemma block_frames:
  assumes "refreshUpstreamBlockError now c = (e, c')"
  shows "tr_active c' = tr_active c" "tr_waiting c' = tr_waiting c" "tr_notify c' = tr_notify c" "tr_inFlight c' = tr_inFlight c"
  using coord_frames(1-4) [of now c] unfolding assms by simp_all

lemma entry_frames:
  assumes "refreshEntry R now latest a force c = (ret, a', c')"
  shows "tr_active c' = tr_active c" "tr_waiting c' = tr_waiting c" "tr_notify c' = tr_notify c" "tr_inFlight c' = tr_inFlight c"
proof -
  have "c' = c \<or> c' = snd (refreshUpstreamBlockError now c)"
    using assms by (auto simp: refreshEntry_def Let_def split: if_splits option.splits prod.splits)
  then show "tr_active c' = tr_active c" "tr_waiting c' = tr_waiting c" "tr_notify c' = tr_notify c" "tr_inFlight c' = tr_inFlight c" by auto
qed

lemma acquire_frames:
  assumes "acquireSlot limit c = (g, c')"
  shows "tr_inFlight c' = tr_inFlight c" "tr_notify c' = Some (case tr_notify c of None \<Rightarrow> 0 | Some n \<Rightarrow> n)"
    "g = None \<Longrightarrow> tr_active c' = tr_active c + 1 \<and> tr_active c < max 1 limit \<and> tr_waiting c' = (if tr_waiting c > 0 then tr_waiting c - 1 else tr_waiting c)"
    "g \<noteq> None \<Longrightarrow> tr_active c' = tr_active c \<and> tr_waiting c' = tr_waiting c \<and> g = tr_notify c' \<and> tr_active c > 0"
  using assms by (auto simp: acquireSlot_def Let_def split: if_splits option.splits)

lemma register_frames:
  assumes "registerRefresh cap n key c = (StartedCall k, c')"
  shows "k = n" "tr_active c' = tr_active c" "tr_waiting c' = tr_waiting c + 1" "tr_waiting c < cap" "tr_notify c' = tr_notify c"
    "gm_get (tr_inFlight c) key = None" "tr_inFlight c' = gm_put key n (tr_inFlight c)"
  using assms by (auto simp: registerRefresh_def split: if_splits option.splits)

text \<open>The counters of the coordinator.\<close>

definition countInv :: "refreshSys \<Rightarrow> bool" where
  "countInv s \<longleftrightarrow> tr_active (rs_coord s) = numIn slotPhase (rs_tasks s) \<and> tr_waiting (rs_coord s) = numIn queuePhase (rs_tasks s)"

text \<open>A task that sleeps on a channel still open has someone to wake it.\<close>

definition sleepInv :: "refreshSys \<Rightarrow> bool" where
  "sleepInv s \<longleftrightarrow> (\<forall>t \<in> set (rs_tasks s). \<forall>g. rk_phase t = Sleeping g \<longrightarrow>
     (\<exists>g'. tr_notify (rs_coord s) = Some g' \<and> g \<le> g' \<and> (g = g' \<longrightarrow> tr_active (rs_coord s) > 0)))"

text \<open>A request for a write is in the pending batch or in one being written, and a pending batch has its goroutine.\<close>

definition batchInv :: "refreshSys \<Rightarrow> bool" where
  "batchInv s \<longleftrightarrow> (rs_pending s \<noteq> [] \<longrightarrow> rs_flushers s > 0) \<and>
     (\<forall>t \<in> set (rs_tasks s). \<forall>r. rk_phase t = AwaitFlush r \<longrightarrow>
        rk_call t \<in> fst ` set (rs_pending s) \<or> (\<exists>b \<in> set (rs_batches s). rk_call t \<in> fst ` set b))"

text \<open>A key has one call at a time, and a call one result.\<close>

definition identsOf :: "refreshTask list \<Rightarrow> (string \<times> nat) list" where
  "identsOf ts = map (\<lambda>t. (rk_key t, rk_call t)) ts"

definition flightInv :: "refreshSys \<Rightarrow> bool" where
  "flightInv s \<longleftrightarrow> distinct (map fst (identsOf (rs_tasks s))) \<and> distinct (map snd (identsOf (rs_tasks s))) \<and>
     (\<forall>key call. gm_get (tr_inFlight (rs_coord s)) key = Some call \<longleftrightarrow> (key, call) \<in> set (identsOf (rs_tasks s))) \<and>
     (\<forall>call. (call \<in> snd ` set (identsOf (rs_tasks s)) \<longrightarrow> call < rs_nextCall s \<and> gm_get (rs_results s) call = None) \<and>
        (gm_get (rs_results s) call \<noteq> None \<longrightarrow> call < rs_nextCall s))"

lemma set_setPhase: "set (setPhase t ph ts) \<subseteq> insert (t\<lparr>rk_phase := ph\<rparr>) (set ts)"
  using set_remove1_subset by (fastforce simp: setPhase_def)

lemma idents_setPhase: "t \<in> set ts \<Longrightarrow> mset (identsOf (setPhase t ph ts)) = mset (identsOf ts)"
proof -
  assume t: "t \<in> set ts"
  have "mset ts = add_mset t (mset (remove1 t ts))" using t by simp
  then have "mset (identsOf ts) = image_mset (\<lambda>t. (rk_key t, rk_call t)) (add_mset t (mset (remove1 t ts)))"
    unfolding identsOf_def by (metis mset_map)
  then show ?thesis by (simp add: identsOf_def setPhase_def)
qed

lemma idents_answer [simp]: "identsOf (map (answerTask C err) ts) = identsOf ts"
  by (induction ts) (auto simp: identsOf_def answerTask_def split: refreshPhase.splits)

lemma flightInv_cong:
  assumes "flightInv s" "mset (identsOf (rs_tasks s')) = mset (identsOf (rs_tasks s))" "tr_inFlight (rs_coord s') = tr_inFlight (rs_coord s)"
    "rs_nextCall s' = rs_nextCall s" "rs_results s' = rs_results s"
  shows "flightInv s'"
proof -
  have eq: "set (identsOf (rs_tasks s')) = set (identsOf (rs_tasks s))" using assms(2) by (metis set_mset_mset)
  have d: "distinct (map f (identsOf (rs_tasks s'))) = distinct (map f (identsOf (rs_tasks s)))" for f :: "string \<times> nat \<Rightarrow> 'b"
    by (rule mset_eq_imp_distinct_iff) (simp add: assms(2))
  show ?thesis using assms(1) unfolding flightInv_def by (simp add: eq d assms(3-5))
qed

lemma flushWrite_tasks:
  "rs_tasks (flushWrite saved batch s) =
     map (answerTask (fst ` set batch) (fst (UpdateAccountCredentialsBatch saved (map snd batch) (rs_config s)))) (rs_tasks s)"
  by (simp add: flushWrite_def Let_def case_prod_unfold)

lemma flushWrite_frames:
  "rs_coord (flushWrite saved batch s) = rs_coord s" "rs_pending (flushWrite saved batch s) = rs_pending s"
  "rs_batches (flushWrite saved batch s) = remove1 batch (rs_batches s)" "rs_flushers (flushWrite saved batch s) = rs_flushers s"
  "rs_results (flushWrite saved batch s) = rs_results s" "rs_nextCall (flushWrite saved batch s) = rs_nextCall s"
  by (simp_all add: flushWrite_def Let_def case_prod_unfold)

lemmas sys_frames = persistRequest_def flushTake_def reportCall_def Let_def flushWrite_tasks flushWrite_frames

section \<open>The invariant holds\<close>

inductive_cases refresh_stepE: "refresh_step S s s'"
inductive_cases task_stepE: "task_step S s s'"

lemma countInv_task: "task_step S s s' \<Longrightarrow> countInv s \<Longrightarrow> countInv s'"
proof (erule task_stepE, goal_cases)
  case (4 t R c)
  have "0 < numIn queuePhase (rs_tasks s)" using 4 by (intro numIn_pos) auto
  then show ?case using 4 acquire_frames [OF 4(6)] by (simp add: countInv_def)
next
  case (2 t r)
  have "0 < numIn queuePhase (rs_tasks s)" using 2 by (intro numIn_pos) auto
  then show ?case using 2 by (simp add: countInv_def dropQueuedRefresh_def)
next
  case (12 t r)
  have "0 < numIn slotPhase (rs_tasks s)" using 12 by (intro numIn_pos) auto
  then show ?case using 12 by (auto simp: countInv_def releaseSlot_def signalWaitersLocked_def split: option.splits)
qed (auto simp: countInv_def block_frames sys_frames numIn_remove1)

lemma countInv_step: "refresh_step S s s' \<Longrightarrow> countInv s \<Longrightarrow> countInv s'"
proof (erule refresh_stepE, goal_cases)
  case (5 t g e)
  have "0 < numIn queuePhase (rs_tasks s)" using 5 by (intro numIn_pos) auto
  then show ?case using 5 by (simp add: countInv_def acquireSlotTimedOut_def)
qed (auto simp: countInv_def entry_frames register_frames newTask_def acquire_frames dest: countInv_task)

text \<open>A task found after a step in phase \<open>P\<close> was there before, unless the step put it there.\<close>

lemma setPhase_old: "t' \<in> set (setPhase t ph ts) \<Longrightarrow> rk_phase t' \<noteq> ph \<Longrightarrow> t' \<in> set ts"
  using set_setPhase by fastforce

lemma refreshed_old: "t' \<in> set (setPhase t (afterRefresh R ro) ts) \<Longrightarrow> t' \<in> set ts \<or> rk_phase t' = afterRefresh R ro"
  using setPhase_old by blast

lemma answer_old: "rk_phase (answerTask C err t) = Sleeping g \<Longrightarrow> t \<in> T \<Longrightarrow> answerTask C err t \<in> T"
  by (auto simp: answerTask_def split: refreshPhase.splits if_splits)

lemma sleepInv_frame:
  assumes "sleepInv s" "tr_notify (rs_coord s') = tr_notify (rs_coord s)" "tr_active (rs_coord s) \<le> tr_active (rs_coord s')"
    and "\<And>t g. t \<in> set (rs_tasks s') \<Longrightarrow> rk_phase t = Sleeping g \<Longrightarrow> t \<in> set (rs_tasks s)"
  shows "sleepInv s'"
  unfolding sleepInv_def
proof (intro ballI allI impI)
  fix t g
  assume "t \<in> set (rs_tasks s')" "rk_phase t = Sleeping g"
  then show "\<exists>g'. tr_notify (rs_coord s') = Some g' \<and> g \<le> g' \<and> (g = g' \<longrightarrow> 0 < tr_active (rs_coord s'))"
    using assms unfolding sleepInv_def by (metis less_le_trans)
qed

lemma sleepInv_awake: "sleepInv s \<Longrightarrow> tr_notify (rs_coord s) = None \<Longrightarrow> t \<in> set (rs_tasks s) \<Longrightarrow> rk_phase t \<noteq> Sleeping g"
  by (auto simp: sleepInv_def)

lemma sleepInv_acquire:
  assumes "sleepInv s" "acquireSlot limit (rs_coord s) = (g, c)" "ph = (case g of None \<Rightarrow> Refreshing | Some n \<Rightarrow> Sleeping n)"
  shows "sleepInv (s\<lparr>rs_coord := c, rs_tasks := setPhase t ph (rs_tasks s)\<rparr>)"
  unfolding sleepInv_def
proof (intro ballI allI impI)
  fix t' n
  assume "t' \<in> set (rs_tasks (s\<lparr>rs_coord := c, rs_tasks := setPhase t ph (rs_tasks s)\<rparr>))" "rk_phase t' = Sleeping n"
  then have t': "t' \<in> set (setPhase t ph (rs_tasks s))" "rk_phase t' = Sleeping n" by simp_all
  show "\<exists>g'. tr_notify (rs_coord (s\<lparr>rs_coord := c, rs_tasks := setPhase t ph (rs_tasks s)\<rparr>)) = Some g' \<and> n \<le> g' \<and>
      (n = g' \<longrightarrow> 0 < tr_active (rs_coord (s\<lparr>rs_coord := c, rs_tasks := setPhase t ph (rs_tasks s)\<rparr>)))"
  proof (cases "ph = Sleeping n")
    case True
    then have "g = Some n" using assms(3) by (simp split: option.splits)
    then have "tr_notify c = Some n" "0 < tr_active c" using acquire_frames(4) [OF assms(2)] by auto
    then show ?thesis by simp
  next
    case False
    then have "t' \<in> set (rs_tasks s)" using t' setPhase_old by metis
    then obtain g' where "tr_notify (rs_coord s) = Some g'" "n \<le> g'" "n = g' \<longrightarrow> tr_active (rs_coord s) > 0"
      using assms(1) t'(2) unfolding sleepInv_def by metis
    moreover have "tr_active (rs_coord s) \<le> tr_active c" using acquire_frames(3,4) [OF assms(2)] by (cases g) auto
    ultimately show ?thesis using acquire_frames(2) [OF assms(2)] by auto
  qed
qed

lemma sleepInv_release:
  assumes "sleepInv s"
  shows "sleepInv (s\<lparr>rs_coord := releaseSlot (rs_coord s), rs_tasks := setPhase t (Reporting r) (rs_tasks s)\<rparr>)"
  unfolding sleepInv_def
proof (intro ballI allI impI)
  fix t' n
  assume "t' \<in> set (rs_tasks (s\<lparr>rs_coord := releaseSlot (rs_coord s), rs_tasks := setPhase t (Reporting r) (rs_tasks s)\<rparr>))"
    "rk_phase t' = Sleeping n"
  then have "t' \<in> set (rs_tasks s)" using setPhase_old by fastforce
  then obtain g' where "tr_notify (rs_coord s) = Some g'" "n \<le> g'"
    using assms \<open>rk_phase t' = Sleeping n\<close> unfolding sleepInv_def by metis
  then show "\<exists>g'. tr_notify (rs_coord (s\<lparr>rs_coord := releaseSlot (rs_coord s), rs_tasks := setPhase t (Reporting r) (rs_tasks s)\<rparr>)) = Some g' \<and> n \<le> g' \<and>
      (n = g' \<longrightarrow> 0 < tr_active (rs_coord (s\<lparr>rs_coord := releaseSlot (rs_coord s), rs_tasks := setPhase t (Reporting r) (rs_tasks s)\<rparr>)))"
    by (simp add: releaseSlot_def signalWaitersLocked_def)
qed

lemma sleepInv_task: "task_step S s s' \<Longrightarrow> sleepInv s \<Longrightarrow> sleepInv s'"
proof (erule task_stepE, goal_cases)
  case (4 t R c)
  then show ?case using sleepInv_acquire [OF 4(1) 4(6)] by simp
next
  case (12 t r)
  then show ?case using sleepInv_release by simp
next
  case (10 batch saved)
  then show ?case by (elim sleepInv_frame) (auto simp: flushWrite_tasks flushWrite_frames intro: answer_old)
next
  case (13 t r)
  then show ?case by (elim sleepInv_frame) (auto simp: sys_frames dest: set_remove1_subset [THEN subsetD])
next
  case (6 t ro)
  then show ?case by (elim sleepInv_frame) (auto dest!: refreshed_old dest: sym)
qed (elim sleepInv_frame; auto simp: block_frames sys_frames dest: setPhase_old)+

lemma sleepInv_step: "refresh_step S s s' \<Longrightarrow> sleepInv s \<Longrightarrow> sleepInv s'"
proof (erule refresh_stepE, goal_cases)
  case (4 t R g c)
  then show ?case using sleepInv_acquire [OF 4(1) 4(6)] by simp
next
  case (2 R now latest a force ret a' c)
  then show ?case by (elim sleepInv_frame) (auto simp: entry_frames)
next
  case (3 R a call c)
  then show ?case by (elim sleepInv_frame) (auto simp: register_frames newTask_def)
next
  case (5 t g e)
  then show ?case by (elim sleepInv_frame) (auto dest: setPhase_old)
qed (auto dest: sleepInv_task)

lemma batchInv_frame:
  assumes "batchInv s" "rs_pending s' = rs_pending s" "rs_batches s' = rs_batches s" "rs_flushers s' = rs_flushers s"
    and "\<And>t r. t \<in> set (rs_tasks s') \<Longrightarrow> rk_phase t = AwaitFlush r \<Longrightarrow> t \<in> set (rs_tasks s)"
  shows "batchInv s'"
  using assms unfolding batchInv_def by metis

lemma batchInv_persist:
  assumes "batchInv s"
  shows "batchInv (persistRequest (rk_call t) u (s\<lparr>rs_tasks := setPhase t (AwaitFlush r) (rs_tasks s)\<rparr>))"
proof -
  let ?s = "persistRequest (rk_call t) u (s\<lparr>rs_tasks := setPhase t (AwaitFlush r) (rs_tasks s)\<rparr>)"
  have "rk_call t' \<in> fst ` set (rs_pending ?s) \<or> (\<exists>b \<in> set (rs_batches ?s). rk_call t' \<in> fst ` set b)"
    if "t' \<in> set (rs_tasks ?s)" "rk_phase t' = AwaitFlush r'" for t' r'
  proof -
    have "t' = t\<lparr>rk_phase := AwaitFlush r\<rparr> \<or> t' \<in> set (rs_tasks s)" using that(1) set_setPhase by (fastforce simp: persistRequest_def Let_def)
    then show ?thesis using assms that(2) unfolding batchInv_def by (auto simp: persistRequest_def Let_def)
  qed
  moreover have "rs_flushers ?s > 0" using assms by (auto simp: batchInv_def persistRequest_def Let_def)
  ultimately show ?thesis unfolding batchInv_def by blast
qed

lemma batchInv_write:
  assumes "batchInv s"
  shows "batchInv (flushWrite saved batch s)"
proof -
  let ?s = "flushWrite saved batch s"
  have "rk_call t' \<in> fst ` set (rs_pending ?s) \<or> (\<exists>b \<in> set (rs_batches ?s). rk_call t' \<in> fst ` set b)"
    if "t' \<in> set (rs_tasks ?s)" "rk_phase t' = AwaitFlush r'" for t' r'
  proof -
    from that(1) have "t' \<in> answerTask (fst ` set batch) (fst (UpdateAccountCredentialsBatch saved (map snd batch) (rs_config s))) ` set (rs_tasks s)"
      by (simp add: flushWrite_tasks)
    then obtain err t where t: "t' = answerTask (fst ` set batch) err t" "t \<in> set (rs_tasks s)" by (rule imageE)
    have same: "t' = t" "rk_call t \<notin> fst ` set batch" using that(2) t(1) by (auto simp: answerTask_def split: refreshPhase.splits if_splits)
    have "rk_call t \<in> fst ` set (rs_pending s) \<or> (\<exists>b \<in> set (rs_batches s). rk_call t \<in> fst ` set b)"
      using assms t(2) that(2) same(1) unfolding batchInv_def by metis
    moreover have "b \<in> set (remove1 batch (rs_batches s))" if "b \<in> set (rs_batches s)" "rk_call t \<in> fst ` set b" for b
      using that same(2) in_set_remove1 [of b batch "rs_batches s"] by metis
    ultimately show ?thesis unfolding same(1) flushWrite_frames by auto
  qed
  then show ?thesis using assms unfolding batchInv_def flushWrite_frames by blast
qed

lemma batchInv_task: "task_step S s s' \<Longrightarrow> batchInv s \<Longrightarrow> batchInv s'"
proof (erule task_stepE, goal_cases)
  case (8 t r)
  then show ?case using batchInv_persist by simp
next
  case 9
  then show ?case by (auto simp: batchInv_def flushTake_def)
next
  case (10 batch saved)
  then show ?case using batchInv_write by simp
next
  case (6 t ro)
  then show ?case by (elim batchInv_frame) (auto dest!: refreshed_old dest: sym)
next
  case (13 t r)
  then show ?case by (elim batchInv_frame) (auto simp: sys_frames dest: set_remove1_subset [THEN subsetD])
qed (elim batchInv_frame; auto dest: setPhase_old)+

lemma batchInv_step: "refresh_step S s s' \<Longrightarrow> batchInv s \<Longrightarrow> batchInv s'"
proof (erule refresh_stepE, goal_cases)
  case 1
  then show ?case by (auto dest: batchInv_task)
qed (elim batchInv_frame; auto simp: newTask_def dest: setPhase_old)+

lemma flightInvD:
  assumes "flightInv s"
  shows "distinct (map fst (identsOf (rs_tasks s)))" "distinct (map snd (identsOf (rs_tasks s)))"
    "gm_get (tr_inFlight (rs_coord s)) key = Some call \<longleftrightarrow> (key, call) \<in> set (identsOf (rs_tasks s))"
    "call \<in> snd ` set (identsOf (rs_tasks s)) \<Longrightarrow> call < rs_nextCall s \<and> gm_get (rs_results s) call = None"
    "gm_get (rs_results s) call \<noteq> None \<Longrightarrow> call < rs_nextCall s"
  using assms unfolding flightInv_def by (elim conjE, simp)+

lemma flightInv_report:
  assumes "flightInv s" "t \<in> set (rs_tasks s)"
  shows "flightInv (reportCall t r s)"
proof -
  let ?I = "identsOf (rs_tasks s)" and ?J = "identsOf (remove1 t (rs_tasks s))"
  have m: "mset ?I = add_mset (rk_key t, rk_call t) (mset ?J)"
  proof -
    have "mset (rs_tasks s) = add_mset t (mset (remove1 t (rs_tasks s)))" using assms(2) by simp
    then show ?thesis unfolding identsOf_def by (metis mset_map image_mset_add_mset)
  qed
  have dk: "distinct (map fst ((rk_key t, rk_call t) # ?J))" and dc: "distinct (map snd ((rk_key t, rk_call t) # ?J))"
    using flightInvD(1,2) [OF assms(1)] m mset_eq_imp_distinct_iff [of "map fst ?I" "map fst ((rk_key t, rk_call t) # ?J)"]
      mset_eq_imp_distinct_iff [of "map snd ?I" "map snd ((rk_key t, rk_call t) # ?J)"] by (simp_all del: distinct.simps)
  have set: "set ?I = insert (rk_key t, rk_call t) (set ?J)" using m by (metis set_mset_add_mset_insert set_mset_mset)
  have fl: "gm_get (gm_del (rk_key t) (tr_inFlight (rs_coord s))) key = Some call \<longleftrightarrow> (key, call) \<in> set ?J" for key call
  proof -
    have "(key, call) \<in> set ?J \<Longrightarrow> key \<noteq> rk_key t" using dk by force
    then show ?thesis using set flightInvD(3) [OF assms(1), of key call] by (auto simp: gm_get_del)
  qed
  have rest: "(call \<in> snd ` set ?J \<longrightarrow> call < rs_nextCall s \<and> gm_get (gm_put (rk_call t) r (rs_results s)) call = None) \<and>
        (gm_get (gm_put (rk_call t) r (rs_results s)) call \<noteq> None \<longrightarrow> call < rs_nextCall s)" for call
  proof -
    have "call \<in> snd ` set ?J \<Longrightarrow> call \<noteq> rk_call t" using dc by force
    moreover have "rk_call t \<in> snd ` set ?I" using set by force
    then have "rk_call t < rs_nextCall s" using flightInvD(4) [OF assms(1)] by blast
    moreover have "call \<in> snd ` set ?J \<Longrightarrow> call \<in> snd ` set ?I" using set by blast
    ultimately show ?thesis using flightInvD(4,5) [OF assms(1), of call] by (auto simp only: gm_get_put split: if_splits)
  qed
  show ?thesis unfolding flightInv_def using dk dc fl rest by (simp add: reportCall_def)
qed

lemma flightInv_start:
  assumes "flightInv s" "registerRefresh cap (rs_nextCall s) (refreshKey a) (rs_coord s) = (StartedCall call, c)"
  shows "flightInv (s\<lparr>rs_coord := c, rs_nextCall := Suc (rs_nextCall s), rs_tasks := newTask a R call # rs_tasks s\<rparr>)"
proof -
  note f = register_frames [OF assms(2)]
  note I = flightInvD(3) [OF assms(1)] and N = flightInvD(4,5) [OF assms(1)]
  have idents: "identsOf (newTask a R call # rs_tasks s) = (refreshKey a, rs_nextCall s) # identsOf (rs_tasks s)"
    by (simp add: identsOf_def newTask_def f(1))
  have fresh: "(refreshKey a, n) \<notin> set (identsOf (rs_tasks s))" for n using I [of "refreshKey a" n] f(6) by simp
  have call: "rs_nextCall s \<notin> snd ` set (identsOf (rs_tasks s))" "gm_get (rs_results s) (rs_nextCall s) = None"
    using N [of "rs_nextCall s"] by (blast, metis less_irrefl)
  have fl: "gm_get (tr_inFlight c) k = Some n \<longleftrightarrow> (k, n) \<in> set (identsOf (newTask a R call # rs_tasks s))" for k n
    using I [of k n] fresh [of n] unfolding idents f(7) by (auto simp: gm_get_put)
  have rest: "(n \<in> snd ` set (identsOf (newTask a R call # rs_tasks s)) \<longrightarrow> n < Suc (rs_nextCall s) \<and> gm_get (rs_results s) n = None) \<and>
      (gm_get (rs_results s) n \<noteq> None \<longrightarrow> n < Suc (rs_nextCall s))" for n
    using N [of n] call(2) unfolding idents list.set image_insert snd_conv insert_iff less_Suc_eq
    by (cases "n = rs_nextCall s"; cases "n \<in> snd ` set (identsOf (rs_tasks s))") simp_all
  have "distinct (map fst (identsOf (newTask a R call # rs_tasks s)))" "distinct (map snd (identsOf (newTask a R call # rs_tasks s)))"
    using flightInvD(1,2) [OF assms(1)] fresh call(1) unfolding idents by auto
  then show ?thesis using fl rest unfolding flightInv_def by simp
qed

lemma flightInv_task: "task_step S s s' \<Longrightarrow> flightInv s \<Longrightarrow> flightInv s'"
proof (erule task_stepE, goal_cases)
  case (13 t r)
  then show ?case by (simp add: flightInv_report)
qed (elim flightInv_cong; auto simp: idents_setPhase block_frames acquire_frames sys_frames)+

lemma flightInv_step: "refresh_step S s s' \<Longrightarrow> flightInv s \<Longrightarrow> flightInv s'"
proof (erule refresh_stepE, goal_cases)
  case 1
  then show ?case by (auto dest: flightInv_task)
next
  case (3 R a call c)
  then show ?case by (simp add: flightInv_start)
qed (elim flightInv_cong; auto simp: idents_setPhase entry_frames acquire_frames)+

lemma reachable_inv: "refresh_reachable S s \<Longrightarrow> countInv s \<and> sleepInv s \<and> batchInv s \<and> flightInv s"
proof (induction rule: refresh_reachable.induct)
  case (start cfg p)
  show ?case by (simp add: countInv_def sleepInv_def batchInv_def flightInv_def startSys_def sharedTokenRefreshCoordinator_def identsOf_def)
next
  case (step s t)
  then show ?case using countInv_step sleepInv_step batchInv_step flightInv_step by metis
qed

section \<open>Limits\<close>

lemma limits_task:
  assumes "\<forall>R \<in> S. ar_RefreshConcurrency R \<le> L" "1 \<le> L"
  shows "task_step S s s' \<Longrightarrow> tr_active (rs_coord s) \<le> L \<Longrightarrow> tr_active (rs_coord s') \<le> L \<and> tr_waiting (rs_coord s') \<le> tr_waiting (rs_coord s)"
proof (erule task_stepE, goal_cases)
  case (4 t R c)
  have "ar_RefreshConcurrency R \<le> L" using assms(1) 4(5) by blast
  then show ?case using acquire_frames(3) [OF 4(6)] assms(2) 4(2) by auto
next
  case (12 t r)
  then show ?case by (auto simp: releaseSlot_def signalWaitersLocked_def split: option.splits)
qed (auto simp: block_frames dropQueuedRefresh_def sys_frames)

lemma limits_step:
  assumes "\<forall>R \<in> S. ar_RefreshConcurrency R \<le> L \<and> ar_RefreshQueueCapacity R \<le> Q" "1 \<le> L"
  shows "refresh_step S s s' \<Longrightarrow> tr_active (rs_coord s) \<le> L \<and> tr_waiting (rs_coord s) \<le> Q \<Longrightarrow> tr_active (rs_coord s') \<le> L \<and> tr_waiting (rs_coord s') \<le> Q"
proof (erule refresh_stepE, goal_cases)
  case 1
  then show ?case using limits_task [of S L s s'] assms by auto
next
  case (3 R a call c)
  have "ar_RefreshQueueCapacity R \<le> Q" using assms(1) 3(3) by blast
  then show ?case using register_frames [OF 3(4)] 3 by auto
qed (auto simp: entry_frames acquire_frames acquireSlotTimedOut_def)

lemma limits_reachable:
  assumes "\<forall>R \<in> S. ar_RefreshConcurrency R \<le> L \<and> ar_RefreshQueueCapacity R \<le> Q" "1 \<le> L" "0 \<le> Q"
  shows "refresh_reachable S s \<Longrightarrow> tr_active (rs_coord s) \<le> L \<and> tr_waiting (rs_coord s) \<le> Q"
proof (induction rule: refresh_reachable.induct)
  case (start cfg p)
  then show ?case using assms by (simp add: startSys_def sharedTokenRefreshCoordinator_def)
next
  case (step s t)
  then show ?case using limits_step [OF assms(1,2)] by blast
qed

text \<open>
  C14. Refreshes of tokens are coordinated, under every interleaving: the counter of running refreshes is exactly the
  number of tasks that hold a slot and never exceeds the configured concurrency; the counter of waiting ones is
  exactly the number of tasks in the queue and never exceeds its capacity; an account has at most one refresh in flight, which is the
  one later requests join; and a call that is in flight has no result yet, so no result is ever replaced.
\<close>

theorem refresh_coordinator_safe:
  assumes "refresh_reachable S s" "\<forall>R \<in> S. ar_RefreshConcurrency R \<le> L \<and> ar_RefreshQueueCapacity R \<le> Q" "1 \<le> L" "0 \<le> Q"
  shows "tr_active (rs_coord s) = int (length (filter (\<lambda>t. slotPhase (rk_phase t)) (rs_tasks s))) \<and> tr_active (rs_coord s) \<le> L \<and>
     tr_waiting (rs_coord s) = int (length (filter (\<lambda>t. queuePhase (rk_phase t)) (rs_tasks s))) \<and> tr_waiting (rs_coord s) \<le> Q \<and>
     distinct (map rk_key (rs_tasks s)) \<and>
     (\<forall>key call. gm_get (tr_inFlight (rs_coord s)) key = Some call \<longleftrightarrow> (\<exists>t \<in> set (rs_tasks s). rk_key t = key \<and> rk_call t = call)) \<and>
     (\<forall>t \<in> set (rs_tasks s). gm_get (rs_results s) (rk_call t) = None)"
proof -
  note inv = reachable_inv [OF assms(1)]
  have fl: "flightInv s" using inv by simp
  have mem: "(key, call) \<in> set (identsOf (rs_tasks s)) \<longleftrightarrow> (\<exists>t \<in> set (rs_tasks s). rk_key t = key \<and> rk_call t = call)" for key call
    by (auto simp: identsOf_def)
  have "gm_get (rs_results s) (rk_call t) = None" if "t \<in> set (rs_tasks s)" for t
  proof -
    have "(rk_key t, rk_call t) \<in> set (identsOf (rs_tasks s))" using that by (auto simp: identsOf_def)
    then show ?thesis using flightInvD(4) [OF fl, of "rk_call t"] by force
  qed
  moreover have "distinct (map rk_key (rs_tasks s))" using flightInvD(1) [OF fl] by (simp add: identsOf_def comp_def)
  ultimately show ?thesis
    using inv limits_reachable [OF assms(2-4,1)] flightInvD(3) [OF fl] unfolding mem by (simp add: countInv_def numIn_def)
qed

section \<open>Progress\<close>

fun phaseRank :: "refreshPhase \<Rightarrow> nat" where
  "phaseRank Starting = 12"
| "phaseRank (Sleeping g) = 11"
| "phaseRank Acquiring = 10"
| "phaseRank Refreshing = 9"
| "phaseRank (Persisting r) = 7"
| "phaseRank (AwaitFlush r) = 6"
| "phaseRank (Persisted r e) = 5"
| "phaseRank (Marking r) = 4"
| "phaseRank (Releasing r) = 3"
| "phaseRank (Dropping r) = 2"
| "phaseRank (Reporting r) = 1"

definition workLeft :: "refreshSys \<Rightarrow> nat" where
  "workLeft s = 2 * sum_list (map (\<lambda>t. phaseRank (rk_phase t)) (rs_tasks s)) + (if rs_pending s = [] then 0 else 1)"

lemma sum_list_map_remove1_nat: "t \<in> set ts \<Longrightarrow> sum_list (map f (remove1 t ts)) + (f t :: nat) = sum_list (map f ts)"
  by (induction ts) auto

lemma workLeft_setPhase:
  assumes "t \<in> set (rs_tasks s)" "phaseRank ph < phaseRank (rk_phase t)" "rs_tasks s' = setPhase t ph (rs_tasks s)" "rs_pending s' = rs_pending s"
  shows "workLeft s' < workLeft s"
  using assms(2,4) sum_list_map_remove1_nat [OF assms(1), of "\<lambda>t. phaseRank (rk_phase t)"] by (simp add: workLeft_def assms(3) setPhase_def)

lemma answer_rank: "phaseRank (rk_phase (answerTask C err t)) \<le> phaseRank (rk_phase t)"
  by (auto simp: answerTask_def split: refreshPhase.splits)

lemma sum_list_mono_strict:
  fixes f g :: "'a \<Rightarrow> nat"
  assumes "t \<in> set ts" "f t < g t" "\<And>x. f x \<le> g x"
  shows "sum_list (map f ts) < sum_list (map g ts)"
  using assms(1)
proof (induction ts)
  case (Cons a ts)
  have "sum_list (map f ts) \<le> sum_list (map g ts)" by (rule sum_list_mono) (rule assms(3))
  then show ?case using Cons assms(2) assms(3) [of a] by (cases "t = a") (auto intro: add_less_le_mono add_le_less_mono)
qed simp

lemma workLeft_write:
  assumes "t \<in> set (rs_tasks s)" "rk_phase t = AwaitFlush r" "rk_call t \<in> fst ` set batch"
  shows "workLeft (flushWrite saved batch s) < workLeft s"
proof -
  let ?err = "fst (UpdateAccountCredentialsBatch saved (map snd batch) (rs_config s))"
  have "sum_list (map (\<lambda>t. phaseRank (rk_phase (answerTask (fst ` set batch) ?err t))) (rs_tasks s)) < sum_list (map (\<lambda>t. phaseRank (rk_phase t)) (rs_tasks s))"
    by (rule sum_list_mono_strict [OF assms(1) _ answer_rank]) (use assms(2,3) in \<open>simp add: answerTask_def\<close>)
  then show ?thesis by (simp add: workLeft_def flushWrite_tasks flushWrite_frames comp_def)
qed

text \<open>A task that neither waits for a slot nor for a write moves on by itself.\<close>

lemma own_step:
  assumes "t \<in> set (rs_tasks s)" "rk_phase t \<noteq> Acquiring" "\<And>g. rk_phase t \<noteq> Sleeping g" "\<And>r. rk_phase t \<noteq> AwaitFlush r"
  shows "\<exists>s'. task_step S s s' \<and> workLeft s' < workLeft s"
proof (cases "rk_phase t")
  case Starting
  obtain e c where "refreshUpstreamBlockError 0 (rs_coord s) = (e, c)" by (metis surj_pair)
  then show ?thesis using Starting assms(1)
    by (cases e) (auto intro!: exI conjI task_step.unblocked task_step.blocked workLeft_setPhase)
next
  case (Dropping r)
  then show ?thesis using assms(1) by (auto intro!: exI conjI task_step.dropped workLeft_setPhase)
next
  case Refreshing
  let ?r = "\<lparr>rr_accessToken = '''', rr_refreshToken = '''', rr_expiresAt = 0, rr_profileArn = '''', rr_err = None\<rparr>"
  have "workLeft (s\<lparr>rs_tasks := setPhase t (Persisting ?r) (rs_tasks s)\<rparr>) < workLeft s"
    using Refreshing by (intro workLeft_setPhase [OF assms(1), of "Persisting ?r"]) simp_all
  moreover have "afterRefresh (rk_settings t) \<lparr>ro_tokens = ?r, ro_ctxErr = None\<rparr> = Persisting ?r" by (simp add: afterRefresh_def)
  ultimately show ?thesis using task_step.refreshed [OF assms(1) Refreshing] by metis
next
  case (Marking r)
  then show ?thesis using assms(1) by (auto intro!: exI conjI task_step.marked workLeft_setPhase)
next
  case (Persisting r)
  have "workLeft (persistRequest (rk_call t) u (s\<lparr>rs_tasks := setPhase t (AwaitFlush r) (rs_tasks s)\<rparr>)) < workLeft s" for u
    using Persisting sum_list_map_remove1_nat [OF assms(1), of "\<lambda>t. phaseRank (rk_phase t)"]
    by (simp add: workLeft_def persistRequest_def Let_def setPhase_def)
  then show ?thesis using task_step.persisting [OF assms(1) Persisting] by blast
next
  case (Persisted r err)
  then show ?thesis using assms(1) by (auto intro!: exI conjI task_step.stored workLeft_setPhase)
next
  case (Releasing r)
  then show ?thesis using assms(1) by (auto intro!: exI conjI task_step.released workLeft_setPhase)
next
  case (Reporting r)
  have "workLeft (reportCall t r s) < workLeft s"
    using Reporting sum_list_map_remove1_nat [OF assms(1), of "\<lambda>t. phaseRank (rk_phase t)"] by (simp add: workLeft_def reportCall_def)
  then show ?thesis using task_step.reported [OF assms(1) Reporting] by blast
qed (use assms in auto)

lemma flush_step:
  assumes "batchInv s" "t \<in> set (rs_tasks s)" "rk_phase t = AwaitFlush r"
  shows "\<exists>s'. task_step S s s' \<and> workLeft s' < workLeft s"
proof (cases "rs_pending s = []")
  case True
  then obtain b where "b \<in> set (rs_batches s)" "rk_call t \<in> fst ` set b" using assms unfolding batchInv_def by fastforce
  then show ?thesis using task_step.written workLeft_write [OF assms(2,3)] by metis
next
  case False
  then have "rs_flushers s > 0" using assms(1) by (simp add: batchInv_def)
  then show ?thesis using False task_step.taken by (intro exI conjI) (auto simp: workLeft_def flushTake_def)
qed

lemma slot_step:
  assumes "countInv s" "sleepInv s" "S \<noteq> {}" "t \<in> set (rs_tasks s)"
    and waiting: "\<And>u. u \<in> set (rs_tasks s) \<Longrightarrow> rk_phase u = Acquiring \<or> (\<exists>g. rk_phase u = Sleeping g)"
  shows "\<exists>s'. task_step S s s' \<and> workLeft s' < workLeft s"
proof -
  have "filter (\<lambda>u. slotPhase (rk_phase u)) (rs_tasks s) = []" using waiting by (fastforce simp: filter_empty_conv)
  then have active: "tr_active (rs_coord s) = 0" using assms(1) by (simp add: countInv_def numIn_def)
  obtain R where R: "R \<in> S" using assms(3) by blast
  show ?thesis
  proof (cases "rk_phase t = Acquiring")
    case True
    obtain c where "acquireSlot (ar_RefreshConcurrency R) (rs_coord s) = (None, c)"
      using active by (cases "tr_notify (rs_coord s)") (auto simp: acquireSlot_def Let_def)
    then show ?thesis using True R assms(4) by (auto intro!: exI conjI task_step.acquired workLeft_setPhase)
  next
    case False
    then obtain g where g: "rk_phase t = Sleeping g" using waiting [OF assms(4)] by blast
    then obtain g' where "tr_notify (rs_coord s) = Some g'" "g < g'"
      using assms(2,4) active unfolding sleepInv_def by (metis less_irrefl order_le_less)
    then show ?thesis using g assms(4) by (auto intro!: exI conjI task_step.woken workLeft_setPhase)
  qed
qed

lemma progress:
  assumes "refresh_reachable S s" "S \<noteq> {}" "rs_tasks s \<noteq> []"
  shows "\<exists>s'. task_step S s s' \<and> workLeft s' < workLeft s"
proof -
  note inv = reachable_inv [OF assms(1)]
  obtain t where t: "t \<in> set (rs_tasks s)" using assms(3) by (cases "rs_tasks s") auto
  consider (own) u where "u \<in> set (rs_tasks s)" "rk_phase u \<noteq> Acquiring" "\<And>g. rk_phase u \<noteq> Sleeping g" "\<And>r. rk_phase u \<noteq> AwaitFlush r"
    | (flush) u r where "u \<in> set (rs_tasks s)" "rk_phase u = AwaitFlush r"
    | (slot) "\<And>u. u \<in> set (rs_tasks s) \<Longrightarrow> rk_phase u = Acquiring \<or> (\<exists>g. rk_phase u = Sleeping g)" by metis
  then show ?thesis
  proof cases
    case own
    then show ?thesis by (rule own_step)
  next
    case flush
    then show ?thesis using inv by (intro flush_step) auto
  next
    case slot
    then show ?thesis using inv assms(2) t by (intro slot_step [of s S t]) auto
  qed
qed

text \<open>A step of a task loses no call: it is still there or has its result, and results stay.\<close>

definition callsOf :: "refreshSys \<Rightarrow> nat set" where
  "callsOf s = snd ` set (identsOf (rs_tasks s)) \<union> {c. gm_get (rs_results s) c \<noteq> None}"

lemma callsOf_same:
  "mset (identsOf (rs_tasks s')) = mset (identsOf (rs_tasks s)) \<Longrightarrow> rs_results s' = rs_results s \<Longrightarrow> callsOf s \<subseteq> callsOf s'"
  by (drule mset_eq_setD) (simp add: callsOf_def)

lemma callsOf_report: "t \<in> set (rs_tasks s) \<Longrightarrow> callsOf s \<subseteq> callsOf (reportCall t r s)"
proof
  fix c assume t: "t \<in> set (rs_tasks s)" and c: "c \<in> callsOf s"
  have "c \<in> callsOf (reportCall t r s)" if "u \<in> set (rs_tasks s)" "c = rk_call u" for u
  proof (cases "u = t")
    case False
    then have "u \<in> set (remove1 t (rs_tasks s))" using that(1) by simp
    then show ?thesis using that(2) by (force simp: callsOf_def reportCall_def identsOf_def)
  qed (use that(2) in \<open>simp add: callsOf_def reportCall_def gm_get_put\<close>)
  moreover have "c \<in> callsOf (reportCall t r s)" if "gm_get (rs_results s) c \<noteq> None"
    using that by (simp add: callsOf_def reportCall_def gm_get_put)
  moreover have "(\<exists>u \<in> set (rs_tasks s). c = rk_call u) \<or> gm_get (rs_results s) c \<noteq> None" using c by (auto simp: callsOf_def identsOf_def)
  ultimately show "c \<in> callsOf (reportCall t r s)" by blast
qed

lemma callsOf_step: "task_step S s s' \<Longrightarrow> callsOf s \<subseteq> callsOf s'"
proof (erule task_stepE, goal_cases)
  case (13 t r)
  then show ?case using callsOf_report by simp
qed (rule callsOf_same; simp add: idents_setPhase sys_frames)+

text \<open>
  C18. No refresh is stuck: from every reachable state the tasks can all be brought to their end by their own steps, without a timeout
  and without a new request, and then every call that was in flight has its result; in particular
  no wake-up of a task waiting for a slot and no request for a write of credentials is lost.
\<close>

theorem refresh_completes:
  assumes "refresh_reachable S s" "S \<noteq> {}"
  shows "\<exists>s'. (task_step S)\<^sup>*\<^sup>* s s' \<and> rs_tasks s' = [] \<and> (\<forall>t \<in> set (rs_tasks s). gm_get (rs_results s') (rk_call t) \<noteq> None)"
proof -
  have "\<exists>s'. (task_step S)\<^sup>*\<^sup>* s s' \<and> rs_tasks s' = [] \<and> callsOf s \<subseteq> callsOf s'" using assms(1)
  proof (induction "workLeft s" arbitrary: s rule: less_induct)
    case less
    show ?case
    proof (cases "rs_tasks s = []")
      case False
      then obtain u where u: "task_step S s u" "workLeft u < workLeft s" using progress [OF less.prems assms(2)] by blast
      moreover have "refresh_reachable S u" using less.prems u(1) by (metis refresh_reachable.step refresh_step.tasks)
      ultimately obtain s' where "(task_step S)\<^sup>*\<^sup>* u s'" "rs_tasks s' = []" "callsOf u \<subseteq> callsOf s'" using less.hyps by blast
      then show ?thesis using u(1) callsOf_step [OF u(1)] by (meson converse_rtranclp_into_rtranclp subset_trans)
    qed auto
  qed
  then obtain s' where s': "(task_step S)\<^sup>*\<^sup>* s s'" "rs_tasks s' = []" "callsOf s \<subseteq> callsOf s'" by blast
  have "gm_get (rs_results s') (rk_call t) \<noteq> None" if "t \<in> set (rs_tasks s)" for t
  proof -
    have "rk_call t \<in> callsOf s" using that by (force simp: callsOf_def identsOf_def)
    then show ?thesis using s'(2,3) by (auto simp: callsOf_def identsOf_def)
  qed
  then show ?thesis using s'(1,2) by blast
qed

definition demoSys :: refreshSys where
  "demoSys = (startSys demoConfig demoPool)\<lparr>
     rs_coord := sharedTokenRefreshCoordinator\<lparr>tr_inFlight := [(''a'', 0)], tr_waiting := 1\<rparr>, rs_nextCall := 1,
     rs_tasks := [newTask (demoAccount ''a'' 1) defaultAutoRefreshConfig 0]\<rparr>"

lemma demoSys_reachable: "refresh_reachable {defaultAutoRefreshConfig} demoSys"
proof -
  let ?a = "demoAccount ''a'' 1" and ?s = "startSys demoConfig demoPool" and ?R = defaultAutoRefreshConfig
  have key: "refreshKey ?a = ''a''" by code_simp
  have reg: "registerRefresh (ar_RefreshQueueCapacity ?R) (rs_nextCall ?s) (refreshKey ?a) (rs_coord ?s) =
      (StartedCall 0, sharedTokenRefreshCoordinator\<lparr>tr_inFlight := [(''a'', 0)], tr_waiting := 1\<rparr>)"
    unfolding key by (simp add: registerRefresh_def startSys_def sharedTokenRefreshCoordinator_def defaultAutoRefreshConfig_def)
  have "refresh_step {?R} ?s demoSys"
    using refresh_step.started [OF singletonI reg] by (simp add: demoSys_def startSys_def)
  then show ?thesis using refresh_reachable.start refresh_reachable.step by metis
qed

theorem refresh_coordinator_safe_witness: "tr_waiting (rs_coord demoSys) \<le> 2000 \<and> tr_active (rs_coord demoSys) = 0 \<and> length (rs_tasks demoSys) = 1"
  using refresh_coordinator_safe [OF demoSys_reachable, of 5 2000]
  by (simp add: defaultAutoRefreshConfig_def) (simp add: demoSys_def newTask_def)

theorem refresh_completes_witness:
  "\<exists>s'. (task_step {defaultAutoRefreshConfig})\<^sup>*\<^sup>* demoSys s' \<and> rs_tasks s' = [] \<and> gm_get (rs_results s') 0 \<noteq> None"
proof -
  have t: "newTask (demoAccount ''a'' 1) defaultAutoRefreshConfig 0 \<in> set (rs_tasks demoSys)" by (simp add: demoSys_def)
  have c: "rk_call (newTask (demoAccount ''a'' 1) defaultAutoRefreshConfig 0) = 0" by (simp add: newTask_def)
  show ?thesis using refresh_completes [OF demoSys_reachable] t c by (metis insert_not_empty)
qed

section \<open>Credentials\<close>

lemma lastIndex_bounds: "lastIndex aid i as = Some j \<Longrightarrow> i \<le> j \<and> j < i + length as \<and> acc_ID (as ! (j - i)) = aid"
proof (induction as arbitrary: i)
  case (Cons a as)
  show ?case
  proof (cases "lastIndex aid (Suc i) as")
    case None
    then show ?thesis using Cons.prems by (auto split: if_splits)
  next
    case (Some k)
    then have k: "lastIndex aid (Suc i) as = Some j" using Cons.prems by simp
    have "Suc i \<le> j" "j < Suc i + length as" "acc_ID (as ! (j - Suc i)) = aid" using Cons.IH [OF k] by auto
    then show ?thesis by (auto simp: nth_Cons' Suc_diff_le)
  qed
qed simp

lemma lastIndex_None: "lastIndex aid i as = None \<longleftrightarrow> aid \<notin> acc_ID ` set as"
proof (induction as arbitrary: i)
  case (Cons a as)
  show ?case using Cons [of "Suc i"] by (cases "lastIndex aid (Suc i) as") (simp_all add: eq_commute [of aid])
qed simp

lemma credentialStep_map:
  assumes "distinct (map acc_ID as)"
  shows "credentialStep as u = map (\<lambda>a. if acc_ID a = cu_ID u then applyCredentialUpdate u a else a) as"
proof (cases "lastIndex (cu_ID u) 0 as")
  case None
  then have "\<forall>a \<in> set as. acc_ID a \<noteq> cu_ID u" unfolding lastIndex_None by force
  then show ?thesis using None by (simp add: credentialStep_def map_idI)
next
  case (Some i)
  have i: "i < length as" "acc_ID (as ! i) = cu_ID u" using lastIndex_bounds [OF Some] by auto
  have "acc_ID (as ! j) \<noteq> cu_ID u" if "j < length as" "j \<noteq> i" for j
    using assms i that by (metis length_map nth_eq_iff_index_eq nth_map)
  then show ?thesis using Some i by (intro nth_equalityI) (auto simp: credentialStep_def nth_list_update)
qed

lemma acc_ID_update [simp]: "acc_ID (applyCredentialUpdate u a) = acc_ID a"
  by (simp add: applyCredentialUpdate_def)

text \<open>
  A batch of new credentials is written all or not at all: when the configuration cannot be saved the accounts are unchanged;
  otherwise every account has exactly the updates for its ID applied in order, an update without a refresh token or profile
  keeping the old one, and the other accounts are untouched.
\<close>

theorem credential_batch_atomic:
  assumes "distinct (map acc_ID (cfg_Accounts cfg))" "updates \<noteq> []"
  shows "UpdateAccountCredentialsBatch (Some e) updates cfg = (Some e, cfg) \<and>
     UpdateAccountCredentialsBatch None updates cfg =
       (None, cfg\<lparr>cfg_Accounts := map (\<lambda>a. fold applyCredentialUpdate (filter (\<lambda>u. cu_ID u = acc_ID a) updates) a) (cfg_Accounts cfg)\<rparr>)"
proof -
  have "foldl credentialStep as us = map (\<lambda>a. fold applyCredentialUpdate (filter (\<lambda>u. cu_ID u = acc_ID a) us) a) as"
    if "distinct (map acc_ID as)" for as us using that
  proof (induction us arbitrary: as)
    case (Cons u us)
    let ?f = "\<lambda>a. if acc_ID a = cu_ID u then applyCredentialUpdate u a else a"
    have "map acc_ID (map ?f as) = map acc_ID as" by simp
    then have "distinct (map acc_ID (map ?f as))" using Cons.prems by metis
    from Cons.IH [OF this] show ?case using Cons.prems by (simp add: credentialStep_map eq_commute)
  qed simp
  then show ?thesis using assms by (simp add: UpdateAccountCredentialsBatch_def)
qed

theorem credential_batch_atomic_witness:
  "UpdateAccountCredentialsBatch (Some ContextCanceled)
     [\<lparr>cu_ID = ''a'', cu_AccessToken = ''new'', cu_RefreshToken = '''', cu_ExpiresAt = 9, cu_ProfileArn = ''''\<rparr>] demoConfig = (Some ContextCanceled, demoConfig)"
proof -
  have "distinct (map acc_ID (cfg_Accounts demoConfig))" by code_simp
  from credential_batch_atomic [OF this] show ?thesis by simp
qed

end
