(* ===== verification/Request_Content.thy ===== *)
theory Request_Content
  imports Kiro_Payload Prompts
begin

text \<open>
  Texts, images, tool calls and tool results of client messages (\<open>proxy/translator.go\<close>). The content of a message is the
  decoded JSON value, \<open>JNull\<close> for \<open>nil\<close>. The regular expressions of the source are written out as the parsers they denote, and the
  base64 alphabets of \<open>encoding/base64\<close> with their padding rules as predicates.
\<close>

section \<open>Base64\<close>

definition base64Char :: "bool \<Rightarrow> char \<Rightarrow> bool" where
  "base64Char url c =
     (let n = (of_char c :: nat)
      in (65 \<le> n \<and> n \<le> 90) \<or> (97 \<le> n \<and> n \<le> 122) \<or> (48 \<le> n \<and> n \<le> 57) \<or>
         (if url then c = CHR ''-'' \<or> c = CHR ''_'' else c = CHR ''+'' \<or> c = CHR ''/''))"

text \<open>Whether \<open>DecodeString\<close> succeeds: newlines are skipped; with padding the text is made of groups of four.\<close>

definition base64Decodes :: "bool \<Rightarrow> bool \<Rightarrow> string \<Rightarrow> bool" where
  "base64Decodes url padded s =
     (let t = filter (\<lambda>c. c \<noteq> CHR 0x0A \<and> c \<noteq> CHR 0x0D) s;
          digits = takeWhile (base64Char url) t; rest = dropWhile (base64Char url) t
      in if padded
         then (length digits mod 4 = 0 \<and> rest = '''') \<or> (length digits mod 4 = 2 \<and> rest = ''=='') \<or> (length digits mod 4 = 3 \<and> rest = ''='')
         else rest = '''' \<and> length digits mod 4 \<noteq> 1)"

definition decodeBase64Payload :: "string \<Rightarrow> bool" where
  "decodeBase64Payload data \<longleftrightarrow>
     base64Decodes False True data \<or> base64Decodes False False data \<or> base64Decodes True True data \<or> base64Decodes True False data"

section \<open>Images\<close>

definition parseBase64Image :: "string \<Rightarrow> string \<Rightarrow> KiroImage option" where
  "parseBase64Image data format0 =
     (let l = to_lower format0; format = (if l = ''jpg'' then ''jpeg'' else l)
      in if \<not> decodeBase64Payload data then None
         else Some \<lparr>im_Format = (if format = '''' then ''png'' else format), im_Bytes = data\<rparr>)"

definition alnum :: "char \<Rightarrow> bool" where
  "alnum c = (let n = (of_char c :: nat) in (65 \<le> n \<and> n \<le> 90) \<or> (97 \<le> n \<and> n \<le> 122) \<or> (48 \<le> n \<and> n \<le> 57))"

definition formatChar :: "char \<Rightarrow> bool" where
  "formatChar c \<longleftrightarrow> alnum c \<or> c \<in> {CHR ''+'', CHR ''.'', CHR ''-''}"

definition paramChar :: "char \<Rightarrow> bool" where
  "paramChar c \<longleftrightarrow> alnum c \<or> c \<in> {CHR ''='', CHR ''.'', CHR ''_'', CHR '':'', CHR ''+'', CHR ''-''}"

fun splitOn :: "char \<Rightarrow> string \<Rightarrow> string list" where
  "splitOn sep [] = [[]]"
| "splitOn sep (c # s) = (if c = sep then [] # splitOn sep s else (c # hd (splitOn sep s)) # tl (splitOn sep s))"

text \<open>
  The pattern \<open>^data:image/([a-zA-Z0-9+.-]+)(;[a-zA-Z0-9=._:+-]+)*;base64,(.+)$\<close>. Neither a format nor a parameter has a comma or a
  semicolon, so the first comma ends the header and semicolons separate its parts.
\<close>

definition dataURLParts :: "string \<Rightarrow> (string \<times> string) option" where
  "dataURLParts s =
     (let header = takeWhile (\<lambda>c. c \<noteq> CHR '','') s; rest = dropWhile (\<lambda>c. c \<noteq> CHR '','') s;
          parts = splitOn (CHR '';'') header; fmt = drop 11 (hd parts)
      in if rest \<noteq> [] \<and> tl rest \<noteq> [] \<and> length parts \<ge> 2 \<and> last parts = ''base64'' \<and> has_prefix (hd parts) ''data:image/'' \<and>
            fmt \<noteq> '''' \<and> list_all formatChar fmt \<and> list_all (\<lambda>p. p \<noteq> '''' \<and> list_all paramChar p) (tl (butlast parts))
         then Some (fmt, tl rest) else None)"

definition parseDataURL :: "string \<Rightarrow> KiroImage option" where
  "parseDataURL url =
     (let cleaned = trim_space (filter (\<lambda>c. c \<noteq> CHR 0x0A \<and> c \<noteq> CHR 0x0D) url)
      in if contains cleaned ''[Image'' then None
         else case dataURLParts cleaned of None \<Rightarrow> None | Some (fmt, data) \<Rightarrow> parseBase64Image data fmt)"

definition stringOf :: "(string, jsonValue) gomap \<Rightarrow> string \<Rightarrow> string option" where
  "stringOf ms key = (case gm_get ms key of None \<Rightarrow> None | Some v \<Rightarrow> jsonString v)"

definition membersOf :: "(string, jsonValue) gomap \<Rightarrow> string \<Rightarrow> (string, jsonValue) gomap option" where
  "membersOf ms key = (case gm_get ms key of None \<Rightarrow> None | Some v \<Rightarrow> jsonMembers v)"

definition notImage :: "(string, jsonValue) gomap \<Rightarrow> string \<Rightarrow> bool" where
  "notImage ms key = (case stringOf ms key of None \<Rightarrow> False | Some raw \<Rightarrow> \<not> has_prefix (to_lower raw) ''image/'')"

text \<open>The first of several attempts that gives an image.\<close>

fun firstImage :: "KiroImage option list \<Rightarrow> KiroImage option" where
  "firstImage [] = None"
| "firstImage (i # is) = (case i of Some x \<Rightarrow> Some x | None \<Rightarrow> firstImage is)"

definition fromString :: "(string, jsonValue) gomap \<Rightarrow> string \<Rightarrow> (string \<Rightarrow> KiroImage option) \<Rightarrow> KiroImage option" where
  "fromString ms key f = (case stringOf ms key of None \<Rightarrow> None | Some s \<Rightarrow> f s)"

text \<open>What \<open>extractImageFromOpenAIPart\<close> tries once nested objects gave nothing.\<close>

definition ownImage :: "(string, jsonValue) gomap \<Rightarrow> KiroImage option" where
  "ownImage part =
     (if notImage part ''mime'' \<or> notImage part ''media_type'' \<or> notImage part ''mime_type'' then None
      else firstImage
        [fromString part ''url'' parseDataURL,
         fromString part ''b64_json'' (\<lambda>s. parseBase64Image s ''png''),
         (case gm_get part ''image_url'' of
            Some (JString s) \<Rightarrow> parseDataURL s
          | Some (JObject v) \<Rightarrow> fromString v ''url'' parseDataURL
          | _ \<Rightarrow> None),
         fromString part ''image_base64'' (\<lambda>s. parseBase64Image s ''png''),
         fromString part ''data'' parseDataURL,
         fromString part ''data'' (\<lambda>s. parseBase64Image s ''png'')])"

definition imagePartType :: "(string, jsonValue) gomap \<Rightarrow> bool" where
  "imagePartType part \<longleftrightarrow> stringMember ''type'' part \<in> {'''', ''image'', ''image_url'', ''input_image'', ''file'', ''input_file''}"

text \<open>
  The recursion of \<open>extractImageFromOpenAIPart\<close> into \<open>file\<close> and \<open>source\<close>, as a mutual recursion over the value and its
  members: \<open>memberImage\<close> finds the first member with the key and extracts from it.
\<close>

fun valueImage :: "jsonValue \<Rightarrow> KiroImage option" and memberImage :: "string \<Rightarrow> (string \<times> jsonValue) list \<Rightarrow> KiroImage option" where
  "valueImage (JObject part) =
     (if \<not> imagePartType part then None
      else firstImage [memberImage ''file'' part, memberImage ''source'' part, ownImage part])"
| "valueImage _ = None"
| "memberImage key [] = None"
| "memberImage key ((k, v) # ms) = (if k = key then valueImage v else memberImage key ms)"

definition extractImageFromOpenAIPart :: "(string, jsonValue) gomap \<Rightarrow> KiroImage option" where
  "extractImageFromOpenAIPart part = valueImage (JObject part)"

definition firstNonEmpty :: "string list \<Rightarrow> string" where
  "firstNonEmpty ss = (case find (\<lambda>s. s \<noteq> '''') ss of None \<Rightarrow> '''' | Some s \<Rightarrow> s)"

definition sourceImage :: "(string, jsonValue) gomap \<Rightarrow> KiroImage option" where
  "sourceImage source =
     (let mediaType = to_lower (firstNonEmpty [stringMember ''media_type'' source, stringMember ''mediaType'' source, stringMember ''mime_type'' source]);
          format = (if has_prefix mediaType ''image/'' then drop 6 mediaType else mediaType)
      in firstImage
           [fromString source ''data'' parseDataURL,
            fromString source ''data'' (\<lambda>d. parseBase64Image d format),
            fromString source ''url'' parseDataURL])"

definition extractImageFromClaudeBlock :: "(string, jsonValue) gomap \<Rightarrow> KiroImage option" where
  "extractImageFromClaudeBlock block =
     firstImage
       [(case membersOf block ''source'' of None \<Rightarrow> None | Some source \<Rightarrow> sourceImage source),
        extractImageFromOpenAIPart block,
        fromString block ''data'' parseDataURL]"

section \<open>Claude messages\<close>

definition toolResultImagePlaceholder :: string where
  "toolResultImagePlaceholder = ''[Tool returned an image; the image is attached to this message.]''"

definition isImageType :: "string \<Rightarrow> bool" where
  "isImageType t \<longleftrightarrow> t \<in> {''image'', ''image_url'', ''input_image''}"

definition resultBlock :: "string list \<times> KiroImage list \<Rightarrow> jsonValue \<Rightarrow> string list \<times> KiroImage list" where
  "resultBlock = (\<lambda>(parts, images) b.
     (case jsonMembers b of
        None \<Rightarrow> (parts, images)
      | Some block \<Rightarrow>
          (case (if isImageType (stringMember ''type'' block) then extractImageFromClaudeBlock block else None) of
             Some img \<Rightarrow> (parts, images @ [img])
           | None \<Rightarrow>
               (case stringOf block ''text'' of
                  Some t \<Rightarrow> (parts @ [t], images)
                | None \<Rightarrow> (case extractImageFromClaudeBlock block of None \<Rightarrow> (parts, images) | Some img \<Rightarrow> (parts, images @ [img]))))))"

definition extractToolResultContent :: "jsonValue \<Rightarrow> string \<times> KiroImage list" where
  "extractToolResultContent content =
     (case content of
        JString s \<Rightarrow> (s, [])
      | JArray blocks \<Rightarrow> (let (parts, images) = foldl resultBlock ([], []) blocks in (concat parts, images))
      | _ \<Rightarrow> ('''', []))"

definition memberOrNull :: "(string, jsonValue) gomap \<Rightarrow> string \<Rightarrow> jsonValue" where
  "memberOrNull ms key = (case gm_get ms key of None \<Rightarrow> JNull | Some v \<Rightarrow> v)"

definition toolResultBlock :: "(string, jsonValue) gomap \<Rightarrow> KiroToolResult \<times> KiroImage list" where
  "toolResultBlock block =
     (let (content, images) = extractToolResultContent (memberOrNull block ''content'')
      in (\<lparr>tr_ToolUseID = stringMember ''tool_use_id'' block,
           tr_Content = [\<lparr>rc_Text = (if images \<noteq> [] \<and> trim_space content = '''' then toolResultImagePlaceholder else content)\<rparr>],
           tr_Status = (if gm_get block ''is_error'' = Some (JBool True) then ''error'' else ''success'')\<rparr>, images))"

definition userBlock :: "string \<times> KiroImage list \<times> KiroToolResult list \<Rightarrow> jsonValue \<Rightarrow> string \<times> KiroImage list \<times> KiroToolResult list" where
  "userBlock = (\<lambda>(text, images, results) b.
     (case jsonMembers b of
        None \<Rightarrow> (text, images, results)
      | Some block \<Rightarrow>
          let ty = stringMember ''type'' block
          in if ty = ''text'' \<or> ty = ''input_text''
             then (case stringOf block ''text'' of None \<Rightarrow> (text, images, results) | Some t \<Rightarrow> (text @ t, images, results))
             else if isImageType ty
             then (case extractImageFromClaudeBlock block of None \<Rightarrow> (text, images, results) | Some img \<Rightarrow> (text, images @ [img], results))
             else if ty = ''tool_result''
             then (let (r, imgs) = toolResultBlock block in (text, images @ imgs, results @ [r]))
             else (text, images, results)))"

definition extractClaudeUserContent :: "jsonValue \<Rightarrow> string \<times> KiroImage list \<times> KiroToolResult list" where
  "extractClaudeUserContent content =
     (case content of
        JString s \<Rightarrow> (s, [], [])
      | JArray blocks \<Rightarrow> foldl userBlock ('''', [], []) blocks
      | _ \<Rightarrow> ('''', [], []))"

definition assistantBlock :: "string \<times> KiroToolUse list \<Rightarrow> jsonValue \<Rightarrow> string \<times> KiroToolUse list" where
  "assistantBlock = (\<lambda>(text, uses) b.
     (case jsonMembers b of
        None \<Rightarrow> (text, uses)
      | Some block \<Rightarrow>
          let ty = stringMember ''type'' block
          in if ty = ''text'' then (case stringOf block ''text'' of None \<Rightarrow> (text, uses) | Some t \<Rightarrow> (text @ t, uses))
             else if ty = ''tool_use''
             then (text, uses @ [\<lparr>tu_ToolUseID = stringMember ''id'' block, tu_Name = stringMember ''name'' block,
                     tu_Input = JObject (case membersOf block ''input'' of None \<Rightarrow> [] | Some ms \<Rightarrow> ms)\<rparr>])
             else (text, uses)))"

definition extractClaudeAssistantContent :: "jsonValue \<Rightarrow> string \<times> KiroToolUse list" where
  "extractClaudeAssistantContent content =
     (case content of JString s \<Rightarrow> (s, []) | JArray blocks \<Rightarrow> foldl assistantBlock ('''', []) blocks | _ \<Rightarrow> ('''', []))"

section \<open>OpenAI messages\<close>

definition extractOpenAITextPart :: "(string, jsonValue) gomap \<Rightarrow> string option" where
  "extractOpenAITextPart part = stringOf part ''text''"

text \<open>\<open>[Image\s+\d+]\<close> removed everywhere, from left to right; white space then shrinks to single spaces.\<close>

definition imagePlaceholderAt :: "string \<Rightarrow> string option" where
  "imagePlaceholderAt s =
     (let r0 = drop 6 s; r1 = dropWhile regexSpace r0; r2 = dropWhile isDigit09 r1
      in if has_prefix s ''[Image'' \<and> r1 \<noteq> r0 \<and> r2 \<noteq> r1 \<and> has_prefix r2 '']'' then Some (drop 1 r2) else None)"

lemma imagePlaceholderAt_shorter: "imagePlaceholderAt s = Some r \<Longrightarrow> length r < length s"
proof -
  assume a: "imagePlaceholderAt s = Some r"
  then have r: "r = drop 1 (dropWhile isDigit09 (dropWhile regexSpace (drop 6 s)))" and p: "has_prefix s ''[Image''"
    by (auto simp: imagePlaceholderAt_def Let_def split: if_splits)
  have "s \<noteq> []" using p by (auto simp: has_prefix_def)
  moreover have "length r \<le> length (drop 6 s)"
    unfolding r by (metis diff_le_self le_trans length_drop length_dropWhile_le)
  ultimately show ?thesis by (cases s) auto
qed

function removeImagePlaceholders :: "string \<Rightarrow> string" where
  "removeImagePlaceholders s =
     (case s of
        [] \<Rightarrow> []
      | c # cs \<Rightarrow> (case imagePlaceholderAt s of Some r \<Rightarrow> removeImagePlaceholders r | None \<Rightarrow> c # removeImagePlaceholders cs))"
  by auto
termination by (relation "measure length") (auto dest: imagePlaceholderAt_shorter)

declare removeImagePlaceholders.simps [simp del]

definition sanitizeImagePlaceholders :: "string \<Rightarrow> string" where
  "sanitizeImagePlaceholders text = trim_space (joinWith '' '' (fieldsOf (removeImagePlaceholders text)))"

definition openAIPart :: "string \<times> KiroImage list \<Rightarrow> (string, jsonValue) gomap \<Rightarrow> string \<times> KiroImage list" where
  "openAIPart = (\<lambda>(text, images) part.
     (text @ (case extractOpenAITextPart part of None \<Rightarrow> '''' | Some t \<Rightarrow> t),
      images @ (case extractImageFromOpenAIPart part of None \<Rightarrow> [] | Some img \<Rightarrow> [img])))"

definition extractOpenAIUserContent :: "jsonValue \<Rightarrow> string \<times> KiroImage list" where
  "extractOpenAIUserContent content =
     (case content of
        JString s \<Rightarrow> (s, [])
      | _ \<Rightarrow>
          let parts = (case content of JObject part \<Rightarrow> [part] | JArray ps \<Rightarrow> List.map_filter jsonMembers ps | _ \<Rightarrow> []);
              (text, images) = foldl openAIPart ('''', []) parts
          in (if images \<noteq> [] then sanitizeImagePlaceholders text else text, images))"

text \<open>
  The recursion of \<open>extractOpenAIMessageText\<close> descends into \<open>content\<close> members and array items. The fallback is \<open>json.Marshal\<close>.
\<close>

fun valueText :: "jsonValue \<Rightarrow> string" and memberText :: "(string \<times> jsonValue) list \<Rightarrow> string" and itemTexts :: "jsonValue list \<Rightarrow> string list" where
  "valueText JNull = ''''"
| "valueText (JString s) = s"
| "valueText (JBool b) = encodeValue (JBool b)"
| "valueText (JNumber n) = encodeValue (JNumber n)"
| "valueText (JObject ms) =
     (let text = fst (extractOpenAIUserContent (JObject ms)); nested = memberText ms
      in if trim_space text \<noteq> '''' then text
         else if trim_space nested \<noteq> '''' then nested
         else encodeValue (JObject ms))"
| "valueText (JArray items) =
     (let text = fst (extractOpenAIUserContent (JArray items)); parts = filter (\<lambda>t. trim_space t \<noteq> '''') (itemTexts items)
      in if trim_space text \<noteq> '''' then text
         else if parts \<noteq> [] then concat parts
         else encodeValue (JArray items))"
| "memberText [] = ''''"
| "memberText ((k, v) # ms) = (if k = ''content'' then valueText v else memberText ms)"
| "itemTexts [] = []"
| "itemTexts (v # vs) = valueText v # itemTexts vs"

definition extractOpenAIMessageText :: "jsonValue \<Rightarrow> string" where
  "extractOpenAIMessageText content = valueText content"

definition normalizeUserContent :: "string \<Rightarrow> bool \<Rightarrow> string" where
  "normalizeUserContent text hasImages =
     (if trim_space text = '''' \<and> hasImages then ''Please analyze the attached image.'' else trim_space text)"

section \<open>Conversation identifiers\<close>

definition isSyntheticConversationAnchor :: "string \<Rightarrow> bool" where
  "isSyntheticConversationAnchor anchor \<longleftrightarrow>
     trim_space anchor = '''' \<or>
     to_lower (joinWith '' '' (fieldsOf anchor)) \<in> {''.'', ''begin conversation'', ''please analyze the attached image.'', to_lower minimalFallbackUserContent}"

text \<open>\<open>sha1\<close> is \<open>uuid.NewSHA1\<close> in the URL name space, \<open>fresh\<close> a random UUID.\<close>

definition buildConversationID :: "(string \<Rightarrow> string) \<Rightarrow> string \<Rightarrow> string \<Rightarrow> string \<Rightarrow> string \<Rightarrow> string" where
  "buildConversationID sha1 fresh modelID systemPrompt anchor0 =
     (let anchor = trim_space anchor0
      in if isSyntheticConversationAnchor anchor then fresh
         else sha1 (joinWith [newline] [modelID, trim_space systemPrompt, anchor]))"

definition namespaceConversationID :: "(string \<Rightarrow> string) \<Rightarrow> string \<Rightarrow> string \<Rightarrow> KiroPayload \<Rightarrow> KiroPayload" where
  "namespaceConversationID sha1 fresh namespace0 p =
     (let namespace = trim_space namespace0; current0 = trim_space (kp_ConversationID p);
          current = (if current0 = '''' then fresh else current0)
      in if namespace = '''' then p else p\<lparr>kp_ConversationID := sha1 (current @ [newline] @ namespace)\<rparr>)"

text \<open>\<open>parse\<close> is \<open>uuid.Parse\<close> followed by \<open>String\<close>.\<close>

definition claudeSessionIDFromMetadata :: "(string \<Rightarrow> string option) \<Rightarrow> string option \<Rightarrow> string" where
  "claudeSessionIDFromMetadata parse userID =
     (case userID of
        None \<Rightarrow> ''''
      | Some u \<Rightarrow>
          let v = trim_space u
          in if v = '''' then ''''
             else case parse v of
                    Some i \<Rightarrow> i
                  | None \<Rightarrow>
                      (case str_index (to_lower v) ''session_'' of
                         None \<Rightarrow> ''''
                       | Some k \<Rightarrow>
                           let candidate = drop (k + 8) v
                           in if length candidate \<ge> 36 then (case parse (take 36 candidate) of None \<Rightarrow> '''' | Some i \<Rightarrow> i) else ''''))"

end
