(* ===== verification/Translate.thy ===== *)
theory Translate
  imports Request_Content Payload_Limit Responses_Store
begin

text \<open>
  The translation of client requests to the upstream's request and of its answers to the clients' formats
  (\<open>proxy/translator.go\<close>, \<open>proxy/long_tool.go\<close>, \<open>proxy/model_metadata.go\<close>).

  \<open>translateEnv\<close> collects what a translation reads besides the request: the settings, the limits discovered for models, the
  digest of tool names, name-based and random UUIDs, \<open>uuid.Parse\<close> and \<open>json.Unmarshal\<close> into a map (\<open>None\<close> for an error and
  for \<open>null\<close>). A floating-point field is its value with the literal the encoder writes. The prompt-cache time to live that the payload
  also carries belongs to the cache accounting and is left out.
\<close>

section \<open>Requests\<close>

type_synonym floatField = "rat \<times> string"

record ClaudeMessage =
  cm_Role :: string
  cm_Content :: jsonValue

record ClaudeTool =
  cl_Type :: string
  cl_Name :: string
  cl_Description :: string
  cl_InputSchema :: jsonValue

record ClaudeRequest =
  cr_Model :: string
  cr_Messages :: "ClaudeMessage list"
  cr_MaxTokens :: int
  cr_Temperature :: floatField
  cr_TopP :: floatField
  cr_System :: jsonValue
  cr_Thinking :: "ClaudeThinkingConfig option"
  cr_OutputEffort :: "string option"
  cr_Tools :: "ClaudeTool list"
  cr_ToolChoice :: jsonValue
  cr_UserID :: "string option"
  cr_RequireToolUse :: bool
  cr_RequiredToolName :: string
  cr_ToolUsePolicy :: string
  cr_AgentToolSteering :: bool
  cr_NativeEffort :: string
  cr_NativeEffortPath :: string
  cr_ClientUserAgent :: string
  cr_ClientClaudeCodeBeta :: bool

record ToolCall =
  tc_ID :: string
  tc_Type :: string
  tc_Name :: string
  tc_Arguments :: string

record OpenAIMessage =
  om_Role :: string
  om_Content :: jsonValue
  om_Name :: string
  om_ToolCalls :: "ToolCall list"
  om_ToolCallID :: string

record OpenAIRequest =
  or_Model :: string
  or_Messages :: "OpenAIMessage list"
  or_MaxTokens :: int
  or_Temperature :: "string option"
  or_TopP :: "string option"
  or_Tools :: "OpenAITool list"
  or_ReasoningEffort :: string
  or_NativeEffort :: string
  or_NativeEffortPath :: string

record translateEnv =
  te_prompts :: promptSettings
  te_rnd :: "rat \<Rightarrow> rat"
  te_discovered :: discoveredLimits
  te_digest :: "string \<Rightarrow> string"
  te_sha1 :: "string \<Rightarrow> string"
  te_freshConversation :: string
  te_freshContinuation :: string
  te_parseUUID :: "string \<Rightarrow> string option"
  te_unmarshal :: "string \<Rightarrow> (string, jsonValue) gomap option"

text \<open>A translated request: the payload with the fields of \<open>KiroPayload\<close> that only the answer's path reads.\<close>

record translation =
  tx_Payload :: KiroPayload
  tx_hasSystemPriming :: bool
  tx_ToolNameMap :: "(string, string) gomap"
  tx_toolInputPolicies :: "(string, toolInputPolicy) gomap"

section \<open>Thinking\<close>

definition isClaudeThinkingRequested :: "ClaudeThinkingConfig option \<Rightarrow> bool" where
  "isClaudeThinkingRequested thinking =
     (case thinking of None \<Rightarrow> False | Some t \<Rightarrow> to_lower (trim_space (ct_Type t)) \<in> {''enabled'', ''adaptive''})"

definition resolveClaudeThinkingMode :: "ModelEntry list \<Rightarrow> string \<Rightarrow> ClaudeThinkingConfig option \<Rightarrow> string \<Rightarrow> string \<times> bool" where
  "resolveClaudeThinkingMode models m thinking thinkingSuffix =
     (let (actual, suffixThinking) = ParseModelAndThinking models m thinkingSuffix
      in (actual, suffixThinking \<or> isClaudeThinkingRequested thinking))"

definition claudeThinkingPrompt :: "promptSettings \<Rightarrow> ClaudeRequest \<Rightarrow> bool \<Rightarrow> string" where
  "claudeThinkingPrompt ps req enabled =
     (if \<not> enabled \<or> cr_NativeEffort req \<noteq> '''' then ''''
      else let t0 = (case cr_Thinking req of
                 None \<Rightarrow> None | Some t \<Rightarrow> if equal_fold (trim_space (ct_Type t)) ''disabled'' then None else Some t);
               t1 = (if t0 = None \<and> supportsAdaptiveThinking (ps_models ps) (cr_Model req)
                     then Some \<lparr>ct_Type = ''adaptive'', ct_BudgetTokens = 0, ct_Effort = ''''\<rparr> else t0);
               forced = (cr_RequireToolUse req \<and> \<not> clientBudget t1);
               defaultBudget = (if forced then minimumThinkingBudgetTokens else ps_DefaultBudgetTokens ps);
               budgetCap = (if forced \<and> (ps_BudgetCapTokens ps = 0 \<or> ps_BudgetCapTokens ps > minimumThinkingBudgetTokens)
                            then minimumThinkingBudgetTokens else ps_BudgetCapTokens ps)
           in buildThinkingPrompt t1 (cr_OutputEffort req) (cr_MaxTokens req) defaultBudget budgetCap)"

definition openAIThinkingPrompt :: "promptSettings \<Rightarrow> OpenAIRequest \<Rightarrow> bool \<Rightarrow> string" where
  "openAIThinkingPrompt ps req enabled =
     (if \<not> enabled \<or> or_NativeEffort req \<noteq> '''' then ''''
      else buildThinkingPrompt
             (if supportsAdaptiveThinking (ps_models ps) (or_Model req)
              then Some \<lparr>ct_Type = ''adaptive'', ct_BudgetTokens = 0, ct_Effort = or_ReasoningEffort req\<rparr> else None)
             None (or_MaxTokens req) (ps_DefaultBudgetTokens ps) (ps_BudgetCapTokens ps))"

section \<open>Tools\<close>

definition maxToolDescLen :: nat where "maxToolDescLen = 10237"

definition claudeToolNames :: "ClaudeTool list \<Rightarrow> string list" where
  "claudeToolNames tools = map cl_Name tools"

definition callableToolType :: "string \<Rightarrow> bool" where
  "callableToolType ty \<longleftrightarrow> to_lower (trim_space ty) \<in> {''function'', ''custom''}"

definition openAIToolNames :: "OpenAITool list \<Rightarrow> string list" where
  "openAIToolNames tools = map ot_Name (filter (\<lambda>t. callableToolType (ot_Type t)) tools)"

text \<open>\<open>utf8.ValidString\<close>: no byte starts an invalid encoding.\<close>

function validString :: "string \<Rightarrow> bool" where
  "validString s =
     (if s = [] then True
      else let (r, w) = decodeRune s in \<not> (r = runeError \<and> w = 1) \<and> validString (drop w s))"
  by pat_completeness auto
termination
proof (relation "measure length", goal_cases)
  case (2 s p r w)
  then have "1 \<le> w" "s \<noteq> []" using decodeRune_width [of s] by (auto simp: prod_eq_iff)
  then show ?case by (cases s) auto
qed simp

declare validString.simps [simp del]

text \<open>The loop steps back while the text before the cut is not valid.\<close>

fun validCut :: "string \<Rightarrow> nat \<Rightarrow> nat" where
  "validCut s 0 = 0"
| "validCut s (Suc n) = (if validString (take (Suc n) s) then Suc n else validCut s n)"

definition truncateToolDescription :: "string \<Rightarrow> int \<Rightarrow> string" where
  "truncateToolDescription description maxBytes =
     (if maxBytes \<le> 0 then ''''
      else if int (length description) \<le> maxBytes then description
      else take (validCut description (nat maxBytes)) description @ ''...'')"

definition cloneClaudeToolsWithLongToolGuidance :: "promptSettings \<Rightarrow> ClaudeTool list \<Rightarrow> string \<Rightarrow> ClaudeTool list" where
  "cloneClaudeToolsWithLongToolGuidance ps tools m =
     (if tools = [] \<or> \<not> lt_Enabled (ps_longTool ps) \<or> \<not> hasHighRiskToolNames (ps_unicode ps) (claudeToolNames tools) then tools
      else map (\<lambda>t. t\<lparr>cl_Description := appendLongToolDescriptionPolicy ps (cl_Description t) (cl_Name t) m\<rparr>) tools)"

text \<open>One declared tool added to the converted tools, their policies and the registry of names.\<close>

type_synonym conversion = "KiroToolWrapper list \<times> (string, toolInputPolicy) gomap \<times> toolNameRegistry"

definition addClaudeTool ::
    "(string \<Rightarrow> bool) \<Rightarrow> (string \<Rightarrow> string) \<Rightarrow> (string \<Rightarrow> string) \<Rightarrow> bool \<Rightarrow> conversion \<Rightarrow> ClaudeTool \<Rightarrow> conversion" where
  "addClaudeTool floatZero digest f steer = (\<lambda>(result, policies, r) tool.
     (let desc0 = (if steer then enhanceClaudeToolDescription (cl_Name tool) (cl_Description tool) else cl_Description tool);
          desc = truncateToolDescription desc0 (int maxToolDescLen);
          (sanitized, r1) = upstreamName digest f (cl_Name tool) r
      in if sanitized = '''' then (result, policies, r1)
         else (result @ [\<lparr>tw_Name = sanitized, tw_Description = desc, tw_InputSchema = ensureObjectSchema (cl_InputSchema tool)\<rparr>],
               registerToolInputPolicy sanitized (classifyToolInputPolicy floatZero (cl_InputSchema tool)) policies, r1)))"

definition convertClaudeToolsWithRegistry ::
    "(string \<Rightarrow> bool) \<Rightarrow> (string \<Rightarrow> string) \<Rightarrow> (string \<Rightarrow> string) \<Rightarrow> bool \<Rightarrow> ClaudeTool list \<Rightarrow> toolNameRegistry \<Rightarrow> conversion" where
  "convertClaudeToolsWithRegistry floatZero digest f steer tools r = foldl (addClaudeTool floatZero digest f steer) ([], [], r) tools"

definition convertClaudeTools :: "(string \<Rightarrow> bool) \<Rightarrow> (string \<Rightarrow> string) \<Rightarrow> ClaudeTool list \<Rightarrow> KiroToolWrapper list \<times> (string, string) gomap" where
  "convertClaudeTools floatZero digest tools =
     (let (result, _, r) = convertClaudeToolsWithRegistry floatZero digest sanitizeToolName False tools newToolNameRegistry
      in (result, restoreMap r))"

text \<open>The bytes of \<open>normalizeOpenAIToolName\<close> written so far, and whether the last one is a separator.\<close>

definition isSeparator :: "char \<Rightarrow> bool" where
  "isSeparator c \<longleftrightarrow> c = CHR ''_'' \<or> c = CHR ''-''"

fun openAINameLoop :: "string \<Rightarrow> bool \<Rightarrow> string \<Rightarrow> string" where
  "openAINameLoop out sep [] = out"
| "openAINameLoop out sep (c # s) =
     (if alnum c \<or> isSeparator c then openAINameLoop (out @ [c]) (isSeparator c) s
      else if out \<noteq> [] \<and> \<not> sep then openAINameLoop (out @ ''_'') True s
      else openAINameLoop out sep s)"

definition normalizeOpenAIToolName :: "string \<Rightarrow> string" where
  "normalizeOpenAIToolName name =
     rev (dropWhile isSeparator (rev (dropWhile isSeparator (openAINameLoop [] False (trim_space name)))))"

definition customToolParameters :: jsonValue where
  "customToolParameters =
     JObject [(''type'', JString ''object''),
       (''properties'', JObject [(''input'', JObject [(''type'', JString ''string''), (''description'', JString ''Raw text input for this tool'')])]),
       (''required'', JArray [JString ''input''])]"

definition addOpenAITool :: "(string \<Rightarrow> bool) \<Rightarrow> (string \<Rightarrow> string) \<Rightarrow> conversion \<Rightarrow> OpenAITool \<Rightarrow> conversion" where
  "addOpenAITool floatZero digest = (\<lambda>(result, policies, r) tool.
     (let toolType = to_lower (trim_space (ot_Type tool));
          desc = (if length (ot_Description tool) > maxToolDescLen then take maxToolDescLen (ot_Description tool) @ ''...'' else ot_Description tool);
          (name, r1) = upstreamName digest normalizeOpenAIToolName (ot_Name tool) r;
          policy = (if toolType = ''custom'' then toolInputPolicyNone else classifyToolInputPolicy floatZero (ot_Parameters tool));
          parameters = (if toolType = ''custom'' then customToolParameters else ot_Parameters tool)
      in if \<not> callableToolType (ot_Type tool) then (result, policies, r)
         else if trim_space name = '''' then (result, policies, r1)
         else (result @ [\<lparr>tw_Name = name, tw_Description = normalizeToolDesc desc name, tw_InputSchema = ensureObjectSchema parameters\<rparr>],
               registerToolInputPolicy name policy policies, r1)))"

definition convertOpenAIToolsWithRegistry ::
    "(string \<Rightarrow> bool) \<Rightarrow> (string \<Rightarrow> string) \<Rightarrow> OpenAITool list \<Rightarrow> toolNameRegistry \<Rightarrow> conversion" where
  "convertOpenAIToolsWithRegistry floatZero digest tools r = foldl (addOpenAITool floatZero digest) ([], [], r) tools"

definition decodeOpenAIToolArguments :: "(string \<Rightarrow> (string, jsonValue) gomap option) \<Rightarrow> string \<Rightarrow> jsonValue" where
  "decodeOpenAIToolArguments unmarshal raw =
     (if trim_space raw = '''' then JObject []
      else case unmarshal raw of None \<Rightarrow> JObject [(''_raw_arguments'', JString raw)] | Some input \<Rightarrow> JObject input)"

section \<open>Turns\<close>

definition userEntry :: "string \<Rightarrow> string \<Rightarrow> KiroImage list \<Rightarrow> KiroToolResult list \<Rightarrow> KiroHistoryMessage" where
  "userEntry modelID content images results =
     \<lparr>hm_User = Some \<lparr>um_Content = content, um_ModelID = modelID, um_Origin = ''AI_EDITOR'', um_Images = images,
        um_Context = (if results = [] then None else Some \<lparr>uc_Tools = [], uc_ToolResults = results\<rparr>)\<rparr>, hm_Assistant = None\<rparr>"

definition assistantEntry :: "string \<Rightarrow> KiroToolUse list \<Rightarrow> KiroHistoryMessage" where
  "assistantEntry content uses = \<lparr>hm_User = None, hm_Assistant = Some \<lparr>am_Content = content, am_ToolUses = uses\<rparr>\<rparr>"

definition primingTurns :: "string \<Rightarrow> string \<Rightarrow> KiroHistoryMessage list" where
  "primingTurns modelID systemPrompt =
     [userEntry modelID systemPrompt [] [], assistantEntry ''I will follow these instructions.'' []]"

text \<open>The history and the current content, images and tool results.\<close>

type_synonym turns = "KiroHistoryMessage list \<times> string \<times> KiroImage list \<times> KiroToolResult list"

fun claudeTurns :: "string \<Rightarrow> ClaudeMessage list \<Rightarrow> turns" where
  "claudeTurns modelID [] = ([], '''', [], [])"
| "claudeTurns modelID (msg # msgs) =
     (if cm_Role msg = ''user''
      then let (text, images, results) = extractClaudeUserContent (cm_Content msg); content = normalizeUserContent text (images \<noteq> [])
           in if msgs = [] then ([], content, images, results)
              else let (history, cur) = claudeTurns modelID msgs in (userEntry modelID content images results # history, cur)
      else if cm_Role msg = ''assistant''
      then let (content, uses) = extractClaudeAssistantContent (cm_Content msg); (history, cur) = claudeTurns modelID msgs
           in (assistantEntry content uses # history, cur)
      else claudeTurns modelID msgs)"

definition toolMessageResult :: "OpenAIMessage \<Rightarrow> KiroToolResult \<times> KiroImage list" where
  "toolMessageResult msg =
     (let (cleanText, images) = extractOpenAIUserContent (om_Content msg);
          content = (if images \<noteq> []
                     then (if trim_space cleanText = '''' then toolResultImagePlaceholder else trim_space cleanText)
                     else extractOpenAIMessageText (om_Content msg))
      in (\<lparr>tr_ToolUseID = om_ToolCallID msg, tr_Content = [\<lparr>rc_Text = content\<rparr>], tr_Status = ''success''\<rparr>, images))"

definition callOf :: "(string \<Rightarrow> (string, jsonValue) gomap option) \<Rightarrow> ToolCall \<Rightarrow> KiroToolUse" where
  "callOf unmarshal tc =
     \<lparr>tu_ToolUseID = tc_ID tc, tu_Name = tc_Name tc, tu_Input = decodeOpenAIToolArguments unmarshal (tc_Arguments tc)\<rparr>"

fun openAITurns ::
    "(string \<Rightarrow> (string, jsonValue) gomap option) \<Rightarrow> string \<Rightarrow> KiroImage list \<Rightarrow> KiroToolResult list \<Rightarrow> OpenAIMessage list \<Rightarrow> turns" where
  "openAITurns unmarshal modelID images results [] = ([], '''', images, results)"
| "openAITurns unmarshal modelID images results (msg # msgs) =
     (if om_Role msg = ''user''
      then let (text, imgs) = extractOpenAIUserContent (om_Content msg); content = normalizeUserContent text (imgs \<noteq> [])
           in if msgs = [] then ([], content, imgs, results)
              else let (history, cur) = openAITurns unmarshal modelID images results msgs in (userEntry modelID content imgs [] # history, cur)
      else if om_Role msg = ''assistant''
      then let (history, cur) = openAITurns unmarshal modelID images results msgs
           in (assistantEntry (extractOpenAIMessageText (om_Content msg)) (map (callOf unmarshal) (om_ToolCalls msg)) # history, cur)
      else if om_Role msg = ''tool''
      then let (result, imgs) = toolMessageResult msg; images1 = images @ imgs; results1 = results @ [result]
           in if msgs \<noteq> [] \<and> om_Role (hd msgs) \<noteq> ''tool''
              then let (history, cur) = openAITurns unmarshal modelID [] [] msgs in (userEntry modelID '''' images1 results1 # history, cur)
              else openAITurns unmarshal modelID images1 results1 msgs
      else openAITurns unmarshal modelID images results msgs)"

section \<open>Requests to the upstream\<close>

definition finalContent :: "string \<Rightarrow> KiroImage list \<Rightarrow> KiroToolResult list \<Rightarrow> bool \<Rightarrow> string" where
  "finalContent content images results keep =
     (let base = (if content \<noteq> '''' then content
                  else if images \<noteq> [] then normalizeUserContent '''' True
                  else if results \<noteq> [] then buildToolResultsContinuation results
                  else minimalFallbackUserContent);
          continuation = buildToolResultsContinuation results
      in if \<not> keep \<and> results \<noteq> [] \<and> continuation \<noteq> base then trim_space (base @ newlines2 @ continuation) else base)"

definition applyNativeEffort :: "string \<Rightarrow> string \<Rightarrow> KiroPayload \<Rightarrow> KiroPayload" where
  "applyNativeEffort path0 effort p =
     (if effort = '''' then p
      else let path = (if to_lower (trim_space path0) = ''reasoning'' then ''reasoning'' else ''output_config'')
           in p\<lparr>kp_AdditionalModelRequestFields := [(path, JObject [(''effort'', JString effort)])]\<rparr>)"

text \<open>The payload the two translations fill in the same way.\<close>

definition assemblePayload ::
    "string \<Rightarrow> string \<Rightarrow> string \<Rightarrow> KiroImage list \<Rightarrow> KiroToolWrapper list \<Rightarrow> KiroToolResult list \<Rightarrow> KiroHistoryMessage list \<Rightarrow> KiroPayload" where
  "assemblePayload conversationID modelID content images tools attached history =
     \<lparr>kp_AgentContinuationId = '''', kp_AgentTaskType = '''', kp_ChatTriggerType = ''MANUAL'', kp_ConversationID = conversationID,
      kp_Current = \<lparr>um_Content = content, um_ModelID = modelID, um_Origin = ''AI_EDITOR'', um_Images = images,
        um_Context = (if tools \<noteq> [] \<or> attached \<noteq> [] then Some \<lparr>uc_Tools = tools, uc_ToolResults = attached\<rparr> else None)\<rparr>,
      kp_History = history, kp_ProfileArn = '''', kp_InferenceConfig = None, kp_AdditionalModelRequestFields = [],
      kp_transparentClaudeCode = False, kp_transparentHistoryFallbackUsed = False, kp_contextWindowTokens = 0,
      kp_toolResultRepairs = 0, kp_toolSchemaRepairs = 0\<rparr>"

definition firstClaudeConversationAnchor :: "ClaudeMessage list \<Rightarrow> string" where
  "firstClaudeConversationAnchor msgs =
     (case find (\<lambda>m. cm_Role m = ''user'' \<and> trim_space (fst (extractClaudeUserContent (cm_Content m))) \<noteq> '''') msgs of
        None \<Rightarrow> '''' | Some m \<Rightarrow> trim_space (fst (extractClaudeUserContent (cm_Content m))))"

definition firstOpenAIConversationAnchor :: "OpenAIMessage list \<Rightarrow> string" where
  "firstOpenAIConversationAnchor msgs =
     (case find (\<lambda>m. om_Role m = ''user'' \<and> trim_space (extractOpenAIMessageText (om_Content m)) \<noteq> '''') msgs of
        None \<Rightarrow> '''' | Some m \<Rightarrow> trim_space (extractOpenAIMessageText (om_Content m)))"

definition claudeSystemPrompt :: "promptSettings \<Rightarrow> ClaudeRequest \<Rightarrow> bool \<Rightarrow> bool \<Rightarrow> string" where
  "claudeSystemPrompt ps req thinking transparent =
     (let thinkingPrompt = claudeThinkingPrompt ps req thinking;
          s0 = (if transparent then buildClaudeSystemPromptTransparent (cr_System req) thinkingPrompt
                else buildClaudeSystemPrompt ps (cr_System req) thinkingPrompt);
          s1 = (if ps_AgentToolSteering ps \<and> \<not> transparent \<and> cr_AgentToolSteering req \<and> cr_Tools req \<noteq> [] \<and> \<not> contains s0 agentToolPolicyMarker
                then (if s0 \<noteq> '''' then s0 @ newlines2 else s0) @ agentToolPolicy (ps_quote ps) (cr_RequireToolUse req) (cr_RequiredToolName req)
                else s0)
      in appendLongToolPolicy ps s1 (MapModel (ps_models ps) (cr_Model req)) (claudeToolNames (cr_Tools req)))"

definition claudeToolNormalizer :: "bool \<Rightarrow> string \<Rightarrow> string" where
  "claudeToolNormalizer transparent = (if transparent then trim_space else sanitizeToolName)"

text \<open>
  The treatment of the tool turns: the results that stay attached or become text, the history, the tools and the registry.
\<close>

definition settleClaudeHistory ::
    "translateEnv \<Rightarrow> bool \<Rightarrow> KiroHistoryMessage list \<Rightarrow> KiroToolResult list \<Rightarrow> bool \<Rightarrow> KiroToolWrapper list \<Rightarrow> toolNameRegistry \<Rightarrow>
     KiroToolResult list \<times> KiroHistoryMessage list \<times> KiroToolWrapper list \<times> toolNameRegistry" where
  "settleClaudeHistory te transparent history results keep tools r =
     (let ordered = (case orderToolResultsForLastAssistant history results of None \<Rightarrow> [] | Some os \<Rightarrow> os)
      in if transparent
         then preserveStructuredClaudeHistory (te_digest te) (claudeToolNormalizer True) history results ordered keep tools r
         else let results1 = (if keep then ordered else results);
                  (history1, r1) = mapStructuredHistoryToolNames (te_digest te) (claudeToolNormalizer False)
                                     (sanitizeKiroHistory history (if keep then results1 else [])) r
              in (results1, history1, tools, r1))"

definition claudeToKiro :: "translateEnv \<Rightarrow> ClaudeRequest \<Rightarrow> bool \<Rightarrow> bool \<Rightarrow> translation" where
  "claudeToKiro te req thinking transparent =
     (let ps = te_prompts te; modelID = MapModel (ps_models ps) (cr_Model req);
          systemPrompt = claudeSystemPrompt ps req thinking transparent;
          (turns, content, images, results) = claudeTurns modelID (cr_Messages req);
          history0 = (if systemPrompt = '''' then [] else primingTurns modelID systemPrompt) @ trimLeadingAssistantHistory turns;
          history1 = (if transparent then mergeClaudeHistoryTurns history0 else history0);
          tools0 = (if transparent then cloneClaudeToolsWithLongToolGuidance ps (cr_Tools req) modelID else cr_Tools req);
          (tools1, policies, r1) = convertClaudeToolsWithRegistry (ps_floatZero ps) (te_digest te) (claudeToolNormalizer transparent)
                                     (cr_AgentToolSteering req) tools0 newToolNameRegistry;
          keep = (orderToolResultsForLastAssistant history1 results \<noteq> None \<and> tools1 \<noteq> []);
          (results2, history2, tools2, r2) = settleClaudeHistory te transparent history1 results keep tools1 r1;
          content1 = finalContent content images results2 keep;
          content2 = (if transparent then content1
                      else requiredToolAction (ps_quote ps) content1 (cr_RequireToolUse req) (cr_RequiredToolName req));
          session = (if transparent then claudeSessionIDFromMetadata (te_parseUUID te) (cr_UserID req) else '''');
          conversationID = (if session \<noteq> '''' then session
                            else buildConversationID (te_sha1 te) (te_freshConversation te) modelID systemPrompt
                                   (firstClaudeConversationAnchor (cr_Messages req)));
          p0 = (assemblePayload conversationID modelID content2 images tools2 (if keep then results2 else []) history2)
                 \<lparr>kp_AgentTaskType := ''vibe'', kp_AgentContinuationId := te_freshContinuation te, kp_transparentClaudeCode := transparent\<rparr>;
          temperature = (if fst (cr_Temperature req) > 0 then Some (snd (cr_Temperature req)) else None);
          topP = (if fst (cr_TopP req) > 0 then Some (snd (cr_TopP req)) else None);
          p1 = (if cr_MaxTokens req > 0 \<or> temperature \<noteq> None \<or> topP \<noteq> None
                then p0\<lparr>kp_InferenceConfig := Some \<lparr>ic_MaxTokens = cr_MaxTokens req, ic_Temperature = temperature, ic_TopP = topP\<rparr>\<rparr> else p0);
          p2 = applyNativeEffort (cr_NativeEffortPath req) (cr_NativeEffort req) p1
      in \<lparr>tx_Payload = truncatePayloadToLimit (te_rnd te) (te_discovered te) (systemPrompt \<noteq> '''') p2,
          tx_hasSystemPriming = (systemPrompt \<noteq> ''''), tx_ToolNameMap = restoreMap r2, tx_toolInputPolicies = policies\<rparr>)"

definition ClaudeToKiro :: "translateEnv \<Rightarrow> ClaudeRequest \<Rightarrow> bool \<Rightarrow> translation" where
  "ClaudeToKiro te req thinking = claudeToKiro te req thinking False"

definition ClaudeToKiroTransparent :: "translateEnv \<Rightarrow> ClaudeRequest \<Rightarrow> bool \<Rightarrow> translation" where
  "ClaudeToKiroTransparent te req thinking = claudeToKiro te req thinking True"

definition openAISystemPrompt :: "promptSettings \<Rightarrow> OpenAIRequest \<Rightarrow> bool \<Rightarrow> string" where
  "openAISystemPrompt ps req thinking =
     (let texts = filter (\<lambda>s. s \<noteq> '''') (map (\<lambda>m. extractOpenAIMessageText (om_Content m)) (filter (\<lambda>m. om_Role m = ''system'') (or_Messages req)));
          s0 = concat (map (\<lambda>s. s @ [newline]) texts);
          s1 = (if thinking \<and> or_NativeEffort req = '''' \<and> \<not> hasThinkingModeTags s0
                then openAIThinkingPrompt ps req True @ newlines2 @ s0 else s0)
      in appendLongToolPolicy ps (trim_space s1) (MapModel (ps_models ps) (or_Model req)) (openAIToolNames (or_Tools req)))"

definition OpenAIToKiro :: "translateEnv \<Rightarrow> OpenAIRequest \<Rightarrow> bool \<Rightarrow> translation" where
  "OpenAIToKiro te req thinking =
     (let ps = te_prompts te; modelID = MapModel (ps_models ps) (or_Model req);
          nonSystem = filter (\<lambda>m. om_Role m \<noteq> ''system'') (or_Messages req);
          systemPrompt = openAISystemPrompt ps req thinking;
          (turns, content, images, results) = openAITurns (te_unmarshal te) modelID [] [] nonSystem;
          history0 = (if systemPrompt = '''' then [] else primingTurns modelID (trim_space systemPrompt)) @ turns;
          (tools, policies, r1) = convertOpenAIToolsWithRegistry (ps_floatZero ps) (te_digest te) (or_Tools req) newToolNameRegistry;
          ordered = orderToolResultsForLastAssistant history0 results;
          keep = (ordered \<noteq> None \<and> tools \<noteq> []);
          results1 = (if keep then the ordered else results);
          (history1, r2) = mapStructuredHistoryToolNames (te_digest te) normalizeOpenAIToolName
                             (sanitizeKiroHistory history0 (if keep then results1 else [])) r1;
          conversationID = buildConversationID (te_sha1 te) (te_freshConversation te) modelID systemPrompt (firstOpenAIConversationAnchor nonSystem);
          p0 = assemblePayload conversationID modelID (finalContent content images results1 keep) images tools (if keep then results1 else []) history1;
          p1 = (if or_MaxTokens req > 0 \<or> or_Temperature req \<noteq> None \<or> or_TopP req \<noteq> None
                then p0\<lparr>kp_InferenceConfig := Some \<lparr>ic_MaxTokens = or_MaxTokens req, ic_Temperature = or_Temperature req, ic_TopP = or_TopP req\<rparr>\<rparr>
                else p0);
          p2 = applyNativeEffort (or_NativeEffortPath req) (or_NativeEffort req) p1
      in \<lparr>tx_Payload = truncatePayloadToLimit (te_rnd te) (te_discovered te) (systemPrompt \<noteq> '''') p2,
          tx_hasSystemPriming = (systemPrompt \<noteq> ''''), tx_ToolNameMap = restoreMap r2, tx_toolInputPolicies = policies\<rparr>)"

end
