(* ===== verification/Translate_Props.thy ===== *)
theory Translate_Props
  imports Translate Payload_Limit_Props Tool_Schema_Props
begin

text \<open>
  What the translation of a client request guarantees: the tool results of the request sent upstream are the exact answer to the
  calls just before them, or have become text, and the tools the client declared can be called and are given back under their names.
\<close>

section \<open>Turns\<close>

lemma entries_one_sided [simp]:
  "oneSided (userEntry m c is rs)" "oneSided (assistantEntry c us)"
  "hm_Assistant (userEntry m c is rs) = None" "hm_User (assistantEntry c us) = None"
  by (simp_all add: oneSided_def userEntry_def assistantEntry_def)

lemma claudeTurns_one_sided: "list_all oneSided (fst (claudeTurns m msgs))"
  by (induction msgs) (auto simp: Let_def case_prod_unfold)

lemma cleanSteps_prefix: "prefix cleaned (foldl cleanStep cleaned xs)"
proof (induction xs arbitrary: cleaned)
  case (Cons x xs)
  have "prefix cleaned (cleanStep cleaned x)" by (simp add: cleanStep_def)
  then show ?case using Cons.IH by (metis foldl_Cons prefix_order.trans)
qed simp

lemma cleanSteps_first:
  assumes "hm_Assistant x = None"
  shows "foldl cleanStep [] (x # xs) \<noteq> [] \<and> hd (foldl cleanStep [] (x # xs)) = x"
proof -
  have "cleanStep [] x = [x]" using assms by (simp add: cleanStep_def hollowAssistant_def repeatedUser_def split: option.splits)
  then have "prefix [x] (foldl cleanStep [] (x # xs))" using cleanSteps_prefix [of "[x]" xs] by simp
  then show ?thesis by (auto simp: prefix_def)
qed

lemma sanitizeEntry_user: "hm_Assistant m = None \<Longrightarrow> hm_Assistant (sanitizeEntry names active m) = None"
  by (auto simp: sanitizeEntry_def scrubAssistant_def assistantHasToolUses_def Let_def)

lemma trimLeading_user: "h \<noteq> [] \<Longrightarrow> hm_Assistant (hd h) = None \<Longrightarrow> trimLeadingAssistantHistory h = h"
  by (cases h) (simp_all add: trimLeadingAssistantHistory_def)

text \<open>In a history that starts with a user turn the active tool turn survives the cleaning.\<close>

lemma sanitize_keeps_active:
  assumes "orderToolResultsForLastAssistant history rs \<noteq> None" "list_all oneSided history" "hm_Assistant (hd history) = None"
  shows "map tu_ToolUseID (openCalls (sanitizeKiroHistory history rs)) = map tu_ToolUseID (openCalls history)"
proof (cases history rule: rev_cases)
  case (snoc ys y)
  have calls: "openCalls history \<noteq> []" using assms(1) order_sound(1) by blast
  then obtain a where a: "hm_Assistant y = Some a" "am_ToolUses a \<noteq> []" using snoc by (auto simp: openCalls_def split: option.splits)
  then have ys: "ys \<noteq> []" using assms(3) snoc by auto
  have y: "hm_User y = None" using assms(2) snoc a by (simp add: oneSided_def)
  let ?n = "toolNamesOf history"
  let ?C = "foldl cleanStep [] (map (sanitizeEntry ?n False) ys)"
  have act: "assistantHasToolUses y" using a by (simp add: assistantHasToolUses_def)
  have first: "?C \<noteq> []" "hm_Assistant (hd ?C) = None"
    using ys cleanSteps_first [of "sanitizeEntry ?n False (hd ys)" "map (sanitizeEntry ?n False) (tl ys)"] sanitizeEntry_user assms(3) snoc
    by (cases ys; simp)+
  have "cleanStep ?C (scrubAssistant y) = ?C @ [scrubAssistant y]"
    using a y by (auto simp: cleanStep_def hollowAssistant_def repeatedUser_def scrubAssistant_def)
  then have "sanitizeKiroHistory history rs = ?C @ [scrubAssistant y]"
    using sanitizeKiroHistory_eq [of history rs] snoc assms(1) first act by (simp add: sanitizeEntry_active trimLeading_user)
  then show ?thesis using snoc a by (auto simp: openCalls_def scrubAssistant_def split: option.splits)
qed (use assms(1) in \<open>simp add: orderToolResultsForLastAssistant_def lastAssistantToolUseIDs_def\<close>)

section \<open>Names\<close>

lemma mapToolUseNames_ids: "map tu_ToolUseID (fst (mapToolUseNames digest f tus r)) = map tu_ToolUseID tus"
  by (induction tus arbitrary: r) (auto simp: Let_def case_prod_unfold)

lemma openCalls_Cons: "openCalls (m # h) = (if h = [] then (case hm_Assistant m of None \<Rightarrow> [] | Some a \<Rightarrow> am_ToolUses a) else openCalls h)"
  by (simp add: openCalls_def)

lemma mapStructured_Nil [simp]: "fst (mapStructuredHistoryToolNames digest f h r) = [] \<longleftrightarrow> h = []"
  by (cases h) (auto simp: Let_def case_prod_unfold split: option.splits)

lemma mapStructured_openCalls:
  "map tu_ToolUseID (openCalls (fst (mapStructuredHistoryToolNames digest f h r))) = map tu_ToolUseID (openCalls h)"
proof (induction h arbitrary: r)
  case (Cons m h)
  then show ?case
    by (cases "hm_Assistant m") (auto simp: openCalls_Cons Let_def case_prod_unfold mapToolUseNames_ids)
qed (simp add: openCalls_def)

section \<open>Truncation\<close>

lemma truncate_settled:
  assumes "settled p"
  shows "settled (truncatePayloadToLimit rnd discovered hasPriming p)"
    and "toolContract (truncatePayloadToLimit rnd discovered hasPriming p) = toolContract p"
proof -
  consider "payloadFitsInputLimits rnd p (payloadInputTokenLimit rnd discovered p)"
    | "\<not> payloadFitsInputLimits rnd p (payloadInputTokenLimit rnd discovered p)" by blast
  then have "settled (truncatePayloadToLimit rnd discovered hasPriming p) \<and>
      toolContract (truncatePayloadToLimit rnd discovered hasPriming p) = toolContract p"
  proof cases
    case 1
    then show ?thesis using assms by (simp add: truncatePayloadToLimit_def Let_def)
  next
    case 2
    then show ?thesis using truncate_parts [OF 2] by blast
  qed
  then show "settled (truncatePayloadToLimit rnd discovered hasPriming p)"
    and "toolContract (truncatePayloadToLimit rnd discovered hasPriming p) = toolContract p" by blast+
qed

lemma toolContract_truncated: "toolContract (truncatePayloadToLimit rnd discovered hasPriming p) = toolContract p"
  by (cases "payloadFitsInputLimits rnd p (payloadInputTokenLimit rnd discovered p)")
    (simp add: truncatePayloadToLimit_def Let_def, use truncate_parts in blast)

text \<open>Truncation brings in no tool result that was not there.\<close>

definition resultIDsOf :: "KiroPayload \<Rightarrow> string set" where
  "resultIDsOf p = tr_ToolUseID ` set (currentResultsOf p)"

lemma resultIDs_of_contract: "contractOf p = contractOf q \<Longrightarrow> resultIDsOf p = resultIDsOf q"
proof -
  assume "contractOf p = contractOf q"
  then have "set (map tr_ToolUseID (currentResultsOf p)) = set (map tr_ToolUseID (currentResultsOf q))" by (simp add: contractOf_def)
  then show ?thesis by (simp add: resultIDsOf_def)
qed

lemma resultIDs_simps [simp]:
  "resultIDsOf (truncateCurrentMessage rnd l p) = resultIDsOf p" "resultIDsOf (shrinkAgain rnd l n p) = resultIDsOf p"
  "resultIDsOf (p\<lparr>kp_History := h\<rparr>) = resultIDsOf p" "resultIDsOf (rebuild a b c d k p) = resultIDsOf p"
  by (rule resultIDs_of_contract, simp)+ (simp_all add: resultIDsOf_def rebuild_def)

lemma resultIDs_detach: "resultIDsOf (snd (detachOrphanedToolResults p)) \<subseteq> resultIDsOf p"
  using detach_settles(3) [of p] by (auto simp: resultIDsOf_def)

lemma resultIDs_dropLoop: "resultIDsOf (snd (dropLoop rnd l (rebuild a b c d) m keep p)) = resultIDsOf p"
proof (induction rnd l "rebuild a b c d" m keep p rule: dropLoop.induct)
  case (1 rnd l m keep p)
  then show ?case by (subst dropLoop.simps) (simp del: dropLoop.simps)
qed

lemma resultIDs_intros:
  "resultIDsOf x \<subseteq> S \<Longrightarrow> resultIDsOf y \<subseteq> S \<Longrightarrow> resultIDsOf (if b then x else y) \<subseteq> S"
  "resultIDsOf p \<subseteq> S \<Longrightarrow> resultIDsOf (snd (detachOrphanedToolResults p)) \<subseteq> S"
  "resultIDsOf p \<subseteq> S \<Longrightarrow> resultIDsOf (snd (dropLoop rnd l (rebuild a b' c d) m keep p)) \<subseteq> S"
  "resultIDsOf p \<subseteq> S \<Longrightarrow> resultIDsOf (truncateCurrentMessage rnd l p) \<subseteq> S"
  "resultIDsOf p \<subseteq> S \<Longrightarrow> resultIDsOf (shrinkAgain rnd l n p) \<subseteq> S"
  "resultIDsOf p \<subseteq> S \<Longrightarrow> resultIDsOf (rebuild a b' c d k p) \<subseteq> S"
  "resultIDsOf p \<subseteq> S \<Longrightarrow> resultIDsOf (p\<lparr>kp_History := h\<rparr>) \<subseteq> S"
  using resultIDs_detach [of p] by (auto simp: resultIDs_dropLoop simp del: dropLoop.simps)

lemma truncate_resultIDs: "resultIDsOf (truncatePayloadToLimit rnd discovered hasPriming p) \<subseteq> resultIDsOf p"
  unfolding truncatePayloadToLimit_def Let_def case_prod_unfold by (intro resultIDs_intros subset_refl)

section \<open>Requests of the Anthropic protocol\<close>

lemma preserve_keeps_active:
  assumes "orderToolResultsForLastAssistant history results = Some ordered"
    and "preserveStructuredClaudeHistory digest f history results ordered True tools r = (rs, h, ts, r')"
  shows "rs = ordered" "map tu_ToolUseID (openCalls h) = map tu_ToolUseID (openCalls history)"
proof -
  let ?m = "fst (mapStructuredHistoryToolNames digest f history r)"
  have ids: "map tu_ToolUseID (openCalls ?m) = map tr_ToolUseID ordered" "set ordered = set results"
    using order_sound [OF assms(1)] by (simp_all add: mapStructured_openCalls) (metis set_mset_mset)
  have "\<forall>r \<in> set ordered. trim_space (tr_ToolUseID r) \<noteq> ''''" using order_sound(5) [OF assms(1)] by (simp add: list_all_iff)
  then have "set (map tu_ToolUseID (openCalls ?m)) \<subseteq> historyResultIDs ?m results"
    unfolding ids(1) by (auto simp: historyResultIDs_def nonBlank_def ids(2))
  then have "map tu_ToolUseID (openCalls (map (keepPairs (historyToolIDs ?m) (historyResultIDs ?m results)) ?m)) = map tu_ToolUseID (openCalls history)"
    by (simp add: keepPairs_openCalls mapStructured_openCalls)
  then show "rs = ordered" "map tu_ToolUseID (openCalls h) = map tu_ToolUseID (openCalls history)"
    using assms(2) by (auto simp: preserveStructuredClaudeHistory_def Let_def case_prod_unfold)
qed

lemma settleClaudeHistory_keeps:
  assumes "orderToolResultsForLastAssistant history results \<noteq> None"
    and "\<not> transparent \<Longrightarrow> list_all oneSided history \<and> hm_Assistant (hd history) = None"
    and "settleClaudeHistory te transparent history results True tools r = (rs, h, ts, r')"
  shows "orderToolResultsForLastAssistant h rs = Some rs \<and> set rs = set results"
proof -
  obtain os where os: "orderToolResultsForLastAssistant history results = Some os" using assms(1) by blast
  have again: "orderToolResultsForLastAssistant history os = Some os" using order_again [OF os] .
  have same: "set os = set results" using order_sound(3) [OF os] by (metis set_mset_mset)
  have "rs = os \<and> map tu_ToolUseID (openCalls h) = map tu_ToolUseID (openCalls history)"
  proof (cases transparent)
    case True
    then show ?thesis using preserve_keeps_active [OF os] assms(3) os by (simp add: settleClaudeHistory_def)
  next
    case False
    have "map tu_ToolUseID (openCalls (sanitizeKiroHistory history os)) = map tu_ToolUseID (openCalls history)"
      using sanitize_keeps_active [of history os] again assms(2) [OF False] by simp
    then show ?thesis using False assms(3) os
      by (auto simp: settleClaudeHistory_def Let_def case_prod_unfold mapStructured_openCalls)
  qed
  then show ?thesis using again same order_openCalls by metis
qed

lemma assemble_simps [simp]:
  "currentResultsOf (assemblePayload cid m c is ts rs h) = rs" "kp_History (assemblePayload cid m c is ts rs h) = h"
  "currentToolsOf (assemblePayload cid m c is ts rs h) = ts"
  by (auto simp: assemblePayload_def currentResultsOf_def currentToolsOf_def)

lemma current_frame [simp]:
  "currentResultsOf (p\<lparr>kp_AgentTaskType := a\<rparr>) = currentResultsOf p" "currentToolsOf (p\<lparr>kp_AgentTaskType := a\<rparr>) = currentToolsOf p"
  "currentResultsOf (p\<lparr>kp_AgentContinuationId := a\<rparr>) = currentResultsOf p" "currentToolsOf (p\<lparr>kp_AgentContinuationId := a\<rparr>) = currentToolsOf p"
  "currentResultsOf (p\<lparr>kp_transparentClaudeCode := b\<rparr>) = currentResultsOf p" "currentToolsOf (p\<lparr>kp_transparentClaudeCode := b\<rparr>) = currentToolsOf p"
  "currentResultsOf (p\<lparr>kp_InferenceConfig := i\<rparr>) = currentResultsOf p" "currentToolsOf (p\<lparr>kp_InferenceConfig := i\<rparr>) = currentToolsOf p"
  "currentResultsOf (applyNativeEffort e n p) = currentResultsOf p" "currentToolsOf (applyNativeEffort e n p) = currentToolsOf p"
  "kp_History (applyNativeEffort e n p) = kp_History p"
  by (simp_all add: currentResultsOf_def currentToolsOf_def applyNativeEffort_def Let_def)

text \<open>A translated request, before it is cut to size: its results, tools and history with where they come from.\<close>

lemma claudeToKiro_parts:
  fixes te req thinking transparent
  defines "m \<equiv> MapModel (ps_models (te_prompts te)) (cr_Model req)"
  obtains p history tools r1 keep results2 history2 tools2 r2 policies hp
  where "tx_Payload (claudeToKiro te req thinking transparent) = truncatePayloadToLimit (te_rnd te) (te_discovered te) hp p"
    and "history = (if transparent then mergeClaudeHistoryTurns else (\<lambda>h. h))
       ((if claudeSystemPrompt (te_prompts te) req thinking transparent = '''' then []
         else primingTurns m (claudeSystemPrompt (te_prompts te) req thinking transparent)) @
        trimLeadingAssistantHistory (fst (claudeTurns m (cr_Messages req))))"
    and "convertClaudeToolsWithRegistry (ps_floatZero (te_prompts te)) (te_digest te) (claudeToolNormalizer transparent) (cr_AgentToolSteering req)
       (if transparent then cloneClaudeToolsWithLongToolGuidance (te_prompts te) (cr_Tools req) m else cr_Tools req) newToolNameRegistry = (tools, policies, r1)"
    and "keep \<longleftrightarrow> orderToolResultsForLastAssistant history (snd (snd (snd (claudeTurns m (cr_Messages req))))) \<noteq> None \<and> tools \<noteq> []"
    and "settleClaudeHistory te transparent history (snd (snd (snd (claudeTurns m (cr_Messages req))))) keep tools r1 = (results2, history2, tools2, r2)"
    and "currentResultsOf p = (if keep then results2 else [])" "currentToolsOf p = tools2" "kp_History p = history2"
    and "tx_ToolNameMap (claudeToKiro te req thinking transparent) = restoreMap r2"
proof -
  define sp where "sp = claudeSystemPrompt (te_prompts te) req thinking transparent"
  define results where "results = snd (snd (snd (claudeTurns m (cr_Messages req))))"
  define history where "history = (if transparent then mergeClaudeHistoryTurns else (\<lambda>h. h))
       ((if sp = '''' then [] else primingTurns m sp) @ trimLeadingAssistantHistory (fst (claudeTurns m (cr_Messages req))))"
  obtain tools policies r1 where conv: "convertClaudeToolsWithRegistry (ps_floatZero (te_prompts te)) (te_digest te) (claudeToolNormalizer transparent)
      (cr_AgentToolSteering req) (if transparent then cloneClaudeToolsWithLongToolGuidance (te_prompts te) (cr_Tools req) m else cr_Tools req)
      newToolNameRegistry = (tools, policies, r1)" by (metis prod_cases3)
  define keep where "keep \<longleftrightarrow> orderToolResultsForLastAssistant history results \<noteq> None \<and> tools \<noteq> []"
  obtain results2 history2 tools2 r2 where st: "settleClaudeHistory te transparent history results keep tools r1 = (results2, history2, tools2, r2)"
    by (metis prod_cases4)
  obtain c i where ct: "claudeTurns m (cr_Messages req) = (fst (claudeTurns m (cr_Messages req)), c, i, results)"
    unfolding results_def by (metis prod.collapse)
  have h1: "(if transparent then mergeClaudeHistoryTurns ((if sp = '''' then [] else primingTurns m sp) @ trimLeadingAssistantHistory (fst (claudeTurns m (cr_Messages req))))
      else (if sp = '''' then [] else primingTurns m sp) @ trimLeadingAssistantHistory (fst (claudeTurns m (cr_Messages req)))) = history"
    by (simp add: history_def)
  have eq: "\<exists>p. claudeToKiro te req thinking transparent =
      \<lparr>tx_Payload = truncatePayloadToLimit (te_rnd te) (te_discovered te) (sp \<noteq> '''') p, tx_hasSystemPriming = (sp \<noteq> ''''),
       tx_ToolNameMap = restoreMap r2, tx_toolInputPolicies = policies\<rparr> \<and>
      currentResultsOf p = (if keep then results2 else []) \<and> currentToolsOf p = tools2 \<and> kp_History p = history2"
    unfolding claudeToKiro_def Let_def m_def [symmetric] sp_def [symmetric] by (subst ct, simp only: prod.case h1 conv keep_def [symmetric] st, intro exI conjI, rule refl) auto
  then show ?thesis using that [of "sp \<noteq> ''''" _ history tools policies r1 keep results2 history2 tools2 r2] conv st
    unfolding history_def sp_def keep_def results_def by fastforce
qed

lemma trimLeading_one_sided: "list_all oneSided h \<Longrightarrow> list_all oneSided (trimLeadingAssistantHistory h)"
  using suffix_trimLeading [of h] by (auto simp: list_all_iff dest: set_mono_suffix)

lemma plain_history_start:
  assumes "history = (if sp = '''' then [] else primingTurns m sp) @ trimLeadingAssistantHistory h" "list_all oneSided h" "history \<noteq> []"
  shows "list_all oneSided history \<and> hm_Assistant (hd history) = None"
  using assms trimLeading_one_sided [of h] trimLeading_hd [of h] by (auto simp: primingTurns_def)

lemma placeholders_extend:
  "prefix tools (fst (addPlaceholders digest f tus (tools, existing, r)))"
  "list_all (\<lambda>t. tw_Name t \<noteq> '''') tools \<Longrightarrow> list_all (\<lambda>t. tw_Name t \<noteq> '''') (fst (addPlaceholders digest f tus (tools, existing, r)))"
proof (induction tus arbitrary: tools existing r)
  case (Cons tu tus)
  have e: "trim_space '''' = ''''" "to_lower '''' = ''''" by code_simp+
  {
    case 1
    show ?case by (auto simp: Let_def case_prod_unfold intro: Cons.IH(1) prefix_order.trans [OF _ Cons.IH(1)])
  next
    case 2
    then show ?case using e by (auto simp: Let_def case_prod_unfold placeholderTool_def intro!: Cons.IH(2))
  }
qed auto

lemma settleClaudeHistory_tools:
  assumes "settleClaudeHistory te transparent history results keep tools r = (rs, h, ts, r')"
  shows "prefix tools ts" "list_all (\<lambda>t. tw_Name t \<noteq> '''') tools \<Longrightarrow> list_all (\<lambda>t. tw_Name t \<noteq> '''') ts"
  using assms placeholders_extend
  by (auto simp: settleClaudeHistory_def preserveStructuredClaudeHistory_def Let_def case_prod_unfold split: if_splits)

lemma convertClaude_named: "list_all (\<lambda>t. tw_Name t \<noteq> '''') (fst (convertClaudeToolsWithRegistry fz digest f steer tools r))"
proof -
  have "list_all (\<lambda>t. tw_Name t \<noteq> '''') (fst c) \<Longrightarrow> list_all (\<lambda>t. tw_Name t \<noteq> '''') (fst (foldl (addClaudeTool fz digest f steer) c tools))" for c
    by (induction tools arbitrary: c) (auto simp: addClaudeTool_def Let_def case_prod_unfold)
  then show ?thesis by (simp add: convertClaudeToolsWithRegistry_def)
qed

text \<open>
  C5. The translation of an Anthropic request, in the rewriting and in the transparent mode, yields a request that
  passes the validation before sending as it is: tool results are attached only when they are the exact answer to the tool calls
  of the turn before them and tools are declared; none is attached that the client did not send; and every tool has a name. The
  tool-use IDs of the client's results must not have surrounding white space.
\<close>

theorem claude_translation_sound:
  fixes te req thinking transparent
  defines "q \<equiv> tx_Payload (claudeToKiro te req thinking transparent)"
  defines "results \<equiv> snd (snd (snd (claudeTurns (MapModel (ps_models (te_prompts te)) (cr_Model req)) (cr_Messages req))))"
  assumes "\<forall>r \<in> set results. trim_space (tr_ToolUseID r) = tr_ToolUseID r"
  shows "validateKiroPayloadToolHistory q = None \<and> resultIDsOf q \<subseteq> tr_ToolUseID ` set results \<and>
     (currentResultsOf q \<noteq> [] \<longrightarrow> toolContract q \<noteq> []) \<and> list_all (\<lambda>(name, _). name \<noteq> '''') (toolContract q)"
proof -
  obtain p history tools r1 keep results2 history2 tools2 r2 policies hp
  where tr: "q = truncatePayloadToLimit (te_rnd te) (te_discovered te) hp p"
    and hist: "history = (if transparent then mergeClaudeHistoryTurns else (\<lambda>h. h))
       ((if claudeSystemPrompt (te_prompts te) req thinking transparent = '''' then []
         else primingTurns (MapModel (ps_models (te_prompts te)) (cr_Model req)) (claudeSystemPrompt (te_prompts te) req thinking transparent)) @
        trimLeadingAssistantHistory (fst (claudeTurns (MapModel (ps_models (te_prompts te)) (cr_Model req)) (cr_Messages req))))"
    and conv: "convertClaudeToolsWithRegistry (ps_floatZero (te_prompts te)) (te_digest te) (claudeToolNormalizer transparent) (cr_AgentToolSteering req)
       (if transparent then cloneClaudeToolsWithLongToolGuidance (te_prompts te) (cr_Tools req) (MapModel (ps_models (te_prompts te)) (cr_Model req))
        else cr_Tools req) newToolNameRegistry = (tools, policies, r1)"
    and keep: "keep \<longleftrightarrow> orderToolResultsForLastAssistant history results \<noteq> None \<and> tools \<noteq> []"
    and st: "settleClaudeHistory te transparent history results keep tools r1 = (results2, history2, tools2, r2)"
    and p: "currentResultsOf p = (if keep then results2 else [])" "currentToolsOf p = tools2" "kp_History p = history2"
    unfolding q_def results_def by (rule claudeToKiro_parts)
  have ord: "orderToolResultsForLastAssistant history2 results2 = Some results2 \<and> set results2 = set results" if keep
  proof (rule settleClaudeHistory_keeps)
    show "orderToolResultsForLastAssistant history results \<noteq> None" using keep that by blast
    then have ne: "history \<noteq> []" by (auto simp: orderToolResultsForLastAssistant_def lastAssistantToolUseIDs_def)
    show "list_all oneSided history \<and> hm_Assistant (hd history) = None" if "\<not> transparent"
    proof (rule plain_history_start [OF _ claudeTurns_one_sided ne])
      show "history = (if claudeSystemPrompt (te_prompts te) req thinking False = '''' then []
         else primingTurns (MapModel (ps_models (te_prompts te)) (cr_Model req)) (claudeSystemPrompt (te_prompts te) req thinking False)) @
        trimLeadingAssistantHistory (fst (claudeTurns (MapModel (ps_models (te_prompts te)) (cr_Model req)) (cr_Messages req)))"
        by (subst hist) (simp only: that if_False)
    qed
  qed (use st that in simp)
  then have "settled p" using p by (auto simp: settled_def)
  note q = truncate_settled [OF this, of "te_rnd te" "te_discovered te" hp, folded tr]
  have ids: "resultIDsOf q \<subseteq> resultIDsOf p" unfolding tr by (rule truncate_resultIDs)
  moreover have "resultIDsOf p \<subseteq> tr_ToolUseID ` set results" using ord p by (auto simp: resultIDsOf_def)
  ultimately have sub: "resultIDsOf q \<subseteq> tr_ToolUseID ` set results" by blast
  then have "\<forall>r \<in> set (currentResultsOf q). trim_space (tr_ToolUseID r) = tr_ToolUseID r" using assms(3) by (fastforce simp: resultIDsOf_def)
  then have valid: "validateKiroPayloadToolHistory q = None" by (rule settled_valid [OF q(1)])
  have "tools2 \<noteq> []" if "currentResultsOf q \<noteq> []"
  proof -
    have keep using ids that p(1) by (auto simp: resultIDsOf_def split: if_splits)
    then show ?thesis using keep settleClaudeHistory_tools(1) [OF st] by auto
  qed
  moreover have "list_all (\<lambda>t. tw_Name t \<noteq> '''') tools2"
    by (rule settleClaudeHistory_tools(2) [OF st]) (metis conv convertClaude_named fst_conv)
  ultimately show ?thesis using valid sub q(2) p(2) by (auto simp: toolContract_def list_all_iff)
qed

definition sampleEnv :: translateEnv where
  "sampleEnv = \<lparr>te_prompts = \<lparr>ps_models = [], ps_DefaultBudgetTokens = 4000, ps_BudgetCapTokens = 10000, ps_AgentToolSteering = False,
       ps_FilterClaudeCode = False, ps_FilterStripBoundaries = False, ps_FilterEnvNoise = False, ps_rules = [],
       ps_longTool = \<lparr>lt_Enabled = False, lt_DefaultMaxToolTokens = 8192, lt_TruncationRetries = 1, lt_ActionableOutputTimeoutSeconds = 0,
         lt_FallbackEnabled = False, lt_FallbackModel = ''''\<rparr>,
       ps_regexReplace = (\<lambda>_ _ _. None), ps_quote = (\<lambda>s. s), ps_floatZero = (\<lambda>s. s = ''0''),
       ps_unicode = \<lparr>ut_IsUpper = (\<lambda>n. 65 \<le> n \<and> n \<le> 90), ut_IsLower = (\<lambda>n. 97 \<le> n \<and> n \<le> 122),
         ut_IsLetter = (\<lambda>n. 65 \<le> n \<and> n \<le> 90 \<or> 97 \<le> n \<and> n \<le> 122), ut_IsDigit = (\<lambda>n. 48 \<le> n \<and> n \<le> 57),
         ut_ToLower = (\<lambda>n. if 65 \<le> n \<and> n \<le> 90 then n + 32 else n)\<rparr>\<rparr>,
     te_rnd = (\<lambda>x. x), te_discovered = [], te_digest = unaryDigest, te_sha1 = (\<lambda>s. s), te_freshConversation = ''c'',
     te_freshContinuation = ''k'', te_parseUUID = (\<lambda>_. None), te_unmarshal = (\<lambda>_. None)\<rparr>"

definition sampleClaude :: ClaudeRequest where
  "sampleClaude = \<lparr>cr_Model = ''claude-sonnet-4.5'',
     cr_Messages =
       [\<lparr>cm_Role = ''user'', cm_Content = JString ''go''\<rparr>,
        \<lparr>cm_Role = ''assistant'', cm_Content = JArray [JObject [(''type'', JString ''tool_use''), (''id'', JString ''x''), (''name'', JString ''a b'')]]\<rparr>,
        \<lparr>cm_Role = ''user'', cm_Content = JArray [JObject [(''type'', JString ''tool_result''), (''tool_use_id'', JString ''x''), (''content'', JString ''ok'')]]\<rparr>],
     cr_MaxTokens = 100, cr_Temperature = (0, ''0''), cr_TopP = (0, ''0''), cr_System = JNull, cr_Thinking = None, cr_OutputEffort = None,
     cr_Tools = [\<lparr>cl_Type = '''', cl_Name = ''a b'', cl_Description = ''d'', cl_InputSchema = JNull\<rparr>], cr_ToolChoice = JNull,
     cr_UserID = None, cr_RequireToolUse = False, cr_RequiredToolName = '''', cr_ToolUsePolicy = '''', cr_AgentToolSteering = False,
     cr_NativeEffort = '''', cr_NativeEffortPath = '''', cr_ClientUserAgent = '''', cr_ClientClaudeCodeBeta = False\<rparr>"

theorem claude_translation_sound_witness:
  "let q = tx_Payload (claudeToKiro sampleEnv sampleClaude False True);
       results = snd (snd (snd (claudeTurns (MapModel [] (cr_Model sampleClaude)) (cr_Messages sampleClaude))))
   in map tr_ToolUseID results = [''x''] \<and> validateKiroPayloadToolHistory q = None \<and> resultIDsOf q \<subseteq> {''x''} \<and>
      (currentResultsOf q = [] \<or> toolContract q \<noteq> []) \<and> list_all (\<lambda>(name, _). name \<noteq> '''') (toolContract q)"
proof -
  define rs where "rs = snd (snd (snd (claudeTurns (MapModel [] (cr_Model sampleClaude)) (cr_Messages sampleClaude))))"
  have m: "ps_models (te_prompts sampleEnv) = []" by (simp add: sampleEnv_def)
  have r: "map tr_ToolUseID rs = [''x'']" unfolding rs_def by code_simp
  then have ids: "tr_ToolUseID ` set rs = {''x''}" by auto
  have x: "trim_space ''x'' = ''x''" by code_simp
  have "tr_ToolUseID r = ''x''" if "r \<in> set rs" for r using ids that by blast
  then have "\<forall>r \<in> set rs. trim_space (tr_ToolUseID r) = tr_ToolUseID r" by (intro ballI) (simp only: x)
  from claude_translation_sound [of sampleEnv sampleClaude False True, unfolded m, folded rs_def, OF this] r
  show ?thesis unfolding Let_def rs_def [symmetric] ids by blast
qed

section \<open>Declared tools\<close>

text \<open>The names of the calls in a history, and how the passes over it use the registry.\<close>

definition entryNames :: "KiroHistoryMessage \<Rightarrow> string set" where
  "entryNames m = (case hm_Assistant m of None \<Rightarrow> {} | Some a \<Rightarrow> tu_Name ` set (am_ToolUses a))"

definition callNames :: "KiroHistoryMessage list \<Rightarrow> string set" where
  "callNames h = \<Union> (entryNames ` set h)"

lemma callNames_simps [simp]:
  "callNames [] = {}" "callNames (g @ h) = callNames g \<union> callNames h" "callNames (m # h) = entryNames m \<union> callNames h"
  by (auto simp: callNames_def)

lemma callNames_mono: "set g \<subseteq> set h \<Longrightarrow> callNames g \<subseteq> callNames h"
  by (auto simp: callNames_def)

lemma callNames_entries [simp]: "entryNames (userEntry m c is rs) = {}" "entryNames (assistantEntry c us) = tu_Name ` set us"
  by (auto simp: entryNames_def userEntry_def assistantEntry_def)

lemma callNames_sanitizeEntry: "entryNames (sanitizeEntry names active m) \<subseteq> entryNames m"
  by (auto simp: entryNames_def sanitizeEntry_def scrubAssistant_def dropToolUses_def assistantHasToolUses_def Let_def split: option.splits if_splits)

lemma callNames_sanitize: "callNames (sanitizeKiroHistory history rs) \<subseteq> callNames history"
proof (cases "history = []")
  case False
  let ?n = "toolNamesOf history"
  let ?xs = "map (sanitizeEntry ?n False) (butlast history)" and ?y = "sanitizeEntry ?n (orderToolResultsForLastAssistant history rs \<noteq> None) (last history)"
  have "set (sanitizeKiroHistory history rs) \<subseteq> set (foldl cleanStep [] (?xs @ [?y]))"
    unfolding sanitizeKiroHistory_eq [OF False] using suffix_trimLeading by (simp add: set_mono_suffix)
  also have "\<dots> \<subseteq> set (?xs @ [?y])" using cleanSteps_members [of "[]" "?xs @ [?y]"] by (simp only: list.set Un_empty_left)
  finally have "callNames (sanitizeKiroHistory history rs) \<subseteq> callNames (?xs @ [?y])" by (rule callNames_mono)
  also have "\<dots> = callNames ?xs \<union> entryNames ?y" by simp
  also have "\<dots> \<subseteq> callNames (butlast history) \<union> entryNames (last history)"
  proof (rule Un_mono)
    show "callNames ?xs \<subseteq> callNames (butlast history)"
      using callNames_sanitizeEntry [of ?n False] by (fastforce simp: callNames_def)
  qed (rule callNames_sanitizeEntry)
  also have "\<dots> = callNames history" using False by (cases history rule: rev_cases) simp_all
  finally show ?thesis .
qed (simp add: sanitizeKiroHistory_def)

lemma mapToolUseNames_registry:
  assumes "hexDigest digest" "namesApart digest T"
  shows "registryOk digest T r \<Longrightarrow> trim_space ` tu_Name ` set tus \<subseteq> T \<Longrightarrow> registryOk digest T (snd (mapToolUseNames digest f tus r))"
    and "gm_get (tn_forward r) o' = Some u \<Longrightarrow> gm_get (tn_forward (snd (mapToolUseNames digest f tus r))) o' = Some u"
  by (induction tus arbitrary: r) (auto simp: Let_def case_prod_unfold intro: upstreamName_ok [OF assms] upstreamName_forward)

lemma mapStructured_registry:
  assumes "hexDigest digest" "namesApart digest T"
  shows "registryOk digest T r \<Longrightarrow> trim_space ` callNames h \<subseteq> T \<Longrightarrow> registryOk digest T (snd (mapStructuredHistoryToolNames digest f h r))"
    and "gm_get (tn_forward r) o' = Some u \<Longrightarrow> gm_get (tn_forward (snd (mapStructuredHistoryToolNames digest f h r))) o' = Some u"
proof (induction h arbitrary: r)
  case (Cons m h)
  {
    case 1
    then show ?case
      by (cases "hm_Assistant m")
        (auto simp: Let_def case_prod_unfold entryNames_def intro!: Cons.IH(1) mapToolUseNames_registry(1) [OF assms])
  next
    case 2
    then show ?case
      by (cases "hm_Assistant m") (auto simp: Let_def case_prod_unfold intro!: Cons.IH(2) mapToolUseNames_registry(2) [OF assms])
  }
qed auto

text \<open>The conversion of the declared tools: each usable one has a wrapper under its upstream name, with its schema.\<close>

definition converted :: "ClaudeTool set \<Rightarrow> conversion \<Rightarrow> bool" where
  "converted ts c \<longleftrightarrow> (\<forall>t \<in> ts. trim_space (cl_Name t) \<noteq> '''' \<longrightarrow>
     (\<exists>u. gm_get (tn_forward (snd (snd c))) (trim_space (cl_Name t)) = Some u \<and>
          (u, ensureObjectSchema (cl_InputSchema t)) \<in> (\<lambda>w. (tw_Name w, tw_InputSchema w)) ` set (fst c)))"

lemma addClaudeTool_ok:
  assumes "hexDigest digest" "namesApart digest T" "registryOk digest T (snd (snd c))" "trim_space (cl_Name t) \<in> T" "converted ts c"
  shows "registryOk digest T (snd (snd (addClaudeTool fz digest f steer c t))) \<and> converted (insert t ts) (addClaudeTool fz digest f steer c t)"
proof -
  obtain res pol r where c: "c = (res, pol, r)" by (metis prod_cases3)
  obtain u r' where u: "upstreamName digest f (cl_Name t) r = (u, r')" by fastforce
  have ok: "registryOk digest T r'" using upstreamName_ok [OF assms(1,2), of r "cl_Name t" f] assms(3,4) u c by simp
  have fwd: "gm_get (tn_forward r) o' = Some v \<Longrightarrow> gm_get (tn_forward r') o' = Some v" for o' v
    using upstreamName_forward [of r o' v digest f "cl_Name t"] u by simp
  show ?thesis
  proof (cases "trim_space (cl_Name t) = ''''")
    case True
    then have "u = ''''" using u by (simp add: upstreamName_unfold)
    then show ?thesis using ok assms(5) u c True fwd
      by (fastforce simp: addClaudeTool_def Let_def converted_def)
  next
    case False
    have res: "gm_get (tn_forward r') (trim_space (cl_Name t)) = Some u"
      using upstreamName_result [OF False, of digest f r] u by simp
    then have "u \<noteq> ''''" using ok by (auto simp: registryOk_def)
    then show ?thesis using ok assms(5) u c False fwd res
      by (fastforce simp: addClaudeTool_def Let_def converted_def)
  qed
qed

lemma addClaudeTools_ok:
  assumes "hexDigest digest" "namesApart digest T"
  shows "registryOk digest T (snd (snd c)) \<Longrightarrow> converted ts c \<Longrightarrow> trim_space ` cl_Name ` set tools \<subseteq> T \<Longrightarrow>
     registryOk digest T (snd (snd (foldl (addClaudeTool fz digest f steer) c tools))) \<and>
     converted (ts \<union> set tools) (foldl (addClaudeTool fz digest f steer) c tools)"
proof (induction tools arbitrary: c ts)
  case (Cons t tools)
  then show ?case using addClaudeTool_ok [OF assms, of c t ts fz f steer] Cons.IH [of "addClaudeTool fz digest f steer c t" "insert t ts"]
    by (simp add: Un_insert_left Un_insert_right)
qed simp

definition requestToolNames :: "ClaudeRequest \<Rightarrow> string set" where
  "requestToolNames req = trim_space ` (cl_Name ` set (cr_Tools req) \<union>
     (\<Union>m \<in> set (cr_Messages req). tu_Name ` set (snd (extractClaudeAssistantContent (cm_Content m)))))"

lemma callNames_claudeTurns:
  "callNames (fst (claudeTurns m msgs)) \<subseteq> (\<Union>x \<in> set msgs. tu_Name ` set (snd (extractClaudeAssistantContent (cm_Content x))))"
  by (induction msgs) (auto simp: Let_def case_prod_unfold)

text \<open>
  C6. Every tool an Anthropic client declares can be called: the request sent upstream declares it with its normalised schema under an
  upstream name, and when the upstream calls that name the answer's name map gives the client's name back; tool
  calls in the history and truncation do not disturb this. The names of the request must have
  different digests within 32 digits and none may look like a hashed form of another.
\<close>

theorem declared_tools_return:
  fixes te req thinking
  defines "x \<equiv> ClaudeToKiro te req thinking"
  assumes "hexDigest (te_digest te)" "namesApart (te_digest te) (requestToolNames req)" "t \<in> set (cr_Tools req)" "trim_space (cl_Name t) \<noteq> ''''"
  shows "\<exists>u. (u, ensureObjectSchema (cl_InputSchema t)) \<in> set (toolContract (tx_Payload x)) \<and> u \<noteq> '''' \<and> length u \<le> 64 \<and>
     gm_zero u (tx_ToolNameMap x) u = trim_space (cl_Name t)"
proof -
  let ?T = "requestToolNames req" and ?m = "MapModel (ps_models (te_prompts te)) (cr_Model req)"
  obtain p history tools r1 keep results2 history2 tools2 r2 policies hp
  where tr: "tx_Payload x = truncatePayloadToLimit (te_rnd te) (te_discovered te) hp p"
    and hist: "history = (if False then mergeClaudeHistoryTurns else (\<lambda>h. h)) ((if claudeSystemPrompt (te_prompts te) req thinking False = '''' then []
         else primingTurns ?m (claudeSystemPrompt (te_prompts te) req thinking False)) @ trimLeadingAssistantHistory (fst (claudeTurns ?m (cr_Messages req))))"
    and conv: "convertClaudeToolsWithRegistry (ps_floatZero (te_prompts te)) (te_digest te) (claudeToolNormalizer False) (cr_AgentToolSteering req)
       (if False then cloneClaudeToolsWithLongToolGuidance (te_prompts te) (cr_Tools req) ?m else cr_Tools req) newToolNameRegistry = (tools, policies, r1)"
    and st: "settleClaudeHistory te False history (snd (snd (snd (claudeTurns ?m (cr_Messages req))))) keep tools r1 = (results2, history2, tools2, r2)"
    and p: "currentToolsOf p = tools2"
    and nm: "tx_ToolNameMap x = restoreMap r2"
    unfolding x_def ClaudeToKiro_def by (rule claudeToKiro_parts)
  have c: "registryOk (te_digest te) ?T r1 \<and> converted (set (cr_Tools req)) (tools, policies, r1)"
  proof -
    let ?add = "addClaudeTool (ps_floatZero (te_prompts te)) (te_digest te) (claudeToolNormalizer False) (cr_AgentToolSteering req)"
    have f: "foldl ?add ([], [], newToolNameRegistry) (cr_Tools req) = (tools, policies, r1)"
      using conv by (simp add: convertClaudeToolsWithRegistry_def)
    have "registryOk (te_digest te) ?T (snd (snd ([], [], newToolNameRegistry)))" by (simp add: registryOk_new)
    moreover have "converted {} ([], [], newToolNameRegistry)" by (simp add: converted_def)
    moreover have "trim_space ` cl_Name ` set (cr_Tools req) \<subseteq> ?T" by (auto simp: requestToolNames_def)
    ultimately have "registryOk (te_digest te) ?T (snd (snd (foldl ?add ([], [], newToolNameRegistry) (cr_Tools req)))) \<and>
        converted ({} \<union> set (cr_Tools req)) (foldl ?add ([], [], newToolNameRegistry) (cr_Tools req))"
      by (rule addClaudeTools_ok [OF assms(2,3)])
    then show ?thesis unfolding f by simp
  qed
  then obtain u where u: "gm_get (tn_forward r1) (trim_space (cl_Name t)) = Some u" "(u, ensureObjectSchema (cl_InputSchema t)) \<in> (\<lambda>w. (tw_Name w, tw_InputSchema w)) ` set tools"
    using assms(4,5) by (auto simp: converted_def)
  have "callNames history \<subseteq> callNames (fst (claudeTurns ?m (cr_Messages req)))"
    using callNames_mono [OF set_mono_suffix [OF suffix_trimLeading]] by (auto simp: hist primingTurns_def)
  also note callNames_claudeTurns
  finally have "trim_space ` callNames history \<subseteq> ?T" unfolding requestToolNames_def by (intro image_mono le_supI2)
  then have names: "trim_space ` callNames (sanitizeKiroHistory history rs) \<subseteq> ?T" for rs
    using image_mono [OF callNames_sanitize, of trim_space history rs] by (rule order_trans [rotated])
  obtain rs where r2: "r2 = snd (mapStructuredHistoryToolNames (te_digest te) (claudeToolNormalizer False) (sanitizeKiroHistory history rs) r1)" "tools2 = tools"
    using st by (auto simp: settleClaudeHistory_def Let_def case_prod_unfold split: if_splits)
  have ok: "registryOk (te_digest te) ?T r2" unfolding r2 by (rule mapStructured_registry(1) [OF assms(2,3)]) (use c names in auto)
  have "gm_get (tn_forward r2) (trim_space (cl_Name t)) = Some u" unfolding r2 by (rule mapStructured_registry(2) [OF assms(2,3)]) (rule u(1))
  then have rv: "gm_get (tn_reverse r2) u = Some (trim_space (cl_Name t))" using ok by (simp add: registryOk_def)
  then have "u \<noteq> '''' \<and> length u \<le> 64" using ok by (auto simp: registryOk_def)
  moreover have "set (toolContract (tx_Payload x)) = (\<lambda>w. (tw_Name w, tw_InputSchema w)) ` set tools"
    unfolding tr toolContract_truncated using p r2 by (simp add: toolContract_def)
  ultimately show ?thesis using u(2) restoreMap_inverts [OF ok rv] nm by auto
qed

lemma unaryDigest_hex: "hexDigest unaryDigest"
  by (auto simp: hexDigest_def unaryDigest_def min_def dest!: in_set_takeD)

lemma namesApart_short: "length a < 33 \<Longrightarrow> namesApart unaryDigest {a}"
proof -
  assume "length a < 33"
  moreover have "length (take 32 (unaryDigest a)) = 32" by (simp add: unaryDigest_def)
  ultimately show ?thesis by (auto simp: namesApart_def dest: suffix_length_le)
qed

theorem declared_tools_return_witness:
  "\<exists>u. (u, ensureObjectSchema JNull) \<in> set (toolContract (tx_Payload (ClaudeToKiro sampleEnv sampleClaude False))) \<and> u \<noteq> '''' \<and> length u \<le> 64 \<and>
     gm_zero u (tx_ToolNameMap (ClaudeToKiro sampleEnv sampleClaude False)) u = trim_space ''a b''"
proof -
  let ?t = "\<lparr>cl_Type = '''', cl_Name = ''a b'', cl_Description = ''d'', cl_InputSchema = JNull\<rparr>"
  have d: "te_digest sampleEnv = unaryDigest" by (simp add: sampleEnv_def)
  have "requestToolNames sampleClaude = {''a b''}" by code_simp
  then have "namesApart unaryDigest (requestToolNames sampleClaude)" by (simp add: namesApart_short)
  moreover have "?t \<in> set (cr_Tools sampleClaude)" by (simp add: sampleClaude_def)
  moreover have "trim_space (cl_Name ?t) \<noteq> ''''" by code_simp
  ultimately show ?thesis using declared_tools_return [of sampleEnv sampleClaude ?t False, unfolded d, OF unaryDigest_hex] by simp
qed

section \<open>Requests of the OpenAI protocol\<close>

lemma openAITurns_one_sided: "list_all oneSided (fst (openAITurns um m is rs msgs))"
  by (induction msgs arbitrary: "is" rs) (auto simp: Let_def case_prod_unfold)

lemma openAITurns_ids:
  "tr_ToolUseID ` set (snd (snd (snd (openAITurns um m is rs msgs)))) \<subseteq>
     tr_ToolUseID ` set rs \<union> om_ToolCallID ` set (filter (\<lambda>x. om_Role x = ''tool'') msgs)"
proof (induction msgs arbitrary: "is" rs)
  case (Cons x msgs)
  have t: "tr_ToolUseID (fst (toolMessageResult x)) = om_ToolCallID x" by (simp add: toolMessageResult_def Let_def case_prod_unfold)
  show ?case
  proof (cases "om_Role x = ''tool''")
    case True
    then show ?thesis
      using Cons.IH [of "[]" "[]"] Cons.IH [of "is @ snd (toolMessageResult x)" "rs @ [fst (toolMessageResult x)]"] t
      by (auto simp: Let_def case_prod_unfold)
  next
    case False
    then show ?thesis using Cons.IH [of "is" rs] by (auto simp: Let_def case_prod_unfold)
  qed
qed simp

lemma OpenAIToKiro_parts:
  fixes te req thinking
  defines "m \<equiv> MapModel (ps_models (te_prompts te)) (or_Model req)"
  defines "T \<equiv> openAITurns (te_unmarshal te) m [] [] (filter (\<lambda>x. om_Role x \<noteq> ''system'') (or_Messages req))"
  defines "sp \<equiv> openAISystemPrompt (te_prompts te) req thinking"
  obtains p history tools r1 keep policies hp
  where "tx_Payload (OpenAIToKiro te req thinking) = truncatePayloadToLimit (te_rnd te) (te_discovered te) hp p"
    and "history = (if sp = '''' then [] else primingTurns m (trim_space sp)) @ fst T"
    and "keep \<longleftrightarrow> orderToolResultsForLastAssistant history (snd (snd (snd T))) \<noteq> None \<and> tools \<noteq> []"
    and "currentResultsOf p = (if keep then the (orderToolResultsForLastAssistant history (snd (snd (snd T)))) else [])" "currentToolsOf p = tools"
    and "kp_History p = fst (mapStructuredHistoryToolNames (te_digest te) normalizeOpenAIToolName (sanitizeKiroHistory history (currentResultsOf p)) r1)"
proof -
  define results where "results = snd (snd (snd T))"
  define history where "history = (if sp = '''' then [] else primingTurns m (trim_space sp)) @ fst T"
  obtain tools policies r1 where conv: "convertOpenAIToolsWithRegistry (ps_floatZero (te_prompts te)) (te_digest te) (or_Tools req) newToolNameRegistry =
      (tools, policies, r1)" by (metis prod_cases3)
  define keep where "keep \<longleftrightarrow> orderToolResultsForLastAssistant history results \<noteq> None \<and> tools \<noteq> []"
  obtain c i where ct: "openAITurns (te_unmarshal te) m [] [] (filter (\<lambda>x. om_Role x \<noteq> ''system'') (or_Messages req)) = (fst T, c, i, results)"
    unfolding results_def T_def by (metis prod.collapse)
  have "\<exists>p. tx_Payload (OpenAIToKiro te req thinking) = truncatePayloadToLimit (te_rnd te) (te_discovered te) (sp \<noteq> '''') p \<and>
      currentResultsOf p = (if keep then the (orderToolResultsForLastAssistant history results) else []) \<and> currentToolsOf p = tools \<and>
      kp_History p = fst (mapStructuredHistoryToolNames (te_digest te) normalizeOpenAIToolName
        (sanitizeKiroHistory history (if keep then (if keep then the (orderToolResultsForLastAssistant history results) else results) else [])) r1)"
    unfolding OpenAIToKiro_def Let_def m_def [symmetric] sp_def [symmetric]
    by (subst ct, simp only: prod.case history_def [symmetric] conv keep_def [symmetric], simp only: case_prod_unfold translation.simps, intro exI conjI, rule refl) auto
  then show ?thesis using that [of "sp \<noteq> ''''" _ history keep tools r1] unfolding keep_def results_def history_def by fastforce
qed

text \<open>
  C7. The translation of an OpenAI request, after the repair that precedes sending, passes the validation, and it does so without a repair when
  the conversation starts with a system prompt or a user turn (an initial assistant turn is dropped, and
  results that answer it become text only in the repair); results are attached only when the client sent them and tools are declared. The IDs
  of the client's tool messages must not have surrounding white space.
\<close>

theorem openai_translation_sound:
  fixes te req thinking
  defines "q \<equiv> tx_Payload (OpenAIToKiro te req thinking)"
  defines "msgs \<equiv> filter (\<lambda>x. om_Role x \<noteq> ''system'') (or_Messages req)"
  defines "turns \<equiv> fst (openAITurns (te_unmarshal te) (MapModel (ps_models (te_prompts te)) (or_Model req)) [] [] msgs)"
  assumes trimmed: "\<forall>x \<in> set msgs. om_Role x = ''tool'' \<longrightarrow> trim_space (om_ToolCallID x) = om_ToolCallID x"
  shows "validateKiroPayloadToolHistory (repairKiroPayloadToolResults q) = None \<and>
     (openAISystemPrompt (te_prompts te) req thinking \<noteq> '''' \<or> turns = [] \<or> hm_Assistant (hd turns) = None \<longrightarrow> validateKiroPayloadToolHistory q = None) \<and>
     resultIDsOf q \<subseteq> om_ToolCallID ` {x \<in> set msgs. om_Role x = ''tool''} \<and> (currentResultsOf q \<noteq> [] \<longrightarrow> toolContract q \<noteq> [])"
proof -
  let ?m = "MapModel (ps_models (te_prompts te)) (or_Model req)" and ?sp = "openAISystemPrompt (te_prompts te) req thinking"
  define results where "results = snd (snd (snd (openAITurns (te_unmarshal te) ?m [] [] msgs)))"
  obtain p history tools r1 keep policies hp
  where tr: "q = truncatePayloadToLimit (te_rnd te) (te_discovered te) hp p"
    and hist: "history = (if ?sp = '''' then [] else primingTurns ?m (trim_space ?sp)) @ turns"
    and keep: "keep \<longleftrightarrow> orderToolResultsForLastAssistant history results \<noteq> None \<and> tools \<noteq> []"
    and p: "currentResultsOf p = (if keep then the (orderToolResultsForLastAssistant history results) else [])" "currentToolsOf p = tools"
    and h: "kp_History p = fst (mapStructuredHistoryToolNames (te_digest te) normalizeOpenAIToolName (sanitizeKiroHistory history (currentResultsOf p)) r1)"
    unfolding q_def turns_def msgs_def results_def by (rule OpenAIToKiro_parts)
  have os: "orderToolResultsForLastAssistant history results = Some (currentResultsOf p)" if keep using that keep p by auto
  have "set (currentResultsOf p) \<subseteq> set results" using os p(1) order_sound(3) by (cases keep) (auto dest!: mset_eq_setD)
  then have "resultIDsOf p \<subseteq> om_ToolCallID ` {x \<in> set msgs. om_Role x = ''tool''}"
    using openAITurns_ids [of "te_unmarshal te" ?m "[]" "[]" msgs] unfolding results_def resultIDsOf_def by auto
  then have sub: "resultIDsOf q \<subseteq> om_ToolCallID ` {x \<in> set msgs. om_Role x = ''tool''}" using truncate_resultIDs unfolding tr by blast
  then have ids: "\<forall>r \<in> set (currentResultsOf q). trim_space (tr_ToolUseID r) = tr_ToolUseID r" using trimmed by (fastforce simp: resultIDsOf_def)
  have "settled p" if start: "?sp \<noteq> '''' \<or> turns = [] \<or> hm_Assistant (hd turns) = None"
  proof (cases keep)
    case True
    have ne: "history \<noteq> []" using os [OF True] by (auto simp: orderToolResultsForLastAssistant_def lastAssistantToolUseIDs_def)
    have "list_all oneSided history" using openAITurns_one_sided by (simp add: hist turns_def primingTurns_def)
    moreover have "hm_Assistant (hd history) = None" using start ne by (auto simp: hist primingTurns_def)
    ultimately have "map tu_ToolUseID (openCalls (kp_History p)) = map tu_ToolUseID (openCalls history)"
      using sanitize_keeps_active order_again [OF os [OF True]] by (simp add: h mapStructured_openCalls)
    then show ?thesis using order_again [OF os [OF True]] order_openCalls unfolding settled_def by metis
  qed (simp add: settled_def p)
  then have "?sp \<noteq> '''' \<or> turns = [] \<or> hm_Assistant (hd turns) = None \<Longrightarrow> validateKiroPayloadToolHistory q = None"
    using truncate_settled(1) settled_valid ids unfolding tr by blast
  moreover have "toolContract q \<noteq> []" if "currentResultsOf q \<noteq> []"
  proof -
    have keep using truncate_resultIDs [of "te_rnd te" "te_discovered te" hp p, folded tr] that p(1) by (auto simp: resultIDsOf_def split: if_splits)
    then show ?thesis using toolContract_truncated [of "te_rnd te" "te_discovered te" hp p, folded tr] keep p(2) by (simp add: toolContract_def)
  qed
  moreover have "validateKiroPayloadToolHistory (repairKiroPayloadToolResults q) = None" using repair_settled(2) ids by (intro settled_valid repair_settled(1)) blast
  ultimately show ?thesis using sub by blast
qed

definition sampleOpenAI :: OpenAIRequest where
  "sampleOpenAI = \<lparr>or_Model = ''claude-sonnet-4.5'',
     or_Messages =
       [\<lparr>om_Role = ''user'', om_Content = JString ''go'', om_Name = '''', om_ToolCalls = [], om_ToolCallID = ''''\<rparr>,
        \<lparr>om_Role = ''assistant'', om_Content = JNull, om_Name = '''',
          om_ToolCalls = [\<lparr>tc_ID = ''x'', tc_Type = ''function'', tc_Name = ''f'', tc_Arguments = ''''\<rparr>], om_ToolCallID = ''''\<rparr>,
        \<lparr>om_Role = ''tool'', om_Content = JString ''ok'', om_Name = '''', om_ToolCalls = [], om_ToolCallID = ''x''\<rparr>],
     or_MaxTokens = 0, or_Temperature = None, or_TopP = None,
     or_Tools = [\<lparr>ot_Type = ''function'', ot_Name = ''f'', ot_Description = '''', ot_Parameters = JNull\<rparr>],
     or_ReasoningEffort = '''', or_NativeEffort = '''', or_NativeEffortPath = ''''\<rparr>"

theorem openai_translation_sound_witness:
  "let q = tx_Payload (OpenAIToKiro sampleEnv sampleOpenAI False)
   in validateKiroPayloadToolHistory (repairKiroPayloadToolResults q) = None \<and> validateKiroPayloadToolHistory q = None \<and>
      resultIDsOf q \<subseteq> {''x''} \<and> (currentResultsOf q = [] \<or> toolContract q \<noteq> [])"
proof -
  define msgs where "msgs = filter (\<lambda>x. om_Role x \<noteq> ''system'') (or_Messages sampleOpenAI)"
  define turns where "turns = fst (openAITurns (te_unmarshal sampleEnv) (MapModel (ps_models (te_prompts sampleEnv)) (or_Model sampleOpenAI)) [] [] msgs)"
  have ids: "map om_ToolCallID (filter (\<lambda>x. om_Role x = ''tool'') msgs) = [''x'']" unfolding msgs_def by code_simp
  from arg_cong [OF this, of set] have tool: "om_ToolCallID ` {x \<in> set msgs. om_Role x = ''tool''} = {''x''}" by simp
  have x: "trim_space ''x'' = ''x''" by code_simp
  have "om_ToolCallID m = ''x''" if "m \<in> set msgs" "om_Role m = ''tool''" for m using tool that by blast
  then have tr: "\<forall>m \<in> set msgs. om_Role m = ''tool'' \<longrightarrow> trim_space (om_ToolCallID m) = om_ToolCallID m" by (intro ballI impI) (simp only: x)
  have first: "hm_Assistant (hd turns) = None" unfolding turns_def msgs_def by code_simp
  note T = openai_translation_sound [of sampleOpenAI sampleEnv False, folded msgs_def, folded turns_def, OF tr, unfolded tool]
  show ?thesis unfolding Let_def using T first by blast
qed

end
