(* ===== verification/Tool_Choice.thy ===== *)
theory Tool_Choice
  imports Translate
begin

text \<open>
  How a client's \<open>tool_choice\<close> and the wish for a tool call are turned into the fields that the translation
  reads: \<open>proxy/claude_tool_policy.go\<close>, \<open>proxy/tool_choice.go\<close>, \<open>proxy/claude_server_tools.go\<close> and the roles of OpenAI messages.

  An error is its message, \<open>Inl\<close>. \<open>matches\<close> is \<open>regexp\<close> with its pattern as first argument, \<open>quote\<close> is \<open>strconv.Quote\<close>.
  Non-ASCII literals are written as bytes.
\<close>

section \<open>Roles\<close>

definition legacyFunctionError :: string where
  "legacyFunctionError = ''legacy function message requires name or tool_call_id''"

definition normalizeOpenAIMessageRole :: "(string \<Rightarrow> string) \<Rightarrow> OpenAIMessage \<Rightarrow> string + OpenAIMessage" where
  "normalizeOpenAIMessageRole quote msg =
     (let original = to_lower (trim_space (om_Role msg))
      in if original \<in> {''system'', ''user'', ''assistant'', ''tool''} then Inr (msg\<lparr>om_Role := original\<rparr>)
         else if original = ''developer'' then Inr (msg\<lparr>om_Role := ''system''\<rparr>)
         else if original = ''function''
         then (let cid = (if trim_space (om_ToolCallID msg) = '''' then trim_space (om_Name msg) else om_ToolCallID msg)
               in if cid = '''' then Inl legacyFunctionError else Inr (msg\<lparr>om_Role := ''tool'', om_ToolCallID := cid\<rparr>))
         else Inl (''unsupported message role '' @ quote (om_Role msg)))"

section \<open>Choices of the Anthropic protocol\<close>

definition parseClaudeToolChoice :: "(string \<Rightarrow> string) \<Rightarrow> jsonValue \<Rightarrow> string + string \<times> string" where
  "parseClaudeToolChoice quote raw =
     (case (case raw of
              JString v \<Rightarrow> Some (to_lower (trim_space v), '''')
            | JObject ms \<Rightarrow> Some (to_lower (trim_space (stringMember ''type'' ms)), trim_space (stringMember ''name'' ms))
            | JNull \<Rightarrow> Some (''auto'', '''')
            | _ \<Rightarrow> None) of
        None \<Rightarrow> Inl ''invalid tool_choice''
      | Some (mode0, name) \<Rightarrow>
          let mode = (if mode0 = '''' then ''auto'' else mode0)
          in if mode \<in> {''auto'', ''any'', ''none''} then Inr (mode, '''')
             else if mode = ''tool'' then (if name = '''' then Inl ''tool_choice tool name is required'' else Inr (mode, name))
             else Inl (''unsupported tool_choice '' @ quote mode))"

definition claudeToolExists :: "ClaudeTool list \<Rightarrow> string \<Rightarrow> bool" where
  "claudeToolExists tools name \<longleftrightarrow> list_ex (\<lambda>t. cl_Name t = name) tools"

definition normalizeWebSearchIdentifier :: "string \<Rightarrow> string" where
  "normalizeWebSearchIdentifier v =
     filter (\<lambda>c. let n = (of_char c :: nat) in (97 \<le> n \<and> n \<le> 122) \<or> (48 \<le> n \<and> n \<le> 57)) (to_lower (trim_space v))"

definition isWebSearchToolName :: "string \<Rightarrow> bool" where
  "isWebSearchToolName name \<longleftrightarrow> normalizeWebSearchIdentifier name = ''websearch''"

definition isNativeWebSearchTool :: "ClaudeTool \<Rightarrow> bool" where
  "isNativeWebSearchTool tool \<longleftrightarrow> isWebSearchToolName (cl_Name tool) \<and>
     has_prefix (normalizeWebSearchIdentifier (cl_Type tool)) ''websearch'' \<and> normalizeWebSearchIdentifier (cl_Type tool) \<noteq> ''websearch''"

definition serverToolPrefixes :: "string list" where
  "serverToolPrefixes = [''web_fetch_'', ''code_execution_'', ''bash_code_execution_'', ''text_editor_code_execution_'']"

fun validateClaudeServerTools :: "(string \<Rightarrow> string) \<Rightarrow> bool \<Rightarrow> ClaudeTool list \<Rightarrow> string option" where
  "validateClaudeServerTools quote webSearchEnabled [] = None"
| "validateClaudeServerTools quote webSearchEnabled (tool # tools) =
     (let kind = to_lower (trim_space (cl_Type tool))
      in if isNativeWebSearchTool tool \<or> has_prefix kind ''web_search_''
         then (if \<not> isNativeWebSearchTool tool then Some ''native web search tool must be named web_search or WebSearch''
               else if \<not> webSearchEnabled then Some ''native web search is disabled on this gateway''
               else validateClaudeServerTools quote webSearchEnabled tools)
         else if list_ex (has_prefix kind) serverToolPrefixes
         then Some (''server tool type '' @ quote (cl_Type tool) @ '' is not supported on this gateway; use a client-executed tool instead'')
         else validateClaudeServerTools quote webSearchEnabled tools)"

section \<open>Inferred tool use\<close>

definition bytes :: "nat list \<Rightarrow> string" where
  "bytes ns = map char_of ns"

text \<open>The Chinese and English words the code looks for, as UTF-8 bytes.\<close>

definition workspaceActionWords :: "string list" where
  "workspaceActionWords =
     [bytes [229, 136, 155, 229, 187, 186], bytes [230, 150, 176, 229, 187, 186], bytes [229, 134, 153, 229, 133, 165], 
      bytes [228, 191, 174, 230, 148, 185], bytes [231, 188, 150, 232, 190, 145], bytes [229, 136, 160, 233, 153, 164], 
      bytes [229, 174, 158, 231, 142, 176], bytes [228, 191, 174, 229, 164, 141], bytes [232, 191, 144, 232, 161, 140], 
      bytes [230, 137, 167, 232, 161, 140], bytes [229, 174, 137, 232, 163, 133], bytes [230, 158, 132, 229, 187, 186], 
      bytes [230, 181, 139, 232, 175, 149], bytes [232, 175, 187, 229, 143, 150], bytes [230, 163, 128, 230, 159, 165]]"

definition workspaceObjectWords :: "string list" where
  "workspaceObjectWords =
     [bytes [230, 150, 135, 228, 187, 182], bytes [228, 187, 163, 231, 160, 129], bytes [233, 161, 185, 231, 155, 174], 
      bytes [233, 161, 181, 233, 157, 162], bytes [231, 189, 145, 231, 171, 153], bytes [229, 145, 189, 228, 187, 164], 
      bytes [232, 132, 154, 230, 156, 172], bytes [231, 155, 174, 229, 189, 149], ''html'', ''css'', ''javascript'', 
      bytes [228, 187, 147, 229, 186, 147]]"

definition workspaceRequestWords :: "string list" where
  "workspaceRequestWords =
     [bytes [232, 175, 183], bytes [228, 187, 187, 229, 138, 161, 231, 155, 174, 230, 160, 135], 
      bytes [229, 184, 174, 230, 136, 145], bytes [231, 155, 180, 230, 142, 165], bytes [233, 156, 128, 232, 166, 129], 
      bytes [232, 166, 129, 230, 177, 130], bytes [229, 174, 140, 230, 136, 144]]"

definition explanationWords :: "string list" where
  "explanationWords =
     [bytes [232, 167, 163, 233, 135, 138], bytes [232, 175, 180, 230, 152, 142], bytes [230, 128, 187, 231, 187, 147], 
      bytes [229, 155, 158, 231, 173, 148], bytes [228, 187, 139, 231, 187, 141], ''explain'', ''summarize'', ''describe'']"

definition continuationWords :: "string list" where
  "continuationWords =
     [bytes [231, 187, 167, 231, 187, 173], bytes [230, 142, 165, 231, 157, 128], 
      bytes [228, 184, 139, 228, 184, 128, 230, 173, 165], bytes [229, 134, 141, 230, 157, 165], 
      bytes [229, 190, 128, 228, 184, 139], ''continue'', ''keep going'', ''go on'', ''proceed'', ''resume'', ''carry on'']"

definition englishVerbs :: string where
  "englishVerbs = ''(create|write|modify|edit|delete|implement|fix|run|execute|install|build|test|inspect|read|update|generate)''"

definition englishWorkspaceAction :: string where
  "englishWorkspaceAction = ''(?i)'' @ [CHR 0x5C] @ ''b'' @ englishVerbs @ [CHR 0x5C] @ ''b''"

definition englishWorkspaceObject :: string where
  "englishWorkspaceObject = ''(?i)'' @ [CHR 0x5C] @
     ''b(file|code|project|page|website|command|script|directory|folder|html|css|javascript|workspace|repository|repo)'' @ [CHR 0x5C] @ ''b''"

definition englishImperative :: string where
  "englishImperative = ''(?i)^'' @ [CHR 0x5C] @ ''s*(please'' @ [CHR 0x5C] @ ''s+)?'' @ englishVerbs @ [CHR 0x5C] @ ''b''"

definition textRequestsWorkspaceAction :: "(string \<Rightarrow> string \<Rightarrow> bool) \<Rightarrow> string \<Rightarrow> bool" where
  "textRequestsWorkspaceAction matches text0 =
     (let text = trim_space text0; lower = to_lower text
      in text \<noteq> '''' \<and>
         (containsAny text workspaceActionWords \<and> containsAny lower workspaceObjectWords \<and> containsAny text workspaceRequestWords \<or>
          matches englishWorkspaceAction text \<and> matches englishWorkspaceObject text \<and>
          (matches englishImperative text \<or> contains lower ''please '' \<or> contains lower ''task:'')))"

definition isWorkspaceContinuationText :: "string \<Rightarrow> bool" where
  "isWorkspaceContinuationText text0 =
     (let text = trim_space (to_lower text0)
      in text \<noteq> '''' \<and> length (runes text) \<le> 120 \<and> \<not> containsAny text explanationWords \<and> list_ex (contains text) continuationWords)"

definition mutationMarkers :: "string list" where
  "mutationMarkers = [''write'', ''edit'', ''patch'', ''bash'', ''shell'', ''exec'', ''command'', ''notebookedit'']"

text \<open>\<open>hasWorkspaceMutationTool\<close> reads the names of the tools only.\<close>

definition hasWorkspaceMutationTool :: "string list \<Rightarrow> bool" where
  "hasWorkspaceMutationTool names \<longleftrightarrow> list_ex (\<lambda>n. list_ex (contains (compactName (to_lower (trim_space n)))) mutationMarkers) names"

definition hasPriorWorkspaceActivity :: "(string \<Rightarrow> string \<Rightarrow> bool) \<Rightarrow> ClaudeMessage list \<Rightarrow> bool" where
  "hasPriorWorkspaceActivity matches msgs \<longleftrightarrow>
     list_ex (\<lambda>m.
       if cm_Role m = ''assistant'' then list_ex (\<lambda>u. hasWorkspaceMutationTool [tu_Name u]) (snd (extractClaudeAssistantContent (cm_Content m)))
       else if cm_Role m = ''user'' then textRequestsWorkspaceAction matches (fst (extractClaudeUserContent (cm_Content m)))
       else False) (butlast msgs)"

definition lastClaudeUserText :: "ClaudeMessage list \<Rightarrow> string" where
  "lastClaudeUserText msgs =
     (case find (\<lambda>m. cm_Role m = ''user'') (rev msgs) of None \<Rightarrow> '''' | Some m \<Rightarrow> fst (extractClaudeUserContent (cm_Content m)))"

definition shouldRequireWorkspaceTool :: "(string \<Rightarrow> string \<Rightarrow> bool) \<Rightarrow> ClaudeRequest \<Rightarrow> bool" where
  "shouldRequireWorkspaceTool matches req =
     (let text = trim_space (lastClaudeUserText (cr_Messages req))
      in if \<not> hasWorkspaceMutationTool (claudeToolNames (cr_Tools req)) \<or> text = '''' then False
         else if isWorkspaceContinuationText text then hasPriorWorkspaceActivity matches (cr_Messages req)
         else textRequestsWorkspaceAction matches text)"

section \<open>Claude Code\<close>

definition hasClaudeCodeBetaHeader :: "string \<Rightarrow> bool" where
  "hasClaudeCodeBetaHeader v0 = (let v = to_lower (trim_space v0) in v \<noteq> '''' \<and> contains v ''claude-code-'')"

definition isClaudeCodeUserAgent :: "string \<Rightarrow> bool" where
  "isClaudeCodeUserAgent userAgent =
     (let v = to_lower (trim_space userAgent)
      in v \<noteq> '''' \<and> containsAny v [''claude-code'', ''claude_cli'', ''claude-cli'', ''anthropic-cli''])"

definition looksLikeClaudeCodeRequest :: "ClaudeRequest \<Rightarrow> bool" where
  "looksLikeClaudeCodeRequest req \<longleftrightarrow>
     cr_ClientClaudeCodeBeta req \<or> isClaudeCodeUserAgent (cr_ClientUserAgent req) \<or> isClaudeCodeSystemPrompt (extractSystemPrompt (cr_System req)) \<or>
     (let names = map (\<lambda>t. compactName (to_lower (trim_space (cl_Name t)))) (cr_Tools req)
      in ''toolsearch'' \<in> set names \<and>
         list_ex (\<lambda>n. n \<in> {''agent'', ''artifact'', ''askuserquestion'', ''skill'', ''task''}) names \<and>
         hasWorkspaceMutationTool (claudeToolNames (cr_Tools req)))"

text \<open>The settings the policy reads and the packages it calls.\<close>

record policyEnv =
  pe_AgentToolSteering :: bool
  pe_TransparentMode :: bool
  pe_WebSearchEnabled :: bool
  pe_quote :: "string \<Rightarrow> string"
  pe_matches :: "string \<Rightarrow> string \<Rightarrow> bool"

definition isClaudeCodeTransparentRequest :: "policyEnv \<Rightarrow> ClaudeRequest \<Rightarrow> bool" where
  "isClaudeCodeTransparentRequest pe req \<longleftrightarrow> pe_TransparentMode pe \<and> looksLikeClaudeCodeRequest req"

definition requiresStrictClaudeToolUse :: "ClaudeRequest \<Rightarrow> bool" where
  "requiresStrictClaudeToolUse req \<longleftrightarrow> cr_ToolUsePolicy req = ''explicit''"

definition appendClaudeSystemText :: "jsonValue \<Rightarrow> string \<Rightarrow> jsonValue" where
  "appendClaudeSystemText system text =
     (let block = (\<lambda>t. JObject [(''type'', JString ''text''), (''text'', JString t)])
      in if trim_space text = '''' \<or> contains (extractSystemPrompt system) agentToolPolicyMarker then system
         else case system of
                JNull \<Rightarrow> JArray [block text]
              | JString v \<Rightarrow> if trim_space v = '''' then JArray [block text] else JArray [block v, block text]
              | JArray bs \<Rightarrow> JArray (bs @ [block text])
              | _ \<Rightarrow> JArray [block (extractSystemPrompt system), block text])"

definition buildClaudeAgentToolPolicy :: "policyEnv \<Rightarrow> ClaudeRequest \<Rightarrow> string" where
  "buildClaudeAgentToolPolicy pe req = agentToolPolicy (pe_quote pe) (cr_RequireToolUse req) (cr_RequiredToolName req)"

text \<open>
  The request is updated in place: also a rejected request keeps the updates made before the error, so that the result is the
  error, if any, and the request.
\<close>

definition steerClaude :: "policyEnv \<Rightarrow> bool \<Rightarrow> bool \<Rightarrow> ClaudeRequest \<Rightarrow> string option \<times> ClaudeRequest" where
  "steerClaude pe enforce transparent req =
     (case validateClaudeServerTools (pe_quote pe) (pe_WebSearchEnabled pe) (cr_Tools req) of
        Some e \<Rightarrow> (Some e, req)
      | None \<Rightarrow>
          let r1 = (if enforce \<and> \<not> transparent \<and> \<not> cr_RequireToolUse req \<and> shouldRequireWorkspaceTool (pe_matches pe) req
                    then req\<lparr>cr_RequireToolUse := True, cr_ToolUsePolicy := ''inferred''\<rparr> else req)
          in (None, if cr_Tools r1 = [] \<or> \<not> cr_AgentToolSteering r1 then r1
                    else r1\<lparr>cr_System := appendClaudeSystemText (cr_System r1) (buildClaudeAgentToolPolicy pe r1)\<rparr>))"

definition prepareClaudeToolPolicy :: "policyEnv \<Rightarrow> bool \<Rightarrow> ClaudeRequest \<Rightarrow> string option \<times> ClaudeRequest" where
  "prepareClaudeToolPolicy pe enforce req0 =
     (let r0 = req0\<lparr>cr_RequireToolUse := False, cr_RequiredToolName := '''', cr_ToolUsePolicy := ''''\<rparr>;
          transparent = isClaudeCodeTransparentRequest pe r0;
          r1 = r0\<lparr>cr_AgentToolSteering := (pe_AgentToolSteering pe \<and> \<not> transparent)\<rparr>
      in case parseClaudeToolChoice (pe_quote pe) (cr_ToolChoice r1) of
           Inl e \<Rightarrow> (Some e, r1)
         | Inr (mode, name) \<Rightarrow>
             if mode = ''none'' then (None, r1\<lparr>cr_Tools := [], cr_AgentToolSteering := False\<rparr>)
             else if mode = ''any''
             then (if cr_Tools r1 = [] then (Some ''tool_choice=any requires at least one tool'', r1)
                   else steerClaude pe enforce transparent (r1\<lparr>cr_RequireToolUse := True, cr_ToolUsePolicy := ''explicit''\<rparr>))
             else if mode = ''tool''
             then (if \<not> claudeToolExists (cr_Tools r1) name then (Some (''tool_choice references unknown tool '' @ pe_quote pe name), r1)
                   else steerClaude pe enforce transparent
                          (r1\<lparr>cr_RequireToolUse := True, cr_RequiredToolName := name, cr_ToolUsePolicy := ''explicit''\<rparr>))
             else steerClaude pe enforce transparent r1)"

section \<open>Choices of the OpenAI protocol\<close>

text \<open>
  \<open>unmarshal\<close> is \<open>json.Unmarshal\<close> into an empty interface: \<open>Inl\<close> with the error's text, or the value, its members in the order of the
  text. Unmarshalling into a struct matches field names without regard to case, \<open>null\<close> leaves a string as it is and makes a
  pointer \<open>nil\<close>, and a member of another type is an error with the text \<open>typeError\<close>.
\<close>

datatype normalizedToolChoice = ChoiceMode string | ChoiceFunction string

definition structString :: "string \<Rightarrow> (string \<times> jsonValue) list \<Rightarrow> string \<Rightarrow> string option" where
  "structString start ms key =
     foldl (\<lambda>acc (k, v). if \<not> equal_fold k key then acc
        else case acc of None \<Rightarrow> None | Some s \<Rightarrow> (case v of JNull \<Rightarrow> Some s | JString t \<Rightarrow> Some t | _ \<Rightarrow> None)) (Some start) ms"

definition choiceFunctionName :: "(string \<times> jsonValue) list \<Rightarrow> string option option" where
  "choiceFunctionName ms =
     foldl (\<lambda>acc (k, v). if \<not> equal_fold k ''function'' then acc
        else case acc of
          None \<Rightarrow> None
        | Some f \<Rightarrow> (case v of
            JNull \<Rightarrow> Some None
          | JObject fs \<Rightarrow> map_option Some (structString (case f of None \<Rightarrow> '''' | Some n \<Rightarrow> n) fs ''name'')
          | _ \<Rightarrow> None)) (Some None) ms"

definition parseOpenAIToolChoice ::
    "(string \<Rightarrow> string) \<Rightarrow> (string \<Rightarrow> string + jsonValue) \<Rightarrow> (jsonValue \<Rightarrow> string) \<Rightarrow> string \<Rightarrow> string + normalizedToolChoice" where
  "parseOpenAIToolChoice quote unmarshal typeError raw =
     (let trimmed = trim_space raw; required = Inl ''tool_choice function name is required''
      in if trimmed = '''' \<or> trimmed = ''null'' then Inr (ChoiceMode ''auto'')
         else case unmarshal raw of
                Inl e \<Rightarrow> Inl (''invalid tool_choice: '' @ e)
              | Inr v \<Rightarrow>
                  (if has_prefix trimmed [CHR 0x22]
                   then (case v of
                           JString s \<Rightarrow>
                             let mode = to_lower (trim_space s)
                             in if mode \<in> {''auto'', ''none'', ''required''} then Inr (ChoiceMode mode)
                                else Inl (''unsupported tool_choice '' @ quote mode)
                         | _ \<Rightarrow> Inl (''invalid tool_choice: '' @ typeError v))
                   else (case v of
                           JObject ms \<Rightarrow>
                             (case (structString '''' ms ''type'', structString '''' ms ''name'', choiceFunctionName ms) of
                                (Some ty, Some nm, Some fn) \<Rightarrow>
                                  let name0 = trim_space nm;
                                      name = (case fn of Some f \<Rightarrow> if trim_space f \<noteq> '''' then trim_space f else name0 | None \<Rightarrow> name0);
                                      choiceType = to_lower (trim_space ty)
                                  in if choiceType \<notin> {''function'', ''custom'', ''tool''} \<or> name = '''' then required
                                     else Inr (ChoiceFunction name)
                              | _ \<Rightarrow> Inl (''invalid tool_choice: '' @ typeError v))
                         | JNull \<Rightarrow> required
                         | _ \<Rightarrow> Inl (''invalid tool_choice: '' @ typeError v))))"

definition insertToolChoiceConstraint :: "string \<Rightarrow> OpenAIRequest \<Rightarrow> OpenAIRequest" where
  "insertToolChoiceConstraint constraint req =
     (let isSystem = (\<lambda>m. om_Role m = ''system'');
          msg = \<lparr>om_Role = ''system'', om_Content = JString constraint, om_Name = '''', om_ToolCalls = [], om_ToolCallID = ''''\<rparr>
      in req\<lparr>or_Messages := takeWhile isSystem (or_Messages req) @ [msg] @ dropWhile isSystem (or_Messages req)\<rparr>)"

definition applyOpenAIToolChoice ::
    "(string \<Rightarrow> string) \<Rightarrow> (string \<Rightarrow> string + jsonValue) \<Rightarrow> (jsonValue \<Rightarrow> string) \<Rightarrow> string \<Rightarrow> OpenAIRequest \<Rightarrow> string + OpenAIRequest" where
  "applyOpenAIToolChoice quote unmarshal typeError raw req =
     (if raw = '''' then Inr req
      else case parseOpenAIToolChoice quote unmarshal typeError raw of
             Inl e \<Rightarrow> Inl e
           | Inr (ChoiceMode mode) \<Rightarrow>
               if mode = '''' \<or> mode = ''auto'' then Inr req
               else if mode = ''none'' then Inr (req\<lparr>or_Tools := []\<rparr>)
               else if mode = ''required''
               then (if or_Tools req = [] then Inl ''tool_choice=required requires at least one tool''
                     else Inr (insertToolChoiceConstraint ''You must call at least one available tool before answering.'' req))
               else Inl (''unsupported tool_choice '' @ quote mode)
           | Inr (ChoiceFunction name) \<Rightarrow>
               (case find (\<lambda>t. ot_Name t = name) (or_Tools req) of
                  None \<Rightarrow> Inl (''tool_choice references unknown function '' @ quote name)
                | Some tool \<Rightarrow>
                    Inr (insertToolChoiceConstraint (''You must call the '' @ quote name @ '' tool before answering.'') (req\<lparr>or_Tools := [tool]\<rparr>))))"

end
