(* ===== verification/Tool_Choice_Props.thy ===== *)
theory Tool_Choice_Props
  imports Tool_Choice Translate_Props
begin

text \<open>
  What the tool policies promise: a required tool exists, a request that must not call tools declares none, a transparent
  request is not steered, and a choice of the OpenAI protocol only narrows the tools and adds one system message.
\<close>

section \<open>Roles\<close>

lemma normalizeOpenAIMessageRole_stable:
  assumes "normalizeOpenAIMessageRole quote msg = Inr msg'"
  shows "om_Role msg' \<in> {''system'', ''user'', ''assistant'', ''tool''} \<and> normalizeOpenAIMessageRole quote msg' = Inr msg'"
proof -
  have c: "to_lower (trim_space ''system'') = ''system''" "to_lower (trim_space ''user'') = ''user''"
    "to_lower (trim_space ''assistant'') = ''assistant''" "to_lower (trim_space ''tool'') = ''tool''" by code_simp+
  have "om_Role msg' \<in> {''system'', ''user'', ''assistant'', ''tool''}"
    using assms by (auto simp: normalizeOpenAIMessageRole_def Let_def split: if_splits)
  moreover from this have "to_lower (trim_space (om_Role msg')) = om_Role msg'" using c by auto
  ultimately show ?thesis by (simp add: normalizeOpenAIMessageRole_def)
qed

section \<open>The Anthropic policy\<close>

lemma steerClaude_fields:
  assumes "steerClaude pe enforce transparent req = (None, req')"
  shows "cr_Tools req' = cr_Tools req" "cr_Messages req' = cr_Messages req" "cr_RequiredToolName req' = cr_RequiredToolName req"
    and "cr_RequireToolUse req' \<Longrightarrow> cr_RequireToolUse req \<or> enforce \<and> \<not> transparent \<and> shouldRequireWorkspaceTool (pe_matches pe) req"
    and "cr_RequireToolUse req \<Longrightarrow> cr_RequireToolUse req' \<and> cr_ToolUsePolicy req' = cr_ToolUsePolicy req"
    and "\<not> cr_AgentToolSteering req \<Longrightarrow> cr_System req' = cr_System req"
  using assms by (auto simp: steerClaude_def Let_def split: option.splits if_splits)

lemma required_workspace_has_tools: "shouldRequireWorkspaceTool matches req \<Longrightarrow> cr_Tools req \<noteq> []"
  by (auto simp: shouldRequireWorkspaceTool_def hasWorkspaceMutationTool_def claudeToolNames_def Let_def split: if_splits)

text \<open>The request as the policy starts from it, and the four ways a request is accepted.\<close>

definition resetPolicy :: "policyEnv \<Rightarrow> ClaudeRequest \<Rightarrow> ClaudeRequest" where
  "resetPolicy pe req =
     (let r0 = req\<lparr>cr_RequireToolUse := False, cr_RequiredToolName := '''', cr_ToolUsePolicy := ''''\<rparr>
      in r0\<lparr>cr_AgentToolSteering := (pe_AgentToolSteering pe \<and> \<not> isClaudeCodeTransparentRequest pe r0)\<rparr>)"

lemma transparent_reset: "isClaudeCodeTransparentRequest pe (req\<lparr>cr_RequireToolUse := a, cr_RequiredToolName := b, cr_ToolUsePolicy := c\<rparr>) =
    isClaudeCodeTransparentRequest pe req"
  by (simp add: isClaudeCodeTransparentRequest_def looksLikeClaudeCodeRequest_def)

lemma resetPolicy_simps [simp]:
  "cr_Tools (resetPolicy pe req) = cr_Tools req" "cr_Messages (resetPolicy pe req) = cr_Messages req" "cr_System (resetPolicy pe req) = cr_System req"
  "cr_ToolChoice (resetPolicy pe req) = cr_ToolChoice req" "cr_RequireToolUse (resetPolicy pe req) = False" "cr_RequiredToolName (resetPolicy pe req) = ''''"
  "cr_ToolUsePolicy (resetPolicy pe req) = ''''"
  "cr_AgentToolSteering (resetPolicy pe req) \<longleftrightarrow> pe_AgentToolSteering pe \<and> \<not> isClaudeCodeTransparentRequest pe req"
  by (simp_all add: resetPolicy_def Let_def transparent_reset)

lemma parseClaudeToolChoice_modes:
  assumes "parseClaudeToolChoice quote raw = Inr (mode, name)"
  shows "mode \<in> {''auto'', ''any'', ''none'', ''tool''}" "(mode = ''tool'') = (name \<noteq> '''')"
  using assms by (auto simp: parseClaudeToolChoice_def Let_def split: option.splits if_splits)

lemma prepare_cases:
  assumes "prepareClaudeToolPolicy pe enforce req = (None, req')"
  obtains (none) "parseClaudeToolChoice (pe_quote pe) (cr_ToolChoice req) = Inr (''none'', '''')"
      "req' = (resetPolicy pe req)\<lparr>cr_Tools := [], cr_AgentToolSteering := False\<rparr>"
  | (any) "parseClaudeToolChoice (pe_quote pe) (cr_ToolChoice req) = Inr (''any'', '''')" "cr_Tools req \<noteq> []"
      "steerClaude pe enforce (isClaudeCodeTransparentRequest pe req)
         ((resetPolicy pe req)\<lparr>cr_RequireToolUse := True, cr_ToolUsePolicy := ''explicit''\<rparr>) = (None, req')"
  | (tool) name where "parseClaudeToolChoice (pe_quote pe) (cr_ToolChoice req) = Inr (''tool'', name)" "name \<noteq> ''''" "claudeToolExists (cr_Tools req) name"
      "steerClaude pe enforce (isClaudeCodeTransparentRequest pe req)
         ((resetPolicy pe req)\<lparr>cr_RequireToolUse := True, cr_RequiredToolName := name, cr_ToolUsePolicy := ''explicit''\<rparr>) = (None, req')"
  | (auto) "parseClaudeToolChoice (pe_quote pe) (cr_ToolChoice req) = Inr (''auto'', '''')"
      "steerClaude pe enforce (isClaudeCodeTransparentRequest pe req) (resetPolicy pe req) = (None, req')"
proof -
  have r: "resetPolicy pe req = req\<lparr>cr_RequireToolUse := False, cr_RequiredToolName := '''', cr_ToolUsePolicy := '''',
      cr_AgentToolSteering := (pe_AgentToolSteering pe \<and> \<not> isClaudeCodeTransparentRequest pe req)\<rparr>"
    by (simp add: resetPolicy_def Let_def transparent_reset)
  obtain mode name where p: "parseClaudeToolChoice (pe_quote pe) (cr_ToolChoice req) = Inr (mode, name)"
    using assms by (auto simp: prepareClaudeToolPolicy_def Let_def split: sum.splits)
  note m = parseClaudeToolChoice_modes [OF p]
  have eq: "prepareClaudeToolPolicy pe enforce req =
     (if mode = ''none'' then (None, (resetPolicy pe req)\<lparr>cr_Tools := [], cr_AgentToolSteering := False\<rparr>)
      else if mode = ''any''
      then (if cr_Tools req = [] then (Some ''tool_choice=any requires at least one tool'', resetPolicy pe req)
            else steerClaude pe enforce (isClaudeCodeTransparentRequest pe req)
              ((resetPolicy pe req)\<lparr>cr_RequireToolUse := True, cr_ToolUsePolicy := ''explicit''\<rparr>))
      else if mode = ''tool''
      then (if \<not> claudeToolExists (cr_Tools req) name then (Some (''tool_choice references unknown tool '' @ pe_quote pe name), resetPolicy pe req)
            else steerClaude pe enforce (isClaudeCodeTransparentRequest pe req)
              ((resetPolicy pe req)\<lparr>cr_RequireToolUse := True, cr_RequiredToolName := name, cr_ToolUsePolicy := ''explicit''\<rparr>))
      else steerClaude pe enforce (isClaudeCodeTransparentRequest pe req) (resetPolicy pe req))"
    unfolding prepareClaudeToolPolicy_def Let_def r by (simp add: p transparent_reset)
  consider "mode = ''none''" | "mode = ''any''" | "mode = ''tool''" | "mode = ''auto''" using m(1) by blast
  then show ?thesis
  proof cases
    case 1 then show ?thesis using none p m assms eq by auto
  next
    case 2 then show ?thesis using any p m assms eq by (auto split: if_splits)
  next
    case 3 then show ?thesis using tool p m assms eq by (auto split: if_splits)
  next
    case 4 then show ?thesis using auto p m assms eq by auto
  qed
qed

text \<open>
  C31. When the tool policy accepts an Anthropic request, a request that must call a tool has tools, a tool that must be called
  is one of them, \<open>tool_choice\<close> none leaves no tool, and the messages are as the client sent them; requests recognised as Claude Code in
  transparent mode get no added instruction and no inferred duty to call a tool.
\<close>

theorem tool_policy_sound:
  assumes "prepareClaudeToolPolicy pe enforce req = (None, req')"
  shows "(cr_RequireToolUse req' \<longrightarrow> cr_Tools req' \<noteq> []) \<and>
     (cr_RequiredToolName req' \<noteq> '''' \<longrightarrow> cr_RequireToolUse req' \<and> claudeToolExists (cr_Tools req') (cr_RequiredToolName req')) \<and>
     cr_Tools req' = (if parseClaudeToolChoice (pe_quote pe) (cr_ToolChoice req) = Inr (''none'', '''') then [] else cr_Tools req) \<and>
     cr_Messages req' = cr_Messages req \<and>
     (isClaudeCodeTransparentRequest pe req \<longrightarrow> cr_System req' = cr_System req \<and> cr_ToolUsePolicy req' \<noteq> ''inferred'')"
  using assms
proof (cases rule: prepare_cases)
  case none
  then show ?thesis by simp
next
  case any
  note f = steerClaude_fields [OF any(3)]
  show ?thesis using any(1,2) f by simp
next
  case (tool name)
  note f = steerClaude_fields [OF tool(4)]
  have "cr_Tools req \<noteq> []" using tool(3) by (auto simp: claudeToolExists_def)
  then show ?thesis using tool(1-3) f by simp
next
  case auto
  note f = steerClaude_fields [OF auto(2)]
  have t: "cr_RequireToolUse req' \<Longrightarrow> cr_Tools req \<noteq> []" using f(4) required_workspace_has_tools by fastforce
  moreover have "cr_ToolUsePolicy req' = ''''" if "isClaudeCodeTransparentRequest pe req"
    using auto(2) that by (auto simp: steerClaude_def resetPolicy_def Let_def split: option.splits if_splits)
  ultimately show ?thesis using auto(1) f(1,2,3,6) by auto
qed

definition samplePolicy :: policyEnv where
  "samplePolicy = \<lparr>pe_AgentToolSteering = True, pe_TransparentMode = True, pe_WebSearchEnabled = False,
     pe_quote = (\<lambda>s. s), pe_matches = (\<lambda>_ _. False)\<rparr>"

theorem tool_policy_sound_witness:
  "let (e, r) = prepareClaudeToolPolicy samplePolicy True (sampleClaude\<lparr>cr_ToolChoice := JString ''any''\<rparr>)
   in e = None \<and> cr_RequireToolUse r \<and> cr_Tools r = cr_Tools sampleClaude \<and> cr_Messages r = cr_Messages sampleClaude"
proof -
  let ?r = "sampleClaude\<lparr>cr_ToolChoice := JString ''any''\<rparr>"
  define x where "x = prepareClaudeToolPolicy samplePolicy True ?r"
  have e: "fst x = None" and q: "cr_RequireToolUse (snd x)" unfolding x_def by code_simp+
  have m: "parseClaudeToolChoice (pe_quote samplePolicy) (cr_ToolChoice ?r) \<noteq> Inr (''none'', '''')" by code_simp
  have "prepareClaudeToolPolicy samplePolicy True ?r = (None, snd x)" using e unfolding x_def by (metis prod.collapse)
  from tool_policy_sound [OF this] m have "cr_Tools (snd x) = cr_Tools ?r" "cr_Messages (snd x) = cr_Messages ?r" by presburger+
  then show ?thesis using e q unfolding x_def by (simp add: case_prod_unfold)
qed

section \<open>The OpenAI choice\<close>

lemma insertToolChoiceConstraint_messages:
  "filter (\<lambda>m. om_Role m \<noteq> ''system'') (or_Messages (insertToolChoiceConstraint c req)) = filter (\<lambda>m. om_Role m \<noteq> ''system'') (or_Messages req)"
  "or_Tools (insertToolChoiceConstraint c req) = or_Tools req"
proof -
  have "filter (\<lambda>m. om_Role m \<noteq> ''system'') (takeWhile (\<lambda>m. om_Role m = ''system'') ms @ dropWhile (\<lambda>m. om_Role m = ''system'') ms) =
      filter (\<lambda>m. om_Role m \<noteq> ''system'') ms" for ms by simp
  then show "filter (\<lambda>m. om_Role m \<noteq> ''system'') (or_Messages (insertToolChoiceConstraint c req)) = filter (\<lambda>m. om_Role m \<noteq> ''system'') (or_Messages req)"
    by (simp add: insertToolChoiceConstraint_def Let_def del: takeWhile_dropWhile_id)
qed (simp add: insertToolChoiceConstraint_def Let_def)

lemma openai_choice_narrows:
  assumes "applyOpenAIToolChoice quote unmarshal typeError raw req = Inr req'"
  shows "filter (\<lambda>m. om_Role m \<noteq> ''system'') (or_Messages req') = filter (\<lambda>m. om_Role m \<noteq> ''system'') (or_Messages req) \<and>
     set (or_Tools req') \<subseteq> set (or_Tools req) \<and>
     (\<forall>name. parseOpenAIToolChoice quote unmarshal typeError raw = Inr (ChoiceFunction name) \<longrightarrow> raw = '''' \<or> map ot_Name (or_Tools req') = [name])"
  using assms
  by (auto simp: applyOpenAIToolChoice_def insertToolChoiceConstraint_messages find_Some_iff split: if_splits sum.splits normalizedToolChoice.splits option.splits)

end
