(* ===== verification/Stream_Fields.thy ===== *)
theory Stream_Fields
  imports Json Payload_Limit
begin

text \<open>
  Reading the loosely typed events of the upstream's stream (\<open>proxy/eventstream_payload.go\<close>): names are compared without
  regard to case and separators, values are found under several names and one or two levels of wrappers.

  An event is the decoded object in the order in which the program iterates over it; \<open>nil\<close> behaves as the empty object. A
  number is the literal that \<open>encoding/json\<close> read as \<open>float64\<close>; \<open>streamNumbers\<close> stands for \<open>strconv\<close>'s and \<open>fmt\<close>'s reading of numbers.
\<close>

section \<open>Names and numbers\<close>

record streamNumbers =
  sn_float :: "string \<Rightarrow> rat"
  sn_parseFloat :: "string \<Rightarrow> rat option"
  sn_scanFloat :: "string \<Rightarrow> rat option"

definition normalizeStreamIdentifier :: "string \<Rightarrow> string" where
  "normalizeStreamIdentifier v =
     filter (\<lambda>c. let n = (of_char c :: nat) in (97 \<le> n \<and> n \<le> 122) \<or> (48 \<le> n \<and> n \<le> 57)) (to_lower (trim_space v))"

text \<open>The first result of a function over a list.\<close>

fun firstSome :: "('a \<Rightarrow> 'b option) \<Rightarrow> 'a list \<Rightarrow> 'b option" where
  "firstSome f [] = None"
| "firstSome f (x # xs) = (case f x of Some y \<Rightarrow> Some y | None \<Rightarrow> firstSome f xs)"

lemma firstSome_Some: "firstSome f xs = Some y \<Longrightarrow> \<exists>x \<in> set xs. f x = Some y"
  by (induction xs) (auto split: option.splits)

type_synonym event = "(string, jsonValue) gomap"

definition streamField :: "event \<Rightarrow> string list \<Rightarrow> jsonValue option" where
  "streamField m names =
     (case firstSome (gm_get m) names of
        Some v \<Rightarrow> Some v
      | None \<Rightarrow>
          let wanted = filter (\<lambda>w. w \<noteq> '''') (map normalizeStreamIdentifier names)
          in map_option snd (find (\<lambda>(k, _). normalizeStreamIdentifier k \<in> set wanted) m))"

definition hasStreamField :: "event \<Rightarrow> string list \<Rightarrow> bool" where
  "hasStreamField m names \<longleftrightarrow> streamField m names \<noteq> None"

definition streamMapField :: "event \<Rightarrow> string list \<Rightarrow> event option" where
  "streamMapField m names = (case streamField m names of None \<Rightarrow> None | Some v \<Rightarrow> jsonMembers v)"

definition streamArrayField :: "event \<Rightarrow> string list \<Rightarrow> jsonValue list option" where
  "streamArrayField m names = (case streamField m names of Some (JArray items) \<Rightarrow> Some items | _ \<Rightarrow> None)"

definition mergeStreamMaps :: "event \<Rightarrow> event \<Rightarrow> event" where
  "mergeStreamMaps outer nested = foldl (\<lambda>m (k, v). gm_put k v m) outer nested"

definition streamWrapperMap :: "event \<Rightarrow> string list \<Rightarrow> event option" where
  "streamWrapperMap event names = map_option (mergeStreamMaps event) (streamMapField event names)"

definition innerCandidates :: "event \<Rightarrow> string list \<Rightarrow> event list" where
  "innerCandidates nested names =
     concat (map (\<lambda>n. case streamMapField nested [n] of None \<Rightarrow> [] | Some inner \<Rightarrow> [inner, mergeStreamMaps nested inner]) names)"

definition streamCandidateMaps :: "event \<Rightarrow> string list \<Rightarrow> event list" where
  "streamCandidateMaps event names =
     event # concat (map (\<lambda>n. case streamMapField event [n] of
        None \<Rightarrow> [] | Some nested \<Rightarrow> nested # mergeStreamMaps event nested # innerCandidates nested names) names)"

definition streamStringField :: "event \<Rightarrow> string list \<Rightarrow> string option" where
  "streamStringField m names = (case streamField m names of None \<Rightarrow> None | Some v \<Rightarrow> jsonString v)"

definition streamStringFrom :: "event \<Rightarrow> string list \<Rightarrow> string" where
  "streamStringFrom m names = (case streamStringField m names of None \<Rightarrow> '''' | Some s \<Rightarrow> trim_space s)"

definition streamBoolValue :: "streamNumbers \<Rightarrow> jsonValue \<Rightarrow> bool" where
  "streamBoolValue sn v =
     (case v of
        JBool b \<Rightarrow> b
      | JString s \<Rightarrow> equal_fold (trim_space s) ''true'' \<or> trim_space s = ''1''
      | JNumber n \<Rightarrow> sn_float sn n \<noteq> 0
      | _ \<Rightarrow> False)"

definition streamBoolFrom :: "streamNumbers \<Rightarrow> event \<Rightarrow> string list \<Rightarrow> bool" where
  "streamBoolFrom sn m names = (case streamField m names of None \<Rightarrow> False | Some v \<Rightarrow> streamBoolValue sn v)"

definition streamNumberField :: "streamNumbers \<Rightarrow> event \<Rightarrow> string list \<Rightarrow> rat option" where
  "streamNumberField sn m names =
     (case streamField m names of
        Some (JNumber n) \<Rightarrow> Some (sn_float sn n)
      | Some (JString s) \<Rightarrow> sn_scanFloat sn (trim_space s)
      | _ \<Rightarrow> None)"

definition streamIndexValue :: "streamNumbers \<Rightarrow> jsonValue \<Rightarrow> string" where
  "streamIndexValue sn v =
     (case v of JString s \<Rightarrow> trim_space s | JNumber n \<Rightarrow> show_int (trunc_float (sn_float sn n)) | _ \<Rightarrow> '''')"

definition streamContentBlockIndexFrom :: "streamNumbers \<Rightarrow> event \<Rightarrow> string" where
  "streamContentBlockIndexFrom sn m =
     (case streamField m [''contentBlockIndex'', ''content_block_index'', ''index'', ''blockIndex'', ''block_index''] of
        None \<Rightarrow> '''' | Some v \<Rightarrow> streamIndexValue sn v)"

section \<open>Texts\<close>

lemma streamField_smaller:
  assumes "streamField m names = Some v"
  shows "size v < size (JObject m)"
proof -
  have "v \<in> snd ` set m"
  proof (cases "firstSome (gm_get m) names")
    case None
    then obtain p where "find (\<lambda>(k, _). normalizeStreamIdentifier k \<in> set (filter (\<lambda>w. w \<noteq> '''') (map normalizeStreamIdentifier names))) m = Some p"
        "v = snd p"
      using assms by (auto simp: streamField_def Let_def)
    then show ?thesis by (metis find_Some_iff image_eqI nth_mem)
  next
    case (Some w)
    then have "w = v" using assms by (simp add: streamField_def)
    then obtain n where "gm_get m n = Some v" using firstSome_Some Some by metis
    then show ?thesis by (force dest: map_of_SomeD)
  qed
  then obtain k where "(k, v) \<in> set m" by auto
  then have "size v < size_list (size_prod (\<lambda>_. 0) size) m" by (induction m) auto
  then show ?thesis by simp
qed

definition toolBlock :: "event \<Rightarrow> bool" where
  "toolBlock object =
     (let t = normalizeStreamIdentifier (case streamStringField object [''type'', ''blockType'', ''block_type''] of None \<Rightarrow> '''' | Some s \<Rightarrow> s)
      in contains t ''tooluse'' \<or> contains t ''tool_use'')"

text \<open>\<open>streamTextValue\<close> with its three uses of \<open>streamTextFields\<close> on the names \<open>text\<close>, \<open>content\<close> and \<open>value\<close> written out.\<close>

function streamTextValue :: "jsonValue \<Rightarrow> string option" and objectText :: "event \<Rightarrow> string option" where
  "streamTextValue (JString s) = Some s"
| "streamTextValue (JArray items) =
     (let texts = map (\<lambda>item. case item of JObject object \<Rightarrow> if toolBlock object then None else objectText object | _ \<Rightarrow> None) items
      in if list_all (\<lambda>t. t = None) texts then None else Some (concat (map (\<lambda>t. case t of None \<Rightarrow> '''' | Some s \<Rightarrow> s) texts)))"
| "streamTextValue (JObject m) = objectText m"
| "streamTextValue JNull = None"
| "streamTextValue (JBool b) = None"
| "streamTextValue (JNumber n) = None"
| "objectText m =
     (case (case streamField m [''text''] of None \<Rightarrow> None | Some v \<Rightarrow> streamTextValue v) of
        Some t \<Rightarrow> Some t
      | None \<Rightarrow>
          (case (case streamField m [''content''] of None \<Rightarrow> None | Some v \<Rightarrow> streamTextValue v) of
             Some t \<Rightarrow> Some t
           | None \<Rightarrow> (case streamField m [''value''] of None \<Rightarrow> None | Some v \<Rightarrow> streamTextValue v)))"
  by pat_completeness auto
termination
proof (relation "measure (\<lambda>x. case x of Inl v \<Rightarrow> 2 * size v | Inr m \<Rightarrow> 2 * size (JObject m) - 1)", goal_cases)
  case (2 items item object)
  then have "size (JObject object) < size_list size items + 1" by (induction items) auto
  then show ?case by simp
qed (auto dest: streamField_smaller)

definition streamTextFields :: "event \<Rightarrow> string list \<Rightarrow> string option" where
  "streamTextFields m names = firstSome (\<lambda>n. case streamField m [n] of None \<Rightarrow> None | Some v \<Rightarrow> streamTextValue v) names"

section \<open>Tool payloads\<close>

definition streamToolName :: "event \<Rightarrow> string" where
  "streamToolName m =
     (let name = streamStringFrom m [''name'', ''toolName'', ''tool_name'']
      in if name \<noteq> '''' then name
         else case streamMapField m [''function''] of
                Some f \<Rightarrow> streamStringFrom f [''name'', ''toolName'', ''tool_name'']
              | None \<Rightarrow> (case streamMapField m [''contentBlock'', ''content_block''] of
                           Some b \<Rightarrow> streamStringFrom b [''name'', ''toolName'', ''tool_name''] | None \<Rightarrow> ''''))"

definition nestedField :: "event \<Rightarrow> string list \<Rightarrow> string list \<Rightarrow> jsonValue option" where
  "nestedField m outer names = (case streamMapField m outer of None \<Rightarrow> None | Some n \<Rightarrow> streamField n names)"

definition streamToolInput :: "event \<Rightarrow> jsonValue option" where
  "streamToolInput m =
     firstSome (\<lambda>x. x)
       [streamField m [''input'', ''arguments'', ''partialJson'', ''partial_json'', ''inputDelta'', ''input_delta''],
        nestedField m [''function''] [''arguments'', ''input''],
        nestedField m [''delta''] [''partialJson'', ''partial_json'', ''input'', ''inputDelta'', ''input_delta'', ''arguments''],
        nestedField m [''contentBlock'', ''content_block''] [''input'', ''arguments'']]"

definition stopNames :: "string list" where
  "stopNames = [''stop'', ''isStop'', ''done'', ''completed'', ''complete'', ''isFinal'', ''final'']"

definition canonicalToolPayload :: "streamNumbers \<Rightarrow> event \<Rightarrow> event" where
  "canonicalToolPayload sn m =
     (let tid = streamStringFrom m [''toolUseId'', ''tool_use_id'', ''toolUseID'', ''id'', ''callId'', ''call_id''];
          name = streamToolName m; index = streamContentBlockIndexFrom sn m
      in (if tid \<noteq> '''' then [(''toolUseId'', JString tid)] else []) @
         (if name \<noteq> '''' then [(''name'', JString name)] else []) @
         (if index \<noteq> '''' then [(''contentBlockIndex'', JString index)] else []) @
         (case streamToolInput m of None \<Rightarrow> [] | Some v \<Rightarrow> [(''input'', v)]) @
         (if streamBoolFrom sn m stopNames then [(''stop'', JBool True)] else []))"

end
