(* ===== verification/Tool_Stream.thy ===== *)
theory Tool_Stream
  imports Stream_Fields Event_Stream Prompts
begin

text \<open>
  The assembly of tool calls from the upstream's stream (\<open>proxy/kiro.go\<close>): calls may arrive in fragments, interleaved, with
  or without identifiers; they are completed in the order in which they were introduced.

  The callbacks are the trace of their invocations, for a callback whose functions are all set. \<open>pendingToolUseSet\<close> maps an identifier to
  the state it points to; the pointer \<open>current\<close> is that identifier. \<open>toolStreamEnv\<close> has the parameters: reading of numbers,
  \<open>json.Unmarshal\<close> into a map (\<open>None\<close> for an error and for \<open>null\<close>), \<open>strconv.Quote\<close> and \<open>strconv.ParseBool\<close>. An
  identifier is drawn at most once per event; it is an argument.
\<close>

section \<open>State\<close>

datatype toolEvent =
    ToolUseStart string string
  | ToolUseDelta string string
  | ToolUseStop string
  | ToolUseDone KiroToolUse
  | ToolUseActivity
  | ToolArgumentActivity string string

record toolUseState =
  ts_ToolUseID :: string
  ts_Name :: string
  ts_ContentBlockIndex :: string
  ts_Input :: string
  ts_FragmentCount :: int
  ts_GeneratedID :: bool
  ts_StreamStarted :: bool
  ts_Stopped :: bool

record pendingToolUseSet =
  pu_byID :: "(string, toolUseState) gomap"
  pu_order :: "string list"
  pu_lastID :: string

record toolStreamEnv =
  tse_numbers :: streamNumbers
  tse_unmarshal :: "string \<Rightarrow> event option"
  tse_quote :: "string \<Rightarrow> string"
  tse_parseBool :: "string \<Rightarrow> bool option"

definition newPendingToolUses :: pendingToolUseSet where
  "newPendingToolUses = \<lparr>pu_byID = [], pu_order = [], pu_lastID = ''''\<rparr>"

definition newToolUseState :: "string \<Rightarrow> string \<Rightarrow> string \<Rightarrow> bool \<Rightarrow> toolUseState" where
  "newToolUseState tid name index generated =
     \<lparr>ts_ToolUseID = tid, ts_Name = name, ts_ContentBlockIndex = index, ts_Input = '''', ts_FragmentCount = 0,
      ts_GeneratedID = generated, ts_StreamStarted = False, ts_Stopped = False\<rparr>"

definition pending_empty :: "pendingToolUseSet \<Rightarrow> bool" where
  "pending_empty p \<longleftrightarrow> pu_order p = []"

definition pending_get :: "pendingToolUseSet \<Rightarrow> string \<Rightarrow> toolUseState option" where
  "pending_get p tid = gm_get (pu_byID p) tid"

definition getByContentBlockIndex :: "pendingToolUseSet \<Rightarrow> string \<Rightarrow> toolUseState option" where
  "getByContentBlockIndex p index =
     (if trim_space index = '''' then None
      else firstSome (\<lambda>i. case pending_get p i of None \<Rightarrow> None | Some st \<Rightarrow> if ts_ContentBlockIndex st = index then Some st else None) (pu_order p))"

definition pending_first :: "pendingToolUseSet \<Rightarrow> toolUseState option" where
  "pending_first p = (case pu_order p of [] \<Rightarrow> None | i # _ \<Rightarrow> pending_get p i)"

definition pending_latest :: "pendingToolUseSet \<Rightarrow> toolUseState option" where
  "pending_latest p = pending_get p (pu_lastID p)"

definition pending_add :: "toolUseState \<Rightarrow> pendingToolUseSet \<Rightarrow> pendingToolUseSet" where
  "pending_add st p = \<lparr>pu_byID = gm_put (ts_ToolUseID st) st (pu_byID p), pu_order = pu_order p @ [ts_ToolUseID st], pu_lastID = ts_ToolUseID st\<rparr>"

fun replaceFirst :: "string \<Rightarrow> string \<Rightarrow> string list \<Rightarrow> string list" where
  "replaceFirst old new [] = []"
| "replaceFirst old new (i # is) = (if i = old then new # is else i # replaceFirst old new is)"

definition pending_rekey :: "toolUseState \<Rightarrow> string \<Rightarrow> pendingToolUseSet \<Rightarrow> pendingToolUseSet" where
  "pending_rekey st newID p =
     (let oldID = ts_ToolUseID st
      in if newID = '''' \<or> oldID = newID then p
         else \<lparr>pu_byID = gm_put newID (st\<lparr>ts_ToolUseID := newID, ts_GeneratedID := False\<rparr>) (gm_del oldID (pu_byID p)),
               pu_order = replaceFirst oldID newID (pu_order p),
               pu_lastID = (if pu_lastID p = oldID then newID else pu_lastID p)\<rparr>)"

definition removeFirst :: "pendingToolUseSet \<Rightarrow> pendingToolUseSet" where
  "removeFirst p =
     (case pu_order p of
        [] \<Rightarrow> p
      | i # is \<Rightarrow> \<lparr>pu_byID = gm_del i (pu_byID p), pu_order = is,
          pu_lastID = (if pu_lastID p = i then (if is = [] then '''' else last is) else pu_lastID p)\<rparr>)"

text \<open>An assignment through the pointer to the state of \<open>tid\<close>.\<close>

definition pending_update :: "string \<Rightarrow> (toolUseState \<Rightarrow> toolUseState) \<Rightarrow> pendingToolUseSet \<Rightarrow> pendingToolUseSet" where
  "pending_update tid f p = (case pending_get p tid of None \<Rightarrow> p | Some st \<Rightarrow> p\<lparr>pu_byID := gm_put tid (f st) (pu_byID p)\<rparr>)"

section \<open>Recovery boundaries\<close>

datatype toolUseRecoveryBoundary =
    toolUseRecoveryNone
  | toolUseRecoveryTruncatedFrame
  | toolUseRecoveryCleanEOF
  | toolUseRecoveryExplicitToolUse
  | toolUseRecoveryOutputLimit
  | toolUseRecoveryConflictingStop

definition toolUseRecoveryBoundaryForStopReason :: "string \<Rightarrow> toolUseRecoveryBoundary" where
  "toolUseRecoveryBoundaryForStopReason reason =
     (let r = to_lower (trim_space reason)
      in if r \<in> {''tool_use'', ''tooluse''} then toolUseRecoveryExplicitToolUse
         else if r \<in> {''max_tokens'', ''max_token'', ''max_output_tokens'', ''length''} then toolUseRecoveryOutputLimit
         else toolUseRecoveryConflictingStop)"

definition mergeToolUseRecoveryBoundary :: "toolUseRecoveryBoundary \<Rightarrow> toolUseRecoveryBoundary \<Rightarrow> toolUseRecoveryBoundary" where
  "mergeToolUseRecoveryBoundary current next =
     (if current = toolUseRecoveryConflictingStop \<or> next = toolUseRecoveryConflictingStop then toolUseRecoveryConflictingStop
      else if current = toolUseRecoveryOutputLimit \<or> next = toolUseRecoveryOutputLimit then toolUseRecoveryOutputLimit
      else if next \<noteq> toolUseRecoveryNone then next
      else current)"

type_synonym recoveryState = "toolUseRecoveryBoundary \<times> ReadError option"

definition mergeToolUseRecoveryState :: "recoveryState \<Rightarrow> recoveryState \<Rightarrow> recoveryState" where
  "mergeToolUseRecoveryState = (\<lambda>(current, currentCause) (next, nextCause).
     (let merged = mergeToolUseRecoveryBoundary current next
      in if currentCause = None \<or> merged \<noteq> current \<or> merged = next then (merged, nextCause) else (merged, currentCause)))"

definition allowsCompleteArguments :: "toolUseRecoveryBoundary \<Rightarrow> bool" where
  "allowsCompleteArguments b \<longleftrightarrow> b \<in> {toolUseRecoveryTruncatedFrame, toolUseRecoveryCleanEOF, toolUseRecoveryExplicitToolUse, toolUseRecoveryOutputLimit}"

record eventStreamParseOptions =
  eo_toolInputPolicies :: "(string, toolInputPolicy) gomap"
  eo_allowInferredTextEOF :: bool
  eo_allowTransparentTextEOF :: bool

definition allowsEmptyToolInput :: "eventStreamParseOptions \<Rightarrow> string \<Rightarrow> toolUseRecoveryBoundary \<Rightarrow> bool" where
  "allowsEmptyToolInput eo name boundary =
     (let policy = gm_zero toolInputPolicyNone (eo_toolInputPolicies eo) (trim_space name)
      in if boundary = toolUseRecoveryExplicitToolUse then policy \<in> {toolInputPolicyDeclaredEmpty, toolInputPolicyClosedEmpty}
         else if boundary = toolUseRecoveryCleanEOF then policy = toolInputPolicyClosedEmpty
         else False)"

section \<open>Completing a call\<close>

definition invalidPayload :: "string \<Rightarrow> EventStreamError" where
  "invalidPayload message = streamError EventStreamInvalidPayload message None"

definition startToolUseStream :: "toolUseState \<Rightarrow> toolUseState \<times> toolEvent list" where
  "startToolUseStream st =
     (if ts_StreamStarted st then (st, [])
      else (st\<lparr>ts_StreamStarted := True\<rparr>,
            ToolUseStart (ts_ToolUseID st) (ts_Name st) # (if ts_Input st \<noteq> '''' then [ToolUseDelta (ts_ToolUseID st) (ts_Input st)] else [])))"

definition finishToolUse :: "toolStreamEnv \<Rightarrow> string \<Rightarrow> toolUseState \<Rightarrow> EventStreamError option \<times> toolEvent list" where
  "finishToolUse env fresh st0 =
     (if ts_Name st0 = '''' then (None, [])
      else let st = (if ts_ToolUseID st0 = '''' then st0\<lparr>ts_ToolUseID := ''toolu_'' @ fresh\<rparr> else st0)
           in case (if ts_Input st = '''' then Some [] else tse_unmarshal env (ts_Input st)) of
                None \<Rightarrow> (Some ((invalidPayload ''tool use arguments must be a complete JSON object'')
                           \<lparr>es_ToolName := ts_Name st, es_ArgumentBytes := int (length (ts_Input st)), es_FragmentCount := ts_FragmentCount st\<rparr>), [])
              | Some input \<Rightarrow>
                  (None, snd (startToolUseStream st) @ [ToolUseStop (ts_ToolUseID st),
                     ToolUseDone \<lparr>tu_ToolUseID = ts_ToolUseID st, tu_Name = ts_Name st, tu_Input = JObject input\<rparr>]))"

definition toolUseArgumentsComplete :: "toolStreamEnv \<Rightarrow> toolUseState \<Rightarrow> bool" where
  "toolUseArgumentsComplete env st \<longleftrightarrow>
     trim_space (ts_Name st) \<noteq> '''' \<and> trim_space (ts_Input st) \<noteq> '''' \<and> tse_unmarshal env (trim_space (ts_Input st)) \<noteq> None"

definition incompleteToolUseStreamError :: "toolStreamEnv \<Rightarrow> toolUseState \<Rightarrow> ReadError option \<Rightarrow> EventStreamError" where
  "incompleteToolUseStreamError env st cause =
     \<lparr>es_Kind = EventStreamIncompleteToolUse,
      es_Message = ''tool '' @ tse_quote env (ts_Name st) @ '' ended without a stop marker'' @
        (if ts_Input st \<noteq> '''' then '' after '' @ show_nat (length (ts_Input st)) @ '' argument bytes'' else ''''),
      es_Cause = cause, es_ToolName = ts_Name st, es_ArgumentBytes = int (length (ts_Input st)), es_FragmentCount = ts_FragmentCount st\<rparr>"

lemma removeFirst_shorter: "pending_first p = Some st \<Longrightarrow> length (pu_order (removeFirst p)) < length (pu_order p)"
  by (auto simp: pending_first_def removeFirst_def split: list.splits)

function flushStoppedPrefix :: "toolStreamEnv \<Rightarrow> string \<Rightarrow> pendingToolUseSet \<Rightarrow> EventStreamError option \<times> pendingToolUseSet \<times> toolEvent list" where
  "flushStoppedPrefix env fresh p =
     (case pending_first p of
        None \<Rightarrow> (None, p, [])
      | Some st \<Rightarrow>
          if \<not> ts_Stopped st then (None, p, [])
          else case finishToolUse env fresh st of
                 (Some e, tr) \<Rightarrow> (Some e, p, tr)
               | (None, tr) \<Rightarrow> (let (e, q, tr') = flushStoppedPrefix env fresh (removeFirst p) in (e, q, tr @ tr')))"
  by auto
termination by (relation "measure (\<lambda>(_, _, p). length (pu_order p))") (auto simp: removeFirst_shorter)

declare flushStoppedPrefix.simps [simp del]

text \<open>Whether a call may be completed at the boundary.\<close>

definition recoverable :: "toolStreamEnv \<Rightarrow> eventStreamParseOptions \<Rightarrow> toolUseRecoveryBoundary \<Rightarrow> toolUseState \<Rightarrow> bool" where
  "recoverable env eo boundary st \<longleftrightarrow> ts_Stopped st \<or>
     (allowsCompleteArguments boundary \<and> toolUseArgumentsComplete env st) \<or>
     (ts_Input st = '''' \<and> allowsEmptyToolInput eo (ts_Name st) boundary)"

function recoverCompletePrefix ::
    "toolStreamEnv \<Rightarrow> string \<Rightarrow> eventStreamParseOptions \<Rightarrow> toolUseRecoveryBoundary \<Rightarrow> pendingToolUseSet \<Rightarrow> nat \<times> pendingToolUseSet \<times> toolEvent list" where
  "recoverCompletePrefix env fresh eo boundary p =
     (case pending_first p of
        None \<Rightarrow> (0, p, [])
      | Some st \<Rightarrow>
          if \<not> recoverable env eo boundary st then (0, p, [])
          else case finishToolUse env fresh st of
                 (Some e, tr) \<Rightarrow> (0, p, tr)
               | (None, tr) \<Rightarrow> (let (n, q, tr') = recoverCompletePrefix env fresh eo boundary (removeFirst p) in (Suc n, q, tr @ tr')))"
  by auto
termination by (relation "measure (\<lambda>(_, _, _, _, p). length (pu_order p))") (auto simp: removeFirst_shorter)

declare recoverCompletePrefix.simps [simp del]

section \<open>One event\<close>

definition firstStringField :: "event \<Rightarrow> string list \<Rightarrow> string" where
  "firstStringField m keys =
     (case firstSome (\<lambda>k. case gm_get m k of Some (JString s) \<Rightarrow> if s = '''' then None else Some s | _ \<Rightarrow> None) keys of None \<Rightarrow> '''' | Some s \<Rightarrow> s)"

definition firstBoolField :: "toolStreamEnv \<Rightarrow> event \<Rightarrow> string list \<Rightarrow> bool" where
  "firstBoolField env m keys =
     (case firstSome (\<lambda>k. case gm_get m k of
              Some (JBool b) \<Rightarrow> Some b
            | Some (JString s) \<Rightarrow> Some (case tse_parseBool env (trim_space s) of Some b \<Rightarrow> b | None \<Rightarrow> trim_space s = ''1'')
            | Some (JNumber n) \<Rightarrow> Some (sn_float (tse_numbers env) n \<noteq> 0)
            | _ \<Rightarrow> None) keys of
        None \<Rightarrow> False | Some b \<Rightarrow> b)"

text \<open>The call an event belongs to: its identifier and whether it is new, or no call; an error of a call that ends by the way.\<close>

definition addGenerated :: "string \<Rightarrow> string \<Rightarrow> string \<Rightarrow> pendingToolUseSet \<Rightarrow> (string \<times> bool) option \<times> pendingToolUseSet" where
  "addGenerated fresh name index p =
     (Some (''toolu_'' @ fresh, True), pending_add (newToolUseState (''toolu_'' @ fresh) name index True) p)"

definition selectByID :: "string \<Rightarrow> string \<Rightarrow> string \<Rightarrow> pendingToolUseSet \<Rightarrow> (string \<times> bool) option \<times> pendingToolUseSet" where
  "selectByID tid name index p =
     (if pending_get p tid \<noteq> None then (Some (tid, False), p)
      else case (if index \<noteq> '''' then getByContentBlockIndex p index else None) of
             Some st \<Rightarrow> (Some (tid, False), pending_rekey st tid p)
           | None \<Rightarrow>
               (case pending_latest p of
                  Some l \<Rightarrow> if ts_GeneratedID l \<and> (name = '''' \<or> ts_Name l = name) then (Some (tid, False), pending_rekey l tid p)
                            else (Some (tid, True), pending_add (newToolUseState tid name index False) p)
                | None \<Rightarrow> (Some (tid, True), pending_add (newToolUseState tid name index False) p)))"

definition selectToolUse ::
    "toolStreamEnv \<Rightarrow> string \<Rightarrow> string \<Rightarrow> string \<Rightarrow> string \<Rightarrow> pendingToolUseSet \<Rightarrow>
     EventStreamError option \<times> (string \<times> bool) option \<times> pendingToolUseSet \<times> toolEvent list" where
  "selectToolUse env fresh tid name index p =
     (if tid \<noteq> '''' then (let (sel, q) = selectByID tid name index p in (None, sel, q, []))
      else if index \<noteq> ''''
      then (case getByContentBlockIndex p index of
              Some st \<Rightarrow> (None, Some (ts_ToolUseID st, False), p, [])
            | None \<Rightarrow> if name \<noteq> '''' then (let (sel, q) = addGenerated fresh name index p in (None, sel, q, [])) else (None, None, p, []))
      else case pending_latest p of
             Some l \<Rightarrow>
               if name \<noteq> '''' \<and> ts_Name l \<noteq> name
               then (case flushStoppedPrefix env fresh (pending_update (ts_ToolUseID l) (\<lambda>st. st\<lparr>ts_Stopped := True\<rparr>) p) of
                       (Some e, q, tr) \<Rightarrow> (Some e, None, q, tr)
                     | (None, q, tr) \<Rightarrow> (let (sel, q') = addGenerated fresh name '''' q in (None, sel, q', tr)))
               else (None, Some (ts_ToolUseID l, False), p, [])
           | None \<Rightarrow> if name \<noteq> '''' then (let (sel, q) = addGenerated fresh name '''' p in (None, sel, q, [])) else (None, None, p, []))"

text \<open>The input of the event appended to, or put in place of, the buffer; the events it causes.\<close>

definition inputEvents :: "toolUseState \<Rightarrow> string \<Rightarrow> toolEvent list" where
  "inputEvents st data =
     (if ts_StreamStarted st then [ToolUseDelta (ts_ToolUseID st) data]
      else [ToolUseActivity, ToolArgumentActivity (ts_ToolUseID st) data])"

definition replaceInput :: "string \<Rightarrow> toolUseState \<Rightarrow> toolUseState \<times> toolEvent list" where
  "replaceInput data st = (st\<lparr>ts_Input := data, ts_FragmentCount := ts_FragmentCount st + 1\<rparr>, inputEvents st data)"

definition takeInput :: "jsonValue option \<Rightarrow> toolUseState \<Rightarrow> toolUseState \<times> toolEvent list" where
  "takeInput input st =
     (case input of
        Some (JString s) \<Rightarrow>
          if s = '''' then (st, [])
          else (st\<lparr>ts_Input := ts_Input st @ s, ts_FragmentCount := ts_FragmentCount st + 1\<rparr>, inputEvents st s)
      | Some (JObject ms) \<Rightarrow> if ms = [] then (st, []) else replaceInput (encodeValue (JObject ms)) st
      | Some (JArray vs) \<Rightarrow> if vs = [] then (st, []) else replaceInput (encodeValue (JArray vs)) st
      | _ \<Rightarrow> (st, []))"

definition fillToolUse :: "string \<Rightarrow> string \<Rightarrow> toolUseState \<Rightarrow> toolUseState" where
  "fillToolUse name index st =
     (let st1 = (if name \<noteq> '''' \<and> ts_Name st = '''' then st\<lparr>ts_Name := name\<rparr> else st)
      in if ts_ContentBlockIndex st1 = '''' \<and> index \<noteq> '''' then st1\<lparr>ts_ContentBlockIndex := index\<rparr> else st1)"

definition advanceToolUse :: "bool \<Rightarrow> jsonValue option \<Rightarrow> toolUseState \<Rightarrow> toolUseState \<times> toolEvent list" where
  "advanceToolUse created input st1 =
     (let (st2, tr2) = (if (created \<or> \<not> ts_StreamStarted st1) \<and> \<not> ts_GeneratedID st1 \<and> ts_Name st1 \<noteq> '''' then startToolUseStream st1 else (st1, []));
          (st3, tr3) = takeInput input st2
      in (st3, (if created \<and> ts_GeneratedID st1 then [ToolUseActivity] else []) @ tr2 @ tr3))"

definition handleToolUseEvent ::
    "toolStreamEnv \<Rightarrow> string \<Rightarrow> event \<Rightarrow> pendingToolUseSet \<Rightarrow> EventStreamError option \<times> pendingToolUseSet \<times> toolEvent list" where
  "handleToolUseEvent env fresh event p =
     (let tid = firstStringField event [''toolUseId'', ''toolUseID'', ''tool_use_id'', ''id''];
          name = firstStringField event [''name'', ''toolName'', ''tool_name''];
          index = streamContentBlockIndexFrom (tse_numbers env) event;
          isStop = firstBoolField env event stopNames
      in case selectToolUse env fresh tid name index p of
           (Some e, _, q, tr) \<Rightarrow> (Some e, q, tr)
         | (None, None, q, tr) \<Rightarrow> (if isStop then None else Some (invalidPayload ''toolUseEvent is missing a tool name''), q, tr)
         | (None, Some (cur, created), q, tr) \<Rightarrow>
             (case pending_get q cur of
                None \<Rightarrow> (None, q, tr)
              | Some st0 \<Rightarrow>
                  let st1 = fillToolUse name index st0
                  in if ts_Name st1 = '''' \<and> isStop
                     then (Some (invalidPayload ''toolUseEvent completed without a tool name''), q, tr)
                     else let (st2, tr2) = advanceToolUse created (gm_get event ''input'') st1;
                              q2 = pending_update cur (\<lambda>_. if isStop then st2\<lparr>ts_Stopped := True\<rparr> else st2) q
                          in if isStop then (let (e, q3, tr3) = flushStoppedPrefix env fresh q2 in (e, q3, tr @ tr2 @ tr3))
                             else (None, q2, tr @ tr2)))"

end
