(* ===== verification/Tool_Stream_Props.thy ===== *)
theory Tool_Stream_Props
  imports Tool_Stream "HOL-Library.Sublist"
begin

text \<open>
  The assembly of tool calls keeps its tables consistent and speaks a protocol to the client: a call is started once, deltas belong
  to started calls, a stop is followed at once by the complete call, and calls are completed in the order they came in.
\<close>

section \<open>The pending calls\<close>

definition pendingOk :: "pendingToolUseSet \<Rightarrow> bool" where
  "pendingOk p \<longleftrightarrow> distinct (pu_order p) \<and> (\<forall>i. (pending_get p i = None) = (i \<notin> set (pu_order p))) \<and>
     (\<forall>i st. pending_get p i = Some st \<longrightarrow> ts_ToolUseID st = i \<and> i \<noteq> '''') \<and>
     (if pu_order p = [] then pu_lastID p = '''' else pu_lastID p \<in> set (pu_order p))"

lemma pendingOkD:
  assumes "pendingOk p"
  shows "distinct (pu_order p)" "(pending_get p i = None) = (i \<notin> set (pu_order p))"
    and "pending_get p i = Some st \<Longrightarrow> ts_ToolUseID st = i \<and> i \<noteq> ''''"
    and "pu_order p = [] \<Longrightarrow> pu_lastID p = ''''" "pu_order p \<noteq> [] \<Longrightarrow> pu_lastID p \<in> set (pu_order p)"
  using assms by (auto simp: pendingOk_def)

lemma pendingOkI:
  assumes "distinct (pu_order p)" "\<And>i. (pending_get p i = None) = (i \<notin> set (pu_order p))"
    and "\<And>i st. pending_get p i = Some st \<Longrightarrow> ts_ToolUseID st = i \<and> i \<noteq> ''''"
    and "pu_order p = [] \<Longrightarrow> pu_lastID p = ''''" "pu_order p \<noteq> [] \<Longrightarrow> pu_lastID p \<in> set (pu_order p)"
  shows "pendingOk p"
  using assms unfolding pendingOk_def by simp

lemma pendingOk_new: "pendingOk newPendingToolUses"
  by (simp add: pendingOk_def newPendingToolUses_def pending_get_def)

lemma pending_get_add [simp]: "pending_get (pending_add st p) i = (if i = ts_ToolUseID st then Some st else pending_get p i)"
  by (simp add: pending_get_def pending_add_def gm_get_put)

lemma pending_order_add [simp]: "pu_order (pending_add st p) = pu_order p @ [ts_ToolUseID st]" "pu_lastID (pending_add st p) = ts_ToolUseID st"
  by (simp_all add: pending_add_def)

lemma pendingOk_add:
  assumes "pendingOk p" "pending_get p (ts_ToolUseID st) = None" "ts_ToolUseID st \<noteq> ''''"
  shows "pendingOk (pending_add st p)"
proof (rule pendingOkI)
  have "ts_ToolUseID st \<notin> set (pu_order p)" using pendingOkD(2) [OF assms(1)] assms(2) by blast
  then show "distinct (pu_order (pending_add st p))" using pendingOkD(1) [OF assms(1)] by simp
  show "ts_ToolUseID st' = i \<and> i \<noteq> ''''" if "pending_get (pending_add st p) i = Some st'" for i st'
    using that assms(3) pendingOkD(3) [OF assms(1), of i st'] by (auto split: if_splits)
qed (auto simp: pendingOkD(2) [OF assms(1)])

lemma pending_get_update [simp]:
  "pending_get (pending_update j f p) i = (if i = j then map_option f (pending_get p i) else pending_get p i)"
  by (auto simp: pending_update_def pending_get_def gm_get_put split: option.splits)

lemma pending_order_update [simp]: "pu_order (pending_update j f p) = pu_order p" "pu_lastID (pending_update j f p) = pu_lastID p"
  by (auto simp: pending_update_def split: option.splits)

lemma pendingOk_update:
  assumes "pendingOk p" "\<And>st. pending_get p i = Some st \<Longrightarrow> ts_ToolUseID (f st) = i"
  shows "pendingOk (pending_update i f p)"
proof (rule pendingOkI)
  show "ts_ToolUseID st' = j \<and> j \<noteq> ''''" if "pending_get (pending_update i f p) j = Some st'" for j st'
    using that assms(2) pendingOkD(3) [OF assms(1)] by (auto split: if_splits)
qed (use pendingOkD [OF assms(1)] in auto)

lemma replaceFirst_set: "distinct xs \<Longrightarrow> old \<in> set xs \<Longrightarrow> set (replaceFirst old new xs) = insert new (set xs - {old})"
  by (induction xs) auto

lemma replaceFirst_distinct: "distinct xs \<Longrightarrow> new \<notin> set xs \<Longrightarrow> distinct (replaceFirst old new xs)"
proof (induction xs)
  case (Cons x xs)
  moreover have "set (replaceFirst old new xs) \<subseteq> insert new (set xs)" by (induction xs) auto
  ultimately show ?case by auto
qed simp

lemma replaceFirst_Nil [simp]: "replaceFirst old new xs = [] \<longleftrightarrow> xs = []"
  by (cases xs) auto

lemma pending_get_rekey:
  assumes "new \<noteq> ''''" "ts_ToolUseID st \<noteq> new"
  shows "pending_get (pending_rekey st new p) i =
     (if i = new then Some (st\<lparr>ts_ToolUseID := new, ts_GeneratedID := False\<rparr>) else if i = ts_ToolUseID st then None else pending_get p i)"
  using assms by (auto simp: pending_rekey_def pending_get_def gm_get_put gm_get_del Let_def)

lemma pendingOk_rekey:
  assumes "pendingOk p" "pending_get p (ts_ToolUseID st) = Some st" "pending_get p new = None" "new \<noteq> ''''"
  shows "pendingOk (pending_rekey st new p)"
proof -
  note D = pendingOkD [OF assms(1)]
  have ne: "ts_ToolUseID st \<noteq> new" using assms(2,3) by auto
  have old: "ts_ToolUseID st \<in> set (pu_order p)" using D(2) [of "ts_ToolUseID st"] assms(2) by simp
  have new: "new \<notin> set (pu_order p)" using D(2) [of new] assms(3) by simp
  have ord: "pu_order (pending_rekey st new p) = replaceFirst (ts_ToolUseID st) new (pu_order p)"
    and lst: "pu_lastID (pending_rekey st new p) = (if pu_lastID p = ts_ToolUseID st then new else pu_lastID p)"
    using ne assms(4) by (simp_all add: pending_rekey_def Let_def)
  have s: "set (pu_order (pending_rekey st new p)) = insert new (set (pu_order p) - {ts_ToolUseID st})"
    unfolding ord by (rule replaceFirst_set [OF D(1) old])
  have "distinct (pu_order (pending_rekey st new p))" unfolding ord by (rule replaceFirst_distinct [OF D(1) new])
  moreover have "pu_order (pending_rekey st new p) \<noteq> []" using old ord by auto
  moreover have "(pending_get (pending_rekey st new p) i = None) = (i \<notin> set (pu_order (pending_rekey st new p)))" for i
    unfolding s pending_get_rekey [OF assms(4) ne] using D(2) [of i] by auto
  moreover have "ts_ToolUseID st' = i \<and> i \<noteq> ''''" if "pending_get (pending_rekey st new p) i = Some st'" for i st'
    using that D(3) [of i st'] assms(4) unfolding pending_get_rekey [OF assms(4) ne] by (auto split: if_splits)
  moreover have "pu_lastID (pending_rekey st new p) \<in> set (pu_order (pending_rekey st new p))"
    unfolding s lst using D(5) old by (cases "pu_order p = []") auto
  ultimately show ?thesis by (intro pendingOkI) auto
qed

lemma pendingOk_removeFirst:
  assumes "pendingOk p" "pu_order p = i # is"
  shows "pendingOk (removeFirst p)" "pu_order (removeFirst p) = is"
    and "pending_get (removeFirst p) j = (if j = i then None else pending_get p j)"
proof -
  show o: "pu_order (removeFirst p) = is" using assms(2) by (simp add: removeFirst_def)
  show g: "pending_get (removeFirst p) j = (if j = i then None else pending_get p j)" for j
    using assms(2) by (simp add: removeFirst_def pending_get_def gm_get_del)
  have l: "pu_lastID (removeFirst p) = (if pu_lastID p = i then (if is = [] then '''' else last is) else pu_lastID p)"
    using assms(2) by (simp add: removeFirst_def)
  note D = pendingOkD [OF assms(1)]
  have "pu_lastID p \<in> set (i # is)" "distinct (i # is)" using D(1,5) assms(2) by auto
  note top = this
  show "pendingOk (removeFirst p)"
  proof (rule pendingOkI)
    show "(pending_get (removeFirst p) k = None) = (k \<notin> set (pu_order (removeFirst p)))" for k
      unfolding o g using D(2) [of k] assms(2) top by auto
    show "ts_ToolUseID st = k \<and> k \<noteq> ''''" if "pending_get (removeFirst p) k = Some st" for k st
      using that D(3) [of k st] unfolding g by (auto split: if_splits)
  qed (use top in \<open>auto simp: o l\<close>)
qed

section \<open>The protocol of the callbacks\<close>

text \<open>
  The calls that are open, and the call that was just stopped, after a trace; \<open>None\<close> when the trace breaks the protocol. \<open>started\<close> are
  the pending calls whose start was announced.
\<close>

fun protocolStep :: "string set \<times> string option \<Rightarrow> toolEvent \<Rightarrow> (string set \<times> string option) option" where
  "protocolStep (opened, Some i) (ToolUseDone tu) = (if tu_ToolUseID tu = i then Some (opened, None) else None)"
| "protocolStep (opened, Some i) _ = None"
| "protocolStep (opened, None) (ToolUseStart i name) = (if i \<in> opened \<or> name = '''' then None else Some (insert i opened, None))"
| "protocolStep (opened, None) (ToolUseDelta i t) = (if i \<in> opened \<and> t \<noteq> '''' then Some (opened, None) else None)"
| "protocolStep (opened, None) (ToolUseStop i) = (if i \<in> opened then Some (opened - {i}, Some i) else None)"
| "protocolStep (opened, None) (ToolUseDone tu) = None"
| "protocolStep (opened, None) ToolUseActivity = Some (opened, None)"
| "protocolStep (opened, None) (ToolArgumentActivity i t) = (if i \<in> opened then None else Some (opened, None))"

fun protocolRun :: "string set \<times> string option \<Rightarrow> toolEvent list \<Rightarrow> (string set \<times> string option) option" where
  "protocolRun s [] = Some s"
| "protocolRun s (e # es) = (case protocolStep s e of None \<Rightarrow> None | Some s' \<Rightarrow> protocolRun s' es)"

lemma protocolRun_append: "protocolRun s (es @ fs) = (case protocolRun s es of None \<Rightarrow> None | Some s' \<Rightarrow> protocolRun s' fs)"
  by (induction es arbitrary: s) (auto split: option.splits)

definition started :: "pendingToolUseSet \<Rightarrow> string set" where
  "started p = {i. \<exists>st. pending_get p i = Some st \<and> ts_StreamStarted st}"

definition follows :: "pendingToolUseSet \<Rightarrow> toolEvent list \<Rightarrow> pendingToolUseSet \<Rightarrow> bool" where
  "follows p tr q \<longleftrightarrow> protocolRun (started p, None) tr = Some (started q, None)"

lemma follows_refl: "started q = started p \<Longrightarrow> follows p [] q"
  by (simp add: follows_def)

lemma follows_trans: "follows p tr q \<Longrightarrow> follows q tr' r \<Longrightarrow> follows p (tr @ tr') r"
  by (simp add: follows_def protocolRun_append)

text \<open>The calls that are delivered, and that their arguments are a complete object.\<close>

definition doneIDs :: "toolEvent list \<Rightarrow> string list" where
  "doneIDs tr = List.map_filter (\<lambda>e. case e of ToolUseDone tu \<Rightarrow> Some (tu_ToolUseID tu) | _ \<Rightarrow> None) tr"

lemma doneIDs_simps [simp]:
  "doneIDs [] = []" "doneIDs (es @ fs) = doneIDs es @ doneIDs fs"
  "doneIDs (ToolUseDone tu # es) = tu_ToolUseID tu # doneIDs es" "doneIDs (ToolUseStart i n # es) = doneIDs es"
  "doneIDs (ToolUseDelta i t # es) = doneIDs es" "doneIDs (ToolUseStop i # es) = doneIDs es"
  "doneIDs (ToolUseActivity # es) = doneIDs es" "doneIDs (ToolArgumentActivity i t # es) = doneIDs es"
  by (simp_all add: doneIDs_def List.map_filter_def)

definition completeCall :: "toolStreamEnv \<Rightarrow> toolEvent \<Rightarrow> bool" where
  "completeCall env e \<longleftrightarrow>
     (\<forall>tu. e = ToolUseDone tu \<longrightarrow> tu_Name tu \<noteq> '''' \<and>
        (tu_Input tu = JObject [] \<or> (\<exists>raw ms. raw \<noteq> '''' \<and> tse_unmarshal env raw = Some ms \<and> tu_Input tu = JObject ms)))"


section \<open>Completing calls\<close>

text \<open>A generated identifier is never announced before the call is complete, and an announced call has a name.\<close>

definition callOk :: "toolUseState \<Rightarrow> bool" where
  "callOk st \<longleftrightarrow> (ts_GeneratedID st \<longrightarrow> \<not> ts_StreamStarted st) \<and> (ts_StreamStarted st \<longrightarrow> ts_Name st \<noteq> '''')"

definition streamOk :: "pendingToolUseSet \<Rightarrow> bool" where
  "streamOk p \<longleftrightarrow> pendingOk p \<and> (\<forall>i st. pending_get p i = Some st \<longrightarrow> callOk st)"

lemma streamOkD:
  assumes "streamOk p"
  shows "pendingOk p" "pending_get p i = Some st \<Longrightarrow> callOk st" "pending_get p i = Some st \<Longrightarrow> ts_ToolUseID st = i \<and> i \<noteq> ''''"
  using assms pendingOkD(3) by (auto simp: streamOk_def)

lemma pending_first_order: "pending_first p = Some st \<Longrightarrow> \<exists>i is. pu_order p = i # is \<and> pending_get p i = Some st"
  by (auto simp: pending_first_def split: list.splits)

lemma streamOk_removeFirst: "streamOk p \<Longrightarrow> pu_order p = i # is \<Longrightarrow> streamOk (removeFirst p)"
  unfolding streamOk_def using pendingOk_removeFirst by (auto split: if_splits)

lemma started_removeFirst:
  assumes "streamOk p" "pu_order p = i # is"
  shows "started (removeFirst p) = started p - {i}"
  unfolding started_def pendingOk_removeFirst(3) [OF streamOkD(1) [OF assms(1)] assms(2)] by auto

lemma started_member: "pending_get p i = Some st \<Longrightarrow> i \<in> started p \<longleftrightarrow> ts_StreamStarted st"
  by (simp add: started_def)

lemma finishToolUse_follows:
  assumes ok: "streamOk p" and o: "pu_order p = i # is" and g: "pending_get p i = Some st" and f: "finishToolUse env fresh st = (None, tr)"
  shows "follows p tr (removeFirst p)" "\<forall>e\<in>set tr. completeCall env e" "doneIDs tr = (if ts_Name st = '''' then [] else [i])"
proof -
  have c: "callOk st" and i: "ts_ToolUseID st = i" "i \<noteq> ''''" using streamOkD(2,3) [OF ok g] by auto
  note s = started_removeFirst [OF ok o] and m = started_member [OF g]
  show "follows p tr (removeFirst p)"
    using f c i m unfolding follows_def s
    by (auto simp: finishToolUse_def startToolUseStream_def callOk_def Let_def split: if_splits option.splits)
  show "\<forall>e\<in>set tr. completeCall env e"
    using f by (auto simp: finishToolUse_def startToolUseStream_def completeCall_def Let_def split: if_splits option.splits)
  show "doneIDs tr = (if ts_Name st = '''' then [] else [i])"
    using f i by (auto simp: finishToolUse_def startToolUseStream_def Let_def split: if_splits option.splits)
qed

lemma finishToolUse_error: "finishToolUse env fresh st = (Some e, tr) \<Longrightarrow> tr = []"
  by (auto simp: finishToolUse_def Let_def split: if_splits option.splits)

text \<open>What completing a prefix of the pending calls does.\<close>

definition completesPrefix :: "toolStreamEnv \<Rightarrow> pendingToolUseSet \<Rightarrow> toolEvent list \<Rightarrow> pendingToolUseSet \<Rightarrow> bool" where
  "completesPrefix env p tr q \<longleftrightarrow> streamOk q \<and> follows p tr q \<and> (\<forall>e\<in>set tr. completeCall env e) \<and>
     (\<exists>done. pu_order p = done @ pu_order q \<and> doneIDs tr = filter (\<lambda>i. \<exists>st. pending_get p i = Some st \<and> ts_Name st \<noteq> '''') done) \<and>
     (\<forall>i. i \<in> set (pu_order q) \<longrightarrow> pending_get q i = pending_get p i)"

lemma completesPrefix_refl: "streamOk p \<Longrightarrow> completesPrefix env p [] p"
  by (auto simp: completesPrefix_def follows_refl)

lemma completesPrefix_step:
  assumes ok: "streamOk p" and first: "pending_first p = Some st" and f: "finishToolUse env fresh st = (None, tr)"
    and rest: "completesPrefix env (removeFirst p) tr' q"
  shows "completesPrefix env p (tr @ tr') q"
proof -
  obtain i "is" where o: "pu_order p = i # is" and g: "pending_get p i = Some st" using pending_first_order [OF first] by blast
  note P = streamOkD(1) [OF ok] and R = pendingOk_removeFirst [OF streamOkD(1) [OF ok] o] and F = finishToolUse_follows [OF ok o g f]
  obtain ds where ds: "is = ds @ pu_order q"
      "doneIDs tr' = filter (\<lambda>j. \<exists>st. pending_get (removeFirst p) j = Some st \<and> ts_Name st \<noteq> '''') ds"
    using rest R(2) unfolding completesPrefix_def by auto
  have ni: "i \<notin> set ds" "i \<notin> set (pu_order q)" using pendingOkD(1) [OF P] o ds(1) by auto
  have "filter (\<lambda>j. \<exists>st. pending_get (removeFirst p) j = Some st \<and> ts_Name st \<noteq> '''') ds =
      filter (\<lambda>j. \<exists>st. pending_get p j = Some st \<and> ts_Name st \<noteq> '''') ds"
    by (rule filter_cong) (use ni R(3) in auto)
  then have "pu_order p = (i # ds) @ pu_order q \<and>
      doneIDs (tr @ tr') = filter (\<lambda>j. \<exists>st. pending_get p j = Some st \<and> ts_Name st \<noteq> '''') (i # ds)"
    using o ds F(3) g by simp
  moreover have "pending_get q j = pending_get p j" if "j \<in> set (pu_order q)" for j
    using that rest R(3) [of j] ni unfolding completesPrefix_def by auto
  moreover have "follows p (tr @ tr') q" "streamOk q" "\<forall>e\<in>set (tr @ tr'). completeCall env e"
    using rest F(1,2) follows_trans unfolding completesPrefix_def by auto
  ultimately show ?thesis unfolding completesPrefix_def by blast
qed

lemma flushStoppedPrefix_completes:
  "streamOk p \<Longrightarrow> flushStoppedPrefix env fresh p = (e, q, tr) \<Longrightarrow> completesPrefix env p tr q"
proof (induction env fresh p arbitrary: e q tr rule: flushStoppedPrefix.induct)
  case (1 env fresh p)
  show ?case
  proof (cases "pending_first p")
    case None
    then show ?thesis using "1.prems" completesPrefix_refl by (auto simp: flushStoppedPrefix.simps [of env fresh p])
  next
    case (Some st)
    obtain i "is" where o: "pu_order p = i # is" using pending_first_order [OF Some] by blast
    obtain e1 tr1 where f: "finishToolUse env fresh st = (e1, tr1)" by fastforce
    obtain e2 q2 tr2 where r: "flushStoppedPrefix env fresh (removeFirst p) = (e2, q2, tr2)" by (metis prod_cases3)
    consider "\<not> ts_Stopped st" | x where "ts_Stopped st" "e1 = Some x" | "ts_Stopped st" "e1 = None" by (cases e1) auto
    then show ?thesis
    proof cases
      case 3
      have "completesPrefix env (removeFirst p) tr2 q2"
        by (rule "1.IH" [OF Some _ _ _ streamOk_removeFirst [OF "1.prems"(1) o] r]) (use 3 f in auto)
      then have "completesPrefix env p (tr1 @ tr2) q2"
        using completesPrefix_step [OF "1.prems"(1) Some] f 3 by blast
      then show ?thesis using "1.prems"(2) Some f r 3 by (simp add: flushStoppedPrefix.simps [of env fresh p])
    qed (use "1.prems" Some f in \<open>auto simp: flushStoppedPrefix.simps [of env fresh p] completesPrefix_refl dest: finishToolUse_error\<close>)
  qed
qed

lemma recoverCompletePrefix_completes:
  "streamOk p \<Longrightarrow> recoverCompletePrefix env fresh eo boundary p = (n, q, tr) \<Longrightarrow> completesPrefix env p tr q"
proof (induction env fresh eo boundary p arbitrary: n q tr rule: recoverCompletePrefix.induct)
  case (1 env fresh eo boundary p)
  show ?case
  proof (cases "pending_first p")
    case None
    then show ?thesis using "1.prems" completesPrefix_refl by (auto simp: recoverCompletePrefix.simps [of env fresh eo boundary p])
  next
    case (Some st)
    obtain i "is" where o: "pu_order p = i # is" using pending_first_order [OF Some] by blast
    obtain e1 tr1 where f: "finishToolUse env fresh st = (e1, tr1)" by fastforce
    obtain n2 q2 tr2 where r: "recoverCompletePrefix env fresh eo boundary (removeFirst p) = (n2, q2, tr2)" by (metis prod_cases3)
    consider "\<not> recoverable env eo boundary st" | x where "recoverable env eo boundary st" "e1 = Some x"
      | "recoverable env eo boundary st" "e1 = None" by (cases e1) auto
    then show ?thesis
    proof cases
      case 3
      have "completesPrefix env (removeFirst p) tr2 q2"
        by (rule "1.IH" [OF Some _ _ _ streamOk_removeFirst [OF "1.prems"(1) o] r]) (use 3 f in auto)
      then have "completesPrefix env p (tr1 @ tr2) q2"
        using completesPrefix_step [OF "1.prems"(1) Some] f 3 by blast
      then show ?thesis using "1.prems"(2) Some f r 3 by (simp add: recoverCompletePrefix.simps [of env fresh eo boundary p])
    qed (use "1.prems" Some f in \<open>auto simp: recoverCompletePrefix.simps [of env fresh eo boundary p] completesPrefix_refl dest: finishToolUse_error\<close>)
  qed
qed


section \<open>One event\<close>

text \<open>An event that gives a new identifier to a block whose call was announced under another one.\<close>

definition renamesAnnounced :: "toolStreamEnv \<Rightarrow> event \<Rightarrow> pendingToolUseSet \<Rightarrow> bool" where
  "renamesAnnounced env event p =
     (let tid = firstStringField event [''toolUseId'', ''toolUseID'', ''tool_use_id'', ''id''];
          index = streamContentBlockIndexFrom (tse_numbers env) event
      in tid \<noteq> '''' \<and> pending_get p tid = None \<and> index \<noteq> '''' \<and>
         (case getByContentBlockIndex p index of None \<Rightarrow> False | Some st \<Rightarrow> ts_StreamStarted st))"

text \<open>Calls keep the order of their introduction; an event introduces or renames one call at most.\<close>

definition arrivals :: "string list \<Rightarrow> string list \<Rightarrow> bool" where
  "arrivals ord ord' \<longleftrightarrow> ord' = ord \<or> (\<exists>i. i \<notin> set ord \<and> (ord' = ord @ [i] \<or> (\<exists>j\<in>set ord. ord' = replaceFirst j i ord)))"

definition inOrder :: "pendingToolUseSet \<Rightarrow> toolEvent list \<Rightarrow> pendingToolUseSet \<Rightarrow> bool" where
  "inOrder p tr q \<longleftrightarrow> (\<exists>ord. arrivals (pu_order p) ord \<and> subseq (doneIDs tr @ pu_order q) ord)"

lemma firstSome_in: "firstSome f xs = Some y \<Longrightarrow> \<exists>x\<in>set xs. f x = Some y"
  by (induction xs) (auto split: option.splits)

lemma getByContentBlockIndex_in:
  assumes "streamOk p" "getByContentBlockIndex p index = Some st"
  shows "pending_get p (ts_ToolUseID st) = Some st" "ts_ToolUseID st \<in> set (pu_order p)"
  using firstSome_in assms streamOkD(3) [OF assms(1)]
  by (fastforce simp: getByContentBlockIndex_def split: if_splits option.splits)+

lemma pending_latest_in:
  assumes "streamOk p" "pending_latest p = Some st"
  shows "pending_get p (ts_ToolUseID st) = Some st"
  using assms(2) streamOkD(3) [OF assms(1)] unfolding pending_latest_def by auto

lemma streamOk_add:
  "streamOk p \<Longrightarrow> pending_get p (ts_ToolUseID st) = None \<Longrightarrow> ts_ToolUseID st \<noteq> '''' \<Longrightarrow> callOk st \<Longrightarrow> streamOk (pending_add st p)"
  unfolding streamOk_def using pendingOk_add by auto

lemma streamOk_rekey:
  assumes "streamOk p" "pending_get p (ts_ToolUseID st) = Some st" "pending_get p new = None" "new \<noteq> ''''"
  shows "streamOk (pending_rekey st new p)"
proof -
  have ne: "ts_ToolUseID st \<noteq> new" using assms(2,3) by auto
  have "callOk (st\<lparr>ts_ToolUseID := new, ts_GeneratedID := False\<rparr>)" using streamOkD(2) [OF assms(1,2)] by (simp add: callOk_def)
  then show ?thesis
    using pendingOk_rekey [OF streamOkD(1) [OF assms(1)] assms(2-4)] streamOkD(2) [OF assms(1)]
    unfolding streamOk_def pending_get_rekey [OF assms(4) ne] by auto
qed

lemma streamOk_update:
  assumes "streamOk p" "\<And>st. pending_get p i = Some st \<Longrightarrow> ts_ToolUseID (f st) = i \<and> callOk (f st)"
  shows "streamOk (pending_update i f p)"
  using pendingOk_update [of p i f] assms unfolding streamOk_def by auto

lemma started_rekey:
  assumes "pending_get p (ts_ToolUseID st) = Some st" "pending_get p new = None" "new \<noteq> ''''" "\<not> ts_StreamStarted st"
  shows "started (pending_rekey st new p) = started p"
proof -
  have ne: "ts_ToolUseID st \<noteq> new" using assms(1,2) by auto
  show ?thesis unfolding started_def pending_get_rekey [OF assms(3) ne] using assms by auto
qed

lemma started_add: "pending_get p (ts_ToolUseID st) = None \<Longrightarrow> \<not> ts_StreamStarted st \<Longrightarrow> started (pending_add st p) = started p"
  unfolding started_def by auto

lemma rekey_order: "new \<noteq> '''' \<Longrightarrow> ts_ToolUseID st \<noteq> new \<Longrightarrow> pu_order (pending_rekey st new p) = replaceFirst (ts_ToolUseID st) new (pu_order p)"
  by (simp add: pending_rekey_def Let_def)

text \<open>What selecting a call does: the pending calls stay well-formed, the selected call is pending.\<close>

definition selects :: "toolStreamEnv \<Rightarrow> pendingToolUseSet \<Rightarrow> (string \<times> bool) option \<Rightarrow> toolEvent list \<Rightarrow> pendingToolUseSet \<Rightarrow> bool" where
  "selects env p sel tr q \<longleftrightarrow> streamOk q \<and> follows p tr q \<and> (\<forall>e\<in>set tr. completeCall env e) \<and> inOrder p tr q \<and>
     (\<forall>cur created. sel = Some (cur, created) \<longrightarrow> pending_get q cur \<noteq> None)"

lemma selects_same:
  "streamOk p \<Longrightarrow> (\<And>cur c. sel = Some (cur, c) \<Longrightarrow> pending_get p cur \<noteq> None) \<Longrightarrow> selects env p sel [] p"
  by (auto simp: selects_def follows_refl inOrder_def arrivals_def)

lemma selects_pending: "streamOk p \<Longrightarrow> pending_get p cur = Some st \<Longrightarrow> selects env p (Some (cur, c)) [] p"
  by (rule selects_same) auto

lemma selects_rekey:
  assumes "streamOk p" "pending_get p (ts_ToolUseID st) = Some st" "pending_get p new = None" "new \<noteq> ''''" "\<not> ts_StreamStarted st"
  shows "selects env p (Some (new, c)) [] (pending_rekey st new p)"
proof -
  have ne: "ts_ToolUseID st \<noteq> new" using assms(2,3) by auto
  note D = pendingOkD(2) [OF streamOkD(1) [OF assms(1)]]
  have "new \<notin> set (pu_order p)" "ts_ToolUseID st \<in> set (pu_order p)" using D [of new] D [of "ts_ToolUseID st"] assms(2,3) by auto
  then have "inOrder p [] (pending_rekey st new p)"
    unfolding inOrder_def arrivals_def rekey_order [OF assms(4) ne] by auto
  then show ?thesis
    using streamOk_rekey [OF assms(1-4)] started_rekey [OF assms(2-5)] pending_get_rekey [OF assms(4) ne, of p new]
    unfolding selects_def by (simp add: follows_refl)
qed

lemma selects_add:
  assumes c: "completesPrefix env p tr q" and p: "streamOk p"
    and n: "pending_get p (ts_ToolUseID st) = None" "ts_ToolUseID st \<noteq> ''''" "\<not> ts_StreamStarted st"
  shows "selects env p (Some (ts_ToolUseID st, b)) tr (pending_add st q)"
proof -
  have q: "streamOk q" "follows p tr q" "\<forall>e\<in>set tr. completeCall env e" using c by (auto simp: completesPrefix_def)
  obtain ds where ds: "pu_order p = ds @ pu_order q" "subseq (doneIDs tr) ds"
    using c unfolding completesPrefix_def by auto
  have nq: "pending_get q (ts_ToolUseID st) = None"
    using n(1) pendingOkD(2) [OF streamOkD(1) [OF p]] pendingOkD(2) [OF streamOkD(1) [OF q(1)]] ds(1) by auto
  have new: "ts_ToolUseID st \<notin> set (pu_order p)" using n(1) pendingOkD(2) [OF streamOkD(1) [OF p]] by blast
  have "subseq (doneIDs tr @ pu_order q @ [ts_ToolUseID st]) (ds @ pu_order q @ [ts_ToolUseID st])"
    using ds(2) by (simp add: list_emb_append_mono)
  then have "inOrder p tr (pending_add st q)" using new ds(1) unfolding inOrder_def arrivals_def by auto
  moreover have "follows p tr (pending_add st q)" using q(2) started_add [OF nq n(3)] by (simp add: follows_def)
  moreover have "streamOk (pending_add st q)" by (rule streamOk_add [OF q(1) nq n(2)]) (simp add: callOk_def n(3))
  ultimately show ?thesis using q(3) unfolding selects_def by simp
qed


lemma newToolUseState_fields [simp]:
  "ts_ToolUseID (newToolUseState i n x g) = i" "ts_StreamStarted (newToolUseState i n x g) = False"
  by (simp_all add: newToolUseState_def)

lemma addGenerated_selects:
  assumes "completesPrefix env p tr q" "streamOk p" "pending_get p (''toolu_'' @ fresh) = None" "addGenerated fresh name index q = (sel, q')"
  shows "selects env p sel tr q'"
proof -
  have "selects env p (Some (''toolu_'' @ fresh, True)) tr (pending_add (newToolUseState (''toolu_'' @ fresh) name index True) q)"
    using selects_add [OF assms(1,2), of "newToolUseState (''toolu_'' @ fresh) name index True"] assms(3) by simp
  then show ?thesis using assms(4) by (auto simp: addGenerated_def)
qed

lemma selectByID_selects:
  assumes ok: "streamOk p" and tid: "tid \<noteq> ''''" and s: "selectByID tid name index p = (sel, q)"
    and nr: "\<And>st. pending_get p tid = None \<Longrightarrow> index \<noteq> '''' \<Longrightarrow> getByContentBlockIndex p index = Some st \<Longrightarrow> \<not> ts_StreamStarted st"
  shows "selects env p sel [] q"
proof (cases "pending_get p tid")
  case None
  have new: "selects env p (Some (tid, True)) [] (pending_add (newToolUseState tid name index False) p)"
    using selects_add [OF completesPrefix_refl [OF ok] ok, of "newToolUseState tid name index False"] None tid by simp
  show ?thesis
  proof (cases "if index \<noteq> '''' then getByContentBlockIndex p index else None")
    case (Some st)
    then have i: "index \<noteq> ''''" "getByContentBlockIndex p index = Some st" by (auto split: if_splits)
    have "selects env p (Some (tid, False)) [] (pending_rekey st tid p)"
      by (rule selects_rekey [OF ok getByContentBlockIndex_in(1) [OF ok i(2)] None tid nr [OF None i]])
    then show ?thesis using s None Some by (simp add: selectByID_def)
  next
    case no: None
    show ?thesis
    proof (cases "\<exists>l. pending_latest p = Some l \<and> ts_GeneratedID l \<and> (name = '''' \<or> ts_Name l = name)")
      case True
      then obtain l where l: "pending_latest p = Some l" "ts_GeneratedID l" "name = '''' \<or> ts_Name l = name" by blast
      note g = pending_latest_in [OF ok l(1)]
      have "\<not> ts_StreamStarted l" using streamOkD(2) [OF ok g] l(2) by (simp add: callOk_def)
      then have "selects env p (Some (tid, False)) [] (pending_rekey l tid p)" by (rule selects_rekey [OF ok g None tid])
      then show ?thesis using s None no l by (auto simp: selectByID_def)
    next
      case False
      then show ?thesis using s None no new by (auto simp: selectByID_def split: option.splits if_splits)
    qed
  qed
next
  case (Some st)
  then show ?thesis using s selects_pending [OF ok Some] by (auto simp: selectByID_def)
qed

lemma completesPrefix_selects:
  assumes "completesPrefix env p tr q"
  shows "selects env p None tr q"
proof -
  obtain ds where "pu_order p = ds @ pu_order q" "subseq (doneIDs tr) ds" using assms unfolding completesPrefix_def by auto
  then have "inOrder p tr q" unfolding inOrder_def arrivals_def by (auto intro: list_emb_append_mono)
  then show ?thesis using assms by (simp add: completesPrefix_def selects_def)
qed

lemma stop_streamOk:
  assumes "streamOk p" "pending_get p i = Some st"
  shows "streamOk (pending_update i (\<lambda>st. st\<lparr>ts_Stopped := True\<rparr>) p)" "started (pending_update i (\<lambda>st. st\<lparr>ts_Stopped := True\<rparr>) p) = started p"
proof -
  show "streamOk (pending_update i (\<lambda>st. st\<lparr>ts_Stopped := True\<rparr>) p)"
    by (rule streamOk_update [OF assms(1)]) (use streamOkD(2,3) [OF assms(1)] in \<open>auto simp: callOk_def\<close>)
qed (auto simp: started_def)

lemma selects_after:
  assumes "started p' = started p" "pu_order p' = pu_order p" "selects env p' sel tr q"
  shows "selects env p sel tr q"
  using assms by (simp add: selects_def follows_def inOrder_def)

lemma selectToolUse_selects:
  assumes ok: "streamOk p" and fresh: "pending_get p (''toolu_'' @ fresh) = None"
    and nr: "\<And>st. tid \<noteq> '''' \<Longrightarrow> pending_get p tid = None \<Longrightarrow> index \<noteq> '''' \<Longrightarrow> getByContentBlockIndex p index = Some st \<Longrightarrow> \<not> ts_StreamStarted st"
    and s: "selectToolUse env fresh tid name index p = (e, sel, q, tr)"
  shows "selects env p sel tr q"
proof -
  note refl = completesPrefix_refl [OF ok, of env]
  consider "tid \<noteq> ''''" | "tid = ''''" "index \<noteq> ''''" | "tid = ''''" "index = ''''" "pending_latest p = None"
    | l where "tid = ''''" "index = ''''" "pending_latest p = Some l" by blast
  then show ?thesis
  proof cases
    case 1
    then show ?thesis using s selectByID_selects [OF ok 1] nr by (auto simp: selectToolUse_def split: prod.splits)
  next
    case 2
    then show ?thesis
      using s addGenerated_selects [OF refl ok fresh] selects_same [OF ok] getByContentBlockIndex_in [OF ok]
      by (fastforce simp: selectToolUse_def split: prod.splits option.splits if_splits)
  next
    case 3
    then show ?thesis
      using s addGenerated_selects [OF refl ok fresh] selects_same [OF ok]
      by (fastforce simp: selectToolUse_def split: prod.splits if_splits)
  next
    case (4 l)
    note g = pending_latest_in [OF ok 4(3)]
    define p' where "p' = pending_update (ts_ToolUseID l) (\<lambda>st. st\<lparr>ts_Stopped := True\<rparr>) p"
    have p': "streamOk p'" "started p' = started p" "pu_order p' = pu_order p" "pending_get p' (''toolu_'' @ fresh) = None"
      unfolding p'_def using stop_streamOk [OF ok g] fresh by auto
    obtain e1 q1 tr1 where f: "flushStoppedPrefix env fresh p' = (e1, q1, tr1)" by (metis prod_cases3)
    note c = flushStoppedPrefix_completes [OF p'(1) f]
    note after = selects_after [OF p'(2,3)]
    show ?thesis
    proof (cases "name \<noteq> '''' \<and> ts_Name l \<noteq> name")
      case False
      then show ?thesis using s 4 selects_pending [OF ok g] by (auto simp: selectToolUse_def)
    next
      case True
      then show ?thesis
        using s 4 f after [OF completesPrefix_selects [OF c]] after [OF addGenerated_selects [OF c p'(1,4)]]
        unfolding p'_def by (auto simp: selectToolUse_def Let_def split: option.splits prod.splits)
    qed
  qed
qed


text \<open>The work on the selected call.\<close>

lemma fillToolUse_fields [simp]:
  "ts_ToolUseID (fillToolUse name index st) = ts_ToolUseID st" "ts_StreamStarted (fillToolUse name index st) = ts_StreamStarted st"
  "ts_GeneratedID (fillToolUse name index st) = ts_GeneratedID st"
  by (simp_all add: fillToolUse_def Let_def)

lemma fillToolUse_callOk: "callOk st \<Longrightarrow> callOk (fillToolUse name index st)"
  by (auto simp: callOk_def fillToolUse_def Let_def)

lemma encodeValue_nonempty [simp]: "encodeValue (JObject ms) \<noteq> ''''" "encodeValue (JArray vs) \<noteq> ''''"
  by (simp_all add: encodeMembers_def)

definition worksOn :: "toolUseState \<Rightarrow> toolEvent list \<Rightarrow> toolUseState \<Rightarrow> bool" where
  "worksOn st tr st' \<longleftrightarrow> ts_ToolUseID st' = ts_ToolUseID st \<and> doneIDs tr = [] \<and> (\<forall>env. \<forall>e\<in>set tr. completeCall env e) \<and>
     (callOk st \<longrightarrow> callOk st') \<and> (ts_StreamStarted st \<longrightarrow> ts_StreamStarted st') \<and>
     (\<forall>opened. (ts_ToolUseID st \<in> opened) = ts_StreamStarted st \<longrightarrow>
        protocolRun (opened, None) tr = Some (if ts_StreamStarted st' then insert (ts_ToolUseID st) opened else opened, None))"

lemma worksOnD:
  assumes "worksOn st tr st'"
  shows "ts_ToolUseID st' = ts_ToolUseID st" "doneIDs tr = []" "e \<in> set tr \<Longrightarrow> completeCall env e"
    and "callOk st \<Longrightarrow> callOk st'" "ts_StreamStarted st \<Longrightarrow> ts_StreamStarted st'"
    and "(ts_ToolUseID st \<in> opened) = ts_StreamStarted st \<Longrightarrow>
      protocolRun (opened, None) tr = Some (if ts_StreamStarted st' then insert (ts_ToolUseID st) opened else opened, None)"
  using assms unfolding worksOn_def by blast+

lemma worksOn_refl: "worksOn st [] st"
  by (auto simp: worksOn_def)

lemma worksOn_trans:
  assumes "worksOn st tr st'" "worksOn st' tr' st''"
  shows "worksOn st (tr @ tr') st''"
proof -
  have "protocolRun (opened, None) (tr @ tr') = Some (if ts_StreamStarted st'' then insert (ts_ToolUseID st) opened else opened, None)"
    if o: "(ts_ToolUseID st \<in> opened) = ts_StreamStarted st" for opened
  proof -
    define mid where "mid = (if ts_StreamStarted st' then insert (ts_ToolUseID st) opened else opened)"
    have 1: "protocolRun (opened, None) tr = Some (mid, None)" using worksOnD(6) [OF assms(1) o] unfolding mid_def .
    have "(ts_ToolUseID st' \<in> mid) = ts_StreamStarted st'" using worksOnD(1,5) [OF assms(1)] o unfolding mid_def by auto
    then have "protocolRun (mid, None) tr' = Some (if ts_StreamStarted st'' then insert (ts_ToolUseID st') mid else mid, None)"
      by (rule worksOnD(6) [OF assms(2)])
    then show ?thesis using 1 worksOnD(1) [OF assms(1)] worksOnD(5) [OF assms(2)] unfolding mid_def by (auto simp: protocolRun_append)
  qed
  moreover have "ts_ToolUseID st'' = ts_ToolUseID st" "doneIDs (tr @ tr') = []" "callOk st \<longrightarrow> callOk st''"
      "ts_StreamStarted st \<longrightarrow> ts_StreamStarted st''" "\<forall>env. \<forall>e\<in>set (tr @ tr'). completeCall env e"
    using worksOnD [OF assms(1)] worksOnD [OF assms(2)] by auto
  ultimately show ?thesis unfolding worksOn_def by blast
qed

lemma startToolUseStream_works:
  "ts_Name st \<noteq> '''' \<Longrightarrow> \<not> ts_GeneratedID st \<Longrightarrow> startToolUseStream st = (st', tr) \<Longrightarrow> worksOn st tr st'"
  by (auto simp: startToolUseStream_def worksOn_def callOk_def completeCall_def split: if_splits)

lemma inputEvents_works:
  assumes "t \<noteq> ''''"
  shows "worksOn st (inputEvents st t) (st\<lparr>ts_Input := x, ts_FragmentCount := n\<rparr>)"
  using assms by (auto simp: inputEvents_def worksOn_def callOk_def completeCall_def)

lemma takeInput_works: "takeInput input st = (st', tr) \<Longrightarrow> worksOn st tr st'"
  by (auto simp: takeInput_def replaceInput_def inputEvents_works worksOn_refl simp del: encodeValue.simps
      split: option.splits jsonValue.splits if_splits)

lemma activity_works: "worksOn st [ToolUseActivity] st"
  by (auto simp: worksOn_def completeCall_def)

lemma advanceToolUse_works:
  assumes "advanceToolUse created input st = (st', tr)"
  shows "worksOn st tr st'"
proof -
  define tr1 where "tr1 = (if created \<and> ts_GeneratedID st then [ToolUseActivity] else [])"
  obtain st2 tr2 where 2: "(if (created \<or> \<not> ts_StreamStarted st) \<and> \<not> ts_GeneratedID st \<and> ts_Name st \<noteq> '''' then startToolUseStream st else (st, [])) = (st2, tr2)"
    by fastforce
  obtain tr3 where 3: "takeInput input st2 = (st', tr3)" "tr = tr1 @ tr2 @ tr3"
    using assms 2 by (auto simp: advanceToolUse_def tr1_def split: prod.splits)
  have "worksOn st tr1 st" by (simp add: tr1_def activity_works worksOn_refl)
  moreover have "worksOn st tr2 st2" using 2 startToolUseStream_works worksOn_refl by (auto split: if_splits)
  ultimately show ?thesis using takeInput_works [OF 3(1)] worksOn_trans unfolding 3(2) by blast
qed

lemma worksOn_pending:
  assumes ok: "streamOk p" and g: "pending_get p i = Some st" and w: "worksOn st tr st'"
  shows "streamOk (pending_update i (\<lambda>_. st') p)" "follows p tr (pending_update i (\<lambda>_. st') p)"
proof -
  have i: "ts_ToolUseID st = i" "callOk st" using streamOkD(2,3) [OF ok g] by auto
  show "streamOk (pending_update i (\<lambda>_. st') p)"
    by (rule streamOk_update [OF ok]) (use i worksOnD [OF w] in auto)
  have "started (pending_update i (\<lambda>_. st') p) = (if ts_StreamStarted st' then insert i (started p) else started p)"
    using worksOnD(5) [OF w] g by (auto simp: started_def)
  then show "follows p tr (pending_update i (\<lambda>_. st') p)"
    using worksOnD(6) [OF w, of "started p"] i started_member [OF g] unfolding follows_def by auto
qed


lemma inOrder_completes:
  assumes "inOrder p tr q" "completesPrefix env q tr' r"
  shows "inOrder p (tr @ tr') r"
proof -
  obtain ord where o: "arrivals (pu_order p) ord" "subseq (doneIDs tr @ pu_order q) ord" using assms(1) unfolding inOrder_def by blast
  obtain ds where ds: "pu_order q = ds @ pu_order r" "subseq (doneIDs tr') ds" using assms(2) unfolding completesPrefix_def by auto
  have "subseq (doneIDs tr @ doneIDs tr' @ pu_order r) (doneIDs tr @ ds @ pu_order r)"
    using ds(2) by (simp add: list_emb_append_mono)
  then have "subseq (doneIDs (tr @ tr') @ pu_order r) ord" using o(2) ds(1) subseq_order.order_trans by fastforce
  then show ?thesis using o(1) unfolding inOrder_def by blast
qed

text \<open>A step of the assembly: the pending calls stay well-formed, the callbacks follow the protocol, delivered calls are complete and in order.\<close>

definition serves :: "toolStreamEnv \<Rightarrow> pendingToolUseSet \<Rightarrow> toolEvent list \<Rightarrow> pendingToolUseSet \<Rightarrow> bool" where
  "serves env p tr q \<longleftrightarrow> streamOk q \<and> follows p tr q \<and> (\<forall>e\<in>set tr. completeCall env e) \<and> inOrder p tr q"

lemma selects_serves: "selects env p sel tr q \<Longrightarrow> serves env p tr q"
  by (simp add: selects_def serves_def)

lemma completesPrefix_serves: "completesPrefix env p tr q \<Longrightarrow> serves env p tr q"
  using selects_serves completesPrefix_selects by blast

lemma serves_works:
  assumes s: "serves env p tr q" and g: "pending_get q i = Some st" and w: "worksOn st tr' st'"
  shows "serves env p (tr @ tr') (pending_update i (\<lambda>_. st') q)"
proof -
  have q: "streamOk q" using s by (simp add: serves_def)
  note W = worksOn_pending [OF q g w]
  show ?thesis
    using s W follows_trans [OF _ W(2)] worksOnD(2,3) [OF w] unfolding serves_def inOrder_def by auto
qed

lemma serves_completes:
  assumes "serves env p tr q" "completesPrefix env q tr' r"
  shows "serves env p (tr @ tr') r"
  using assms inOrder_completes [OF _ assms(2)] follows_trans unfolding serves_def completesPrefix_def by auto

lemma worksOn_fill: "worksOn (fillToolUse name index st) tr st' \<Longrightarrow> worksOn st tr st'"
  using fillToolUse_callOk unfolding worksOn_def by auto

lemma worksOn_stop: "worksOn st tr st' \<Longrightarrow> worksOn st tr (st'\<lparr>ts_Stopped := b\<rparr>)"
  unfolding worksOn_def callOk_def by auto

lemma handleToolUseEvent_serves:
  assumes ok: "streamOk p" and fresh: "pending_get p (''toolu_'' @ fresh) = None" and nr: "\<not> renamesAnnounced env event p"
    and h: "handleToolUseEvent env fresh event p = (e, q, tr)"
  shows "serves env p tr q"
proof -
  define tid where "tid = firstStringField event [''toolUseId'', ''toolUseID'', ''tool_use_id'', ''id'']"
  define name where "name = firstStringField event [''name'', ''toolName'', ''tool_name'']"
  define index where "index = streamContentBlockIndexFrom (tse_numbers env) event"
  define isStop where "isStop = firstBoolField env event stopNames"
  obtain e1 sel q1 tr1 where s: "selectToolUse env fresh tid name index p = (e1, sel, q1, tr1)" by (metis prod_cases4)
  have sel: "selects env p sel tr1 q1"
    by (rule selectToolUse_selects [OF ok fresh _ s])
      (use nr in \<open>auto simp: renamesAnnounced_def Let_def tid_def [symmetric] index_def [symmetric]\<close>)
  note serv = selects_serves [OF sel]
  note H = h [unfolded handleToolUseEvent_def Let_def, folded tid_def name_def index_def isStop_def, unfolded s]
  consider "e1 \<noteq> None" | "e1 = None" "sel = None" | cur created where "e1 = None" "sel = Some (cur, created)" by (cases e1; cases sel) auto
  then show ?thesis
  proof cases
    case (3 cur created)
    obtain st0 where g: "pending_get q1 cur = Some st0" using sel 3 unfolding selects_def by blast
    define st1 where "st1 = fillToolUse name index st0"
    obtain st2 tr2 where a: "advanceToolUse created (gm_get event ''input'') st1 = (st2, tr2)" by fastforce
    define st3 where "st3 = (if isStop then st2\<lparr>ts_Stopped := True\<rparr> else st2)"
    have "worksOn st0 tr2 st3"
      using worksOn_fill [OF advanceToolUse_works [OF a [unfolded st1_def]]] worksOn_stop unfolding st3_def by simp
    note work = serves_works [OF serv g this]
    then have ok2: "streamOk (pending_update cur (\<lambda>_. st3) q1)" by (simp add: serves_def)
    obtain e3 q3 tr3 where f: "flushStoppedPrefix env fresh (pending_update cur (\<lambda>_. st3) q1) = (e3, q3, tr3)" by (metis prod_cases3)
    note flush = serves_completes [OF work flushStoppedPrefix_completes [OF ok2 f]]
    show ?thesis
      using H 3 g a f serv work flush
      by (auto simp: st1_def [symmetric] st3_def split: if_splits)
  qed (use H serv in \<open>auto split: option.splits\<close>)
qed


section \<open>The assembly of a stream\<close>

inductive assembled :: "toolStreamEnv \<Rightarrow> toolEvent list \<Rightarrow> pendingToolUseSet \<Rightarrow> bool" for env where
  assembled_new: "assembled env [] newPendingToolUses"
| assembled_event: "assembled env tr p \<Longrightarrow> pending_get p (''toolu_'' @ fresh) = None \<Longrightarrow> \<not> renamesAnnounced env event p \<Longrightarrow>
    handleToolUseEvent env fresh event p = (e, q, tr') \<Longrightarrow> assembled env (tr @ tr') q"
| assembled_recover: "assembled env tr p \<Longrightarrow> recoverCompletePrefix env fresh eo boundary p = (n, q, tr') \<Longrightarrow> assembled env (tr @ tr') q"

lemma assembled_serves:
  "assembled env tr p \<Longrightarrow> streamOk p \<and> follows newPendingToolUses tr p \<and> (\<forall>e\<in>set tr. completeCall env e)"
proof (induction rule: assembled.induct)
  case assembled_new
  then show ?case using pendingOk_new by (simp add: streamOk_def follows_refl newPendingToolUses_def pending_get_def)
next
  case (assembled_event tr p fresh event e q tr')
  then have "serves env p tr' q" using handleToolUseEvent_serves by blast
  then show ?case using assembled_event.IH follows_trans unfolding serves_def by auto
next
  case (assembled_recover tr p fresh eo boundary n q tr')
  then have "serves env p tr' q" using completesPrefix_serves recoverCompletePrefix_completes by blast
  then show ?case using assembled_recover.IH follows_trans unfolding serves_def by auto
qed

lemma started_new [simp]: "started newPendingToolUses = {}"
  by (simp add: started_def newPendingToolUses_def pending_get_def)


definition sampleStreamEnv :: toolStreamEnv where
  "sampleStreamEnv = \<lparr>tse_numbers = \<lparr>sn_float = \<lambda>_. 0, sn_parseFloat = \<lambda>_. None, sn_scanFloat = \<lambda>_. None\<rparr>, tse_unmarshal = (\<lambda>s. if s = ''{}'' then Some [] else None),
     tse_quote = id, tse_parseBool = \<lambda>_. None\<rparr>"

definition sampleOpen :: event where
  "sampleOpen = [(''toolUseId'', JString ''t1''), (''name'', JString ''Read'')]"

definition sampleClose :: event where
  "sampleClose = [(''toolUseId'', JString ''t1''), (''input'', JString ''{}''), (''stop'', JBool True)]"

definition samplePending :: pendingToolUseSet where
  "samplePending = pending_add (newToolUseState ''t1'' ''Read'' '''' False\<lparr>ts_StreamStarted := True\<rparr>) newPendingToolUses"

lemma sampleOpen_step:
  "handleToolUseEvent sampleStreamEnv ''f'' sampleOpen newPendingToolUses = (None, samplePending, [ToolUseStart ''t1'' ''Read''])"
  by code_simp

lemma sampleClose_step:
  "handleToolUseEvent sampleStreamEnv ''f'' sampleClose samplePending =
     (None, newPendingToolUses, [ToolUseDelta ''t1'' ''{}'', ToolUseStop ''t1'', ToolUseDone \<lparr>tu_ToolUseID = ''t1'', tu_Name = ''Read'', tu_Input = JObject []\<rparr>])"
  by code_simp

lemma sample_assembled: "assembled sampleStreamEnv [ToolUseStart ''t1'' ''Read''] samplePending"
proof -
  have "pending_get newPendingToolUses (''toolu_'' @ ''f'') = None" by (simp add: newPendingToolUses_def pending_get_def)
  moreover have "\<not> renamesAnnounced sampleStreamEnv sampleOpen newPendingToolUses" by code_simp
  ultimately show ?thesis
    using assembled_event [OF assembled_new, of "''f''" sampleStreamEnv sampleOpen] sampleOpen_step by fastforce
qed


text \<open>
  The data planes that split the metadata of a call across frames: when the identifier comes first and the name comes in a frame
  without identifier, the first call is given up and the arguments go to a call with a drawn identifier.
\<close>

lemma split_metadata_loses_identifier:
  "let (e1, p, tr1) = handleToolUseEvent sampleStreamEnv ''f'' [(''toolUseId'', JString ''t1'')] newPendingToolUses;
       (e2, q, tr2) = handleToolUseEvent sampleStreamEnv ''f'' [(''name'', JString ''Read'')] p
   in (e1, pu_order p, tr1) = (None, [''t1''], []) \<and> (e2, pu_order q, tr2) = (None, [''toolu_f''], [ToolUseActivity])"
  by code_simp

text \<open>An event that gives an announced block another identifier: the client sees a call start under one identifier and end under another.\<close>

lemma renamed_block_changes_identifier:
  "let (e1, p, tr1) = handleToolUseEvent sampleStreamEnv ''f'' (sampleOpen @ [(''contentBlockIndex'', JString ''0'')]) newPendingToolUses;
       (e2, q, tr2) = handleToolUseEvent sampleStreamEnv ''f''
         [(''toolUseId'', JString ''t2''), (''contentBlockIndex'', JString ''0''), (''stop'', JBool True)] p
   in tr1 = [ToolUseStart ''t1'' ''Read''] \<and>
      tr2 = [ToolUseStop ''t2'', ToolUseDone \<lparr>tu_ToolUseID = ''t2'', tu_Name = ''Read'', tu_Input = JObject []\<rparr>]"
  by code_simp

end
