(* ===== verification/Stream_Events.thy ===== *)
theory Stream_Events
  imports Tool_Stream
begin

text \<open>
  Classification and decoding of the events of the upstream's stream (\<open>proxy/eventstream_payload.go\<close>): what kind an event
  is, its text, its reasoning, its tool fragments, its stop reason and whether it ends the answer. \<open>eventStreamDiagnostics\<close> counts
  what was seen.
\<close>

section \<open>Kinds\<close>

datatype streamEventKind =
    streamEventUnknown
  | streamEventAssistant
  | streamEventReasoning
  | streamEventTool
  | streamEventMetering
  | streamEventContextUsage
  | streamEventMetadata
  | streamEventCompletion
  | streamEventAuxiliary

definition streamAssistantWrapperNames :: "string list" where
  "streamAssistantWrapperNames =
     [''assistantResponseEvent'', ''assistant_response_event'', ''assistantResponse'', ''assistant_response'',
      ''assistantMessage'', ''assistant_message'', ''assistantResponseMessage'', ''assistant_response_message'',
      ''responseMessage'', ''response_message'']"

definition streamReasoningWrapperNames :: "string list" where
  "streamReasoningWrapperNames =
     [''reasoningContentEvent'', ''reasoning_content_event'', ''reasoningEvent'', ''reasoning_event'',
      ''thinkingEvent'', ''thinking_event'', ''reasoningContent'', ''reasoning_content'', ''thinkingContent'', ''thinking_content'']"

definition streamMetadataWrapperNames :: "string list" where
  "streamMetadataWrapperNames =
     [''metadataEvent'', ''metadata_event'', ''messageMetadataEvent'', ''message_metadata_event'',
      ''metadata'', ''messageMetadata'', ''message_metadata'', ''responseMetadata'', ''response_metadata'']"

definition streamToolWrapperNames :: "string list" where
  "streamToolWrapperNames =
     [''toolUseEvent'', ''tool_use_event'', ''toolUse'', ''tool_use'', ''toolUseStartEvent'', ''tool_use_start_event'',
      ''toolUseInputEvent'', ''tool_use_input_event'', ''toolUseStopEvent'', ''tool_use_stop_event'',
      ''toolUseCompleteEvent'', ''tool_use_complete_event'']"

definition streamTelemetryWrapperNames :: "string list" where
  "streamTelemetryWrapperNames =
     [''meteringEvent'', ''metering'', ''usageEvent'', ''usage_event'', ''usage'', ''tokenUsage'', ''token_usage'',
      ''metricsEvent'', ''metrics_event'', ''metrics'', ''tokenMetrics'', ''token_metrics'']"

definition streamAuxiliaryWrapperNames :: "string list" where
  "streamAuxiliaryWrapperNames =
     [''followupPromptEvent'', ''followup_prompt_event'', ''followupPrompt'', ''followup_prompt'',
      ''codeReferenceEvent'', ''code_reference_event'', ''supplementaryWebLinksEvent'', ''supplementary_web_links_event'',
      ''supplementaryWebLinks'', ''supplementary_web_links'', ''citationEvent'', ''citation_event'', ''citation'']"

definition streamResponseWrapperNames :: "string list" where
  "streamResponseWrapperNames = streamAssistantWrapperNames @ [''message'', ''response''] @ streamMetadataWrapperNames"

definition payloadNames :: "string list" where
  "payloadNames =
     [''content'', ''text'', ''thinking'', ''reasoning'', ''delta'', ''contentBlockDelta'', ''content_block_delta'',
      ''assistantResponseEvent'', ''assistant_response_event'', ''reasoningContentEvent'', ''reasoning_content_event'',
      ''assistantResponseMessage'', ''assistant_response_message'', ''responseMessage'', ''response_message'',
      ''messageMetadataEvent'', ''message_metadata_event'', ''usageEvent'', ''usage_event'', ''metricsEvent'', ''metrics_event'',
      ''followupPromptEvent'', ''followup_prompt_event'', ''codeReferenceEvent'', ''code_reference_event'',
      ''supplementaryWebLinksEvent'', ''supplementary_web_links_event'',
      ''toolUseEvent'', ''tool_use'', ''toolUses'', ''tool_uses'', ''usage'', ''tokenUsage'', ''metrics'',
      ''stopReason'', ''stop_reason'', ''finishReason'', ''finish_reason'', ''status'', ''messageStatus'', ''message_status'']"

definition streamLooksLikePayload :: "event \<Rightarrow> bool" where
  "streamLooksLikePayload m \<longleftrightarrow> list_ex (\<lambda>n. hasStreamField m [n]) payloadNames"

definition unwrapOnce :: "event \<Rightarrow> event option" where
  "unwrapOnce current =
     firstSome (\<lambda>n. case streamMapField current [n] of Some c \<Rightarrow> if streamLooksLikePayload c then Some c else None | None \<Rightarrow> None)
       [''data'', ''payload'', ''event'']"

fun unwrapDepth :: "nat \<Rightarrow> event \<Rightarrow> event" where
  "unwrapDepth 0 current = current"
| "unwrapDepth (Suc d) current = (case unwrapOnce current of None \<Rightarrow> current | Some nested \<Rightarrow> unwrapDepth d (mergeStreamMaps current nested))"

definition unwrapStreamEnvelope :: "event \<Rightarrow> event" where
  "unwrapStreamEnvelope event = unwrapDepth 2 event"

definition streamMapHasAssistantWrapper :: "event \<Rightarrow> bool" where
  "streamMapHasAssistantWrapper event \<longleftrightarrow> streamMapField event streamAssistantWrapperNames \<noteq> None"

definition streamMapHasReasoningWrapper :: "event \<Rightarrow> bool" where
  "streamMapHasReasoningWrapper event \<longleftrightarrow> streamMapField event streamReasoningWrapperNames \<noteq> None"

definition streamMapHasMetadataWrapper :: "event \<Rightarrow> bool" where
  "streamMapHasMetadataWrapper event \<longleftrightarrow> streamMapField event streamMetadataWrapperNames \<noteq> None"

definition streamMapHasAuxiliaryWrapper :: "event \<Rightarrow> bool" where
  "streamMapHasAuxiliaryWrapper event \<longleftrightarrow> streamMapField event streamAuxiliaryWrapperNames \<noteq> None"

definition streamHasUsageFields :: "event \<Rightarrow> bool" where
  "streamHasUsageFields event \<longleftrightarrow> streamMapField event streamTelemetryWrapperNames \<noteq> None \<or>
     hasStreamField event [''inputTokens'', ''input_tokens'', ''outputTokens'', ''output_tokens'', ''totalTokens'', ''total_tokens'']"

definition streamHasStopReason :: "event \<Rightarrow> bool" where
  "streamHasStopReason event \<longleftrightarrow> hasStreamField event [''stopReason'', ''stop_reason'', ''finishReason'', ''finish_reason'', ''reason'']"

definition streamHasToolWrapper :: "event \<Rightarrow> bool" where
  "streamHasToolWrapper event \<longleftrightarrow> streamMapField event streamToolWrapperNames \<noteq> None"

definition inputNames :: "string list" where
  "inputNames = [''input'', ''arguments'', ''partialJson'', ''partial_json'', ''inputDelta'', ''input_delta'']"

definition streamHasToolFields :: "event \<Rightarrow> bool" where
  "streamHasToolFields event =
     (let hasID = hasStreamField event [''toolUseId'', ''tool_use_id'', ''toolUseID'', ''id'', ''callId'', ''call_id''];
          hasName = hasStreamField event [''name'', ''toolName'', ''tool_name''];
          hasInput = hasStreamField event inputNames;
          hasStop = hasStreamField event stopNames;
          hasIndex = hasStreamField event [''contentBlockIndex'', ''content_block_index'', ''index'', ''blockIndex'', ''block_index'']
      in hasName \<and> (hasID \<or> hasInput \<or> hasStop \<or> hasIndex) \<or> hasID \<and> (hasInput \<or> hasStop \<or> hasIndex) \<or> hasIndex \<and> (hasInput \<or> hasStop))"

definition stringOrEmpty :: "event \<Rightarrow> string list \<Rightarrow> string" where
  "stringOrEmpty m names = (case streamStringField m names of None \<Rightarrow> '''' | Some s \<Rightarrow> s)"

definition blockNames :: "string list" where
  "blockNames = [''contentBlock'', ''content_block'']"

definition streamContentBlockIsTool :: "event \<Rightarrow> bool" where
  "streamContentBlockIsTool event =
     (let block = (case streamMapField event blockNames of Some b \<Rightarrow> b | None \<Rightarrow> event);
          t = normalizeStreamIdentifier (stringOrEmpty block [''type'', ''blockType'', ''block_type''])
      in contains t ''tooluse'' \<or> contains t ''tool'' \<or>
         (case streamMapField event [''delta''] of
            None \<Rightarrow> False
          | Some delta \<Rightarrow>
              (let d = normalizeStreamIdentifier (stringOrEmpty delta [''type''])
               in contains d ''inputjson'' \<or> contains d ''tooluse'' \<or> contains d ''partialjson'' \<or>
                  hasStreamField delta [''partialJson'', ''partial_json''])))"

definition streamContentBlockIsReasoning :: "event \<Rightarrow> bool" where
  "streamContentBlockIsReasoning event =
     ((case streamMapField event blockNames of
         None \<Rightarrow> False
       | Some block \<Rightarrow>
           (let t = normalizeStreamIdentifier (stringOrEmpty block [''type'', ''blockType'', ''block_type''])
            in contains t ''thinking'' \<or> contains t ''reasoning'')) \<or>
      (case streamMapField event [''delta''] of
         None \<Rightarrow> False
       | Some delta \<Rightarrow>
           (let t = normalizeStreamIdentifier (stringOrEmpty delta [''type'']) in contains t ''thinking'' \<or> contains t ''reasoning'')))"

text \<open>The kind by the type in the header; \<open>None\<close> when the type says nothing.\<close>

definition kindOfType :: "string \<Rightarrow> event \<Rightarrow> streamEventKind option" where
  "kindOfType t event =
     (if contains t ''tooluse'' then Some streamEventTool
      else if t \<in> {''contentblockstart'', ''contentblockdelta'', ''contentblockstop''}
      then Some (if streamContentBlockIsTool event then streamEventTool
                 else if streamContentBlockIsReasoning event then streamEventReasoning else streamEventAssistant)
      else if contains t ''reasoning'' \<or> contains t ''thinking'' then Some streamEventReasoning
      else if contains t ''assistantresponse'' \<or> t = ''assistantmessage'' \<or> t = ''assistantresponse'' then Some streamEventAssistant
      else if contains t ''contextusage'' then Some streamEventContextUsage
      else if contains t ''metering'' \<or> contains t ''usage'' \<or> contains t ''metrics'' then Some streamEventMetering
      else if contains t ''metadata'' then Some streamEventMetadata
      else if t \<in> {''messagestop'', ''messagecomplete'', ''responsecomplete'', ''responsecompleted'', ''completionevent'', ''endofstream'',
                   ''streamcomplete'', ''streamcompleted''} then Some streamEventCompletion
      else if contains t ''followupprompt'' \<or> contains t ''codereference'' \<or> contains t ''supplementaryweblink'' \<or> contains t ''citation''
      then Some streamEventAuxiliary
      else None)"

definition kindOfShape :: "string \<Rightarrow> event \<Rightarrow> streamEventKind" where
  "kindOfShape t event =
     (if streamHasToolFields event \<or> streamHasToolWrapper event then streamEventTool
      else if streamMapHasAssistantWrapper event then streamEventAssistant
      else if streamMapHasReasoningWrapper event then streamEventReasoning
      else if streamMapHasMetadataWrapper event \<or> streamHasStopReason event then streamEventMetadata
      else if streamHasUsageFields event then streamEventMetering
      else if streamMapHasAuxiliaryWrapper event then streamEventAuxiliary
      else if hasStreamField event [''thinking'', ''reasoning'', ''reasoningContent'', ''reasoning_content''] then streamEventReasoning
      else if hasStreamField event [''content'', ''outputText'', ''output_text'', ''completion''] then streamEventAssistant
      else if (t = '''' \<or> t = ''delta'' \<or> t = ''textdelta'' \<or> contains t ''response'') \<and> hasStreamField event [''text''] then streamEventAssistant
      else streamEventUnknown)"

definition classifyStreamEvent :: "string \<Rightarrow> event \<Rightarrow> streamEventKind" where
  "classifyStreamEvent eventType event =
     (let t = normalizeStreamIdentifier eventType in case kindOfType t event of Some k \<Rightarrow> k | None \<Rightarrow> kindOfShape t event)"

section \<open>Texts\<close>

definition nestedCandidates :: "event \<Rightarrow> string list \<Rightarrow> string list \<Rightarrow> event list" where
  "nestedCandidates event names inner =
     concat (map (\<lambda>n. case streamMapField event [n] of
        None \<Rightarrow> [] | Some nested \<Rightarrow> nested # (case streamMapField nested inner of None \<Rightarrow> [] | Some d \<Rightarrow> [d])) names)"

definition firstText :: "event list \<Rightarrow> string list \<Rightarrow> string" where
  "firstText candidates names =
     (case firstSome (\<lambda>c. case streamTextFields c names of Some t \<Rightarrow> if t = '''' then None else Some t | None \<Rightarrow> None) candidates of
        Some t \<Rightarrow> t | None \<Rightarrow> '''')"

definition textNames :: "string list" where
  "textNames = [''content'', ''text'', ''outputText'', ''output_text'', ''completion'']"

definition extractStreamText :: "event \<Rightarrow> streamEventKind \<Rightarrow> string" where
  "extractStreamText event kind =
     (if kind \<notin> {streamEventAssistant, streamEventUnknown} then ''''
      else firstText (streamCandidateMaps event streamAssistantWrapperNames @
             nestedCandidates event [''message'', ''delta'', ''contentBlockDelta'', ''content_block_delta'', ''contentBlock'', ''content_block''] [''delta''])
             textNames)"

definition extractStreamReasoning :: "event \<Rightarrow> streamEventKind \<Rightarrow> string" where
  "extractStreamReasoning event kind =
     (if kind \<notin> {streamEventReasoning, streamEventAssistant, streamEventUnknown} then ''''
      else firstText (streamCandidateMaps event streamReasoningWrapperNames @ streamCandidateMaps event streamAssistantWrapperNames @
             nestedCandidates event [''delta'', ''contentBlockDelta'', ''content_block_delta'', ''message''] [''delta''])
             ((if kind = streamEventReasoning then [''text'', ''content''] else []) @ [''thinking'', ''reasoning'', ''reasoningContent'', ''reasoning_content'']))"

section \<open>Tool fragments\<close>

definition streamHasToolContinuation :: "event \<Rightarrow> bool" where
  "streamHasToolContinuation event \<longleftrightarrow> hasStreamField event inputNames \<or> hasStreamField event stopNames \<or>
     (case streamMapField event [''delta''] of
        None \<Rightarrow> False
      | Some delta \<Rightarrow> hasStreamField delta [''partialJson'', ''partial_json'', ''input'', ''inputDelta'', ''input_delta'', ''arguments''])"

definition toolEventHasData :: "string \<Rightarrow> event \<Rightarrow> event \<Rightarrow> bool" where
  "toolEventHasData eventType canonical nested \<longleftrightarrow> contains (normalizeStreamIdentifier eventType) ''tooluse'' \<or>
     streamHasToolFields canonical \<or> streamHasToolFields nested \<or> streamHasToolContinuation nested"

definition stoppedPayload :: "streamNumbers \<Rightarrow> event \<Rightarrow> event" where
  "stoppedPayload sn m = gm_put ''stop'' (JBool True) (canonicalToolPayload sn m)"

definition listedTools :: "streamNumbers \<Rightarrow> event \<Rightarrow> event list" where
  "listedTools sn event =
     (case streamWrapperMap event streamAssistantWrapperNames of
        None \<Rightarrow> []
      | Some assistant \<Rightarrow>
          (case streamArrayField assistant [''toolUses'', ''tool_uses''] of
             None \<Rightarrow> []
           | Some items \<Rightarrow> map (stoppedPayload sn) (List.map_filter jsonMembers items)))"

definition wrappedTools :: "streamNumbers \<Rightarrow> string \<Rightarrow> event \<Rightarrow> event list" where
  "wrappedTools sn eventType event =
     (case streamMapField event streamToolWrapperNames of
        None \<Rightarrow> []
      | Some nested \<Rightarrow>
          (let tool = canonicalToolPayload sn (mergeStreamMaps event nested) in if toolEventHasData eventType tool nested then [tool] else []))"

definition blockTools :: "streamNumbers \<Rightarrow> string \<Rightarrow> event \<Rightarrow> event list" where
  "blockTools sn t event =
     (if \<not> streamContentBlockIsTool event then []
      else case streamMapField event blockNames of
             Some block \<Rightarrow>
               (let tool = canonicalToolPayload sn (mergeStreamMaps event block)
                in [gm_put ''stop'' (JBool (gm_get tool ''stop'' = Some (JBool True) \<or> t = ''contentblockstop'')) tool])
           | None \<Rightarrow> if t = ''contentblockstop'' then [stoppedPayload sn event] else [])"

definition indexedStop :: "streamNumbers \<Rightarrow> string \<Rightarrow> event \<Rightarrow> pendingToolUseSet option \<Rightarrow> event list" where
  "indexedStop sn t event pending =
     (case pending of
        None \<Rightarrow> []
      | Some p \<Rightarrow>
          (let index = streamContentBlockIndexFrom sn event
           in if t = ''contentblockstop'' \<and> index \<noteq> '''' \<and> getByContentBlockIndex p index \<noteq> None then [stoppedPayload sn event] else []))"

definition directTools :: "streamNumbers \<Rightarrow> string \<Rightarrow> event \<Rightarrow> bool \<Rightarrow> event list" where
  "directTools sn t event hasCurrent =
     (let direct = (contains t ''tooluse'' \<or> contains t ''inputjson'' \<or> contains t ''partialjson'')
      in if direct \<or> streamHasToolFields event \<or> (hasCurrent \<and> streamHasToolContinuation event)
         then [if direct \<and> (contains t ''stop'' \<or> contains t ''end'' \<or> contains t ''complete'' \<or> t = ''contentblockstop'')
               then stoppedPayload sn event else canonicalToolPayload sn event]
         else [])"

definition extractStreamToolPayloadsWithPending ::
    "streamNumbers \<Rightarrow> string \<Rightarrow> event \<Rightarrow> bool \<Rightarrow> pendingToolUseSet option \<Rightarrow> event list" where
  "extractStreamToolPayloadsWithPending sn eventType event hasCurrent pending =
     (let t = normalizeStreamIdentifier eventType;
          dedicated = listedTools sn event @ wrappedTools sn eventType event @ blockTools sn t event;
          dedicated2 = (if dedicated = [] then indexedStop sn t event pending else dedicated)
      in if dedicated2 = [] then directTools sn t event hasCurrent else dedicated2)"

section \<open>The end of an answer\<close>

definition extractStreamStopReason :: "event \<Rightarrow> streamEventKind \<Rightarrow> string" where
  "extractStreamStopReason event kind =
     (if kind \<in> {streamEventReasoning, streamEventTool, streamEventMetering, streamEventContextUsage} then ''''
      else case firstSome (\<lambda>c. let r = streamStringFrom c [''stopReason'', ''stop_reason'', ''finishReason'', ''finish_reason'', ''reason'']
                               in if r = '''' then None else Some r)
             (streamCandidateMaps event streamResponseWrapperNames @
              nestedCandidates event [''message'', ''response'', ''delta'', ''contentBlockDelta'', ''content_block_delta'']
                [''message'', ''response'', ''metadata'', ''metadataEvent'', ''messageMetadataEvent'']) of
           Some r \<Rightarrow> r | None \<Rightarrow> '''')"

definition finalCandidate :: "streamNumbers \<Rightarrow> event \<Rightarrow> bool" where
  "finalCandidate sn c \<longleftrightarrow> streamBoolFrom sn c [''isFinal'', ''is_final'', ''completed'', ''complete'', ''finished''] \<or>
     to_lower (trim_space (streamStringFrom c [''messageStatus'', ''message_status'', ''status'']))
       \<in> {''completed'', ''complete'', ''finished'', ''done'', ''success'', ''succeeded''}"

definition streamEventHasTerminalSignal :: "streamNumbers \<Rightarrow> string \<Rightarrow> event \<Rightarrow> streamEventKind \<Rightarrow> string \<Rightarrow> bool" where
  "streamEventHasTerminalSignal sn eventType event kind stopReason =
     (let t = normalizeStreamIdentifier eventType
      in stopReason \<noteq> '''' \<or> kind = streamEventCompletion \<or>
         has_suffix t ''completeevent'' \<or> has_suffix t ''completedevent'' \<or> t \<in> {''endofstream'', ''messagestop'', ''responsestop''} \<or>
         contains t ''assistantresponsemessage'' \<or> t = ''assistantmessage'' \<or>
         (kind \<in> {streamEventMetadata, streamEventAssistant} \<and> list_ex (finalCandidate sn) (streamCandidateMaps event streamResponseWrapperNames)) \<or>
         (kind = streamEventAssistant \<and>
          (case streamMapField event [''assistantResponseMessage'', ''assistant_response_message''] of
             None \<Rightarrow> False
           | Some message \<Rightarrow> streamTextFields message textNames \<noteq> None \<and>
               (t = '''' \<or> contains t ''assistantresponsemessage'' \<or> contains t ''assistantmessage''))))"

section \<open>Decoding\<close>

record decodedStreamEvent =
  de_kind :: streamEventKind
  de_text :: string
  de_reasoning :: string
  de_toolPayloads :: "event list"
  de_stopReason :: string
  de_terminal :: bool
  de_telemetry :: bool

definition decodeStreamEventWithPending ::
    "streamNumbers \<Rightarrow> string \<Rightarrow> event \<Rightarrow> pendingToolUseSet option \<Rightarrow> bool \<Rightarrow> decodedStreamEvent" where
  "decodeStreamEventWithPending sn eventType raw pending hasCurrent =
     (let event = unwrapStreamEnvelope raw;
          kind = classifyStreamEvent eventType event;
          tools = extractStreamToolPayloadsWithPending sn eventType event hasCurrent pending;
          reason = extractStreamStopReason event kind
      in \<lparr>de_kind = (if tools \<noteq> [] \<and> kind = streamEventUnknown then streamEventTool else kind),
          de_text = extractStreamText event kind,
          de_reasoning = extractStreamReasoning event kind,
          de_toolPayloads = tools,
          de_stopReason = reason,
          de_terminal = streamEventHasTerminalSignal sn eventType event kind reason,
          de_telemetry = (kind \<in> {streamEventMetering, streamEventContextUsage, streamEventMetadata, streamEventAuxiliary})\<rparr>)"

record eventStreamDiagnostics =
  di_frames :: int
  di_payloadBytes :: int
  di_recognized :: int
  di_unknown :: int
  di_text :: int
  di_reasoning :: int
  di_tools :: int
  di_telemetry :: int
  di_completions :: int
  di_invalidFrames :: int

definition newDiagnostics :: eventStreamDiagnostics where
  "newDiagnostics = \<lparr>di_frames = 0, di_payloadBytes = 0, di_recognized = 0, di_unknown = 0, di_text = 0, di_reasoning = 0, di_tools = 0,
     di_telemetry = 0, di_completions = 0, di_invalidFrames = 0\<rparr>"

definition recordDiagnostics :: "int \<Rightarrow> decodedStreamEvent \<Rightarrow> eventStreamDiagnostics \<Rightarrow> eventStreamDiagnostics" where
  "recordDiagnostics payloadBytes event d =
     \<lparr>di_frames = di_frames d + 1,
      di_payloadBytes = (if payloadBytes > 0 then di_payloadBytes d + payloadBytes else di_payloadBytes d),
      di_recognized = (if de_kind event = streamEventUnknown then di_recognized d else di_recognized d + 1),
      di_unknown = (if de_kind event = streamEventUnknown then di_unknown d + 1 else di_unknown d),
      di_text = (if de_text event \<noteq> '''' then di_text d + 1 else di_text d),
      di_reasoning = (if de_reasoning event \<noteq> '''' then di_reasoning d + 1 else di_reasoning d),
      di_tools = di_tools d + int (length (de_toolPayloads event)),
      di_telemetry = (if de_telemetry event then di_telemetry d + 1 else di_telemetry d),
      di_completions = (if de_terminal event \<or> de_stopReason event \<noteq> '''' then di_completions d + 1 else di_completions d),
      di_invalidFrames = di_invalidFrames d\<rparr>"

definition recordInvalid :: "eventStreamDiagnostics \<Rightarrow> eventStreamDiagnostics" where
  "recordInvalid d = d\<lparr>di_invalidFrames := di_invalidFrames d + 1\<rparr>"

definition diagnosticsSummary :: "eventStreamDiagnostics \<Rightarrow> string" where
  "diagnosticsSummary d =
     (if di_frames d = 0 \<and> di_invalidFrames d = 0 then ''''
      else ''frames='' @ show_int (di_frames d) @ '' payload_bytes='' @ show_int (di_payloadBytes d) @
        '' recognized='' @ show_int (di_recognized d) @ '' unknown='' @ show_int (di_unknown d) @ '' text='' @ show_int (di_text d) @
        '' reasoning='' @ show_int (di_reasoning d) @ '' tools='' @ show_int (di_tools d) @ '' telemetry='' @ show_int (di_telemetry d) @
        '' completion='' @ show_int (di_completions d) @ '' invalid='' @ show_int (di_invalidFrames d))"

end
