(* ===== verification/Stream_Usage.thy ===== *)
theory Stream_Usage
  imports Stream_Fields Upstream_Error
begin

text \<open>
  The token usage reported in the stream (\<open>proxy/kiro.go\<close>): the usage objects of an event are collected, ranked and
  merged to one snapshot, and the snapshots of successive events to cumulative counters.

  Counts are integers of 64 bits in the source; sums saturate at the largest one, the other steps do not leave the range for counts
  below it. \<open>usageEnv\<close> has the reading of number literals and the rounding of \<open>float64\<close> operations.
\<close>

section \<open>Reading counts\<close>

record usageEnv =
  ue_numbers :: streamNumbers
  ue_rnd :: "rat \<Rightarrow> rat"

definition parseTokenNumber :: "usageEnv \<Rightarrow> jsonValue \<Rightarrow> int option" where
  "parseTokenNumber env v =
     (case v of
        JNumber n \<Rightarrow> Some (trunc_float (sn_float (ue_numbers env) n))
      | JString s \<Rightarrow>
          (case parseInt64 (trim_space s) of
             Some i \<Rightarrow> Some i
           | None \<Rightarrow> map_option trunc_float (sn_parseFloat (ue_numbers env) (trim_space s)))
      | _ \<Rightarrow> None)"

text \<open>The keys that match one of the names when compared without case and separators, in the order of their bytes.\<close>

definition matchingKeys :: "event \<Rightarrow> string list \<Rightarrow> string list" where
  "matchingKeys m names =
     (let wanted = filter (\<lambda>w. w \<noteq> '''') (map normalizeStreamIdentifier names)
      in sort_stable bytesBefore (filter (\<lambda>k. normalizeStreamIdentifier k \<in> set wanted) (map fst m)))"

definition lookupBy :: "(jsonValue \<Rightarrow> 'a option) \<Rightarrow> event \<Rightarrow> string \<Rightarrow> 'a option" where
  "lookupBy parse m k = (case gm_get m k of None \<Rightarrow> None | Some v \<Rightarrow> parse v)"

definition readTokenNumber :: "usageEnv \<Rightarrow> event \<Rightarrow> string list \<Rightarrow> int option" where
  "readTokenNumber env m keys = firstSome (lookupBy (parseTokenNumber env) m) (keys @ matchingKeys m keys)"

definition readTokenMapField :: "event \<Rightarrow> string list \<Rightarrow> event option" where
  "readTokenMapField m names = firstSome (lookupBy jsonMembers m) (names @ matchingKeys m names)"

section \<open>Usage objects\<close>

record KiroTokenUsage =
  ku_InputTokens :: int
  ku_OutputTokens :: int
  ku_UncachedInputTokens :: int
  ku_CacheReadInputTokens :: int
  ku_CacheCreationInputTokens :: int
  ku_CacheCreation5mTokens :: int
  ku_CacheCreation1hTokens :: int
  ku_ThinkingTokens :: int
  ku_HasCacheBreakdown :: bool
  ku_HasThinkingBreakdown :: bool
  ku_hasInputTokens :: bool
  ku_hasOutputTokens :: bool
  ku_hasThinkingTokens :: bool
  ku_hasUncachedBreakdown :: bool
  ku_hasCacheReadTokens :: bool
  ku_hasCacheCreationTokens :: bool
  ku_hasCacheCreation5mTokens :: bool
  ku_hasCacheCreation1hTokens :: bool

definition zeroUsage :: KiroTokenUsage where
  "zeroUsage = \<lparr>ku_InputTokens = 0, ku_OutputTokens = 0, ku_UncachedInputTokens = 0, ku_CacheReadInputTokens = 0,
     ku_CacheCreationInputTokens = 0, ku_CacheCreation5mTokens = 0, ku_CacheCreation1hTokens = 0, ku_ThinkingTokens = 0,
     ku_HasCacheBreakdown = False, ku_HasThinkingBreakdown = False, ku_hasInputTokens = False, ku_hasOutputTokens = False,
     ku_hasThinkingTokens = False, ku_hasUncachedBreakdown = False, ku_hasCacheReadTokens = False, ku_hasCacheCreationTokens = False,
     ku_hasCacheCreation5mTokens = False, ku_hasCacheCreation1hTokens = False\<rparr>"

record tokenUsageCandidate =
  tc_usage :: KiroTokenUsage
  tc_priority :: int
  tc_completeness :: int
  tc_path :: string

definition usageMapPriority :: "string \<Rightarrow> int option" where
  "usageMapPriority key =
     (let k = normalizeStreamIdentifier key
      in if k = ''tokenusage'' then Some 400
         else if k = ''usage'' then Some 300
         else if k \<in> {''metadataevent'', ''messagemetadataevent'', ''metadata'', ''messagemetadata'', ''responsemetadata''} then Some 250
         else if k \<in> {''metrics'', ''tokenmetrics''} then Some 200
         else if k \<in> {''usageevent'', ''metricsevent'', ''meteringevent''} then Some 150
         else None)"

type_synonym usageStep = "KiroTokenUsage \<times> int"

text \<open>One count of a usage object: when it is found it is stored by \<open>f\<close> and the object is more complete.\<close>

definition takeCount :: "int option \<Rightarrow> (int \<Rightarrow> KiroTokenUsage \<Rightarrow> KiroTokenUsage) \<Rightarrow> usageStep \<Rightarrow> usageStep" where
  "takeCount found f s = (case found of None \<Rightarrow> s | Some v \<Rightarrow> (f v (fst s), snd s + 1))"

definition thinkingNames :: "string list" where
  "thinkingNames = [''thinkingTokens'', ''reasoningTokens'', ''thinking_tokens'', ''reasoning_tokens'']"

definition detailNames :: "string list" where
  "detailNames = [''outputTokenDetails'', ''outputTokensDetails'', ''completionTokenDetails'', ''completionTokensDetails'',
     ''output_token_details'', ''output_tokens_details'', ''completion_token_details'', ''completion_tokens_details'']"

definition setThinking :: "int \<Rightarrow> KiroTokenUsage \<Rightarrow> KiroTokenUsage" where
  "setThinking v u = u\<lparr>ku_ThinkingTokens := (if \<not> ku_hasThinkingTokens u \<or> v > ku_ThinkingTokens u then v else ku_ThinkingTokens u),
     ku_hasThinkingTokens := True, ku_HasThinkingBreakdown := True\<rparr>"

definition setCreation5m :: "int \<Rightarrow> KiroTokenUsage \<Rightarrow> KiroTokenUsage" where
  "setCreation5m v u = u\<lparr>ku_CacheCreation5mTokens :=
      (if \<not> ku_hasCacheCreation5mTokens u \<or> v > ku_CacheCreation5mTokens u then v else ku_CacheCreation5mTokens u),
     ku_hasCacheCreation5mTokens := True, ku_HasCacheBreakdown := True\<rparr>"

definition setCreation1h :: "int \<Rightarrow> KiroTokenUsage \<Rightarrow> KiroTokenUsage" where
  "setCreation1h v u = u\<lparr>ku_CacheCreation1hTokens :=
      (if \<not> ku_hasCacheCreation1hTokens u \<or> v > ku_CacheCreation1hTokens u then v else ku_CacheCreation1hTokens u),
     ku_hasCacheCreation1hTokens := True, ku_HasCacheBreakdown := True\<rparr>"

definition fiveMinuteNames :: "string list" where
  "fiveMinuteNames = [''ephemeral5mInputTokens'', ''ephemeral_5m_input_tokens'']"

definition oneHourNames :: "string list" where
  "oneHourNames = [''ephemeral1hInputTokens'', ''ephemeral_1h_input_tokens'']"

definition takeDetails :: "usageEnv \<Rightarrow> event \<Rightarrow> string \<Rightarrow> usageStep \<Rightarrow> usageStep" where
  "takeDetails env m key s =
     (case readTokenMapField m [key] of None \<Rightarrow> s | Some details \<Rightarrow> takeCount (readTokenNumber env details thinkingNames) setThinking s)"

definition takeCreation :: "usageEnv \<Rightarrow> event \<Rightarrow> string \<Rightarrow> usageStep \<Rightarrow> usageStep" where
  "takeCreation env m key s =
     (case readTokenMapField m [key] of
        None \<Rightarrow> s
      | Some creation \<Rightarrow>
          takeCount (readTokenNumber env creation oneHourNames) setCreation1h
            (takeCount (readTokenNumber env creation fiveMinuteNames) setCreation5m s))"

definition takeOutput :: "usageEnv \<Rightarrow> event \<Rightarrow> usageStep \<Rightarrow> usageStep" where
  "takeOutput env m s =
     fold (takeDetails env m) detailNames
       (takeCount (readTokenNumber env m thinkingNames) setThinking
         (takeCount (readTokenNumber env m [''outputTokens'', ''completionTokens'', ''totalOutputTokens'', ''output_tokens'', ''completion_tokens'', ''total_output_tokens''])
            (\<lambda>v u. u\<lparr>ku_OutputTokens := v, ku_hasOutputTokens := True\<rparr>) s))"

definition takeInputCounts :: "usageEnv \<Rightarrow> event \<Rightarrow> usageStep \<Rightarrow> usageStep" where
  "takeInputCounts env m s0 =
     (let s1 = takeCount (readTokenNumber env m [''inputTokens'', ''promptTokens'', ''totalInputTokens'', ''input_tokens'', ''prompt_tokens'', ''total_input_tokens''])
                 (\<lambda>v u. u\<lparr>ku_InputTokens := v, ku_hasInputTokens := True\<rparr>) s0;
          s2 = takeCount (readTokenNumber env m [''uncachedInputTokens'', ''uncached_input_tokens''])
                 (\<lambda>v u. u\<lparr>ku_UncachedInputTokens := v, ku_hasUncachedBreakdown := True, ku_HasCacheBreakdown := True\<rparr>) s1;
          s3 = takeCount (readTokenNumber env m [''cacheReadInputTokens'', ''cacheReadTokens'', ''cache_read_input_tokens'', ''cache_read_tokens''])
                 (\<lambda>v u. u\<lparr>ku_CacheReadInputTokens := v, ku_hasCacheReadTokens := True, ku_HasCacheBreakdown := True\<rparr>) s2;
          s4 = takeCount (readTokenNumber env m [''cacheWriteInputTokens'', ''cacheWriteTokens'', ''cache_write_input_tokens'', ''cacheCreationInputTokens'',
                   ''cacheCreationTokens'', ''cache_creation_input_tokens'', ''cache_creation_tokens''])
                 (\<lambda>v u. u\<lparr>ku_CacheCreationInputTokens := v, ku_hasCacheCreationTokens := True, ku_HasCacheBreakdown := True\<rparr>) s3;
          s5 = takeCount (readTokenNumber env m fiveMinuteNames) setCreation5m s4;
          s6 = takeCount (readTokenNumber env m oneHourNames) setCreation1h s5
      in fold (takeCreation env m) [''cache_creation'', ''cacheCreation''] s6)"

definition takeTotal :: "usageEnv \<Rightarrow> event \<Rightarrow> usageStep \<Rightarrow> usageStep" where
  "takeTotal env m s =
     (if ku_hasInputTokens (fst s) then s
      else case readTokenNumber env m [''totalTokens'', ''total_tokens''] of
             None \<Rightarrow> s
           | Some whole \<Rightarrow>
               if whole > 0 \<and> whole \<ge> ku_OutputTokens (fst s)
               then ((fst s)\<lparr>ku_InputTokens := whole - ku_OutputTokens (fst s), ku_hasInputTokens := True\<rparr>, snd s + 1)
               else s)"

definition parseTokenUsageCandidate :: "usageEnv \<Rightarrow> event \<Rightarrow> int \<Rightarrow> string \<Rightarrow> tokenUsageCandidate option" where
  "parseTokenUsageCandidate env m priority path =
     (let (u, n) = takeTotal env m (takeInputCounts env m (takeOutput env m (zeroUsage, 0)))
      in if n > 0 then Some \<lparr>tc_usage = u, tc_priority = priority, tc_completeness = n, tc_path = path\<rparr> else None)"

definition usagePathJoin :: "string \<Rightarrow> string \<Rightarrow> string" where
  "usagePathJoin path key = (if path = '''' then key else path @ ''.'' @ key)"

definition optionList :: "'a option \<Rightarrow> 'a list" where
  "optionList x = (case x of None \<Rightarrow> [] | Some y \<Rightarrow> [y])"

definition namedCandidate :: "usageEnv \<Rightarrow> string \<Rightarrow> string \<Rightarrow> jsonValue \<Rightarrow> tokenUsageCandidate list" where
  "namedCandidate env path key child =
     (case (jsonMembers child, usageMapPriority key) of
        (Some m, Some priority) \<Rightarrow> optionList (parseTokenUsageCandidate env m priority path)
      | _ \<Rightarrow> [])"

function collectUsageCandidates :: "usageEnv \<Rightarrow> jsonValue \<Rightarrow> string \<Rightarrow> tokenUsageCandidate list" where
  "collectUsageCandidates env (JObject ms) path =
     concat (map (\<lambda>(key, child). namedCandidate env (usagePathJoin path key) key child @ collectUsageCandidates env child (usagePathJoin path key))
       (sort_stable (\<lambda>a b. bytesBefore (fst a) (fst b)) ms))"
| "collectUsageCandidates env (JArray vs) path =
     concat (map (\<lambda>(i, child). collectUsageCandidates env child (path @ ''['' @ show_nat i @ '']'')) (enumerate 0 vs))"
| "collectUsageCandidates env JNull path = []"
| "collectUsageCandidates env (JBool b) path = []"
| "collectUsageCandidates env (JNumber n) path = []"
| "collectUsageCandidates env (JString s) path = []"
  by pat_completeness auto
termination
proof (relation "measure (\<lambda>(_, v, _). size v)", goal_cases)
  case (2 env ms path x key child)
  then have "(key, child) \<in> set ms" by simp
  then have "size child < size_list (size_prod (\<lambda>_. 0) size) ms" by (induction ms) auto
  then show ?case by simp
next
  case (3 env vs path x i child)
  then have "child \<in> set vs" by (auto simp: in_set_enumerate_eq)
  then have "size child < Suc (size_list size vs)" by (induction vs) auto
  then show ?case by simp
qed simp

section \<open>Merging\<close>

text \<open>
  \<open>tokenUsageMergeState\<close> keeps value, presence and rank of every count; here they are one \<open>usageField\<close> each.
\<close>

record tokenUsageFieldRank =
  fr_priority :: int
  fr_completeness :: int
  fr_path :: string

record usageField =
  uf_value :: int
  uf_set :: bool
  uf_rank :: tokenUsageFieldRank

record tokenUsageMergeState =
  ms_input :: usageField
  ms_output :: usageField
  ms_thinking :: usageField
  ms_uncached :: usageField
  ms_cacheRead :: usageField
  ms_cacheCreation :: usageField
  ms_cacheCreation5m :: usageField
  ms_cacheCreation1h :: usageField
  ms_HasCacheBreakdown :: bool
  ms_HasThinkingBreakdown :: bool

definition emptyField :: usageField where
  "emptyField = \<lparr>uf_value = 0, uf_set = False, uf_rank = \<lparr>fr_priority = 0, fr_completeness = 0, fr_path = ''''\<rparr>\<rparr>"

definition newMergeState :: tokenUsageMergeState where
  "newMergeState = \<lparr>ms_input = emptyField, ms_output = emptyField, ms_thinking = emptyField, ms_uncached = emptyField,
     ms_cacheRead = emptyField, ms_cacheCreation = emptyField, ms_cacheCreation5m = emptyField, ms_cacheCreation1h = emptyField,
     ms_HasCacheBreakdown = False, ms_HasThinkingBreakdown = False\<rparr>"

definition moreAuthoritative :: "tokenUsageCandidate \<Rightarrow> tokenUsageFieldRank \<Rightarrow> bool" where
  "moreAuthoritative c rank \<longleftrightarrow> tc_priority c > fr_priority rank \<or>
     (tc_priority c = fr_priority rank \<and> tc_completeness c > fr_completeness rank)"

definition mergeField :: "usageField \<Rightarrow> int \<Rightarrow> bool \<Rightarrow> tokenUsageCandidate \<Rightarrow> bool \<Rightarrow> usageField" where
  "mergeField f value0 present c preservePositiveZero =
     (if \<not> present then f
      else let value = max value0 0; existing = max (uf_value f) 0; rank = uf_rank f;
               taken = \<lparr>uf_value = value, uf_set = True,
                        uf_rank = \<lparr>fr_priority = tc_priority c, fr_completeness = tc_completeness c, fr_path = tc_path c\<rparr>\<rparr>
           in if \<not> uf_set f then taken
              else if value = 0 \<and> existing > 0 then (if preservePositiveZero then f else if moreAuthoritative c rank then taken else f)
              else if existing = 0 \<and> value > 0 then taken
              else if moreAuthoritative c rank then taken
              else if tc_priority c = fr_priority rank \<and> tc_completeness c = fr_completeness rank \<and> value > existing then taken
              else f)"

definition mergeCandidate :: "tokenUsageMergeState \<Rightarrow> tokenUsageCandidate \<Rightarrow> tokenUsageMergeState" where
  "mergeCandidate s c =
     (let u = tc_usage c
      in \<lparr>ms_input = mergeField (ms_input s) (ku_InputTokens u) (ku_hasInputTokens u) c True,
          ms_output = mergeField (ms_output s) (ku_OutputTokens u) (ku_hasOutputTokens u) c True,
          ms_thinking = mergeField (ms_thinking s) (ku_ThinkingTokens u) (ku_hasThinkingTokens u) c True,
          ms_uncached = mergeField (ms_uncached s) (ku_UncachedInputTokens u) (ku_hasUncachedBreakdown u) c False,
          ms_cacheRead = mergeField (ms_cacheRead s) (ku_CacheReadInputTokens u) (ku_hasCacheReadTokens u) c False,
          ms_cacheCreation = mergeField (ms_cacheCreation s) (ku_CacheCreationInputTokens u) (ku_hasCacheCreationTokens u) c False,
          ms_cacheCreation5m = mergeField (ms_cacheCreation5m s) (ku_CacheCreation5mTokens u) (ku_hasCacheCreation5mTokens u) c False,
          ms_cacheCreation1h = mergeField (ms_cacheCreation1h s) (ku_CacheCreation1hTokens u) (ku_hasCacheCreation1hTokens u) c False,
          ms_HasCacheBreakdown = (ms_HasCacheBreakdown s \<or> ku_HasCacheBreakdown u),
          ms_HasThinkingBreakdown = (ms_HasThinkingBreakdown s \<or> ku_HasThinkingBreakdown u)\<rparr>)"

definition mergedUsage :: "tokenUsageMergeState \<Rightarrow> KiroTokenUsage" where
  "mergedUsage s =
     \<lparr>ku_InputTokens = uf_value (ms_input s), ku_OutputTokens = uf_value (ms_output s),
      ku_UncachedInputTokens = uf_value (ms_uncached s), ku_CacheReadInputTokens = uf_value (ms_cacheRead s),
      ku_CacheCreationInputTokens = uf_value (ms_cacheCreation s), ku_CacheCreation5mTokens = uf_value (ms_cacheCreation5m s),
      ku_CacheCreation1hTokens = uf_value (ms_cacheCreation1h s), ku_ThinkingTokens = uf_value (ms_thinking s),
      ku_HasCacheBreakdown = ms_HasCacheBreakdown s, ku_HasThinkingBreakdown = ms_HasThinkingBreakdown s,
      ku_hasInputTokens = uf_set (ms_input s), ku_hasOutputTokens = uf_set (ms_output s), ku_hasThinkingTokens = uf_set (ms_thinking s),
      ku_hasUncachedBreakdown = uf_set (ms_uncached s), ku_hasCacheReadTokens = uf_set (ms_cacheRead s),
      ku_hasCacheCreationTokens = uf_set (ms_cacheCreation s), ku_hasCacheCreation5mTokens = uf_set (ms_cacheCreation5m s),
      ku_hasCacheCreation1hTokens = uf_set (ms_cacheCreation1h s)\<rparr>"

section \<open>Consistent counters\<close>

definition maxInt64 :: int where
  "maxInt64 = 2 ^ 63 - 1"

definition saturatingTokenAdd :: "int \<Rightarrow> int \<Rightarrow> int" where
  "saturatingTokenAdd a0 b0 = (let a = max a0 0; b = max b0 0 in if a > maxInt64 - b then maxInt64 else a + b)"

definition nonNegative :: "KiroTokenUsage \<Rightarrow> KiroTokenUsage" where
  "nonNegative u = u\<lparr>ku_InputTokens := max (ku_InputTokens u) 0, ku_OutputTokens := max (ku_OutputTokens u) 0,
     ku_UncachedInputTokens := max (ku_UncachedInputTokens u) 0, ku_CacheReadInputTokens := max (ku_CacheReadInputTokens u) 0,
     ku_CacheCreationInputTokens := max (ku_CacheCreationInputTokens u) 0, ku_CacheCreation5mTokens := max (ku_CacheCreation5mTokens u) 0,
     ku_CacheCreation1hTokens := max (ku_CacheCreation1hTokens u) 0, ku_ThinkingTokens := max (ku_ThinkingTokens u) 0\<rparr>"

definition nestedCreation :: "KiroTokenUsage \<Rightarrow> int" where
  "nestedCreation u = saturatingTokenAdd (ku_CacheCreation5mTokens u) (ku_CacheCreation1hTokens u)"

text \<open>The presence of every count, and the creation total when only its two parts are known.\<close>

definition markPresence :: "KiroTokenUsage \<Rightarrow> KiroTokenUsage" where
  "markPresence u =
     (let hasUncached = ku_hasUncachedBreakdown u \<or> ku_UncachedInputTokens u > 0;
          hasRead = ku_hasCacheReadTokens u \<or> ku_CacheReadInputTokens u > 0;
          hasCreation = ku_hasCacheCreationTokens u \<or> ku_CacheCreationInputTokens u > 0;
          has5m = ku_hasCacheCreation5mTokens u \<or> ku_CacheCreation5mTokens u > 0;
          has1h = ku_hasCacheCreation1hTokens u \<or> ku_CacheCreation1hTokens u > 0;
          derived = \<not> hasCreation \<and> (has5m \<or> has1h)
      in u\<lparr>ku_CacheCreationInputTokens := (if derived then nestedCreation u else ku_CacheCreationInputTokens u),
           ku_hasInputTokens := ku_hasInputTokens u \<or> ku_InputTokens u > 0,
           ku_hasOutputTokens := ku_hasOutputTokens u \<or> ku_OutputTokens u > 0,
           ku_hasThinkingTokens := ku_hasThinkingTokens u \<or> ku_ThinkingTokens u > 0 \<or> ku_HasThinkingBreakdown u,
           ku_hasUncachedBreakdown := hasUncached, ku_hasCacheReadTokens := hasRead,
           ku_hasCacheCreationTokens := hasCreation \<or> derived,
           ku_hasCacheCreation5mTokens := has5m, ku_hasCacheCreation1hTokens := has1h,
           ku_HasCacheBreakdown := ku_HasCacheBreakdown u \<or> hasUncached \<or> hasRead \<or> hasCreation \<or> derived \<or> has5m \<or> has1h\<rparr>)"

definition cacheBuckets :: "KiroTokenUsage \<Rightarrow> int" where
  "cacheBuckets u = saturatingTokenAdd (ku_CacheReadInputTokens u) (ku_CacheCreationInputTokens u)"

definition fitInput :: "KiroTokenUsage \<Rightarrow> KiroTokenUsage" where
  "fitInput u =
     (let buckets = cacheBuckets u; whole = saturatingTokenAdd (ku_UncachedInputTokens u) buckets;
          complete = ku_hasUncachedBreakdown u \<and> (ku_hasCacheReadTokens u \<or> ku_hasCacheCreationTokens u) \<and>
            (ku_UncachedInputTokens u > 0 \<or> buckets > 0);
          u1 = (if complete then (if \<not> ku_hasInputTokens u \<or> whole > ku_InputTokens u then u\<lparr>ku_InputTokens := whole, ku_hasInputTokens := True\<rparr> else u)
                else if \<not> ku_hasInputTokens u then u\<lparr>ku_InputTokens := whole, ku_hasInputTokens := True\<rparr>
                else u\<lparr>ku_InputTokens := max (ku_InputTokens u) (max buckets (ku_UncachedInputTokens u))\<rparr>)
      in if \<not> ku_hasUncachedBreakdown u1 then u1\<lparr>ku_UncachedInputTokens := ku_InputTokens u1 - buckets\<rparr> else u1)"

definition fitCreation :: "usageEnv \<Rightarrow> KiroTokenUsage \<Rightarrow> KiroTokenUsage" where
  "fitCreation env u =
     (let nested = nestedCreation u; whole = ku_CacheCreationInputTokens u; rnd = ue_rnd env
      in if ku_hasCacheCreationTokens u \<and> (ku_hasCacheCreation5mTokens u \<or> ku_hasCacheCreation1hTokens u) \<and> nested \<noteq> whole
         then (if nested \<le> 0 then u\<lparr>ku_CacheCreation5mTokens := 0, ku_CacheCreation1hTokens := 0\<rparr>
               else let scaled = trunc_float (rnd (rnd (rnd (of_int (ku_CacheCreation5mTokens u)) * rnd (of_int whole)) / rnd (of_int nested)));
                        part = min (max scaled 0) whole
                    in u\<lparr>ku_CacheCreation5mTokens := part, ku_CacheCreation1hTokens := whole - part\<rparr>)
         else u)"

definition normalizeKiroTokenUsage :: "usageEnv \<Rightarrow> KiroTokenUsage \<Rightarrow> KiroTokenUsage" where
  "normalizeKiroTokenUsage env u =
     (let u1 = markPresence (nonNegative u) in if \<not> ku_HasCacheBreakdown u1 then u1 else fitCreation env (fitInput u1))"

definition candidateBefore :: "tokenUsageCandidate \<Rightarrow> tokenUsageCandidate \<Rightarrow> bool" where
  "candidateBefore a b =
     (if tc_priority a \<noteq> tc_priority b then tc_priority a < tc_priority b
      else if tc_completeness a \<noteq> tc_completeness b then tc_completeness a < tc_completeness b
      else bytesBefore (tc_path a) (tc_path b))"

definition mergeTokenUsageCandidates :: "usageEnv \<Rightarrow> tokenUsageCandidate list \<Rightarrow> KiroTokenUsage" where
  "mergeTokenUsageCandidates env cs =
     normalizeKiroTokenUsage env (mergedUsage (foldl mergeCandidate newMergeState (sort_stable candidateBefore cs)))"

section \<open>Progress\<close>

definition mergeProgressTokenField :: "int \<times> bool \<Rightarrow> int \<times> bool \<Rightarrow> int \<times> bool" where
  "mergeProgressTokenField = (\<lambda>(current, present) (nextValue, nextPresent).
     (let present1 = present \<or> current > 0; n = max nextValue 0
      in if \<not> nextPresent then (current, present1) else (if \<not> present1 \<or> n > current then n else current, True)))"

text \<open>The input count, and the output and thinking counts.\<close>

definition progressInput :: "int \<times> bool \<Rightarrow> int \<times> bool \<Rightarrow> int \<times> bool" where
  "progressInput = (\<lambda>(current, present) (nextValue, nextPresent).
     (let present1 = present \<or> current > 0
      in if \<not> nextPresent then (current, present1)
         else if nextValue > 0 \<and> (\<not> present1 \<or> current \<le> 0 \<or> nextValue > current) then (nextValue, True)
         else if current \<le> 0 then (nextValue, True)
         else (current, present1)))"

definition progressOutput :: "int \<times> bool \<Rightarrow> int \<times> bool \<Rightarrow> int \<times> bool" where
  "progressOutput = (\<lambda>(current, present) (nextValue, nextPresent).
     (let present1 = present \<or> current > 0
      in if \<not> nextPresent then (current, present1)
         else (if nextValue > current \<or> current \<le> 0 then nextValue else current, True)))"

definition progressUsage :: "KiroTokenUsage \<Rightarrow> KiroTokenUsage \<Rightarrow> KiroTokenUsage" where
  "progressUsage cur new =
     (let input = progressInput (ku_InputTokens cur, ku_hasInputTokens cur) (ku_InputTokens new, ku_hasInputTokens new);
          out = progressOutput (ku_OutputTokens cur, ku_hasOutputTokens cur) (ku_OutputTokens new, ku_hasOutputTokens new);
          thinking = progressOutput (ku_ThinkingTokens cur, ku_hasThinkingTokens cur) (ku_ThinkingTokens new, ku_hasThinkingTokens new);
          uncached = mergeProgressTokenField (ku_UncachedInputTokens cur, ku_hasUncachedBreakdown cur)
            (ku_UncachedInputTokens new, ku_hasUncachedBreakdown new);
          cacheRead = mergeProgressTokenField (ku_CacheReadInputTokens cur, ku_hasCacheReadTokens cur)
            (ku_CacheReadInputTokens new, ku_hasCacheReadTokens new);
          creation = mergeProgressTokenField (ku_CacheCreationInputTokens cur, ku_hasCacheCreationTokens cur)
            (ku_CacheCreationInputTokens new, ku_hasCacheCreationTokens new);
          c5m = mergeProgressTokenField (ku_CacheCreation5mTokens cur, ku_hasCacheCreation5mTokens cur)
            (ku_CacheCreation5mTokens new, ku_hasCacheCreation5mTokens new);
          c1h = mergeProgressTokenField (ku_CacheCreation1hTokens cur, ku_hasCacheCreation1hTokens cur)
            (ku_CacheCreation1hTokens new, ku_hasCacheCreation1hTokens new)
      in \<lparr>ku_InputTokens = fst input, ku_OutputTokens = fst out, ku_UncachedInputTokens = fst uncached, ku_CacheReadInputTokens = fst cacheRead,
          ku_CacheCreationInputTokens = fst creation, ku_CacheCreation5mTokens = fst c5m, ku_CacheCreation1hTokens = fst c1h,
          ku_ThinkingTokens = fst thinking,
          ku_HasCacheBreakdown = (ku_HasCacheBreakdown cur \<or> ku_HasCacheBreakdown new),
          ku_HasThinkingBreakdown = (ku_HasThinkingBreakdown cur \<or> ku_HasThinkingBreakdown new),
          ku_hasInputTokens = snd input, ku_hasOutputTokens = snd out, ku_hasThinkingTokens = snd thinking,
          ku_hasUncachedBreakdown = snd uncached, ku_hasCacheReadTokens = snd cacheRead, ku_hasCacheCreationTokens = snd creation,
          ku_hasCacheCreation5mTokens = snd c5m, ku_hasCacheCreation1hTokens = snd c1h\<rparr>)"

definition mergeTokenUsageProgress :: "usageEnv \<Rightarrow> KiroTokenUsage \<Rightarrow> KiroTokenUsage \<Rightarrow> KiroTokenUsage" where
  "mergeTokenUsageProgress env cur new = normalizeKiroTokenUsage env (progressUsage cur new)"

definition updateTokenUsageFromEvent :: "usageEnv \<Rightarrow> event \<Rightarrow> KiroTokenUsage \<Rightarrow> KiroTokenUsage" where
  "updateTokenUsageFromEvent env event current =
     (let candidates = optionList (parseTokenUsageCandidate env event 0 ''$'') @ collectUsageCandidates env (JObject event) ''''
      in mergeTokenUsageProgress env current (mergeTokenUsageCandidates env candidates))"

definition resolveInputTokenCount :: "usageEnv \<Rightarrow> int \<Rightarrow> KiroTokenUsage \<Rightarrow> int \<Rightarrow> int \<Rightarrow> int" where
  "resolveInputTokenCount env callbackInputTokens reported contextInputTokens estimatedInputTokens =
     (let u = normalizeKiroTokenUsage env reported
      in if ku_InputTokens u > 0 then ku_InputTokens u
         else if callbackInputTokens > 0 then callbackInputTokens
         else if contextInputTokens > 0 then contextInputTokens
         else max estimatedInputTokens 0)"

end
