(* ===== verification/Stream_Parse.thy ===== *)
theory Stream_Parse
  imports Stream_Events Stream_Usage
begin

text \<open>
  The decoding of a whole answer (\<open>parseEventStreamWithOptions\<close> of \<open>proxy/kiro.go\<close>): frames are read until the stream
  ends, their events go to the callbacks, and at the end it is decided whether the answer is complete. The limiter of
  \<open>applyClientOutputTokenLimit\<close> clips the text for the client.

  The callbacks are the trace of their invocations, for a callback whose functions are all set; \<open>pa_limiter\<close> is the limiter it
  wraps, when there is one. \<open>parseEnv\<close> has the parameters: decoding of JSON with the text of its error, the identifiers that are drawn one after
  the other, and rounding. A cause that is not an error of the reader is kept as its text.
\<close>

section \<open>Callbacks and the output limit\<close>

datatype streamCall =
    OnProgress
  | OnUsage KiroTokenUsage
  | OnText string bool
  | OnTool toolEvent
  | OnStopReason string
  | OnContextUsage rat
  | OnTruncated string
  | OnCredits rat
  | OnComplete int int

record clientOutputTokenLimiter =
  ol_remaining :: int
  ol_reached :: bool

definition takeText :: "(rat \<Rightarrow> rat) \<Rightarrow> string \<Rightarrow> clientOutputTokenLimiter \<Rightarrow> string \<times> clientOutputTokenLimiter" where
  "takeText rnd text l =
     (if ol_reached l \<or> text = '''' then ('''', l)
      else let tokens = estimateWireTokens rnd text
           in if tokens \<le> ol_remaining l
              then (text, \<lparr>ol_remaining = ol_remaining l - tokens, ol_reached = (ol_remaining l - tokens \<le> 0)\<rparr>)
              else (fitTextToTokenBudget rnd text (ol_remaining l), \<lparr>ol_remaining = 0, ol_reached = True\<rparr>))"

text \<open>The limiter of a request: only for requests that ask for it, with the limit of the client.\<close>

definition applyClientOutputTokenLimit :: "bool \<Rightarrow> int \<Rightarrow> clientOutputTokenLimiter option" where
  "applyClientOutputTokenLimit enforceClientOutputLimit clientOutputTokenLimit =
     (if \<not> enforceClientOutputLimit \<or> clientOutputTokenLimit \<le> 0 then None
      else Some \<lparr>ol_remaining = clientOutputTokenLimit, ol_reached = False\<rparr>)"

section \<open>State\<close>

record parseEnv =
  pe_tools :: toolStreamEnv
  pe_rnd :: "rat \<Rightarrow> rat"
  pe_unmarshal :: "string \<Rightarrow> jsonValue option"
  pe_jsonError :: "string \<Rightarrow> string"
  pe_fresh :: "nat \<Rightarrow> string"

definition numbersOf :: "parseEnv \<Rightarrow> streamNumbers" where
  "numbersOf env = tse_numbers (pe_tools env)"

definition usageEnvOf :: "parseEnv \<Rightarrow> usageEnv" where
  "usageEnvOf env = \<lparr>ue_numbers = numbersOf env, ue_rnd = pe_rnd env\<rparr>"

datatype parseError = StreamFailure EventStreamError | UpstreamFailure UpstreamError

record parseState =
  pa_tokenUsage :: KiroTokenUsage
  pa_totalCredits :: rat
  pa_pending :: pendingToolUseSet
  pa_sawOutput :: bool
  pa_sawExplicitCompletion :: bool
  pa_lastFrameWasTelemetry :: bool
  pa_recoveredToolUse :: bool
  pa_sawToolUse :: bool
  pa_terminal :: recoveryState
  pa_diagnostics :: eventStreamDiagnostics
  pa_limiter :: "clientOutputTokenLimiter option"
  pa_drawn :: nat
  pa_calls :: "streamCall list"

definition newParseState :: "clientOutputTokenLimiter option \<Rightarrow> parseState" where
  "newParseState limiter =
     \<lparr>pa_tokenUsage = zeroUsage, pa_totalCredits = 0, pa_pending = newPendingToolUses, pa_sawOutput = False,
      pa_sawExplicitCompletion = False, pa_lastFrameWasTelemetry = False, pa_recoveredToolUse = False, pa_sawToolUse = False,
      pa_terminal = (toolUseRecoveryNone, None), pa_diagnostics = newDiagnostics, pa_limiter = limiter, pa_drawn = 0, pa_calls = []\<rparr>"

definition call :: "streamCall \<Rightarrow> parseState \<Rightarrow> parseState" where
  "call c s = s\<lparr>pa_calls := pa_calls s @ [c]\<rparr>"

definition isDone :: "toolEvent \<Rightarrow> bool" where
  "isDone e = (case e of ToolUseDone _ \<Rightarrow> True | _ \<Rightarrow> False)"

text \<open>The callbacks of the tool assembly; the tracked callback notes that a call was delivered.\<close>

definition callTools :: "toolEvent list \<Rightarrow> parseState \<Rightarrow> parseState" where
  "callTools tr s = s\<lparr>pa_calls := pa_calls s @ map OnTool tr, pa_sawToolUse := (pa_sawToolUse s \<or> list_ex isDone tr)\<rparr>"

definition callText :: "parseEnv \<Rightarrow> string \<Rightarrow> bool \<Rightarrow> parseState \<Rightarrow> parseState" where
  "callText env text isThinking s =
     (if text = '''' then s
      else case pa_limiter s of
             None \<Rightarrow> call (OnText text isThinking) (s\<lparr>pa_sawOutput := True\<rparr>)
           | Some l \<Rightarrow>
               (let (clipped, l') = takeText (pe_rnd env) text l; s1 = s\<lparr>pa_sawOutput := True, pa_limiter := Some l'\<rparr>
                in if clipped = '''' then s1 else call (OnText clipped isThinking) s1))"

definition limitReached :: "parseState \<Rightarrow> bool" where
  "limitReached s = (case pa_limiter s of None \<Rightarrow> False | Some l \<Rightarrow> ol_reached l)"

definition callStop :: "string \<Rightarrow> parseState \<Rightarrow> parseState" where
  "callStop reason s = call (OnStopReason (if limitReached s then ''max_tokens'' else reason)) s"

definition mergeTerminal :: "recoveryState \<Rightarrow> parseState \<Rightarrow> parseState" where
  "mergeTerminal t s = s\<lparr>pa_terminal := mergeToolUseRecoveryState (pa_terminal s) t\<rparr>"

definition countInvalid :: "parseState \<Rightarrow> parseState" where
  "countInvalid s = s\<lparr>pa_diagnostics := recordInvalid (pa_diagnostics s)\<rparr>"

definition updateUsage :: "parseEnv \<Rightarrow> event \<Rightarrow> parseState \<Rightarrow> parseState" where
  "updateUsage env event s =
     (let u = updateTokenUsageFromEvent (usageEnvOf env) event (pa_tokenUsage s); s1 = s\<lparr>pa_tokenUsage := u\<rparr>
      in if u \<noteq> pa_tokenUsage s then call (OnUsage u) s1 else s1)"

section \<open>One frame\<close>

fun streamKindText :: "EventStreamErrorKind \<Rightarrow> string" where
  "streamKindText EventStreamTruncated = ''truncated''"
| "streamKindText EventStreamInvalidLength = ''invalid_length''"
| "streamKindText EventStreamFrameTooLarge = ''frame_too_large''"
| "streamKindText EventStreamPreludeCRCMismatch = ''prelude_crc_mismatch''"
| "streamKindText EventStreamMessageCRCMismatch = ''message_crc_mismatch''"
| "streamKindText EventStreamInvalidHeaders = ''invalid_headers''"
| "streamKindText EventStreamInvalidPayload = ''invalid_payload''"
| "streamKindText EventStreamIncompleteToolUse = ''incomplete_tool_use''"
| "streamKindText EventStreamIncompleteResponse = ''incomplete_response''"

definition streamErrorText :: "EventStreamError \<Rightarrow> string" where
  "streamErrorText e = ''AWS EventStream '' @ streamKindText (es_Kind e) @ (if es_Message e \<noteq> '''' then '': '' @ es_Message e else '''')"

definition frameHeader :: "string \<Rightarrow> eventStreamFrame \<Rightarrow> string" where
  "frameHeader name f = gm_zero '''' (fr_headers f) name"

datatype frameOutcome = NextFrame | LastFrame | Failed parseError

fun handleToolPayloads :: "parseEnv \<Rightarrow> event list \<Rightarrow> parseState \<Rightarrow> EventStreamError option \<times> parseState" where
  "handleToolPayloads env [] s = (None, s)"
| "handleToolPayloads env (p # ps) s =
     (case handleToolUseEvent (pe_tools env) (pe_fresh env (pa_drawn s)) p (pa_pending s) of
        (e, q, tr) \<Rightarrow>
          (let s1 = callTools tr (s\<lparr>pa_sawOutput := True, pa_pending := q, pa_drawn := pa_drawn s + 1\<rparr>)
           in case e of Some err \<Rightarrow> (Some err, s1) | None \<Rightarrow> handleToolPayloads env ps s1))"

definition frameEventType :: "eventStreamFrame \<Rightarrow> string" where
  "frameEventType f =
     (let t = frameHeader '':event-type'' f; m = to_lower (trim_space (frameHeader '':message-type'' f))
      in if t \<noteq> '''' then t
         else if m = ''exception'' then frameHeader '':exception-type'' f
         else if m = ''error'' then frameHeader '':error-code'' f
         else '''')"

definition frameIsError :: "eventStreamFrame \<Rightarrow> bool" where
  "frameIsError f =
     (let m = to_lower (trim_space (frameHeader '':message-type'' f)); t = to_lower (frameEventType f)
      in m = ''error'' \<or> m = ''exception'' \<or> contains t ''exception'' \<or> contains t ''error'')"

definition upstreamFailure :: "parseEnv \<Rightarrow> string \<Rightarrow> string \<Rightarrow> UpstreamError" where
  "upstreamFailure env eventType payload =
     (let (reason, message) = upstreamErrorDetails (pe_unmarshal env) payload;
          e = classifyUpstreamHTTPError (pe_unmarshal env) 502 eventType payload
      in e\<lparr>ue_Reason := (if reason \<noteq> '''' then reason else ue_Reason e), ue_Message := (if message \<noteq> '''' then message else ue_Message e)\<rparr>)"

definition decodePayload :: "parseEnv \<Rightarrow> string \<Rightarrow> event option" where
  "decodePayload env payload =
     (case pe_unmarshal env payload of Some (JObject m) \<Rightarrow> Some m | Some JNull \<Rightarrow> Some [] | _ \<Rightarrow> None)"

text \<open>Credits and the share of the context window, after the other parts of an event.\<close>

definition addTelemetry :: "parseEnv \<Rightarrow> streamEventKind \<Rightarrow> event \<Rightarrow> parseState \<Rightarrow> parseState" where
  "addTelemetry env kind event s =
     (if kind = streamEventMetering
      then let metering = (case streamWrapperMap event streamTelemetryWrapperNames of Some w \<Rightarrow> w | None \<Rightarrow> event)
           in case firstSome (\<lambda>c. streamNumberField (numbersOf env) c [''usage'', ''creditUsage'', ''credit_usage''])
                     (streamCandidateMaps metering streamTelemetryWrapperNames) of
                None \<Rightarrow> s | Some u \<Rightarrow> s\<lparr>pa_totalCredits := pe_rnd env (pa_totalCredits s + u)\<rparr>
      else if kind = streamEventContextUsage
      then let contextEvent = (case streamWrapperMap event [''contextUsageEvent'', ''context_usage_event'', ''contextUsage'', ''context_usage''] of
                 Some w \<Rightarrow> w | None \<Rightarrow> event)
           in case streamNumberField (numbersOf env) contextEvent [''contextUsagePercentage'', ''context_usage_percentage'', ''percentage''] of
                None \<Rightarrow> s | Some pct \<Rightarrow> call (OnContextUsage pct) s
      else s)"

definition noteCompletion :: "parseEnv \<Rightarrow> string \<Rightarrow> decodedStreamEvent \<Rightarrow> parseState \<Rightarrow> parseState" where
  "noteCompletion env eventType d s =
     (let s1 = (if de_stopReason d = '''' then s
                else callStop (de_stopReason d)
                  (mergeTerminal (toolUseRecoveryBoundaryForStopReason (de_stopReason d),
                       Some (OtherError (eventType @ '' stop reason '' @ tse_quote (pe_tools env) (de_stopReason d))))
                    (s\<lparr>pa_sawExplicitCompletion := True\<rparr>)))
      in s1\<lparr>pa_sawExplicitCompletion := (pa_sawExplicitCompletion s1 \<or> de_terminal d), pa_lastFrameWasTelemetry := de_telemetry d\<rparr>)"

definition dispatchEvent :: "parseEnv \<Rightarrow> string \<Rightarrow> event \<Rightarrow> decodedStreamEvent \<Rightarrow> parseState \<Rightarrow> frameOutcome \<times> parseState" where
  "dispatchEvent env eventType event d s =
     (let s1 = callText env (de_reasoning d) True (callText env (de_text d) False (updateUsage env event s))
      in if limitReached s1 then (LastFrame, callStop ''max_tokens'' (s1\<lparr>pa_sawExplicitCompletion := True\<rparr>))
         else case handleToolPayloads env (de_toolPayloads d) s1 of
                (Some e, s2) \<Rightarrow> (Failed (StreamFailure e), s2)
              | (None, s2) \<Rightarrow> (NextFrame, addTelemetry env (de_kind d) event (noteCompletion env eventType d s2)))"

definition handleFrame :: "parseEnv \<Rightarrow> eventStreamFrame \<Rightarrow> parseState \<Rightarrow> frameOutcome \<times> parseState" where
  "handleFrame env f s0 =
     (let eventType = frameEventType f; payload = bytesToString (fr_payload f);
          s = (call OnProgress s0)\<lparr>pa_lastFrameWasTelemetry := False\<rparr>
      in if equal_fold (trim_space eventType) ''ContentLengthExceededException''
         then (NextFrame,
               callStop ''max_tokens''
                 (mergeTerminal (toolUseRecoveryOutputLimit, Some (OtherError (eventType @ '' completion signal'')))
                   (s\<lparr>pa_sawExplicitCompletion := True,
                      pa_diagnostics := recordDiagnostics (int (length payload))
                        \<lparr>de_kind = streamEventCompletion, de_text = '''', de_reasoning = '''', de_toolPayloads = [], de_stopReason = '''',
                         de_terminal = True, de_telemetry = False\<rparr> (pa_diagnostics s)\<rparr>)))
         else if frameIsError f then (Failed (UpstreamFailure (upstreamFailure env eventType payload)), countInvalid s)
         else if payload = '''' then (Failed (StreamFailure (invalidPayload (eventType @ '' payload is empty''))), countInvalid s)
         else case decodePayload env payload of
                None \<Rightarrow>
                  (Failed (StreamFailure (streamError EventStreamInvalidPayload
                     ((if eventType = '''' then ''event'' else eventType) @ '' payload is not valid JSON'') (Some (OtherError (pe_jsonError env payload))))),
                   countInvalid s)
              | Some event \<Rightarrow>
                  let d = decodeStreamEventWithPending (numbersOf env) eventType event (Some (pa_pending s)) (pending_latest (pa_pending s) \<noteq> None);
                      s1 = s\<lparr>pa_diagnostics := recordDiagnostics (int (length payload)) d (pa_diagnostics s)\<rparr>
                  in if eventType = '''' \<and> de_kind d = streamEventUnknown
                     then (Failed (StreamFailure (streamError EventStreamInvalidHeaders ''missing :event-type header'' None)), countInvalid s1)
                     else dispatchEvent env eventType event d s1)"

section \<open>The whole stream\<close>

definition recoverCalls :: "parseEnv \<Rightarrow> eventStreamParseOptions \<Rightarrow> toolUseRecoveryBoundary \<Rightarrow> parseState \<Rightarrow> nat \<times> parseState" where
  "recoverCalls env eo boundary s =
     (case recoverCompletePrefix (pe_tools env) (pe_fresh env (pa_drawn s)) eo boundary (pa_pending s) of
        (n, q, tr) \<Rightarrow> (n, callTools tr (s\<lparr>pa_pending := q\<rparr>)))"

definition handleReadError :: "parseEnv \<Rightarrow> eventStreamParseOptions \<Rightarrow> EventStreamError \<Rightarrow> parseState \<Rightarrow> frameOutcome \<times> parseState" where
  "handleReadError env eo err s0 =
     (let s = countInvalid s0
      in if es_Kind err \<noteq> EventStreamTruncated then (Failed (StreamFailure err), s)
         else let (boundary, cause) = mergeToolUseRecoveryState (pa_terminal s) (toolUseRecoveryTruncatedFrame, Some (OtherError (streamErrorText err)));
                  (recovered, s1) = recoverCalls env eo boundary s
              in if recovered > 0 \<and> pending_empty (pa_pending s1) then (LastFrame, s1\<lparr>pa_recoveredToolUse := True\<rparr>)
                 else case pending_first (pa_pending s1) of
                        Some st \<Rightarrow> (Failed (StreamFailure (incompleteToolUseStreamError (pe_tools env) st cause)), s1)
                      | None \<Rightarrow> (Failed (StreamFailure err), s1))"

lemma readFull_length: "readFull n r = (Inr bs, r') \<Longrightarrow> length (fst r') + n = length (fst r)"
  by (auto simp: readFull_def split: prod.splits if_splits)

lemma readEventStreamFrame_shorter:
  assumes "readEventStreamFrame r = (Inr f, r')"
  shows "length (fst r') < length (fst r)"
proof -
  obtain prelude r1 where p: "readFull eventStreamPreludeSize r = (Inr prelude, r1)"
    using assms by (auto simp: readEventStreamFrame_def split: prod.splits sum.splits if_splits)
  obtain t h where "readFrameBody prelude t h r1 = (Inr f, r')"
    using assms p by (auto simp: readEventStreamFrame_def Let_def split: if_splits)
  then obtain bs where "readFull (t - eventStreamPreludeSize) r1 = (Inr bs, r')"
    by (auto simp: readFrameBody_def Let_def split: prod.splits sum.splits if_splits)
  then show ?thesis using readFull_length [OF p] readFull_length by (fastforce simp: eventStreamPreludeSize_def)
qed

function readFrames :: "parseEnv \<Rightarrow> eventStreamParseOptions \<Rightarrow> reader \<Rightarrow> parseState \<Rightarrow> parseError option \<times> parseState" where
  "readFrames env eo r s =
     (case readEventStreamFrame r of
        (Inl StreamEnd, r') \<Rightarrow> (None, s)
      | (Inl (FrameError err), r') \<Rightarrow> (case handleReadError env eo err s of (Failed e, s') \<Rightarrow> (Some e, s') | (_, s') \<Rightarrow> (None, s'))
      | (Inr f, r') \<Rightarrow>
          (case handleFrame env f s of
             (Failed e, s') \<Rightarrow> (Some e, s')
           | (LastFrame, s') \<Rightarrow> (None, s')
           | (NextFrame, s') \<Rightarrow> readFrames env eo r' s'))"
  by auto
termination
  by (relation "measure (\<lambda>(_, _, r, _). length (fst r))") (auto dest!: readEventStreamFrame_shorter [OF sym])

declare readFrames.simps [simp del]

definition settleCalls :: "parseEnv \<Rightarrow> eventStreamParseOptions \<Rightarrow> parseState \<Rightarrow> parseError option \<times> parseState" where
  "settleCalls env eo s =
     (case pending_first (pa_pending s) of
        None \<Rightarrow> (None, s)
      | Some _ \<Rightarrow>
          (let (boundary, cause) = (if fst (pa_terminal s) = toolUseRecoveryNone then (toolUseRecoveryCleanEOF, Some EOF) else pa_terminal s);
               (recovered, s1) = recoverCalls env eo boundary s;
               s2 = (if recovered > 0 then s1\<lparr>pa_recoveredToolUse := True\<rparr> else s1)
           in case pending_first (pa_pending s2) of
                Some st \<Rightarrow> (Some (StreamFailure (incompleteToolUseStreamError (pe_tools env) st cause)), s2)
              | None \<Rightarrow> (None, s2)))"

definition truncatedAnswer :: "string \<Rightarrow> parseState \<Rightarrow> parseError option \<times> parseState" where
  "truncatedAnswer reason s = (Some (StreamFailure (streamError EventStreamIncompleteResponse reason None)), call (OnTruncated reason) s)"

definition unfinished :: "parseState \<Rightarrow> bool" where
  "unfinished s \<longleftrightarrow> pa_sawOutput s \<and> \<not> pa_sawExplicitCompletion s \<and> \<not> (pa_lastFrameWasTelemetry s \<and> \<not> pa_sawExplicitCompletion s) \<and>
     \<not> pa_recoveredToolUse s \<and> \<not> pa_sawToolUse s"

definition inferCompletion :: "eventStreamParseOptions \<Rightarrow> parseState \<Rightarrow> parseState" where
  "inferCompletion eo s =
     (if unfinished s \<and> (eo_allowInferredTextEOF eo \<or> eo_allowTransparentTextEOF eo)
      then callStop ''end_turn'' (s\<lparr>pa_sawExplicitCompletion := True\<rparr>) else s)"

definition reportUsage :: "parseState \<Rightarrow> parseState" where
  "reportUsage s =
     (let u = pa_tokenUsage s
      in call (OnComplete (ku_InputTokens u) (ku_OutputTokens u))
           (call (OnUsage u) (if pa_totalCredits s > 0 then call (OnCredits (pa_totalCredits s)) s else s)))"

definition finishStream :: "eventStreamParseOptions \<Rightarrow> parseState \<Rightarrow> parseError option \<times> parseState" where
  "finishStream eo s =
     (if \<not> pa_sawOutput s \<and> \<not> pa_sawToolUse s \<and> \<not> pa_recoveredToolUse s \<and> \<not> pa_sawExplicitCompletion s
      then truncatedAnswer ''stream ended without actionable output'' s
      else let s1 = inferCompletion eo s
           in if unfinished s1 then truncatedAnswer ''stream ended without a stop reason or completion event'' s1
              else (None, reportUsage s1))"

definition parseEventStreamWithOptions :: "parseEnv \<Rightarrow> eventStreamParseOptions \<Rightarrow> clientOutputTokenLimiter option \<Rightarrow> reader \<Rightarrow> parseError option \<times> parseState" where
  "parseEventStreamWithOptions env eo limiter r =
     (case readFrames env eo r (newParseState limiter) of
        (Some e, s) \<Rightarrow> (Some e, s)
      | (None, s) \<Rightarrow>
          (case settleCalls env eo s of
             (Some e, s1) \<Rightarrow> (Some e, s1)
           | (None, s1) \<Rightarrow> finishStream eo s1))"

end
