(* ===== verification/Stream_Usage_Props.thy ===== *)
theory Stream_Usage_Props
  imports Stream_Usage
begin

text \<open>
  The usage counters of a stream never regress and stay consistent, and the order in which the program iterates over the maps of
  an event does not matter.
\<close>

section \<open>Consistent counters\<close>

definition nonNegativeUsage :: "KiroTokenUsage \<Rightarrow> bool" where
  "nonNegativeUsage u \<longleftrightarrow> 0 \<le> ku_InputTokens u \<and> 0 \<le> ku_OutputTokens u \<and> 0 \<le> ku_UncachedInputTokens u \<and> 0 \<le> ku_CacheReadInputTokens u \<and>
     0 \<le> ku_CacheCreationInputTokens u \<and> 0 \<le> ku_CacheCreation5mTokens u \<and> 0 \<le> ku_CacheCreation1hTokens u \<and> 0 \<le> ku_ThinkingTokens u"

definition creationSplit :: "KiroTokenUsage \<Rightarrow> bool" where
  "creationSplit u \<longleftrightarrow> ku_CacheCreation5mTokens u + ku_CacheCreation1hTokens u = ku_CacheCreationInputTokens u \<or>
     nestedCreation u = ku_CacheCreationInputTokens u \<or> (ku_CacheCreation5mTokens u = 0 \<and> ku_CacheCreation1hTokens u = 0)"

definition usageConsistent :: "KiroTokenUsage \<Rightarrow> bool" where
  "usageConsistent u \<longleftrightarrow> nonNegativeUsage u \<and> (ku_HasCacheBreakdown u \<longrightarrow> cacheBuckets u \<le> ku_InputTokens u) \<and> creationSplit u"

definition usageLe :: "KiroTokenUsage \<Rightarrow> KiroTokenUsage \<Rightarrow> bool" where
  "usageLe u v \<longleftrightarrow> ku_InputTokens u \<le> ku_InputTokens v \<and> ku_OutputTokens u \<le> ku_OutputTokens v \<and>
     ku_UncachedInputTokens u \<le> ku_UncachedInputTokens v \<and> ku_CacheReadInputTokens u \<le> ku_CacheReadInputTokens v \<and>
     ku_CacheCreationInputTokens u \<le> ku_CacheCreationInputTokens v \<and> ku_ThinkingTokens u \<le> ku_ThinkingTokens v"

lemma saturatingTokenAdd_nonneg: "0 \<le> saturatingTokenAdd a b"
  by (auto simp: saturatingTokenAdd_def maxInt64_def Let_def)

lemma saturatingTokenAdd_bound: "saturatingTokenAdd a b \<le> maxInt64"
  by (auto simp: saturatingTokenAdd_def Let_def)

lemma saturatingTokenAdd_mono: "b \<le> maxInt64 \<Longrightarrow> b \<le> saturatingTokenAdd a b"
  by (auto simp: saturatingTokenAdd_def Let_def)

lemma nestedCreation_zero: "nonNegativeUsage u \<Longrightarrow> nestedCreation u \<le> 0 \<Longrightarrow> ku_CacheCreation5mTokens u = 0 \<and> ku_CacheCreation1hTokens u = 0"
  by (auto simp: nestedCreation_def saturatingTokenAdd_def nonNegativeUsage_def maxInt64_def Let_def split: if_splits)

lemma nonNegative_usage: "nonNegativeUsage (nonNegative u)"
  by (simp add: nonNegativeUsage_def nonNegative_def)

lemma markPresence_usage: "nonNegativeUsage u \<Longrightarrow> nonNegativeUsage (markPresence u)"
  by (simp add: nonNegativeUsage_def markPresence_def nestedCreation_def saturatingTokenAdd_nonneg Let_def)

text \<open>What the marks say of the counts.\<close>

definition marked :: "KiroTokenUsage \<Rightarrow> bool" where
  "marked u \<longleftrightarrow> (ku_UncachedInputTokens u > 0 \<longrightarrow> ku_hasUncachedBreakdown u) \<and> (ku_InputTokens u > 0 \<longrightarrow> ku_hasInputTokens u)"

definition creationMarked :: "KiroTokenUsage \<Rightarrow> bool" where
  "creationMarked u \<longleftrightarrow>
     (ku_CacheCreation5mTokens u > 0 \<or> ku_CacheCreation1hTokens u > 0 \<longrightarrow>
        (ku_hasCacheCreation5mTokens u \<or> ku_hasCacheCreation1hTokens u) \<and> ku_hasCacheCreationTokens u \<and> ku_HasCacheBreakdown u)"

lemma markPresence_marked: "nonNegativeUsage u \<Longrightarrow> marked (markPresence u) \<and> creationMarked (markPresence u)"
  by (auto simp: marked_def creationMarked_def markPresence_def Let_def nonNegativeUsage_def)

lemma fitInput_fields [simp]:
  "ku_CacheReadInputTokens (fitInput u) = ku_CacheReadInputTokens u" "ku_CacheCreationInputTokens (fitInput u) = ku_CacheCreationInputTokens u"
  "ku_CacheCreation5mTokens (fitInput u) = ku_CacheCreation5mTokens u" "ku_CacheCreation1hTokens (fitInput u) = ku_CacheCreation1hTokens u"
  "ku_OutputTokens (fitInput u) = ku_OutputTokens u" "ku_ThinkingTokens (fitInput u) = ku_ThinkingTokens u"
  "ku_hasCacheCreation5mTokens (fitInput u) = ku_hasCacheCreation5mTokens u" "ku_hasCacheCreation1hTokens (fitInput u) = ku_hasCacheCreation1hTokens u"
  "ku_hasCacheCreationTokens (fitInput u) = ku_hasCacheCreationTokens u" "ku_HasCacheBreakdown (fitInput u) = ku_HasCacheBreakdown u"
  by (simp_all add: fitInput_def Let_def)

lemma fitInput_correct:
  assumes "nonNegativeUsage u" "marked u"
  shows "cacheBuckets u \<le> ku_InputTokens (fitInput u)" "ku_InputTokens u \<le> ku_InputTokens (fitInput u)"
    and "ku_UncachedInputTokens u \<le> ku_UncachedInputTokens (fitInput u)"
proof -
  have b: "0 \<le> cacheBuckets u" "cacheBuckets u \<le> maxInt64"
    by (simp_all add: cacheBuckets_def saturatingTokenAdd_nonneg saturatingTokenAdd_bound)
  note m = saturatingTokenAdd_mono [OF b(2), of "ku_UncachedInputTokens u"]
  show a: "cacheBuckets u \<le> ku_InputTokens (fitInput u)" using m b by (auto simp: fitInput_def Let_def)
  show "ku_InputTokens u \<le> ku_InputTokens (fitInput u)"
  proof (cases "ku_hasInputTokens u")
    case True
    then show ?thesis by (simp add: fitInput_def Let_def)
  next
    case False
    then have "ku_InputTokens u \<le> 0" using assms by (auto simp: marked_def)
    then show ?thesis using a b(1) by simp
  qed
  show "ku_UncachedInputTokens u \<le> ku_UncachedInputTokens (fitInput u)"
    using a assms b by (auto simp: fitInput_def Let_def nonNegativeUsage_def marked_def)
qed

lemma fitCreation_fields [simp]:
  "ku_CacheReadInputTokens (fitCreation env u) = ku_CacheReadInputTokens u"
  "ku_CacheCreationInputTokens (fitCreation env u) = ku_CacheCreationInputTokens u"
  "ku_InputTokens (fitCreation env u) = ku_InputTokens u" "ku_UncachedInputTokens (fitCreation env u) = ku_UncachedInputTokens u"
  "ku_OutputTokens (fitCreation env u) = ku_OutputTokens u" "ku_ThinkingTokens (fitCreation env u) = ku_ThinkingTokens u"
  "ku_HasCacheBreakdown (fitCreation env u) = ku_HasCacheBreakdown u"
  by (simp_all add: fitCreation_def Let_def)

lemma fitCreation_correct:
  assumes "nonNegativeUsage u" "creationMarked u"
  shows "nonNegativeUsage (fitCreation env u)" "creationSplit (fitCreation env u)"
proof -
  show "nonNegativeUsage (fitCreation env u)" using assms(1) by (auto simp: fitCreation_def nonNegativeUsage_def Let_def)
  show "creationSplit (fitCreation env u)"
  proof (cases "ku_hasCacheCreationTokens u \<and> (ku_hasCacheCreation5mTokens u \<or> ku_hasCacheCreation1hTokens u)")
    case True
    then show ?thesis using nestedCreation_zero [OF assms(1)] by (auto simp: fitCreation_def creationSplit_def Let_def)
  next
    case False
    then have "fitCreation env u = u" "ku_CacheCreation5mTokens u = 0 \<and> ku_CacheCreation1hTokens u = 0"
      using assms by (auto simp: fitCreation_def Let_def creationMarked_def nonNegativeUsage_def)
    then show ?thesis by (simp add: creationSplit_def)
  qed
qed

lemma normalizeKiroTokenUsage_consistent: "usageConsistent (normalizeKiroTokenUsage env u)"
proof -
  define v where "v = markPresence (nonNegative u)"
  have v: "nonNegativeUsage v" "marked v" "creationMarked v" unfolding v_def using nonNegative_usage markPresence_usage markPresence_marked by auto
  show ?thesis
  proof (cases "ku_HasCacheBreakdown v")
    case False
    then have "ku_CacheCreation5mTokens v = 0 \<and> ku_CacheCreation1hTokens v = 0" using v by (auto simp: creationMarked_def nonNegativeUsage_def)
    then show ?thesis using False v(1) by (simp add: normalizeKiroTokenUsage_def v_def [symmetric] usageConsistent_def creationSplit_def)
  next
    case True
    note f = fitInput_correct [OF v(1,2)]
    have "nonNegativeUsage (fitInput v)" using f v(1) by (auto simp: nonNegativeUsage_def)
    moreover have "creationMarked (fitInput v)" using v(3) by (simp add: creationMarked_def)
    ultimately show ?thesis
      using True f(1) fitCreation_correct [of "fitInput v"]
      by (simp add: normalizeKiroTokenUsage_def v_def [symmetric] usageConsistent_def cacheBuckets_def)
  qed
qed

section \<open>Progress\<close>

lemma progress_mono:
  "0 \<le> x \<Longrightarrow> x \<le> max (fst (mergeProgressTokenField (x, p) b)) 0"
  "0 \<le> x \<Longrightarrow> x \<le> max (fst (progressInput (x, p) b)) 0"
  "0 \<le> x \<Longrightarrow> x \<le> max (fst (progressOutput (x, p) b)) 0"
  by (auto simp: mergeProgressTokenField_def progressInput_def progressOutput_def Let_def split: prod.splits)

lemma usageLe_trans: "usageLe u v \<Longrightarrow> usageLe v w \<Longrightarrow> usageLe u w"
  unfolding usageLe_def by (meson order_trans)

lemma markPresence_le: "nonNegativeUsage u \<Longrightarrow> usageLe u (markPresence u)"
  using saturatingTokenAdd_nonneg by (auto simp: usageLe_def markPresence_def Let_def nestedCreation_def nonNegativeUsage_def)

lemma normalizeKiroTokenUsage_le: "usageLe (nonNegative u) (normalizeKiroTokenUsage env u)"
proof -
  define v where "v = markPresence (nonNegative u)"
  have v: "nonNegativeUsage v" "marked v" unfolding v_def using nonNegative_usage markPresence_usage markPresence_marked by auto
  have "usageLe v (normalizeKiroTokenUsage env u)"
    using fitInput_correct [OF v] by (auto simp: normalizeKiroTokenUsage_def v_def [symmetric] usageLe_def)
  then show ?thesis using markPresence_le [OF nonNegative_usage, of u] usageLe_trans unfolding v_def by blast
qed

lemma mergeTokenUsageProgress_le:
  assumes "nonNegativeUsage cur"
  shows "usageLe cur (mergeTokenUsageProgress env cur new)"
proof -
  have "usageLe cur (nonNegative (progressUsage cur new))"
    using assms unfolding usageLe_def nonNegative_def nonNegativeUsage_def progressUsage_def Let_def
    by (simp add: progress_mono)
  then show ?thesis using normalizeKiroTokenUsage_le usageLe_trans unfolding mergeTokenUsageProgress_def by blast
qed

definition usageAfter :: "usageEnv \<Rightarrow> event list \<Rightarrow> KiroTokenUsage" where
  "usageAfter env events = foldl (\<lambda>u event. updateTokenUsageFromEvent env event u) zeroUsage events"

lemma usageAfter_consistent: "usageConsistent (usageAfter env events)"
proof (induction events rule: rev_induct)
  case Nil
  show ?case
    by (simp add: usageAfter_def usageConsistent_def zeroUsage_def nonNegativeUsage_def creationSplit_def)
next
  case (snoc event events)
  show ?case
    by (simp add: usageAfter_def updateTokenUsageFromEvent_def mergeTokenUsageProgress_def normalizeKiroTokenUsage_consistent Let_def)
qed

lemma usageLe_refl: "usageLe u u"
  by (simp add: usageLe_def)


section \<open>The order of the maps\<close>

lemma bytesBefore_Nil [simp]: "\<not> bytesBefore s []"
  by (cases s) auto

lemma bytesBefore_asym: "bytesBefore s t \<Longrightarrow> \<not> bytesBefore t s"
  by (induction s t rule: bytesBefore.induct) auto

lemma bytesBefore_neg_trans: "bytesBefore s u \<Longrightarrow> bytesBefore s t \<or> bytesBefore t u"
proof (induction s u arbitrary: t rule: bytesBefore.induct)
  case (1 u)
  then show ?case by (cases t) auto
next
  case (3 c s d u)
  then show ?case by (cases t) auto
qed simp

lemma bytesBefore_total: "\<not> bytesBefore s t \<Longrightarrow> \<not> bytesBefore t s \<Longrightarrow> s = t"
  by (induction s t rule: bytesBefore.induct) (auto simp: not_less dest: of_char_eq_iff [THEN iffD1, OF order_antisym])

interpretation bytes: strict_weak_order bytesBefore
  by (rule strict_weak_order.intro) (rule bytesBefore_asym bytesBefore_neg_trans, assumption)+

interpretation keys: strict_weak_order "\<lambda>a b. bytesBefore (fst a) (fst b)"
  by (rule strict_weak_order.intro) (rule bytesBefore_asym bytesBefore_neg_trans, assumption)+

lemma sorted_wrt_unique:
  assumes "\<And>x y. x \<in> set xs \<Longrightarrow> y \<in> set xs \<Longrightarrow> P x y \<Longrightarrow> P y x \<Longrightarrow> x = y"
  shows "sorted_wrt P xs \<Longrightarrow> sorted_wrt P ys \<Longrightarrow> mset xs = mset ys \<Longrightarrow> xs = ys"
  using assms
proof (induction xs arbitrary: ys)
  case (Cons x xs)
  obtain y zs where ys: "ys = y # zs" using Cons.prems(3) by (cases ys) auto
  have xy: "x \<in> set (y # zs)" "y \<in> set (x # xs)" using Cons.prems(3) ys by (metis list.set_intros(1) set_mset_mset)+
  then have "x = y \<or> (P x y \<and> P y x)" using Cons.prems(1,2) ys by auto
  then have "x = y" using Cons.prems(4) xy(2) by auto
  moreover have "xs = zs"
    by (rule Cons.IH) (use Cons.prems ys \<open>x = y\<close> in auto)
  ultimately show ?case using ys by simp
qed simp

lemma sort_keys_unique:
  assumes "mset ms = mset ns" "distinct (map fst ms)"
  shows "sort_stable (\<lambda>a b. bytesBefore (fst a) (fst b)) ms = sort_stable (\<lambda>a b. bytesBefore (fst a) (fst b)) ns"
proof (rule sorted_wrt_unique [OF _ keys.sorted_sort_stable keys.sorted_sort_stable])
  fix x y assume "x \<in> set (sort_stable (\<lambda>a b. bytesBefore (fst a) (fst b)) ms)" "y \<in> set (sort_stable (\<lambda>a b. bytesBefore (fst a) (fst b)) ms)"
    "\<not> bytesBefore (fst y) (fst x)" "\<not> bytesBefore (fst x) (fst y)"
  then have "x \<in> set ms" "y \<in> set ms" "fst x = fst y" using bytesBefore_total by auto
  then show "x = y" using assms(2) by (metis eq_key_imp_eq_value prod.collapse)
qed (simp add: assms(1))

lemma sort_bytes_unique: "mset xs = mset ys \<Longrightarrow> sort_stable bytesBefore xs = sort_stable bytesBefore ys"
  by (rule sorted_wrt_unique [OF _ bytes.sorted_sort_stable bytes.sorted_sort_stable]) (auto dest: bytesBefore_total)

text \<open>Two values that differ in the order of the members of their objects only.\<close>

inductive reordered :: "jsonValue \<Rightarrow> jsonValue \<Rightarrow> bool" where
  reordered_same: "reordered v v"
| reordered_array: "list_all2 reordered vs ws \<Longrightarrow> reordered (JArray vs) (JArray ws)"
| reordered_object: "distinct (map fst ms) \<Longrightarrow> list_all2 (\<lambda>a b. fst a = fst b \<and> reordered (snd a) (snd b)) ms ks \<Longrightarrow>
    mset ns = mset ks \<Longrightarrow> reordered (JObject ms) (JObject ns)"

definition sameMembers :: "event \<Rightarrow> event \<Rightarrow> bool" where
  "sameMembers m n \<longleftrightarrow> reordered (JObject m) (JObject n)"

lemma members_keys: "list_all2 (\<lambda>a b. fst a = fst b \<and> R (snd a) (snd b)) ms ks \<Longrightarrow> map fst ks = map fst ms"
  by (induction rule: list_all2_induct) auto

lemma members_get: "list_all2 (\<lambda>a b. fst a = fst b \<and> R (snd a) (snd b)) ms ks \<Longrightarrow> rel_option R (gm_get ms k) (gm_get ks k)"
  by (induction rule: list_all2_induct) auto

lemma sameMembers_get:
  assumes "sameMembers m n"
  shows "rel_option reordered (gm_get m k) (gm_get n k)" "mset (map fst m) = mset (map fst n)"
proof -
  consider "m = n" | ks where "distinct (map fst m)" "list_all2 (\<lambda>a b. fst a = fst b \<and> reordered (snd a) (snd b)) m ks" "mset n = mset ks"
    using assms unfolding sameMembers_def by (cases rule: reordered.cases) auto
  then have "rel_option reordered (gm_get m k) (gm_get n k) \<and> mset (map fst m) = mset (map fst n)"
  proof cases
    case 1
    then show ?thesis by (cases "gm_get m k") (auto intro: reordered_same)
  next
    case (2 ks)
    then show ?thesis using members_keys [OF 2(2)] members_get [OF 2(2)] permuted_get [OF 2(3)] by (metis mset_map)
  qed
  then show "rel_option reordered (gm_get m k) (gm_get n k)" "mset (map fst m) = mset (map fst n)" by auto
qed

lemma matchingKeys_same: "sameMembers m n \<Longrightarrow> matchingKeys m names = matchingKeys n names"
  unfolding matchingKeys_def Let_def using sameMembers_get(2) by (intro sort_bytes_unique) (metis mset_filter)

lemma parseTokenNumber_same: "reordered v w \<Longrightarrow> parseTokenNumber env v = parseTokenNumber env w"
  by (erule reordered.cases) (auto simp: parseTokenNumber_def)

lemma jsonMembers_same: "reordered v w \<Longrightarrow> rel_option sameMembers (jsonMembers v) (jsonMembers w)"
  by (erule reordered.cases; cases v) (auto simp: sameMembers_def intro: reordered.intros)

lemma lookupBy_same:
  assumes "sameMembers m n" "\<And>v w. reordered v w \<Longrightarrow> rel_option R (parse v) (parse w)"
  shows "rel_option R (lookupBy parse m k) (lookupBy parse n k)"
  using sameMembers_get(1) [OF assms(1), of k] assms(2) by (cases "gm_get m k"; cases "gm_get n k") (auto simp: lookupBy_def)

lemma firstSome_same: "(\<And>k. rel_option R (f k) (g k)) \<Longrightarrow> rel_option R (firstSome f ks) (firstSome g ks)"
proof (induction ks)
  case (Cons k ks)
  from Cons.prems [of k] show ?case using Cons by (cases "f k"; cases "g k") auto
qed simp

lemma readTokenNumber_same:
  assumes "sameMembers m n"
  shows "readTokenNumber env m keys = readTokenNumber env n keys"
proof -
  have "rel_option (=) (lookupBy (parseTokenNumber env) m k) (lookupBy (parseTokenNumber env) n k)" for k
    by (rule lookupBy_same [OF assms]) (simp add: parseTokenNumber_same option.rel_eq)
  then have "rel_option (=) (firstSome (lookupBy (parseTokenNumber env) m) ks) (firstSome (lookupBy (parseTokenNumber env) n) ks)" for ks
    by (rule firstSome_same)
  then show ?thesis unfolding readTokenNumber_def matchingKeys_same [OF assms] option.rel_eq by simp
qed

lemma readTokenMapField_same:
  assumes "sameMembers m n"
  shows "rel_option sameMembers (readTokenMapField m names) (readTokenMapField n names)"
  unfolding readTokenMapField_def matchingKeys_same [OF assms]
  by (rule firstSome_same) (rule lookupBy_same [OF assms jsonMembers_same])

lemma takeDetails_same: "sameMembers m n \<Longrightarrow> takeDetails env m key = takeDetails env n key"
  using readTokenMapField_same [of m n "[key]"]
  by (cases "readTokenMapField m [key]"; cases "readTokenMapField n [key]") (auto simp: takeDetails_def readTokenNumber_same fun_eq_iff)

lemma takeCreation_same: "sameMembers m n \<Longrightarrow> takeCreation env m key = takeCreation env n key"
  using readTokenMapField_same [of m n "[key]"]
  by (cases "readTokenMapField m [key]"; cases "readTokenMapField n [key]") (auto simp: takeCreation_def readTokenNumber_same fun_eq_iff)

lemma parseTokenUsageCandidate_same:
  assumes "sameMembers m n"
  shows "parseTokenUsageCandidate env m priority path = parseTokenUsageCandidate env n priority path"
proof -
  note r = readTokenNumber_same [OF assms, of env]
  have d: "takeDetails env m = takeDetails env n" and c: "takeCreation env m = takeCreation env n"
    using takeDetails_same [OF assms] takeCreation_same [OF assms] by (auto simp: fun_eq_iff)
  have "takeOutput env m = takeOutput env n" "takeInputCounts env m = takeInputCounts env n" "takeTotal env m = takeTotal env n"
    by (rule ext, simp only: takeOutput_def takeInputCounts_def takeTotal_def r d c)+
  then show ?thesis by (simp add: parseTokenUsageCandidate_def)
qed

lemma namedCandidate_same: "reordered v w \<Longrightarrow> namedCandidate env path key v = namedCandidate env path key w"
  using jsonMembers_same [of v w] parseTokenUsageCandidate_same
  by (cases "jsonMembers v"; cases "jsonMembers w") (auto simp: namedCandidate_def split: option.splits)

lemma insert_stable_related:
  assumes "list_all2 R xs ys" "R x y" "\<And>a b c d. R a b \<Longrightarrow> R c d \<Longrightarrow> lt a c = lt' b d"
  shows "list_all2 R (insert_stable lt x xs) (insert_stable lt' y ys)"
  using assms(1,2) by (induction rule: list_all2_induct) (auto simp: assms(3))

lemma sort_stable_related:
  assumes "list_all2 R xs ys" "\<And>a b c d. R a b \<Longrightarrow> R c d \<Longrightarrow> lt a c = lt' b d"
  shows "list_all2 R (sort_stable lt xs) (sort_stable lt' ys)"
  using assms(1)
proof (induction rule: list_all2_induct)
  case (Cons x xs y ys)
  then show ?case using insert_stable_related [OF _ _ assms(2)] by (simp add: sort_stable_def)
qed (simp add: sort_stable_def)

lemma collect_members:
  assumes "list_all2 (\<lambda>a b. fst a = fst b \<and> reordered (snd a) (snd b) \<and>
      (\<forall>path. collectUsageCandidates env (snd a) path = collectUsageCandidates env (snd b) path)) ms ks"
  shows "concat (map (\<lambda>(key, child). namedCandidate env (usagePathJoin path key) key child @ collectUsageCandidates env child (usagePathJoin path key)) ms) =
    concat (map (\<lambda>(key, child). namedCandidate env (usagePathJoin path key) key child @ collectUsageCandidates env child (usagePathJoin path key)) ks)"
  using assms by (induction rule: list_all2_induct) (auto simp: namedCandidate_same split: prod.splits)

lemma collect_items:
  assumes "list_all2 (\<lambda>v w. \<forall>path. collectUsageCandidates env v path = collectUsageCandidates env w path) vs ws"
  shows "concat (map (\<lambda>(i, child). collectUsageCandidates env child (path @ ''['' @ show_nat i @ '']'')) (enumerate k vs)) =
    concat (map (\<lambda>(i, child). collectUsageCandidates env child (path @ ''['' @ show_nat i @ '']'')) (enumerate k ws))"
  using assms by (induction arbitrary: k rule: list_all2_induct) auto

lemma collectUsageCandidates_same:
  "reordered v w \<Longrightarrow> \<forall>path. collectUsageCandidates env v path = collectUsageCandidates env w path"
proof (induction rule: reordered.induct)
  case (reordered_array vs ws)
  then have "list_all2 (\<lambda>v w. \<forall>path. collectUsageCandidates env v path = collectUsageCandidates env w path) vs ws"
    by (auto elim: list_all2_mono)
  then show ?case using collect_items by simp
next
  case (reordered_object ms ks ns)
  define R where "R = (\<lambda>(a::string \<times> jsonValue) b. fst a = fst b \<and> reordered (snd a) (snd b) \<and>
      (\<forall>path. collectUsageCandidates env (snd a) path = collectUsageCandidates env (snd b) path))"
  define lt where "lt = (\<lambda>(a::string \<times> jsonValue) b. bytesBefore (fst a) (fst (b::string \<times> jsonValue)))"
  have "list_all2 R ms ks" using reordered_object.IH by (auto simp: R_def elim: list_all2_mono)
  then have r: "list_all2 R (sort_stable lt ms) (sort_stable lt ks)"
    by (rule sort_stable_related) (auto simp: R_def lt_def)
  have "list_all2 (\<lambda>a b. fst a = fst b \<and> reordered (snd a) (snd b)) ms ks"
    by (rule list_all2_mono [OF reordered_object.IH]) blast
  then have keys: "map fst ks = map fst ms" by (rule members_keys)
  have "sort_stable lt ns = sort_stable lt ks"
    unfolding lt_def
    by (rule sort_keys_unique [OF reordered_object.hyps(2)]) (metis keys reordered_object.hyps mset_eq_imp_distinct_iff mset_map)
  then show ?case using collect_members [OF r [unfolded R_def]] unfolding lt_def by simp
qed simp

text \<open>
  The usage read from an event does not depend on the order in which the program iterates over its maps: two events that
  differ, at any depth, in the order of the members of their objects only give the same counters.
\<close>

theorem usage_order_independent:
  assumes "sameMembers event event'"
  shows "updateTokenUsageFromEvent env event u = updateTokenUsageFromEvent env event' u"
  using assms parseTokenUsageCandidate_same [OF assms] collectUsageCandidates_same [of "JObject event" "JObject event'"]
  by (simp add: updateTokenUsageFromEvent_def sameMembers_def)

definition sampleUsageEnv :: usageEnv where
  "sampleUsageEnv = \<lparr>ue_numbers = \<lparr>sn_float = (\<lambda>s. case parseInt64 s of None \<Rightarrow> 0 | Some i \<Rightarrow> of_int i), sn_parseFloat = \<lambda>_. None, sn_scanFloat = \<lambda>_. None\<rparr>, ue_rnd = id\<rparr>"

definition usageEvent :: "string \<Rightarrow> string \<Rightarrow> event" where
  "usageEvent input cached = [(''tokenUsage'', JObject [(''inputTokens'', JNumber input), (''cacheReadInputTokens'', JNumber cached)])]"

theorem usage_order_independent_witness:
  "updateTokenUsageFromEvent sampleUsageEnv (usageEvent ''100'' ''40'') zeroUsage =
   updateTokenUsageFromEvent sampleUsageEnv [(''tokenUsage'', JObject [(''cacheReadInputTokens'', JNumber ''40''), (''inputTokens'', JNumber ''100'')])] zeroUsage"
proof (rule usage_order_independent)
  have inner: "reordered (JObject [(''inputTokens'', JNumber ''100''), (''cacheReadInputTokens'', JNumber ''40'')])
      (JObject [(''cacheReadInputTokens'', JNumber ''40''), (''inputTokens'', JNumber ''100'')])"
    by (rule reordered_object [where ks = "[(''inputTokens'', JNumber ''100''), (''cacheReadInputTokens'', JNumber ''40'')]"])
      (auto intro: reordered_same)
  show "sameMembers (usageEvent ''100'' ''40'')
      [(''tokenUsage'', JObject [(''cacheReadInputTokens'', JNumber ''40''), (''inputTokens'', JNumber ''100'')])]"
    unfolding sameMembers_def usageEvent_def
    by (rule reordered_object [where ks = "[(''tokenUsage'', JObject [(''cacheReadInputTokens'', JNumber ''40''), (''inputTokens'', JNumber ''100'')])]"])
      (auto intro: inner)
qed

text \<open>
  A count that one frame derives becomes a reported one in the next: the uncached part of a first snapshot (100 input tokens, none of
  them cached yet) is added to the cached part of the second (100 input tokens, 90 cached), and 190 input tokens are reported.
\<close>

definition reads :: "int \<Rightarrow> int \<Rightarrow> KiroTokenUsage" where
  "reads input cached = zeroUsage\<lparr>ku_InputTokens := input, ku_hasInputTokens := True, ku_CacheReadInputTokens := cached,
     ku_hasCacheReadTokens := True, ku_HasCacheBreakdown := True\<rparr>"

lemma derived_uncached_inflates_input:
  "let u1 = mergeTokenUsageProgress sampleUsageEnv zeroUsage (normalizeKiroTokenUsage sampleUsageEnv (reads 100 0));
       u2 = mergeTokenUsageProgress sampleUsageEnv u1 (normalizeKiroTokenUsage sampleUsageEnv (reads 100 90))
   in (ku_InputTokens u1, ku_UncachedInputTokens u1) = (100, 100) \<and> (ku_InputTokens u2, ku_CacheReadInputTokens u2) = (190, 90)"
  by code_simp

end
