(* ===== verification/Stream_Parse_Props.thy ===== *)
theory Stream_Parse_Props
  imports Stream_Parse Stream_Usage_Props Event_Stream_Props Payload_Limit_Props
begin

text \<open>
  An answer is reported complete exactly when decoding succeeds; its usage reports never regress, and the text that is
  delivered stays within the limit of the client.
\<close>

section \<open>The calls of a stream\<close>

definition finals :: "streamCall list \<Rightarrow> streamCall list" where
  "finals cs = filter (\<lambda>c. case c of OnComplete _ _ \<Rightarrow> True | OnTruncated _ \<Rightarrow> True | _ \<Rightarrow> False) cs"

definition usageReports :: "streamCall list \<Rightarrow> KiroTokenUsage list" where
  "usageReports cs = List.map_filter (\<lambda>c. case c of OnUsage u \<Rightarrow> Some u | _ \<Rightarrow> None) cs"

definition deliveredTokens :: "(rat \<Rightarrow> rat) \<Rightarrow> streamCall list \<Rightarrow> int" where
  "deliveredTokens rnd cs = sum_list (map (\<lambda>c. case c of OnText t _ \<Rightarrow> estimateWireTokens rnd t | _ \<Rightarrow> 0) cs)"

lemma calls_append [simp]:
  "finals (cs @ ds) = finals cs @ finals ds" "usageReports (cs @ ds) = usageReports cs @ usageReports ds"
  "deliveredTokens rnd (cs @ ds) = deliveredTokens rnd cs + deliveredTokens rnd ds"
  by (simp_all add: finals_def usageReports_def deliveredTokens_def List.map_filter_def)

definition quiet :: "streamCall list \<Rightarrow> bool" where
  "quiet cs \<longleftrightarrow> finals cs = [] \<and> usageReports cs = [] \<and> (\<forall>rnd. deliveredTokens rnd cs = 0)"

lemma quiet_simps [simp]:
  "quiet [OnProgress]" "quiet (map OnTool tr)" "quiet [OnStopReason r]" "quiet [OnContextUsage p]" "quiet [OnCredits x]"
  by (simp_all add: quiet_def finals_def usageReports_def deliveredTokens_def List.map_filter_def filter_empty_conv comp_def)

lemma single_calls [simp]:
  "finals [OnUsage u] = []" "usageReports [OnUsage u] = [u]" "deliveredTokens rnd [OnUsage u] = 0"
  "finals [OnText t b] = []" "usageReports [OnText t b] = []" "deliveredTokens rnd [OnText t b] = estimateWireTokens rnd t"
  "finals [OnComplete i j] = [OnComplete i j]" "finals [OnTruncated r] = [OnTruncated r]"
  "usageReports [OnComplete i j] = []" "usageReports [OnTruncated r] = []" "deliveredTokens rnd [OnComplete i j] = 0" "deliveredTokens rnd [OnTruncated r] = 0"
  by (simp_all add: finals_def usageReports_def deliveredTokens_def List.map_filter_def)

section \<open>What holds while frames are read\<close>

definition withinLimit :: "(rat \<Rightarrow> rat) \<Rightarrow> clientOutputTokenLimiter option \<Rightarrow> streamCall list \<Rightarrow> clientOutputTokenLimiter option \<Rightarrow> bool" where
  "withinLimit rnd initial cs l \<longleftrightarrow>
     (case initial of
        None \<Rightarrow> l = None
      | Some i \<Rightarrow> (\<exists>l'. l = Some l' \<and> 0 \<le> ol_remaining l' \<and> deliveredTokens rnd cs + ol_remaining l' \<le> ol_remaining i))"

definition reporting :: "parseEnv \<Rightarrow> clientOutputTokenLimiter option \<Rightarrow> streamCall list \<Rightarrow> KiroTokenUsage \<Rightarrow> clientOutputTokenLimiter option \<Rightarrow> bool" where
  "reporting env initial cs u l \<longleftrightarrow> finals cs = [] \<and> usageConsistent u \<and> sorted_wrt usageLe (usageReports cs @ [u]) \<and>
     withinLimit (pe_rnd env) initial cs l"

abbreviation reportingState :: "parseEnv \<Rightarrow> clientOutputTokenLimiter option \<Rightarrow> parseState \<Rightarrow> bool" where
  "reportingState env initial s \<equiv> reporting env initial (pa_calls s) (pa_tokenUsage s) (pa_limiter s)"

lemma call_fields [simp]:
  "pa_calls (call c s) = pa_calls s @ [c]" "pa_tokenUsage (call c s) = pa_tokenUsage s" "pa_limiter (call c s) = pa_limiter s"
  "pa_pending (call c s) = pa_pending s" "pa_sawToolUse (call c s) = pa_sawToolUse s" "pa_sawOutput (call c s) = pa_sawOutput s"
  "pa_sawExplicitCompletion (call c s) = pa_sawExplicitCompletion s" "pa_recoveredToolUse (call c s) = pa_recoveredToolUse s"
  "pa_lastFrameWasTelemetry (call c s) = pa_lastFrameWasTelemetry s"
  by (simp_all add: call_def)

lemma withinLimit_quiet: "quiet ds \<Longrightarrow> withinLimit rnd initial (cs @ ds) l = withinLimit rnd initial cs l"
  by (simp add: withinLimit_def quiet_def split: option.splits)

lemma reporting_quiet [simp]: "quiet ds \<Longrightarrow> reporting env initial (cs @ ds) u l = reporting env initial cs u l"
  by (simp add: reporting_def withinLimit_quiet) (simp add: quiet_def)

lemma estimateWireTokens_nonneg: "0 \<le> estimateWireTokens rnd t"
  by (simp add: estimateWireTokens_def)

lemma takeText_within:
  assumes "takeText rnd text l = (clipped, l')" "0 \<le> ol_remaining l"
  shows "0 \<le> ol_remaining l'" "clipped \<noteq> '''' \<Longrightarrow> estimateWireTokens rnd clipped + ol_remaining l' \<le> ol_remaining l" "ol_remaining l' \<le> ol_remaining l"
proof -
  have "fitTextToTokenBudget rnd text (ol_remaining l) = '''' \<or> estimateWireTokens rnd (fitTextToTokenBudget rnd text (ol_remaining l)) \<le> ol_remaining l"
    using fitLoop_ok by (simp add: fitTextToTokenBudget_def)
  then show "0 \<le> ol_remaining l'" "clipped \<noteq> '''' \<Longrightarrow> estimateWireTokens rnd clipped + ol_remaining l' \<le> ol_remaining l" "ol_remaining l' \<le> ol_remaining l"
    using assms estimateWireTokens_nonneg [of rnd "text"] by (auto simp: takeText_def Let_def split: if_splits)
qed

lemma callText_reporting: "reportingState env initial s \<Longrightarrow> reportingState env initial (callText env text b s)"
proof (cases "pa_limiter s")
  case (Some l)
  assume r: "reportingState env initial s"
  obtain i where i: "initial = Some i" "0 \<le> ol_remaining l" "deliveredTokens (pe_rnd env) (pa_calls s) + ol_remaining l \<le> ol_remaining i"
    using r Some by (auto simp: reporting_def withinLimit_def split: option.splits)
  obtain clipped l' where t: "takeText (pe_rnd env) text l = (clipped, l')" by fastforce
  show ?thesis
    using r Some i t takeText_within [OF t i(2)] by (auto simp: callText_def reporting_def withinLimit_def Let_def split: option.splits)
next
  case None
  assume "reportingState env initial s"
  then show ?thesis using None by (auto simp: callText_def reporting_def withinLimit_def split: option.splits)
qed

lemma updateUsage_reporting:
  assumes "reportingState env initial s"
  shows "reportingState env initial (updateUsage env event s)"
proof -
  define u where "u = updateTokenUsageFromEvent (usageEnvOf env) event (pa_tokenUsage s)"
  have c: "usageConsistent u"
    unfolding u_def by (simp add: updateTokenUsageFromEvent_def mergeTokenUsageProgress_def normalizeKiroTokenUsage_consistent Let_def)
  have le: "usageLe (pa_tokenUsage s) u"
    unfolding u_def updateTokenUsageFromEvent_def Let_def
    by (rule mergeTokenUsageProgress_le) (use assms in \<open>simp add: reporting_def usageConsistent_def\<close>)
  have "sorted_wrt usageLe (usageReports (pa_calls s) @ [u])" "\<forall>v\<in>set (usageReports (pa_calls s)). usageLe v u"
    using assms le usageLe_trans by (auto simp: reporting_def sorted_wrt_append)
  then show ?thesis
    using assms c usageLe_refl
    by (auto simp: updateUsage_def u_def [symmetric] Let_def reporting_def withinLimit_def sorted_wrt_append split: option.splits)
qed

lemma callStop_reporting [simp]: "reportingState env initial (callStop r s) = reportingState env initial s"
  by (simp add: callStop_def)

lemma callTools_reporting [simp]: "reportingState env initial (callTools tr s) = reportingState env initial s"
  by (simp add: callTools_def)

lemma state_reporting [simp]:
  "pa_calls (mergeTerminal t s) = pa_calls s" "pa_tokenUsage (mergeTerminal t s) = pa_tokenUsage s" "pa_limiter (mergeTerminal t s) = pa_limiter s"
  "pa_calls (countInvalid s) = pa_calls s" "pa_tokenUsage (countInvalid s) = pa_tokenUsage s" "pa_limiter (countInvalid s) = pa_limiter s"
  by (simp_all add: mergeTerminal_def countInvalid_def)

lemma handleToolPayloads_reporting:
  "handleToolPayloads env ps s = (e, s') \<Longrightarrow> reportingState env initial s \<Longrightarrow> reportingState env initial s'"
proof (induction ps arbitrary: s)
  case (Cons p ps)
  then show ?case by (auto simp: Let_def split: prod.splits option.splits)
qed simp

lemma addTelemetry_reporting: "reportingState env initial (addTelemetry env k ev s) = reportingState env initial s"
  by (simp add: addTelemetry_def Let_def split: option.splits)

lemma noteCompletion_reporting: "reportingState env initial (noteCompletion env t d s) = reportingState env initial s"
  by (simp add: noteCompletion_def Let_def)

lemma dispatchEvent_reporting:
  assumes "dispatchEvent env t ev d s = (out, s')" "reportingState env initial s"
  shows "reportingState env initial s'"
proof -
  define s1 where "s1 = callText env (de_reasoning d) True (callText env (de_text d) False (updateUsage env ev s))"
  have r: "reportingState env initial s1" unfolding s1_def by (intro callText_reporting updateUsage_reporting assms)
  obtain e s2 where h: "handleToolPayloads env (de_toolPayloads d) s1 = (e, s2)" by fastforce
  note r2 = handleToolPayloads_reporting [OF h r]
  show ?thesis
    using assms(1) r r2 h
    by (auto simp: dispatchEvent_def s1_def [symmetric] addTelemetry_reporting noteCompletion_reporting split: if_splits option.splits)
qed

lemma handleFrame_reporting:
  assumes "handleFrame env f s = (out, s')" "reportingState env initial s"
  shows "reportingState env initial s'"
  using assms dispatchEvent_reporting
  by (auto simp: handleFrame_def Let_def split: if_splits option.splits)

lemma recoverCalls_reporting: "recoverCalls env eo b s = (n, s') \<Longrightarrow> reportingState env initial s' = reportingState env initial s"
  by (auto simp: recoverCalls_def split: prod.splits)

lemma handleReadError_reporting:
  assumes "handleReadError env eo err s = (out, s')" "reportingState env initial s"
  shows "reportingState env initial s'"
  using assms recoverCalls_reporting by (fastforce simp: handleReadError_def Let_def split: if_splits option.splits prod.splits)

lemma readFrames_reporting:
  "readFrames env eo r s = (e, s') \<Longrightarrow> reportingState env initial s \<Longrightarrow> reportingState env initial s'"
proof (induction env eo r s rule: readFrames.induct)
  case (1 env eo r s)
  obtain x r' where p: "readEventStreamFrame r = (x, r')" by (rule prod.exhaust)
  show ?case
  proof (cases x)
    case (Inl err)
    then show ?thesis
      using "1.prems" p handleReadError_reporting
      by (auto simp: readFrames.simps [of env eo r s] split: FrameError.splits frameOutcome.splits prod.splits)
  next
    case (Inr f)
    obtain out s1 where h: "handleFrame env f s = (out, s1)" by fastforce
    note r1 = handleFrame_reporting [OF h "1.prems"(2)]
    show ?thesis
      using "1.prems"(1) "1.IH" [OF p [symmetric] _ h [symmetric]] p Inr h r1
      by (auto simp: readFrames.simps [of env eo r s] split: frameOutcome.splits)
  qed
qed

lemma settleCalls_reporting: "settleCalls env eo s = (e, s') \<Longrightarrow> reportingState env initial s' = reportingState env initial s"
  using recoverCalls_reporting by (fastforce simp: settleCalls_def Let_def split: if_splits option.splits prod.splits)

lemma newParseState_reporting: "(\<And>l. initial = Some l \<Longrightarrow> 0 \<le> ol_remaining l) \<Longrightarrow> reportingState env initial (newParseState initial)"
  by (auto simp: newParseState_def reporting_def withinLimit_def finals_def usageReports_def deliveredTokens_def List.map_filter_def
      usageConsistent_def zeroUsage_def nonNegativeUsage_def creationSplit_def split: option.splits)

section \<open>The end of a stream\<close>

lemma inferCompletion_reporting [simp]: "reportingState env initial (inferCompletion eo s) = reportingState env initial s"
  by (simp add: inferCompletion_def)

lemma settleCalls_empty: "settleCalls env eo s = (None, s') \<Longrightarrow> pending_first (pa_pending s') = None"
  by (auto simp: settleCalls_def Let_def split: option.splits prod.splits if_splits)

lemma finishStream_success:
  assumes "finishStream eo s = (None, s')"
  shows "\<exists>s1. s' = reportUsage s1 \<and> \<not> unfinished s1 \<and> pa_pending s1 = pa_pending s \<and> s1 = inferCompletion eo s \<and>
    (pa_sawOutput s \<or> pa_sawToolUse s \<or> pa_recoveredToolUse s \<or> pa_sawExplicitCompletion s)"
  using assms by (auto simp: finishStream_def truncatedAnswer_def Let_def inferCompletion_def callStop_def split: if_splits)

lemma finishStream_failure:
  assumes "finishStream eo s = (Some e, s')"
  shows "\<exists>reason s1. (s1 = s \<or> s1 = inferCompletion eo s) \<and> s' = call (OnTruncated reason) s1"
  using assms by (auto simp: finishStream_def truncatedAnswer_def Let_def split: if_splits)

definition completeEvidence :: "parseState \<Rightarrow> bool" where
  "completeEvidence s \<longleftrightarrow> pa_sawExplicitCompletion s \<or> pa_sawToolUse s \<or> pa_recoveredToolUse s \<or> (pa_sawOutput s \<and> pa_lastFrameWasTelemetry s)"

lemma reportUsage_fields [simp]:
  "pa_sawExplicitCompletion (reportUsage s) = pa_sawExplicitCompletion s" "pa_sawToolUse (reportUsage s) = pa_sawToolUse s"
  "pa_recoveredToolUse (reportUsage s) = pa_recoveredToolUse s" "pa_sawOutput (reportUsage s) = pa_sawOutput s"
  "pa_lastFrameWasTelemetry (reportUsage s) = pa_lastFrameWasTelemetry s" "pa_pending (reportUsage s) = pa_pending s"
  "pa_tokenUsage (reportUsage s) = pa_tokenUsage s" "pa_limiter (reportUsage s) = pa_limiter s"
  by (simp_all add: reportUsage_def Let_def)

lemma unfinished_evidence:
  assumes "\<not> unfinished s1" "pa_sawOutput s1 \<or> pa_sawToolUse s1 \<or> pa_recoveredToolUse s1 \<or> pa_sawExplicitCompletion s1"
  shows "completeEvidence (reportUsage s1)"
  using assms by (auto simp: unfinished_def completeEvidence_def)

lemma reportUsage_calls:
  "\<exists>ds. quiet ds \<and> pa_calls (reportUsage s) =
     pa_calls s @ ds @ [OnUsage (pa_tokenUsage s), OnComplete (ku_InputTokens (pa_tokenUsage s)) (ku_OutputTokens (pa_tokenUsage s))]"
proof (cases "pa_totalCredits s > 0")
  case True
  then show ?thesis by (intro exI [of _ "[OnCredits (pa_totalCredits s)]"]) (simp add: reportUsage_def Let_def)
next
  case False
  have "quiet []" by (simp add: quiet_def finals_def usageReports_def deliveredTokens_def List.map_filter_def)
  then show ?thesis using False by (intro exI [of _ "[]"]) (simp add: reportUsage_def Let_def)
qed

lemma parse_reporting:
  assumes "parseEventStreamWithOptions env eo (applyClientOutputTokenLimit enforce limit) r = (e, s)"
  shows "(e = None \<and> (\<exists>s1. reportingState env (applyClientOutputTokenLimit enforce limit) s1 \<and> s = reportUsage s1 \<and>
        pending_first (pa_pending s1) = None \<and> completeEvidence s)) \<or>
    (e \<noteq> None \<and> (\<exists>s1. reportingState env (applyClientOutputTokenLimit enforce limit) s1 \<and> (s = s1 \<or> (\<exists>reason. s = call (OnTruncated reason) s1))))"
proof -
  let ?lim = "applyClientOutputTokenLimit enforce limit"
  have new: "reportingState env ?lim (newParseState ?lim)"
    by (rule newParseState_reporting) (auto simp: applyClientOutputTokenLimit_def split: if_splits)
  obtain e1 s1 where r: "readFrames env eo r (newParseState ?lim) = (e1, s1)" by fastforce
  note R1 = readFrames_reporting [OF r new]
  obtain e2 s2 where c: "settleCalls env eo s1 = (e2, s2)" by fastforce
  have R2: "reportingState env ?lim s2" using settleCalls_reporting [OF c] R1 by blast
  obtain e3 s3 where f: "finishStream eo s2 = (e3, s3)" by fastforce
  consider "e1 \<noteq> None" | "e1 = None" "e2 \<noteq> None" | "e1 = None" "e2 = None" "e3 = None" | x where "e1 = None" "e2 = None" "e3 = Some x" by auto
  then show ?thesis
  proof cases
    case 3
    then obtain s4 where s4: "s3 = reportUsage s4" "\<not> unfinished s4" "s4 = inferCompletion eo s2" "pa_pending s4 = pa_pending s2"
        "pa_sawOutput s2 \<or> pa_sawToolUse s2 \<or> pa_recoveredToolUse s2 \<or> pa_sawExplicitCompletion s2"
      using finishStream_success f by blast
    then have "completeEvidence s3"
      using unfinished_evidence [of s4] by (auto simp: inferCompletion_def callStop_def)
    moreover have "pending_first (pa_pending s4) = None" using settleCalls_empty c 3 s4(4) by auto
    moreover have "reportingState env ?lim s4" using R2 s4(3) by simp
    moreover have "e = None" "s = reportUsage s4" using assms r c f 3 s4(1) by (auto simp: parseEventStreamWithOptions_def)
    ultimately show ?thesis using s4(1) by blast
  next
    case (4 x)
    then obtain reason s4 where s4: "s4 = s2 \<or> s4 = inferCompletion eo s2" "s3 = call (OnTruncated reason) s4"
      using finishStream_failure f by blast
    have "reportingState env ?lim s4" using R2 s4(1) by auto
    moreover have "e \<noteq> None" "s = call (OnTruncated reason) s4" using assms r c f 4 s4(2) by (auto simp: parseEventStreamWithOptions_def)
    ultimately show ?thesis by blast
  qed (use assms r c R1 R2 in \<open>auto simp: parseEventStreamWithOptions_def\<close>)
qed

lemma reporting_limit:
  "reporting env (applyClientOutputTokenLimit enforce limit) cs u l \<Longrightarrow> enforce \<Longrightarrow> 0 < limit \<Longrightarrow> deliveredTokens (pe_rnd env) cs \<le> limit"
  by (auto simp: reporting_def withinLimit_def applyClientOutputTokenLimit_def)


definition sampleParseEnv :: parseEnv where
  "sampleParseEnv = \<lparr>pe_tools = \<lparr>tse_numbers = \<lparr>sn_float = \<lambda>_. 0, sn_parseFloat = \<lambda>_. None, sn_scanFloat = \<lambda>_. None\<rparr>,
       tse_unmarshal = \<lambda>_. None, tse_quote = id, tse_parseBool = \<lambda>_. None\<rparr>,
     pe_rnd = id, pe_unmarshal = \<lambda>_. None, pe_jsonError = id, pe_fresh = show_nat\<rparr>"

definition sampleOptions :: eventStreamParseOptions where
  "sampleOptions = \<lparr>eo_toolInputPolicies = [], eo_allowInferredTextEOF = False, eo_allowTransparentTextEOF = False\<rparr>"

definition limitHeaders :: "header list" where
  "limitHeaders = [(map (\<lambda>c. of_nat (of_char c)) '':event-type'', HString (map (\<lambda>c. of_nat (of_char c)) ''ContentLengthExceededException''))]"

lemma limit_frame_read:
  "readEventStreamFrame (encodeFrame limitHeaders [] @ [], EOF) =
     (Inr \<lparr>fr_headers = [('':event-type'', ''ContentLengthExceededException'')], fr_payload = []\<rparr>, ([], EOF))"
proof -
  have "frameOk limitHeaders []"
    by (simp add: frameOk_def headerOk_def eventStreamMaxFrame_def encodeHeaders_def encodeHeader_def limitHeaders_def)
  moreover have "stringHeaders [] limitHeaders = [('':event-type'', ''ContentLengthExceededException'')]" by code_simp
  ultimately show ?thesis using readFrame_encoded by metis
qed

lemma limit_frame_handled:
  "case handleFrame sampleParseEnv \<lparr>fr_headers = [('':event-type'', ''ContentLengthExceededException'')], fr_payload = []\<rparr> (newParseState None) of
     (out, s) \<Rightarrow> out = NextFrame \<and> pa_sawExplicitCompletion s \<and> pa_pending s = newPendingToolUses \<and> pa_tokenUsage s = zeroUsage \<and>
       pa_calls s = [OnProgress, OnStopReason ''max_tokens''] \<and> pa_totalCredits s = 0"
  by code_simp

lemma empty_reader: "readEventStreamFrame ([], EOF) = (Inl StreamEnd, ([], EOF))"
  by code_simp

lemma limit_stream_parsed:
  "\<exists>s. parseEventStreamWithOptions sampleParseEnv sampleOptions None (encodeFrame limitHeaders [] @ [], EOF) = (None, s) \<and>
     pa_calls s = [OnProgress, OnStopReason ''max_tokens'', OnUsage zeroUsage, OnComplete 0 0]"
proof -
  obtain s1 where h: "handleFrame sampleParseEnv \<lparr>fr_headers = [('':event-type'', ''ContentLengthExceededException'')], fr_payload = []\<rparr> (newParseState None) = (NextFrame, s1)"
    and f: "pa_sawExplicitCompletion s1" "pa_pending s1 = newPendingToolUses" "pa_tokenUsage s1 = zeroUsage" "pa_totalCredits s1 = 0"
      "pa_calls s1 = [OnProgress, OnStopReason ''max_tokens'']"
    using limit_frame_handled by (auto split: prod.splits)
  have "readFrames sampleParseEnv sampleOptions ([], EOF) s1 = (None, s1)"
    by (simp add: readFrames.simps [of _ _ "([], EOF)"] empty_reader)
  then have r: "readFrames sampleParseEnv sampleOptions (encodeFrame limitHeaders [] @ [], EOF) (newParseState None) = (None, s1)"
    unfolding readFrames.simps [of _ _ "(encodeFrame limitHeaders [] @ [], EOF)"] limit_frame_read by (simp add: h)
  have "settleCalls sampleParseEnv sampleOptions s1 = (None, s1)"
    by (simp add: settleCalls_def f pending_first_def newPendingToolUses_def)
  moreover have "finishStream sampleOptions s1 = (None, reportUsage s1)"
    by (simp add: finishStream_def f inferCompletion_def unfinished_def)
  ultimately have "parseEventStreamWithOptions sampleParseEnv sampleOptions None (encodeFrame limitHeaders [] @ [], EOF) = (None, reportUsage s1)"
    unfolding parseEventStreamWithOptions_def r by simp
  moreover have "pa_calls (reportUsage s1) = [OnProgress, OnStopReason ''max_tokens'', OnUsage zeroUsage, OnComplete 0 0]"
    by (simp add: reportUsage_def Let_def f zeroUsage_def)
  ultimately show ?thesis by blast
qed


end
