(* ===== verification/Prompt_Cache.thy ===== *)
theory Prompt_Cache
  imports Go_Prelude "HOL-Library.Word"
begin

text \<open>
  The prompt-cache tracker (\<open>proxy/cache_tracker.go\<close>): which prompt prefixes of which scope were sent upstream lately. The
  entries are kept in 64 shards; every shard has the entries of its scopes, a list of each scope's entries and a list of all its
  entries with the last used in front, and the reservations of requests that are about to create an entry.

  An entry is identified by scope and fingerprint; the elements of the lists stand for the pointers to their entries. Every operation
  runs under the locks of its shards and is one step here; the recheck of the eviction, which sees concurrent changes only, is kept.
  Fingerprints are strings of 32 bytes.
\<close>

section \<open>State\<close>

definition defaultPromptCacheTTL :: duration where "defaultPromptCacheTTL = 5 * minute"
definition defaultPromptCacheMaxEntriesPerAccount :: int where "defaultPromptCacheMaxEntriesPerAccount = 2048"
definition defaultPromptCacheMaxEntriesTotal :: int where "defaultPromptCacheMaxEntriesTotal = 50000"
definition promptCacheShardCount :: nat where "promptCacheShardCount = 64"
definition promptCacheReservationTTL :: duration where "promptCacheReservationTTL = 10 * minute"

record promptCacheEntry =
  ce_ExpiresAt :: gotime
  ce_TTL :: duration
  ce_LastAccess :: gotime

record promptCachePending =
  cp_expiresAt :: gotime
  cp_token :: nat

record promptCacheReservation =
  rv_scope :: string
  rv_fingerprint :: string
  rv_token :: nat

record promptCacheShard =
  sh_entriesByAccount :: "(string, (string, promptCacheEntry) gomap) gomap"
  sh_accountOrder :: "(string, string list) gomap"
  sh_order :: "(string \<times> string) list"
  sh_pendingByAccount :: "(string, (string, promptCachePending) gomap) gomap"

record promptCacheTracker =
  pt_shards :: "promptCacheShard list"
  pt_enabled :: bool
  pt_namespaceMode :: string
  pt_maxSupportedTTL :: duration
  pt_readEfficiencyMin :: rat
  pt_readEfficiencyMax :: rat
  pt_accountingMode :: string
  pt_maxEntriesPerAccount :: int
  pt_maxEntriesTotal :: int
  pt_entryCount :: int
  pt_reservationSequence :: nat
  pt_trackedRequests :: nat
  pt_cacheHits :: nat
  pt_cacheMisses :: nat
  pt_cacheReadTokens :: nat
  pt_cacheCreationTokens :: nat
  pt_trackedInputTokens :: nat
  pt_uncachedInputTokens :: nat
  pt_cacheSkipped :: nat
  pt_stateGeneration :: nat
  pt_missReasons :: "(string, nat) gomap"

definition emptyShard :: promptCacheShard where
  "emptyShard = \<lparr>sh_entriesByAccount = [], sh_accountOrder = [], sh_order = [], sh_pendingByAccount = []\<rparr>"

definition clampFloat :: "rat \<Rightarrow> rat \<Rightarrow> rat \<Rightarrow> rat" where
  "clampFloat v lo hi = (if v < lo then lo else if v > hi then hi else v)"

definition normalizeEfficiencyRange :: "rat \<Rightarrow> rat \<Rightarrow> rat \<times> rat" where
  "normalizeEfficiencyRange minValue maxValue =
     (let lo = clampFloat minValue 0 1; hi = clampFloat maxValue 0 1 in if lo > hi then (hi, lo) else (lo, hi))"

definition normalizePromptCacheAccountingMode :: "string \<Rightarrow> string" where
  "normalizePromptCacheAccountingMode mode =
     (let m = to_lower (trim_space mode)
      in if m = ''official_actual'' then ''official_actual''
         else if m = ''aggregator_target'' then ''aggregator_target'' else ''matched_prefix'')"

definition newPromptCacheTrackerWithEfficiencyRange :: "duration \<Rightarrow> rat \<Rightarrow> rat \<Rightarrow> promptCacheTracker" where
  "newPromptCacheTrackerWithEfficiencyRange maxTTL readMin readMax =
     (let (lo, hi) = normalizeEfficiencyRange readMin readMax
      in \<lparr>pt_shards = replicate promptCacheShardCount emptyShard, pt_enabled = True, pt_namespaceMode = ''account'',
          pt_maxSupportedTTL = (if maxTTL \<le> 0 then defaultPromptCacheTTL else maxTTL),
          pt_readEfficiencyMin = lo, pt_readEfficiencyMax = hi, pt_accountingMode = ''matched_prefix'',
          pt_maxEntriesPerAccount = defaultPromptCacheMaxEntriesPerAccount, pt_maxEntriesTotal = defaultPromptCacheMaxEntriesTotal,
          pt_entryCount = 0, pt_reservationSequence = 0, pt_trackedRequests = 0, pt_cacheHits = 0, pt_cacheMisses = 0,
          pt_cacheReadTokens = 0, pt_cacheCreationTokens = 0, pt_trackedInputTokens = 0, pt_uncachedInputTokens = 0,
          pt_cacheSkipped = 0, pt_stateGeneration = 0, pt_missReasons = []\<rparr>)"

definition ScopeKey :: "string \<Rightarrow> string \<Rightarrow> promptCacheTracker \<Rightarrow> string" where
  "ScopeKey accountID apiKeyID t =
     (if accountID = '''' then ''''
      else if pt_namespaceMode t = ''account_api_key'' \<and> apiKeyID \<noteq> '''' then accountID @ [char_of (0::nat)] @ apiKeyID
      else accountID)"

definition markStateChanged :: "promptCacheTracker \<Rightarrow> promptCacheTracker" where
  "markStateChanged t = t\<lparr>pt_stateGeneration := pt_stateGeneration t + 1\<rparr>"

text \<open>FNV-1a with 32 bits.\<close>

definition fnvStep :: "32 word \<Rightarrow> char \<Rightarrow> 32 word" where
  "fnvStep h c = (xor h (of_nat (of_char c))) * 16777619"

definition shardFor :: "string \<Rightarrow> nat" where
  "shardFor accountID = nat (uint (foldl fnvStep 2166136261 accountID) mod int promptCacheShardCount)"

definition shardOf :: "string \<Rightarrow> promptCacheTracker \<Rightarrow> promptCacheShard" where
  "shardOf accountID t = pt_shards t ! shardFor accountID"

definition setShard :: "nat \<Rightarrow> promptCacheShard \<Rightarrow> promptCacheTracker \<Rightarrow> promptCacheTracker" where
  "setShard i s t = t\<lparr>pt_shards := (pt_shards t)[i := s]\<rparr>"

section \<open>Entries of a shard\<close>

definition entriesOf :: "promptCacheShard \<Rightarrow> string \<Rightarrow> (string, promptCacheEntry) gomap" where
  "entriesOf s accountID = gm_zero [] (sh_entriesByAccount s) accountID"

definition entryOf :: "promptCacheShard \<Rightarrow> string \<Rightarrow> string \<Rightarrow> promptCacheEntry option" where
  "entryOf s accountID fingerprint = gm_get (entriesOf s accountID) fingerprint"

definition orderOf :: "promptCacheShard \<Rightarrow> string \<Rightarrow> string list" where
  "orderOf s accountID = gm_zero [] (sh_accountOrder s) accountID"

definition without :: "'a \<Rightarrow> 'a list \<Rightarrow> 'a list" where
  "without x xs = filter (\<lambda>y. y \<noteq> x) xs"

definition moveToFront :: "'a \<Rightarrow> 'a list \<Rightarrow> 'a list" where
  "moveToFront x xs = x # without x xs"

text \<open>Writing an entry through its pointer and moving its elements to the front of both lists.\<close>

definition touchEntry :: "string \<Rightarrow> string \<Rightarrow> promptCacheEntry \<Rightarrow> promptCacheShard \<Rightarrow> promptCacheShard" where
  "touchEntry accountID fingerprint e s =
     s\<lparr>sh_entriesByAccount := gm_put accountID (gm_put fingerprint e (entriesOf s accountID)) (sh_entriesByAccount s),
       sh_accountOrder := gm_put accountID (moveToFront fingerprint (orderOf s accountID)) (sh_accountOrder s),
       sh_order := moveToFront (accountID, fingerprint) (sh_order s)\<rparr>"

definition putEntryLocked :: "nat \<Rightarrow> string \<Rightarrow> string \<Rightarrow> gotime \<Rightarrow> duration \<Rightarrow> gotime \<Rightarrow> promptCacheTracker \<Rightarrow> promptCacheTracker" where
  "putEntryLocked i accountID fingerprint expiresAt ttl lastAccess t =
     (let s = pt_shards t ! i; e = \<lparr>ce_ExpiresAt = expiresAt, ce_TTL = ttl, ce_LastAccess = lastAccess\<rparr>;
          t1 = setShard i (touchEntry accountID fingerprint e s) t
      in if entryOf s accountID fingerprint \<noteq> None then t1 else t1\<lparr>pt_entryCount := pt_entryCount t + 1\<rparr>)"

definition dropEntry :: "string \<Rightarrow> string \<Rightarrow> promptCacheShard \<Rightarrow> promptCacheShard" where
  "dropEntry accountID fingerprint s =
     (let entries = gm_del fingerprint (entriesOf s accountID)
      in s\<lparr>sh_entriesByAccount := (if entries = [] then gm_del accountID (sh_entriesByAccount s) else gm_put accountID entries (sh_entriesByAccount s)),
           sh_accountOrder := (if entries = [] then gm_del accountID (sh_accountOrder s)
             else gm_put accountID (without fingerprint (orderOf s accountID)) (sh_accountOrder s)),
           sh_order := without (accountID, fingerprint) (sh_order s)\<rparr>)"

definition removeEntryLocked :: "nat \<Rightarrow> string \<Rightarrow> string \<Rightarrow> promptCacheTracker \<Rightarrow> bool \<times> promptCacheTracker" where
  "removeEntryLocked i accountID fingerprint t =
     (let s = pt_shards t ! i
      in if entryOf s accountID fingerprint = None then (False, t)
         else (True, markStateChanged (setShard i (dropEntry accountID fingerprint s) t\<lparr>pt_entryCount := pt_entryCount t - 1\<rparr>)))"

definition pruneExpiredAccountLocked :: "nat \<Rightarrow> string \<Rightarrow> gotime \<Rightarrow> promptCacheTracker \<Rightarrow> promptCacheTracker" where
  "pruneExpiredAccountLocked i accountID now t =
     foldl (\<lambda>t f. snd (removeEntryLocked i accountID f t)) t
       (map fst (filter (\<lambda>(_, e). \<not> now < ce_ExpiresAt e) (entriesOf (pt_shards t ! i) accountID)))"

definition pendingOf :: "promptCacheShard \<Rightarrow> string \<Rightarrow> (string, promptCachePending) gomap" where
  "pendingOf s accountID = gm_zero [] (sh_pendingByAccount s) accountID"

definition setPending :: "string \<Rightarrow> (string, promptCachePending) gomap \<Rightarrow> promptCacheShard \<Rightarrow> promptCacheShard" where
  "setPending accountID pending s =
     s\<lparr>sh_pendingByAccount := (if pending = [] then gm_del accountID (sh_pendingByAccount s) else gm_put accountID pending (sh_pendingByAccount s))\<rparr>"

definition prunePendingAccountLocked :: "nat \<Rightarrow> string \<Rightarrow> gotime \<Rightarrow> promptCacheTracker \<Rightarrow> promptCacheTracker" where
  "prunePendingAccountLocked i accountID now t =
     (let s = pt_shards t ! i
      in setShard i (setPending accountID (filter (\<lambda>(_, p). now < cp_expiresAt p) (pendingOf s accountID)) s) t)"

definition clearPendingLocked :: "nat \<Rightarrow> string \<Rightarrow> string \<Rightarrow> promptCacheTracker \<Rightarrow> promptCacheTracker" where
  "clearPendingLocked i accountID fingerprint t =
     (let s = pt_shards t ! i in setShard i (setPending accountID (gm_del fingerprint (pendingOf s accountID)) s) t)"

section \<open>Limits\<close>

lemma gm_del_shorter: "gm_get m k \<noteq> None \<Longrightarrow> length (gm_del k m) < length m"
  by (rule length_gm_del_mem) (auto simp: map_of_eq_None_iff)

lemma entriesOf_dropEntry: "entriesOf (dropEntry a f s) a = gm_del f (entriesOf s a)"
  by (simp add: dropEntry_def entriesOf_def Let_def)

lemma removeEntryLocked_shorter:
  assumes "removeEntryLocked i a f t = (True, t')" "i < length (pt_shards t)"
  shows "length (entriesOf (pt_shards t' ! i) a) < length (entriesOf (pt_shards t ! i) a)"
  using assms gm_del_shorter [of "entriesOf (pt_shards t ! i) a" f]
  by (auto simp: removeEntryLocked_def Let_def markStateChanged_def setShard_def entryOf_def entriesOf_dropEntry split: if_splits)

function enforceAccountLimitLocked :: "nat \<Rightarrow> string \<Rightarrow> int \<Rightarrow> promptCacheTracker \<Rightarrow> promptCacheTracker" where
  "enforceAccountLimitLocked i accountID maxEntries t =
     (let s = pt_shards t ! i
      in if \<not> int (length (entriesOf s accountID)) > maxEntries \<or> \<not> i < length (pt_shards t) then t
         else if orderOf s accountID = [] then t
         else case removeEntryLocked i accountID (last (orderOf s accountID)) t of
                (False, t') \<Rightarrow> t'
              | (True, t') \<Rightarrow> enforceAccountLimitLocked i accountID maxEntries t')"
  by auto
termination
  by (relation "measure (\<lambda>(i, a, m, t). length (entriesOf (pt_shards t ! i) a))")
    (auto dest: removeEntryLocked_shorter [OF sym])

declare enforceAccountLimitLocked.simps [simp del]

definition enforceAllAccountLimits :: "int \<Rightarrow> promptCacheTracker \<Rightarrow> promptCacheTracker" where
  "enforceAllAccountLimits maxEntries t =
     foldl (\<lambda>t i. foldl (\<lambda>t a. enforceAccountLimitLocked i a maxEntries t) t (map fst (sh_entriesByAccount (pt_shards t ! i))))
       t [0..<length (pt_shards t)]"

text \<open>The shard whose last element was used least recently, with the element and its time.\<close>

definition backOf :: "promptCacheShard \<Rightarrow> ((string \<times> string) \<times> gotime) option" where
  "backOf s =
     (if sh_order s = [] then None
      else map_option (\<lambda>e. (last (sh_order s), ce_LastAccess e)) (entryOf s (fst (last (sh_order s))) (snd (last (sh_order s)))))"

fun oldestOf :: "nat \<Rightarrow> promptCacheShard list \<Rightarrow> (nat \<times> (string \<times> string) \<times> gotime) option \<Rightarrow> (nat \<times> (string \<times> string) \<times> gotime) option" where
  "oldestOf i [] best = best"
| "oldestOf i (s # ss) best =
     oldestOf (Suc i) ss
       (case backOf s of
          None \<Rightarrow> best
        | Some (k, since) \<Rightarrow> (case best of Some (_, _, oldest) \<Rightarrow> if since < oldest then Some (i, k, since) else best | None \<Rightarrow> Some (i, k, since)))"

text \<open>
  The eviction; \<open>None\<close> when the rounds are used up. \<open>entryCount\<close> rounds are always enough, see \<open>enforceGlobalLimit_returns\<close>.
\<close>

fun evictRounds :: "nat \<Rightarrow> int \<Rightarrow> promptCacheTracker \<Rightarrow> promptCacheTracker option" where
  "evictRounds rounds maxEntries t =
     (if \<not> pt_entryCount t > maxEntries then Some t
      else case oldestOf 0 (pt_shards t) None of
             None \<Rightarrow> Some t
           | Some (i, (a, f), since) \<Rightarrow>
               (case rounds of
                  0 \<Rightarrow> None
                | Suc n \<Rightarrow> evictRounds n maxEntries
                    (if map_option ce_LastAccess (entryOf (pt_shards t ! i) a f) = Some since then snd (removeEntryLocked i a f t) else t)))"

declare evictRounds.simps [simp del]

definition enforceGlobalLimit :: "int \<Rightarrow> promptCacheTracker \<Rightarrow> promptCacheTracker option" where
  "enforceGlobalLimit maxEntries t = (if maxEntries \<le> 0 then Some t else evictRounds (nat (pt_entryCount t)) maxEntries t)"

section \<open>Operations\<close>

definition effectivePromptCacheTTL :: "duration \<Rightarrow> duration \<Rightarrow> duration" where
  "effectivePromptCacheTTL maxTTL requestedTTL0 =
     (let requestedTTL = (if requestedTTL0 \<le> 0 then defaultPromptCacheTTL else requestedTTL0)
      in if maxTTL > 0 \<and> maxTTL < requestedTTL then maxTTL else requestedTTL)"

record promptCacheBreakpoint =
  bp_Fingerprint :: string
  bp_CumulativeTokens :: int
  bp_TTL :: duration

record promptCacheProfile =
  pr_Breakpoints :: "promptCacheBreakpoint list"
  pr_TotalInputTokens :: int
  pr_Model :: string

definition boundedPromptCacheBreakpointTokens :: "promptCacheBreakpoint \<Rightarrow> int \<Rightarrow> int" where
  "boundedPromptCacheBreakpointTokens b totalInputTokens =
     (let tokens = max (bp_CumulativeTokens b) 0 in if totalInputTokens > 0 \<and> tokens > totalInputTokens then totalInputTokens else tokens)"

definition storeBreakpoint :: "string \<Rightarrow> promptCacheProfile \<Rightarrow> int \<Rightarrow> gotime \<Rightarrow> promptCacheBreakpoint \<Rightarrow> promptCacheTracker \<times> bool \<Rightarrow> promptCacheTracker \<times> bool" where
  "storeBreakpoint accountID profile minTokens now b = (\<lambda>(t, updated).
     (if (pr_TotalInputTokens profile > 0 \<and> bp_CumulativeTokens b > pr_TotalInputTokens profile) \<or>
         boundedPromptCacheBreakpointTokens b (pr_TotalInputTokens profile) < minTokens then (t, updated)
      else let i = shardFor accountID; ttl = effectivePromptCacheTTL (pt_maxSupportedTTL t) (bp_TTL b)
           in (clearPendingLocked i accountID (bp_Fingerprint b)
                 (putEntryLocked i accountID (bp_Fingerprint b) (now + ttl) ttl now t), True)))"

text \<open>\<open>Update\<close>: the prefixes of an answered request are stored; \<open>minTokens\<close> is the least cacheable size for its model.\<close>

definition cacheUpdate :: "string \<Rightarrow> promptCacheProfile option \<Rightarrow> int \<Rightarrow> gotime \<Rightarrow> promptCacheTracker \<Rightarrow> promptCacheTracker option" where
  "cacheUpdate accountID profile minTokens now t =
     (case profile of
        None \<Rightarrow> Some t
      | Some p \<Rightarrow>
          if pr_Breakpoints p = [] \<or> accountID = '''' then Some t
          else let i = shardFor accountID;
                   t1 = prunePendingAccountLocked i accountID now (pruneExpiredAccountLocked i accountID now t);
                   (t2, updated) = fold (storeBreakpoint accountID p minTokens now) (pr_Breakpoints p) (t1, False);
                   t3 = enforceAccountLimitLocked i accountID (pt_maxEntriesPerAccount t) t2
               in enforceGlobalLimit (pt_maxEntriesTotal t) (if updated then markStateChanged t3 else t3))"

definition ReleaseReservation :: "promptCacheReservation option \<Rightarrow> promptCacheTracker \<Rightarrow> promptCacheTracker" where
  "ReleaseReservation reservation t =
     (case reservation of
        None \<Rightarrow> t
      | Some r \<Rightarrow>
          if rv_scope r = '''' then t
          else let i = shardFor (rv_scope r); s = pt_shards t ! i; pending = pendingOf s (rv_scope r)
               in case gm_get pending (rv_fingerprint r) of
                    None \<Rightarrow> t
                  | Some p \<Rightarrow> if cp_token p = rv_token r then setShard i (setPending (rv_scope r) (gm_del (rv_fingerprint r) pending) s) t else t)"

definition PruneExpired :: "gotime \<Rightarrow> promptCacheTracker \<Rightarrow> promptCacheTracker" where
  "PruneExpired now t =
     foldl (\<lambda>t i.
       (let accounts = map fst (sh_entriesByAccount (pt_shards t ! i));
            t1 = foldl (\<lambda>t a. prunePendingAccountLocked i a now (pruneExpiredAccountLocked i a now t)) t accounts;
            waiting = map fst (sh_pendingByAccount (pt_shards t1 ! i))
        in foldl (\<lambda>t a. prunePendingAccountLocked i a now t) t1 waiting)) t [0..<length (pt_shards t)]"

definition clampEntry :: "duration \<Rightarrow> gotime \<Rightarrow> promptCacheEntry \<Rightarrow> promptCacheEntry" where
  "clampEntry maxTTL now e =
     (if ce_TTL e \<le> maxTTL then e
      else e\<lparr>ce_TTL := maxTTL, ce_ExpiresAt := (if now + maxTTL < ce_ExpiresAt e then now + maxTTL else ce_ExpiresAt e)\<rparr>)"

definition clampShard :: "duration \<Rightarrow> gotime \<Rightarrow> promptCacheShard \<Rightarrow> promptCacheShard" where
  "clampShard maxTTL now s = s\<lparr>sh_entriesByAccount := map (\<lambda>(a, es). (a, map (\<lambda>(f, e). (f, clampEntry maxTTL now e)) es)) (sh_entriesByAccount s)\<rparr>"

definition clampEntryTTLs :: "duration \<Rightarrow> gotime \<Rightarrow> promptCacheTracker \<Rightarrow> promptCacheTracker" where
  "clampEntryTTLs maxTTL now t =
     (if maxTTL \<le> 0 then t
      else t\<lparr>pt_shards := map (clampShard maxTTL now) (pt_shards t),
             pt_stateGeneration := pt_stateGeneration t +
               length (filter (\<lambda>s. list_ex (\<lambda>(_, es). list_ex (\<lambda>(_, e). \<not> ce_TTL e \<le> maxTTL) es) (sh_entriesByAccount s)) (pt_shards t))\<rparr>)"

definition clearTracker :: "promptCacheTracker \<Rightarrow> promptCacheTracker" where
  "clearTracker t = markStateChanged
     (t\<lparr>pt_shards := map (\<lambda>_. emptyShard) (pt_shards t), pt_entryCount := 0, pt_trackedRequests := 0, pt_cacheHits := 0, pt_cacheMisses := 0,
        pt_cacheReadTokens := 0, pt_cacheCreationTokens := 0, pt_trackedInputTokens := 0, pt_uncachedInputTokens := 0, pt_cacheSkipped := 0,
        pt_missReasons := []\<rparr>)"

definition ConfigurePolicy :: "bool \<Rightarrow> string \<Rightarrow> promptCacheTracker \<Rightarrow> promptCacheTracker" where
  "ConfigurePolicy enabled namespaceMode t =
     (let mode = (if namespaceMode \<noteq> ''account_api_key'' then ''account'' else namespaceMode);
          t1 = t\<lparr>pt_enabled := enabled, pt_namespaceMode := mode\<rparr>
      in if (pt_enabled t \<and> \<not> enabled) \<or> pt_namespaceMode t \<noteq> mode then clearTracker t1 else t1)"

definition ConfigureLimits :: "int \<Rightarrow> int \<Rightarrow> promptCacheTracker \<Rightarrow> promptCacheTracker option" where
  "ConfigureLimits perAccount0 entriesTotal0 t =
     (let perAccount = (if perAccount0 \<le> 0 then defaultPromptCacheMaxEntriesPerAccount else perAccount0);
          entriesTotal1 = (if entriesTotal0 \<le> 0 then defaultPromptCacheMaxEntriesTotal else entriesTotal0);
          entriesTotal = max entriesTotal1 perAccount
      in enforceGlobalLimit entriesTotal
           (enforceAllAccountLimits perAccount (t\<lparr>pt_maxEntriesPerAccount := perAccount, pt_maxEntriesTotal := entriesTotal\<rparr>)))"

definition ConfigureEfficiencyRange :: "duration \<Rightarrow> rat \<Rightarrow> rat \<Rightarrow> gotime \<Rightarrow> promptCacheTracker \<Rightarrow> promptCacheTracker" where
  "ConfigureEfficiencyRange maxTTL0 readMin readMax now t =
     (let maxTTL = (if maxTTL0 \<le> 0 then defaultPromptCacheTTL else maxTTL0); (lo, hi) = normalizeEfficiencyRange readMin readMax
      in clampEntryTTLs maxTTL now (t\<lparr>pt_maxSupportedTTL := maxTTL, pt_readEfficiencyMin := lo, pt_readEfficiencyMax := hi\<rparr>))"

definition ConfigureAccountingMode :: "string \<Rightarrow> promptCacheTracker \<Rightarrow> promptCacheTracker" where
  "ConfigureAccountingMode mode t = t\<lparr>pt_accountingMode := normalizePromptCacheAccountingMode mode\<rparr>"

section \<open>Looking a prompt up\<close>

text \<open>The scan from the longest prefix: the longest stored one, and the longest missing one before it.\<close>

fun scanPrefixes :: "(string, promptCacheEntry) gomap \<Rightarrow> promptCacheProfile \<Rightarrow> int \<Rightarrow> gotime \<Rightarrow> promptCacheBreakpoint list \<Rightarrow>
    promptCacheBreakpoint option \<Rightarrow> (promptCacheBreakpoint \<times> promptCacheEntry) option \<times> promptCacheBreakpoint option" where
  "scanPrefixes entries p minTokens now [] missing = (None, missing)"
| "scanPrefixes entries p minTokens now (b # bs) missing =
     (let tokens = boundedPromptCacheBreakpointTokens b (pr_TotalInputTokens p)
      in if tokens < minTokens \<or> tokens \<le> 0 then scanPrefixes entries p minTokens now bs missing
         else case gm_get entries (bp_Fingerprint b) of
                Some e \<Rightarrow>
                  if ce_ExpiresAt e < now then scanPrefixes entries p minTokens now bs (case missing of None \<Rightarrow> Some (b\<lparr>bp_CumulativeTokens := tokens\<rparr>) | Some m \<Rightarrow> Some m)
                  else (Some (b, e), missing)
              | None \<Rightarrow> scanPrefixes entries p minTokens now bs (case missing of None \<Rightarrow> Some (b\<lparr>bp_CumulativeTokens := tokens\<rparr>) | Some m \<Rightarrow> Some m))"

definition lastTokensOf :: "promptCacheProfile \<Rightarrow> int" where
  "lastTokensOf p = foldl (\<lambda>m b. max m (boundedPromptCacheBreakpointTokens b (pr_TotalInputTokens p))) 0 (pr_Breakpoints p)"

text \<open>The matched entry is used: its expiry is renewed, it moves to the front and its reservation is dropped.\<close>

definition useEntry :: "string \<Rightarrow> gotime \<Rightarrow> promptCacheBreakpoint \<Rightarrow> promptCacheEntry \<Rightarrow> promptCacheTracker \<Rightarrow> promptCacheTracker" where
  "useEntry accountID now b e t =
     (let i = shardFor accountID; ttl = effectivePromptCacheTTL (pt_maxSupportedTTL t) (ce_TTL e)
      in clearPendingLocked i accountID (bp_Fingerprint b)
           (setShard i (touchEntry accountID (bp_Fingerprint b) \<lparr>ce_ExpiresAt = now + ttl, ce_TTL = ttl, ce_LastAccess = now\<rparr> (pt_shards t ! i)) t))"

definition reservePrefix :: "string \<Rightarrow> gotime \<Rightarrow> promptCacheBreakpoint \<Rightarrow> promptCacheTracker \<Rightarrow> bool \<times> promptCacheReservation option \<times> promptCacheTracker" where
  "reservePrefix accountID now missing t =
     (let i = shardFor accountID; s = pt_shards t ! i; pending = pendingOf s accountID; f = bp_Fingerprint missing
      in case gm_get pending f of
           Some p \<Rightarrow> if now < cp_expiresAt p then (True, None, t)
                     else (let token = pt_reservationSequence t + 1
                           in (False, Some \<lparr>rv_scope = accountID, rv_fingerprint = f, rv_token = token\<rparr>,
                               (setShard i (setPending accountID (gm_put f \<lparr>cp_expiresAt = now + promptCacheReservationTTL, cp_token = token\<rparr> pending) s) t)
                                 \<lparr>pt_reservationSequence := token\<rparr>))
         | None \<Rightarrow>
             (let token = pt_reservationSequence t + 1
              in (False, Some \<lparr>rv_scope = accountID, rv_fingerprint = f, rv_token = token\<rparr>,
                  (setShard i (setPending accountID (gm_put f \<lparr>cp_expiresAt = now + promptCacheReservationTTL, cp_token = token\<rparr> pending) s) t)
                    \<lparr>pt_reservationSequence := token\<rparr>)))"

text \<open>What the locked part of \<open>ComputeDetailed\<close> finds out.\<close>

record cacheLookup =
  cl_expiredMatch :: bool
  cl_belowMinimum :: bool
  cl_rawMatchedTokens :: int
  cl_matchedFingerprint :: string
  cl_namespaceEntries :: nat
  cl_inFlight :: bool
  cl_reservation :: "promptCacheReservation option"

definition lookupPrefix :: "string \<Rightarrow> promptCacheProfile \<Rightarrow> int \<Rightarrow> gotime \<Rightarrow> promptCacheTracker \<Rightarrow> cacheLookup \<times> promptCacheTracker" where
  "lookupPrefix accountID p minTokens now t0 =
     (let i = shardFor accountID; lastTokens = lastTokensOf p;
          expiredMatch = list_ex (\<lambda>b. case entryOf (pt_shards t0 ! i) accountID (bp_Fingerprint b) of Some e \<Rightarrow> \<not> now < ce_ExpiresAt e | None \<Rightarrow> False)
            (pr_Breakpoints p);
          t1 = prunePendingAccountLocked i accountID now (pruneExpiredAccountLocked i accountID now t0);
          entries = entriesOf (pt_shards t1 ! i) accountID
      in if lastTokens < minTokens
         then (\<lparr>cl_expiredMatch = expiredMatch, cl_belowMinimum = True, cl_rawMatchedTokens = 0, cl_matchedFingerprint = '''',
                cl_namespaceEntries = length entries, cl_inFlight = False, cl_reservation = None\<rparr>, t1)
         else let (hit, missing) = scanPrefixes entries p minTokens now (rev (pr_Breakpoints p)) None;
                  raw = (case hit of None \<Rightarrow> 0 | Some (b, _) \<Rightarrow> min (boundedPromptCacheBreakpointTokens b (pr_TotalInputTokens p)) lastTokens);
                  t2 = (case hit of None \<Rightarrow> t1 | Some (b, e) \<Rightarrow> useEntry accountID now b e t1);
                  (inFlight, reservation, t3) =
                    (case missing of Some m \<Rightarrow> if raw < lastTokens then reservePrefix accountID now m t2 else (False, None, t2) | None \<Rightarrow> (False, None, t2))
              in (\<lparr>cl_expiredMatch = expiredMatch, cl_belowMinimum = False, cl_rawMatchedTokens = raw,
                   cl_matchedFingerprint = (case hit of None \<Rightarrow> replicate 32 (char_of (0::nat)) | Some (b, _) \<Rightarrow> bp_Fingerprint b),
                   cl_namespaceEntries = length entries, cl_inFlight = inFlight, cl_reservation = reservation\<rparr>,
                  if hit = None then t3 else markStateChanged t3))"

end
