(* ===== verification/Prompt_Cache_Usage.thy ===== *)
theory Prompt_Cache_Usage
  imports Prompt_Cache Stream_Usage Prompts
begin

text \<open>
  The accounting of the prompt cache (\<open>proxy/cache_tracker.go\<close>): what a lookup says of a request, how it is reconciled with the
  counters the provider reports, the diagnosis kept with the request, the statistics, and the usage objects of the answers
  (\<open>buildClaudeUsageMap\<close>, \<open>buildOpenAIUsage\<close>).

  Rates are rational numbers; \<open>ue_rnd\<close> is the rounding of a floating-point operation. The statistics are counted without wrapping
  at 64 bits.
\<close>

section \<open>Data\<close>

record promptCacheUsage =
  cu_CacheCreationInputTokens :: int
  cu_CacheReadInputTokens :: int
  cu_CacheCreation5mInputTokens :: int
  cu_CacheCreation1hInputTokens :: int
  cu_totalInputTokens :: int
  cu_localMatchedInputTokens :: int
  cu_targetReadRate :: rat
  cu_hasTargetReadRate :: bool
  cu_accountingMode :: string
  cu_targetApplied :: bool
  cu_upstreamCacheRead :: int
  cu_upstreamCacheCreation :: int
  cu_hasUpstreamBreakdown :: bool
  cu_reservation :: "promptCacheReservation option"

record promptCacheDiagnostic =
  pd_Status :: string
  pd_Reason :: string
  pd_Source :: string
  pd_MatchedInputTokens :: int
  pd_EligibleInputTokens :: int
  pd_ReadEfficiency :: rat
  pd_ReportedReadRate :: rat
  pd_AccountingMode :: string
  pd_TargetReadRate :: rat
  pd_TargetApplied :: bool
  pd_UpstreamCacheRead :: int
  pd_UpstreamCacheCreate :: int
  pd_HasUpstreamCache :: bool

definition noCacheUsage :: promptCacheUsage where
  "noCacheUsage = \<lparr>cu_CacheCreationInputTokens = 0, cu_CacheReadInputTokens = 0, cu_CacheCreation5mInputTokens = 0,
     cu_CacheCreation1hInputTokens = 0, cu_totalInputTokens = 0, cu_localMatchedInputTokens = 0, cu_targetReadRate = 0,
     cu_hasTargetReadRate = False, cu_accountingMode = '''', cu_targetApplied = False, cu_upstreamCacheRead = 0,
     cu_upstreamCacheCreation = 0, cu_hasUpstreamBreakdown = False, cu_reservation = None\<rparr>"

definition skippedDiagnostic :: promptCacheDiagnostic where
  "skippedDiagnostic = \<lparr>pd_Status = ''skipped'', pd_Reason = '''', pd_Source = ''local'', pd_MatchedInputTokens = 0, pd_EligibleInputTokens = 0,
     pd_ReadEfficiency = 0, pd_ReportedReadRate = 0, pd_AccountingMode = '''', pd_TargetReadRate = 0, pd_TargetApplied = False,
     pd_UpstreamCacheRead = 0, pd_UpstreamCacheCreate = 0, pd_HasUpstreamCache = False\<rparr>"

section \<open>Sizes and rates\<close>

definition defaultMinCacheableTokens :: int where "defaultMinCacheableTokens = 1024"
definition opusMinCacheableTokens :: int where "opusMinCacheableTokens = 4096"
definition opus5MinCacheableTokens :: int where "opus5MinCacheableTokens = 512"

text \<open>Of the discovered models: the least checkpoint of those that describe their prompt caching.\<close>

type_synonym discoveredCaching = "(string, int option) gomap"

definition getDiscoveredCaching :: "discoveredCaching \<Rightarrow> string \<Rightarrow> int option option" where
  "getDiscoveredCaching known m =
     (let key = to_lower (trim_space m)
      in case gm_get known key of
           Some v \<Rightarrow> Some v
         | None \<Rightarrow> if has_suffix key ''-thinking'' then gm_get known (take (length key - 9) key) else None)"

definition discoveredPromptCacheMinimum :: "discoveredCaching \<Rightarrow> string \<Rightarrow> int" where
  "discoveredPromptCacheMinimum known m = (case getDiscoveredCaching known m of Some (Some n) \<Rightarrow> n | _ \<Rightarrow> 0)"

definition minCacheableTokensForModel :: "discoveredCaching \<Rightarrow> string \<Rightarrow> int" where
  "minCacheableTokensForModel known m =
     (let discovered = discoveredPromptCacheMinimum known m
      in if discovered > 0 then discovered
         else if isClaudeOpus5Model m then opus5MinCacheableTokens
         else if contains (to_lower m) ''opus'' then opusMinCacheableTokens
         else defaultMinCacheableTokens)"

text \<open>\<open>math.Round\<close>: halves away from zero.\<close>

definition round_float :: "rat \<Rightarrow> int" where
  "round_float x = (if x < 0 then - \<lfloor>- x + 1/2\<rfloor> else \<lfloor>x + 1/2\<rfloor>)"

text \<open>FNV-1a with 64 bits over the scope, the fingerprint and the eight bytes of the five-minute bucket.\<close>

definition fnvStep64 :: "64 word \<Rightarrow> nat \<Rightarrow> 64 word" where
  "fnvStep64 h b = (xor h (of_nat b)) * 1099511628211"

definition bucketBytes :: "gotime \<Rightarrow> nat list" where
  "bucketBytes now =
     (let seconds = unix_of now;
          bucket = (if seconds < 0 then - ((- seconds) div 300) else seconds div 300) mod 2 ^ 64
      in map (\<lambda>i. nat (bucket div 256 ^ i mod 256)) [0..<8])"

definition deterministicPromptCacheEfficiency :: "(rat \<Rightarrow> rat) \<Rightarrow> rat \<Rightarrow> rat \<Rightarrow> string \<Rightarrow> string \<Rightarrow> gotime \<Rightarrow> rat" where
  "deterministicPromptCacheEfficiency rnd minValue maxValue accountID fingerprint now =
     (if minValue \<ge> maxValue then minValue
      else let hash = foldl fnvStep64 1469598103934665603 (map of_char (accountID @ fingerprint) @ bucketBytes now);
               fraction = of_int (uint hash div 2 ^ 11) / 2 ^ 53
           in rnd (minValue + rnd (fraction * rnd (maxValue - minValue))))"

text \<open>The tokens of the prefixes after the matched one, by their time to live: five minutes and one hour.\<close>

definition breakdownStep :: "promptCacheProfile \<Rightarrow> int \<times> int \<times> int \<Rightarrow> promptCacheBreakpoint \<Rightarrow> int \<times> int \<times> int" where
  "breakdownStep p = (\<lambda>(cache5m, cache1h, previous) b.
     (let cur = boundedPromptCacheBreakpointTokens b (pr_TotalInputTokens p)
      in if cur \<le> previous then (cache5m, cache1h, previous)
         else if bp_TTL b \<ge> hour then (cache5m, cache1h + (cur - previous), cur)
         else (cache5m + (cur - previous), cache1h, cur)))"

definition computePromptCacheTTLBreakdown :: "promptCacheProfile option \<Rightarrow> int \<Rightarrow> int \<times> int" where
  "computePromptCacheTTLBreakdown profile matchedTokens =
     (case profile of
        None \<Rightarrow> (0, 0)
      | Some p \<Rightarrow> let (cache5m, cache1h, _) = foldl (breakdownStep p) (0, 0, matchedTokens) (pr_Breakpoints p) in (cache5m, cache1h))"

section \<open>The lookup of a request\<close>

definition missReason :: "cacheLookup \<Rightarrow> string" where
  "missReason l =
     (if cl_inFlight l then ''cache_creation_in_flight'' else if cl_expiredMatch l then ''expired''
      else if cl_namespaceEntries l = 0 then ''empty_namespace'' else ''prefix_not_found'')"

definition ComputeDetailed :: "(rat \<Rightarrow> rat) \<Rightarrow> discoveredCaching \<Rightarrow> string \<Rightarrow> promptCacheProfile option \<Rightarrow> gotime \<Rightarrow> promptCacheTracker \<Rightarrow>
    (promptCacheUsage \<times> promptCacheDiagnostic) \<times> promptCacheTracker" where
  "ComputeDetailed rnd known accountID profile now t =
     (case profile of
        None \<Rightarrow> ((noCacheUsage, skippedDiagnostic\<lparr>pd_Reason := ''no_cache_breakpoint''\<rparr>), t)
      | Some p \<Rightarrow>
          if pr_Breakpoints p = [] then ((noCacheUsage, skippedDiagnostic\<lparr>pd_Reason := ''no_cache_breakpoint''\<rparr>), t)
          else if accountID = '''' then ((noCacheUsage, skippedDiagnostic\<lparr>pd_Reason := ''missing_cache_scope''\<rparr>), t)
          else
            let lastTokens = lastTokensOf p; d0 = skippedDiagnostic\<lparr>pd_EligibleInputTokens := lastTokens\<rparr>;
                (l, t') = lookupPrefix accountID p (minCacheableTokensForModel known (pr_Model p)) now t
            in if cl_belowMinimum l then ((noCacheUsage, d0\<lparr>pd_Reason := ''below_minimum_tokens''\<rparr>), t')
               else let raw = cl_rawMatchedTokens l;
                        eff = deterministicPromptCacheEfficiency rnd (pt_readEfficiencyMin t) (pt_readEfficiencyMax t) accountID (cl_matchedFingerprint l) now;
                        matched = min (round_float (rnd (rnd (of_int raw) * eff))) lastTokens;
                        (c5m, c1h) = (if cl_inFlight l then (0, 0) else computePromptCacheTTLBreakdown profile raw);
                        creation = (if cl_inFlight l then 0 else max (lastTokens - raw) 0);
                        usage = noCacheUsage\<lparr>cu_CacheCreationInputTokens := creation, cu_CacheReadInputTokens := matched,
                          cu_CacheCreation5mInputTokens := c5m, cu_CacheCreation1hInputTokens := c1h, cu_localMatchedInputTokens := raw,
                          cu_targetReadRate := eff, cu_hasTargetReadRate := True, cu_reservation := cl_reservation l\<rparr>;
                        d1 = (if raw = 0 then d0\<lparr>pd_Status := ''miss'', pd_Reason := missReason l\<rparr> else d0)\<lparr>pd_MatchedInputTokens := raw\<rparr>
                    in ((usage,
                         if raw > 0
                         then d1\<lparr>pd_ReadEfficiency := rnd (rnd (of_int matched) / rnd (of_int raw)),
                                 pd_Status := (if creation > 0 then ''partial_hit'' else ''hit''),
                                 pd_Reason := (if matched = 0 then ''read_efficiency_zero'' else if cl_inFlight l then ''cache_creation_in_flight'' else pd_Reason d1)\<rparr>
                         else d1), t'))"

section \<open>Reconciling\<close>

definition billedClaudeInputTokens :: "int \<Rightarrow> promptCacheUsage \<Rightarrow> int" where
  "billedClaudeInputTokens inputTokens usage = max (inputTokens - cu_CacheCreationInputTokens usage - cu_CacheReadInputTokens usage) 0"

text \<open>The counts are cut to the input, then the creation is divided in the proportion of its parts.\<close>

definition fitCacheTokens :: "(rat \<Rightarrow> rat) \<Rightarrow> int \<Rightarrow> promptCacheUsage \<Rightarrow> promptCacheUsage" where
  "fitCacheTokens rnd inputTokens usage =
     (let created = max (cu_CacheCreationInputTokens usage) 0; reads = max (cu_CacheReadInputTokens usage) 0;
          cacheTokens = saturatingTokenAdd created reads;
          scaled = min (max (round_float (rnd (rnd (rnd (of_int created) * rnd (of_int inputTokens)) / rnd (of_int cacheTokens)))) 0) inputTokens
      in if cacheTokens > inputTokens
         then usage\<lparr>cu_CacheCreationInputTokens := scaled, cu_CacheReadInputTokens := inputTokens - scaled\<rparr>
         else usage\<lparr>cu_CacheCreationInputTokens := created, cu_CacheReadInputTokens := reads\<rparr>)"

definition fitCacheBreakdown :: "(rat \<Rightarrow> rat) \<Rightarrow> promptCacheUsage \<Rightarrow> promptCacheUsage" where
  "fitCacheBreakdown rnd usage =
     (let creation = cu_CacheCreationInputTokens usage; c5m = cu_CacheCreation5mInputTokens usage;
          parts = saturatingTokenAdd c5m (cu_CacheCreation1hInputTokens usage);
          cache5m = min (max (round_float (rnd (rnd (rnd (of_int (max c5m 0)) * rnd (of_int creation)) / rnd (of_int parts)))) 0) creation
      in if creation = 0 then usage\<lparr>cu_CacheCreation5mInputTokens := 0, cu_CacheCreation1hInputTokens := 0\<rparr>
         else if parts = 0 then usage\<lparr>cu_CacheCreation5mInputTokens := creation, cu_CacheCreation1hInputTokens := 0\<rparr>
         else usage\<lparr>cu_CacheCreation5mInputTokens := cache5m, cu_CacheCreation1hInputTokens := creation - cache5m\<rparr>)"

definition reconcilePromptCacheUsage :: "(rat \<Rightarrow> rat) \<Rightarrow> promptCacheUsage \<Rightarrow> int \<Rightarrow> promptCacheUsage" where
  "reconcilePromptCacheUsage rnd usage inputTokens =
     (if inputTokens \<le> 0 then noCacheUsage else fitCacheBreakdown rnd (fitCacheTokens rnd inputTokens usage))"

definition targetPromptCacheReadTokens :: "(rat \<Rightarrow> rat) \<Rightarrow> int \<Rightarrow> rat \<Rightarrow> rat \<Rightarrow> rat \<Rightarrow> int" where
  "targetPromptCacheReadTokens rnd inputTokens targetRate0 minRate0 maxRate0 =
     (if inputTokens \<le> 0 then 0
      else let (minRate, maxRate) = normalizeEfficiencyRange minRate0 maxRate0;
               targetRate = clampFloat targetRate0 minRate maxRate;
               desired = round_float (rnd (rnd (of_int inputTokens) * targetRate));
               minimum = min (max \<lceil>rnd (rnd (of_int inputTokens) * minRate)\<rceil> 0) inputTokens;
               maximum = min (max \<lfloor>rnd (rnd (of_int inputTokens) * maxRate)\<rfloor> 0) inputTokens
           in if minimum \<le> maximum then min (max desired minimum) maximum else min (max desired 0) inputTokens)"

definition accountingSettings :: "promptCacheTracker \<Rightarrow> string \<times> rat \<times> rat" where
  "accountingSettings t =
     (if \<not> pt_enabled t then (''official_actual'', pt_readEfficiencyMin t, pt_readEfficiencyMax t)
      else (normalizePromptCacheAccountingMode (pt_accountingMode t), pt_readEfficiencyMin t, pt_readEfficiencyMax t))"

text \<open>What the provider reports, when it reports the cache at all, stands before the local estimate.\<close>

definition cacheBaseline :: "(rat \<Rightarrow> rat) \<Rightarrow> promptCacheUsage \<Rightarrow> KiroTokenUsage \<Rightarrow> int \<Rightarrow> promptCacheProfile option \<Rightarrow> promptCacheUsage" where
  "cacheBaseline rnd synthetic upstr inputTokens profile =
     (if ku_HasCacheBreakdown upstr
      then let b = noCacheUsage\<lparr>cu_CacheCreationInputTokens := ku_CacheCreationInputTokens upstr, cu_CacheReadInputTokens := ku_CacheReadInputTokens upstr,
                 cu_CacheCreation5mInputTokens := ku_CacheCreation5mTokens upstr, cu_CacheCreation1hInputTokens := ku_CacheCreation1hTokens upstr\<rparr>;
               (c5m, c1h) = computePromptCacheTTLBreakdown profile 0;
               b1 = (if cu_CacheCreationInputTokens b > 0 \<and> saturatingTokenAdd (cu_CacheCreation5mInputTokens b) (cu_CacheCreation1hInputTokens b) = 0
                     then b\<lparr>cu_CacheCreation5mInputTokens := c5m, cu_CacheCreation1hInputTokens := c1h\<rparr> else b)
           in reconcilePromptCacheUsage rnd b1 inputTokens
      else reconcilePromptCacheUsage rnd synthetic inputTokens)"

definition targetRateOf :: "(rat \<Rightarrow> rat) \<Rightarrow> promptCacheUsage \<Rightarrow> rat \<Rightarrow> rat \<Rightarrow> rat" where
  "targetRateOf rnd synthetic lo hi =
     clampFloat (if cu_hasTargetReadRate synthetic then clampFloat (cu_targetReadRate synthetic) lo hi else rnd (rnd (lo + hi) / 2)) 0 1"

definition resolvePromptCacheUsageForMode :: "usageEnv \<Rightarrow> promptCacheUsage \<Rightarrow> KiroTokenUsage \<Rightarrow> int \<Rightarrow> promptCacheProfile option \<Rightarrow>
    string \<Rightarrow> rat \<Rightarrow> rat \<Rightarrow> promptCacheUsage \<times> int" where
  "resolvePromptCacheUsageForMode env synthetic upstr0 inputTokens0 profile mode0 targetMin targetMax =
     (let rnd = ue_rnd env; upstr = normalizeKiroTokenUsage env upstr0;
          inputTokens = (if ku_InputTokens upstr > 0 then ku_InputTokens upstr else max inputTokens0 0);
          baseline = cacheBaseline rnd synthetic upstr inputTokens profile;
          mode = normalizePromptCacheAccountingMode mode0;
          warmHit = (cu_localMatchedInputTokens synthetic > 0 \<or> (ku_HasCacheBreakdown upstr \<and> ku_CacheReadInputTokens upstr > 0));
          targetApplied = (mode = ''aggregator_target'' \<and> warmHit \<and> inputTokens > 0);
          (lo, hi) = normalizeEfficiencyRange targetMin targetMax;
          targetRate = (if targetApplied then targetRateOf rnd synthetic lo hi else 0);
          reported =
            (if mode = ''official_actual'' \<and> \<not> ku_HasCacheBreakdown upstr then noCacheUsage
             else if targetApplied
             then reconcilePromptCacheUsage rnd (baseline\<lparr>cu_CacheCreationInputTokens := 0, cu_CacheCreation5mInputTokens := 0,
                    cu_CacheCreation1hInputTokens := 0, cu_CacheReadInputTokens := targetPromptCacheReadTokens rnd inputTokens targetRate lo hi\<rparr>) inputTokens
             else baseline)
      in (reported\<lparr>cu_accountingMode := mode, cu_targetApplied := targetApplied, cu_targetReadRate := targetRate, cu_hasTargetReadRate := targetApplied,
            cu_localMatchedInputTokens := cu_localMatchedInputTokens synthetic, cu_upstreamCacheRead := max (ku_CacheReadInputTokens upstr) 0,
            cu_upstreamCacheCreation := max (ku_CacheCreationInputTokens upstr) 0, cu_hasUpstreamBreakdown := ku_HasCacheBreakdown upstr,
            cu_totalInputTokens := max inputTokens 0\<rparr>, inputTokens))"

definition ResolveUsage :: "usageEnv \<Rightarrow> promptCacheUsage \<Rightarrow> KiroTokenUsage \<Rightarrow> int \<Rightarrow> promptCacheProfile option \<Rightarrow> promptCacheTracker \<Rightarrow> promptCacheUsage \<times> int" where
  "ResolveUsage env synthetic upstr inputTokens profile t =
     (let (mode, lo, hi) = accountingSettings t in resolvePromptCacheUsageForMode env synthetic upstr inputTokens profile mode lo hi)"

section \<open>Diagnosis and statistics\<close>

definition rateOf :: "(rat \<Rightarrow> rat) \<Rightarrow> int \<Rightarrow> int \<Rightarrow> rat" where
  "rateOf rnd part whole = rnd (rnd (of_int part) / rnd (of_int whole))"

definition finalizePromptCacheDiagnostic :: "(rat \<Rightarrow> rat) \<Rightarrow> promptCacheDiagnostic \<Rightarrow> KiroTokenUsage \<Rightarrow> promptCacheUsage \<Rightarrow> int \<Rightarrow> promptCacheDiagnostic" where
  "finalizePromptCacheDiagnostic rnd d upstr usage inputTokens =
     (let d0 = d\<lparr>pd_AccountingMode := normalizePromptCacheAccountingMode (cu_accountingMode usage), pd_TargetApplied := cu_targetApplied usage,
                 pd_TargetReadRate := cu_targetReadRate usage, pd_UpstreamCacheRead := cu_upstreamCacheRead usage,
                 pd_UpstreamCacheCreate := cu_upstreamCacheCreation usage, pd_HasUpstreamCache := cu_hasUpstreamBreakdown usage\<rparr>;
          reads = cu_CacheReadInputTokens usage; hit = (if cu_CacheCreationInputTokens usage > 0 then ''partial_hit'' else ''hit'');
          rated = (\<lambda>d. if inputTokens > 0 then d\<lparr>pd_ReadEfficiency := rateOf rnd reads inputTokens, pd_ReportedReadRate := rateOf rnd reads inputTokens\<rparr> else d)
      in if cu_targetApplied usage
         then rated (d0\<lparr>pd_Source := ''aggregator_target'', pd_Status := (if reads = 0 then ''miss'' else hit),
                pd_Reason := (if reads = 0 then ''read_efficiency_zero'' else ''''),
                pd_EligibleInputTokens := (if pd_EligibleInputTokens d = 0 then inputTokens else pd_EligibleInputTokens d)\<rparr>)
         else if pd_AccountingMode d0 = ''official_actual'' \<and> \<not> ku_HasCacheBreakdown upstr
         then d0\<lparr>pd_Status := ''skipped'', pd_Reason := ''upstream_cache_usage_unavailable'', pd_Source := ''upstream'',
                pd_EligibleInputTokens := inputTokens, pd_ReadEfficiency := 0\<rparr>
         else if ku_HasCacheBreakdown upstr
         then rated (d0\<lparr>pd_Status := (if reads > 0 then hit else ''miss''), pd_Reason := (if reads > 0 then '''' else ''upstream_no_cache_read''),
                pd_Source := ''upstream'', pd_MatchedInputTokens := reads, pd_EligibleInputTokens := inputTokens\<rparr>)
         else d0\<lparr>pd_Source := ''local'',
                pd_ReadEfficiency := (if pd_MatchedInputTokens d > 0 then rateOf rnd reads (pd_MatchedInputTokens d) else pd_ReadEfficiency d),
                pd_ReportedReadRate := (if inputTokens > 0 then rateOf rnd reads inputTokens else pd_ReportedReadRate d)\<rparr>)"

definition recordMissReason :: "string \<Rightarrow> promptCacheTracker \<Rightarrow> promptCacheTracker" where
  "recordMissReason reason0 t =
     (let reason = trim_space reason0
      in if reason = '''' then t else t\<lparr>pt_missReasons := gm_put reason (gm_zero 0 (pt_missReasons t) reason + 1) (pt_missReasons t)\<rparr>)"

definition RecordDecision :: "promptCacheUsage \<Rightarrow> promptCacheDiagnostic \<Rightarrow> promptCacheTracker \<Rightarrow> promptCacheTracker" where
  "RecordDecision usage d t =
     (if pd_Status d = ''skipped'' \<or> pd_Status d = '''' then recordMissReason (pd_Reason d) (t\<lparr>pt_cacheSkipped := pt_cacheSkipped t + 1\<rparr>)
      else let whole = (if cu_totalInputTokens usage \<le> 0 then max (cu_CacheReadInputTokens usage) 0 + max (cu_CacheCreationInputTokens usage) 0
                        else cu_totalInputTokens usage);
               reads = min (max (cu_CacheReadInputTokens usage) 0) (max whole 0);
               created = min (max (cu_CacheCreationInputTokens usage) 0) (max (whole - reads) 0);
               uncached = max (whole - reads - created) 0;
               t1 = t\<lparr>pt_trackedRequests := pt_trackedRequests t + 1\<rparr>;
               t2 = (if whole > 0 then t1\<lparr>pt_trackedInputTokens := pt_trackedInputTokens t1 + nat whole,
                       pt_uncachedInputTokens := pt_uncachedInputTokens t1 + nat uncached\<rparr> else t1);
               t3 = (if reads > 0 then t2\<lparr>pt_cacheHits := pt_cacheHits t2 + 1, pt_cacheReadTokens := pt_cacheReadTokens t2 + nat reads\<rparr>
                     else recordMissReason (pd_Reason d) (t2\<lparr>pt_cacheMisses := pt_cacheMisses t2 + 1\<rparr>))
           in if created > 0 then t3\<lparr>pt_cacheCreationTokens := pt_cacheCreationTokens t3 + nat created\<rparr> else t3)"

definition RecordUsage :: "promptCacheUsage \<Rightarrow> bool \<Rightarrow> promptCacheTracker \<Rightarrow> promptCacheTracker" where
  "RecordUsage usage tracked t =
     (if \<not> tracked then t
      else RecordDecision usage (skippedDiagnostic\<lparr>pd_Status := (if cu_CacheReadInputTokens usage > 0 then ''hit'' else ''miss'')\<rparr>) t)"

record promptCacheStats =
  ps_Entries :: int
  ps_Accounts :: nat
  ps_TrackedRequests :: nat
  ps_CacheHits :: nat
  ps_CacheMisses :: nat
  ps_CacheSkipped :: nat
  ps_HitRate :: rat
  ps_CacheReadTokens :: nat
  ps_CacheCreationTokens :: nat
  ps_TrackedInputTokens :: nat
  ps_UncachedInputTokens :: nat
  ps_CacheReadRate :: rat
  ps_MissReasons :: "(string, nat) gomap"

definition cacheStats :: "(rat \<Rightarrow> rat) \<Rightarrow> promptCacheTracker \<Rightarrow> promptCacheStats" where
  "cacheStats rnd t =
     \<lparr>ps_Entries = pt_entryCount t, ps_Accounts = sum_list (map (\<lambda>s. length (sh_entriesByAccount s)) (pt_shards t)),
      ps_TrackedRequests = pt_trackedRequests t, ps_CacheHits = pt_cacheHits t, ps_CacheMisses = pt_cacheMisses t,
      ps_CacheSkipped = pt_cacheSkipped t,
      ps_HitRate = (if pt_trackedRequests t > 0 then rateOf rnd (int (pt_cacheHits t)) (int (pt_trackedRequests t)) else 0),
      ps_CacheReadTokens = pt_cacheReadTokens t, ps_CacheCreationTokens = pt_cacheCreationTokens t,
      ps_TrackedInputTokens = pt_trackedInputTokens t, ps_UncachedInputTokens = pt_uncachedInputTokens t,
      ps_CacheReadRate = (if pt_trackedInputTokens t > 0 then rateOf rnd (int (pt_cacheReadTokens t)) (int (pt_trackedInputTokens t)) else 0),
      ps_MissReasons = pt_missReasons t\<rparr>"

section \<open>Usage objects\<close>

definition numberOf :: "int \<Rightarrow> jsonValue" where
  "numberOf n = JNumber (show_int n)"

definition buildClaudeUsageMap :: "(rat \<Rightarrow> rat) \<Rightarrow> int \<Rightarrow> int \<Rightarrow> int \<Rightarrow> promptCacheUsage \<Rightarrow> bool \<Rightarrow> (string, jsonValue) gomap" where
  "buildClaudeUsageMap rnd inputTokens0 outputTokens thinkingTokens usage0 includeCache =
     (let inputTokens = max inputTokens0 0; usage = reconcilePromptCacheUsage rnd usage0 inputTokens
      in [(''input_tokens'', numberOf (billedClaudeInputTokens inputTokens usage)), (''output_tokens'', numberOf (max outputTokens 0))] @
         (if thinkingTokens > 0 then [(''thinking_tokens'', numberOf thinkingTokens)] else []) @
         (if \<not> includeCache then []
          else [(''cache_creation_input_tokens'', numberOf (cu_CacheCreationInputTokens usage)),
                (''cache_read_input_tokens'', numberOf (cu_CacheReadInputTokens usage)),
                (''cache_creation'', JObject [(''ephemeral_5m_input_tokens'', numberOf (cu_CacheCreation5mInputTokens usage)),
                   (''ephemeral_1h_input_tokens'', numberOf (cu_CacheCreation1hInputTokens usage))])]))"

record OpenAIPromptTokensDetails =
  od_CachedTokens :: int
  od_CacheCreationTokens :: int
  od_CacheWriteTokens :: int

record OpenAIUsage =
  ou_PromptTokens :: int
  ou_CompletionTokens :: int
  ou_TotalTokens :: int
  ou_PromptTokensDetails :: "OpenAIPromptTokensDetails option"
  ou_ReasoningTokens :: "int option"

definition buildOpenAIUsage :: "(rat \<Rightarrow> rat) \<Rightarrow> int \<Rightarrow> int \<Rightarrow> int \<Rightarrow> promptCacheUsage \<Rightarrow> OpenAIUsage" where
  "buildOpenAIUsage rnd inputTokens0 outputTokens0 thinkingTokens usage0 =
     (let inputTokens = max inputTokens0 0; outputTokens = max outputTokens0 0; usage = reconcilePromptCacheUsage rnd usage0 inputTokens
      in \<lparr>ou_PromptTokens = inputTokens, ou_CompletionTokens = outputTokens, ou_TotalTokens = saturatingTokenAdd inputTokens outputTokens,
          ou_PromptTokensDetails = Some \<lparr>od_CachedTokens = cu_CacheReadInputTokens usage,
            od_CacheCreationTokens = cu_CacheCreationInputTokens usage, od_CacheWriteTokens = cu_CacheCreationInputTokens usage\<rparr>,
          ou_ReasoningTokens = Some thinkingTokens\<rparr>)"

definition buildOpenAIUsageMap :: "(rat \<Rightarrow> rat) \<Rightarrow> int \<Rightarrow> int \<Rightarrow> int \<Rightarrow> promptCacheUsage \<Rightarrow> (string, jsonValue) gomap" where
  "buildOpenAIUsageMap rnd inputTokens0 outputTokens0 thinkingTokens usage0 =
     (let inputTokens = max inputTokens0 0; outputTokens = max outputTokens0 0; usage = reconcilePromptCacheUsage rnd usage0 inputTokens
      in [(''prompt_tokens'', numberOf inputTokens), (''completion_tokens'', numberOf outputTokens),
          (''total_tokens'', numberOf (saturatingTokenAdd inputTokens outputTokens)),
          (''prompt_tokens_details'', JObject [(''cached_tokens'', numberOf (cu_CacheReadInputTokens usage)),
             (''cache_creation_tokens'', numberOf (cu_CacheCreationInputTokens usage)),
             (''cache_write_tokens'', numberOf (cu_CacheCreationInputTokens usage))]),
          (''completion_tokens_details'', JObject [(''reasoning_tokens'', numberOf thinkingTokens)])])"

end
