(* ===== verification/Prompt_Cache_Usage_Props.thy ===== *)
theory Prompt_Cache_Usage_Props
  imports Prompt_Cache_Usage
begin

text \<open>
  The counters reported for the prompt cache add up: reads and creations are part of the input, the parts of the creation are the
  creation, and what a lookup announces to create is what it did not find.
\<close>

section \<open>Reconciled counters\<close>

text \<open>The bounds hold whatever the rounding of the floating-point operations is.\<close>

definition usageFits :: "int \<Rightarrow> promptCacheUsage \<Rightarrow> bool" where
  "usageFits n u \<longleftrightarrow> 0 \<le> cu_CacheCreationInputTokens u \<and> 0 \<le> cu_CacheReadInputTokens u \<and>
     cu_CacheCreationInputTokens u + cu_CacheReadInputTokens u \<le> max n 0 \<and> 0 \<le> cu_CacheCreation5mInputTokens u \<and> 0 \<le> cu_CacheCreation1hInputTokens u \<and>
     cu_CacheCreation5mInputTokens u + cu_CacheCreation1hInputTokens u = cu_CacheCreationInputTokens u"

lemma noCacheUsage_fits: "usageFits n noCacheUsage"
  by (simp add: usageFits_def noCacheUsage_def)

lemma saturatingTokenAdd_le: "0 \<le> a \<Longrightarrow> 0 \<le> b \<Longrightarrow> saturatingTokenAdd a b \<le> n \<Longrightarrow> n < maxInt64 \<Longrightarrow> a + b \<le> n"
  by (auto simp: saturatingTokenAdd_def Let_def split: if_splits)

lemma fitCacheTokens_bounds:
  assumes "0 < n" "n < maxInt64"
  shows "0 \<le> cu_CacheCreationInputTokens (fitCacheTokens rnd n u)" "0 \<le> cu_CacheReadInputTokens (fitCacheTokens rnd n u)"
    and "cu_CacheCreationInputTokens (fitCacheTokens rnd n u) + cu_CacheReadInputTokens (fitCacheTokens rnd n u) \<le> n"
proof -
  let ?c = "max (cu_CacheCreationInputTokens u) 0" and ?r = "max (cu_CacheReadInputTokens u) 0"
  have "?c + ?r \<le> n" if "\<not> saturatingTokenAdd ?c ?r > n" using saturatingTokenAdd_le [of ?c ?r n] that assms by simp
  then show "0 \<le> cu_CacheCreationInputTokens (fitCacheTokens rnd n u)" "0 \<le> cu_CacheReadInputTokens (fitCacheTokens rnd n u)"
    and "cu_CacheCreationInputTokens (fitCacheTokens rnd n u) + cu_CacheReadInputTokens (fitCacheTokens rnd n u) \<le> n"
    using assms(1) by (auto simp: fitCacheTokens_def Let_def)
qed

lemma fitCacheBreakdown_bounds:
  assumes "0 \<le> cu_CacheCreationInputTokens u"
  shows "cu_CacheCreationInputTokens (fitCacheBreakdown rnd u) = cu_CacheCreationInputTokens u"
    "cu_CacheReadInputTokens (fitCacheBreakdown rnd u) = cu_CacheReadInputTokens u"
    "0 \<le> cu_CacheCreation5mInputTokens (fitCacheBreakdown rnd u)" "0 \<le> cu_CacheCreation1hInputTokens (fitCacheBreakdown rnd u)"
    "cu_CacheCreation5mInputTokens (fitCacheBreakdown rnd u) + cu_CacheCreation1hInputTokens (fitCacheBreakdown rnd u) = cu_CacheCreationInputTokens u"
  using assms by (simp_all add: fitCacheBreakdown_def Let_def)

lemma reconcile_fits:
  assumes "n < maxInt64"
  shows "usageFits n (reconcilePromptCacheUsage rnd u n)"
proof (cases "n \<le> 0")
  case False
  then have n: "0 < n" by simp
  note T = fitCacheTokens_bounds [OF n assms, of rnd u]
  note B = fitCacheBreakdown_bounds [OF T(1), of rnd]
  show ?thesis using False T B by (simp add: reconcilePromptCacheUsage_def usageFits_def)
qed (simp add: reconcilePromptCacheUsage_def noCacheUsage_fits)

lemma usageFits_update:
  "usageFits n (u\<lparr>cu_accountingMode := a, cu_targetApplied := b, cu_targetReadRate := c, cu_hasTargetReadRate := d, cu_localMatchedInputTokens := e,
     cu_upstreamCacheRead := f, cu_upstreamCacheCreation := g, cu_hasUpstreamBreakdown := h, cu_totalInputTokens := i\<rparr>) = usageFits n u"
  by (simp add: usageFits_def)

lemma resolve_fits:
  assumes r: "resolvePromptCacheUsageForMode env synthetic upstr inputTokens profile mode lo hi = (u, n)" and n: "n < maxInt64"
  shows "usageFits n u" "0 \<le> n"
proof -
  define up where "up = normalizeKiroTokenUsage env upstr"
  define k where "k = (if ku_InputTokens up > 0 then ku_InputTokens up else max inputTokens 0)"
  obtain x y where e: "normalizeEfficiencyRange lo hi = (x, y)" by (rule prod.exhaust)
  note R = r [unfolded resolvePromptCacheUsageForMode_def Let_def up_def [symmetric] k_def [symmetric] e prod.case]
  have "k = n" using R by blast
  then have k: "k < maxInt64" using n by simp
  have base: "usageFits k (cacheBaseline (ue_rnd env) synthetic up k profile)"
    by (simp add: cacheBaseline_def Let_def reconcile_fits [OF k] split: prod.splits)
  have "usageFits k u" using R base reconcile_fits [OF k] noCacheUsage_fits by (auto simp: usageFits_update split: if_splits)
  then show "usageFits n u" using \<open>k = n\<close> by simp
  show "0 \<le> n" using \<open>k = n\<close> by (auto simp: k_def)
qed

text \<open>
  C26. The usage of an answer adds up, whatever the local estimate, the counters of the provider, the accounting mode and the rounding:
  in the object for Claude clients the plain input, the creation and the read are together the input, none is negative, and the
  creation is the sum of its five-minute and its one-hour part; in the object for OpenAI clients the cached and the created tokens
  are at most the prompt tokens.
\<close>

theorem usage_adds_up:
  assumes r: "ResolveUsage env synthetic upstr inputTokens profile t = (u, n)" and n: "n < maxInt64"
  shows "0 \<le> n \<and> cu_CacheCreationInputTokens u + cu_CacheReadInputTokens u \<le> n \<and>
    (\<exists>plain creation reads c5m c1h.
      gm_get (buildClaudeUsageMap (ue_rnd env) n out thinking u True) ''input_tokens'' = Some (numberOf plain) \<and>
      gm_get (buildClaudeUsageMap (ue_rnd env) n out thinking u True) ''cache_creation_input_tokens'' = Some (numberOf creation) \<and>
      gm_get (buildClaudeUsageMap (ue_rnd env) n out thinking u True) ''cache_read_input_tokens'' = Some (numberOf reads) \<and>
      gm_get (buildClaudeUsageMap (ue_rnd env) n out thinking u True) ''cache_creation'' =
        Some (JObject [(''ephemeral_5m_input_tokens'', numberOf c5m), (''ephemeral_1h_input_tokens'', numberOf c1h)]) \<and>
      0 \<le> plain \<and> 0 \<le> creation \<and> 0 \<le> reads \<and> plain + creation + reads = n \<and> 0 \<le> c5m \<and> 0 \<le> c1h \<and> c5m + c1h = creation \<and>
      ou_PromptTokensDetails (buildOpenAIUsage (ue_rnd env) n out thinking u) =
        Some \<lparr>od_CachedTokens = reads, od_CacheCreationTokens = creation, od_CacheWriteTokens = creation\<rparr> \<and>
      ou_PromptTokens (buildOpenAIUsage (ue_rnd env) n out thinking u) = n)"
proof -
  obtain mode lo hi where s: "accountingSettings t = (mode, lo, hi)" by (metis prod.exhaust)
  have r': "resolvePromptCacheUsageForMode env synthetic upstr inputTokens profile mode lo hi = (u, n)" using r s by (simp add: ResolveUsage_def)
  note R = resolve_fits [OF r' n]
  define v where "v = reconcilePromptCacheUsage (ue_rnd env) u n"
  have v: "usageFits n v" unfolding v_def by (rule reconcile_fits [OF n])
  have plain: "billedClaudeInputTokens n v + cu_CacheCreationInputTokens v + cu_CacheReadInputTokens v = n" "0 \<le> billedClaudeInputTokens n v"
    using v R(2) by (simp_all add: billedClaudeInputTokens_def usageFits_def)
  have m: "max n 0 = n" using R(2) by simp
  show ?thesis
  proof (intro conjI)
    show "\<exists>plain creation reads c5m c1h.
      gm_get (buildClaudeUsageMap (ue_rnd env) n out thinking u True) ''input_tokens'' = Some (numberOf plain) \<and>
      gm_get (buildClaudeUsageMap (ue_rnd env) n out thinking u True) ''cache_creation_input_tokens'' = Some (numberOf creation) \<and>
      gm_get (buildClaudeUsageMap (ue_rnd env) n out thinking u True) ''cache_read_input_tokens'' = Some (numberOf reads) \<and>
      gm_get (buildClaudeUsageMap (ue_rnd env) n out thinking u True) ''cache_creation'' =
        Some (JObject [(''ephemeral_5m_input_tokens'', numberOf c5m), (''ephemeral_1h_input_tokens'', numberOf c1h)]) \<and>
      0 \<le> plain \<and> 0 \<le> creation \<and> 0 \<le> reads \<and> plain + creation + reads = n \<and> 0 \<le> c5m \<and> 0 \<le> c1h \<and> c5m + c1h = creation \<and>
      ou_PromptTokensDetails (buildOpenAIUsage (ue_rnd env) n out thinking u) =
        Some \<lparr>od_CachedTokens = reads, od_CacheCreationTokens = creation, od_CacheWriteTokens = creation\<rparr> \<and>
      ou_PromptTokens (buildOpenAIUsage (ue_rnd env) n out thinking u) = n"
      by (rule exI [of _ "billedClaudeInputTokens n v"], rule exI [of _ "cu_CacheCreationInputTokens v"], rule exI [of _ "cu_CacheReadInputTokens v"],
          rule exI [of _ "cu_CacheCreation5mInputTokens v"], rule exI [of _ "cu_CacheCreation1hInputTokens v"])
        (use v plain m in \<open>simp add: buildClaudeUsageMap_def buildOpenAIUsage_def Let_def v_def [symmetric] usageFits_def\<close>)
  qed (use R in \<open>auto simp: usageFits_def\<close>)
qed

definition exactEnv :: usageEnv where
  "exactEnv = \<lparr>ue_numbers = \<lparr>sn_float = (\<lambda>_. 0), sn_parseFloat = (\<lambda>_. None), sn_scanFloat = (\<lambda>_. None)\<rparr>, ue_rnd = (\<lambda>x. x)\<rparr>"

lemma usage_adds_up_witness:
  "cu_CacheCreationInputTokens (fst (ResolveUsage exactEnv (noCacheUsage\<lparr>cu_CacheCreationInputTokens := 300, cu_CacheReadInputTokens := 900\<rparr>)
     zeroUsage 1000 None (newPromptCacheTrackerWithEfficiencyRange hour 1 1))) = 250 \<and>
   cu_CacheCreationInputTokens (fst (ResolveUsage exactEnv (noCacheUsage\<lparr>cu_CacheCreationInputTokens := 300, cu_CacheReadInputTokens := 900\<rparr>)
     zeroUsage 1000 None (newPromptCacheTrackerWithEfficiencyRange hour 1 1))) +
   cu_CacheReadInputTokens (fst (ResolveUsage exactEnv (noCacheUsage\<lparr>cu_CacheCreationInputTokens := 300, cu_CacheReadInputTokens := 900\<rparr>)
     zeroUsage 1000 None (newPromptCacheTrackerWithEfficiencyRange hour 1 1))) \<le> 1000"
proof -
  let ?r = "ResolveUsage exactEnv (noCacheUsage\<lparr>cu_CacheCreationInputTokens := 300, cu_CacheReadInputTokens := 900\<rparr>)
     zeroUsage 1000 None (newPromptCacheTrackerWithEfficiencyRange hour 1 1)"
  have n: "snd ?r = 1000" by code_simp
  have c: "cu_CacheCreationInputTokens (fst ?r) = 250" by code_simp
  have "?r = (fst ?r, 1000)" using n by (metis prod.collapse)
  from usage_adds_up [OF this] c show ?thesis by (simp add: maxInt64_def)
qed

section \<open>What a lookup announces\<close>

lemma bounded_nonneg: "0 \<le> boundedPromptCacheBreakpointTokens b n"
  by (simp add: boundedPromptCacheBreakpointTokens_def Let_def)

abbreviation tokensOf :: "promptCacheProfile \<Rightarrow> promptCacheBreakpoint \<Rightarrow> int" where
  "tokensOf p b \<equiv> boundedPromptCacheBreakpointTokens b (pr_TotalInputTokens p)"

lemma foldl_max_init: "foldl (\<lambda>m b. max m (f b)) (max x y) bs = max x (foldl (\<lambda>m b. max m (f b)) y bs)" for x y :: int
  by (induction bs arbitrary: y) (auto simp: max.assoc)

lemma lastTokens_nonneg: "0 \<le> lastTokensOf p"
  using foldl_max_init [of "tokensOf p" 0 0 "pr_Breakpoints p"] by (simp add: lastTokensOf_def)

lemma breakdown_sum:
  "foldl (breakdownStep p) (x, y, prev) bs = (x', y', prev') \<Longrightarrow>
   prev' = foldl (\<lambda>m b. max m (tokensOf p b)) prev bs \<and> x' + y' = x + y + prev' - prev \<and> x \<le> x' \<and> y \<le> y'"
proof (induction bs arbitrary: x y prev)
  case (Cons b bs)
  obtain u v w where s: "breakdownStep p (x, y, prev) b = (u, v, w)" by (metis prod.exhaust)
  have step: "w = max prev (tokensOf p b)" "u + v = x + y + w - prev" "x \<le> u" "y \<le> v"
    using s by (auto simp: breakdownStep_def Let_def split: if_splits)
  from Cons.IH [of u v w] Cons.prems s have "prev' = foldl (\<lambda>m b. max m (tokensOf p b)) w bs \<and> x' + y' = u + v + prev' - w \<and> u \<le> x' \<and> v \<le> y'" by simp
  then show ?case using step by auto
qed simp

lemma breakdown_total:
  assumes "computePromptCacheTTLBreakdown (Some p) raw = (c5m, c1h)" "0 \<le> raw" "raw \<le> lastTokensOf p"
  shows "c5m + c1h = lastTokensOf p - raw" "0 \<le> c5m" "0 \<le> c1h"
proof -
  obtain w where f: "foldl (breakdownStep p) (0, 0, raw) (pr_Breakpoints p) = (c5m, c1h, w)"
    using assms(1) by (auto simp: computePromptCacheTTLBreakdown_def split: prod.splits)
  note B = breakdown_sum [OF f]
  have "foldl (\<lambda>m b. max m (tokensOf p b)) raw (pr_Breakpoints p) = max raw (lastTokensOf p)"
    using foldl_max_init [of "tokensOf p" raw 0 "pr_Breakpoints p"] assms(2) by (simp add: lastTokensOf_def)
  then show "c5m + c1h = lastTokensOf p - raw" "0 \<le> c5m" "0 \<le> c1h" using B assms(3) by auto
qed

lemma lookup_raw_bounds:
  assumes "lookupPrefix a p m now t = (l, t')"
  shows "0 \<le> cl_rawMatchedTokens l" "cl_rawMatchedTokens l \<le> lastTokensOf p"
proof -
  define t1 where "t1 = prunePendingAccountLocked (shardFor a) a now (pruneExpiredAccountLocked (shardFor a) a now t)"
  obtain hit missing where sc: "scanPrefixes (entriesOf (pt_shards t1 ! shardFor a) a) p m now (rev (pr_Breakpoints p)) None = (hit, missing)"
    by (rule prod.exhaust)
  define raw where "raw = (case hit of None \<Rightarrow> 0 | Some (b, _) \<Rightarrow> min (tokensOf p b) (lastTokensOf p))"
  have "0 \<le> raw" "raw \<le> lastTokensOf p"
    using bounded_nonneg lastTokens_nonneg by (auto simp: raw_def split: option.splits)
  moreover have "cl_rawMatchedTokens l = (if lastTokensOf p < m then 0 else raw)"
    using assms unfolding lookupPrefix_def Let_def t1_def [symmetric] sc prod.case raw_def [symmetric] by (auto split: if_splits prod.splits)
  ultimately show "0 \<le> cl_rawMatchedTokens l" "cl_rawMatchedTokens l \<le> lastTokensOf p" using lastTokens_nonneg by auto
qed

text \<open>
  What a lookup announces to create is the eligible part of the prompt that it did not find, and nothing when another request is creating it;
  the five-minute and the one-hour part of it add up to it. It announces a reservation only if it found less than the eligible part.
\<close>

lemma lookup_partition:
  assumes "ComputeDetailed rnd known a (Some p) now t = ((u, d), t')"
  shows "cu_CacheCreation5mInputTokens u + cu_CacheCreation1hInputTokens u = cu_CacheCreationInputTokens u \<and>
    cu_CacheCreationInputTokens u \<in> {0, pd_EligibleInputTokens d - pd_MatchedInputTokens d} \<and>
    cu_CacheReadInputTokens u \<le> max (pd_EligibleInputTokens d) 0 \<and> 0 \<le> pd_MatchedInputTokens d \<and> pd_MatchedInputTokens d \<le> max (pd_EligibleInputTokens d) 0 \<and>
    cu_localMatchedInputTokens u = pd_MatchedInputTokens d"
proof (cases "pr_Breakpoints p = [] \<or> a = ''''")
  case True
  then have "u = noCacheUsage" "\<exists>r. d = skippedDiagnostic\<lparr>pd_Reason := r\<rparr>"
    using assms by (cases "pr_Breakpoints p = []"; simp add: ComputeDetailed_def; blast)+
  then show ?thesis by (auto simp: noCacheUsage_def skippedDiagnostic_def)
next
  case False
  let ?m = "minCacheableTokensForModel known (pr_Model p)"
  obtain l t1 where l: "lookupPrefix a p ?m now t = (l, t1)" by (rule prod.exhaust)
  note L = lookup_raw_bounds [OF l]
  obtain c5m c1h where b: "computePromptCacheTTLBreakdown (Some p) (cl_rawMatchedTokens l) = (c5m, c1h)" by (rule prod.exhaust)
  note B = breakdown_total [OF b L]
  show ?thesis
    using assms False l L B b lastTokens_nonneg [of p]
    by (simp add: ComputeDetailed_def Let_def noCacheUsage_def skippedDiagnostic_def split: if_splits) auto
qed

end
