(* ===== verification/Content_Estimate.thy ===== *)
theory Content_Estimate
  imports Translate
begin

text \<open>
  Token estimates of client requests (\<open>proxy/token_estimator.go\<close>): texts, images, tool calls and results of messages as clients send
  them. The image decoders of the standard library are a parameter, \<open>ee_imageSize\<close>: width and height of an image's bytes.
\<close>

section \<open>Base64\<close>

definition base64Value :: "char \<Rightarrow> nat" where
  "base64Value c =
     (let n = of_char c
      in if 65 \<le> n \<and> n \<le> 90 then n - 65 else if 97 \<le> n \<and> n \<le> 122 then n - 71 else if 48 \<le> n \<and> n \<le> 57 then n + 4
         else if c = CHR ''+'' \<or> c = CHR ''-'' then 62 else 63)"

fun base64Groups :: "nat list \<Rightarrow> string" where
  "base64Groups (a # b # c # d # ns) =
     char_of (a * 4 + b div 16) # char_of (b mod 16 * 16 + c div 4) # char_of (c mod 4 * 64 + d) # base64Groups ns"
| "base64Groups [a, b, c] = [char_of (a * 4 + b div 16), char_of (b mod 16 * 16 + c div 4)]"
| "base64Groups [a, b] = [char_of (a * 4 + b div 16)]"
| "base64Groups _ = []"

definition base64Digits :: "bool \<Rightarrow> string \<Rightarrow> nat list" where
  "base64Digits url s = map base64Value (takeWhile (base64Char url) (filter (\<lambda>c. c \<noteq> CHR 0x0A \<and> c \<noteq> CHR 0x0D) s))"

definition decodeBase64Bytes :: "string \<Rightarrow> string option" where
  "decodeBase64Bytes data =
     (if base64Decodes False True data \<or> base64Decodes False False data then Some (base64Groups (base64Digits False data))
      else if base64Decodes True True data \<or> base64Decodes True False data then Some (base64Groups (base64Digits True data))
      else None)"

section \<open>Images\<close>

record estimateEnv =
  ee_rnd :: "rat \<Rightarrow> rat"
  ee_imageSize :: "string \<Rightarrow> (int \<times> int) option"

definition isImageContentBlock :: "(string, jsonValue) gomap \<Rightarrow> bool" where
  "isImageContentBlock obj =
     (let typeName = to_lower (trim_space (stringMember ''type'' obj))
      in if typeName \<in> {''image'', ''image_url'', ''input_image''} then True
         else if typeName \<in> {''file'', ''input_file''} then extractImageFromClaudeBlock obj \<noteq> None
         else list_ex (\<lambda>k. gm_get obj k \<noteq> None) [''image_url'', ''image_base64'', ''b64_json''] \<or>
           (case stringOf obj ''url'' of None \<Rightarrow> False | Some u \<Rightarrow> has_prefix (to_lower (trim_space u)) ''data:image/'') \<or>
           (case membersOf obj ''source'' of
              None \<Rightarrow> False
            | Some source \<Rightarrow> list_ex (\<lambda>k. case stringOf source k of None \<Rightarrow> False | Some m \<Rightarrow> has_prefix (to_lower (trim_space m)) ''image/'')
                [''media_type'', ''mediaType'', ''mime_type'', ''mime'']))"

definition defaultImageInputTokens :: int where
  "defaultImageInputTokens = 100"

definition estimateImageContentTokens :: "estimateEnv \<Rightarrow> (string, jsonValue) gomap \<Rightarrow> int" where
  "estimateImageContentTokens env block =
     (case extractImageFromClaudeBlock block of
        None \<Rightarrow> defaultImageInputTokens
      | Some im \<Rightarrow>
          if trim_space (im_Bytes im) = '''' then defaultImageInputTokens
          else case decodeBase64Bytes (im_Bytes im) of
                 None \<Rightarrow> defaultImageInputTokens
               | Some bytes \<Rightarrow>
                   (case ee_imageSize env bytes of
                      None \<Rightarrow> defaultImageInputTokens
                    | Some (width, height) \<Rightarrow>
                        if width \<le> 0 \<or> height \<le> 0 then defaultImageInputTokens
                        else let tokens = \<lceil>ee_rnd env (ee_rnd env (of_int width * of_int height) / 750)\<rceil>
                             in if tokens < defaultImageInputTokens then defaultImageInputTokens
                                else if tokens > maxImageInputTokens then maxImageInputTokens else tokens))"

section \<open>Messages\<close>

lemma gm_get_size: "gm_get ms k = Some v \<Longrightarrow> size v < Suc (size_list (size_prod (\<lambda>_. 0) size) ms)"
  by (induction ms) (auto split: if_splits)

definition approxOf :: "estimateEnv \<Rightarrow> (string, jsonValue) gomap \<Rightarrow> string \<Rightarrow> int option" where
  "approxOf env obj key = map_option (estimateApproxTokens (ee_rnd env)) (stringOf obj key)"

definition toolUseTokens :: "estimateEnv \<Rightarrow> (string, jsonValue) gomap \<Rightarrow> int" where
  "toolUseTokens env obj =
     (case approxOf env obj ''name'' of None \<Rightarrow> 0 | Some n \<Rightarrow> n) +
     (case gm_get obj ''input'' of None \<Rightarrow> 0 | Some v \<Rightarrow> estimateJSONTokens (ee_rnd env) v)"

text \<open>The size a block states by its type, when it does; the tokens of its content are given.\<close>

definition typedTokens :: "estimateEnv \<Rightarrow> (string, jsonValue) gomap \<Rightarrow> int option \<Rightarrow> int option" where
  "typedTokens env obj content =
     (let typeName = to_lower (trim_space (stringMember ''type'' obj))
      in if typeName = ''text'' then approxOf env obj ''text''
         else if typeName = ''thinking'' then approxOf env obj ''thinking''
         else if typeName = ''tool_use'' then (if toolUseTokens env obj > 0 then Some (toolUseTokens env obj) else None)
         else if typeName = ''tool_result'' then content
         else None)"

definition objectTokens :: "estimateEnv \<Rightarrow> (string, jsonValue) gomap \<Rightarrow> int option \<Rightarrow> int" where
  "objectTokens env obj content =
     (case typedTokens env obj content of
        Some n \<Rightarrow> n
      | None \<Rightarrow>
          let total0 = (case approxOf env obj ''text'' of None \<Rightarrow> 0 | Some n \<Rightarrow> n) + (case approxOf env obj ''thinking'' of None \<Rightarrow> 0 | Some n \<Rightarrow> n) +
                (case content of None \<Rightarrow> 0 | Some n \<Rightarrow> n)
          in if total0 > 0 then total0 else estimateJSONTokens (ee_rnd env) (JObject obj))"

function estimateClaudeValueTokens :: "estimateEnv \<Rightarrow> jsonValue \<Rightarrow> int" where
  "estimateClaudeValueTokens env JNull = 0"
| "estimateClaudeValueTokens env (JString s) = estimateApproxTokens (ee_rnd env) s"
| "estimateClaudeValueTokens env (JArray vs) = sum_list (map (\<lambda>v. estimateClaudeValueTokens env v) vs)"
| "estimateClaudeValueTokens env (JObject obj) =
     (if isImageContentBlock obj then estimateImageContentTokens env obj
      else objectTokens env obj (case gm_get obj ''content'' of None \<Rightarrow> None | Some v \<Rightarrow> Some (estimateClaudeValueTokens env v)))"
| "estimateClaudeValueTokens env (JNumber n) = estimateJSONTokens (ee_rnd env) (JNumber n)"
| "estimateClaudeValueTokens env (JBool b) = estimateJSONTokens (ee_rnd env) (JBool b)"
  by pat_completeness auto
termination
  by (relation "measure (\<lambda>(env, v). size v)") (auto dest: gm_get_size simp: less_Suc_eq_le intro: order.trans size_list_estimation')

definition estimateClaudeRequestInputTokens :: "estimateEnv \<Rightarrow> ClaudeRequest \<Rightarrow> int" where
  "estimateClaudeRequestInputTokens env req =
     estimateClaudeValueTokens env (cr_System req) +
     sum_list (map (\<lambda>m. estimateClaudeValueTokens env (cm_Content m)) (cr_Messages req)) +
     sum_list (map (\<lambda>t. estimateApproxTokens (ee_rnd env) (cl_Name t) + estimateApproxTokens (ee_rnd env) (cl_Description t) +
       estimateJSONTokens (ee_rnd env) (cl_InputSchema t)) (cr_Tools req))"

text \<open>The same for the OpenAI chat protocol; its blocks have neither thinking nor tool calls.\<close>

definition openAIObjectTokens :: "estimateEnv \<Rightarrow> (string, jsonValue) gomap \<Rightarrow> int option \<Rightarrow> int" where
  "openAIObjectTokens env obj content =
     (let typeName = to_lower (trim_space (stringMember ''type'' obj));
          typed = (if typeName \<in> {''text'', ''input_text'', ''output_text''} then approxOf env obj ''text''
                   else if typeName = ''tool_result'' then content else None)
      in case typed of
           Some n \<Rightarrow> n
         | None \<Rightarrow>
             let total0 = (case approxOf env obj ''text'' of None \<Rightarrow> 0 | Some n \<Rightarrow> n) + (case content of None \<Rightarrow> 0 | Some n \<Rightarrow> n)
             in if total0 > 0 then total0 else estimateJSONTokens (ee_rnd env) (JObject obj))"

function estimateOpenAIContentTokens :: "estimateEnv \<Rightarrow> jsonValue \<Rightarrow> int" where
  "estimateOpenAIContentTokens env JNull = 0"
| "estimateOpenAIContentTokens env (JString s) = estimateApproxTokens (ee_rnd env) s"
| "estimateOpenAIContentTokens env (JArray vs) = sum_list (map (\<lambda>v. estimateOpenAIContentTokens env v) vs)"
| "estimateOpenAIContentTokens env (JObject obj) =
     (if isImageContentBlock obj then estimateImageContentTokens env obj
      else openAIObjectTokens env obj (case gm_get obj ''content'' of None \<Rightarrow> None | Some v \<Rightarrow> Some (estimateOpenAIContentTokens env v)))"
| "estimateOpenAIContentTokens env (JNumber n) = estimateJSONTokens (ee_rnd env) (JNumber n)"
| "estimateOpenAIContentTokens env (JBool b) = estimateJSONTokens (ee_rnd env) (JBool b)"
  by pat_completeness auto
termination
  by (relation "measure (\<lambda>(env, v). size v)") (auto dest: gm_get_size simp: less_Suc_eq_le intro: order.trans size_list_estimation')

definition estimateOpenAIRequestInputTokens :: "estimateEnv \<Rightarrow> OpenAIRequest \<Rightarrow> int" where
  "estimateOpenAIRequestInputTokens env req =
     sum_list (map (\<lambda>m. estimateOpenAIContentTokens env (om_Content m) + estimateApproxTokens (ee_rnd env) (om_ToolCallID m) +
       sum_list (map (\<lambda>c. estimateApproxTokens (ee_rnd env) (tc_Name c) + estimateApproxTokens (ee_rnd env) (tc_Arguments c)) (om_ToolCalls m)))
       (or_Messages req)) +
     sum_list (map (\<lambda>t. estimateApproxTokens (ee_rnd env) (ot_Name t) + estimateApproxTokens (ee_rnd env) (ot_Description t) +
       estimateJSONTokens (ee_rnd env) (ot_Parameters t)) (or_Tools req))"

definition estimateOpenAIOutputTokens :: "(rat \<Rightarrow> rat) \<Rightarrow> string \<Rightarrow> string \<Rightarrow> KiroToolUse list \<Rightarrow> int" where
  "estimateOpenAIOutputTokens rnd content reasoningContent toolUses = estimateClaudeOutputTokens rnd content reasoningContent toolUses"

section \<open>Bounds\<close>

lemma decodeBase64Bytes_iff: "decodeBase64Bytes data \<noteq> None \<longleftrightarrow> decodeBase64Payload data"
  by (auto simp: decodeBase64Bytes_def decodeBase64Payload_def)

lemma image_tokens_bounds: "defaultImageInputTokens \<le> estimateImageContentTokens env block" "estimateImageContentTokens env block \<le> maxImageInputTokens"
  by (auto simp: estimateImageContentTokens_def defaultImageInputTokens_def maxImageInputTokens_def Let_def split: option.splits prod.splits)

lemma estimates_nonneg [simp]: "0 \<le> estimateApproxTokens rnd s" "0 \<le> estimateJSONTokens rnd v"
  by (simp_all add: estimateApproxTokens_def estimateJSONTokens_def)

lemma approxOf_nonneg: "approxOf env obj k = Some n \<Longrightarrow> 0 \<le> n"
  by (auto simp: approxOf_def)

lemma typedTokens_nonneg: "(\<And>n. content = Some n \<Longrightarrow> 0 \<le> n) \<Longrightarrow> typedTokens env obj content = Some n \<Longrightarrow> 0 \<le> n"
  by (auto simp: typedTokens_def Let_def dest: approxOf_nonneg split: if_splits)

lemma objectTokens_nonneg: "(\<And>n. content = Some n \<Longrightarrow> 0 \<le> n) \<Longrightarrow> 0 \<le> objectTokens env obj content"
  using typedTokens_nonneg [of content env obj] by (auto simp: objectTokens_def Let_def split: option.splits)

lemma estimateClaudeValueTokens_nonneg: "0 \<le> estimateClaudeValueTokens env v"
proof (induction env v rule: estimateClaudeValueTokens.induct)
  case (4 env obj)
  note IH = 4
  have "0 \<le> estimateImageContentTokens env obj" using image_tokens_bounds(1) [of env obj] by (simp add: defaultImageInputTokens_def)
  moreover have "0 \<le> objectTokens env obj (case gm_get obj ''content'' of None \<Rightarrow> None | Some v \<Rightarrow> Some (estimateClaudeValueTokens env v))"
    if "\<not> isImageContentBlock obj"
    by (rule objectTokens_nonneg) (use IH [OF that] in \<open>auto split: option.splits\<close>)
  ultimately show ?case by simp
qed (auto intro!: sum_list_nonneg)

end
