(* ===== verification/Prompt_Cache_Profile.thy ===== *)
theory Prompt_Cache_Profile
  imports Prompt_Cache Content_Estimate
begin

text \<open>
  The profile of a request (\<open>proxy/cache_tracker.go\<close>): a prompt is a list of blocks, every prefix of it has a fingerprint, the digest
  of the canonical texts of its blocks, and a number of tokens. \<open>BuildKiroProfile\<close> takes the blocks of the payload that goes upstream,
  \<open>BuildClaudeProfile\<close> those of the client's request with its cache marks.

  SHA-256, the conversion of number literals and \<open>time.ParseDuration\<close> are parameters. The field \<open>promptCacheTTL\<close> of the payload is an argument.
\<close>

section \<open>Canonical values\<close>

record fingerprintEnv =
  fe_estimate :: estimateEnv
  fe_sha256 :: "string \<Rightarrow> string"
  fe_float :: "string \<Rightarrow> rat"
  fe_parseDuration :: "string \<Rightarrow> duration option"

definition isCachePositionKey :: "string \<Rightarrow> bool" where
  "isCachePositionKey key \<longleftrightarrow> key \<in> {''tool_index'', ''system_index'', ''message_index'', ''block_index''}"

definition stripCachePositionKeys :: "(string, jsonValue) gomap \<Rightarrow> (string, jsonValue) gomap" where
  "stripCachePositionKeys obj = filter (\<lambda>(k, _). \<not> isCachePositionKey k) obj"

fun writeCanonicalJSON :: "jsonValue \<Rightarrow> string" where
  "writeCanonicalJSON JNull = ''null''"
| "writeCanonicalJSON (JBool b) = (if b then ''true'' else ''false'')"
| "writeCanonicalJSON (JNumber n) = n"
| "writeCanonicalJSON (JString s) = encodeString s"
| "writeCanonicalJSON (JArray vs) = CHR ''['' # joinWith '','' (map writeCanonicalJSON vs) @ '']''"
| "writeCanonicalJSON (JObject ms) =
     encodeMembers (sort_stable (\<lambda>a b. bytesBefore (fst a) (fst b))
       (filter (\<lambda>(k, _). k \<noteq> ''cache_control'') (map (\<lambda>(k, v). (k, writeCanonicalJSON v)) ms)))"

definition hexOf :: "string \<Rightarrow> string" where
  "hexOf s = concat (map (\<lambda>c. [hexDigitChar (of_char c div 16), hexDigitChar (of_char c mod 16)]) s)"

text \<open>An image stands for its format and the digest of its bytes.\<close>

definition imageDescriptor :: "fingerprintEnv \<Rightarrow> KiroImage \<Rightarrow> (string, jsonValue) gomap" where
  "imageDescriptor env im =
     (let bytes = (case decodeBase64Bytes (im_Bytes im) of None \<Rightarrow> im_Bytes im | Some b \<Rightarrow> b)
      in [(''type'', JString ''image''), (''format'', JString (im_Format im)), (''sha256'', JString (hexOf (fe_sha256 env bytes)))])"

definition kiroImageFingerprint :: "fingerprintEnv \<Rightarrow> KiroImage \<Rightarrow> jsonValue" where
  "kiroImageFingerprint env im = JObject (imageDescriptor env im)"

definition cacheImageFingerprint :: "fingerprintEnv \<Rightarrow> (string, jsonValue) gomap \<Rightarrow> jsonValue" where
  "cacheImageFingerprint env block =
     (case extractImageFromClaudeBlock block of
        Some im \<Rightarrow> JObject (imageDescriptor env im)
      | None \<Rightarrow> JObject [(''type'', JString ''image''), (''sha256'', JString (hexOf (fe_sha256 env (encodeValue (JObject block)))))])"

fun normalizeCacheFingerprintValue :: "fingerprintEnv \<Rightarrow> jsonValue \<Rightarrow> jsonValue" where
  "normalizeCacheFingerprintValue env (JArray vs) = JArray (map (\<lambda>v. normalizeCacheFingerprintValue env v) vs)"
| "normalizeCacheFingerprintValue env (JObject ms) =
     (if isImageContentBlock ms then cacheImageFingerprint env ms
      else JObject (map (\<lambda>(k, v). (k, normalizeCacheFingerprintValue env v)) ms))"
| "normalizeCacheFingerprintValue env v = v"

text \<open>\<open>writeHashChunk\<close>: the length in decimal, a zero byte, the text, a zero byte.\<close>

definition hashChunk :: "string \<Rightarrow> string" where
  "hashChunk chunk = show_nat (length chunk) @ [char_of (0::nat)] @ chunk @ [char_of (0::nat)]"

section \<open>Blocks\<close>

record cacheablePromptBlock =
  bk_Value :: jsonValue
  bk_Tokens :: int
  bk_TTL :: duration
  bk_IsMessageEnd :: bool

definition chunkOf :: "fingerprintEnv \<Rightarrow> cacheablePromptBlock \<Rightarrow> string" where
  "chunkOf env b = writeCanonicalJSON (normalizeCacheFingerprintValue env (bk_Value b))"

definition normalizePromptCacheTTL :: "duration \<Rightarrow> duration" where
  "normalizePromptCacheTTL ttl = (if ttl \<le> 0 then 0 else if ttl > hour then hour else if ttl > defaultPromptCacheTTL then hour else defaultPromptCacheTTL)"

definition finalizeStep :: "int \<Rightarrow> promptCacheBreakpoint list \<times> int \<Rightarrow> promptCacheBreakpoint \<Rightarrow> promptCacheBreakpoint list \<times> int" where
  "finalizeStep totalInputTokens = (\<lambda>(normalized, previous) b.
     (let tokens = min (max (bp_CumulativeTokens b) 0) totalInputTokens
      in if tokens \<le> previous then (normalized, previous) else (normalized @ [b\<lparr>bp_CumulativeTokens := tokens\<rparr>], tokens)))"

definition finalizePromptCacheProfile :: "promptCacheBreakpoint list \<Rightarrow> int \<Rightarrow> int \<Rightarrow> string \<Rightarrow> promptCacheProfile option" where
  "finalizePromptCacheProfile breakpoints cumulativeTokens totalInputTokens0 m =
     (let totalInputTokens = (if totalInputTokens0 \<le> 0 then cumulativeTokens else totalInputTokens0);
          normalized = fst (foldl (finalizeStep totalInputTokens) ([], 0) breakpoints)
      in if totalInputTokens \<le> 0 \<or> normalized = [] then None
         else Some \<lparr>pr_Breakpoints = normalized, pr_TotalInputTokens = totalInputTokens, pr_Model = m\<rparr>)"

section \<open>The payload\<close>

text \<open>The hash state is what was written so far.\<close>

definition kiroStep :: "fingerprintEnv \<Rightarrow> promptCacheBreakpoint list \<times> string \<times> int \<Rightarrow> cacheablePromptBlock \<Rightarrow> promptCacheBreakpoint list \<times> string \<times> int" where
  "kiroStep env = (\<lambda>(bps, written, tokens) b.
     (let w = written @ hashChunk (chunkOf env b); n = tokens + max (bk_Tokens b) 0
      in (bps @ [\<lparr>bp_Fingerprint = fe_sha256 env w, bp_CumulativeTokens = n, bp_TTL = normalizePromptCacheTTL (bk_TTL b)\<rparr>], w, n)))"

definition kiroBreakpoints :: "fingerprintEnv \<Rightarrow> cacheablePromptBlock list \<Rightarrow> promptCacheBreakpoint list \<times> int" where
  "kiroBreakpoints env blocks = (let (bps, _, n) = foldl (kiroStep env) ([], '''', 0) blocks in (bps, n))"

definition buildKiroPayloadProfile :: "fingerprintEnv \<Rightarrow> cacheablePromptBlock list \<Rightarrow> int \<Rightarrow> string \<Rightarrow> promptCacheProfile option" where
  "buildKiroPayloadProfile env blocks totalInputTokens m =
     (if blocks = [] then None
      else let (bps, n) = kiroBreakpoints env blocks in finalizePromptCacheProfile bps n totalInputTokens m)"

definition kiroToolCacheBlocks :: "fingerprintEnv \<Rightarrow> UserInputMessageContext \<Rightarrow> duration \<Rightarrow> cacheablePromptBlock list" where
  "kiroToolCacheBlocks env ctx ttl =
     map (\<lambda>tool. \<lparr>bk_Value = JObject [(''kind'', JString ''tool''), (''name'', JString (tw_Name tool)), (''description'', JString (tw_Description tool)),
                    (''input_schema'', normalizeCacheFingerprintValue env (tw_InputSchema tool))],
                  bk_Tokens = estimateKiroToolWrapperTokens (ee_rnd (fe_estimate env)) tool, bk_TTL = ttl, bk_IsMessageEnd = False\<rparr>) (uc_Tools ctx)"

definition kiroToolResultsCacheBlock :: "fingerprintEnv \<Rightarrow> UserInputMessageContext \<Rightarrow> duration \<Rightarrow> cacheablePromptBlock list" where
  "kiroToolResultsCacheBlock env ctx ttl =
     (if uc_ToolResults ctx = [] then []
      else [\<lparr>bk_Value = JObject [(''kind'', JString ''tool_results''),
                (''results'', JArray (map (\<lambda>r. JObject [(''id'', JString (tr_ToolUseID r)), (''status'', JString (tr_Status r)),
                   (''content'', JArray (map (\<lambda>c. JString (rc_Text c)) (tr_Content r)))]) (uc_ToolResults ctx)))],
             bk_Tokens = estimateKiroToolContextTokens (ee_rnd (fe_estimate env)) (Some \<lparr>uc_Tools = [], uc_ToolResults = uc_ToolResults ctx\<rparr>),
             bk_TTL = ttl, bk_IsMessageEnd = False\<rparr>])"

definition kiroUserContentCacheBlock :: "fingerprintEnv \<Rightarrow> KiroUserInputMessage \<Rightarrow> duration \<Rightarrow> cacheablePromptBlock" where
  "kiroUserContentCacheBlock env u ttl =
     \<lparr>bk_Value = JObject [(''kind'', JString ''user''), (''model_id'', JString (um_ModelID u)), (''origin'', JString (um_Origin u)),
        (''content'', JString (um_Content u)), (''images'', JArray (map (kiroImageFingerprint env) (um_Images u)))],
      bk_Tokens = estimateKiroUserContentTokens (ee_rnd (fe_estimate env)) u, bk_TTL = ttl, bk_IsMessageEnd = False\<rparr>"

definition kiroUserCacheBlocks :: "fingerprintEnv \<Rightarrow> KiroUserInputMessage \<Rightarrow> duration \<Rightarrow> cacheablePromptBlock list" where
  "kiroUserCacheBlocks env u ttl =
     kiroUserContentCacheBlock env u ttl #
     (case um_Context u of None \<Rightarrow> [] | Some ctx \<Rightarrow> kiroToolCacheBlocks env ctx ttl @ kiroToolResultsCacheBlock env ctx ttl)"

definition kiroHistoryCacheBlocks :: "fingerprintEnv \<Rightarrow> KiroHistoryMessage \<Rightarrow> duration \<Rightarrow> cacheablePromptBlock list" where
  "kiroHistoryCacheBlocks env entry ttl =
     (case hm_User entry of None \<Rightarrow> [] | Some u \<Rightarrow> kiroUserCacheBlocks env u ttl) @
     (case hm_Assistant entry of
        None \<Rightarrow> []
      | Some a \<Rightarrow>
          [\<lparr>bk_Value = JObject [(''kind'', JString ''assistant''), (''text'', JString (am_Content a)),
              (''tools'', JArray (map (\<lambda>tu. JObject [(''id'', JString (tu_ToolUseID tu)), (''name'', JString (tu_Name tu)),
                 (''input'', normalizeCacheFingerprintValue env (tu_Input tu))]) (am_ToolUses a)))],
            bk_Tokens = estimateKiroAssistantResponseTokens (ee_rnd (fe_estimate env)) a, bk_TTL = ttl, bk_IsMessageEnd = False\<rparr>])"

definition automaticKiroProfileTTL :: "duration \<Rightarrow> promptCacheTracker \<Rightarrow> duration" where
  "automaticKiroProfileTTL promptCacheTTL t =
     (if promptCacheTTL > 0 then normalizePromptCacheTTL promptCacheTTL
      else if pt_maxSupportedTTL t > 0 then normalizePromptCacheTTL (pt_maxSupportedTTL t) else defaultPromptCacheTTL)"

text \<open>Tools stand before the history, the message and its tool results after it.\<close>

definition kiroProfileBlocks :: "fingerprintEnv \<Rightarrow> KiroPayload \<Rightarrow> duration \<Rightarrow> cacheablePromptBlock list" where
  "kiroProfileBlocks env payload ttl =
     (let cur = kp_Current payload
      in [\<lparr>bk_Value = JObject [(''kind'', JString ''kiro_payload_v3''), (''model'', JString (currentMessageModelID payload)),
             (''fields'', normalizeCacheFingerprintValue env (JObject (kp_AdditionalModelRequestFields payload)))],
           bk_Tokens = 0, bk_TTL = ttl, bk_IsMessageEnd = False\<rparr>] @
         (case um_Context cur of None \<Rightarrow> [] | Some ctx \<Rightarrow> kiroToolCacheBlocks env ctx ttl) @
         concat (map (\<lambda>entry. kiroHistoryCacheBlocks env entry ttl) (kp_History payload)) @
         [kiroUserContentCacheBlock env cur ttl] @
         (case um_Context cur of None \<Rightarrow> [] | Some ctx \<Rightarrow> kiroToolResultsCacheBlock env ctx ttl))"

definition BuildKiroProfile :: "fingerprintEnv \<Rightarrow> KiroPayload \<Rightarrow> duration \<Rightarrow> int \<Rightarrow> promptCacheTracker \<Rightarrow> promptCacheProfile option" where
  "BuildKiroProfile env payload promptCacheTTL totalInputTokens t =
     (if \<not> pt_enabled t then None
      else buildKiroPayloadProfile env (kiroProfileBlocks env payload (automaticKiroProfileTTL promptCacheTTL t)) totalInputTokens
             (currentMessageModelID payload))"

section \<open>The client's request\<close>

definition parsePromptCacheTTLValue :: "fingerprintEnv \<Rightarrow> jsonValue option \<Rightarrow> duration option" where
  "parsePromptCacheTTLValue env v =
     (case v of
        Some (JString s) \<Rightarrow>
          (let trimmed = trim_space (to_lower s)
           in if trimmed = '''' then None
              else case fe_parseDuration env trimmed of
                     Some d \<Rightarrow> Some d
                   | None \<Rightarrow> map_option (\<lambda>seconds. wrap64 (seconds * second)) (parseInt64 trimmed))
      | Some (JNumber n) \<Rightarrow> if fe_float env n > 0 then Some (wrap64 (trunc_float (fe_float env n) * second)) else None
      | _ \<Rightarrow> None)"

definition extractPromptCacheTTL :: "fingerprintEnv \<Rightarrow> jsonValue \<Rightarrow> duration" where
  "extractPromptCacheTTL env v =
     (case jsonMembers v of
        None \<Rightarrow> 0
      | Some block \<Rightarrow>
          (case membersOf block ''cache_control'' of
             None \<Rightarrow> 0
           | Some cacheControl \<Rightarrow>
               if to_lower (stringMember ''type'' cacheControl) \<noteq> ''ephemeral'' then 0
               else case parsePromptCacheTTLValue env (gm_get cacheControl ''ttl'') of Some ttl \<Rightarrow> ttl | None \<Rightarrow> defaultPromptCacheTTL))"

definition isAnthropicBillingHeaderBlock :: "jsonValue \<Rightarrow> bool" where
  "isAnthropicBillingHeaderBlock v =
     (case jsonMembers v of
        None \<Rightarrow> False
      | Some block \<Rightarrow>
          if stringMember ''type'' block \<noteq> '''' \<and> stringMember ''type'' block \<noteq> ''text'' then False
          else case stringOf block ''text'' of
                 None \<Rightarrow> False
               | Some text \<Rightarrow> has_prefix (to_lower (dropWhile (\<lambda>c. c \<in> {CHR '' '', CHR 0x09, CHR 0x0D, CHR 0x0A}) text)) ''x-anthropic-billing-header:'')"

fun estimateCacheValueTokens :: "estimateEnv \<Rightarrow> jsonValue \<Rightarrow> int" where
  "estimateCacheValueTokens env JNull = 0"
| "estimateCacheValueTokens env (JString s) = estimateApproxTokens (ee_rnd env) s"
| "estimateCacheValueTokens env (JArray vs) = sum_list (map (\<lambda>v. estimateCacheValueTokens env v) vs)"
| "estimateCacheValueTokens env (JObject ms) =
     (if isImageContentBlock ms then estimateImageContentTokens env ms
      else sum_list (map (\<lambda>(k, v). if k = ''cache_control'' \<or> isCachePositionKey k then 0
             else estimateApproxTokens (ee_rnd env) k + estimateCacheValueTokens env v) ms))"
| "estimateCacheValueTokens env v = estimateJSONTokens (ee_rnd env) v"

definition appendPromptBlock :: "fingerprintEnv \<Rightarrow> (string, jsonValue) gomap \<Rightarrow> jsonValue \<Rightarrow> bool \<Rightarrow> cacheablePromptBlock list" where
  "appendPromptBlock env wrapper blockValue isMessageEnd =
     (if isAnthropicBillingHeaderBlock blockValue then []
      else let fingerprintValue = JObject (stripCachePositionKeys (wrapper @ [(''block'', blockValue)]))
           in [\<lparr>bk_Value = fingerprintValue, bk_Tokens = estimateCacheValueTokens (fe_estimate env) fingerprintValue,
                bk_TTL = normalizePromptCacheTTL (extractPromptCacheTTL env blockValue), bk_IsMessageEnd = isMessageEnd\<rparr>])"

definition jsonIndex :: "nat \<Rightarrow> jsonValue" where
  "jsonIndex i = JNumber (show_nat i)"

definition jsonText :: "string \<Rightarrow> jsonValue" where
  "jsonText s = JObject [(''type'', JString ''text''), (''text'', JString s)]"

definition systemWrapper :: "nat \<Rightarrow> (string, jsonValue) gomap" where
  "systemWrapper i = [(''kind'', JString ''system''), (''system_index'', jsonIndex i)]"

definition appendSystemCacheBlocks :: "fingerprintEnv \<Rightarrow> jsonValue \<Rightarrow> cacheablePromptBlock list" where
  "appendSystemCacheBlocks env system =
     (case system of
        JString s \<Rightarrow> appendPromptBlock env (systemWrapper 0) (jsonText s) False
      | JArray vs \<Rightarrow> concat (map (\<lambda>(i, block). appendPromptBlock env (systemWrapper i) block False) (enumerate 0 vs))
      | _ \<Rightarrow> [])"

definition messageWrapper :: "nat \<Rightarrow> string \<Rightarrow> nat \<Rightarrow> (string, jsonValue) gomap" where
  "messageWrapper messageIndex role blockIndex =
     [(''kind'', JString ''message''), (''message_index'', jsonIndex messageIndex), (''role'', JString role), (''block_index'', jsonIndex blockIndex)]"

definition appendMessageCacheBlocks :: "fingerprintEnv \<Rightarrow> nat \<Rightarrow> ClaudeMessage \<Rightarrow> cacheablePromptBlock list" where
  "appendMessageCacheBlocks env messageIndex msg =
     (case cm_Content msg of
        JString s \<Rightarrow> appendPromptBlock env (messageWrapper messageIndex (cm_Role msg) 0) (jsonText s) True
      | JArray vs \<Rightarrow> concat (map (\<lambda>(i, block). appendPromptBlock env (messageWrapper messageIndex (cm_Role msg) i) block (Suc i = length vs)) (enumerate 0 vs))
      | JNull \<Rightarrow> []
      | content \<Rightarrow> appendPromptBlock env (messageWrapper messageIndex (cm_Role msg) 0) content True)"

definition buildCachePreludeBlock :: "fingerprintEnv \<Rightarrow> ClaudeRequest \<Rightarrow> cacheablePromptBlock" where
  "buildCachePreludeBlock env req =
     (let prelude = JObject [(''kind'', JString ''request_prelude''), (''model'', JString (cr_Model req)), (''tool_choice'', cr_ToolChoice req)]
      in \<lparr>bk_Value = prelude, bk_Tokens = estimateCacheValueTokens (fe_estimate env) prelude, bk_TTL = 0, bk_IsMessageEnd = False\<rparr>)"

text \<open>A tool as the encoder writes it and \<open>extractPromptCacheTTL\<close> reads it back; \<open>max_uses\<close>, which is not read, is left out.\<close>

definition toolObject :: "ClaudeTool \<Rightarrow> jsonValue" where
  "toolObject tool = JObject ((if cl_Type tool = '''' then [] else [(''type'', JString (cl_Type tool))]) @
     [(''name'', JString (cl_Name tool)), (''description'', JString (cl_Description tool)), (''input_schema'', cl_InputSchema tool)])"

definition toolCacheBlock :: "fingerprintEnv \<Rightarrow> nat \<Rightarrow> ClaudeTool \<Rightarrow> cacheablePromptBlock" where
  "toolCacheBlock env toolIndex tool =
     (let fingerprintValue = JObject (stripCachePositionKeys [(''kind'', JString ''tool''), (''tool_index'', jsonIndex toolIndex),
            (''name'', JString (cl_Name tool)), (''description'', JString (cl_Description tool)), (''input_schema'', cl_InputSchema tool)])
      in \<lparr>bk_Value = fingerprintValue, bk_Tokens = estimateCacheValueTokens (fe_estimate env) fingerprintValue,
          bk_TTL = normalizePromptCacheTTL (extractPromptCacheTTL env (toolObject tool)), bk_IsMessageEnd = False\<rparr>)"

definition flattenClaudeCacheBlocks :: "fingerprintEnv \<Rightarrow> ClaudeRequest \<Rightarrow> cacheablePromptBlock list" where
  "flattenClaudeCacheBlocks env req =
     buildCachePreludeBlock env req #
     map (\<lambda>(i, tool). toolCacheBlock env i tool) (enumerate 0 (cr_Tools req)) @
     appendSystemCacheBlocks env (cr_System req) @
     concat (map (\<lambda>(i, msg). appendMessageCacheBlocks env i msg) (enumerate 0 (cr_Messages req)))"

definition promptCacheTTLFromClaudeRequest :: "fingerprintEnv \<Rightarrow> ClaudeRequest \<Rightarrow> duration" where
  "promptCacheTTLFromClaudeRequest env req =
     foldl (\<lambda>ttl b. if bk_TTL b > 0 then bk_TTL b else ttl) 0 (flattenClaudeCacheBlocks env req)"

text \<open>A block is a breakpoint when it is marked, or when it ends a message after a marked block.\<close>

definition claudeStep :: "fingerprintEnv \<Rightarrow> promptCacheBreakpoint list \<times> string \<times> int \<times> duration \<Rightarrow> cacheablePromptBlock \<Rightarrow>
    promptCacheBreakpoint list \<times> string \<times> int \<times> duration" where
  "claudeStep env = (\<lambda>(bps, written, tokens, activeTTL) b.
     (let w = written @ hashChunk (chunkOf env b); n = tokens + bk_Tokens b;
          ttl = (if bk_TTL b > 0 then bk_TTL b else if bk_IsMessageEnd b \<and> activeTTL > 0 then activeTTL else 0);
          active = (if bk_TTL b > 0 then bk_TTL b else activeTTL)
      in (if ttl \<le> 0 then bps else bps @ [\<lparr>bp_Fingerprint = fe_sha256 env w, bp_CumulativeTokens = n, bp_TTL = ttl\<rparr>], w, n, active)))"

definition BuildClaudeProfile :: "fingerprintEnv \<Rightarrow> ClaudeRequest \<Rightarrow> int \<Rightarrow> promptCacheTracker \<Rightarrow> promptCacheProfile option" where
  "BuildClaudeProfile env req totalInputTokens t =
     (if \<not> pt_enabled t then None
      else let (bps, _, n, _) = foldl (claudeStep env) ([], '''', 0, 0) (flattenClaudeCacheBlocks env req)
           in if bps = [] then None else finalizePromptCacheProfile bps n totalInputTokens (cr_Model req))"

end
