(* ===== verification/Prompt_Cache_Tables.thy ===== *)
theory Prompt_Cache_Tables
  imports Prompt_Cache
begin

text \<open>
  The tables of the prompt cache: the list of a scope is the list of its shard restricted to the scope, both list the stored entries
  and nothing else, and the counter is their number. Storing, dropping and the limits of the scopes keep it so.
\<close>

section \<open>The tables of a shard\<close>

definition shardOk :: "nat \<Rightarrow> promptCacheShard \<Rightarrow> bool" where
  "shardOk i s \<longleftrightarrow> distinct (sh_order s) \<and> (\<forall>a f. (entryOf s a f = None) = ((a, f) \<notin> set (sh_order s))) \<and>
     (\<forall>a. orderOf s a = map snd (filter (\<lambda>k. fst k = a) (sh_order s))) \<and> (\<forall>a. gm_wf (entriesOf s a)) \<and>
     (\<forall>k\<in>set (sh_order s). shardFor (fst k) = i)"

lemma shardOkD:
  assumes "shardOk i s"
  shows "distinct (sh_order s)" "(entryOf s a f = None) = ((a, f) \<notin> set (sh_order s))"
    and "orderOf s a = map snd (filter (\<lambda>k. fst k = a) (sh_order s))" "gm_wf (entriesOf s a)" "(a, f) \<in> set (sh_order s) \<Longrightarrow> shardFor a = i"
  using assms unfolding shardOk_def by force+

lemma shardOkI:
  assumes "distinct (sh_order s)" "\<And>a f. (entryOf s a f = None) = ((a, f) \<notin> set (sh_order s))"
    and "\<And>a. orderOf s a = map snd (filter (\<lambda>k. fst k = a) (sh_order s))" "\<And>a. gm_wf (entriesOf s a)"
    and "\<And>a f. (a, f) \<in> set (sh_order s) \<Longrightarrow> shardFor a = i"
  shows "shardOk i s"
  using assms unfolding shardOk_def by force

lemma shardOk_empty: "shardOk i emptyShard"
  by (rule shardOkI) (simp_all add: emptyShard_def entryOf_def entriesOf_def orderOf_def)

text \<open>The number of entries of a scope is the length of its list.\<close>

lemma entries_length:
  assumes "shardOk i s"
  shows "length (entriesOf s a) = length (orderOf s a)"
proof -
  note D = shardOkD [OF assms]
  have "set (map fst (entriesOf s a)) = {f. (a, f) \<in> set (sh_order s)}"
    using D(2) [of a] unfolding entryOf_def by (auto simp: map_of_eq_None_iff)
  also have "\<dots> = set (orderOf s a)" unfolding D(3) by force
  finally have "card (set (map fst (entriesOf s a))) = card (set (orderOf s a))" by simp
  moreover have "distinct (orderOf s a)" unfolding D(3) by (rule distinct_map [THEN iffD2]) (use D(1) in \<open>auto simp: inj_on_def prod_eq_iff\<close>)
  moreover have "distinct (map fst (entriesOf s a))" using D(4) [of a] by simp
  ultimately have "length (map fst (entriesOf s a)) = length (orderOf s a)" by (metis distinct_card)
  then show ?thesis by simp
qed

lemma without_set [simp]: "set (without x xs) = set xs - {x}"
  by (auto simp: without_def)

lemma without_distinct [simp]: "distinct xs \<Longrightarrow> distinct (without x xs)"
  by (simp add: without_def)

lemma without_length: "distinct xs \<Longrightarrow> x \<in> set xs \<Longrightarrow> Suc (length (without x xs)) = length xs"
  unfolding without_def by (induction xs) (auto simp: filter_id_conv intro!: arg_cong [where f = length])

lemma without_absent: "x \<notin> set xs \<Longrightarrow> without x xs = xs"
  by (auto simp: without_def filter_id_conv)

lemma without_project:
  "map snd (filter (\<lambda>k. fst k = a) (without (b, f) xs)) =
    (if a = b then without f (map snd (filter (\<lambda>k. fst k = a) xs)) else map snd (filter (\<lambda>k. fst k = a) xs))"
  unfolding without_def by (induction xs) auto

lemma entriesOf_touchEntry: "entriesOf (touchEntry b f e s) a = (if a = b then gm_put f e (entriesOf s a) else entriesOf s a)"
  by (simp add: touchEntry_def entriesOf_def)

lemma entryOf_touchEntry: "entryOf (touchEntry b f e s) a g = (if a = b \<and> g = f then Some e else entryOf s a g)"
  by (simp add: entryOf_def entriesOf_touchEntry gm_get_put)

lemma shardOk_touchEntry:
  assumes "shardOk i s" "shardFor b = i"
  shows "shardOk i (touchEntry b f e s)"
proof (rule shardOkI)
  note D = shardOkD [OF assms(1)]
  have o: "sh_order (touchEntry b f e s) = (b, f) # without (b, f) (sh_order s)" by (simp add: touchEntry_def moveToFront_def)
  show "distinct (sh_order (touchEntry b f e s))" unfolding o using D(1) by simp
  show "(entryOf (touchEntry b f e s) a g = None) = ((a, g) \<notin> set (sh_order (touchEntry b f e s)))" for a g
    unfolding o entryOf_touchEntry using D(2) [of a g] by auto
  show "orderOf (touchEntry b f e s) a = map snd (filter (\<lambda>k. fst k = a) (sh_order (touchEntry b f e s)))" for a
  proof -
    have "orderOf (touchEntry b f e s) a = (if a = b then moveToFront f (orderOf s a) else orderOf s a)"
      by (simp add: touchEntry_def orderOf_def)
    then show ?thesis unfolding o D(3) by (simp add: without_project moveToFront_def)
  qed
  show "gm_wf (entriesOf (touchEntry b f e s) a)" for a using D(4) [of a] by (auto simp: entriesOf_touchEntry)
  show "shardFor a = i" if "(a, g) \<in> set (sh_order (touchEntry b f e s))" for a g
    using that D(5) [of a g] assms(2) unfolding o by auto
qed

lemma touchEntry_length:
  assumes "shardOk i s"
  shows "length (sh_order (touchEntry a f e s)) = length (sh_order s) + (if entryOf s a f = None then 1 else 0)"
proof -
  note D = shardOkD [OF assms]
  show ?thesis
    using D(2) [of a f] without_length [OF D(1), of "(a, f)"] without_absent [of "(a, f)" "sh_order s"]
    by (simp add: touchEntry_def moveToFront_def)
qed

lemma entriesOf_dropEntry': "entriesOf (dropEntry b f s) a = (if a = b then gm_del f (entriesOf s a) else entriesOf s a)"
  by (simp add: dropEntry_def entriesOf_def Let_def)

lemma entryOf_dropEntry: "entryOf (dropEntry b f s) a g = (if a = b \<and> g = f then None else entryOf s a g)"
  by (simp add: entryOf_def entriesOf_dropEntry' gm_get_del)

lemma order_dropEntry: "sh_order (dropEntry b f s) = without (b, f) (sh_order s)"
  by (simp add: dropEntry_def Let_def)

lemma shardOk_dropEntry:
  assumes "shardOk i s"
  shows "shardOk i (dropEntry b f s)"
proof (rule shardOkI)
  note D = shardOkD [OF assms]
  note o = order_dropEntry [of b f s]
  show "distinct (sh_order (dropEntry b f s))" unfolding o using D(1) by simp
  show e: "(entryOf (dropEntry b f s) a g = None) = ((a, g) \<notin> set (sh_order (dropEntry b f s)))" for a g
    unfolding o entryOf_dropEntry using D(2) [of a g] by auto
  show "orderOf (dropEntry b f s) a = map snd (filter (\<lambda>k. fst k = a) (sh_order (dropEntry b f s)))" for a
  proof (cases "a = b \<and> gm_del f (entriesOf s b) = []")
    case True
    then have "entryOf (dropEntry b f s) b g = None" for g by (simp add: entryOf_def entriesOf_dropEntry')
    then have "\<forall>k\<in>set (without (b, f) (sh_order s)). fst k \<noteq> b" using e unfolding o by force
    moreover have "orderOf (dropEntry b f s) b = []" using True by (simp add: dropEntry_def orderOf_def Let_def)
    ultimately show ?thesis using True unfolding o by (simp add: filter_empty_conv)
  next
    case False
    have "orderOf (dropEntry b f s) a = (if a = b then without f (orderOf s a) else orderOf s a)"
      using False by (auto simp: dropEntry_def orderOf_def Let_def)
    then show ?thesis unfolding o D(3) by (simp add: without_project)
  qed
  show "gm_wf (entriesOf (dropEntry b f s) a)" for a using D(4) [of a] by (auto simp: entriesOf_dropEntry' gm_wf_del)
  show "shardFor a = i" if "(a, g) \<in> set (sh_order (dropEntry b f s))" for a g
    using that D(5) [of a g] unfolding o by auto
qed

lemma setPending_tables [simp]:
  "entriesOf (setPending a p s) b = entriesOf s b" "entryOf (setPending a p s) b f = entryOf s b f" "orderOf (setPending a p s) b = orderOf s b"
  "sh_order (setPending a p s) = sh_order s"
  by (simp_all add: setPending_def entriesOf_def entryOf_def orderOf_def)

lemma shardOk_setPending [simp]: "shardOk i (setPending a p s) = shardOk i s"
  by (simp add: shardOk_def)

section \<open>The whole tracker\<close>

definition storedEntries :: "promptCacheTracker \<Rightarrow> nat" where
  "storedEntries t = sum_list (map (\<lambda>s. length (sh_order s)) (pt_shards t))"

definition cacheInv :: "promptCacheTracker \<Rightarrow> bool" where
  "cacheInv t \<longleftrightarrow> length (pt_shards t) = promptCacheShardCount \<and> (\<forall>i<promptCacheShardCount. shardOk i (pt_shards t ! i)) \<and>
     pt_entryCount t = int (storedEntries t)"

lemma cacheInvD:
  assumes "cacheInv t"
  shows "length (pt_shards t) = promptCacheShardCount" "i < promptCacheShardCount \<Longrightarrow> shardOk i (pt_shards t ! i)" "pt_entryCount t = int (storedEntries t)"
  using assms by (auto simp: cacheInv_def)

lemma shardFor_less [simp]: "shardFor a < promptCacheShardCount"
proof -
  have "0 \<le> x mod (64::int) \<and> x mod 64 < 64" for x by simp
  then show ?thesis unfolding shardFor_def promptCacheShardCount_def by (simp add: nat_less_iff)
qed

definition sameLimits :: "promptCacheTracker \<Rightarrow> promptCacheTracker \<Rightarrow> bool" where
  "sameLimits t t' \<longleftrightarrow> pt_maxEntriesPerAccount t' = pt_maxEntriesPerAccount t \<and> pt_maxEntriesTotal t' = pt_maxEntriesTotal t"

definition entriesIn :: "promptCacheTracker \<Rightarrow> nat \<Rightarrow> string \<Rightarrow> nat" where
  "entriesIn t i a = length (entriesOf (pt_shards t ! i) a)"

text \<open>A step that stores nothing: the lists lose elements only, and the entries that stay are unchanged.\<close>

definition keeps :: "promptCacheTracker \<Rightarrow> promptCacheTracker \<Rightarrow> bool" where
  "keeps t t' \<longleftrightarrow> (\<forall>i<promptCacheShardCount. (\<exists>P. sh_order (pt_shards t' ! i) = filter P (sh_order (pt_shards t ! i))) \<and>
     (\<forall>a f. entryOf (pt_shards t' ! i) a f = None \<or> entryOf (pt_shards t' ! i) a f = entryOf (pt_shards t ! i) a f))"

lemma keeps_refl: "keeps t t"
  unfolding keeps_def by (auto intro: exI [of _ "\<lambda>_. True"])

lemma keeps_trans:
  assumes "keeps t t'" "keeps t' t''"
  shows "keeps t t''"
  unfolding keeps_def
proof (intro allI impI conjI)
  fix i assume i: "i < promptCacheShardCount"
  obtain P Q where "sh_order (pt_shards t' ! i) = filter P (sh_order (pt_shards t ! i))" "sh_order (pt_shards t'' ! i) = filter Q (sh_order (pt_shards t' ! i))"
    using assms i unfolding keeps_def by blast
  then show "\<exists>P. sh_order (pt_shards t'' ! i) = filter P (sh_order (pt_shards t ! i))" by auto
  show "entryOf (pt_shards t'' ! i) a f = None \<or> entryOf (pt_shards t'' ! i) a f = entryOf (pt_shards t ! i) a f" for a f
    using assms i unfolding keeps_def by metis
qed

definition shrinks :: "promptCacheTracker \<Rightarrow> promptCacheTracker \<Rightarrow> bool" where
  "shrinks t t' \<longleftrightarrow> cacheInv t' \<and> sameLimits t t' \<and> (\<forall>i a. i < promptCacheShardCount \<longrightarrow> entriesIn t' i a \<le> entriesIn t i a) \<and>
     pt_entryCount t' \<le> pt_entryCount t \<and> keeps t t'"

lemma shrinks_refl: "cacheInv t \<Longrightarrow> shrinks t t"
  by (simp add: shrinks_def sameLimits_def keeps_refl)

lemma shrinks_trans:
  assumes "shrinks t t'" "shrinks t' t''"
  shows "shrinks t t''"
  unfolding shrinks_def
proof (intro conjI allI impI)
  show "keeps t t''" using assms keeps_trans by (auto simp: shrinks_def)
  show "entriesIn t'' i a \<le> entriesIn t i a" if "i < promptCacheShardCount" for i a
    using assms that unfolding shrinks_def by (meson order_trans)
qed (use assms in \<open>auto simp: shrinks_def sameLimits_def\<close>)

lemma shrinks_inv: "shrinks t t' \<Longrightarrow> cacheInv t'"
  by (simp add: shrinks_def)

lemma shrinks_foldl:
  assumes step: "\<And>t x. cacheInv t \<Longrightarrow> x \<in> set xs \<Longrightarrow> shrinks t (f t x)" and "cacheInv t"
  shows "shrinks t (foldl f t xs)"
  using assms
proof (induction xs arbitrary: t)
  case (Cons x xs)
  have s: "shrinks t (f t x)" using Cons.prems by simp
  have "shrinks (f t x) (foldl f (f t x) xs)" by (rule Cons.IH) (use Cons.prems shrinks_inv [OF s] in auto)
  then show ?case using shrinks_trans [OF s] by simp
qed (simp add: shrinks_refl)

lemma shrinks_foldl_establishes:
  assumes "\<And>t x. cacheInv t \<Longrightarrow> x \<in> set xs \<Longrightarrow> shrinks t (f t x) \<and> P x (f t x)"
    and "\<And>x t t'. P x t \<Longrightarrow> shrinks t t' \<Longrightarrow> P x t'" and "cacheInv t" and "x \<in> set xs"
  shows "P x (foldl f t xs)"
  using assms
proof (induction xs arbitrary: t)
  case (Cons y ys)
  have s: "shrinks t (f t y)" "P y (f t y)" using Cons.prems(1) [of t y] Cons.prems(3) by auto
  have "shrinks (f t y) (foldl f (f t y) ys)" by (rule shrinks_foldl) (use Cons.prems(1) shrinks_inv [OF s(1)] in auto)
  moreover have "P x (foldl f (f t y) ys)" if "x \<in> set ys"
    by (rule Cons.IH) (use Cons.prems(1,2) shrinks_inv [OF s(1)] that in auto)
  ultimately show ?case using Cons.prems(2,4) s(2) by auto
qed simp

lemma setShard_shards [simp]:
  "pt_shards (setShard i s t) = (pt_shards t)[i := s]" "pt_entryCount (setShard i s t) = pt_entryCount t"
  "pt_maxEntriesPerAccount (setShard i s t) = pt_maxEntriesPerAccount t" "pt_maxEntriesTotal (setShard i s t) = pt_maxEntriesTotal t"
  "pt_maxSupportedTTL (setShard i s t) = pt_maxSupportedTTL t" "pt_reservationSequence (setShard i s t) = pt_reservationSequence t"
  by (simp_all add: setShard_def)

lemma markStateChanged_fields [simp]:
  "pt_shards (markStateChanged t) = pt_shards t" "pt_entryCount (markStateChanged t) = pt_entryCount t"
  "pt_maxEntriesPerAccount (markStateChanged t) = pt_maxEntriesPerAccount t" "pt_maxEntriesTotal (markStateChanged t) = pt_maxEntriesTotal t"
  by (simp_all add: markStateChanged_def)

lemma storedEntries_update:
  assumes "i < length (pt_shards t)"
  shows "int (sum_list (map (\<lambda>s. length (sh_order s)) ((pt_shards t)[i := s]))) =
    int (storedEntries t) - int (length (sh_order (pt_shards t ! i))) + int (length (sh_order s))"
proof -
  have "sum_list (map (\<lambda>s. length (sh_order s)) (pt_shards t)) \<ge> length (sh_order (pt_shards t ! i))"
    using assms by (simp add: member_le_sum_list)
  then show ?thesis using assms unfolding storedEntries_def by (simp add: map_update sum_list_update)
qed

text \<open>Replacing the tables of one shard.\<close>

lemma cacheInv_replace:
  assumes "cacheInv t" "i < promptCacheShardCount" "shardOk i s" "pt_shards t' = (pt_shards t)[i := s]"
    and "pt_entryCount t' = pt_entryCount t + int (length (sh_order s)) - int (length (sh_order (pt_shards t ! i)))"
  shows "cacheInv t'"
proof -
  note D = cacheInvD [OF assms(1)]
  have "pt_entryCount t' = int (storedEntries t')"
    using storedEntries_update [of i t s] assms(2,5) D(1,3) unfolding storedEntries_def assms(4) by simp
  moreover have "shardOk j (pt_shards t' ! j)" if "j < promptCacheShardCount" for j
    using that assms(3,4) D(1,2) by (cases "j = i") auto
  ultimately show ?thesis using D(1) assms(4) by (simp add: cacheInv_def)
qed

lemma removeEntryLocked_shrinks:
  assumes inv: "cacheInv t" and i: "i < promptCacheShardCount"
  shows "shrinks t (snd (removeEntryLocked i a f t))"
    and "fst (removeEntryLocked i a f t) \<Longrightarrow> pt_entryCount (snd (removeEntryLocked i a f t)) = pt_entryCount t - 1"
proof -
  note D = cacheInvD [OF inv]
  let ?s = "pt_shards t ! i"
  have "shrinks t (snd (removeEntryLocked i a f t)) \<and>
    (fst (removeEntryLocked i a f t) \<longrightarrow> pt_entryCount (snd (removeEntryLocked i a f t)) = pt_entryCount t - 1)"
  proof (cases "entryOf ?s a f = None")
    case True
    then show ?thesis using shrinks_refl [OF inv] by (simp add: removeEntryLocked_def Let_def)
  next
    case False
    define t' where "t' = snd (removeEntryLocked i a f t)"
    have t': "pt_shards t' = (pt_shards t)[i := dropEntry a f ?s]" "pt_entryCount t' = pt_entryCount t - 1" "sameLimits t t'"
      using False by (simp_all add: t'_def removeEntryLocked_def Let_def sameLimits_def del: not_None_eq)
    have len: "int (length (sh_order (dropEntry a f ?s))) = int (length (sh_order ?s)) - 1"
      using without_length [of "sh_order ?s" "(a, f)"] shardOkD(1,2) [OF D(2) [OF i]] False by (simp add: dropEntry_def Let_def)
    have c: "cacheInv t'" by (rule cacheInv_replace [OF inv i shardOk_dropEntry [OF D(2) [OF i]] t'(1)]) (simp add: t'(2) len)
    have "entriesIn t' j b \<le> entriesIn t j b" for j b
      unfolding entriesIn_def t'(1) using i D(1) length_delete_le [of f]
      by (cases "j = i") (auto simp: entriesOf_dropEntry')
    moreover have "keeps t t'"
      unfolding keeps_def t'(1)
    proof (intro allI impI)
      fix j
      show "(\<exists>P. sh_order ((pt_shards t)[i := dropEntry a f ?s] ! j) = filter P (sh_order (pt_shards t ! j))) \<and>
        (\<forall>b g. entryOf ((pt_shards t)[i := dropEntry a f ?s] ! j) b g = None \<or>
          entryOf ((pt_shards t)[i := dropEntry a f ?s] ! j) b g = entryOf (pt_shards t ! j) b g)"
        using i D(1) keeps_refl [of t]
        by (cases "j = i") (auto simp: entryOf_dropEntry order_dropEntry without_def intro: exI [of _ "\<lambda>_. True"])
    qed
    ultimately show ?thesis using c t'(2,3) unfolding shrinks_def t'_def [symmetric] by simp
  qed
  then show "shrinks t (snd (removeEntryLocked i a f t))"
    and "fst (removeEntryLocked i a f t) \<Longrightarrow> pt_entryCount (snd (removeEntryLocked i a f t)) = pt_entryCount t - 1" by auto
qed
section \<open>The limits\<close>

lemma enforceAccountLimitLocked_shrinks:
  assumes "cacheInv t" "i < promptCacheShardCount"
  shows "shrinks t (enforceAccountLimitLocked i a m t) \<and> (0 \<le> m \<longrightarrow> int (entriesIn (enforceAccountLimitLocked i a m t) i a) \<le> m)"
  using assms
proof (induction i a m t rule: enforceAccountLimitLocked.induct)
  case (1 i a m t)
  note D = cacheInvD [OF 1(2)]
  note S = shardOkD [OF D(2) [OF 1(3)]]
  let ?o = "orderOf (pt_shards t ! i) a"
  obtain ok t' where r: "removeEntryLocked i a (last ?o) t = (ok, t')" by (rule prod.exhaust)
  show ?case
  proof (cases "int (length (entriesOf (pt_shards t ! i) a)) > m \<and> ?o \<noteq> []")
    case False
    then have "enforceAccountLimitLocked i a m t = t" by (subst enforceAccountLimitLocked.simps) (auto simp: Let_def)
    moreover have "int (entriesIn t i a) \<le> m" if "0 \<le> m"
      using False that entries_length [OF D(2) [OF 1(3)], of a] by (auto simp: entriesIn_def)
    ultimately show ?thesis using shrinks_refl [OF 1(2)] by simp
  next
    case True
    have "last ?o \<in> set ?o" using True by simp
    then have "entryOf (pt_shards t ! i) a (last ?o) \<noteq> None" unfolding S(2) S(3) by auto
    then have ok: "ok" using r by (auto simp: removeEntryLocked_def Let_def split: if_splits)
    have s: "shrinks t t'" using removeEntryLocked_shrinks(1) [OF 1(2,3), of a "last ?o"] r by simp
    have "enforceAccountLimitLocked i a m t = enforceAccountLimitLocked i a m t'"
      using True 1(3) D(1) r ok by (subst enforceAccountLimitLocked.simps) (simp add: Let_def)
    moreover have "shrinks t' (enforceAccountLimitLocked i a m t') \<and> (0 \<le> m \<longrightarrow> int (entriesIn (enforceAccountLimitLocked i a m t') i a) \<le> m)"
      by (rule 1(1) [OF refl]) (use True 1(3) D(1) r ok shrinks_inv [OF s] in auto)
    ultimately show ?thesis using shrinks_trans [OF s] by auto
  qed
qed

lemma entriesIn_shrinks: "shrinks t t' \<Longrightarrow> i < promptCacheShardCount \<Longrightarrow> int (entriesIn t i a) \<le> m \<Longrightarrow> int (entriesIn t' i a) \<le> m"
  unfolding shrinks_def by (meson of_nat_mono order_trans)

lemma shard_limits:
  fixes i m
  defines "enforce \<equiv> \<lambda>t. foldl (\<lambda>t a. enforceAccountLimitLocked i a m t) t (map fst (sh_entriesByAccount (pt_shards t ! i)))"
  assumes inv: "cacheInv t" and i: "i < promptCacheShardCount" and m: "0 \<le> m"
  shows "shrinks t (enforce t) \<and> (\<forall>a. int (entriesIn (enforce t) i a) \<le> m)"
proof (intro conjI allI)
  note E = enforceAccountLimitLocked_shrinks [OF _ i]
  show s: "shrinks t (enforce t)" unfolding enforce_def by (rule shrinks_foldl) (use E inv in auto)
  show "int (entriesIn (enforce t) i a) \<le> m" for a
  proof (cases "a \<in> set (map fst (sh_entriesByAccount (pt_shards t ! i)))")
    case True
    show ?thesis unfolding enforce_def
      by (rule shrinks_foldl_establishes [where P = "\<lambda>a t. int (entriesIn t i a) \<le> m", OF _ entriesIn_shrinks [OF _ i] inv True]) (use E m in auto)
  next
    case False
    then have "gm_get (sh_entriesByAccount (pt_shards t ! i)) a = None" by (simp add: map_of_eq_None_iff)
    then have "int (entriesIn t i a) \<le> m" using m by (simp add: entriesIn_def entriesOf_def gm_zero_def)
    then show ?thesis by (rule entriesIn_shrinks [OF s i])
  qed
qed

lemma enforceAllAccountLimits_shrinks:
  assumes inv: "cacheInv t" and m: "0 \<le> m"
  shows "shrinks t (enforceAllAccountLimits m t)"
    and "i < promptCacheShardCount \<Longrightarrow> int (entriesIn (enforceAllAccountLimits m t) i a) \<le> m"
proof -
  note S = shard_limits [OF _ _ m]
  have i: "x \<in> set [0..<length (pt_shards t)] \<Longrightarrow> x < promptCacheShardCount" for x using cacheInvD(1) [OF inv] by simp
  show "shrinks t (enforceAllAccountLimits m t)"
    unfolding enforceAllAccountLimits_def by (rule shrinks_foldl [OF _ inv]) (use S i in blast)
  have "i \<in> set [0..<length (pt_shards t)] \<Longrightarrow> i < promptCacheShardCount \<longrightarrow> (\<forall>a. int (entriesIn (enforceAllAccountLimits m t) i a) \<le> m)"
    unfolding enforceAllAccountLimits_def
    by (rule shrinks_foldl_establishes [where P = "\<lambda>i t. i < promptCacheShardCount \<longrightarrow> (\<forall>a. int (entriesIn t i a) \<le> m)", OF _ _ inv])
      (use S i in \<open>blast intro: entriesIn_shrinks\<close>)+
  then show "i < promptCacheShardCount \<Longrightarrow> int (entriesIn (enforceAllAccountLimits m t) i a) \<le> m"
    using cacheInvD(1) [OF inv] by simp
qed

end
