(* ===== verification/Prompt_Cache_Props.thy ===== *)
theory Prompt_Cache_Props
  imports Prompt_Cache_Tables
begin

text \<open>
  The prompt cache stays within its limits, every operation of it ends, and what it evicts was used least recently.
\<close>

section \<open>The eviction\<close>

lemma backOf_entry:
  assumes "shardOk i s"
  shows "(backOf s = None) = (sh_order s = [])"
    and "backOf s = Some (k, since) \<Longrightarrow> sh_order s \<noteq> [] \<and> k = last (sh_order s) \<and> map_option ce_LastAccess (entryOf s (fst k) (snd k)) = Some since"
proof -
  have "entryOf s (fst (last (sh_order s))) (snd (last (sh_order s))) \<noteq> None" if "sh_order s \<noteq> []"
    using shardOkD(2) [OF assms, of "fst (last (sh_order s))" "snd (last (sh_order s))"] last_in_set [OF that] by simp
  then show "(backOf s = None) = (sh_order s = [])"
    and "backOf s = Some (k, since) \<Longrightarrow> sh_order s \<noteq> [] \<and> k = last (sh_order s) \<and> map_option ce_LastAccess (entryOf s (fst k) (snd k)) = Some since"
    by (auto simp: backOf_def split: if_splits)
qed

lemma oldestOf_None:
  assumes "oldestOf i ss best = None"
  shows "best = None \<and> (\<forall>s\<in>set ss. backOf s = None)"
  using assms
proof (induction i ss best rule: oldestOf.induct)
  case (2 i s ss best)
  define best' where "best' = (case backOf s of None \<Rightarrow> best
    | Some (k, since) \<Rightarrow> (case best of Some (_, _, oldest) \<Rightarrow> if since < oldest then Some (i, k, since) else best | None \<Rightarrow> Some (i, k, since)))"
  have I: "best' = None" "\<forall>s\<in>set ss. backOf s = None" using 2 unfolding oldestOf.simps best'_def [symmetric] by blast+
  have "backOf s = None" using I(1) unfolding best'_def by (cases best; cases "backOf s") (auto split: if_splits)
  then show ?case using I unfolding best'_def by simp
qed simp

text \<open>The candidate found is the last element of its shard, and no shard's last element and no earlier candidate is older.\<close>

lemma oldestOf_Some:
  assumes "oldestOf i ss best = Some (j, k, since)"
  shows "best = Some (j, k, since) \<or> (\<exists>n<length ss. j = i + n \<and> backOf (ss ! n) = Some (k, since))"
    and "\<And>j' k' t'. best = Some (j', k', t') \<Longrightarrow> since \<le> t'" and "\<And>n k' t'. n < length ss \<Longrightarrow> backOf (ss ! n) = Some (k', t') \<Longrightarrow> since \<le> t'"
proof -
  have "(best = Some (j, k, since) \<or> (\<exists>n<length ss. j = i + n \<and> backOf (ss ! n) = Some (k, since))) \<and>
      (\<forall>j' k' t'. best = Some (j', k', t') \<longrightarrow> since \<le> t') \<and> (\<forall>n<length ss. \<forall>k' t'. backOf (ss ! n) = Some (k', t') \<longrightarrow> since \<le> t')"
    using assms
  proof (induction i ss best rule: oldestOf.induct)
    case (2 i s ss best)
    define best' where "best' = (case backOf s of None \<Rightarrow> best
      | Some (k, since) \<Rightarrow> (case best of Some (_, _, oldest) \<Rightarrow> if since < oldest then Some (i, k, since) else best | None \<Rightarrow> Some (i, k, since)))"
    have I: "(best' = Some (j, k, since) \<or> (\<exists>n<length ss. j = Suc i + n \<and> backOf (ss ! n) = Some (k, since)))"
      "\<And>j' k' t'. best' = Some (j', k', t') \<Longrightarrow> since \<le> t'" "\<And>n k' t'. n < length ss \<Longrightarrow> backOf (ss ! n) = Some (k', t') \<Longrightarrow> since \<le> t'"
      using 2 unfolding oldestOf.simps best'_def [symmetric] by blast+
    have b: "best' = best \<or> (\<exists>k t. backOf s = Some (k, t) \<and> best' = Some (i, k, t))"
      by (auto simp: best'_def split: option.splits prod.splits)
    have "best = Some (j, k, since) \<or> (\<exists>n<length (s # ss). j = i + n \<and> backOf ((s # ss) ! n) = Some (k, since))"
    proof (cases "\<exists>n<length ss. j = Suc i + n \<and> backOf (ss ! n) = Some (k, since)")
      case True
      then obtain n where "n < length ss" "j = Suc i + n" "backOf (ss ! n) = Some (k, since)" by blast
      then show ?thesis by (intro disjI2 exI [of _ "Suc n"]) simp
    next
      case False
      then have "best' = Some (j, k, since)" using I(1) by blast
      then show ?thesis using b by (auto intro!: exI [of _ 0])
    qed
    moreover have "since \<le> t'" if "best = Some (j', k', t')" for j' k' t'
      using I(2) that unfolding best'_def by (cases "backOf s") (force split: if_splits)+
    moreover have "since \<le> t'" if "n < length (s # ss)" "backOf ((s # ss) ! n) = Some (k', t')" for n k' t'
    proof (cases n)
      case 0
      then show ?thesis using I(2) that unfolding best'_def by (cases best) (force split: if_splits)+
    next
      case (Suc m)
      then show ?thesis using I(3) that by simp
    qed
    ultimately show ?case by blast
  qed simp
  then show "best = Some (j, k, since) \<or> (\<exists>n<length ss. j = i + n \<and> backOf (ss ! n) = Some (k, since))"
    and "\<And>j' k' t'. best = Some (j', k', t') \<Longrightarrow> since \<le> t'" and "\<And>n k' t'. n < length ss \<Longrightarrow> backOf (ss ! n) = Some (k', t') \<Longrightarrow> since \<le> t'"
    by blast+
qed

text \<open>What a round of the eviction does: it removes one entry, the one \<open>oldestOf\<close> found.\<close>

lemma evict_victim:
  assumes inv: "cacheInv t" and count: "pt_entryCount t > 0"
  obtains i a f since where "oldestOf 0 (pt_shards t) None = Some (i, (a, f), since)" "i < promptCacheShardCount"
    "map_option ce_LastAccess (entryOf (pt_shards t ! i) a f) = Some since" "sh_order (pt_shards t ! i) \<noteq> []" "(a, f) = last (sh_order (pt_shards t ! i))"
    "\<And>n k' t'. n < promptCacheShardCount \<Longrightarrow> backOf (pt_shards t ! n) = Some (k', t') \<Longrightarrow> since \<le> t'"
proof (cases "oldestOf 0 (pt_shards t) None")
  case None
  have "sh_order s = []" if s: "s \<in> set (pt_shards t)" for s
    using s oldestOf_None [OF None] backOf_entry(1) cacheInvD(1,2) [OF inv] by (metis in_set_conv_nth)
  then have "storedEntries t = 0" by (simp add: storedEntries_def)
  then show thesis using count cacheInvD(3) [OF inv] by simp
next
  case (Some r)
  obtain i a f since where r: "r = (i, (a, f), since)" by (metis prod.exhaust)
  note S = oldestOf_Some [OF Some [unfolded r]]
  have i: "i < promptCacheShardCount" "backOf (pt_shards t ! i) = Some ((a, f), since)" using S(1) cacheInvD(1) [OF inv] by auto
  show thesis
    using that [of i a f since] Some r i S(3) backOf_entry(2) [OF cacheInvD(2) [OF inv i(1)] i(2)] cacheInvD(1) [OF inv] by simp
qed

lemma evictRounds_step:
  assumes inv: "cacheInv t" and over: "pt_entryCount t > m" "0 \<le> m"
    and v: "oldestOf 0 (pt_shards t) None = Some (i, (a, f), since)" "map_option ce_LastAccess (entryOf (pt_shards t ! i) a f) = Some since"
  shows "evictRounds (Suc n) m t = evictRounds n m (snd (removeEntryLocked i a f t))"
  using assms by (subst evictRounds.simps) simp

lemma evictRounds_returns:
  assumes "cacheInv t" "0 \<le> m" "nat (pt_entryCount t) \<le> n"
  shows "\<exists>t'. evictRounds n m t = Some t' \<and> shrinks t t' \<and> pt_entryCount t' \<le> m"
  using assms
proof (induction n arbitrary: t)
  case (0 t)
  then show ?case using shrinks_refl [of t] by (subst evictRounds.simps) simp
next
  case (Suc n t)
  show ?case
  proof (cases "pt_entryCount t > m")
    case False
    then show ?thesis using shrinks_refl [OF Suc.prems(1)] by (subst evictRounds.simps) simp
  next
    case True
    then have pos: "pt_entryCount t > 0" using Suc.prems(2) by simp
    from evict_victim [OF Suc.prems(1) pos] obtain i a f since where
      v: "oldestOf 0 (pt_shards t) None = Some (i, (a, f), since)" "i < promptCacheShardCount"
         "map_option ce_LastAccess (entryOf (pt_shards t ! i) a f) = Some since" by metis
    let ?t' = "snd (removeEntryLocked i a f t)"
    have ok: "fst (removeEntryLocked i a f t)" using v(3) by (auto simp: removeEntryLocked_def Let_def)
    note R = removeEntryLocked_shrinks [OF Suc.prems(1) v(2), of a f]
    have "\<exists>t'. evictRounds n m ?t' = Some t' \<and> shrinks ?t' t' \<and> pt_entryCount t' \<le> m"
      by (rule Suc.IH) (use R ok Suc.prems pos shrinks_inv in auto)
    then show ?thesis
      using evictRounds_step [OF Suc.prems(1) True Suc.prems(2) v(1,3)] shrinks_trans [OF R(1)] by auto
  qed
qed

text \<open>No more is evicted than has to be.\<close>

lemma evictRounds_exact:
  assumes "cacheInv t" "0 \<le> m" "evictRounds n m t = Some t'" "pt_entryCount t' < m"
  shows "t' = t"
  using assms
proof (induction n arbitrary: t)
  case (0 t)
  then show ?case by (subst (asm) evictRounds.simps) (auto split: if_splits option.splits prod.splits)
next
  case (Suc n t)
  show ?case
  proof (cases "pt_entryCount t > m")
    case False
    then show ?thesis using Suc.prems by (subst (asm) evictRounds.simps) simp
  next
    case True
    then have pos: "pt_entryCount t > 0" using Suc.prems(2) by simp
    from evict_victim [OF Suc.prems(1) pos] obtain i a f since where
      v: "oldestOf 0 (pt_shards t) None = Some (i, (a, f), since)" "i < promptCacheShardCount"
         "map_option ce_LastAccess (entryOf (pt_shards t ! i) a f) = Some since" by metis
    have ok: "fst (removeEntryLocked i a f t)" using v(3) by (auto simp: removeEntryLocked_def Let_def)
    note R = removeEntryLocked_shrinks [OF Suc.prems(1) v(2), of a f]
    have "t' = snd (removeEntryLocked i a f t)"
      by (rule Suc.IH) (use Suc.prems shrinks_inv [OF R(1)] evictRounds_step [OF Suc.prems(1) True Suc.prems(2) v(1,3)] in auto)
    then show ?thesis using R(2) [OF ok] True Suc.prems(4) by simp
  qed
qed

lemma enforceGlobalLimit_exact:
  "cacheInv t \<Longrightarrow> enforceGlobalLimit m t = Some t' \<Longrightarrow> pt_entryCount t' < m \<Longrightarrow> t' = t"
  using evictRounds_exact [of t m] by (auto simp: enforceGlobalLimit_def split: if_splits)

lemma enforceGlobalLimit_returns:
  assumes "cacheInv t" "0 < m"
  shows "\<exists>t'. enforceGlobalLimit m t = Some t' \<and> shrinks t t' \<and> pt_entryCount t' \<le> m"
  using evictRounds_returns [of t m "nat (pt_entryCount t)"] assms by (simp add: enforceGlobalLimit_def)

section \<open>Least recently used\<close>

definition accessOf :: "promptCacheShard \<Rightarrow> string \<times> string \<Rightarrow> gotime" where
  "accessOf s k = (case entryOf s (fst k) (snd k) of Some e \<Rightarrow> ce_LastAccess e | None \<Rightarrow> 0)"

text \<open>The list of a shard is in the order of use, and nothing was used in the future.\<close>

definition lruOk :: "gotime \<Rightarrow> promptCacheShard \<Rightarrow> bool" where
  "lruOk now s \<longleftrightarrow> sorted_wrt (\<lambda>k l. accessOf s l \<le> accessOf s k) (sh_order s) \<and> (\<forall>k\<in>set (sh_order s). accessOf s k \<le> now)"

definition lruInv :: "gotime \<Rightarrow> promptCacheTracker \<Rightarrow> bool" where
  "lruInv now t \<longleftrightarrow> (\<forall>i<promptCacheShardCount. lruOk now (pt_shards t ! i))"

lemma lruInv_later: "lruInv now t \<Longrightarrow> now \<le> now' \<Longrightarrow> lruInv now' t"
  unfolding lruInv_def lruOk_def by (meson order_trans)

lemma lruOk_cong:
  assumes "sh_order s' = filter P (sh_order s)" "\<And>k. k \<in> set (sh_order s') \<Longrightarrow> accessOf s' k = accessOf s k" "lruOk now s"
  shows "lruOk now s'"
proof -
  have "sorted_wrt (\<lambda>k l. accessOf s l \<le> accessOf s k) (sh_order s')" using assms(1,3) by (simp add: lruOk_def sorted_wrt_filter)
  then have "sorted_wrt (\<lambda>k l. accessOf s' l \<le> accessOf s' k) (sh_order s')"
    by (rule sorted_wrt_mono_rel [rotated]) (simp add: assms(2))
  then show ?thesis using assms by (auto simp: lruOk_def)
qed

lemma shrinks_access:
  assumes "shrinks t t'" "i < promptCacheShardCount" "k \<in> set (sh_order (pt_shards t' ! i))"
  shows "accessOf (pt_shards t' ! i) k = accessOf (pt_shards t ! i) k" "k \<in> set (sh_order (pt_shards t ! i))"
proof -
  have K: "keeps t t'" "cacheInv t'" using assms(1) by (simp_all add: shrinks_def)
  have "entryOf (pt_shards t' ! i) (fst k) (snd k) \<noteq> None"
    using shardOkD(2) [OF cacheInvD(2) [OF K(2) assms(2)], of "fst k" "snd k"] assms(3) by simp
  then show "accessOf (pt_shards t' ! i) k = accessOf (pt_shards t ! i) k"
    using K(1) assms(2) unfolding keeps_def accessOf_def by metis
  show "k \<in> set (sh_order (pt_shards t ! i))" using K(1) assms(2,3) unfolding keeps_def by (metis filter_is_subset subsetD)
qed

lemma shrinks_lru:
  assumes "shrinks t t'" "lruInv now t"
  shows "lruInv now t'"
  unfolding lruInv_def
proof (intro allI impI)
  fix i assume i: "i < promptCacheShardCount"
  obtain P where "sh_order (pt_shards t' ! i) = filter P (sh_order (pt_shards t ! i))"
    using assms(1) i unfolding shrinks_def keeps_def by blast
  then show "lruOk now (pt_shards t' ! i)"
    by (rule lruOk_cong) (use shrinks_access(1) [OF assms(1) i] assms(2) i in \<open>auto simp: lruInv_def\<close>)
qed

text \<open>Every entry that is gone was used no later than every entry that stays.\<close>

definition lruEvicts :: "promptCacheTracker \<Rightarrow> promptCacheTracker \<Rightarrow> bool" where
  "lruEvicts t t' \<longleftrightarrow> (\<forall>i<promptCacheShardCount. \<forall>j<promptCacheShardCount.
     \<forall>k\<in>set (sh_order (pt_shards t ! i)) - set (sh_order (pt_shards t' ! i)). \<forall>l\<in>set (sh_order (pt_shards t' ! j)).
       accessOf (pt_shards t ! i) k \<le> accessOf (pt_shards t ! j) l)"

lemma last_least:
  assumes "lruOk now s" "k \<in> set (sh_order s)"
  shows "accessOf s (last (sh_order s)) \<le> accessOf s k"
proof -
  have ne: "sh_order s \<noteq> []" using assms(2) by auto
  have o: "sh_order s = butlast (sh_order s) @ [last (sh_order s)]" using append_butlast_last_id [OF ne] by simp
  have "sorted_wrt (\<lambda>k l. accessOf s l \<le> accessOf s k) (butlast (sh_order s) @ [last (sh_order s)])"
    using assms(1) unfolding lruOk_def using o by metis
  then have "x \<in> set (butlast (sh_order s)) \<Longrightarrow> accessOf s (last (sh_order s)) \<le> accessOf s x" for x
    by (simp add: sorted_wrt_append)
  then show ?thesis using assms(2) o by (metis Un_iff empty_iff empty_set insert_iff list.simps(15) order_refl set_append)
qed

lemma victim_least:
  assumes inv: "cacheInv t" and lru: "lruInv now t" and count: "pt_entryCount t > 0"
    and v: "oldestOf 0 (pt_shards t) None = Some (i, (a, f), since)"
    and l: "j < promptCacheShardCount" "l \<in> set (sh_order (pt_shards t ! j))"
  shows "i < promptCacheShardCount \<and> accessOf (pt_shards t ! i) (a, f) \<le> accessOf (pt_shards t ! j) l"
proof -
  from evict_victim [OF inv count] v have V: "i < promptCacheShardCount" "map_option ce_LastAccess (entryOf (pt_shards t ! i) a f) = Some since"
    and least: "\<And>n k' t'. n < promptCacheShardCount \<Longrightarrow> backOf (pt_shards t ! n) = Some (k', t') \<Longrightarrow> since \<le> t'"
    by (metis Pair_inject option.inject)+
  note ok = cacheInvD(2) [OF inv l(1)]
  obtain k' t' where b: "backOf (pt_shards t ! j) = Some (k', t')" using backOf_entry(1) [OF ok] l(2) by fastforce
  have "accessOf (pt_shards t ! j) (last (sh_order (pt_shards t ! j))) = t'"
    using backOf_entry(2) [OF ok b] by (auto simp: accessOf_def)
  moreover have "lruOk now (pt_shards t ! j)" using lru l(1) by (simp add: lruInv_def)
  ultimately have "t' \<le> accessOf (pt_shards t ! j) l" using last_least l(2) by blast
  moreover have "accessOf (pt_shards t ! i) (a, f) = since" using V(2) by (auto simp: accessOf_def)
  ultimately show ?thesis using V(1) least [OF l(1) b] by simp
qed

lemma lruEvicts_refl: "lruEvicts t t"
  by (simp add: lruEvicts_def)

lemma lruEvicts_trans:
  assumes s: "shrinks t t1" "shrinks t1 t2" and e: "lruEvicts t t1" "lruEvicts t1 t2"
  shows "lruEvicts t t2"
  unfolding lruEvicts_def
proof (intro allI impI ballI)
  fix i j k l
  assume i: "i < promptCacheShardCount" and j: "j < promptCacheShardCount"
    and k: "k \<in> set (sh_order (pt_shards t ! i)) - set (sh_order (pt_shards t2 ! i))" and l: "l \<in> set (sh_order (pt_shards t2 ! j))"
  note l1 = shrinks_access(2) [OF s(2) j l]
  show "accessOf (pt_shards t ! i) k \<le> accessOf (pt_shards t ! j) l"
  proof (cases "k \<in> set (sh_order (pt_shards t1 ! i))")
    case True
    then have "accessOf (pt_shards t1 ! i) k \<le> accessOf (pt_shards t1 ! j) l" using e(2) i j k l unfolding lruEvicts_def by blast
    then show ?thesis using shrinks_access(1) [OF s(1)] i j True l1 by simp
  next
    case False
    then show ?thesis using e(1) i j k l1 unfolding lruEvicts_def by blast
  qed
qed

lemma remove_victim_lru:
  assumes inv: "cacheInv t" and lru: "lruInv now t" and count: "pt_entryCount t > 0"
    and v: "oldestOf 0 (pt_shards t) None = Some (i, (a, f), since)"
  shows "lruEvicts t (snd (removeEntryLocked i a f t))"
  unfolding lruEvicts_def
proof (intro allI impI ballI)
  fix i' j k l
  let ?t' = "snd (removeEntryLocked i a f t)"
  assume i': "i' < promptCacheShardCount" and j: "j < promptCacheShardCount"
    and k: "k \<in> set (sh_order (pt_shards t ! i')) - set (sh_order (pt_shards ?t' ! i'))" and l: "l \<in> set (sh_order (pt_shards ?t' ! j))"
  from evict_victim [OF inv count] v have i: "i < promptCacheShardCount" by (metis Pair_inject option.inject)
  have "pt_shards ?t' = pt_shards t \<or> pt_shards ?t' = (pt_shards t)[i := dropEntry a f (pt_shards t ! i)]"
    by (simp add: removeEntryLocked_def Let_def)
  then have "i' = i \<and> k = (a, f)"
    using k i cacheInvD(1) [OF inv] by (cases "i' = i") (auto simp: order_dropEntry)
  moreover have "l \<in> set (sh_order (pt_shards t ! j))" using shrinks_access(2) [OF removeEntryLocked_shrinks(1) [OF inv i] j l] .
  ultimately show "accessOf (pt_shards t ! i') k \<le> accessOf (pt_shards t ! j) l" using victim_least [OF inv lru count v j] by simp
qed

lemma evictRounds_lru:
  assumes "cacheInv t" "lruInv now t" "0 \<le> m" "nat (pt_entryCount t) \<le> n" "evictRounds n m t = Some t'"
  shows "lruEvicts t t'"
  using assms
proof (induction n arbitrary: t)
  case (0 t)
  then have "t' = t" by (subst (asm) evictRounds.simps) simp
  then show ?case by (simp add: lruEvicts_refl)
next
  case (Suc n t)
  show ?case
  proof (cases "pt_entryCount t > m")
    case False
    then have "t' = t" using Suc.prems by (subst (asm) evictRounds.simps) simp
    then show ?thesis by (simp add: lruEvicts_refl)
  next
    case True
    then have pos: "pt_entryCount t > 0" using Suc.prems(3) by simp
    from evict_victim [OF Suc.prems(1) pos] obtain i a f since where
      v: "oldestOf 0 (pt_shards t) None = Some (i, (a, f), since)" "i < promptCacheShardCount"
         "map_option ce_LastAccess (entryOf (pt_shards t ! i) a f) = Some since" by metis
    let ?t1 = "snd (removeEntryLocked i a f t)"
    have ok: "fst (removeEntryLocked i a f t)" using v(3) by (auto simp: removeEntryLocked_def Let_def)
    note R = removeEntryLocked_shrinks [OF Suc.prems(1) v(2), of a f]
    have c1: "cacheInv ?t1" "nat (pt_entryCount ?t1) \<le> n" using R ok Suc.prems(4) pos shrinks_inv by auto
    have e: "evictRounds n m ?t1 = Some t'"
      using Suc.prems(5) evictRounds_step [OF Suc.prems(1) True Suc.prems(3) v(1,3)] by simp
    have "shrinks ?t1 t'" using evictRounds_returns [OF c1(1) Suc.prems(3) c1(2)] e by auto
    moreover have "lruEvicts ?t1 t'" by (rule Suc.IH [OF c1(1) shrinks_lru [OF R(1) Suc.prems(2)] Suc.prems(3) c1(2) e])
    ultimately show ?thesis using lruEvicts_trans [OF R(1)] remove_victim_lru [OF Suc.prems(1,2) pos v(1)] by blast
  qed
qed

lemma enforceGlobalLimit_lru:
  assumes "cacheInv t" "lruInv now t" "enforceGlobalLimit m t = Some t'"
  shows "lruEvicts t t'"
  using evictRounds_lru [OF assms(1,2), of m "nat (pt_entryCount t)" t'] assms(3) lruEvicts_refl by (auto simp: enforceGlobalLimit_def split: if_splits)

section \<open>The operations\<close>

definition withinLimits :: "promptCacheTracker \<Rightarrow> bool" where
  "withinLimits t \<longleftrightarrow> 0 < pt_maxEntriesPerAccount t \<and> 0 < pt_maxEntriesTotal t \<and> pt_entryCount t \<le> pt_maxEntriesTotal t \<and>
     (\<forall>a. int (entriesIn t (shardFor a) a) \<le> pt_maxEntriesPerAccount t)"

definition trackerOk :: "gotime \<Rightarrow> promptCacheTracker \<Rightarrow> bool" where
  "trackerOk now t \<longleftrightarrow> cacheInv t \<and> lruInv now t \<and> withinLimits t"

lemma shrinks_within: "shrinks t t' \<Longrightarrow> withinLimits t \<Longrightarrow> withinLimits t'"
  using entriesIn_shrinks [OF _ shardFor_less] by (auto simp: withinLimits_def shrinks_def sameLimits_def)

lemma shrinks_ok: "shrinks t t' \<Longrightarrow> trackerOk now t \<Longrightarrow> trackerOk now t'"
  using shrinks_within shrinks_lru shrinks_inv by (auto simp: trackerOk_def)

lemma pruneExpired_shrinks: "cacheInv t \<Longrightarrow> i < promptCacheShardCount \<Longrightarrow> shrinks t (pruneExpiredAccountLocked i a now t)"
  unfolding pruneExpiredAccountLocked_def by (rule shrinks_foldl) (use removeEntryLocked_shrinks(1) in auto)

text \<open>A step that changes reservations only.\<close>

lemma pending_shrinks:
  assumes inv: "cacheInv t" and i: "i < promptCacheShardCount"
    and t': "pt_shards t' = (pt_shards t)[i := setPending a p (pt_shards t ! i)]" "pt_entryCount t' = pt_entryCount t" "sameLimits t t'"
  shows "shrinks t t'"
  unfolding shrinks_def
proof (intro conjI allI impI)
  note D = cacheInvD [OF inv]
  show "cacheInv t'" by (rule cacheInv_replace [OF inv i _ t'(1)]) (use D(2) [OF i] t'(2) in auto)
  have same: "sh_order (pt_shards t' ! j) = sh_order (pt_shards t ! j)" "entriesOf (pt_shards t' ! j) b = entriesOf (pt_shards t ! j) b" for j b
    using i D(1) t'(1) by (cases "j = i"; simp)+
  show "entriesIn t' j b \<le> entriesIn t j b" for j b by (simp add: entriesIn_def same)
  show "keeps t t'" using keeps_refl [of t] unfolding keeps_def entryOf_def same by simp
qed (use t' in auto)

lemma prunePending_shrinks: "cacheInv t \<Longrightarrow> i < promptCacheShardCount \<Longrightarrow> shrinks t (prunePendingAccountLocked i a now t)"
  by (rule pending_shrinks) (auto simp: prunePendingAccountLocked_def Let_def sameLimits_def)

lemma clearPending_shrinks: "cacheInv t \<Longrightarrow> i < promptCacheShardCount \<Longrightarrow> shrinks t (clearPendingLocked i a f t)"
  by (rule pending_shrinks) (auto simp: clearPendingLocked_def Let_def sameLimits_def)

lemma prune_shrinks: "cacheInv t \<Longrightarrow> i < promptCacheShardCount \<Longrightarrow> shrinks t (prunePendingAccountLocked i a now (pruneExpiredAccountLocked i a now t))"
  using shrinks_trans [OF pruneExpired_shrinks prunePending_shrinks] pruneExpired_shrinks shrinks_inv by blast

lemma PruneExpired_shrinks:
  assumes "cacheInv t"
  shows "shrinks t (PruneExpired now t)"
  unfolding PruneExpired_def Let_def
proof (rule shrinks_foldl [OF _ assms])
  fix u i assume inv: "cacheInv u" and "i \<in> set [0..<length (pt_shards t)]"
  then have i: "i < promptCacheShardCount" using cacheInvD(1) [OF assms] by simp
  let ?u1 = "foldl (\<lambda>t a. prunePendingAccountLocked i a now (pruneExpiredAccountLocked i a now t)) u (map fst (sh_entriesByAccount (pt_shards u ! i)))"
  have s: "shrinks u ?u1" by (rule shrinks_foldl [OF _ inv]) (use prune_shrinks i in blast)
  have "shrinks ?u1 (foldl (\<lambda>t a. prunePendingAccountLocked i a now t) ?u1 (map fst (sh_pendingByAccount (pt_shards ?u1 ! i))))"
    by (rule shrinks_foldl [OF _ shrinks_inv [OF s]]) (use prunePending_shrinks i in blast)
  with s show "shrinks u (foldl (\<lambda>t a. prunePendingAccountLocked i a now t) ?u1 (map fst (sh_pendingByAccount (pt_shards ?u1 ! i))))"
    by (rule shrinks_trans)
qed

lemma ReleaseReservation_shrinks: "cacheInv t \<Longrightarrow> shrinks t (ReleaseReservation r t)"
  unfolding ReleaseReservation_def Let_def
  by (auto simp: shrinks_refl sameLimits_def split: option.splits intro!: pending_shrinks [OF _ shardFor_less])

text \<open>A step that leaves the entries of the other scopes alone.\<close>

definition othersSame :: "string \<Rightarrow> promptCacheTracker \<Rightarrow> promptCacheTracker \<Rightarrow> bool" where
  "othersSame a t t' \<longleftrightarrow> (\<forall>b. b \<noteq> a \<longrightarrow> entriesOf (pt_shards t' ! shardFor b) b = entriesOf (pt_shards t ! shardFor b) b)"

lemma othersSame_refl [simp]: "othersSame a t t"
  by (simp add: othersSame_def)

lemma othersSame_trans: "othersSame a t t' \<Longrightarrow> othersSame a t' t'' \<Longrightarrow> othersSame a t t''"
  by (simp add: othersSame_def)

lemma othersSame_replace:
  assumes "cacheInv t" "i < promptCacheShardCount" "pt_shards t' = (pt_shards t)[i := s]"
    and "\<And>b. b \<noteq> a \<Longrightarrow> entriesOf s b = entriesOf (pt_shards t ! i) b"
  shows "othersSame a t t'"
  unfolding othersSame_def
proof (intro allI impI)
  fix b assume "b \<noteq> a"
  then show "entriesOf (pt_shards t' ! shardFor b) b = entriesOf (pt_shards t ! shardFor b) b"
    using assms cacheInvD(1) [OF assms(1)] by (cases "shardFor b = i") auto
qed

lemma removeEntryLocked_others: "cacheInv t \<Longrightarrow> i < promptCacheShardCount \<Longrightarrow> othersSame a t (snd (removeEntryLocked i a f t))"
  by (cases "entryOf (pt_shards t ! i) a f")
    (auto simp: removeEntryLocked_def Let_def entriesOf_dropEntry' intro!: othersSame_replace [where i = i])

lemma pruneExpired_others:
  assumes "cacheInv t" "i < promptCacheShardCount"
  shows "othersSame a t (pruneExpiredAccountLocked i a now t)"
proof -
  have "cacheInv t \<Longrightarrow> othersSame a t (foldl (\<lambda>t f. snd (removeEntryLocked i a f t)) t fs)" for fs
  proof (induction fs arbitrary: t)
    case (Cons f fs)
    note R = removeEntryLocked_others [OF Cons.prems assms(2), of a f]
    show ?case using othersSame_trans [OF R] Cons.IH [OF shrinks_inv [OF removeEntryLocked_shrinks(1) [OF Cons.prems assms(2)]]] by simp
  qed simp
  then show ?thesis using assms(1) by (simp add: pruneExpiredAccountLocked_def)
qed

lemma pending_others:
  "cacheInv t \<Longrightarrow> i < promptCacheShardCount \<Longrightarrow> othersSame a t (prunePendingAccountLocked i a now t)"
  "cacheInv t \<Longrightarrow> i < promptCacheShardCount \<Longrightarrow> othersSame a t (clearPendingLocked i a f t)"
  by (auto simp: prunePendingAccountLocked_def clearPendingLocked_def Let_def intro!: othersSame_replace [where i = i])

lemma enforceAccountLimit_others:
  assumes "cacheInv t" "i < promptCacheShardCount"
  shows "othersSame a t (enforceAccountLimitLocked i a m t)"
  using assms
proof (induction i a m t rule: enforceAccountLimitLocked.induct)
  case (1 i a m t)
  let ?o = "orderOf (pt_shards t ! i) a"
  obtain ok t' where r: "removeEntryLocked i a (last ?o) t = (ok, t')" by (rule prod.exhaust)
  have o: "othersSame a t t'" "cacheInv t'"
    using removeEntryLocked_others [OF 1(2,3), of a "last ?o"] shrinks_inv [OF removeEntryLocked_shrinks(1) [OF 1(2,3), of a "last ?o"]] r by simp_all
  show ?case
  proof (cases "int (length (entriesOf (pt_shards t ! i) a)) > m \<and> ?o \<noteq> [] \<and> ok")
    case True
    have "othersSame a t' (enforceAccountLimitLocked i a m t')"
      by (rule 1(1) [OF refl]) (use True 1(3) cacheInvD(1) [OF 1(2)] r o in auto)
    then show ?thesis using True r othersSame_trans [OF o(1)] by (subst enforceAccountLimitLocked.simps) (simp add: Let_def)
  next
    case False
    then show ?thesis using r o by (subst enforceAccountLimitLocked.simps) (auto simp: Let_def)
  qed
qed

text \<open>Storing or using an entry of one scope at the time \<open>now\<close>.\<close>

lemma touch_step:
  assumes inv: "cacheInv t" and lru: "lruInv now t"
    and e: "ce_LastAccess e = now"
    and t': "pt_shards t' = (pt_shards t)[shardFor a := touchEntry a f e (pt_shards t ! shardFor a)]" "sameLimits t t'"
    and count: "pt_entryCount t' = pt_entryCount t + (if entryOf (pt_shards t ! shardFor a) a f = None then 1 else 0)"
  shows "cacheInv t'" "lruInv now t'" "othersSame a t t'"
    and "entryOf (pt_shards t ! shardFor a) a f \<noteq> None \<Longrightarrow> entriesIn t' (shardFor a) a = entriesIn t (shardFor a) a"
proof -
  note D = cacheInvD [OF inv]
  note ok = D(2) [OF shardFor_less, of a]
  let ?s = "pt_shards t ! shardFor a"
  show c: "cacheInv t'"
    by (rule cacheInv_replace [OF inv shardFor_less shardOk_touchEntry [OF ok refl] t'(1)]) (simp add: count touchEntry_length [OF ok])
  have acc: "accessOf (touchEntry a f e ?s) k = (if k = (a, f) then now else accessOf ?s k)" for k
    by (cases k) (simp add: accessOf_def entryOf_touchEntry e)
  have o: "sh_order (touchEntry a f e ?s) = (a, f) # without (a, f) (sh_order ?s)" by (simp add: touchEntry_def moveToFront_def)
  have old: "lruOk now ?s" using lru by (simp add: lruInv_def)
  have "sorted_wrt (\<lambda>k l. accessOf ?s l \<le> accessOf ?s k) (without (a, f) (sh_order ?s))"
    using old by (simp add: lruOk_def without_def sorted_wrt_filter)
  then have "sorted_wrt (\<lambda>k l. accessOf (touchEntry a f e ?s) l \<le> accessOf (touchEntry a f e ?s) k) (without (a, f) (sh_order ?s))"
    by (rule sorted_wrt_mono_rel [rotated]) (simp add: acc)
  then have new: "lruOk now (touchEntry a f e ?s)" using old unfolding lruOk_def o by (auto simp: acc)
  show "lruInv now t'"
    unfolding lruInv_def
  proof (intro allI impI)
    fix j assume "j < promptCacheShardCount"
    then show "lruOk now (pt_shards t' ! j)" using new lru D(1) t'(1) by (cases "j = shardFor a") (auto simp: lruInv_def)
  qed
  show "othersSame a t t'" by (rule othersSame_replace [OF inv shardFor_less t'(1)]) (simp add: entriesOf_touchEntry)
  show "entryOf ?s a f \<noteq> None \<Longrightarrow> entriesIn t' (shardFor a) a = entriesIn t (shardFor a) a"
    using t'(1) D(1) by (auto simp: entriesIn_def entryOf_def entriesOf_touchEntry map_of_eq_None_iff intro!: length_gm_put_mem dest!: map_of_SomeD)
qed

text \<open>A step of one scope that may store entries of it.\<close>

definition scopeStep :: "gotime \<Rightarrow> string \<Rightarrow> promptCacheTracker \<Rightarrow> promptCacheTracker \<Rightarrow> bool" where
  "scopeStep now a t t' \<longleftrightarrow> cacheInv t' \<and> lruInv now t' \<and> sameLimits t t' \<and> othersSame a t t'"

lemma scopeStep_trans: "scopeStep now a t t' \<Longrightarrow> scopeStep now a t' t'' \<Longrightarrow> scopeStep now a t t''"
  using othersSame_trans by (auto simp: scopeStep_def sameLimits_def)

lemma shrinks_scopeStep: "shrinks t t' \<Longrightarrow> lruInv now t \<Longrightarrow> othersSame a t t' \<Longrightarrow> scopeStep now a t t'"
  using shrinks_lru by (auto simp: scopeStep_def shrinks_def)

lemma putEntryLocked_scopeStep:
  assumes "cacheInv t" "lruInv now t"
  shows "scopeStep now a t (putEntryLocked (shardFor a) a f x ttl now t)"
proof -
  let ?e = "\<lparr>ce_ExpiresAt = x, ce_TTL = ttl, ce_LastAccess = now\<rparr>"
  let ?t' = "putEntryLocked (shardFor a) a f x ttl now t"
  have t': "pt_shards ?t' = (pt_shards t)[shardFor a := touchEntry a f ?e (pt_shards t ! shardFor a)]" "sameLimits t ?t'"
    "pt_entryCount ?t' = pt_entryCount t + (if entryOf (pt_shards t ! shardFor a) a f = None then 1 else 0)"
    by (simp_all add: putEntryLocked_def Let_def sameLimits_def)
  have "ce_LastAccess ?e = now" by simp
  from touch_step [OF assms this t'] t'(2) show ?thesis by (simp add: scopeStep_def)
qed

lemma storeBreakpoint_scopeStep:
  assumes "cacheInv t" "lruInv now t"
  shows "scopeStep now a t (fst (storeBreakpoint a p m now b (t, u)))"
proof -
  have refl: "scopeStep now a t t" using assms by (simp add: scopeStep_def sameLimits_def)
  define t1 where "t1 = putEntryLocked (shardFor a) a (bp_Fingerprint b) (now + effectivePromptCacheTTL (pt_maxSupportedTTL t) (bp_TTL b))
    (effectivePromptCacheTTL (pt_maxSupportedTTL t) (bp_TTL b)) now t"
  have s1: "scopeStep now a t t1" unfolding t1_def by (rule putEntryLocked_scopeStep [OF assms])
  then have inv: "cacheInv t1" "lruInv now t1" by (simp_all add: scopeStep_def)
  have "scopeStep now a t1 (clearPendingLocked (shardFor a) a (bp_Fingerprint b) t1)"
    by (rule shrinks_scopeStep [OF clearPending_shrinks [OF inv(1) shardFor_less] inv(2) pending_others(2) [OF inv(1) shardFor_less]])
  with s1 have "scopeStep now a t (clearPendingLocked (shardFor a) a (bp_Fingerprint b) t1)" by (rule scopeStep_trans)
  then show ?thesis using refl by (simp add: storeBreakpoint_def Let_def t1_def)
qed

lemma storeBreakpoints_scopeStep:
  assumes "cacheInv t" "lruInv now t"
  shows "scopeStep now a t (fst (fold (storeBreakpoint a p m now) bs (t, u)))"
  using assms
proof (induction bs arbitrary: t u)
  case (Cons b bs)
  obtain t1 u1 where b: "storeBreakpoint a p m now b (t, u) = (t1, u1)" by (rule prod.exhaust)
  have s: "scopeStep now a t t1" using storeBreakpoint_scopeStep [OF Cons.prems, of a p m b u] b by simp
  then have "scopeStep now a t1 (fst (fold (storeBreakpoint a p m now) bs (t1, u1)))" by (intro Cons.IH) (simp_all add: scopeStep_def)
  with s show ?case using scopeStep_trans b by simp
qed (simp add: scopeStep_def sameLimits_def)

text \<open>\<open>Update\<close>, up to the limit of the whole cache.\<close>

lemma cacheUpdate_stages:
  assumes ok: "trackerOk now t" and p: "pr_Breakpoints p \<noteq> []" "a \<noteq> ''''"
  obtains t3 where "cacheUpdate a (Some p) m now t = enforceGlobalLimit (pt_maxEntriesTotal t) t3" "scopeStep now a t t3"
    "int (entriesIn t3 (shardFor a) a) \<le> pt_maxEntriesPerAccount t"
proof -
  let ?i = "shardFor a"
  define t1 where "t1 = prunePendingAccountLocked ?i a now (pruneExpiredAccountLocked ?i a now t)"
  have inv: "cacheInv t" "lruInv now t" "0 \<le> pt_maxEntriesPerAccount t" using ok by (auto simp: trackerOk_def withinLimits_def)
  have s1: "shrinks t t1" unfolding t1_def by (rule prune_shrinks [OF inv(1) shardFor_less])
  have "othersSame a t t1"
    unfolding t1_def using othersSame_trans [OF pruneExpired_others pending_others(1)] inv(1) shrinks_inv [OF pruneExpired_shrinks [OF inv(1) shardFor_less]] by simp
  then have g1: "scopeStep now a t t1" by (rule shrinks_scopeStep [OF s1 inv(2)])
  obtain t2 u where f: "fold (storeBreakpoint a p m now) (pr_Breakpoints p) (t1, False) = (t2, u)" by (rule prod.exhaust)
  have inv1: "cacheInv t1" "lruInv now t1" using g1 by (simp_all add: scopeStep_def)
  have g2: "scopeStep now a t1 t2" using storeBreakpoints_scopeStep [OF inv1, of a p m "pr_Breakpoints p" False] f by simp
  then have inv2: "cacheInv t2" "lruInv now t2" by (simp_all add: scopeStep_def)
  define t3 where "t3 = enforceAccountLimitLocked ?i a (pt_maxEntriesPerAccount t) t2"
  note E = enforceAccountLimitLocked_shrinks [OF inv2(1) shardFor_less [of a], of a "pt_maxEntriesPerAccount t"]
  have "othersSame a t2 t3" unfolding t3_def by (rule enforceAccountLimit_others [OF inv2(1) shardFor_less])
  then have g3: "scopeStep now a t2 t3" using shrinks_scopeStep inv2(2) E unfolding t3_def by blast
  note g = scopeStep_trans [OF scopeStep_trans [OF g1 g2] g3]
  have lim: "int (entriesIn t3 ?i a) \<le> pt_maxEntriesPerAccount t" using E inv(3) unfolding t3_def by simp
  define t4 where "t4 = (if u then markStateChanged t3 else t3)"
  have same: "pt_shards t4 = pt_shards t3" "pt_entryCount t4 = pt_entryCount t3" "sameLimits t3 t4" by (simp_all add: t4_def sameLimits_def)
  have "cacheInv t4" using g same(1,2) by (simp add: scopeStep_def cacheInv_def storedEntries_def)
  then have g4: "scopeStep now a t3 t4" using g same unfolding scopeStep_def lruInv_def by (simp add: othersSame_def)
  show thesis
  proof (rule that)
    show "cacheUpdate a (Some p) m now t = enforceGlobalLimit (pt_maxEntriesTotal t) t4"
      using p f by (simp add: cacheUpdate_def Let_def t1_def t3_def t4_def)
    show "scopeStep now a t t4" by (rule scopeStep_trans [OF g g4])
    show "int (entriesIn t4 ?i a) \<le> pt_maxEntriesPerAccount t" using lim same(1) by (simp add: entriesIn_def)
  qed
qed

lemma cacheUpdate_ok:
  assumes ok: "trackerOk now t"
  shows "\<exists>t'. cacheUpdate a p m now t = Some t' \<and> trackerOk now t' \<and> sameLimits t t'"
proof (cases "\<exists>q. p = Some q \<and> pr_Breakpoints q \<noteq> [] \<and> a \<noteq> ''''")
  case False
  then show ?thesis using ok by (auto simp: cacheUpdate_def sameLimits_def split: option.splits)
next
  case True
  then obtain q where q: "p = Some q" "pr_Breakpoints q \<noteq> []" "a \<noteq> ''''" by blast
  from cacheUpdate_stages [OF ok q(2,3)] obtain t3 where u: "cacheUpdate a p m now t = enforceGlobalLimit (pt_maxEntriesTotal t) t3"
    and g: "scopeStep now a t t3" and l: "int (entriesIn t3 (shardFor a) a) \<le> pt_maxEntriesPerAccount t" unfolding q(1) by metis
  have W: "withinLimits t" and inv: "cacheInv t3" "lruInv now t3" and same: "sameLimits t t3" using ok g by (simp_all add: trackerOk_def scopeStep_def)
  obtain t' where t': "enforceGlobalLimit (pt_maxEntriesTotal t) t3 = Some t'" "shrinks t3 t'" "pt_entryCount t' \<le> pt_maxEntriesTotal t"
    using enforceGlobalLimit_returns [OF inv(1), of "pt_maxEntriesTotal t"] W by (auto simp: withinLimits_def)
  have "int (entriesIn t3 (shardFor b) b) \<le> pt_maxEntriesPerAccount t" for b
    using l W g by (cases "b = a") (auto simp: withinLimits_def scopeStep_def othersSame_def entriesIn_def)
  then have "int (entriesIn t' (shardFor b) b) \<le> pt_maxEntriesPerAccount t" for b using entriesIn_shrinks [OF t'(2) shardFor_less] by blast
  then have "withinLimits t'" using W t'(2,3) same by (simp add: withinLimits_def shrinks_def sameLimits_def)
  then have "trackerOk now t'" using shrinks_inv [OF t'(2)] shrinks_lru [OF t'(2) inv(2)] by (simp add: trackerOk_def)
  moreover have "sameLimits t t'" using same t'(2) by (simp add: sameLimits_def shrinks_def)
  ultimately show ?thesis using u t'(1) by simp
qed

section \<open>Looking up and configuring\<close>

lemma scanPrefixes_hit:
  assumes "scanPrefixes entries p m now bs missing = (Some (b, e), missing')"
  shows "gm_get entries (bp_Fingerprint b) = Some e \<and> b \<in> set bs \<and> m \<le> boundedPromptCacheBreakpointTokens b (pr_TotalInputTokens p) \<and> now \<le> ce_ExpiresAt e"
  using assms
proof (induction entries p m now bs missing rule: scanPrefixes.induct)
  case (2 entries p m now c bs missing)
  then show ?case by (auto simp: Let_def split: if_splits option.splits)
qed simp

lemma useEntry_ok:
  assumes ok: "trackerOk now t" and e: "entryOf (shardOf a t) a (bp_Fingerprint b) \<noteq> None"
  shows "trackerOk now (useEntry a now b e' t)"
proof -
  let ?f = "bp_Fingerprint b"
  define ne where "ne = \<lparr>ce_ExpiresAt = now + effectivePromptCacheTTL (pt_maxSupportedTTL t) (ce_TTL e'),
    ce_TTL = effectivePromptCacheTTL (pt_maxSupportedTTL t) (ce_TTL e'), ce_LastAccess = now\<rparr>"
  define t1 where "t1 = setShard (shardFor a) (touchEntry a ?f ne (pt_shards t ! shardFor a)) t"
  have inv: "cacheInv t" "lruInv now t" "withinLimits t" using ok by (simp_all add: trackerOk_def)
  have e': "entryOf (pt_shards t ! shardFor a) a ?f \<noteq> None" using e by (simp add: shardOf_def)
  have ce: "ce_LastAccess ne = now" by (simp add: ne_def)
  have t1: "pt_shards t1 = (pt_shards t)[shardFor a := touchEntry a ?f ne (pt_shards t ! shardFor a)]" "sameLimits t t1"
    "pt_entryCount t1 = pt_entryCount t + (if entryOf (pt_shards t ! shardFor a) a ?f = None then 1 else 0)"
    using e' by (simp_all add: t1_def sameLimits_def del: not_None_eq)
  note T = touch_step [OF inv(1,2) ce t1]
  have "entriesIn t1 (shardFor c) c = entriesIn t (shardFor c) c" for c
    using T(3) T(4) [OF e'] by (cases "c = a") (auto simp: othersSame_def entriesIn_def)
  then have "withinLimits t1" using inv(3) t1(2,3) e' by (simp add: withinLimits_def sameLimits_def del: not_None_eq)
  then have "trackerOk now t1" using T(1,2) by (simp add: trackerOk_def)
  then have "trackerOk now (clearPendingLocked (shardFor a) a ?f t1)"
    using shrinks_ok [OF clearPending_shrinks [OF T(1) shardFor_less]] by blast
  then show ?thesis by (simp add: useEntry_def Let_def t1_def ne_def)
qed

lemma reservePrefix_shrinks:
  assumes inv: "cacheInv t"
  shows "shrinks t (snd (snd (reservePrefix a now b t)))"
proof -
  have "shrinks t ((setShard (shardFor a) (setPending a q (pt_shards t ! shardFor a)) t)\<lparr>pt_reservationSequence := n\<rparr>)" for q n
    by (rule pending_shrinks [OF inv shardFor_less]) (simp_all add: sameLimits_def)
  then show ?thesis using shrinks_refl [OF inv] by (auto simp: reservePrefix_def Let_def split: option.splits)
qed

lemma markStateChanged_ok [simp]: "trackerOk now (markStateChanged t) = trackerOk now t"
  by (simp add: trackerOk_def cacheInv_def lruInv_def withinLimits_def storedEntries_def entriesIn_def)

lemma lookupPrefix_ok:
  assumes ok: "trackerOk now t"
  shows "trackerOk now (snd (lookupPrefix a p m now t))"
proof -
  define t1 where "t1 = prunePendingAccountLocked (shardFor a) a now (pruneExpiredAccountLocked (shardFor a) a now t)"
  have ok1: "trackerOk now t1"
    using shrinks_ok [OF prune_shrinks [OF _ shardFor_less] ok] ok unfolding t1_def by (simp add: trackerOk_def)
  let ?entries = "entriesOf (pt_shards t1 ! shardFor a) a"
  obtain hit missing where sc: "scanPrefixes ?entries p m now (rev (pr_Breakpoints p)) None = (hit, missing)" by (rule prod.exhaust)
  define t2 where "t2 = (case hit of None \<Rightarrow> t1 | Some (b, e) \<Rightarrow> useEntry a now b e t1)"
  have ok2: "trackerOk now t2"
  proof (cases hit)
    case (Some be)
    obtain b e where be: "be = (b, e)" by (rule prod.exhaust)
    have "gm_get ?entries (bp_Fingerprint b) = Some e" using scanPrefixes_hit [of ?entries p m now _ None b e missing] sc Some be by simp
    then have "entryOf (shardOf a t1) a (bp_Fingerprint b) \<noteq> None" by (simp add: entryOf_def shardOf_def)
    from useEntry_ok [OF ok1 this] show ?thesis by (simp add: t2_def Some be)
  qed (simp add: t2_def ok1)
  have R: "trackerOk now (snd (snd (reservePrefix a now b t2)))" for b
    using shrinks_ok [OF reservePrefix_shrinks ok2] ok2 by (simp add: trackerOk_def)
  define raw where "raw = (case hit of None \<Rightarrow> 0 | Some (b, _) \<Rightarrow> min (boundedPromptCacheBreakpointTokens b (pr_TotalInputTokens p)) (lastTokensOf p))"
  define out where "out = (case missing of Some k \<Rightarrow> if raw < lastTokensOf p then reservePrefix a now k t2 else (False, None, t2) | None \<Rightarrow> (False, None, t2))"
  have ok3: "trackerOk now (snd (snd out))" using R ok2 by (auto simp: out_def split: option.splits)
  obtain x y t3 where o: "out = (x, y, t3)" by (metis prod.exhaust)
  have "snd (lookupPrefix a p m now t) = (if lastTokensOf p < m then t1 else if hit = None then t3 else markStateChanged t3)"
    unfolding lookupPrefix_def Let_def t1_def [symmetric] sc prod.case t2_def [symmetric] raw_def [symmetric] out_def [symmetric] o by simp
  then show ?thesis using ok1 ok3 o by simp
qed

lemma emptyTracker_ok:
  assumes "pt_shards t = replicate promptCacheShardCount emptyShard" "pt_entryCount t = 0" "0 < pt_maxEntriesPerAccount t" "0 < pt_maxEntriesTotal t"
  shows "trackerOk now t"
  unfolding trackerOk_def cacheInv_def lruInv_def withinLimits_def
  using assms by (auto simp: shardOk_empty storedEntries_def sum_list_replicate entriesIn_def lruOk_def) (simp_all add: emptyShard_def entriesOf_def)

lemma clearTracker_ok: "trackerOk now t \<Longrightarrow> trackerOk now (clearTracker t)"
  unfolding clearTracker_def markStateChanged_ok
  by (rule emptyTracker_ok) (simp_all add: map_replicate_const trackerOk_def cacheInv_def withinLimits_def)

lemma sameTables_ok:
  "pt_shards t' = pt_shards t \<Longrightarrow> pt_entryCount t' = pt_entryCount t \<Longrightarrow> sameLimits t t' \<Longrightarrow> trackerOk now t' = trackerOk now t"
  by (simp add: trackerOk_def cacheInv_def lruInv_def withinLimits_def storedEntries_def entriesIn_def sameLimits_def)

lemma ConfigurePolicy_ok:
  assumes "trackerOk now t"
  shows "trackerOk now (ConfigurePolicy enabled mode t)"
proof -
  have "trackerOk now (t\<lparr>pt_enabled := x, pt_namespaceMode := y\<rparr>)" for x y
    using assms sameTables_ok [of "t\<lparr>pt_enabled := x, pt_namespaceMode := y\<rparr>" t now] by (simp add: sameLimits_def)
  then show ?thesis using clearTracker_ok by (simp add: ConfigurePolicy_def Let_def)
qed

lemma ConfigureAccountingMode_ok: "trackerOk now t \<Longrightarrow> trackerOk now (ConfigureAccountingMode mode t)"
  using sameTables_ok [of "ConfigureAccountingMode mode t" t now] by (simp add: ConfigureAccountingMode_def sameLimits_def)

lemma ConfigureLimits_ok:
  assumes "trackerOk now t"
  shows "\<exists>t'. ConfigureLimits x y t = Some t' \<and> trackerOk now t'"
proof -
  define k where "k = (if x \<le> 0 then defaultPromptCacheMaxEntriesPerAccount else x)"
  define n where "n = max (if y \<le> 0 then defaultPromptCacheMaxEntriesTotal else y) k"
  define t1 where "t1 = t\<lparr>pt_maxEntriesPerAccount := k, pt_maxEntriesTotal := n\<rparr>"
  have pos: "0 < k" "0 < n" by (auto simp: k_def n_def defaultPromptCacheMaxEntriesPerAccount_def)
  have inv: "cacheInv t1" "lruInv now t1" using assms by (simp_all add: t1_def trackerOk_def cacheInv_def lruInv_def storedEntries_def)
  have k0: "0 \<le> k" using pos by simp
  note A = enforceAllAccountLimits_shrinks [OF inv(1) k0]
  obtain t' where t': "enforceGlobalLimit n (enforceAllAccountLimits k t1) = Some t'" "shrinks (enforceAllAccountLimits k t1) t'" "pt_entryCount t' \<le> n"
    using enforceGlobalLimit_returns [OF shrinks_inv [OF A(1)] pos(2)] by blast
  note s = shrinks_trans [OF A(1) t'(2)]
  have "int (entriesIn t' (shardFor a) a) \<le> k" for a using entriesIn_shrinks [OF t'(2) shardFor_less] A(2) [OF shardFor_less] by blast
  then have "trackerOk now t'"
    using s pos t'(3) shrinks_lru [OF s inv(2)] by (simp add: trackerOk_def withinLimits_def shrinks_def sameLimits_def t1_def)
  then show ?thesis using t'(1) by (simp add: ConfigureLimits_def Let_def k_def n_def t1_def)
qed

lemma gm_get_map_val: "gm_get (map (\<lambda>(k, v). (k, g v)) m) k = map_option g (gm_get m k)"
  by (induction m) auto

lemma clampShard_tables:
  "entriesOf (clampShard x now s) a = map (\<lambda>(f, e). (f, clampEntry x now e)) (entriesOf s a)"
  "entryOf (clampShard x now s) a f = map_option (clampEntry x now) (entryOf s a f)"
  "orderOf (clampShard x now s) a = orderOf s a" "sh_order (clampShard x now s) = sh_order s"
proof -
  show e: "entriesOf (clampShard x now s) a = map (\<lambda>(f, e). (f, clampEntry x now e)) (entriesOf s a)" for a
    using gm_get_map_val [of "map (\<lambda>(f, e). (f, clampEntry x now e))" "sh_entriesByAccount s" a]
    by (cases "gm_get (sh_entriesByAccount s) a") (simp_all add: clampShard_def entriesOf_def gm_zero_def)
  show "entryOf (clampShard x now s) a f = map_option (clampEntry x now) (entryOf s a f)"
    unfolding entryOf_def e by (rule gm_get_map_val)
qed (simp_all add: clampShard_def orderOf_def)

lemma clampShard_ok:
  "shardOk i s \<Longrightarrow> shardOk i (clampShard x now s)" "lruOk n (clampShard x now s) = lruOk n s"
proof -
  show "shardOk i s \<Longrightarrow> shardOk i (clampShard x now s)"
    by (simp add: shardOk_def clampShard_tables comp_def case_prod_unfold)
  have "ce_LastAccess (clampEntry x now e) = ce_LastAccess e" for e by (simp add: clampEntry_def)
  then have "accessOf (clampShard x now s) k = accessOf s k" for k
    by (cases "entryOf s (fst k) (snd k)") (simp_all add: accessOf_def clampShard_tables)
  then show "lruOk n (clampShard x now s) = lruOk n s" by (simp add: lruOk_def clampShard_tables)
qed

lemma clampEntryTTLs_ok:
  assumes "trackerOk n t"
  shows "trackerOk n (clampEntryTTLs x now t)"
proof (cases "x \<le> 0")
  case False
  have D: "length (pt_shards t) = promptCacheShardCount" using assms by (simp add: trackerOk_def cacheInv_def)
  have "storedEntries (clampEntryTTLs x now t) = storedEntries t"
    using False by (simp add: clampEntryTTLs_def storedEntries_def comp_def clampShard_tables)
  moreover have "entriesIn (clampEntryTTLs x now t) (shardFor a) a = entriesIn t (shardFor a) a" for a
    using False D by (simp add: clampEntryTTLs_def entriesIn_def clampShard_tables)
  ultimately show ?thesis
    using assms False D clampShard_ok(1)
    by (simp add: trackerOk_def cacheInv_def lruInv_def withinLimits_def) (simp add: clampEntryTTLs_def clampShard_ok)
qed (use assms in \<open>simp add: clampEntryTTLs_def\<close>)

lemma ConfigureEfficiencyRange_ok:
  assumes "trackerOk n t"
  shows "trackerOk n (ConfigureEfficiencyRange x lo hi now t)"
proof -
  have "trackerOk n (t\<lparr>pt_maxSupportedTTL := u, pt_readEfficiencyMin := v, pt_readEfficiencyMax := w\<rparr>)" for u v w
    using assms sameTables_ok [of "t\<lparr>pt_maxSupportedTTL := u, pt_readEfficiencyMin := v, pt_readEfficiencyMax := w\<rparr>" t n] by (simp add: sameLimits_def)
  then show ?thesis by (auto simp: ConfigureEfficiencyRange_def Let_def intro: clampEntryTTLs_ok split: prod.splits)
qed

section \<open>The reachable trackers\<close>

text \<open>
  The trackers that arise from a new one when the operations are called in any order, at times that do not go back: \<open>cacheReached now t\<close>
  is the tracker \<open>t\<close> at the time \<open>now\<close>.
\<close>

inductive cacheReached :: "gotime \<Rightarrow> promptCacheTracker \<Rightarrow> bool" where
  start: "cacheReached now (newPromptCacheTrackerWithEfficiencyRange ttl lo hi)"
| wait: "cacheReached now t \<Longrightarrow> now \<le> later \<Longrightarrow> cacheReached later t"
| update: "cacheReached now t \<Longrightarrow> cacheUpdate a p m now t = Some t' \<Longrightarrow> cacheReached now t'"
| lookup: "cacheReached now t \<Longrightarrow> cacheReached now (snd (lookupPrefix a q m now t))"
| release: "cacheReached now t \<Longrightarrow> cacheReached now (ReleaseReservation r t)"
| prune: "cacheReached now t \<Longrightarrow> cacheReached now (PruneExpired now t)"
| clear: "cacheReached now t \<Longrightarrow> cacheReached now (clearTracker t)"
| policy: "cacheReached now t \<Longrightarrow> cacheReached now (ConfigurePolicy enabled mode t)"
| limits: "cacheReached now t \<Longrightarrow> ConfigureLimits perAccount overall t = Some t' \<Longrightarrow> cacheReached now t'"
| efficiency: "cacheReached now t \<Longrightarrow> cacheReached now (ConfigureEfficiencyRange ttl lo hi now t)"
| accounting: "cacheReached now t \<Longrightarrow> cacheReached now (ConfigureAccountingMode mode t)"

lemma newTracker_ok: "trackerOk now (newPromptCacheTrackerWithEfficiencyRange ttl lo hi)"
  by (rule emptyTracker_ok)
    (simp_all add: newPromptCacheTrackerWithEfficiencyRange_def defaultPromptCacheMaxEntriesPerAccount_def defaultPromptCacheMaxEntriesTotal_def split: prod.splits)

lemma reached_ok: "cacheReached now t \<Longrightarrow> trackerOk now t"
proof (induction rule: cacheReached.induct)
  case (wait now t later)
  then show ?case using lruInv_later by (auto simp: trackerOk_def)
next
  case (update now t a p m t')
  then show ?case using cacheUpdate_ok [of now t a p m] by auto
next
  case (limits now t perAccount overall t')
  then show ?case using ConfigureLimits_ok [of now t perAccount overall] by auto
next
  case (release now t r)
  show ?case by (rule shrinks_ok [OF ReleaseReservation_shrinks release.IH]) (use release.IH in \<open>simp add: trackerOk_def\<close>)
next
  case (prune now t)
  show ?case by (rule shrinks_ok [OF PruneExpired_shrinks prune.IH]) (use prune.IH in \<open>simp add: trackerOk_def\<close>)
qed (simp_all add: newTracker_ok lookupPrefix_ok clearTracker_ok ConfigurePolicy_ok ConfigureEfficiencyRange_ok ConfigureAccountingMode_ok)

text \<open>
  C15. However the prompt cache is used, it holds at most as many entries as configured, in total and of every scope; its counter is the
  number of entries, the use order of a shard lists exactly the stored entries; and every store and every change of the limits returns.
\<close>

theorem cache_within_limits:
  assumes "cacheReached now t"
  shows "0 \<le> pt_entryCount t \<and> pt_entryCount t \<le> pt_maxEntriesTotal t \<and> pt_entryCount t = int (storedEntries t) \<and>
    (\<forall>a. int (length (entriesOf (shardOf a t) a)) \<le> pt_maxEntriesPerAccount t) \<and>
    (\<forall>a f. (entryOf (shardOf a t) a f = None) = ((a, f) \<notin> set (sh_order (shardOf a t)))) \<and>
    (\<forall>a. length (orderOf (shardOf a t) a) = length (entriesOf (shardOf a t) a)) \<and>
    (\<forall>a p m. cacheUpdate a p m now t \<noteq> None) \<and> (\<forall>x y. ConfigureLimits x y t \<noteq> None)"
proof -
  note ok = reached_ok [OF assms]
  have inv: "cacheInv t" "withinLimits t" using ok by (simp_all add: trackerOk_def)
  have shard: "shardOk (shardFor a) (shardOf a t)" for a using cacheInvD(2) [OF inv(1) shardFor_less] by (simp add: shardOf_def)
  have "cacheUpdate a p m now t \<noteq> None" for a p m using cacheUpdate_ok [OF ok, of a p m] by auto
  moreover have "ConfigureLimits x y t \<noteq> None" for x y using ConfigureLimits_ok [OF ok, of x y] by auto
  ultimately show ?thesis
    using inv(2) cacheInvD(3) [OF inv(1)] shardOkD(2) [OF shard] entries_length [OF shard]
    unfolding withinLimits_def entriesIn_def shardOf_def by simp
qed

definition sampleProfile :: promptCacheProfile where
  "sampleProfile = \<lparr>pr_Breakpoints = [\<lparr>bp_Fingerprint = ''x'', bp_CumulativeTokens = 2000, bp_TTL = hour\<rparr>], pr_TotalInputTokens = 2500, pr_Model = ''m''\<rparr>"

definition smallCache :: promptCacheTracker where
  "smallCache = the (ConfigureLimits 1 1 (newPromptCacheTrackerWithEfficiencyRange hour 0 1))"

definition cacheWithA :: promptCacheTracker where
  "cacheWithA = the (cacheUpdate ''a'' (Some sampleProfile) 1024 0 smallCache)"

lemma cacheWithA_reached: "cacheReached 1 cacheWithA"
proof -
  have "ConfigureLimits 1 1 (newPromptCacheTrackerWithEfficiencyRange hour 0 1) = Some smallCache"
    using ConfigureLimits_ok [OF newTracker_ok [of 0], of 1 1 hour 0 1] unfolding smallCache_def by force
  from cacheReached.limits [OF cacheReached.start this] have s: "cacheReached 0 smallCache" .
  have "cacheUpdate ''a'' (Some sampleProfile) 1024 0 smallCache = Some cacheWithA"
    using cacheUpdate_ok [OF reached_ok [OF s], of "''a''" "Some sampleProfile" 1024] by (auto simp: cacheWithA_def)
  from cacheReached.update [OF s this] show ?thesis by (rule cacheReached.wait) simp
qed

lemma cache_within_limits_witness: "pt_entryCount cacheWithA = 1 \<and> pt_entryCount cacheWithA \<le> pt_maxEntriesTotal cacheWithA"
proof -
  have "pt_entryCount cacheWithA = 1" by code_simp
  then show ?thesis using cache_within_limits [OF cacheWithA_reached] by simp
qed

text \<open>
  C17. Storing the prefixes of one scope takes an entry of another scope away only when the cache is full, and only one that was used no
  later than every entry the cache still holds.
\<close>

theorem eviction_least_recent:
  assumes reached: "cacheReached now t" and u: "cacheUpdate a p m now t = Some t'" and b: "b \<noteq> a"
    and e: "entryOf (shardOf b t) b f = Some e" and gone: "entryOf (shardOf b t') b f = None"
  shows "pt_entryCount t' = pt_maxEntriesTotal t' \<and>
    (\<forall>c g e'. entryOf (shardOf c t') c g = Some e' \<longrightarrow> ce_LastAccess e \<le> ce_LastAccess e')"
proof -
  note ok = reached_ok [OF reached]
  have "\<exists>q. p = Some q \<and> pr_Breakpoints q \<noteq> [] \<and> a \<noteq> ''''"
    using u e gone by (auto simp: cacheUpdate_def split: option.splits if_splits)
  then obtain q where q: "p = Some q" "pr_Breakpoints q \<noteq> []" "a \<noteq> ''''" by blast
  from cacheUpdate_stages [OF ok q(2,3)] u obtain t3 where g: "enforceGlobalLimit (pt_maxEntriesTotal t) t3 = Some t'" "scopeStep now a t t3"
    unfolding q(1) by metis
  have inv: "cacheInv t3" "lruInv now t3" and same: "sameLimits t t3" "othersSame a t t3" using g(2) by (simp_all add: scopeStep_def)
  have e3: "entryOf (shardOf b t3) b f = Some e" using e same(2) b by (simp add: othersSame_def entryOf_def shardOf_def)
  have "0 < pt_maxEntriesTotal t" using ok by (simp add: trackerOk_def withinLimits_def)
  from enforceGlobalLimit_returns [OF inv(1) this] g(1) have s: "shrinks t3 t'" "pt_entryCount t' \<le> pt_maxEntriesTotal t" by auto
  have "\<not> pt_entryCount t' < pt_maxEntriesTotal t" using enforceGlobalLimit_exact [OF inv(1) g(1)] e3 gone by auto
  then have "pt_entryCount t' = pt_maxEntriesTotal t'" using s same(1) by (simp add: shrinks_def sameLimits_def)
  moreover have "ce_LastAccess e \<le> ce_LastAccess e'" if e': "entryOf (shardOf c t') c g = Some e'" for c g e'
  proof -
    note listed = shardOkD(2) [OF cacheInvD(2) [OF _ shardFor_less]]
    have l: "(c, g) \<in> set (sh_order (pt_shards t' ! shardFor c))" using listed [OF shrinks_inv [OF s(1)], of c c g] e' by (simp add: shardOf_def)
    have "(b, f) \<in> set (sh_order (pt_shards t3 ! shardFor b)) - set (sh_order (pt_shards t' ! shardFor b))"
      using listed [OF inv(1), of b b f] listed [OF shrinks_inv [OF s(1)], of b b f] e3 gone by (simp add: shardOf_def)
    then have "accessOf (pt_shards t3 ! shardFor b) (b, f) \<le> accessOf (pt_shards t3 ! shardFor c) (c, g)"
      using enforceGlobalLimit_lru [OF inv g(1)] l shardFor_less unfolding lruEvicts_def by blast
    then show ?thesis
      using shrinks_access(1) [OF s(1) shardFor_less l] e3 e' by (simp add: accessOf_def shardOf_def)
  qed
  ultimately show ?thesis by blast
qed

lemma eviction_least_recent_witness:
  "pt_entryCount (the (cacheUpdate ''b'' (Some sampleProfile) 1024 1 cacheWithA)) = 1 \<and>
   0 \<le> ce_LastAccess (the (entryOf (shardOf ''b'' (the (cacheUpdate ''b'' (Some sampleProfile) 1024 1 cacheWithA))) ''b'' ''x''))"
proof -
  let ?t' = "the (cacheUpdate ''b'' (Some sampleProfile) 1024 1 cacheWithA)"
  have u: "cacheUpdate ''b'' (Some sampleProfile) 1024 1 cacheWithA = Some ?t'"
    using cacheUpdate_ok [OF reached_ok [OF cacheWithA_reached], of "''b''" "Some sampleProfile" 1024] by auto
  have e: "entryOf (shardOf ''a'' cacheWithA) ''a'' ''x'' = Some \<lparr>ce_ExpiresAt = hour, ce_TTL = hour, ce_LastAccess = 0\<rparr>" by code_simp
  have gone: "entryOf (shardOf ''a'' ?t') ''a'' ''x'' = None" by code_simp
  have "''a'' \<noteq> ''b''" by simp
  note least = eviction_least_recent [OF cacheWithA_reached u this e gone]
  have "entryOf (shardOf ''b'' ?t') ''b'' ''x'' = Some \<lparr>ce_ExpiresAt = 1 + hour, ce_TTL = hour, ce_LastAccess = 1\<rparr>" by code_simp
  moreover have "pt_maxEntriesTotal ?t' = 1" by code_simp
  ultimately show ?thesis using least by fastforce
qed

end
