(* ===== verification/Prompt_Cache_Hits.thy ===== *)
theory Prompt_Cache_Hits
  imports Prompt_Cache_Props
begin

text \<open>
  What was stored is found again: after \<open>Update\<close> a lookup of the same prompt matches all of it until the time to live is over,
  provided the limits leave room for its prefixes.
\<close>

definition storedAt :: "promptCacheTracker \<Rightarrow> string \<Rightarrow> string \<Rightarrow> promptCacheEntry option" where
  "storedAt t a f = entryOf (pt_shards t ! shardFor a) a f"

section \<open>Pruning keeps what is alive\<close>

lemma removeEntryLocked_other_entry:
  assumes "cacheInv t" "g \<noteq> f"
  shows "storedAt (snd (removeEntryLocked (shardFor a) a g t)) a f = storedAt t a f"
  using assms(2) cacheInvD(1) [OF assms(1)] by (simp add: storedAt_def removeEntryLocked_def Let_def entryOf_dropEntry)

lemma pruneExpired_keeps:
  assumes inv: "cacheInv t" and e: "storedAt t a f = Some e" "now < ce_ExpiresAt e"
  shows "storedAt (pruneExpiredAccountLocked (shardFor a) a now t) a f = Some e"
proof -
  let ?m = "entriesOf (pt_shards t ! shardFor a) a"
  let ?gs = "map fst (filter (\<lambda>(_, e). \<not> now < ce_ExpiresAt e) ?m)"
  have wf: "gm_wf ?m" using shardOkD(4) [OF cacheInvD(2) [OF inv shardFor_less]] .
  have "e' = e" if "(f, e') \<in> set ?m" for e'
    using that wf e(1) by (simp add: storedAt_def entryOf_def)
  then have notin: "f \<notin> set ?gs" using e(2) by auto
  have "f \<notin> set gs \<Longrightarrow> cacheInv u \<Longrightarrow> storedAt (foldl (\<lambda>t f. snd (removeEntryLocked (shardFor a) a f t)) u gs) a f = storedAt u a f" for gs u
  proof (induction gs arbitrary: u)
    case (Cons g gs)
    have "cacheInv (snd (removeEntryLocked (shardFor a) a g u))" by (rule shrinks_inv [OF removeEntryLocked_shrinks(1) [OF Cons.prems(2) shardFor_less]])
    moreover have "g \<noteq> f" using Cons.prems(1) by auto
    ultimately show ?case using Cons removeEntryLocked_other_entry [OF Cons.prems(2), of g f a] by simp
  qed simp
  from this [OF notin inv] show ?thesis using e(1) by (simp add: pruneExpiredAccountLocked_def)
qed

lemma pending_storedAt:
  assumes "cacheInv t"
  shows "storedAt (prunePendingAccountLocked (shardFor b) b now t) a f = storedAt t a f"
    "storedAt (clearPendingLocked (shardFor b) b g t) a f = storedAt t a f"
  using cacheInvD(1) [OF assms]
  by (cases "shardFor a = shardFor b"; simp add: storedAt_def prunePendingAccountLocked_def clearPendingLocked_def Let_def)+

section \<open>The settings stay\<close>

lemma maxTTL_same:
  "pt_maxSupportedTTL (snd (removeEntryLocked i a f t)) = pt_maxSupportedTTL t"
  "pt_maxSupportedTTL (prunePendingAccountLocked i a now t) = pt_maxSupportedTTL t"
  "pt_maxSupportedTTL (clearPendingLocked i a f t) = pt_maxSupportedTTL t"
  "pt_maxSupportedTTL (putEntryLocked i a f x ttl now t) = pt_maxSupportedTTL t"
  by (simp_all add: removeEntryLocked_def prunePendingAccountLocked_def clearPendingLocked_def putEntryLocked_def markStateChanged_def Let_def)

lemma pruneExpired_maxTTL: "pt_maxSupportedTTL (pruneExpiredAccountLocked i a now t) = pt_maxSupportedTTL t"
proof -
  have "pt_maxSupportedTTL (foldl (\<lambda>t f. snd (removeEntryLocked i a f t)) t fs) = pt_maxSupportedTTL t" for fs
    by (induction fs arbitrary: t) (simp_all add: maxTTL_same)
  then show ?thesis by (simp add: pruneExpiredAccountLocked_def)
qed

section \<open>Storing\<close>

definition stores :: "promptCacheProfile \<Rightarrow> int \<Rightarrow> promptCacheBreakpoint \<Rightarrow> bool" where
  "stores p m b \<longleftrightarrow> (pr_TotalInputTokens p > 0 \<longrightarrow> bp_CumulativeTokens b \<le> pr_TotalInputTokens p) \<and>
     m \<le> boundedPromptCacheBreakpointTokens b (pr_TotalInputTokens p)"

definition storedEntry :: "promptCacheTracker \<Rightarrow> promptCacheBreakpoint \<Rightarrow> gotime \<Rightarrow> promptCacheEntry" where
  "storedEntry t b now = \<lparr>ce_ExpiresAt = now + effectivePromptCacheTTL (pt_maxSupportedTTL t) (bp_TTL b),
     ce_TTL = effectivePromptCacheTTL (pt_maxSupportedTTL t) (bp_TTL b), ce_LastAccess = now\<rparr>"

lemma storeBreakpoint_step:
  "fst (storeBreakpoint a p m now b (t, u)) =
    (if stores p m b then clearPendingLocked (shardFor a) a (bp_Fingerprint b)
       (putEntryLocked (shardFor a) a (bp_Fingerprint b) (ce_ExpiresAt (storedEntry t b now)) (ce_TTL (storedEntry t b now)) now t) else t)"
  by (auto simp: storeBreakpoint_def stores_def storedEntry_def Let_def)

text \<open>One stored prefix adds at most one entry to the scope and to the cache.\<close>

lemma putEntryLocked_counts:
  assumes "cacheInv t"
  shows "storedAt (putEntryLocked (shardFor a) a f x ttl now t) a f = Some \<lparr>ce_ExpiresAt = x, ce_TTL = ttl, ce_LastAccess = now\<rparr>"
    and "entriesIn (putEntryLocked (shardFor a) a f x ttl now t) (shardFor a) a \<le> Suc (entriesIn t (shardFor a) a)"
    and "pt_entryCount (putEntryLocked (shardFor a) a f x ttl now t) \<le> pt_entryCount t + 1"
  using cacheInvD(1) [OF assms]
  by (simp_all add: length_gm_put_le putEntryLocked_def Let_def storedAt_def entriesIn_def entryOf_touchEntry entriesOf_touchEntry)

lemma storeBreakpoint_counts:
  assumes inv: "cacheInv t" "lruInv now t"
  shows "entriesIn (fst (storeBreakpoint a p m now b (t, u))) (shardFor a) a \<le> Suc (entriesIn t (shardFor a) a)"
    and "pt_entryCount (fst (storeBreakpoint a p m now b (t, u))) \<le> pt_entryCount t + 1"
    and "pt_maxSupportedTTL (fst (storeBreakpoint a p m now b (t, u))) = pt_maxSupportedTTL t"
    and "stores p m b \<Longrightarrow> storedAt (fst (storeBreakpoint a p m now b (t, u))) a (bp_Fingerprint b) = Some (storedEntry t b now)"
proof -
  let ?f = "bp_Fingerprint b" and ?e = "storedEntry t b now"
  define t1 where "t1 = putEntryLocked (shardFor a) a ?f (ce_ExpiresAt ?e) (ce_TTL ?e) now t"
  note P = putEntryLocked_counts [OF inv(1), of a ?f "ce_ExpiresAt ?e" "ce_TTL ?e" now, folded t1_def]
  have inv1: "cacheInv t1" using putEntryLocked_scopeStep [OF inv] by (simp add: t1_def scopeStep_def)
  have s: "shrinks t1 (clearPendingLocked (shardFor a) a ?f t1)" by (rule clearPending_shrinks [OF inv1 shardFor_less])
  then have "entriesIn (clearPendingLocked (shardFor a) a ?f t1) (shardFor a) a \<le> entriesIn t1 (shardFor a) a"
    "pt_entryCount (clearPendingLocked (shardFor a) a ?f t1) \<le> pt_entryCount t1" by (simp_all add: shrinks_def)
  then show "entriesIn (fst (storeBreakpoint a p m now b (t, u))) (shardFor a) a \<le> Suc (entriesIn t (shardFor a) a)"
    and "pt_entryCount (fst (storeBreakpoint a p m now b (t, u))) \<le> pt_entryCount t + 1"
    using P(2,3) by (auto simp: storeBreakpoint_step t1_def [symmetric])
  show "pt_maxSupportedTTL (fst (storeBreakpoint a p m now b (t, u))) = pt_maxSupportedTTL t" by (simp add: storeBreakpoint_step maxTTL_same)
  show "stores p m b \<Longrightarrow> storedAt (fst (storeBreakpoint a p m now b (t, u))) a ?f = Some ?e"
    using P(1) pending_storedAt(2) [OF inv1] by (simp add: storeBreakpoint_step t1_def [symmetric]) (simp add: storedEntry_def)
qed

lemma storeBreakpoints_counts:
  assumes "cacheInv t" "lruInv now t"
  shows "entriesIn (fst (fold (storeBreakpoint a p m now) bs (t, u))) (shardFor a) a \<le> entriesIn t (shardFor a) a + length bs \<and>
    pt_entryCount (fst (fold (storeBreakpoint a p m now) bs (t, u))) \<le> pt_entryCount t + int (length bs) \<and>
    pt_maxSupportedTTL (fst (fold (storeBreakpoint a p m now) bs (t, u))) = pt_maxSupportedTTL t"
  using assms
proof (induction bs arbitrary: t u)
  case (Cons b bs)
  obtain t1 u1 where b: "storeBreakpoint a p m now b (t, u) = (t1, u1)" by (rule prod.exhaust)
  have "scopeStep now a t t1" using storeBreakpoint_scopeStep [OF Cons.prems, of a p m b u] b by simp
  then have inv1: "cacheInv t1" "lruInv now t1" by (simp_all add: scopeStep_def)
  show ?case using Cons.IH [OF inv1, of u1] storeBreakpoint_counts(1,2,3) [OF Cons.prems, of a p m b u] b by simp
qed simp

section \<open>Storing and looking up\<close>

text \<open>With room for all prefixes nothing is evicted.\<close>

lemma cacheUpdate_roomy:
  assumes ok: "trackerOk now t" and a: "a \<noteq> ''''" and p: "pr_Breakpoints p = bs @ [b]" and b: "stores p m b"
    and room: "int (entriesIn t (shardFor a) a + length (pr_Breakpoints p)) \<le> pt_maxEntriesPerAccount t"
      "pt_entryCount t + int (length (pr_Breakpoints p)) \<le> pt_maxEntriesTotal t"
    and u: "cacheUpdate a (Some p) m now t = Some t'"
  shows "storedAt t' a (bp_Fingerprint b) = Some (storedEntry t b now)"
proof -
  let ?i = "shardFor a"
  define t1 where "t1 = prunePendingAccountLocked ?i a now (pruneExpiredAccountLocked ?i a now t)"
  have inv: "cacheInv t" "lruInv now t" using ok by (auto simp: trackerOk_def)
  have s1: "shrinks t t1" unfolding t1_def by (rule prune_shrinks [OF inv(1) shardFor_less])
  have inv1: "cacheInv t1" "lruInv now t1" using shrinks_inv [OF s1] shrinks_lru [OF s1 inv(2)] by simp_all
  have ttl1: "pt_maxSupportedTTL t1 = pt_maxSupportedTTL t" by (simp add: t1_def maxTTL_same pruneExpired_maxTTL)
  obtain t2 v where f: "fold (storeBreakpoint a p m now) bs (t1, False) = (t2, v)" by (rule prod.exhaust)
  obtain t3 w where g: "storeBreakpoint a p m now b (t2, v) = (t3, w)" by (rule prod.exhaust)
  have "scopeStep now a t1 t2" using storeBreakpoints_scopeStep [OF inv1, of a p m bs False] f by simp
  then have inv2: "cacheInv t2" "lruInv now t2" by (simp_all add: scopeStep_def)
  have "scopeStep now a t2 t3" using storeBreakpoint_scopeStep [OF inv2, of a p m b v] g by simp
  then have inv3: "cacheInv t3" by (simp add: scopeStep_def)
  note C2 = storeBreakpoints_counts [OF inv1, of a p m bs False, unfolded f fst_conv]
  note C3 = storeBreakpoint_counts(1-3) [OF inv2, of a p m b v, unfolded g fst_conv]
  have stored2: "storedAt t3 a (bp_Fingerprint b) = Some (storedEntry t2 b now)" using storeBreakpoint_counts(4) [OF inv2 b, of a v] g by simp
  have stored: "storedAt t3 a (bp_Fingerprint b) = Some (storedEntry t b now)" using stored2 C2 ttl1 by (simp add: storedEntry_def)
  have "int (entriesIn t3 ?i a) \<le> pt_maxEntriesPerAccount t" "pt_entryCount t3 \<le> pt_maxEntriesTotal t"
    using C2 C3(1,2) room s1 p shardFor_less [of a] by (auto simp: shrinks_def dest!: spec [of _ ?i] spec [of _ a])
  then have noop: "enforceAccountLimitLocked ?i a (pt_maxEntriesPerAccount t) t3 = t3"
    by (subst enforceAccountLimitLocked.simps) (simp add: entriesIn_def Let_def)
  have fold: "fold (storeBreakpoint a p m now) (pr_Breakpoints p) (t1, False) = (t3, w)" using f g p by simp
  have "cacheUpdate a (Some p) m now t = enforceGlobalLimit (pt_maxEntriesTotal t) (if w then markStateChanged t3 else t3)"
    using a p noop fold by (simp add: cacheUpdate_def Let_def t1_def)
  also have "\<dots> = Some (if w then markStateChanged t3 else t3)"
    using \<open>pt_entryCount t3 \<le> pt_maxEntriesTotal t\<close> by (subst enforceGlobalLimit_def, subst evictRounds.simps) simp
  finally have "t' = (if w then markStateChanged t3 else t3)" using u by simp
  then show ?thesis using stored by (simp add: storedAt_def)
qed

lemma lookup_stored:
  assumes inv: "cacheInv t" and p: "pr_Breakpoints p = bs @ [b]" and e: "storedAt t a (bp_Fingerprint b) = Some e" "now < ce_ExpiresAt e"
    and b: "lastTokensOf p = boundedPromptCacheBreakpointTokens b (pr_TotalInputTokens p)" "0 < lastTokensOf p" "m \<le> lastTokensOf p"
  shows "cl_rawMatchedTokens (fst (lookupPrefix a p m now t)) = lastTokensOf p \<and> cl_reservation (fst (lookupPrefix a p m now t)) = None \<and>
    \<not> cl_belowMinimum (fst (lookupPrefix a p m now t)) \<and> \<not> cl_inFlight (fst (lookupPrefix a p m now t))"
proof -
  define t1 where "t1 = prunePendingAccountLocked (shardFor a) a now (pruneExpiredAccountLocked (shardFor a) a now t)"
  have inv1: "cacheInv (pruneExpiredAccountLocked (shardFor a) a now t)" by (rule shrinks_inv [OF pruneExpired_shrinks [OF inv shardFor_less]])
  have "storedAt t1 a (bp_Fingerprint b) = Some e" unfolding t1_def pending_storedAt(1) [OF inv1] by (rule pruneExpired_keeps [OF inv e])
  then have "gm_get (entriesOf (pt_shards t1 ! shardFor a) a) (bp_Fingerprint b) = Some e" by (simp add: storedAt_def entryOf_def)
  then have sc: "scanPrefixes (entriesOf (pt_shards t1 ! shardFor a) a) p m now (rev (pr_Breakpoints p)) None = (Some (b, e), None)"
    using p b e(2) by (simp add: Let_def)
  show ?thesis
    unfolding lookupPrefix_def Let_def t1_def [symmetric] sc prod.case option.case using b by simp
qed

text \<open>
  After an answered request is stored, a lookup of the same prompt for the same scope matches the whole cacheable part, reserves
  nothing and sees no creation in flight, at any time before the time to live of its longest prefix is over, provided the limits of
  the scope and of the cache left room for the prefixes.
\<close>

lemma stored_prefix_hits:
  assumes reached: "cacheReached now t" and a: "a \<noteq> ''''" and p: "pr_Breakpoints p = bs @ [b]"
    and b: "lastTokensOf p = bp_CumulativeTokens b" "0 < lastTokensOf p" "m \<le> lastTokensOf p" "lastTokensOf p \<le> pr_TotalInputTokens p"
    and room: "int (length (entriesOf (shardOf a t) a) + length (pr_Breakpoints p)) \<le> pt_maxEntriesPerAccount t"
      "pt_entryCount t + int (length (pr_Breakpoints p)) \<le> pt_maxEntriesTotal t"
    and u: "cacheUpdate a (Some p) m now t = Some t'"
    and later: "now \<le> later" "later < now + effectivePromptCacheTTL (pt_maxSupportedTTL t) (bp_TTL b)"
  shows "cl_rawMatchedTokens (fst (lookupPrefix a p m later t')) = lastTokensOf p \<and> cl_reservation (fst (lookupPrefix a p m later t')) = None \<and>
    \<not> cl_belowMinimum (fst (lookupPrefix a p m later t')) \<and> \<not> cl_inFlight (fst (lookupPrefix a p m later t'))"
proof -
  note ok = reached_ok [OF reached]
  have bounded: "boundedPromptCacheBreakpointTokens b (pr_TotalInputTokens p) = bp_CumulativeTokens b"
    using b by (simp add: boundedPromptCacheBreakpointTokens_def Let_def)
  have st: "stores p m b" using b bounded by (simp add: stores_def)
  have s: "storedAt t' a (bp_Fingerprint b) = Some (storedEntry t b now)"
    by (rule cacheUpdate_roomy [OF ok a p st _ room(2) u]) (use room(1) in \<open>simp add: entriesIn_def shardOf_def\<close>)
  have inv: "cacheInv t'" using cacheUpdate_ok [OF ok, of a "Some p" m] u by (auto simp: trackerOk_def)
  show ?thesis by (rule lookup_stored [OF inv p s]) (use b bounded later in \<open>simp_all add: storedEntry_def\<close>)
qed

end
