(* ===== verification/Prompt_Cache_Profile_Props.thy ===== *)
theory Prompt_Cache_Profile_Props
  imports Prompt_Cache_Profile Prompt_Cache_Hits
begin

text \<open>
  The profile of a request identifies the prefixes of its prompt: what is hashed for a prefix determines the canonical texts of its blocks,
  the breakpoints of a profile grow strictly within the input, and so a stored profile is found again as a whole.
\<close>

section \<open>What is hashed\<close>

lemma show_nat_nonzero: "char_of (0::nat) \<notin> set (show_nat n)"
proof (induction n rule: show_nat.induct)
  case (1 n)
  have d: "char_of (0::nat) \<noteq> char_of (48 + k :: nat)" if "k < 10" for k
  proof
    assume "char_of (0::nat) = char_of (48 + k)"
    then have "of_char (char_of (0::nat)) = (of_char (char_of (48 + k)) :: nat)" by simp
    then show False using that by simp
  qed
  show ?case
  proof (cases "n < 10")
    case True
    then show ?thesis using d [of n] by (subst show_nat.simps) simp
  next
    case False
    then show ?thesis using 1 d [of "n mod 10"] by (subst show_nat.simps) simp
  qed
qed

definition decimalValue :: "string \<Rightarrow> nat" where
  "decimalValue s = foldl (\<lambda>n c. 10 * n + (of_char c - 48)) 0 s"

lemma decimalValue_show_nat: "decimalValue (show_nat n) = n"
proof (induction n rule: show_nat.induct)
  case (1 n)
  have d: "(of_char (char_of (48 + k :: nat)) :: nat) - 48 = k" if "k < 10" for k using that by simp
  show ?case
  proof (cases "n < 10")
    case True
    then show ?thesis using d [of n] by (subst show_nat.simps) (simp add: decimalValue_def)
  next
    case False
    have "decimalValue (show_nat n) = 10 * decimalValue (show_nat (n div 10)) + n mod 10"
      using False d [of "n mod 10"] by (subst show_nat.simps) (simp add: decimalValue_def)
    then show ?thesis using 1 False by simp
  qed
qed

lemma show_nat_inj: "show_nat m = show_nat n \<Longrightarrow> m = n"
  using decimalValue_show_nat by metis

lemma hashChunk_split:
  assumes "hashChunk x @ r = hashChunk y @ s"
  shows "x = y \<and> r = s"
proof -
  let ?z = "char_of (0::nat)"
  have tw: "takeWhile (\<lambda>c. c \<noteq> ?z) (hashChunk u @ v) = show_nat (length u)" for u v
    using show_nat_nonzero [of "length u"] by (auto simp: hashChunk_def takeWhile_tail)
  have "show_nat (length x) = show_nat (length y)" using tw [of x r] tw [of y s] assms by simp
  then have "length x = length y" by (rule show_nat_inj)
  then show ?thesis using assms by (simp add: hashChunk_def)
qed

definition hashInput :: "string list \<Rightarrow> string" where
  "hashInput chunks = concat (map hashChunk chunks)"

lemma hashChunk_nonempty [simp]: "hashChunk x \<noteq> []"
  by (simp add: hashChunk_def)

lemma hashInput_inj: "hashInput xs = hashInput ys \<Longrightarrow> xs = ys"
proof (induction xs arbitrary: ys)
  case Nil
  then show ?case by (cases ys) (auto simp: hashInput_def)
next
  case (Cons x xs)
  then obtain y ys' where ys: "ys = y # ys'" by (cases ys) (auto simp: hashInput_def)
  have "x = y \<and> hashInput xs = hashInput ys'" by (rule hashChunk_split) (use Cons.prems ys in \<open>simp add: hashInput_def\<close>)
  then show ?case using Cons.IH ys by simp
qed

section \<open>Breakpoints of a payload\<close>

definition prefixInput :: "fingerprintEnv \<Rightarrow> cacheablePromptBlock list \<Rightarrow> string" where
  "prefixInput env blocks = hashInput (map (chunkOf env) blocks)"

definition prefixTokens :: "cacheablePromptBlock list \<Rightarrow> int" where
  "prefixTokens blocks = sum_list (map (\<lambda>b. max (bk_Tokens b) 0) blocks)"

definition prefixBreakpoint :: "fingerprintEnv \<Rightarrow> cacheablePromptBlock list \<Rightarrow> nat \<Rightarrow> promptCacheBreakpoint" where
  "prefixBreakpoint env blocks i = \<lparr>bp_Fingerprint = fe_sha256 env (prefixInput env (take (Suc i) blocks)),
     bp_CumulativeTokens = prefixTokens (take (Suc i) blocks), bp_TTL = normalizePromptCacheTTL (bk_TTL (blocks ! i))\<rparr>"

lemma kiroStep_all:
  "foldl (kiroStep env) ([], '''', 0) blocks = (map (prefixBreakpoint env blocks) [0..<length blocks], prefixInput env blocks, prefixTokens blocks)"
proof (induction blocks rule: rev_induct)
  case Nil
  then show ?case by (simp add: prefixInput_def hashInput_def prefixTokens_def)
next
  case (snoc b bs)
  have "map (prefixBreakpoint env (bs @ [b])) [0..<length bs] = map (prefixBreakpoint env bs) [0..<length bs]"
    by (simp add: prefixBreakpoint_def nth_append)
  then show ?case
    using snoc by (simp add: kiroStep_def Let_def prefixBreakpoint_def prefixInput_def hashInput_def prefixTokens_def nth_append)
qed


definition textBlock :: "string \<Rightarrow> cacheablePromptBlock" where
  "textBlock s = \<lparr>bk_Value = JString s, bk_Tokens = 3, bk_TTL = hour, bk_IsMessageEnd = False\<rparr>"

definition sampleFingerprintEnv :: fingerprintEnv where
  "sampleFingerprintEnv = \<lparr>fe_estimate = \<lparr>ee_rnd = (\<lambda>x. x), ee_imageSize = (\<lambda>_. None)\<rparr>, fe_sha256 = (\<lambda>s. s), fe_float = (\<lambda>_. 0),
     fe_parseDuration = (\<lambda>_. None)\<rparr>"


section \<open>Well-formed profiles\<close>

definition profileOk :: "promptCacheProfile \<Rightarrow> bool" where
  "profileOk p \<longleftrightarrow> pr_Breakpoints p \<noteq> [] \<and> sorted_wrt (<) (map bp_CumulativeTokens (pr_Breakpoints p)) \<and>
     (\<forall>b\<in>set (pr_Breakpoints p). 0 < bp_CumulativeTokens b \<and> bp_CumulativeTokens b \<le> pr_TotalInputTokens p)"

lemma finalizeStep_all:
  assumes "0 < n" "foldl (finalizeStep n) ([], 0) bps = (ns, prev)"
  shows "sorted_wrt (<) (map bp_CumulativeTokens ns) \<and> (\<forall>b\<in>set ns. 0 < bp_CumulativeTokens b \<and> bp_CumulativeTokens b \<le> n \<and> bp_CumulativeTokens b \<le> prev) \<and> 0 \<le> prev"
  using assms(2)
proof (induction bps arbitrary: ns prev rule: rev_induct)
  case (snoc b bs)
  obtain ms p0 where f: "foldl (finalizeStep n) ([], 0) bs = (ms, p0)" by (rule prod.exhaust)
  note I = snoc.IH [OF f]
  have step: "finalizeStep n (ms, p0) b = (ns, prev)" using snoc.prems f by simp
  let ?k = "min (max (bp_CumulativeTokens b) 0) n"
  show ?case
  proof (cases "?k \<le> p0")
    case True
    then show ?thesis using I step by (simp add: finalizeStep_def Let_def)
  next
    case False
    then have "ns = ms @ [b\<lparr>bp_CumulativeTokens := ?k\<rparr>]" "prev = ?k" using step by (auto simp: finalizeStep_def Let_def)
    moreover have "\<forall>c\<in>set ms. bp_CumulativeTokens c < ?k" using I False by auto
    ultimately show ?thesis using I False assms(1) by (auto simp: sorted_wrt_append)
  qed
qed auto

lemma finalize_ok:
  assumes "finalizePromptCacheProfile bps n m name = Some p"
  shows "profileOk p"
proof -
  define k where "k = (if m \<le> 0 then n else m)"
  obtain ns prev where f: "foldl (finalizeStep k) ([], 0) bps = (ns, prev)" by (rule prod.exhaust)
  have k: "0 < k" "ns \<noteq> []" "p = \<lparr>pr_Breakpoints = ns, pr_TotalInputTokens = k, pr_Model = name\<rparr>"
    using assms f unfolding finalizePromptCacheProfile_def Let_def k_def [symmetric] by (auto split: if_splits)
  show ?thesis using finalizeStep_all [OF k(1) f] k(2,3) by (auto simp: profileOk_def)
qed

lemma built_profile_ok:
  "BuildKiroProfile env payload ttl n t = Some p \<Longrightarrow> profileOk p"
  "BuildClaudeProfile env req n t = Some p \<Longrightarrow> profileOk p"
  by (auto simp: BuildKiroProfile_def buildKiroPayloadProfile_def BuildClaudeProfile_def intro: finalize_ok split: if_splits prod.splits)

lemma foldl_max_sorted:
  fixes f :: "promptCacheBreakpoint \<Rightarrow> int"
  assumes "sorted_wrt (<) (map f (bs @ [b]))" "x \<le> f b"
  shows "foldl (\<lambda>m b. max m (f b)) x (bs @ [b]) = f b"
proof -
  have "foldl (\<lambda>m b. max m (f b)) x bs \<le> f b"
    using assms by (induction bs arbitrary: x) (auto simp: sorted_wrt_append)
  then show ?thesis by simp
qed

lemma lastTokens_last:
  assumes "profileOk p" "pr_Breakpoints p = bs @ [b]"
  shows "lastTokensOf p = bp_CumulativeTokens b" "0 < lastTokensOf p" "lastTokensOf p \<le> pr_TotalInputTokens p"
proof -
  have bounded: "boundedPromptCacheBreakpointTokens c (pr_TotalInputTokens p) = bp_CumulativeTokens c" if "c \<in> set (pr_Breakpoints p)" for c
    using assms(1) that by (auto simp: profileOk_def boundedPromptCacheBreakpointTokens_def Let_def)
  have b: "0 < bp_CumulativeTokens b" "bp_CumulativeTokens b \<le> pr_TotalInputTokens p" using assms by (auto simp: profileOk_def)
  have "lastTokensOf p = foldl (\<lambda>m b. max m (bp_CumulativeTokens b)) 0 (pr_Breakpoints p)"
    unfolding lastTokensOf_def by (rule foldl_cong) (simp_all add: bounded)
  also have "\<dots> = bp_CumulativeTokens b"
    unfolding assms(2) by (rule foldl_max_sorted) (use assms b in \<open>auto simp: profileOk_def\<close>)
  finally show "lastTokensOf p = bp_CumulativeTokens b" "0 < lastTokensOf p" "lastTokensOf p \<le> pr_TotalInputTokens p" using b by simp_all
qed

text \<open>
  C16. A prompt that was answered is found again: the profile that \<open>BuildKiroProfile\<close> made of a payload is stored by \<open>Update\<close>, and a lookup of
  the same profile for the same scope then matches the whole cacheable part, reserves nothing and sees no creation in flight, at any
  time before the time to live of its longest prefix is over, provided the prompt is not below the least cacheable size and the limits of
  the scope and of the cache left room for its prefixes.
\<close>

theorem stored_prompt_hits:
  assumes built: "BuildKiroProfile env payload promptCacheTTL n t0 = Some p"
    and reached: "cacheReached now t" and a: "a \<noteq> ''''" and m: "m \<le> lastTokensOf p"
    and room: "int (length (entriesOf (shardOf a t) a) + length (pr_Breakpoints p)) \<le> pt_maxEntriesPerAccount t"
      "pt_entryCount t + int (length (pr_Breakpoints p)) \<le> pt_maxEntriesTotal t"
    and u: "cacheUpdate a (Some p) m now t = Some t'"
    and later: "now \<le> later" "later < now + effectivePromptCacheTTL (pt_maxSupportedTTL t) (bp_TTL (last (pr_Breakpoints p)))"
  shows "cl_rawMatchedTokens (fst (lookupPrefix a p m later t')) = lastTokensOf p \<and> 0 < lastTokensOf p \<and>
    cl_reservation (fst (lookupPrefix a p m later t')) = None \<and>
    \<not> cl_belowMinimum (fst (lookupPrefix a p m later t')) \<and> \<not> cl_inFlight (fst (lookupPrefix a p m later t'))"
proof -
  have ok: "profileOk p" by (rule built_profile_ok(1) [OF built])
  then have p: "pr_Breakpoints p = butlast (pr_Breakpoints p) @ [last (pr_Breakpoints p)]" by (simp add: profileOk_def)
  note L = lastTokens_last [OF ok p]
  show ?thesis using stored_prefix_hits [OF reached a p L(1,2) m L(3) room u later] L(2) by simp
qed

definition samplePayload :: KiroPayload where
  "samplePayload = \<lparr>kp_AgentContinuationId = [], kp_AgentTaskType = [], kp_ChatTriggerType = [], kp_ConversationID = [],
     kp_Current = \<lparr>um_Content = ''hello'', um_ModelID = ''m'', um_Origin = ''o'', um_Images = [], um_Context = None\<rparr>,
     kp_History = [], kp_ProfileArn = [], kp_InferenceConfig = None, kp_AdditionalModelRequestFields = [],
     kp_transparentClaudeCode = False, kp_transparentHistoryFallbackUsed = False, kp_contextWindowTokens = 0,
     kp_toolResultRepairs = 0, kp_toolSchemaRepairs = 0\<rparr>"

definition digestEnv :: fingerprintEnv where
  "digestEnv = sampleFingerprintEnv\<lparr>fe_sha256 := (\<lambda>_. ''d'')\<rparr>"

definition sampleBuilt :: promptCacheProfile where
  "sampleBuilt = \<lparr>pr_Breakpoints = [\<lparr>bp_Fingerprint = ''d'', bp_CumulativeTokens = 2, bp_TTL = hour\<rparr>], pr_TotalInputTokens = 100, pr_Model = ''m''\<rparr>"

lemma stored_prompt_hits_witness:
  "cl_rawMatchedTokens (fst (lookupPrefix ''b'' sampleBuilt 1 second
     (the (cacheUpdate ''b'' (Some sampleBuilt) 1 0 (newPromptCacheTrackerWithEfficiencyRange hour 0 1))))) = 2"
proof -
  let ?t = "newPromptCacheTrackerWithEfficiencyRange hour 0 1"
  have r: "cacheReached 0 ?t" by (rule cacheReached.start)
  have built: "BuildKiroProfile digestEnv samplePayload 0 100 ?t = Some sampleBuilt" by code_simp
  have u: "cacheUpdate ''b'' (Some sampleBuilt) 1 0 ?t = Some (the (cacheUpdate ''b'' (Some sampleBuilt) 1 0 ?t))"
    using cacheUpdate_ok [OF reached_ok [OF r], of "''b''" "Some sampleBuilt" 1] by auto
  have l: "lastTokensOf sampleBuilt = 2" "length (pr_Breakpoints sampleBuilt) = 1" "bp_TTL (last (pr_Breakpoints sampleBuilt)) = hour" by code_simp+
  have room: "length (entriesOf (shardOf ''b'' ?t) ''b'') = 0" "pt_entryCount ?t = 0"
    "pt_maxEntriesPerAccount ?t = 2048" "pt_maxEntriesTotal ?t = 50000" by code_simp+
  have ttl: "effectivePromptCacheTTL (pt_maxSupportedTTL ?t) hour = hour" by code_simp
  show ?thesis
    using stored_prompt_hits [OF built r _ _ _ _ u, of second] l room ttl by (simp add: second_def hour_def minute_def)
qed

text \<open>
  The type \<open>ClaudeTool\<close> has no field for a cache mark, so the mark a client puts on a tool is lost when the request is decoded and
  the time to live of a tool's block is always zero.
\<close>

lemma tool_mark_lost: "bk_TTL (toolCacheBlock env i tool) = 0"
  by (simp add: toolCacheBlock_def Let_def toolObject_def extractPromptCacheTTL_def membersOf_def normalizePromptCacheTTL_def)

end
