(* ===== verification/Endpoint_Routes.thy ===== *)
theory Endpoint_Routes
  imports Refresh_Coordinator Translate
begin

text \<open>
  The learned routing of accounts over the provider's endpoints (\<open>proxy/account_endpoint_routes.go\<close>, \<open>getSortedEndpoints\<close> and its callers in
  \<open>proxy/kiro.go\<close>). Per account, model and endpoint the registry knows a cooldown, per account and model the endpoint that
  answered last; both are saved to a file with a delay and loaded at start.

  A critical section is one step. The file is what the last save wrote; reading it is an argument of \<open>loadRoutes\<close>. The settings are
  those of the upstream protection, and the clock is an argument.
\<close>

section \<open>State\<close>

type_synonym routeKey = "string \<times> string \<times> string"
type_synonym preferenceKey = "string \<times> string"

record accountEndpointRouteState =
  rs_endpoint :: string
  rs_failureKind :: string
  rs_consecutiveFailures :: int
  rs_cooldownUntil :: gotime
  rs_lastCooldown :: duration
  rs_lastError :: string
  rs_lastFailureAt :: gotime
  rs_lastAccess :: gotime

record accountEndpointPreference =
  ap_endpoint :: string
  ap_expiresAt :: gotime
  ap_persistedExpiresAt :: gotime
  ap_lastAccess :: gotime

record accountEndpointRouteRegistry =
  er_routes :: "(routeKey, accountEndpointRouteState) gomap"
  er_preferences :: "(preferenceKey, accountEndpointPreference) gomap"
  er_persistPath :: string
  er_persistTimer :: "nat option"
  er_persistEpoch :: nat

record persistedAccountEndpointRoute =
  pr_AccountID :: string
  pr_RouteModel :: string
  pr_EndpointKey :: string
  pr_EndpointName :: string
  pr_FailureKind :: string
  pr_ConsecutiveFailures :: int
  pr_CooldownUntil :: int
  pr_LastCooldownMs :: int
  pr_LastFailureAt :: int

record persistedAccountEndpointPreference =
  pp_AccountID :: string
  pp_Model :: string
  pp_EndpointKey :: string
  pp_ExpiresAt :: int

record persistedAccountEndpointRouteState =
  ps_Version :: int
  ps_SavedAt :: int
  ps_Routes :: "persistedAccountEndpointRoute list"
  ps_Preferences :: "persistedAccountEndpointPreference list"

record kiroEndpoint =
  ep_Key :: string
  ep_URL :: string
  ep_Origin :: string
  ep_AmzTarget :: string
  ep_Name :: string
  ep_ContentType :: string
  ep_RequiresProfileArn :: bool

definition longToolEndpointRouteSuffix :: string where "longToolEndpointRouteSuffix = ''|long-tool''"
definition accountEndpointRouteStateVersion :: int where "accountEndpointRouteStateVersion = 1"

definition newAccountEndpointRouteRegistry :: accountEndpointRouteRegistry where
  "newAccountEndpointRouteRegistry = \<lparr>er_routes = [], er_preferences = [], er_persistPath = '''', er_persistTimer = None, er_persistEpoch = 0\<rparr>"

definition zeroRouteState :: accountEndpointRouteState where
  "zeroRouteState = \<lparr>rs_endpoint = '''', rs_failureKind = '''', rs_consecutiveFailures = 0, rs_cooldownUntil = 0, rs_lastCooldown = 0,
     rs_lastError = '''', rs_lastFailureAt = 0, rs_lastAccess = 0\<rparr>"

definition normalizeEndpointRoutePart :: "string \<Rightarrow> string" where
  "normalizeEndpointRoutePart s = to_lower (trim_space s)"

definition endpointRouteDisplayModel :: "string \<Rightarrow> string \<times> string" where
  "endpointRouteDisplayModel m =
     (if has_suffix m longToolEndpointRouteSuffix then (take (length m - length longToolEndpointRouteSuffix) m, ''long-tool'') else (m, ''default''))"

text \<open>The tool names of the payload, restored through its map of names.\<close>

definition payloadHasHighRiskTools :: "unicodeTables \<Rightarrow> (string, string) gomap \<Rightarrow> KiroPayload \<Rightarrow> bool" where
  "payloadHasHighRiskTools ut toolNameMap payload =
     (case um_Context (kp_Current payload) of
        None \<Rightarrow> False
      | Some ctx \<Rightarrow> list_ex (\<lambda>tool. isHighRiskToolName ut (case gm_get toolNameMap (tw_Name tool) of Some original \<Rightarrow> original | None \<Rightarrow> tw_Name tool))
          (uc_Tools ctx))"

definition endpointRouteModel :: "unicodeTables \<Rightarrow> (string, string) gomap \<Rightarrow> KiroPayload \<Rightarrow> string" where
  "endpointRouteModel ut toolNameMap payload =
     (let m = to_lower (trim_space (um_ModelID (kp_Current payload)))
      in if m \<noteq> '''' \<and> payloadHasHighRiskTools ut toolNameMap payload then m @ longToolEndpointRouteSuffix else m)"

section \<open>Pruning and limits\<close>

definition affinityTTL :: "UpstreamProtectionConfig \<Rightarrow> duration" where
  "affinityTTL up = (let ttl = up_RouteAffinityTTLSeconds up * second in if ttl \<le> 0 then hour else ttl)"

definition pruneExpiredLocked :: "UpstreamProtectionConfig \<Rightarrow> gotime \<Rightarrow> accountEndpointRouteRegistry \<Rightarrow> accountEndpointRouteRegistry" where
  "pruneExpiredLocked up now r =
     r\<lparr>er_preferences := filter (\<lambda>(_, p). now < ap_expiresAt p) (er_preferences r),
       er_routes := filter (\<lambda>(_, s). \<not> (\<not> now < rs_cooldownUntil s \<and> time_sub now (rs_lastAccess s) \<ge> affinityTTL up)) (er_routes r)\<rparr>"

text \<open>The key whose entry was accessed first; a zero time stands for none found yet.\<close>

definition oldestStep :: "('v \<Rightarrow> gotime) \<Rightarrow> 'k option \<times> gotime \<Rightarrow> 'k \<times> 'v \<Rightarrow> 'k option \<times> gotime" where
  "oldestStep accessed = (\<lambda>(k0, oldest) (k, v). if oldest = 0 \<or> accessed v < oldest then (Some k, accessed v) else (k0, oldest))"

definition oldestKey :: "('v \<Rightarrow> gotime) \<Rightarrow> ('k, 'v) gomap \<Rightarrow> 'k option" where
  "oldestKey accessed m = fst (foldl (oldestStep accessed) (None, 0) m)"

lemma oldestKey_mem: "oldestKey accessed m = Some k \<Longrightarrow> k \<in> fst ` set m"
proof -
  have "fst (foldl (oldestStep accessed) (k0, t) m) = Some k \<Longrightarrow> k0 = Some k \<or> k \<in> fst ` set m" for k0 t
    by (induction m arbitrary: k0 t) (force simp: oldestStep_def split: if_splits prod.splits)+
  from this [of None 0] show "oldestKey accessed m = Some k \<Longrightarrow> k \<in> fst ` set m" by (simp add: oldestKey_def)
qed

function limitEntries :: "('v \<Rightarrow> gotime) \<Rightarrow> int \<Rightarrow> ('k, 'v) gomap \<Rightarrow> ('k, 'v) gomap" where
  "limitEntries accessed limit m =
     (if \<not> int (length m) > limit then m
      else case oldestKey accessed m of None \<Rightarrow> m | Some k \<Rightarrow> limitEntries accessed limit (gm_del k m))"
  by auto
termination
  by (relation "measure (\<lambda>(accessed, limit, m). length m)") (auto intro: length_gm_del_mem dest: oldestKey_mem)

declare limitEntries.simps [simp del]

definition entryLimit :: "UpstreamProtectionConfig \<Rightarrow> int" where
  "entryLimit up = (if up_RouteAffinityMaxEntries up \<le> 0 then 20000 else up_RouteAffinityMaxEntries up)"

definition enforceLimitsLocked :: "UpstreamProtectionConfig \<Rightarrow> accountEndpointRouteRegistry \<Rightarrow> accountEndpointRouteRegistry" where
  "enforceLimitsLocked up r =
     r\<lparr>er_preferences := limitEntries ap_lastAccess (entryLimit up) (er_preferences r),
       er_routes := limitEntries rs_lastAccess (entryLimit up) (er_routes r)\<rparr>"

section \<open>Choosing endpoints\<close>

definition moveEndpointFirst :: "kiroEndpoint list \<Rightarrow> string \<Rightarrow> kiroEndpoint list" where
  "moveEndpointFirst endpoints endpointKey0 =
     (let endpointKey = normalizeEndpointRoutePart endpointKey0
      in case find (\<lambda>i. normalizeEndpointRoutePart (ep_Key (endpoints ! i)) = endpointKey \<and> i \<noteq> 0) [0..<length endpoints] of
           None \<Rightarrow> endpoints
         | Some i \<Rightarrow> endpoints ! i # take i endpoints @ drop (Suc i) endpoints)"

definition routeKeyOf :: "string \<Rightarrow> string \<Rightarrow> kiroEndpoint \<Rightarrow> routeKey" where
  "routeKeyOf accountID m ep = (trim_space accountID, normalizeEndpointRoutePart m, normalizeEndpointRoutePart (ep_Key ep))"

definition coolingUntil :: "accountEndpointRouteRegistry \<Rightarrow> gotime \<Rightarrow> routeKey \<Rightarrow> gotime option" where
  "coolingUntil r now k = (case gm_get (er_routes r) k of None \<Rightarrow> None | Some s \<Rightarrow> if now < rs_cooldownUntil s then Some (rs_cooldownUntil s) else None)"

text \<open>The loop over the endpoints: those available, those cooling, the shortest wait, and the accesses it notes.\<close>

definition sortEndpoint :: "string \<Rightarrow> string \<Rightarrow> gotime \<Rightarrow> kiroEndpoint list \<times> kiroEndpoint list \<times> duration \<times> accountEndpointRouteRegistry \<Rightarrow> kiroEndpoint \<Rightarrow>
    kiroEndpoint list \<times> kiroEndpoint list \<times> duration \<times> accountEndpointRouteRegistry" where
  "sortEndpoint accountID m now = (\<lambda>(available, cooling, retryAfter, r) ep.
     (let key = routeKeyOf accountID m ep
      in case gm_get (er_routes r) key of
           None \<Rightarrow> (available @ [ep], cooling, retryAfter, r)
         | Some s \<Rightarrow>
             if \<not> now < rs_cooldownUntil s then (available @ [ep], cooling, retryAfter, r)
             else let remaining = time_sub (rs_cooldownUntil s) now
                  in (available, cooling @ [ep], if retryAfter = 0 \<or> remaining < retryAfter then remaining else retryAfter,
                      r\<lparr>er_routes := gm_put key (s\<lparr>rs_lastAccess := now\<rparr>) (er_routes r)\<rparr>)))"

definition availableEndpointsWithOptions :: "UpstreamProtectionConfig \<Rightarrow> string \<Rightarrow> string \<Rightarrow> string \<Rightarrow> kiroEndpoint list \<Rightarrow> bool \<Rightarrow> gotime \<Rightarrow>
    accountEndpointRouteRegistry \<Rightarrow> (UpstreamError + kiroEndpoint list) \<times> accountEndpointRouteRegistry" where
  "availableEndpointsWithOptions up accountID m preferred0 endpoints allowCooling now r =
     (if trim_space accountID = '''' \<or> trim_space m = '''' \<or> endpoints = [] then (Inr endpoints, r)
      else let preferred = normalizeEndpointRoutePart preferred0; r1 = pruneExpiredLocked up now r;
               pk = (trim_space accountID, normalizeEndpointRoutePart m);
               (ordered, r2) =
                 (case gm_get (er_preferences r1) pk of
                    Some p \<Rightarrow>
                      if (preferred = '''' \<or> preferred = ''auto'') \<and> now < ap_expiresAt p
                      then (moveEndpointFirst endpoints (ap_endpoint p), r1\<lparr>er_preferences := gm_put pk (p\<lparr>ap_lastAccess := now\<rparr>) (er_preferences r1)\<rparr>)
                      else (endpoints, r1)
                  | None \<Rightarrow> (endpoints, r1));
               (available, cooling, retryAfter, r3) = foldl (sortEndpoint accountID m now) ([], [], 0, r2) ordered
           in if available \<noteq> [] then (Inr available, r3)
              else if allowCooling \<and> cooling \<noteq> [] then (Inr cooling, r3)
              else (Inl ((upstreamError UpstreamErrorRateLimit ''account endpoints''
                      (''all endpoints are cooling for account model '' @ normalizeEndpointRoutePart m) False True)\<lparr>ue_RetryAfter := retryAfter\<rparr>), r3))"

definition availableEndpoints :: "UpstreamProtectionConfig \<Rightarrow> string \<Rightarrow> string \<Rightarrow> string \<Rightarrow> kiroEndpoint list \<Rightarrow> gotime \<Rightarrow>
    accountEndpointRouteRegistry \<Rightarrow> (UpstreamError + kiroEndpoint list) \<times> accountEndpointRouteRegistry" where
  "availableEndpoints up accountID m preferred endpoints now r = availableEndpointsWithOptions up accountID m preferred endpoints False now r"

definition availableEndpointsForIntegrityRetry :: "UpstreamProtectionConfig \<Rightarrow> string \<Rightarrow> string \<Rightarrow> string \<Rightarrow> kiroEndpoint list \<Rightarrow> gotime \<Rightarrow>
    accountEndpointRouteRegistry \<Rightarrow> (UpstreamError + kiroEndpoint list) \<times> accountEndpointRouteRegistry" where
  "availableEndpointsForIntegrityRetry up accountID m preferred endpoints now r = availableEndpointsWithOptions up accountID m preferred endpoints True now r"

section \<open>Learning\<close>

definition scheduleSave :: "accountEndpointRouteRegistry \<Rightarrow> accountEndpointRouteRegistry" where
  "scheduleSave r = (if er_persistPath r = '''' \<or> er_persistTimer r \<noteq> None then r else r\<lparr>er_persistTimer := Some (er_persistEpoch r)\<rparr>)"

definition endpointRouteFailure :: "goError \<Rightarrow> (UpstreamError \<times> goError option) option" where
  "endpointRouteFailure err =
     (case asUpstreamError err of
        None \<Rightarrow> None
      | Some (u, c) \<Rightarrow>
          if ue_Kind u \<in> {UpstreamErrorQuota, UpstreamErrorRateLimit, UpstreamErrorModelUnavailable, UpstreamErrorTransient,
            UpstreamErrorFirstTokenTimeout, UpstreamErrorStreamIdleTimeout, UpstreamErrorActionableTimeout, UpstreamErrorToolAssemblyTimeout,
            UpstreamErrorToolOutputTruncated, UpstreamErrorEndpointUnavailable, UpstreamErrorEmptyResponse, UpstreamErrorStreamTruncated,
            UpstreamErrorForbidden}
          then Some (u, c) else None)"

fun growCooldown :: "nat \<Rightarrow> duration \<Rightarrow> duration \<Rightarrow> duration" where
  "growCooldown 0 maximum cooldown = cooldown"
| "growCooldown (Suc n) maximum cooldown =
     (if cooldown < maximum then (if cooldown * 2 \<ge> maximum then maximum else growCooldown n maximum (cooldown * 2)) else cooldown)"

definition baseCooldown :: "UpstreamProtectionConfig \<Rightarrow> duration" where
  "baseCooldown up = (let b = up_RateLimitCooldownMs up * millisecond in if b \<le> 0 then 2 * second else b)"

definition maxCooldown :: "UpstreamProtectionConfig \<Rightarrow> duration" where
  "maxCooldown up = (let m = up_MaxRateLimitCooldownMs up * millisecond in if m \<le> 0 then minute else m)"

definition failureCooldown :: "UpstreamProtectionConfig \<Rightarrow> int \<Rightarrow> UpstreamError \<Rightarrow> duration" where
  "failureCooldown up failures u =
     (let c0 = growCooldown (nat (failures - 1)) (maxCooldown up) (baseCooldown up);
          c1 = (if ue_Kind u = UpstreamErrorQuota then maxCooldown up else c0);
          c2 = (if ue_Kind u = UpstreamErrorForbidden \<or> ue_Kind u = UpstreamErrorModelUnavailable \<or>
                   (ue_Kind u = UpstreamErrorEndpointUnavailable \<and> ue_StatusCode u \<noteq> 0) then affinityTTL up else c1)
      in if ue_RetryAfter u > c2 then (if ue_RetryAfter u > 24 * hour then 24 * hour else ue_RetryAfter u) else c2)"

definition recordEndpointFailure :: "UpstreamProtectionConfig \<Rightarrow> string \<Rightarrow> string \<Rightarrow> kiroEndpoint \<Rightarrow> goError \<Rightarrow> gotime \<Rightarrow>
    accountEndpointRouteRegistry \<Rightarrow> duration \<times> accountEndpointRouteRegistry" where
  "recordEndpointFailure up accountID m ep err now r =
     (case endpointRouteFailure err of
        None \<Rightarrow> (0, r)
      | Some (u, c) \<Rightarrow>
          if trim_space accountID = '''' \<or> trim_space m = '''' then (0, r)
          else let key = routeKeyOf accountID m ep; s = gm_zero zeroRouteState (er_routes r) key;
                   failures = rs_consecutiveFailures s + 1; cooldown = failureCooldown up failures u;
                   s' = \<lparr>rs_endpoint = ep_Name ep, rs_failureKind = kindText (ue_Kind u), rs_consecutiveFailures = failures,
                         rs_cooldownUntil = now + cooldown, rs_lastCooldown = cooldown, rs_lastError = errorText (UpstreamErr u c),
                         rs_lastFailureAt = now, rs_lastAccess = now\<rparr>;
                   pk = (trim_space accountID, normalizeEndpointRoutePart m);
                   preferences = (case gm_get (er_preferences r) pk of
                       Some p \<Rightarrow> if normalizeEndpointRoutePart (ap_endpoint p) = normalizeEndpointRoutePart (ep_Key ep) then gm_del pk (er_preferences r)
                                 else er_preferences r
                     | None \<Rightarrow> er_preferences r)
               in (cooldown, scheduleSave (enforceLimitsLocked up (r\<lparr>er_routes := gm_put key s' (er_routes r), er_preferences := preferences\<rparr>))))"

definition recordEndpointSuccess :: "UpstreamProtectionConfig \<Rightarrow> string \<Rightarrow> string \<Rightarrow> kiroEndpoint \<Rightarrow> gotime \<Rightarrow> accountEndpointRouteRegistry \<Rightarrow> accountEndpointRouteRegistry" where
  "recordEndpointSuccess up accountID m ep now r =
     (if trim_space accountID = '''' \<or> trim_space m = '''' then r
      else let endpointKey = normalizeEndpointRoutePart (ep_Key ep); ttl = affinityTTL up;
               pk = (trim_space accountID, normalizeEndpointRoutePart m); previous = gm_get (er_preferences r) pk;
               same = (case previous of Some p \<Rightarrow> ap_endpoint p = endpointKey | None \<Rightarrow> False);
               persisted = (case previous of Some p \<Rightarrow> if same then ap_persistedExpiresAt p else 0 | None \<Rightarrow> 0);
               r1 = r\<lparr>er_routes := gm_del (routeKeyOf accountID m ep) (er_routes r),
                      er_preferences := gm_put pk \<lparr>ap_endpoint = endpointKey, ap_expiresAt = now + ttl, ap_persistedExpiresAt = persisted, ap_lastAccess = now\<rparr>
                        (er_preferences r)\<rparr>;
               r2 = enforceLimitsLocked up (pruneExpiredLocked up now r1)
           in if \<not> same \<or> \<not> now + quot ttl 2 < persisted then scheduleSave r2 else r2)"

definition clearEndpointFailure :: "string \<Rightarrow> string \<Rightarrow> kiroEndpoint \<Rightarrow> accountEndpointRouteRegistry \<Rightarrow> accountEndpointRouteRegistry" where
  "clearEndpointFailure accountID m ep r =
     (if trim_space accountID = '''' \<or> trim_space m = '''' then r
      else let key = routeKeyOf accountID m ep; r' = r\<lparr>er_routes := gm_del key (er_routes r)\<rparr>
           in if gm_get (er_routes r) key \<noteq> None then scheduleSave r' else r')"

definition resetRoutes :: "accountEndpointRouteRegistry \<Rightarrow> accountEndpointRouteRegistry" where
  "resetRoutes r = r\<lparr>er_routes := [], er_preferences := []\<rparr>"

definition forgetAccount :: "string \<Rightarrow> accountEndpointRouteRegistry \<Rightarrow> accountEndpointRouteRegistry" where
  "forgetAccount accountID r =
     (if trim_space accountID = '''' then r
      else let a = trim_space accountID;
               r' = r\<lparr>er_routes := filter (\<lambda>(k, _). fst k \<noteq> a) (er_routes r), er_preferences := filter (\<lambda>(k, _). fst k \<noteq> a) (er_preferences r)\<rparr>
           in if list_ex (\<lambda>(k, _). fst k = a) (er_routes r) \<or> list_ex (\<lambda>(k, _). fst k = a) (er_preferences r) then scheduleSave r' else r')"

section \<open>Persistence\<close>

definition persistedRoute :: "routeKey \<times> accountEndpointRouteState \<Rightarrow> persistedAccountEndpointRoute" where
  "persistedRoute = (\<lambda>((a, m, e), s). \<lparr>pr_AccountID = a, pr_RouteModel = m, pr_EndpointKey = e, pr_EndpointName = rs_endpoint s,
     pr_FailureKind = rs_failureKind s, pr_ConsecutiveFailures = rs_consecutiveFailures s, pr_CooldownUntil = unix_of (rs_cooldownUntil s),
     pr_LastCooldownMs = quot (rs_lastCooldown s) millisecond, pr_LastFailureAt = unix_of (rs_lastFailureAt s)\<rparr>)"

definition persistedPreference :: "preferenceKey \<times> accountEndpointPreference \<Rightarrow> persistedAccountEndpointPreference" where
  "persistedPreference = (\<lambda>((a, m), p). \<lparr>pp_AccountID = a, pp_Model = m, pp_EndpointKey = ap_endpoint p, pp_ExpiresAt = unix_of (ap_expiresAt p)\<rparr>)"

definition routeBefore :: "persistedAccountEndpointRoute \<Rightarrow> persistedAccountEndpointRoute \<Rightarrow> bool" where
  "routeBefore x y =
     (if pr_AccountID x \<noteq> pr_AccountID y then bytesBefore (pr_AccountID x) (pr_AccountID y)
      else if pr_RouteModel x \<noteq> pr_RouteModel y then bytesBefore (pr_RouteModel x) (pr_RouteModel y)
      else bytesBefore (pr_EndpointKey x) (pr_EndpointKey y))"

definition preferenceBefore :: "persistedAccountEndpointPreference \<Rightarrow> persistedAccountEndpointPreference \<Rightarrow> bool" where
  "preferenceBefore x y =
     (if pp_AccountID x \<noteq> pp_AccountID y then bytesBefore (pp_AccountID x) (pp_AccountID y) else bytesBefore (pp_Model x) (pp_Model y))"

definition notePersisted :: "(preferenceKey, accountEndpointPreference) gomap \<Rightarrow> persistedAccountEndpointPreference \<Rightarrow> (preferenceKey, accountEndpointPreference) gomap" where
  "notePersisted prefs x =
     (let key = (pp_AccountID x, normalizeEndpointRoutePart (pp_Model x))
      in case gm_get prefs key of
           None \<Rightarrow> prefs
         | Some p \<Rightarrow>
             if ap_endpoint p \<noteq> normalizeEndpointRoutePart (pp_EndpointKey x) then prefs
             else if ap_persistedExpiresAt p < time_unix (pp_ExpiresAt x) then gm_put key (p\<lparr>ap_persistedExpiresAt := time_unix (pp_ExpiresAt x)\<rparr>) prefs
             else prefs)"

text \<open>What is written, and the registry after the write; \<open>written\<close> tells whether the file could be replaced.\<close>

definition savedState :: "UpstreamProtectionConfig \<Rightarrow> gotime \<Rightarrow> accountEndpointRouteRegistry \<Rightarrow> persistedAccountEndpointRouteState" where
  "savedState up now r =
     (let r1 = pruneExpiredLocked up now r
      in \<lparr>ps_Version = accountEndpointRouteStateVersion, ps_SavedAt = unix_of now,
          ps_Routes = sort_stable routeBefore (map persistedRoute (filter (\<lambda>(_, s). now < rs_cooldownUntil s) (er_routes r1))),
          ps_Preferences = sort_stable preferenceBefore (map persistedPreference (filter (\<lambda>(_, p). now < ap_expiresAt p) (er_preferences r1)))\<rparr>)"

definition saveTo :: "UpstreamProtectionConfig \<Rightarrow> string \<Rightarrow> bool \<Rightarrow> gotime \<Rightarrow> accountEndpointRouteRegistry \<Rightarrow>
    persistedAccountEndpointRouteState option \<times> accountEndpointRouteRegistry" where
  "saveTo up path written now r =
     (if trim_space path = '''' then (None, r)
      else let state = savedState up now r; r1 = pruneExpiredLocked up now r
           in if \<not> written then (None, r1)
              else (Some state, r1\<lparr>er_preferences := foldl notePersisted (er_preferences r1) (ps_Preferences state)\<rparr>))"

text \<open>The timer's function, and the save at shutdown.\<close>

definition timerFires :: "UpstreamProtectionConfig \<Rightarrow> nat \<Rightarrow> bool \<Rightarrow> gotime \<Rightarrow> accountEndpointRouteRegistry \<Rightarrow>
    persistedAccountEndpointRouteState option \<times> accountEndpointRouteRegistry" where
  "timerFires up epoch written now r =
     (if epoch \<noteq> er_persistEpoch r then (None, r) else saveTo up (er_persistPath r) written now (r\<lparr>er_persistTimer := None\<rparr>))"

definition flushRoutes :: "UpstreamProtectionConfig \<Rightarrow> bool \<Rightarrow> gotime \<Rightarrow> accountEndpointRouteRegistry \<Rightarrow>
    persistedAccountEndpointRouteState option \<times> accountEndpointRouteRegistry" where
  "flushRoutes up written now r =
     (let r1 = r\<lparr>er_persistTimer := None\<rparr> in if er_persistPath r = '''' then (None, r1) else saveTo up (er_persistPath r) written now r1)"

definition replaceRoutes :: "UpstreamProtectionConfig \<Rightarrow> (routeKey, accountEndpointRouteState) gomap \<Rightarrow> (preferenceKey, accountEndpointPreference) gomap \<Rightarrow>
    accountEndpointRouteRegistry \<Rightarrow> accountEndpointRouteRegistry" where
  "replaceRoutes up routes preferences r = enforceLimitsLocked up (r\<lparr>er_routes := routes, er_preferences := preferences\<rparr>)"

definition loadRoute :: "gotime \<Rightarrow> (routeKey, accountEndpointRouteState) gomap \<Rightarrow> persistedAccountEndpointRoute \<Rightarrow> (routeKey, accountEndpointRouteState) gomap" where
  "loadRoute now routes x =
     (let until = time_unix (pr_CooldownUntil x)
      in if trim_space (pr_AccountID x) = '''' \<or> trim_space (pr_RouteModel x) = '''' \<or> trim_space (pr_EndpointKey x) = '''' \<or> \<not> now < until then routes
         else gm_put (trim_space (pr_AccountID x), normalizeEndpointRoutePart (pr_RouteModel x), normalizeEndpointRoutePart (pr_EndpointKey x))
                \<lparr>rs_endpoint = trim_space (pr_EndpointName x), rs_failureKind = trim_space (pr_FailureKind x),
                 rs_consecutiveFailures = pr_ConsecutiveFailures x, rs_cooldownUntil = until, rs_lastCooldown = pr_LastCooldownMs x * millisecond,
                 rs_lastError = '''', rs_lastFailureAt = time_unix (pr_LastFailureAt x), rs_lastAccess = now\<rparr> routes)"

definition loadPreference :: "gotime \<Rightarrow> (preferenceKey, accountEndpointPreference) gomap \<Rightarrow> persistedAccountEndpointPreference \<Rightarrow> (preferenceKey, accountEndpointPreference) gomap" where
  "loadPreference now prefs x =
     (let expiresAt = time_unix (pp_ExpiresAt x)
      in if trim_space (pp_AccountID x) = '''' \<or> trim_space (pp_Model x) = '''' \<or> trim_space (pp_EndpointKey x) = '''' \<or> \<not> now < expiresAt then prefs
         else gm_put (trim_space (pp_AccountID x), normalizeEndpointRoutePart (pp_Model x))
                \<lparr>ap_endpoint = normalizeEndpointRoutePart (pp_EndpointKey x), ap_expiresAt = expiresAt, ap_persistedExpiresAt = expiresAt, ap_lastAccess = now\<rparr> prefs)"

text \<open>The outcome of reading and decoding the file.\<close>

datatype routeFile = NoRouteFile | BadRouteFile string | RouteFile persistedAccountEndpointRouteState

definition loadRoutes :: "UpstreamProtectionConfig \<Rightarrow> string \<Rightarrow> routeFile \<Rightarrow> gotime \<Rightarrow> accountEndpointRouteRegistry \<Rightarrow> (string + nat) \<times> accountEndpointRouteRegistry" where
  "loadRoutes up path0 file now r =
     (let path = trim_space path0;
          r1 = r\<lparr>er_persistEpoch := er_persistEpoch r + 1, er_persistTimer := None, er_persistPath := path\<rparr>
      in if path = '''' then (Inr 0, replaceRoutes up [] [] r1)
         else case file of
                NoRouteFile \<Rightarrow> (Inr 0, replaceRoutes up [] [] r1)
              | BadRouteFile err \<Rightarrow> (Inl err, replaceRoutes up [] [] r1)
              | RouteFile state \<Rightarrow>
                  if ps_Version state \<noteq> accountEndpointRouteStateVersion
                  then (Inl (''unsupported endpoint route state version '' @ show_int (ps_Version state)), replaceRoutes up [] [] r1)
                  else let routes = foldl (loadRoute now) [] (ps_Routes state); preferences = foldl (loadPreference now) [] (ps_Preferences state)
                       in (Inr (length routes + length preferences), replaceRoutes up routes preferences r1))"

section \<open>The endpoints of a request\<close>

definition kiroEndpoints :: "kiroEndpoint list" where
  "kiroEndpoints =
     [\<lparr>ep_Key = ''runtime'', ep_URL = ''https://runtime.us-east-1.kiro.dev/generateAssistantResponse'', ep_Origin = ''AI_EDITOR'',
       ep_AmzTarget = ''AmazonCodeWhispererStreamingService.GenerateAssistantResponse'', ep_Name = ''Kiro Runtime'',
       ep_ContentType = ''application/x-amz-json-1.0'', ep_RequiresProfileArn = True\<rparr>,
      \<lparr>ep_Key = ''kiro'', ep_URL = ''https://q.us-east-1.amazonaws.com/generateAssistantResponse'', ep_Origin = ''AI_EDITOR'', ep_AmzTarget = '''',
       ep_Name = ''Kiro IDE'', ep_ContentType = '''', ep_RequiresProfileArn = False\<rparr>,
      \<lparr>ep_Key = ''codewhisperer'', ep_URL = ''https://codewhisperer.us-east-1.amazonaws.com/generateAssistantResponse'', ep_Origin = ''AI_EDITOR'',
       ep_AmzTarget = ''AmazonCodeWhispererStreamingService.GenerateAssistantResponse'', ep_Name = ''CodeWhisperer'', ep_ContentType = '''',
       ep_RequiresProfileArn = False\<rparr>,
      \<lparr>ep_Key = ''amazonq'', ep_URL = ''https://q.us-east-1.amazonaws.com/generateAssistantResponse'', ep_Origin = ''AI_EDITOR'',
       ep_AmzTarget = ''AmazonQDeveloperStreamingService.SendMessage'', ep_Name = ''AmazonQ'', ep_ContentType = '''', ep_RequiresProfileArn = False\<rparr>]"

definition getSortedEndpoints :: "bool \<Rightarrow> string \<Rightarrow> kiroEndpoint list" where
  "getSortedEndpoints fallback preferred0 =
     (let preferred = to_lower (trim_space preferred0)
      in if preferred = '''' \<or> preferred = ''auto'' then kiroEndpoints
         else case find (\<lambda>i. ep_Key (kiroEndpoints ! i) = preferred) [0..<length kiroEndpoints] of
                None \<Rightarrow> kiroEndpoints
              | Some i \<Rightarrow> if \<not> fallback then [kiroEndpoints ! i] else kiroEndpoints ! i # take i kiroEndpoints @ drop (Suc i) kiroEndpoints)"

definition isAuto :: "string \<Rightarrow> bool" where
  "isAuto preferred \<longleftrightarrow> to_lower (trim_space preferred) = '''' \<or> to_lower (trim_space preferred) = ''auto''"

definition getRequestEndpoints :: "bool \<Rightarrow> string \<Rightarrow> bool \<Rightarrow> kiroEndpoint list" where
  "getRequestEndpoints fallback preferred highRisk =
     (let endpoints = getSortedEndpoints fallback preferred in if isAuto preferred \<and> highRisk then moveEndpointFirst endpoints ''kiro'' else endpoints)"

text \<open>
  An account with the fields only the endpoints depend on; \<open>ea_BuilderID\<close> is \<open>IsBuilderIDStartURL\<close> of its start URL.
\<close>

record endpointAccount =
  ea_account :: Account
  ea_EndpointPreference :: string
  ea_BuilderID :: bool

definition preferredEndpointForAccount :: "string \<Rightarrow> endpointAccount \<Rightarrow> string" where
  "preferredEndpointForAccount configured ea =
     (let preferred = to_lower (trim_space (ea_EndpointPreference ea)) in if preferred \<noteq> '''' then preferred else to_lower (trim_space configured))"

definition accountPrefersRuntime :: "Account \<Rightarrow> bool" where
  "accountPrefersRuntime a =
     (if trim_space (acc_ProfileArn a) \<noteq> '''' then True
      else to_lower (trim_space (acc_AuthMethod a)) = ''idc'' \<or> to_lower (trim_space (acc_Provider a)) \<in> {''builderid'', ''enterprise''})"

definition isProfilelessBuilderIDAccount :: "endpointAccount \<Rightarrow> bool" where
  "isProfilelessBuilderIDAccount ea =
     (if trim_space (acc_ProfileArn (ea_account ea)) \<noteq> '''' then False
      else equal_fold (trim_space (acc_Provider (ea_account ea))) ''builderid'' \<or> ea_BuilderID ea)"

definition accountAutoEndpointHint :: "endpointAccount \<Rightarrow> string" where
  "accountAutoEndpointHint ea =
     (if isProfilelessBuilderIDAccount ea then ''codewhisperer'' else if accountPrefersRuntime (ea_account ea) then ''runtime'' else ''kiro'')"

definition getRequestEndpointsForAccount :: "bool \<Rightarrow> string \<Rightarrow> string \<Rightarrow> bool \<Rightarrow> endpointAccount \<Rightarrow> kiroEndpoint list" where
  "getRequestEndpointsForAccount fallback configured preferred0 highRisk ea =
     (let preferred = (if trim_space (ea_EndpointPreference ea) \<noteq> '''' then preferredEndpointForAccount configured ea else preferred0);
          endpoints = getRequestEndpoints fallback preferred highRisk;
          compatible = (if (isKiroAPIKeyAccount (ea_account ea) \<or> isProfilelessBuilderIDAccount ea) \<and> trim_space (acc_ProfileArn (ea_account ea)) = ''''
                        then filter (\<lambda>ep. \<not> ep_RequiresProfileArn ep) endpoints else endpoints)
      in if isAuto preferred then moveEndpointFirst compatible (accountAutoEndpointHint ea) else compatible)"

section \<open>Views\<close>

record accountEndpointRouteSnapshot =
  sn_AccountID :: string
  sn_Model :: string
  sn_Workload :: string
  sn_Endpoint :: string
  sn_FailureKind :: string
  sn_ConsecutiveFailures :: int
  sn_CooldownSeconds :: int
  sn_LastCooldownMs :: int
  sn_LastError :: string
  sn_LastFailureAt :: int

record accountEndpointPreferenceSnapshot =
  sp_AccountID :: string
  sp_Model :: string
  sp_Workload :: string
  sp_Endpoint :: string
  sp_ExpiresInSecs :: int

definition ceilDurationSeconds :: "duration \<Rightarrow> int" where
  "ceilDurationSeconds d = (if d \<le> 0 then 0 else quot (d + second - 1) second)"

definition routeSnapshot :: "gotime \<Rightarrow> bool \<Rightarrow> routeKey \<times> accountEndpointRouteState \<Rightarrow> accountEndpointRouteSnapshot" where
  "routeSnapshot now withError = (\<lambda>((a, m, e), s).
     (let (modelName, workload) = endpointRouteDisplayModel m
      in \<lparr>sn_AccountID = a, sn_Model = modelName, sn_Workload = workload, sn_Endpoint = rs_endpoint s, sn_FailureKind = rs_failureKind s,
          sn_ConsecutiveFailures = rs_consecutiveFailures s, sn_CooldownSeconds = ceilDurationSeconds (time_sub (rs_cooldownUntil s) now),
          sn_LastCooldownMs = quot (rs_lastCooldown s) millisecond, sn_LastError = (if withError then rs_lastError s else ''''),
          sn_LastFailureAt = unix_of (rs_lastFailureAt s)\<rparr>))"

definition preferenceSnapshot :: "gotime \<Rightarrow> preferenceKey \<times> accountEndpointPreference \<Rightarrow> accountEndpointPreferenceSnapshot" where
  "preferenceSnapshot now = (\<lambda>((a, m), p).
     (let (modelName, workload) = endpointRouteDisplayModel m
      in \<lparr>sp_AccountID = a, sp_Model = modelName, sp_Workload = workload, sp_Endpoint = ap_endpoint p,
          sp_ExpiresInSecs = ceilDurationSeconds (time_sub (ap_expiresAt p) now)\<rparr>))"

definition snapshotBefore :: "accountEndpointRouteSnapshot \<Rightarrow> accountEndpointRouteSnapshot \<Rightarrow> bool" where
  "snapshotBefore x y =
     (if sn_AccountID x \<noteq> sn_AccountID y then bytesBefore (sn_AccountID x) (sn_AccountID y)
      else if sn_Model x \<noteq> sn_Model y then bytesBefore (sn_Model x) (sn_Model y) else bytesBefore (sn_Endpoint x) (sn_Endpoint y))"

definition affinityBefore :: "accountEndpointPreferenceSnapshot \<Rightarrow> accountEndpointPreferenceSnapshot \<Rightarrow> bool" where
  "affinityBefore x y =
     (if sp_AccountID x \<noteq> sp_AccountID y then bytesBefore (sp_AccountID x) (sp_AccountID y) else bytesBefore (sp_Model x) (sp_Model y))"

definition routesSnapshot :: "UpstreamProtectionConfig \<Rightarrow> gotime \<Rightarrow> accountEndpointRouteRegistry \<Rightarrow>
    (accountEndpointRouteSnapshot list \<times> accountEndpointPreferenceSnapshot list) \<times> accountEndpointRouteRegistry" where
  "routesSnapshot up now r =
     (let r1 = pruneExpiredLocked up now r
      in ((sort_stable snapshotBefore (map (routeSnapshot now False) (filter (\<lambda>(_, s). now < rs_cooldownUntil s) (er_routes r1))),
           sort_stable affinityBefore (map (preferenceSnapshot now) (er_preferences r1))), r1))"

definition snapshotsByAccount :: "UpstreamProtectionConfig \<Rightarrow> gotime \<Rightarrow> accountEndpointRouteRegistry \<Rightarrow>
    (string, accountEndpointRouteSnapshot list \<times> accountEndpointPreferenceSnapshot list) gomap \<times> accountEndpointRouteRegistry" where
  "snapshotsByAccount up now r =
     (let r1 = pruneExpiredLocked up now r;
          cooling = map (routeSnapshot now True) (filter (\<lambda>(_, s). now < rs_cooldownUntil s) (er_routes r1));
          prefs = map (preferenceSnapshot now) (filter (\<lambda>(_, p). now < ap_expiresAt p) (er_preferences r1));
          v1 = foldl (\<lambda>v x. let (cs, ps) = gm_zero ([], []) v (sn_AccountID x) in gm_put (sn_AccountID x) (cs @ [x], ps) v) [] cooling;
          v2 = foldl (\<lambda>v x. let (cs, ps) = gm_zero ([], []) v (sp_AccountID x) in gm_put (sp_AccountID x) (cs, ps @ [x]) v) v1 prefs
      in (v2, r1))"

end
