(* ===== verification/Endpoint_Routes_Props.thy ===== *)
theory Endpoint_Routes_Props
  imports Endpoint_Routes Protection_Config
begin

text \<open>
  The learned routing over endpoints: what the registry offers, that a refusal ends when its waiting time is over, the invariant of the
  registry and of its file over every order of operations, saves and restarts, and the round trip through the file.
\<close>

section \<open>Keys and affinities\<close>

text \<open>What the invariant speaks of: the keys with learned failures and the endpoints preferred.\<close>

definition routeKeys :: "accountEndpointRouteRegistry \<Rightarrow> routeKey set" where
  "routeKeys r = fst ` set (er_routes r)"

definition affinities :: "accountEndpointRouteRegistry \<Rightarrow> routeKey set" where
  "affinities r = (\<lambda>((a, m), p). (a, m, ap_endpoint p)) ` set (er_preferences r)"

definition okKey :: "routeKey \<Rightarrow> bool" where
  "okKey = (\<lambda>(a, m, e). trim_space a = a \<and> a \<noteq> '''' \<and> normalizeEndpointRoutePart m = m \<and> m \<noteq> '''' \<and> normalizeEndpointRoutePart e = e \<and> e \<noteq> '''')"

definition routesOK :: "accountEndpointRouteRegistry \<Rightarrow> bool" where
  "routesOK r \<longleftrightarrow> gm_wf (er_routes r) \<and> gm_wf (er_preferences r) \<and> (\<forall>k \<in> routeKeys r \<union> affinities r. okKey k) \<and> routeKeys r \<inter> affinities r = {}"

lemma normalize_idem [simp]: "normalizeEndpointRoutePart (normalizeEndpointRoutePart s) = normalizeEndpointRoutePart s"
  by (simp add: normalizeEndpointRoutePart_def trim_space_to_lower)

lemma normalize_empty [simp]: "normalizeEndpointRoutePart s = '''' \<longleftrightarrow> trim_space s = ''''"
  by (simp add: normalizeEndpointRoutePart_def to_lower_def)

lemma normalize_trim [simp]: "normalizeEndpointRoutePart (trim_space s) = normalizeEndpointRoutePart s"
  by (simp add: normalizeEndpointRoutePart_def)

lemma okKey_routeKeyOf: "trim_space a \<noteq> '''' \<Longrightarrow> trim_space m \<noteq> '''' \<Longrightarrow> trim_space (ep_Key ep) \<noteq> '''' \<Longrightarrow> okKey (routeKeyOf a m ep)"
  by (simp add: okKey_def routeKeyOf_def)

text \<open>Operations that only forget, refresh or look: they keep the invariant.\<close>

definition forgets :: "accountEndpointRouteRegistry \<Rightarrow> accountEndpointRouteRegistry \<Rightarrow> bool" where
  "forgets r r' \<longleftrightarrow> (gm_wf (er_routes r) \<longrightarrow> gm_wf (er_routes r')) \<and> (gm_wf (er_preferences r) \<longrightarrow> gm_wf (er_preferences r')) \<and>
     routeKeys r' \<subseteq> routeKeys r \<and> affinities r' \<subseteq> affinities r"

named_theorems forget

lemma forgets_refl [forget]: "forgets r r"
  by (simp add: forgets_def)

lemma forgets_trans: "forgets r r' \<Longrightarrow> forgets r' r'' \<Longrightarrow> forgets r r''"
  by (auto simp: forgets_def)

lemma routesOK_shrinks: "routesOK r \<Longrightarrow> forgets r r' \<Longrightarrow> routesOK r'"
  by (auto simp: routesOK_def forgets_def)

lemma routeKeys_simps [simp]:
  "routeKeys (r\<lparr>er_preferences := ps\<rparr>) = routeKeys r" "routeKeys (r\<lparr>er_persistTimer := t\<rparr>) = routeKeys r"
  "routeKeys (r\<lparr>er_routes := gm_put k s rs\<rparr>) = insert k (fst ` set rs)"
  by (simp_all add: routeKeys_def gm_keys_put)

lemma affinities_simps [simp]:
  "affinities (r\<lparr>er_routes := rs\<rparr>) = affinities r" "affinities (r\<lparr>er_persistTimer := t\<rparr>) = affinities r"
  by (simp_all add: affinities_def)

lemma forgets_schedule [forget]: "forgets r (scheduleSave r)"
  by (simp add: forgets_def scheduleSave_def)

lemma forgets_timer [forget]: "forgets r (r\<lparr>er_persistTimer := t\<rparr>)"
  by (simp add: forgets_def)

lemma forgets_subsets:
  assumes "set (er_routes r') \<subseteq> set (er_routes r)" "set (er_preferences r') \<subseteq> set (er_preferences r)"
    "gm_wf (er_routes r) \<Longrightarrow> gm_wf (er_routes r')" "gm_wf (er_preferences r) \<Longrightarrow> gm_wf (er_preferences r')"
  shows "forgets r r'"
  unfolding forgets_def routeKeys_def affinities_def by (intro conjI impI assms image_mono) assumption+

lemma forgets_prune [forget]: "forgets r (pruneExpiredLocked up now r)"
  by (rule forgets_subsets) (auto simp: pruneExpiredLocked_def intro: gm_wf_filter)

lemma limitEntries_sub: "set (limitEntries f n m) \<subseteq> set m \<and> (gm_wf m \<longrightarrow> gm_wf (limitEntries f n m))"
proof (induction f n m rule: limitEntries.induct)
  case (1 f n m)
  note IH = 1
  show ?case
  proof (cases "int (length m) > n \<and> oldestKey f m \<noteq> None")
    case True
    then obtain k where k: "oldestKey f m = Some k" by auto
    show ?thesis using IH [OF _ k] True set_gm_del [of k m] gm_wf_del [of m k]
      by (subst (1 2) limitEntries.simps) (auto simp: k)
  next
    case False
    then show ?thesis by (subst (1 2) limitEntries.simps) (auto split: option.splits)
  qed
qed

lemma forgets_limits [forget]: "forgets r (enforceLimitsLocked up r)"
  by (rule forgets_subsets) (use limitEntries_sub in \<open>auto simp: enforceLimitsLocked_def\<close>)

lemma forgets_sub [forget]:
  "set rs \<subseteq> set (er_routes r) \<Longrightarrow> (gm_wf (er_routes r) \<Longrightarrow> gm_wf rs) \<Longrightarrow> forgets r (r\<lparr>er_routes := rs\<rparr>)"
  using image_mono [of "set rs" "set (er_routes r)" fst] by (simp add: forgets_def routeKeys_def)

lemma affinities_mem: "((a, m), p) \<in> set (er_preferences r) \<Longrightarrow> (a, m, ap_endpoint p) \<in> affinities r"
  unfolding affinities_def by (drule imageI [where f = "\<lambda>((a, m), p). (a, m, ap_endpoint p)"]) simp

text \<open>Putting an entry of the same endpoint back under its key.\<close>

lemma affinities_put:
  assumes "gm_get (er_preferences r) k = Some p" "ap_endpoint p' = ap_endpoint p"
  shows "forgets r (r\<lparr>er_preferences := gm_put k p' (er_preferences r)\<rparr>)"
proof -
  have mem: "(k, p) \<in> set (er_preferences r)" using assms(1) by (rule map_of_SomeD)
  have "affinities (r\<lparr>er_preferences := gm_put k p' (er_preferences r)\<rparr>) \<subseteq> affinities r"
  proof
    fix x assume "x \<in> affinities (r\<lparr>er_preferences := gm_put k p' (er_preferences r)\<rparr>)"
    then obtain a m q where x: "x = (a, m, ap_endpoint q)" and q: "((a, m), q) \<in> set (gm_put k p' (er_preferences r))" by (auto simp: affinities_def)
    from set_gm_put [OF q] show "x \<in> affinities r"
    proof
      assume "((a, m), q) = (k, p')"
      with affinities_mem [of a m p r] mem assms(2) show ?thesis by (simp add: x)
    next
      assume "((a, m), q) \<in> set (er_preferences r)"
      then show ?thesis unfolding x by (rule affinities_mem)
    qed
  qed
  then show ?thesis by (simp add: forgets_def)
qed

lemma routes_touch: "gm_get (er_routes r) k = Some s \<Longrightarrow> forgets r (r\<lparr>er_routes := gm_put k s' (er_routes r)\<rparr>)"
  using gm_get_mem [of "er_routes r" k s] by (simp add: forgets_def insert_absorb) (simp add: routeKeys_def)

lemma forgets_sort: "forgets r0 r \<Longrightarrow> sortEndpoint a m now (av, co, ra, r) ep = (av', co', ra', r') \<Longrightarrow> forgets r0 r'"
  by (auto simp: sortEndpoint_def Let_def intro: routes_touch elim!: forgets_trans split: option.splits if_splits)

lemma forgets_sorts: "foldl (sortEndpoint a m now) (av, co, ra, r) eps = (av', co', ra', r') \<Longrightarrow> forgets r0 r \<Longrightarrow> forgets r0 r'"
proof (induction eps arbitrary: av co ra r)
  case (Cons ep eps)
  obtain av1 co1 ra1 r1 where "sortEndpoint a m now (av, co, ra, r) ep = (av1, co1, ra1, r1)" by (metis prod_cases4)
  with Cons.prems forgets_sort [OF Cons.prems(2) this] show ?case by (auto intro: Cons.IH)
qed simp

lemma forgets_available [forget]: "forgets r (snd (availableEndpointsWithOptions up a m preferred eps allow now r))"
proof -
  let ?r1 = "pruneExpiredLocked up now r" let ?pk = "(trim_space a, normalizeEndpointRoutePart m)"
  have "forgets r ?r1" by (rule forgets_prune)
  moreover have "gm_get (er_preferences ?r1) ?pk = Some p \<Longrightarrow> forgets ?r1 (?r1\<lparr>er_preferences := gm_put ?pk (p\<lparr>ap_lastAccess := now\<rparr>) (er_preferences ?r1)\<rparr>)" for p
    by (rule affinities_put) auto
  ultimately show ?thesis
    by (auto simp: availableEndpointsWithOptions_def Let_def forgets_refl intro: forgets_trans dest!: forgets_sorts split: prod.splits option.splits if_splits)
qed

lemma forgets_clear [forget]: "forgets r (clearEndpointFailure a m ep r)"
  by (auto simp: clearEndpointFailure_def Let_def intro!: forget forgets_trans [OF forgets_sub forgets_schedule] gm_wf_del dest: subsetD [OF set_gm_del])

lemma forgets_reset [forget]: "forgets r (resetRoutes r)"
  by (simp add: resetRoutes_def forgets_def routeKeys_def affinities_def)

lemma forgets_forget [forget]: "forgets r (forgetAccount a r)"
  by (rule forgets_subsets) (auto simp: forgetAccount_def Let_def scheduleSave_def intro: gm_wf_filter)

lemma forgets_note: "forgets r (r\<lparr>er_preferences := notePersisted (er_preferences r) x\<rparr>)"
  by (auto simp: notePersisted_def Let_def forgets_refl intro!: affinities_put split: option.splits)

lemma forgets_notes: "forgets r (r\<lparr>er_preferences := foldl notePersisted (er_preferences r) xs\<rparr>)"
proof (induction xs arbitrary: r)
  case (Cons x xs)
  from forgets_trans [OF forgets_note [of r x] Cons.IH] show ?case by simp
qed (simp add: forgets_refl)

lemma forgets_save [forget]: "forgets r (snd (saveTo up path written now r))"
  by (auto simp: saveTo_def Let_def intro: forget forgets_trans [OF forgets_prune forgets_notes])

lemma forgets_fires [forget]: "forgets r (snd (timerFires up e written now r))"
  by (auto simp: timerFires_def intro: forget forgets_trans [OF forgets_timer forgets_save])

lemma forgets_flush [forget]: "forgets r (snd (flushRoutes up written now r))"
  by (auto simp: flushRoutes_def Let_def intro: forget forgets_trans [OF forgets_timer forgets_save])

section \<open>The invariant\<close>

text \<open>Learning a failure takes the affinity to the endpoint away, learning a success takes the failures of the endpoint away.\<close>

lemma affinities_del: "affinities (r\<lparr>er_preferences := gm_del k (er_preferences r)\<rparr>) \<subseteq> affinities r"
  using image_mono [OF set_gm_del [of k "er_preferences r"]] by (simp add: affinities_def)

lemma affinity_iff: "gm_wf (er_preferences r) \<Longrightarrow>
   (a, m, e) \<in> affinities r \<longleftrightarrow> (\<exists>p. gm_get (er_preferences r) (a, m) = Some p \<and> ap_endpoint p = e)"
  by (force simp: affinities_def)

lemma route_iff: "k \<in> routeKeys r \<longleftrightarrow> gm_get (er_routes r) k \<noteq> None"
  by (auto simp: routeKeys_def map_of_eq_None_iff)

lemma routesOK_failure:
  assumes ok: "routesOK r" and key: "trim_space (ep_Key ep) \<noteq> ''''"
  shows "routesOK (snd (recordEndpointFailure up a m ep err now r))"
proof (cases "endpointRouteFailure err = None \<or> trim_space a = '''' \<or> trim_space m = ''''")
  case True
  then show ?thesis using ok by (auto simp: recordEndpointFailure_def split: option.splits)
next
  case False
  let ?k = "routeKeyOf a m ep" let ?pk = "(trim_space a, normalizeEndpointRoutePart m)"
  obtain u c where uc: "endpointRouteFailure err = Some (u, c)" using False by auto
  define ps where "ps = (case gm_get (er_preferences r) ?pk of
      Some p \<Rightarrow> if normalizeEndpointRoutePart (ap_endpoint p) = normalizeEndpointRoutePart (ep_Key ep) then gm_del ?pk (er_preferences r) else er_preferences r
    | None \<Rightarrow> er_preferences r)"
  have wf: "gm_wf (er_preferences r)" "gm_wf (er_routes r)" using ok by (auto simp: routesOK_def)
  have wfp: "gm_wf ps" using wf by (auto simp: ps_def gm_wf_del split: option.splits)
  have sub: "affinities (r\<lparr>er_preferences := ps\<rparr>) \<subseteq> affinities r"
    using affinities_del [where r = r and k = ?pk] by (auto simp: ps_def split: option.splits)
  have notin: "?k \<notin> affinities (r\<lparr>er_preferences := ps\<rparr>)"
  proof
    assume "?k \<in> affinities (r\<lparr>er_preferences := ps\<rparr>)"
    then obtain p where p: "gm_get ps ?pk = Some p" "ap_endpoint p = normalizeEndpointRoutePart (ep_Key ep)"
      using affinity_iff [of "r\<lparr>er_preferences := ps\<rparr>"] wfp by (auto simp: routeKeyOf_def)
    then show False by (auto simp: ps_def gm_get_del split: option.splits if_splits)
  qed
  have base: "routesOK (r\<lparr>er_routes := gm_put ?k s (er_routes r), er_preferences := ps\<rparr>)" (is "routesOK ?r'") for s
  proof -
    have "routeKeys ?r' = insert ?k (routeKeys r)" by (simp add: routeKeys_def gm_keys_put)
    moreover have "affinities ?r' = affinities (r\<lparr>er_preferences := ps\<rparr>)" by (simp add: affinities_def)
    moreover have "okKey ?k" using False key by (intro okKey_routeKeyOf) auto
    ultimately show ?thesis using ok sub notin wf wfp unfolding routesOK_def by auto
  qed
  have "forgets r' (scheduleSave (enforceLimitsLocked up r'))" for r' by (rule forgets_trans [OF forgets_limits forgets_schedule])
  note last = routesOK_shrinks [OF base this]
  show ?thesis using False by (auto simp: recordEndpointFailure_def uc Let_def simp flip: ps_def intro!: last)
qed

lemma routesOK_success:
  assumes ok: "routesOK r" and key: "trim_space (ep_Key ep) \<noteq> ''''"
  shows "routesOK (recordEndpointSuccess up a m ep now r)"
proof (cases "trim_space a = '''' \<or> trim_space m = ''''")
  case True
  then show ?thesis using ok by (auto simp: recordEndpointSuccess_def)
next
  case False
  let ?k = "routeKeyOf a m ep" let ?pk = "(trim_space a, normalizeEndpointRoutePart m)" let ?e = "normalizeEndpointRoutePart (ep_Key ep)"
  have wf: "gm_wf (er_preferences r)" "gm_wf (er_routes r)" using ok by (auto simp: routesOK_def)
  have base: "routesOK (r\<lparr>er_routes := gm_del ?k (er_routes r), er_preferences := gm_put ?pk p (er_preferences r)\<rparr>)" (is "routesOK ?r'")
    if p: "ap_endpoint p = ?e" for p
  proof -
    have r': "routeKeys ?r' = routeKeys r - {?k}" by (rule set_eqI) (simp add: route_iff gm_get_del)
    have a': "affinities ?r' \<subseteq> insert ?k (affinities r)"
    proof
      fix x assume x: "x \<in> affinities ?r'"
      obtain b n e where xe: "x = (b, n, e)" by (cases x)
      from x show "x \<in> insert ?k (affinities r)" using wf p
        by (auto simp: xe affinity_iff gm_get_put routeKeyOf_def split: if_splits)
    qed
    have "okKey ?k" using False key by (intro okKey_routeKeyOf) auto
    moreover have "gm_wf (er_routes ?r')" "gm_wf (er_preferences ?r')" using wf by (simp_all add: gm_wf_del)
    ultimately show ?thesis using ok a' unfolding routesOK_def r' by blast
  qed
  have s: "forgets r1 (enforceLimitsLocked up (pruneExpiredLocked up now r1))" for r1
    by (rule forgets_trans [OF forgets_prune forgets_limits])
  note last = routesOK_shrinks [OF base s] routesOK_shrinks [OF base forgets_trans [OF s forgets_schedule]]
  show ?thesis using False by (auto simp: recordEndpointSuccess_def Let_def intro!: last)
qed

subsection \<open>The file\<close>

definition fileRoutes :: "persistedAccountEndpointRouteState \<Rightarrow> routeKey set" where
  "fileRoutes s = (\<lambda>x. (pr_AccountID x, pr_RouteModel x, pr_EndpointKey x)) ` set (ps_Routes s)"

definition fileAffinities :: "persistedAccountEndpointRouteState \<Rightarrow> routeKey set" where
  "fileAffinities s = (\<lambda>x. (pp_AccountID x, pp_Model x, pp_EndpointKey x)) ` set (ps_Preferences s)"

definition fileOK :: "routeFile \<Rightarrow> bool" where
  "fileOK f = (case f of
     RouteFile s \<Rightarrow> (\<forall>k \<in> fileRoutes s \<union> fileAffinities s. okKey k) \<and> fileRoutes s \<inter> fileAffinities s = {}
   | _ \<Rightarrow> True)"

lemma savedState_keys: "fileRoutes (savedState up now r) \<subseteq> routeKeys r" "fileAffinities (savedState up now r) \<subseteq> affinities r"
proof -
  have "forgets r (pruneExpiredLocked up now r)" by (rule forgets_prune)
  then have k: "routeKeys (pruneExpiredLocked up now r) \<subseteq> routeKeys r" "affinities (pruneExpiredLocked up now r) \<subseteq> affinities r"
    by (auto simp: forgets_def)
  show "fileRoutes (savedState up now r) \<subseteq> routeKeys r"
    by (rule subset_trans [OF _ k(1)]) (force simp: fileRoutes_def savedState_def Let_def persistedRoute_def routeKeys_def)
  show "fileAffinities (savedState up now r) \<subseteq> affinities r"
    by (rule subset_trans [OF _ k(2)])
      (auto simp: fileAffinities_def savedState_def Let_def persistedPreference_def simp del: image_iff intro: affinities_mem)
qed

lemma fileOK_saved: "routesOK r \<Longrightarrow> fileOK (RouteFile (savedState up now r))"
  using savedState_keys [of up now r] by (auto simp: fileOK_def routesOK_def)

lemma loadRoute_keys:
  "fst ` set (loadRoute now m x) \<subseteq> insert (trim_space (pr_AccountID x), normalizeEndpointRoutePart (pr_RouteModel x), normalizeEndpointRoutePart (pr_EndpointKey x)) (fst ` set m)"
  "gm_wf m \<Longrightarrow> gm_wf (loadRoute now m x)"
  by (auto simp: loadRoute_def Let_def gm_keys_put)

lemma loadRoutes_keys:
  assumes "\<forall>x \<in> set xs. okKey (pr_AccountID x, pr_RouteModel x, pr_EndpointKey x)"
  shows "fst ` set (foldl (loadRoute now) m xs) \<subseteq> (\<lambda>x. (pr_AccountID x, pr_RouteModel x, pr_EndpointKey x)) ` set xs \<union> fst ` set m"
  using assms
proof (induction xs arbitrary: m)
  case (Cons x xs)
  from Cons.prems have "okKey (pr_AccountID x, pr_RouteModel x, pr_EndpointKey x)" by simp
  then have "fst ` set (loadRoute now m x) \<subseteq> insert (pr_AccountID x, pr_RouteModel x, pr_EndpointKey x) (fst ` set m)"
    using loadRoute_keys(1) [of now m x] by (simp add: okKey_def)
  with Cons.IH [of "loadRoute now m x"] Cons.prems show ?case by auto
qed simp

lemma loadPreference_keys:
  assumes "okKey (pp_AccountID x, pp_Model x, pp_EndpointKey x)" "((a, n), p) \<in> set (loadPreference now m x)"
  shows "(a, n, ap_endpoint p) = (pp_AccountID x, pp_Model x, pp_EndpointKey x) \<or> ((a, n), p) \<in> set m"
  using assms by (auto simp: loadPreference_def Let_def okKey_def dest: set_gm_put split: if_splits)

lemma loadPreferences_keys:
  assumes "\<forall>x \<in> set xs. okKey (pp_AccountID x, pp_Model x, pp_EndpointKey x)" "((a, n), p) \<in> set (foldl (loadPreference now) m xs)"
  shows "(a, n, ap_endpoint p) \<in> (\<lambda>x. (pp_AccountID x, pp_Model x, pp_EndpointKey x)) ` set xs \<or> ((a, n), p) \<in> set m"
  using assms
proof (induction xs arbitrary: m)
  case (Cons x xs)
  then have "(a, n, ap_endpoint p) \<in> (\<lambda>x. (pp_AccountID x, pp_Model x, pp_EndpointKey x)) ` set xs \<or> ((a, n), p) \<in> set (loadPreference now m x)" by simp
  with loadPreference_keys [of x a n p now m] Cons.prems show ?case by auto
qed simp

lemma loadFold_wf:
  "gm_wf m \<Longrightarrow> gm_wf (foldl (loadRoute now) m xs)" "gm_wf m' \<Longrightarrow> gm_wf (foldl (loadPreference now) m' ys)"
  by (induction xs arbitrary: m) (auto simp: loadRoute_keys, induction ys arbitrary: m', auto simp: loadPreference_def Let_def)

lemma routesOK_replace:
  assumes "routesOK (r\<lparr>er_routes := rs, er_preferences := ps\<rparr>)"
  shows "routesOK (replaceRoutes up rs ps r)"
  unfolding replaceRoutes_def by (rule routesOK_shrinks [OF assms forgets_limits])

lemma routesOK_nothing: "routesOK (r\<lparr>er_routes := [], er_preferences := []\<rparr>)"
  by (simp add: routesOK_def routeKeys_def affinities_def)

lemma routesOK_load:
  assumes "fileOK f"
  shows "routesOK (snd (loadRoutes up path f now r))"
proof -
  have "routesOK (r1\<lparr>er_routes := foldl (loadRoute now) [] (ps_Routes s), er_preferences := foldl (loadPreference now) [] (ps_Preferences s)\<rparr>)" (is "routesOK ?r'")
    if f: "f = RouteFile s" for r1 s
  proof -
    have files: "\<forall>k \<in> fileRoutes s \<union> fileAffinities s. okKey k" "fileRoutes s \<inter> fileAffinities s = {}"
      using assms by (simp_all add: f fileOK_def)
    have k: "routeKeys ?r' \<subseteq> fileRoutes s"
      using loadRoutes_keys [of "ps_Routes s" now "[]"] files(1) by (simp add: routeKeys_def fileRoutes_def)
    have a: "affinities ?r' \<subseteq> fileAffinities s"
      using loadPreferences_keys [of "ps_Preferences s" _ _ _ now "[]"] files(1) by (auto simp: affinities_def fileAffinities_def simp del: image_iff)
    show ?thesis unfolding routesOK_def using k a files by (auto simp: loadFold_wf)
  qed
  then show ?thesis
    by (auto simp: loadRoutes_def Let_def intro!: routesOK_replace routesOK_nothing split: routeFile.splits)
qed

subsection \<open>Sizes\<close>

definition withinLimit :: "int \<Rightarrow> accountEndpointRouteRegistry \<Rightarrow> bool" where
  "withinLimit n r \<longleftrightarrow> int (length (er_routes r)) \<le> n \<and> int (length (er_preferences r)) \<le> n"

lemma oldestKey_found:
  assumes "m \<noteq> []"
  shows "oldestKey f m \<noteq> None"
proof -
  have keep: "fst (foldl (oldestStep f) (Some k, t) m) \<noteq> None" for k t m
    by (induction m arbitrary: k t) (auto simp: oldestStep_def)
  obtain k v m' where "m = (k, v) # m'" using assms by (cases m) auto
  then show ?thesis using keep by (simp add: oldestKey_def oldestStep_def)
qed

lemma limitEntries_bound: "0 \<le> n \<Longrightarrow> int (length (limitEntries f n m)) \<le> n"
proof (induction f n m rule: limitEntries.induct)
  case (1 f n m)
  note IH = 1
  show ?case
  proof (cases "int (length m) > n")
    case True
    with IH(2) have "m \<noteq> []" by auto
    then obtain k where k: "oldestKey f m = Some k" using oldestKey_found [of m f] by auto
    then show ?thesis using IH(1) [OF _ k IH(2)] True by (subst limitEntries.simps) simp
  next
    case False
    then show ?thesis by (subst limitEntries.simps) simp
  qed
qed

lemma limitEntries_small: "int (length m) \<le> n \<Longrightarrow> limitEntries f n m = m"
  by (subst limitEntries.simps) simp

lemma entryLimit_pos: "0 < entryLimit up"
  by (simp add: entryLimit_def)

lemma withinLimit_enforced: "entryLimit up \<le> n \<Longrightarrow> withinLimit n (enforceLimitsLocked up r)"
proof -
  assume n: "entryLimit up \<le> n"
  note bound = limitEntries_bound [OF order_less_imp_le [OF entryLimit_pos], of _ up]
  show ?thesis
    by (simp add: withinLimit_def enforceLimitsLocked_def order_trans [OF bound n])
qed

lemma withinLimit_schedule [simp]: "withinLimit n (scheduleSave r) = withinLimit n r"
  by (simp add: withinLimit_def scheduleSave_def)

lemma length_routes:
  assumes "gm_wf (er_routes r)"
  shows "length (er_routes r) = card (routeKeys r)"
  using distinct_card [OF assms] by (simp add: routeKeys_def)

lemma length_preferences:
  assumes wf: "gm_wf (er_preferences r)"
  shows "length (er_preferences r) = card (affinities r)"
proof -
  have "inj_on (\<lambda>((a, m), p). (a, m, ap_endpoint p)) (set (er_preferences r))"
    using eq_key_imp_eq_value [OF wf] by (auto intro!: inj_onI)
  moreover have "distinct (er_preferences r)" using wf distinct_map by blast
  ultimately show ?thesis by (simp add: affinities_def card_image distinct_card)
qed

lemma withinLimit_shrinks:
  assumes "withinLimit n r" "routesOK r" "forgets r r'"
  shows "withinLimit n r'"
proof -
  have wf: "gm_wf (er_routes r)" "gm_wf (er_preferences r)" "gm_wf (er_routes r')" "gm_wf (er_preferences r')"
    using assms(2) routesOK_shrinks [OF assms(2,3)] by (simp_all add: routesOK_def)
  have "finite (routeKeys r)" "finite (affinities r)" by (simp_all add: routeKeys_def affinities_def)
  then have "card (routeKeys r') \<le> card (routeKeys r)" "card (affinities r') \<le> card (affinities r)"
    using assms(3) by (auto simp: forgets_def intro: card_mono)
  with assms(1) wf show ?thesis by (simp add: withinLimit_def length_routes length_preferences)
qed

lemma withinLimit_failure: "withinLimit n r \<Longrightarrow> entryLimit up \<le> n \<Longrightarrow> withinLimit n (snd (recordEndpointFailure up a m ep err now r))"
  by (auto simp: recordEndpointFailure_def Let_def withinLimit_enforced split: option.splits)

lemma withinLimit_success: "withinLimit n r \<Longrightarrow> entryLimit up \<le> n \<Longrightarrow> withinLimit n (recordEndpointSuccess up a m ep now r)"
  by (auto simp: recordEndpointSuccess_def Let_def withinLimit_enforced)

lemma withinLimit_load: "entryLimit up \<le> n \<Longrightarrow> withinLimit n (snd (loadRoutes up path f now r))"
  by (auto simp: loadRoutes_def Let_def replaceRoutes_def withinLimit_enforced split: routeFile.splits)

section \<open>Every order of operations\<close>

text \<open>
  The registry, its file and the clock. Every operation may come at any time and may read other settings than the one before;
  \<open>C\<close> holds of the settings that occur. A save that fails leaves the file, a load may fail too.
\<close>

inductive reachableRoutes :: "(UpstreamProtectionConfig \<Rightarrow> bool) \<Rightarrow> accountEndpointRouteRegistry \<times> routeFile \<times> gotime \<Rightarrow> bool" for C where
  Start: "reachableRoutes C (newAccountEndpointRouteRegistry, NoRouteFile, now)"
| Tick: "reachableRoutes C (r, f, now) \<Longrightarrow> now \<le> later \<Longrightarrow> reachableRoutes C (r, f, later)"
| Offer: "reachableRoutes C (r, f, now) \<Longrightarrow> C up \<Longrightarrow> reachableRoutes C (snd (availableEndpointsWithOptions up a m preferred eps allowCooling now r), f, now)"
| Failure: "reachableRoutes C (r, f, now) \<Longrightarrow> C up \<Longrightarrow> trim_space (ep_Key ep) \<noteq> '''' \<Longrightarrow>
    reachableRoutes C (snd (recordEndpointFailure up a m ep err now r), f, now)"
| Success: "reachableRoutes C (r, f, now) \<Longrightarrow> C up \<Longrightarrow> trim_space (ep_Key ep) \<noteq> '''' \<Longrightarrow> reachableRoutes C (recordEndpointSuccess up a m ep now r, f, now)"
| Cleared: "reachableRoutes C (r, f, now) \<Longrightarrow> reachableRoutes C (clearEndpointFailure a m ep r, f, now)"
| Reset: "reachableRoutes C (r, f, now) \<Longrightarrow> reachableRoutes C (resetRoutes r, f, now)"
| Forget: "reachableRoutes C (r, f, now) \<Longrightarrow> reachableRoutes C (forgetAccount a r, f, now)"
| View: "reachableRoutes C (r, f, now) \<Longrightarrow> C up \<Longrightarrow> reachableRoutes C (snd (routesSnapshot up now r), f, now)"
| Timer: "reachableRoutes C (r, f, now) \<Longrightarrow> C up \<Longrightarrow> timerFires up epoch written now r = (saved, r') \<Longrightarrow>
    reachableRoutes C (r', case saved of None \<Rightarrow> f | Some s \<Rightarrow> RouteFile s, now)"
| Flush: "reachableRoutes C (r, f, now) \<Longrightarrow> C up \<Longrightarrow> flushRoutes up written now r = (saved, r') \<Longrightarrow>
    reachableRoutes C (r', case saved of None \<Rightarrow> f | Some s \<Rightarrow> RouteFile s, now)"
| Restart: "reachableRoutes C (r, f, now) \<Longrightarrow> C up \<Longrightarrow> reachableRoutes C (snd (loadRoutes up path f now newAccountEndpointRouteRegistry), f, now)"
| LoadFailure: "reachableRoutes C (r, f, now) \<Longrightarrow> C up \<Longrightarrow>
    reachableRoutes C (snd (loadRoutes up path (BadRouteFile err) now newAccountEndpointRouteRegistry), f, now)"

lemma saveTo_file: "saveTo up path written now r = (Some s, r') \<Longrightarrow> s = savedState up now r"
  by (auto simp: saveTo_def Let_def split: if_splits)

lemma saved_file:
  "timerFires up e written now r = (Some s, r') \<Longrightarrow> routesOK r \<Longrightarrow> fileOK (RouteFile s)"
  "flushRoutes up written now r = (Some s, r') \<Longrightarrow> routesOK r \<Longrightarrow> fileOK (RouteFile s)"
  by (auto simp: timerFires_def flushRoutes_def Let_def split: if_splits dest!: saveTo_file
      intro!: fileOK_saved routesOK_shrinks [OF _ forgets_timer])

lemma forgets_view [forget]: "forgets r (snd (routesSnapshot up now r))"
  by (simp add: routesSnapshot_def Let_def forgets_prune)

lemma reachable_invariant:
  assumes "reachableRoutes C st"
  shows "routesOK (fst st) \<and> fileOK (fst (snd st)) \<and> (0 \<le> n \<and> (\<forall>up. C up \<longrightarrow> entryLimit up \<le> n) \<longrightarrow> withinLimit n (fst st))"
  using assms
proof (induction rule: reachableRoutes.induct)
  case (Start now)
  then show ?case by (simp add: routesOK_def routeKeys_def affinities_def newAccountEndpointRouteRegistry_def withinLimit_def fileOK_def)
next
  case (Timer r f now up epoch written saved r')
  then have "forgets r r'" using forgets_fires [of r up epoch written now] by simp
  with Timer show ?case using saved_file(1) by (auto intro: routesOK_shrinks withinLimit_shrinks split: option.splits)
next
  case (Flush r f now up written saved r')
  then have "forgets r r'" using forgets_flush [of r up written now] by simp
  with Flush show ?case using saved_file(2) by (auto intro: routesOK_shrinks withinLimit_shrinks split: option.splits)
next
  case (LoadFailure r f now up path err)
  then show ?case by (simp add: routesOK_load fileOK_def withinLimit_load)
next
  case (Restart r f now up path)
  then show ?case by (simp add: routesOK_load withinLimit_load)
next
  case (Failure r f now up ep a m err)
  then show ?case by (simp add: routesOK_failure withinLimit_failure)
next
  case (Success r f now up ep a m)
  then show ?case by (simp add: routesOK_success withinLimit_success)
qed (auto intro: forget routesOK_shrinks withinLimit_shrinks)

section \<open>What is offered\<close>

text \<open>What an offer leaves as it is: the cooldowns. What it computes: the available endpoints and the shortest wait.\<close>

definition routeCooldowns :: "accountEndpointRouteRegistry \<Rightarrow> routeKey \<Rightarrow> gotime option" where
  "routeCooldowns r k = map_option rs_cooldownUntil (gm_get (er_routes r) k)"

definition shorter :: "duration \<Rightarrow> duration \<Rightarrow> duration" where
  "shorter d w = (if d = 0 \<or> w < d then w else d)"

definition waitOf :: "accountEndpointRouteRegistry \<Rightarrow> string \<Rightarrow> string \<Rightarrow> gotime \<Rightarrow> kiroEndpoint \<Rightarrow> duration" where
  "waitOf r a m now ep = (case routeCooldowns r (routeKeyOf a m ep) of None \<Rightarrow> 0 | Some t \<Rightarrow> time_sub t now)"

definition isCooling :: "accountEndpointRouteRegistry \<Rightarrow> gotime \<Rightarrow> routeKey \<Rightarrow> bool" where
  "isCooling r now k \<longleftrightarrow> coolingUntil r now k \<noteq> None"

lemma isCooling_cooldowns: "isCooling r now k \<longleftrightarrow> (case routeCooldowns r k of None \<Rightarrow> False | Some t \<Rightarrow> now < t)"
  by (auto simp: isCooling_def coolingUntil_def routeCooldowns_def split: option.splits)

lemma sortEndpoint_spec:
  "sortEndpoint a m now (av, co, ra, r) ep = (av', co', ra', r') \<Longrightarrow>
     routeCooldowns r' = routeCooldowns r \<and>
     (if isCooling r now (routeKeyOf a m ep) then av' = av \<and> co' = co @ [ep] \<and> ra' = shorter ra (waitOf r a m now ep)
      else av' = av @ [ep] \<and> co' = co \<and> ra' = ra)"
  by (auto simp: sortEndpoint_def Let_def isCooling_cooldowns routeCooldowns_def waitOf_def shorter_def gm_get_put fun_eq_iff split: option.splits if_splits)

lemma waitOf_cong: "routeCooldowns r1 = routeCooldowns r \<Longrightarrow> waitOf r1 a m now = waitOf r a m now"
  by (rule ext) (simp add: waitOf_def)

lemma sortEndpoints_spec:
  "foldl (sortEndpoint a m now) (av, co, ra, r) eps = (av', co', ra', r') \<Longrightarrow>
     routeCooldowns r' = routeCooldowns r \<and>
     av' = av @ filter (\<lambda>ep. \<not> isCooling r now (routeKeyOf a m ep)) eps \<and>
     co' = co @ filter (\<lambda>ep. isCooling r now (routeKeyOf a m ep)) eps \<and>
     ra' = foldl shorter ra (map (waitOf r a m now) (filter (\<lambda>ep. isCooling r now (routeKeyOf a m ep)) eps))"
proof (induction eps arbitrary: av co ra r)
  case (Cons ep eps)
  obtain av1 co1 ra1 r1 where s: "sortEndpoint a m now (av, co, ra, r) ep = (av1, co1, ra1, r1)" by (metis prod_cases4)
  have c: "routeCooldowns r1 = routeCooldowns r" using sortEndpoint_spec [OF s] by simp
  then have "isCooling r1 now = isCooling r now" by (simp add: isCooling_cooldowns fun_eq_iff)
  moreover have "waitOf r1 a m now = waitOf r a m now" using c by (rule waitOf_cong)
  ultimately show ?case using Cons.IH [of av1 co1 ra1 r1] Cons.prems s sortEndpoint_spec [OF s] c by (simp split: if_splits)
qed simp

lemma shortest:
  assumes "\<forall>w \<in> set ws. 0 < w" "0 \<le> d"
  shows "(d = 0 \<and> ws = [] \<and> foldl shorter d ws = 0) \<or>
     (0 < foldl shorter d ws \<and> foldl shorter d ws \<in> insert d (set ws) \<and> (\<forall>w \<in> set ws. foldl shorter d ws \<le> w) \<and> (0 < d \<longrightarrow> foldl shorter d ws \<le> d))"
  using assms
proof (induction ws arbitrary: d)
  case (Cons w ws)
  have p: "0 < shorter d w" "shorter d w \<le> w" "shorter d w \<in> {d, w}" "0 < d \<longrightarrow> shorter d w \<le> d" using Cons.prems by (auto simp: shorter_def)
  with Cons.IH [of "shorter d w"] Cons.prems show ?case by auto
qed auto

text \<open>The affinity moves one endpoint to the front and changes nothing else.\<close>

lemma mset_moveEndpointFirst [simp]: "mset (moveEndpointFirst eps k) = mset eps"
proof -
  have "mset (eps ! i # take i eps @ drop (Suc i) eps) = mset eps" if "i < length eps" for i
    by (subst (4) id_take_nth_drop [OF that]) simp
  then show ?thesis by (auto simp: moveEndpointFirst_def Let_def find_Some_iff split: option.splits)
qed

lemma cooldowns_prune: "gm_wf (er_routes r) \<Longrightarrow> now \<le> t \<Longrightarrow> isCooling (pruneExpiredLocked up now r) t k = isCooling r t k"
  by (auto simp: isCooling_cooldowns routeCooldowns_def pruneExpiredLocked_def gm_get_filter split: option.splits)

lemma cooldowns_preferences [simp]: "routeCooldowns (r\<lparr>er_preferences := ps\<rparr>) = routeCooldowns r"
  by (simp add: routeCooldowns_def fun_eq_iff)

text \<open>An offer taken apart: the endpoints in some order, and the registry before and after the loop.\<close>

lemma available_cases:
  assumes "trim_space a \<noteq> ''''" "trim_space m \<noteq> ''''" "eps \<noteq> []" "gm_wf (er_routes r)"
    and res: "availableEndpointsWithOptions up a m preferred eps allow now r = (res, r')"
  obtains ordered where "mset ordered = mset eps" "\<forall>t k. now \<le> t \<longrightarrow> isCooling r' t k = isCooling r t k"
    "case res of
       Inr xs \<Rightarrow> xs = filter (\<lambda>ep. \<not> isCooling r now (routeKeyOf a m ep)) ordered \<and> xs \<noteq> [] \<or>
         allow \<and> xs = ordered \<and> (\<forall>ep \<in> set eps. isCooling r now (routeKeyOf a m ep))
     | Inl u \<Rightarrow> (\<forall>ep \<in> set eps. isCooling r now (routeKeyOf a m ep)) \<and> ue_RetryAfter u = foldl shorter 0 (map (waitOf r' a m now) ordered)"
proof -
  let ?r1 = "pruneExpiredLocked up now r" let ?pk = "(trim_space a, normalizeEndpointRoutePart m)"
  define start where "start =
     (case gm_get (er_preferences ?r1) ?pk of
        Some p \<Rightarrow>
          if (normalizeEndpointRoutePart preferred = '''' \<or> normalizeEndpointRoutePart preferred = ''auto'') \<and> now < ap_expiresAt p
          then (moveEndpointFirst eps (ap_endpoint p), ?r1\<lparr>er_preferences := gm_put ?pk (p\<lparr>ap_lastAccess := now\<rparr>) (er_preferences ?r1)\<rparr>)
          else (eps, ?r1)
      | None \<Rightarrow> (eps, ?r1))"
  obtain ordered r2 where s: "start = (ordered, r2)" by (cases start)
  have o: "mset ordered = mset eps" and c2: "routeCooldowns r2 = routeCooldowns ?r1"
    using s by (auto simp: start_def split: option.splits if_splits)
  obtain av co ra r3 where f: "foldl (sortEndpoint a m now) ([], [], 0, r2) ordered = (av, co, ra, r3)" by (metis prod_cases4)
  note spec = sortEndpoints_spec [OF f]
  have c3: "routeCooldowns r3 = routeCooldowns ?r1" using spec c2 by simp
  then have w: "waitOf r2 a m now = waitOf r3 a m now" by (intro waitOf_cong) (simp only: c2 c3)
  have cool: "isCooling r3 t k = isCooling r t k" if "now \<le> t" for t k
    using cooldowns_prune [OF assms(4) that, of up k] c3 by (simp add: isCooling_cooldowns)
  have cool2: "isCooling r2 now k = isCooling r now k" for k using cool [of now k] c2 c3 by (simp add: isCooling_cooldowns)
  have "(res, r') = (if av \<noteq> [] then (Inr av, r3) else if allow \<and> co \<noteq> [] then (Inr co, r3)
          else (Inl ((upstreamError UpstreamErrorRateLimit ''account endpoints''
              (''all endpoints are cooling for account model '' @ normalizeEndpointRoutePart m) False True)\<lparr>ue_RetryAfter := ra\<rparr>), r3))"
    using res assms(1,2,3) f s by (simp add: availableEndpointsWithOptions_def Let_def flip: start_def)
  moreover have "av = filter (\<lambda>ep. \<not> isCooling r now (routeKeyOf a m ep)) ordered" "co = filter (\<lambda>ep. isCooling r now (routeKeyOf a m ep)) ordered"
    "ra = foldl shorter 0 (map (waitOf r3 a m now) co)"
    using spec cool2 w by simp_all
  moreover have "set ordered = set eps" using o by (metis set_mset_mset)
  ultimately show ?thesis using that [OF o] cool
    by (cases res) (auto simp: filter_empty_conv filter_id_conv split: if_splits)
qed

lemma waiting_positive: "isCooling r now (routeKeyOf a m ep) \<Longrightarrow> 0 < waitOf r a m now ep"
  by (auto simp: isCooling_cooldowns waitOf_def intro: time_sub_pos split: option.splits)

lemma wait_over:
  assumes "isCooling r now (routeKeyOf a m ep)" "\<forall>(k, s) \<in> set (er_routes r). rs_cooldownUntil s < now + 2 ^ 63" "now + waitOf r a m now ep \<le> later"
  shows "\<not> isCooling r later (routeKeyOf a m ep)"
proof -
  obtain s where s: "gm_get (er_routes r) (routeKeyOf a m ep) = Some s" "now < rs_cooldownUntil s"
    using assms(1) by (auto simp: isCooling_cooldowns routeCooldowns_def split: option.splits)
  then have "rs_cooldownUntil s < now + 2 ^ 63" using assms(2) by (auto dest: map_of_SomeD)
  with s have "waitOf r a m now ep = rs_cooldownUntil s - now" by (simp add: waitOf_def routeCooldowns_def time_sub_def)
  with s assms(3) show ?thesis by (simp add: isCooling_cooldowns routeCooldowns_def)
qed

text \<open>A refusal announces the wait for one of the endpoints, all of which are cooling.\<close>

lemma refusal_wait:
  assumes a: "trim_space a \<noteq> ''''" "trim_space m \<noteq> ''''" "eps \<noteq> []" and wf: "gm_wf (er_routes r)"
    and res: "availableEndpoints up a m preferred eps now r = (Inl u, r')"
  shows "0 < ue_RetryAfter u \<and> (\<forall>ep \<in> set eps. isCooling r now (routeKeyOf a m ep)) \<and> gm_wf (er_routes r') \<and>
    (\<exists>ep \<in> set eps. isCooling r' now (routeKeyOf a m ep) \<and> ue_RetryAfter u = waitOf r' a m now ep)"
proof -
  have wf': "gm_wf (er_routes r')" using forgets_available [of r up a m preferred eps False now] res wf by (simp add: availableEndpoints_def forgets_def)
  obtain ordered where o: "mset ordered = mset eps" "\<forall>t k. now \<le> t \<longrightarrow> isCooling r' t k = isCooling r t k"
    and c: "(\<forall>ep \<in> set eps. isCooling r now (routeKeyOf a m ep)) \<and> ue_RetryAfter u = foldl shorter 0 (map (waitOf r' a m now) ordered)"
    by (rule available_cases [OF a wf res [unfolded availableEndpoints_def]]) (rule that, assumption, assumption, simp only: sum.case, blast)
  have same: "set ordered = set eps" using o(1) by (metis set_mset_mset)
  have cool: "isCooling r' now (routeKeyOf a m ep)" if "ep \<in> set ordered" for ep using o(2) [rule_format, OF order_refl] c same that by simp
  then have pos: "\<forall>w \<in> set (map (waitOf r' a m now) ordered). 0 < w" using waiting_positive by auto
  have "ordered \<noteq> []" using a(3) same by auto
  with shortest [OF pos, of 0] c have "0 < ue_RetryAfter u" "ue_RetryAfter u \<in> waitOf r' a m now ` set ordered" by auto
  then show ?thesis using cool same c wf' by auto
qed

text \<open>Once that wait is over, at least one of the endpoints is offered.\<close>

lemma refusal_ends:
  assumes a: "trim_space a \<noteq> ''''" "trim_space m \<noteq> ''''" "eps \<noteq> []" and wf: "gm_wf (er_routes r)"
    and res: "availableEndpoints up a m preferred eps now r = (Inl u, r')"
    and near: "\<forall>(k, s) \<in> set (er_routes r'). rs_cooldownUntil s < now + 2 ^ 63"
    and later: "now + ue_RetryAfter u \<le> later"
  shows "\<exists>xs. xs \<noteq> [] \<and> fst (availableEndpoints up' a m preferred' eps later r') = Inr xs"
proof -
  have wf': "gm_wf (er_routes r')" using refusal_wait [OF a wf res] by simp
  obtain ep where ep: "ep \<in> set eps" "isCooling r' now (routeKeyOf a m ep)" "ue_RetryAfter u = waitOf r' a m now ep"
    using refusal_wait [OF a wf res] by blast
  have free: "\<not> isCooling r' later (routeKeyOf a m ep)" using wait_over [OF ep(2) near] later ep(3) by simp
  obtain res2 r2 where res2: "availableEndpointsWithOptions up' a m preferred' eps False later r' = (res2, r2)" by (metis prod.collapse)
  have "\<exists>xs. res2 = Inr xs \<and> xs \<noteq> []"
  proof (rule available_cases [OF a wf' res2])
    fix ordered2
    assume "case res2 of
       Inr xs \<Rightarrow> xs = filter (\<lambda>ep. \<not> isCooling r' later (routeKeyOf a m ep)) ordered2 \<and> xs \<noteq> [] \<or>
         False \<and> xs = ordered2 \<and> (\<forall>ep \<in> set eps. isCooling r' later (routeKeyOf a m ep))
     | Inl u \<Rightarrow> (\<forall>ep \<in> set eps. isCooling r' later (routeKeyOf a m ep)) \<and> ue_RetryAfter u = foldl shorter 0 (map (waitOf r2 a m later) ordered2)"
    then show ?thesis using free ep(1) by (cases res2) auto
  qed
  with res2 show ?thesis by (auto simp: availableEndpoints_def)
qed

section \<open>Through the file\<close>

text \<open>What a route and a preference are after a save and a load: whole seconds of the cooldown, whole milliseconds of its length.\<close>

definition inSeconds :: "gotime \<Rightarrow> gotime" where
  "inSeconds t = time_unix (unix_of t)"

definition restoredRoute :: "gotime \<Rightarrow> accountEndpointRouteState \<Rightarrow> accountEndpointRouteState" where
  "restoredRoute now s =
     \<lparr>rs_endpoint = trim_space (rs_endpoint s), rs_failureKind = trim_space (rs_failureKind s), rs_consecutiveFailures = rs_consecutiveFailures s,
      rs_cooldownUntil = inSeconds (rs_cooldownUntil s), rs_lastCooldown = quot (rs_lastCooldown s) millisecond * millisecond, rs_lastError = '''',
      rs_lastFailureAt = inSeconds (rs_lastFailureAt s), rs_lastAccess = now\<rparr>"

definition restoredPreference :: "gotime \<Rightarrow> accountEndpointPreference \<Rightarrow> accountEndpointPreference" where
  "restoredPreference now p =
     \<lparr>ap_endpoint = ap_endpoint p, ap_expiresAt = inSeconds (ap_expiresAt p), ap_persistedExpiresAt = inSeconds (ap_expiresAt p), ap_lastAccess = now\<rparr>"

lemma inSeconds_le: "inSeconds t \<le> t"
  using pos_mod_sign [of second t] mult_div_mod_eq [of second t] by (simp add: inSeconds_def time_unix_def unix_of_def second_def mult.commute)

lemma okKey_parts:
  "okKey (a, m, e) \<Longrightarrow> trim_space a = a \<and> a \<noteq> '''' \<and> normalizeEndpointRoutePart m = m \<and> normalizeEndpointRoutePart e = e \<and> trim_space m \<noteq> '''' \<and> trim_space e \<noteq> ''''"
  using normalize_empty [of m] normalize_empty [of e] by (simp add: okKey_def del: normalize_empty)

lemma loadRoute_persisted:
  assumes "okKey k"
  shows "loadRoute now m (persistedRoute (k, s)) = (if now < inSeconds (rs_cooldownUntil s) then gm_put k (restoredRoute now s) m else m)"
proof -
  obtain a n e where k: "k = (a, n, e)" by (cases k)
  note parts = okKey_parts [OF assms [unfolded k]]
  show ?thesis using parts by (simp add: k loadRoute_def persistedRoute_def restoredRoute_def inSeconds_def Let_def)
qed

lemma loadPreference_persisted:
  assumes "okKey (a, n, ap_endpoint p)"
  shows "loadPreference now m (persistedPreference ((a, n), p)) =
     (if now < inSeconds (ap_expiresAt p) then gm_put (a, n) (restoredPreference now p) m else m)"
  using okKey_parts [OF assms] by (simp add: loadPreference_def persistedPreference_def restoredPreference_def inSeconds_def Let_def)

text \<open>A loop that puts some of the entries of a map into another.\<close>

lemma foldl_put_get:
  assumes "\<And>m e. e \<in> set es \<Longrightarrow> step m (code e) = (if P (snd e) then gm_put (fst e) (g (snd e)) m else m)" "gm_wf es"
  shows "gm_get (foldl step m (map code es)) k =
     (case gm_get es k of Some v \<Rightarrow> if P v then Some (g v) else gm_get m k | None \<Rightarrow> gm_get m k)"
  using assms
proof (induction es arbitrary: m)
  case (Cons e es)
  obtain k1 v1 where e: "e = (k1, v1)" by (cases e)
  from Cons.prems(2) have none: "gm_get es k1 = None" by (simp add: e map_of_eq_None_iff)
  have "gm_get (foldl step m1 (map code es)) k = (case gm_get es k of Some v \<Rightarrow> if P v then Some (g v) else gm_get m1 k | None \<Rightarrow> gm_get m1 k)" for m1
    by (rule Cons.IH) (use Cons.prems in auto)
  then show ?case using Cons.prems(1) [of e m] none by (auto simp: e gm_get_put split: option.splits)
qed simp

text \<open>Sorting what is written amounts to another order of the entries.\<close>

lemma insert_stable_map: "insert_stable lt (f x) (map f xs) = map f (insert_stable (\<lambda>x y. lt (f x) (f y)) x xs)"
  by (induction xs) auto

lemma sort_stable_map: "sort_stable lt (map f xs) = map f (sort_stable (\<lambda>x y. lt (f x) (f y)) xs)"
  unfolding sort_stable_def by (induction xs) (auto simp: insert_stable_map)

lemma foldl_put_length: "(\<And>m x. length (step m x) \<le> Suc (length m)) \<Longrightarrow> length (foldl step m xs) \<le> length m + length xs"
proof (induction xs arbitrary: m)
  case (Cons x xs)
  from Cons.IH [OF Cons.prems, of "step m x"] Cons.prems [of m x] show ?case by simp
qed simp

lemma load_lengths: "length (foldl (loadRoute now) [] xs) \<le> length xs" "length (foldl (loadPreference now) [] ys) \<le> length ys"
  using foldl_put_length [of "loadRoute now" "[]" xs] foldl_put_length [of "loadPreference now" "[]" ys]
  by (simp_all add: loadRoute_def loadPreference_def Let_def length_gm_put_le)

text \<open>The entries that are written, in the order of the file.\<close>

definition writtenRoutes :: "UpstreamProtectionConfig \<Rightarrow> gotime \<Rightarrow> accountEndpointRouteRegistry \<Rightarrow> (routeKey, accountEndpointRouteState) gomap" where
  "writtenRoutes up now r = sort_stable (\<lambda>x y. routeBefore (persistedRoute x) (persistedRoute y))
     (filter (\<lambda>(_, s). now < rs_cooldownUntil s) (er_routes (pruneExpiredLocked up now r)))"

definition writtenPreferences :: "UpstreamProtectionConfig \<Rightarrow> gotime \<Rightarrow> accountEndpointRouteRegistry \<Rightarrow> (preferenceKey, accountEndpointPreference) gomap" where
  "writtenPreferences up now r = sort_stable (\<lambda>x y. preferenceBefore (persistedPreference x) (persistedPreference y))
     (filter (\<lambda>(_, p). now < ap_expiresAt p) (er_preferences (pruneExpiredLocked up now r)))"

lemma savedState_written:
  "ps_Routes (savedState up now r) = map persistedRoute (writtenRoutes up now r)"
  "ps_Preferences (savedState up now r) = map persistedPreference (writtenPreferences up now r)"
  by (simp_all add: savedState_def Let_def sort_stable_map writtenRoutes_def writtenPreferences_def)

lemma written_mset:
  "mset (writtenRoutes up now r) = mset (filter (\<lambda>(_, s). now < rs_cooldownUntil s) (er_routes r))"
  "mset (writtenPreferences up now r) = mset (filter (\<lambda>(_, p). now < ap_expiresAt p) (er_preferences r))"
proof -
  have "filter (\<lambda>(_, s). now < rs_cooldownUntil s) (er_routes (pruneExpiredLocked up now r)) = filter (\<lambda>(_, s). now < rs_cooldownUntil s) (er_routes r)"
    by (auto simp: pruneExpiredLocked_def intro!: filter_cong)
  then show "mset (writtenRoutes up now r) = mset (filter (\<lambda>(_, s). now < rs_cooldownUntil s) (er_routes r))"
    by (simp only: writtenRoutes_def mset_sort_stable)
  have "filter (\<lambda>(_, p). now < ap_expiresAt p) (er_preferences (pruneExpiredLocked up now r)) = filter (\<lambda>(_, p). now < ap_expiresAt p) (er_preferences r)"
    by (auto simp: pruneExpiredLocked_def intro!: filter_cong)
  then show "mset (writtenPreferences up now r) = mset (filter (\<lambda>(_, p). now < ap_expiresAt p) (er_preferences r))"
    by (simp only: writtenPreferences_def mset_sort_stable)
qed

lemma permuted_wf: "mset es = mset fs \<Longrightarrow> gm_wf fs \<Longrightarrow> gm_wf es"
  by (metis mset_eq_imp_distinct_iff mset_map)

text \<open>What a load finds in the file of a save, when the limit leaves room for all of it.\<close>

lemma restored_maps:
  assumes ok: "routesOK r" and time: "now \<le> later"
  shows "gm_get (foldl (loadRoute later) [] (ps_Routes (savedState up now r))) k = (case gm_get (er_routes r) k of
      None \<Rightarrow> None | Some s \<Rightarrow> if later < inSeconds (rs_cooldownUntil s) then Some (restoredRoute later s) else None)"
    "gm_get (foldl (loadPreference later) [] (ps_Preferences (savedState up now r))) pk = (case gm_get (er_preferences r) pk of
      None \<Rightarrow> None | Some p \<Rightarrow> if later < inSeconds (ap_expiresAt p) then Some (restoredPreference later p) else None)"
proof -
  have wf: "gm_wf (er_routes r)" "gm_wf (er_preferences r)" using ok by (auto simp: routesOK_def)
  have keys: "\<And>e. e \<in> set (er_routes r) \<Longrightarrow> okKey (fst e)" "\<And>e. e \<in> set (er_preferences r) \<Longrightarrow> okKey (fst (fst e), snd (fst e), ap_endpoint (snd e))"
    using ok affinities_mem [of _ _ _ r] by (auto simp: routesOK_def routeKeys_def)
  have sub: "set (writtenRoutes up now r) \<subseteq> set (er_routes r)" "set (writtenPreferences up now r) \<subseteq> set (er_preferences r)"
    using written_mset [of up now r] by (metis filter_is_subset set_mset_mset)+
  have wwf: "gm_wf (writtenRoutes up now r)" "gm_wf (writtenPreferences up now r)"
    by (rule permuted_wf [OF written_mset(1)] permuted_wf [OF written_mset(2)], rule gm_wf_filter, rule wf)+
  have get: "gm_get (writtenRoutes up now r) k = (case gm_get (er_routes r) k of None \<Rightarrow> None | Some s \<Rightarrow> if now < rs_cooldownUntil s then Some s else None)"
    "gm_get (writtenPreferences up now r) pk = (case gm_get (er_preferences r) pk of None \<Rightarrow> None | Some p \<Rightarrow> if now < ap_expiresAt p then Some p else None)"
    using permuted_get [OF written_mset(1) gm_wf_filter [OF wf(1)], of up now k] permuted_get [OF written_mset(2) gm_wf_filter [OF wf(2)], of up now pk]
    by (simp_all add: gm_get_filter wf split: option.split)
  have step: "loadRoute later m (persistedRoute e) = (if later < inSeconds (rs_cooldownUntil (snd e)) then gm_put (fst e) (restoredRoute later (snd e)) m else m)"
    if "e \<in> set (writtenRoutes up now r)" for m e
    using loadRoute_persisted [OF keys(1) [OF subsetD [OF sub(1) that]], of later m "snd e"] by simp
  have pstep: "loadPreference later m (persistedPreference e) = (if later < inSeconds (ap_expiresAt (snd e)) then gm_put (fst e) (restoredPreference later (snd e)) m else m)"
    if "e \<in> set (writtenPreferences up now r)" for m e
    using loadPreference_persisted [OF keys(2) [OF subsetD [OF sub(2) that]], of later m] by simp
  have late: "later < inSeconds t \<Longrightarrow> now < t" for t using inSeconds_le [of t] time by simp
  show "gm_get (foldl (loadRoute later) [] (ps_Routes (savedState up now r))) k = (case gm_get (er_routes r) k of
      None \<Rightarrow> None | Some s \<Rightarrow> if later < inSeconds (rs_cooldownUntil s) then Some (restoredRoute later s) else None)"
    using foldl_put_get [where code = persistedRoute and step = "loadRoute later" and P = "\<lambda>s. later < inSeconds (rs_cooldownUntil s)" and g = "restoredRoute later", OF step wwf(1), of "[]" k] late by (simp add: savedState_written get split: option.splits)
  show "gm_get (foldl (loadPreference later) [] (ps_Preferences (savedState up now r))) pk = (case gm_get (er_preferences r) pk of
      None \<Rightarrow> None | Some p \<Rightarrow> if later < inSeconds (ap_expiresAt p) then Some (restoredPreference later p) else None)"
    using foldl_put_get [where code = persistedPreference and step = "loadPreference later" and P = "\<lambda>p. later < inSeconds (ap_expiresAt p)" and g = "restoredPreference later", OF pstep wwf(2), of "[]" pk] late by (simp add: savedState_written get split: option.splits)
qed

lemma restart_registry:
  assumes path: "trim_space path \<noteq> ''''" and room: "withinLimit (entryLimit up') r"
    and load: "loadRoutes up' path (RouteFile (savedState up now r)) later r0 = (res, r')"
  shows "er_routes r' = foldl (loadRoute later) [] (ps_Routes (savedState up now r))"
    "er_preferences r' = foldl (loadPreference later) [] (ps_Preferences (savedState up now r))"
proof -
  have "length (ps_Routes (savedState up now r)) \<le> length (er_routes r)" "length (ps_Preferences (savedState up now r)) \<le> length (er_preferences r)"
    using mset_eq_length [OF written_mset(1), of up now r] mset_eq_length [OF written_mset(2), of up now r] by (simp_all add: savedState_written)
  with room load_lengths(1) [of later "ps_Routes (savedState up now r)"] load_lengths(2) [of later "ps_Preferences (savedState up now r)"]
  have "int (length (foldl (loadRoute later) [] (ps_Routes (savedState up now r)))) \<le> entryLimit up'"
    "int (length (foldl (loadPreference later) [] (ps_Preferences (savedState up now r)))) \<le> entryLimit up'"
    by (simp_all add: withinLimit_def)
  moreover have "ps_Version (savedState up now r) = accountEndpointRouteStateVersion" by (simp add: savedState_def Let_def)
  ultimately show "er_routes r' = foldl (loadRoute later) [] (ps_Routes (savedState up now r))"
    "er_preferences r' = foldl (loadPreference later) [] (ps_Preferences (savedState up now r))"
    using load path by (auto simp: loadRoutes_def Let_def replaceRoutes_def enforceLimitsLocked_def limitEntries_small)
qed

section \<open>Properties\<close>

text \<open>
  C11. Whatever failures, successes, saves, restarts and evictions happen in whatever order, the endpoint an account is remembered to prefer
  for a model has no failure recorded against it, and neither table is larger than the largest limit configured.
\<close>

theorem preferred_endpoint_never_failing:
  assumes "reachableRoutes C (r, f, now)" "\<And>up. C up \<Longrightarrow> entryLimit up \<le> n" "0 \<le> n"
  shows "(\<forall>a m p. gm_get (er_preferences r) (a, m) = Some p \<longrightarrow> gm_get (er_routes r) (a, m, ap_endpoint p) = None) \<and>
    int (length (er_routes r)) \<le> n \<and> int (length (er_preferences r)) \<le> n"
proof -
  have inv: "routesOK r" "withinLimit n r" using reachable_invariant [OF assms(1), of n] assms(2,3) by simp_all
  have "gm_get (er_routes r) (a, m, ap_endpoint p) = None" if "gm_get (er_preferences r) (a, m) = Some p" for a m p
  proof -
    have "(a, m, ap_endpoint p) \<in> affinities r" using that by (blast dest: map_of_SomeD intro: affinities_mem)
    then have "(a, m, ap_endpoint p) \<notin> routeKeys r" using inv(1) by (auto simp: routesOK_def)
    then show ?thesis by (simp add: route_iff)
  qed
  with inv(2) show ?thesis by (simp add: withinLimit_def)
qed

text \<open>
  C10. The endpoints offered to a request are those of the account and model that are not cooling down, each as often as it was given. When
  all are cooling the answer names a positive wait, and once it is over the same request is offered an endpoint.
\<close>

theorem endpoint_offer_exact:
  assumes "reachableRoutes C (r, f, now)" "trim_space a \<noteq> ''''" "trim_space m \<noteq> ''''" "eps \<noteq> []"
    and res: "availableEndpoints up a m preferred eps now r = (res, r')"
  shows "case res of
      Inr xs \<Rightarrow> xs \<noteq> [] \<and> mset xs = filter_mset (\<lambda>ep. \<not> isCooling r now (routeKeyOf a m ep)) (mset eps)
    | Inl u \<Rightarrow> (\<forall>ep \<in> set eps. isCooling r now (routeKeyOf a m ep)) \<and> 0 < ue_RetryAfter u \<and>
        ((\<forall>(k, s) \<in> set (er_routes r'). rs_cooldownUntil s < now + 2 ^ 63) \<longrightarrow>
          (\<forall>later \<ge> now + ue_RetryAfter u. \<exists>xs. xs \<noteq> [] \<and> fst (availableEndpoints up' a m preferred' eps later r') = Inr xs))"
proof -
  have "routesOK r" using reachable_invariant [OF assms(1)] by simp
  then have wf: "gm_wf (er_routes r)" by (simp add: routesOK_def)
  note cases = available_cases [OF assms(2,3,4) wf res [unfolded availableEndpoints_def]]
  show ?thesis
  proof (cases res)
    case (Inl u)
    show ?thesis using refusal_wait [OF assms(2,3,4) wf res [unfolded Inl]] refusal_ends [OF assms(2,3,4) wf res [unfolded Inl]] Inl by auto
  next
    case (Inr xs)
    show ?thesis by (rule cases) (auto simp: Inr mset_filter)
  qed
qed


section \<open>Witnesses\<close>

text \<open>A rate limit at one endpoint, a success at another, of an account of the default settings.\<close>

definition exampleRegistry :: accountEndpointRouteRegistry where
  "exampleRegistry = recordEndpointSuccess defaultUpstreamProtectionConfig ''a'' ''m'' (kiroEndpoints ! 1) (5 * second)
     (snd (recordEndpointFailure defaultUpstreamProtectionConfig ''a'' ''m'' (kiroEndpoints ! 2)
       (UpstreamErr (upstreamError UpstreamErrorRateLimit '''' '''' False True) None) (5 * second) newAccountEndpointRouteRegistry))"

lemma exampleRegistry_value:
  "exampleRegistry =
     \<lparr>er_routes = [((''a'', ''m'', ''codewhisperer''),
        \<lparr>rs_endpoint = ''CodeWhisperer'', rs_failureKind = ''rate_limit'', rs_consecutiveFailures = 1, rs_cooldownUntil = 7 * second, rs_lastCooldown = 2 * second,
         rs_lastError = errorText (UpstreamErr (upstreamError UpstreamErrorRateLimit '''' '''' False True) None), rs_lastFailureAt = 5 * second, rs_lastAccess = 5 * second\<rparr>)],
      er_preferences = [((''a'', ''m''), \<lparr>ap_endpoint = ''kiro'', ap_expiresAt = 3605 * second, ap_persistedExpiresAt = 0, ap_lastAccess = 5 * second\<rparr>)],
      er_persistPath = '''', er_persistTimer = None, er_persistEpoch = 0\<rparr>"
  by code_simp

lemma exampleRegistry_reachable: "reachableRoutes (\<lambda>up. up = defaultUpstreamProtectionConfig) (exampleRegistry, NoRouteFile, 5 * second)"
  unfolding exampleRegistry_def
  by (rule reachableRoutes.Success [OF reachableRoutes.Failure [OF reachableRoutes.Start]]) (rule refl, code_simp, rule refl, code_simp)

lemma preferred_endpoint_never_failing_witness:
  "gm_get (er_preferences exampleRegistry) (''a'', ''m'') \<noteq> None \<and> gm_get (er_routes exampleRegistry) (''a'', ''m'', ''kiro'') = None \<and>
   length (er_routes exampleRegistry) = 1 \<and> int (length (er_routes exampleRegistry)) \<le> 20000"
proof -
  have l: "up = defaultUpstreamProtectionConfig \<Longrightarrow> entryLimit up \<le> 20000" for up by (simp add: entryLimit_def defaultUpstreamProtectionConfig_def)
  show ?thesis using preferred_endpoint_never_failing [OF exampleRegistry_reachable l] by (simp add: exampleRegistry_value)
qed

lemma endpoint_offer_exact_witness:
  "\<exists>u xs. fst (availableEndpoints defaultUpstreamProtectionConfig ''a'' ''m'' '''' [kiroEndpoints ! 2] (5 * second) exampleRegistry) = Inl u \<and>
     ue_RetryAfter u = 2 * second \<and> xs \<noteq> [] \<and>
     fst (availableEndpoints defaultUpstreamProtectionConfig ''a'' ''m'' '''' [kiroEndpoints ! 2] (7 * second)
       (snd (availableEndpoints defaultUpstreamProtectionConfig ''a'' ''m'' '''' [kiroEndpoints ! 2] (5 * second) exampleRegistry))) = Inr xs"
proof -
  let ?o = "availableEndpoints defaultUpstreamProtectionConfig ''a'' ''m'' '''' [kiroEndpoints ! 2] (5 * second) exampleRegistry"
  have s: "trim_space ''a'' \<noteq> ''''" "trim_space ''m'' \<noteq> ''''" "[kiroEndpoints ! 2] \<noteq> []" by code_simp+
  have v: "(case fst ?o of Inl u \<Rightarrow> ue_RetryAfter u = 2 * second | Inr xs \<Rightarrow> False)" by code_simp
  have n: "list_all (\<lambda>(k, s). rs_cooldownUntil s < 5 * second + 2 ^ 63) (er_routes (snd ?o))" by code_simp
  obtain u where u: "fst ?o = Inl u" "ue_RetryAfter u = 2 * second" using v by (cases "fst ?o") auto
  have "\<exists>xs. xs \<noteq> [] \<and> fst (availableEndpoints defaultUpstreamProtectionConfig ''a'' ''m'' '''' [kiroEndpoints ! 2] (7 * second) (snd ?o)) = Inr xs"
    using endpoint_offer_exact [OF exampleRegistry_reachable s prod.collapse [symmetric], of defaultUpstreamProtectionConfig "''''" defaultUpstreamProtectionConfig "''''"]
      u n by (simp add: list_all_iff second_def)
  with u show ?thesis by blast
qed


end
