(* ===== verification/Spec2Isabelle.thy ===== *)
theory Spec2Isabelle
  imports Cooldowns Rate_Limits Routing Event_Stream_Props Thinking_Tags_Props Admission_Props
    Upstream_Health_Props Upstream_Error_Props Failover_Props Tool_Schema_Props Payload_Limit_Props Responses_Store_Props Model_Fallback_Props Refresh_Coordinator_Props Translate_Props
    Tool_Choice_Props Tool_Stream_Props Stream_Parse_Props Prompt_Cache_Usage_Props Prompt_Cache_Profile_Props Endpoint_Routes_Props
begin

text \<open>
  \<^bold>\<open>Kiro-Go Plus\<close> is a gateway: clients speak the Anthropic, OpenAI chat or OpenAI responses protocol to it,
  and it answers with the help of many accounts of one upstream provider. A request is authenticated and
  admitted per API key, its model name is resolved, an account is acquired from a pool under concurrency limits
  and circuit breakers, the request is translated to the provider's format, repaired and cut to size, sent, and
  the framed binary stream that comes back is decoded; failures are classified, charged to account, endpoint and
  proxy, and retried on another account or model while the attempt budget lasts. Access tokens are refreshed in
  the background, and the answers of the responses protocol are kept in an encrypted store.

  \<^bold>\<open>Theories and sources.\<close> A theory \<open>X\<close> holds data and operations, \<open>X_Props\<close> what is proved of them.

  \<^item> \<open>Go_Prelude\<close>: byte strings, maps as association lists (\<open>gomap\<close>), time in nanoseconds, stable sorting by a
    strict weak order (a locale), and the lemmas on them. \<open>Json\<close>, \<open>Json_Encode\<close>: JSON values and the encoder.
  \<^item> \<open>Accounts\<close>, \<open>Pool\<close>, \<open>Protection\<close>, \<open>Protection_Config\<close>: \<open>config/config.go\<close> (accounts and protection settings),
    \<open>pool/account.go\<close>, \<open>pool/protection.go\<close>. The record \<open>AccountPool\<close> has the fields of the struct; a mutex-protected
    method is one state transformer. \<open>Selection\<close>, \<open>Weighted\<close>: the three routing modes. \<open>Ledger\<close>, \<open>Slots\<close>,
    \<open>Pool_Safety\<close>, \<open>Rate_Limits\<close>, \<open>Cooldowns\<close>, \<open>Routing\<close>, \<open>Pool_Properties\<close>: the counters of in-flight requests, limits,
    circuits, cooldowns, route affinity.
  \<^item> \<open>Api_Keys\<close>, \<open>Admission\<close>: \<open>config/apikeys.go\<close>, \<open>proxy/auth.go\<close>, \<open>proxy/api_admission.go\<close>.
  \<^item> \<open>Retry_Config\<close>, \<open>Upstream_Error\<close>, \<open>Upstream_Health\<close>, \<open>Failover\<close>: \<open>config/config.go\<close> (retries),
    \<open>proxy/upstream_error.go\<close>, \<open>proxy/upstream_health.go\<close>, \<open>proxy/account_failover.go\<close>.
  \<^item> \<open>Model_Fallback\<close>: \<open>proxy/model_fallback.go\<close> and the model names of \<open>proxy/translator.go\<close>.
  \<^item> \<open>Endpoint_Routes\<close>: \<open>proxy/account_endpoint_routes.go\<close> and the endpoints of a request in \<open>proxy/kiro.go\<close>. The
    registry is a record with its two maps, its file a value, every operation a function of the clock.
  \<^item> \<open>Refresh_Coordinator\<close>: \<open>proxy/refresh_coordinator.go\<close> as a step relation over goroutines.
  \<^item> \<open>Responses_Store\<close>: \<open>proxy/responses_store.go\<close>, \<open>proxy/responses_history.go\<close>.
  \<^item> \<open>Event_Stream\<close>, \<open>Thinking_Tags\<close>: \<open>proxy/eventstream.go\<close>, \<open>proxy/thinking_tags.go\<close>.
  \<^item> \<open>Stream_Fields\<close>, \<open>Tool_Stream\<close>, \<open>Stream_Events\<close>, \<open>Stream_Usage\<close>, \<open>Stream_Parse\<close>: the parser of an answer in
    \<open>proxy/kiro.go\<close>: the readings of loosely typed fields, the calls of tools under assembly, the events in their
    shapes, the counters of usage, and the loop over frames with its endings. The callbacks are a list of what
    they were called with.
  \<^item> \<open>Prompt_Cache\<close>, \<open>Prompt_Cache_Usage\<close>, \<open>Prompt_Cache_Profile\<close>: \<open>proxy/cache_tracker.go\<close>: the tracker with its
    shards, use order and limits, the usage derived from a lookup, and the fingerprints of prompts.
    \<open>Prompt_Cache_Tables\<close>, \<open>Prompt_Cache_Hits\<close>: the invariants of the tables and what a stored prompt finds.
  \<^item> \<open>Kiro_Payload\<close>, \<open>Tool_Schema\<close>, \<open>Tool_History\<close>, \<open>Token_Estimate\<close>, \<open>Payload_Limit\<close>, \<open>Prompts\<close>, \<open>Request_Content\<close>,
    \<open>Content_Estimate\<close>, \<open>Translate\<close>, \<open>Tool_Choice\<close>: the request types of \<open>proxy/kiro.go\<close> and the translation of requests and answers in
    \<open>proxy/translator.go\<close>, with \<open>proxy/token_estimator.go\<close>, \<open>proxy/long_tool.go\<close> and the tool policies.

  \<^bold>\<open>What is shown.\<close>

  \<^item> Pool: in every reachable state the counters of requests in flight are exactly the guards handed out and never
    exceed the limits; an acquisition returns only selectable accounts and finds one whenever there is one; a
    half-open circuit admits one probe; the weighted mode serves each account exactly by its weight over a period.
    The locale \<open>slot_ledger\<close> states once what a counter of holders owes; it is interpreted for the three pool
    counters, for leases and queue entries of the admission, and for the circuits of \<open>Upstream_Health\<close>.
  \<^item> Keys and admission: authentication accepts exactly the enabled keys and their limits; concurrency, queue and rate
    windows hold in every reachable state; reservations are reconciled.
  \<^item> Failures: classification, retry policy and the answer to the client; no upstream text reaches the client; the
    attempt budget bounds dispatches; selection and model fallback terminate and never switch after output began.
  \<^item> Translation: the repaired request passes the validation that precedes sending, and so does the request after
    truncation, whose size is within the limit or whose error says so; tool names have an inverse; schemas reach a
    normal form; the translation of a client request yields a request in that form.
  \<^item> Streams: a frame is decoded to what was encoded, corruption is detected, lengths are bounded, and the splitter of
    thinking tags gives the same result however the text is cut into pieces. The calls of tools reach the client in
    protocol order, every answer ends with a completion or a reported failure, and the counters of usage never fall
    and do not depend on the order of the members of an event.
  \<^item> Endpoints: exactly the endpoints that do not cool down are offered, a refusal names a wait after which one is
    offered, an endpoint preferred has no failure recorded in any reachable state, and what was learned survives
    a restart.
  \<^item> Prompt cache: the tables stay within their limits in every reachable state, the least recently used entry is
    evicted first, a stored prompt is found again by its own profile, equal fingerprints mean equal prefixes under
    an injective digest, and the parts of a reported usage add up to the whole.
  \<^item> Store and refresh: a caller reads only its own responses, what is stored is read back, the quota holds; at most the
    configured number of refreshes run, one per account, and every accepted refresh completes.

  \<^bold>\<open>Conventions.\<close> Errors are constructors of datatypes; a Go pointer that may be nil is an option; an unsynchronised
  interleaving is an inductive step relation with its reachable states. Counters that may wrap are words, the other
  integers are \<open>int\<close>: their ranges are far from 64 bits. Floating point is rational with rounding \<open>rnd\<close> as a
  parameter. Code that is not in the repository is a parameter of the definitions that use it, with what is relied on
  as a hypothesis: digests and authenticated encryption, \<open>time.ParseDuration\<close>, the decoders of image sizes, regular
  expressions, Unicode tables, \<open>%q\<close> quoting, UUIDs and random numbers, the decoding of JSON text, and the network call itself.

  \<^bold>\<open>Fuel.\<close> Loops are structural or have a measure, except four. The account selection of \<open>Failover\<close> takes fuel, and 513
  rounds are shown to be enough: every round that does not answer excludes an account or ends, and the budget allows
  at most 512 attempts. The wait for a slot ends by its deadline. The fallback over models is bounded by its
  configured number of hops, at most 5. The eviction over all shards of the prompt cache runs for as many rounds as there
  are entries, which \<open>enforceGlobalLimit_returns\<close> shows to be enough.

  \<^bold>\<open>Not modelled.\<close> The HTTP handlers, the admin and customer API and the sign-in flows are sequences of calls into
  \<open>net/http\<close> whose decisions are taken in the components above. Logging, archives, metrics and request records are file
  output. The file of the prompt cache, web search, the import watcher and the probing of outbound proxies are side
  services that do not take part in routing or translation. Loading and saving the configuration file, the developer
  tools and the start-up are left out. Within the modelled files the manifest names what is missing.
\<close>

end
